(* ===== verification/YodaPrelude.thy ===== *)
theory YodaPrelude
  imports Main "HOL-Library.Monad_Syntax" "HOL-Library.Word"
begin

text \<open>
  Shared vocabulary of the development.

  Stateful C functions are modelled by explicit state passing in the option
  monad: an operation maps its arguments and the current state to
  \<open>Some (result, state')\<close>, and to \<open>None\<close> when the C code would run into
  undefined behaviour (a NULL dereference, an access outside an array, the use
  of a freed object).  This theory holds the two judgements all component
  proofs are phrased in (\<open>succeeds\<close>: the call does not crash and its outcome
  satisfies a postcondition; \<open>returns\<close>: if it does not crash, its outcome
  satisfies a postcondition), their syntax-directed rules, flag words and a
  few list and option facts.
\<close>

named_theorems wp \<open>syntax-directed rules for \<open>succeeds\<close> and \<open>returns\<close>\<close>
named_theorems flag_simps \<open>tests and updates of single-bit flags in words\<close>

section \<open>Outcomes of fallible operations\<close>

definition succeeds :: "'a option \<Rightarrow> ('a \<Rightarrow> bool) \<Rightarrow> bool" where
  "succeeds r Q \<longleftrightarrow> (case r of None \<Rightarrow> False | Some x \<Rightarrow> Q x)"

definition returns :: "'a option \<Rightarrow> ('a \<Rightarrow> bool) \<Rightarrow> bool" where
  "returns r Q \<longleftrightarrow> (case r of None \<Rightarrow> True | Some x \<Rightarrow> Q x)"

lemma succeeds_iff: "succeeds r Q \<longleftrightarrow> (\<exists>x. r = Some x \<and> Q x)"
  by (cases r) (simp_all add: succeeds_def)

lemma returns_iff: "returns r Q \<longleftrightarrow> (\<forall>x. r = Some x \<longrightarrow> Q x)"
  by (cases r) (simp_all add: returns_def)

lemma succeeds_Some [simp, wp]: "succeeds (Some x) Q = Q x"
  by (simp add: succeeds_def)

lemma succeeds_None [simp, wp]: "\<not> succeeds None Q"
  by (simp add: succeeds_def)

lemma returns_Some [simp, wp]: "returns (Some x) Q = Q x"
  by (simp add: returns_def)

lemma returns_None [simp, wp]: "returns None Q"
  by (simp add: returns_def)

lemma succeeds_bind [wp]:
  "succeeds (Option.bind m f) Q = succeeds m (\<lambda>x. succeeds (f x) Q)"
  by (cases m) simp_all

lemma returns_bind [wp]:
  "returns (Option.bind m f) Q = returns m (\<lambda>x. returns (f x) Q)"
  by (cases m) simp_all

lemma succeeds_if [wp]:
  "succeeds (if b then x else y) Q = ((b \<longrightarrow> succeeds x Q) \<and> (\<not> b \<longrightarrow> succeeds y Q))"
  by simp

lemma returns_if [wp]:
  "returns (if b then x else y) Q = ((b \<longrightarrow> returns x Q) \<and> (\<not> b \<longrightarrow> returns y Q))"
  by simp

lemma succeeds_prod [wp]:
  "succeeds (case p of (a, b) \<Rightarrow> f a b) Q = (\<forall>a b. p = (a, b) \<longrightarrow> succeeds (f a b) Q)"
  by (cases p) simp

lemma returns_prod [wp]:
  "returns (case p of (a, b) \<Rightarrow> f a b) Q = (\<forall>a b. p = (a, b) \<longrightarrow> returns (f a b) Q)"
  by (cases p) simp

lemma succeeds_mono:
  assumes "succeeds r P" and "\<And>x. r = Some x \<Longrightarrow> P x \<Longrightarrow> Q x"
  shows "succeeds r Q"
  using assms by (auto simp: succeeds_iff)

lemma returns_mono:
  assumes "returns r P" and "\<And>x. r = Some x \<Longrightarrow> P x \<Longrightarrow> Q x"
  shows "returns r Q"
  using assms by (auto simp: returns_iff)

lemma succeeds_conj:
  "succeeds r (\<lambda>x. P x \<and> Q x) \<longleftrightarrow> succeeds r P \<and> succeeds r Q"
  by (auto simp: succeeds_iff)

lemma succeeds_returns: "succeeds r P \<Longrightarrow> returns r P"
  by (auto simp: succeeds_iff returns_iff)

lemma succeeds_bindI:
  assumes "succeeds m P" and "\<And>x. m = Some x \<Longrightarrow> P x \<Longrightarrow> succeeds (f x) Q"
  shows "succeeds (Option.bind m f) Q"
  using assms by (auto simp: succeeds_iff)

lemma returns_bindI:
  assumes "returns m P" and "\<And>x. m = Some x \<Longrightarrow> P x \<Longrightarrow> returns (f x) Q"
  shows "returns (Option.bind m f) Q"
  using assms by (auto simp: returns_iff split: Option.bind_split)

section \<open>Flag words\<close>

text \<open>The C test \<open>(m & f) != 0\<close> on a 32-bit mask.\<close>

unbundle bit_operations_syntax

definition has_flag :: "32 word \<Rightarrow> 32 word \<Rightarrow> bool" where
  "has_flag m f \<longleftrightarrow> m AND f \<noteq> 0"

definition set_flag :: "32 word \<Rightarrow> 32 word \<Rightarrow> 32 word" where
  "set_flag m f = m OR f"

definition clear_flag :: "32 word \<Rightarrow> 32 word \<Rightarrow> 32 word" where
  "clear_flag m f = m AND NOT f"

lemma has_flag_0 [simp]: "\<not> has_flag 0 f"
  by (simp add: has_flag_def)

lemma has_flag_set_same [flag_simps]: "f \<noteq> 0 \<Longrightarrow> has_flag (set_flag m f) f"
  by (simp add: has_flag_def set_flag_def)

lemma has_flag_clear_same [flag_simps]: "\<not> has_flag (clear_flag m f) f"
  by (simp add: has_flag_def clear_flag_def and.assoc)

lemma has_flag_set_other [flag_simps]: "f AND g = 0 \<Longrightarrow> has_flag (set_flag m f) g = has_flag m g"
  by (simp add: has_flag_def set_flag_def word_ao_dist)

lemma has_flag_clear_other [flag_simps]:
  "f AND g = 0 \<Longrightarrow> has_flag (clear_flag m f) g = has_flag m g"
proof -
  assume d: "f AND g = 0"
  have "(m AND NOT f) AND g = m AND g"
  proof (rule bit_eqI)
    fix n
    assume n: "possible_bit TYPE(32 word) n"
    from d have "\<not> (bit f n \<and> bit g n)"
      by (metis bit_and_iff bit_0_eq bot_apply bot_bool_def)
    then show "bit ((m AND NOT f) AND g) n = bit (m AND g) n"
      using n by (auto simp: bit_simps)
  qed
  then show ?thesis by (simp add: has_flag_def clear_flag_def)
qed

section \<open>Lists and options\<close>

lemma map_option_Some_iff [simp]: "(map_option f x = Some y) = (\<exists>z. x = Some z \<and> f z = y)"
  by (cases x) auto

lemma takeWhile_id: "(\<And>x. x \<in> set xs \<Longrightarrow> P x) \<Longrightarrow> takeWhile P xs = xs"
  by (induction xs) auto

end
