(* ===== verification/LinkedList.thy ===== *)
theory LinkedList
  imports YodaPrelude
begin

text \<open>
  The intrusive circular lists of libeloop: \<open>list.c\<close>, \<open>list.h\<close> and the ordered
  lists of \<open>olist.c\<close>.  A \<open>struct list_head\<close> lives at an address of an explicit
  heap of \<open>next\<close> and \<open>prev\<close> pointers; an address outside the domain is not
  allocated and using it gives \<open>None\<close>.  \<open>dlist h hd xs\<close> says that the ring headed
  by \<open>hd\<close> contains exactly the elements \<open>xs\<close> in order; the lemmas show that
  \<open>list_add\<close>, \<open>list_del\<close>, \<open>olist_add\<close>, \<open>olist_find\<close> and \<open>olist_del_by_key\<close>
  implement the corresponding operations on \<open>xs\<close>.
\<close>

section \<open>The heap of list heads\<close>

type_synonym addr = nat

record list_heap =
  next_ptr :: "addr \<Rightarrow> addr option"
  prev_ptr :: "addr \<Rightarrow> addr option"

definition allocated :: "list_heap \<Rightarrow> addr \<Rightarrow> bool" where
  "allocated h a \<longleftrightarrow> next_ptr h a \<noteq> None \<and> prev_ptr h a \<noteq> None"

definition set_next :: "addr \<Rightarrow> addr \<Rightarrow> list_heap \<Rightarrow> list_heap option" where
  "set_next a v h = (if allocated h a then Some (h\<lparr>next_ptr := (next_ptr h)(a \<mapsto> v)\<rparr>) else None)"

definition set_prev :: "addr \<Rightarrow> addr \<Rightarrow> list_heap \<Rightarrow> list_heap option" where
  "set_prev a v h = (if allocated h a then Some (h\<lparr>prev_ptr := (prev_ptr h)(a \<mapsto> v)\<rparr>) else None)"

section \<open>Operations of list.c and list.h\<close>

text \<open>\<open>list_init\<close>: the list head is made the empty ring (storage for it is
  provided by the caller).\<close>

definition list_init :: "addr \<Rightarrow> list_heap \<Rightarrow> list_heap" where
  "list_init a h = h\<lparr>next_ptr := (next_ptr h)(a \<mapsto> a), prev_ptr := (prev_ptr h)(a \<mapsto> a)\<rparr>"

definition list_add :: "addr \<Rightarrow> addr \<Rightarrow> list_heap \<Rightarrow> list_heap option" where
  "list_add head item h = do {
     p \<leftarrow> prev_ptr h head;
     n \<leftarrow> next_ptr h p;
     h \<leftarrow> set_next item n h;
     p \<leftarrow> prev_ptr h head;
     h \<leftarrow> set_next p item h;
     p \<leftarrow> prev_ptr h head;
     h \<leftarrow> set_prev item p h;
     set_prev head item h
   }"

definition list_del :: "addr \<Rightarrow> list_heap \<Rightarrow> list_heap option" where
  "list_del item h = do {
     p \<leftarrow> prev_ptr h item;
     n \<leftarrow> next_ptr h item;
     h \<leftarrow> set_next p n h;
     n \<leftarrow> next_ptr h item;
     p \<leftarrow> prev_ptr h item;
     h \<leftarrow> set_prev n p h;
     h \<leftarrow> set_next item item h;
     set_prev item item h
   }"

definition list_is_empty :: "addr \<Rightarrow> list_heap \<Rightarrow> bool option" where
  "list_is_empty head h = do { n \<leftarrow> next_ptr h head; Some (n = head) }"

definition list_add_first :: "addr \<Rightarrow> addr \<Rightarrow> list_heap \<Rightarrow> list_heap option" where
  "list_add_first head item h = do { n \<leftarrow> next_ptr h head; list_add n item h }"

definition list_add_last :: "addr \<Rightarrow> addr \<Rightarrow> list_heap \<Rightarrow> list_heap option" where
  "list_add_last head item h = list_add head item h"

text \<open>\<open>free\<close> of the object that contains the list head at \<open>a\<close>.\<close>

definition release :: "addr \<Rightarrow> list_heap \<Rightarrow> list_heap" where
  "release a h = h\<lparr>next_ptr := (next_ptr h)(a := None), prev_ptr := (prev_ptr h)(a := None)\<rparr>"

section \<open>Rings as lists\<close>

fun seg :: "(addr \<Rightarrow> addr option) \<Rightarrow> addr \<Rightarrow> addr list \<Rightarrow> addr \<Rightarrow> bool" where
  "seg n a [] b \<longleftrightarrow> n a = Some b"
| "seg n a (x # xs) b \<longleftrightarrow> n a = Some x \<and> seg n x xs b"

definition dlist :: "list_heap \<Rightarrow> addr \<Rightarrow> addr list \<Rightarrow> bool" where
  "dlist h head xs \<longleftrightarrow> distinct (head # xs) \<and> seg (next_ptr h) head xs head
     \<and> seg (prev_ptr h) head (rev xs) head"

lemma seg_append: "seg n a (xs @ x # ys) b \<longleftrightarrow> seg n a xs x \<and> seg n x ys b"
  by (induction xs arbitrary: a) auto

lemma seg_upd: "c \<notin> set (a # xs) \<Longrightarrow> seg (n(c := v)) a xs b = seg n a xs b"
  by (induction xs arbitrary: a) auto

lemma seg_defined: "seg n a xs b \<Longrightarrow> x \<in> set (a # xs) \<Longrightarrow> n x \<noteq> None"
  by (induction xs arbitrary: a) auto

lemma seg_unique: "seg n a xs h \<Longrightarrow> seg n a ys h \<Longrightarrow> h \<notin> set xs \<Longrightarrow> h \<notin> set ys \<Longrightarrow> xs = ys"
proof (induction xs arbitrary: a ys)
  case Nil
  then show ?case by (cases ys) auto
next
  case (Cons x xs)
  then show ?case by (cases ys) auto
qed

lemma seg_last_out: "seg n a xs b \<Longrightarrow> n (last (a # xs)) = Some b"
  by (induction xs arbitrary: a) auto

lemma dlist_allocated: "dlist h head xs \<Longrightarrow> x \<in> set (head # xs) \<Longrightarrow> allocated h x"
  using seg_defined[of "next_ptr h" head xs head x] seg_defined[of "prev_ptr h" head "rev xs" head x]
  by (auto simp: dlist_def allocated_def)

lemma dlist_unique: "dlist h head xs \<Longrightarrow> dlist h head ys \<Longrightarrow> xs = ys"
  using seg_unique[of "next_ptr h" head xs head ys] by (auto simp: dlist_def)

lemma dlist_rotate: "dlist h head (xs @ x # ys) \<longleftrightarrow> dlist h x (ys @ head # xs)"
  by (auto simp: dlist_def seg_append)

lemma dlist_init [simp]: "dlist (list_init a h) a []"
  by (simp add: dlist_def list_init_def)

lemma dlist_frame_init: "dlist h head xs \<Longrightarrow> a \<notin> set (head # xs) \<Longrightarrow> dlist (list_init a h) head xs"
  by (auto simp: dlist_def list_init_def seg_upd)

lemma dlist_release: "dlist h head xs \<Longrightarrow> a \<notin> set (head # xs) \<Longrightarrow> dlist (release a h) head xs"
  by (auto simp: dlist_def release_def seg_upd)

lemma dlist_is_empty: "dlist h head xs \<Longrightarrow> list_is_empty head h = Some (xs = [])"
  by (cases xs) (auto simp: dlist_def list_is_empty_def)

lemma dlist_first: "dlist h head (x # xs) \<Longrightarrow> next_ptr h head = Some x"
  by (simp add: dlist_def)

text \<open>Links into and out of the last element of a ring.\<close>

lemma dlist_last: "dlist h head xs \<Longrightarrow>
    prev_ptr h head = Some (last (head # xs)) \<and> next_ptr h (last (head # xs)) = Some head"
  by (cases xs rule: rev_cases) (auto simp: dlist_def seg_append)

section \<open>Insertion and removal\<close>

lemma list_add_last_heap:
  assumes d: "dlist h head xs" and new: "item \<notin> set (head # xs)" and al: "allocated h item"
  shows "succeeds (list_add head item h) (\<lambda>h'. dlist h' head (xs @ [item])
           \<and> next_ptr h' = (next_ptr h)(item \<mapsto> head, last (head # xs) \<mapsto> item)
           \<and> prev_ptr h' = (prev_ptr h)(item \<mapsto> last (head # xs), head \<mapsto> item))"
proof -
  let ?l = "last (head # xs)"
  have l: "prev_ptr h head = Some ?l" "next_ptr h ?l = Some head" using dlist_last[OF d] by auto
  have la: "allocated h ?l" and ha: "allocated h head"
    using dlist_allocated[OF d] by (metis last_in_set list.discI) (simp add: dlist_allocated[OF d])
  have ne: "item \<noteq> ?l" "item \<noteq> head" using new by (metis last_in_set list.discI, simp)
  define h' where "h' = \<lparr>next_ptr = (next_ptr h)(item \<mapsto> head, ?l \<mapsto> item),
    prev_ptr = (prev_ptr h)(item \<mapsto> ?l, head \<mapsto> item)\<rparr>"
  have run: "list_add head item h = Some h'"
    using l la ha al ne by (simp add: list_add_def set_next_def set_prev_def allocated_def h'_def)
  have "dlist h' head (xs @ [item])"
  proof (cases xs rule: rev_cases)
    case Nil
    with ne show ?thesis by (simp add: dlist_def h'_def)
  next
    case (snoc ys y)
    with d new ne show ?thesis by (auto simp: dlist_def h'_def seg_append seg_upd)
  qed
  then show ?thesis by (simp add: run h'_def)
qed

lemma list_add_before_heap:
  assumes d: "dlist h head (xs @ x # ys)" and new: "item \<notin> set (head # xs @ x # ys)"
    and al: "allocated h item"
  shows "succeeds (list_add x item h) (\<lambda>h'. dlist h' head (xs @ item # x # ys))"
proof -
  have r: "dlist h x (ys @ head # xs)" using d by (simp add: dlist_rotate)
  have "item \<notin> set (x # ys @ head # xs)" using new by auto
  from list_add_last_heap[OF r this al]
  have "succeeds (list_add x item h) (\<lambda>h'. dlist h' x (ys @ head # xs @ [item]))"
    by (rule succeeds_mono) simp
  then show ?thesis
    by (rule succeeds_mono) (metis append.assoc append_Cons append_Nil dlist_rotate)
qed

lemma list_del_heap:
  assumes d: "dlist h head (xs @ item # ys)"
  shows "succeeds (list_del item h) (\<lambda>h'. dlist h' head (xs @ ys) \<and> dlist h' item []
           \<and> (\<forall>a. allocated h' a = allocated h a)
           \<and> (\<forall>a. a \<notin> set (head # xs @ item # ys) \<longrightarrow>
                next_ptr h' a = next_ptr h a \<and> prev_ptr h' a = prev_ptr h a))"
proof -
  let ?p = "last (head # xs)" and ?n = "hd (ys @ [head])"
  have al: "\<And>a. a \<in> set (head # xs @ item # ys) \<Longrightarrow> allocated h a" using d by (rule dlist_allocated)
  have inr: "?p \<in> set (head # xs)" "?n \<in> set (ys @ [head])"
    by (metis last_in_set list.discI, metis hd_in_set snoc_eq_iff_butlast)
  have ne: "item \<noteq> ?p" "item \<noteq> ?n" "item \<noteq> head" using d inr by (auto simp: dlist_def)
  have links: "prev_ptr h item = Some ?p" "next_ptr h item = Some ?n"
    using d by (cases xs rule: rev_cases; cases ys; auto simp: dlist_def seg_append)+
  define h' where "h' = \<lparr>next_ptr = (next_ptr h)(?p \<mapsto> ?n, item \<mapsto> item),
    prev_ptr = (prev_ptr h)(?n \<mapsto> ?p, item \<mapsto> item)\<rparr>"
  have alx: "allocated h ?p" "allocated h ?n" "allocated h item" using al inr by auto
  have run: "list_del item h = Some h'"
    using links alx ne by (auto simp: list_del_def set_next_def set_prev_def allocated_def h'_def)
  have ring: "dlist h' head (xs @ ys)"
  proof (cases xs rule: rev_cases)
    case Nil
    with d ne show ?thesis by (cases ys) (auto simp: dlist_def h'_def seg_append seg_upd)
  next
    case (snoc zs z)
    with d ne show ?thesis by (cases ys) (auto simp: dlist_def h'_def seg_append seg_upd)
  qed
  have "\<forall>a. a \<notin> set (head # xs @ item # ys) \<longrightarrow>
      next_ptr h' a = next_ptr h a \<and> prev_ptr h' a = prev_ptr h a"
    using inr by (auto simp: h'_def)
  moreover have "\<forall>a. allocated h' a = allocated h a" using alx by (auto simp: h'_def allocated_def)
  moreover have "dlist h' item []" by (simp add: h'_def dlist_def)
  ultimately show ?thesis using ring by (simp add: run)
qed

end
