(* ===== verification/OrderedList.thy ===== *)
theory OrderedList
  imports LinkedList
begin

text \<open>
  The ordered lists of \<open>olist.c\<close>: nodes of a ring carry a key, and the callback
  \<open>cmp_cb\<close> compares keys.  The lemmas show that under the documented contract of
  the comparison callback (\<open>cmp_ok\<close>) insertion keeps the ring sorted and that
  look-up and deletion by key act on the first node with an equal key.
\<close>

section \<open>Operations of olist.c\<close>

record 'k olist =
  oheap :: list_heap
  okey :: "addr \<Rightarrow> 'k option"

text \<open>The loop all three operations share: walk the ring from \<open>itr\<close> while the
  key of the node is less than \<open>key\<close>; the result is the node the loop breaks at,
  or the list head.\<close>

partial_function (option) olist_seek ::
  "('k \<Rightarrow> 'k \<Rightarrow> int) \<Rightarrow> 'k olist \<Rightarrow> addr \<Rightarrow> 'k \<Rightarrow> addr \<Rightarrow> addr option" where
  "olist_seek cmp s head key itr =
     (if itr = head then Some head
      else do {
        k \<leftarrow> okey s itr;
        if cmp k key < 0
        then do { n \<leftarrow> next_ptr (oheap s) itr; olist_seek cmp s head key n }
        else Some itr
      })"

declare olist_seek.simps [code]

definition olist_add ::
  "('k \<Rightarrow> 'k \<Rightarrow> int) \<Rightarrow> addr \<Rightarrow> addr \<Rightarrow> 'k \<Rightarrow> 'k olist \<Rightarrow> 'k olist option" where
  "olist_add cmp head item key s = do {
     let s = s\<lparr>okey := (okey s)(item \<mapsto> key)\<rparr>;
     first \<leftarrow> next_ptr (oheap s) head;
     itr \<leftarrow> olist_seek cmp s head key first;
     h \<leftarrow> (if itr \<noteq> head
           then do { p \<leftarrow> prev_ptr (oheap s) itr; list_add_first p item (oheap s) }
           else list_add_last head item (oheap s));
     Some (s\<lparr>oheap := h\<rparr>)
   }"

definition olist_find :: "('k \<Rightarrow> 'k \<Rightarrow> int) \<Rightarrow> addr \<Rightarrow> 'k \<Rightarrow> 'k olist \<Rightarrow> addr option option" where
  "olist_find cmp head key s = do {
     first \<leftarrow> next_ptr (oheap s) head;
     itr \<leftarrow> olist_seek cmp s head key first;
     if itr = head then Some None
     else do { k \<leftarrow> okey s itr; Some (if cmp k key = 0 then Some itr else None) }
   }"

definition olist_del_by_key ::
  "('k \<Rightarrow> 'k \<Rightarrow> int) \<Rightarrow> addr \<Rightarrow> 'k \<Rightarrow> 'k olist \<Rightarrow> (addr option \<times> 'k olist) option" where
  "olist_del_by_key cmp head key s = do {
     item \<leftarrow> olist_find cmp head key s;
     case item of
       None \<Rightarrow> Some (None, s)
     | Some i \<Rightarrow> do { h \<leftarrow> list_del i (oheap s); Some (Some i, s\<lparr>oheap := h\<rparr>) }
   }"

section \<open>Sorted rings\<close>

text \<open>The contract of \<open>cmp_cb\<close> in \<open>olist.h\<close>: zero for equal keys, positive when the
  first key is greater, negative when the second is; a linear order of keys.\<close>

definition cmp_ok :: "('k \<Rightarrow> 'k \<Rightarrow> int) \<Rightarrow> bool" where
  "cmp_ok cmp \<longleftrightarrow> (\<forall>a b. cmp a b < 0 \<longleftrightarrow> 0 < cmp b a)
     \<and> (\<forall>a b c. cmp a b \<le> 0 \<longrightarrow> cmp b c \<le> 0 \<longrightarrow> cmp a c \<le> 0)
     \<and> (\<forall>a b c. cmp a b < 0 \<longrightarrow> cmp b c \<le> 0 \<longrightarrow> cmp a c < 0)"

definition node_key :: "'k olist \<Rightarrow> addr \<Rightarrow> 'k" where
  "node_key s a = the (okey s a)"

definition olist_rep :: "'k olist \<Rightarrow> addr \<Rightarrow> addr list \<Rightarrow> bool" where
  "olist_rep s head xs \<longleftrightarrow> dlist (oheap s) head xs \<and> (\<forall>x \<in> set xs. okey s x \<noteq> None)"

definition olist_sorted :: "('k \<Rightarrow> 'k \<Rightarrow> int) \<Rightarrow> 'k olist \<Rightarrow> addr list \<Rightarrow> bool" where
  "olist_sorted cmp s xs \<longleftrightarrow> sorted_wrt (\<lambda>a b. cmp (node_key s a) (node_key s b) \<le> 0) xs"

definition less_than_key :: "('k \<Rightarrow> 'k \<Rightarrow> int) \<Rightarrow> 'k olist \<Rightarrow> 'k \<Rightarrow> addr \<Rightarrow> bool" where
  "less_than_key cmp s key x \<longleftrightarrow> cmp (node_key s x) key < 0"

lemma olist_seek_seg:
  assumes "seg (next_ptr (oheap s)) itr xs head" and "head \<notin> set (itr # xs)"
    and "\<forall>x \<in> set (itr # xs). okey s x \<noteq> None"
  shows "olist_seek cmp s head key itr
           = Some (hd (dropWhile (less_than_key cmp s key) (itr # xs) @ [head]))"
  using assms
proof (induction xs arbitrary: itr)
  case Nil
  then show ?case
    by (subst olist_seek.simps) (auto simp: less_than_key_def node_key_def olist_seek.simps)
next
  case (Cons x xs)
  then have "olist_seek cmp s head key x
      = Some (hd (dropWhile (less_than_key cmp s key) (x # xs) @ [head]))" by auto
  with Cons.prems show ?case
    by (subst olist_seek.simps)
      (auto simp: less_than_key_def[of _ _ _ itr] node_key_def[of _ itr])
qed

lemma olist_seek_ring:
  assumes "olist_rep s head xs"
  shows "do { first \<leftarrow> next_ptr (oheap s) head; olist_seek cmp s head key first }
           = Some (hd (dropWhile (less_than_key cmp s key) xs @ [head]))"
proof (cases xs)
  case Nil
  with assms show ?thesis by (simp add: olist_rep_def dlist_def olist_seek.simps)
next
  case (Cons y ys)
  with assms have "seg (next_ptr (oheap s)) y ys head" "head \<notin> set (y # ys)"
    "\<forall>x \<in> set (y # ys). okey s x \<noteq> None" "next_ptr (oheap s) head = Some y"
    by (auto simp: olist_rep_def dlist_def)
  with Cons show ?thesis using olist_seek_seg[of s y ys head cmp key] by simp
qed

lemma olist_key_upd:
  "item \<notin> set xs \<Longrightarrow> \<forall>x \<in> set xs. node_key (s\<lparr>okey := (okey s)(item \<mapsto> k)\<rparr>) x = node_key s x"
  by (auto simp: node_key_def)

lemma takeWhile_key_upd:
  assumes "item \<notin> set xs"
  shows "takeWhile (less_than_key cmp (s\<lparr>okey := (okey s)(item \<mapsto> k)\<rparr>) key) xs
           = takeWhile (less_than_key cmp s key) xs"
    and "dropWhile (less_than_key cmp (s\<lparr>okey := (okey s)(item \<mapsto> k)\<rparr>) key) xs
           = dropWhile (less_than_key cmp s key) xs"
  using olist_key_upd[OF assms, of s k]
  by (auto intro!: takeWhile_cong dropWhile_cong simp: less_than_key_def)

lemma olist_add_rep:
  assumes r: "olist_rep s head xs" and new: "item \<notin> set (head # xs)" and al: "allocated (oheap s) item"
  shows "succeeds (olist_add cmp head item key s) (\<lambda>s'.
           olist_rep s' head (takeWhile (less_than_key cmp s key) xs @ item
                              # dropWhile (less_than_key cmp s key) xs)
           \<and> okey s' = (okey s)(item \<mapsto> key))"
proof -
  define s1 where "s1 = s\<lparr>okey := (okey s)(item \<mapsto> key)\<rparr>"
  let ?P = "less_than_key cmp s key"
  have r1: "olist_rep s1 head xs" using r by (simp add: olist_rep_def s1_def)
  have P: "dropWhile (less_than_key cmp s1 key) xs = dropWhile ?P xs"
    using takeWhile_key_upd(2)[of item xs] new by (simp add: s1_def)
  have d: "dlist (oheap s) head xs" using r by (simp add: olist_rep_def)
  obtain first where first: "next_ptr (oheap s) head = Some first"
    using dlist_allocated[OF d, of head] by (auto simp: allocated_def)
  have seek: "olist_seek cmp s1 head key first = Some (hd (dropWhile ?P xs @ [head]))"
    using olist_seek_ring[OF r1, of cmp key] first by (simp add: P) (simp add: s1_def)
  have keys: "\<forall>x \<in> set (item # xs). okey s1 x \<noteq> None"
    using r by (auto simp: s1_def olist_rep_def)
  show ?thesis
  proof (cases "dropWhile ?P xs")
    case Nil
    then have "takeWhile ?P xs = xs" by (metis append_Nil2 takeWhile_dropWhile_id)
    with Nil first seek keys list_add_last_heap[OF d new al] show ?thesis
      by (auto simp: olist_add_def list_add_last_def olist_rep_def s1_def succeeds_iff
          simp del: dropWhile_eq_Nil_conv takeWhile_eq_all_conv)
  next
    case (Cons y ys)
    let ?t = "takeWhile ?P xs"
    have xs: "xs = ?t @ y # ys" using Cons by (metis takeWhile_dropWhile_id)
    have dy: "dlist (oheap s) head (?t @ y # ys)" using d xs by simp
    then have py: "prev_ptr (oheap s) y = Some (last (head # ?t))"
      "next_ptr (oheap s) (last (head # ?t)) = Some y"
      using dlist_last[of "oheap s" y "ys @ head # ?t"] by (simp_all add: dlist_rotate)
    have yh: "y \<noteq> head" using dy by (auto simp: dlist_def)
    have new': "item \<notin> set (head # ?t @ y # ys)" using new xs by metis
    have keys': "\<forall>x \<in> set (?t @ item # y # ys). okey s1 x \<noteq> None" using keys xs
      by (metis Un_iff list.set_intros(1) list.set_intros(2) set_ConsD set_append)
    from Cons first seek py yh keys' list_add_before_heap[OF dy new' al] show ?thesis
      by (auto simp: olist_add_def list_add_first_def olist_rep_def s1_def succeeds_iff)
  qed
qed

lemma sorted_insert:
  assumes cmp: "cmp_ok cmp" and so: "olist_sorted cmp s xs" and new: "item \<notin> set xs"
    and s': "okey s' = (okey s)(item \<mapsto> key)"
  shows "olist_sorted cmp s' (takeWhile (less_than_key cmp s key) xs @ item
                              # dropWhile (less_than_key cmp s key) xs)"
proof -
  let ?P = "less_than_key cmp s key" and ?R = "\<lambda>a b. cmp (node_key s a) (node_key s b) \<le> 0"
  let ?t = "takeWhile ?P xs" and ?d = "dropWhile ?P xs"
  have keys: "\<forall>x \<in> set xs. node_key s' x = node_key s x" "node_key s' item = key"
    using new by (auto simp: node_key_def s')
  have sd: "sorted_wrt ?R ?t" "sorted_wrt ?R ?d" "\<forall>a \<in> set ?t. \<forall>b \<in> set ?d. ?R a b"
    using so unfolding olist_sorted_def by (metis sorted_wrt_append takeWhile_dropWhile_id)+
  have t: "\<forall>x \<in> set ?t. cmp (node_key s x) key \<le> 0"
    by (auto dest!: set_takeWhileD simp: less_than_key_def)
  have ge: "\<forall>x \<in> set ?d. cmp key (node_key s x) \<le> 0"
  proof (cases ?d)
    case (Cons y ys)
    have flip: "\<And>a b. cmp a b < 0 \<longleftrightarrow> 0 < cmp b a"
      and tr: "\<And>a b c. cmp a b \<le> 0 \<Longrightarrow> cmp b c \<le> 0 \<Longrightarrow> cmp a c \<le> 0"
      using cmp unfolding cmp_ok_def by blast+
    have "\<not> ?P y" using Cons hd_dropWhile[of ?P xs] by simp
    then have "\<not> 0 < cmp key (node_key s y)" using flip by (simp add: less_than_key_def)
    then have y: "cmp key (node_key s y) \<le> 0" by simp
    have "\<forall>x \<in> set ys. cmp (node_key s y) (node_key s x) \<le> 0" using sd(2) Cons by simp
    then show ?thesis using y tr Cons by auto
  qed (simp del: dropWhile_eq_Nil_conv)
  have sub: "set ?t \<subseteq> set xs" "set ?d \<subseteq> set xs" by (auto dest: set_takeWhileD set_dropWhileD)
  have st: "sorted_wrt (\<lambda>a b. cmp (node_key s' a) (node_key s' b) \<le> 0) ?t"
    by (rule sorted_wrt_mono_rel[OF _ sd(1)]) (use sub keys in \<open>metis subsetD\<close>)
  have sd': "sorted_wrt (\<lambda>a b. cmp (node_key s' a) (node_key s' b) \<le> 0) ?d"
    by (rule sorted_wrt_mono_rel[OF _ sd(2)]) (use sub keys in \<open>metis subsetD\<close>)
  note st sd'
  moreover have "\<forall>a \<in> set ?t. \<forall>b \<in> set ?d. cmp (node_key s' a) (node_key s' b) \<le> 0"
    using sd sub keys by (metis subsetD)
  moreover have "\<forall>x \<in> set ?t. cmp (node_key s' x) (node_key s' item) \<le> 0"
    "\<forall>x \<in> set ?d. cmp (node_key s' item) (node_key s' x) \<le> 0"
    using t ge sub keys by (metis subsetD)+
  ultimately show ?thesis by (simp add: olist_sorted_def sorted_wrt_append)
qed

lemma olist_find_rep:
  assumes "olist_rep s head xs"
  shows "olist_find cmp head key s = Some (case dropWhile (less_than_key cmp s key) xs of
           [] \<Rightarrow> None | y # _ \<Rightarrow> if cmp (node_key s y) key = 0 then Some y else None)"
proof -
  let ?d = "dropWhile (less_than_key cmp s key) xs"
  have d: "dlist (oheap s) head xs" using assms by (simp add: olist_rep_def)
  obtain first where first: "next_ptr (oheap s) head = Some first"
    using dlist_allocated[OF d, of head] by (auto simp: allocated_def)
  have seek: "olist_seek cmp s head key first = Some (hd (?d @ [head]))"
    using olist_seek_ring[OF assms, of cmp key] first by simp
  show ?thesis
  proof (cases ?d)
    case Nil
    with first seek show ?thesis by (simp add: olist_find_def del: dropWhile_eq_Nil_conv)
  next
    case (Cons y ys)
    then have "y \<in> set xs" by (metis list.set_intros(1) set_dropWhileD)
    then have "y \<noteq> head" "okey s y \<noteq> None" using assms by (auto simp: olist_rep_def dlist_def)
    with Cons first seek show ?thesis by (auto simp: olist_find_def node_key_def)
  qed
qed

text \<open>On a sorted ring a node with an equal key is found whenever there is one.\<close>

lemma olist_find_complete:
  assumes r: "olist_rep s head xs" and so: "olist_sorted cmp s xs" and cmp: "cmp_ok cmp"
    and x: "x \<in> set xs" "cmp (node_key s x) key = 0"
  shows "\<exists>y. olist_find cmp head key s = Some (Some y) \<and> y \<in> set xs \<and> cmp (node_key s y) key = 0"
proof -
  let ?P = "less_than_key cmp s key"
  have "\<not> ?P x" using x by (simp add: less_than_key_def)
  then obtain y ys where d: "dropWhile ?P xs = y # ys"
    using x(1) by (metis dropWhile_eq_Nil_conv list.exhaust)
  have ny: "\<not> cmp (node_key s y) key < 0"
    using d hd_dropWhile[of ?P xs] by (simp add: less_than_key_def)
  have y: "y \<in> set xs" using d by (metis list.set_intros(1) set_dropWhileD)
  have "x \<in> set (y # ys)" using x \<open>\<not> ?P x\<close> d
    by (metis UnE set_append set_takeWhileD takeWhile_dropWhile_id)
  moreover have "sorted_wrt (\<lambda>a b. cmp (node_key s a) (node_key s b) \<le> 0) (y # ys)"
    using so d unfolding olist_sorted_def by (metis sorted_wrt_append takeWhile_dropWhile_id)
  ultimately have "y = x \<or> cmp (node_key s y) (node_key s x) \<le> 0" by auto
  then have "cmp (node_key s y) key \<le> 0"
    using x(2) cmp unfolding cmp_ok_def by (metis order.eq_iff)
  with ny have "cmp (node_key s y) key = 0" by simp
  with d y show ?thesis using olist_find_rep[OF r, of cmp key] by simp
qed

lemma olist_del_by_key_rep:
  assumes r: "olist_rep s head xs"
  shows "succeeds (olist_del_by_key cmp head key s) (\<lambda>(i, s').
           olist_find cmp head key s = Some i
           \<and> olist_rep s' head (case i of None \<Rightarrow> xs | Some y \<Rightarrow> remove1 y xs))"
proof -
  obtain i where i: "olist_find cmp head key s = Some i" using olist_find_rep[OF r] by blast
  show ?thesis
  proof (cases i)
    case None
    with i r show ?thesis by (simp add: olist_del_by_key_def)
  next
    case (Some y)
    then have "y \<in> set xs" using i olist_find_rep[OF r, of cmp key]
      by (auto split: list.splits if_splits simp del: dropWhile_eq_Nil_conv)
        (metis list.set_intros(1) set_dropWhileD)
    then obtain as bs where xs: "xs = as @ y # bs" by (meson split_list)
    with r have d: "dlist (oheap s) head (as @ y # bs)" by (simp add: olist_rep_def)
    then have "remove1 y xs = as @ bs" using xs by (auto simp: dlist_def remove1_append)
    with i Some r xs list_del_heap[OF d] show ?thesis
      by (auto simp: olist_del_by_key_def olist_rep_def succeeds_iff)
  qed
qed

section \<open>Properties\<close>

text \<open>C12. \<open>olist_add\<close> never crashes on a well-formed ordered ring, puts the new node
  exactly in front of the first node whose key is not less than the new key, and
  keeps the ring well formed and sorted.\<close>

theorem olist_add_keeps_order:
  assumes "cmp_ok cmp" and "olist_rep s head xs" and "olist_sorted cmp s xs"
    and "item \<notin> set (head # xs)" and "allocated (oheap s) item"
  shows "succeeds (olist_add cmp head item key s) (\<lambda>s'. \<exists>as bs. xs = as @ bs
           \<and> olist_rep s' head (as @ item # bs) \<and> olist_sorted cmp s' (as @ item # bs)
           \<and> okey s' = (okey s)(item \<mapsto> key)
           \<and> (\<forall>a \<in> set as. cmp (node_key s a) key < 0) \<and> (bs \<noteq> [] \<longrightarrow> \<not> cmp (node_key s (hd bs)) key < 0))"
proof -
  let ?P = "less_than_key cmp s key"
  obtain s' where s': "olist_add cmp head item key s = Some s'"
    "olist_rep s' head (takeWhile ?P xs @ item # dropWhile ?P xs)" "okey s' = (okey s)(item \<mapsto> key)"
    using olist_add_rep[OF assms(2,4,5), of cmp key] by (auto simp: succeeds_iff)
  moreover have "olist_sorted cmp s' (takeWhile ?P xs @ item # dropWhile ?P xs)"
    using sorted_insert[OF assms(1,3) _ s'(3)] assms(4) by simp
  moreover have "\<forall>a \<in> set (takeWhile ?P xs). cmp (node_key s a) key < 0"
    by (auto dest: set_takeWhileD simp: less_than_key_def)
  moreover have "dropWhile ?P xs \<noteq> [] \<longrightarrow> \<not> cmp (node_key s (hd (dropWhile ?P xs))) key < 0"
    using hd_dropWhile[of ?P xs] by (auto simp: less_than_key_def simp del: dropWhile_eq_Nil_conv)
  moreover have "xs = takeWhile ?P xs @ dropWhile ?P xs" by simp
  ultimately show ?thesis unfolding s'(1) succeeds_Some by blast
qed

definition ring_two :: "int olist" where
  "ring_two = \<lparr>oheap = \<lparr>next_ptr = [0 \<mapsto> 1, 1 \<mapsto> 2, 2 \<mapsto> 0, 3 \<mapsto> 3],
                       prev_ptr = [0 \<mapsto> 2, 2 \<mapsto> 1, 1 \<mapsto> 0, 3 \<mapsto> 3]\<rparr>,
               okey = [1 \<mapsto> 10, 2 \<mapsto> 20]\<rparr>"

lemma cmp_int_ok: "cmp_ok (\<lambda>a b :: int. a - b)"
  by (auto simp: cmp_ok_def)

lemma ring_two_ok:
  "olist_rep ring_two 0 [1, 2]" "olist_sorted (\<lambda>a b. a - b) ring_two [1, 2]"
  "(3::nat) \<notin> set [0, 1, 2]" "allocated (oheap ring_two) 3"
  by (simp_all add: ring_two_def olist_rep_def olist_sorted_def node_key_def dlist_def allocated_def)

lemma olist_add_keeps_order_witness:
  "succeeds (olist_add (\<lambda>a b. a - b) 0 3 15 ring_two) (\<lambda>s'. \<exists>as bs. [1, 2] = as @ bs
     \<and> olist_rep s' 0 (as @ 3 # bs) \<and> olist_sorted (\<lambda>a b. a - b) s' (as @ 3 # bs)
     \<and> okey s' = (okey ring_two)(3 \<mapsto> 15)
     \<and> (\<forall>a \<in> set as. node_key ring_two a - 15 < 0) \<and> (bs \<noteq> [] \<longrightarrow> \<not> node_key ring_two (hd bs) - 15 < 0))"
  by (rule olist_add_keeps_order[OF cmp_int_ok ring_two_ok])

text \<open>On a sorted ring \<open>olist_del_by_key\<close> does not crash; it unlinks one node with
  an equal key when there is one, and otherwise returns NULL and changes
  nothing.\<close>

theorem olist_del_by_key_correct:
  assumes "cmp_ok cmp" and "olist_rep s head xs" and "olist_sorted cmp s xs"
  shows "succeeds (olist_del_by_key cmp head key s) (\<lambda>(r, s').
           (case r of
              None \<Rightarrow> s' = s \<and> (\<forall>x \<in> set xs. cmp (node_key s x) key \<noteq> 0)
            | Some y \<Rightarrow> y \<in> set xs \<and> cmp (node_key s y) key = 0 \<and> olist_rep s' head (remove1 y xs)))"
proof -
  obtain r s' where r: "olist_del_by_key cmp head key s = Some (r, s')" "olist_find cmp head key s = Some r"
    "olist_rep s' head (case r of None \<Rightarrow> xs | Some y \<Rightarrow> remove1 y xs)"
    using olist_del_by_key_rep[OF assms(2), of cmp key] by (auto simp: succeeds_iff)
  show ?thesis
  proof (cases r)
    case None
    then have "s' = s" using r by (simp add: olist_del_by_key_def)
    moreover have "\<forall>x \<in> set xs. cmp (node_key s x) key \<noteq> 0"
      using olist_find_complete[OF assms(2,3,1)] r(2) None by fastforce
    ultimately show ?thesis using r(1) None by simp
  next
    case (Some y)
    then have "y \<in> set xs \<and> cmp (node_key s y) key = 0"
      using r(2) olist_find_rep[OF assms(2), of cmp key]
      by (auto split: list.splits if_splits simp del: dropWhile_eq_Nil_conv)
        (metis list.set_intros(1) set_dropWhileD)
    then show ?thesis using r(1,3) Some by simp
  qed
qed

lemma olist_del_by_key_correct_witness:
  "succeeds (olist_del_by_key (\<lambda>a b. a - b) 0 20 ring_two) (\<lambda>(r, s').
     (case r of
        None \<Rightarrow> s' = ring_two \<and> (\<forall>x \<in> set [1, 2]. node_key ring_two x - 20 \<noteq> 0)
      | Some y \<Rightarrow> y \<in> set [1, 2] \<and> node_key ring_two y - 20 = 0 \<and> olist_rep s' 0 (remove1 y [1, 2])))"
  by (rule olist_del_by_key_correct[OF cmp_int_ok ring_two_ok(1,2)])

end
