(* ===== verification/TaskQueue.thy ===== *)
theory TaskQueue
  imports LinkedList
begin

text \<open>
  The task queue of libeloop (\<open>tasks_queue.c\<close>) on the pointer heap of
  \<open>LinkedList\<close>: tasks are heap objects that start with a list head, the queue is
  a ring plus an \<open>unsigned int\<close> length.  The interface the syncer relies on is
  the locale \<open>task_fifo\<close>; it is interpreted here on the pointer-level operations.
\<close>

section \<open>Operations of tasks_queue.c\<close>

record 'cb task =
  task_cb :: 'cb
  task_ctx :: nat
  task_id :: nat

record 'cb tasks_queue =
  qmem :: list_heap
  qhead :: addr
  qlen :: "32 word"
  qtasks :: "addr \<Rightarrow> 'cb task option"
  qbrk :: addr

text \<open>\<open>malloc\<close> hands out the address \<open>qbrk\<close>, which no live object uses; the flag
  \<open>ok\<close> of the allocating operations says whether the allocation succeeds.\<close>

definition task_new :: "'cb \<Rightarrow> nat \<Rightarrow> nat \<Rightarrow> 'cb tasks_queue \<Rightarrow> addr \<times> 'cb tasks_queue" where
  "task_new cb ctx tid q =
     (let a = qbrk q in
      (a, q\<lparr>qmem := list_init a (qmem q),
            qtasks := (qtasks q)(a \<mapsto> \<lparr>task_cb = cb, task_ctx = ctx, task_id = tid\<rparr>),
            qbrk := Suc a\<rparr>))"

definition task_delete :: "addr \<Rightarrow> 'cb tasks_queue \<Rightarrow> 'cb tasks_queue option" where
  "task_delete a q = do {
     h \<leftarrow> list_del a (qmem q);
     Some (q\<lparr>qmem := release a h, qtasks := (qtasks q)(a := None)\<rparr>)
   }"

definition tasks_queue_new :: "bool \<Rightarrow> 'cb tasks_queue option" where
  "tasks_queue_new ok =
     (if ok
      then Some \<lparr>qmem = list_init 0 \<lparr>next_ptr = Map.empty, prev_ptr = Map.empty\<rparr>, qhead = 0,
                 qlen = 0, qtasks = Map.empty, qbrk = 1\<rparr>
      else None)"

definition tasks_queue_add ::
  "bool \<Rightarrow> 'cb task \<Rightarrow> 'cb tasks_queue \<Rightarrow> (int \<times> 'cb tasks_queue) option" where
  "tasks_queue_add ok t q =
     (if \<not> ok then Some (-1, q)
      else do {
        let (a, q) = task_new (task_cb t) (task_ctx t) (task_id t) q;
        h \<leftarrow> list_add_last (qhead q) a (qmem q);
        Some (0, q\<lparr>qmem := h, qlen := qlen q + 1\<rparr>)
      })"

partial_function (option) task_find_from ::
  "'cb tasks_queue \<Rightarrow> nat \<Rightarrow> addr \<Rightarrow> addr option option" where
  "task_find_from q tid itr =
     (if itr = qhead q then Some None
      else do {
        t \<leftarrow> qtasks q itr;
        if task_id t \<noteq> tid
        then do { n \<leftarrow> next_ptr (qmem q) itr; task_find_from q tid n }
        else Some (Some itr)
      })"

declare task_find_from.simps [code]

definition task_find :: "'cb tasks_queue \<Rightarrow> nat \<Rightarrow> addr option option" where
  "task_find q tid = do { n \<leftarrow> next_ptr (qmem q) (qhead q); task_find_from q tid n }"

definition tasks_queue_remove :: "nat \<Rightarrow> 'cb tasks_queue \<Rightarrow> 'cb tasks_queue option" where
  "tasks_queue_remove tid q = do {
     item \<leftarrow> task_find q tid;
     case item of
       None \<Rightarrow> Some q
     | Some a \<Rightarrow> do { q \<leftarrow> task_delete a q; Some (q\<lparr>qlen := qlen q - 1\<rparr>) }
   }"

definition tasks_queue_pending_tasks :: "'cb tasks_queue \<Rightarrow> 32 word" where
  "tasks_queue_pending_tasks q = qlen q"

text \<open>\<open>tasks_queue_execute_next\<close> reads the task at the front of the ring, runs its
  callback on the program state, and only then deletes it.\<close>

definition tasks_queue_first :: "'cb tasks_queue \<Rightarrow> 'cb task option" where
  "tasks_queue_first q = do { a \<leftarrow> next_ptr (qmem q) (qhead q); qtasks q a }"

definition tasks_queue_drop_first :: "'cb tasks_queue \<Rightarrow> 'cb tasks_queue option" where
  "tasks_queue_drop_first q = do {
     a \<leftarrow> next_ptr (qmem q) (qhead q);
     q \<leftarrow> task_delete a q;
     Some (q\<lparr>qlen := qlen q - 1\<rparr>)
   }"

definition tasks_queue_execute_next ::
  "('cb task \<Rightarrow> 's \<Rightarrow> 's option) \<Rightarrow> 'cb tasks_queue \<Rightarrow> 's \<Rightarrow> (nat \<times> 'cb tasks_queue \<times> 's) option" where
  "tasks_queue_execute_next exec q s =
     (if qlen q = 0 then Some (0, q, s)
      else do {
        t \<leftarrow> tasks_queue_first q;
        s \<leftarrow> exec t s;
        q \<leftarrow> tasks_queue_drop_first q;
        Some (task_id t, q, s)
      })"

text \<open>\<open>tasks_queue_delete\<close>: the loop \<open>list_for_each_safe\<close> with its two cursors.\<close>

partial_function (option) tasks_queue_delete_loop ::
  "bool \<Rightarrow> ('cb task \<Rightarrow> 's \<Rightarrow> 's option) \<Rightarrow> addr \<Rightarrow> addr \<Rightarrow> 'cb tasks_queue \<Rightarrow> 's
     \<Rightarrow> ('cb tasks_queue \<times> 's) option" where
  "tasks_queue_delete_loop execute_all exec item itr q s =
     (if item = qhead q then Some (q, s)
      else do {
        t \<leftarrow> qtasks q item;
        s \<leftarrow> (if execute_all then exec t s else Some s);
        q \<leftarrow> task_delete item q;
        let q = q\<lparr>qlen := qlen q - 1\<rparr>;
        n \<leftarrow> next_ptr (qmem q) itr;
        tasks_queue_delete_loop execute_all exec itr n q s
      })"

declare tasks_queue_delete_loop.simps [code]

definition tasks_queue_delete ::
  "bool \<Rightarrow> ('cb task \<Rightarrow> 's \<Rightarrow> 's option) \<Rightarrow> 'cb tasks_queue \<Rightarrow> 's \<Rightarrow> 's option" where
  "tasks_queue_delete execute_all exec q s = do {
     item \<leftarrow> next_ptr (qmem q) (qhead q);
     itr \<leftarrow> next_ptr (qmem q) item;
     (q, s) \<leftarrow> tasks_queue_delete_loop execute_all exec item itr q s;
     Some s
   }"

section \<open>The interface of the queue\<close>

locale task_fifo =
  fixes rep :: "'q \<Rightarrow> 't list \<Rightarrow> bool"
    and add :: "'t \<Rightarrow> 'q \<Rightarrow> 'q option"
    and first :: "'q \<Rightarrow> 't option"
    and drop_first :: "'q \<Rightarrow> 'q option"
    and pending :: "'q \<Rightarrow> bool"
    and capacity :: nat
  assumes add_rep: "rep q ts \<Longrightarrow> length ts + 1 < capacity \<Longrightarrow> succeeds (add t q) (\<lambda>q'. rep q' (ts @ [t]))"
    and first_rep: "rep q (t # ts) \<Longrightarrow> first q = Some t"
    and drop_first_rep: "rep q (t # ts) \<Longrightarrow> succeeds (drop_first q) (\<lambda>q'. rep q' ts)"
    and pending_rep: "rep q ts \<Longrightarrow> pending q \<longleftrightarrow> ts \<noteq> []"
begin

fun add_all :: "'t list \<Rightarrow> 'q \<Rightarrow> 'q option" where
  "add_all [] q = Some q"
| "add_all (t # ts) q = do { q \<leftarrow> add t q; add_all ts q }"

fun take_n :: "nat \<Rightarrow> 'q \<Rightarrow> ('t list \<times> 'q) option" where
  "take_n 0 q = Some ([], q)"
| "take_n (Suc n) q = do {
     t \<leftarrow> first q; q \<leftarrow> drop_first q; (ts, q) \<leftarrow> take_n n q; Some (t # ts, q) }"

lemma add_all_rep:
  assumes "rep q ts" and "length ts + length us < capacity"
  shows "succeeds (add_all us q) (\<lambda>q'. rep q' (ts @ us))"
  using assms
proof (induction us arbitrary: q ts)
  case (Cons u us)
  have "succeeds (add u q) (\<lambda>q'. rep q' (ts @ [u]))" using Cons.prems by (intro add_rep) auto
  then show ?case using Cons by (auto simp: succeeds_iff) force
qed simp

lemma take_n_rep:
  assumes "rep q (ts @ us)"
  shows "succeeds (take_n (length ts) q) (\<lambda>(xs, q'). xs = ts \<and> rep q' us)"
  using assms
proof (induction ts arbitrary: q)
  case (Cons t ts)
  then have f: "first q = Some t" by (simp add: first_rep)
  obtain q' where q': "drop_first q = Some q'" "rep q' (ts @ us)"
    using drop_first_rep[of q t "ts @ us"] Cons.prems by (auto simp: succeeds_iff)
  show ?case using Cons.IH[OF q'(2)] f q'(1) by (auto simp: succeeds_iff)
qed simp

text \<open>First in, first out: whatever was queued before, tasks added later come out
  after it and in the order they were added.\<close>

lemma fifo:
  assumes "rep q ts" and "length ts + length us < capacity"
  shows "succeeds (do { q \<leftarrow> add_all us q; take_n (length ts + length us) q })
           (\<lambda>(xs, q'). xs = ts @ us \<and> rep q' [])"
proof -
  obtain q' where "add_all us q = Some q'" "rep q' (ts @ us)"
    using add_all_rep[OF assms] by (auto simp: succeeds_iff)
  then show ?thesis using take_n_rep[of q' "ts @ us" "[]"] by simp
qed

end

section \<open>The pointer-level queue implements the interface\<close>

definition queue_rep :: "'cb tasks_queue \<Rightarrow> 'cb task list \<Rightarrow> bool" where
  "queue_rep q ts \<longleftrightarrow> (\<exists>xs. dlist (qmem q) (qhead q) xs \<and> map (qtasks q) xs = map Some ts
     \<and> (\<forall>a \<in> set (qhead q # xs). a < qbrk q)
     \<and> qlen q = of_nat (length ts) \<and> length ts < 2 ^ 32)"

definition queue_add_ok :: "'cb task \<Rightarrow> 'cb tasks_queue \<Rightarrow> 'cb tasks_queue option" where
  "queue_add_ok t q = map_option snd (tasks_queue_add True t q)"

lemma queue_new_rep: "succeeds (tasks_queue_new True) (\<lambda>q. queue_rep q [])"
  by (auto simp: tasks_queue_new_def queue_rep_def intro!: exI[of _ "[]"])

lemma tasks_queue_add_rep:
  assumes r: "queue_rep q ts" and len: "length ts + 1 < 2 ^ 32"
  shows "succeeds (tasks_queue_add True t q) (\<lambda>(r, q'). r = 0 \<and> queue_rep q' (ts @ [t]))"
proof -
  from r obtain xs where d: "dlist (qmem q) (qhead q) xs" and m: "map (qtasks q) xs = map Some ts"
    and fresh: "\<forall>a \<in> set (qhead q # xs). a < qbrk q" and ql: "qlen q = of_nat (length ts)"
    by (auto simp: queue_rep_def)
  let ?a = "qbrk q" and ?h = "list_init (qbrk q) (qmem q)"
  have new: "?a \<notin> set (qhead q # xs)" using fresh by auto
  have "dlist ?h (qhead q) xs" using dlist_frame_init[OF d new] .
  moreover have "allocated ?h ?a" by (simp add: allocated_def list_init_def)
  ultimately obtain h' where h': "list_add (qhead q) ?a ?h = Some h'"
    "dlist h' (qhead q) (xs @ [?a])"
    using list_add_last_heap[of ?h "qhead q" xs ?a] new by (auto simp: succeeds_iff)
  have m': "map ((qtasks q)(?a \<mapsto> t)) (xs @ [?a]) = map Some (ts @ [t])"
    using m new by simp
  have lt: "length ts < 2 ^ 32" using len by simp
  show ?thesis
    using h' m' fresh ql len
    by (auto simp: tasks_queue_add_def task_new_def list_add_last_def queue_rep_def Let_def
        less_Suc_eq intro!: exI[of _ "xs @ [?a]"])
qed

lemma queue_rep_ConsE:
  assumes "queue_rep q (t # ts)"
  obtains a xs where "dlist (qmem q) (qhead q) (a # xs)" "qtasks q a = Some t"
    "map (qtasks q) xs = map Some ts" "\<forall>b \<in> set (qhead q # a # xs). b < qbrk q"
    "qlen q = of_nat (length ts) + 1" "length ts + 1 < 2 ^ 32"
  using assms by (auto simp: queue_rep_def map_eq_Cons_conv)

lemma tasks_queue_first_rep: "queue_rep q (t # ts) \<Longrightarrow> tasks_queue_first q = Some t"
  by (erule queue_rep_ConsE) (simp add: tasks_queue_first_def dlist_first)

lemma task_delete_ring:
  assumes d: "dlist (qmem q) (qhead q) (xs @ a # ys)"
  shows "succeeds (task_delete a q) (\<lambda>q'. dlist (qmem q') (qhead q) (xs @ ys)
           \<and> qtasks q' = (qtasks q)(a := None) \<and> qhead q' = qhead q \<and> qlen q' = qlen q
           \<and> qbrk q' = qbrk q)"
proof -
  obtain h where h: "list_del a (qmem q) = Some h" "dlist h (qhead q) (xs @ ys)"
    using list_del_heap[OF d] by (auto simp: succeeds_iff)
  have "a \<notin> set (qhead q # xs @ ys)" using d by (auto simp: dlist_def)
  then have "dlist (release a h) (qhead q) (xs @ ys)" using h(2) by (rule dlist_release[rotated])
  with h(1) show ?thesis by (simp add: task_delete_def)
qed

lemma queue_rep_delete:
  assumes d: "dlist (qmem q) (qhead q) (xs @ a # ys)"
    and m: "map (qtasks q) (xs @ a # ys) = map Some (us @ t # vs)" "length us = length xs"
    and b: "\<forall>b \<in> set (qhead q # xs @ a # ys). b < qbrk q"
    and l: "qlen q = of_nat (length (us @ t # vs))" "length (us @ t # vs) < 2 ^ 32"
  shows "succeeds (do { q \<leftarrow> task_delete a q; Some (q\<lparr>qlen := qlen q - 1\<rparr>) })
           (\<lambda>q'. queue_rep q' (us @ vs) \<and> qhead q' = qhead q)"
proof -
  obtain q' where q': "task_delete a q = Some q'" "dlist (qmem q') (qhead q) (xs @ ys)"
    "qtasks q' = (qtasks q)(a := None)" "qhead q' = qhead q" "qlen q' = qlen q" "qbrk q' = qbrk q"
    using task_delete_ring[OF d] by (auto simp: succeeds_iff)
  have "a \<notin> set (xs @ ys)" using d by (auto simp: dlist_def)
  moreover have "map (qtasks q) xs = map Some us" "map (qtasks q) ys = map Some vs" using m by auto
  ultimately have "map (qtasks q') (xs @ ys) = map Some (us @ vs)"
    by (simp add: q'(3))
  with q' b l show ?thesis
    by (auto simp: queue_rep_def intro!: exI[of _ "xs @ ys"])
qed

lemma tasks_queue_drop_first_rep:
  assumes "queue_rep q (t # ts)"
  shows "succeeds (tasks_queue_drop_first q) (\<lambda>q'. queue_rep q' ts)"
proof -
  from assms obtain a xs where d: "dlist (qmem q) (qhead q) (a # xs)" and "qtasks q a = Some t"
    "map (qtasks q) xs = map Some ts" "\<forall>b \<in> set (qhead q # a # xs). b < qbrk q"
    "qlen q = of_nat (length ts) + 1" "length ts + 1 < 2 ^ 32"
    by (rule queue_rep_ConsE)
  then have "succeeds (do { q \<leftarrow> task_delete a q; Some (q\<lparr>qlen := qlen q - 1\<rparr>) })
      (\<lambda>q'. queue_rep q' ts \<and> qhead q' = qhead q)"
    using queue_rep_delete[of q "[]" a xs "[]" t ts] by simp
  moreover have "next_ptr (qmem q) (qhead q) = Some a" using d by (rule dlist_first)
  ultimately show ?thesis by (auto simp: tasks_queue_drop_first_def elim: succeeds_mono)
qed

lemma tasks_queue_pending_rep:
  "queue_rep q ts \<Longrightarrow> tasks_queue_pending_tasks q \<noteq> 0 \<longleftrightarrow> ts \<noteq> []"
  by (auto simp: queue_rep_def tasks_queue_pending_tasks_def word_of_nat_eq_0_iff)
    (metis length_greater_0_conv nat_dvd_not_less)

interpretation tq: task_fifo queue_rep queue_add_ok tasks_queue_first tasks_queue_drop_first
  "\<lambda>q. tasks_queue_pending_tasks q \<noteq> 0" "2 ^ 32"
proof
  show "succeeds (queue_add_ok t q) (\<lambda>q'. queue_rep q' (ts @ [t]))"
    if "queue_rep q ts" "length ts + 1 < 2 ^ 32" for q :: "'a tasks_queue" and ts t
    using tasks_queue_add_rep[OF that, of t] by (auto simp: queue_add_ok_def succeeds_iff)
qed (auto simp: tasks_queue_first_rep tasks_queue_drop_first_rep tasks_queue_pending_rep)

section \<open>Removal, execution and deletion\<close>

lemma task_find_from_seg:
  assumes "seg (next_ptr (qmem q)) itr xs (qhead q)" and "qhead q \<notin> set (itr # xs)"
    and "map (qtasks q) (itr # xs) = map Some ts"
  shows "task_find_from q tid itr = Some (map_option fst
           (find (\<lambda>(a, t). task_id t = tid) (zip (itr # xs) ts)))"
  using assms
proof (induction xs arbitrary: itr ts)
  case Nil
  then show ?case
    by (subst task_find_from.simps) (auto simp: task_find_from.simps map_eq_Cons_conv)
next
  case (Cons x xs)
  then obtain t us where ts: "ts = t # us" "qtasks q itr = Some t"
    "map (qtasks q) (x # xs) = map Some us" by (cases ts) auto
  have "task_find_from q tid x = Some (map_option fst
      (find (\<lambda>(a, t). task_id t = tid) (zip (x # xs) us)))"
    using Cons ts by auto
  with Cons.prems ts show ?case by (subst task_find_from.simps) auto
qed

lemma task_find_rep:
  assumes "dlist (qmem q) (qhead q) xs" and "map (qtasks q) xs = map Some ts"
  shows "task_find q tid = Some (map_option fst (find (\<lambda>(a, t). task_id t = tid) (zip xs ts)))"
proof (cases xs)
  case Nil
  with assms show ?thesis by (simp add: task_find_def dlist_def task_find_from.simps)
next
  case (Cons y ys)
  with assms have "seg (next_ptr (qmem q)) y ys (qhead q)" "qhead q \<notin> set (y # ys)"
    "map (qtasks q) (y # ys) = map Some ts" "next_ptr (qmem q) (qhead q) = Some y"
    by (auto simp: dlist_def)
  with Cons show ?thesis using task_find_from_seg[of q y ys ts tid] by (simp add: task_find_def)
qed

text \<open>The first task with the given id is removed; an unknown id changes nothing.\<close>

fun remove_first_id :: "nat \<Rightarrow> 'cb task list \<Rightarrow> 'cb task list" where
  "remove_first_id tid [] = []"
| "remove_first_id tid (t # ts) = (if task_id t = tid then ts else t # remove_first_id tid ts)"

lemma remove_first_id_absent: "\<forall>t \<in> set ts. task_id t \<noteq> tid \<Longrightarrow> remove_first_id tid ts = ts"
  by (induction ts) auto

lemma remove_first_id_split:
  "\<forall>t \<in> set us. task_id t \<noteq> tid \<Longrightarrow> task_id t = tid \<Longrightarrow> remove_first_id tid (us @ t # vs) = us @ vs"
  by (induction us) auto

lemma find_zip_split:
  assumes "length xs = length ts" "find (\<lambda>(a, t). P t) (zip xs ts) = Some (a, t)"
  shows "\<exists>as bs us vs. xs = as @ a # bs \<and> ts = us @ t # vs \<and> length us = length as
           \<and> (\<forall>u \<in> set us. \<not> P u) \<and> P t"
  using assms
proof (induction xs ts rule: list_induct2)
  case (Cons x xs y ys)
  show ?case
  proof (cases "P y")
    case True
    with Cons.prems have "x # xs = [] @ a # xs" "y # ys = [] @ t # ys" "P t" by auto
    then show ?thesis by (metis list.size(3) empty_iff list.set(1))
  next
    case False
    with Cons obtain as bs us vs where "xs = as @ a # bs" "ys = us @ t # vs" "length us = length as"
      "\<forall>u \<in> set us. \<not> P u" "P t" by auto
    with False have "x # xs = (x # as) @ a # bs \<and> y # ys = (y # us) @ t # vs
      \<and> length (y # us) = length (x # as) \<and> (\<forall>u \<in> set (y # us). \<not> P u) \<and> P t" by auto
    then show ?thesis by blast
  qed
qed simp

lemma tasks_queue_remove_rep:
  assumes r: "queue_rep q ts"
  shows "succeeds (tasks_queue_remove tid q) (\<lambda>q'. queue_rep q' (remove_first_id tid ts))"
proof -
  from r obtain xs where d: "dlist (qmem q) (qhead q) xs" and m: "map (qtasks q) xs = map Some ts"
    and b: "\<forall>a \<in> set (qhead q # xs). a < qbrk q" and l: "qlen q = of_nat (length ts)"
    "length ts < 2 ^ 32"
    by (auto simp: queue_rep_def)
  have len: "length xs = length ts" using m by (metis length_map)
  note find = task_find_rep[OF d m, of tid]
  show ?thesis
  proof (cases "find (\<lambda>(a, t). task_id t = tid) (zip xs ts)")
    case None
    then have "\<forall>t \<in> set ts. task_id t \<noteq> tid"
      using len by (auto simp: find_None_iff elim!: in_set_impl_in_set_zip2)
    with None find r show ?thesis by (simp add: tasks_queue_remove_def remove_first_id_absent)
  next
    case (Some p)
    then obtain a t where p: "find (\<lambda>(a, t). task_id t = tid) (zip xs ts) = Some (a, t)"
      by (cases p) auto
    obtain as bs us vs where s: "xs = as @ a # bs" "ts = us @ t # vs" "length us = length as"
      "\<forall>u \<in> set us. task_id u \<noteq> tid" "task_id t = tid"
      using find_zip_split[OF len p] by blast
    have "succeeds (do { q \<leftarrow> task_delete a q; Some (q\<lparr>qlen := qlen q - 1\<rparr>) })
        (\<lambda>q'. queue_rep q' (us @ vs) \<and> qhead q' = qhead q)"
      using d m b l s by (intro queue_rep_delete) auto
    moreover have "remove_first_id tid ts = us @ vs" using s by (simp add: remove_first_id_split)
    ultimately show ?thesis using find p
      by (auto simp: tasks_queue_remove_def elim: succeeds_mono)
  qed
qed

lemma tasks_queue_execute_next_rep:
  assumes "queue_rep q (t # ts)"
  shows "tasks_queue_execute_next exec q s
           = do { s \<leftarrow> exec t s; q \<leftarrow> tasks_queue_drop_first q; Some (task_id t, q, s) }"
proof -
  have "qlen q \<noteq> 0"
    using tasks_queue_pending_rep[OF assms] by (simp add: tasks_queue_pending_tasks_def)
  then show ?thesis by (simp add: tasks_queue_execute_next_def tasks_queue_first_rep[OF assms])
qed

fun exec_list :: "('cb task \<Rightarrow> 's \<Rightarrow> 's option) \<Rightarrow> 'cb task list \<Rightarrow> 's \<Rightarrow> 's option" where
  "exec_list exec [] s = Some s"
| "exec_list exec (t # ts) s = do { s \<leftarrow> exec t s; exec_list exec ts s }"

lemma tasks_queue_delete_loop_rep:
  assumes "dlist (qmem q) (qhead q) xs" and "map (qtasks q) xs = map Some ts"
    and "itr = hd (tl (xs @ [qhead q]) @ [hd (xs @ [qhead q])])"
  shows "map_option snd (tasks_queue_delete_loop ex exec (hd (xs @ [qhead q])) itr q s)
           = (if ex then exec_list exec ts s else Some s)"
  using assms
proof (induction xs arbitrary: q ts s itr)
  case Nil
  then show ?case by (simp add: tasks_queue_delete_loop.simps)
next
  case (Cons x xs)
  then obtain t us where ts: "ts = t # us" "qtasks q x = Some t" "map (qtasks q) xs = map Some us"
    by (cases ts) auto
  have d: "dlist (qmem q) (qhead q) ([] @ x # xs)" using Cons.prems by simp
  obtain q' where q': "task_delete x q = Some q'" "dlist (qmem q') (qhead q) xs"
    "qtasks q' = (qtasks q)(x := None)" "qhead q' = qhead q"
    using task_delete_ring[OF d] by (auto simp: succeeds_iff)
  define q2 where "q2 = q'\<lparr>qlen := qlen q' - 1\<rparr>"
  have x: "x \<noteq> qhead q" "x \<notin> set xs" using Cons.prems by (auto simp: dlist_def)
  have itr: "itr = hd (xs @ [qhead q2])" using Cons.prems(3) by (cases xs) (auto simp: q2_def q')
  have m2: "map (qtasks q2) xs = map Some us" using x ts by (simp add: q2_def q'(3))
  have d2: "dlist (qmem q2) (qhead q2) xs" using q' by (simp add: q2_def)
  let ?n = "hd (tl (xs @ [qhead q2]) @ [hd (xs @ [qhead q2])])"
  have n: "next_ptr (qmem q') itr = Some ?n"
    using q'(2) itr by (cases xs; cases "tl xs") (auto simp: dlist_def q2_def q'(4))
  have IH: "map_option snd (tasks_queue_delete_loop ex exec (hd (xs @ [qhead q2])) ?n q2 s1)
      = (if ex then exec_list exec us s1 else Some s1)" for s1
    using Cons.IH[OF d2 m2 refl] .
  have n2: "next_ptr (qmem q2) itr = Some ?n" using n by (simp add: q2_def)
  show ?case
    using x ts q'(1) n IH itr
    by (subst tasks_queue_delete_loop.simps) (auto simp: q2_def Let_def map_option_bind split: Option.bind_split)
qed

lemma tasks_queue_delete_rep:
  assumes "queue_rep q ts"
  shows "tasks_queue_delete ex exec q s = (if ex then exec_list exec ts s else Some s)"
proof -
  from assms obtain xs where d: "dlist (qmem q) (qhead q) xs" and m: "map (qtasks q) xs = map Some ts"
    by (auto simp: queue_rep_def)
  let ?i = "hd (xs @ [qhead q])" and ?n = "hd (tl (xs @ [qhead q]) @ [hd (xs @ [qhead q])])"
  have "next_ptr (qmem q) (qhead q) = Some ?i" "next_ptr (qmem q) ?i = Some ?n"
    using d by (cases xs; cases "tl xs"; auto simp: dlist_def)+
  then have "tasks_queue_delete ex exec q s
      = map_option snd (tasks_queue_delete_loop ex exec ?i ?n q s)"
    by (auto simp: tasks_queue_delete_def split: Option.bind_split option.split)
      (metis (no_types, lifting) map_option_cong option.simps(9) split_pairs)?
  then show ?thesis using tasks_queue_delete_loop_rep[OF d m refl] by metis
qed

end
