(* ===== verification/Syncer.thy ===== *)
theory Syncer
  imports TaskQueue
begin

text \<open>
  The syncer of libeloop (\<open>syncer.c\<close>): requests travel through a non-blocking
  pipe to the event loop thread, which moves them into the task queue and runs
  the tasks.  The pipe is the list \<open>sy_comm\<close> of the requests in it and holds at
  most \<open>cap\<close> requests; \<open>sy_prog\<close> is the state of the program the callbacks work
  on.  A callback is a function \<open>exec\<close> on that shared state: it may write further
  requests and may call \<open>syncer_stop\<close>.
\<close>

section \<open>Operations of syncer.c\<close>

datatype 'cb request =
  REQUEST_TYPE_ADD_TASK "'cb task"
| REQUEST_TYPE_CANCEL_TASK nat

record ('cb, 's) shared =
  sy_comm :: "'cb request list"
  sy_stop :: bool
  sy_prog :: 's

record ('cb, 's) syncer =
  sy_tasks :: "'cb tasks_queue"
  sy_shared :: "('cb, 's) shared"

definition syncer_new :: "bool \<Rightarrow> bool \<Rightarrow> bool \<Rightarrow> 's \<Rightarrow> ('cb, 's) syncer option" where
  "syncer_new alloc_ok queue_ok pipe_ok p =
     (if \<not> alloc_ok then None
      else case tasks_queue_new queue_ok of
        None \<Rightarrow> None
      | Some q \<Rightarrow>
          if \<not> pipe_ok then None
          else Some \<lparr>sy_tasks = q, sy_shared = \<lparr>sy_comm = [], sy_stop = False, sy_prog = p\<rparr>\<rparr>)"

text \<open>\<open>write\<close> of one request: it fails with \<open>-1\<close> when the pipe is full.\<close>

definition request_add ::
  "nat \<Rightarrow> 'cb request \<Rightarrow> ('cb, 's) shared \<Rightarrow> int \<times> ('cb, 's) shared" where
  "request_add cap r sh =
     (if length (sy_comm sh) < cap then (1, sh\<lparr>sy_comm := sy_comm sh @ [r]\<rparr>) else (-1, sh))"

definition syncer_task_add ::
  "nat \<Rightarrow> 'cb \<Rightarrow> nat \<Rightarrow> ('cb, 's) shared \<Rightarrow> nat \<times> ('cb, 's) shared" where
  "syncer_task_add cap cb ctx sh =
     (let (n, sh) = request_add cap
            (REQUEST_TYPE_ADD_TASK \<lparr>task_cb = cb, task_ctx = ctx, task_id = ctx\<rparr>) sh
      in (if n \<le> 0 then 0 else ctx, sh))"

definition syncer_task_cancel ::
  "nat \<Rightarrow> nat \<Rightarrow> ('cb, 's) shared \<Rightarrow> int \<times> ('cb, 's) shared" where
  "syncer_task_cancel cap tid sh = request_add cap (REQUEST_TYPE_CANCEL_TASK tid) sh"

definition syncer_stop :: "('cb, 's) shared \<Rightarrow> ('cb, 's) shared" where
  "syncer_stop sh = sh\<lparr>sy_stop := True\<rparr>"

definition syncer_handle_request ::
  "bool \<Rightarrow> 'cb request \<Rightarrow> 'cb tasks_queue \<Rightarrow> 'cb tasks_queue option" where
  "syncer_handle_request ok r q =
     (case r of
        REQUEST_TYPE_ADD_TASK t \<Rightarrow> map_option snd (tasks_queue_add ok t q)
      | REQUEST_TYPE_CANCEL_TASK tid \<Rightarrow> tasks_queue_remove tid q)"

definition syncer_process_request ::
  "bool \<Rightarrow> ('cb, 's) syncer \<Rightarrow> (int \<times> ('cb, 's) syncer) option" where
  "syncer_process_request ok sy =
     (case sy_comm (sy_shared sy) of
        [] \<Rightarrow> Some (-1, sy)
      | r # rs \<Rightarrow> do {
          q \<leftarrow> syncer_handle_request ok r (sy_tasks sy);
          Some (0, sy\<lparr>sy_tasks := q, sy_shared := (sy_shared sy)\<lparr>sy_comm := rs\<rparr>\<rparr>)
        })"

text \<open>The inner loop \<open>while (!syncer_process_request(syncer));\<close>, which empties the
  pipe; every round consumes one request.\<close>

function syncer_drain :: "bool \<Rightarrow> ('cb, 's) syncer \<Rightarrow> ('cb, 's) syncer option" where
  "syncer_drain ok sy =
     (case sy_comm (sy_shared sy) of
        [] \<Rightarrow> Some sy
      | r # rs \<Rightarrow> (case syncer_process_request ok sy of
           None \<Rightarrow> None
         | Some (n, sy') \<Rightarrow> if n = 0 then syncer_drain ok sy' else Some sy'))"
  by pat_completeness auto
termination
  by (relation "measure (\<lambda>(ok, sy). length (sy_comm (sy_shared sy)))")
    (auto simp: syncer_process_request_def split: Option.bind_splits)

declare syncer_drain.simps [simp del]

partial_function (option) syncer_loop ::
  "bool \<Rightarrow> ('cb task \<Rightarrow> ('cb, 's) shared \<Rightarrow> ('cb, 's) shared option) \<Rightarrow> ('cb, 's) syncer
     \<Rightarrow> ('cb, 's) syncer option" where
  "syncer_loop ok exec sy =
     (if \<not> sy_stop (sy_shared sy) \<and> tasks_queue_pending_tasks (sy_tasks sy) \<noteq> 0
      then do {
        (tid, q, sh) \<leftarrow> tasks_queue_execute_next exec (sy_tasks sy) (sy_shared sy);
        sy \<leftarrow> syncer_drain ok (sy\<lparr>sy_tasks := q, sy_shared := sh\<rparr>);
        syncer_loop ok exec sy
      }
      else Some sy)"

declare syncer_loop.simps [code]

definition syncer_process_queue ::
  "bool \<Rightarrow> ('cb task \<Rightarrow> ('cb, 's) shared \<Rightarrow> ('cb, 's) shared option) \<Rightarrow> ('cb, 's) syncer
     \<Rightarrow> ('cb, 's) syncer option" where
  "syncer_process_queue ok exec sy = do {
     let sy = sy\<lparr>sy_shared := (sy_shared sy)\<lparr>sy_stop := False\<rparr>\<rparr>;
     (n, sy) \<leftarrow> syncer_process_request ok sy;
     syncer_loop ok exec sy
   }"

section \<open>Order of execution\<close>

text \<open>The effect of a list of requests on the abstract queue.\<close>

fun apply_requests :: "'cb request list \<Rightarrow> 'cb task list \<Rightarrow> 'cb task list" where
  "apply_requests [] ts = ts"
| "apply_requests (REQUEST_TYPE_ADD_TASK t # rs) ts = apply_requests rs (ts @ [t])"
| "apply_requests (REQUEST_TYPE_CANCEL_TASK i # rs) ts = apply_requests rs (remove_first_id i ts)"

lemma length_remove_first_id: "length (remove_first_id i ts) \<le> length ts"
  by (induction ts) auto

lemma syncer_handle_request_rep:
  assumes "queue_rep q ts" and "length ts + 1 < 2 ^ 32"
  shows "succeeds (syncer_handle_request True r q) (\<lambda>q'. queue_rep q' (apply_requests [r] ts))"
proof (cases r)
  case (REQUEST_TYPE_ADD_TASK t)
  with tasks_queue_add_rep[OF assms, of t] show ?thesis
    by (auto simp: syncer_handle_request_def succeeds_iff)
next
  case (REQUEST_TYPE_CANCEL_TASK i)
  with tasks_queue_remove_rep[OF assms(1), of i] show ?thesis
    by (simp add: syncer_handle_request_def)
qed

lemma apply_requests_Cons: "apply_requests (r # rs) ts = apply_requests rs (apply_requests [r] ts)"
  by (cases r) simp_all

lemma length_apply_request: "length (apply_requests [r] ts) \<le> length ts + 1"
  by (cases r) (auto simp: length_remove_first_id le_SucI)

lemma syncer_drain_rep:
  assumes "queue_rep (sy_tasks sy) ts"
    and "length ts + length (sy_comm (sy_shared sy)) < 2 ^ 32"
  shows "succeeds (syncer_drain True sy) (\<lambda>sy'.
           queue_rep (sy_tasks sy') (apply_requests (sy_comm (sy_shared sy)) ts)
           \<and> sy_shared sy' = (sy_shared sy)\<lparr>sy_comm := []\<rparr>)"
  using assms
proof (induction "sy_comm (sy_shared sy)" arbitrary: sy ts)
  case Nil
  then show ?case by (subst syncer_drain.simps) (auto simp: Nil.hyps[symmetric])
next
  case (Cons r rs)
  have c: "sy_comm (sy_shared sy) = r # rs" using Cons.hyps(2) by simp
  obtain q where q: "syncer_handle_request True r (sy_tasks sy) = Some q"
    "queue_rep q (apply_requests [r] ts)"
    using syncer_handle_request_rep[OF Cons.prems(1), of r] Cons.prems(2) c
    by (auto simp: succeeds_iff)
  let ?sy = "sy\<lparr>sy_tasks := q, sy_shared := (sy_shared sy)\<lparr>sy_comm := rs\<rparr>\<rparr>"
  have "length (apply_requests [r] ts) + length rs < 2 ^ 32"
    using Cons.prems(2) c length_apply_request[of r ts] by simp
  then have "succeeds (syncer_drain True ?sy) (\<lambda>sy'.
      queue_rep (sy_tasks sy') (apply_requests rs (apply_requests [r] ts))
      \<and> sy_shared sy' = (sy_shared sy)\<lparr>sy_comm := []\<rparr>)"
    using Cons.hyps(1)[of ?sy "apply_requests [r] ts"] q(2) by simp
  then show ?case using q(1) c
    by (subst syncer_drain.simps)
      (simp add: syncer_process_request_def apply_requests_Cons[of r rs])
qed

text \<open>Callbacks that neither write requests nor stop the syncer.\<close>

definition plain_exec ::
  "('cb task \<Rightarrow> 's \<Rightarrow> 's option) \<Rightarrow> 'cb task \<Rightarrow> ('cb, 's) shared \<Rightarrow> ('cb, 's) shared option" where
  "plain_exec run t sh = map_option (\<lambda>p. sh\<lparr>sy_prog := p\<rparr>) (run t (sy_prog sh))"

lemma syncer_step_rep:
  assumes "queue_rep (sy_tasks sy) (t # ts)" and "\<not> sy_stop (sy_shared sy)"
    and "run t (sy_prog (sy_shared sy)) = Some p"
    and "length ts + length (sy_comm (sy_shared sy)) < 2 ^ 32"
  shows "\<exists>sy'. syncer_loop True (plain_exec run) sy = syncer_loop True (plain_exec run) sy'
           \<and> queue_rep (sy_tasks sy') (apply_requests (sy_comm (sy_shared sy)) ts)
           \<and> sy_shared sy' = (sy_shared sy)\<lparr>sy_comm := [], sy_prog := p\<rparr>"
proof -
  let ?sh = "(sy_shared sy)\<lparr>sy_prog := p\<rparr>"
  obtain q where q: "tasks_queue_drop_first (sy_tasks sy) = Some q" "queue_rep q ts"
    using tq.drop_first_rep[OF assms(1)] by (auto simp: succeeds_iff)
  have ex: "tasks_queue_execute_next (plain_exec run) (sy_tasks sy) (sy_shared sy)
      = Some (task_id t, q, ?sh)"
    using assms(3) q(1) by (simp add: tasks_queue_execute_next_rep[OF assms(1)] plain_exec_def)
  let ?sy = "sy\<lparr>sy_tasks := q, sy_shared := ?sh\<rparr>"
  obtain sy' where d: "syncer_drain True ?sy = Some sy'"
    "queue_rep (sy_tasks sy') (apply_requests (sy_comm (sy_shared sy)) ts)"
    "sy_shared sy' = ?sh\<lparr>sy_comm := []\<rparr>"
    using syncer_drain_rep[of ?sy ts] q(2) assms(4) by (auto simp: succeeds_iff)
  have "tasks_queue_pending_tasks (sy_tasks sy) \<noteq> 0" using tq.pending_rep[OF assms(1)] by simp
  then have "syncer_loop True (plain_exec run) sy = syncer_loop True (plain_exec run) sy'"
    using assms(2) ex d(1) by (subst syncer_loop.simps) simp
  with d show ?thesis by auto
qed

lemma syncer_loop_rep:
  assumes "queue_rep (sy_tasks sy) ts" and "\<not> sy_stop (sy_shared sy)"
    and "sy_comm (sy_shared sy) = []" and "exec_list run ts (sy_prog (sy_shared sy)) = Some p"
  shows "succeeds (syncer_loop True (plain_exec run) sy) (\<lambda>sy'.
           queue_rep (sy_tasks sy') [] \<and> sy_prog (sy_shared sy') = p \<and> sy_comm (sy_shared sy') = [])"
  using assms
proof (induction ts arbitrary: sy)
  case Nil
  then have "tasks_queue_pending_tasks (sy_tasks sy) = 0" using tq.pending_rep by blast
  with Nil show ?case by (subst syncer_loop.simps) auto
next
  case (Cons t ts)
  then obtain p1 where p1: "run t (sy_prog (sy_shared sy)) = Some p1" "exec_list run ts p1 = Some p"
    by (auto split: Option.bind_splits)
  have "length ts + length (sy_comm (sy_shared sy)) < 2 ^ 32"
    using Cons.prems(1,3) by (auto simp: queue_rep_def)
  then obtain sy' where s: "syncer_loop True (plain_exec run) sy = syncer_loop True (plain_exec run) sy'"
    "queue_rep (sy_tasks sy') ts" "sy_shared sy' = (sy_shared sy)\<lparr>sy_comm := [], sy_prog := p1\<rparr>"
    using syncer_step_rep[of sy t ts run p1] Cons.prems p1(1) by auto
  then show ?case using Cons.IH[of sy'] Cons.prems p1(2) by (simp add: Cons.prems(3))
qed

lemma exec_list_append: "exec_list run (ts @ us) p = do { p \<leftarrow> exec_list run ts p; exec_list run us p }"
  by (induction ts arbitrary: p) (auto split: Option.bind_split)

lemma apply_adds: "apply_requests (map REQUEST_TYPE_ADD_TASK us) ts = ts @ us"
  by (induction us arbitrary: ts) auto

section \<open>Properties\<close>


definition log_task :: "nat task \<Rightarrow> nat list \<Rightarrow> nat list option" where
  "log_task t xs = Some (xs @ [task_cb t])"

definition waiting_syncer :: "(nat, nat list) syncer" where
  "waiting_syncer = \<lparr>sy_tasks = the (tasks_queue_new True),
     sy_shared = \<lparr>sy_comm = map REQUEST_TYPE_ADD_TASK
        [\<lparr>task_cb = 7, task_ctx = 0, task_id = 1\<rparr>, \<lparr>task_cb = 9, task_ctx = 0, task_id = 2\<rparr>],
        sy_stop = False, sy_prog = []\<rparr>\<rparr>"

lemma waiting_syncer_rep: "queue_rep (sy_tasks waiting_syncer) []"
  using queue_new_rep by (simp add: waiting_syncer_def tasks_queue_new_def)


end
