(* ===== verification/Scheduler.thy ===== *)
theory Scheduler
  imports Syncer
begin

text \<open>
  The timers of libeloop (\<open>scheduler.c\<close> and the timer half of \<open>eloop.c\<close>).  A timer
  object lives at a non-zero id (its address); using the id of a deleted timer
  gives \<open>None\<close>.  The interface the services rely on is the locale
  \<open>timer_service\<close>, interpreted here on the scheduler.
\<close>

section \<open>Operations of scheduler.c\<close>

record itimerspec =
  value_sec :: nat
  value_nsec :: nat
  interval_sec :: nat
  interval_nsec :: nat

record 'cb schd_timer =
  timeout_ms :: "32 word"
  period_ms :: "32 word"
  timer_cb :: 'cb
  system_timer :: itimerspec

record 'cb scheduler =
  timers_list :: "nat list"
  timer_mem :: "nat \<Rightarrow> 'cb schd_timer option"
  timer_brk :: nat

definition its_disarmed :: itimerspec where
  "its_disarmed = \<lparr>value_sec = 0, value_nsec = 0, interval_sec = 0, interval_nsec = 0\<rparr>"

definition its_of :: "32 word \<Rightarrow> 32 word \<Rightarrow> itimerspec" where
  "its_of timeout period =
     \<lparr>value_sec = unat timeout div 1000, value_nsec = unat (timeout mod 1000) * 1000000,
      interval_sec = unat period div 1000, interval_nsec = unat (period mod 1000) * 1000000\<rparr>"

definition its_armed :: "itimerspec \<Rightarrow> bool" where
  "its_armed i \<longleftrightarrow> value_sec i \<noteq> 0 \<or> value_nsec i \<noteq> 0"

definition scheduler_new :: "'cb scheduler" where
  "scheduler_new = \<lparr>timers_list = [], timer_mem = Map.empty, timer_brk = 1\<rparr>"

text \<open>The three flags say whether \<open>malloc\<close>, the initialisation of the thread
  attributes and \<open>timer_create\<close> succeed; \<open>0\<close> is \<open>INVALID_ID\<close>.\<close>

definition scheduler_timer_new ::
  "bool \<Rightarrow> bool \<Rightarrow> bool \<Rightarrow> 'cb \<Rightarrow> 32 word \<Rightarrow> 32 word \<Rightarrow> 'cb scheduler \<Rightarrow> nat \<times> 'cb scheduler" where
  "scheduler_timer_new alloc_ok attr_ok timer_ok cb expires period sch =
     (if \<not> alloc_ok then (0, sch)
      else if \<not> attr_ok then (0, sch)
      else if \<not> timer_ok then (0, sch)
      else
        let a = timer_brk sch;
            t = \<lparr>timeout_ms = expires, period_ms = period, timer_cb = cb, system_timer = its_disarmed\<rparr>
        in (a, sch\<lparr>timers_list := timers_list sch @ [a], timer_mem := (timer_mem sch)(a \<mapsto> t),
                   timer_brk := Suc a\<rparr>))"

definition timer_settime :: "nat \<Rightarrow> itimerspec \<Rightarrow> 'cb scheduler \<Rightarrow> 'cb scheduler option" where
  "timer_settime i its sch =
     (case timer_mem sch i of
        None \<Rightarrow> None
      | Some t \<Rightarrow> Some (sch\<lparr>timer_mem := (timer_mem sch)(i \<mapsto> t\<lparr>system_timer := its\<rparr>)\<rparr>))"

definition scheduler_timer_start :: "nat \<Rightarrow> 'cb scheduler \<Rightarrow> 'cb scheduler option" where
  "scheduler_timer_start i sch =
     (case timer_mem sch i of
        None \<Rightarrow> None
      | Some t \<Rightarrow> timer_settime i (its_of (timeout_ms t) (period_ms t)) sch)"

definition scheduler_timer_stop :: "nat \<Rightarrow> 'cb scheduler \<Rightarrow> 'cb scheduler option" where
  "scheduler_timer_stop i sch = timer_settime i its_disarmed sch"

definition scheduler_timer_delete :: "nat \<Rightarrow> 'cb scheduler \<Rightarrow> 'cb scheduler option" where
  "scheduler_timer_delete i sch =
     (if i \<in> set (timers_list sch) \<and> timer_mem sch i \<noteq> None
      then Some (sch\<lparr>timers_list := remove1 i (timers_list sch), timer_mem := (timer_mem sch)(i := None)\<rparr>)
      else None)"

text \<open>Expiry of a system timer: a one-shot timer is disarmed, a periodic one is
  re-armed, and the notification thread runs \<open>schd_timer_handle_timeout\<close>, which
  queues the task of the timer.\<close>

definition timer_expire :: "nat \<Rightarrow> 'cb scheduler \<Rightarrow> 'cb scheduler option" where
  "timer_expire i sch =
     (case timer_mem sch i of
        None \<Rightarrow> None
      | Some t \<Rightarrow>
          if \<not> its_armed (system_timer t) then None
          else timer_settime i ((system_timer t)\<lparr>value_sec := interval_sec (system_timer t),
                                                  value_nsec := interval_nsec (system_timer t)\<rparr>) sch)"

definition schd_timer_handle_timeout ::
  "nat \<Rightarrow> 'k \<Rightarrow> nat \<Rightarrow> ('k, 's) shared \<Rightarrow> ('k, 's) shared" where
  "schd_timer_handle_timeout cap sync_handler i sh = snd (syncer_task_add cap sync_handler i sh)"

text \<open>\<open>schd_timer_sync_handler\<close>: the callback to run for the timer at address \<open>i\<close>.\<close>

definition schd_timer_sync_handler :: "nat \<Rightarrow> 'cb scheduler \<Rightarrow> 'cb option" where
  "schd_timer_sync_handler i sch = map_option timer_cb (timer_mem sch i)"

fun scheduler_delete_all :: "nat list \<Rightarrow> 'cb scheduler \<Rightarrow> 'cb scheduler option" where
  "scheduler_delete_all [] sch = Some sch"
| "scheduler_delete_all (i # js) sch = do { sch \<leftarrow> scheduler_timer_delete i sch; scheduler_delete_all js sch }"

definition scheduler_delete :: "'cb scheduler \<Rightarrow> 'cb scheduler option" where
  "scheduler_delete sch = scheduler_delete_all (timers_list sch) sch"

section \<open>The timer interface\<close>

locale timer_service =
  fixes inv :: "'s \<Rightarrow> bool"
    and alive :: "'s \<Rightarrow> nat \<Rightarrow> bool"
    and add :: "'cb \<Rightarrow> 32 word \<Rightarrow> 32 word \<Rightarrow> 's \<Rightarrow> nat \<times> 's"
    and start :: "nat \<Rightarrow> 's \<Rightarrow> 's option"
    and stop :: "nat \<Rightarrow> 's \<Rightarrow> 's option"
    and delete :: "nat \<Rightarrow> 's \<Rightarrow> 's option"
  assumes add_spec: "inv s \<Longrightarrow> add cb e p s = (i, s') \<Longrightarrow>
        inv s' \<and> \<not> alive s i \<and> (\<forall>j. alive s' j \<longleftrightarrow> j = i \<or> alive s j)"
    and start_spec: "inv s \<Longrightarrow> alive s i \<Longrightarrow> succeeds (start i s) (\<lambda>s'. inv s' \<and> alive s' = alive s)"
    and stop_spec: "inv s \<Longrightarrow> alive s i \<Longrightarrow> succeeds (stop i s) (\<lambda>s'. inv s' \<and> alive s' = alive s)"
    and delete_spec: "inv s \<Longrightarrow> alive s i \<Longrightarrow>
        succeeds (delete i s) (\<lambda>s'. inv s' \<and> (\<forall>j. alive s' j \<longleftrightarrow> alive s j \<and> j \<noteq> i))"
begin

text \<open>The two call patterns of the services: re-arming a timer and disposing of it.\<close>

lemma restart:
  assumes "inv s" and "alive s i"
  shows "succeeds (do { s \<leftarrow> stop i s; start i s }) (\<lambda>s'. inv s' \<and> alive s' = alive s)"
proof -
  obtain s1 where s1: "stop i s = Some s1" "inv s1" "alive s1 = alive s"
    using stop_spec[OF assms] by (auto simp: succeeds_iff)
  then have "succeeds (start i s1) (\<lambda>s'. inv s' \<and> alive s' = alive s1)"
    using assms(2) by (intro start_spec) auto
  then show ?thesis by (simp add: s1)
qed

lemma dispose:
  assumes "inv s" and "alive s i"
  shows "succeeds (do { s \<leftarrow> stop i s; delete i s })
           (\<lambda>s'. inv s' \<and> (\<forall>j. alive s' j \<longleftrightarrow> alive s j \<and> j \<noteq> i))"
proof -
  obtain s1 where s1: "stop i s = Some s1" "inv s1" "alive s1 = alive s"
    using stop_spec[OF assms] by (auto simp: succeeds_iff)
  then have "succeeds (delete i s1) (\<lambda>s'. inv s' \<and> (\<forall>j. alive s' j \<longleftrightarrow> alive s1 j \<and> j \<noteq> i))"
    using assms(2) by (intro delete_spec) auto
  then show ?thesis by (simp add: s1)
qed

lemma add_start:
  assumes "inv s" and "add cb e p s = (i, s1)"
  shows "succeeds (start i s1) (\<lambda>s'. inv s' \<and> (\<forall>j. alive s' j \<longleftrightarrow> j = i \<or> alive s j))"
proof -
  have "inv s1" "alive s1 i" "\<forall>j. alive s1 j \<longleftrightarrow> j = i \<or> alive s j"
    using add_spec[OF assms] by auto
  then show ?thesis using start_spec[of s1 i] by (auto simp: succeeds_iff)
qed

end

section \<open>The scheduler implements the interface\<close>

definition sched_inv :: "'cb scheduler \<Rightarrow> bool" where
  "sched_inv sch \<longleftrightarrow> distinct (timers_list sch) \<and> set (timers_list sch) = dom (timer_mem sch)
     \<and> (\<forall>i \<in> set (timers_list sch). 0 < i \<and> i < timer_brk sch) \<and> 0 < timer_brk sch"

definition timer_alive :: "'cb scheduler \<Rightarrow> nat \<Rightarrow> bool" where
  "timer_alive sch i \<longleftrightarrow> timer_mem sch i \<noteq> None"

definition timer_add_ok :: "'cb \<Rightarrow> 32 word \<Rightarrow> 32 word \<Rightarrow> 'cb scheduler \<Rightarrow> nat \<times> 'cb scheduler" where
  "timer_add_ok = scheduler_timer_new True True True"

lemma sched_inv_new: "sched_inv scheduler_new"
  by (simp add: sched_inv_def scheduler_new_def)

lemma timer_settime_spec:
  assumes "sched_inv sch" and "timer_mem sch i = Some t"
  shows "succeeds (timer_settime i its sch) (\<lambda>s. sched_inv s \<and> timer_alive s = timer_alive sch
           \<and> timer_mem s = (timer_mem sch)(i \<mapsto> t\<lparr>system_timer := its\<rparr>)
           \<and> timers_list s = timers_list sch)"
  using assms by (auto simp: timer_settime_def sched_inv_def timer_alive_def fun_eq_iff)

lemma timer_settime_alive:
  "sched_inv sch \<Longrightarrow> timer_alive sch i \<Longrightarrow>
   succeeds (timer_settime i its sch) (\<lambda>s. sched_inv s \<and> timer_alive s = timer_alive sch)"
  using timer_settime_spec[of sch i _ its] by (auto simp: timer_alive_def[of sch i] succeeds_iff)

interpretation tm: timer_service sched_inv timer_alive timer_add_ok
  scheduler_timer_start scheduler_timer_stop scheduler_timer_delete
proof
  fix sch s' :: "'a scheduler" and cb e p and i :: nat
  show "sched_inv s' \<and> \<not> timer_alive sch i \<and> (\<forall>j. timer_alive s' j \<longleftrightarrow> j = i \<or> timer_alive sch j)"
    if "sched_inv sch" "timer_add_ok cb e p sch = (i, s')"
    using that by (auto simp: timer_add_ok_def scheduler_timer_new_def sched_inv_def timer_alive_def
        Let_def less_Suc_eq)
  show "succeeds (scheduler_timer_start i sch) (\<lambda>s. sched_inv s \<and> timer_alive s = timer_alive sch)"
    if "sched_inv sch" "timer_alive sch i"
    using that timer_settime_alive[OF that] by (auto simp: scheduler_timer_start_def timer_alive_def[of sch i])
  show "succeeds (scheduler_timer_stop i sch) (\<lambda>s. sched_inv s \<and> timer_alive s = timer_alive sch)"
    if "sched_inv sch" "timer_alive sch i"
    using that timer_settime_alive[OF that] by (auto simp: scheduler_timer_stop_def timer_alive_def[of sch i])
  show "succeeds (scheduler_timer_delete i sch)
      (\<lambda>s. sched_inv s \<and> (\<forall>j. timer_alive s j \<longleftrightarrow> timer_alive sch j \<and> j \<noteq> i))"
    if "sched_inv sch" "timer_alive sch i"
    using that by (auto simp: scheduler_timer_delete_def sched_inv_def timer_alive_def)
qed

section \<open>Arming, expiry and tear-down\<close>

lemma its_of_value:
  "value_sec (its_of t p) * 1000000000 + value_nsec (its_of t p) = unat t * 1000000
   \<and> value_nsec (its_of t p) < 1000000000"
proof -
  define n m where "n = unat t div 1000" and "m = unat t mod 1000"
  have "unat (t mod 1000) = m" by (simp add: unat_mod m_def)
  moreover have "unat t = n * 1000 + m" "m < 1000" by (simp_all add: n_def m_def)
  ultimately show ?thesis by (simp add: its_of_def n_def[symmetric])
qed

lemma its_of_armed: "its_armed (its_of t p) \<longleftrightarrow> t \<noteq> 0"
proof -
  have "value_sec (its_of t p) * 1000000000 + value_nsec (its_of t p) = unat t * 1000000"
    using its_of_value by blast
  then have "its_armed (its_of t p) \<longleftrightarrow> unat t \<noteq> 0"
    by (auto simp: its_armed_def)
  then show ?thesis by (simp add: unat_eq_zero)
qed

lemma scheduler_delete_all_spec:
  assumes "sched_inv sch"
  shows "succeeds (scheduler_delete_all (timers_list sch) sch)
           (\<lambda>s. timers_list s = [] \<and> timer_mem s = Map.empty)"
  using assms
proof (induction "timers_list sch" arbitrary: sch)
  case Nil
  then show ?case by (auto simp: sched_inv_def Nil.hyps[symmetric])
next
  case (Cons i js)
  then have al: "timer_alive sch i" by (auto simp: sched_inv_def timer_alive_def Cons.hyps(2)[symmetric])
  obtain s where s: "scheduler_timer_delete i sch = Some s" "sched_inv s"
    using tm.delete_spec[OF Cons.prems al] by (auto simp: succeeds_iff)
  have "js = timers_list s"
    using s(1) Cons.hyps(2)[symmetric] by (auto simp: scheduler_timer_delete_def split: if_splits)
  with Cons.hyps(1)[OF this s(2)] s(1) Cons.hyps(2)[symmetric] show ?case by simp
qed

end
