(* ===== verification/Eloop.thy ===== *)
theory Eloop
  imports Scheduler
begin

text \<open>
  File descriptor events (\<open>fd.c\<close>) and the event loop itself (\<open>eloop.c\<close>).  The
  kernel side of epoll is a parameter: the set of registrations is kept in
  \<open>fd_epoll\<close> and the events a call of \<open>epoll_wait\<close> returns are an argument.  The
  loop ties the syncer, the timers and the descriptors together: a task in the
  queue is either the handler of a timer or of a descriptor event, both of which
  dereference the object their context points to.
\<close>

section \<open>Operations of fd.c\<close>

record 'f fd_data =
  fd_fd :: int
  fd_cb :: 'f

record 'f fd_handler =
  fd_list :: "nat list"
  fd_mem :: "nat \<Rightarrow> 'f fd_data option"
  fd_epoll :: "(int \<times> nat) list"
  fd_events :: "nat \<Rightarrow> (nat \<times> 32 word) option"
  fd_brk :: nat
  fd_max_events :: nat

definition EPOLLIN :: "32 word" where "EPOLLIN = 0x001"
definition EPOLLOUT :: "32 word" where "EPOLLOUT = 0x004"
definition EPOLLERR :: "32 word" where "EPOLLERR = 0x008"
definition EPOLLHUP :: "32 word" where "EPOLLHUP = 0x010"
definition EPOLLRDHUP :: "32 word" where "EPOLLRDHUP = 0x2000"

definition ELOOP_FD_EVENT_ERROR :: "32 word" where "ELOOP_FD_EVENT_ERROR = 0x01"
definition ELOOP_FD_EVENT_HUP :: "32 word" where "ELOOP_FD_EVENT_HUP = 0x02"
definition ELOOP_FD_EVENT_READ :: "32 word" where "ELOOP_FD_EVENT_READ = 0x04"
definition ELOOP_FD_EVENT_WRITE :: "32 word" where "ELOOP_FD_EVENT_WRITE = 0x08"

definition fd_handler_new :: "bool \<Rightarrow> bool \<Rightarrow> bool \<Rightarrow> nat \<Rightarrow> 'f fd_handler option" where
  "fd_handler_new alloc_ok buf_ok epoll_ok max_events =
     (if alloc_ok \<and> buf_ok \<and> epoll_ok
      then Some \<lparr>fd_list = [], fd_mem = Map.empty, fd_epoll = [], fd_events = Map.empty, fd_brk = 1,
                 fd_max_events = max_events\<rparr>
      else None)"

definition fd_data_new :: "int \<Rightarrow> 'f \<Rightarrow> 'f fd_handler \<Rightarrow> nat \<times> 'f fd_handler" where
  "fd_data_new fd cb hn =
     (let a = fd_brk hn in
      (a, hn\<lparr>fd_list := fd_list hn @ [a], fd_mem := (fd_mem hn)(a \<mapsto> \<lparr>fd_fd = fd, fd_cb = cb\<rparr>),
             fd_brk := Suc a\<rparr>))"

definition fd_data_delete :: "nat \<Rightarrow> 'f fd_handler \<Rightarrow> 'f fd_handler option" where
  "fd_data_delete a hn =
     (if a \<in> set (fd_list hn) \<and> fd_mem hn a \<noteq> None
      then Some (hn\<lparr>fd_list := remove1 a (fd_list hn), fd_mem := (fd_mem hn)(a := None)\<rparr>)
      else None)"

text \<open>\<open>epoll_ctl\<close> refuses a descriptor that is already registered; \<open>ctl_ok\<close> covers its
  other failures.\<close>

definition fd_handler_add_fd ::
  "bool \<Rightarrow> bool \<Rightarrow> int \<Rightarrow> 'f \<Rightarrow> 'f fd_handler \<Rightarrow> (nat \<times> 'f fd_handler) option" where
  "fd_handler_add_fd alloc_ok ctl_ok fd cb hn =
     (if \<not> alloc_ok then Some (0, hn)
      else
        let (a, hn) = fd_data_new fd cb hn in
        if ctl_ok \<and> fd \<notin> fst ` set (fd_epoll hn)
        then Some (a, hn\<lparr>fd_epoll := (fd, a) # fd_epoll hn\<rparr>)
        else do { hn \<leftarrow> fd_data_delete a hn; Some (0, hn) })"

definition fd_handler_remove_fd :: "nat \<Rightarrow> 'f fd_handler \<Rightarrow> 'f fd_handler option" where
  "fd_handler_remove_fd a hn = do {
     d \<leftarrow> fd_mem hn a;
     fd_data_delete a (hn\<lparr>fd_epoll := filter (\<lambda>(f, _). f \<noteq> fd_fd d) (fd_epoll hn)\<rparr>)
   }"

fun fd_remove_all :: "nat list \<Rightarrow> 'f fd_handler \<Rightarrow> 'f fd_handler option" where
  "fd_remove_all [] hn = Some hn"
| "fd_remove_all (a # as) hn = do { hn \<leftarrow> fd_handler_remove_fd a hn; fd_remove_all as hn }"

definition fd_handler_delete :: "'f fd_handler \<Rightarrow> 'f fd_handler option" where
  "fd_handler_delete hn = fd_remove_all (fd_list hn) hn"

definition epoll_event_to_fd_event :: "32 word \<Rightarrow> 32 word" where
  "epoll_event_to_fd_event ev =
     (if has_flag ev EPOLLERR then ELOOP_FD_EVENT_ERROR
      else if has_flag ev EPOLLHUP \<or> has_flag ev EPOLLRDHUP then ELOOP_FD_EVENT_HUP
      else
        let m = (if has_flag ev EPOLLIN then set_flag 0 ELOOP_FD_EVENT_READ else 0) in
        if has_flag ev EPOLLOUT then set_flag m ELOOP_FD_EVENT_WRITE else m)"

section \<open>The loop\<close>

datatype task_fn = SCHD_TIMER_SYNC | FD_SYNC_EVENT

record ('cb, 'f, 's) eloop =
  el_sched :: "'cb scheduler"
  el_fds :: "'f fd_handler"
  el_user :: 's

text \<open>\<open>fd_handler_handle_events\<close>: one context object and one task per event; an
  event whose context cannot be allocated is dropped.\<close>

fun handle_events ::
  "nat \<Rightarrow> bool \<Rightarrow> (nat \<times> 32 word) list \<Rightarrow> (task_fn, ('cb, 'f, 's) eloop) shared
     \<Rightarrow> (task_fn, ('cb, 'f, 's) eloop) shared" where
  "handle_events cap alloc_ok [] sh = sh"
| "handle_events cap alloc_ok ((d, ev) # evs) sh =
     (if alloc_ok
      then
        let hn = el_fds (sy_prog sh); a = fd_brk hn;
            hn = hn\<lparr>fd_events := (fd_events hn)(a \<mapsto> (d, epoll_event_to_fd_event ev)), fd_brk := Suc a\<rparr>;
            sh = sh\<lparr>sy_prog := (sy_prog sh)\<lparr>el_fds := hn\<rparr>\<rparr>
        in handle_events cap alloc_ok evs (snd (syncer_task_add cap FD_SYNC_EVENT a sh))
      else handle_events cap alloc_ok evs sh)"

definition fd_handler_handle_events ::
  "nat \<Rightarrow> bool \<Rightarrow> (nat \<times> 32 word) list \<Rightarrow> (task_fn, ('cb, 'f, 's) eloop) shared
     \<Rightarrow> (task_fn, ('cb, 'f, 's) eloop) shared" where
  "fd_handler_handle_events cap alloc_ok evs sh =
     handle_events cap alloc_ok (take (fd_max_events (el_fds (sy_prog sh))) evs) sh"

text \<open>\<open>fd_handler_sync_event\<close>: the callback and event mask of the context at \<open>a\<close>, and
  the handler with that context freed.\<close>

definition fd_handler_sync_event ::
  "nat \<Rightarrow> 'f fd_handler \<Rightarrow> ('f \<times> 32 word \<times> 'f fd_handler) option" where
  "fd_handler_sync_event a hn = do {
     (d, mask) \<leftarrow> fd_events hn a;
     dat \<leftarrow> fd_mem hn d;
     Some (fd_cb dat, mask, hn\<lparr>fd_events := (fd_events hn)(a := None)\<rparr>)
   }"

text \<open>Execution of a queued task.  \<open>on_timer\<close> and \<open>on_fd\<close> are the callbacks of the
  program that uses the loop.\<close>

definition eloop_exec ::
  "('cb \<Rightarrow> (task_fn, ('cb, 'f, 's) eloop) shared \<Rightarrow> (task_fn, ('cb, 'f, 's) eloop) shared option)
   \<Rightarrow> ('f \<Rightarrow> 32 word \<Rightarrow> (task_fn, ('cb, 'f, 's) eloop) shared
        \<Rightarrow> (task_fn, ('cb, 'f, 's) eloop) shared option)
   \<Rightarrow> task_fn task \<Rightarrow> (task_fn, ('cb, 'f, 's) eloop) shared
   \<Rightarrow> (task_fn, ('cb, 'f, 's) eloop) shared option" where
  "eloop_exec on_timer on_fd t sh =
     (case task_cb t of
        SCHD_TIMER_SYNC \<Rightarrow> do {
          cb \<leftarrow> schd_timer_sync_handler (task_ctx t) (el_sched (sy_prog sh));
          on_timer cb sh
        }
      | FD_SYNC_EVENT \<Rightarrow> do {
          (f, mask, hn) \<leftarrow> fd_handler_sync_event (task_ctx t) (el_fds (sy_prog sh));
          on_fd f mask (sh\<lparr>sy_prog := (sy_prog sh)\<lparr>el_fds := hn\<rparr>\<rparr>)
        })"

definition eloop_init ::
  "(bool \<times> bool \<times> bool) \<Rightarrow> bool \<Rightarrow> (bool \<times> bool \<times> bool) \<Rightarrow> 's
     \<Rightarrow> (task_fn, ('cb, 'f, 's) eloop) syncer option" where
  "eloop_init sync_ok sched_ok fd_ok user =
     (let (a, b, c) = sync_ok; (d, e, f) = fd_ok in
      case fd_handler_new d e f 512 of
        None \<Rightarrow> None
      | Some hn \<Rightarrow>
          if sched_ok
          then syncer_new a b c \<lparr>el_sched = scheduler_new, el_fds = hn, el_user = user\<rparr>
          else None)"

text \<open>One iteration of \<open>eloop_run\<close>.\<close>

definition eloop_iterate ::
  "nat \<Rightarrow> bool \<Rightarrow> (nat \<times> 32 word) list
   \<Rightarrow> (task_fn task \<Rightarrow> (task_fn, ('cb, 'f, 's) eloop) shared
        \<Rightarrow> (task_fn, ('cb, 'f, 's) eloop) shared option)
   \<Rightarrow> (task_fn, ('cb, 'f, 's) eloop) syncer \<Rightarrow> (task_fn, ('cb, 'f, 's) eloop) syncer option" where
  "eloop_iterate cap alloc_ok evs exec sy =
     syncer_process_queue alloc_ok exec
       (sy\<lparr>sy_shared := fd_handler_handle_events cap alloc_ok evs (sy_shared sy)\<rparr>)"

section \<open>Descriptor registrations\<close>

definition fd_inv :: "'f fd_handler \<Rightarrow> bool" where
  "fd_inv hn \<longleftrightarrow> distinct (fd_list hn) \<and> set (fd_list hn) = dom (fd_mem hn)
     \<and> (\<forall>a \<in> dom (fd_mem hn). 0 < a \<and> a < fd_brk hn) \<and> 0 < fd_brk hn
     \<and> distinct (map fst (fd_epoll hn))
     \<and> set (fd_epoll hn) = {(fd_fd d, a) | a d. fd_mem hn a = Some d}"

lemma fd_inv_new: "fd_handler_new x y z n = Some hn \<Longrightarrow> fd_inv hn"
  by (auto simp: fd_handler_new_def fd_inv_def split: if_splits)

lemma fd_add_inv:
  assumes "fd_inv hn"
  shows "succeeds (fd_handler_add_fd ok1 ok2 fd cb hn) (\<lambda>(a, hn'). fd_inv hn'
           \<and> (a = 0 \<longrightarrow> fd_mem hn' = fd_mem hn)
           \<and> (a \<noteq> 0 \<longrightarrow> fd_mem hn a = None \<and> fd_mem hn' = (fd_mem hn)(a \<mapsto> \<lparr>fd_fd = fd, fd_cb = cb\<rparr>)
                \<and> fd \<notin> fst ` set (fd_epoll hn)))"
proof (cases "ok1 \<and> ok2 \<and> fd \<notin> fst ` set (fd_epoll hn)")
  case True
  have fr: "fd_brk hn \<notin> dom (fd_mem hn)" using assms by (auto simp: fd_inv_def)
  have "{(fd_fd d, a) |a d. ((fd_mem hn)(fd_brk hn \<mapsto> \<lparr>fd_fd = fd, fd_cb = cb\<rparr>)) a = Some d}
      = insert (fd, fd_brk hn) {(fd_fd d, a) | a d. fd_mem hn a = Some d}"
    using fr by auto (metis option.simps(3))
  with True fr assms show ?thesis
    by (auto simp: fd_handler_add_fd_def fd_data_new_def fd_inv_def Let_def less_Suc_eq)
next
  case False
  have fr: "fd_brk hn \<notin> dom (fd_mem hn)" using assms by (auto simp: fd_inv_def)
  have up: "(fd_mem hn)(fd_brk hn := None) = fd_mem hn" using fr by (auto simp: fun_eq_iff)
  have "fd_brk hn \<notin> set (fd_list hn)" using fr assms by (simp add: fd_inv_def)
  with False fr assms up show ?thesis
    by (auto simp: fd_handler_add_fd_def fd_data_new_def fd_data_delete_def fd_inv_def Let_def
        less_Suc_eq remove1_append)
qed

lemma fd_remove_inv:
  assumes inv: "fd_inv hn" and d: "fd_mem hn a = Some d"
  shows "succeeds (fd_handler_remove_fd a hn) (\<lambda>hn'. fd_inv hn' \<and> fd_mem hn' = (fd_mem hn)(a := None)
           \<and> fd_list hn' = remove1 a (fd_list hn))"
proof -
  have ep: "set (fd_epoll hn) = {(fd_fd d, a) | a d. fd_mem hn a = Some d}"
    using inv by (simp add: fd_inv_def)
  then have in_ep: "(fd_fd d, a) \<in> set (fd_epoll hn)" using d by blast
  have uniq: "b = a" if "fd_mem hn b = Some e" "fd_fd e = fd_fd d" for b e
  proof -
    have "(fd_fd d, b) \<in> set (fd_epoll hn)" using that inv by (auto simp: fd_inv_def)
    moreover have "distinct (map fst (fd_epoll hn))" using inv by (simp add: fd_inv_def)
    ultimately show ?thesis using in_ep by (metis eq_key_imp_eq_value)
  qed
  have "set (filter (\<lambda>(f, _). f \<noteq> fd_fd d) (fd_epoll hn))
      = {(fd_fd e, b) | b e. ((fd_mem hn)(a := None)) b = Some e}"
  proof (rule set_eqI, rule iffI)
    fix p assume "p \<in> set (filter (\<lambda>(f, _). f \<noteq> fd_fd d) (fd_epoll hn))"
    then obtain b e where "p = (fd_fd e, b)" "fd_mem hn b = Some e" "fd_fd e \<noteq> fd_fd d"
      using ep by auto
    then show "p \<in> {(fd_fd e, b) | b e. ((fd_mem hn)(a := None)) b = Some e}" using d by auto
  next
    fix p assume "p \<in> {(fd_fd e, b) | b e. ((fd_mem hn)(a := None)) b = Some e}"
    then obtain b e where p: "p = (fd_fd e, b)" "fd_mem hn b = Some e" "b \<noteq> a"
      by (auto split: if_splits)
    then have "fd_fd e \<noteq> fd_fd d" using uniq by blast
    moreover have "p \<in> set (fd_epoll hn)" using ep p by blast
    ultimately show "p \<in> set (filter (\<lambda>(f, _). f \<noteq> fd_fd d) (fd_epoll hn))" using p by simp
  qed
  moreover have "distinct (map fst (filter (\<lambda>(f, _). f \<noteq> fd_fd d) (fd_epoll hn)))"
    using inv by (simp add: fd_inv_def distinct_map_filter)
  ultimately show ?thesis
    using inv d by (auto simp: fd_handler_remove_fd_def fd_data_delete_def fd_inv_def)
qed

section \<open>Properties\<close>

text \<open>Starting a live timer programs the system timer with exactly the requested
  number of milliseconds, with a valid nanosecond field; the timer is armed
  precisely when that number is not zero, and no other timer changes.\<close>

theorem scheduler_timer_start_arms:
  assumes "sched_inv sch" and "timer_mem sch i = Some t"
  shows "succeeds (scheduler_timer_start i sch) (\<lambda>sch'. \<exists>its.
           timer_mem sch' = (timer_mem sch)(i \<mapsto> t\<lparr>system_timer := its\<rparr>) \<and> sched_inv sch'
           \<and> value_sec its * 1000000000 + value_nsec its = unat (timeout_ms t) * 1000000
           \<and> value_nsec its < 1000000000 \<and> (its_armed its \<longleftrightarrow> timeout_ms t \<noteq> 0))"
  using timer_settime_spec[OF assms, of "its_of (timeout_ms t) (period_ms t)"] assms(2)
    its_of_value[of "timeout_ms t" "period_ms t"] its_of_armed[of "timeout_ms t" "period_ms t"]
  by (auto simp: scheduler_timer_start_def elim!: succeeds_mono)

definition one_timer :: "nat scheduler" where
  "one_timer = snd (timer_add_ok 5 1500 0 scheduler_new)"

lemma one_timer_ok: "sched_inv one_timer"
  by (simp add: one_timer_def timer_add_ok_def scheduler_timer_new_def scheduler_new_def sched_inv_def
      Let_def)

lemma one_timer_mem: "timer_mem one_timer 1
    = Some \<lparr>timeout_ms = 1500, period_ms = 0, timer_cb = 5, system_timer = its_disarmed\<rparr>"
  by (simp add: one_timer_def timer_add_ok_def scheduler_timer_new_def scheduler_new_def Let_def)

lemma scheduler_timer_start_arms_witness:
  "succeeds (scheduler_timer_start 1 one_timer) (\<lambda>sch'. \<exists>its.
     timer_mem sch' = (timer_mem one_timer)(1 \<mapsto> \<lparr>timeout_ms = 1500, period_ms = 0, timer_cb = 5,
        system_timer = its\<rparr>) \<and> sched_inv sch'
     \<and> value_sec its * 1000000000 + value_nsec its = 1500000000
     \<and> value_nsec its < 1000000000 \<and> its_armed its)"
  using scheduler_timer_start_arms[OF one_timer_ok one_timer_mem] by simp

text \<open>A timer that is deleted after it expired but before the loop ran its task is
  a use after free: the queued task still holds the address of the timer, and
  executing it crashes the loop.\<close>

theorem deleted_timer_task_crashes:
  assumes "sched_inv sch" and "timer_alive sch i" and "length (sy_comm sh) < cap"
    and "el_sched (sy_prog sh) = sch"
  shows "\<exists>sch'. scheduler_timer_delete i sch = Some sch' \<and>
           (let sh1 = schd_timer_handle_timeout cap SCHD_TIMER_SYNC i sh;
                sh2 = sh1\<lparr>sy_prog := (sy_prog sh1)\<lparr>el_sched := sch'\<rparr>\<rparr>
            in sy_comm sh2 = sy_comm sh @ [REQUEST_TYPE_ADD_TASK
                 \<lparr>task_cb = SCHD_TIMER_SYNC, task_ctx = i, task_id = i\<rparr>]
               \<and> eloop_exec on_timer on_fd \<lparr>task_cb = SCHD_TIMER_SYNC, task_ctx = i, task_id = i\<rparr> sh2 = None)"
proof -
  obtain sch' where d: "scheduler_timer_delete i sch = Some sch'" "\<not> timer_alive sch' i"
    using tm.delete_spec[OF assms(1,2)] by (auto simp: succeeds_iff)
  then have "timer_mem sch' i = None" by (simp add: timer_alive_def)
  then show ?thesis using assms(3) d(1)
    by (simp add: schd_timer_handle_timeout_def syncer_task_add_def request_add_def eloop_exec_def
        schd_timer_sync_handler_def)
qed

definition idle_loop :: "(task_fn, (nat, nat, unit) eloop) shared" where
  "idle_loop = \<lparr>sy_comm = [], sy_stop = False, sy_prog = \<lparr>el_sched = one_timer,
     el_fds = the (fd_handler_new True True True 512), el_user = ()\<rparr>\<rparr>"

lemma deleted_timer_task_crashes_witness:
  "\<exists>sch'. scheduler_timer_delete 1 one_timer = Some sch' \<and>
     (let sh1 = schd_timer_handle_timeout 2048 SCHD_TIMER_SYNC 1 idle_loop;
          sh2 = sh1\<lparr>sy_prog := (sy_prog sh1)\<lparr>el_sched := sch'\<rparr>\<rparr>
      in sy_comm sh2 = [REQUEST_TYPE_ADD_TASK \<lparr>task_cb = SCHD_TIMER_SYNC, task_ctx = 1, task_id = 1\<rparr>]
         \<and> eloop_exec (\<lambda>_ sh. Some sh) (\<lambda>_ _ sh. Some sh)
             \<lparr>task_cb = SCHD_TIMER_SYNC, task_ctx = 1, task_id = 1\<rparr> sh2 = None)"
  using deleted_timer_task_crashes[OF one_timer_ok, of 1 idle_loop 2048] one_timer_mem
  by (simp add: timer_alive_def idle_loop_def)

text \<open>C14. Descriptor registrations stay consistent: after any sequence of additions and
  removals of live registrations the handler is in a state where the live
  objects, the list and the epoll registrations agree and no descriptor is
  registered twice.\<close>

inductive fd_reachable :: "'f fd_handler \<Rightarrow> bool" where
  fd_new: "fd_handler_new x y z n = Some hn \<Longrightarrow> fd_reachable hn"
| fd_add: "fd_reachable hn \<Longrightarrow> fd_handler_add_fd x y fd cb hn = Some (a, hn') \<Longrightarrow> fd_reachable hn'"
| fd_remove: "fd_reachable hn \<Longrightarrow> a \<in> set (fd_list hn) \<Longrightarrow> fd_handler_remove_fd a hn = Some hn' \<Longrightarrow> fd_reachable hn'"

theorem fd_reachable_consistent:
  assumes "fd_reachable hn"
  shows "distinct (map fst (fd_epoll hn)) \<and> set (fd_epoll hn) = {(fd_fd d, a) | a d. fd_mem hn a = Some d}
    \<and> set (fd_list hn) = dom (fd_mem hn) \<and> list_all (\<lambda>a. fd_handler_remove_fd a hn \<noteq> None) (fd_list hn)"
proof -
  have inv: "fd_inv hn" using assms
  proof (induction rule: fd_reachable.induct)
    case (fd_add hn x y fd cb a hn')
    then show ?case using fd_add_inv[of hn x y fd cb] by simp
  next
    case (fd_remove hn a hn')
    then obtain d where "fd_mem hn a = Some d" by (auto simp: fd_inv_def)
    with fd_remove show ?case using fd_remove_inv[of hn a d] by simp
  qed (rule fd_inv_new)
  have "fd_handler_remove_fd a hn \<noteq> None" if a: "a \<in> set (fd_list hn)" for a
  proof -
    obtain d where "fd_mem hn a = Some d" using inv a by (auto simp: fd_inv_def)
    then show ?thesis using fd_remove_inv[OF inv] by (auto simp: succeeds_iff)
  qed
  with inv show ?thesis by (simp add: fd_inv_def list_all_iff)
qed

definition no_fds :: "nat fd_handler" where
  "no_fds = the (fd_handler_new True True True 512)"

definition one_fd :: "nat fd_handler" where
  "one_fd = snd (the (fd_handler_add_fd True True 8 0 no_fds))"

definition two_fds :: "nat fd_handler" where
  "two_fds = snd (the (fd_handler_add_fd True True 9 1 one_fd))"

lemma two_fds_reachable: "fd_reachable two_fds"
proof (rule fd_add)
  show "fd_reachable one_fd"
  proof (rule fd_add)
    show "fd_reachable no_fds"
      by (rule fd_new[of True True True 512]) (simp add: no_fds_def fd_handler_new_def)
    show "fd_handler_add_fd True True 8 0 no_fds = Some (1, one_fd)"
      by (simp add: one_fd_def no_fds_def fd_handler_new_def fd_handler_add_fd_def fd_data_new_def)
  qed
  show "fd_handler_add_fd True True 9 1 one_fd = Some (2, two_fds)"
    by (simp add: two_fds_def one_fd_def no_fds_def fd_handler_new_def fd_handler_add_fd_def
        fd_data_new_def)
qed

lemma fd_reachable_consistent_witness:
  "distinct (map fst (fd_epoll two_fds))
   \<and> set (fd_epoll two_fds) = {(fd_fd d, a) | a d. fd_mem two_fds a = Some d}
   \<and> set (fd_list two_fds) = dom (fd_mem two_fds)
   \<and> list_all (\<lambda>a. fd_handler_remove_fd a two_fds \<noteq> None) (fd_list two_fds)"
  by (rule fd_reachable_consistent[OF two_fds_reachable])

end
