(* ===== verification/CString.thy ===== *)
theory CString
  imports YodaPrelude
begin

text \<open>
  The part of the C string library the modelled sources use.  A C string is a
  \<^typ>\<open>string\<close> without NUL characters; \<open>cstr\<close> is the string a NUL-terminated
  buffer denotes.  \<open>strncpy\<close> into a zeroed buffer of more than \<open>n\<close> bytes is
  \<open>take n\<close>; \<open>strstr\<close> and \<open>strchr\<close> return the suffix their result pointer
  denotes; \<open>strtol\<close> and \<open>atoi\<close> are written out for a 64-bit \<open>long\<close> and a 32-bit
  \<open>int\<close>, and \<open>show_int\<close> is the \<open>%d\<close> conversion.
\<close>

section \<open>Searching\<close>

definition nul :: char where "nul = CHR 0x00"

definition cstr :: "string \<Rightarrow> string" where
  "cstr = takeWhile (\<lambda>c. c \<noteq> nul)"

fun is_prefix :: "string \<Rightarrow> string \<Rightarrow> bool" where
  "is_prefix [] ys = True"
| "is_prefix (x # xs) [] = False"
| "is_prefix (x # xs) (y # ys) = (x = y \<and> is_prefix xs ys)"

fun strstr :: "string \<Rightarrow> string \<Rightarrow> string option" where
  "strstr [] needle = (if needle = [] then Some [] else None)"
| "strstr (c # cs) needle = (if is_prefix needle (c # cs) then Some (c # cs) else strstr cs needle)"

fun strchr :: "string \<Rightarrow> char \<Rightarrow> string option" where
  "strchr [] x = None"
| "strchr (c # cs) x = (if c = x then Some (c # cs) else strchr cs x)"

definition contains :: "string \<Rightarrow> string \<Rightarrow> bool" where
  "contains hay needle \<longleftrightarrow> strstr hay needle \<noteq> None"

lemma is_prefix_append: "is_prefix xs ys \<longleftrightarrow> (\<exists>zs. ys = xs @ zs)"
  by (induction xs ys rule: is_prefix.induct) auto

lemma strstr_Some:
  "strstr hay needle = Some suf \<Longrightarrow> \<exists>pre post. hay = pre @ suf \<and> suf = needle @ post"
proof (induction hay)
  case (Cons c cs)
  show ?case
  proof (cases "is_prefix needle (c # cs)")
    case True
    with Cons.prems obtain zs where "c # cs = [] @ suf" "suf = needle @ zs"
      by (auto simp: is_prefix_append)
    then show ?thesis by blast
  next
    case False
    with Cons obtain pre post where "cs = pre @ suf" "suf = needle @ post" by auto
    then have "c # cs = (c # pre) @ suf \<and> suf = needle @ post" by simp
    then show ?thesis by blast
  qed
qed (auto split: if_splits)

lemma strstr_None: "strstr hay needle = None \<longleftrightarrow> (\<forall>pre post. hay \<noteq> pre @ needle @ post)"
proof (induction hay)
  case (Cons c cs)
  show ?case
  proof (cases "is_prefix needle (c # cs)")
    case True
    then obtain zs where "c # cs = [] @ needle @ zs" by (auto simp: is_prefix_append)
    with True show ?thesis by (metis option.distinct(1) strstr.simps(2))
  next
    case False
    then have "(\<exists>pre post. c # cs = pre @ needle @ post) \<longleftrightarrow> (\<exists>pre post. cs = pre @ needle @ post)"
      by (auto simp: is_prefix_append Cons_eq_append_conv)
    with False Cons show ?thesis by auto
  qed
qed auto

lemma contains_iff: "contains hay needle \<longleftrightarrow> (\<exists>pre post. hay = pre @ needle @ post)"
  by (auto simp: contains_def strstr_None)

lemma strchr_Some: "strchr s x = Some t \<Longrightarrow> \<exists>pre post. s = pre @ t \<and> t = x # post \<and> x \<notin> set pre"
proof (induction s)
  case (Cons c cs)
  show ?case
  proof (cases "c = x")
    case True
    with Cons.prems have "c # cs = [] @ t \<and> t = x # cs \<and> x \<notin> set []" by simp
    then show ?thesis by blast
  next
    case False
    with Cons obtain pre post where "cs = pre @ t" "t = x # post" "x \<notin> set pre" by auto
    with False have "c # cs = (c # pre) @ t \<and> t = x # post \<and> x \<notin> set (c # pre)" by simp
    then show ?thesis by blast
  qed
qed simp

lemma strchr_None: "strchr s x = None \<longleftrightarrow> x \<notin> set s"
  by (induction s) auto

lemma strchr_append: "x \<notin> set xs \<Longrightarrow> strchr (xs @ x # ys) x = Some (x # ys)"
  by (induction xs) auto

lemma cstr_id: "nul \<notin> set l \<Longrightarrow> cstr l = l"
  unfolding cstr_def by (rule takeWhile_id) metis

section \<open>Splitting\<close>

text \<open>\<open>strtok\<close> skips empty pieces.\<close>

fun split_at :: "char \<Rightarrow> string \<Rightarrow> string \<Rightarrow> string list" where
  "split_at d acc [] = [rev acc]"
| "split_at d acc (c # cs) = (if c = d then rev acc # split_at d [] cs else split_at d (c # acc) cs)"

definition strtok_all :: "char \<Rightarrow> string \<Rightarrow> string list" where
  "strtok_all d s = filter (\<lambda>t. t \<noteq> []) (split_at d [] s)"

section \<open>Numbers\<close>

definition digit_val :: "char \<Rightarrow> nat option" where
  "digit_val c = (let n = of_char c :: nat in
     if 48 \<le> n \<and> n \<le> 57 then Some (n - 48)
     else if 97 \<le> n \<and> n \<le> 122 then Some (n - 87)
     else if 65 \<le> n \<and> n \<le> 90 then Some (n - 55)
     else None)"

fun digits_value :: "nat \<Rightarrow> nat \<Rightarrow> string \<Rightarrow> nat" where
  "digits_value b acc [] = acc"
| "digits_value b acc (c # cs) =
     (case digit_val c of
        None \<Rightarrow> acc
      | Some d \<Rightarrow> if d < b then digits_value b (acc * b + d) cs else acc)"

definition is_space :: "char \<Rightarrow> bool" where
  "is_space c \<longleftrightarrow> (let n = of_char c :: nat in n = 32 \<or> (9 \<le> n \<and> n \<le> 13))"

definition hex_prefix :: "string \<Rightarrow> bool" where
  "hex_prefix s \<longleftrightarrow> (case s of
     z # x # d # _ \<Rightarrow> z = CHR ''0'' \<and> (x = CHR ''x'' \<or> x = CHR ''X'') \<and>
        (case digit_val d of None \<Rightarrow> False | Some v \<Rightarrow> v < 16)
   | _ \<Rightarrow> False)"

definition strtol_abs :: "nat \<Rightarrow> string \<Rightarrow> nat" where
  "strtol_abs base s =
     (if base = 0 then
        if hex_prefix s then digits_value 16 0 (drop 2 s)
        else if s \<noteq> [] \<and> hd s = CHR ''0'' then digits_value 8 0 s
        else digits_value 10 0 s
      else if base = 16 \<and> hex_prefix s then digits_value 16 0 (drop 2 s)
      else digits_value base 0 s)"

definition clamp_long :: "int \<Rightarrow> int" where
  "clamp_long v = max (- (2 ^ 63)) (min (2 ^ 63 - 1) v)"

definition strtol :: "string \<Rightarrow> nat \<Rightarrow> int" where
  "strtol s base =
     (let t = dropWhile is_space s in
      if t \<noteq> [] \<and> hd t = CHR ''-'' then clamp_long (- int (strtol_abs base (tl t)))
      else if t \<noteq> [] \<and> hd t = CHR ''+'' then clamp_long (int (strtol_abs base (tl t)))
      else clamp_long (int (strtol_abs base t)))"

definition atoi :: "string \<Rightarrow> int" where
  "atoi s = signed_take_bit 31 (strtol s 10)"

definition digit_char :: "nat \<Rightarrow> char" where
  "digit_char d = char_of (48 + d)"

fun show_nat :: "nat \<Rightarrow> string" where
  "show_nat n = (if n < 10 then [digit_char n] else show_nat (n div 10) @ [digit_char (n mod 10)])"

declare show_nat.simps [simp del]

definition show_int :: "int \<Rightarrow> string" where
  "show_int i = (if i < 0 then CHR ''-'' # show_nat (nat (- i)) else show_nat (nat i))"

text \<open>\<open>%d\<close> of \<open>sscanf\<close>: the number and the rest of the input, or no match.\<close>

definition is_digit :: "char \<Rightarrow> bool" where
  "is_digit c \<longleftrightarrow> (case digit_val c of None \<Rightarrow> False | Some d \<Rightarrow> d < 10)"

definition scan_int :: "string \<Rightarrow> (int \<times> string) option" where
  "scan_int s =
     (let t = dropWhile is_space s;
          sg = (if t \<noteq> [] \<and> (hd t = CHR ''-'' \<or> hd t = CHR ''+'') then [hd t] else []);
          ds = takeWhile is_digit (drop (length sg) t)
      in if ds = [] then None else Some (atoi (sg @ ds), drop (length sg + length ds) t))"

lemma of_char_digit: "d < 10 \<Longrightarrow> (of_char (digit_char d) :: nat) = 48 + d"
  by (simp add: digit_char_def)

lemma digit_val_digit [simp]: "d < 10 \<Longrightarrow> digit_val (digit_char d) = Some d"
  by (simp add: digit_val_def of_char_digit)

lemma digits_value_append:
  assumes "\<forall>c \<in> set xs. \<exists>d < b. digit_val c = Some d"
  shows "digits_value b acc (xs @ ys) = digits_value b (digits_value b acc xs) ys"
  using assms by (induction xs arbitrary: acc) auto

lemma show_nat_length: "n < 10 ^ k \<Longrightarrow> 0 < k \<Longrightarrow> length (show_nat n) \<le> k"
proof (induction n arbitrary: k rule: show_nat.induct)
  case (1 n)
  show ?case
  proof (cases "n < 10")
    case False
    then obtain j where k: "k = Suc j" "0 < j" using "1.prems" by (cases k; cases "k - 1") auto
    have "n div 10 < 10 ^ j" using "1.prems"(1) k by (simp add: less_mult_imp_div_less mult.commute)
    then show ?thesis using "1.IH"[OF False] k False by (subst show_nat.simps) auto
  qed (use 1 in \<open>subst show_nat.simps, simp\<close>)
qed

lemma show_nat_digits: "\<forall>c \<in> set (show_nat n). \<exists>d < 10. c = digit_char d"
proof (induction n rule: show_nat.induct)
  case (1 n)
  then show ?case
    by (subst show_nat.simps) (auto, metis mod_less_divisor zero_less_numeral)
qed

lemma show_nat_nonempty [simp]: "show_nat n \<noteq> []"
  by (subst show_nat.simps) simp

lemma show_nat_digit_vals: "\<forall>c \<in> set (show_nat n). \<exists>d < 10. digit_val c = Some d"
  using show_nat_digits by fastforce

lemma digits_value_show_nat: "digits_value 10 0 (show_nat n) = n"
proof (induction n rule: show_nat.induct)
  case (1 n)
  show ?case
  proof (cases "n < 10")
    case True
    then show ?thesis by (subst show_nat.simps) simp
  next
    case False
    with 1 show ?thesis
      by (subst show_nat.simps) (simp add: digits_value_append show_nat_digit_vals)
  qed
qed

lemma hd_show_nat: "\<exists>d < 10. hd (show_nat n) = digit_char d"
  using show_nat_digits[of n] by (simp add: list.set_sel(1))

lemma hd_show_nat_plain:
  "\<not> is_space (hd (show_nat n)) \<and> hd (show_nat n) \<noteq> CHR ''-'' \<and> hd (show_nat n) \<noteq> CHR ''+''"
proof -
  obtain d where d: "d < 10" and h: "hd (show_nat n) = digit_char d" using hd_show_nat by blast
  have c: "(of_char (hd (show_nat n)) :: nat) = 48 + d" using d h of_char_digit by simp
  have "(of_char (CHR ''-'') :: nat) = 45" "(of_char (CHR ''+'') :: nat) = 43" by simp_all
  with c show ?thesis by (auto simp: is_space_def Let_def)
qed

lemma dropWhile_space_show_nat [simp]: "dropWhile is_space (show_nat n) = show_nat n"
  using hd_show_nat_plain[of n] by (cases "show_nat n") auto

lemma strtol_show_int: "strtol (show_int i) 10 = clamp_long i"
proof (cases "i < 0")
  case True
  have "\<not> is_space (CHR ''-'')" by (simp add: is_space_def)
  with True show ?thesis
    by (simp add: strtol_def show_int_def strtol_abs_def digits_value_show_nat)
next
  case False
  with hd_show_nat_plain[of "nat i"] show ?thesis
    by (simp add: strtol_def show_int_def strtol_abs_def digits_value_show_nat Let_def)
qed

lemma atoi_show_int:
  assumes "- (2 ^ 31) \<le> i" and "i < 2 ^ 31"
  shows "atoi (show_int i) = i"
proof -
  from assms have "clamp_long i = i" by (simp add: clamp_long_def)
  with assms show ?thesis
    by (simp add: atoi_def strtol_show_int signed_take_bit_int_eq_self)
qed

end
