(* ===== verification/JsonModel.thy ===== *)
theory JsonModel
  imports CString
begin

text \<open>
  The values of the json-c library the services build and take apart.  A
  \<open>json_object *\<close> is a value of type \<open>json\<close> whose NULL pointer is the JSON null, as in
  json-c.  Parsing and printing of JSON text is library code and stays a
  parameter of the models that need it.
\<close>

datatype json =
  JObj "(string \<times> json) list"
| JArr "json list"
| JStr string
| JInt int
| JBool bool
| JNull

text \<open>\<open>json_object_object_add\<close> replaces the value of an existing key in place.\<close>

fun kv_put :: "string \<Rightarrow> 'a \<Rightarrow> (string \<times> 'a) list \<Rightarrow> (string \<times> 'a) list" where
  "kv_put k v [] = [(k, v)]"
| "kv_put k v ((k', v') # kvs) = (if k = k' then (k, v) # kvs else (k', v') # kv_put k v kvs)"

fun json_object_object_add :: "string \<Rightarrow> json \<Rightarrow> json \<Rightarrow> json" where
  "json_object_object_add k v (JObj kvs) = JObj (kv_put k v kvs)"
| "json_object_object_add k v j = j"

fun json_object_array_add :: "json \<Rightarrow> json \<Rightarrow> json" where
  "json_object_array_add v (JArr vs) = JArr (vs @ [v])"
| "json_object_array_add v j = j"

text \<open>\<open>json_object_object_get_ex\<close>: \<open>None\<close> is the result FALSE.\<close>

fun json_object_object_get_ex :: "json \<Rightarrow> string \<Rightarrow> json option" where
  "json_object_object_get_ex (JObj kvs) k = map_of kvs k"
| "json_object_object_get_ex j k = None"

text \<open>\<open>json_object_get_string\<close>: NULL for the JSON null, the string itself for a string
  value, and the JSON text (parameter \<open>txt\<close>) for every other value.\<close>

definition json_object_get_string :: "(json \<Rightarrow> string) \<Rightarrow> json \<Rightarrow> string option" where
  "json_object_get_string txt j =
     (case j of JNull \<Rightarrow> None | JStr s \<Rightarrow> Some (cstr s) | _ \<Rightarrow> Some (cstr (txt j)))"

text \<open>\<open>json_object_get_boolean\<close> and \<open>json_object_get_int\<close> convert values of other types as json-c does:
  a number is true unless 0, a string unless empty; an integer is limited to 32 bits, and a
  string is read as a decimal number and gives 0 if it is none.\<close>

fun json_object_get_boolean :: "json \<Rightarrow> bool" where
  "json_object_get_boolean (JBool b) = b"
| "json_object_get_boolean (JInt i) = (i \<noteq> 0)"
| "json_object_get_boolean (JStr s) = (s \<noteq> [])"
| "json_object_get_boolean j = False"

definition clamp_int32 :: "int \<Rightarrow> int" where
  "clamp_int32 v = max (- (2 ^ 31)) (min (2 ^ 31 - 1) v)"

fun json_object_get_int :: "json \<Rightarrow> int" where
  "json_object_get_int (JInt i) = clamp_int32 i"
| "json_object_get_int (JBool b) = (if b then 1 else 0)"
| "json_object_get_int (JStr s) = (if scan_int (cstr s) = None then 0 else clamp_int32 (strtol (cstr s) 10))"
| "json_object_get_int j = 0"

lemma map_of_kv_put: "map_of (kv_put k v kvs) = (map_of kvs)(k \<mapsto> v)"
  by (induction k v kvs rule: kv_put.induct) auto

lemma json_get_add:
  "json_object_object_get_ex (json_object_object_add k v (JObj kvs)) k'
     = (if k' = k then Some v else json_object_object_get_ex (JObj kvs) k')"
  by (simp add: map_of_kv_put)

end
