(* ===== verification/NetState.thy ===== *)
theory NetState
  imports JsonModel Scheduler
begin

text \<open>
  The state of the network manager (\<open>framework/services/networking/manager\<close>): the
  global variables of its C files gathered in one record, and the code the
  manager calls but does not contain as an environment of functions on an
  abstract world \<open>'w\<close> (the device operations behind the HAL function pointers, the
  wpa_supplicant client library, the operating system and json-c).  Flags that
  are 0 or 1 in C are \<^typ>\<open>bool\<close>.
\<close>

section \<open>Constants and enumerations\<close>

definition NET_CAPACITY_MODEM :: "32 word" where "NET_CAPACITY_MODEM = 1"
definition NET_CAPACITY_WIFI :: "32 word" where "NET_CAPACITY_WIFI = 2"
definition NET_CAPACITY_ETHERENT :: "32 word" where "NET_CAPACITY_ETHERENT = 4"

definition WIFI :: "32 word" where "WIFI = 1"
definition WIFI_AP :: "32 word" where "WIFI_AP = 2"
definition MODEM :: "32 word" where "MODEM = 4"
definition ETHERENT :: "32 word" where "ETHERENT = 8"

lemmas mode_defs = WIFI_def WIFI_AP_def MODEM_def ETHERENT_def
lemmas capacity_defs = NET_CAPACITY_MODEM_def NET_CAPACITY_WIFI_def NET_CAPACITY_ETHERENT_def

datatype eNETWORK_START = START | STOP

datatype link_state =
  WIFI_STATE_CLOSE | WIFI_STATION_PRE_JOIN | WIFI_STATION_JOINING | WIFI_STATION_JOIN_FAILED
| WIFI_STATION_CONNECTED | WIFI_STATION_UNCONNECTED | WIFI_AP_CLOSE | WIFI_AP_PRE_JOIN
| WIFI_AP_JOINING | WIFI_AP_CONNECTED | WIFI_AP_UNCONNECTED | MODEM_CONNECTED | MODEM_UNCONNECTED
| ETHERENT_CONNECTED | ETHERENT_UNCONNECTED

datatype command_result = COMMAND_OK | COMMAND_NOK

datatype ereason =
  eREASON_NONE | eREASON_WIFI_NOT_CONNECT | eREASON_WIFI_NOT_FOUND | eREASON_WIFI_WRONG_KEY
| eREASON_WIFI_TIMEOUT | eREASON_WIFI_CFGNET_FAIL | eREASON_OUT_OF_CAPACITY
| eREASON_WPA_SUPLICANT_ENABLE_FAIL | eREASON_HOSTAPD_ENABLE_FAIL | eREASON_COMMAND_FORMAT_ERROR
| eREASON_COMMAND_RESPOND_ERROR | eREASON_WIFI_MONITOR_ENABLE_FAIL | eREASON_WIFI_SSID_PSK_SET_FAIL

definition REPORT_UNCONNECT :: int where "REPORT_UNCONNECT = 0"
definition REPORT_CONNECT :: int where "REPORT_CONNECT = 1"

datatype key_mgmt =
  WIFI_KEY_WPA2PSK | WIFI_KEY_WPAPSK | WIFI_KEY_WEP | WIFI_KEY_NONE | WIFI_KEY_OTHER

section \<open>Records\<close>

record wifi_network =
  wn_id :: int
  wn_ssid :: string
  wn_psk :: string
  wn_key_mgmt :: key_mgmt

record wifi_status =
  wst_state :: int
  wst_signal :: int

record modem_status =
  mst_state :: int
  mst_type :: "32 word"
  mst_signal :: int

record etherent_status =
  est_state :: int

record network_status =
  nst_state :: int

record mode_info =
  mi_ssid :: string
  mi_psk :: string
  mi_ip :: string
  mi_timeout :: int
  mi_reason :: ereason

record tresult =
  tr_flag :: bool
  tr_result :: command_result
  tr_reason :: ereason

text \<open>Where the event thread of \<open>wifi_event.c\<close> is: not created, polling for
  wpa_supplicant (with the attempts left), at the head of its receive loop,
  blocked in \<open>wifi_ctrl_recv\<close>, or terminated.\<close>

datatype event_pc = EV_NONE | EV_STARTING nat | EV_LOOP | EV_RECV | EV_EXITED

text \<open>Callbacks of the timers of the manager.\<close>

datatype net_cb =
  CB_wifi_trigger_scan | CB_wifi_connecting_network | CB_modem_event_monitor
| CB_wifi_change_to_station

text \<open>The other threads a blocked command handler may see running.\<close>

datatype slice = SL_EVENT | SL_ROAM | SL_LOOP

section \<open>The environment\<close>

record 'w wifi_device_ops =
  wd_get_status :: "'w \<Rightarrow> int \<times> 'w"
  wd_on :: "'w \<Rightarrow> int \<times> 'w"
  wd_off :: "'w \<Rightarrow> int \<times> 'w"
  wd_start_station :: "'w \<Rightarrow> int \<times> 'w"
  wd_stop_station :: "'w \<Rightarrow> int \<times> 'w"
  wd_start_ap :: "string \<Rightarrow> string \<Rightarrow> string \<Rightarrow> 'w \<Rightarrow> int \<times> 'w"
  wd_stop_ap :: "'w \<Rightarrow> int \<times> 'w"

record 'w modem_device_ops =
  md_get_status :: "'w \<Rightarrow> int \<times> 'w"
  md_on :: "'w \<Rightarrow> int \<times> 'w"
  md_off :: "'w \<Rightarrow> int \<times> 'w"
  md_start_dhcpcd :: "'w \<Rightarrow> int \<times> 'w"
  md_stop_dhcpcd :: "'w \<Rightarrow> int \<times> 'w"
  md_get_signal_type :: "'w \<Rightarrow> (int \<times> 32 word) \<times> 'w"
  md_get_signal_strength :: "'w \<Rightarrow> (int \<times> int) \<times> 'w"

record 'w eth_device_ops =
  ed_get_status :: "'w \<Rightarrow> int \<times> 'w"
  ed_on :: "'w \<Rightarrow> int \<times> 'w"
  ed_off :: "'w \<Rightarrow> int \<times> 'w"
  ed_start_dhcpcd :: "'w \<Rightarrow> int \<times> 'w"
  ed_stop_dhcpcd :: "'w \<Rightarrow> int \<times> 'w"

record 'w wpa_ops =
  wp_scan :: "'w \<Rightarrow> int \<times> 'w"
  wp_clear_scan_results :: "'w \<Rightarrow> int \<times> 'w"
  wp_get_scan_result :: "'w \<Rightarrow> (string \<times> int) list \<times> 'w"
  wp_get_block_scan_result :: "'w \<Rightarrow> (string \<times> int) list \<times> 'w"
  wp_join_network :: "wifi_network \<Rightarrow> 'w \<Rightarrow> (int \<times> wifi_network) \<times> 'w"
  wp_save_network :: "'w \<Rightarrow> int \<times> 'w"
  wp_enable_network :: "int \<Rightarrow> 'w \<Rightarrow> int \<times> 'w"
  wp_enable_all_network :: "'w \<Rightarrow> int \<times> 'w"
  wp_disable_network :: "int \<Rightarrow> 'w \<Rightarrow> int \<times> 'w"
  wp_disable_all_network :: "'w \<Rightarrow> int \<times> 'w"
  wp_remove_network :: "int \<Rightarrow> 'w \<Rightarrow> int \<times> 'w"
  wp_remove_all_network :: "'w \<Rightarrow> int \<times> 'w"
  wp_get_current_id :: "'w \<Rightarrow> (int \<times> int) \<times> 'w"
  wp_get_current_ssid :: "'w \<Rightarrow> (int \<times> string) \<times> 'w"
  wp_get_status :: "'w \<Rightarrow> (int \<times> int) \<times> 'w"
  wp_get_signal :: "'w \<Rightarrow> (int \<times> int) \<times> 'w"
  wp_ctrl_open :: "'w \<Rightarrow> bool \<times> 'w"
  wp_ctrl_request :: "string \<Rightarrow> 'w \<Rightarrow> (int \<times> string) \<times> 'w"
  wp_ctrl_recv :: "'w \<Rightarrow> (int \<times> string) \<times> 'w"
  wp_connect_moni_socket :: "'w \<Rightarrow> int \<times> 'w"
  wp_monitor_release :: "'w \<Rightarrow> unit \<times> 'w"
  wp_ping :: "string \<Rightarrow> 'w \<Rightarrow> int \<times> 'w"

record 'w sys_ops =
  sy_system :: "string \<Rightarrow> 'w \<Rightarrow> int \<times> 'w"
  sy_property :: "string \<Rightarrow> 'w \<Rightarrow> string option \<times> 'w"
  sy_hw_get_module :: "string \<Rightarrow> 'w \<Rightarrow> int \<times> 'w"
  sy_hw_open :: "string \<Rightarrow> 'w \<Rightarrow> int \<times> 'w"
  sy_hw_close :: "string \<Rightarrow> 'w \<Rightarrow> int \<times> 'w"
  sy_access :: "string \<Rightarrow> 'w \<Rightarrow> int \<times> 'w"
  sy_read_lines :: "string \<Rightarrow> 'w \<Rightarrow> string list option \<times> 'w"
  sy_pthread_attr_init :: "'w \<Rightarrow> int \<times> 'w"
  sy_pthread_attr_setdetachstate :: "'w \<Rightarrow> int \<times> 'w"
  sy_pthread_create :: "string \<Rightarrow> 'w \<Rightarrow> int \<times> 'w"
  sy_res_init :: "'w \<Rightarrow> int \<times> 'w"
  sy_slices :: "'w \<Rightarrow> slice list \<times> 'w"
  sy_json_parse :: "string \<Rightarrow> json"
  sy_json_text :: "json \<Rightarrow> string"

record 'w net_env =
  wifi_dev :: "'w wifi_device_ops"
  modem_dev :: "'w modem_device_ops"
  eth_dev :: "'w eth_device_ops"
  wpa :: "'w wpa_ops"
  sys :: "'w sys_ops"

section \<open>The state\<close>

record 'w net_state =
  world :: 'w
  eloop_sched :: "net_cb scheduler"
  uploads :: "json list"
  replies :: "json list"
  g_capacity :: "32 word"
  g_wifi_network :: wifi_network
  ns_wifi_scan :: nat
  ns_wifi_connect :: nat
  ns_modem_monitor :: nat
  ns_wifi_ap_timeout :: nat
  ns_wpa_network_id :: int
  ns_ssid :: string
  ns_wifi_state :: link_state
  ns_modem_state :: link_state
  ns_etherent_state :: link_state
  wifi_device :: bool
  g_start_ap_flag :: bool
  g_start_station_flag :: bool
  modem_device :: bool
  g_start_modem_flag :: bool
  etherent_device :: bool
  g_start_etherent_flag :: bool
  g_network_mode :: "32 word"
  wifi_init_mode_flag :: bool
  g_wifi_monitor_open :: bool
  g_wifi_status :: wifi_status
  g_result :: tresult
  g_wifi_thread_start :: bool
  g_wifi_monitor_flag :: bool
  wifi_faild_time :: int
  event_thread :: event_pc
  roam_thread :: bool
  g_modem_start_monitor :: bool
  g_modem_status :: modem_status
  unconnect_cnts :: int
  g_etherent_status :: etherent_status
  g_etherent_start_monitor :: bool
  g_network_status :: network_status
  unconnect_times :: int
  g_ap_info :: mode_info
  g_ap_timeout_flag :: bool
  network_sched_enable :: int
  network_wifi2modem_threshold :: int
  network_modem2wifi_threshold :: int
  g_wifi_enable_flag :: bool
  wait_wifi_init_cnt :: int
  sched_state :: int

definition ext :: "('w \<Rightarrow> 'a \<times> 'w) \<Rightarrow> 'w net_state \<Rightarrow> 'a \<times> 'w net_state" where
  "ext f s = (let (r, w) = f (world s) in (r, s\<lparr>world := w\<rparr>))"

lemma ext_eq: "ext f s = (fst (f (world s)), s\<lparr>world := snd (f (world s))\<rparr>)"
  by (simp add: ext_def split: prod.split)

section \<open>Timers of the manager\<close>

definition eloop_timer_add ::
  "net_cb \<Rightarrow> 32 word \<Rightarrow> 32 word \<Rightarrow> 'w net_state \<Rightarrow> nat \<times> 'w net_state" where
  "eloop_timer_add cb e p s =
     (let (i, sch) = timer_add_ok cb e p (eloop_sched s) in (i, s\<lparr>eloop_sched := sch\<rparr>))"

definition eloop_timer_start :: "nat \<Rightarrow> 'w net_state \<Rightarrow> 'w net_state option" where
  "eloop_timer_start i s =
     map_option (\<lambda>sch. s\<lparr>eloop_sched := sch\<rparr>) (scheduler_timer_start i (eloop_sched s))"

definition eloop_timer_stop :: "nat \<Rightarrow> 'w net_state \<Rightarrow> 'w net_state option" where
  "eloop_timer_stop i s =
     map_option (\<lambda>sch. s\<lparr>eloop_sched := sch\<rparr>) (scheduler_timer_stop i (eloop_sched s))"

definition eloop_timer_delete :: "nat \<Rightarrow> 'w net_state \<Rightarrow> 'w net_state option" where
  "eloop_timer_delete i s =
     map_option (\<lambda>sch. s\<lparr>eloop_sched := sch\<rparr>) (scheduler_timer_delete i (eloop_sched s))"

section \<open>Posting and replying\<close>

text \<open>\<open>network_ipc_upload\<close> posts a JSON text on the topic \<open>network.status\<close> and
  \<open>network_ipc_return\<close> ends the reply of the current call; the model keeps the
  JSON values in the order they are sent.\<close>

definition network_ipc_upload :: "json \<Rightarrow> 'w net_state \<Rightarrow> 'w net_state" where
  "network_ipc_upload j s = s\<lparr>uploads := uploads s @ [j]\<rparr>"

definition network_ipc_return :: "json \<Rightarrow> 'w net_state \<Rightarrow> 'w net_state" where
  "network_ipc_return j s = s\<lparr>replies := replies s @ [j]\<rparr>"

text \<open>\<open>property_get\<close> into a buffer of \<open>n\<close> bytes: a property that is unset or empty has the
  default value (an empty \<open>dflt\<close> stands for NULL); values may have up to 91 characters,
  and one that does not fit overflows the buffer.\<close>

definition property_get ::
  "'w net_env \<Rightarrow> nat \<Rightarrow> string \<Rightarrow> string \<Rightarrow> 'w net_state \<Rightarrow> (string \<times> 'w net_state) option" where
  "property_get E n key dflt s =
     (let (v, s) = ext (sy_property (sys E) key) s;
          val = (case v of None \<Rightarrow> dflt | Some x \<Rightarrow> if x = [] then dflt else x)
      in if length val < n then Some (val, s) else None)"

section \<open>What the lower layers leave alone\<close>

text \<open>Connection states the reports can print: \<open>REPORT_UNCONNECT\<close> and
  \<open>REPORT_CONNECT\<close>.\<close>

definition valid_status :: "'w net_state \<Rightarrow> bool" where
  "valid_status s \<longleftrightarrow> wst_state (g_wifi_status s) \<in> {0, 1} \<and> mst_state (g_modem_status s) \<in> {0, 1}
     \<and> est_state (g_etherent_status s) \<in> {0, 1} \<and> nst_state (g_network_status s) \<in> {0, 1}"

text \<open>The modem is polled only when its device was opened.\<close>

definition monitor_ok :: "'w net_state \<Rightarrow> bool" where
  "monitor_ok s \<longleftrightarrow> (g_modem_start_monitor s \<longrightarrow> modem_device s)"

text \<open>\<open>ctl_eq s s'\<close>: from \<open>s\<close> to \<open>s'\<close> no command was answered, the mode, the capacity, the
  opened devices and the set of live timers are the same, and the reported states
  stay valid.  Everything below the command handlers stays within this relation.\<close>

definition ctl_eq :: "'w net_state \<Rightarrow> 'w net_state \<Rightarrow> bool" where
  "ctl_eq s s' \<longleftrightarrow>
     (sched_inv (eloop_sched s) \<longrightarrow> sched_inv (eloop_sched s')
        \<and> timer_alive (eloop_sched s') = timer_alive (eloop_sched s))
     \<and> (valid_status s \<longrightarrow> valid_status s') \<and> (monitor_ok s \<longrightarrow> monitor_ok s')
     \<and> replies s' = replies s \<and> g_capacity s' = g_capacity s \<and> g_network_mode s' = g_network_mode s
     \<and> ns_wifi_scan s' = ns_wifi_scan s \<and> ns_wifi_connect s' = ns_wifi_connect s
     \<and> ns_modem_monitor s' = ns_modem_monitor s \<and> ns_wifi_ap_timeout s' = ns_wifi_ap_timeout s
     \<and> wifi_device s' = wifi_device s \<and> modem_device s' = modem_device s
     \<and> etherent_device s' = etherent_device s \<and> g_ap_timeout_flag s' = g_ap_timeout_flag s
     \<and> g_ap_info s' = g_ap_info s \<and> wifi_init_mode_flag s' = wifi_init_mode_flag s"

lemma ctl_eq_refl [simp, intro]: "ctl_eq s s"
  by (simp add: ctl_eq_def)

lemma ctl_eq_trans [trans]: "ctl_eq s t \<Longrightarrow> ctl_eq t u \<Longrightarrow> ctl_eq s u"
  by (auto simp: ctl_eq_def)

text \<open>Chaining of two operations that stay within the relation.\<close>

lemma ctl_eq_bind:
  assumes "succeeds m (\<lambda>(r, t). ctl_eq s t)" and "\<And>r t. m = Some (r, t) \<Longrightarrow> ctl_eq s t \<Longrightarrow> succeeds (f r t) Q"
  shows "succeeds (Option.bind m (\<lambda>(r, t). f r t)) Q"
  using assms by (auto simp: succeeds_iff)

lemma ctl_eq_bind_state:
  assumes "succeeds m (\<lambda>t. ctl_eq s t)" and "\<And>t. m = Some t \<Longrightarrow> ctl_eq s t \<Longrightarrow> succeeds (f t) Q"
  shows "succeeds (Option.bind m f) Q"
  using assms by (auto simp: succeeds_iff)

lemma eloop_timer_start_ctl:
  "sched_inv (eloop_sched s) \<Longrightarrow> timer_alive (eloop_sched s) i \<Longrightarrow> succeeds (eloop_timer_start i s) (ctl_eq s)"
  using tm.start_spec[of "eloop_sched s" i]
  by (auto simp: eloop_timer_start_def succeeds_iff ctl_eq_def valid_status_def monitor_ok_def)

lemma eloop_timer_stop_ctl:
  "sched_inv (eloop_sched s) \<Longrightarrow> timer_alive (eloop_sched s) i \<Longrightarrow> succeeds (eloop_timer_stop i s) (ctl_eq s)"
  using tm.stop_spec[of "eloop_sched s" i]
  by (auto simp: eloop_timer_stop_def succeeds_iff ctl_eq_def valid_status_def monitor_ok_def)

end
