(* ===== verification/NetHal.thy ===== *)
theory NetHal
  imports NetState
begin

text \<open>
  The three hardware abstraction wrappers of the network manager
  (\<open>wifi/wifi_hal.c\<close>, \<open>modem/modem_hal.c\<close>, \<open>etherent/etherent_hal.c\<close>).  A call
  through a device pointer that was never opened is a NULL dereference.  Each
  start/stop pair is guarded by a flag; the contract of such a pair is the
  locale \<open>hal_latch\<close>, interpreted on all four pairs.
\<close>

section \<open>wifi_hal.c\<close>

definition wifi_call :: "('w \<Rightarrow> 'a \<times> 'w) \<Rightarrow> 'w net_state \<Rightarrow> ('a \<times> 'w net_state) option" where
  "wifi_call f s = (if wifi_device s then Some (ext f s) else None)"

definition wifi_hal_init :: "'w net_env \<Rightarrow> 'w net_state \<Rightarrow> int \<times> 'w net_state" where
  "wifi_hal_init E s =
     (let (r, s) = ext (sy_hw_get_module (sys E) ''wifi'') s in
      if r \<noteq> 0 then (-1, s)
      else let (r, s) = ext (sy_hw_open (sys E) ''wifi'') s in
        if r \<noteq> 0 then (-1, s) else (0, s\<lparr>wifi_device := True\<rparr>))"

definition wifi_hal_exit :: "'w net_env \<Rightarrow> 'w net_state \<Rightarrow> 'w net_state option" where
  "wifi_hal_exit E s = map_option snd (wifi_call (sy_hw_close (sys E) ''wifi'') s)"

definition wifi_hal_get_capacity :: "'w net_env \<Rightarrow> 'w net_state \<Rightarrow> (int \<times> 'w net_state) option" where
  "wifi_hal_get_capacity E s = wifi_call (wd_get_status (wifi_dev E)) s"

definition wifi_hal_start_station :: "'w net_env \<Rightarrow> 'w net_state \<Rightarrow> (int \<times> 'w net_state) option" where
  "wifi_hal_start_station E s =
     (if \<not> g_start_station_flag s
      then do {
        let s = s\<lparr>g_start_station_flag := True\<rparr>;
        (r1, s) \<leftarrow> wifi_call (wd_start_station (wifi_dev E)) s;
        let (r2, s) = ext (sy_system (sys E) ''/etc/init.d/dhcpcd restart'') s;
        (r3, s) \<leftarrow> wifi_call (wd_on (wifi_dev E)) s;
        Some ((r1 OR r2) OR r3, s)
      }
      else Some (0, s))"

definition wifi_hal_stop_station :: "'w net_env \<Rightarrow> 'w net_state \<Rightarrow> 'w net_state option" where
  "wifi_hal_stop_station E s =
     (if g_start_station_flag s
      then do {
        let (_, s) = ext (sy_system (sys E) ''/etc/init.d/dhcpcd stop'') s;
        (_, s) \<leftarrow> wifi_call (wd_stop_station (wifi_dev E)) s;
        (_, s) \<leftarrow> wifi_call (wd_off (wifi_dev E)) s;
        Some (s\<lparr>g_start_station_flag := False\<rparr>)
      }
      else Some s)"

definition wifi_hal_start_ap ::
  "'w net_env \<Rightarrow> string \<Rightarrow> string \<Rightarrow> string \<Rightarrow> 'w net_state \<Rightarrow> (int \<times> 'w net_state) option" where
  "wifi_hal_start_ap E ssid psk ip s =
     (if \<not> g_start_ap_flag s
      then do {
        let s = s\<lparr>g_start_ap_flag := True\<rparr>;
        (_, s) \<leftarrow> wifi_call (wd_on (wifi_dev E)) s;
        wifi_call (wd_start_ap (wifi_dev E) ssid psk ip) s
      }
      else Some (0, s))"

definition wifi_hal_stop_ap :: "'w net_env \<Rightarrow> 'w net_state \<Rightarrow> 'w net_state option" where
  "wifi_hal_stop_ap E s =
     (if g_start_ap_flag s
      then do {
        let s = s\<lparr>g_start_ap_flag := False\<rparr>;
        (_, s) \<leftarrow> wifi_call (wd_stop_ap (wifi_dev E)) s;
        (_, s) \<leftarrow> wifi_call (wd_off (wifi_dev E)) s;
        Some s
      }
      else Some s)"

section \<open>modem_hal.c\<close>

definition modem_call :: "('w \<Rightarrow> 'a \<times> 'w) \<Rightarrow> 'w net_state \<Rightarrow> ('a \<times> 'w net_state) option" where
  "modem_call f s = (if modem_device s then Some (ext f s) else None)"

definition modem_hal_init :: "'w net_env \<Rightarrow> 'w net_state \<Rightarrow> int \<times> 'w net_state" where
  "modem_hal_init E s =
     (let (r, s) = ext (sy_hw_get_module (sys E) ''modem'') s in
      if r \<noteq> 0 then (-1, s)
      else let (r, s) = ext (sy_hw_open (sys E) ''modem'') s in
        if r \<noteq> 0 then (-1, s) else (0, s\<lparr>modem_device := True\<rparr>))"

definition modem_hal_exit :: "'w net_env \<Rightarrow> 'w net_state \<Rightarrow> 'w net_state option" where
  "modem_hal_exit E s = map_option snd (modem_call (sy_hw_close (sys E) ''modem'') s)"

definition modem_hal_get_capacity :: "'w net_env \<Rightarrow> 'w net_state \<Rightarrow> (int \<times> 'w net_state) option" where
  "modem_hal_get_capacity E s = modem_call (md_get_status (modem_dev E)) s"

definition modem_hal_start_modem :: "'w net_env \<Rightarrow> 'w net_state \<Rightarrow> (int \<times> 'w net_state) option" where
  "modem_hal_start_modem E s =
     (if \<not> g_start_modem_flag s
      then do {
        let s = s\<lparr>g_start_modem_flag := True\<rparr>;
        (r1, s) \<leftarrow> modem_call (md_on (modem_dev E)) s;
        (r2, s) \<leftarrow> modem_call (md_start_dhcpcd (modem_dev E)) s;
        Some (r1 OR r2, s)
      }
      else Some (0, s))"

definition modem_hal_stop_modem :: "'w net_env \<Rightarrow> 'w net_state \<Rightarrow> 'w net_state option" where
  "modem_hal_stop_modem E s =
     (if g_start_modem_flag s
      then do {
        (_, s) \<leftarrow> modem_call (md_stop_dhcpcd (modem_dev E)) s;
        (_, s) \<leftarrow> modem_call (md_off (modem_dev E)) s;
        let (_, s) = ext (sy_system (sys E) ''ifconfig eth0 down'') s;
        Some (s\<lparr>g_start_modem_flag := False\<rparr>)
      }
      else Some s)"

definition modem_hal_get_signal_type ::
  "'w net_env \<Rightarrow> 'w net_state \<Rightarrow> ((int \<times> 32 word) \<times> 'w net_state) option" where
  "modem_hal_get_signal_type E s = modem_call (md_get_signal_type (modem_dev E)) s"

definition modem_hal_get_signal_strength ::
  "'w net_env \<Rightarrow> 'w net_state \<Rightarrow> ((int \<times> int) \<times> 'w net_state) option" where
  "modem_hal_get_signal_strength E s = modem_call (md_get_signal_strength (modem_dev E)) s"

section \<open>etherent_hal.c\<close>

definition eth_call :: "('w \<Rightarrow> 'a \<times> 'w) \<Rightarrow> 'w net_state \<Rightarrow> ('a \<times> 'w net_state) option" where
  "eth_call f s = (if etherent_device s then Some (ext f s) else None)"

definition etherent_hal_init :: "'w net_env \<Rightarrow> 'w net_state \<Rightarrow> int \<times> 'w net_state" where
  "etherent_hal_init E s =
     (let (r, s) = ext (sy_hw_get_module (sys E) ''ethnet'') s in
      if r \<noteq> 0 then (-1, s)
      else let (r, s) = ext (sy_hw_open (sys E) ''ethnet'') s in
        if r \<noteq> 0 then (-1, s) else (0, s\<lparr>etherent_device := True\<rparr>))"

definition etherent_hal_exit :: "'w net_env \<Rightarrow> 'w net_state \<Rightarrow> 'w net_state option" where
  "etherent_hal_exit E s = map_option snd (eth_call (sy_hw_close (sys E) ''ethnet'') s)"

definition etherent_hal_get_capacity :: "'w net_env \<Rightarrow> 'w net_state \<Rightarrow> (int \<times> 'w net_state) option" where
  "etherent_hal_get_capacity E s = eth_call (ed_get_status (eth_dev E)) s"

definition etherent_hal_start_eth :: "'w net_env \<Rightarrow> 'w net_state \<Rightarrow> (int \<times> 'w net_state) option" where
  "etherent_hal_start_eth E s =
     (if \<not> g_start_etherent_flag s
      then do {
        let s = s\<lparr>g_start_etherent_flag := True\<rparr>;
        (r1, s) \<leftarrow> eth_call (ed_on (eth_dev E)) s;
        (r2, s) \<leftarrow> eth_call (ed_start_dhcpcd (eth_dev E)) s;
        Some (r1 OR r2, s)
      }
      else Some (0, s))"

definition etherent_hal_stop_eth :: "'w net_env \<Rightarrow> 'w net_state \<Rightarrow> 'w net_state option" where
  "etherent_hal_stop_eth E s =
     (if g_start_etherent_flag s
      then do {
        (_, s) \<leftarrow> eth_call (ed_stop_dhcpcd (eth_dev E)) s;
        (_, s) \<leftarrow> eth_call (ed_off (eth_dev E)) s;
        Some (s\<lparr>g_start_etherent_flag := False\<rparr>)
      }
      else Some s)"

section \<open>The latch contract\<close>

locale hal_latch =
  fixes opened :: "'s \<Rightarrow> bool"
    and running :: "'s \<Rightarrow> bool"
    and start :: "'s \<Rightarrow> (int \<times> 's) option"
    and stop :: "'s \<Rightarrow> 's option"
  assumes start_running: "running s \<Longrightarrow> start s = Some (0, s)"
    and start_opened: "opened s \<Longrightarrow> succeeds (start s) (\<lambda>(r, s'). opened s' \<and> running s')"
    and start_closed: "\<not> opened s \<Longrightarrow> \<not> running s \<Longrightarrow> start s = None"
    and stop_idle: "\<not> running s \<Longrightarrow> stop s = Some s"
    and stop_opened: "opened s \<Longrightarrow> succeeds (stop s) (\<lambda>s'. opened s' \<and> \<not> running s')"
begin

text \<open>Whatever the device answered to the first start, a second start reports
  success and does nothing.\<close>

lemma retry_reports_success:
  assumes "start s = Some (r, s')"
  shows "start s' = Some (0, s')"
proof (cases "running s")
  case True
  with assms start_running show ?thesis by simp
next
  case False
  then have "opened s" using start_closed assms by (cases "opened s") auto
  then have "running s'" using start_opened[of s] assms by simp
  then show ?thesis by (rule start_running)
qed

lemma start_safe: "opened s \<or> running s \<longleftrightarrow> start s \<noteq> None"
  using start_running start_closed start_opened by (cases "opened s"; cases "running s") (fastforce simp: succeeds_iff)+

lemma stop_stop: "opened s \<Longrightarrow> stop s = Some s' \<Longrightarrow> stop s' = Some s'"
  using stop_opened[of s] by (auto intro: stop_idle)

lemma restart:
  assumes "opened s"
  shows "succeeds (do { s \<leftarrow> stop s; start s }) (\<lambda>(r, s'). opened s' \<and> running s')"
proof -
  obtain s1 where "stop s = Some s1" "opened s1" using stop_opened[OF assms] by (auto simp: succeeds_iff)
  then show ?thesis using start_opened by simp
qed

end

lemmas hal_simps = wifi_call_def modem_call_def eth_call_def ext_eq Let_def

interpretation sta: hal_latch wifi_device g_start_station_flag
  "wifi_hal_start_station E" "wifi_hal_stop_station E" for E
  by unfold_locales (auto simp: wifi_hal_start_station_def wifi_hal_stop_station_def hal_simps)

interpretation ap: hal_latch wifi_device g_start_ap_flag
  "wifi_hal_start_ap E ssid psk ip" "wifi_hal_stop_ap E" for E ssid psk ip
  by unfold_locales (auto simp: wifi_hal_start_ap_def wifi_hal_stop_ap_def hal_simps)

interpretation mdm: hal_latch modem_device g_start_modem_flag
  "modem_hal_start_modem E" "modem_hal_stop_modem E" for E
  by unfold_locales (auto simp: modem_hal_start_modem_def modem_hal_stop_modem_def hal_simps)

interpretation eth: hal_latch etherent_device g_start_etherent_flag
  "etherent_hal_start_eth E" "etherent_hal_stop_eth E" for E
  by unfold_locales (auto simp: etherent_hal_start_eth_def etherent_hal_stop_eth_def hal_simps)

section \<open>What the wrappers change\<close>

lemmas ctl_defs = ctl_eq_def valid_status_def monitor_ok_def

lemma wifi_hal_start_station_ctl:
  "wifi_device s \<Longrightarrow> succeeds (wifi_hal_start_station E s) (\<lambda>(r, s'). ctl_eq s s')"
  by (simp add: wifi_hal_start_station_def hal_simps ctl_defs)

lemma wifi_hal_stop_station_ctl:
  "wifi_device s \<Longrightarrow> succeeds (wifi_hal_stop_station E s) (ctl_eq s)"
  by (simp add: wifi_hal_stop_station_def hal_simps ctl_defs)

lemma wifi_hal_start_ap_ctl:
  "wifi_device s \<Longrightarrow> succeeds (wifi_hal_start_ap E ssid psk ip s) (\<lambda>(r, s'). ctl_eq s s')"
  by (simp add: wifi_hal_start_ap_def hal_simps ctl_defs)

lemma wifi_hal_stop_ap_ctl:
  "wifi_device s \<Longrightarrow> succeeds (wifi_hal_stop_ap E s) (ctl_eq s)"
  by (simp add: wifi_hal_stop_ap_def hal_simps ctl_defs)

lemma modem_hal_start_modem_ctl:
  "modem_device s \<Longrightarrow> succeeds (modem_hal_start_modem E s) (\<lambda>(r, s'). ctl_eq s s')"
  by (simp add: modem_hal_start_modem_def hal_simps ctl_defs)

lemma modem_hal_stop_modem_ctl:
  "modem_device s \<Longrightarrow> succeeds (modem_hal_stop_modem E s) (ctl_eq s)"
  by (simp add: modem_hal_stop_modem_def hal_simps ctl_defs)

lemma etherent_hal_start_eth_ctl:
  "etherent_device s \<Longrightarrow> succeeds (etherent_hal_start_eth E s) (\<lambda>(r, s'). ctl_eq s s')"
  by (simp add: etherent_hal_start_eth_def hal_simps ctl_defs)

lemma etherent_hal_stop_eth_ctl:
  "etherent_device s \<Longrightarrow> succeeds (etherent_hal_stop_eth E s) (ctl_eq s)"
  by (simp add: etherent_hal_stop_eth_def hal_simps ctl_defs)

end
