(* ===== verification/NetReport.thy ===== *)
theory NetReport
  imports NetHal
begin

text \<open>
  Status reports and replies (\<open>net/network_report.c\<close>).  The guard of every function
  compares the state with \<open>sizeof(net_status)\<close>, which is the size of the table in
  bytes (two pointers, 16) and not its number of entries, so the states 2 to 15
  read past the table: the outcome is \<open>None\<close> there.
\<close>

section \<open>Operations of network_report.c\<close>

definition net_status :: "string list" where
  "net_status = [''DISCONNECTED'', ''CONNECTED'']"

definition sizeof_net_status :: int where
  "sizeof_net_status = 16"

text \<open>The comparison of an \<open>int\<close> with a \<open>size_t\<close> is unsigned.\<close>

definition state_rejected :: "int \<Rightarrow> bool" where
  "state_rejected st \<longleftrightarrow> st < 0 \<or> sizeof_net_status \<le> st"

definition net_status_at :: "int \<Rightarrow> string option" where
  "net_status_at st = (if 0 \<le> st \<and> nat st < length net_status then Some (net_status ! nat st) else None)"

definition report_wifi_status :: "wifi_status \<Rightarrow> 'w net_state \<Rightarrow> (int \<times> 'w net_state) option" where
  "report_wifi_status p s =
     (if state_rejected (wst_state p) then Some (-1, s)
      else do {
        st \<leftarrow> net_status_at (wst_state p);
        let elem = json_object_object_add ''state'' (JStr st) (JObj []);
        let elem = json_object_object_add ''signal'' (JStr (show_int (wst_signal p))) elem;
        let root = json_object_object_add ''wifi'' elem (JObj []);
        Some (0, network_ipc_upload root s)
      })"

definition signal_mode_map :: "(32 word \<times> string) list" where
  "signal_mode_map = [(0, ''none''), (2, ''2G''), (3, ''3G''), (4, ''4G'')]"

text \<open>The loop has no break: the last matching entry wins.\<close>

fun find_mode_from :: "32 word \<Rightarrow> (32 word \<times> string) list \<Rightarrow> string option \<Rightarrow> string option" where
  "find_mode_from v [] r = r"
| "find_mode_from v ((k, str) # m) r = find_mode_from v m (if v = k then Some str else r)"

definition find_mode_string :: "32 word \<Rightarrow> string option" where
  "find_mode_string v = find_mode_from v signal_mode_map None"

definition modem_elem :: "modem_status \<Rightarrow> string \<Rightarrow> json" where
  "modem_elem p st =
     (let elem = json_object_object_add ''state'' (JStr st) (JObj []);
          elem = (case find_mode_string (mst_type p) of
                    None \<Rightarrow> elem
                  | Some ty \<Rightarrow> json_object_object_add ''type'' (JStr ty) elem)
      in json_object_object_add ''signal'' (JStr (show_int (mst_signal p))) elem)"

definition report_modem_status :: "modem_status \<Rightarrow> 'w net_state \<Rightarrow> (int \<times> 'w net_state) option" where
  "report_modem_status p s =
     (if state_rejected (mst_state p) then Some (-1, s)
      else do {
        st \<leftarrow> net_status_at (mst_state p);
        Some (0, network_ipc_upload (json_object_object_add ''modem'' (modem_elem p st) (JObj [])) s)
      })"

definition report_etherent_status ::
  "etherent_status \<Rightarrow> 'w net_state \<Rightarrow> (int \<times> 'w net_state) option" where
  "report_etherent_status p s =
     (if state_rejected (est_state p) then Some (-1, s)
      else do {
        st \<leftarrow> net_status_at (est_state p);
        let elem = json_object_object_add ''state'' (JStr st) (JObj []);
        Some (0, network_ipc_upload (json_object_object_add ''etherent'' elem (JObj [])) s)
      })"

definition report_network_status ::
  "network_status \<Rightarrow> 'w net_state \<Rightarrow> (int \<times> 'w net_state) option" where
  "report_network_status p s =
     (if state_rejected (nst_state p) then Some (-1, s)
      else do {
        st \<leftarrow> net_status_at (nst_state p);
        let elem = json_object_object_add ''state'' (JStr st) (JObj []);
        Some (0, network_ipc_upload (json_object_object_add ''network'' elem (JObj [])) s)
      })"

definition respond_wifi_status :: "wifi_status \<Rightarrow> 'w net_state \<Rightarrow> (int \<times> 'w net_state) option" where
  "respond_wifi_status p s =
     (if state_rejected (wst_state p) then Some (-1, s)
      else do {
        let root = json_object_object_add ''result'' (JStr ''OK'') (JObj []);
        st \<leftarrow> net_status_at (wst_state p);
        let elem = json_object_object_add ''state'' (JStr st) (JObj []);
        let elem = json_object_object_add ''signal'' (JStr (show_int (wst_signal p))) elem;
        Some (0, network_ipc_return (json_object_object_add ''wifi'' elem root) s)
      })"

definition respond_modem_status :: "modem_status \<Rightarrow> 'w net_state \<Rightarrow> (int \<times> 'w net_state) option" where
  "respond_modem_status p s =
     (if state_rejected (mst_state p) then Some (-1, s)
      else do {
        let root = json_object_object_add ''result'' (JStr ''OK'') (JObj []);
        st \<leftarrow> net_status_at (mst_state p);
        Some (0, network_ipc_return (json_object_object_add ''modem'' (modem_elem p st) root) s)
      })"

definition respond_etherent_status ::
  "etherent_status \<Rightarrow> 'w net_state \<Rightarrow> (int \<times> 'w net_state) option" where
  "respond_etherent_status p s =
     (if state_rejected (est_state p) then Some (-1, s)
      else do {
        let root = json_object_object_add ''result'' (JStr ''OK'') (JObj []);
        st \<leftarrow> net_status_at (est_state p);
        let elem = json_object_object_add ''state'' (JStr st) (JObj []);
        Some (0, network_ipc_return (json_object_object_add ''etherent'' elem root) s)
      })"

definition respond_network_status ::
  "network_status \<Rightarrow> 'w net_state \<Rightarrow> (int \<times> 'w net_state) option" where
  "respond_network_status p s =
     (if state_rejected (nst_state p) then Some (-1, s)
      else do {
        let root = json_object_object_add ''result'' (JStr ''OK'') (JObj []);
        st \<leftarrow> net_status_at (nst_state p);
        let elem = json_object_object_add ''state'' (JStr st) (JObj []);
        Some (0, network_ipc_return (json_object_object_add ''network'' elem root) s)
      })"

section \<open>Behaviour on valid states\<close>

lemma state_ok [simp]: "st \<in> {0, 1} \<Longrightarrow> \<not> state_rejected st \<and> net_status_at st \<noteq> None"
  by (auto simp: state_rejected_def sizeof_net_status_def net_status_at_def net_status_def)

lemma state_01E:
  assumes "st \<in> {0, 1}"
  obtains str where "\<not> state_rejected st" "net_status_at st = Some str"
  using state_ok[OF assms] by auto

lemma ctl_eq_upload [simp]: "ctl_eq s (network_ipc_upload j s)"
  by (simp add: ctl_defs network_ipc_upload_def)

lemma report_wifi_ctl: "wst_state p \<in> {0, 1} \<Longrightarrow> succeeds (report_wifi_status p s) (\<lambda>(r, s'). ctl_eq s s')"
  by (erule state_01E) (simp add: report_wifi_status_def)

lemma report_modem_ctl: "mst_state p \<in> {0, 1} \<Longrightarrow> succeeds (report_modem_status p s) (\<lambda>(r, s'). ctl_eq s s')"
  by (erule state_01E) (simp add: report_modem_status_def)

lemma report_etherent_ctl:
  "est_state p \<in> {0, 1} \<Longrightarrow> succeeds (report_etherent_status p s) (\<lambda>(r, s'). ctl_eq s s')"
  by (erule state_01E) (simp add: report_etherent_status_def)

lemma report_network_ctl:
  "nst_state p \<in> {0, 1} \<Longrightarrow> succeeds (report_network_status p s) (\<lambda>(r, s'). ctl_eq s s')"
  by (erule state_01E) (simp add: report_network_status_def)

text \<open>A reply to the current command and nothing else.\<close>

definition answers :: "'w net_state \<Rightarrow> 'w net_state \<Rightarrow> bool" where
  "answers s s' \<longleftrightarrow> (\<exists>j. s' = network_ipc_return j s)"

lemma respond_wifi_answers:
  "wst_state p \<in> {0, 1} \<Longrightarrow> succeeds (respond_wifi_status p s) (\<lambda>(r, s'). answers s s')"
  by (erule state_01E) (auto simp: respond_wifi_status_def answers_def)

lemma respond_modem_answers:
  "mst_state p \<in> {0, 1} \<Longrightarrow> succeeds (respond_modem_status p s) (\<lambda>(r, s'). answers s s')"
  by (erule state_01E) (auto simp: respond_modem_status_def answers_def)

lemma respond_etherent_answers:
  "est_state p \<in> {0, 1} \<Longrightarrow> succeeds (respond_etherent_status p s) (\<lambda>(r, s'). answers s s')"
  by (erule state_01E) (auto simp: respond_etherent_status_def answers_def)

lemma respond_network_answers:
  "nst_state p \<in> {0, 1} \<Longrightarrow> succeeds (respond_network_status p s) (\<lambda>(r, s'). answers s s')"
  by (erule state_01E) (auto simp: respond_network_status_def answers_def)

end
