(* ===== verification/WifiEvent.thy ===== *)
theory WifiEvent
  imports NetReport
begin

text \<open>
  The Wi-Fi event machinery (\<open>wifi/wifi_event.c\<close>): the status cell, the decoding of
  wpa_supplicant messages, the event and signal threads, and the condition
  variable a command handler waits on.  Threads run in slices: a slice of the
  event thread is one round of its start-up poll, the head of its receive loop, or
  the handling of one received message.  A message that does not have the expected
  shape makes \<open>get_msg_and_data\<close> subtract from a NULL pointer or overrun its
  buffers; these cases are \<open>None\<close>.
\<close>

section \<open>Messages\<close>

definition wpa_event_msg :: "string list" where
  "wpa_event_msg = [
     ''CTRL-EVENT-CONNECTED'', ''CTRL-EVENT-DISCONNECTED'', ''CTRL-EVENT-ASSOC-REJECT'',
     ''CTRL-EVENT-AUTH-REJECT'', ''CTRL-EVENT-TERMINATING'', ''CTRL-EVENT-PASSWORD-CHANGED'',
     ''CTRL-EVENT-EAP-NOTIFICATION'', ''CTRL-EVENT-EAP-STARTED'', ''CTRL-EVENT-EAP-PROPOSED-METHOD'',
     ''CTRL-EVENT-EAP-METHOD'', ''CTRL-EVENT-EAP-PEER-CERT'', ''CTRL-EVENT-EAP-PEER-ALT'',
     ''CTRL-EVENT-EAP-TLS-CERT-ERROR'', ''CTRL-EVENT-EAP-STATUS'', ''CTRL-EVENT-EAP-SUCCESS'',
     ''CTRL-EVENT-EAP-FAILURE'', ''CTRL-EVENT-SSID-TEMP-DISABLED'', ''CTRL-EVENT-SSID-REENABLED'',
     ''CTRL-EVENT-SCAN-STARTED'', ''CTRL-EVENT-SCAN-RESULTS'', ''CTRL-EVENT-SCAN-FAILED'',
     ''CTRL-EVENT-STATE-CHANGE'', ''CTRL-EVENT-BSS-ADDED'', ''CTRL-EVENT-BSS-REMOVED'',
     ''CTRL-EVENT-NETWORK-NOT-FOUND'', ''CTRL-EVENT-SIGNAL-CHANGE'', ''CTRL-EVENT-REGDOM-CHANGE'',
     ''CTRL-EVENT-CHANNEL-SWITCH'', ''CTRL-EVENT-SUBNET-STATUS-UPDATE'']"

definition WPA_EVENT_CONNECTED :: int where "WPA_EVENT_CONNECTED = 0"
definition WPA_EVENT_DISCONNECTED :: int where "WPA_EVENT_DISCONNECTED = 1"
definition WPA_EVENT_ASSOC_REJECT :: int where "WPA_EVENT_ASSOC_REJECT = 2"
definition WPA_EVENT_TEMP_DISABLED :: int where "WPA_EVENT_TEMP_DISABLED = 16"
definition WPA_EVENT_REENABLED :: int where "WPA_EVENT_REENABLED = 17"
definition WPA_EVENT_NETWORK_NOT_FOUND :: int where "WPA_EVENT_NETWORK_NOT_FOUND = 24"

lemmas wpa_event_defs = WPA_EVENT_CONNECTED_def WPA_EVENT_DISCONNECTED_def WPA_EVENT_ASSOC_REJECT_def
  WPA_EVENT_TEMP_DISABLED_def WPA_EVENT_REENABLED_def WPA_EVENT_NETWORK_NOT_FOUND_def

fun msg_index_from :: "string \<Rightarrow> string list \<Rightarrow> int \<Rightarrow> int" where
  "msg_index_from m [] i = -1"
| "msg_index_from m (x # xs) i = (if m = x then i else msg_index_from m xs (i + 1))"

definition get_wifi_msg_index :: "string \<Rightarrow> int" where
  "get_wifi_msg_index m = msg_index_from m wpa_event_msg 0"

definition get_msg_and_data :: "string \<Rightarrow> (string \<times> string) option" where
  "get_msg_and_data buf = do {
     p \<leftarrow> strchr (drop 4 buf) (CHR '' '');
     let msg = take (length buf - length p - 3) (drop 3 buf);
     let data = drop 1 p;
     if length msg < 48 \<and> length data < 256 then Some (msg, data) else None
   }"

section \<open>The status cell\<close>

definition wifi_event_get_status :: "'w net_state \<Rightarrow> wifi_status" where
  "wifi_event_get_status s = g_wifi_status s"

definition wifi_event_set_status :: "wifi_status \<Rightarrow> 'w net_state \<Rightarrow> 'w net_state" where
  "wifi_event_set_status st s = s\<lparr>g_wifi_status := st\<rparr>"

definition wifi_set_state :: "int \<Rightarrow> 'w net_state \<Rightarrow> 'w net_state" where
  "wifi_set_state st s = wifi_event_set_status ((wifi_event_get_status s)\<lparr>wst_state := st\<rparr>) s"

definition wifi_report_connect_state :: "int \<Rightarrow> 'w net_state \<Rightarrow> 'w net_state option" where
  "wifi_report_connect_state st s = do {
     let status = (wifi_event_get_status s)\<lparr>wst_state := st\<rparr>;
     (_, s) \<leftarrow> report_wifi_status status (wifi_event_set_status status s);
     Some s
   }"

definition wifi_report_signal_strength :: "int \<Rightarrow> 'w net_state \<Rightarrow> 'w net_state option" where
  "wifi_report_signal_strength n s = do {
     let status = (wifi_event_get_status s)\<lparr>wst_signal := n\<rparr>;
     (_, s) \<leftarrow> report_wifi_status status (wifi_event_set_status status s);
     Some s
   }"

definition wifi_report_status :: "'w net_state \<Rightarrow> 'w net_state option" where
  "wifi_report_status s = map_option snd (report_wifi_status (wifi_event_get_status s) s)"

definition wifi_respond_status :: "'w net_state \<Rightarrow> (int \<times> 'w net_state) option" where
  "wifi_respond_status s = do {
     (_, s) \<leftarrow> respond_wifi_status (wifi_event_get_status s) s;
     Some (0, s)
   }"

section \<open>Handling of one message\<close>

definition wifi_wakeup_wait :: "tresult \<Rightarrow> 'w net_state \<Rightarrow> 'w net_state" where
  "wifi_wakeup_wait r s = s\<lparr>g_result := r\<rparr>"

definition no_result :: tresult where
  "no_result = \<lparr>tr_flag = False, tr_result = COMMAND_OK, tr_reason = eREASON_NONE\<rparr>"

text \<open>The switch of \<open>process_recv_info\<close>: the result for a waiting command and the new
  state.\<close>

definition recv_switch ::
  "int \<Rightarrow> string \<Rightarrow> 'w net_state \<Rightarrow> (tresult \<times> 'w net_state) option" where
  "recv_switch index data s =
     (if index = WPA_EVENT_CONNECTED \<or> index = WPA_EVENT_REENABLED then do {
        let res = (if ns_wifi_state s = WIFI_STATION_JOINING
                   then \<lparr>tr_flag = True, tr_result = COMMAND_OK, tr_reason = eREASON_NONE\<rparr>
                   else no_result);
        let s = (if ns_wifi_state s = WIFI_STATION_UNCONNECTED
                 then s\<lparr>ns_wifi_state := WIFI_STATION_CONNECTED\<rparr> else s);
        s \<leftarrow> wifi_report_connect_state REPORT_CONNECT s;
        Some (res, s\<lparr>wifi_faild_time := 0\<rparr>)
      }
      else if index = WPA_EVENT_ASSOC_REJECT \<or> index = WPA_EVENT_DISCONNECTED then do {
        let s = s\<lparr>wifi_faild_time := wifi_faild_time s + 1\<rparr>;
        let res = (if wifi_faild_time s > 3 \<and> ns_wifi_state s = WIFI_STATION_JOINING
                   then \<lparr>tr_flag = True, tr_result = COMMAND_NOK, tr_reason = eREASON_WIFI_NOT_CONNECT\<rparr>
                   else no_result);
        let s = (if ns_wifi_state s = WIFI_STATION_CONNECTED
                 then s\<lparr>ns_wifi_state := WIFI_STATION_UNCONNECTED\<rparr> else s);
        s \<leftarrow> wifi_report_connect_state REPORT_UNCONNECT s;
        Some (res, s)
      }
      else if index = WPA_EVENT_NETWORK_NOT_FOUND then do {
        let res = (if ns_wifi_state s = WIFI_STATION_JOINING
                   then \<lparr>tr_flag = True, tr_result = COMMAND_NOK, tr_reason = eREASON_WIFI_NOT_FOUND\<rparr>
                   else no_result);
        let s = (if ns_wifi_state s = WIFI_STATION_CONNECTED
                 then s\<lparr>ns_wifi_state := WIFI_STATION_UNCONNECTED\<rparr> else s);
        Some (res, s)
      }
      else if index = WPA_EVENT_TEMP_DISABLED then do {
        let res = (if contains data ''WRONG_KEY'' \<and> ns_wifi_state s = WIFI_STATION_JOINING
                   then \<lparr>tr_flag = True, tr_result = COMMAND_NOK, tr_reason = eREASON_WIFI_WRONG_KEY\<rparr>
                   else no_result);
        let s = (if ns_wifi_state s = WIFI_STATION_CONNECTED
                 then s\<lparr>ns_wifi_state := WIFI_STATION_UNCONNECTED\<rparr> else s);
        s \<leftarrow> wifi_report_connect_state REPORT_UNCONNECT s;
        Some (res, s)
      }
      else Some (no_result, s))"

text \<open>The result of the call is whether a waiting command was woken.\<close>

definition process_recv_info :: "string \<Rightarrow> 'w net_state \<Rightarrow> (bool \<times> 'w net_state) option" where
  "process_recv_info buf s = do {
     (msg, data) \<leftarrow> get_msg_and_data buf;
     (res, s) \<leftarrow> recv_switch (get_wifi_msg_index msg) data s;
     Some (tr_flag res, if tr_flag res then wifi_wakeup_wait res s else s)
   }"

section \<open>The threads\<close>

text \<open>The part of \<open>wifi_get_monitor_event\<close> before its loop, one poll per slice.\<close>

definition event_thread_start :: "'w net_env \<Rightarrow> nat \<Rightarrow> 'w net_state \<Rightarrow> 'w net_state" where
  "event_thread_start E cnts s =
     (let ((iret, _), s) = ext (wp_get_status (wpa E)) s; cnts = cnts - 1 in
      if cnts \<noteq> 0 \<and> iret < 0 then s\<lparr>event_thread := EV_STARTING cnts\<rparr>
      else if iret < 0 then s\<lparr>event_thread := EV_EXITED\<rparr>
      else let (acc, s) = ext (sy_access (sys E) ''/var/run/wpa_supplicant/wlan0'') s in
        if acc \<noteq> 0 then s\<lparr>event_thread := EV_EXITED\<rparr>
        else let (iret, s) = ext (wp_connect_moni_socket (wpa E)) s in
          if iret < 0 then s\<lparr>event_thread := EV_EXITED\<rparr>
          else s\<lparr>g_wifi_thread_start := True, event_thread := EV_LOOP\<rparr>)"

definition event_thread_recv ::
  "'w net_env \<Rightarrow> 'w net_state \<Rightarrow> (bool \<times> 'w net_state) option" where
  "event_thread_recv E s = do {
     let ((iret, buf), s) = ext (wp_ctrl_recv (wpa E)) s;
     (woken, s) \<leftarrow>
       (if iret = 0 then
          if contains buf ''CTRL-EVENT-'' \<and> \<not> contains buf ''CTRL-EVENT-BSS-''
          then do { (b, s) \<leftarrow> process_recv_info buf s; Some (b, s\<lparr>event_thread := EV_LOOP\<rparr>) }
          else Some (False, s\<lparr>event_thread := EV_LOOP\<rparr>)
        else if iret = 1 then Some (False, s\<lparr>event_thread := EV_LOOP\<rparr>)
        else
          let (_, s) = ext (wp_monitor_release (wpa E)) s;
              (iret, s) = ext (wp_connect_moni_socket (wpa E)) s
          in Some (False, s\<lparr>event_thread := (if iret < 0 then EV_EXITED else EV_LOOP)\<rparr>));
     Some (woken, if event_thread s \<noteq> EV_EXITED \<and> \<not> g_wifi_thread_start s
                  then snd (ext (wp_monitor_release (wpa E)) s) else s)
   }"

definition event_thread_slice ::
  "'w net_env \<Rightarrow> 'w net_state \<Rightarrow> (bool \<times> 'w net_state) option" where
  "event_thread_slice E s =
     (case event_thread s of
        EV_NONE \<Rightarrow> Some (False, s)
      | EV_EXITED \<Rightarrow> Some (False, s)
      | EV_STARTING n \<Rightarrow> Some (False, event_thread_start E n s)
      | EV_LOOP \<Rightarrow>
          if g_wifi_thread_start s
          then Some (False, s\<lparr>g_wifi_monitor_open := True, event_thread := EV_RECV\<rparr>)
          else Some (False, s\<lparr>event_thread := EV_EXITED\<rparr>)
      | EV_RECV \<Rightarrow> event_thread_recv E s)"

text \<open>One round of \<open>wifi_roam_scan_event\<close> (without \<open>WIFI_ROAMING\<close>).\<close>

definition wifi_roam_slice :: "'w net_env \<Rightarrow> 'w net_state \<Rightarrow> 'w net_state option" where
  "wifi_roam_slice E s =
     (if \<not> roam_thread s then Some s
      else if \<not> g_wifi_thread_start s then Some (s\<lparr>roam_thread := False\<rparr>)
      else let ((iret, signal), s) = ext (wp_get_signal (wpa E)) s in
        if iret = 0 then wifi_report_signal_strength signal s else Some s)"

definition wifi_trigger_scan :: "'w net_env \<Rightarrow> 'w net_state \<Rightarrow> 'w net_state" where
  "wifi_trigger_scan E s = snd (ext (wp_scan (wpa E)) s)"

definition wifi_connecting_network :: "'w net_env \<Rightarrow> 'w net_state \<Rightarrow> 'w net_state" where
  "wifi_connecting_network E s =
     (let ((_, net), s) = ext (wp_join_network (wpa E) (g_wifi_network s)) s
      in s\<lparr>g_wifi_network := net\<rparr>)"

text \<open>The event loop runs the one-shot timer \<open>wifi_connect\<close> when it is armed.\<close>

definition connect_timer_slice :: "'w net_env \<Rightarrow> 'w net_state \<Rightarrow> 'w net_state" where
  "connect_timer_slice E s =
     (case timer_expire (ns_wifi_connect s) (eloop_sched s) of
        None \<Rightarrow> s
      | Some sch \<Rightarrow> wifi_connecting_network E (s\<lparr>eloop_sched := sch\<rparr>))"

definition run_slice ::
  "'w net_env \<Rightarrow> slice \<Rightarrow> 'w net_state \<Rightarrow> (bool \<times> 'w net_state) option" where
  "run_slice E sl s =
     (case sl of
        SL_EVENT \<Rightarrow> event_thread_slice E s
      | SL_ROAM \<Rightarrow> map_option (Pair False) (wifi_roam_slice E s)
      | SL_LOOP \<Rightarrow> Some (False, connect_timer_slice E s))"

text \<open>\<open>sleep\<close>: all the slices the other threads get; \<open>pthread_cond_timedwait\<close>: the
  slices up to the first one that signals the condition.\<close>

fun run_slices :: "'w net_env \<Rightarrow> slice list \<Rightarrow> 'w net_state \<Rightarrow> 'w net_state option" where
  "run_slices E [] s = Some s"
| "run_slices E (sl # sls) s = do { (_, s) \<leftarrow> run_slice E sl s; run_slices E sls s }"

fun run_until_woken ::
  "'w net_env \<Rightarrow> slice list \<Rightarrow> 'w net_state \<Rightarrow> (bool \<times> 'w net_state) option" where
  "run_until_woken E [] s = Some (False, s)"
| "run_until_woken E (sl # sls) s = do {
     (b, s) \<leftarrow> run_slice E sl s;
     if b then Some (True, s) else run_until_woken E sls s
   }"

definition wifi_wait_for_result ::
  "'w net_env \<Rightarrow> 'w net_state \<Rightarrow> (int \<times> tresult \<times> 'w net_state) option" where
  "wifi_wait_for_result E s = do {
     let (sls, s) = ext (sy_slices (sys E)) s;
     (woken, s) \<leftarrow> run_until_woken E sls s;
     if woken then Some (0, g_result s, s)
     else
       let s = s\<lparr>g_result := (g_result s)\<lparr>tr_result := COMMAND_NOK, tr_reason := eREASON_WIFI_TIMEOUT\<rparr>\<rparr>
       in Some (-1, g_result s, s)
   }"

text \<open>The assignment \<open>g_wifi_thread_start = 1\<close> with which the signal thread begins is made at
  its creation.\<close>

definition wifi_start_monitor :: "'w net_env \<Rightarrow> 'w net_state \<Rightarrow> int \<times> 'w net_state" where
  "wifi_start_monitor E s =
     (let s = wifi_set_state 0 s in
      if g_wifi_monitor_flag s then (0, s)
      else let (r, s) = ext (sy_pthread_attr_init (sys E)) s in
        if r \<noteq> 0 then (-1, s)
        else let (r, s) = ext (sy_pthread_create (sys E) ''wifi_get_monitor_event'') s in
          if r \<noteq> 0 then (-1, s)
          else let s = s\<lparr>event_thread := EV_STARTING 5\<rparr>;
                   (r, s) = ext (sy_pthread_create (sys E) ''wifi_roam_scan_event'') s in
            if r \<noteq> 0 then (-1, s\<lparr>g_wifi_thread_start := False, event_thread := EV_NONE\<rparr>)
            else (0, s\<lparr>roam_thread := True, g_wifi_thread_start := True, g_wifi_monitor_flag := True\<rparr>))"

definition wifi_stop_monitor :: "'w net_state \<Rightarrow> 'w net_state" where
  "wifi_stop_monitor s =
     (if g_wifi_monitor_flag s
      then s\<lparr>g_wifi_monitor_flag := False, g_wifi_thread_start := False, g_wifi_monitor_open := False,
             roam_thread := False, event_thread := EV_NONE\<rparr>
      else s)"

section \<open>Well-formed messages and what the threads leave alone\<close>

text \<open>The environment delivers only messages the decoder can take apart.\<close>

definition recv_wf :: "'w net_env \<Rightarrow> bool" where
  "recv_wf E \<longleftrightarrow> (\<forall>w iret buf w'. wp_ctrl_recv (wpa E) w = ((iret, buf), w') \<longrightarrow>
     iret = 0 \<longrightarrow> contains buf ''CTRL-EVENT-'' \<longrightarrow> get_msg_and_data buf \<noteq> None)"

lemma report_states [simp]: "REPORT_CONNECT \<in> {0, 1}" "REPORT_UNCONNECT \<in> {0, 1}"
  by (simp_all add: REPORT_CONNECT_def REPORT_UNCONNECT_def)

lemma wifi_set_state_ctl: "st \<in> {0, 1} \<Longrightarrow> ctl_eq s (wifi_set_state st s)"
  by (auto simp: wifi_set_state_def wifi_event_set_status_def ctl_defs)

lemma set_status_ctl: "wst_state p \<in> {0, 1} \<Longrightarrow> ctl_eq s (wifi_event_set_status p s)"
  by (auto simp: wifi_event_set_status_def ctl_defs)

lemma wifi_report_connect_state_ctl:
  assumes "st \<in> {0, 1}"
  shows "succeeds (wifi_report_connect_state st s) (ctl_eq s)"
proof -
  let ?p = "(wifi_event_get_status s)\<lparr>wst_state := st\<rparr>"
  have "succeeds (report_wifi_status ?p (wifi_event_set_status ?p s))
      (\<lambda>(r, t). ctl_eq (wifi_event_set_status ?p s) t)"
    using assms by (intro report_wifi_ctl) simp
  moreover have "ctl_eq s (wifi_event_set_status ?p s)" using assms by (intro set_status_ctl) simp
  ultimately show ?thesis
    by (auto simp: wifi_report_connect_state_def succeeds_iff intro: ctl_eq_trans)
qed

lemma wifi_report_signal_strength_ctl:
  assumes "valid_status s"
  shows "succeeds (wifi_report_signal_strength n s) (ctl_eq s)"
proof -
  let ?p = "(wifi_event_get_status s)\<lparr>wst_signal := n\<rparr>"
  have st: "wst_state ?p \<in> {0, 1}"
    using assms by (simp add: valid_status_def wifi_event_get_status_def)
  have "succeeds (report_wifi_status ?p (wifi_event_set_status ?p s))
      (\<lambda>(r, t). ctl_eq (wifi_event_set_status ?p s) t)"
    using st by (rule report_wifi_ctl)
  moreover have "ctl_eq s (wifi_event_set_status ?p s)" using st by (rule set_status_ctl)
  ultimately show ?thesis
    by (auto simp: wifi_report_signal_strength_def succeeds_iff intro: ctl_eq_trans)
qed

lemma ctl_eq_updates [simp]:
  "ctl_eq s (t\<lparr>ns_wifi_state := x1\<rparr>) = ctl_eq s t"
  "ctl_eq s (t\<lparr>wifi_faild_time := x2\<rparr>) = ctl_eq s t"
  "ctl_eq s (t\<lparr>g_result := x3\<rparr>) = ctl_eq s t"
  "ctl_eq s (t\<lparr>world := w\<rparr>) = ctl_eq s t"
  "ctl_eq s (t\<lparr>event_thread := x4\<rparr>) = ctl_eq s t"
  "ctl_eq s (t\<lparr>roam_thread := x5\<rparr>) = ctl_eq s t"
  "ctl_eq s (t\<lparr>g_wifi_thread_start := x6\<rparr>) = ctl_eq s t"
  "ctl_eq s (t\<lparr>g_wifi_monitor_open := x7\<rparr>) = ctl_eq s t"
  "ctl_eq s (t\<lparr>g_wifi_monitor_flag := x8\<rparr>) = ctl_eq s t"
  "ctl_eq s (t\<lparr>g_wifi_network := x9\<rparr>) = ctl_eq s t"
  "ctl_eq s (t\<lparr>unconnect_cnts := x10\<rparr>) = ctl_eq s t"
  "ctl_eq s (t\<lparr>unconnect_times := x11\<rparr>) = ctl_eq s t"
  "ctl_eq s (t\<lparr>g_etherent_start_monitor := x13\<rparr>) = ctl_eq s t"
  "ctl_eq s (t\<lparr>ns_modem_state := x14\<rparr>) = ctl_eq s t"
  "ctl_eq s (t\<lparr>ns_etherent_state := x15\<rparr>) = ctl_eq s t"
  "ctl_eq s (t\<lparr>ns_wpa_network_id := x17\<rparr>) = ctl_eq s t"
  "ctl_eq s (t\<lparr>ns_ssid := x18\<rparr>) = ctl_eq s t"
  by (simp_all add: ctl_defs)

lemma ctl_eq_world [simp]: "ctl_eq (s\<lparr>world := w\<rparr>) t = ctl_eq s t"
  by (simp add: ctl_defs)

lemma ctl_eq_shift:
  assumes "succeeds m (ctl_eq t)" and "ctl_eq s t"
  shows "succeeds m (ctl_eq s)"
  using assms by (auto simp: succeeds_iff intro: ctl_eq_trans)

lemma recv_switch_ctl: "succeeds (recv_switch i d s) (\<lambda>(r, s'). ctl_eq s s')"
proof -
  have rep: "succeeds (wifi_report_connect_state st t) (ctl_eq s)"
    if "st \<in> {0, 1}" "ctl_eq s t" for st and t
    using wifi_report_connect_state_ctl[OF that(1), of t] that(2) by (rule ctl_eq_shift)
  note upd = rep[OF report_states(1)] rep[OF report_states(2)]
  show ?thesis
    unfolding recv_switch_def Let_def succeeds_if succeeds_bind
    by (intro conjI impI; (simp; fail)?)
      (auto intro!: succeeds_mono[OF upd(1)] succeeds_mono[OF upd(2)])
qed

lemma process_recv_info_ctl:
  assumes "get_msg_and_data buf \<noteq> None"
  shows "succeeds (process_recv_info buf s) (\<lambda>(b, s'). ctl_eq s s')"
proof -
  obtain msg data where m: "get_msg_and_data buf = Some (msg, data)" using assms by auto
  obtain res s1 where "recv_switch (get_wifi_msg_index msg) data s = Some (res, s1)" "ctl_eq s s1"
    using recv_switch_ctl[of "get_wifi_msg_index msg" data s] by (auto simp: succeeds_iff)
  with m show ?thesis by (simp add: process_recv_info_def wifi_wakeup_wait_def)
qed

lemma event_thread_start_ctl: "ctl_eq s (event_thread_start E n s)"
  by (simp add: event_thread_start_def ext_eq split_def Let_def)

lemma event_thread_recv_ctl:
  assumes "recv_wf E"
  shows "succeeds (event_thread_recv E s) (\<lambda>(b, s'). ctl_eq s s')"
proof -
  obtain iret buf where r: "fst (wp_ctrl_recv (wpa E) (world s)) = (iret, buf)" by fastforce
  let ?s = "s\<lparr>world := snd (wp_ctrl_recv (wpa E) (world s))\<rparr>"
  have wf: "iret = 0 \<Longrightarrow> contains buf ''CTRL-EVENT-'' \<Longrightarrow> get_msg_and_data buf \<noteq> None"
    using assms r unfolding recv_wf_def by (metis prod.collapse)
  show ?thesis
  proof (cases "iret = 0 \<and> contains buf ''CTRL-EVENT-'' \<and> \<not> contains buf ''CTRL-EVENT-BSS-''")
    case True
    obtain b s1 where "process_recv_info buf ?s = Some (b, s1)" "ctl_eq ?s s1"
      using process_recv_info_ctl[OF wf, of ?s] True by (auto simp: succeeds_iff)
    moreover have "ctl_eq s ?s" by simp
    ultimately show ?thesis using True r
      by (auto simp: event_thread_recv_def ext_eq intro: ctl_eq_trans)
  next
    case False
    with r show ?thesis by (auto simp: event_thread_recv_def ext_eq Let_def)
  qed
qed

lemma event_thread_slice_ctl:
  assumes "recv_wf E"
  shows "succeeds (event_thread_slice E s) (\<lambda>(b, s'). ctl_eq s s')"
  by (auto simp: event_thread_slice_def event_thread_start_ctl event_thread_recv_ctl[OF assms]
      split: event_pc.split)

lemma wifi_roam_slice_ctl:
  assumes "valid_status s"
  shows "succeeds (wifi_roam_slice E s) (ctl_eq s)"
proof -
  let ?s = "s\<lparr>world := snd (wp_get_signal (wpa E) (world s))\<rparr>"
  have "valid_status ?s" using assms by (simp add: valid_status_def)
  then have "succeeds (wifi_report_signal_strength n ?s) (ctl_eq s)" for n
    by (intro ctl_eq_shift[OF wifi_report_signal_strength_ctl]) simp_all
  then show ?thesis by (auto simp: wifi_roam_slice_def ext_eq split_def Let_def)
qed

lemma timer_expire_keeps:
  assumes "sched_inv sch" and "timer_expire i sch = Some sch'"
  shows "sched_inv sch' \<and> timer_alive sch' = timer_alive sch"
proof -
  obtain t where "timer_mem sch i = Some t" using assms(2) by (auto simp: timer_expire_def split: option.splits)
  then have al: "timer_alive sch i" by (simp add: timer_alive_def)
  obtain its where "timer_settime i its sch = Some sch'"
    using assms(2) by (auto simp: timer_expire_def split: option.splits if_splits)
  then show ?thesis using timer_settime_alive[OF assms(1) al, of its] by simp
qed

lemma connect_timer_slice_ctl: "ctl_eq s (connect_timer_slice E s)"
proof (cases "timer_expire (ns_wifi_connect s) (eloop_sched s)")
  case None
  then show ?thesis by (simp add: connect_timer_slice_def)
next
  case (Some sch)
  have "ctl_eq s (s\<lparr>eloop_sched := sch\<rparr>)"
    using timer_expire_keeps[OF _ Some] by (auto simp: ctl_defs)
  then show ?thesis
    using Some by (simp add: connect_timer_slice_def wifi_connecting_network_def ext_eq split_def Let_def)
qed

lemma run_slice_ctl:
  assumes "recv_wf E" and "valid_status s"
  shows "succeeds (run_slice E sl s) (\<lambda>(b, s'). ctl_eq s s')"
proof (cases sl)
  case SL_EVENT
  then show ?thesis by (simp add: run_slice_def event_thread_slice_ctl[OF assms(1)])
next
  case SL_ROAM
  then show ?thesis using wifi_roam_slice_ctl[OF assms(2), of E]
    by (auto simp: run_slice_def succeeds_iff)
next
  case SL_LOOP
  then show ?thesis by (simp add: run_slice_def connect_timer_slice_ctl)
qed

lemma ctl_eq_valid: "ctl_eq s t \<Longrightarrow> valid_status s \<Longrightarrow> valid_status t"
  by (simp add: ctl_eq_def)

lemma run_slices_ctl:
  assumes "recv_wf E" and "valid_status s"
  shows "succeeds (run_slices E sls s) (ctl_eq s)"
  using assms(2)
proof (induction sls arbitrary: s)
  case (Cons sl sls)
  obtain b t where t: "run_slice E sl s = Some (b, t)" "ctl_eq s t"
    using run_slice_ctl[OF assms(1) Cons.prems, of sl] by (auto simp: succeeds_iff)
  have "succeeds (run_slices E sls t) (ctl_eq t)"
    using Cons.IH ctl_eq_valid[OF t(2) Cons.prems] .
  with t show ?case by (simp add: ctl_eq_shift)
qed simp

lemma run_until_woken_ctl:
  assumes "recv_wf E" and "valid_status s"
  shows "succeeds (run_until_woken E sls s) (\<lambda>(b, s'). ctl_eq s s')"
  using assms(2)
proof (induction sls arbitrary: s)
  case (Cons sl sls)
  obtain b t where t: "run_slice E sl s = Some (b, t)" "ctl_eq s t"
    using run_slice_ctl[OF assms(1) Cons.prems, of sl] by (auto simp: succeeds_iff)
  have "succeeds (run_until_woken E sls t) (\<lambda>(b, s'). ctl_eq t s')"
    using Cons.IH ctl_eq_valid[OF t(2) Cons.prems] .
  with t show ?case by (auto simp: succeeds_iff intro: ctl_eq_trans)
qed simp

lemma wifi_wait_for_result_ctl:
  assumes "recv_wf E" and "valid_status s"
  shows "succeeds (wifi_wait_for_result E s) (\<lambda>(iret, r, s'). ctl_eq s s')"
proof -
  let ?s = "s\<lparr>world := snd (sy_slices (sys E) (world s))\<rparr>"
  let ?sls = "fst (sy_slices (sys E) (world s))"
  have "valid_status ?s" using assms(2) by (simp add: valid_status_def)
  then obtain b t where "run_until_woken E ?sls ?s = Some (b, t)" "ctl_eq ?s t"
    using run_until_woken_ctl[OF assms(1), of ?s ?sls] by (auto simp: succeeds_iff)
  moreover have "ctl_eq s ?s" by simp
  ultimately show ?thesis by (auto simp: wifi_wait_for_result_def ext_eq Let_def intro: ctl_eq_trans)
qed

lemma wifi_start_monitor_ctl: "ctl_eq s (snd (wifi_start_monitor E s))"
  using wifi_set_state_ctl[of 0 s] by (simp add: wifi_start_monitor_def ext_eq split_def Let_def)

lemma wifi_stop_monitor_ctl: "ctl_eq s (wifi_stop_monitor s)"
  by (simp add: wifi_stop_monitor_def)

end
