(* ===== verification/LinkEvents.thy ===== *)
theory LinkEvents
  imports WifiEvent
begin

text \<open>
  The modem poll (\<open>modem/modem_event.c\<close>), the ethernet link status
  (\<open>etherent/etherent_event.c\<close>) and the internet reachability monitor
  (\<open>net/network_monitor.c\<close>).
\<close>

section \<open>modem_event.c\<close>

definition get_modem_state :: "32 word \<Rightarrow> int \<Rightarrow> int" where
  "get_modem_state ty strength =
     (if ty = 0 \<or> strength = 99 then REPORT_UNCONNECT else REPORT_CONNECT)"

definition modem_get_stauts :: "'w net_state \<Rightarrow> modem_status" where
  "modem_get_stauts s = g_modem_status s"

definition modem_set_status :: "modem_status \<Rightarrow> 'w net_state \<Rightarrow> 'w net_state" where
  "modem_set_status st s = s\<lparr>g_modem_status := st\<rparr>"

definition modem_publish :: "modem_status \<Rightarrow> 'w net_state \<Rightarrow> 'w net_state option" where
  "modem_publish st s = map_option snd (report_modem_status st (modem_set_status st s))"

definition modem_report_signal_strength :: "int \<Rightarrow> 'w net_state \<Rightarrow> 'w net_state option" where
  "modem_report_signal_strength n s = modem_publish ((modem_get_stauts s)\<lparr>mst_signal := n\<rparr>) s"

definition modem_report_signal_type :: "32 word \<Rightarrow> 'w net_state \<Rightarrow> 'w net_state option" where
  "modem_report_signal_type ty s =
     (let status = modem_get_stauts s in
      if ty \<noteq> mst_type status then modem_publish (status\<lparr>mst_type := ty\<rparr>) s else Some s)"

definition modem_report_connect_state :: "int \<Rightarrow> 'w net_state \<Rightarrow> 'w net_state option" where
  "modem_report_connect_state st s =
     (let status = modem_get_stauts s in
      if st \<noteq> mst_state status then modem_publish (status\<lparr>mst_state := st\<rparr>) s else Some s)"

definition MAX_UNCONNECT_CNTS :: int where "MAX_UNCONNECT_CNTS = 12"

text \<open>The end of a poll, once strength and type are known: report the connection state
  and restart the modem after too many polls without a connection.\<close>

definition modem_poll_end :: "'w net_env \<Rightarrow> 32 word \<Rightarrow> int \<Rightarrow> 'w net_state \<Rightarrow> 'w net_state option" where
  "modem_poll_end E ty strength s = do {
     let state = get_modem_state ty strength;
     s \<leftarrow> modem_report_connect_state state s;
     let s = (if state = REPORT_UNCONNECT then s\<lparr>unconnect_cnts := unconnect_cnts s + 1\<rparr> else s);
     if unconnect_cnts s \<ge> MAX_UNCONNECT_CNTS
     then do {
       let s = s\<lparr>unconnect_cnts := 0\<rparr>;
       s \<leftarrow> modem_hal_stop_modem E s;
       (_, s) \<leftarrow> modem_hal_start_modem E s;
       Some s
     }
     else Some s
   }"

definition modem_event_monitor :: "'w net_env \<Rightarrow> 'w net_state \<Rightarrow> 'w net_state option" where
  "modem_event_monitor E s = do {
     ((r, strength), s) \<leftarrow> modem_hal_get_signal_strength E s;
     if r \<noteq> 0 then Some s
     else do {
       s \<leftarrow> modem_report_signal_strength strength s;
       ((r, ty), s) \<leftarrow> modem_hal_get_signal_type E s;
       if r \<noteq> 0 then Some s
       else do {
         s \<leftarrow> modem_report_signal_type ty s;
         modem_poll_end E ty strength s
       }
     }
   }"

definition modem_report_status :: "'w net_state \<Rightarrow> 'w net_state option" where
  "modem_report_status s = map_option snd (report_modem_status (modem_get_stauts s) s)"

definition modem_respond_status :: "'w net_state \<Rightarrow> (int \<times> 'w net_state) option" where
  "modem_respond_status s = do { (_, s) \<leftarrow> respond_modem_status (modem_get_stauts s) s; Some (0, s) }"

definition modem_start_monitor :: "'w net_state \<Rightarrow> (int \<times> 'w net_state) option" where
  "modem_start_monitor s =
     (if \<not> g_modem_start_monitor s
      then do {
        s \<leftarrow> eloop_timer_start (ns_modem_monitor s) (s\<lparr>g_modem_start_monitor := True\<rparr>);
        Some (0, s)
      }
      else Some (0, s))"

definition modem_stop_monitor :: "'w net_state \<Rightarrow> 'w net_state option" where
  "modem_stop_monitor s =
     (if g_modem_start_monitor s
      then eloop_timer_stop (ns_modem_monitor s) (s\<lparr>g_modem_start_monitor := False\<rparr>)
      else Some s)"

section \<open>etherent_event.c\<close>

definition etherent_get_start_flag :: "'w net_state \<Rightarrow> bool" where
  "etherent_get_start_flag s = g_etherent_start_monitor s"

text \<open>The carrier file of \<open>eth0\<close>, line by line.  When it cannot be opened the code calls
  \<open>fclose(NULL)\<close>; when it is empty the caller reads an uninitialised variable.\<close>

definition etherent_is_link :: "'w net_env \<Rightarrow> 'w net_state \<Rightarrow> (bool \<times> 'w net_state) option" where
  "etherent_is_link E s =
     (let (ls, s) = ext (sy_read_lines (sys E) ''/sys/class/net/eth0/carrier'') s in
      case ls of
        None \<Rightarrow> None
      | Some ls \<Rightarrow> if ls = [] then None else Some (take 1 (last ls) \<noteq> ''0'', s))"

definition etherent_get_stauts :: "'w net_state \<Rightarrow> etherent_status" where
  "etherent_get_stauts s = g_etherent_status s"

definition etherent_set_status :: "etherent_status \<Rightarrow> 'w net_state \<Rightarrow> 'w net_state" where
  "etherent_set_status st s = s\<lparr>g_etherent_status := st\<rparr>"

definition etherent_get_rt_status ::
  "'w net_env \<Rightarrow> 'w net_state \<Rightarrow> (etherent_status \<times> 'w net_state) option" where
  "etherent_get_rt_status E s = do {
     (link, s) \<leftarrow> etherent_is_link E s;
     let status = \<lparr>est_state = (if link then REPORT_CONNECT else REPORT_UNCONNECT)\<rparr>;
     Some (status, etherent_set_status status s)
   }"

definition etherent_report_status :: "'w net_state \<Rightarrow> 'w net_state option" where
  "etherent_report_status s = map_option snd (report_etherent_status (etherent_get_stauts s) s)"

definition etherent_respond_status :: "'w net_state \<Rightarrow> (int \<times> 'w net_state) option" where
  "etherent_respond_status s = do {
     (_, s) \<leftarrow> respond_etherent_status (etherent_get_stauts s) s;
     Some (0, s)
   }"

definition etherent_start_monitor :: "'w net_state \<Rightarrow> int \<times> 'w net_state" where
  "etherent_start_monitor s = (0, s\<lparr>g_etherent_start_monitor := True\<rparr>)"

definition etherent_stop_monitor :: "'w net_state \<Rightarrow> 'w net_state" where
  "etherent_stop_monitor s = s\<lparr>g_etherent_start_monitor := False\<rparr>"

section \<open>network_monitor.c\<close>

definition monitor_get_status :: "'w net_state \<Rightarrow> network_status" where
  "monitor_get_status s = g_network_status s"

definition monitor_set_status :: "network_status \<Rightarrow> 'w net_state \<Rightarrow> 'w net_state" where
  "monitor_set_status st s = s\<lparr>g_network_status := st\<rparr>"

definition monitor_report_status :: "'w net_state \<Rightarrow> 'w net_state option" where
  "monitor_report_status s = map_option snd (report_network_status (monitor_get_status s) s)"

definition monitor_respond_status :: "'w net_state \<Rightarrow> (int \<times> 'w net_state) option" where
  "monitor_respond_status s = do {
     (_, s) \<leftarrow> respond_network_status (monitor_get_status s) s;
     Some (0, s)
   }"

definition monitor_publish :: "int \<Rightarrow> 'w net_state \<Rightarrow> 'w net_state option" where
  "monitor_publish st s =
     (let status = (monitor_get_status s)\<lparr>nst_state := st\<rparr>
      in map_option snd (report_network_status status (monitor_set_status status s)))"

text \<open>One round of the endless loop of \<open>judge_network_link\<close>: first the public DNS
  server, then a web site.\<close>

definition judge_network_link :: "'w net_env \<Rightarrow> 'w net_state \<Rightarrow> 'w net_state option" where
  "judge_network_link E s =
     (let (ret, s) = ext (wp_ping (wpa E) ''180.76.76.76'') s in
      if ret \<noteq> 0 then
        let (ret, s) = ext (wp_ping (wpa E) ''www.taobao.com'') s in
        if ret \<noteq> 0 then
          let s = s\<lparr>unconnect_times := unconnect_times s + 1\<rparr> in
          if unconnect_times s \<ge> 3 then monitor_publish REPORT_UNCONNECT s else Some s
        else monitor_publish REPORT_CONNECT (s\<lparr>unconnect_times := 0\<rparr>)
      else monitor_publish REPORT_CONNECT (s\<lparr>unconnect_times := 0\<rparr>))"

definition network_start_monitor :: "'w net_env \<Rightarrow> 'w net_state \<Rightarrow> int \<times> 'w net_state" where
  "network_start_monitor E s =
     (let (r, s) = ext (sy_pthread_attr_init (sys E)) s in
      if r \<noteq> 0 then (-1, s)
      else let (r, s) = ext (sy_pthread_attr_setdetachstate (sys E)) s in
        if r \<noteq> 0 then (-1, s)
        else let (r, s) = ext (sy_pthread_create (sys E) ''judge_network_link'') s in
          if r \<noteq> 0 then (-1, s) else (0, s))"

section \<open>What these components leave alone\<close>

lemma modem_publish_ctl:
  assumes "mst_state p \<in> {0, 1}"
  shows "succeeds (modem_publish p s) (ctl_eq s)"
proof -
  have "succeeds (report_modem_status p (modem_set_status p s)) (\<lambda>(r, t). ctl_eq (modem_set_status p s) t)"
    using assms by (rule report_modem_ctl)
  moreover have "ctl_eq s (modem_set_status p s)" using assms by (auto simp: modem_set_status_def ctl_defs)
  ultimately show ?thesis by (auto simp: modem_publish_def succeeds_iff intro: ctl_eq_trans)
qed

lemma monitor_publish_ctl:
  assumes "st \<in> {0, 1}"
  shows "succeeds (monitor_publish st s) (ctl_eq s)"
proof -
  let ?p = "(monitor_get_status s)\<lparr>nst_state := st\<rparr>"
  have "succeeds (report_network_status ?p (monitor_set_status ?p s)) (\<lambda>(r, t). ctl_eq (monitor_set_status ?p s) t)"
    using assms by (intro report_network_ctl) simp
  moreover have "ctl_eq s (monitor_set_status ?p s)" using assms by (auto simp: monitor_set_status_def ctl_defs)
  ultimately show ?thesis by (auto simp: monitor_publish_def succeeds_iff Let_def intro: ctl_eq_trans)
qed

lemma judge_network_link_ctl: "succeeds (judge_network_link E s) (ctl_eq s)"
  unfolding judge_network_link_def
  by (auto simp: ext_eq Let_def REPORT_CONNECT_def REPORT_UNCONNECT_def
      intro!: ctl_eq_shift[OF monitor_publish_ctl])

lemma modem_start_monitor_ctl:
  assumes "modem_device s" and "sched_inv (eloop_sched s)" and "timer_alive (eloop_sched s) (ns_modem_monitor s)"
  shows "succeeds (modem_start_monitor s) (\<lambda>(r, s'). r = 0 \<and> ctl_eq s s')"
proof -
  let ?s = "s\<lparr>g_modem_start_monitor := True\<rparr>"
  have "succeeds (eloop_timer_start (ns_modem_monitor s) ?s) (ctl_eq ?s)"
    using assms by (intro eloop_timer_start_ctl) simp_all
  then have "succeeds (eloop_timer_start (ns_modem_monitor s) ?s) (ctl_eq s)"
    by (rule ctl_eq_shift) (simp add: ctl_defs assms(1))
  then show ?thesis by (auto simp: modem_start_monitor_def succeeds_iff)
qed

lemma modem_stop_monitor_ctl:
  assumes "sched_inv (eloop_sched s)" and "timer_alive (eloop_sched s) (ns_modem_monitor s)"
  shows "succeeds (modem_stop_monitor s) (ctl_eq s)"
proof -
  let ?s = "s\<lparr>g_modem_start_monitor := False\<rparr>"
  have "succeeds (eloop_timer_stop (ns_modem_monitor s) ?s) (ctl_eq ?s)"
    using assms by (intro eloop_timer_stop_ctl) simp_all
  then have "succeeds (eloop_timer_stop (ns_modem_monitor s) ?s) (ctl_eq s)"
    by (rule ctl_eq_shift) (simp add: ctl_defs)
  then show ?thesis by (auto simp: modem_stop_monitor_def)
qed

lemma modem_event_monitor_ctl:
  assumes dev: "modem_device s" and v: "valid_status s"
  shows "succeeds (modem_event_monitor E s) (ctl_eq s)"
proof -
  have mst: "ctl_eq s t \<Longrightarrow> mst_state (modem_get_stauts t) \<in> {0, 1}" for t
    using v by (auto simp: ctl_eq_def valid_status_def modem_get_stauts_def)
  have pub: "ctl_eq s t \<Longrightarrow> mst_state p \<in> {0, 1} \<Longrightarrow> succeeds (modem_publish p t) (ctl_eq s)" for t p
    by (rule ctl_eq_shift[OF modem_publish_ctl])
  have dv: "ctl_eq s t \<Longrightarrow> modem_device t" for t using dev by (simp add: ctl_eq_def)
  have strength: "ctl_eq s t \<Longrightarrow> succeeds (modem_report_signal_strength n t) (ctl_eq s)" for t n
    using pub mst by (simp add: modem_report_signal_strength_def)
  have ty: "ctl_eq s t \<Longrightarrow> succeeds (modem_report_signal_type x t) (ctl_eq s)" for t x
    using pub mst by (simp add: modem_report_signal_type_def Let_def)
  have conn: "ctl_eq s t \<Longrightarrow> succeeds (modem_report_connect_state (get_modem_state x n) t) (ctl_eq s)" for t x n
    using pub by (simp add: modem_report_connect_state_def Let_def get_modem_state_def
        REPORT_CONNECT_def REPORT_UNCONNECT_def)
  have stop: "ctl_eq s t \<Longrightarrow> succeeds (modem_hal_stop_modem E t) (ctl_eq s)" for t
    using dv ctl_eq_shift[OF modem_hal_stop_modem_ctl] by blast
  have start: "ctl_eq s t \<Longrightarrow> succeeds (modem_hal_start_modem E t) (\<lambda>(r, t'). ctl_eq s t')" for t
    using modem_hal_start_modem_ctl[OF dv, of t E] by (auto simp: succeeds_iff intro: ctl_eq_trans)
  have restart: "ctl_eq s t \<Longrightarrow> succeeds (do { u \<leftarrow> modem_hal_stop_modem E t;
      (_, u) \<leftarrow> modem_hal_start_modem E u; Some u }) (ctl_eq s)" for t
    by (rule ctl_eq_bind_state[OF stop], assumption, rule ctl_eq_bind[OF start]) simp_all
  have tail: "ctl_eq s t \<Longrightarrow> succeeds (modem_poll_end E x n t) (ctl_eq s)" for t x n
    unfolding modem_poll_end_def Let_def
    by (rule ctl_eq_bind_state[OF conn], assumption) (simp add: restart)
  have sig: "ctl_eq s t \<Longrightarrow> succeeds (do {
      ((r, ty), s) \<leftarrow> modem_hal_get_signal_type E t;
      if r \<noteq> 0 then Some s
      else do { s \<leftarrow> modem_report_signal_type ty s; modem_poll_end E ty n s } }) (ctl_eq s)" for t n
    unfolding modem_hal_get_signal_type_def
    using dv by (auto simp: modem_call_def ext_eq split_def intro!: ctl_eq_bind_state[OF ty] tail)
  show ?thesis
    unfolding modem_event_monitor_def modem_hal_get_signal_strength_def
    using dev by (auto simp: modem_call_def ext_eq split: prod.split
        intro!: ctl_eq_bind_state[OF strength] sig)
qed

end
