(* ===== verification/NetSwitch.thy ===== *)
theory NetSwitch
  imports LinkEvents
begin

text \<open>
  Starting and stopping of links (\<open>net/network_switch.c\<close>) and the network mode
  (\<open>net/network_mode.c\<close>).  The pointer \<open>info\<close> of \<open>network_configure_net\<close> is an option:
  \<open>None\<close> is NULL, which the stop commands pass.
\<close>

section \<open>network_switch.c\<close>

type_synonym 'w switch_result = "(int \<times> mode_info \<times> 'w net_state) option"

definition network_start_wifi_ap :: "'w net_env \<Rightarrow> mode_info \<Rightarrow> 'w net_state \<Rightarrow> 'w switch_result" where
  "network_start_wifi_ap E info s = do {
     let info = info\<lparr>mi_reason := eREASON_NONE\<rparr>;
     (r, s) \<leftarrow> wifi_hal_start_ap E (mi_ssid info) (mi_psk info) (mi_ip info) s;
     if r \<noteq> 0 then Some (-1, info\<lparr>mi_reason := eREASON_HOSTAPD_ENABLE_FAIL\<rparr>, s)
     else Some (0, info, s)
   }"

definition network_stop_wifi_ap :: "'w net_env \<Rightarrow> 'w net_state \<Rightarrow> (int \<times> 'w net_state) option" where
  "network_stop_wifi_ap E s = do { s \<leftarrow> wifi_hal_stop_ap E s; Some (0, s) }"

text \<open>\<open>while(--cnts && g_wifi_monitor_open == 0) sleep(1);\<close>\<close>

fun wait_monitor_open :: "'w net_env \<Rightarrow> nat \<Rightarrow> 'w net_state \<Rightarrow> 'w net_state option" where
  "wait_monitor_open E 0 s = Some s"
| "wait_monitor_open E (Suc cnts) s =
     (if cnts \<noteq> 0 \<and> \<not> g_wifi_monitor_open s
      then do {
        let (sls, s) = ext (sy_slices (sys E)) s;
        s \<leftarrow> run_slices E sls s;
        wait_monitor_open E cnts s
      }
      else Some s)"

text \<open>The two \<open>strncpy\<close> calls copy the whole strings into \<open>char ssid[36]\<close> and
  \<open>char psk[68]\<close>.\<close>

definition fill_wifi_network :: "mode_info \<Rightarrow> wifi_network option" where
  "fill_wifi_network info =
     (if length (mi_ssid info) < 36 \<and> length (mi_psk info) < 68
      then Some \<lparr>wn_id = 0, wn_ssid = mi_ssid info, wn_psk = mi_psk info,
                 wn_key_mgmt = (if mi_psk info = [] then WIFI_KEY_NONE else WIFI_KEY_WPA2PSK)\<rparr>
      else None)"

text \<open>The end of \<open>network_start_wifi\<close>: clean up after a failed join or save the network.\<close>

definition wifi_join_finish :: "'w net_env \<Rightarrow> command_result \<Rightarrow> 'w net_state \<Rightarrow> int \<times> 'w net_state" where
  "wifi_join_finish E res s =
     (if res \<noteq> COMMAND_OK then
        let ((r, i), s) = ext (wp_get_current_id (wpa E)) s;
            s = (if r = 0 \<and> i \<noteq> -1 then snd (ext (wp_remove_network (wpa E) i) s) else s)
        in (-1, s)
      else (0, snd (ext (wp_save_network (wpa E)) s)))"

definition wifi_join :: "'w net_env \<Rightarrow> mode_info \<Rightarrow> 'w net_state \<Rightarrow> 'w switch_result" where
  "wifi_join E info s = do {
     net \<leftarrow> fill_wifi_network info;
     s \<leftarrow> eloop_timer_start (ns_wifi_connect s) (s\<lparr>g_wifi_network := net\<rparr>);
     (r, result, s) \<leftarrow> wifi_wait_for_result E s;
     let info = info\<lparr>mi_reason := (if r \<noteq> 0 then eREASON_WIFI_TIMEOUT else tr_reason result)\<rparr>;
     let (iret, s) = wifi_join_finish E (tr_result result) s;
     Some (iret, info, s)
   }"

definition network_start_wifi :: "'w net_env \<Rightarrow> mode_info \<Rightarrow> 'w net_state \<Rightarrow> 'w switch_result" where
  "network_start_wifi E info s = do {
     let info = info\<lparr>mi_reason := eREASON_NONE\<rparr>;
     (r, s) \<leftarrow> wifi_hal_start_station E s;
     if r \<noteq> 0 then Some (-1, info\<lparr>mi_reason := eREASON_WPA_SUPLICANT_ENABLE_FAIL\<rparr>, s)
     else do {
       let (r, s) = wifi_start_monitor E s;
       if r \<noteq> 0 then Some (-1, info\<lparr>mi_reason := eREASON_WIFI_MONITOR_ENABLE_FAIL\<rparr>, s)
       else do {
         s \<leftarrow> wait_monitor_open E 10 s;
         if \<not> g_wifi_monitor_open s
         then Some (-1, info\<lparr>mi_reason := eREASON_WPA_SUPLICANT_ENABLE_FAIL\<rparr>, s)
         else do {
           let (r, s) = ext (wp_disable_all_network (wpa E)) s;
           if r \<noteq> 0 then Some (-1, info\<lparr>mi_reason := eREASON_COMMAND_RESPOND_ERROR\<rparr>, s)
           else wifi_join E info s
         }
       }
     }
   }"

definition network_stop_wifi :: "'w net_env \<Rightarrow> 'w net_state \<Rightarrow> (int \<times> 'w net_state) option" where
  "network_stop_wifi E s = do { s \<leftarrow> wifi_hal_stop_station E (wifi_stop_monitor s); Some (0, s) }"

definition network_start_modem :: "'w net_env \<Rightarrow> mode_info \<Rightarrow> 'w net_state \<Rightarrow> 'w switch_result" where
  "network_start_modem E info s = do {
     let info = info\<lparr>mi_reason := eREASON_NONE\<rparr>;
     (r, s) \<leftarrow> modem_hal_start_modem E s;
     (r, s) \<leftarrow> (if r \<noteq> 0 then Some (r, s) else modem_start_monitor s);
     if r \<noteq> 0 then Some (-1, info\<lparr>mi_reason := eREASON_COMMAND_RESPOND_ERROR\<rparr>, s)
     else Some (0, info, s)
   }"

definition network_stop_modem :: "'w net_env \<Rightarrow> 'w net_state \<Rightarrow> (int \<times> 'w net_state) option" where
  "network_stop_modem E s = do {
     s \<leftarrow> modem_hal_stop_modem E s;
     s \<leftarrow> modem_stop_monitor s;
     Some (0, s)
   }"

definition network_start_etherent :: "'w net_env \<Rightarrow> mode_info \<Rightarrow> 'w net_state \<Rightarrow> 'w switch_result" where
  "network_start_etherent E info s = do {
     let info = info\<lparr>mi_reason := eREASON_NONE\<rparr>;
     (r, s) \<leftarrow> etherent_hal_start_eth E s;
     let (r, s) = (if r \<noteq> 0 then (r, s) else etherent_start_monitor s);
     if r \<noteq> 0 then Some (-1, info\<lparr>mi_reason := eREASON_COMMAND_RESPOND_ERROR\<rparr>, s)
     else Some (0, info, s)
   }"

definition network_stop_etherent :: "'w net_env \<Rightarrow> 'w net_state \<Rightarrow> (int \<times> 'w net_state) option" where
  "network_stop_etherent E s = do { s \<leftarrow> etherent_hal_stop_eth E (etherent_stop_monitor s); Some (0, s) }"

definition is_mode_in_capacity :: "32 word \<Rightarrow> 'w net_state \<Rightarrow> int" where
  "is_mode_in_capacity mode s =
     (let capacity = g_capacity s in
      if mode = WIFI \<or> mode = WIFI_AP then (if has_flag capacity NET_CAPACITY_WIFI then 0 else -1)
      else if mode = MODEM then (if has_flag capacity NET_CAPACITY_MODEM then 0 else -1)
      else if mode = ETHERENT then (if has_flag capacity NET_CAPACITY_ETHERENT then 0 else -1)
      else -1)"

text \<open>Starting with a NULL \<open>info\<close> writes \<open>info->reason\<close> in every start function.\<close>

definition with_info ::
  "(mode_info \<Rightarrow> 'w net_state \<Rightarrow> 'w switch_result) \<Rightarrow> mode_info option \<Rightarrow> 'w net_state
     \<Rightarrow> (int \<times> mode_info option \<times> 'w net_state) option" where
  "with_info f info s = do { i \<leftarrow> info; (r, i, s) \<leftarrow> f i s; Some (r, Some i, s) }"

definition without_info ::
  "('w net_state \<Rightarrow> (int \<times> 'w net_state) option) \<Rightarrow> mode_info option \<Rightarrow> 'w net_state
     \<Rightarrow> (int \<times> mode_info option \<times> 'w net_state) option" where
  "without_info f info s = do { (r, s) \<leftarrow> f s; Some (r, info, s) }"

definition network_configure_net ::
  "'w net_env \<Rightarrow> 32 word \<Rightarrow> eNETWORK_START \<Rightarrow> mode_info option \<Rightarrow> 'w net_state
     \<Rightarrow> (int \<times> mode_info option \<times> 'w net_state) option" where
  "network_configure_net E mode start info s =
     (let info = map_option (\<lambda>i. i\<lparr>mi_reason := eREASON_NONE\<rparr>) info in
      if is_mode_in_capacity mode s \<noteq> 0 then
        (case info of
           None \<Rightarrow> None
         | Some i \<Rightarrow> Some (-1, Some (i\<lparr>mi_reason := eREASON_OUT_OF_CAPACITY\<rparr>), s))
      else if mode = WIFI then
        (if start = START then with_info (network_start_wifi E) info s
         else without_info (network_stop_wifi E) info s)
      else if mode = WIFI_AP then
        (if start = START then with_info (network_start_wifi_ap E) info s
         else without_info (network_stop_wifi_ap E) info s)
      else if mode = MODEM then
        (if start = START then with_info (network_start_modem E) info s
         else without_info (network_stop_modem E) info s)
      else if mode = ETHERENT then
        (if start = START then with_info (network_start_etherent E) info s
         else without_info (network_stop_etherent E) info s)
      else Some (0, info, s))"

section \<open>network_mode.c\<close>

definition get_network_mode :: "'w net_state \<Rightarrow> 32 word" where
  "get_network_mode s = g_network_mode s"

definition set_wifi_station_mode :: "eNETWORK_START \<Rightarrow> 32 word \<Rightarrow> 32 word" where
  "set_wifi_station_mode start m =
     (if start = START then clear_flag (set_flag m WIFI) WIFI_AP else clear_flag m WIFI)"

definition set_wifi_ap_mode :: "eNETWORK_START \<Rightarrow> 32 word \<Rightarrow> 32 word" where
  "set_wifi_ap_mode start m =
     (if start = START then set_flag (clear_flag m WIFI) WIFI_AP else clear_flag m WIFI_AP)"

definition set_modem_mode :: "eNETWORK_START \<Rightarrow> 32 word \<Rightarrow> 32 word" where
  "set_modem_mode start m = (if start = START then set_flag m MODEM else clear_flag m MODEM)"

definition set_etherent_mode :: "eNETWORK_START \<Rightarrow> 32 word \<Rightarrow> 32 word" where
  "set_etherent_mode start m = (if start = START then set_flag m ETHERENT else clear_flag m ETHERENT)"

definition network_set_mode :: "32 word \<Rightarrow> eNETWORK_START \<Rightarrow> 'w net_state \<Rightarrow> 'w net_state" where
  "network_set_mode mode start s =
     s\<lparr>g_network_mode :=
         (let m = g_network_mode s in
          if mode = WIFI then set_wifi_station_mode start m
          else if mode = WIFI_AP then set_wifi_ap_mode start m
          else if mode = MODEM then set_modem_mode start m
          else if mode = ETHERENT then set_etherent_mode start m
          else m)\<rparr>"

definition network_get_mode :: "'w net_env \<Rightarrow> 'w net_state \<Rightarrow> (32 word \<times> 'w net_state) option" where
  "network_get_mode E s = do {
     (v, s) \<leftarrow> property_get E 64 ''persist.netmanager.wifi'' ''0'' s;
     let mode = (if atoi v \<noteq> 0 then set_flag 0 WIFI else 0);
     (v, s) \<leftarrow> property_get E 64 ''persist.netmanager.wifi.ap'' ''0'' s;
     let mode = (if atoi v \<noteq> 0 then set_flag mode WIFI_AP else mode);
     (v, s) \<leftarrow> property_get E 64 ''persist.netmanager.modem'' ''0'' s;
     let mode = (if atoi v \<noteq> 0 then set_flag mode MODEM else mode);
     (v, s) \<leftarrow> property_get E 64 ''persist.netmanager.etherent'' ''0'' s;
     let mode = (if atoi v \<noteq> 0 then set_flag mode ETHERENT else mode);
     Some (mode, s)
   }"

definition wifi_init_start :: "'w net_env \<Rightarrow> 'w net_state \<Rightarrow> (int \<times> 'w net_state) option" where
  "wifi_init_start E s = do {
     (r, s) \<leftarrow> wifi_hal_start_station E s;
     let (r, s) = (if r = 0 then wifi_start_monitor E s else (r, s));
     if r = 0 then Some (0, s\<lparr>wifi_init_mode_flag := True\<rparr>) else Some (-1, s)
   }"

definition wifi_ap_init_start :: "'w net_env \<Rightarrow> 'w net_state \<Rightarrow> (int \<times> 'w net_state) option" where
  "wifi_ap_init_start E s = do {
     (ssid, s) \<leftarrow> property_get E 128 ''persist.netmanager.ap.ssid'' ''ROKID.TC'' s;
     (psk, s) \<leftarrow> property_get E 64 ''persist.netmanager.ap.psk'' ''rokidguys'' s;
     (ip, s) \<leftarrow> property_get E 64 ''persist.netmanager.ap.hostip'' ''192.168.2.1'' s;
     (r, s) \<leftarrow> wifi_hal_start_ap E ssid psk ip s;
     if r = 0 then Some (0, network_set_mode WIFI_AP START s) else Some (-1, s)
   }"

definition is_wifi_configured :: "'w net_env \<Rightarrow> 'w net_state \<Rightarrow> bool \<times> 'w net_state" where
  "is_wifi_configured E s =
     (let (ls, s) = ext (sy_read_lines (sys E) ''/data/system/wpa_supplicant.conf'') s in
      case ls of
        None \<Rightarrow> (False, s)
      | Some ls \<Rightarrow> (list_ex (\<lambda>l. contains l ''ssid'') ls, s))"

definition init_modem :: "'w net_env \<Rightarrow> 32 word \<Rightarrow> 'w net_state \<Rightarrow> 'w net_state option" where
  "init_modem E mode s =
     (if has_flag mode MODEM \<and> is_mode_in_capacity MODEM s = 0
      then do {
        (r, s) \<leftarrow> modem_hal_start_modem E s;
        (r, s) \<leftarrow> (if r = 0 then modem_start_monitor s else Some (r, s));
        Some (if r = 0 then network_set_mode MODEM START s else s)
      }
      else Some s)"

definition init_etherent :: "'w net_env \<Rightarrow> 32 word \<Rightarrow> 'w net_state \<Rightarrow> 'w net_state option" where
  "init_etherent E mode s =
     (if has_flag mode ETHERENT \<and> is_mode_in_capacity ETHERENT s = 0
      then do {
        (r, s) \<leftarrow> etherent_hal_start_eth E s;
        let (r, s) = (if r = 0 then etherent_start_monitor s else (r, s));
        Some (if r = 0 then network_set_mode ETHERENT START s else s)
      }
      else Some s)"

definition init_wifi :: "'w net_env \<Rightarrow> 32 word \<Rightarrow> 'w net_state \<Rightarrow> 'w net_state option" where
  "init_wifi E mode s =
     (if has_flag mode WIFI \<and> \<not> has_flag mode WIFI_AP \<and> is_mode_in_capacity WIFI s = 0
      then do { (_, s) \<leftarrow> wifi_init_start E s; Some s }
      else if \<not> has_flag mode WIFI \<and> has_flag mode WIFI_AP \<and> is_mode_in_capacity WIFI_AP s = 0
      then do { (_, s) \<leftarrow> wifi_ap_init_start E s; Some s }
      else
        let (b, s) = is_wifi_configured E s in
        if b then do { (_, s) \<leftarrow> wifi_init_start E s; Some (wifi_set_state 1 s) } else Some s)"

definition network_set_initmode :: "'w net_env \<Rightarrow> 'w net_state \<Rightarrow> (int \<times> 'w net_state) option" where
  "network_set_initmode E s = do {
     (mode, s) \<leftarrow> network_get_mode E s;
     s \<leftarrow> init_modem E mode s;
     s \<leftarrow> init_etherent E mode s;
     s \<leftarrow> init_wifi E mode s;
     Some (0, s)
   }"

section \<open>The invariant of the manager\<close>

text \<open>Every capacity the manager advertises has an opened device behind it.\<close>

definition devices_ok :: "'w net_state \<Rightarrow> bool" where
  "devices_ok s \<longleftrightarrow> (has_flag (g_capacity s) NET_CAPACITY_WIFI \<longrightarrow> wifi_device s)
     \<and> (has_flag (g_capacity s) NET_CAPACITY_MODEM \<longrightarrow> modem_device s)
     \<and> (has_flag (g_capacity s) NET_CAPACITY_ETHERENT \<longrightarrow> etherent_device s)"

text \<open>Only modes within the capacity are active, and station and access point exclude
  each other.\<close>

definition mode_ok :: "32 word \<Rightarrow> 32 word \<Rightarrow> bool" where
  "mode_ok m c \<longleftrightarrow> (has_flag m WIFI \<or> has_flag m WIFI_AP \<longrightarrow> has_flag c NET_CAPACITY_WIFI)
     \<and> (has_flag m MODEM \<longrightarrow> has_flag c NET_CAPACITY_MODEM)
     \<and> (has_flag m ETHERENT \<longrightarrow> has_flag c NET_CAPACITY_ETHERENT)
     \<and> \<not> (has_flag m WIFI \<and> has_flag m WIFI_AP)"

text \<open>The three permanent timers exist; while its flag is set, the access point timer
  exists, is none of them, and the device is capable of Wi-Fi.\<close>

definition timers_ok :: "'w net_state \<Rightarrow> bool" where
  "timers_ok s \<longleftrightarrow> sched_inv (eloop_sched s)
     \<and> timer_alive (eloop_sched s) (ns_wifi_scan s)
     \<and> timer_alive (eloop_sched s) (ns_wifi_connect s)
     \<and> timer_alive (eloop_sched s) (ns_modem_monitor s)
     \<and> (g_ap_timeout_flag s \<longrightarrow> timer_alive (eloop_sched s) (ns_wifi_ap_timeout s)
          \<and> ns_wifi_ap_timeout s \<notin> {ns_wifi_scan s, ns_wifi_connect s, ns_modem_monitor s}
          \<and> has_flag (g_capacity s) NET_CAPACITY_WIFI)"

definition net_ok :: "'w net_state \<Rightarrow> bool" where
  "net_ok s \<longleftrightarrow> devices_ok s \<and> mode_ok (g_network_mode s) (g_capacity s) \<and> timers_ok s \<and> valid_status s
     \<and> monitor_ok s"

lemma net_ok_ctl: "ctl_eq s t \<Longrightarrow> net_ok s \<Longrightarrow> net_ok t"
  by (auto simp: net_ok_def ctl_eq_def devices_ok_def timers_ok_def)

lemma mode_distinct [simp]:
  "WIFI \<noteq> WIFI_AP" "WIFI \<noteq> MODEM" "WIFI \<noteq> ETHERENT" "WIFI_AP \<noteq> WIFI" "WIFI_AP \<noteq> MODEM"
  "WIFI_AP \<noteq> ETHERENT" "MODEM \<noteq> WIFI" "MODEM \<noteq> WIFI_AP" "MODEM \<noteq> ETHERENT" "ETHERENT \<noteq> WIFI"
  "ETHERENT \<noteq> WIFI_AP" "ETHERENT \<noteq> MODEM"
  by (simp_all add: mode_defs)

lemma mode_disjoint [simp]:
  "WIFI AND WIFI_AP = 0" "WIFI AND MODEM = 0" "WIFI AND ETHERENT = 0" "WIFI_AP AND WIFI = 0"
  "WIFI_AP AND MODEM = 0" "WIFI_AP AND ETHERENT = 0" "MODEM AND WIFI = 0" "MODEM AND WIFI_AP = 0"
  "MODEM AND ETHERENT = 0" "ETHERENT AND WIFI = 0" "ETHERENT AND WIFI_AP = 0" "ETHERENT AND MODEM = 0"
  "WIFI \<noteq> 0" "WIFI_AP \<noteq> 0" "MODEM \<noteq> 0" "ETHERENT \<noteq> 0"
  by (simp_all add: mode_defs)

text \<open>\<open>network_set_mode\<close> keeps the mode within the capacity when it starts a mode the
  device is capable of, and always when it stops one.\<close>

lemma network_set_mode_ok:
  assumes "net_ok s" and "start = START \<longrightarrow> is_mode_in_capacity mode s = 0"
  shows "net_ok (network_set_mode mode start s)"
proof -
  have "mode_ok (g_network_mode (network_set_mode mode start s)) (g_capacity s)"
    using assms
    by (auto simp: net_ok_def mode_ok_def network_set_mode_def set_wifi_station_mode_def
        set_wifi_ap_mode_def set_modem_mode_def set_etherent_mode_def flag_simps Let_def
        is_mode_in_capacity_def split: if_splits)
  then show ?thesis
    using assms(1)
    by (simp add: net_ok_def network_set_mode_def devices_ok_def timers_ok_def valid_status_def monitor_ok_def)
qed

lemma network_set_mode_frame [simp]:
  "replies (network_set_mode m st s) = replies s" "g_capacity (network_set_mode m st s) = g_capacity s"
  "g_ap_timeout_flag (network_set_mode m st s) = g_ap_timeout_flag s"
  "wifi_device (network_set_mode m st s) = wifi_device s"
  "eloop_sched (network_set_mode m st s) = eloop_sched s"
  "ns_wifi_scan (network_set_mode m st s) = ns_wifi_scan s"
  "ns_wifi_ap_timeout (network_set_mode m st s) = ns_wifi_ap_timeout s"
  "g_ap_info (network_set_mode m st s) = g_ap_info s"
  "wifi_init_mode_flag (network_set_mode m st s) = wifi_init_mode_flag s"
  by (simp_all add: network_set_mode_def)

section \<open>Starting and stopping links does not crash\<close>

lemma stop_wifi_ap_ctl: "wifi_device s \<Longrightarrow> succeeds (network_stop_wifi_ap E s) (\<lambda>(r, s'). r = 0 \<and> ctl_eq s s')"
  using wifi_hal_stop_ap_ctl[of s E] by (auto simp: network_stop_wifi_ap_def succeeds_iff)

lemma start_wifi_ap_ctl: "wifi_device s \<Longrightarrow> succeeds (network_start_wifi_ap E i s) (\<lambda>(r, i', s'). ctl_eq s s')"
  using wifi_hal_start_ap_ctl[of s E "mi_ssid i" "mi_psk i" "mi_ip i"]
  by (auto simp: network_start_wifi_ap_def succeeds_iff Let_def)

lemma stop_wifi_ctl:
  assumes "wifi_device s"
  shows "succeeds (network_stop_wifi E s) (\<lambda>(r, s'). r = 0 \<and> ctl_eq s s')"
proof -
  have c: "ctl_eq s (wifi_stop_monitor s)" by (rule wifi_stop_monitor_ctl)
  then have "wifi_device (wifi_stop_monitor s)" using assms by (simp add: ctl_eq_def)
  then have "succeeds (wifi_hal_stop_station E (wifi_stop_monitor s)) (ctl_eq s)"
    using c by (intro ctl_eq_shift[OF wifi_hal_stop_station_ctl])
  then show ?thesis by (auto simp: network_stop_wifi_def succeeds_iff)
qed

lemma stop_modem_ctl:
  assumes "modem_device s" and "timers_ok s"
  shows "succeeds (network_stop_modem E s) (\<lambda>(r, s'). r = 0 \<and> ctl_eq s s')"
proof -
  obtain t where t: "modem_hal_stop_modem E s = Some t" "ctl_eq s t"
    using modem_hal_stop_modem_ctl[OF assms(1), of E] by (auto simp: succeeds_iff)
  then have "sched_inv (eloop_sched t)" "timer_alive (eloop_sched t) (ns_modem_monitor t)"
    using assms(2) by (auto simp: ctl_eq_def timers_ok_def)
  then have "succeeds (modem_stop_monitor t) (ctl_eq s)"
    using t(2) by (intro ctl_eq_shift[OF modem_stop_monitor_ctl])
  with t(1) show ?thesis by (auto simp: network_stop_modem_def succeeds_iff)
qed

lemma start_modem_ctl:
  assumes "modem_device s" and "timers_ok s"
  shows "succeeds (network_start_modem E i s) (\<lambda>(r, i', s'). ctl_eq s s')"
proof -
  obtain r t where t: "modem_hal_start_modem E s = Some (r, t)" "ctl_eq s t"
    using modem_hal_start_modem_ctl[OF assms(1), of E] by (auto simp: succeeds_iff)
  then have "modem_device t" "sched_inv (eloop_sched t)" "timer_alive (eloop_sched t) (ns_modem_monitor t)"
    using assms by (auto simp: ctl_eq_def timers_ok_def)
  then obtain u where "modem_start_monitor t = Some (0, u)" "ctl_eq t u"
    using modem_start_monitor_ctl[of t] by (auto simp: succeeds_iff)
  with t show ?thesis by (auto simp: network_start_modem_def intro: ctl_eq_trans)
qed

lemma stop_etherent_ctl:
  assumes "etherent_device s"
  shows "succeeds (network_stop_etherent E s) (\<lambda>(r, s'). r = 0 \<and> ctl_eq s s')"
proof -
  have "succeeds (etherent_hal_stop_eth E (etherent_stop_monitor s)) (ctl_eq (etherent_stop_monitor s))"
    using assms by (intro etherent_hal_stop_eth_ctl) (simp add: etherent_stop_monitor_def)
  then have "succeeds (etherent_hal_stop_eth E (etherent_stop_monitor s)) (ctl_eq s)"
    by (rule ctl_eq_shift) (simp add: etherent_stop_monitor_def)
  then show ?thesis by (auto simp: network_stop_etherent_def succeeds_iff)
qed

lemma start_etherent_ctl:
  assumes "etherent_device s"
  shows "succeeds (network_start_etherent E i s) (\<lambda>(r, i', s'). ctl_eq s s')"
proof -
  obtain r t where "etherent_hal_start_eth E s = Some (r, t)" "ctl_eq s t"
    using etherent_hal_start_eth_ctl[OF assms, of E] by (auto simp: succeeds_iff)
  then show ?thesis by (auto simp: network_start_etherent_def etherent_start_monitor_def)
qed

lemma wait_monitor_open_ctl:
  assumes "recv_wf E" and "valid_status s"
  shows "succeeds (wait_monitor_open E n s) (ctl_eq s)"
  using assms(2)
proof (induction n arbitrary: s)
  case (Suc n)
  let ?s = "s\<lparr>world := snd (sy_slices (sys E) (world s))\<rparr>"
  have v: "valid_status ?s" using Suc.prems by (simp add: valid_status_def)
  obtain t where t: "run_slices E (fst (sy_slices (sys E) (world s))) ?s = Some t" "ctl_eq s t"
    using run_slices_ctl[OF assms(1) v] by (auto simp: succeeds_iff)
  have "succeeds (wait_monitor_open E n t) (ctl_eq s)"
    using Suc.IH[OF ctl_eq_valid[OF t(2) Suc.prems]] t(2) by (rule ctl_eq_shift)
  with t(1) show ?case by (simp add: ext_eq)
qed simp

lemma wifi_join_finish_ctl: "ctl_eq s (snd (wifi_join_finish E r s))"
  by (simp add: wifi_join_finish_def ext_eq split_def Let_def)

lemma wifi_join_ctl:
  assumes "recv_wf E" and "net_ok s" and "length (mi_ssid i) < 36" and "length (mi_psk i) < 68"
  shows "succeeds (wifi_join E i s) (\<lambda>(r, i', s'). ctl_eq s s')"
proof -
  obtain net where net: "fill_wifi_network i = Some net" using assms by (simp add: fill_wifi_network_def)
  let ?s = "s\<lparr>g_wifi_network := net\<rparr>"
  have tok: "timers_ok s" and v: "valid_status s" using assms(2) by (simp_all add: net_ok_def)
  have "succeeds (eloop_timer_start (ns_wifi_connect s) ?s) (ctl_eq ?s)"
    using tok by (intro eloop_timer_start_ctl) (simp_all add: timers_ok_def)
  then obtain t where t: "eloop_timer_start (ns_wifi_connect s) ?s = Some t" "ctl_eq ?s t"
    by (auto simp: succeeds_iff)
  have st: "ctl_eq s t" by (rule ctl_eq_trans[OF _ t(2)]) simp
  obtain r res u where u: "wifi_wait_for_result E t = Some (r, res, u)" "ctl_eq t u"
    using wifi_wait_for_result_ctl[OF assms(1) ctl_eq_valid[OF st v]] by (auto simp: succeeds_iff)
  have "ctl_eq s (snd (wifi_join_finish E (tr_result res) u))"
    using ctl_eq_trans[OF ctl_eq_trans[OF st u(2)] wifi_join_finish_ctl] .
  then show ?thesis using net t(1) u(1) by (auto simp: wifi_join_def split: prod.split)
qed

lemma start_wifi_ctl:
  assumes "recv_wf E" and "net_ok s" and "wifi_device s"
    and "length (mi_ssid i) < 36" and "length (mi_psk i) < 68"
  shows "succeeds (network_start_wifi E i s) (\<lambda>(r, i', s'). ctl_eq s s')"
proof -
  obtain r t where t: "wifi_hal_start_station E s = Some (r, t)" "ctl_eq s t"
    using wifi_hal_start_station_ctl[OF assms(3), of E] by (auto simp: succeeds_iff)
  obtain r2 u where u: "wifi_start_monitor E t = (r2, u)" by fastforce
  have su: "ctl_eq s u" using ctl_eq_trans[OF t(2) wifi_start_monitor_ctl[of t E]] u by simp
  have vu: "valid_status u" using net_ok_ctl[OF su assms(2)] by (simp add: net_ok_def)
  obtain v where v: "wait_monitor_open E 10 u = Some v" "ctl_eq u v"
    using wait_monitor_open_ctl[OF assms(1) vu, of 10] by (auto simp: succeeds_iff)
  have sv: "ctl_eq s v" using su v(2) by (rule ctl_eq_trans)
  let ?v = "v\<lparr>world := snd (wp_disable_all_network (wpa E) (world v))\<rparr>"
  have ok: "net_ok ?v" by (rule net_ok_ctl[OF _ assms(2)]) (simp add: sv)
  have "succeeds (wifi_join E (i\<lparr>mi_reason := eREASON_NONE\<rparr>) ?v) (\<lambda>(r, i', s'). ctl_eq ?v s')"
    using assms ok by (intro wifi_join_ctl) simp_all
  then have "succeeds (wifi_join E (i\<lparr>mi_reason := eREASON_NONE\<rparr>) ?v) (\<lambda>(r, i', s'). ctl_eq s s')"
    using sv by (auto simp: succeeds_iff intro: ctl_eq_trans)
  then show ?thesis using t u v(1) su sv by (simp add: network_start_wifi_def ext_eq Let_def)
qed

text \<open>A call of \<open>network_configure_net\<close> is safe when the mode is within the capacity or the
  caller passes an \<open>info\<close>, a start has an \<open>info\<close>, and a station start has an SSID and a
  password that fit \<open>struct wifi_network\<close>.\<close>

definition configure_pre ::
  "32 word \<Rightarrow> eNETWORK_START \<Rightarrow> mode_info option \<Rightarrow> 'w net_state \<Rightarrow> bool" where
  "configure_pre mode start info s \<longleftrightarrow>
     (info = None \<longrightarrow> start = STOP \<and> is_mode_in_capacity mode s = 0)
     \<and> (\<forall>i. info = Some i \<longrightarrow> mode = WIFI \<longrightarrow> start = START \<longrightarrow>
            length (mi_ssid i) < 36 \<and> length (mi_psk i) < 68)"

lemma in_capacity_device:
  assumes "net_ok s" and "is_mode_in_capacity mode s = 0"
  shows "(mode = WIFI \<longrightarrow> wifi_device s) \<and> (mode = WIFI_AP \<longrightarrow> wifi_device s)
    \<and> (mode = MODEM \<longrightarrow> modem_device s) \<and> (mode = ETHERENT \<longrightarrow> etherent_device s)"
  using assms by (auto simp: net_ok_def devices_ok_def is_mode_in_capacity_def split: if_splits)

lemma with_info_ctl:
  assumes "\<And>i. info = Some i \<Longrightarrow> succeeds (f i s) (\<lambda>(r, i', s'). ctl_eq s s')" and "info \<noteq> None"
  shows "succeeds (with_info f info s) (\<lambda>(r, i', s'). i' \<noteq> None \<and> ctl_eq s s')"
  using assms by (auto simp: with_info_def succeeds_iff)

lemma without_info_ctl:
  assumes "succeeds (f s) (\<lambda>(r, s'). r = 0 \<and> ctl_eq s s')"
  shows "succeeds (without_info f info s) (\<lambda>(r, i', s'). i' = info \<and> ctl_eq s s')"
  using assms by (auto simp: without_info_def succeeds_iff)

lemma network_configure_net_ctl:
  assumes E: "recv_wf E" and ok: "net_ok s" and pre: "configure_pre mode start info s"
  shows "succeeds (network_configure_net E mode start info s)
           (\<lambda>(r, i', s'). (info \<noteq> None \<longrightarrow> i' \<noteq> None) \<and> ctl_eq s s')"
proof (cases "is_mode_in_capacity mode s = 0")
  case False
  with pre show ?thesis by (auto simp: network_configure_net_def configure_pre_def)
next
  case True
  note dev = in_capacity_device[OF ok True]
  have tok: "timers_ok s" using ok by (simp add: net_ok_def)
  let ?i = "map_option (\<lambda>i. i\<lparr>mi_reason := eREASON_NONE\<rparr>) info"
  show ?thesis
  proof (cases start)
    case START
    then have i: "?i \<noteq> None" using pre by (auto simp: configure_pre_def)
    have "mode = WIFI \<Longrightarrow> succeeds (with_info (network_start_wifi E) ?i s) (\<lambda>(r, i', s'). i' \<noteq> None \<and> ctl_eq s s')"
      using E ok dev pre START i by (intro with_info_ctl start_wifi_ctl) (auto simp: configure_pre_def)
    moreover have "mode = WIFI_AP \<Longrightarrow> succeeds (with_info (network_start_wifi_ap E) ?i s) (\<lambda>(r, i', s'). i' \<noteq> None \<and> ctl_eq s s')"
      using dev i by (intro with_info_ctl start_wifi_ap_ctl) auto
    moreover have "mode = MODEM \<Longrightarrow> succeeds (with_info (network_start_modem E) ?i s) (\<lambda>(r, i', s'). i' \<noteq> None \<and> ctl_eq s s')"
      using dev i tok by (intro with_info_ctl start_modem_ctl) auto
    moreover have "mode = ETHERENT \<Longrightarrow> succeeds (with_info (network_start_etherent E) ?i s) (\<lambda>(r, i', s'). i' \<noteq> None \<and> ctl_eq s s')"
      using dev i by (intro with_info_ctl start_etherent_ctl) auto
    ultimately show ?thesis
      using True START i by (auto simp: network_configure_net_def Let_def elim!: succeeds_mono)
  next
    case STOP
    have "mode = WIFI \<Longrightarrow> succeeds (without_info (network_stop_wifi E) ?i s) (\<lambda>(r, i', s'). i' = ?i \<and> ctl_eq s s')"
      using dev by (intro without_info_ctl stop_wifi_ctl) auto
    moreover have "mode = WIFI_AP \<Longrightarrow> succeeds (without_info (network_stop_wifi_ap E) ?i s) (\<lambda>(r, i', s'). i' = ?i \<and> ctl_eq s s')"
      using dev by (intro without_info_ctl stop_wifi_ap_ctl) auto
    moreover have "mode = MODEM \<Longrightarrow> succeeds (without_info (network_stop_modem E) ?i s) (\<lambda>(r, i', s'). i' = ?i \<and> ctl_eq s s')"
      using dev tok by (intro without_info_ctl stop_modem_ctl) auto
    moreover have "mode = ETHERENT \<Longrightarrow> succeeds (without_info (network_stop_etherent E) ?i s) (\<lambda>(r, i', s'). i' = ?i \<and> ctl_eq s s')"
      using dev by (intro without_info_ctl stop_etherent_ctl) auto
    ultimately show ?thesis
      using True STOP by (auto simp: network_configure_net_def Let_def elim!: succeeds_mono)
  qed
qed

end
