(* ===== verification/TextLines.thy ===== *)
theory TextLines
  imports CString
begin

text \<open>
  Splitting of a reply of wpa_supplicant into lines.  The sources hold two copies of
  \<open>get_line_from_buf\<close> (\<open>network_ctrl.c\<close> and \<open>wpa_command.c\<close>); both are this function.
\<close>

section \<open>Reading one line\<close>

definition is_eol :: "char \<Rightarrow> bool" where
  "is_eol c \<longleftrightarrow> c = CHR 0x0A \<or> c = CHR 0x0D"

text \<open>\<open>get_line_from_buf\<close>: line \<open>idx\<close> of the text, runs of line ends counting once.  \<open>acc\<close> is
  the part of the current line already scanned.\<close>

function get_line :: "nat \<Rightarrow> string \<Rightarrow> string \<Rightarrow> string option" where
  "get_line idx acc [] = (if idx = 0 then Some acc else None)"
| "get_line idx acc (c # cs) =
     (if is_eol c then
        if idx = 0 then Some acc
        else (case dropWhile is_eol cs of
                [] \<Rightarrow> None
              | d # ds \<Rightarrow> get_line (idx - 1) [d] ds)
      else get_line idx (acc @ [c]) cs)"
  by pat_completeness auto
termination
proof (relation "measure (\<lambda>(idx, acc, rest). length rest)", goal_cases)
  case (2 idx acc c cs d ds)
  have "length (d # ds) \<le> length cs" using 2(3) by (metis length_dropWhile_le)
  then show ?case by simp
qed simp_all

lemma get_line_bound: "get_line i acc s = Some l \<Longrightarrow> i \<le> length s"
proof (induction i acc s rule: get_line.induct)
  case (2 idx acc c cs)
  have len: "length (dropWhile is_eol cs) \<le> length cs" by (rule length_dropWhile_le)
  show ?case
  proof (cases "is_eol c \<and> idx \<noteq> 0")
    case True
    then obtain d ds where d: "dropWhile is_eol cs = d # ds" "get_line (idx - 1) [d] ds = Some l"
      using "2.prems" by (auto split: list.splits)
    then have "idx - 1 \<le> length ds" using "2.IH"(1) True by auto
    then show ?thesis using len d(1) by simp
  next
    case False
    then show ?thesis using "2.IH"(2) "2.prems" by (auto split: if_splits)
  qed
qed (auto split: if_splits)

section \<open>Texts put together from lines\<close>

fun join_lines :: "string list \<Rightarrow> string" where
  "join_lines [] = []"
| "join_lines [l] = l"
| "join_lines (l # ls) = l @ CHR 0x0A # join_lines ls"

definition plain_line :: "string \<Rightarrow> bool" where
  "plain_line l \<longleftrightarrow> l \<noteq> [] \<and> list_all (\<lambda>c. \<not> is_eol c) l"

lemma get_line_scan: "list_all (\<lambda>c. \<not> is_eol c) x \<Longrightarrow> get_line i acc (x @ rest) = get_line i (acc @ x) rest"
  by (induction x arbitrary: acc) auto

lemma join_head:
  assumes "list_all plain_line (l # ls)"
  shows "\<exists>d ds. join_lines (l # ls) = d # ds \<and> \<not> is_eol d"
  using assms by (cases l; cases ls) (auto simp: plain_line_def)

lemma get_line_join:
  assumes "list_all plain_line (l # ls)"
  shows "get_line i [] (join_lines (l # ls)) = (if i \<le> length ls then Some ((l # ls) ! i) else None)"
  using assms
proof (induction ls arbitrary: l i)
  case Nil
  then have "get_line i [] (l @ []) = get_line i l []" by (subst get_line_scan) (auto simp: plain_line_def)
  then show ?case by simp
next
  case (Cons m ms)
  obtain d ds where d: "join_lines (m # ms) = d # ds" "\<not> is_eol d"
    using join_head[of m ms] Cons.prems by auto
  have l: "list_all (\<lambda>c. \<not> is_eol c) l" using Cons.prems by (simp add: plain_line_def)
  have nl: "is_eol (CHR 0x0A)" by (simp add: is_eol_def)
  have "get_line i [] (join_lines (l # m # ms)) = get_line i l (CHR 0x0A # d # ds)"
    using get_line_scan[OF l, of i "[]" "CHR 0x0A # d # ds"] d(1) by simp
  also have "\<dots> = (if i = 0 then Some l else get_line (i - 1) [] (d # ds))"
    using d(2) nl by simp
  also have "\<dots> = (if i \<le> length (m # ms) then Some ((l # m # ms) ! i) else None)"
    using Cons.IH[of m "i - 1"] Cons.prems d(1) by (cases i) auto
  finally show ?case .
qed

end
