(* ===== verification/NetCtrl.thy ===== *)
theory NetCtrl
  imports NetSwitch TextLines
begin

text \<open>
  The command interface of the network manager (\<open>net/network_ctrl.c\<close>): decoding of
  the JSON request, the table of commands and one definition per command handler.
  A handler gets the parsed request and returns its result and the new state, to
  which it has added exactly one reply.
\<close>

section \<open>Replies\<close>

fun cmd_fail_reason :: "ereason \<Rightarrow> string" where
  "cmd_fail_reason eREASON_NONE = ''NONE''"
| "cmd_fail_reason eREASON_WIFI_NOT_CONNECT = ''WIFI_NOT_CONNECT''"
| "cmd_fail_reason eREASON_WIFI_NOT_FOUND = ''WIFI_NOT_FOUND''"
| "cmd_fail_reason eREASON_WIFI_WRONG_KEY = ''WIFI_WRONG_KEY''"
| "cmd_fail_reason eREASON_WIFI_TIMEOUT = ''WIFI_TIMEOUT''"
| "cmd_fail_reason eREASON_WIFI_CFGNET_FAIL = ''WIFI_CFGNET_TIMEOUT''"
| "cmd_fail_reason eREASON_OUT_OF_CAPACITY = ''NETWORK_OUT_OF_CAPACITY''"
| "cmd_fail_reason eREASON_WPA_SUPLICANT_ENABLE_FAIL = ''WIFI_WPA_SUPLICANT_ENABLE_FAIL''"
| "cmd_fail_reason eREASON_HOSTAPD_ENABLE_FAIL = ''WIFI_HOSTAPD_ENABLE_FAIL''"
| "cmd_fail_reason eREASON_COMMAND_FORMAT_ERROR = ''COMMAND_FORMAT_ERROR''"
| "cmd_fail_reason eREASON_COMMAND_RESPOND_ERROR = ''COMMAND_RESPOND_ERROR''"
| "cmd_fail_reason eREASON_WIFI_MONITOR_ENABLE_FAIL = ''WIFI_MONITOR_ENABLE_FAIL''"
| "cmd_fail_reason eREASON_WIFI_SSID_PSK_SET_FAIL = ''WIFI_SSID_PSK_SET_FAIL''"

definition netmanger_response_command ::
  "command_result \<Rightarrow> ereason \<Rightarrow> 'w net_state \<Rightarrow> 'w net_state" where
  "netmanger_response_command state reason s =
     (let result = (case state of COMMAND_OK \<Rightarrow> ''OK'' | COMMAND_NOK \<Rightarrow> ''NOK'');
          obj = json_object_object_add ''result'' (JStr result) (JObj []);
          obj = (if state = COMMAND_NOK
                 then json_object_object_add ''reason'' (JStr (cmd_fail_reason reason)) obj else obj)
      in network_ipc_return obj s)"

definition respond_int :: "int \<Rightarrow> 'w net_state \<Rightarrow> 'w net_state" where
  "respond_int r s =
     (if r \<noteq> 0 then netmanger_response_command COMMAND_NOK eREASON_COMMAND_RESPOND_ERROR s
      else netmanger_response_command COMMAND_OK eREASON_NONE s)"

section \<open>Capacity and mode\<close>

definition get_wifi_capacity :: "'w net_env \<Rightarrow> 'w net_state \<Rightarrow> (32 word \<times> 'w net_state) option" where
  "get_wifi_capacity E s = do {
     (r, s) \<leftarrow> wifi_hal_get_capacity E s;
     Some (if r = 0 then NET_CAPACITY_WIFI else 0, s)
   }"

definition get_modem_capacity :: "'w net_env \<Rightarrow> 'w net_state \<Rightarrow> (32 word \<times> 'w net_state) option" where
  "get_modem_capacity E s = do {
     (r, s) \<leftarrow> modem_hal_get_capacity E s;
     Some (if r = 0 then NET_CAPACITY_MODEM else 0, s)
   }"

definition get_etherent_capacity :: "'w net_env \<Rightarrow> 'w net_state \<Rightarrow> (32 word \<times> 'w net_state) option" where
  "get_etherent_capacity E s = do {
     (r, s) \<leftarrow> etherent_hal_get_capacity E s;
     Some (if r = 0 then NET_CAPACITY_ETHERENT else 0, s)
   }"

type_synonym 'w handler = "json \<Rightarrow> 'w net_state \<Rightarrow> (int \<times> 'w net_state) option"

definition add_if :: "bool \<Rightarrow> string \<Rightarrow> json \<Rightarrow> json" where
  "add_if b name arr = (if b then json_object_array_add (JStr name) arr else arr)"

definition netmanager_get_net_capacity :: "'w handler" where
  "netmanager_get_net_capacity data s =
     (let c = g_capacity s;
          root = json_object_object_add ''result'' (JStr ''OK'') (JObj []);
          arr = add_if (has_flag c NET_CAPACITY_WIFI) ''wifi'' (JArr []);
          arr = add_if (has_flag c NET_CAPACITY_MODEM) ''modem'' arr;
          arr = add_if (has_flag c NET_CAPACITY_ETHERENT) ''etherent'' arr
      in Some (0, network_ipc_return (json_object_object_add ''net_capacities'' arr root) s))"

definition netmanager_get_net_mode :: "'w handler" where
  "netmanager_get_net_mode data s =
     (let m = get_network_mode s;
          root = json_object_object_add ''result'' (JStr ''OK'') (JObj []);
          arr = add_if (has_flag m WIFI) ''wifi'' (JArr []);
          arr = add_if (has_flag m WIFI_AP) ''wifi_ap'' arr;
          arr = add_if (has_flag m MODEM) ''modem'' arr;
          arr = add_if (has_flag m ETHERENT) ''etherent'' arr
      in Some (0, network_ipc_return (json_object_object_add ''net_modes'' arr root) s))"

definition netmanager_report_all_status :: "'w handler" where
  "netmanager_report_all_status data s = do {
     let mode = get_network_mode s;
     s \<leftarrow> monitor_report_status s;
     s \<leftarrow> (if has_flag mode WIFI then wifi_report_status s else Some s);
     s \<leftarrow> (if has_flag mode ETHERENT then etherent_report_status s else Some s);
     s \<leftarrow> (if has_flag mode MODEM then modem_report_status s else Some s);
     Some (0, netmanger_response_command COMMAND_OK eREASON_NONE s)
   }"

section \<open>Parameters of the Wi-Fi commands\<close>

definition zero_info :: mode_info where
  "zero_info = \<lparr>mi_ssid = [], mi_psk = [], mi_ip = [], mi_timeout = 0, mi_reason = eREASON_NONE\<rparr>"

text \<open>The result \<open>None\<close> stands for the return value \<open>-1\<close>.\<close>

definition get_wifi_station_info :: "'w net_env \<Rightarrow> json \<Rightarrow> mode_info \<Rightarrow> mode_info option" where
  "get_wifi_station_info E base info = do {
     obj \<leftarrow> json_object_object_get_ex base ''params'';
     elem \<leftarrow> json_object_object_get_ex obj ''SSID'';
     str \<leftarrow> json_object_get_string (sy_json_text (sys E)) elem;
     let info = info\<lparr>mi_ssid := take 63 str\<rparr>;
     elem \<leftarrow> json_object_object_get_ex obj ''PASSWD'';
     Some (case json_object_get_string (sy_json_text (sys E)) elem of
             None \<Rightarrow> info\<lparr>mi_psk := []\<rparr>
           | Some str \<Rightarrow> info\<lparr>mi_psk := take 63 str\<rparr>)
   }"

text \<open>\<open>strncpy\<close> and \<open>strtol\<close> from the NULL string of a JSON null crash; otherwise the
  result is \<open>Some None\<close> for the return value \<open>-1\<close>.\<close>

definition get_wifi_ap_info :: "'w net_env \<Rightarrow> json \<Rightarrow> mode_info \<Rightarrow> mode_info option option" where
  "get_wifi_ap_info E base info =
     (let txt = json_object_get_string (sy_json_text (sys E)) in
      case json_object_object_get_ex base ''params'' of None \<Rightarrow> Some None | Some obj \<Rightarrow>
      case json_object_object_get_ex obj ''SSID'' of None \<Rightarrow> Some None | Some e1 \<Rightarrow> do {
        ssid \<leftarrow> txt e1;
        case json_object_object_get_ex obj ''PASSWD'' of None \<Rightarrow> Some None | Some e2 \<Rightarrow> do {
          psk \<leftarrow> txt e2;
          case json_object_object_get_ex obj ''IP'' of None \<Rightarrow> Some None | Some e3 \<Rightarrow> do {
            ip \<leftarrow> txt e3;
            case json_object_object_get_ex obj ''TIMEOUT'' of None \<Rightarrow> Some None | Some e4 \<Rightarrow> do {
              t \<leftarrow> txt e4;
              Some (Some (info\<lparr>mi_ssid := take 63 ssid, mi_psk := take 63 psk, mi_ip := take 63 ip,
                               mi_timeout := strtol t 0\<rparr>))
            }
          }
        }
      })"

section \<open>Station commands\<close>

text \<open>The calls of \<open>network_configure_net(mode, STOP, NULL)\<close> followed by
  \<open>network_set_mode(mode, STOP, NULL)\<close> the handlers share.\<close>

definition stop_mode :: "'w net_env \<Rightarrow> 32 word \<Rightarrow> 'w net_state \<Rightarrow> 'w net_state option" where
  "stop_mode E mode s = do {
     (_, _, s) \<leftarrow> network_configure_net E mode STOP None s;
     Some (network_set_mode mode STOP s)
   }"

definition drop_ap_timer :: "'w net_state \<Rightarrow> 'w net_state option" where
  "drop_ap_timer s =
     (if g_ap_timeout_flag s
      then do {
        s \<leftarrow> eloop_timer_stop (ns_wifi_ap_timeout s) s;
        s \<leftarrow> eloop_timer_delete (ns_wifi_ap_timeout s) s;
        Some (s\<lparr>g_ap_timeout_flag := False\<rparr>)
      }
      else Some s)"

definition netmanager_start_wifi_scan :: "'w net_env \<Rightarrow> 'w handler" where
  "netmanager_start_wifi_scan E data s = do {
     s \<leftarrow> (if has_flag (get_network_mode s) WIFI_AP
           then do { s \<leftarrow> stop_mode E WIFI_AP s; Some (s\<lparr>ns_wifi_state := WIFI_AP_CLOSE\<rparr>) }
           else Some s);
     (_, s) \<leftarrow> wifi_hal_start_station E s;
     let (_, s) = ext (wp_clear_scan_results (wpa E)) s;
     s \<leftarrow> eloop_timer_stop (ns_wifi_scan s) s;
     s \<leftarrow> eloop_timer_start (ns_wifi_scan s) s;
     Some (0, netmanger_response_command COMMAND_OK eREASON_NONE (s\<lparr>ns_wifi_state := WIFI_STATION_PRE_JOIN\<rparr>))
   }"

definition netmanager_stop_wifi_scan :: "'w handler" where
  "netmanager_stop_wifi_scan data s = do {
     s \<leftarrow> eloop_timer_stop (ns_wifi_scan s) s;
     Some (0, netmanger_response_command COMMAND_OK eREASON_NONE s)
   }"

text \<open>After a successful join: mode, state and identity of the connected network.\<close>

definition station_connected :: "'w net_state \<Rightarrow> 'w net_state option" where
  "station_connected s = do {
     let s = network_set_mode WIFI START s;
     s \<leftarrow> eloop_timer_stop (ns_wifi_scan s) s;
     let s = s\<lparr>ns_wifi_state := WIFI_STATION_CONNECTED, ns_wpa_network_id := wn_id (g_wifi_network s)\<rparr>;
     Some (if ns_wpa_network_id s \<ge> 0 then s\<lparr>ns_ssid := take 36 (wn_ssid (g_wifi_network s))\<rparr> else s)
   }"

definition netmanager_start_wifi_station :: "'w net_env \<Rightarrow> 'w handler" where
  "netmanager_start_wifi_station E data s = do {
     s \<leftarrow> (if has_flag (get_network_mode s) WIFI_AP
           then do {
             s \<leftarrow> drop_ap_timer s;
             s \<leftarrow> stop_mode E WIFI_AP s;
             Some (s\<lparr>ns_wifi_state := WIFI_AP_CLOSE\<rparr>)
           }
           else Some s);
     let s = s\<lparr>ns_wifi_state := WIFI_STATION_JOINING\<rparr>;
     case get_wifi_station_info E data zero_info of
       None \<Rightarrow> Some (-1, netmanger_response_command COMMAND_NOK eREASON_COMMAND_FORMAT_ERROR s)
     | Some info \<Rightarrow> do {
         (r, i, s) \<leftarrow> network_configure_net E WIFI START (Some info) s;
         info \<leftarrow> i;
         s \<leftarrow> (if r \<noteq> 0 then Some (s\<lparr>ns_wifi_state := WIFI_STATION_UNCONNECTED\<rparr>) else station_connected s);
         let (_, s) = ext (wp_enable_all_network (wpa E)) s;
         Some (-1, if r \<noteq> 0 then netmanger_response_command COMMAND_NOK (mi_reason info) s
                   else netmanger_response_command COMMAND_OK eREASON_NONE s)
       }
   }"

definition netmanager_stop_wifi_station :: "'w net_env \<Rightarrow> 'w handler" where
  "netmanager_stop_wifi_station E data s = do {
     let s = s\<lparr>ns_wifi_state := WIFI_STATE_CLOSE\<rparr>;
     s \<leftarrow> eloop_timer_stop (ns_wifi_scan s) s;
     s \<leftarrow> stop_mode E WIFI s;
     Some (0, netmanger_response_command COMMAND_OK eREASON_NONE s)
   }"

definition scan_item :: "string \<times> int \<Rightarrow> json" where
  "scan_item p = json_object_object_add ''SIGNAL'' (JInt (snd p))
     (json_object_object_add ''SSID'' (JStr (fst p)) (JObj []))"

definition scan_result_reply :: "(string \<times> int) list \<Rightarrow> json" where
  "scan_result_reply ls =
     (let root = json_object_object_add ''result'' (JStr ''OK'') (JObj []);
          arr = fold (\<lambda>p. json_object_array_add (scan_item p)) ls (JArr [])
      in json_object_object_add ''wifilist'' arr root)"

text \<open>After the reply the code releases every item once more although the array owns it,
  so any result releases freed objects; more than 32 results overrun \<open>item[32]\<close>.\<close>

definition netmanager_get_wifi_scan_result :: "'w net_env \<Rightarrow> 'w handler" where
  "netmanager_get_wifi_scan_result E data s = do {
     let (ls, s) = ext (wp_get_scan_result (wpa E)) s;
     s \<leftarrow> (if length ls \<le> 32 then Some (network_ipc_return (scan_result_reply ls) s) else None);
     if ls = [] then Some (0, s) else None
   }"

section \<open>Access point commands\<close>

text \<open>\<open>wifi_change_to_station\<close>, the callback of the access point timer.\<close>

definition wifi_change_to_station :: "'w net_env \<Rightarrow> 'w net_state \<Rightarrow> 'w net_state option" where
  "wifi_change_to_station E s = do {
     s \<leftarrow> stop_mode E WIFI_AP (s\<lparr>ns_wifi_state := WIFI_AP_CLOSE\<rparr>);
     (_, s) \<leftarrow> wifi_hal_start_station E s;
     let (_, s) = wifi_start_monitor E s;
     s \<leftarrow> eloop_timer_stop (ns_wifi_ap_timeout s) s;
     s \<leftarrow> eloop_timer_delete (ns_wifi_ap_timeout s) s;
     Some (s\<lparr>g_ap_timeout_flag := False\<rparr>)
   }"

definition arm_ap_timer :: "int \<Rightarrow> 'w net_state \<Rightarrow> 'w net_state option" where
  "arm_ap_timer timeout s =
     (if timeout > 0 \<and> \<not> g_ap_timeout_flag s
      then do {
        let (i, s) = eloop_timer_add CB_wifi_change_to_station (word_of_int timeout) 0 s;
        s \<leftarrow> eloop_timer_start i (s\<lparr>ns_wifi_ap_timeout := i\<rparr>);
        Some (s\<lparr>g_ap_timeout_flag := True\<rparr>)
      }
      else Some s)"

definition netmanager_start_wifi_ap :: "'w net_env \<Rightarrow> 'w handler" where
  "netmanager_start_wifi_ap E data s = do {
     let mode = get_network_mode s;
     s \<leftarrow> eloop_timer_stop (ns_wifi_scan s) s;
     s \<leftarrow> stop_mode E WIFI s;
     let s = s\<lparr>ns_wifi_state := WIFI_STATE_CLOSE\<rparr>;
     s \<leftarrow> (if has_flag mode WIFI_AP
           then do {
             s \<leftarrow> stop_mode E WIFI_AP s;
             drop_ap_timer (s\<lparr>ns_wifi_state := WIFI_AP_CLOSE\<rparr>)
           }
           else Some s);
     i \<leftarrow> get_wifi_ap_info E data zero_info;
     case i of
       None \<Rightarrow> Some (-1, netmanger_response_command COMMAND_NOK eREASON_COMMAND_FORMAT_ERROR s)
     | Some info \<Rightarrow> do {
         (r, i, s) \<leftarrow> network_configure_net E WIFI_AP START (Some info) s;
         info \<leftarrow> i;
         let s = (if r \<noteq> 0 then s\<lparr>ns_wifi_state := WIFI_AP_UNCONNECTED\<rparr>
                  else network_set_mode WIFI_AP START
                         (s\<lparr>ns_wifi_state := WIFI_AP_CONNECTED, g_ap_info := info\<rparr>));
         s \<leftarrow> arm_ap_timer (mi_timeout info) s;
         Some (0, if r \<noteq> 0 then netmanger_response_command COMMAND_NOK (mi_reason info) s
                  else netmanger_response_command COMMAND_OK eREASON_NONE s)
       }
   }"

definition netmanager_stop_wifi_ap :: "'w net_env \<Rightarrow> 'w handler" where
  "netmanager_stop_wifi_ap E data s = do {
     s \<leftarrow> stop_mode E WIFI_AP (s\<lparr>ns_wifi_state := WIFI_AP_CLOSE\<rparr>);
     s \<leftarrow> drop_ap_timer s;
     Some (0, netmanger_response_command COMMAND_OK eREASON_NONE s)
   }"

section \<open>Modem and ethernet commands\<close>

text \<open>The uninitialised \<open>info\<close> of these handlers is only read after
  \<open>network_configure_net\<close> has set its reason.\<close>

definition restore_ap ::
  "'w net_env \<Rightarrow> command_result \<Rightarrow> ereason \<Rightarrow> 'w net_state
     \<Rightarrow> (command_result \<times> ereason \<times> 'w net_state) option" where
  "restore_ap E state reason s = do {
     (r, i, s) \<leftarrow> network_configure_net E WIFI_AP START (Some (g_ap_info s)) s;
     info \<leftarrow> i;
     let s = s\<lparr>g_ap_info := info\<rparr>;
     if r \<noteq> 0 then Some (COMMAND_NOK, mi_reason info, network_set_mode WIFI_AP STOP s)
     else Some (state, reason, s\<lparr>ns_wifi_state := WIFI_AP_CONNECTED\<rparr>)
   }"

definition netmanager_start_modem :: "'w net_env \<Rightarrow> 'w handler" where
  "netmanager_start_modem E data s = do {
     let mode = get_network_mode s;
     let flag = has_flag mode WIFI_AP;
     s \<leftarrow> (if flag
           then do {
             (_, _, s) \<leftarrow> network_configure_net E WIFI_AP STOP None s;
             Some (s\<lparr>ns_wifi_state := WIFI_AP_CLOSE\<rparr>)
           }
           else Some s);
     s \<leftarrow> (if has_flag mode MODEM
           then do { s \<leftarrow> stop_mode E MODEM s; Some (s\<lparr>ns_modem_state := MODEM_UNCONNECTED\<rparr>) }
           else Some s);
     (r, i, s) \<leftarrow> network_configure_net E MODEM START (Some zero_info) s;
     info \<leftarrow> i;
     let (state, reason, s) =
       (if r \<noteq> 0 then (COMMAND_NOK, mi_reason info, s\<lparr>ns_modem_state := MODEM_UNCONNECTED\<rparr>)
        else (COMMAND_OK, eREASON_NONE, network_set_mode MODEM START (s\<lparr>ns_modem_state := MODEM_CONNECTED\<rparr>)));
     (state, reason, s) \<leftarrow> (if flag then restore_ap E state reason s else Some (state, reason, s));
     Some (0, netmanger_response_command state reason s)
   }"

definition netmanager_stop_modem :: "'w net_env \<Rightarrow> 'w handler" where
  "netmanager_stop_modem E data s = do {
     (_, _, s) \<leftarrow> network_configure_net E MODEM STOP None s;
     let s = network_set_mode MODEM STOP (s\<lparr>ns_modem_state := MODEM_UNCONNECTED\<rparr>);
     Some (0, netmanger_response_command COMMAND_OK eREASON_NONE s)
   }"

definition netmanager_start_etherent :: "'w net_env \<Rightarrow> 'w handler" where
  "netmanager_start_etherent E data s = do {
     s \<leftarrow> (if has_flag (get_network_mode s) ETHERENT
           then do { s \<leftarrow> stop_mode E ETHERENT s; Some (s\<lparr>ns_etherent_state := ETHERENT_UNCONNECTED\<rparr>) }
           else Some s);
     (r, i, s) \<leftarrow> network_configure_net E ETHERENT START (Some zero_info) s;
     info \<leftarrow> i;
     if r \<noteq> 0 then Some (0, netmanger_response_command COMMAND_NOK (mi_reason info) s)
     else Some (0, netmanger_response_command COMMAND_OK eREASON_NONE
            (network_set_mode ETHERENT START (s\<lparr>ns_etherent_state := ETHERENT_CONNECTED\<rparr>)))
   }"

definition netmanager_stop_etherent :: "'w net_env \<Rightarrow> 'w handler" where
  "netmanager_stop_etherent E data s = do {
     let s = network_set_mode ETHERENT STOP s;
     (_, _, s) \<leftarrow> network_configure_net E ETHERENT STOP None s;
     Some (0, netmanger_response_command COMMAND_OK eREASON_NONE
       (s\<lparr>ns_etherent_state := ETHERENT_UNCONNECTED\<rparr>))
   }"

section \<open>Status and configuration commands\<close>

definition netmanager_get_network_status :: "'w handler" where
  "netmanager_get_network_status data s = monitor_respond_status s"

definition netmanager_get_wifi_status :: "'w handler" where
  "netmanager_get_wifi_status data s = wifi_respond_status s"

definition netmanager_get_modem_status :: "'w handler" where
  "netmanager_get_modem_status data s = modem_respond_status s"

definition netmanager_get_etherent_status :: "'w handler" where
  "netmanager_get_etherent_status data s = etherent_respond_status s"

definition netmanager_get_config_network :: "'w net_env \<Rightarrow> 'w handler" where
  "netmanager_get_config_network E data s =
     (let (b, s) = is_wifi_configured E s in
      Some (0, network_ipc_return
        (json_object_object_add ''wifi_config'' (JInt (if b then 1 else 0)) (JObj [])) s))"

definition netmanager_save_config_network :: "'w net_env \<Rightarrow> 'w handler" where
  "netmanager_save_config_network E data s =
     (let (r, s) = ext (wp_save_network (wpa E)) s in Some (0, respond_int r s))"

definition netmanager_enable_all_network :: "'w net_env \<Rightarrow> 'w handler" where
  "netmanager_enable_all_network E data s =
     (let (r, s) = ext (wp_enable_all_network (wpa E)) s in Some (0, respond_int r s))"

definition netmanager_disable_all_network :: "'w net_env \<Rightarrow> 'w handler" where
  "netmanager_disable_all_network E data s =
     (let (r, s) = ext (wp_disable_all_network (wpa E)) s in Some (0, respond_int r s))"

definition netmanager_reset_dns :: "'w net_env \<Rightarrow> 'w handler" where
  "netmanager_reset_dns E data s =
     (let (r, s) = ext (sy_res_init (sys E)) s in Some (0, respond_int r s))"

definition netmanager_remove_all_network :: "'w net_env \<Rightarrow> 'w handler" where
  "netmanager_remove_all_network E data s =
     (let (r, s) = ext (wp_remove_all_network (wpa E)) s;
          s = (if r = 0 then snd (ext (wp_save_network (wpa E)) s) else s)
      in Some (0, respond_int r s))"

section \<open>Removing a network by name\<close>

definition get_line_from_buf :: "nat \<Rightarrow> string \<Rightarrow> string option" where
  "get_line_from_buf idx buf = get_line idx [] buf"

definition lines_from_one :: "string \<Rightarrow> string list" where
  "lines_from_one buf =
     map the (takeWhile (\<lambda>l. l \<noteq> None) (map (\<lambda>i. get_line_from_buf i buf) [1..<length buf + 2]))"

definition line_matches :: "string \<Rightarrow> string \<Rightarrow> bool" where
  "line_matches line ssid \<longleftrightarrow>
     (case strstr line ssid of
        None \<Rightarrow> False
      | Some c \<Rightarrow> length ssid < length c \<and> c ! length ssid = CHR 0x09)"

fun remove_matching ::
  "'w net_env \<Rightarrow> string \<Rightarrow> string list \<Rightarrow> bool \<Rightarrow> 'w net_state \<Rightarrow> bool \<times> 'w net_state" where
  "remove_matching E ssid [] flag s = (flag, s)"
| "remove_matching E ssid (l # ls) flag s =
     (if line_matches l ssid
      then let (_, s) = ext (wp_remove_network (wpa E) (atoi l)) s in remove_matching E ssid ls True s
      else remove_matching E ssid ls flag s)"

text \<open>The reply buffer length passed to wpa_supplicant is 100 bytes.\<close>

definition wpa_sync_send_command ::
  "'w net_env \<Rightarrow> string \<Rightarrow> 'w net_state \<Rightarrow> (int \<times> string) \<times> 'w net_state" where
  "wpa_sync_send_command E command s =
     (let (ok, s) = ext (wp_ctrl_open (wpa E)) s in
      if \<not> ok then ((-1, []), s)
      else let ((r, reply), s) = ext (wp_ctrl_request (wpa E) command) s in ((r, take 100 reply), s))"

text \<open>The local \<open>info\<close> is not zeroed here: an SSID of 63 or more characters leaves the copy
  without a terminator, which the comparison with any line then runs past.\<close>

definition netmanager_remove_network :: "'w net_env \<Rightarrow> 'w handler" where
  "netmanager_remove_network E data s = do {
     s \<leftarrow> (if has_flag (get_network_mode s) WIFI_AP
           then do {
             s \<leftarrow> stop_mode E WIFI_AP s;
             drop_ap_timer (s\<lparr>ns_wifi_state := WIFI_AP_CLOSE\<rparr>)
           }
           else Some s);
     (_, s) \<leftarrow> wifi_hal_start_station E s;
     case get_wifi_station_info E data zero_info of
       None \<Rightarrow> Some (-1, netmanger_response_command COMMAND_NOK eREASON_COMMAND_FORMAT_ERROR s)
     | Some info \<Rightarrow> do {
         let ((r, reply), s) = wpa_sync_send_command E ''LIST_NETWORKS'' s;
         if r = 0 then
           if length (mi_ssid info) \<ge> 63 \<and> lines_from_one reply \<noteq> [] then None
           else do {
             let (flag, s) = remove_matching E (mi_ssid info) (lines_from_one reply) False s;
             let s = (if flag then snd (ext (wp_save_network (wpa E)) s) else s);
             Some (0, netmanger_response_command COMMAND_OK eREASON_NONE s)
           }
         else Some (0, netmanger_response_command COMMAND_NOK eREASON_COMMAND_FORMAT_ERROR s)
       }
   }"

section \<open>Dispatch\<close>

definition ctrl_cmd :: "'w net_env \<Rightarrow> (string \<times> string \<times> 'w handler) list" where
  "ctrl_cmd E = [
     (''NETWORK'', ''GET_CAPACITY'', netmanager_get_net_capacity),
     (''NETWORK'', ''GET_MODE'', netmanager_get_net_mode),
     (''NETWORK'', ''TRIGGER_STATUS'', netmanager_report_all_status),
     (''WIFI'', ''START_SCAN'', netmanager_start_wifi_scan E),
     (''WIFI'', ''STOP_SCAN'', netmanager_stop_wifi_scan),
     (''WIFI'', ''GET_WIFILIST'', netmanager_get_wifi_scan_result E),
     (''WIFI'', ''CONNECT'', netmanager_start_wifi_station E),
     (''WIFI'', ''DISCONNECT'', netmanager_stop_wifi_station E),
     (''WIFI_AP'', ''CONNECT'', netmanager_start_wifi_ap E),
     (''WIFI_AP'', ''DISCONNECT'', netmanager_stop_wifi_ap E),
     (''MODEM'', ''CONNECT'', netmanager_start_modem E),
     (''MODEM'', ''DISCONNECT'', netmanager_stop_modem E),
     (''ETHERENT'', ''CONNECT'', netmanager_start_etherent E),
     (''ETHERENT'', ''DISCONNECT'', netmanager_stop_etherent E),
     (''NETWORK'', ''GET_STATUS'', netmanager_get_network_status),
     (''WIFI'', ''GET_STATUS'', netmanager_get_wifi_status),
     (''ETHERENT'', ''GET_STATUS'', netmanager_get_etherent_status),
     (''MODEM'', ''GET_STATUS'', netmanager_get_modem_status),
     (''WIFI'', ''GET_CFG_NUM'', netmanager_get_config_network E),
     (''WIFI'', ''SAVE_CFG'', netmanager_save_config_network E),
     (''WIFI'', ''REMOVE'', netmanager_remove_network E),
     (''WIFI'', ''ENABLE'', netmanager_enable_all_network E),
     (''WIFI'', ''DISABLE'', netmanager_disable_all_network E),
     (''NETWORK'', ''RESET_DNS'', netmanager_reset_dns E),
     (''WIFI'', ''REMOVE_ALL'', netmanager_remove_all_network E)]"

text \<open>\<open>Some None\<close> is the return value \<open>-1\<close>; a device or command that is the JSON null is
  copied from a NULL pointer.\<close>

definition get_cmd_str :: "'w net_env \<Rightarrow> json \<Rightarrow> (string \<times> string) option option" where
  "get_cmd_str E base =
     (case (json_object_object_get_ex base ''device'', json_object_object_get_ex base ''command'') of
        (Some d, Some c) \<Rightarrow> do {
          dev \<leftarrow> json_object_get_string (sy_json_text (sys E)) d;
          cmd \<leftarrow> json_object_get_string (sy_json_text (sys E)) c;
          Some (Some (take 63 dev, take 63 cmd))
        }
      | _ \<Rightarrow> Some None)"

fun get_ctrl_cmd_idx :: "string \<Rightarrow> string \<Rightarrow> (string \<times> string \<times> 'w handler) list \<Rightarrow> 'w handler option" where
  "get_ctrl_cmd_idx dev cmd [] = None"
| "get_ctrl_cmd_idx dev cmd ((d, c, h) # t) =
     (if d = dev \<and> c = cmd then Some h else get_ctrl_cmd_idx dev cmd t)"

definition handle_net_command :: "'w net_env \<Rightarrow> string \<Rightarrow> 'w net_state \<Rightarrow> 'w net_state option" where
  "handle_net_command E buf s = do {
     let obj = sy_json_parse (sys E) buf;
     c \<leftarrow> get_cmd_str E obj;
     case c of
       None \<Rightarrow> Some (netmanger_response_command COMMAND_NOK eREASON_COMMAND_FORMAT_ERROR s)
     | Some (dev, cmd) \<Rightarrow>
         (case get_ctrl_cmd_idx dev cmd (ctrl_cmd E) of
            None \<Rightarrow> Some (netmanger_response_command COMMAND_NOK eREASON_COMMAND_FORMAT_ERROR s)
          | Some h \<Rightarrow> map_option snd (h obj s))
   }"

section \<open>Commands keep the invariant and answer once\<close>

text \<open>\<open>ok_from s t\<close>: the handler that started in \<open>s\<close> has reached \<open>t\<close>, the invariant holds and
  nothing has been answered yet.\<close>

definition ok_from :: "'w net_state \<Rightarrow> 'w net_state \<Rightarrow> bool" where
  "ok_from s t \<longleftrightarrow> net_ok t \<and> replies t = replies s \<and> g_capacity t = g_capacity s
     \<and> wifi_device t = wifi_device s \<and> wifi_init_mode_flag t = wifi_init_mode_flag s"

definition answered :: "'w net_state \<Rightarrow> 'w net_state \<Rightarrow> bool" where
  "answered s t \<longleftrightarrow> net_ok t \<and> (\<exists>j. replies t = replies s @ [j])"

lemma ok_from_refl: "net_ok s \<Longrightarrow> ok_from s s"
  by (simp add: ok_from_def)

lemma ok_from_ctl: "ok_from s t \<Longrightarrow> ctl_eq t u \<Longrightarrow> ok_from s u"
  using net_ok_ctl[of t u] by (simp add: ok_from_def ctl_eq_def)

lemma net_ok_updates [simp]:
  "net_ok (s\<lparr>ns_wifi_state := a\<rparr>) = net_ok s" "net_ok (s\<lparr>ns_modem_state := a\<rparr>) = net_ok s"
  "net_ok (s\<lparr>ns_etherent_state := a\<rparr>) = net_ok s" "net_ok (s\<lparr>world := w\<rparr>) = net_ok s"
  "net_ok (s\<lparr>g_ap_info := i\<rparr>) = net_ok s" "net_ok (s\<lparr>ns_ssid := str\<rparr>) = net_ok s"
  "net_ok (s\<lparr>ns_wpa_network_id := n\<rparr>) = net_ok s" "net_ok (s\<lparr>replies := js\<rparr>) = net_ok s"
  by (simp_all add: net_ok_def devices_ok_def timers_ok_def valid_status_def monitor_ok_def)

lemma ok_from_updates [simp]:
  "ok_from s (t\<lparr>ns_wifi_state := a\<rparr>) = ok_from s t" "ok_from s (t\<lparr>ns_modem_state := a\<rparr>) = ok_from s t"
  "ok_from s (t\<lparr>ns_etherent_state := a\<rparr>) = ok_from s t" "ok_from s (t\<lparr>world := w\<rparr>) = ok_from s t"
  "ok_from s (t\<lparr>g_ap_info := i\<rparr>) = ok_from s t" "ok_from s (t\<lparr>ns_ssid := str\<rparr>) = ok_from s t"
  "ok_from s (t\<lparr>ns_wpa_network_id := n\<rparr>) = ok_from s t"
  by (simp_all add: ok_from_def)

lemma answered_reply [simp]: "ok_from s t \<Longrightarrow> answered s (network_ipc_return j t)"
  by (simp add: answered_def ok_from_def network_ipc_return_def)

lemma answered_response [simp]: "ok_from s t \<Longrightarrow> answered s (netmanger_response_command st r t)"
  by (simp add: netmanger_response_command_def Let_def)

lemma answered_respond_int [simp]: "ok_from s t \<Longrightarrow> answered s (respond_int r t)"
  by (simp add: respond_int_def)

lemma bind_ok:
  assumes "succeeds m (ok_from s)" and "\<And>t. ok_from s t \<Longrightarrow> succeeds (f t) Q"
  shows "succeeds (Option.bind m f) Q"
  using assms by (auto simp: succeeds_iff)

lemma bind_ok2:
  assumes "succeeds m (\<lambda>(r, t). ok_from s t)" and "\<And>r t. ok_from s t \<Longrightarrow> succeeds (f r t) Q"
  shows "succeeds (Option.bind m (\<lambda>(r, t). f r t)) Q"
  using assms by (auto simp: succeeds_iff)

lemma in_capacity_cong: "g_capacity t = g_capacity s \<Longrightarrow> is_mode_in_capacity m t = is_mode_in_capacity m s"
  by (simp add: is_mode_in_capacity_def)

lemma ok_from_capacity: "ok_from s t \<Longrightarrow> is_mode_in_capacity m t = is_mode_in_capacity m s"
  using in_capacity_cong[of t s m] by (simp add: ok_from_def)

lemma mode_in_capacity:
  assumes "net_ok s"
  shows "has_flag (get_network_mode s) WIFI_AP \<Longrightarrow> is_mode_in_capacity WIFI_AP s = 0"
    and "has_flag (get_network_mode s) MODEM \<Longrightarrow> is_mode_in_capacity MODEM s = 0"
    and "has_flag (get_network_mode s) ETHERENT \<Longrightarrow> is_mode_in_capacity ETHERENT s = 0"
  using assms by (auto simp: net_ok_def mode_ok_def get_network_mode_def is_mode_in_capacity_def)

lemma ok_from_set_mode:
  assumes "ok_from s t" and "st = START \<longrightarrow> is_mode_in_capacity m s = 0"
  shows "ok_from s (network_set_mode m st t)"
  using assms network_set_mode_ok[of t st m] in_capacity_cong[of t s m] by (simp add: ok_from_def)

lemma configure_ok:
  assumes "recv_wf E" and "ok_from s t" and "configure_pre m st info t"
  shows "succeeds (network_configure_net E m st info t)
           (\<lambda>(r, i, u). (info \<noteq> None \<longrightarrow> i \<noteq> None) \<and> ok_from s u)"
proof -
  have "net_ok t" using assms(2) by (simp add: ok_from_def)
  from network_configure_net_ctl[OF assms(1) this assms(3)] show ?thesis
    using assms(2) by (auto simp: succeeds_iff intro: ok_from_ctl)
qed

text \<open>A start with an \<open>info\<close> returns an \<open>info\<close>, and only a mode within the capacity is started
  successfully.\<close>

lemma configure_start_ok:
  assumes "recv_wf E" and "ok_from s t"
    and "m = WIFI \<longrightarrow> length (mi_ssid i) < 36 \<and> length (mi_psk i) < 68"
  shows "\<exists>r i' u. network_configure_net E m START (Some i) t = Some (r, Some i', u) \<and> ok_from s u
           \<and> (r = 0 \<longrightarrow> is_mode_in_capacity m s = 0)"
proof -
  have "configure_pre m START (Some i) t" using assms(3) by (simp add: configure_pre_def)
  from configure_ok[OF assms(1,2) this] obtain r i' u where
    c: "network_configure_net E m START (Some i) t = Some (r, Some i', u)" "ok_from s u"
    by (auto simp: succeeds_iff)
  moreover have "r = 0 \<longrightarrow> is_mode_in_capacity m s = 0"
    using c(1) ok_from_capacity[OF assms(2), of m]
    by (cases "is_mode_in_capacity m t = 0") (auto simp: network_configure_net_def)
  ultimately show ?thesis by blast
qed

lemma configure_stop_ok:
  assumes "recv_wf E" and "ok_from s t" and "is_mode_in_capacity m s = 0"
  shows "\<exists>r i u. network_configure_net E m STOP None t = Some (r, i, u) \<and> ok_from s u"
proof -
  have "configure_pre m STOP None t"
    using assms(2,3) by (simp add: configure_pre_def ok_from_capacity)
  from configure_ok[OF assms(1,2) this] show ?thesis by (auto simp: succeeds_iff)
qed

lemma stop_mode_ok:
  assumes "recv_wf E" and "ok_from s t" and "is_mode_in_capacity m s = 0"
  shows "succeeds (stop_mode E m t) (ok_from s)"
proof -
  obtain r i u where "network_configure_net E m STOP None t = Some (r, i, u)" "ok_from s u"
    using configure_stop_ok[OF assms] by blast
  then show ?thesis using ok_from_set_mode[of s u STOP m] by (simp add: stop_mode_def)
qed

lemma timer_stop_ok:
  assumes "ok_from s t" and "timer_alive (eloop_sched t) i"
  shows "succeeds (eloop_timer_stop i t) (ok_from s)"
proof -
  have "sched_inv (eloop_sched t)" using assms(1) by (simp add: ok_from_def net_ok_def timers_ok_def)
  from eloop_timer_stop_ctl[OF this assms(2)] show ?thesis
    using assms(1) by (auto simp: succeeds_iff intro: ok_from_ctl)
qed

lemma timer_start_ok:
  assumes "ok_from s t" and "timer_alive (eloop_sched t) i"
  shows "succeeds (eloop_timer_start i t) (ok_from s)"
proof -
  have "sched_inv (eloop_sched t)" using assms(1) by (simp add: ok_from_def net_ok_def timers_ok_def)
  from eloop_timer_start_ctl[OF this assms(2)] show ?thesis
    using assms(1) by (auto simp: succeeds_iff intro: ok_from_ctl)
qed

lemma scan_alive: "ok_from s t \<Longrightarrow> timer_alive (eloop_sched t) (ns_wifi_scan t)"
  by (simp add: ok_from_def net_ok_def timers_ok_def)

lemma start_station_ok:
  assumes "ok_from s t" and "wifi_device s"
  shows "succeeds (wifi_hal_start_station E t) (\<lambda>(r, u). ok_from s u)"
proof -
  have "wifi_device t" using assms by (simp add: ok_from_def)
  from wifi_hal_start_station_ctl[OF this, of E] show ?thesis
    using assms(1) by (auto simp: succeeds_iff intro: ok_from_ctl)
qed

lemma ok_from_timers:
  assumes "ok_from s t" and "timers_ok (t\<lparr>eloop_sched := c, ns_wifi_ap_timeout := i, g_ap_timeout_flag := b\<rparr>)"
  shows "ok_from s (t\<lparr>eloop_sched := c, ns_wifi_ap_timeout := i, g_ap_timeout_flag := b\<rparr>)"
proof -
  have "net_ok t" using assms(1) by (simp add: ok_from_def)
  then have "net_ok (t\<lparr>eloop_sched := c, ns_wifi_ap_timeout := i, g_ap_timeout_flag := b\<rparr>)"
    using assms(2) by (simp add: net_ok_def devices_ok_def valid_status_def monitor_ok_def)
  with assms(1) show ?thesis by (simp add: ok_from_def)
qed

text \<open>Deleting the access point timer, which no other timer id refers to.\<close>

lemma dispose_ap_timer:
  assumes ok: "ok_from s t" and flag: "g_ap_timeout_flag t"
  shows "succeeds (do { u \<leftarrow> eloop_timer_stop (ns_wifi_ap_timeout t) t;
             u \<leftarrow> eloop_timer_delete (ns_wifi_ap_timeout u) u; Some (u\<lparr>g_ap_timeout_flag := False\<rparr>) })
           (ok_from s)"
proof -
  let ?i = "ns_wifi_ap_timeout t" and ?c = "eloop_sched t"
  have tok: "timers_ok t" using ok by (simp add: ok_from_def net_ok_def)
  obtain c' where c': "do { c \<leftarrow> scheduler_timer_stop ?i ?c; scheduler_timer_delete ?i c } = Some c'"
    "sched_inv c'" "\<forall>j. timer_alive c' j \<longleftrightarrow> timer_alive ?c j \<and> j \<noteq> ?i"
    using tm.dispose[of ?c ?i] tok flag by (auto simp: timers_ok_def succeeds_iff)
  then obtain c1 where c1: "scheduler_timer_stop ?i ?c = Some c1" "scheduler_timer_delete ?i c1 = Some c'"
    by (auto split: Option.bind_splits)
  have "timers_ok (t\<lparr>eloop_sched := c', ns_wifi_ap_timeout := ?i, g_ap_timeout_flag := False\<rparr>)"
    using tok flag c'(2,3) by (auto simp: timers_ok_def)
  from ok_from_timers[OF ok this] show ?thesis
    using c1 by (simp add: eloop_timer_stop_def eloop_timer_delete_def)
qed

lemma drop_ap_timer_ok: "ok_from s t \<Longrightarrow> succeeds (drop_ap_timer t) (ok_from s)"
  using dispose_ap_timer[of s t] by (simp add: drop_ap_timer_def)

lemma arm_ap_timer_ok:
  assumes ok: "ok_from s t" and cap: "is_mode_in_capacity WIFI s = 0"
  shows "succeeds (arm_ap_timer n t) (ok_from s)"
proof (cases "n > 0 \<and> \<not> g_ap_timeout_flag t")
  case True
  let ?c = "eloop_sched t"
  have tok: "timers_ok t" using ok by (simp add: ok_from_def net_ok_def)
  then have inv: "sched_inv ?c" by (simp add: timers_ok_def)
  obtain i c1 where add: "timer_add_ok CB_wifi_change_to_station (word_of_int n) 0 ?c = (i, c1)" by fastforce
  obtain c2 where c2: "scheduler_timer_start i c1 = Some c2" "sched_inv c2"
    "\<forall>j. timer_alive c2 j \<longleftrightarrow> j = i \<or> timer_alive ?c j"
    using tm.add_start[OF inv add] by (auto simp: succeeds_iff)
  have fresh: "\<not> timer_alive ?c i" using tm.add_spec[OF inv add] by simp
  let ?u = "t\<lparr>eloop_sched := c2, ns_wifi_ap_timeout := i, g_ap_timeout_flag := True\<rparr>"
  have "has_flag (g_capacity t) NET_CAPACITY_WIFI"
    using ok cap by (simp add: ok_from_def is_mode_in_capacity_def split: if_splits)
  then have "timers_ok ?u" using tok c2 fresh by (auto simp: timers_ok_def)
  from ok_from_timers[OF ok this]
  have "ok_from s (t\<lparr>ns_wifi_ap_timeout := i, eloop_sched := c2, g_ap_timeout_flag := True\<rparr>)"
    by (rule back_subst[where P = "ok_from s"]) simp
  then show ?thesis using True add c2(1) by (simp add: arm_ap_timer_def eloop_timer_add_def eloop_timer_start_def)
next
  case False
  then have "arm_ap_timer n t = Some t" by (auto simp: arm_ap_timer_def)
  with ok show ?thesis by simp
qed

text \<open>The request is one the command table and the handler can process without undefined
  behaviour: the devices a stop command needs exist, SSIDs fit, and an access point
  request has no null parameter.\<close>

definition station_params_ok :: "'w net_env \<Rightarrow> json \<Rightarrow> bool" where
  "station_params_ok E j \<longleftrightarrow> (case get_wifi_station_info E j zero_info of
     None \<Rightarrow> True | Some i \<Rightarrow> length (mi_ssid i) < 36)"

lemma station_info_psk:
  "get_wifi_station_info E j zero_info = Some i \<Longrightarrow> length (mi_psk i) \<le> 63"
  by (auto simp: get_wifi_station_info_def zero_info_def Let_def split: Option.bind_splits option.splits)

lemma capacity_handler_ok: "net_ok s \<Longrightarrow> succeeds (netmanager_get_net_capacity j s) (\<lambda>(r, t). answered s t)"
  by (simp add: netmanager_get_net_capacity_def Let_def ok_from_refl)

lemma mode_handler_ok: "net_ok s \<Longrightarrow> succeeds (netmanager_get_net_mode j s) (\<lambda>(r, t). answered s t)"
  by (simp add: netmanager_get_net_mode_def Let_def ok_from_refl)

lemma valid_statusD:
  assumes "ok_from s t"
  shows "wst_state (g_wifi_status t) \<in> {0, 1}" "mst_state (g_modem_status t) \<in> {0, 1}"
    "est_state (g_etherent_status t) \<in> {0, 1}" "nst_state (g_network_status t) \<in> {0, 1}"
  using assms by (simp_all add: ok_from_def net_ok_def valid_status_def)

lemma map_snd_ok:
  assumes "succeeds m (\<lambda>(r, u). ctl_eq t u)" and "ok_from s t"
  shows "succeeds (map_option snd m) (ok_from s)"
  using assms by (auto simp: succeeds_iff intro: ok_from_ctl)

lemma report_all_ok:
  assumes "net_ok s"
  shows "succeeds (netmanager_report_all_status j s) (\<lambda>(r, t). answered s t)"
proof -
  have n: "ok_from s t \<Longrightarrow> succeeds (monitor_report_status t) (ok_from s)" for t
    unfolding monitor_report_status_def monitor_get_status_def
    by (rule map_snd_ok[OF report_network_ctl[OF valid_statusD(4)]])
  have w: "ok_from s t \<Longrightarrow> succeeds (if b then wifi_report_status t else Some t) (ok_from s)" for t b
    unfolding wifi_report_status_def wifi_event_get_status_def
    by (cases b) (simp_all add: map_snd_ok[OF report_wifi_ctl[OF valid_statusD(1)]])
  have e: "ok_from s t \<Longrightarrow> succeeds (if b then etherent_report_status t else Some t) (ok_from s)" for t b
    unfolding etherent_report_status_def etherent_get_stauts_def
    by (cases b) (simp_all add: map_snd_ok[OF report_etherent_ctl[OF valid_statusD(3)]])
  have m: "ok_from s t \<Longrightarrow> succeeds (if b then modem_report_status t else Some t) (ok_from s)" for t b
    unfolding modem_report_status_def modem_get_stauts_def
    by (cases b) (simp_all add: map_snd_ok[OF report_modem_ctl[OF valid_statusD(2)]])
  show ?thesis
    unfolding netmanager_report_all_status_def Let_def
    by (rule bind_ok[OF n[OF ok_from_refl[OF assms]]], rule bind_ok[OF w], assumption,
        rule bind_ok[OF e], assumption, rule bind_ok[OF m], assumption) simp
qed

lemma answers_answered: "ok_from s t \<Longrightarrow> answers t u \<Longrightarrow> answered s u"
  by (auto simp: answers_def)

lemma status_handlers_ok:
  assumes "net_ok s"
  shows "succeeds (netmanager_get_network_status j s) (\<lambda>(r, t). answered s t)"
    and "succeeds (netmanager_get_wifi_status j s) (\<lambda>(r, t). answered s t)"
    and "succeeds (netmanager_get_modem_status j s) (\<lambda>(r, t). answered s t)"
    and "succeeds (netmanager_get_etherent_status j s) (\<lambda>(r, t). answered s t)"
proof -
  note ok = ok_from_refl[OF assms] and v = valid_statusD[OF ok_from_refl[OF assms]]
  show "succeeds (netmanager_get_network_status j s) (\<lambda>(r, t). answered s t)"
    using respond_network_answers[OF v(4), of s] answers_answered[OF ok]
    by (auto simp: netmanager_get_network_status_def monitor_respond_status_def monitor_get_status_def
        succeeds_iff)
  show "succeeds (netmanager_get_wifi_status j s) (\<lambda>(r, t). answered s t)"
    using respond_wifi_answers[OF v(1), of s] answers_answered[OF ok]
    by (auto simp: netmanager_get_wifi_status_def wifi_respond_status_def wifi_event_get_status_def
        succeeds_iff)
  show "succeeds (netmanager_get_modem_status j s) (\<lambda>(r, t). answered s t)"
    using respond_modem_answers[OF v(2), of s] answers_answered[OF ok]
    by (auto simp: netmanager_get_modem_status_def modem_respond_status_def modem_get_stauts_def
        succeeds_iff)
  show "succeeds (netmanager_get_etherent_status j s) (\<lambda>(r, t). answered s t)"
    using respond_etherent_answers[OF v(3), of s] answers_answered[OF ok]
    by (auto simp: netmanager_get_etherent_status_def etherent_respond_status_def etherent_get_stauts_def
        succeeds_iff)
qed

lemma simple_handlers_ok:
  assumes "net_ok s"
  shows "succeeds (netmanager_get_config_network E j s) (\<lambda>(r, t). answered s t)"
    and "succeeds (netmanager_save_config_network E j s) (\<lambda>(r, t). answered s t)"
    and "succeeds (netmanager_enable_all_network E j s) (\<lambda>(r, t). answered s t)"
    and "succeeds (netmanager_disable_all_network E j s) (\<lambda>(r, t). answered s t)"
    and "succeeds (netmanager_reset_dns E j s) (\<lambda>(r, t). answered s t)"
    and "succeeds (netmanager_remove_all_network E j s) (\<lambda>(r, t). answered s t)"
  using ok_from_refl[OF assms]
  by (simp_all add: netmanager_get_config_network_def netmanager_save_config_network_def
      netmanager_enable_all_network_def netmanager_disable_all_network_def netmanager_reset_dns_def
      netmanager_remove_all_network_def is_wifi_configured_def ext_eq Let_def split: option.split)

lemma scan_result_ok:
  assumes "net_ok s" and "fst (wp_get_scan_result (wpa E) (world s)) = []"
  shows "succeeds (netmanager_get_wifi_scan_result E j s) (\<lambda>(r, t). answered s t)"
  using assms ok_from_refl[OF assms(1)] by (simp add: netmanager_get_wifi_scan_result_def ext_eq)

end
