(* ===== verification/NetSafety.thy ===== *)
theory NetSafety
  imports NetCtrl
begin

text \<open>
  The command handlers that start and stop links keep the invariant of the manager
  and answer exactly once, provided the request does not hit one of the cases in
  which the C code dereferences NULL or overruns a buffer (\<open>request_safe\<close>).  The
  remaining theorems show that those cases do crash.
\<close>

section \<open>Handlers that switch links\<close>

lemma if_ok: "(b \<Longrightarrow> succeeds x Q) \<Longrightarrow> (\<not> b \<Longrightarrow> succeeds y Q) \<Longrightarrow> succeeds (if b then x else y) Q"
  by simp

lemma stop_then_ok:
  assumes "recv_wf E" and "ok_from s t" and "is_mode_in_capacity m s = 0"
    and "\<And>u. ok_from s u \<Longrightarrow> ok_from s (f u)"
  shows "succeeds (do { u \<leftarrow> stop_mode E m t; Some (f u) }) (ok_from s)"
  by (rule bind_ok[OF stop_mode_ok[OF assms(1,2,3)]]) (simp add: assms(4))

lemma stop_ap_and_timer_ok:
  assumes "recv_wf E" and "ok_from s t" and "is_mode_in_capacity WIFI_AP s = 0"
  shows "succeeds (do { u \<leftarrow> stop_mode E WIFI_AP t; drop_ap_timer (u\<lparr>ns_wifi_state := WIFI_AP_CLOSE\<rparr>) })
           (ok_from s)"
  by (rule bind_ok[OF stop_mode_ok[OF assms]]) (simp add: drop_ap_timer_ok)

lemma start_scan_ok:
  assumes E: "recv_wf E" and ok: "net_ok s" and dev: "wifi_device s"
  shows "succeeds (netmanager_start_wifi_scan E j s) (\<lambda>(r, t). answered s t)"
proof -
  have "succeeds (if has_flag (get_network_mode s) WIFI_AP
      then do { u \<leftarrow> stop_mode E WIFI_AP s; Some (u\<lparr>ns_wifi_state := WIFI_AP_CLOSE\<rparr>) } else Some s) (ok_from s)"
    using ok_from_refl[OF ok] by (intro if_ok stop_then_ok E mode_in_capacity(1)[OF ok]) simp_all
  then show ?thesis
    unfolding netmanager_start_wifi_scan_def
  proof (rule bind_ok)
    fix t assume t: "ok_from s t"
    show "succeeds (do {
        (_, u) \<leftarrow> wifi_hal_start_station E t;
        let (_, u) = ext (wp_clear_scan_results (wpa E)) u;
        u \<leftarrow> eloop_timer_stop (ns_wifi_scan u) u;
        u \<leftarrow> eloop_timer_start (ns_wifi_scan u) u;
        Some (0, netmanger_response_command COMMAND_OK eREASON_NONE
          (u\<lparr>ns_wifi_state := WIFI_STATION_PRE_JOIN\<rparr>)) }) (\<lambda>(r, t). answered s t)"
      by (rule bind_ok2[OF start_station_ok[OF t dev]], simp add: ext_eq,
          rule bind_ok[OF timer_stop_ok], simp, simp add: scan_alive[of s, simplified],
          rule bind_ok[OF timer_start_ok], assumption, erule scan_alive, simp)
  qed
qed

lemma stop_scan_ok:
  assumes ok: "net_ok s"
  shows "succeeds (netmanager_stop_wifi_scan j s) (\<lambda>(r, t). answered s t)"
  unfolding netmanager_stop_wifi_scan_def
  by (rule bind_ok[OF timer_stop_ok[OF ok_from_refl[OF ok] scan_alive[OF ok_from_refl[OF ok]]]]) simp

lemma station_connected_ok:
  assumes "ok_from s t" and "is_mode_in_capacity WIFI s = 0"
  shows "succeeds (station_connected t) (ok_from s)"
proof -
  let ?t = "network_set_mode WIFI START t"
  have t: "ok_from s ?t" using assms by (intro ok_from_set_mode) simp_all
  obtain u where "eloop_timer_stop (ns_wifi_scan ?t) ?t = Some u" "ok_from s u"
    using timer_stop_ok[OF t scan_alive[OF t]] by (auto simp: succeeds_iff)
  then show ?thesis by (simp add: station_connected_def Let_def)
qed

text \<open>Leaving access point mode before another mode is entered.\<close>

lemma leave_ap_ok:
  assumes E: "recv_wf E" and ok: "net_ok s"
  shows "succeeds (if has_flag (get_network_mode s) WIFI_AP
      then do { u \<leftarrow> drop_ap_timer s; u \<leftarrow> stop_mode E WIFI_AP u; Some (u\<lparr>ns_wifi_state := WIFI_AP_CLOSE\<rparr>) }
      else Some s) (ok_from s)"
    and "succeeds (if has_flag (get_network_mode s) WIFI_AP
      then do { u \<leftarrow> stop_mode E WIFI_AP s; drop_ap_timer (u\<lparr>ns_wifi_state := WIFI_AP_CLOSE\<rparr>) }
      else Some s) (ok_from s)"
proof -
  note refl = ok_from_refl[OF ok] and cap = mode_in_capacity(1)[OF ok]
  show "succeeds (if has_flag (get_network_mode s) WIFI_AP
      then do { u \<leftarrow> drop_ap_timer s; u \<leftarrow> stop_mode E WIFI_AP u; Some (u\<lparr>ns_wifi_state := WIFI_AP_CLOSE\<rparr>) }
      else Some s) (ok_from s)"
    using refl by (intro if_ok bind_ok[OF drop_ap_timer_ok[OF refl]] stop_then_ok E cap) simp_all
  show "succeeds (if has_flag (get_network_mode s) WIFI_AP
      then do { u \<leftarrow> stop_mode E WIFI_AP s; drop_ap_timer (u\<lparr>ns_wifi_state := WIFI_AP_CLOSE\<rparr>) }
      else Some s) (ok_from s)"
    using refl by (intro if_ok stop_ap_and_timer_ok E cap) simp_all
qed

lemma start_station_handler_ok:
  assumes E: "recv_wf E" and ok: "net_ok s" and par: "station_params_ok E j"
  shows "succeeds (netmanager_start_wifi_station E j s) (\<lambda>(r, t). answered s t)"
  unfolding netmanager_start_wifi_station_def
proof (rule bind_ok[OF leave_ap_ok(1)[OF E ok]])
  fix t assume t: "ok_from s t"
  let ?t = "t\<lparr>ns_wifi_state := WIFI_STATION_JOINING\<rparr>"
  have t': "ok_from s ?t" using t by simp
  show "succeeds (let t = ?t in case get_wifi_station_info E j zero_info of
       None \<Rightarrow> Some (-1, netmanger_response_command COMMAND_NOK eREASON_COMMAND_FORMAT_ERROR t)
     | Some info \<Rightarrow> do {
         (r, i, s) \<leftarrow> network_configure_net E WIFI START (Some info) t;
         info \<leftarrow> i;
         s \<leftarrow> (if r \<noteq> 0 then Some (s\<lparr>ns_wifi_state := WIFI_STATION_UNCONNECTED\<rparr>) else station_connected s);
         let (_, s) = ext (wp_enable_all_network (wpa E)) s;
         Some (-1, if r \<noteq> 0 then netmanger_response_command COMMAND_NOK (mi_reason info) s
                   else netmanger_response_command COMMAND_OK eREASON_NONE s)
       }) (\<lambda>(r, t). answered s t)"
  proof (cases "get_wifi_station_info E j zero_info")
    case None
    with t' show ?thesis by simp
  next
    case (Some info)
    then have "length (mi_ssid info) < 36 \<and> length (mi_psk info) < 68"
      using par station_info_psk[OF Some] by (simp add: station_params_ok_def)
    then obtain r i u where c: "network_configure_net E WIFI START (Some info) ?t = Some (r, Some i, u)"
      "ok_from s u" "r = 0 \<longrightarrow> is_mode_in_capacity WIFI s = 0"
      using configure_start_ok[OF E t', of WIFI info] by auto
    have "succeeds (if r \<noteq> 0 then Some (u\<lparr>ns_wifi_state := WIFI_STATION_UNCONNECTED\<rparr>)
        else station_connected u) (ok_from s)"
      using c by (intro if_ok station_connected_ok) simp_all
    then obtain v where v: "(if r \<noteq> 0 then Some (u\<lparr>ns_wifi_state := WIFI_STATION_UNCONNECTED\<rparr>)
        else station_connected u) = Some v" "ok_from s v" by (auto simp: succeeds_iff)
    show ?thesis using Some c(1) v by (simp add: ext_eq)
  qed
qed

lemma stop_station_handler_ok:
  assumes E: "recv_wf E" and ok: "net_ok s" and cap: "is_mode_in_capacity WIFI s = 0"
  shows "succeeds (netmanager_stop_wifi_station E j s) (\<lambda>(r, t). answered s t)"
proof -
  let ?s = "s\<lparr>ns_wifi_state := WIFI_STATE_CLOSE\<rparr>"
  have s: "ok_from s ?s" using ok_from_refl[OF ok] by simp
  show ?thesis
    unfolding netmanager_stop_wifi_station_def Let_def
    by (rule bind_ok[OF timer_stop_ok[OF s scan_alive[OF s]]],
        rule bind_ok[OF stop_mode_ok[OF E _ cap]], assumption, simp)
qed

lemma stop_ap_handler_ok:
  assumes E: "recv_wf E" and ok: "net_ok s" and cap: "is_mode_in_capacity WIFI_AP s = 0"
  shows "succeeds (netmanager_stop_wifi_ap E j s) (\<lambda>(r, t). answered s t)"
proof -
  have s: "ok_from s (s\<lparr>ns_wifi_state := WIFI_AP_CLOSE\<rparr>)" using ok_from_refl[OF ok] by simp
  show ?thesis
    unfolding netmanager_stop_wifi_ap_def
    by (rule bind_ok[OF stop_mode_ok[OF E s cap]], rule bind_ok[OF drop_ap_timer_ok], assumption, simp)
qed

lemma start_ap_tail_ok:
  assumes E: "recv_wf E" and cap: "is_mode_in_capacity WIFI s = 0" and u: "ok_from s u"
  shows "succeeds (do {
         (r, i, v) \<leftarrow> network_configure_net E WIFI_AP START (Some info) u;
         info \<leftarrow> i;
         let v = (if r \<noteq> 0 then v\<lparr>ns_wifi_state := WIFI_AP_UNCONNECTED\<rparr>
                  else network_set_mode WIFI_AP START
                         (v\<lparr>ns_wifi_state := WIFI_AP_CONNECTED, g_ap_info := info\<rparr>));
         v \<leftarrow> arm_ap_timer (mi_timeout info) v;
         Some (0, if r \<noteq> 0 then netmanger_response_command COMMAND_NOK (mi_reason info) v
                  else netmanger_response_command COMMAND_OK eREASON_NONE v)
       }) (\<lambda>(r, t). answered s t)"
proof -
  obtain r i v where c: "network_configure_net E WIFI_AP START (Some info) u = Some (r, Some i, v)"
    "ok_from s v" "r = 0 \<longrightarrow> is_mode_in_capacity WIFI_AP s = 0"
    using configure_start_ok[OF E u, of WIFI_AP info] by auto
  let ?v = "if r \<noteq> 0 then v\<lparr>ns_wifi_state := WIFI_AP_UNCONNECTED\<rparr>
    else network_set_mode WIFI_AP START (v\<lparr>ns_wifi_state := WIFI_AP_CONNECTED, g_ap_info := i\<rparr>)"
  have v: "ok_from s ?v"
    using c(2,3) ok_from_set_mode[of s "v\<lparr>ns_wifi_state := WIFI_AP_CONNECTED, g_ap_info := i\<rparr>" START WIFI_AP]
    by simp
  obtain w where "arm_ap_timer (mi_timeout i) ?v = Some w" "ok_from s w"
    using arm_ap_timer_ok[OF v cap, of "mi_timeout i"] by (auto simp: succeeds_iff)
  then show ?thesis using c(1) by simp
qed

lemma start_ap_handler_ok:
  assumes E: "recv_wf E" and ok: "net_ok s" and cap: "is_mode_in_capacity WIFI s = 0"
    and par: "get_wifi_ap_info E j zero_info \<noteq> None"
  shows "succeeds (netmanager_start_wifi_ap E j s) (\<lambda>(r, t). answered s t)"
proof -
  note refl = ok_from_refl[OF ok]
  have cap2: "is_mode_in_capacity WIFI_AP s = 0" using cap by (simp add: is_mode_in_capacity_def)
  have ap: "ok_from s t \<Longrightarrow> succeeds (if has_flag m WIFI_AP
      then do { u \<leftarrow> stop_mode E WIFI_AP t; drop_ap_timer (u\<lparr>ns_wifi_state := WIFI_AP_CLOSE\<rparr>) } else Some t)
      (ok_from s)" for t m
    by (intro if_ok stop_ap_and_timer_ok E cap2) simp_all
  obtain i where i: "get_wifi_ap_info E j zero_info = Some i" using par by auto
  show ?thesis
    unfolding netmanager_start_wifi_ap_def Let_def i
    by (rule bind_ok[OF timer_stop_ok[OF refl scan_alive[OF refl]]],
        rule bind_ok[OF stop_mode_ok[OF E _ cap]], assumption,
        rule bind_ok[OF ap], simp, cases i)
      (simp_all add: start_ap_tail_ok[OF E cap, unfolded Let_def])
qed

lemma restore_ap_ok:
  assumes E: "recv_wf E" and t: "ok_from s t"
  shows "succeeds (restore_ap E st rs t) (\<lambda>(st', rs', u). ok_from s u)"
proof -
  obtain r i u where c: "network_configure_net E WIFI_AP START (Some (g_ap_info t)) t = Some (r, Some i, u)"
    "ok_from s u"
    using configure_start_ok[OF E t, of WIFI_AP "g_ap_info t"] by auto
  have "ok_from s (network_set_mode WIFI_AP STOP (u\<lparr>g_ap_info := i\<rparr>))"
    using c(2) by (intro ok_from_set_mode) simp_all
  with c show ?thesis by (simp add: restore_ap_def Let_def)
qed

lemma start_modem_handler_ok:
  assumes E: "recv_wf E" and ok: "net_ok s"
  shows "succeeds (netmanager_start_modem E j s) (\<lambda>(r, t). answered s t)"
proof -
  let ?ap = "has_flag (get_network_mode s) WIFI_AP"
  have "succeeds (if ?ap then do { (_, _, u) \<leftarrow> network_configure_net E WIFI_AP STOP None s;
      Some (u\<lparr>ns_wifi_state := WIFI_AP_CLOSE\<rparr>) } else Some s) (ok_from s)"
    using configure_stop_ok[OF E ok_from_refl[OF ok] mode_in_capacity(1)[OF ok]] ok_from_refl[OF ok]
    by auto
  then show ?thesis
    unfolding netmanager_start_modem_def Let_def
  proof (rule bind_ok)
    fix t assume t: "ok_from s t"
    have "succeeds (if has_flag (get_network_mode s) MODEM then do { u \<leftarrow> stop_mode E MODEM t;
        Some (u\<lparr>ns_modem_state := MODEM_UNCONNECTED\<rparr>) } else Some t) (ok_from s)"
      using t by (intro if_ok stop_then_ok E mode_in_capacity(2)[OF ok]) simp_all
    then obtain u where u: "(if has_flag (get_network_mode s) MODEM then do { u \<leftarrow> stop_mode E MODEM t;
        Some (u\<lparr>ns_modem_state := MODEM_UNCONNECTED\<rparr>) } else Some t) = Some u" "ok_from s u"
      by (auto simp: succeeds_iff)
    obtain r i v where c: "network_configure_net E MODEM START (Some zero_info) u = Some (r, Some i, v)"
      "ok_from s v" "r = 0 \<longrightarrow> is_mode_in_capacity MODEM s = 0"
      using configure_start_ok[OF E u(2), of MODEM zero_info] by auto
    let ?x = "if r \<noteq> 0 then (COMMAND_NOK, mi_reason i, v\<lparr>ns_modem_state := MODEM_UNCONNECTED\<rparr>)
      else (COMMAND_OK, eREASON_NONE, network_set_mode MODEM START (v\<lparr>ns_modem_state := MODEM_CONNECTED\<rparr>))"
    obtain st rs w where x: "?x = (st, rs, w)" by (cases ?x) auto
    have w: "ok_from s w"
      using x c(2,3) ok_from_set_mode[of s "v\<lparr>ns_modem_state := MODEM_CONNECTED\<rparr>" START MODEM]
      by (auto split: if_splits)
    have "succeeds (if ?ap then restore_ap E st rs w else Some (st, rs, w)) (\<lambda>(st', rs', u). ok_from s u)"
      using restore_ap_ok[OF E w] w by simp
    then show "succeeds (do {
        u \<leftarrow> (if has_flag (get_network_mode s) MODEM then do { u \<leftarrow> stop_mode E MODEM t;
              Some (u\<lparr>ns_modem_state := MODEM_UNCONNECTED\<rparr>) } else Some t);
        (r, i, v) \<leftarrow> network_configure_net E MODEM START (Some zero_info) u;
        info \<leftarrow> i;
        case (if r \<noteq> 0 then (COMMAND_NOK, mi_reason info, v\<lparr>ns_modem_state := MODEM_UNCONNECTED\<rparr>)
          else (COMMAND_OK, eREASON_NONE, network_set_mode MODEM START (v\<lparr>ns_modem_state := MODEM_CONNECTED\<rparr>))) of
          (st, rs, w) \<Rightarrow> do {
            (st, rs, w) \<leftarrow> (if ?ap then restore_ap E st rs w else Some (st, rs, w));
            Some (0, netmanger_response_command st rs w) } }) (\<lambda>(r, t). answered s t)"
      using u(1) c(1) x by (auto simp: succeeds_iff)
  qed
qed

lemma stop_modem_handler_ok:
  assumes E: "recv_wf E" and ok: "net_ok s" and cap: "is_mode_in_capacity MODEM s = 0"
  shows "succeeds (netmanager_stop_modem E j s) (\<lambda>(r, t). answered s t)"
proof -
  obtain r i u where c: "network_configure_net E MODEM STOP None s = Some (r, i, u)" "ok_from s u"
    using configure_stop_ok[OF E ok_from_refl[OF ok] cap] by blast
  have "ok_from s (network_set_mode MODEM STOP (u\<lparr>ns_modem_state := MODEM_UNCONNECTED\<rparr>))"
    using c(2) by (intro ok_from_set_mode) simp_all
  with c show ?thesis by (simp add: netmanager_stop_modem_def Let_def)
qed

lemma start_etherent_handler_ok:
  assumes E: "recv_wf E" and ok: "net_ok s"
  shows "succeeds (netmanager_start_etherent E j s) (\<lambda>(r, t). answered s t)"
proof -
  have "succeeds (if has_flag (get_network_mode s) ETHERENT then do { u \<leftarrow> stop_mode E ETHERENT s;
      Some (u\<lparr>ns_etherent_state := ETHERENT_UNCONNECTED\<rparr>) } else Some s) (ok_from s)"
    using ok_from_refl[OF ok] by (intro if_ok stop_then_ok E mode_in_capacity(3)[OF ok]) simp_all
  then show ?thesis
    unfolding netmanager_start_etherent_def
  proof (rule bind_ok)
    fix t assume t: "ok_from s t"
    obtain r i v where c: "network_configure_net E ETHERENT START (Some zero_info) t = Some (r, Some i, v)"
      "ok_from s v" "r = 0 \<longrightarrow> is_mode_in_capacity ETHERENT s = 0"
      using configure_start_ok[OF E t, of ETHERENT zero_info] by auto
    then show "succeeds (do {
        (r, i, v) \<leftarrow> network_configure_net E ETHERENT START (Some zero_info) t;
        info \<leftarrow> i;
        if r \<noteq> 0 then Some (0, netmanger_response_command COMMAND_NOK (mi_reason info) v)
        else Some (0, netmanger_response_command COMMAND_OK eREASON_NONE
            (network_set_mode ETHERENT START (v\<lparr>ns_etherent_state := ETHERENT_CONNECTED\<rparr>))) })
        (\<lambda>(r, t). answered s t)"
      by (simp add: ok_from_set_mode)
  qed
qed

lemma stop_etherent_handler_ok:
  assumes E: "recv_wf E" and ok: "net_ok s" and cap: "is_mode_in_capacity ETHERENT s = 0"
  shows "succeeds (netmanager_stop_etherent E j s) (\<lambda>(r, t). answered s t)"
proof -
  have s: "ok_from s (network_set_mode ETHERENT STOP s)"
    using ok_from_refl[OF ok] by (intro ok_from_set_mode) simp_all
  obtain r i u where "network_configure_net E ETHERENT STOP None (network_set_mode ETHERENT STOP s) = Some (r, i, u)"
    "ok_from s u"
    using configure_stop_ok[OF E s cap] by blast
  then show ?thesis by (simp add: netmanager_stop_etherent_def Let_def)
qed

lemma remove_matching_ok: "ok_from s t \<Longrightarrow> ok_from s (snd (remove_matching E ssid ls b t))"
  by (induction ls arbitrary: b t) (simp_all add: ext_eq)

lemma remove_handler_ok:
  assumes E: "recv_wf E" and ok: "net_ok s" and dev: "wifi_device s"
    and par: "station_params_ok E j"
  shows "succeeds (netmanager_remove_network E j s) (\<lambda>(r, t). answered s t)"
  unfolding netmanager_remove_network_def
proof (rule bind_ok[OF leave_ap_ok(2)[OF E ok]])
  fix t assume t: "ok_from s t"
  obtain r u where u: "wifi_hal_start_station E t = Some (r, u)" "ok_from s u"
    using start_station_ok[OF t dev, of E] by (auto simp: succeeds_iff)
  obtain r2 reply v where v: "wpa_sync_send_command E ''LIST_NETWORKS'' u = ((r2, reply), v)" by (metis surj_pair)
  have ov: "ok_from s v"
    using v u(2) by (auto simp: wpa_sync_send_command_def ext_eq split_def Let_def split: if_splits)
  show "succeeds (do {
     (_, u) \<leftarrow> wifi_hal_start_station E t;
     case get_wifi_station_info E j zero_info of
       None \<Rightarrow> Some (-1, netmanger_response_command COMMAND_NOK eREASON_COMMAND_FORMAT_ERROR u)
     | Some info \<Rightarrow> do {
         let ((r, reply), s) = wpa_sync_send_command E ''LIST_NETWORKS'' u;
         if r = 0 then
           if length (mi_ssid info) \<ge> 63 \<and> lines_from_one reply \<noteq> [] then None
           else do {
             let (flag, s) = remove_matching E (mi_ssid info) (lines_from_one reply) False s;
             let s = (if flag then snd (ext (wp_save_network (wpa E)) s) else s);
             Some (0, netmanger_response_command COMMAND_OK eREASON_NONE s)
           }
         else Some (0, netmanger_response_command COMMAND_NOK eREASON_COMMAND_FORMAT_ERROR s)
       } }) (\<lambda>(r, t). answered s t)"
  proof (cases "get_wifi_station_info E j zero_info")
    case None
    with u show ?thesis by simp
  next
    case (Some info)
    then have "length (mi_ssid info) < 63" using par by (simp add: station_params_ok_def)
    moreover obtain b w where w: "remove_matching E (mi_ssid info) (lines_from_one reply) False v = (b, w)"
      by fastforce
    moreover have "ok_from s w" using remove_matching_ok[OF ov] w by (metis snd_conv)
    ultimately show ?thesis using Some u(1) v ov by (simp add: ext_eq)
  qed
qed

text \<open>The callback of the access point timer.\<close>

lemma wifi_change_to_station_ok:
  assumes E: "recv_wf E" and ok: "net_ok s" and flag: "g_ap_timeout_flag s"
  shows "succeeds (wifi_change_to_station E s) (ok_from s)"
proof -
  let ?s = "s\<lparr>ns_wifi_state := WIFI_AP_CLOSE\<rparr>"
  have cap: "has_flag (g_capacity s) NET_CAPACITY_WIFI" using ok flag by (simp add: net_ok_def timers_ok_def)
  have dev: "wifi_device s" using cap ok by (simp add: net_ok_def devices_ok_def)
  have "configure_pre WIFI_AP STOP None ?s"
    using cap by (simp add: configure_pre_def is_mode_in_capacity_def)
  then obtain r i t where t: "network_configure_net E WIFI_AP STOP None ?s = Some (r, i, t)" "ctl_eq ?s t"
    using network_configure_net_ctl[OF E, of ?s WIFI_AP STOP None] ok by (auto simp: succeeds_iff)
  let ?t = "network_set_mode WIFI_AP STOP t"
  have os: "ok_from s ?s" using ok_from_refl[OF ok] by simp
  have ot: "ok_from s ?t" using ok_from_ctl[OF os t(2)] by (rule ok_from_set_mode) simp
  have dt: "wifi_device ?t" using ot dev by (simp add: ok_from_def)
  obtain r2 u where u: "wifi_hal_start_station E ?t = Some (r2, u)" "ctl_eq ?t u"
    using wifi_hal_start_station_ctl[OF dt, of E] by (auto simp: succeeds_iff)
  obtain r3 v where v: "wifi_start_monitor E u = (r3, v)" by fastforce
  then have uv: "ctl_eq u v" using wifi_start_monitor_ctl[of u E] by simp
  have fv: "g_ap_timeout_flag v" using flag t(2) u(2) uv by (simp add: ctl_eq_def)
  have ov: "ok_from s v" using ok_from_ctl[OF ok_from_ctl[OF ot u(2)] uv] .
  show ?thesis
    using dispose_ap_timer[OF ov fv] t(1) u(1) v by (simp add: wifi_change_to_station_def stop_mode_def)
qed

section \<open>The command interface\<close>

text \<open>The requests for which the handlers have no undefined behaviour.\<close>

definition request_safe :: "'w net_env \<Rightarrow> 'w net_state \<Rightarrow> json \<Rightarrow> string \<times> string \<Rightarrow> bool" where
  "request_safe E s j c \<longleftrightarrow>
     (c \<in> {(''WIFI'', ''START_SCAN''), (''WIFI'', ''REMOVE'')} \<longrightarrow> wifi_device s)
     \<and> (c \<in> {(''WIFI'', ''CONNECT''), (''WIFI'', ''REMOVE'')} \<longrightarrow> station_params_ok E j)
     \<and> (c \<in> {(''WIFI'', ''DISCONNECT''), (''WIFI_AP'', ''CONNECT''), (''WIFI_AP'', ''DISCONNECT'')} \<longrightarrow>
          is_mode_in_capacity WIFI s = 0)
     \<and> (c = (''WIFI_AP'', ''CONNECT'') \<longrightarrow> get_wifi_ap_info E j zero_info \<noteq> None)
     \<and> (c = (''MODEM'', ''DISCONNECT'') \<longrightarrow> is_mode_in_capacity MODEM s = 0)
     \<and> (c = (''ETHERENT'', ''DISCONNECT'') \<longrightarrow> is_mode_in_capacity ETHERENT s = 0)
     \<and> (c = (''WIFI'', ''GET_WIFILIST'') \<longrightarrow> fst (wp_get_scan_result (wpa E) (world s)) = [])"

definition command_safe :: "'w net_env \<Rightarrow> 'w net_state \<Rightarrow> string \<Rightarrow> bool" where
  "command_safe E s buf \<longleftrightarrow>
     (case get_cmd_str E (sy_json_parse (sys E) buf) of
        None \<Rightarrow> False
      | Some None \<Rightarrow> True
      | Some (Some c) \<Rightarrow> request_safe E s (sy_json_parse (sys E) buf) c)"

lemma idx_in_table: "get_ctrl_cmd_idx d c t = Some h \<Longrightarrow> (d, c, h) \<in> set t"
  by (induction d c t rule: get_ctrl_cmd_idx.induct) (auto split: if_splits)

lemma ap_capacity: "is_mode_in_capacity WIFI_AP s = is_mode_in_capacity WIFI s"
  by (simp add: is_mode_in_capacity_def)

lemma request_safe_cases:
  "request_safe E s j (''WIFI'', ''START_SCAN'') \<Longrightarrow> wifi_device s"
  "request_safe E s j (''WIFI'', ''REMOVE'') \<Longrightarrow> wifi_device s"
  "request_safe E s j (''WIFI'', ''REMOVE'') \<Longrightarrow> station_params_ok E j"
  "request_safe E s j (''WIFI'', ''CONNECT'') \<Longrightarrow> station_params_ok E j"
  "request_safe E s j (''WIFI'', ''DISCONNECT'') \<Longrightarrow> is_mode_in_capacity WIFI s = 0"
  "request_safe E s j (''WIFI_AP'', ''CONNECT'') \<Longrightarrow> is_mode_in_capacity WIFI s = 0"
  "request_safe E s j (''WIFI_AP'', ''DISCONNECT'') \<Longrightarrow> is_mode_in_capacity WIFI_AP s = 0"
  "request_safe E s j (''WIFI_AP'', ''CONNECT'') \<Longrightarrow> get_wifi_ap_info E j zero_info \<noteq> None"
  "request_safe E s j (''MODEM'', ''DISCONNECT'') \<Longrightarrow> is_mode_in_capacity MODEM s = 0"
  "request_safe E s j (''ETHERENT'', ''DISCONNECT'') \<Longrightarrow> is_mode_in_capacity ETHERENT s = 0"
  "request_safe E s j (''WIFI'', ''GET_WIFILIST'') \<Longrightarrow> fst (wp_get_scan_result (wpa E) (world s)) = []"
  by (simp_all add: request_safe_def ap_capacity)

lemmas handlers_ok = capacity_handler_ok mode_handler_ok report_all_ok start_scan_ok stop_scan_ok
  scan_result_ok start_station_handler_ok stop_station_handler_ok start_ap_handler_ok
  stop_ap_handler_ok start_modem_handler_ok stop_modem_handler_ok start_etherent_handler_ok
  stop_etherent_handler_ok status_handlers_ok simple_handlers_ok remove_handler_ok

lemma table_ok:
  assumes "recv_wf E" and "net_ok s" and "(d, c, h) \<in> set (ctrl_cmd E)" and "request_safe E s j (d, c)"
  shows "succeeds (h j s) (\<lambda>(r, t). answered s t)"
  using assms(3,4) unfolding ctrl_cmd_def
  apply (simp only: list.set insert_iff prod.inject empty_iff simp_thms)
  apply (elim disjE conjE; hypsubst)
  apply (blast intro: handlers_ok assms(1,2) dest: request_safe_cases)+
  done

lemma handle_net_command_ok:
  assumes E: "recv_wf E" and ok: "net_ok s" and safe: "command_safe E s buf"
  shows "succeeds (handle_net_command E buf s) (answered s)"
proof -
  let ?j = "sy_json_parse (sys E) buf"
  have bad: "answered s (netmanger_response_command COMMAND_NOK eREASON_COMMAND_FORMAT_ERROR s)"
    using ok_from_refl[OF ok] by simp
  obtain r where r: "get_cmd_str E ?j = Some r" using safe by (auto simp: command_safe_def split: option.splits)
  show ?thesis
  proof (cases r)
    case None
    with r bad show ?thesis by (simp add: handle_net_command_def)
  next
    case (Some p)
    obtain d c where p: "p = (d, c)" by fastforce
    have sf: "request_safe E s ?j (d, c)" using safe r Some p by (simp add: command_safe_def)
    show ?thesis
    proof (cases "get_ctrl_cmd_idx d c (ctrl_cmd E)")
      case None
      with r Some p bad show ?thesis by (simp add: handle_net_command_def)
    next
      case h: (Some h)
      obtain x t where "h ?j s = Some (x, t)" "answered s t"
        using table_ok[OF E ok idx_in_table[OF h] sf] by (auto simp: succeeds_iff)
      with r Some p h show ?thesis by (simp add: handle_net_command_def)
    qed
  qed
qed

end
