(* ===== verification/NetSched.thy ===== *)
theory NetSched
  imports NetSafety
begin

text \<open>
  The link scheduler (\<open>net/network_sched.c\<close>), which prefers ethernet to Wi-Fi and
  Wi-Fi to the modem, and the start-up of the manager (\<open>main.c\<close>).  The timer that would
  run the scheduler is commented out in \<open>network_parm_init\<close>, so the scheduler is a
  component of its own here and not a step of the running manager.
\<close>

section \<open>network_sched.c\<close>

definition WIFI_SWITCH_LIMIT_SIGNAL :: int where "WIFI_SWITCH_LIMIT_SIGNAL = -80"
definition WIFI_ROAM_LIMIT_SIGNAL :: int where "WIFI_ROAM_LIMIT_SIGNAL = -65"

definition network_get_sched_parms :: "'w net_env \<Rightarrow> 'w net_state \<Rightarrow> 'w net_state option" where
  "network_get_sched_parms E s = do {
     (v, s) \<leftarrow> property_get E 64 ''persist.netmanager.sched.enable'' ''0'' s;
     let s = (if atoi v > 0 then s\<lparr>network_sched_enable := atoi v\<rparr> else s);
     (v, s) \<leftarrow> property_get E 64 ''persist.netmanager.w2m.threshld'' [] s;
     let s = (if v \<noteq> [] \<and> atoi v < WIFI_SWITCH_LIMIT_SIGNAL
              then s\<lparr>network_wifi2modem_threshold := atoi v\<rparr> else s);
     (v, s) \<leftarrow> property_get E 64 ''persist.netmanager.m2w.threshld'' [] s;
     Some (if v \<noteq> [] \<and> atoi v > WIFI_ROAM_LIMIT_SIGNAL
           then s\<lparr>network_modem2wifi_threshold := atoi v\<rparr> else s)
   }"

definition get_current_wifi_ssid_id :: "'w net_env \<Rightarrow> 'w net_state \<Rightarrow> int \<times> 'w net_state" where
  "get_current_wifi_ssid_id E s =
     (let s = s\<lparr>ns_wpa_network_id := -1\<rparr>;
          ((r, ssid), s) = ext (wp_get_current_ssid (wpa E)) s in
      if r \<noteq> 0 then (-1, s)
      else let ((r, i), s) = ext (wp_get_current_id (wpa E)) s in
        if r = 0 \<and> i \<ge> 0 then (0, s\<lparr>ns_wpa_network_id := i, ns_ssid := take 128 ssid\<rparr>)
        else (-1, s))"

text \<open>The first half of the two functions that leave Wi-Fi: disable the network and
  mark the station as not connected.\<close>

definition leave_wifi :: "'w net_env \<Rightarrow> 'w net_state \<Rightarrow> 'w net_state" where
  "leave_wifi E s =
     (let s = (if ns_wpa_network_id s \<ge> 0
               then snd (ext (wp_disable_network (wpa E) (ns_wpa_network_id s)) s) else s)
      in (wifi_set_state REPORT_UNCONNECT s)\<lparr>g_wifi_enable_flag := False\<rparr>)"

definition network_change_to_etherent :: "'w net_env \<Rightarrow> 'w net_state \<Rightarrow> (int \<times> 'w net_state) option" where
  "network_change_to_etherent E s = do {
     let mode = get_network_mode s;
     let s = (if has_flag mode WIFI then leave_wifi E s else s);
     s \<leftarrow> (if has_flag mode MODEM then stop_mode E MODEM s else Some s);
     Some (0, s)
   }"

definition network_change_to_modem :: "'w net_env \<Rightarrow> 'w net_state \<Rightarrow> (int \<times> 'w net_state) option" where
  "network_change_to_modem E s = do {
     let mode = get_network_mode s;
     let s = (if has_flag mode WIFI then leave_wifi E s else s);
     s \<leftarrow> (if has_flag mode MODEM then stop_mode E MODEM s else Some s);
     (_, _, s) \<leftarrow> network_configure_net E MODEM START (Some zero_info) s;
     Some (0, network_set_mode MODEM START s)
   }"

definition network_change_to_wifi :: "'w net_env \<Rightarrow> 'w net_state \<Rightarrow> (int \<times> 'w net_state) option" where
  "network_change_to_wifi E s = do {
     let mode = get_network_mode s;
     s \<leftarrow> (if has_flag mode MODEM then stop_mode E MODEM s else Some s);
     if has_flag mode WIFI then
       Some (0, if ns_wpa_network_id s \<ge> 0
                then (wifi_set_state REPORT_CONNECT
                        (snd (ext (wp_enable_network (wpa E) (ns_wpa_network_id s)) s)))\<lparr>g_wifi_enable_flag := True\<rparr>
                else s)
     else do {
       s \<leftarrow> (if has_flag mode WIFI_AP then stop_mode E WIFI_AP s else Some s);
       (_, s) \<leftarrow> wifi_init_start E s;
       Some (0, s)
     }
   }"

text \<open>The loop has no break: the last entry with the name wins.\<close>

fun last_signal :: "string \<Rightarrow> (string \<times> int) list \<Rightarrow> int option \<Rightarrow> int option" where
  "last_signal ssid [] r = r"
| "last_signal ssid ((x, sig) # l) r = last_signal ssid l (if x = ssid then Some sig else r)"

definition get_wifi_ssid_signal :: "'w net_env \<Rightarrow> string \<Rightarrow> 'w net_state \<Rightarrow> int option \<times> 'w net_state" where
  "get_wifi_ssid_signal E ssid s =
     (let (l, s) = ext (wp_get_block_scan_result (wpa E)) s in (last_signal ssid l None, s))"

text \<open>\<open>network_sched_net\<close> in the order of its parts.  The parts with an early return give
  \<open>(True, s)\<close> for it.\<close>

definition sched_update_flag :: "'w net_state \<Rightarrow> 'w net_state" where
  "sched_update_flag s =
     (if has_flag (g_capacity s) NET_CAPACITY_WIFI
      then s\<lparr>g_wifi_enable_flag := (wst_state (wifi_event_get_status s) = REPORT_CONNECT
                                    \<and> ns_wifi_state s = WIFI_STATION_CONNECTED)\<rparr>
      else s)"

definition sched_wait_init :: "'w net_env \<Rightarrow> 32 word \<Rightarrow> 'w net_state \<Rightarrow> (bool \<times> 'w net_state) option" where
  "sched_wait_init E mode s =
     (if wifi_init_mode_flag s then do {
        let (_, s) = get_current_wifi_ssid_id E s;
        let ((r, st), s) = ext (wp_get_status (wpa E)) s;
        if ns_wpa_network_id s \<ge> 0 \<and> st = 2 then do {
          let s = wifi_set_state REPORT_CONNECT (s\<lparr>wifi_init_mode_flag := False\<rparr>);
          let s = network_set_mode WIFI START
                    (s\<lparr>ns_wifi_state := WIFI_STATION_CONNECTED, g_wifi_enable_flag := True\<rparr>);
          let s = s\<lparr>wait_wifi_init_cnt := 0\<rparr>;
          s \<leftarrow> (if has_flag mode MODEM then stop_mode E MODEM s else Some s);
          Some (False, s)
        }
        else do {
          let s = s\<lparr>wait_wifi_init_cnt := wait_wifi_init_cnt s + 1\<rparr>;
          Some (True, if wait_wifi_init_cnt s \<ge> 30
                      then s\<lparr>wait_wifi_init_cnt := 0, wifi_init_mode_flag := False\<rparr> else s)
        }
      }
      else Some (False, s))"

text \<open>With the scheduler enabled and a changed carrier the function ends here, whether
  or not the link could be switched.\<close>

definition sched_etherent_switch ::
  "'w net_env \<Rightarrow> int \<Rightarrow> 'w net_state \<Rightarrow> 'w net_state option" where
  "sched_etherent_switch E st s =
     (if st = REPORT_CONNECT then do {
        (r, s) \<leftarrow> network_change_to_etherent E s;
        Some (if r = 0 then s\<lparr>sched_state := st\<rparr> else s)
      }
      else if st = REPORT_UNCONNECT then
        if has_flag (g_capacity s) NET_CAPACITY_WIFI then do {
          (r, s) \<leftarrow> network_change_to_wifi E s;
          Some (if r = 0 then s\<lparr>sched_state := st\<rparr> else s)
        }
        else if has_flag (g_capacity s) NET_CAPACITY_MODEM then do {
          (r, s) \<leftarrow> network_change_to_modem E s;
          Some (if r = 0 then s\<lparr>sched_state := st\<rparr> else s)
        }
        else Some s
      else Some s)"

definition sched_etherent_start :: "'w net_env \<Rightarrow> 'w net_state \<Rightarrow> 'w net_state option" where
  "sched_etherent_start E s =
     (if \<not> etherent_get_start_flag s then do {
        (r, s) \<leftarrow> etherent_hal_start_eth E s;
        let (r, s) = (if r = 0 then etherent_start_monitor s else (r, s));
        Some (if r = 0 then network_set_mode ETHERENT START s else s)
      }
      else Some s)"

definition sched_etherent :: "'w net_env \<Rightarrow> 'w net_state \<Rightarrow> (bool \<times> 'w net_state) option" where
  "sched_etherent E s =
     (if has_flag (g_capacity s) NET_CAPACITY_ETHERENT then do {
        s \<leftarrow> sched_etherent_start E s;
        if etherent_get_start_flag s then do {
          (eth, s) \<leftarrow> etherent_get_rt_status E s;
          (_, s) \<leftarrow> report_etherent_status eth s;
          if network_sched_enable s = 1 \<and> est_state eth \<noteq> sched_state s
          then do { s \<leftarrow> sched_etherent_switch E (est_state eth) s; Some (True, s) }
          else Some (False, s)
        }
        else Some (False, s)
      }
      else Some (False, s))"

definition sched_from_modem :: "'w net_env \<Rightarrow> 32 word \<Rightarrow> 'w net_state \<Rightarrow> 'w net_state option" where
  "sched_from_modem E mode s =
     (if has_flag mode MODEM \<and> \<not> has_flag mode WIFI_AP \<and> \<not> g_wifi_enable_flag s
      then
        if \<not> has_flag mode WIFI \<and> \<not> wifi_init_mode_flag s
        then do { (_, s) \<leftarrow> wifi_init_start E s; Some s }
        else if has_flag mode WIFI then
          let (sig, s) = get_wifi_ssid_signal E (ns_ssid s) s in
          (case sig of
             None \<Rightarrow> Some s
           | Some n \<Rightarrow> if n > WIFI_ROAM_LIMIT_SIGNAL \<and> n < 0
                       then do { (_, s) \<leftarrow> network_change_to_wifi E s; Some s }
                       else Some s)
        else Some s
      else Some s)"

definition sched_wifi_modem :: "'w net_env \<Rightarrow> 32 word \<Rightarrow> 'w net_state \<Rightarrow> 'w net_state option" where
  "sched_wifi_modem E mode s =
     (if network_sched_enable s = 1 \<and> has_flag (g_capacity s) NET_CAPACITY_WIFI
         \<and> has_flag (g_capacity s) NET_CAPACITY_MODEM
      then
        if has_flag mode WIFI \<and> g_wifi_enable_flag s then
          let ((r, signal), s) = ext (wp_get_signal (wpa E)) s in
          if r \<noteq> 0 then Some s
          else if signal < WIFI_SWITCH_LIMIT_SIGNAL \<or> signal = 0
          then do { (_, s) \<leftarrow> network_change_to_modem E s; Some s }
          else sched_from_modem E mode s
        else sched_from_modem E mode s
      else Some s)"

definition network_sched_net :: "'w net_env \<Rightarrow> 'w net_state \<Rightarrow> 'w net_state option" where
  "network_sched_net E s = do {
     let mode = get_network_mode s;
     s \<leftarrow> network_get_sched_parms E s;
     (done, s) \<leftarrow> sched_wait_init E mode (sched_update_flag s);
     if done then Some s
     else do {
       (done, s) \<leftarrow> sched_etherent E s;
       if done then Some s else sched_wifi_modem E mode s
     }
   }"

section \<open>main.c\<close>

definition get_network_capacity :: "'w net_state \<Rightarrow> 32 word" where
  "get_network_capacity s = g_capacity s"

definition network_parm_init :: "'w net_env \<Rightarrow> 'w net_state \<Rightarrow> int \<times> 'w net_state" where
  "network_parm_init E s =
     (let s = s\<lparr>ns_wifi_ap_timeout := 0, ns_ssid := [], ns_wpa_network_id := -1,
                ns_modem_state := MODEM_UNCONNECTED, ns_etherent_state := ETHERENT_UNCONNECTED,
                ns_wifi_state := WIFI_STATION_UNCONNECTED\<rparr>;
          (i, s) = eloop_timer_add CB_wifi_trigger_scan 1000 5000 s;
          s = s\<lparr>ns_wifi_scan := i\<rparr>;
          (i, s) = eloop_timer_add CB_wifi_connecting_network 10 0 s;
          s = s\<lparr>ns_wifi_connect := i\<rparr>;
          (i, s) = eloop_timer_add CB_modem_event_monitor 100 5000 s;
          s = s\<lparr>ns_modem_monitor := i\<rparr>;
          (_, s) = network_start_monitor E s
      in (0, s))"

text \<open>Opening of the devices: ethernet is only tried when there is no modem.\<close>

definition init_capacity :: "'w net_env \<Rightarrow> 'w net_state \<Rightarrow> 'w net_state option" where
  "init_capacity E s = do {
     let (r, s) = wifi_hal_init E s;
     s \<leftarrow> (if r = 0 then do {
             (c, s) \<leftarrow> get_wifi_capacity E s; Some (s\<lparr>g_capacity := set_flag (g_capacity s) c\<rparr>) }
           else Some s);
     let (r, s) = modem_hal_init E s;
     if r = 0 then do {
       (c, s) \<leftarrow> get_modem_capacity E s; Some (s\<lparr>g_capacity := set_flag (g_capacity s) c\<rparr>) }
     else do {
       let (r, s) = etherent_hal_init E s;
       if r = 0 then do {
         (c, s) \<leftarrow> get_etherent_capacity E s; Some (s\<lparr>g_capacity := set_flag (g_capacity s) c\<rparr>) }
       else Some s
     }
   }"

text \<open>The log level itself is not part of the model.\<close>

definition nm_set_bug_level :: "'w net_env \<Rightarrow> 'w net_state \<Rightarrow> 'w net_state option" where
  "nm_set_bug_level E s = map_option snd (property_get E 64 ''persist.rokid.debug.netmanager'' ''0'' s)"

text \<open>\<open>main\<close> up to \<open>eloop_run\<close>.\<close>

definition main_init :: "'w net_env \<Rightarrow> 'w net_state \<Rightarrow> 'w net_state option" where
  "main_init E s = do {
     s \<leftarrow> nm_set_bug_level E s;
     s \<leftarrow> init_capacity E s;
     let s = s\<lparr>eloop_sched := scheduler_new\<rparr>;
     let (_, s) = network_parm_init E s;
     (_, s) \<leftarrow> network_set_initmode E s;
     Some s
   }"

section \<open>The scheduler keeps the invariant\<close>

text \<open>What the configuration of the device must provide: property values fit the 64-byte
  buffers, and the carrier file of \<open>eth0\<close> exists and is not empty.\<close>

definition properties_fit :: "'w net_env \<Rightarrow> bool" where
  "properties_fit E \<longleftrightarrow> (\<forall>k w v w'. sy_property (sys E) k w = (Some v, w') \<longrightarrow> length v < 64)"

definition carrier_readable :: "'w net_env \<Rightarrow> bool" where
  "carrier_readable E \<longleftrightarrow>
     (\<forall>w. case fst (sy_read_lines (sys E) ''/sys/class/net/eth0/carrier'' w) of
        None \<Rightarrow> False | Some ls \<Rightarrow> ls \<noteq> [])"

text \<open>\<open>sched_ok s t\<close>: a run of the scheduler that started in \<open>s\<close> has reached \<open>t\<close> with the
  invariant intact; the scheduler waits for Wi-Fi only on a device that has it.\<close>

definition sched_ok :: "'w net_state \<Rightarrow> 'w net_state \<Rightarrow> bool" where
  "sched_ok s t \<longleftrightarrow> net_ok t \<and> replies t = replies s \<and> g_capacity t = g_capacity s
     \<and> (wifi_init_mode_flag t \<longrightarrow> is_mode_in_capacity WIFI s = 0)"

lemma sched_ok_from: "sched_ok s t \<Longrightarrow> ok_from t u \<Longrightarrow> sched_ok s u"
  by (auto simp: sched_ok_def ok_from_def)

lemma sched_ok_ctl: "sched_ok s t \<Longrightarrow> ctl_eq t u \<Longrightarrow> sched_ok s u"
  using net_ok_ctl[of t u] by (auto simp: sched_ok_def ctl_eq_def)

lemma sched_ok_updates [simp]:
  "sched_ok s (t\<lparr>world := w\<rparr>) = sched_ok s t"
  "sched_ok s (t\<lparr>network_sched_enable := n\<rparr>) = sched_ok s t"
  "sched_ok s (t\<lparr>network_wifi2modem_threshold := n\<rparr>) = sched_ok s t"
  "sched_ok s (t\<lparr>network_modem2wifi_threshold := n\<rparr>) = sched_ok s t"
  "sched_ok s (t\<lparr>g_wifi_enable_flag := b\<rparr>) = sched_ok s t"
  "sched_ok s (t\<lparr>wait_wifi_init_cnt := n\<rparr>) = sched_ok s t"
  "sched_ok s (t\<lparr>sched_state := n\<rparr>) = sched_ok s t"
  "sched_ok s (t\<lparr>ns_wpa_network_id := n\<rparr>) = sched_ok s t"
  "sched_ok s (t\<lparr>ns_ssid := str\<rparr>) = sched_ok s t"
  "sched_ok s (t\<lparr>ns_wifi_state := st\<rparr>) = sched_ok s t"
  "sched_ok s (t\<lparr>g_etherent_start_monitor := b\<rparr>) = sched_ok s t"
  by (simp_all add: sched_ok_def net_ok_def devices_ok_def timers_ok_def valid_status_def monitor_ok_def)

lemma net_ok_init_flag [simp]: "net_ok (t\<lparr>wifi_init_mode_flag := b\<rparr>) = net_ok t"
  by (simp add: net_ok_def devices_ok_def timers_ok_def valid_status_def monitor_ok_def)

lemma sched_ok_flag_off: "sched_ok s t \<Longrightarrow> sched_ok s (t\<lparr>wifi_init_mode_flag := False\<rparr>)"
  by (simp add: sched_ok_def)

lemma sched_ok_flag_on:
  "sched_ok s t \<Longrightarrow> is_mode_in_capacity WIFI s = 0 \<Longrightarrow> sched_ok s (t\<lparr>wifi_init_mode_flag := True\<rparr>)"
  by (simp add: sched_ok_def)

lemma sched_ok_net: "sched_ok s t \<Longrightarrow> net_ok t" by (simp add: sched_ok_def)

lemma sched_ok_capacity: "sched_ok s t \<Longrightarrow> is_mode_in_capacity m t = is_mode_in_capacity m s"
  by (rule in_capacity_cong) (simp add: sched_ok_def)

lemma capacity_flag:
  "is_mode_in_capacity WIFI s = 0 \<longleftrightarrow> has_flag (g_capacity s) NET_CAPACITY_WIFI"
  "is_mode_in_capacity WIFI_AP s = 0 \<longleftrightarrow> has_flag (g_capacity s) NET_CAPACITY_WIFI"
  "is_mode_in_capacity MODEM s = 0 \<longleftrightarrow> has_flag (g_capacity s) NET_CAPACITY_MODEM"
  "is_mode_in_capacity ETHERENT s = 0 \<longleftrightarrow> has_flag (g_capacity s) NET_CAPACITY_ETHERENT"
  by (simp_all add: is_mode_in_capacity_def)

lemma sched_set_mode:
  assumes "sched_ok s t" and "st = START \<longrightarrow> is_mode_in_capacity m s = 0"
  shows "sched_ok s (network_set_mode m st t)"
  using assms network_set_mode_ok[OF sched_ok_net[OF assms(1)], of st m] sched_ok_capacity[OF assms(1), of m]
  by (simp add: sched_ok_def)

lemma sched_set_state: "sched_ok s t \<Longrightarrow> st \<in> {0, 1} \<Longrightarrow> sched_ok s (wifi_set_state st t)"
  using sched_ok_ctl[OF _ wifi_set_state_ctl] .

lemma sched_set_report [simp]:
  "sched_ok s t \<Longrightarrow> sched_ok s (wifi_set_state REPORT_CONNECT t)"
  "sched_ok s t \<Longrightarrow> sched_ok s (wifi_set_state REPORT_UNCONNECT t)"
  by (simp_all only: sched_set_state report_states)

lemma property_get_ok:
  assumes "properties_fit E" and "sched_ok s t" and "length d < 64" and "64 \<le> n"
  shows "succeeds (property_get E n k d t) (\<lambda>(v, u). sched_ok s u)"
proof -
  obtain v w where v: "sy_property (sys E) k (world t) = (v, w)" by fastforce
  have "length x < 64" if "v = Some x" for x using assms(1) v that by (auto simp: properties_fit_def)
  then show ?thesis using assms v by (auto simp: property_get_def ext_eq Let_def split: option.split)
qed

lemma sched_bind:
  assumes "succeeds m (sched_ok s)" and "\<And>t. sched_ok s t \<Longrightarrow> succeeds (f t) Q"
  shows "succeeds (Option.bind m f) Q"
  using assms by (auto simp: succeeds_iff)

lemma sched_bind2:
  assumes "succeeds m (\<lambda>(r, t). sched_ok s t)" and "\<And>r t. sched_ok s t \<Longrightarrow> succeeds (f r t) Q"
  shows "succeeds (Option.bind m (\<lambda>(r, t). f r t)) Q"
  using assms by (auto simp: succeeds_iff)

lemma sched_stop_mode:
  assumes "recv_wf E" and "sched_ok s t" and "is_mode_in_capacity m s = 0"
  shows "succeeds (stop_mode E m t) (sched_ok s)"
  using stop_mode_ok[OF assms(1) ok_from_refl[OF sched_ok_net[OF assms(2)]], of m] assms(2,3)
  by (auto simp: succeeds_iff sched_ok_capacity intro: sched_ok_from)

lemma sched_stop_active:
  assumes "recv_wf E" and "sched_ok s t" and "sched_ok s u" and "m \<in> {WIFI_AP, MODEM}"
  shows "succeeds (if has_flag (get_network_mode t) m then stop_mode E m u else Some u) (sched_ok s)"
  using assms sched_stop_mode[OF assms(1,3), of m] mode_in_capacity(1,2)[OF sched_ok_net[OF assms(2)]]
    sched_ok_capacity[OF assms(2), of m] by auto

lemma sched_init_start:
  assumes "sched_ok s t" and "is_mode_in_capacity WIFI s = 0"
  shows "succeeds (wifi_init_start E t) (\<lambda>(r, u). sched_ok s u)"
proof -
  have "wifi_device t" using in_capacity_device[OF sched_ok_net[OF assms(1)], of WIFI] assms
    by (simp add: sched_ok_capacity)
  then obtain r u where u: "wifi_hal_start_station E t = Some (r, u)" "ctl_eq t u"
    using wifi_hal_start_station_ctl[of t E] by (auto simp: succeeds_iff)
  have su: "sched_ok s u" using sched_ok_ctl[OF assms(1) u(2)] .
  obtain r2 v where v: "wifi_start_monitor E u = (r2, v)" by fastforce
  have "sched_ok s v" using sched_ok_ctl[OF su] wifi_start_monitor_ctl[of u E] v by simp
  then show ?thesis
    using u(1) v su sched_ok_flag_on assms(2) by (auto simp: wifi_init_start_def Let_def)
qed

lemma sched_configure_start:
  assumes "recv_wf E" and "sched_ok s t" and "m \<noteq> WIFI"
  shows "succeeds (network_configure_net E m START (Some i) t) (\<lambda>(r, i', u). sched_ok s u)"
  using configure_start_ok[OF assms(1) ok_from_refl[OF sched_ok_net[OF assms(2)]], of m i] assms(2,3)
  by (auto simp: succeeds_iff intro: sched_ok_from)

lemma sched_leave_wifi [simp]: "sched_ok s t \<Longrightarrow> sched_ok s (leave_wifi E t)"
  by (simp add: leave_wifi_def Let_def ext_eq)

lemma change_to_etherent_ok:
  assumes "recv_wf E" and "sched_ok s t"
  shows "succeeds (network_change_to_etherent E t) (\<lambda>(r, u). sched_ok s u)"
  unfolding network_change_to_etherent_def Let_def
  using assms by (intro sched_bind[OF sched_stop_active]) simp_all

lemma change_to_modem_ok:
  assumes "recv_wf E" and "sched_ok s t" and "is_mode_in_capacity MODEM s = 0"
  shows "succeeds (network_change_to_modem E t) (\<lambda>(r, u). sched_ok s u)"
proof -
  have step: "succeeds (do { (_, _, u) \<leftarrow> network_configure_net E MODEM START (Some zero_info) u;
      Some (0, network_set_mode MODEM START u) }) (\<lambda>(r, u). sched_ok s u)" if "sched_ok s u" for u
    using sched_configure_start[OF assms(1) that, of MODEM zero_info] assms(3)
    by (auto simp: succeeds_iff intro: sched_set_mode)
  show ?thesis
    unfolding network_change_to_modem_def Let_def
    using assms by (intro sched_bind[OF sched_stop_active, OF _ _ _ _ step]) simp_all
qed

lemma change_to_wifi_ok:
  assumes E: "recv_wf E" and t: "sched_ok s t" and cap: "is_mode_in_capacity WIFI s = 0"
  shows "succeeds (network_change_to_wifi E t) (\<lambda>(r, u). sched_ok s u)"
proof -
  have init: "sched_ok s u \<Longrightarrow> succeeds (do { (_, v) \<leftarrow> wifi_init_start E u; Some (0, v) })
      (\<lambda>(r, u). sched_ok s u)" for u
    by (rule sched_bind2[OF sched_init_start[OF _ cap]]) simp_all
  show ?thesis
    unfolding network_change_to_wifi_def Let_def
    by (rule sched_bind[OF sched_stop_active[OF E t t]], simp, rule if_ok, simp add: ext_eq,
        rule sched_bind[OF sched_stop_active[OF E t]], assumption, simp, erule init)
qed

lemma sched_parms_ok:
  assumes "properties_fit E" and "sched_ok s t"
  shows "succeeds (network_get_sched_parms E t) (sched_ok s)"
  unfolding network_get_sched_parms_def Let_def
  using assms by (intro sched_bind2[OF property_get_ok[OF assms(1), of s]]) simp_all

lemma sched_update_flag_ok: "sched_ok s t \<Longrightarrow> sched_ok s (sched_update_flag t)"
  by (simp add: sched_update_flag_def)

lemma sched_wait_init_ok:
  assumes E: "recv_wf E" and t: "sched_ok s t" and m: "mode = get_network_mode s" and s: "sched_ok s s"
  shows "succeeds (sched_wait_init E mode t) (\<lambda>(r, u). sched_ok s u)"
proof (cases "wifi_init_mode_flag t")
  case True
  then have cap: "is_mode_in_capacity WIFI s = 0" using t by (simp add: sched_ok_def)
  obtain r u where u: "get_current_wifi_ssid_id E t = (r, u)" by fastforce
  have su: "sched_ok s u" using u t
    by (auto simp: get_current_wifi_ssid_id_def ext_eq split_def Let_def split: if_splits)
  have cont: "sched_ok s v \<Longrightarrow> succeeds (if has_flag mode MODEM then stop_mode E MODEM v else Some v) (sched_ok s)" for v
    unfolding m using E s by (intro sched_stop_active) simp_all
  have wifi: "sched_ok s (network_set_mode WIFI START v)" if "sched_ok s v" for v
    using sched_set_mode[OF that] cap by simp
  let ?w = "network_set_mode WIFI START
    ((wifi_set_state REPORT_CONNECT (u\<lparr>world := snd (wp_get_status (wpa E) (world u)), wifi_init_mode_flag := False\<rparr>))
       \<lparr>ns_wifi_state := WIFI_STATION_CONNECTED, g_wifi_enable_flag := True\<rparr>)\<lparr>wait_wifi_init_cnt := 0\<rparr>"
  have "sched_ok s ?w" using su by (simp add: wifi sched_ok_flag_off)
  then have "succeeds (do { v \<leftarrow> if has_flag mode MODEM then stop_mode E MODEM ?w else Some ?w; Some (False, v) })
      (\<lambda>(r, u). sched_ok s u)"
    by (intro sched_bind[OF cont]) simp_all
  then show ?thesis
    using True u su by (simp add: sched_wait_init_def ext_eq split_def Let_def sched_ok_flag_off)
qed (simp add: sched_wait_init_def t)

lemma etherent_switch_ok:
  assumes E: "recv_wf E" and t: "sched_ok s t"
  shows "succeeds (sched_etherent_switch E st t) (sched_ok s)"
proof -
  have cap: "g_capacity t = g_capacity s" using t by (simp add: sched_ok_def)
  have fin: "succeeds m (\<lambda>(r, u). sched_ok s u) \<Longrightarrow>
      succeeds (do { (r, u) \<leftarrow> m; Some (if r = 0 then u\<lparr>sched_state := st\<rparr> else u) }) (sched_ok s)" for m :: "(int \<times> 'a net_state) option"
    by (erule sched_bind2) simp
  show ?thesis
    unfolding sched_etherent_switch_def cap
    by (intro if_ok fin change_to_etherent_ok change_to_wifi_ok change_to_modem_ok E t)
      (simp_all add: capacity_flag t)
qed

lemma etherent_start_ok:
  assumes t: "sched_ok s t" and cap: "is_mode_in_capacity ETHERENT s = 0"
  shows "succeeds (sched_etherent_start E t) (sched_ok s)"
proof -
  have "etherent_device t"
    using in_capacity_device[OF sched_ok_net[OF t], of ETHERENT] cap by (simp add: sched_ok_capacity[OF t])
  then obtain r u where u: "etherent_hal_start_eth E t = Some (r, u)" "ctl_eq t u"
    using etherent_hal_start_eth_ctl[of t E] by (auto simp: succeeds_iff)
  have su: "sched_ok s u" using sched_ok_ctl[OF t u(2)] .
  then have "sched_ok s (network_set_mode ETHERENT START (u\<lparr>g_etherent_start_monitor := True\<rparr>))"
    using cap by (intro sched_set_mode) simp_all
  then show ?thesis using u(1) su t by (simp add: sched_etherent_start_def etherent_start_monitor_def)
qed

lemma rt_status_ok:
  assumes "carrier_readable E" and "sched_ok s t"
  shows "succeeds (etherent_get_rt_status E t) (\<lambda>(st, u). est_state st \<in> {0, 1} \<and> sched_ok s u)"
proof -
  let ?r = "sy_read_lines (sys E) ''/sys/class/net/eth0/carrier'' (world t)"
  obtain ls where ls: "fst ?r = Some ls" "ls \<noteq> []"
    using assms(1) by (auto simp: carrier_readable_def split: option.splits dest: spec[of _ "world t"])
  let ?u = "\<lambda>st. etherent_set_status \<lparr>est_state = st\<rparr> (t\<lparr>world := snd ?r\<rparr>)"
  have "ctl_eq (t\<lparr>world := snd ?r\<rparr>) (?u st)" if "st \<in> {0, 1}" for st
    using that by (auto simp: etherent_set_status_def ctl_defs)
  then have "sched_ok s (?u REPORT_CONNECT)" "sched_ok s (?u REPORT_UNCONNECT)"
    using sched_ok_ctl[of s "t\<lparr>world := snd ?r\<rparr>"] assms(2) report_states by simp_all
  then show ?thesis
    using ls by (simp add: etherent_get_rt_status_def etherent_is_link_def ext_eq Let_def
        REPORT_CONNECT_def REPORT_UNCONNECT_def)
qed

lemma sched_etherent_ok:
  assumes E: "recv_wf E" "carrier_readable E" and t: "sched_ok s t"
  shows "succeeds (sched_etherent E t) (\<lambda>(r, u). sched_ok s u)"
proof (cases "has_flag (g_capacity t) NET_CAPACITY_ETHERENT")
  case True
  then have cap: "is_mode_in_capacity ETHERENT s = 0"
    using sched_ok_capacity[OF t, of ETHERENT] by (metis capacity_flag(4))
  obtain u where u: "sched_etherent_start E t = Some u" "sched_ok s u"
    using etherent_start_ok[OF t cap, of E] by (auto simp: succeeds_iff)
  obtain st v where v: "etherent_get_rt_status E u = Some (st, v)" "est_state st \<in> {0, 1}" "sched_ok s v"
    using rt_status_ok[OF E(2) u(2)] by (auto simp: succeeds_iff)
  obtain r w where w: "report_etherent_status st v = Some (r, w)" "sched_ok s w"
    using report_etherent_ctl[OF v(2), of v] sched_ok_ctl[OF v(3)] by (auto simp: succeeds_iff)
  obtain x where x: "sched_etherent_switch E (est_state st) w = Some x" "sched_ok s x"
    using etherent_switch_ok[OF E(1) w(2), of "est_state st"] by (auto simp: succeeds_iff)
  show ?thesis using True u v w x by (simp add: sched_etherent_def)
qed (simp add: sched_etherent_def t)

lemma sched_from_modem_ok:
  assumes E: "recv_wf E" and t: "sched_ok s t" and cap: "is_mode_in_capacity WIFI s = 0"
  shows "succeeds (sched_from_modem E mode t) (sched_ok s)"
proof -
  have d: "succeeds m (\<lambda>(r, u). sched_ok s u) \<Longrightarrow> succeeds (do { (_, u) \<leftarrow> m; Some u }) (sched_ok s)"
    for m :: "(int \<times> 'a net_state) option"
    by (erule sched_bind2) simp
  note init = d[OF sched_init_start[OF t cap, of E]]
  have wifi: "succeeds (do { (_, v) \<leftarrow> network_change_to_wifi E (t\<lparr>world := w\<rparr>); Some v }) (sched_ok s)" for w
    by (rule d, rule change_to_wifi_ok[OF E _ cap]) (simp add: t)
  show ?thesis
    using init wifi t by (simp add: sched_from_modem_def get_wifi_ssid_signal_def ext_eq split: option.split)
qed

lemma sched_wifi_modem_ok:
  assumes E: "recv_wf E" and t: "sched_ok s t"
  shows "succeeds (sched_wifi_modem E mode t) (sched_ok s)"
proof (cases "has_flag (g_capacity t) NET_CAPACITY_WIFI \<and> has_flag (g_capacity t) NET_CAPACITY_MODEM")
  case True
  then have cap: "is_mode_in_capacity WIFI s = 0" "is_mode_in_capacity MODEM s = 0"
    using sched_ok_capacity[OF t] by (metis capacity_flag(1), metis capacity_flag(3))
  let ?u = "t\<lparr>world := snd (wp_get_signal (wpa E) (world t))\<rparr>"
  have u: "sched_ok s ?u" using t by simp
  have "succeeds (do { (_, v) \<leftarrow> network_change_to_modem E ?u; Some v }) (sched_ok s)"
    by (rule sched_bind2[OF change_to_modem_ok[OF E u cap(2)]]) simp
  then show ?thesis
    using sched_from_modem_ok[OF E t cap(1)] sched_from_modem_ok[OF E u cap(1)] t u
    by (simp add: sched_wifi_modem_def ext_eq split_def Let_def)
qed (auto simp: sched_wifi_modem_def t)

lemma network_sched_net_ok:
  assumes E: "recv_wf E" "properties_fit E" "carrier_readable E" and s: "sched_ok s s"
  shows "succeeds (network_sched_net E s) (sched_ok s)"
proof -
  obtain t where t: "network_get_sched_parms E s = Some t" "sched_ok s t"
    using sched_parms_ok[OF E(2) s] by (auto simp: succeeds_iff)
  obtain r u where u: "sched_wait_init E (get_network_mode s) (sched_update_flag t) = Some (r, u)" "sched_ok s u"
    using sched_wait_init_ok[OF E(1) sched_update_flag_ok[OF t(2)] refl s] by (auto simp: succeeds_iff)
  obtain r2 v where v: "sched_etherent E u = Some (r2, v)" "sched_ok s v"
    using sched_etherent_ok[OF E(1,3) u(2)] by (auto simp: succeeds_iff)
  show ?thesis
    using t(1) u v sched_wifi_modem_ok[OF E(1) v(2)] by (simp add: network_sched_net_def)
qed

section \<open>Waiting for Wi-Fi ends\<close>

fun sched_runs :: "'w net_env \<Rightarrow> nat \<Rightarrow> 'w net_state \<Rightarrow> 'w net_state option" where
  "sched_runs E 0 s = Some s"
| "sched_runs E (Suc n) s = do { s \<leftarrow> network_sched_net E s; sched_runs E n s }"

lemma property_get_frame:
  assumes "properties_fit E" and "length d < 64"
  shows "\<exists>v w. property_get E 64 k d t = Some (v, t\<lparr>world := w\<rparr>)"
proof -
  obtain x w where x: "sy_property (sys E) k (world t) = (x, w)" by fastforce
  have "length y < 64" if "x = Some y" for y using assms(1) x that by (auto simp: properties_fit_def)
  then show ?thesis using assms(2) x by (auto simp: property_get_def ext_eq Let_def split: option.split)
qed

text \<open>Reading the parameters changes nothing the waiting depends on.\<close>

lemma sched_parms_frame:
  assumes "properties_fit E"
  shows "\<exists>t. network_get_sched_parms E s = Some t \<and> wifi_init_mode_flag t = wifi_init_mode_flag s
    \<and> wait_wifi_init_cnt t = wait_wifi_init_cnt s"
proof -
  note p = property_get_frame[OF assms]
  obtain v1 w1 where 1: "property_get E 64 ''persist.netmanager.sched.enable'' ''0'' s = Some (v1, s\<lparr>world := w1\<rparr>)"
    using p[of "''0''"] by fastforce
  let ?s1 = "if atoi v1 > 0 then s\<lparr>world := w1, network_sched_enable := atoi v1\<rparr> else s\<lparr>world := w1\<rparr>"
  obtain v2 w2 where 2: "property_get E 64 ''persist.netmanager.w2m.threshld'' [] ?s1 = Some (v2, ?s1\<lparr>world := w2\<rparr>)"
    using p[of "[]" _ ?s1] by fastforce
  let ?s2 = "if v2 \<noteq> [] \<and> atoi v2 < WIFI_SWITCH_LIMIT_SIGNAL
    then ?s1\<lparr>world := w2, network_wifi2modem_threshold := atoi v2\<rparr> else ?s1\<lparr>world := w2\<rparr>"
  obtain v3 w3 where 3: "property_get E 64 ''persist.netmanager.m2w.threshld'' [] ?s2 = Some (v3, ?s2\<lparr>world := w3\<rparr>)"
    using p[of "[]" _ ?s2] by fastforce
  show ?thesis using 1 2 3 by (simp add: network_get_sched_parms_def Let_def)
qed

lemma waiting_run:
  assumes "properties_fit E" and "\<forall>w. snd (fst (wp_get_status (wpa E) w)) \<noteq> 2" and "wifi_init_mode_flag s"
  shows "\<exists>t. network_sched_net E s = Some t
    \<and> (if wait_wifi_init_cnt s \<ge> 29 then \<not> wifi_init_mode_flag t
       else wifi_init_mode_flag t \<and> wait_wifi_init_cnt t = wait_wifi_init_cnt s + 1)"
proof -
  obtain t where t: "network_get_sched_parms E s = Some t" "wifi_init_mode_flag t"
    "wait_wifi_init_cnt t = wait_wifi_init_cnt s"
    using sched_parms_frame[OF assms(1), of s] assms(3) by auto
  let ?t = "sched_update_flag t"
  have f: "wifi_init_mode_flag ?t" "wait_wifi_init_cnt ?t = wait_wifi_init_cnt s"
    using t by (simp_all add: sched_update_flag_def)
  obtain r u where u: "get_current_wifi_ssid_id E ?t = (r, u)" by fastforce
  have "wifi_init_mode_flag u = wifi_init_mode_flag ?t \<and> wait_wifi_init_cnt u = wait_wifi_init_cnt ?t"
    using u by (auto simp: get_current_wifi_ssid_id_def ext_eq split_def Let_def split: if_splits)
  then show ?thesis
    using t(1) f u assms(2) by (simp add: network_sched_net_def sched_wait_init_def ext_eq split_def Let_def)
qed

lemma waiting_runs:
  assumes "properties_fit E" and "\<forall>w. snd (fst (wp_get_status (wpa E) w)) \<noteq> 2"
    and "wifi_init_mode_flag s" and "wait_wifi_init_cnt s = 30 - int n" and "0 < n"
  shows "\<exists>t. sched_runs E n s = Some t \<and> \<not> wifi_init_mode_flag t"
  using assms(3-5)
proof (induction n arbitrary: s)
  case (Suc n)
  obtain t where t: "network_sched_net E s = Some t" and
    c: "if wait_wifi_init_cnt s \<ge> 29 then \<not> wifi_init_mode_flag t
       else wifi_init_mode_flag t \<and> wait_wifi_init_cnt t = wait_wifi_init_cnt s + 1"
    using waiting_run[OF assms(1,2) Suc.prems(1)] by blast
  show ?case
  proof (cases "n = 0")
    case True
    then show ?thesis using t c Suc.prems(2) by simp
  next
    case False
    then have "wifi_init_mode_flag t" "wait_wifi_init_cnt t = 30 - int n"
      using c Suc.prems(2) by auto
    then show ?thesis using Suc.IH[of t] t False by simp
  qed
qed simp

end
