(* ===== verification/NetSystem.thy ===== *)
theory NetSystem
  imports NetSched
begin

text \<open>
  The network manager as a whole: the state a started manager reaches and the
  events that drive it from there (commands, slices of its threads, rounds of the
  reachability monitor, expired timers).
\<close>

section \<open>Start-up\<close>

text \<open>The static variables before \<open>main\<close>.\<close>

definition net_boot :: "'w \<Rightarrow> 'w net_state" where
  "net_boot w = \<lparr>world = w, eloop_sched = scheduler_new, uploads = [], replies = [], g_capacity = 0,
     g_wifi_network = \<lparr>wn_id = 0, wn_ssid = [], wn_psk = [], wn_key_mgmt = WIFI_KEY_WPA2PSK\<rparr>,
     ns_wifi_scan = 0, ns_wifi_connect = 0, ns_modem_monitor = 0, ns_wifi_ap_timeout = 0,
     ns_wpa_network_id = 0, ns_ssid = [], ns_wifi_state = WIFI_STATE_CLOSE,
     ns_modem_state = WIFI_STATE_CLOSE, ns_etherent_state = WIFI_STATE_CLOSE,
     wifi_device = False, g_start_ap_flag = False, g_start_station_flag = False,
     modem_device = False, g_start_modem_flag = False, etherent_device = False,
     g_start_etherent_flag = False, g_network_mode = 0, wifi_init_mode_flag = False,
     g_wifi_monitor_open = False, g_wifi_status = \<lparr>wst_state = 0, wst_signal = 0\<rparr>,
     g_result = no_result, g_wifi_thread_start = True, g_wifi_monitor_flag = False,
     wifi_faild_time = 0, event_thread = EV_NONE, roam_thread = False,
     g_modem_start_monitor = False, g_modem_status = \<lparr>mst_state = 0, mst_type = 0, mst_signal = 0\<rparr>,
     unconnect_cnts = 0, g_etherent_status = \<lparr>est_state = 0\<rparr>, g_etherent_start_monitor = False,
     g_network_status = \<lparr>nst_state = 0\<rparr>, unconnect_times = 0, g_ap_info = zero_info,
     g_ap_timeout_flag = False, network_sched_enable = 0,
     network_wifi2modem_threshold = WIFI_SWITCH_LIMIT_SIGNAL,
     network_modem2wifi_threshold = WIFI_ROAM_LIMIT_SIGNAL, g_wifi_enable_flag = False,
     wait_wifi_init_cnt = 0, sched_state = REPORT_UNCONNECT\<rparr>"

text \<open>The device has a working Wi-Fi chip.\<close>

definition wifi_present :: "'w net_env \<Rightarrow> bool" where
  "wifi_present E \<longleftrightarrow> (\<forall>w. fst (sy_hw_get_module (sys E) ''wifi'' w) = 0
     \<and> fst (sy_hw_open (sys E) ''wifi'' w) = 0 \<and> fst (wd_get_status (wifi_dev E) w) = 0)"

definition opened_only :: "'w net_state \<Rightarrow> bool" where
  "opened_only s \<longleftrightarrow> devices_ok s \<and> valid_status s \<and> g_network_mode s = 0 \<and> \<not> g_ap_timeout_flag s
     \<and> \<not> g_modem_start_monitor s \<and> \<not> wifi_init_mode_flag s \<and> replies s = []"

lemma capacity_disjoint [simp]:
  "NET_CAPACITY_WIFI AND NET_CAPACITY_MODEM = 0" "NET_CAPACITY_WIFI AND NET_CAPACITY_ETHERENT = 0"
  "NET_CAPACITY_MODEM AND NET_CAPACITY_WIFI = 0" "NET_CAPACITY_MODEM AND NET_CAPACITY_ETHERENT = 0"
  "NET_CAPACITY_ETHERENT AND NET_CAPACITY_WIFI = 0" "NET_CAPACITY_ETHERENT AND NET_CAPACITY_MODEM = 0"
  "NET_CAPACITY_WIFI \<noteq> 0" "NET_CAPACITY_MODEM \<noteq> 0" "NET_CAPACITY_ETHERENT \<noteq> 0"
  by (simp_all add: capacity_defs)

lemma set_flag_0 [simp]: "set_flag m 0 = m"
  by (simp add: set_flag_def)

lemma opened_world [simp]: "opened_only (s\<lparr>world := w\<rparr>) = opened_only s"
  by (simp add: opened_only_def devices_ok_def valid_status_def)

text \<open>Opening one device, whatever its driver answers, adds at most its own capacity.\<close>

lemma opened_device [simp]:
  "opened_only s \<Longrightarrow> opened_only (s\<lparr>wifi_device := True\<rparr>)"
  "opened_only s \<Longrightarrow> opened_only (s\<lparr>modem_device := True\<rparr>)"
  "opened_only s \<Longrightarrow> opened_only (s\<lparr>etherent_device := True\<rparr>)"
  by (simp_all add: opened_only_def devices_ok_def valid_status_def)

lemma opened_capacity:
  "opened_only s \<Longrightarrow> wifi_device s \<Longrightarrow> c = set_flag (g_capacity s) NET_CAPACITY_WIFI \<Longrightarrow>
     opened_only (s\<lparr>g_capacity := c\<rparr>)"
  "opened_only s \<Longrightarrow> modem_device s \<Longrightarrow> c = set_flag (g_capacity s) NET_CAPACITY_MODEM \<Longrightarrow>
     opened_only (s\<lparr>g_capacity := c\<rparr>)"
  "opened_only s \<Longrightarrow> etherent_device s \<Longrightarrow> c = set_flag (g_capacity s) NET_CAPACITY_ETHERENT \<Longrightarrow>
     opened_only (s\<lparr>g_capacity := c\<rparr>)"
  by (simp_all add: opened_only_def devices_ok_def valid_status_def flag_simps)

lemma wifi_hal_init_cases:
  "\<exists>w. wifi_hal_init E s = (0, s\<lparr>world := w, wifi_device := True\<rparr>)
    \<or> (wifi_hal_init E s = (-1, s\<lparr>world := w\<rparr>) \<and> \<not> wifi_present E)"
proof -
  let ?a = "sy_hw_get_module (sys E) ''wifi'' (world s)"
  let ?b = "sy_hw_open (sys E) ''wifi'' (snd ?a)"
  show ?thesis
    by (rule exI[of _ "if fst ?a = 0 then snd ?b else snd ?a"])
      (auto simp: wifi_hal_init_def ext_eq wifi_present_def)
qed

lemma modem_hal_init_cases:
  "\<exists>w. modem_hal_init E s = (0, s\<lparr>world := w, modem_device := True\<rparr>)
    \<or> modem_hal_init E s = (-1, s\<lparr>world := w\<rparr>)"
proof -
  let ?a = "sy_hw_get_module (sys E) ''modem'' (world s)"
  let ?b = "sy_hw_open (sys E) ''modem'' (snd ?a)"
  show ?thesis
    by (rule exI[of _ "if fst ?a = 0 then snd ?b else snd ?a"]) (simp add: modem_hal_init_def ext_eq)
qed

lemma etherent_hal_init_cases:
  "\<exists>w. etherent_hal_init E s = (0, s\<lparr>world := w, etherent_device := True\<rparr>)
    \<or> etherent_hal_init E s = (-1, s\<lparr>world := w\<rparr>)"
proof -
  let ?a = "sy_hw_get_module (sys E) ''ethnet'' (world s)"
  let ?b = "sy_hw_open (sys E) ''ethnet'' (snd ?a)"
  show ?thesis
    by (rule exI[of _ "if fst ?a = 0 then snd ?b else snd ?a"]) (simp add: etherent_hal_init_def ext_eq)
qed

lemma open_wifi:
  assumes "opened_only s"
  shows "\<exists>t. (case wifi_hal_init E s of (r, s) \<Rightarrow> if r = 0 then do {
           (c, s) \<leftarrow> get_wifi_capacity E s; Some (s\<lparr>g_capacity := set_flag (g_capacity s) c\<rparr>) } else Some s) = Some t
         \<and> opened_only t \<and> (wifi_present E \<longrightarrow> has_flag (g_capacity t) NET_CAPACITY_WIFI)"
proof -
  obtain w where "wifi_hal_init E s = (0, s\<lparr>world := w, wifi_device := True\<rparr>)
    \<or> (wifi_hal_init E s = (-1, s\<lparr>world := w\<rparr>) \<and> \<not> wifi_present E)"
    using wifi_hal_init_cases[of E s] by (elim exE)
  then show ?thesis
  proof
    assume h: "wifi_hal_init E s = (0, s\<lparr>world := w, wifi_device := True\<rparr>)"
    have "wifi_present E \<longrightarrow> fst (wd_get_status (wifi_dev E) w) = 0" by (simp add: wifi_present_def)
    with assms h show ?thesis
      by (simp add: get_wifi_capacity_def wifi_hal_get_capacity_def wifi_call_def ext_eq
          flag_simps opened_capacity)
  qed (use assms in simp)
qed

lemma open_modem:
  assumes "opened_only s"
  shows "\<exists>t. (do { (c, u) \<leftarrow> get_modem_capacity E (s\<lparr>world := w, modem_device := True\<rparr>);
           Some (u\<lparr>g_capacity := set_flag (g_capacity u) c\<rparr>) }) = Some t
         \<and> opened_only t \<and> has_flag (g_capacity t) NET_CAPACITY_WIFI = has_flag (g_capacity s) NET_CAPACITY_WIFI"
  using assms by (simp add: get_modem_capacity_def modem_hal_get_capacity_def modem_call_def ext_eq
      flag_simps opened_capacity)

lemma open_etherent:
  assumes "opened_only s"
  shows "\<exists>t. (do { (c, u) \<leftarrow> get_etherent_capacity E (s\<lparr>world := w, etherent_device := True\<rparr>);
           Some (u\<lparr>g_capacity := set_flag (g_capacity u) c\<rparr>) }) = Some t
         \<and> opened_only t \<and> has_flag (g_capacity t) NET_CAPACITY_WIFI = has_flag (g_capacity s) NET_CAPACITY_WIFI"
  using assms by (simp add: get_etherent_capacity_def etherent_hal_get_capacity_def eth_call_def ext_eq
      flag_simps opened_capacity)

lemma init_capacity_ok:
  assumes "opened_only s"
  shows "succeeds (init_capacity E s)
    (\<lambda>t. opened_only t \<and> (wifi_present E \<longrightarrow> has_flag (g_capacity t) NET_CAPACITY_WIFI))"
proof -
  obtain r1 s1 where h: "wifi_hal_init E s = (r1, s1)" by fastforce
  obtain t where t: "(if r1 = 0 then do { (c, s) \<leftarrow> get_wifi_capacity E s1;
      Some (s\<lparr>g_capacity := set_flag (g_capacity s) c\<rparr>) } else Some s1) = Some t" "opened_only t"
    "wifi_present E \<longrightarrow> has_flag (g_capacity t) NET_CAPACITY_WIFI"
    using open_wifi[OF assms, of E, unfolded h prod.case] by blast
  obtain w where "modem_hal_init E t = (0, t\<lparr>world := w, modem_device := True\<rparr>)
    \<or> modem_hal_init E t = (-1, t\<lparr>world := w\<rparr>)" using modem_hal_init_cases[of E t] by (elim exE)
  then show ?thesis
  proof
    assume "modem_hal_init E t = (0, t\<lparr>world := w, modem_device := True\<rparr>)"
    then show ?thesis using open_modem[OF t(2), of E w] t(1,3) h by (auto simp: init_capacity_def succeeds_iff)
  next
    assume m: "modem_hal_init E t = (-1, t\<lparr>world := w\<rparr>)"
    let ?t = "t\<lparr>world := w\<rparr>"
    have o: "opened_only ?t" using t(2) by simp
    obtain w' where "etherent_hal_init E ?t = (0, ?t\<lparr>world := w', etherent_device := True\<rparr>)
      \<or> etherent_hal_init E ?t = (-1, ?t\<lparr>world := w'\<rparr>)" using etherent_hal_init_cases[of E ?t] by (elim exE)
    then show ?thesis
      using open_etherent[OF o, of E w'] t h m by (auto simp: init_capacity_def succeeds_iff)
  qed
qed

lemma network_start_monitor_frame: "\<exists>w. snd (network_start_monitor E s) = s\<lparr>world := w\<rparr>"
proof -
  let ?a = "sy_pthread_attr_init (sys E) (world s)"
  let ?b = "sy_pthread_attr_setdetachstate (sys E) (snd ?a)"
  let ?c = "sy_pthread_create (sys E) ''judge_network_link'' (snd ?b)"
  show ?thesis
    by (rule exI[of _ "if fst ?a \<noteq> 0 then snd ?a else if fst ?b \<noteq> 0 then snd ?b else snd ?c"])
      (simp add: network_start_monitor_def ext_eq)
qed

lemma parm_init_ok:
  assumes "opened_only s" and "eloop_sched s = scheduler_new"
  shows "\<exists>t. network_parm_init E s = (0, t) \<and> sched_ok t t \<and> replies t = [] \<and> g_capacity t = g_capacity s"
proof -
  obtain i1 c1 where 1: "timer_add_ok CB_wifi_trigger_scan 1000 5000 scheduler_new = (i1, c1)" by fastforce
  obtain i2 c2 where 2: "timer_add_ok CB_wifi_connecting_network 10 0 c1 = (i2, c2)" by fastforce
  obtain i3 c3 where 3: "timer_add_ok CB_modem_event_monitor 100 5000 c2 = (i3, c3)" by fastforce
  note a1 = tm.add_spec[OF sched_inv_new 1]
  note a2 = tm.add_spec[OF conjunct1[OF a1] 2]
  note a3 = tm.add_spec[OF conjunct1[OF a2] 3]
  have al: "sched_inv c3" "timer_alive c3 i1" "timer_alive c3 i2" "timer_alive c3 i3" using a1 a2 a3 by blast+
  let ?s = "s\<lparr>ns_wifi_ap_timeout := 0, ns_ssid := [], ns_wpa_network_id := -1,
    ns_modem_state := MODEM_UNCONNECTED, ns_etherent_state := ETHERENT_UNCONNECTED,
    ns_wifi_state := WIFI_STATION_UNCONNECTED, ns_wifi_scan := i1, ns_wifi_connect := i2,
    eloop_sched := c3, ns_modem_monitor := i3\<rparr>"
  obtain r w where w: "network_start_monitor E ?s = (r, ?s\<lparr>world := w\<rparr>)"
    using network_start_monitor_frame[of E ?s] by (metis prod.collapse)
  have "net_ok (?s\<lparr>world := w\<rparr>)"
    using assms(1) al by (simp add: net_ok_def opened_only_def devices_ok_def timers_ok_def valid_status_def
        monitor_ok_def mode_ok_def)
  moreover have "network_parm_init E s = (0, ?s\<lparr>world := w\<rparr>)"
    using w by (simp add: network_parm_init_def eloop_timer_add_def 1 2 3 assms(2))
  ultimately show ?thesis using assms(1) by (simp add: sched_ok_def opened_only_def)
qed

lemma get_mode_ok:
  assumes "properties_fit E" and "sched_ok s t"
  shows "succeeds (network_get_mode E t) (\<lambda>(m, u). sched_ok s u)"
  unfolding network_get_mode_def Let_def
  using assms by (intro sched_bind2[OF property_get_ok[OF assms(1), of s]]) simp_all

lemma init_modem_ok:
  assumes "sched_ok s t"
  shows "succeeds (init_modem E mode t) (sched_ok s)"
proof (cases "has_flag mode MODEM \<and> is_mode_in_capacity MODEM t = 0")
  case True
  then have cap: "is_mode_in_capacity MODEM s = 0" using sched_ok_capacity[OF assms] by simp
  have dev: "modem_device t" using in_capacity_device[OF sched_ok_net[OF assms], of MODEM] True by simp
  obtain r u where u: "modem_hal_start_modem E t = Some (r, u)" "ctl_eq t u"
    using modem_hal_start_modem_ctl[OF dev, of E] by (auto simp: succeeds_iff)
  have su: "sched_ok s u" using sched_ok_ctl[OF assms u(2)] .
  have "modem_device u" using u(2) dev by (simp add: ctl_eq_def)
  moreover have "timers_ok u" using sched_ok_net[OF su] by (simp add: net_ok_def)
  ultimately obtain v where v: "modem_start_monitor u = Some (0, v)" "ctl_eq u v"
    using modem_start_monitor_ctl[of u] by (auto simp: timers_ok_def succeeds_iff)
  have "sched_ok s (network_set_mode MODEM START v)"
    using sched_ok_ctl[OF su v(2)] cap by (intro sched_set_mode) simp_all
  then show ?thesis using True u(1) v(1) su by (simp add: init_modem_def)
qed (simp add: init_modem_def assms del: de_Morgan_conj)

lemma init_etherent_ok:
  assumes "sched_ok s t"
  shows "succeeds (init_etherent E mode t) (sched_ok s)"
proof (cases "has_flag mode ETHERENT \<and> is_mode_in_capacity ETHERENT t = 0")
  case True
  then have cap: "is_mode_in_capacity ETHERENT s = 0" using sched_ok_capacity[OF assms] by simp
  have dev: "etherent_device t" using in_capacity_device[OF sched_ok_net[OF assms], of ETHERENT] True by simp
  obtain r u where u: "etherent_hal_start_eth E t = Some (r, u)" "ctl_eq t u"
    using etherent_hal_start_eth_ctl[OF dev, of E] by (auto simp: succeeds_iff)
  have su: "sched_ok s u" using sched_ok_ctl[OF assms u(2)] .
  then have "sched_ok s (network_set_mode ETHERENT START (u\<lparr>g_etherent_start_monitor := True\<rparr>))"
    using cap by (intro sched_set_mode) simp_all
  then show ?thesis using True u(1) su by (simp add: init_etherent_def etherent_start_monitor_def)
qed (simp add: init_etherent_def assms del: de_Morgan_conj)

lemma ap_init_start_ok:
  assumes "properties_fit E" and t: "sched_ok s t" and cap: "is_mode_in_capacity WIFI_AP s = 0"
  shows "succeeds (wifi_ap_init_start E t) (\<lambda>(r, u). sched_ok s u)"
proof -
  have ap: "succeeds (do { (r, s) \<leftarrow> wifi_hal_start_ap E ssid psk ip u;
      if r = 0 then Some (0, network_set_mode WIFI_AP START s) else Some (-1, s) }) (\<lambda>(r, u). sched_ok s u)"
    if u: "sched_ok s u" for ssid psk ip u
  proof -
    have "wifi_device u"
      using in_capacity_device[OF sched_ok_net[OF u], of WIFI_AP] cap sched_ok_capacity[OF u] by simp
    then obtain r v where v: "wifi_hal_start_ap E ssid psk ip u = Some (r, v)" "ctl_eq u v"
      using wifi_hal_start_ap_ctl[of u E ssid psk ip] by (auto simp: succeeds_iff)
    have "sched_ok s v" using sched_ok_ctl[OF u v(2)] .
    then show ?thesis using v(1) sched_set_mode[of s v START WIFI_AP] cap by simp
  qed
  show ?thesis
    unfolding wifi_ap_init_start_def
    using assms by (intro sched_bind2[OF property_get_ok[OF assms(1), of s]] ap) simp_all
qed

text \<open>The last branch of \<open>network_set_initmode\<close> starts Wi-Fi without looking at the
  capacity, so it needs the device.\<close>

definition wifi_unconfigured :: "'w net_env \<Rightarrow> bool" where
  "wifi_unconfigured E \<longleftrightarrow> (\<forall>w. case fst (sy_read_lines (sys E) ''/data/system/wpa_supplicant.conf'' w) of
     None \<Rightarrow> True | Some ls \<Rightarrow> \<not> list_ex (\<lambda>l. contains l ''ssid'') ls)"

lemma unconfigured: "wifi_unconfigured E \<Longrightarrow> \<not> fst (is_wifi_configured E s)"
  by (auto simp: is_wifi_configured_def wifi_unconfigured_def ext_eq split: option.splits dest: spec[of _ "world s"])

lemma is_wifi_configured_frame: "\<exists>b w. is_wifi_configured E s = (b, s\<lparr>world := w\<rparr>)"
  by (auto simp: is_wifi_configured_def ext_eq split: option.split)

lemma init_wifi_ok:
  assumes "properties_fit E" and t: "sched_ok s t" and cap: "is_mode_in_capacity WIFI s = 0 \<or> wifi_unconfigured E"
  shows "succeeds (init_wifi E mode t) (sched_ok s)"
proof -
  have fin: "succeeds m (\<lambda>(r, u). sched_ok s u) \<Longrightarrow> succeeds (do { (_, u) \<leftarrow> m; Some u }) (sched_ok s)"
    for m :: "(int \<times> 'a net_state) option" by (erule sched_bind2) simp
  obtain b w where b: "is_wifi_configured E t = (b, t\<lparr>world := w\<rparr>)" using is_wifi_configured_frame[of E t] by (elim exE)
  have third: "succeeds (do { (_, u) \<leftarrow> wifi_init_start E (t\<lparr>world := w\<rparr>); Some (wifi_set_state 1 u) }) (sched_ok s)"
    if "b"
  proof (rule sched_bind2[OF sched_init_start])
    show "sched_ok s (t\<lparr>world := w\<rparr>)" using t by simp
    show "is_mode_in_capacity WIFI s = 0" using cap unconfigured[of E t] b that by auto
  qed (simp add: sched_set_state)
  have cond: "is_mode_in_capacity WIFI t = is_mode_in_capacity WIFI s"
    "is_mode_in_capacity WIFI_AP t = is_mode_in_capacity WIFI_AP s" using sched_ok_capacity[OF t] by simp_all
  show ?thesis
    unfolding init_wifi_def cond
    using third b t by (intro if_ok fin sched_init_start ap_init_start_ok assms(1)) simp_all
qed

text \<open>Reaching \<open>eloop_run\<close>.\<close>

lemma main_init_ok:
  assumes E: "properties_fit E" "wifi_present E \<or> wifi_unconfigured E"
  shows "succeeds (main_init E (net_boot w)) (\<lambda>t. net_ok t \<and> replies t = [])"
proof -
  obtain v w1 where p: "property_get E 64 ''persist.rokid.debug.netmanager'' ''0'' (net_boot w) = Some (v, (net_boot w)\<lparr>world := w1\<rparr>)"
    using property_get_frame[OF E(1), of "''0''" "''persist.rokid.debug.netmanager''" "net_boot w"] by auto
  have op: "opened_only ((net_boot w)\<lparr>world := w1\<rparr>)"
    by (simp add: net_boot_def opened_only_def devices_ok_def valid_status_def)
  obtain a where a: "init_capacity E ((net_boot w)\<lparr>world := w1\<rparr>) = Some a" "opened_only a"
    "wifi_present E \<longrightarrow> has_flag (g_capacity a) NET_CAPACITY_WIFI"
    using init_capacity_ok[OF op, of E] by (auto simp: succeeds_iff)
  have "opened_only (a\<lparr>eloop_sched := scheduler_new\<rparr>)"
    using a(2) by (simp add: opened_only_def devices_ok_def valid_status_def)
  then obtain b where b: "network_parm_init E (a\<lparr>eloop_sched := scheduler_new\<rparr>) = (0, b)" "sched_ok b b"
    "replies b = []" "g_capacity b = g_capacity a"
    using parm_init_ok[of "a\<lparr>eloop_sched := scheduler_new\<rparr>" E] by auto
  have cap: "is_mode_in_capacity WIFI b = 0 \<or> wifi_unconfigured E"
    using E(2) a(3) b(4) by (auto simp: capacity_flag)
  have "succeeds (network_set_initmode E b) (\<lambda>(r, t). sched_ok b t)"
    unfolding network_set_initmode_def
    by (rule sched_bind2[OF get_mode_ok[OF E(1) b(2)]], rule sched_bind[OF init_modem_ok], assumption,
        rule sched_bind[OF init_etherent_ok], assumption,
        rule sched_bind[OF init_wifi_ok[OF E(1) _ cap]], assumption, simp)
  then show ?thesis
    using p a(1) b(1,3) by (auto simp: main_init_def nm_set_bug_level_def succeeds_iff sched_ok_def)
qed

section \<open>The running manager\<close>

text \<open>What can happen to the manager after start-up.  Scan and connect timers run
  \<open>wifi_trigger_scan\<close> and \<open>wifi_connecting_network\<close>; the modem poll runs while the modem
  monitor is started, the access point timer while its flag is set.\<close>

datatype net_event =
  EvCommand string | EvSlice slice | EvJudge | EvScanTimer | EvModemPoll | EvApTimeout

definition is_command :: "net_event \<Rightarrow> bool" where
  "is_command ev \<longleftrightarrow> (case ev of EvCommand _ \<Rightarrow> True | _ \<Rightarrow> False)"

definition handle_event :: "'w net_env \<Rightarrow> net_event \<Rightarrow> 'w net_state \<Rightarrow> 'w net_state option" where
  "handle_event E ev s =
     (case ev of
        EvCommand buf \<Rightarrow> handle_net_command E buf s
      | EvSlice sl \<Rightarrow> map_option snd (run_slice E sl s)
      | EvJudge \<Rightarrow> judge_network_link E s
      | EvScanTimer \<Rightarrow> Some (wifi_trigger_scan E s)
      | EvModemPoll \<Rightarrow> modem_event_monitor E s
      | EvApTimeout \<Rightarrow> wifi_change_to_station E s)"

definition event_enabled :: "'w net_env \<Rightarrow> 'w net_state \<Rightarrow> net_event \<Rightarrow> bool" where
  "event_enabled E s ev =
     (case ev of
        EvCommand buf \<Rightarrow> command_safe E s buf
      | EvModemPoll \<Rightarrow> g_modem_start_monitor s
      | EvApTimeout \<Rightarrow> g_ap_timeout_flag s
      | _ \<Rightarrow> True)"

inductive net_step :: "'w net_env \<Rightarrow> 'w net_state \<Rightarrow> net_event \<Rightarrow> 'w net_state \<Rightarrow> bool" for E where
  step: "event_enabled E s ev \<Longrightarrow> handle_event E ev s = Some t \<Longrightarrow> net_step E s ev t"

inductive_cases net_stepE: "net_step E s ev t"

inductive net_run :: "'w net_env \<Rightarrow> 'w net_state \<Rightarrow> net_event list \<Rightarrow> 'w net_state \<Rightarrow> bool" for E where
  run_nil: "net_run E s [] s"
| run_snoc: "net_run E s evs t \<Longrightarrow> net_step E t ev u \<Longrightarrow> net_run E s (evs @ [ev]) u"

lemma ctl_eq_replies: "ctl_eq s t \<Longrightarrow> replies t = replies s"
  by (simp add: ctl_eq_def)

text \<open>Every enabled event is handled, keeps the invariant, and answers if and only if it
  is a command.\<close>

lemma handle_event_ok:
  assumes E: "recv_wf E" and ok: "net_ok s" and en: "event_enabled E s ev"
  shows "succeeds (handle_event E ev s)
    (\<lambda>t. net_ok t \<and> length (replies t) = length (replies s) + (if is_command ev then 1 else 0))"
proof -
  have v: "valid_status s" using ok by (simp add: net_ok_def)
  have quiet: "succeeds m (ctl_eq s) \<Longrightarrow> succeeds m (\<lambda>t. net_ok t \<and> length (replies t) = length (replies s))" for m
    by (erule succeeds_mono) (simp add: net_ok_ctl[OF _ ok] ctl_eq_replies)
  show ?thesis
  proof (cases ev)
    case (EvCommand buf)
    then have "succeeds (handle_net_command E buf s) (answered s)"
      using handle_net_command_ok[OF E ok] en by (simp add: event_enabled_def)
    then show ?thesis using EvCommand by (auto simp: handle_event_def is_command_def answered_def succeeds_iff)
  next
    case (EvSlice sl)
    have "succeeds (map_option snd (run_slice E sl s)) (ctl_eq s)"
      using run_slice_ctl[OF E v, of sl] by (auto simp: succeeds_iff)
    then show ?thesis using EvSlice quiet by (simp add: handle_event_def is_command_def)
  next
    case EvJudge
    then show ?thesis using quiet[OF judge_network_link_ctl] by (simp add: handle_event_def is_command_def)
  next
    case EvScanTimer
    then show ?thesis using ok by (simp add: handle_event_def is_command_def wifi_trigger_scan_def ext_eq)
  next
    case EvModemPoll
    then have "modem_device s" using ok en by (simp add: net_ok_def monitor_ok_def event_enabled_def)
    then show ?thesis using EvModemPoll quiet[OF modem_event_monitor_ctl[OF _ v]]
      by (simp add: handle_event_def is_command_def)
  next
    case EvApTimeout
    then have "succeeds (wifi_change_to_station E s) (ok_from s)"
      using wifi_change_to_station_ok[OF E ok] en by (simp add: event_enabled_def)
    then show ?thesis using EvApTimeout by (auto simp: handle_event_def is_command_def ok_from_def succeeds_iff)
  qed
qed

lemma net_step_ok:
  assumes "recv_wf E" and "net_ok s" and "net_step E s ev t"
  shows "net_ok t \<and> length (replies t) = length (replies s) + (if is_command ev then 1 else 0)"
  using assms(3) handle_event_ok[OF assms(1,2), of ev] by (auto elim!: net_stepE)

lemma net_run_ok:
  assumes E: "recv_wf E" and run: "net_run E s evs t" and ok: "net_ok s"
  shows "net_ok t \<and> length (replies t) = length (replies s) + length (filter is_command evs)"
  using run ok
proof (induction rule: net_run.induct)
  case (run_snoc s evs t ev u)
  then show ?case using net_step_ok[OF E, of t ev u] by simp
qed simp

end
