(* ===== verification/NetProps.thy ===== *)
theory NetProps
  imports NetSystem
begin

text \<open>
  The properties of the network manager.  Each has a witness in a small laboratory
  environment: every device works, no property is set, wpa_supplicant answers every
  request with success and the pings fail or succeed as the witness needs.
\<close>

section \<open>A laboratory environment\<close>

definition lab_ok :: "'w \<Rightarrow> int \<times> 'w" where "lab_ok w = (0, w)"

definition lab_wifi :: "'w wifi_device_ops" where
  "lab_wifi = \<lparr>wd_get_status = lab_ok, wd_on = lab_ok, wd_off = lab_ok, wd_start_station = lab_ok,
     wd_stop_station = lab_ok, wd_start_ap = (\<lambda>_ _ _. lab_ok), wd_stop_ap = lab_ok\<rparr>"

definition lab_modem :: "int \<Rightarrow> 32 word \<Rightarrow> int \<Rightarrow> 'w modem_device_ops" where
  "lab_modem on ty strength = \<lparr>md_get_status = lab_ok, md_on = (\<lambda>w. (on, w)), md_off = lab_ok,
     md_start_dhcpcd = lab_ok, md_stop_dhcpcd = lab_ok, md_get_signal_type = (\<lambda>w. ((0, ty), w)),
     md_get_signal_strength = (\<lambda>w. ((0, strength), w))\<rparr>"

definition lab_eth :: "'w eth_device_ops" where
  "lab_eth = \<lparr>ed_get_status = lab_ok, ed_on = lab_ok, ed_off = lab_ok, ed_start_dhcpcd = lab_ok,
     ed_stop_dhcpcd = lab_ok\<rparr>"

definition lab_wpa :: "int \<Rightarrow> string \<Rightarrow> 'w wpa_ops" where
  "lab_wpa ping msg = \<lparr>wp_scan = lab_ok, wp_clear_scan_results = lab_ok,
     wp_get_scan_result = (\<lambda>w. ([], w)), wp_get_block_scan_result = (\<lambda>w. ([], w)),
     wp_join_network = (\<lambda>n w. ((0, n), w)), wp_save_network = lab_ok, wp_enable_network = (\<lambda>_. lab_ok),
     wp_enable_all_network = lab_ok, wp_disable_network = (\<lambda>_. lab_ok), wp_disable_all_network = lab_ok,
     wp_remove_network = (\<lambda>_. lab_ok), wp_remove_all_network = lab_ok,
     wp_get_current_id = (\<lambda>w. ((-1, 0), w)), wp_get_current_ssid = (\<lambda>w. ((-1, []), w)),
     wp_get_status = (\<lambda>w. ((0, 0), w)), wp_get_signal = (\<lambda>w. ((0, -50), w)), wp_ctrl_open = (\<lambda>w. (True, w)),
     wp_ctrl_request = (\<lambda>_ w. ((0, []), w)), wp_ctrl_recv = (\<lambda>w. ((0, msg), w)),
     wp_connect_moni_socket = lab_ok, wp_monitor_release = (\<lambda>w. ((), w)), wp_ping = (\<lambda>_ w. (ping, w))\<rparr>"

definition lab_sys :: "json \<Rightarrow> slice list \<Rightarrow> string list \<Rightarrow> 'w sys_ops" where
  "lab_sys req slices conf = \<lparr>sy_system = (\<lambda>_. lab_ok), sy_property = (\<lambda>_ w. (None, w)),
     sy_hw_get_module = (\<lambda>_. lab_ok), sy_hw_open = (\<lambda>_. lab_ok), sy_hw_close = (\<lambda>_. lab_ok),
     sy_access = (\<lambda>_. lab_ok), sy_read_lines = (\<lambda>_ w. (Some conf, w)), sy_pthread_attr_init = lab_ok,
     sy_pthread_attr_setdetachstate = lab_ok, sy_pthread_create = (\<lambda>_. lab_ok), sy_res_init = lab_ok,
     sy_slices = (\<lambda>w. (slices, w)), sy_json_parse = (\<lambda>_. req), sy_json_text = (\<lambda>_. [])\<rparr>"

definition lab_request :: json where
  "lab_request = JObj [(''device'', JStr ''MODEM''), (''command'', JStr ''CONNECT'')]"

definition lab_msg :: string where
  "lab_msg = ''<3>CTRL-EVENT-CONNECTED - connected''"

definition lab_env :: "unit net_env" where
  "lab_env = \<lparr>wifi_dev = lab_wifi, modem_dev = lab_modem 0 4 20, eth_dev = lab_eth,
     wpa = lab_wpa 0 lab_msg, sys = lab_sys lab_request [SL_LOOP, SL_EVENT, SL_EVENT] [''0'']\<rparr>"

lemmas lab_defs = lab_env_def lab_wifi_def lab_modem_def lab_eth_def lab_wpa_def lab_sys_def lab_ok_def

lemma lab_msg_data: "get_msg_and_data lab_msg = Some (''CTRL-EVENT-CONNECTED'', ''- connected'')"
  by code_simp

lemma lab_recv: "recv_wf lab_env"
  by (simp add: recv_wf_def lab_defs lab_msg_data)

lemma lab_props: "properties_fit lab_env"
  by (simp add: properties_fit_def lab_defs)

lemma lab_carrier: "carrier_readable lab_env"
  by (simp add: carrier_readable_def lab_defs)

lemma lab_wifi_present: "wifi_present lab_env"
  by (simp add: wifi_present_def lab_defs)

text \<open>The state the manager has reached when its event loop starts.\<close>

definition lab_state :: "unit net_state" where
  "lab_state = the (main_init lab_env (net_boot ()))"

lemma lab_start: "main_init lab_env (net_boot ()) = Some lab_state"
  using main_init_ok[OF lab_props, of "()"] lab_wifi_present by (auto simp: lab_state_def succeeds_iff)

lemma lab_state_ok: "net_ok lab_state"
  using main_init_ok[OF lab_props, of "()"] lab_wifi_present by (auto simp: lab_start succeeds_iff)

lemma lab_command_safe: "command_safe lab_env s buf"
  by (simp add: command_safe_def get_cmd_str_def lab_defs lab_request_def json_object_get_string_def
      cstr_def request_safe_def)

section \<open>The manager as a whole\<close>



text \<open>Start-up reaches the event loop with the invariant established, provided property
  values fit their buffers and the device has Wi-Fi or no Wi-Fi configuration.\<close>

theorem startup_reaches_loop:
  assumes "properties_fit E" and "wifi_present E \<or> wifi_unconfigured E"
  shows "\<exists>s. main_init E (net_boot w) = Some s \<and> net_ok s \<and> replies s = []"
  using main_init_ok[OF assms, of w] by (auto simp: succeeds_iff)

theorem startup_reaches_loop_witness: "\<exists>s. main_init lab_env (net_boot ()) = Some s \<and> net_ok s"
  using startup_reaches_loop[OF lab_props, of "()"] lab_wifi_present by auto


lemma lab_one_command: "\<exists>t. net_run lab_env lab_state [EvCommand ''x''] t"
proof -
  have en: "event_enabled lab_env lab_state (EvCommand ''x'')" by (simp add: event_enabled_def lab_command_safe)
  obtain t where "handle_event lab_env (EvCommand ''x'') lab_state = Some t"
    using handle_event_ok[OF lab_recv lab_state_ok en] by (auto simp: succeeds_iff)
  from net_run.run_snoc[OF net_run.run_nil net_step.step[OF en this]] show ?thesis by auto
qed


section \<open>Starting links\<close>

text \<open>The reason a woken waiter gets, and what the woken flag means.\<close>

definition result_fits :: "tresult \<Rightarrow> bool" where
  "result_fits r \<longleftrightarrow> (tr_result r = COMMAND_OK \<longleftrightarrow> tr_reason r = eREASON_NONE)"

lemma recv_switch_fits: "recv_switch i d s = Some (r, t) \<Longrightarrow> result_fits r"
  by (auto simp: recv_switch_def result_fits_def no_result_def Let_def split: Option.bind_splits if_splits)

lemma process_recv_fits: "process_recv_info buf s = Some (True, t) \<Longrightarrow> result_fits (g_result t)"
  by (auto simp: process_recv_info_def wifi_wakeup_wait_def recv_switch_fits
      split: Option.bind_splits if_splits)

lemma event_slice_fits: "event_thread_slice E s = Some (True, t) \<Longrightarrow> result_fits (g_result t)"
  by (auto simp: event_thread_slice_def event_thread_recv_def ext_eq Let_def
      dest: process_recv_fits split: event_pc.splits if_splits Option.bind_splits prod.splits)

lemma run_until_woken_fits: "run_until_woken E sls s = Some (True, t) \<Longrightarrow> result_fits (g_result t)"
proof (induction sls arbitrary: s)
  case (Cons sl sls)
  obtain b u where u: "run_slice E sl s = Some (b, u)"
    using Cons.prems by (auto split: Option.bind_splits)
  show ?case
  proof (cases b)
    case True
    then have "u = t" using Cons.prems u by simp
    moreover have "sl = SL_EVENT" using u True by (auto simp: run_slice_def split: slice.splits)
    ultimately show ?thesis using u True event_slice_fits by (simp add: run_slice_def)
  next
    case False
    then show ?thesis using Cons.IH[of u] Cons.prems u by simp
  qed
qed simp

lemma wait_fits: "wifi_wait_for_result E s = Some (r, res, t) \<Longrightarrow>
    result_fits res \<and> (r \<noteq> 0 \<longrightarrow> tr_result res = COMMAND_NOK \<and> tr_reason res = eREASON_WIFI_TIMEOUT)"
  by (auto simp: wifi_wait_for_result_def ext_eq Let_def result_fits_def[of "_\<lparr>tr_result := _, tr_reason := _\<rparr>"]
      dest: run_until_woken_fits split: Option.bind_splits if_splits)

lemma wifi_join_reason:
  "wifi_join E i s = Some (r, i', t) \<Longrightarrow> r = 0 \<longleftrightarrow> mi_reason i' = eREASON_NONE"
  by (auto simp: wifi_join_def wifi_join_finish_def ext_eq split_def Let_def result_fits_def
      dest!: wait_fits split: Option.bind_splits if_splits)

text \<open>C4. A link start reports success exactly when it leaves the reason NONE, so every
  failed start tells the caller why, on every path through the four start functions.\<close>

theorem configure_start_reason:
  assumes "network_configure_net E m START (Some i) s = Some (r, Some i', t)"
    and "m \<in> {WIFI, WIFI_AP, MODEM, ETHERENT}"
  shows "r = 0 \<longleftrightarrow> mi_reason i' = eREASON_NONE"
  using assms
  by (auto simp: network_configure_net_def with_info_def Let_def network_start_wifi_def
      network_start_wifi_ap_def network_start_modem_def network_start_etherent_def ext_eq wifi_join_reason
      split: if_splits Option.bind_splits prod.splits)

theorem configure_start_reason_witness:
  "\<exists>r i t. network_configure_net lab_env MODEM START (Some zero_info) lab_state = Some (r, Some i, t)
     \<and> (r = 0 \<longleftrightarrow> mi_reason i = eREASON_NONE)"
proof -
  obtain r i t where c: "network_configure_net lab_env MODEM START (Some zero_info) lab_state = Some (r, Some i, t)"
    using configure_start_ok[OF lab_recv ok_from_refl[OF lab_state_ok], of MODEM zero_info] by auto
  show ?thesis using configure_start_reason[OF c] c by auto
qed

text \<open>When the modem driver fails, the first start reports the failure, but the
  latch stays set: a second start reports success without touching the device.\<close>

theorem modem_retry_reports_success:
  assumes "modem_device s" and "\<not> g_start_modem_flag s" and "timers_ok s"
    and "\<forall>w. fst (md_on (modem_dev E) w) = -1"
  shows "\<exists>i' t u. network_start_modem E i s = Some (-1, i', t) \<and> mi_reason i' = eREASON_COMMAND_RESPOND_ERROR
    \<and> network_start_modem E i t = Some (0, i\<lparr>mi_reason := eREASON_NONE\<rparr>, u) \<and> world u = world t"
proof -
  obtain r t where t: "modem_hal_start_modem E s = Some (r, t)" "ctl_eq s t"
    using modem_hal_start_modem_ctl[OF assms(1), of E] by (auto simp: succeeds_iff)
  have r: "r = -1" using t(1) assms by (auto simp: modem_hal_start_modem_def modem_call_def ext_eq)
  have again: "modem_hal_start_modem E t = Some (0, t)" using mdm.retry_reports_success[OF t(1)] .
  have "modem_device t" "timers_ok t" using t(2) assms(1,3) by (auto simp: ctl_eq_def timers_ok_def)
  then obtain u where u: "modem_start_monitor t = Some (0, u)"
    using modem_start_monitor_ctl[of t] by (auto simp: timers_ok_def succeeds_iff)
  then have "world u = world t"
    by (auto simp: modem_start_monitor_def eloop_timer_start_def split: if_splits Option.bind_splits)
  then show ?thesis using t(1) r again u by (simp add: network_start_modem_def Let_def)
qed

definition lab_broken_modem :: "unit net_env" where
  "lab_broken_modem = lab_env\<lparr>modem_dev := lab_modem (-1) 0 99\<rparr>"

text \<open>The state of a manager with all devices opened and its three timers, before any link
  is started.\<close>

definition lab_timers :: "net_cb scheduler" where
  "lab_timers =
     (let (i, c) = timer_add_ok CB_wifi_trigger_scan 1000 5000 scheduler_new;
          (i, c) = timer_add_ok CB_wifi_connecting_network 10 0 c;
          (i, c) = timer_add_ok CB_modem_event_monitor 100 5000 c in c)"

definition lab_idle :: "unit net_state" where
  "lab_idle = (net_boot ())\<lparr>g_capacity := 3, wifi_device := True, modem_device := True,
     ns_wifi_scan := 1, ns_wifi_connect := 2, ns_modem_monitor := 3, eloop_sched := lab_timers\<rparr>"

lemma lab_idle_ok: "net_ok lab_idle" "timers_ok lab_idle"
proof -
  show t: "timers_ok lab_idle"
    by (simp add: timers_ok_def lab_idle_def net_boot_def lab_timers_def timer_add_ok_def
        scheduler_timer_new_def scheduler_new_def sched_inv_def timer_alive_def insert_commute)
  then show "net_ok lab_idle"
    by (simp add: net_ok_def devices_ok_def mode_ok_def valid_status_def monitor_ok_def lab_idle_def net_boot_def
        has_flag_def capacity_defs)
qed

theorem modem_retry_reports_success_witness:
  "\<exists>i t u. network_start_modem lab_broken_modem zero_info lab_idle = Some (-1, i, t)
     \<and> network_start_modem lab_broken_modem zero_info t = Some (0, zero_info, u)"
proof -
  have "modem_device lab_idle" "\<not> g_start_modem_flag lab_idle" by (simp_all add: lab_idle_def net_boot_def)
  moreover have "\<forall>w. fst (md_on (modem_dev lab_broken_modem) w) = -1"
    by (simp add: lab_broken_modem_def lab_modem_def)
  moreover have "zero_info\<lparr>mi_reason := eREASON_NONE\<rparr> = zero_info" by (simp add: zero_info_def)
  ultimately show ?thesis
    using modem_retry_reports_success[of lab_idle lab_broken_modem zero_info] lab_idle_ok(2) by auto
qed

text \<open>A stop command for a device the manager does not have dereferences the NULL
  \<open>info\<close> it passes to \<open>network_configure_net\<close>.\<close>

theorem stop_without_capacity_crashes:
  assumes "is_mode_in_capacity m s \<noteq> 0"
  shows "network_configure_net E m STOP None s = None
    \<and> (m = MODEM \<longrightarrow> netmanager_stop_modem E j s = None)
    \<and> (m = ETHERENT \<longrightarrow> netmanager_stop_etherent E j s = None)"
  using assms in_capacity_cong[of "network_set_mode ETHERENT STOP s" s ETHERENT]
  by (auto simp: network_configure_net_def netmanager_stop_modem_def netmanager_stop_etherent_def Let_def)

theorem stop_without_capacity_crashes_witness: "netmanager_stop_etherent lab_env JNull lab_idle = None"
  using stop_without_capacity_crashes[of ETHERENT lab_idle lab_env JNull]
  by (simp add: is_mode_in_capacity_def lab_idle_def has_flag_def capacity_defs)

section \<open>The event thread\<close>

text \<open>A terminated event thread stays so while other threads run, and the monitor flag that
  would start a new one stays set.\<close>

definition event_dead :: "'w net_state \<Rightarrow> bool" where
  "event_dead s \<longleftrightarrow> event_thread s = EV_EXITED \<and> \<not> g_wifi_monitor_open s \<and> g_wifi_monitor_flag s
     \<and> g_start_station_flag s \<and> valid_status s"

lemma report_strength_dead:
  "event_dead s \<Longrightarrow> succeeds (wifi_report_signal_strength n s) event_dead"
  using wifi_report_signal_strength_ctl[of s n]
  by (auto simp: event_dead_def wifi_report_signal_strength_def report_wifi_status_def wifi_event_set_status_def
      network_ipc_upload_def Let_def succeeds_iff ctl_eq_def split: Option.bind_splits if_splits)

lemma run_slice_dead:
  assumes "event_dead s"
  shows "succeeds (run_slice E sl s) (\<lambda>(b, t). \<not> b \<and> event_dead t)"
proof (cases sl)
  case SL_EVENT
  then show ?thesis using assms by (simp add: run_slice_def event_thread_slice_def event_dead_def)
next
  case SL_ROAM
  have d: "event_dead (s\<lparr>roam_thread := b\<rparr>)" "event_dead (s\<lparr>world := w\<rparr>)" for b w
    using assms by (simp_all add: event_dead_def valid_status_def)
  have "succeeds (wifi_roam_slice E s) event_dead"
    using report_strength_dead[OF d(2)] assms d by (auto simp: wifi_roam_slice_def ext_eq split_def Let_def)
  then show ?thesis using SL_ROAM by (auto simp: run_slice_def succeeds_iff)
next
  case SL_LOOP
  then show ?thesis using assms
    by (auto simp: run_slice_def connect_timer_slice_def wifi_connecting_network_def ext_eq split_def Let_def
        event_dead_def valid_status_def split: option.split)
qed

lemma run_slices_dead: "event_dead s \<Longrightarrow> succeeds (run_slices E sls s) event_dead"
proof (induction sls arbitrary: s)
  case (Cons sl sls)
  obtain b t where "run_slice E sl s = Some (b, t)" "event_dead t"
    using run_slice_dead[OF Cons.prems, of E sl] by (auto simp: succeeds_iff)
  then show ?case using Cons.IH by simp
qed simp

lemma wait_dead: "event_dead s \<Longrightarrow> succeeds (wait_monitor_open E n s) event_dead"
proof (induction n arbitrary: s)
  case (Suc n)
  let ?s = "s\<lparr>world := snd (sy_slices (sys E) (world s))\<rparr>"
  have "event_dead ?s" using Suc.prems by (simp add: event_dead_def valid_status_def)
  then obtain t where "run_slices E (fst (sy_slices (sys E) (world s))) ?s = Some t" "event_dead t"
    using run_slices_dead[of ?s E] by (auto simp: succeeds_iff)
  then show ?case using Suc by (simp add: ext_eq)
qed simp



text \<open>The decoder of wpa_supplicant messages takes a message apart into exactly the
  name and the data it was put together from.\<close>

theorem event_message_roundtrip:
  assumes "CHR '' '' \<notin> set (x # msg)" and "length msg < 47" and "length data < 256"
  shows "get_msg_and_data (''<'' @ [level] @ ''>'' @ (x # msg) @ '' '' @ data) = Some (x # msg, data)"
  using assms by (simp add: get_msg_and_data_def strchr_append numeral_eq_Suc)

theorem event_message_roundtrip_witness:
  "get_msg_and_data (''<'' @ ''3'' @ ''>'' @ ''CTRL-EVENT-CONNECTED'' @ '' '' @ ''to ab'')
     = Some (''CTRL-EVENT-CONNECTED'', ''to ab'')"
  using event_message_roundtrip[of "CHR ''C''" "''TRL-EVENT-CONNECTED''" "''to ab''" "CHR ''3''"] by simp

text \<open>C6. An event wakes a waiting connect command exactly when the station is joining
  and the event decides the attempt: connected or re-enabled, network not found, wrong
  key, or the fourth rejection in a row.\<close>

theorem event_wakes_waiter_iff:
  assumes "get_msg_and_data buf = Some (msg, data)" and "i = get_wifi_msg_index msg"
    and "process_recv_info buf s = Some (woken, t)"
  shows "woken \<longleftrightarrow> ns_wifi_state s = WIFI_STATION_JOINING
    \<and> (i \<in> {WPA_EVENT_CONNECTED, WPA_EVENT_REENABLED, WPA_EVENT_NETWORK_NOT_FOUND}
       \<or> i \<in> {WPA_EVENT_ASSOC_REJECT, WPA_EVENT_DISCONNECTED} \<and> wifi_faild_time s \<ge> 3
       \<or> i = WPA_EVENT_TEMP_DISABLED \<and> contains data ''WRONG_KEY'')"
  using assms
  by (auto simp: process_recv_info_def recv_switch_def wpa_event_defs no_result_def Let_def
      split: Option.bind_splits if_splits)

theorem event_wakes_waiter_iff_witness:
  "\<exists>t. process_recv_info lab_msg (lab_idle\<lparr>ns_wifi_state := WIFI_STATION_JOINING\<rparr>) = Some (True, t)"
proof -
  let ?s = "lab_idle\<lparr>ns_wifi_state := WIFI_STATION_JOINING\<rparr>"
  obtain b t where t: "process_recv_info lab_msg ?s = Some (b, t)"
    using process_recv_info_ctl[of lab_msg ?s] by (auto simp: lab_msg_data succeeds_iff)
  have "get_wifi_msg_index ''CTRL-EVENT-CONNECTED'' = 0"
    by (simp add: get_wifi_msg_index_def wpa_event_msg_def)
  then show ?thesis
    using event_wakes_waiter_iff[OF lab_msg_data refl t] t by (simp add: WPA_EVENT_CONNECTED_def)
qed

section \<open>The reachability monitor\<close>

fun judge_rounds :: "'w net_env \<Rightarrow> nat \<Rightarrow> 'w net_state \<Rightarrow> 'w net_state option" where
  "judge_rounds E 0 s = Some s"
| "judge_rounds E (Suc n) s = do { s \<leftarrow> judge_network_link E s; judge_rounds E n s }"

lemma monitor_publish_unconnect:
  "monitor_publish REPORT_UNCONNECT s = Some (network_ipc_upload
     (JObj [(''network'', JObj [(''state'', JStr ''DISCONNECTED'')])])
     (s\<lparr>g_network_status := (g_network_status s)\<lparr>nst_state := 0\<rparr>\<rparr>))"
  by (simp add: monitor_publish_def monitor_get_status_def monitor_set_status_def report_network_status_def
      state_rejected_def sizeof_net_status_def net_status_at_def net_status_def REPORT_UNCONNECT_def)

lemma failing_rounds:
  assumes "\<forall>a w. fst (wp_ping (wpa E) a w) \<noteq> 0" and "0 \<le> unconnect_times s"
  shows "\<exists>t. judge_rounds E n s = Some t \<and> unconnect_times t = unconnect_times s + int n
    \<and> length (uploads t) = length (uploads s) + (nat (unconnect_times s) + n - max 2 (nat (unconnect_times s)))
    \<and> (unconnect_times s + int n < 3 \<longrightarrow> g_network_status t = g_network_status s)"
  using assms(2)
proof (induction n arbitrary: s)
  case (Suc n)
  define w where "w = snd (wp_ping (wpa E) ''www.taobao.com'' (snd (wp_ping (wpa E) ''180.76.76.76'' (world s))))"
  have j: "judge_network_link E s =
      (let u = s\<lparr>world := w, unconnect_times := unconnect_times s + 1\<rparr> in
       if unconnect_times s \<ge> 2 then monitor_publish REPORT_UNCONNECT u else Some u)"
    using assms(1) by (simp add: judge_network_link_def ext_eq Let_def w_def)
  show ?case
  proof (cases "unconnect_times s \<ge> 2")
    case True
    let ?u = "network_ipc_upload (JObj [(''network'', JObj [(''state'', JStr ''DISCONNECTED'')])])
      (s\<lparr>world := w, unconnect_times := unconnect_times s + 1, g_network_status := (g_network_status s)\<lparr>nst_state := 0\<rparr>\<rparr>)"
    have u: "judge_network_link E s = Some ?u" using j True by (simp add: monitor_publish_unconnect Let_def)
    have "0 \<le> unconnect_times ?u" using Suc.prems by (simp add: network_ipc_upload_def)
    from Suc.IH[OF this] show ?thesis using True by (simp add: u) (auto simp: network_ipc_upload_def max_def)
  next
    case False
    let ?u = "s\<lparr>world := w, unconnect_times := unconnect_times s + 1\<rparr>"
    have u: "judge_network_link E s = Some ?u" using j False by (simp add: Let_def)
    have "0 \<le> unconnect_times ?u" using Suc.prems by simp
    from Suc.IH[OF this] show ?thesis using False Suc.prems by (simp add: u) (auto simp: max_def nat_add_distrib)
  qed
qed simp

text \<open>After a success the monitor tolerates two failed rounds: of \<open>n\<close> failing rounds in a
  row it reports all but the first two as DISCONNECTED, and with fewer than three it
  does not touch the reported status.\<close>

theorem monitor_needs_three_failures:
  assumes "\<forall>a w. fst (wp_ping (wpa E) a w) \<noteq> 0" and "unconnect_times s = 0"
  shows "\<exists>t. judge_rounds E n s = Some t \<and> length (uploads t) = length (uploads s) + (n - 2)
    \<and> (n < 3 \<longrightarrow> g_network_status t = g_network_status s)"
  using failing_rounds[OF assms(1), of s n] assms(2) by auto

theorem monitor_needs_three_failures_witness:
  "\<exists>t. judge_rounds (lab_env\<lparr>wpa := lab_wpa 1 []\<rparr>) 5 lab_idle = Some t \<and> length (uploads t) = 3"
  using monitor_needs_three_failures[of "lab_env\<lparr>wpa := lab_wpa 1 []\<rparr>" lab_idle 5]
  by (auto simp: lab_wpa_def lab_idle_def net_boot_def)

text \<open>One successful ping of either address is reported as CONNECTED at once and clears
  the failure count.\<close>

theorem monitor_success_reports_connect:
  assumes "\<exists>a \<in> {''180.76.76.76'', ''www.taobao.com''}. \<forall>w. fst (wp_ping (wpa E) a w) = 0"
  shows "\<exists>t. judge_network_link E s = Some t \<and> unconnect_times t = 0 \<and> nst_state (g_network_status t) = 1
    \<and> uploads t = uploads s @ [JObj [(''network'', JObj [(''state'', JStr ''CONNECTED'')])]]"
  using assms
  by (auto simp: judge_network_link_def ext_eq Let_def monitor_publish_def monitor_get_status_def
      monitor_set_status_def report_network_status_def state_rejected_def sizeof_net_status_def
      net_status_at_def net_status_def REPORT_CONNECT_def REPORT_UNCONNECT_def network_ipc_upload_def)

theorem monitor_success_reports_connect_witness:
  "\<exists>t. judge_network_link lab_env lab_idle = Some t \<and> nst_state (g_network_status t) = 1"
  using monitor_success_reports_connect[of lab_env lab_idle] by (auto simp: lab_defs)

section \<open>The modem poll\<close>

fun modem_polls :: "'w net_env \<Rightarrow> nat \<Rightarrow> 'w net_state \<Rightarrow> 'w net_state option" where
  "modem_polls E 0 s = Some s"
| "modem_polls E (Suc n) s = do { s \<leftarrow> modem_event_monitor E s; modem_polls E n s }"

text \<open>The driver answers every query, with this type and strength.\<close>

definition modem_answers :: "'w net_env \<Rightarrow> 32 word \<Rightarrow> int \<Rightarrow> bool" where
  "modem_answers E ty strength \<longleftrightarrow> (\<forall>w. fst (md_get_signal_strength (modem_dev E) w) = (0, strength)
     \<and> fst (md_get_signal_type (modem_dev E) w) = (0, ty))"

text \<open>Nothing a report changes matters to the poll.\<close>

definition poll_frame :: "'w net_state \<Rightarrow> 'w net_state \<Rightarrow> bool" where
  "poll_frame s t \<longleftrightarrow> unconnect_cnts t = unconnect_cnts s \<and> modem_device t = modem_device s
     \<and> g_start_modem_flag t = g_start_modem_flag s \<and> (valid_status s \<longrightarrow> valid_status t)"

lemma modem_publish_frame:
  assumes "mst_state p \<in> {0, 1}"
  shows "succeeds (modem_publish p s) (poll_frame s)"
  using assms by (rule state_01E)
    (use assms in \<open>auto simp: modem_publish_def report_modem_status_def modem_set_status_def network_ipc_upload_def
      poll_frame_def valid_status_def\<close>)

lemma report_frames:
  assumes "valid_status s"
  shows "succeeds (modem_report_signal_strength n s) (poll_frame s)"
    and "succeeds (modem_report_signal_type ty s) (poll_frame s)"
    and "st \<in> {0, 1} \<Longrightarrow> succeeds (modem_report_connect_state st s) (poll_frame s)"
proof -
  have m: "mst_state (modem_get_stauts s) \<in> {0, 1}" using assms by (simp add: valid_status_def modem_get_stauts_def)
  show "succeeds (modem_report_signal_strength n s) (poll_frame s)"
    unfolding modem_report_signal_strength_def using m by (intro modem_publish_frame) simp
  show "succeeds (modem_report_signal_type ty s) (poll_frame s)"
    unfolding modem_report_signal_type_def Let_def
    using m modem_publish_frame[of "(modem_get_stauts s)\<lparr>mst_type := ty\<rparr>" s] by (simp add: poll_frame_def)
  show "succeeds (modem_report_connect_state st s) (poll_frame s)" if "st \<in> {0, 1}"
    unfolding modem_report_connect_state_def Let_def
    using that modem_publish_frame[of "(modem_get_stauts s)\<lparr>mst_state := st\<rparr>" s] by (simp add: poll_frame_def)
qed

lemma poll_frame_trans: "poll_frame s t \<Longrightarrow> poll_frame t u \<Longrightarrow> poll_frame s u"
  by (auto simp: poll_frame_def)

lemma poll_frame_world [simp]:
  "poll_frame (s\<lparr>world := w\<rparr>) t = poll_frame s t" "poll_frame s (t\<lparr>world := w\<rparr>) = poll_frame s t"
  by (simp_all add: poll_frame_def valid_status_def)

lemma modem_poll:
  assumes "modem_answers E ty strength" and "modem_device s" and "valid_status s"
  shows "\<exists>t. modem_event_monitor E s = modem_poll_end E ty strength t \<and> poll_frame s t"
proof -
  obtain w1 where w1: "md_get_signal_strength (modem_dev E) (world s) = ((0, strength), w1)"
    using assms(1) by (metis modem_answers_def prod.collapse)
  have v1: "valid_status (s\<lparr>world := w1\<rparr>)" using assms(3) by (simp add: valid_status_def)
  obtain t where t: "modem_report_signal_strength strength (s\<lparr>world := w1\<rparr>) = Some t" "poll_frame s t"
    using report_frames(1)[OF v1, of strength] by (auto simp: succeeds_iff)
  obtain w2 where w2: "md_get_signal_type (modem_dev E) (world t) = ((0, ty), w2)"
    using assms(1) by (metis modem_answers_def prod.collapse)
  have dt: "modem_device t" and vt: "valid_status (t\<lparr>world := w2\<rparr>)"
    using t(2) assms(2,3) by (auto simp: poll_frame_def valid_status_def)
  obtain u where u: "modem_report_signal_type ty (t\<lparr>world := w2\<rparr>) = Some u" "poll_frame t u"
    using report_frames(2)[OF vt, of ty] by (auto simp: succeeds_iff)
  have "poll_frame s u" using poll_frame_trans[OF t(2) u(2)] .
  then show ?thesis
    using w1 t(1) w2 u(1) assms(2) dt
    by (auto simp: modem_event_monitor_def modem_hal_get_signal_strength_def modem_hal_get_signal_type_def
        modem_call_def ext_eq)
qed

lemma modem_poll_unconnected:
  assumes "ty = 0 \<or> strength = 99" and "modem_device s" and "valid_status s"
  shows "\<exists>t. modem_poll_end E ty strength s = Some t
    \<and> unconnect_cnts t = (if unconnect_cnts s \<ge> 11 then 0 else unconnect_cnts s + 1)
    \<and> modem_device t \<and> valid_status t
    \<and> g_start_modem_flag t = (g_start_modem_flag s \<or> unconnect_cnts s \<ge> 11)"
proof -
  have st: "get_modem_state ty strength = 0" using assms(1) by (auto simp: get_modem_state_def REPORT_UNCONNECT_def)
  obtain t where t: "modem_report_connect_state 0 s = Some t" "poll_frame s t"
    using report_frames(3)[OF assms(3), of 0] by (auto simp: succeeds_iff)
  let ?t = "t\<lparr>unconnect_cnts := 0\<rparr>"
  have dev: "modem_device ?t" and v: "valid_status ?t"
    using t(2) assms(2,3) by (auto simp: poll_frame_def valid_status_def)
  obtain u where u: "modem_hal_stop_modem E ?t = Some u" "modem_device u" "\<not> g_start_modem_flag u" "ctl_eq ?t u"
    using mdm.stop_opened[OF dev, of E] modem_hal_stop_modem_ctl[OF dev, of E] by (auto simp: succeeds_iff)
  obtain r x where x: "modem_hal_start_modem E u = Some (r, x)" "modem_device x" "g_start_modem_flag x" "ctl_eq u x"
    using mdm.start_opened[OF u(2), of E] modem_hal_start_modem_ctl[OF u(2), of E] by (auto simp: succeeds_iff)
  have "unconnect_cnts u = unconnect_cnts ?t"
    using u(1) by (auto simp: modem_hal_stop_modem_def hal_simps split: if_splits)
  moreover have "unconnect_cnts x = unconnect_cnts u"
    using x(1) by (auto simp: modem_hal_start_modem_def hal_simps split: if_splits)
  moreover have "valid_status x" using ctl_eq_valid[OF ctl_eq_trans[OF u(4) x(4)] v] .
  ultimately show ?thesis
    using st t u x assms(2,3)
    by (auto simp: modem_poll_end_def REPORT_UNCONNECT_def MAX_UNCONNECT_CNTS_def poll_frame_def valid_status_def)
qed

lemma modem_polls_unconnected:
  assumes "modem_answers E ty strength" and "ty = 0 \<or> strength = 99"
    and "modem_device s" and "valid_status s" and "unconnect_cnts s = int (n mod 12)"
    and "12 \<le> n \<longrightarrow> g_start_modem_flag s"
  shows "\<exists>t. modem_polls E k s = Some t \<and> unconnect_cnts t = int ((n + k) mod 12)
    \<and> (12 \<le> n + k \<longrightarrow> g_start_modem_flag t)"
  using assms(3-6)
proof (induction k arbitrary: s n)
  case (Suc k)
  obtain t where t: "modem_event_monitor E s = modem_poll_end E ty strength t" "poll_frame s t"
    using modem_poll[OF assms(1) Suc.prems(1,2)] by blast
  have "modem_device t" "valid_status t" using t(2) Suc.prems by (auto simp: poll_frame_def)
  from modem_poll_unconnected[OF assms(2) this, of E] obtain u where
    u: "modem_poll_end E ty strength t = Some u"
      "unconnect_cnts u = (if unconnect_cnts t \<ge> 11 then 0 else unconnect_cnts t + 1)"
      "modem_device u" "valid_status u" "g_start_modem_flag u = (g_start_modem_flag t \<or> unconnect_cnts t \<ge> 11)"
    by blast
  have c: "unconnect_cnts t = int (n mod 12)" "g_start_modem_flag t = g_start_modem_flag s"
    using t(2) Suc.prems(3) by (simp_all add: poll_frame_def)
  have "unconnect_cnts u = int (Suc n mod 12)" using u(2) c(1) by (simp add: mod_Suc) presburger
  moreover have "12 \<le> Suc n \<longrightarrow> g_start_modem_flag u" using u(5) c Suc.prems(4) by (cases "n = 11") auto
  ultimately show ?case using Suc.IH[of u "Suc n"] u(3,4) t(1) u(1) by simp
qed simp

text \<open>While the driver answers without a connection, every poll counts; the twelfth
  restarts the modem and the count starts again, so after \<open>k\<close> polls the count is \<open>k mod 12\<close>.\<close>

theorem modem_restart_every_twelve_polls:
  assumes "modem_answers E ty strength" and "ty = 0 \<or> strength = 99"
    and "modem_device s" and "valid_status s" and "unconnect_cnts s = 0"
  shows "\<exists>t. modem_polls E k s = Some t \<and> unconnect_cnts t = int (k mod 12)
    \<and> (12 \<le> k \<longrightarrow> g_start_modem_flag t)"
  using modem_polls_unconnected[OF assms(1-4), of 0 k] assms(5) by simp

theorem modem_restart_every_twelve_polls_witness:
  "\<exists>t. modem_polls lab_broken_modem 13 lab_idle = Some t \<and> unconnect_cnts t = 1 \<and> g_start_modem_flag t"
  using modem_restart_every_twelve_polls[of lab_broken_modem 0 99 lab_idle 13]
  by (auto simp: modem_answers_def lab_broken_modem_def lab_modem_def lab_idle_def net_boot_def valid_status_def)

text \<open>The count is not cleared by a connection: a poll that finds the modem connected
  leaves it as it is, so the restart needs twelve unconnected polls since the last
  restart and not twelve in a row.\<close>

theorem modem_connection_keeps_count:
  assumes "modem_answers E ty strength" and "ty \<noteq> 0" and "strength \<noteq> 99"
    and "modem_device s" and "valid_status s" and "unconnect_cnts s < 12"
  shows "\<exists>t. modem_event_monitor E s = Some t \<and> unconnect_cnts t = unconnect_cnts s
    \<and> g_start_modem_flag t = g_start_modem_flag s"
proof -
  obtain t where t: "modem_event_monitor E s = modem_poll_end E ty strength t" "poll_frame s t"
    using modem_poll[OF assms(1,4,5)] by blast
  then have "valid_status t" using assms(5) by (simp add: poll_frame_def)
  then obtain u where u: "modem_report_connect_state 1 t = Some u" "poll_frame t u"
    using report_frames(3)[of t 1] by (auto simp: succeeds_iff)
  show ?thesis
    using t u assms(2,3,6) by (simp add: modem_poll_end_def get_modem_state_def REPORT_CONNECT_def
        REPORT_UNCONNECT_def MAX_UNCONNECT_CNTS_def poll_frame_def)
qed

theorem modem_connection_keeps_count_witness:
  "\<exists>t. modem_event_monitor lab_env (lab_idle\<lparr>unconnect_cnts := 11\<rparr>) = Some t \<and> unconnect_cnts t = 11"
  using modem_connection_keeps_count[of lab_env 4 20 "lab_idle\<lparr>unconnect_cnts := 11\<rparr>"]
  by (auto simp: modem_answers_def lab_env_def lab_modem_def lab_idle_def net_boot_def valid_status_def)

section \<open>Link scheduling and start-up\<close>

text \<open>A run of the link scheduler never crashes on a well configured device, keeps the
  invariant of the manager and answers no command.\<close>

theorem sched_keeps_invariant:
  assumes "recv_wf E" and "properties_fit E" and "carrier_readable E" and "net_ok s"
    and "wifi_init_mode_flag s \<longrightarrow> has_flag (g_capacity s) NET_CAPACITY_WIFI"
  shows "\<exists>t. network_sched_net E s = Some t \<and> net_ok t \<and> replies t = replies s"
proof -
  have "sched_ok s s" using assms(4,5) by (simp add: sched_ok_def capacity_flag)
  from network_sched_net_ok[OF assms(1-3) this] show ?thesis by (auto simp: succeeds_iff sched_ok_def)
qed

theorem sched_keeps_invariant_witness:
  "\<exists>t. network_sched_net lab_env lab_idle = Some t \<and> net_ok t"
  using sched_keeps_invariant[OF lab_recv lab_props lab_carrier lab_idle_ok(1)]
  by (auto simp: lab_idle_def net_boot_def)

text \<open>C19. Waiting for Wi-Fi at start-up ends: if wpa_supplicant never reports a connection,
  the scheduler gives up when its counter has gone from zero through thirty runs.\<close>

theorem sched_waiting_ends:
  assumes "properties_fit E" and "\<forall>w. snd (fst (wp_get_status (wpa E) w)) \<noteq> 2"
    and "wifi_init_mode_flag s" and "wait_wifi_init_cnt s = 30 - int n" and "0 < n"
  shows "\<exists>t. sched_runs E n s = Some t \<and> \<not> wifi_init_mode_flag t"
  using waiting_runs[OF assms] .

theorem sched_waiting_ends_witness:
  "\<exists>t. sched_runs lab_env 30 (lab_idle\<lparr>wifi_init_mode_flag := True\<rparr>) = Some t \<and> \<not> wifi_init_mode_flag t"
  using sched_waiting_ends[OF lab_props, of "lab_idle\<lparr>wifi_init_mode_flag := True\<rparr>" 30]
  by (simp add: lab_env_def lab_wpa_def lab_idle_def net_boot_def)

lemma capacity_without_wifi:
  assumes "\<forall>w. fst (sy_hw_get_module (sys E) ''wifi'' w) \<noteq> 0"
  shows "init_capacity E s = Some t \<Longrightarrow> wifi_device t = wifi_device s
    \<and> g_start_station_flag t = g_start_station_flag s"
proof -
  have w: "wifi_hal_init E s = (-1, s\<lparr>world := snd (sy_hw_get_module (sys E) ''wifi'' (world s))\<rparr>)"
    using assms by (simp add: wifi_hal_init_def ext_eq)
  have get: "get_modem_capacity E u = Some (c, v) \<Longrightarrow> wifi_device v = wifi_device u \<and> g_start_station_flag v = g_start_station_flag u"
    "get_etherent_capacity E u = Some (c, v) \<Longrightarrow> wifi_device v = wifi_device u \<and> g_start_station_flag v = g_start_station_flag u"
    for u v c
    by (auto simp: get_modem_capacity_def modem_hal_get_capacity_def get_etherent_capacity_def
        etherent_hal_get_capacity_def modem_call_def eth_call_def ext_eq split: if_splits Option.bind_splits)
  have hal: "modem_hal_init E u = (r, v) \<Longrightarrow> wifi_device v = wifi_device u \<and> g_start_station_flag v = g_start_station_flag u"
    "etherent_hal_init E u = (r, v) \<Longrightarrow> wifi_device v = wifi_device u \<and> g_start_station_flag v = g_start_station_flag u"
    for u v r
    by (auto simp: modem_hal_init_def etherent_hal_init_def ext_eq Let_def split: if_splits)
  assume "init_capacity E s = Some t"
  then show "wifi_device t = wifi_device s \<and> g_start_station_flag t = g_start_station_flag s"
    by (auto simp: init_capacity_def w dest!: get hal split: if_splits Option.bind_splits prod.splits)
qed

lemma start_monitor_keeps [simp]:
  "wifi_device (snd (network_start_monitor E s)) = wifi_device s"
  "g_start_station_flag (snd (network_start_monitor E s)) = g_start_station_flag s"
  using network_start_monitor_frame[of E s] by auto

lemma parm_init_frame:
  "wifi_device (snd (network_parm_init E s)) = wifi_device s
   \<and> g_start_station_flag (snd (network_parm_init E s)) = g_start_station_flag s"
  by (simp add: network_parm_init_def eloop_timer_add_def split_def Let_def)

lemma get_mode_unset:
  assumes "\<forall>k w. fst (sy_property (sys E) k w) = None"
  shows "\<exists>w. network_get_mode E s = Some (0, s\<lparr>world := w\<rparr>)"
proof -
  have a: "atoi ''0'' = 0" by code_simp
  show ?thesis
    using assms by (simp add: network_get_mode_def property_get_def ext_eq a Let_def) (rule exI, rule refl)
qed

text \<open>On a device without Wi-Fi hardware, a configuration file that names a network
  makes start-up crash: the last branch of \<open>network_set_initmode\<close> starts Wi-Fi without
  looking at the capacity.\<close>

theorem startup_crashes_without_wifi:
  assumes "\<forall>k w. fst (sy_property (sys E) k w) = None"
    and "\<forall>w. fst (sy_hw_get_module (sys E) ''wifi'' w) \<noteq> 0"
    and "\<forall>w. fst (sy_read_lines (sys E) ''/data/system/wpa_supplicant.conf'' w) = Some ls"
    and "list_ex (\<lambda>l. contains l ''ssid'') ls"
  shows "main_init E (net_boot w) = None"
proof -
  obtain v w1 where p: "property_get E 64 ''persist.rokid.debug.netmanager'' ''0'' (net_boot w)
      = Some (v, (net_boot w)\<lparr>world := w1\<rparr>)"
    using assms(1) by (simp add: property_get_def ext_eq)
  have crash: "network_set_initmode E s = None" if "\<not> wifi_device s" "\<not> g_start_station_flag s" for s
  proof -
    obtain w2 where g: "network_get_mode E s = Some (0, s\<lparr>world := w2\<rparr>)" using get_mode_unset[OF assms(1), of s] by (elim exE)
    show ?thesis
      using that assms(3,4) g by (simp add: network_set_initmode_def init_modem_def init_etherent_def init_wifi_def
          is_wifi_configured_def ext_eq wifi_init_start_def wifi_hal_start_station_def wifi_call_def)
  qed
  show ?thesis
  proof (cases "init_capacity E ((net_boot w)\<lparr>world := w1\<rparr>)")
    case None
    then show ?thesis using p by (simp add: main_init_def nm_set_bug_level_def)
  next
    case (Some t)
    then have "\<not> wifi_device t" "\<not> g_start_station_flag t"
      using capacity_without_wifi[OF assms(2) Some] by (simp_all add: net_boot_def)
    then have "network_set_initmode E (snd (network_parm_init E (t\<lparr>eloop_sched := scheduler_new\<rparr>))) = None"
      by (intro crash) (simp_all add: parm_init_frame)
    then show ?thesis using p Some by (simp add: main_init_def nm_set_bug_level_def split_def)
  qed
qed

definition lab_no_wifi :: "unit net_env" where
  "lab_no_wifi = lab_env\<lparr>sys := (lab_sys lab_request [] [''ssid=home''])
     \<lparr>sy_hw_get_module := (\<lambda>_ w. (-1, w))\<rparr>\<rparr>"

theorem startup_crashes_without_wifi_witness: "main_init lab_no_wifi (net_boot ()) = None"
proof -
  have "contains ''ssid=home'' ''ssid''" by code_simp
  then show ?thesis
    using startup_crashes_without_wifi[of lab_no_wifi "[''ssid=home'']" "()"]
    by (simp add: lab_no_wifi_def lab_sys_def)
qed

section \<open>Lines of a reply\<close>

text \<open>Reading line \<open>i\<close> of a reply put together from non-empty lines gives back that line,
  and NULL past the last one.\<close>

theorem reply_lines_roundtrip:
  assumes "list_all plain_line (l # ls)"
  shows "get_line_from_buf i (join_lines (l # ls)) = (if i < length (l # ls) then Some ((l # ls) ! i) else None)"
  using get_line_join[OF assms, of i] by (simp add: get_line_from_buf_def less_Suc_eq_le)

theorem reply_lines_roundtrip_witness:
  "get_line_from_buf 1 (join_lines [''network id'', ''0 home'']) = Some ''0 home''"
  using reply_lines_roundtrip[of "''network id''" "[''0 home'']" 1] by (simp add: plain_line_def is_eol_def)

end
