(* ===== verification/PowerManager.thy ===== *)
theory PowerManager
  imports JsonModel Scheduler
begin

text \<open>
  The power manager service (\<open>framework/services/power\<close>) on top of its HAL module
  (\<open>hardware/modules/power/power_hw.c\<close>).  The list of wakelock names is a singly linked
  list on an explicit heap; address 0 is NULL.  The kernel behind the four files
  of \<open>/sys/power\<close>, json-c and the other services reached through flora are parameters.
  An access through NULL is the outcome \<open>None\<close>.
\<close>

section \<open>State\<close>

record wakelock_node =
  wname :: string
  wnext :: nat

text \<open>Descriptors and errors: \<open>pk_open\<close> and \<open>pk_write\<close> return \<open>-errno\<close> for a failure.\<close>

record 'w pm_env =
  pk_open :: "string \<Rightarrow> 'w \<Rightarrow> int \<times> 'w"
  pk_write :: "int \<Rightarrow> string \<Rightarrow> 'w \<Rightarrow> int \<times> 'w"
  pk_parse :: "string option \<Rightarrow> json"
  pk_text :: "json \<Rightarrow> string"

datatype pm_cb = CB_power_idle_timeout

record 'w pm_state =
  kworld :: 'w
  g_initialized :: bool
  g_fds :: "int list"
  g_error :: int
  g_power_device :: bool
  partial_lock_total :: int
  full_lock_total :: int
  wakelock_count :: int
  wakelock_list_head :: nat
  wl_mem :: "nat \<Rightarrow> wakelock_node option"
  wl_brk :: nat
  chg_flag :: int
  idle_status :: bool
  appId :: bool
  e_power_idle_id :: nat
  pm_sched :: "pm_cb scheduler"
  flora_calls :: "(string \<times> string) list"

definition kext :: "('w \<Rightarrow> 'a \<times> 'w) \<Rightarrow> 'w pm_state \<Rightarrow> 'a \<times> 'w pm_state" where
  "kext f s = (let (r, w) = f (kworld s) in (r, s\<lparr>kworld := w\<rparr>))"

lemma kext_eq: "kext f s = (fst (f (kworld s)), s\<lparr>kworld := snd (f (kworld s))\<rparr>)"
  by (simp add: kext_def split: prod.split)

section \<open>power_hw.c\<close>

definition POWER_PATHS :: "string list" where
  "POWER_PATHS = [''/sys/power/wake_lock'', ''/sys/power/wake_unlock'', ''/sys/power/autosleep'', ''/sys/power/state'']"

definition EINVAL :: int where "EINVAL = 22"
definition PARTIAL_WAKE_LOCK :: int where "PARTIAL_WAKE_LOCK = 1"

text \<open>The loop of \<open>open_file_descriptors\<close>; \<open>i\<close> is the index of the next path.\<close>

fun open_from :: "'w pm_env \<Rightarrow> string list \<Rightarrow> nat \<Rightarrow> 'w pm_state \<Rightarrow> int \<times> 'w pm_state" where
  "open_from E [] i s = (0, s\<lparr>g_error := 0\<rparr>)"
| "open_from E (p # ps) i s =
     (let (fd, s) = kext (pk_open E p) s in
      if fd < 0 then (-1, s\<lparr>g_error := fd\<rparr>)
      else open_from E ps (Suc i) (s\<lparr>g_fds := (g_fds s)[i := fd]\<rparr>))"

definition open_file_descriptors :: "'w pm_env \<Rightarrow> 'w pm_state \<Rightarrow> int \<times> 'w pm_state" where
  "open_file_descriptors E s = open_from E POWER_PATHS 0 s"

definition initialize_fds :: "'w pm_env \<Rightarrow> 'w pm_state \<Rightarrow> 'w pm_state" where
  "initialize_fds E s =
     (if \<not> g_initialized s
      then let (r, s) = open_file_descriptors E s in if r = 0 then s\<lparr>g_initialized := True\<rparr> else s
      else s)"

definition acquire_wake_lock :: "'w pm_env \<Rightarrow> int \<Rightarrow> string \<Rightarrow> 'w pm_state \<Rightarrow> int \<times> 'w pm_state" where
  "acquire_wake_lock E lock i s =
     (let s = initialize_fds E s in
      if g_error s \<noteq> 0 then (g_error s, s)
      else if lock \<noteq> PARTIAL_WAKE_LOCK then (- EINVAL, s)
      else kext (pk_write E (g_fds s ! 0) i) s)"

definition release_wake_lock :: "'w pm_env \<Rightarrow> string \<Rightarrow> 'w pm_state \<Rightarrow> int \<times> 'w pm_state" where
  "release_wake_lock E i s =
     (let s = initialize_fds E s in
      if g_error s \<noteq> 0 then (g_error s, s) else kext (pk_write E (g_fds s ! 1) i) s)"

definition set_auto_sleep :: "'w pm_env \<Rightarrow> string \<Rightarrow> 'w pm_state \<Rightarrow> int \<times> 'w pm_state" where
  "set_auto_sleep E i s =
     (let s = initialize_fds E s in
      if g_error s \<noteq> 0 then (g_error s, s) else kext (pk_write E (g_fds s ! 2) i) s)"

definition set_sleep :: "'w pm_env \<Rightarrow> string \<Rightarrow> 'w pm_state \<Rightarrow> int \<times> 'w pm_state" where
  "set_sleep E i s =
     (let s = initialize_fds E s in
      if g_error s \<noteq> 0 then (g_error s, s) else kext (pk_write E (g_fds s ! 3) i) s)"

definition set_idle :: "'w pm_env \<Rightarrow> int \<Rightarrow> 'w pm_state \<Rightarrow> int \<times> 'w pm_state" where
  "set_idle E idle s =
     (let s = initialize_fds E s in if g_error s \<noteq> 0 then (g_error s, s) else (0, s))"

definition power_device_open :: "bool \<Rightarrow> 'w pm_state \<Rightarrow> int \<times> 'w pm_state" where
  "power_device_open alloc_ok s = (if \<not> alloc_ok then (-14, s) else (0, s\<lparr>g_power_device := True\<rparr>))"

section \<open>power.c\<close>

definition PMS_WAKELOCK :: string where "PMS_WAKELOCK = ''pm_service''"
definition CHG_WAKELOCK :: string where "CHG_WAKELOCK = ''charger''"
definition SLEEP_ON :: string where "SLEEP_ON = ''mem''"
definition SLEEP_OFF :: string where "SLEEP_OFF = ''off''"
definition DEEP_IDLE_ENTER :: int where "DEEP_IDLE_ENTER = 2"
definition IDLE_ENTER :: int where "IDLE_ENTER = 1"
definition IDLE_EXIT :: int where "IDLE_EXIT = 0"

datatype lock_state = NO_LOCK_STATE | PART_LOCK_STATE | FULL_LOCK_STATE

definition power_module_init :: "int \<Rightarrow> bool \<Rightarrow> 'w pm_state \<Rightarrow> int \<times> 'w pm_state" where
  "power_module_init get_module alloc_ok s =
     (let (status, s) = (if get_module = 0 then power_device_open alloc_ok s else (get_module, s)) in
      if status \<noteq> 0 then (status, s) else (0, s))"

text \<open>The lock argument of the HAL is \<open>PART_LOCK_STATE\<close>, which is 1.\<close>

definition power_wakelock_request :: "'w pm_env \<Rightarrow> int \<Rightarrow> string \<Rightarrow> 'w pm_state \<Rightarrow> int \<times> 'w pm_state" where
  "power_wakelock_request E lock i s =
     (if g_power_device s
      then let (status, s) = acquire_wake_lock E lock i s in
        if status > 0 then (0, s\<lparr>partial_lock_total := partial_lock_total s + 1\<rparr>) else (-1, s)
      else (-1, s))"

definition power_wakelock_release :: "'w pm_env \<Rightarrow> string \<Rightarrow> 'w pm_state \<Rightarrow> int \<times> 'w pm_state" where
  "power_wakelock_release E i s =
     (if g_power_device s
      then let (status, s) = release_wake_lock E i s in
        if status > 0 then (0, s\<lparr>partial_lock_total := partial_lock_total s - 1\<rparr>) else (-1, s)
      else (-1, s))"

definition power_autosleep_request :: "'w pm_env \<Rightarrow> string \<Rightarrow> 'w pm_state \<Rightarrow> int \<times> 'w pm_state" where
  "power_autosleep_request E i s =
     (if g_power_device s
      then let (status, s) = set_auto_sleep E i s in if status = 0 then (0, s) else (-1, s)
      else (-1, s))"

definition power_sleep_request :: "'w pm_env \<Rightarrow> string \<Rightarrow> 'w pm_state \<Rightarrow> int \<times> 'w pm_state" where
  "power_sleep_request E i s =
     (if g_power_device s
      then let (status, s) = set_sleep E i s in if status = 0 then (0, s) else (-1, s)
      else (-1, s))"

definition power_idle_request :: "'w pm_env \<Rightarrow> int \<Rightarrow> 'w pm_state \<Rightarrow> int \<times> 'w pm_state" where
  "power_idle_request E idle s =
     (if g_power_device s
      then let (status, s) = set_idle E idle s in if status = 0 then (0, s) else (-1, s)
      else (-1, s))"

definition power_deep_idle_enter :: "'w pm_env \<Rightarrow> 'w pm_state \<Rightarrow> int \<times> 'w pm_state" where
  "power_deep_idle_enter E = power_idle_request E DEEP_IDLE_ENTER"

definition power_idle_enter :: "'w pm_env \<Rightarrow> 'w pm_state \<Rightarrow> int \<times> 'w pm_state" where
  "power_idle_enter E = power_idle_request E IDLE_ENTER"

definition power_idle_exit :: "'w pm_env \<Rightarrow> 'w pm_state \<Rightarrow> int \<times> 'w pm_state" where
  "power_idle_exit E = power_idle_request E IDLE_EXIT"

definition power_lock_state_poll :: "'w pm_state \<Rightarrow> lock_state" where
  "power_lock_state_poll s =
     (if full_lock_total s > 0 then FULL_LOCK_STATE
      else if partial_lock_total s > 0 then PART_LOCK_STATE
      else NO_LOCK_STATE)"

section \<open>The list of wakelock names (flora_pm.c)\<close>

definition pm_wakelock_init :: "'w pm_state \<Rightarrow> 'w pm_state" where
  "pm_wakelock_init s = s\<lparr>wakelock_count := 0, wakelock_list_head := 0\<rparr>"

text \<open>The search loop the three functions share: the node with the name or NULL, and the
  node before it (\<open>ptemp\<close>).\<close>

partial_function (option) wl_seek ::
  "(nat \<Rightarrow> wakelock_node option) \<Rightarrow> string \<Rightarrow> nat \<Rightarrow> nat \<Rightarrow> (nat \<times> nat) option" where
  "wl_seek m name phead ptemp =
     (if phead = 0 then Some (0, ptemp)
      else do {
        n \<leftarrow> m phead;
        if wname n = name then Some (phead, ptemp) else wl_seek m name (wnext n) phead
      })"

declare wl_seek.simps [code]

definition pm_wakelock_add :: "string option \<Rightarrow> 'w pm_state \<Rightarrow> (int \<times> 'w pm_state) option" where
  "pm_wakelock_add wakelock_name s =
     (case wakelock_name of
        None \<Rightarrow> Some (-1, s)
      | Some name \<Rightarrow> do {
          (phead, ptemp) \<leftarrow> wl_seek (wl_mem s) name (wakelock_list_head s) (wakelock_list_head s);
          if phead \<noteq> 0 then Some (wakelock_count s, s)
          else do {
            let a = wl_brk s;
            let m = (wl_mem s)(a \<mapsto> \<lparr>wname = name, wnext = 0\<rparr>);
            let s = s\<lparr>wl_brk := Suc a, wakelock_count := wakelock_count s + 1,
                      wakelock_list_head := (if wakelock_list_head s = 0 then a else wakelock_list_head s)\<rparr>;
            m \<leftarrow> (if ptemp \<noteq> 0
                  then do { n \<leftarrow> m ptemp; Some (m(ptemp \<mapsto> n\<lparr>wnext := a\<rparr>)) }
                  else Some m);
            Some (wakelock_count s, s\<lparr>wl_mem := m\<rparr>)
          }
        })"

definition pm_wakelock_del :: "string option \<Rightarrow> 'w pm_state \<Rightarrow> (int \<times> 'w pm_state) option" where
  "pm_wakelock_del wakelock_name s =
     (case wakelock_name of
        None \<Rightarrow> Some (-1, s)
      | Some name \<Rightarrow> do {
          (phead, ptemp) \<leftarrow> wl_seek (wl_mem s) name (wakelock_list_head s) (wakelock_list_head s);
          if phead = 0 then Some (wakelock_count s, s)
          else do {
            n \<leftarrow> wl_mem s phead;
            s \<leftarrow> (if phead = wakelock_list_head s then Some (s\<lparr>wakelock_list_head := wnext n\<rparr>)
                  else do {
                    p \<leftarrow> wl_mem s ptemp;
                    Some (s\<lparr>wl_mem := (wl_mem s)(ptemp \<mapsto> p\<lparr>wnext := wnext n\<rparr>)\<rparr>)
                  });
            let s = s\<lparr>wl_mem := (wl_mem s)(phead := None), wakelock_count := wakelock_count s - 1\<rparr>;
            Some (wakelock_count s, s)
          }
        })"

text \<open>\<open>pm_wakelock_scan\<close> walks the list for the log: the names it prints.\<close>

partial_function (option) wl_names ::
  "(nat \<Rightarrow> wakelock_node option) \<Rightarrow> nat \<Rightarrow> string list option" where
  "wl_names m a =
     (if a = 0 then Some []
      else do { n \<leftarrow> m a; xs \<leftarrow> wl_names m (wnext n); Some (wname n # xs) })"

declare wl_names.simps [code]

definition pm_wakelock_scan :: "'w pm_state \<Rightarrow> (string list \<times> int) option" where
  "pm_wakelock_scan s = do { xs \<leftarrow> wl_names (wl_mem s) (wakelock_list_head s); Some (xs, wakelock_count s) }"

section \<open>Message handlers (flora_pm.c)\<close>

text \<open>\<open>strcmp\<close> with the NULL string of a JSON null crashes.\<close>

definition get_name :: "'w pm_env \<Rightarrow> json \<Rightarrow> string option" where
  "get_name E obj = Option.bind (json_object_object_get_ex obj ''name'') (json_object_get_string (pk_text E))"

definition pm_autosleep_command_handle :: "'w pm_env \<Rightarrow> json \<Rightarrow> 'w pm_state \<Rightarrow> (int \<times> 'w pm_state) option" where
  "pm_autosleep_command_handle E obj s =
     (if obj = JNull then Some (-1, s)
      else case json_object_object_get_ex obj ''sleep'' of
        None \<Rightarrow> Some (0, s)
      | Some v \<Rightarrow> do {
          command \<leftarrow> json_object_get_string (pk_text E) v;
          if command = ''ON'' then do {
            _ \<leftarrow> pm_wakelock_scan s;
            Some (0, snd (power_autosleep_request E SLEEP_ON s))
          }
          else Some (0, snd (power_autosleep_request E SLEEP_OFF s))
        })"

definition pm_sleep_command_handle :: "'w pm_env \<Rightarrow> json \<Rightarrow> 'w pm_state \<Rightarrow> (int \<times> 'w pm_state) option" where
  "pm_sleep_command_handle E obj s =
     (if obj = JNull then Some (-1, s)
      else case json_object_object_get_ex obj ''sleep'' of
        None \<Rightarrow> Some (0, s)
      | Some v \<Rightarrow> do {
          command \<leftarrow> json_object_get_string (pk_text E) v;
          Some (0, if command = ''ON'' \<and> power_lock_state_poll s = NO_LOCK_STATE
                   then snd (power_sleep_request E SLEEP_ON s) else s)
        })"

definition pm_wakelock_command_handle :: "'w pm_env \<Rightarrow> json \<Rightarrow> 'w pm_state \<Rightarrow> (int \<times> 'w pm_state) option" where
  "pm_wakelock_command_handle E obj s =
     (if obj = JNull then Some (-1, s)
      else case json_object_object_get_ex obj ''wakelock'' of
        None \<Rightarrow> Some (0, s)
      | Some v \<Rightarrow> do {
          command \<leftarrow> json_object_get_string (pk_text E) v;
          if command = ''ON'' then do {
            (r, s) \<leftarrow> pm_wakelock_add (get_name E obj) s;
            Some (0, if r = 1 then snd (power_wakelock_request E 1 PMS_WAKELOCK s) else s)
          }
          else if command = ''OFF'' then do {
            (r, s) \<leftarrow> pm_wakelock_del (get_name E obj) s;
            Some (0, if r = 0 then snd (power_wakelock_release E PMS_WAKELOCK s) else s)
          }
          else Some (0, s)
        })"

definition pm_battery_command_handle :: "'w pm_env \<Rightarrow> json \<Rightarrow> 'w pm_state \<Rightarrow> (int \<times> 'w pm_state) option" where
  "pm_battery_command_handle E obj s =
     (if obj = JNull then Some (-1, s)
      else case json_object_object_get_ex obj ''batChargingOnline'' of
        None \<Rightarrow> Some (0, s)
      | Some v \<Rightarrow> do {
          command \<leftarrow> json_object_get_string (pk_text E) v;
          Some (0,
            if command = ''true'' \<and> chg_flag s \<noteq> 1
            then snd (power_wakelock_request E 1 CHG_WAKELOCK (s\<lparr>chg_flag := 1\<rparr>))
            else if command = ''false'' \<and> chg_flag s = 1
            then snd (power_wakelock_release E CHG_WAKELOCK (s\<lparr>chg_flag := 0\<rparr>))
            else s)
        })"

text \<open>The answers of the three services to the deep idle calls are only logged.\<close>

definition deep_idle_calls :: "string \<Rightarrow> (string \<times> string) list" where
  "deep_idle_calls txt = [(txt, ''display-service''), (txt, ''bluetoothservice-agent''), (txt, ''net_manager'')]"

definition power_idle_timeout_func :: "'w pm_env \<Rightarrow> 'w pm_state \<Rightarrow> 'w pm_state" where
  "power_idle_timeout_func E s =
     (let s = s\<lparr>flora_calls := flora_calls s @ deep_idle_calls ''deep-idle enter''\<rparr>;
          s = snd (power_deep_idle_enter E s)
      in s\<lparr>flora_calls := flora_calls s @ deep_idle_calls ''deep-idle exit''\<rparr>)"

definition pm_timer_start :: "nat \<Rightarrow> 'w pm_state \<Rightarrow> 'w pm_state option" where
  "pm_timer_start i s = map_option (\<lambda>c. s\<lparr>pm_sched := c\<rparr>) (scheduler_timer_start i (pm_sched s))"

definition pm_timer_stop :: "nat \<Rightarrow> 'w pm_state \<Rightarrow> 'w pm_state option" where
  "pm_timer_stop i s = map_option (\<lambda>c. s\<lparr>pm_sched := c\<rparr>) (scheduler_timer_stop i (pm_sched s))"

definition pm_idle_entry :: "'w pm_env \<Rightarrow> int \<Rightarrow> 'w pm_state \<Rightarrow> 'w pm_state option" where
  "pm_idle_entry E flag s =
     (if flag = IDLE_ENTER then
        if \<not> idle_status s
        then let s = (snd (power_idle_enter E s))\<lparr>idle_status := True\<rparr> in pm_timer_start (e_power_idle_id s) s
        else Some s
      else
        if idle_status s
        then let s = (snd (power_idle_exit E s))\<lparr>idle_status := False\<rparr> in pm_timer_stop (e_power_idle_id s) s
        else Some s)"

datatype pm_msg =
  NUM_MSG_NONE | NUM_MSG_SLEEP | NUM_MSG_FORCE_SLEEP | NUM_MSG_LOCK | NUM_MSG_ALARM | NUM_MSG_BATTERY
| NUM_MSG_VOICE_COMMING | NUM_MSG_VOICE_END | NUM_MSG_VOICE_SLEEP | NUM_MSG_SYS_STATUS

definition pm_msg_map_int :: "string \<Rightarrow> pm_msg" where
  "pm_msg_map_int name =
     (if name = ''power.sleep'' then NUM_MSG_SLEEP
      else if name = ''power.force_sleep'' then NUM_MSG_FORCE_SLEEP
      else if name = ''power.wakelock'' then NUM_MSG_LOCK
      else if name = ''rtc.alarm'' then NUM_MSG_ALARM
      else if name = ''battery.info'' then NUM_MSG_BATTERY
      else if name = ''rokid.turen.voice_coming'' then NUM_MSG_VOICE_COMMING
      else if name = ''rokid.turen.end_voice'' then NUM_MSG_VOICE_END
      else if name = ''rokid.turen.sleep'' then NUM_MSG_VOICE_SLEEP
      else if name = ''yodart.vui._private_visibility'' then NUM_MSG_SYS_STATUS
      else NUM_MSG_NONE)"

text \<open>\<open>buf\<close> is \<open>None\<close> when the message carries no string.  Of the pointer \<open>appId\<close> the service
  only tests whether it is NULL.\<close>

definition pm_service_command_callback ::
  "'w pm_env \<Rightarrow> string \<Rightarrow> string option \<Rightarrow> 'w pm_state \<Rightarrow> 'w pm_state option" where
  "pm_service_command_callback E name buf s =
     (case pm_msg_map_int name of
        NUM_MSG_SLEEP \<Rightarrow> map_option snd (pm_autosleep_command_handle E (pk_parse E buf) s)
      | NUM_MSG_FORCE_SLEEP \<Rightarrow> map_option snd (pm_sleep_command_handle E (pk_parse E buf) s)
      | NUM_MSG_LOCK \<Rightarrow> map_option snd (pm_wakelock_command_handle E (pk_parse E buf) s)
      | NUM_MSG_ALARM \<Rightarrow> Some s
      | NUM_MSG_BATTERY \<Rightarrow> map_option snd (pm_battery_command_handle E (pk_parse E buf) s)
      | NUM_MSG_VOICE_COMMING \<Rightarrow> pm_idle_entry E IDLE_EXIT s
      | NUM_MSG_VOICE_END \<Rightarrow> if \<not> appId s then pm_idle_entry E IDLE_ENTER s else Some s
      | NUM_MSG_VOICE_SLEEP \<Rightarrow> do { _ \<leftarrow> pm_wakelock_scan s; Some s }
      | NUM_MSG_SYS_STATUS \<Rightarrow> do {
          s \<leftarrow> pm_idle_entry E (if buf = None then IDLE_ENTER else IDLE_EXIT) s;
          Some (s\<lparr>appId := buf \<noteq> None\<rparr>)
        }
      | NUM_MSG_NONE \<Rightarrow> Some s)"

text \<open>The part of \<open>pm_flora_handle\<close> after the connection to flora is established.\<close>

definition pm_flora_start :: "'w pm_env \<Rightarrow> 'w pm_state \<Rightarrow> 'w pm_state option" where
  "pm_flora_start E s = do {
     let s = pm_wakelock_init s;
     let (i, c) = timer_add_ok CB_power_idle_timeout 60000 0 (pm_sched s);
     pm_idle_entry E IDLE_ENTER (s\<lparr>e_power_idle_id := i, pm_sched := c\<rparr>)
   }"

definition pm_boot :: "'w \<Rightarrow> 'w pm_state" where
  "pm_boot w = \<lparr>kworld = w, g_initialized = False, g_fds = [0, 0, 0, 0], g_error = -1, g_power_device = False,
     partial_lock_total = 0, full_lock_total = 0, wakelock_count = 0, wakelock_list_head = 0,
     wl_mem = Map.empty, wl_brk = 1, chg_flag = -1, idle_status = False, appId = False,
     e_power_idle_id = 0, pm_sched = scheduler_new, flora_calls = []\<rparr>"

text \<open>\<open>main\<close>: a failing \<open>power_module_init\<close> ends the service only when its status is negative.\<close>

definition pm_main :: "'w pm_env \<Rightarrow> int \<Rightarrow> bool \<Rightarrow> 'w pm_state \<Rightarrow> 'w pm_state option" where
  "pm_main E get_module alloc_ok s =
     (let (r, s) = power_module_init get_module alloc_ok s in
      if r < 0 then Some s else pm_flora_start E (s\<lparr>pm_sched := scheduler_new\<rparr>))"

end
