(* ===== verification/PowerLocks.thy ===== *)
theory PowerLocks
  imports PowerManager
begin

text \<open>
  The linked list of wakelock names refines a list of distinct names, and the
  accounting of wakelocks built on it: when clients take and return their locks
  properly the service holds the kernel lock exactly while it should; the two
  theorems at the end show how the count goes wrong when they do not.
\<close>

section \<open>List segments\<close>

fun wl_seg :: "(nat \<Rightarrow> wakelock_node option) \<Rightarrow> nat \<Rightarrow> nat list \<Rightarrow> nat \<Rightarrow> bool" where
  "wl_seg m a [] b \<longleftrightarrow> a = b"
| "wl_seg m a (x # xs) b \<longleftrightarrow> a = x \<and> x \<noteq> 0 \<and>
     (case m x of None \<Rightarrow> False | Some n \<Rightarrow> wl_seg m (wnext n) xs b)"

lemma wl_seg_append: "wl_seg m a (xs @ ys) b \<longleftrightarrow> (\<exists>c. wl_seg m a xs c \<and> wl_seg m c ys b)"
  by (induction xs arbitrary: a) (auto split: option.splits)

lemma wl_seg_cong: "(\<And>x. x \<in> set xs \<Longrightarrow> m' x = m x) \<Longrightarrow> wl_seg m' a xs b = wl_seg m a xs b"
  by (induction xs arbitrary: a) (auto split: option.splits)

lemma wl_seg_head: "wl_seg m a xs b \<Longrightarrow> a = (if xs = [] then b else hd xs)"
  by (cases xs) auto

lemma wl_seg_nz: "wl_seg m a xs b \<Longrightarrow> 0 \<notin> set xs"
  by (induction xs arbitrary: a) (auto split: option.splits)

lemma wl_seg_mem: "wl_seg m a xs b \<Longrightarrow> x \<in> set xs \<Longrightarrow> m x \<noteq> None"
  by (induction xs arbitrary: a) (auto split: option.splits)

definition name_at :: "(nat \<Rightarrow> wakelock_node option) \<Rightarrow> nat \<Rightarrow> string" where
  "name_at m a = (case m a of None \<Rightarrow> [] | Some n \<Rightarrow> wname n)"

text \<open>\<open>wl_abs s ns\<close>: the list in memory is well formed and holds the names \<open>ns\<close>.\<close>

definition wl_shape :: "'w pm_state \<Rightarrow> nat list \<Rightarrow> bool" where
  "wl_shape s as \<longleftrightarrow> wl_seg (wl_mem s) (wakelock_list_head s) as 0 \<and> distinct as
     \<and> list_all (\<lambda>a. a < wl_brk s) as \<and> 0 < wl_brk s"

definition wl_abs :: "'w pm_state \<Rightarrow> string list \<Rightarrow> bool" where
  "wl_abs s ns \<longleftrightarrow> (\<exists>as. wl_shape s as \<and> ns = map (name_at (wl_mem s)) as)
     \<and> distinct ns \<and> wakelock_count s = int (length ns)"

lemma wl_absI:
  "wl_shape s as \<Longrightarrow> ns = map (name_at (wl_mem s)) as \<Longrightarrow> distinct ns \<Longrightarrow> wakelock_count s = int (length ns)
   \<Longrightarrow> wl_abs s ns"
  by (auto simp: wl_abs_def)

lemma seek_absent:
  "wl_seg m a as 0 \<Longrightarrow> name \<notin> set (map (name_at m) as) \<Longrightarrow>
   wl_seek m name a p = Some (0, if as = [] then p else last as)"
proof (induction as arbitrary: a p)
  case Nil
  then show ?case by (simp add: wl_seek.simps)
next
  case (Cons x as)
  then obtain n where n: "m x = Some n" "wl_seg m (wnext n) as 0" "a = x" "x \<noteq> 0" by (auto split: option.splits)
  moreover have "wname n \<noteq> name" using Cons.prems(2) n(1) by (auto simp: name_at_def)
  ultimately show ?case using Cons.IH[OF n(2)] Cons.prems(2) by (subst wl_seek.simps) auto
qed

lemma seek_present:
  "wl_seg m a (xs @ x # ys) 0 \<Longrightarrow> name \<notin> set (map (name_at m) xs) \<Longrightarrow> name_at m x = name \<Longrightarrow>
   wl_seek m name a p = Some (x, if xs = [] then p else last xs)"
proof (induction xs arbitrary: a p)
  case Nil
  then show ?case by (subst wl_seek.simps) (auto simp: name_at_def split: option.splits)
next
  case (Cons z xs)
  then obtain n where n: "m z = Some n" "wl_seg m (wnext n) (xs @ x # ys) 0" "a = z" "z \<noteq> 0"
    by (auto split: option.splits)
  moreover have "wname n \<noteq> name" using Cons.prems(2) n(1) by (auto simp: name_at_def)
  ultimately show ?case using Cons.IH[OF n(2)] Cons.prems(2,3) by (subst wl_seek.simps) auto
qed

section \<open>Adding and deleting\<close>

lemma seg_extend:
  assumes "wl_seg m a (xs @ [l]) 0" and "b \<notin> set (xs @ [l])" and "b \<noteq> 0" and "distinct (xs @ [l])" and "m l = Some n"
  shows "wl_seg (m(b \<mapsto> \<lparr>wname = name, wnext = 0\<rparr>, l \<mapsto> n\<lparr>wnext := b\<rparr>)) a ((xs @ [l]) @ [b]) 0"
proof -
  let ?m = "m(b \<mapsto> \<lparr>wname = name, wnext = 0\<rparr>, l \<mapsto> n\<lparr>wnext := b\<rparr>)"
  obtain c where c: "wl_seg m a xs c" "wl_seg m c [l] 0" using assms(1) by (auto simp: wl_seg_append)
  have "wl_seg ?m a xs c" using c(1) assms(2,4) by (subst wl_seg_cong[of xs ?m m]) auto
  moreover have "wl_seg ?m c [l, b] 0" using c(2) assms(2,3,5) by (auto split: option.splits)
  ultimately have "wl_seg ?m a (xs @ [l, b]) 0" by (auto simp: wl_seg_append)
  then show ?thesis by simp
qed

lemma seg_remove:
  assumes "wl_seg m a (xs @ l # x # ys) 0" and "distinct (xs @ l # x # ys)" and "m x = Some n" and "m l = Some p"
  shows "wl_seg ((m(l \<mapsto> p\<lparr>wnext := wnext n\<rparr>))(x := None)) a (xs @ l # ys) 0"
proof -
  let ?m = "(m(l \<mapsto> p\<lparr>wnext := wnext n\<rparr>))(x := None)"
  obtain c where c: "wl_seg m a xs c" "wl_seg m c (l # x # ys) 0" using assms(1) by (auto simp: wl_seg_append)
  have 1: "wl_seg ?m a xs c" using c(1) assms(2) by (subst wl_seg_cong[of xs ?m m]) auto
  have "wl_seg m (wnext n) ys 0" using c(2) assms(3,4) by simp
  then have "wl_seg ?m (wnext n) ys 0" using assms(2) by (subst wl_seg_cong[of ys ?m m]) auto
  then have "wl_seg ?m c (l # ys) 0" using c(2) assms(2,4) by auto
  with 1 show ?thesis by (auto simp: wl_seg_append)
qed

lemma wl_present:
  assumes "wl_abs s ns" and "name \<in> set ns"
  obtains xs x ys where "wl_shape s (xs @ x # ys)" "ns = map (name_at (wl_mem s)) (xs @ x # ys)"
    "name_at (wl_mem s) x = name" "x \<noteq> 0"
    "wl_seek (wl_mem s) name (wakelock_list_head s) p = Some (x, if xs = [] then p else last xs)"
proof -
  obtain as where as: "wl_shape s as" "ns = map (name_at (wl_mem s)) as" using assms(1) by (auto simp: wl_abs_def)
  obtain xs x ys where sp: "as = xs @ x # ys" "name_at (wl_mem s) x = name" "name \<notin> set (map (name_at (wl_mem s)) xs)"
    using assms(2) as(2) split_list_first_prop[of as "\<lambda>a. name_at (wl_mem s) a = name"] by fastforce
  have seg: "wl_seg (wl_mem s) (wakelock_list_head s) (xs @ x # ys) 0" using as(1) sp(1) by (simp add: wl_shape_def)
  have "x \<noteq> 0" using wl_seg_nz[OF seg] by auto
  then show ?thesis using that[OF _ _ sp(2) _ seek_present[OF seg sp(3,2)]] as sp(1) by blast
qed

lemma wl_absent:
  assumes "wl_abs s ns" and "name \<notin> set ns"
  obtains as where "wl_shape s as" "ns = map (name_at (wl_mem s)) as"
    "wl_seek (wl_mem s) name (wakelock_list_head s) p = Some (0, if as = [] then p else last as)"
proof -
  obtain as where as: "wl_shape s as" "ns = map (name_at (wl_mem s)) as" using assms(1) by (auto simp: wl_abs_def)
  then show ?thesis
    using that[OF as] seek_absent[of "wl_mem s" "wakelock_list_head s" as name p] assms(2) by (simp add: wl_shape_def)
qed

lemma pm_wakelock_add_present:
  assumes "wl_abs s ns" and "name \<in> set ns"
  shows "pm_wakelock_add (Some name) s = Some (int (length ns), s)"
proof -
  obtain xs x ys where "x \<noteq> 0" "wl_seek (wl_mem s) name (wakelock_list_head s) (wakelock_list_head s)
      = Some (x, if xs = [] then wakelock_list_head s else last xs)" using wl_present[OF assms] by metis
  moreover have "wakelock_count s = int (length ns)" using assms(1) by (simp add: wl_abs_def)
  ultimately show ?thesis by (simp add: pm_wakelock_add_def)
qed

lemma pm_wakelock_del_absent:
  assumes "wl_abs s ns" and "name \<notin> set ns"
  shows "pm_wakelock_del (Some name) s = Some (int (length ns), s)"
proof -
  obtain as where "wl_seek (wl_mem s) name (wakelock_list_head s) (wakelock_list_head s)
      = Some (0, if as = [] then wakelock_list_head s else last as)" using wl_absent[OF assms] by metis
  moreover have "wakelock_count s = int (length ns)" using assms(1) by (simp add: wl_abs_def)
  ultimately show ?thesis by (simp add: pm_wakelock_del_def)
qed

text \<open>What the list operations leave alone.\<close>

definition wl_only :: "'w pm_state \<Rightarrow> 'w pm_state \<Rightarrow> bool" where
  "wl_only s t \<longleftrightarrow> (\<exists>m h b c. t = s\<lparr>wl_mem := m, wakelock_list_head := h, wl_brk := b, wakelock_count := c\<rparr>)"

lemma add_memory:
  assumes "wl_shape s as"
  shows "\<exists>m. (if as = [] then Some ((wl_mem s)(wl_brk s \<mapsto> \<lparr>wname = name, wnext = 0\<rparr>))
       else do { n \<leftarrow> ((wl_mem s)(wl_brk s \<mapsto> \<lparr>wname = name, wnext = 0\<rparr>)) (last as);
                 Some ((wl_mem s)(wl_brk s \<mapsto> \<lparr>wname = name, wnext = 0\<rparr>, last as \<mapsto> n\<lparr>wnext := wl_brk s\<rparr>)) }) = Some m
     \<and> wl_seg m (if as = [] then wl_brk s else wakelock_list_head s) (as @ [wl_brk s]) 0
     \<and> map (name_at m) (as @ [wl_brk s]) = map (name_at (wl_mem s)) as @ [name]"
proof (cases as rule: rev_cases)
  case Nil
  then show ?thesis using assms by (simp add: wl_shape_def name_at_def)
next
  case (snoc xs l)
  let ?b = "wl_brk s"
  have sh: "wl_seg (wl_mem s) (wakelock_list_head s) (xs @ [l]) 0" "distinct (xs @ [l])" "?b \<notin> set (xs @ [l])" "?b \<noteq> 0"
    using assms snoc by (auto simp: wl_shape_def list_all_iff)
  obtain n where n: "wl_mem s l = Some n" using wl_seg_mem[OF sh(1), of l] by auto
  let ?m = "(wl_mem s)(?b \<mapsto> \<lparr>wname = name, wnext = 0\<rparr>, l \<mapsto> n\<lparr>wnext := ?b\<rparr>)"
  have "name_at ?m x = name_at (wl_mem s) x" if "x \<in> set xs" for x
    using that sh(2,3) by (auto simp: name_at_def)
  moreover have "name_at ?m l = name_at (wl_mem s) l" "name_at ?m ?b = name" using n sh(3) by (auto simp: name_at_def)
  ultimately have "map (name_at ?m) (as @ [?b]) = map (name_at (wl_mem s)) as @ [name]" using snoc by simp
  moreover have "wl_seg ?m (wakelock_list_head s) (as @ [?b]) 0"
    using seg_extend[OF sh(1,3,4,2) n, of name] snoc by simp
  ultimately show ?thesis using snoc n sh(3) by auto
qed

lemma pm_wakelock_add_absent:
  assumes "wl_abs s ns" and "name \<notin> set ns"
  shows "\<exists>t. pm_wakelock_add (Some name) s = Some (int (length ns) + 1, t) \<and> wl_abs t (ns @ [name]) \<and> wl_only s t"
proof -
  obtain as where as: "wl_shape s as" "ns = map (name_at (wl_mem s)) as"
    "wl_seek (wl_mem s) name (wakelock_list_head s) (wakelock_list_head s)
       = Some (0, if as = [] then wakelock_list_head s else last as)" using wl_absent[OF assms] by metis
  let ?b = "wl_brk s" and ?h = "if as = [] then wl_brk s else wakelock_list_head s"
  have seg: "wl_seg (wl_mem s) (wakelock_list_head s) as 0" using as(1) by (simp add: wl_shape_def)
  have h0: "wakelock_list_head s = 0 \<longleftrightarrow> as = []" "as \<noteq> [] \<longrightarrow> last as \<noteq> 0"
    using wl_seg_head[OF seg] wl_seg_nz[OF seg] by (metis hd_in_set, metis last_in_set)
  have cnt: "wakelock_count s = int (length as)" using assms(1) as(2) by (simp add: wl_abs_def)
  obtain m where m: "(if as = [] then Some ((wl_mem s)(?b \<mapsto> \<lparr>wname = name, wnext = 0\<rparr>))
       else do { n \<leftarrow> ((wl_mem s)(?b \<mapsto> \<lparr>wname = name, wnext = 0\<rparr>)) (last as);
                 Some ((wl_mem s)(?b \<mapsto> \<lparr>wname = name, wnext = 0\<rparr>, last as \<mapsto> n\<lparr>wnext := ?b\<rparr>)) }) = Some m"
    "wl_seg m ?h (as @ [?b]) 0" "map (name_at m) (as @ [?b]) = map (name_at (wl_mem s)) as @ [name]"
    using add_memory[OF as(1), of name] by blast
  let ?t = "s\<lparr>wl_brk := Suc ?b, wakelock_count := int (length as) + 1, wakelock_list_head := ?h, wl_mem := m\<rparr>"
  have "pm_wakelock_add (Some name) s = Some (int (length ns) + 1, ?t)"
    using as(2,3) m(1) h0 cnt by (cases "as = []") (simp_all add: pm_wakelock_add_def Let_def)
  moreover have "wl_shape ?t (as @ [?b])"
    using m(2) as(1) by (auto simp: wl_shape_def list_all_iff)
  then have "wl_abs ?t (ns @ [name])"
    using m(3) as(2) cnt assms by (intro wl_absI[of _ "as @ [?b]"]) (simp_all add: wl_abs_def)
  moreover have "wl_only s ?t"
    unfolding wl_only_def by (intro exI[of _ m] exI[of _ ?h] exI[of _ "Suc ?b"] exI[of _ "int (length as) + 1"]) simp
  ultimately show ?thesis by blast
qed

lemma del_memory:
  assumes sh: "wl_shape s (xs @ x # ys)" and n: "wl_mem s x = Some n"
  shows "\<exists>m h. (if x = wakelock_list_head s then Some (s\<lparr>wakelock_list_head := wnext n\<rparr>)
       else do { p \<leftarrow> wl_mem s (if xs = [] then wakelock_list_head s else last xs);
                 Some (s\<lparr>wl_mem := (wl_mem s)((if xs = [] then wakelock_list_head s else last xs) \<mapsto> p\<lparr>wnext := wnext n\<rparr>)\<rparr>) })
       = Some (s\<lparr>wl_mem := m, wakelock_list_head := h\<rparr>)
     \<and> wl_seg (m(x := None)) h (xs @ ys) 0
     \<and> map (name_at (m(x := None))) (xs @ ys) = map (name_at (wl_mem s)) (xs @ ys)"
proof (cases xs rule: rev_cases)
  case Nil
  have seg: "wl_seg (wl_mem s) (wnext n) ys 0" "x = wakelock_list_head s" "x \<notin> set ys"
    using sh n Nil by (auto simp: wl_shape_def)
  have "wl_seg ((wl_mem s)(x := None)) (wnext n) ys 0" using seg by (subst wl_seg_cong[of ys _ "wl_mem s"]) auto
  then show ?thesis using Nil seg
    by (intro exI[of _ "wl_mem s"] exI[of _ "wnext n"]) (auto simp: name_at_def)
next
  case (snoc zs l)
  have seg: "wl_seg (wl_mem s) (wakelock_list_head s) (zs @ l # x # ys) 0" "distinct (zs @ l # x # ys)"
    using sh snoc by (auto simp: wl_shape_def)
  obtain p where p: "wl_mem s l = Some p" using wl_seg_mem[OF seg(1), of l] by auto
  have hd: "x \<noteq> wakelock_list_head s" using wl_seg_head[OF seg(1)] seg(2) by (cases zs) auto
  let ?m = "(wl_mem s)(l \<mapsto> p\<lparr>wnext := wnext n\<rparr>)"
  have nm: "name_at (?m(x := None)) y = name_at (wl_mem s) y" if "y \<noteq> x" for y
    using that p by (auto simp: name_at_def)
  have "map (name_at (?m(x := None))) (xs @ ys) = map (name_at (wl_mem s)) (xs @ ys)"
    using seg(2) snoc by (intro map_cong refl nm) auto
  then show ?thesis using seg_remove[OF seg n p] snoc p hd
    by (intro exI[of _ ?m] exI[of _ "wakelock_list_head s"]) simp
qed

lemma pm_wakelock_del_present:
  assumes "wl_abs s ns" and "name \<in> set ns"
  shows "\<exists>t. pm_wakelock_del (Some name) s = Some (int (length ns) - 1, t) \<and> wl_abs t (remove1 name ns) \<and> wl_only s t"
proof -
  obtain xs x ys where sp: "wl_shape s (xs @ x # ys)" "ns = map (name_at (wl_mem s)) (xs @ x # ys)"
    "name_at (wl_mem s) x = name" "x \<noteq> 0"
    "wl_seek (wl_mem s) name (wakelock_list_head s) (wakelock_list_head s)
       = Some (x, if xs = [] then wakelock_list_head s else last xs)" using wl_present[OF assms] by metis
  have seg: "wl_seg (wl_mem s) (wakelock_list_head s) (xs @ x # ys) 0" using sp(1) by (simp add: wl_shape_def)
  obtain n where n: "wl_mem s x = Some n" using wl_seg_mem[OF seg, of x] by auto
  obtain m h where m: "(if x = wakelock_list_head s then Some (s\<lparr>wakelock_list_head := wnext n\<rparr>)
       else do { p \<leftarrow> wl_mem s (if xs = [] then wakelock_list_head s else last xs);
                 Some (s\<lparr>wl_mem := (wl_mem s)((if xs = [] then wakelock_list_head s else last xs) \<mapsto> p\<lparr>wnext := wnext n\<rparr>)\<rparr>) })
       = Some (s\<lparr>wl_mem := m, wakelock_list_head := h\<rparr>)"
    "wl_seg (m(x := None)) h (xs @ ys) 0"
    "map (name_at (m(x := None))) (xs @ ys) = map (name_at (wl_mem s)) (xs @ ys)"
    using del_memory[OF sp(1) n] by blast
  let ?t = "s\<lparr>wl_mem := m(x := None), wakelock_list_head := h, wakelock_count := wakelock_count s - 1\<rparr>"
  have cnt: "wakelock_count s = int (length ns)" and dist: "distinct ns" using assms(1) by (simp_all add: wl_abs_def)
  have "pm_wakelock_del (Some name) s = Some (int (length ns) - 1, ?t)"
    using sp(4,5) n m(1) cnt by (simp add: pm_wakelock_del_def)
  moreover have rem: "remove1 name ns = map (name_at (wl_mem s)) (xs @ ys)"
    using dist sp(2,3) by (simp add: remove1_append)
  have "wl_shape ?t (xs @ ys)" using m(2) sp(1) by (auto simp: wl_shape_def)
  then have "wl_abs ?t (remove1 name ns)"
    using m(3) rem cnt dist sp(2) by (intro wl_absI[of _ "xs @ ys"]) (simp_all add: distinct_remove1 length_remove1 assms(2))
  moreover have "wl_only s ?t"
    unfolding wl_only_def
    by (intro exI[of _ "m(x := None)"] exI[of _ h] exI[of _ "wl_brk s"] exI[of _ "wakelock_count s - 1"]) simp
  ultimately show ?thesis by blast
qed

lemma wl_names_seg: "wl_seg m a as 0 \<Longrightarrow> wl_names m a = Some (map (name_at m) as)"
proof (induction as arbitrary: a)
  case (Cons x as)
  then obtain n where "m x = Some n" "wl_seg m (wnext n) as 0" "a = x" "x \<noteq> 0" by (auto split: option.splits)
  then show ?case using Cons.IH by (subst wl_names.simps) (simp add: name_at_def)
qed (simp add: wl_names.simps)

lemma pm_wakelock_scan_abs: "wl_abs s ns \<Longrightarrow> pm_wakelock_scan s = Some (ns, int (length ns))"
  by (auto simp: wl_abs_def wl_shape_def pm_wakelock_scan_def wl_names_seg)

section \<open>Accounting\<close>

text \<open>The four files of \<open>/sys/power\<close> can be opened, and a write is accepted with the number of
  bytes written.  (The kernel refuses a release only for a name it has never seen.)\<close>

definition kernel_accepts :: "'w pm_env \<Rightarrow> bool" where
  "kernel_accepts E \<longleftrightarrow> (\<forall>p w. fst (pk_open E p w) \<ge> 0)
     \<and> (\<forall>fd txt w. txt \<noteq> [] \<longrightarrow> fst (pk_write E fd txt w) = int (length txt))"

definition hal_ready :: "'w pm_state \<Rightarrow> bool" where
  "hal_ready s \<longleftrightarrow> (g_initialized s \<longrightarrow> g_error s = 0)"

lemma open_from_ok:
  "kernel_accepts E \<Longrightarrow> \<exists>w f. open_from E ps i s = (0, s\<lparr>kworld := w, g_fds := f, g_error := 0\<rparr>)"
proof (induction ps arbitrary: i s)
  case Nil
  then show ?case by (intro exI[of _ "kworld s"] exI[of _ "g_fds s"]) simp
next
  case (Cons p ps)
  let ?s = "s\<lparr>kworld := snd (pk_open E p (kworld s)), g_fds := (g_fds s)[i := fst (pk_open E p (kworld s))]\<rparr>"
  have "\<not> fst (pk_open E p (kworld s)) < 0" using Cons.prems by (simp add: kernel_accepts_def not_less)
  moreover obtain w f where "open_from E ps (Suc i) ?s = (0, ?s\<lparr>kworld := w, g_fds := f, g_error := 0\<rparr>)"
    using Cons.IH[OF Cons.prems] by blast
  ultimately show ?case by (intro exI[of _ w] exI[of _ f]) (simp add: kext_eq Let_def)
qed

lemma initialize_fds_ok:
  assumes "kernel_accepts E" and "hal_ready s"
  shows "\<exists>w f. initialize_fds E s = s\<lparr>kworld := w, g_fds := f, g_error := 0, g_initialized := True\<rparr>"
proof (cases "g_initialized s")
  case True
  then show ?thesis using assms(2)
    by (intro exI[of _ "kworld s"] exI[of _ "g_fds s"]) (simp add: initialize_fds_def hal_ready_def)
next
  case False
  obtain w f where "open_from E POWER_PATHS 0 s = (0, s\<lparr>kworld := w, g_fds := f, g_error := 0\<rparr>)"
    using open_from_ok[OF assms(1)] by blast
  then show ?thesis using False
    by (intro exI[of _ w] exI[of _ f]) (simp add: initialize_fds_def open_file_descriptors_def)
qed

text \<open>The effect of a request or release on the service.\<close>

definition hal_step :: "'w pm_state \<Rightarrow> 'w pm_state \<Rightarrow> bool" where
  "hal_step s t \<longleftrightarrow> (\<exists>w f. t = s\<lparr>kworld := w, g_fds := f, g_error := 0, g_initialized := True\<rparr>)"

lemma wakelock_request_ok:
  assumes "kernel_accepts E" and "hal_ready s" and "g_power_device s" and "i \<noteq> []"
  shows "\<exists>t. power_wakelock_request E 1 i s = (0, t\<lparr>partial_lock_total := partial_lock_total s + 1\<rparr>) \<and> hal_step s t"
proof -
  obtain w f where u: "initialize_fds E s = s\<lparr>kworld := w, g_fds := f, g_error := 0, g_initialized := True\<rparr>"
    using initialize_fds_ok[OF assms(1,2)] by blast
  have "fst (pk_write E (f ! 0) i w) > 0" using assms(1,4) by (simp add: kernel_accepts_def)
  then show ?thesis
    using assms(3) u unfolding hal_step_def
    by (intro exI[of _ "s\<lparr>kworld := snd (pk_write E (f ! 0) i w), g_fds := f, g_error := 0, g_initialized := True\<rparr>"])
      (auto simp: power_wakelock_request_def acquire_wake_lock_def PARTIAL_WAKE_LOCK_def kext_eq Let_def)
qed

lemma wakelock_release_ok:
  assumes "kernel_accepts E" and "hal_ready s" and "g_power_device s" and "i \<noteq> []"
  shows "\<exists>t. power_wakelock_release E i s = (0, t\<lparr>partial_lock_total := partial_lock_total s - 1\<rparr>) \<and> hal_step s t"
proof -
  obtain w f where u: "initialize_fds E s = s\<lparr>kworld := w, g_fds := f, g_error := 0, g_initialized := True\<rparr>"
    using initialize_fds_ok[OF assms(1,2)] by blast
  have "fst (pk_write E (f ! 1) i w) > 0" using assms(1,4) by (simp add: kernel_accepts_def)
  then show ?thesis
    using assms(3) u unfolding hal_step_def
    by (intro exI[of _ "s\<lparr>kworld := snd (pk_write E (f ! 1) i w), g_fds := f, g_error := 0, g_initialized := True\<rparr>"])
      (auto simp: power_wakelock_release_def release_wake_lock_def kext_eq Let_def)
qed

text \<open>\<open>acct s ns\<close>: clients hold the locks \<open>ns\<close>, and the count of kernel locks is one for them
  together and one for the charger.\<close>

definition locks_wanted :: "string list \<Rightarrow> int \<Rightarrow> int" where
  "locks_wanted ns chg = (if ns = [] then 0 else 1) + (if chg = 1 then 1 else 0)"

definition pm_ready :: "'w pm_state \<Rightarrow> string list \<Rightarrow> bool" where
  "pm_ready s ns \<longleftrightarrow> wl_abs s ns \<and> hal_ready s \<and> g_power_device s"

definition acct :: "'w pm_state \<Rightarrow> string list \<Rightarrow> bool" where
  "acct s ns \<longleftrightarrow> pm_ready s ns \<and> partial_lock_total s = locks_wanted ns (chg_flag s)"

lemma pm_ready_hal: "hal_step s t \<Longrightarrow> pm_ready s ns \<Longrightarrow> pm_ready (t\<lparr>partial_lock_total := n\<rparr>) ns \<and> chg_flag t = chg_flag s"
  by (auto simp: hal_step_def pm_ready_def wl_abs_def wl_shape_def hal_ready_def)

lemma pm_ready_wl:
  "wl_only s t \<Longrightarrow> pm_ready s ns \<Longrightarrow> wl_abs t ns' \<Longrightarrow>
     pm_ready t ns' \<and> chg_flag t = chg_flag s \<and> partial_lock_total t = partial_lock_total s"
  by (auto simp: wl_only_def pm_ready_def hal_ready_def)

lemma names_nonempty: "PMS_WAKELOCK \<noteq> []" "CHG_WAKELOCK \<noteq> []"
  by (simp_all add: PMS_WAKELOCK_def CHG_WAKELOCK_def)

lemma request_ready:
  assumes "kernel_accepts E" and "pm_ready s ns" and "i \<noteq> []"
  shows "\<exists>t. snd (power_wakelock_request E 1 i s) = t \<and> pm_ready t ns \<and> chg_flag t = chg_flag s
    \<and> partial_lock_total t = partial_lock_total s + 1"
  using wakelock_request_ok[OF assms(1) _ _ assms(3), of s] assms(2) pm_ready_hal[OF _ assms(2)]
  by (fastforce simp: pm_ready_def)

lemma release_ready:
  assumes "kernel_accepts E" and "pm_ready s ns" and "i \<noteq> []"
  shows "\<exists>t. snd (power_wakelock_release E i s) = t \<and> pm_ready t ns \<and> chg_flag t = chg_flag s
    \<and> partial_lock_total t = partial_lock_total s - 1"
  using wakelock_release_ok[OF assms(1) _ _ assms(3), of s] assms(2) pm_ready_hal[OF _ assms(2)]
  by (fastforce simp: pm_ready_def)

text \<open>Messages of the clients.\<close>

datatype lock_op = Take string | Drop string | Charger bool

definition lock_message :: "string \<Rightarrow> string \<Rightarrow> json" where
  "lock_message command name = JObj [(''wakelock'', JStr command), (''name'', JStr name)]"

definition do_op :: "'w pm_env \<Rightarrow> lock_op \<Rightarrow> 'w pm_state \<Rightarrow> 'w pm_state option" where
  "do_op E op s =
     map_option snd (case op of
        Take n \<Rightarrow> pm_wakelock_command_handle E (lock_message ''ON'' n) s
      | Drop n \<Rightarrow> pm_wakelock_command_handle E (lock_message ''OFF'' n) s
      | Charger b \<Rightarrow> pm_battery_command_handle E
          (JObj [(''batChargingOnline'', JStr (if b then ''true'' else ''false''))]) s)"

fun do_ops :: "'w pm_env \<Rightarrow> lock_op list \<Rightarrow> 'w pm_state \<Rightarrow> 'w pm_state option" where
  "do_ops E [] s = Some s"
| "do_ops E (op # ops) s = do { s \<leftarrow> do_op E op s; do_ops E ops s }"

lemma cstr_words: "cstr ''ON'' = ''ON''" "cstr ''OFF'' = ''OFF''" "cstr ''true'' = ''true''" "cstr ''false'' = ''false''"
  by code_simp+

lemma take_eq:
  assumes "cstr n = n"
  shows "do_op E (Take n) s = do { (r, s) \<leftarrow> pm_wakelock_add (Some n) s;
     Some (if r = 1 then snd (power_wakelock_request E 1 PMS_WAKELOCK s) else s) }"
  using assms by (cases "pm_wakelock_add (Some n) s")
    (simp_all add: do_op_def pm_wakelock_command_handle_def lock_message_def get_name_def json_object_get_string_def
      cstr_words split_def)

lemma drop_eq:
  assumes "cstr n = n"
  shows "do_op E (Drop n) s = do { (r, s) \<leftarrow> pm_wakelock_del (Some n) s;
     Some (if r = 0 then snd (power_wakelock_release E PMS_WAKELOCK s) else s) }"
  using assms by (cases "pm_wakelock_del (Some n) s")
    (simp_all add: do_op_def pm_wakelock_command_handle_def lock_message_def get_name_def json_object_get_string_def
      cstr_words split_def)

lemma charger_eq:
  "do_op E (Charger b) s = Some (if b \<and> chg_flag s \<noteq> 1 then snd (power_wakelock_request E 1 CHG_WAKELOCK (s\<lparr>chg_flag := 1\<rparr>))
     else if \<not> b \<and> chg_flag s = 1 then snd (power_wakelock_release E CHG_WAKELOCK (s\<lparr>chg_flag := 0\<rparr>)) else s)"
  by (cases b) (simp_all add: do_op_def pm_battery_command_handle_def json_object_get_string_def cstr_words)

text \<open>Taking and returning a lock, in every situation.\<close>

lemma take_absent:
  assumes E: "kernel_accepts E" and s: "pm_ready s ns" and n: "n \<notin> set ns" "cstr n = n"
  shows "\<exists>t. do_op E (Take n) s = Some t \<and> pm_ready t (ns @ [n]) \<and> chg_flag t = chg_flag s
    \<and> partial_lock_total t = partial_lock_total s + (if ns = [] then 1 else 0)"
proof -
  have "wl_abs s ns" using s by (simp add: pm_ready_def)
  then obtain u where u: "pm_wakelock_add (Some n) s = Some (int (length ns) + 1, u)" "wl_abs u (ns @ [n])" "wl_only s u"
    using pm_wakelock_add_absent[OF _ n(1)] by blast
  note ru = pm_ready_wl[OF u(3) s u(2)]
  show ?thesis
    using u(1) ru request_ready[OF E conjunct1[OF ru] names_nonempty(1)] by (cases ns) (auto simp: take_eq[OF n(2)])
qed

lemma take_present:
  assumes E: "kernel_accepts E" and s: "pm_ready s ns" and n: "n \<in> set ns" "cstr n = n"
  shows "\<exists>t. do_op E (Take n) s = Some t \<and> pm_ready t ns \<and> chg_flag t = chg_flag s
    \<and> partial_lock_total t = partial_lock_total s + (if length ns = 1 then 1 else 0)"
proof -
  have "pm_wakelock_add (Some n) s = Some (int (length ns), s)"
    using s by (intro pm_wakelock_add_present n) (simp add: pm_ready_def)
  then show ?thesis using s request_ready[OF E s names_nonempty(1)] by (auto simp: take_eq[OF n(2)])
qed

lemma drop_present:
  assumes E: "kernel_accepts E" and s: "pm_ready s ns" and n: "n \<in> set ns" "cstr n = n"
  shows "\<exists>t. do_op E (Drop n) s = Some t \<and> pm_ready t (remove1 n ns) \<and> chg_flag t = chg_flag s
    \<and> partial_lock_total t = partial_lock_total s - (if length ns = 1 then 1 else 0)"
proof -
  have "wl_abs s ns" using s by (simp add: pm_ready_def)
  then obtain u where u: "pm_wakelock_del (Some n) s = Some (int (length ns) - 1, u)" "wl_abs u (remove1 n ns)" "wl_only s u"
    using pm_wakelock_del_present[OF _ n(1)] by blast
  note ru = pm_ready_wl[OF u(3) s u(2)]
  show ?thesis
    using u(1) ru release_ready[OF E conjunct1[OF ru] names_nonempty(1)] by (auto simp: drop_eq[OF n(2)])
qed

lemma drop_absent:
  assumes E: "kernel_accepts E" and s: "pm_ready s ns" and n: "n \<notin> set ns" "cstr n = n"
  shows "\<exists>t. do_op E (Drop n) s = Some t \<and> pm_ready t ns \<and> chg_flag t = chg_flag s
    \<and> partial_lock_total t = partial_lock_total s - (if ns = [] then 1 else 0)"
proof -
  have "pm_wakelock_del (Some n) s = Some (int (length ns), s)"
    using s by (intro pm_wakelock_del_absent n) (simp add: pm_ready_def)
  then show ?thesis using s release_ready[OF E s names_nonempty(1)] by (auto simp: drop_eq[OF n(2)])
qed

lemma charger_step:
  assumes E: "kernel_accepts E" and s: "acct s ns"
  shows "\<exists>t. do_op E (Charger b) s = Some t \<and> acct t ns \<and> (chg_flag t = 1 \<longleftrightarrow> b)"
proof -
  have r: "pm_ready (s\<lparr>chg_flag := c\<rparr>) ns" for c
    using s by (auto simp: acct_def pm_ready_def wl_abs_def wl_shape_def hal_ready_def)
  show ?thesis
    using s request_ready[OF E r[of 1] names_nonempty(2)] release_ready[OF E r[of 0] names_nonempty(2)]
    by (auto simp: charger_eq acct_def locks_wanted_def)
qed

text \<open>Clients that take only locks they do not hold and return only locks they hold; the
  result is the list of locks held afterwards.\<close>

fun held_after :: "lock_op list \<Rightarrow> string list \<Rightarrow> string list option" where
  "held_after [] ns = Some ns"
| "held_after (Take n # ops) ns = (if n \<in> set ns \<or> cstr n \<noteq> n then None else held_after ops (ns @ [n]))"
| "held_after (Drop n # ops) ns = (if n \<notin> set ns \<or> cstr n \<noteq> n then None else held_after ops (remove1 n ns))"
| "held_after (Charger b # ops) ns = held_after ops ns"

lemma disciplined_ops:
  assumes E: "kernel_accepts E"
  shows "acct s ns \<Longrightarrow> held_after ops ns = Some ns' \<Longrightarrow> \<exists>t. do_ops E ops s = Some t \<and> acct t ns'"
proof (induction ops ns arbitrary: s rule: held_after.induct)
  case (2 n ops ns)
  then have n: "n \<notin> set ns" "cstr n = n" by (auto split: if_splits)
  obtain t where t: "do_op E (Take n) s = Some t" "pm_ready t (ns @ [n])" "chg_flag t = chg_flag s"
    "partial_lock_total t = partial_lock_total s + (if ns = [] then 1 else 0)"
    using take_absent[OF E _ n, of s] "2.prems"(1) by (auto simp: acct_def)
  then have "acct t (ns @ [n])" using "2.prems"(1) by (simp add: acct_def locks_wanted_def)
  then show ?case using "2.IH"[of t] t(1) "2.prems"(2) n by simp
next
  case (3 n ops ns)
  then have n: "n \<in> set ns" "cstr n = n" by (auto split: if_splits)
  obtain t where t: "do_op E (Drop n) s = Some t" "pm_ready t (remove1 n ns)" "chg_flag t = chg_flag s"
    "partial_lock_total t = partial_lock_total s - (if length ns = 1 then 1 else 0)"
    using drop_present[OF E _ n, of s] "3.prems"(1) by (auto simp: acct_def)
  have "length (remove1 n ns) = length ns - 1" using n(1) by (simp add: length_remove1)
  then have "remove1 n ns = [] \<longleftrightarrow> length ns = 1" using n(1) by (cases ns) auto
  moreover have "ns \<noteq> []" using n(1) by auto
  ultimately have "acct t (remove1 n ns)" using t "3.prems"(1) by (simp add: acct_def locks_wanted_def)
  then show ?case using "3.IH"[of t] t(1) "3.prems"(2) n by simp
next
  case (4 b ops ns)
  then show ?case using charger_step[OF E "4.prems"(1), of b] by fastforce
qed simp

text \<open>Nothing in the service changes the count of full locks.\<close>

lemma hal_full: "full_lock_total (snd (power_wakelock_request E l i s)) = full_lock_total s"
  "full_lock_total (snd (power_wakelock_release E i s)) = full_lock_total s"
proof -
  have o: "full_lock_total (snd (open_from E ps k u)) = full_lock_total u" for ps k u
    by (induction ps arbitrary: k u) (simp_all add: kext_eq Let_def)
  have i: "full_lock_total (initialize_fds E u) = full_lock_total u" for u
    using o[of POWER_PATHS 0 u] by (simp add: initialize_fds_def open_file_descriptors_def split_def Let_def)
  show "full_lock_total (snd (power_wakelock_request E l i s)) = full_lock_total s"
    by (simp add: power_wakelock_request_def acquire_wake_lock_def kext_eq Let_def i)
  show "full_lock_total (snd (power_wakelock_release E i s)) = full_lock_total s"
    by (simp add: power_wakelock_release_def release_wake_lock_def kext_eq Let_def i)
qed

lemma list_full:
  "pm_wakelock_add n s = Some (r, t) \<Longrightarrow> full_lock_total t = full_lock_total s"
  "pm_wakelock_del n s = Some (r, t) \<Longrightarrow> full_lock_total t = full_lock_total s"
  by (auto simp: pm_wakelock_add_def pm_wakelock_del_def Let_def
      split: option.splits Option.bind_splits if_splits)

lemma do_op_full: "do_op E op s = Some t \<Longrightarrow> full_lock_total t = full_lock_total s"
  by (cases op) (auto simp: do_op_def pm_wakelock_command_handle_def pm_battery_command_handle_def hal_full
      dest!: list_full split: option.splits Option.bind_splits if_splits)

lemma do_ops_full: "do_ops E ops s = Some t \<Longrightarrow> full_lock_total t = full_lock_total s"
  by (induction ops arbitrary: s) (auto dest: do_op_full split: Option.bind_splits)

section \<open>Properties of the power manager\<close>

text \<open>A kernel that accepts everything, and the service after start-up.\<close>

definition lab_kernel :: "unit pm_env" where
  "lab_kernel = \<lparr>pk_open = (\<lambda>_ w. (3, w)), pk_write = (\<lambda>_ txt w. (int (length txt), w)),
     pk_parse = (\<lambda>_. JNull), pk_text = (\<lambda>_. [])\<rparr>"

definition lab_service :: "unit pm_state" where
  "lab_service = (pm_boot ())\<lparr>g_power_device := True\<rparr>"

lemma lab_kernel_accepts: "kernel_accepts lab_kernel"
  by (simp add: kernel_accepts_def lab_kernel_def)

lemma lab_acct: "acct lab_service []"
  by (simp add: acct_def pm_ready_def wl_abs_def wl_shape_def hal_ready_def locks_wanted_def lab_service_def pm_boot_def)

lemma cstr_a: "cstr ''a'' = ''a''" by code_simp

lemma int_length_remove1: "n \<in> set ns \<Longrightarrow> int (length (remove1 n ns)) = int (length ns) - 1"
  by (induction ns) auto

text \<open>C20. The linked list of wakelocks implements a list of distinct names: adding a name
  appends it unless it is there, deleting removes it, and the count both return is the
  number of names.\<close>

theorem wakelock_list_refines:
  assumes "wl_abs s ns"
  shows "\<exists>t u. pm_wakelock_add (Some n) s = Some (int (length (if n \<in> set ns then ns else ns @ [n])), t)
    \<and> wl_abs t (if n \<in> set ns then ns else ns @ [n])
    \<and> pm_wakelock_del (Some n) s = Some (int (length (remove1 n ns)), u) \<and> wl_abs u (remove1 n ns)"
proof (cases "n \<in> set ns")
  case True
  obtain u where "pm_wakelock_del (Some n) s = Some (int (length ns) - 1, u)" "wl_abs u (remove1 n ns)"
    using pm_wakelock_del_present[OF assms True] by blast
  then show ?thesis
    using pm_wakelock_add_present[OF assms True] assms True by (simp add: int_length_remove1)
next
  case False
  obtain t where "pm_wakelock_add (Some n) s = Some (int (length ns) + 1, t)" "wl_abs t (ns @ [n])"
    using pm_wakelock_add_absent[OF assms False] by blast
  then show ?thesis
    using pm_wakelock_del_absent[OF assms False] assms False by (simp add: remove1_idem)
qed

theorem wakelock_list_refines_witness: "\<exists>t. pm_wakelock_add (Some ''a'') lab_service = Some (1, t) \<and> wl_abs t [''a'']"
  using wakelock_list_refines[of lab_service "[]" "''a''"] lab_acct by (auto simp: acct_def pm_ready_def)

text \<open>C21. When clients take only locks they do not hold and return only locks they hold, the
  service never crashes and its lock state is \<open>NO_LOCK_STATE\<close> exactly when no client holds a
  lock and the charger is off.\<close>

theorem lock_accounting:
  assumes "kernel_accepts E" and "acct s ns" and "held_after ops ns = Some ns'" and "full_lock_total s = 0"
  shows "\<exists>t. do_ops E ops s = Some t \<and> wl_abs t ns'
    \<and> (power_lock_state_poll t = NO_LOCK_STATE \<longleftrightarrow> ns' = [] \<and> chg_flag t \<noteq> 1)"
proof -
  obtain t where t: "do_ops E ops s = Some t" "acct t ns'" using disciplined_ops[OF assms(1-3)] by blast
  have "full_lock_total t = 0" using do_ops_full[OF t(1)] assms(4) by simp
  with t show ?thesis by (auto simp: acct_def pm_ready_def power_lock_state_poll_def locks_wanted_def)
qed

theorem lock_accounting_witness:
  "\<exists>t. do_ops lab_kernel [Take ''a'', Charger True, Drop ''a''] lab_service = Some t
     \<and> (power_lock_state_poll t = NO_LOCK_STATE \<longleftrightarrow> chg_flag t \<noteq> 1)"
  using lock_accounting[OF lab_kernel_accepts lab_acct, of "[Take ''a'', Charger True, Drop ''a'']" "[]"]
  by (auto simp: cstr_a lab_service_def pm_boot_def)

text \<open>Taking a lock twice counts twice but is returned once: afterwards no client holds a
  lock and the count of the service is still one above the locks that are wanted.\<close>

theorem double_take_leaks_lock:
  assumes E: "kernel_accepts E" and s: "acct s []" and n: "cstr n = n"
  shows "\<exists>t. do_ops E [Take n, Take n, Drop n] s = Some t \<and> wl_abs t []
    \<and> partial_lock_total t = locks_wanted [] (chg_flag t) + 1"
proof -
  obtain t where t: "do_op E (Take n) s = Some t" "pm_ready t [n]" "chg_flag t = chg_flag s"
    "partial_lock_total t = partial_lock_total s + 1"
    using take_absent[OF E _ _ n, of s "[]"] s by (auto simp: acct_def)
  obtain u where u: "do_op E (Take n) t = Some u" "pm_ready u [n]" "chg_flag u = chg_flag t"
    "partial_lock_total u = partial_lock_total t + 1"
    using take_present[OF E t(2) _ n] by auto
  obtain v where v: "do_op E (Drop n) u = Some v" "pm_ready v []" "chg_flag v = chg_flag u"
    "partial_lock_total v = partial_lock_total u - 1"
    using drop_present[OF E u(2) _ n] by auto
  show ?thesis using t u v s by (auto simp: acct_def pm_ready_def)
qed

theorem double_take_leaks_lock_witness:
  "\<exists>t. do_ops lab_kernel [Take ''a'', Take ''a'', Drop ''a''] lab_service = Some t
     \<and> partial_lock_total t = locks_wanted [] (chg_flag t) + 1"
  using double_take_leaks_lock[OF lab_kernel_accepts lab_acct cstr_a] by blast

text \<open>Returning a lock nobody holds takes the count below zero; a client that then takes
  a lock is not counted, and a forced sleep goes to the kernel while its lock is held.\<close>

theorem stray_drop_lets_system_sleep:
  assumes E: "kernel_accepts E" and s: "acct s []" "chg_flag s \<noteq> 1" "full_lock_total s = 0" and n: "cstr n = n"
  shows "\<exists>t. do_ops E [Drop n, Take n] s = Some t \<and> wl_abs t [n]
    \<and> pm_sleep_command_handle E (JObj [(''sleep'', JStr ''ON'')]) t = Some (0, snd (power_sleep_request E SLEEP_ON t))"
proof -
  obtain t where t: "do_op E (Drop n) s = Some t" "pm_ready t []" "chg_flag t = chg_flag s"
    "partial_lock_total t = partial_lock_total s - 1"
    using drop_absent[OF E _ _ n, of s "[]"] s by (auto simp: acct_def)
  obtain u where u: "do_op E (Take n) t = Some u" "pm_ready u [n]"
    "partial_lock_total u = partial_lock_total t + 1"
    using take_absent[OF E t(2) _ n] by auto
  have "full_lock_total u = full_lock_total s" using do_op_full[OF t(1)] do_op_full[OF u(1)] by simp
  then have "power_lock_state_poll u = NO_LOCK_STATE"
    using u(3) t(4) s by (simp add: power_lock_state_poll_def acct_def locks_wanted_def)
  then show ?thesis
    using t(1) u(1,2) by (auto simp: pm_sleep_command_handle_def json_object_get_string_def cstr_words pm_ready_def)
qed

theorem stray_drop_lets_system_sleep_witness:
  "\<exists>t. do_ops lab_kernel [Drop ''a'', Take ''a''] lab_service = Some t \<and> wl_abs t [''a'']"
  using stray_drop_lets_system_sleep[OF lab_kernel_accepts lab_acct _ _ cstr_a]
  by (auto simp: lab_service_def pm_boot_def)

text \<open>A forced sleep leaves everything as it is while the service counts a lock.\<close>

theorem force_sleep_respects_locks:
  assumes "power_lock_state_poll s \<noteq> NO_LOCK_STATE" and "pm_sleep_command_handle E obj s = Some (r, t)"
  shows "t = s"
  using assms by (auto simp: pm_sleep_command_handle_def split: if_splits option.splits Option.bind_splits)

theorem force_sleep_respects_locks_witness:
  "\<exists>t. pm_sleep_command_handle lab_kernel (JObj [(''sleep'', JStr ''ON'')]) (lab_service\<lparr>partial_lock_total := 1\<rparr>) = Some (0, t)
     \<and> t = lab_service\<lparr>partial_lock_total := 1\<rparr>"
proof -
  let ?s = "lab_service\<lparr>partial_lock_total := 1\<rparr>"
  have l: "power_lock_state_poll ?s \<noteq> NO_LOCK_STATE" by (simp add: power_lock_state_poll_def lab_service_def pm_boot_def)
  obtain t where t: "pm_sleep_command_handle lab_kernel (JObj [(''sleep'', JStr ''ON'')]) ?s = Some (0, t)"
    by (simp add: pm_sleep_command_handle_def json_object_get_string_def)
  show ?thesis using force_sleep_respects_locks[OF l t] t by blast
qed

text \<open>A sleep request the kernel has accepted is reported as failed: the HAL returns the
  number of bytes written and the service takes only 0 for success.\<close>

theorem accepted_sleep_reported_failed:
  assumes "kernel_accepts E" and "hal_ready s" and "g_power_device s" and "i \<noteq> []"
  shows "fst (power_sleep_request E i s) = -1 \<and> fst (power_autosleep_request E i s) = -1"
proof -
  obtain w f where u: "initialize_fds E s = s\<lparr>kworld := w, g_fds := f, g_error := 0, g_initialized := True\<rparr>"
    using initialize_fds_ok[OF assms(1,2)] by blast
  have "fst (pk_write E fd i w) \<noteq> 0" for fd using assms(1,4) by (simp add: kernel_accepts_def)
  then show ?thesis
    using assms(3) u by (simp add: power_sleep_request_def power_autosleep_request_def set_sleep_def
        set_auto_sleep_def kext_eq Let_def)
qed

theorem accepted_sleep_reported_failed_witness: "fst (power_sleep_request lab_kernel SLEEP_ON lab_service) = -1"
  using accepted_sleep_reported_failed[OF lab_kernel_accepts, of lab_service SLEEP_ON] lab_acct
  by (simp add: acct_def pm_ready_def SLEEP_ON_def)

section \<open>Idle states\<close>

text \<open>The deep idle timer exists, and it is armed only while the service is idle.\<close>

definition idle_ok :: "'w pm_state \<Rightarrow> bool" where
  "idle_ok s \<longleftrightarrow> sched_inv (pm_sched s) \<and>
     (case timer_mem (pm_sched s) (e_power_idle_id s) of
        None \<Rightarrow> False
      | Some t \<Rightarrow> timeout_ms t = 60000 \<and> (its_armed (system_timer t) \<longrightarrow> idle_status s))"

lemma idle_request_frame:
  "pm_sched (snd (power_idle_request E i s)) = pm_sched s"
  "e_power_idle_id (snd (power_idle_request E i s)) = e_power_idle_id s"
proof -
  have o: "pm_sched (snd (open_from E ps k u)) = pm_sched u \<and> e_power_idle_id (snd (open_from E ps k u)) = e_power_idle_id u" for ps k u
    by (induction ps arbitrary: k u) (simp_all add: kext_eq Let_def)
  have "pm_sched (initialize_fds E u) = pm_sched u \<and> e_power_idle_id (initialize_fds E u) = e_power_idle_id u" for u
    using o[of POWER_PATHS 0 u] by (simp add: initialize_fds_def open_file_descriptors_def split_def Let_def)
  then show "pm_sched (snd (power_idle_request E i s)) = pm_sched s"
    "e_power_idle_id (snd (power_idle_request E i s)) = e_power_idle_id s"
    by (simp_all add: power_idle_request_def set_idle_def Let_def)
qed

lemma settime_idle:
  assumes "sched_inv c" and "timer_mem c i = Some t" and "timeout_ms t = 60000"
  shows "\<exists>c'. timer_settime i its c = Some c' \<and> sched_inv c' \<and> timer_mem c' i = Some (t\<lparr>system_timer := its\<rparr>)"
  using timer_settime_spec[OF assms(1,2), of its] by (auto simp: succeeds_iff)

text \<open>Entering and leaving idle never fails once the timer exists, keeps the timer armed
  only while idle, and leaving idle always leaves the timer disarmed.\<close>

theorem idle_entry_keeps_timer:
  assumes "idle_ok s"
  shows "\<exists>t. pm_idle_entry E flag s = Some t \<and> idle_ok t \<and> (idle_status t \<longleftrightarrow> flag = IDLE_ENTER)"
proof -
  obtain m where m: "timer_mem (pm_sched s) (e_power_idle_id s) = Some m" "timeout_ms m = 60000" "sched_inv (pm_sched s)"
    "its_armed (system_timer m) \<longrightarrow> idle_status s"
    using assms by (auto simp: idle_ok_def split: option.splits)
  obtain c1 where c1: "timer_settime (e_power_idle_id s) its_disarmed (pm_sched s) = Some c1" "sched_inv c1"
    "timer_mem c1 (e_power_idle_id s) = Some (m\<lparr>system_timer := its_disarmed\<rparr>)" using settime_idle[OF m(3,1,2)] by blast
  obtain c2 where c2: "timer_settime (e_power_idle_id s) (its_of (timeout_ms m) (period_ms m)) (pm_sched s) = Some c2" "sched_inv c2"
    "timer_mem c2 (e_power_idle_id s) = Some (m\<lparr>system_timer := its_of (timeout_ms m) (period_ms m)\<rparr>)"
    using settime_idle[OF m(3,1,2)] by blast
  have e: "pm_sched (snd (power_idle_enter E s)) = pm_sched s" "e_power_idle_id (snd (power_idle_enter E s)) = e_power_idle_id s"
    "pm_sched (snd (power_idle_exit E s)) = pm_sched s" "e_power_idle_id (snd (power_idle_exit E s)) = e_power_idle_id s"
    by (simp_all add: power_idle_enter_def power_idle_exit_def idle_request_frame)
  have "\<not> its_armed its_disarmed" by (simp add: its_armed_def its_disarmed_def)
  then show ?thesis
    using assms m(1,2) c1 c2 e
    by (auto simp: pm_idle_entry_def pm_timer_start_def pm_timer_stop_def scheduler_timer_start_def
        scheduler_timer_stop_def Let_def idle_ok_def)
qed

theorem idle_entry_keeps_timer_witness:
  "\<exists>t. pm_idle_entry lab_kernel IDLE_ENTER (lab_service\<lparr>e_power_idle_id := 1,
       pm_sched := snd (timer_add_ok CB_power_idle_timeout 60000 0 scheduler_new)\<rparr>) = Some t \<and> idle_status t"
  using idle_entry_keeps_timer[of "lab_service\<lparr>e_power_idle_id := 1,
       pm_sched := snd (timer_add_ok CB_power_idle_timeout 60000 0 scheduler_new)\<rparr>" lab_kernel IDLE_ENTER]
  by (auto simp: idle_ok_def timer_add_ok_def scheduler_timer_new_def scheduler_new_def sched_inv_def
      its_armed_def its_disarmed_def)

end
