(* ===== verification/WpaCommand.thy ===== *)
theory WpaCommand
  imports NetState TextLines
begin

text \<open>
  The wpa_supplicant client library \<open>framework/libs/wifi/wpa_command.c\<close>: the text of every
  command, the analysis of the replies and the operations built on them.  The control
  interface (\<open>wpa_ctrl_*\<close>), the kernel and the property service are parameters.  \<open>None\<close> is
  undefined behaviour: a buffer overrun, a NULL pointer, a read past a buffer.
\<close>

section \<open>Data\<close>

datatype wifi_command =
  WIFI_COMMAND_SCAN | WIFI_COMMAND_ADDNETWORK | WIFI_COMMAND_SETNETWORK_SSID
| WIFI_COMMAND_SETNETWORK_SCANSSID | WIFI_COMMAND_SETNETWORK_PSK | WIFI_COMMAND_SETNETWORK_KEYMETH
| WIFI_COMMAND_SETNETWORK_AUTHALG | WIFI_COMMAND_SETNETWORK_WEPKEY0 | WIFI_COMMAND_SETNETWORK_WEPTXKEYID
| WIFI_COMMAND_ENABLENETWORK | WIFI_COMMAND_SELECTNETWORK | WIFI_COMMAND_RECONFIGURE
| WIFI_COMMAND_REATTACH | WIFI_COMMAND_GET_STATUS | WIFI_COMMAND_GET_SIGNAL | WIFI_COMMAND_SAVECONFIG
| WIFI_COMMAND_SCAN_R | WIFI_COMMAND_LIST_ENABLED_NETWORK | WIFI_COMMAND_DISABLENETWORK
| WIFI_COMMAND_GET_CHANNEL | WIFI_COMMAND_DISCONNCET | WIFI_COMMAND_RECONNCET
| WIFI_COMMAND_REMOVENETWORK | WIFI_COMMAND_GET_CURRENT_SSID | WIFI_COMMAND_BLACKLIST_CLEAR
| WIFI_COMMAND_BSSFLUSH | WIFI_COMMAND_ABORT_SCAN | WIFI_COMMAND_GET_DEVICE_MAC
| WIFI_COMMAND_GET_APP_BSSID | WIFI_COMMAND_GET_CURRENT_ID | WIFI_COMMAND_GET_CURRENT_PSK
| WIFI_COMMAND_LIST_CONFIGED_NETWORK

datatype wifi_ack = WIFI_COMMAND_ACK_INT | WIFI_COMMAND_ACK_OK | WIFI_COMMAND_ACK_STRING

definition wifi_command_pack_sum :: "(wifi_command \<times> wifi_ack) list" where
  "wifi_command_pack_sum = [
     (WIFI_COMMAND_SCAN, WIFI_COMMAND_ACK_OK),
     (WIFI_COMMAND_ADDNETWORK, WIFI_COMMAND_ACK_INT),
     (WIFI_COMMAND_SETNETWORK_SSID, WIFI_COMMAND_ACK_OK),
     (WIFI_COMMAND_SETNETWORK_SCANSSID, WIFI_COMMAND_ACK_OK),
     (WIFI_COMMAND_SETNETWORK_PSK, WIFI_COMMAND_ACK_OK),
     (WIFI_COMMAND_SETNETWORK_KEYMETH, WIFI_COMMAND_ACK_OK),
     (WIFI_COMMAND_SETNETWORK_AUTHALG, WIFI_COMMAND_ACK_OK),
     (WIFI_COMMAND_SETNETWORK_WEPKEY0, WIFI_COMMAND_ACK_OK),
     (WIFI_COMMAND_SETNETWORK_WEPTXKEYID, WIFI_COMMAND_ACK_OK),
     (WIFI_COMMAND_ENABLENETWORK, WIFI_COMMAND_ACK_OK),
     (WIFI_COMMAND_SELECTNETWORK, WIFI_COMMAND_ACK_OK),
     (WIFI_COMMAND_RECONFIGURE, WIFI_COMMAND_ACK_OK),
     (WIFI_COMMAND_REATTACH, WIFI_COMMAND_ACK_OK),
     (WIFI_COMMAND_GET_STATUS, WIFI_COMMAND_ACK_INT),
     (WIFI_COMMAND_GET_SIGNAL, WIFI_COMMAND_ACK_INT),
     (WIFI_COMMAND_SAVECONFIG, WIFI_COMMAND_ACK_OK),
     (WIFI_COMMAND_SCAN_R, WIFI_COMMAND_ACK_STRING),
     (WIFI_COMMAND_LIST_ENABLED_NETWORK, WIFI_COMMAND_ACK_INT),
     (WIFI_COMMAND_DISABLENETWORK, WIFI_COMMAND_ACK_OK),
     (WIFI_COMMAND_GET_CHANNEL, WIFI_COMMAND_ACK_INT),
     (WIFI_COMMAND_DISCONNCET, WIFI_COMMAND_ACK_OK),
     (WIFI_COMMAND_RECONNCET, WIFI_COMMAND_ACK_OK),
     (WIFI_COMMAND_REMOVENETWORK, WIFI_COMMAND_ACK_OK),
     (WIFI_COMMAND_GET_CURRENT_SSID, WIFI_COMMAND_ACK_STRING),
     (WIFI_COMMAND_BLACKLIST_CLEAR, WIFI_COMMAND_ACK_OK),
     (WIFI_COMMAND_BSSFLUSH, WIFI_COMMAND_ACK_OK),
     (WIFI_COMMAND_ABORT_SCAN, WIFI_COMMAND_ACK_OK),
     (WIFI_COMMAND_GET_DEVICE_MAC, WIFI_COMMAND_ACK_STRING),
     (WIFI_COMMAND_GET_APP_BSSID, WIFI_COMMAND_ACK_STRING),
     (WIFI_COMMAND_GET_CURRENT_ID, WIFI_COMMAND_ACK_INT),
     (WIFI_COMMAND_GET_CURRENT_PSK, WIFI_COMMAND_ACK_STRING),
     (WIFI_COMMAND_LIST_CONFIGED_NETWORK, WIFI_COMMAND_ACK_INT)]"

definition WIFI_SCANING :: int where "WIFI_SCANING = 1"
definition WIFI_CONNECTED :: int where "WIFI_CONNECTED = 2"
definition WIFI_UNCONNECTED :: int where "WIFI_UNCONNECTED = 3"
definition NETSERVER_CONNECTED :: int where "NETSERVER_CONNECTED = 4"
definition NETSERVER_UNCONNECTED :: int where "NETSERVER_UNCONNECTED = 5"
definition WPA_ALL_NETWORK :: int where "WPA_ALL_NETWORK = -1"

record wifi_scan_res =
  sr_mac :: string
  sr_freq :: int
  sr_sig :: int
  sr_key :: key_mgmt
  sr_ssid :: string

definition zero_scan_res :: wifi_scan_res where
  "zero_scan_res = \<lparr>sr_mac = [], sr_freq = 0, sr_sig = 0, sr_key = WIFI_KEY_WPA2PSK, sr_ssid = []\<rparr>"

text \<open>What the pointer \<open>res\<close> of \<open>wifi_send_command\<close> points to: an \<open>int\<close>, a buffer of
  characters, a MAC address or a scan list.\<close>

datatype cres = CInt int | CBuf string | CMac "8 word list" | CList "wifi_scan_res list"

text \<open>What the pointer \<open>value\<close> points to.\<close>

datatype cval = VNull | VStr string | VNet wifi_network | VInt int

section \<open>Reading replies\<close>

text \<open>\<open>line[len] = 0\<close> after the copy leaves the rest of the buffer as it was.\<close>

definition put_line :: "string \<Rightarrow> string \<Rightarrow> string" where
  "put_line l buf = l @ nul # drop (Suc (length l)) buf"

text \<open>The loops \<open>for (i = i0; !get_line_from_buf(i, line, reply); i++)\<close>: \<open>body\<close> gets the line buffer
  and says whether the loop ends.  A line that does not fit the buffer overruns it, and
  the search for a line past the end of a reply that fills its 4096 bytes reads on.\<close>

function line_loop ::
  "nat \<Rightarrow> (string \<Rightarrow> 'a \<Rightarrow> ('a \<times> bool) option) \<Rightarrow> string \<Rightarrow> nat \<Rightarrow> string \<Rightarrow> 'a \<Rightarrow> 'a option" where
  "line_loop cap body reply i buf a =
     (case get_line i [] reply of
        None \<Rightarrow> if length reply \<ge> 4095 \<and> \<not> is_eol (last reply) then None else Some a
      | Some l \<Rightarrow>
          if length l < cap
          then (case body (put_line l buf) a of
                  None \<Rightarrow> None
                | Some (a', stop) \<Rightarrow> if stop then Some a' else line_loop cap body reply (Suc i) (put_line l buf) a')
          else None)"
  by pat_completeness auto
termination
  by (relation "measure (\<lambda>(cap, body, reply, i, buf, a). Suc (length reply) - i)") (auto dest: get_line_bound)

declare line_loop.simps [simp del]

definition zero_buf :: "nat \<Rightarrow> string" where
  "zero_buf n = replicate n nul"

subsection \<open>sscanf\<close>

definition scan_word :: "string \<Rightarrow> (string \<times> string) option" where
  "scan_word s = (let t = dropWhile is_space s; w = takeWhile (\<lambda>c. \<not> is_space c) t in
     if t = [] then None else Some (w, drop (length w) t))"

subsection \<open>Scan results\<close>

text \<open>\<open>sscanf(line, "%s\t%d\t%d\t%s\t%[^\n]s", ...)\<close> into 18 bytes for the address, 64 for the
  flags and 128 for the name.  Fields that are not reached keep their value.\<close>

definition scan_ap_line :: "string \<Rightarrow> wifi_scan_res \<Rightarrow> string \<Rightarrow> (wifi_scan_res \<times> string) option" where
  "scan_ap_line line ap key_type =
     (case scan_word line of
        None \<Rightarrow> Some (ap, key_type)
      | Some (mac, r) \<Rightarrow> if length mac \<ge> 18 then None else let ap = ap\<lparr>sr_mac := mac\<rparr> in
     (case scan_int r of
        None \<Rightarrow> Some (ap, key_type)
      | Some (f, r) \<Rightarrow> let ap = ap\<lparr>sr_freq := f\<rparr> in
     (case scan_int r of
        None \<Rightarrow> Some (ap, key_type)
      | Some (g, r) \<Rightarrow> let ap = ap\<lparr>sr_sig := g\<rparr> in
     (case scan_word r of
        None \<Rightarrow> Some (ap, key_type)
      | Some (k, r) \<Rightarrow> if length k \<ge> 64 then None else
          let name = takeWhile (\<lambda>c. c \<noteq> CHR 0x0A) (dropWhile is_space r) in
          if name = [] then Some (ap, k)
          else if length name \<ge> 128 then None
          else Some (ap\<lparr>sr_ssid := name\<rparr>, k)))))"

definition key_of_flags :: "string \<Rightarrow> key_mgmt" where
  "key_of_flags key_type =
     (if contains key_type ''WPA2'' then WIFI_KEY_WPA2PSK
      else if contains key_type ''WPA'' then WIFI_KEY_WPAPSK
      else if contains key_type ''WEP'' then WIFI_KEY_WEP
      else if is_prefix ''[ESS]'' key_type then WIFI_KEY_NONE
      else WIFI_KEY_OTHER)"

fun reduce_at :: "wifi_scan_res list \<Rightarrow> wifi_scan_res \<Rightarrow> wifi_scan_res list" where
  "reduce_at [] res = [res]"
| "reduce_at (x # xs) res =
     (if sr_ssid x = sr_ssid res \<and> sr_key x = sr_key res
      then (if sr_sig x < sr_sig res then res else x) # xs
      else x # reduce_at xs res)"

definition wpa_reduce_repeat_ssid :: "wifi_scan_res list \<Rightarrow> wifi_scan_res \<Rightarrow> wifi_scan_res list" where
  "wpa_reduce_repeat_ssid list res = (if length list > 100 then list else reduce_at list res)"

definition scan_step :: "string \<Rightarrow> wifi_scan_res list \<times> string \<Rightarrow> ((wifi_scan_res list \<times> string) \<times> bool) option" where
  "scan_step buf st = (let (list, key_type) = st in do {
     (ap, key_type) \<leftarrow> scan_ap_line (cstr buf) zero_scan_res key_type;
     let ap = ap\<lparr>sr_key := key_of_flags key_type\<rparr>;
     Some ((if sr_ssid ap = [] then list else wpa_reduce_repeat_ssid list ap, key_type), False)
   })"

definition wpa_get_scan_r :: "string \<Rightarrow> wifi_scan_res list \<Rightarrow> wifi_scan_res list option" where
  "wpa_get_scan_r reply list = map_option fst (line_loop 512 scan_step reply 1 (zero_buf 512) (list, []))"

subsection \<open>MAC addresses\<close>

definition a2x :: "char \<Rightarrow> 8 word" where
  "a2x c = (let n = of_char c :: nat in
     if 48 \<le> n \<and> n \<le> 57 then of_nat (n - 48)
     else if 97 \<le> n \<and> n \<le> 102 then of_nat (10 + (n - 97))
     else if 65 \<le> n \<and> n \<le> 70 then of_nat (10 + (n - 65))
     else 0)"

text \<open>\<open>COPY_STR2MAC\<close> on the 18 bytes of \<open>string_mac\<close>.\<close>

definition COPY_STR2MAC :: "string \<Rightarrow> 8 word list" where
  "COPY_STR2MAC str = map (\<lambda>i. push_bit 4 (a2x (str ! (i * 3))) + a2x (str ! (i * 3 + 1))) [0..<6]"

text \<open>One line of the loop: a line with the prefix is copied into \<open>string_mac\<close>, over what is
  there.\<close>

definition mac_step ::
  "string \<Rightarrow> string \<Rightarrow> string \<times> 8 word list \<Rightarrow> ((string \<times> 8 word list) \<times> bool) option" where
  "mac_step prefix buf st = (let line = cstr buf; (string_mac, res) = st in
     if is_prefix prefix line then
       let m = drop (length prefix) line in
       if length m > 18 then None
       else let string_mac = m @ drop (length m) string_mac in
         Some ((string_mac, COPY_STR2MAC string_mac), False)
     else Some (st, False))"

section \<open>Analysis of replies\<close>

definition first_int :: "string \<Rightarrow> nat \<Rightarrow> string \<Rightarrow> int option \<Rightarrow> (int option \<times> bool) option" where
  "first_int key off buf a =
     (if contains (cstr buf) key then Some (Some (atoi (cstr (drop off buf))), True) else Some (a, False))"

definition status_step :: "string \<Rightarrow> int \<Rightarrow> (int \<times> bool) option" where
  "status_step buf a =
     (if contains (cstr buf) ''wpa_state=COMPLETED'' then Some (WIFI_CONNECTED, True)
      else if contains (cstr buf) ''wpa_state=SCANNING'' then Some (WIFI_SCANING, True)
      else Some (WIFI_UNCONNECTED, False))"

definition enabled_step :: "string \<Rightarrow> int \<Rightarrow> (int \<times> bool) option" where
  "enabled_step buf a = (if \<not> contains (cstr buf) ''[DISABLED]'' then Some (1, True) else Some (a, False))"

definition count_step :: "string \<Rightarrow> int \<Rightarrow> (int \<times> bool) option" where
  "count_step buf a = Some (a + 1, False)"

definition id_step :: "string \<Rightarrow> int \<Rightarrow> (int \<times> bool) option" where
  "id_step buf a = (if is_prefix ''id='' (cstr buf) then Some (atoi (cstr (drop 3 buf)), False) else Some (a, False))"

text \<open>\<open>strncpy(res, line + 5, strlen(line) - 5)\<close> into the \<open>n\<close> bytes of \<open>res\<close>.\<close>

definition ssid_step :: "nat \<Rightarrow> string \<Rightarrow> string \<Rightarrow> (string \<times> bool) option" where
  "ssid_step n buf res = (let line = cstr buf in
     if is_prefix ''ssid='' line then
       let x = drop 5 line in if length x > n then None else Some (x @ drop (length x) res, False)
     else Some (res, False))"

definition reply_int :: "wifi_command \<Rightarrow> string \<Rightarrow> int \<Rightarrow> int option" where
  "reply_int cmd reply res =
     (case cmd of
        WIFI_COMMAND_GET_SIGNAL \<Rightarrow>
          map_option (case_option 0 id) (line_loop 256 (first_int ''RSSI'' 5) reply 0 (zero_buf 256) None)
      | WIFI_COMMAND_GET_CHANNEL \<Rightarrow>
          map_option (case_option 0 id) (line_loop 256 (first_int ''FREQUENCY'' 10) reply 0 (zero_buf 256) None)
      | WIFI_COMMAND_GET_STATUS \<Rightarrow> line_loop 256 status_step reply 0 (zero_buf 256) res
      | WIFI_COMMAND_LIST_ENABLED_NETWORK \<Rightarrow> line_loop 256 enabled_step reply 1 (zero_buf 256) 0
      | WIFI_COMMAND_LIST_CONFIGED_NETWORK \<Rightarrow> line_loop 256 count_step reply 1 (zero_buf 256) 0
      | WIFI_COMMAND_GET_CURRENT_ID \<Rightarrow> line_loop 256 id_step reply 0 (zero_buf 256) (-1)
      | _ \<Rightarrow>
          Some (if dropWhile is_space reply = [] then res
                else case scan_int reply of None \<Rightarrow> -1 | Some (v, _) \<Rightarrow> v))"

text \<open>The password: \<open>sscanf(reply, "\"%s\"", res)\<close> into a zeroed buffer, then the last character
  of the result is cleared; without a result that is the byte before the buffer.\<close>

definition psk_result :: "nat \<Rightarrow> string \<Rightarrow> string option" where
  "psk_result n reply =
     (case reply of
        c # cs \<Rightarrow>
          if c = CHR 0x22 then
            case scan_word cs of
              None \<Rightarrow> None
            | Some (w, _) \<Rightarrow> if length w \<ge> n then None else Some (butlast w @ zero_buf (Suc n - length w))
          else None
      | [] \<Rightarrow> None)"

definition reply_string :: "wifi_command \<Rightarrow> string \<Rightarrow> cres \<Rightarrow> cres option" where
  "reply_string cmd reply res =
     (case (cmd, res) of
        (WIFI_COMMAND_SCAN_R, CList l) \<Rightarrow> map_option CList (wpa_get_scan_r reply l)
      | (WIFI_COMMAND_GET_CURRENT_SSID, CBuf b) \<Rightarrow>
          map_option CBuf (line_loop 256 (ssid_step (length b)) reply 0 (zero_buf 256) b)
      | (WIFI_COMMAND_GET_CURRENT_PSK, CBuf b) \<Rightarrow> map_option CBuf (psk_result (length b) reply)
      | (WIFI_COMMAND_GET_DEVICE_MAC, CMac m) \<Rightarrow>
          map_option (\<lambda>(_, m). CMac m) (line_loop 256 (mac_step ''address='') reply 0 (zero_buf 256) (zero_buf 18, m))
      | (WIFI_COMMAND_GET_APP_BSSID, CMac m) \<Rightarrow>
          map_option (\<lambda>(_, m). CMac m) (line_loop 256 (mac_step ''bssid='') reply 0 (zero_buf 256) (zero_buf 18, m))
      | _ \<Rightarrow> None)"

text \<open>\<open>strncmp(reply, "OK", ...)\<close>; \<open>res_len\<close> is the size of the \<open>int\<close> the callers pass.\<close>

definition reply_ok :: "nat \<Rightarrow> string \<Rightarrow> int" where
  "reply_ok res_len reply = (let n = (if res_len > 2 then 2 else res_len) in
     if take n reply = take n ''OK'' then 0 else -1)"

definition wifi_reply_analyse :: "wifi_command \<Rightarrow> string \<Rightarrow> cres \<Rightarrow> nat \<Rightarrow> (int \<times> cres) option" where
  "wifi_reply_analyse cmd reply res res_len =
     (case map_of wifi_command_pack_sum cmd of
        None \<Rightarrow> Some (-1, res)
      | Some WIFI_COMMAND_ACK_OK \<Rightarrow>
          (case res of CInt _ \<Rightarrow> Some (0, CInt (reply_ok res_len reply)) | _ \<Rightarrow> None)
      | Some WIFI_COMMAND_ACK_INT \<Rightarrow>
          (case res of CInt v \<Rightarrow> map_option (\<lambda>v. (0, CInt v)) (reply_int cmd reply v) | _ \<Rightarrow> None)
      | Some WIFI_COMMAND_ACK_STRING \<Rightarrow> map_option (Pair 0) (reply_string cmd reply res))"

section \<open>Command texts\<close>

definition quoted :: "string \<Rightarrow> string" where
  "quoted x = CHR 0x22 # x @ [CHR 0x22]"

text \<open>A string written into a buffer of \<open>n\<close> bytes.\<close>

definition fits :: "nat \<Rightarrow> string \<Rightarrow> string option" where
  "fits n x = (if length x < n then Some x else None)"

text \<open>The two WEP commands take their arguments as one string \<open>id+parameter\<close>.\<close>

definition wep_arguments :: "string \<Rightarrow> (int \<times> string) option" where
  "wep_arguments v = do {
     wep_command \<leftarrow> fits 36 v;
     wep_index \<leftarrow> strstr wep_command ''+'';
     before \<leftarrow> fits 35 (take (length wep_command - length wep_index) wep_command);
     after \<leftarrow> fits 35 (tl wep_index);
     Some (atoi before, after)
   }"

definition set_network :: "int \<Rightarrow> string \<Rightarrow> string" where
  "set_network i rest = ''SET_NETWORK '' @ show_int i @ rest"

text \<open>The commands about one network.\<close>

definition network_text :: "wifi_command \<Rightarrow> wifi_network \<Rightarrow> (int + string) option" where
  "network_text cmd net =
     (case cmd of
        WIFI_COMMAND_SETNETWORK_SSID \<Rightarrow> Some (Inr (set_network (wn_id net) ('' ssid '' @ quoted (wn_ssid net))))
      | WIFI_COMMAND_SETNETWORK_SCANSSID \<Rightarrow> Some (Inr (set_network (wn_id net) '' scan_ssid 1''))
      | WIFI_COMMAND_SETNETWORK_PSK \<Rightarrow>
          Some (Inr (set_network (wn_id net)
            (if length (wn_psk net) < 64 then '' psk '' @ quoted (wn_psk net) else '' psk '' @ wn_psk net)))
      | WIFI_COMMAND_SETNETWORK_WEPKEY0 \<Rightarrow>
          Some (Inr (if length (wn_psk net) = 5 \<or> length (wn_psk net) = 13
                     then set_network (wn_id net) ('' wep_key0 '' @ quoted (wn_psk net))
                     else if length (wn_psk net) = 10 \<or> length (wn_psk net) = 26
                     then set_network (wn_id net) ('' wep_key0 '' @ wn_psk net)
                     else []))
      | WIFI_COMMAND_SETNETWORK_KEYMETH \<Rightarrow>
          Some (if wn_key_mgmt net \<noteq> WIFI_KEY_NONE \<and> wn_key_mgmt net \<noteq> WIFI_KEY_WEP then Inl (-4)
                else Inr (set_network (wn_id net) '' key_mgmt NONE''))
      | _ \<Rightarrow> None)"

definition wep_text :: "wifi_command \<Rightarrow> string \<Rightarrow> (int + string) option" where
  "wep_text cmd v =
     (case cmd of
        WIFI_COMMAND_SETNETWORK_AUTHALG \<Rightarrow> do { (i, p) \<leftarrow> wep_arguments v; Some (Inr (set_network i ('' auth_alg '' @ p))) }
      | WIFI_COMMAND_SETNETWORK_WEPTXKEYID \<Rightarrow> do { (i, p) \<leftarrow> wep_arguments v; Some (Inr (set_network i ('' wep_tx_keyidx '' @ p))) }
      | _ \<Rightarrow> None)"

definition int_text :: "wifi_command \<Rightarrow> int \<Rightarrow> (int + string) option" where
  "int_text cmd i =
     (case cmd of
        WIFI_COMMAND_ENABLENETWORK \<Rightarrow>
          Some (Inr (if i \<noteq> WPA_ALL_NETWORK then ''ENABLE_NETWORK  '' @ show_int i else ''ENABLE_NETWORK all''))
      | WIFI_COMMAND_SELECTNETWORK \<Rightarrow> Some (Inr (''SELECT_NETWORK '' @ show_int i))
      | WIFI_COMMAND_GET_CURRENT_PSK \<Rightarrow> Some (Inr (''GET_NETWORK '' @ show_int i @ '' psk''))
      | WIFI_COMMAND_DISABLENETWORK \<Rightarrow>
          Some (Inr (if i \<noteq> WPA_ALL_NETWORK then ''DISABLE_NETWORK '' @ show_int i else ''DISABLE_NETWORK all''))
      | WIFI_COMMAND_REMOVENETWORK \<Rightarrow>
          Some (Inr (if i \<noteq> WPA_ALL_NETWORK then ''REMOVE_NETWORK '' @ show_int i else ''REMOVE_NETWORK all''))
      | _ \<Rightarrow> None)"

definition fixed_text :: "wifi_command \<Rightarrow> string option" where
  "fixed_text cmd =
     (case cmd of
        WIFI_COMMAND_SCAN \<Rightarrow> Some ''SCAN''
      | WIFI_COMMAND_ADDNETWORK \<Rightarrow> Some ''ADD_NETWORK''
      | WIFI_COMMAND_ABORT_SCAN \<Rightarrow> Some ''ABORT_SCAN''
      | WIFI_COMMAND_REATTACH \<Rightarrow> Some ''REATTACH''
      | WIFI_COMMAND_RECONFIGURE \<Rightarrow> Some ''RECONFIGURE''
      | WIFI_COMMAND_GET_SIGNAL \<Rightarrow> Some ''SIGNAL_POLL''
      | WIFI_COMMAND_GET_CHANNEL \<Rightarrow> Some ''SIGNAL_POLL''
      | WIFI_COMMAND_GET_CURRENT_ID \<Rightarrow> Some ''STATUS''
      | WIFI_COMMAND_GET_CURRENT_SSID \<Rightarrow> Some ''STATUS''
      | WIFI_COMMAND_GET_STATUS \<Rightarrow> Some ''STATUS''
      | WIFI_COMMAND_GET_DEVICE_MAC \<Rightarrow> Some ''STATUS''
      | WIFI_COMMAND_GET_APP_BSSID \<Rightarrow> Some ''STATUS''
      | WIFI_COMMAND_SAVECONFIG \<Rightarrow> Some ''SAVE_CONFIG''
      | WIFI_COMMAND_SCAN_R \<Rightarrow> Some ''SCAN_RESULTS''
      | WIFI_COMMAND_LIST_ENABLED_NETWORK \<Rightarrow> Some ''LIST_NETWORKS''
      | WIFI_COMMAND_LIST_CONFIGED_NETWORK \<Rightarrow> Some ''LIST_NETWORKS''
      | WIFI_COMMAND_DISCONNCET \<Rightarrow> Some ''DISCONNCET''
      | WIFI_COMMAND_RECONNCET \<Rightarrow> Some ''RECONNCET''
      | WIFI_COMMAND_BLACKLIST_CLEAR \<Rightarrow> Some ''BLACKLIST clear''
      | WIFI_COMMAND_BSSFLUSH \<Rightarrow> Some ''BSS_FLUSH 0''
      | _ \<Rightarrow> None)"

text \<open>The \<open>switch\<close> of \<open>wifi_send_command\<close>: \<open>Inl\<close> is an early return, \<open>Inr\<close> the text of the command.
  A pointer that is NULL or points to something else than the command expects is not
  defined.\<close>

definition command_text :: "wifi_command \<Rightarrow> cval \<Rightarrow> (int + string) option" where
  "command_text cmd v =
     (case v of
        VNet net \<Rightarrow> network_text cmd net
      | VInt i \<Rightarrow> (case fixed_text cmd of Some t \<Rightarrow> Some (Inr t) | None \<Rightarrow> int_text cmd i)
      | VStr x \<Rightarrow> if cmd = WIFI_COMMAND_SCAN then Some (Inr (''SCAN '' @ x)) else wep_text cmd x
      | VNull \<Rightarrow> map_option Inr (fixed_text cmd))"

section \<open>The client\<close>

text \<open>The control interface, the kernel and the property service.  \<open>cx_request\<close> returns the
  status of \<open>wpa_ctrl_request\<close> and the reply, \<open>cx_poll\<close> the result of \<open>poll\<close> and whether the control
  socket is readable, \<open>cx_popen\<close> the first line of the output.\<close>

record 'w ctrl_env =
  cx_open :: "string \<Rightarrow> 'w \<Rightarrow> bool \<times> 'w"
  cx_request :: "string \<Rightarrow> 'w \<Rightarrow> (int \<times> string) \<times> 'w"
  cx_close :: "'w \<Rightarrow> unit \<times> 'w"
  cx_attach :: "'w \<Rightarrow> int \<times> 'w"
  cx_socketpair :: "'w \<Rightarrow> int \<times> 'w"
  cx_poll :: "'w \<Rightarrow> (int \<times> bool) \<times> 'w"
  cx_recv :: "'w \<Rightarrow> (int \<times> string) \<times> 'w"
  cx_system :: "string \<Rightarrow> 'w \<Rightarrow> int \<times> 'w"
  cx_popen :: "string \<Rightarrow> 'w \<Rightarrow> string option \<times> 'w"
  cx_socket :: "'w \<Rightarrow> int \<times> 'w"
  cx_ifaddr :: "string \<Rightarrow> 'w \<Rightarrow> string option \<times> 'w"
  cx_property_set :: "string \<Rightarrow> string \<Rightarrow> 'w \<Rightarrow> unit \<times> 'w"
  cx_property_get :: "string \<Rightarrow> 'w \<Rightarrow> string option \<times> 'w"

record 'w wpa_state =
  cworld :: 'w
  monitor_conn :: bool

definition cext :: "('w \<Rightarrow> 'a \<times> 'w) \<Rightarrow> 'w wpa_state \<Rightarrow> 'a \<times> 'w wpa_state" where
  "cext f s = (let (r, w) = f (cworld s) in (r, s\<lparr>cworld := w\<rparr>))"

lemma cext_eq: "cext f s = (fst (f (cworld s)), s\<lparr>cworld := snd (f (cworld s))\<rparr>)"
  by (simp add: cext_def split: prod.split)

definition WIFI_WPA_CTRL_PATH :: string where "WIFI_WPA_CTRL_PATH = ''/var/run/wpa_supplicant/wlan0''"

text \<open>\<open>wpa_ctrl_request\<close> fills at most the 4096 bytes of \<open>reply\<close>; a reply of that length has no
  terminator.  The result is 0 whether the request and the analysis succeed or not.\<close>

definition wifi_send_command ::
  "'w ctrl_env \<Rightarrow> wifi_command \<Rightarrow> cval \<Rightarrow> cres \<Rightarrow> nat \<Rightarrow> 'w wpa_state \<Rightarrow> ((int \<times> cres) \<times> 'w wpa_state) option" where
  "wifi_send_command E cmd v res res_len s = do {
     t \<leftarrow> command_text cmd v;
     case t of
       Inl r \<Rightarrow> Some ((r, res), s)
     | Inr command \<Rightarrow> do {
         command \<leftarrow> fits 128 command;
         let (ok, s) = cext (cx_open E WIFI_WPA_CTRL_PATH) s;
         if \<not> ok then Some ((-1, res), s)
         else do {
           let ((ret, reply), s) = cext (cx_request E command) s;
           (_, res) \<leftarrow> (if ret < 0 then Some (0, res)
                        else do {
                          reply \<leftarrow> fits 4096 (take 4096 (cstr reply));
                          wifi_reply_analyse cmd reply res res_len
                        });
           let (_, s) = cext (cx_close E) s;
           Some ((0, res), s)
         }
       }
   }"

text \<open>Commands whose result is an \<open>int\<close>: \<open>v0\<close> is the value of the variable before the call.\<close>

definition send_int ::
  "'w ctrl_env \<Rightarrow> wifi_command \<Rightarrow> cval \<Rightarrow> int \<Rightarrow> 'w wpa_state \<Rightarrow> ((int \<times> int) \<times> 'w wpa_state) option" where
  "send_int E cmd v v0 s = do {
     ((ret, res), s) \<leftarrow> wifi_send_command E cmd v (CInt v0) 4 s;
     case res of CInt r \<Rightarrow> Some ((ret, r), s) | _ \<Rightarrow> None
   }"

text \<open>The test \<open>(ret == 0) && (res == 0)\<close> after a call with \<open>res\<close> initialised to 0; \<open>ret\<close> is never
  positive, so \<open>ret < 0 || res != 0\<close> is its negation.\<close>

definition send_ok :: "'w ctrl_env \<Rightarrow> wifi_command \<Rightarrow> cval \<Rightarrow> 'w wpa_state \<Rightarrow> (bool \<times> 'w wpa_state) option" where
  "send_ok E cmd v s = do { ((ret, res), s) \<leftarrow> send_int E cmd v 0 s; Some (ret = 0 \<and> res = 0, s) }"

definition int_of_ok :: "bool \<times> 's \<Rightarrow> int \<times> 's" where
  "int_of_ok p = (if fst p then 0 else -1, snd p)"

type_synonym 'w wpa_op = "'w wpa_state \<Rightarrow> (int \<times> 'w wpa_state) option"

section \<open>Operations\<close>

definition wifi_blacklist_clear :: "'w ctrl_env \<Rightarrow> 'w wpa_op" where
  "wifi_blacklist_clear E s = map_option int_of_ok (send_ok E WIFI_COMMAND_BLACKLIST_CLEAR VNull s)"

definition wifi_save_network :: "'w ctrl_env \<Rightarrow> 'w wpa_op" where
  "wifi_save_network E s = do {
     ((_, res), s) \<leftarrow> send_int E WIFI_COMMAND_SAVECONFIG VNull 0 s;
     Some (if res = 0 then 0 else -1, s)
   }"

text \<open>The getters of one \<open>int\<close>; \<open>v\<close> is the value of the caller's variable.\<close>

definition get_int ::
  "'w ctrl_env \<Rightarrow> wifi_command \<Rightarrow> int \<Rightarrow> 'w wpa_state \<Rightarrow> ((int \<times> int) \<times> 'w wpa_state) option" where
  "get_int E cmd v s = do {
     ((ret, v), s) \<leftarrow> send_int E cmd VNull v s;
     Some ((if ret < 0 then -1 else 0, v), s)
   }"

definition wifi_get_signal where "wifi_get_signal E = get_int E WIFI_COMMAND_GET_SIGNAL"
definition wifi_get_current_channel where "wifi_get_current_channel E = get_int E WIFI_COMMAND_GET_CHANNEL"
definition wifi_get_status where "wifi_get_status E = get_int E WIFI_COMMAND_GET_STATUS"
definition wifi_get_config_network where
  "wifi_get_config_network E = get_int E WIFI_COMMAND_LIST_CONFIGED_NETWORK"
definition wifi_get_enable_network where
  "wifi_get_enable_network E = get_int E WIFI_COMMAND_LIST_ENABLED_NETWORK"
definition wifi_get_listnetwork where "wifi_get_listnetwork E = wifi_get_enable_network E"
definition wifi_get_current_id where "wifi_get_current_id E = get_int E WIFI_COMMAND_GET_CURRENT_ID 0"

definition get_mac ::
  "'w ctrl_env \<Rightarrow> wifi_command \<Rightarrow> 8 word list \<Rightarrow> 'w wpa_state \<Rightarrow> ((int \<times> 8 word list) \<times> 'w wpa_state) option" where
  "get_mac E cmd m s = do {
     ((ret, res), s) \<leftarrow> wifi_send_command E cmd VNull (CMac m) 6 s;
     case res of CMac m \<Rightarrow> Some ((if ret < 0 then -1 else 0, m), s) | _ \<Rightarrow> None
   }"

definition wifi_get_device_mac where "wifi_get_device_mac E = get_mac E WIFI_COMMAND_GET_DEVICE_MAC"
definition wifi_get_ap_bssid where "wifi_get_ap_bssid E = get_mac E WIFI_COMMAND_GET_APP_BSSID"

definition wifi_scan :: "'w ctrl_env \<Rightarrow> 'w wpa_op" where
  "wifi_scan E s = map_option int_of_ok (send_ok E WIFI_COMMAND_SCAN VNull s)"

text \<open>\<open>strcat\<close> of the frequencies into \<open>params[128]\<close>, each printed into \<open>channel[6]\<close>.\<close>

fun channel_list :: "int list \<Rightarrow> string \<Rightarrow> string option" where
  "channel_list [] params = Some params"
| "channel_list (f # fs) params = do {
     channel \<leftarrow> fits 6 (show_int f @ '','');
     params \<leftarrow> fits 128 (params @ channel);
     channel_list fs params
   }"

text \<open>\<open>freq\<close> is \<open>None\<close> for NULL, otherwise the \<open>num\<close> entries of the array.\<close>

definition wifi_scan_channel :: "'w ctrl_env \<Rightarrow> int list option \<Rightarrow> 'w wpa_op" where
  "wifi_scan_channel E freq s =
     (case freq of
        None \<Rightarrow> Some (-1, s)
      | Some fs \<Rightarrow>
          if length fs > 21 then Some (-1, s)
          else if fs = [] then wifi_scan E s
          else do {
            params \<leftarrow> channel_list fs ''freq='';
            map_option int_of_ok (send_ok E WIFI_COMMAND_SCAN (VStr (butlast params)) s)
          })"

definition wifi_get_scan_result ::
  "'w ctrl_env \<Rightarrow> 'w wpa_state \<Rightarrow> ((int \<times> wifi_scan_res list) \<times> 'w wpa_state) option" where
  "wifi_get_scan_result E s = do {
     ((ret, res), s) \<leftarrow> wifi_send_command E WIFI_COMMAND_SCAN_R VNull (CList []) 40960 s;
     case res of CList l \<Rightarrow> Some ((if ret < 0 then -1 else 0, l), s) | _ \<Rightarrow> None
   }"

text \<open>The loop of \<open>wifi_get_block_scan_result\<close>.\<close>

fun scan_wait ::
  "'w ctrl_env \<Rightarrow> nat \<Rightarrow> int \<Rightarrow> wifi_scan_res list \<Rightarrow> 'w wpa_state \<Rightarrow> ((int \<times> wifi_scan_res list) \<times> 'w wpa_state) option" where
  "scan_wait E timeout status l s = do {
     ((ret, status), s) \<leftarrow> wifi_get_status E status s;
     if ret < 0 then Some ((-1, l), s)
     else if status \<noteq> WIFI_SCANING \<or> timeout = 0 then do {
       ((ret, l), s) \<leftarrow> wifi_get_scan_result E s;
       Some ((if ret < 0 then -1 else 0, l), s)
     }
     else scan_wait E (timeout - 1) status l s
   }"

declare scan_wait.simps [simp del]

definition wifi_get_block_scan_result ::
  "'w ctrl_env \<Rightarrow> wifi_scan_res list \<Rightarrow> nat \<Rightarrow> 'w wpa_state \<Rightarrow> ((int \<times> wifi_scan_res list) \<times> 'w wpa_state) option" where
  "wifi_get_block_scan_result E l timeout s = do { (_, s) \<leftarrow> wifi_scan E s; scan_wait E timeout 0 l s }"

definition dhcp_reset :: "'w ctrl_env \<Rightarrow> 'w wpa_state \<Rightarrow> 'w wpa_state" where
  "dhcp_reset E s = snd (cext (cx_system E (''/etc/init.d/dhcpcd restart'' @ [CHR 0x0A])) s)"

subsection \<open>Joining a network\<close>

text \<open>A key of one of the WEP lengths makes \<open>wifi_join_network\<close> look the network up in a scan.\<close>

definition wep_probe ::
  "'w ctrl_env \<Rightarrow> wifi_network \<Rightarrow> 'w wpa_state \<Rightarrow> (wifi_network \<times> 'w wpa_state) option" where
  "wep_probe E net s =
     (if length (wn_psk net) \<in> {5, 13, 16, 10, 26, 32} then do {
        ((_, l), s) \<leftarrow> wifi_get_block_scan_result E [] 3 s;
        Some (if \<exists>x \<in> set l. sr_key x = WIFI_KEY_WEP \<and> is_prefix (wn_ssid net) (sr_ssid x)
              then net\<lparr>wn_key_mgmt := WIFI_KEY_WEP\<rparr> else net, s)
      }
      else Some (net, s))"

text \<open>A sequence of commands that all have to be acknowledged.\<close>

fun send_all :: "'w ctrl_env \<Rightarrow> (wifi_command \<times> cval) list \<Rightarrow> 'w wpa_state \<Rightarrow> (bool \<times> 'w wpa_state) option" where
  "send_all E [] s = Some (True, s)"
| "send_all E ((cmd, v) # cs) s = do { (ok, s) \<leftarrow> send_ok E cmd v s; if ok then send_all E cs s else Some (False, s) }"

definition key_commands :: "wifi_network \<Rightarrow> (wifi_command \<times> cval) list" where
  "key_commands net =
     (case wn_key_mgmt net of
        WIFI_KEY_NONE \<Rightarrow> [(WIFI_COMMAND_SETNETWORK_KEYMETH, VNet net)]
      | WIFI_KEY_WEP \<Rightarrow> [(WIFI_COMMAND_SETNETWORK_KEYMETH, VNet net),
          (WIFI_COMMAND_SETNETWORK_AUTHALG, VStr (show_int (wn_id net) @ ''+SHARED OPEN'')),
          (WIFI_COMMAND_SETNETWORK_WEPKEY0, VNet net),
          (WIFI_COMMAND_SETNETWORK_WEPTXKEYID, VStr (show_int (wn_id net) @ ''+0''))]
      | _ \<Rightarrow> [(WIFI_COMMAND_SETNETWORK_PSK, VNet net)])"

definition join_commands :: "wifi_network \<Rightarrow> (wifi_command \<times> cval) list" where
  "join_commands net = (WIFI_COMMAND_SETNETWORK_SSID, VNet net) # key_commands net @
     [(WIFI_COMMAND_SETNETWORK_SCANSSID, VNet net), (WIFI_COMMAND_SELECTNETWORK, VInt (wn_id net)),
      (WIFI_COMMAND_ENABLENETWORK, VInt (wn_id net))]"

definition wifi_join_network ::
  "'w ctrl_env \<Rightarrow> wifi_network \<Rightarrow> 'w wpa_state \<Rightarrow> ((int \<times> wifi_network) \<times> 'w wpa_state) option" where
  "wifi_join_network E net s = do {
     (net, s) \<leftarrow> wep_probe E net s;
     (r, s) \<leftarrow> wifi_blacklist_clear E s;
     if r < 0 then Some ((-1, net), s)
     else do {
       ((r, i), s) \<leftarrow> send_int E WIFI_COMMAND_ADDNETWORK VNull (wn_id net) s;
       if r < 0 then Some ((-1, net), s)
       else do {
         let net = net\<lparr>wn_id := i\<rparr>;
         (ok, s) \<leftarrow> send_all E (join_commands net) s;
         Some (if ok then ((0, net), dhcp_reset E s) else ((-2, net), s))
       }
     }
   }"

subsection \<open>Enabling, disabling, removing\<close>

definition wifi_disable_network :: "'w ctrl_env \<Rightarrow> int \<Rightarrow> 'w wpa_op" where
  "wifi_disable_network E i s = map_option int_of_ok (send_ok E WIFI_COMMAND_DISABLENETWORK (VInt i) s)"

definition wifi_abort_scan :: "'w ctrl_env \<Rightarrow> 'w wpa_op" where
  "wifi_abort_scan E s = map_option int_of_ok (send_ok E WIFI_COMMAND_ABORT_SCAN VNull s)"

text \<open>The loop of \<open>wifi_disable_all_network\<close>; \<open>None\<close> when it does not end.\<close>

partial_function (option) abort_until :: "'w ctrl_env \<Rightarrow> 'w wpa_state \<Rightarrow> 'w wpa_state option" where
  "abort_until E s = Option.bind (wifi_abort_scan E s) (\<lambda>(r, s). if r < 0 then abort_until E s else Some s)"

declare abort_until.simps [code]

definition wifi_disable_all_network :: "'w ctrl_env \<Rightarrow> 'w wpa_op" where
  "wifi_disable_all_network E s = do { s \<leftarrow> abort_until E s; wifi_disable_network E WPA_ALL_NETWORK s }"

definition wifi_remove_network :: "'w ctrl_env \<Rightarrow> int \<Rightarrow> 'w wpa_op" where
  "wifi_remove_network E i s = map_option int_of_ok (send_ok E WIFI_COMMAND_REMOVENETWORK (VInt i) s)"

definition wifi_remove_all_network :: "'w ctrl_env \<Rightarrow> 'w wpa_op" where
  "wifi_remove_all_network E = wifi_remove_network E WPA_ALL_NETWORK"

definition wifi_reconfigure :: "'w ctrl_env \<Rightarrow> 'w wpa_op" where
  "wifi_reconfigure E s = map_option int_of_ok (send_ok E WIFI_COMMAND_RECONFIGURE VNull s)"

definition wifi_enable_network :: "'w ctrl_env \<Rightarrow> int \<Rightarrow> 'w wpa_op" where
  "wifi_enable_network E i s = map_option int_of_ok (send_ok E WIFI_COMMAND_ENABLENETWORK (VInt i) s)"

definition wifi_enable_all_network :: "'w ctrl_env \<Rightarrow> 'w wpa_op" where
  "wifi_enable_all_network E = wifi_enable_network E WPA_ALL_NETWORK"

definition wifi_disconnect_network :: "'w ctrl_env \<Rightarrow> 'w wpa_op" where
  "wifi_disconnect_network E s = map_option int_of_ok (send_ok E WIFI_COMMAND_DISCONNCET VNull s)"

definition wifi_reconnect_network :: "'w ctrl_env \<Rightarrow> 'w wpa_op" where
  "wifi_reconnect_network E s = map_option int_of_ok (send_ok E WIFI_COMMAND_RECONNCET VNull s)"

definition wifi_clear_scan_results :: "'w ctrl_env \<Rightarrow> 'w wpa_op" where
  "wifi_clear_scan_results E s = map_option int_of_ok (send_ok E WIFI_COMMAND_BSSFLUSH VNull s)"

subsection \<open>The current network\<close>

text \<open>The caller's buffer has the 128 bytes of \<open>SSID_DEFAULT_LEN\<close>; it is cleared first.\<close>

definition wifi_get_current_ssid :: "'w ctrl_env \<Rightarrow> 'w wpa_state \<Rightarrow> ((int \<times> string) \<times> 'w wpa_state) option" where
  "wifi_get_current_ssid E s = do {
     ((ret, res), s) \<leftarrow> wifi_send_command E WIFI_COMMAND_GET_CURRENT_SSID VNull (CBuf (zero_buf 128)) 128 s;
     case res of CBuf b \<Rightarrow> Some ((if ret = 0 then 0 else -1, b), s) | _ \<Rightarrow> None
   }"

definition wifi_get_current_password :: "'w ctrl_env \<Rightarrow> 'w wpa_state \<Rightarrow> ((int \<times> string) \<times> 'w wpa_state) option" where
  "wifi_get_current_password E s = do {
     let password = zero_buf 64;
     ((ret, status), s) \<leftarrow> wifi_get_status E 0 s;
     if ret < 0 then Some ((-1, password), s)
     else if status = WIFI_CONNECTED then do {
       ((ret, i), s) \<leftarrow> wifi_get_current_id E s;
       if ret < 0 then Some ((-3, password), s)
       else do {
         ((ret, res), s) \<leftarrow> wifi_send_command E WIFI_COMMAND_GET_CURRENT_PSK (VInt i) (CBuf password) 64 s;
         case res of CBuf b \<Rightarrow> Some ((if ret < 0 then -4 else 0, b), s) | _ \<Rightarrow> None
       }
     }
     else Some ((-2, password), s)
   }"

subsection \<open>Reachability\<close>

definition ping_net_address :: "'w ctrl_env \<Rightarrow> string \<Rightarrow> 'w wpa_op" where
  "ping_net_address E addr s = do {
     cmd \<leftarrow> fits 128 (''/bin/ping -c 1 -W 3  '' @ addr @ '' > /dev/null'');
     let (ret, s) = cext (cx_system E cmd) s;
     if ret = 0 then Some (0, s)
     else do {
       cmd \<leftarrow> fits 128 (''curl --connect-timeout 3 -s '' @ addr @ '' | grep '' @ quoted ''html>'' @ '' | wc -l'');
       let (out, s) = cext (cx_popen E cmd) s;
       buffer \<leftarrow> out;
       Some (if take 1 (cstr buffer) = ''2'' then 0 else -2, s)
     }
   }"

definition network_get_status :: "'w ctrl_env \<Rightarrow> int \<Rightarrow> 'w wpa_state \<Rightarrow> ((int \<times> int) \<times> 'w wpa_state) option" where
  "network_get_status E v s = do {
     ((ret, status), s) \<leftarrow> wifi_get_status E v s;
     if ret < 0 then Some ((-1, status), s)
     else if status = WIFI_CONNECTED then do {
       (r, s) \<leftarrow> ping_net_address E ''180.76.76.76'' s;
       if r = 0 then Some ((0, NETSERVER_CONNECTED), s)
       else do {
         (r, s) \<leftarrow> ping_net_address E ''www.taobao.com'' s;
         Some ((0, if r = 0 then NETSERVER_CONNECTED else NETSERVER_UNCONNECTED), s)
       }
     }
     else Some ((0, status), s)
   }"

text \<open>The results of the \<open>iptables\<close> commands are ignored.\<close>

definition wifi_goto_lowermode :: "'w ctrl_env \<Rightarrow> int \<Rightarrow> 'w wpa_state \<Rightarrow> 'w wpa_state" where
  "wifi_goto_lowermode E state s =
     (if state \<noteq> 0
      then snd (cext (cx_system E ''iptables -A INPUT -j DROP -i wlan0'')
             (snd (cext (cx_system E ''iptables -A OUTPUT  -j DROP -o wlan0'') s)))
      else snd (cext (cx_system E ''iptables -F'') s))"

subsection \<open>The event connection\<close>

definition wifi_connect_moni_socket :: "'w ctrl_env \<Rightarrow> string \<Rightarrow> 'w wpa_state \<Rightarrow> int \<times> 'w wpa_state" where
  "wifi_connect_moni_socket E path s =
     (let (ok, s) = cext (cx_open E path) s; s = s\<lparr>monitor_conn := ok\<rparr> in
      if \<not> ok then (-1, s)
      else let (r, s) = cext (cx_attach E) s in
        if r \<noteq> 0 then let (_, s) = cext (cx_close E) s in (-1, s\<lparr>monitor_conn := False\<rparr>)
        else let (r, s) = cext (cx_socketpair E) s in
          if r = -1 then let (_, s) = cext (cx_close E) s in (-1, s\<lparr>monitor_conn := False\<rparr>)
          else (0, s))"

definition wifi_ctrl_recv :: "'w ctrl_env \<Rightarrow> 'w wpa_state \<Rightarrow> (int \<times> string) \<times> 'w wpa_state" where
  "wifi_ctrl_recv E s =
     (if \<not> monitor_conn s then ((-1, []), s)
      else let ((res, readable), s) = cext (cx_poll E) s in
        if res < 0 then ((res, []), s)
        else if res > 0 then if readable then cext (cx_recv E) s else ((-2, []), s)
        else ((1, []), s))"

definition wifi_monitor_release :: "'w ctrl_env \<Rightarrow> 'w wpa_state \<Rightarrow> 'w wpa_state" where
  "wifi_monitor_release E s = (snd (cext (cx_close E) s))\<lparr>monitor_conn := False\<rparr>"

subsection \<open>Address and mode\<close>

definition get_local_ip :: "'w ctrl_env \<Rightarrow> string \<Rightarrow> string \<Rightarrow> 'w wpa_state \<Rightarrow> (int \<times> string) \<times> 'w wpa_state" where
  "get_local_ip E eth_inf ip s =
     (let (sd, s) = cext (cx_socket E) s in
      if sd = -1 then ((-1, ip), s)
      else let (a, s) = cext (cx_ifaddr E (take 15 eth_inf)) s in
        case a of None \<Rightarrow> ((-1, ip), s) | Some x \<Rightarrow> ((0, take 15 x), s))"

text \<open>Waiting for the mode switch: \<open>property_get\<close> into \<open>wifi_return[64]\<close> with the default \<open>2\<close>.\<close>

fun netmode_wait :: "'w ctrl_env \<Rightarrow> nat \<Rightarrow> int \<Rightarrow> 'w wpa_op" where
  "netmode_wait E 0 ret s = Some (ret, s)"
| "netmode_wait E (Suc cnts) ret s = do {
     let (v, s) = cext (cx_property_get E ''service.rokid.netmode.return'') s;
     wifi_return \<leftarrow> fits 64 (case v of None \<Rightarrow> ''2'' | Some x \<Rightarrow> if x = [] then ''2'' else x);
     if atoi wifi_return \<noteq> 2 then Some (atoi wifi_return, s) else netmode_wait E cnts 2 s
   }"

definition switch_netmode :: "'w ctrl_env \<Rightarrow> string \<Rightarrow> 'w wpa_op" where
  "switch_netmode E mode s = do {
     let (_, s) = cext (cx_property_set E ''service.rokid.netmode.return'' ''2'') s;
     let (_, s) = cext (cx_property_set E ''service.rokid.netmode'' mode) s;
     (ret, s) \<leftarrow> netmode_wait E 10 2 s;
     Some (if ret = 2 then -1 else ret, s)
   }"

text \<open>The three strings are \<open>None\<close> when one of the pointers is NULL.\<close>

definition wifi_change_station_to_ap :: "'w ctrl_env \<Rightarrow> (string \<times> string \<times> string) option \<Rightarrow> 'w wpa_op" where
  "wifi_change_station_to_ap E info s =
     switch_netmode E ''1''
       (case info of
          None \<Rightarrow> s
        | Some (ssid, psk, ip) \<Rightarrow>
            snd (cext (cx_property_set E ''ro.rokid.hostapdip'' ip)
              (snd (cext (cx_property_set E ''ro.rokid.appsk'' psk)
                (snd (cext (cx_property_set E ''ro.rokid.apssid'' ssid) s))))))"

definition wifi_change_ap_to_station :: "'w ctrl_env \<Rightarrow> 'w wpa_op" where
  "wifi_change_ap_to_station E = switch_netmode E ''0''"

section \<open>Detection of GBK text\<close>

text \<open>The loop of \<open>is_str_gbk\<close> over the bytes before the terminator; \<open>nBytes\<close> is the number of
  trailing bytes still expected.\<close>

fun gbk_loop :: "8 word list \<Rightarrow> nat \<Rightarrow> int" where
  "gbk_loop [] nBytes = (if nBytes \<noteq> 0 then 0 else 1)"
| "gbk_loop (chr # cs) nBytes =
     (if nBytes = 0 then
        if chr \<ge> 0x80 then if chr \<ge> 0x81 \<and> chr \<le> 0xFE then gbk_loop cs 1 else 0
        else gbk_loop cs 0
      else if chr < 0x40 \<or> chr > 0xFE then 0 else gbk_loop cs (nBytes - 1))"

definition is_str_gbk :: "8 word list \<Rightarrow> int" where
  "is_str_gbk str = gbk_loop str 0"

end
