(* ===== verification/MacText.thy ===== *)
theory MacText
  imports CString
begin

text \<open>
  Device addresses as text.  \<open>mac_text\<close> is the output of the format \<open>%02x:%02x:...\<close>
  (\<open>mac_text_upper\<close> of \<open>%02X:%02X:...\<close>), \<open>strtoul_hex\<close> the C function \<open>strtoul\<close> for base 16
  with its end pointer, on a 64-bit \<open>unsigned long\<close>.
\<close>

section \<open>Printing\<close>

definition hex_digit :: "nat \<Rightarrow> char" where
  "hex_digit d = (if d < 10 then char_of (48 + d) else char_of (87 + d))"

definition hex_byte :: "8 word \<Rightarrow> string" where
  "hex_byte b = [hex_digit (unat b div 16), hex_digit (unat b mod 16)]"

fun mac_text :: "8 word list \<Rightarrow> string" where
  "mac_text [] = []"
| "mac_text [b] = hex_byte b"
| "mac_text (b # bs) = hex_byte b @ CHR '':'' # mac_text bs"

definition upper :: "char \<Rightarrow> char" where
  "upper c = (let n = of_char c :: nat in if 97 \<le> n \<and> n \<le> 122 then char_of (n - 32) else c)"

definition mac_text_upper :: "8 word list \<Rightarrow> string" where
  "mac_text_upper bs = map upper (mac_text bs)"

lemma mac_text_nth:
  "i < length bs \<Longrightarrow> mac_text bs ! (i * 3) = hex_digit (unat (bs ! i) div 16)
     \<and> mac_text bs ! Suc (i * 3) = hex_digit (unat (bs ! i) mod 16)"
proof (induction bs arbitrary: i rule: mac_text.induct)
  case (3 b c bs)
  then show ?case by (cases i) (auto simp: hex_byte_def)
qed (auto simp: hex_byte_def)

lemma mac_text_length: "bs \<noteq> [] \<Longrightarrow> length (mac_text bs) = 3 * length bs - 1"
  by (induction bs rule: mac_text.induct) (auto simp: hex_byte_def)

section \<open>Reading\<close>

definition is_hex :: "char \<Rightarrow> bool" where
  "is_hex c \<longleftrightarrow> (case digit_val c of None \<Rightarrow> False | Some d \<Rightarrow> d < 16)"

definition ULONG_MAX :: nat where "ULONG_MAX = 2 ^ 64 - 1"

text \<open>The result and the text at the end pointer; without a digit the end pointer is the start.\<close>

definition strtoul_hex :: "string \<Rightarrow> nat \<times> string" where
  "strtoul_hex s =
     (let t = dropWhile is_space s;
          neg = (t \<noteq> [] \<and> hd t = CHR ''-'');
          u = (if t \<noteq> [] \<and> (hd t = CHR ''-'' \<or> hd t = CHR ''+'') then tl t else t);
          v = (if hex_prefix u then drop 2 u else u);
          ds = takeWhile is_hex v;
          n = digits_value 16 0 ds
      in if ds = [] then (0, s)
         else (if n > ULONG_MAX then ULONG_MAX else if neg then (2 ^ 64 - n) mod 2 ^ 64 else n,
               drop (length ds) v))"

lemma of_char_hex: "d < 16 \<Longrightarrow> (of_char (hex_digit d) :: nat) = (if d < 10 then 48 + d else 87 + d)"
  by (simp add: hex_digit_def)

lemma digit_val_hex [simp]: "d < 16 \<Longrightarrow> digit_val (hex_digit d) = Some d"
  by (auto simp: digit_val_def of_char_hex)

lemma is_hex_digit [simp]: "d < 16 \<Longrightarrow> is_hex (hex_digit d)"
  by (simp add: is_hex_def)

lemma hex_digit_plain:
  assumes "d < 16"
  shows "\<not> is_space (hex_digit d)" "hex_digit d \<noteq> CHR ''-''" "hex_digit d \<noteq> CHR ''+''"
    "hex_digit d \<noteq> CHR ''x''" "hex_digit d \<noteq> CHR ''X''" "hex_digit d \<noteq> nul"
proof -
  have c: "(of_char (hex_digit d) :: nat) = (if d < 10 then 48 + d else 87 + d)" using assms by (rule of_char_hex)
  show "\<not> is_space (hex_digit d)" using c assms by (auto simp: is_space_def Let_def)
  have codes: "(of_char (CHR ''-'') :: nat) = 45" "(of_char (CHR ''+'') :: nat) = 43"
    "(of_char (CHR ''x'') :: nat) = 120" "(of_char (CHR ''X'') :: nat) = 88" "(of_char nul :: nat) = 0"
    by (simp_all add: nul_def)
  show "hex_digit d \<noteq> CHR ''-''" "hex_digit d \<noteq> CHR ''+''"
    "hex_digit d \<noteq> CHR ''x''" "hex_digit d \<noteq> CHR ''X''" "hex_digit d \<noteq> nul"
    using c codes assms by (auto split: if_splits)
qed

lemma byte_nibbles: "unat (b :: 8 word) div 16 < 16" "unat b mod 16 < 16"
  using unsigned_less[of b, where 'a = nat] by simp_all

lemma strtoul_hex_byte:
  assumes "rest = [] \<or> \<not> is_hex (hd rest)"
  shows "strtoul_hex (hex_byte b @ rest) = (unat b, rest)"
proof -
  note p = hex_digit_plain[OF byte_nibbles(1)[of b]] hex_digit_plain[OF byte_nibbles(2)[of b]]
  have tw: "takeWhile is_hex rest = []" using assms by (cases rest) auto
  have np: "\<not> hex_prefix (hex_byte b @ rest)" using p by (auto simp: hex_prefix_def hex_byte_def split: list.split)
  have ds: "takeWhile is_hex (hex_byte b @ rest) = hex_byte b"
    using tw byte_nibbles[of b] by (simp add: hex_byte_def)
  have v: "digits_value 16 0 (hex_byte b) = unat b"
    using byte_nibbles[of b] by (simp add: hex_byte_def)
  have le: "unat b \<le> ULONG_MAX" using unsigned_less[of b, where 'a = nat] by (simp add: ULONG_MAX_def)
  have start: "dropWhile is_space (hex_byte b @ rest) = hex_byte b @ rest"
    using p by (simp add: hex_byte_def)
  have sg: "hd (hex_byte b @ rest) \<noteq> CHR ''-''" "hd (hex_byte b @ rest) \<noteq> CHR ''+''" "hex_byte b \<noteq> []"
    using p by (simp_all add: hex_byte_def)
  show ?thesis
    using np ds v le sg by (simp add: strtoul_hex_def start Let_def del: takeWhile_append)
qed

lemma hex_byte_no_nul [simp]: "nul \<notin> set (hex_byte b)"
  using hex_digit_plain(6)[OF byte_nibbles(1)[of b]] hex_digit_plain(6)[OF byte_nibbles(2)[of b]]
  by (auto simp: hex_byte_def dest: sym)

lemma mac_text_no_nul: "nul \<notin> set (mac_text bs)"
  by (induction bs rule: mac_text.induct) (auto simp: nul_def[symmetric], simp add: nul_def)

end
