(* ===== verification/WpaProps.thy ===== *)
theory WpaProps
  imports WpaCommand MacText
begin

text \<open>
  Properties of the wpa_supplicant client: reading replies line by line, the list of
  scan results, MAC addresses, the commands that join a network, bounds of the command
  buffer and what happens when a request fails.
\<close>

section \<open>Loops over the lines of a reply\<close>

lemma line_loop_inv:
  assumes step: "\<And>buf a a' stop. I a \<Longrightarrow> body buf a = Some (a', stop) \<Longrightarrow> I a'"
  shows "line_loop cap body reply i buf a = Some r \<Longrightarrow> I a \<Longrightarrow> I r"
proof (induction "Suc (length reply) - i" arbitrary: i buf a rule: less_induct)
  case less
  show ?case
  proof (cases "get_line i [] reply")
    case None
    then show ?thesis using less.prems by (subst (asm) line_loop.simps) (simp split: if_splits)
  next
    case (Some l)
    then obtain a' stop where b: "body (put_line l buf) a = Some (a', stop)"
      and r: "if stop then a' = r else line_loop cap body reply (Suc i) (put_line l buf) a' = Some r"
      using less.prems(1) by (subst (asm) line_loop.simps) (auto split: option.splits if_splits)
    have "Suc (length reply) - Suc i < Suc (length reply) - i" using get_line_bound[OF Some] by simp
    from less.hyps[OF this] show ?thesis using r step[OF less.prems(2) b] by (cases stop) auto
  qed
qed

text \<open>The loop on a reply that is put together from lines.\<close>

fun run_lines :: "(string \<Rightarrow> 'a \<Rightarrow> ('a \<times> bool) option) \<Rightarrow> string list \<Rightarrow> string \<Rightarrow> 'a \<Rightarrow> 'a option" where
  "run_lines body [] buf a = Some a"
| "run_lines body (l # ls) buf a =
     (case body (put_line l buf) a of
        None \<Rightarrow> None
      | Some (a', stop) \<Rightarrow> if stop then Some a' else run_lines body ls (put_line l buf) a')"

text \<open>A reply as wpa_supplicant sends it: lines without line ends and NUL characters that fit
  the line buffer, and a text that fits the reply buffer.\<close>

definition reply_line :: "nat \<Rightarrow> string \<Rightarrow> bool" where
  "reply_line cap l \<longleftrightarrow> plain_line l \<and> nul \<notin> set l \<and> length l < cap"

definition reply_text :: "nat \<Rightarrow> string list \<Rightarrow> bool" where
  "reply_text cap ls \<longleftrightarrow> ls \<noteq> [] \<and> list_all (reply_line cap) ls \<and> length (join_lines ls) < 4095"

lemma get_line_reply:
  assumes "reply_text cap ls"
  shows "get_line i [] (join_lines ls) = (if i < length ls then Some (ls ! i) else None)"
proof -
  obtain l ms where ls: "ls = l # ms" using assms by (cases ls) (auto simp: reply_text_def)
  have "list_all plain_line (l # ms)"
    using assms unfolding ls by (auto simp: reply_text_def reply_line_def list_all_iff)
  from get_line_join[OF this, of i] show ?thesis by (auto simp: ls)
qed

lemma line_loop_lines:
  assumes "reply_text cap ls"
  shows "line_loop cap body (join_lines ls) i buf a = run_lines body (drop i ls) buf a"
proof (induction "length ls - i" arbitrary: i buf a rule: less_induct)
  case less
  have g: "get_line i [] (join_lines ls) = (if i < length ls then Some (ls ! i) else None)"
    by (rule get_line_reply[OF assms])
  have len: "\<not> 4095 \<le> length (join_lines ls)" using assms by (simp add: reply_text_def)
  show ?case
  proof (cases "i < length ls")
    case True
    then have c: "length (ls ! i) < cap" using assms by (simp add: reply_text_def reply_line_def list_all_length)
    have d: "drop i ls = ls ! i # drop (Suc i) ls" using True by (rule Cons_nth_drop_Suc[symmetric])
    have r: "line_loop cap body (join_lines ls) (Suc i) b x = run_lines body (drop (Suc i) ls) b x" for b x
      using less True by simp
    show ?thesis using g c by (subst line_loop.simps) (simp add: True d r split: option.split)
  next
    case False
    then show ?thesis using g len by (subst line_loop.simps) simp
  qed
qed

lemma cstr_put_line: "nul \<notin> set l \<Longrightarrow> cstr (put_line l buf) = l"
  by (auto simp: cstr_def put_line_def takeWhile_append)

lemma cstr_drop_put_line: "nul \<notin> set l \<Longrightarrow> n \<le> length l \<Longrightarrow> cstr (drop n (put_line l buf)) = drop n l"
  using in_set_dropD[of nul n l] by (auto simp: cstr_def put_line_def takeWhile_append)

text \<open>A body that depends on the line only folds over the lines.\<close>

lemma run_lines_fold:
  assumes "list_all (reply_line cap) ls"
    and "\<And>l buf a. l \<in> set ls \<Longrightarrow> reply_line cap l \<Longrightarrow> body (put_line l buf) a = Some (f l a, False)"
  shows "run_lines body ls buf a = Some (fold f ls a)"
  using assms by (induction ls arbitrary: buf a) auto

section \<open>Status\<close>

definition status_line :: "string \<Rightarrow> bool" where
  "status_line l \<longleftrightarrow> contains l ''wpa_state=COMPLETED'' \<or> contains l ''wpa_state=SCANNING''"

definition status_of_lines :: "string list \<Rightarrow> int" where
  "status_of_lines ls =
     (case find status_line ls of
        None \<Rightarrow> WIFI_UNCONNECTED
      | Some l \<Rightarrow> if contains l ''wpa_state=COMPLETED'' then WIFI_CONNECTED else WIFI_SCANING)"

lemma run_status:
  assumes "list_all (reply_line cap) ls"
  shows "run_lines status_step ls buf a = Some (if ls = [] then a else status_of_lines ls)"
  using assms
proof (induction ls arbitrary: buf a)
  case (Cons l ls)
  have "cstr (put_line l buf) = l" using Cons.prems by (simp add: reply_line_def cstr_put_line)
  then show ?case using Cons by (auto simp: status_step_def status_of_lines_def status_line_def)
qed simp

section \<open>Scan results\<close>

text \<open>The identity of an entry, and the order in which a list improves: every entry stays or is
  replaced by a stronger one with the same identity.\<close>

definition ap_id :: "wifi_scan_res \<Rightarrow> string \<times> key_mgmt" where
  "ap_id x = (sr_ssid x, sr_key x)"

definition scan_list_ok :: "wifi_scan_res list \<Rightarrow> bool" where
  "scan_list_ok l \<longleftrightarrow> distinct (map ap_id l) \<and> length l \<le> 101 \<and>
     list_all (\<lambda>x. sr_ssid x \<noteq> [] \<and> length (sr_ssid x) < 128 \<and> length (sr_mac x) < 18) l"

lemma reduce_at_ids: "map ap_id (reduce_at l x) = (if ap_id x \<in> ap_id ` set l then map ap_id l else map ap_id l @ [ap_id x])"
  by (induction l x rule: reduce_at.induct) (auto simp: ap_id_def)

lemma reduce_at_set: "set (reduce_at l x) \<subseteq> insert x (set l)"
  by (induction l x rule: reduce_at.induct) auto

lemma reduce_at_length: "length (reduce_at l x) \<le> Suc (length l)"
  by (induction l x rule: reduce_at.induct) auto

lemma reduce_ok:
  assumes "scan_list_ok l" and "sr_ssid x \<noteq> []" "length (sr_ssid x) < 128" "length (sr_mac x) < 18"
  shows "scan_list_ok (wpa_reduce_repeat_ssid l x)"
proof (cases "length l > 100")
  case True
  then show ?thesis using assms(1) by (simp add: wpa_reduce_repeat_ssid_def)
next
  case False
  have "distinct (map ap_id (reduce_at l x))" using assms(1) by (auto simp: reduce_at_ids scan_list_ok_def)
  moreover have "length (reduce_at l x) \<le> 101" using False reduce_at_length[of l x] by simp
  ultimately show ?thesis
    using False assms reduce_at_set[of l x]
    by (auto simp: wpa_reduce_repeat_ssid_def scan_list_ok_def list_all_iff)
qed

lemma scan_ap_line_bounds:
  assumes "scan_ap_line line ap k = Some (x, k')" "length (sr_ssid ap) < 128" "length (sr_mac ap) < 18"
  shows "length (sr_ssid x) < 128 \<and> length (sr_mac x) < 18"
  using assms by (auto simp: scan_ap_line_def Let_def split: option.splits if_splits prod.splits)

lemma scan_step_ok:
  assumes "scan_list_ok (fst st)" and "scan_step buf st = Some (st', stop)"
  shows "scan_list_ok (fst st')"
proof -
  obtain l k where st: "st = (l, k)" by (cases st)
  obtain ap k' where a: "scan_ap_line (cstr buf) zero_scan_res k = Some (ap, k')"
    and st': "fst st' = (if sr_ssid ap = [] then l else wpa_reduce_repeat_ssid l (ap\<lparr>sr_key := key_of_flags k'\<rparr>))"
    using assms(2) st by (auto simp: scan_step_def split: Option.bind_splits)
  have "length (sr_ssid ap) < 128 \<and> length (sr_mac ap) < 18"
    using scan_ap_line_bounds[OF a] by (simp add: zero_scan_res_def)
  then show ?thesis using assms(1) st st' by (simp add: reduce_ok)
qed

text \<open>The strongest entry of every identity survives while the list has room.\<close>

lemma reduce_at_covers:
  assumes "\<exists>y \<in> set l. ap_id y = ap_id z \<and> sr_sig z \<le> sr_sig y"
  shows "\<exists>y \<in> set (reduce_at l x). ap_id y = ap_id z \<and> sr_sig z \<le> sr_sig y"
  using assms by (induction l x rule: reduce_at.induct) (auto simp: ap_id_def)

lemma reduce_at_new: "\<exists>y \<in> set (reduce_at l x). ap_id y = ap_id x \<and> sr_sig x \<le> sr_sig y"
  by (induction l x rule: reduce_at.induct) (auto simp: ap_id_def)

text \<open>\<open>best_of A l\<close>: \<open>l\<close> holds one entry of \<open>A\<close> for every identity in \<open>A\<close>, and none of \<open>A\<close> is stronger.\<close>

definition best_of :: "wifi_scan_res set \<Rightarrow> wifi_scan_res list \<Rightarrow> bool" where
  "best_of A l \<longleftrightarrow> distinct (map ap_id l) \<and> set l \<subseteq> A \<and>
     (\<forall>z \<in> A. \<exists>y \<in> set l. ap_id y = ap_id z \<and> sr_sig z \<le> sr_sig y)"

definition merge_aps :: "wifi_scan_res list \<Rightarrow> wifi_scan_res list \<Rightarrow> wifi_scan_res list" where
  "merge_aps = fold (\<lambda>x l. wpa_reduce_repeat_ssid l x)"

lemma best_of_step:
  assumes "best_of A (merge_aps xs (reduce_at l x))" and "A = set xs \<union> set (reduce_at l x)"
  shows "best_of (set (x # xs) \<union> set l) (merge_aps xs (reduce_at l x))"
proof -
  have sub: "A \<subseteq> set (x # xs) \<union> set l" using assms(2) reduce_at_set[of l x] by auto
  have "\<exists>w \<in> A. ap_id w = ap_id z \<and> sr_sig z \<le> sr_sig w" if z: "z \<in> set (x # xs) \<union> set l" for z
    using z reduce_at_new[of l x] reduce_at_covers[of l z x] unfolding assms(2) by auto
  then have "\<exists>y \<in> set (merge_aps xs (reduce_at l x)). ap_id y = ap_id z \<and> sr_sig z \<le> sr_sig y"
    if "z \<in> set (x # xs) \<union> set l" for z
    using assms(1) that unfolding best_of_def by (metis order_trans)
  then show ?thesis using assms(1) sub by (auto simp: best_of_def)
qed

lemma merge_aps_best:
  assumes "card (ap_id ` (set xs \<union> set l)) \<le> 100" "distinct (map ap_id l)"
  shows "best_of (set xs \<union> set l) (merge_aps xs l)"
  using assms
proof (induction xs arbitrary: l)
  case Nil
  then show ?case by (auto simp: best_of_def merge_aps_def)
next
  case (Cons x xs)
  have "length l = card (ap_id ` set l)" using Cons.prems(2) distinct_card[of "map ap_id l"] by simp
  also have "\<dots> \<le> card (ap_id ` (set (x # xs) \<union> set l))" by (intro card_mono) auto
  finally have r: "merge_aps (x # xs) l = merge_aps xs (reduce_at l x)"
    using Cons.prems(1) by (simp add: merge_aps_def wpa_reduce_repeat_ssid_def)
  have "ap_id ` (set xs \<union> set (reduce_at l x)) \<subseteq> ap_id ` (set (x # xs) \<union> set l)"
    using reduce_at_set[of l x] by auto
  then have "card (ap_id ` (set xs \<union> set (reduce_at l x))) \<le> card (ap_id ` (set (x # xs) \<union> set l))"
    by (intro card_mono) auto
  then have "card (ap_id ` (set xs \<union> set (reduce_at l x))) \<le> 100" using Cons.prems(1) by simp
  moreover have "distinct (map ap_id (reduce_at l x))" using Cons.prems(2) by (auto simp: reduce_at_ids)
  ultimately show ?case using best_of_step[OF Cons.IH refl] by (simp add: r)
qed

section \<open>Reading back a line of scan results\<close>

definition tab :: char where "tab = CHR 0x09"

lemma tab_space [simp]: "is_space tab" by (simp add: tab_def is_space_def)

lemma tab_digit [simp]: "\<not> is_digit tab" by (simp add: tab_def is_digit_def digit_val_def)

definition word_field :: "nat \<Rightarrow> string \<Rightarrow> bool" where
  "word_field n w \<longleftrightarrow> w \<noteq> [] \<and> list_all (\<lambda>c. \<not> is_space c) w \<and> length w < n"

lemma takeWhile_field: "list_all P w \<Longrightarrow> \<not> P c \<Longrightarrow> takeWhile P (w @ c # r) = w"
  by (induction w) auto

lemma scan_word_field:
  assumes "word_field n w"
  shows "scan_word (w @ tab # r) = Some (w, tab # r)" "scan_word (tab # w @ tab # r) = Some (w, tab # r)"
proof -
  have d: "dropWhile is_space (w @ tab # r) = w @ tab # r" using assms by (cases w) (auto simp: word_field_def)
  have t: "takeWhile (\<lambda>c. \<not> is_space c) (w @ tab # r) = w"
    using assms by (intro takeWhile_field) (auto simp: word_field_def)
  show "scan_word (w @ tab # r) = Some (w, tab # r)" using d t by (simp add: scan_word_def)
  show "scan_word (tab # w @ tab # r) = Some (w, tab # r)" using d t by (simp add: scan_word_def)
qed

lemma show_nat_is_digit: "list_all is_digit (show_nat n)"
  using show_nat_digit_vals[of n] by (fastforce simp: list_all_iff is_digit_def)

lemma takeWhile_stop: "list_all P w \<Longrightarrow> r = [] \<or> \<not> P (hd r) \<Longrightarrow> takeWhile P (w @ r) = w"
  by (induction w) (cases r; auto)+

lemma scan_int_show:
  assumes "- (2 ^ 31) \<le> i" "i < 2 ^ 31" and r: "r = [] \<or> \<not> is_digit (hd r)"
  shows "scan_int (show_int i @ r) = Some (i, r)"
proof (cases "i < 0")
  case True
  have m: "\<not> is_space (CHR ''-'')" by (simp add: is_space_def)
  have "takeWhile is_digit (show_nat (nat (- i)) @ r) = show_nat (nat (- i))"
    by (intro takeWhile_stop show_nat_is_digit r)
  then show ?thesis using True m atoi_show_int[OF assms(1,2)] by (simp add: scan_int_def show_int_def)
next
  case False
  have t: "takeWhile is_digit (show_nat (nat i) @ r) = show_nat (nat i)"
    by (intro takeWhile_stop show_nat_is_digit r)
  have h: "\<not> is_space (hd (show_nat (nat i)))" "hd (show_nat (nat i)) \<noteq> CHR ''-''" "hd (show_nat (nat i)) \<noteq> CHR ''+''"
    using hd_show_nat_plain[of "nat i"] by auto
  obtain c cs where c: "show_nat (nat i) = c # cs" by (cases "show_nat (nat i)") auto
  show ?thesis
    using False t h atoi_show_int[OF assms(1,2)] by (simp add: scan_int_def show_int_def c)
qed

lemma scan_int_field:
  assumes "- (2 ^ 31) \<le> i" "i < 2 ^ 31"
  shows "scan_int (tab # show_int i @ tab # r) = Some (i, tab # r)"
proof -
  have "scan_int (tab # x) = scan_int x" for x by (simp add: scan_int_def)
  then show ?thesis using scan_int_show[OF assms, of "tab # r"] by simp
qed

text \<open>A line of \<open>SCAN_RESULTS\<close>: address, frequency, signal, flags and name, separated by tabs.\<close>

definition ap_line :: "wifi_scan_res \<Rightarrow> string \<Rightarrow> string" where
  "ap_line x flags = sr_mac x @ tab # show_int (sr_freq x) @ tab # show_int (sr_sig x) @ tab # flags @ tab # sr_ssid x"

definition ap_fields_ok :: "wifi_scan_res \<Rightarrow> string \<Rightarrow> bool" where
  "ap_fields_ok x flags \<longleftrightarrow> word_field 18 (sr_mac x) \<and> word_field 64 flags
     \<and> - (2 ^ 31) \<le> sr_freq x \<and> sr_freq x < 2 ^ 31 \<and> - (2 ^ 31) \<le> sr_sig x \<and> sr_sig x < 2 ^ 31
     \<and> sr_ssid x \<noteq> [] \<and> \<not> is_space (hd (sr_ssid x)) \<and> CHR 0x0A \<notin> set (sr_ssid x) \<and> length (sr_ssid x) < 128"

lemma scan_ap_line_printed:
  assumes "ap_fields_ok x flags"
  shows "scan_ap_line (ap_line x flags) zero_scan_res k = Some (x\<lparr>sr_key := WIFI_KEY_WPA2PSK\<rparr>, flags)"
proof -
  note f = assms[unfolded ap_fields_ok_def]
  have m: "word_field 18 (sr_mac x)" and w: "word_field 64 flags" using f by auto
  have d: "dropWhile is_space (tab # sr_ssid x) = sr_ssid x" using f by (cases "sr_ssid x") auto
  have t: "takeWhile (\<lambda>c. c \<noteq> CHR 0x0A) (sr_ssid x) = sr_ssid x" using f by (intro takeWhile_id) metis
  have "length (sr_mac x) < 18" "length flags < 64" using m w by (auto simp: word_field_def)
  moreover have "x\<lparr>sr_key := WIFI_KEY_WPA2PSK\<rparr> = \<lparr>sr_mac = sr_mac x, sr_freq = sr_freq x, sr_sig = sr_sig x,
      sr_key = WIFI_KEY_WPA2PSK, sr_ssid = sr_ssid x\<rparr>" by simp
  ultimately show ?thesis
    using f
    by (simp add: scan_ap_line_def ap_line_def scan_word_field[OF m] scan_word_field[OF w] scan_int_field
        zero_scan_res_def Let_def d t del: takeWhile_eq_all_conv dropWhile.simps)
qed

definition with_key :: "wifi_scan_res \<times> string \<Rightarrow> wifi_scan_res" where
  "with_key p = (fst p)\<lparr>sr_key := key_of_flags (snd p)\<rparr>"

definition scan_reply :: "string \<Rightarrow> (wifi_scan_res \<times> string) list \<Rightarrow> string list" where
  "scan_reply header aps = header # map (\<lambda>(x, f). ap_line x f) aps"

lemma run_scan:
  assumes "list_all (\<lambda>(x, f). ap_fields_ok x f \<and> nul \<notin> set (ap_line x f)) aps"
  shows "\<exists>k'. run_lines scan_step (map (\<lambda>(x, f). ap_line x f) aps) buf (l, k) = Some (merge_aps (map with_key aps) l, k')"
  using assms
proof (induction aps arbitrary: buf l k)
  case (Cons p aps)
  obtain x f where p: "p = (x, f)" by (cases p)
  have ok: "ap_fields_ok x f" "nul \<notin> set (ap_line x f)" using Cons.prems p by auto
  have ne: "sr_ssid x \<noteq> []" using ok(1) by (simp add: ap_fields_ok_def)
  have "scan_step (put_line (ap_line x f) buf) (l, k) = Some ((wpa_reduce_repeat_ssid l (with_key p), f), False)"
    using ne by (simp add: scan_step_def cstr_put_line[OF ok(2)] scan_ap_line_printed[OF ok(1)] with_key_def p)
  then show ?case using Cons.IH[of "put_line (ap_line x f) buf" "wpa_reduce_repeat_ssid l (with_key p)" f] Cons.prems
    by (simp add: p merge_aps_def)
qed (simp add: merge_aps_def)

section \<open>MAC addresses\<close>

lemma a2x_hex: "d < 16 \<Longrightarrow> a2x (hex_digit d) = of_nat d"
  by (auto simp: a2x_def hex_digit_def Let_def)

lemma nibbles: "push_bit 4 (of_nat (unat b div 16)) + of_nat (unat b mod 16) = (b :: 8 word)"
proof -
  have "b = of_nat (unat b div 16 * 16 + unat b mod 16)" by (simp only: div_mult_mod_eq of_nat_unat ucast_id)
  also have "\<dots> = of_nat (unat b div 16) * 16 + of_nat (unat b mod 16)" by (simp only: of_nat_add of_nat_mult of_nat_numeral)
  finally show ?thesis by (simp add: push_bit_eq_mult)
qed

lemma copy_mac_text:
  assumes "length bs = 6"
  shows "COPY_STR2MAC (mac_text bs @ r) = bs"
proof (rule nth_equalityI)
  fix i
  assume "i < length (COPY_STR2MAC (mac_text bs @ r))"
  then have i: "i < 6" by (simp add: COPY_STR2MAC_def)
  have l: "length (mac_text bs) = 17" using mac_text_length[of bs] assms by fastforce
  have d: "unat (bs ! i) div 16 < 16" using unsigned_less[of "bs ! i", where 'a = nat] by simp
  show "COPY_STR2MAC (mac_text bs @ r) ! i = bs ! i"
    using i l mac_text_nth[of i bs] assms d
    by (simp add: COPY_STR2MAC_def nth_append a2x_hex nibbles)
qed (simp add: COPY_STR2MAC_def assms)

text \<open>Lines without the prefix leave the address alone.\<close>

lemma run_mac_skip:
  assumes "list_all (\<lambda>l. nul \<notin> set l \<and> \<not> is_prefix prefix l) ls"
  shows "\<exists>buf'. run_lines (mac_step prefix) (ls @ rest) buf st = run_lines (mac_step prefix) rest buf' st"
  using assms by (induction ls arbitrary: buf) (auto simp: mac_step_def Let_def cstr_put_line split: prod.split)

lemma run_mac_line:
  assumes "length bs = 6" and l: "l = prefix @ mac_text bs" "nul \<notin> set l" and sm: "length sm = 18"
    and "list_all (\<lambda>l. nul \<notin> set l \<and> \<not> is_prefix prefix l) (pre @ post)"
  shows "\<exists>sm'. run_lines (mac_step prefix) (pre @ l # post) buf (sm, m) = Some (sm', bs)"
proof -
  have len: "length (mac_text bs) = 17" using mac_text_length[of bs] assms(1) by fastforce
  obtain buf1 where 1: "run_lines (mac_step prefix) (pre @ l # post) buf (sm, m)
      = run_lines (mac_step prefix) (l # post) buf1 (sm, m)"
    using run_mac_skip[of prefix pre "l # post" buf "(sm, m)"] assms(5) by auto
  have s: "mac_step prefix (put_line l buf1) (sm, m) = Some ((mac_text bs @ drop 17 sm, bs), False)"
    using len copy_mac_text[OF assms(1)] cstr_put_line[OF l(2), of buf1]
    by (simp add: mac_step_def Let_def l(1) is_prefix_append)
  obtain buf2 where "run_lines (mac_step prefix) (post @ []) (put_line l buf1) (mac_text bs @ drop 17 sm, bs)
      = run_lines (mac_step prefix) [] buf2 (mac_text bs @ drop 17 sm, bs)"
    using run_mac_skip[of prefix post "[]" "put_line l buf1" "(mac_text bs @ drop 17 sm, bs)"] assms(5) by auto
  then show ?thesis using 1 s by simp
qed

section \<open>Bounds of the command buffer\<close>

definition int32 :: "int \<Rightarrow> bool" where
  "int32 i \<longleftrightarrow> - (2 ^ 31) \<le> i \<and> i < 2 ^ 31"

lemma show_int_length:
  assumes "int32 i"
  shows "length (show_int i) \<le> 11"
proof -
  have "nat i < 10 ^ 10" "nat (- i) < 10 ^ 10" using assms by (auto simp: int32_def)
  then have "length (show_nat (nat i)) \<le> 10" "length (show_nat (nat (- i))) \<le> 10"
    by (intro show_nat_length; simp)+
  then show ?thesis by (simp add: show_int_def)
qed

lemma show_channel_length: "0 \<le> f \<Longrightarrow> f < 10000 \<Longrightarrow> length (show_int f) \<le> 4"
  using show_nat_length[of "nat f" 4] by (simp add: show_int_def)

definition net_fits :: "wifi_network \<Rightarrow> bool" where
  "net_fits net \<longleftrightarrow> int32 (wn_id net) \<and> length (wn_ssid net) < 36 \<and> length (wn_psk net) < 68"

fun arg_fits :: "cval \<Rightarrow> bool" where
  "arg_fits (VNet net) \<longleftrightarrow> net_fits net"
| "arg_fits (VInt i) \<longleftrightarrow> int32 i"
| "arg_fits (VStr x) \<longleftrightarrow> length x < 123"
| "arg_fits VNull \<longleftrightarrow> True"

lemma atoi_int32: "int32 (atoi x)"
  using signed_take_bit_int_greater_eq_minus_exp[of 31 "strtol x 10"] signed_take_bit_int_less_exp[of 31 "strtol x 10"]
  by (simp add: int32_def atoi_def)

lemma wep_arguments_fit: "wep_arguments v = Some (i, p) \<Longrightarrow> int32 i \<and> length p < 35"
  by (auto simp: wep_arguments_def fits_def atoi_int32 split: Option.bind_splits if_splits)

lemma fixed_text_length: "fixed_text cmd = Some t \<Longrightarrow> length t < 128"
  by (cases cmd) (auto simp: fixed_text_def)

lemma network_text_length: "net_fits net \<Longrightarrow> network_text cmd net = Some (Inr t) \<Longrightarrow> length t < 128"
  using show_int_length[of "wn_id net"]
  by (cases cmd) (auto simp: network_text_def set_network_def quoted_def net_fits_def split: if_splits)

lemma int_text_length: "int32 i \<Longrightarrow> int_text cmd i = Some (Inr t) \<Longrightarrow> length t < 128"
  using show_int_length[of i] by (cases cmd) (auto simp: int_text_def split: if_splits)

lemma wep_text_length: "wep_text cmd v = Some (Inr t) \<Longrightarrow> length t < 128"
  by (cases cmd)
    (auto simp: wep_text_def set_network_def dest!: wep_arguments_fit show_int_length split: Option.bind_splits)

lemma channel_list_fits:
  assumes "list_all (\<lambda>f. 0 \<le> f \<and> f < 10000) fs" and "length params + 5 * length fs < 128"
  shows "\<exists>p. channel_list fs params = Some p \<and> length p \<le> length params + 5 * length fs"
  using assms
proof (induction fs arbitrary: params)
  case (Cons f fs)
  have "length (show_int f) \<le> 4" using Cons.prems(1) show_channel_length[of f] by simp
  then show ?case using Cons.IH[of "params @ show_int f @ '',''"] Cons.prems by (fastforce simp: fits_def)
qed simp

section \<open>Requests that fail\<close>

text \<open>wpa_supplicant accepts the connection but does not answer: \<open>wpa_ctrl_request\<close> fails.\<close>

definition silent_supplicant :: "'w ctrl_env \<Rightarrow> bool" where
  "silent_supplicant E \<longleftrightarrow> (\<forall>w. fst (cx_open E WIFI_WPA_CTRL_PATH w)) \<and> (\<forall>c w. fst (fst (cx_request E c w)) < 0)"

lemma silent_int:
  assumes "silent_supplicant E" and "command_text cmd v = Some (Inr t)" and "length t < 128"
  shows "\<exists>s'. send_int E cmd v r s = Some ((0, r), s')"
  using assms
  by (auto simp: send_int_def wifi_send_command_def silent_supplicant_def cext_eq fits_def split_def Let_def
      split: prod.split)

lemma silent_ok:
  assumes "silent_supplicant E" and "command_text cmd v = Some (Inr t)" and "length t < 128"
  shows "\<exists>s'. send_ok E cmd v s = Some (True, s')"
  using silent_int[OF assms, of 0 s] by (auto simp: send_ok_def)

lemma silent_all:
  assumes "silent_supplicant E" and "list_all (\<lambda>(cmd, v). \<exists>t. command_text cmd v = Some (Inr t) \<and> length t < 128) cs"
  shows "\<exists>s'. send_all E cs s = Some (True, s')"
  using assms(2)
proof (induction cs arbitrary: s)
  case (Cons c cs)
  obtain cmd v t where c: "c = (cmd, v)" "command_text cmd v = Some (Inr t)" "length t < 128"
    using Cons.prems by (cases c) auto
  obtain s1 where "send_ok E cmd v s = Some (True, s1)" using silent_ok[OF assms(1) c(2,3)] by blast
  then show ?case using Cons.IH[of s1] Cons.prems c(1) by auto
qed simp

section \<open>Giving up a scan\<close>

text \<open>\<open>refused E n s\<close> is the state after \<open>n\<close> refused attempts.\<close>

fun refused :: "'w ctrl_env \<Rightarrow> nat \<Rightarrow> 'w wpa_state \<Rightarrow> 'w wpa_state option" where
  "refused E 0 s = Some s"
| "refused E (Suc n) s = Option.bind (wifi_abort_scan E s) (\<lambda>(r, s). if r < 0 then refused E n s else None)"

lemma abort_until_sound:
  assumes "abort_until E s = Some t"
  shows "\<exists>n u r. refused E n s = Some u \<and> wifi_abort_scan E u = Some (r, t) \<and> \<not> r < 0"
proof (rule abort_until.raw_induct[OF _ assms], goal_cases)
  case (1 abort_until E s t)
  obtain r s1 where a: "wifi_abort_scan E s = Some (r, s1)" using 1(2) by (auto split: Option.bind_splits)
  show ?case
  proof (cases "r < 0")
    case True
    then obtain n u r' where "refused E n s1 = Some u" "wifi_abort_scan E u = Some (r', t)" "\<not> r' < 0"
      using 1(1)[of E s1 t] 1(2) a by auto
    then show ?thesis using True a by (intro exI[of _ "Suc n"] exI[of _ u] exI[of _ r']) simp
  next
    case False
    then show ?thesis using 1(2) a by (intro exI[of _ 0] exI[of _ s] exI[of _ r]) simp
  qed
qed

lemma abort_until_complete:
  "refused E n s = Some u \<Longrightarrow> wifi_abort_scan E u = Some (r, t) \<Longrightarrow> \<not> r < 0 \<Longrightarrow> abort_until E s = Some t"
proof (induction n arbitrary: s)
  case 0
  then show ?case by (subst abort_until.simps) simp
next
  case (Suc n)
  then show ?case by (subst abort_until.simps) (auto split: Option.bind_splits if_splits)
qed

section \<open>Properties of the client\<close>

lemmas reply_defs = wifi_reply_analyse_def wifi_command_pack_sum_def

lemma ack_of_commands:
  "map_of wifi_command_pack_sum WIFI_COMMAND_SCAN_R = Some WIFI_COMMAND_ACK_STRING"
  "map_of wifi_command_pack_sum WIFI_COMMAND_GET_DEVICE_MAC = Some WIFI_COMMAND_ACK_STRING"
  "map_of wifi_command_pack_sum WIFI_COMMAND_GET_STATUS = Some WIFI_COMMAND_ACK_INT"
  by (simp_all add: wifi_command_pack_sum_def)

lemma no_nul_lines: "reply_text cap ls \<Longrightarrow> list_all (\<lambda>l. nul \<notin> set l) ls"
  by (auto simp: reply_text_def reply_line_def list_all_iff)

text \<open>C29. A reply to \<open>SCAN_RESULTS\<close> that lists access points in the documented format is read back
  completely: the result has one entry for every name and key type, the strongest of them, as
  long as there are at most 100.\<close>

theorem scan_results_best:
  assumes "reply_text 512 (scan_reply header aps)" and "list_all (\<lambda>(x, f). ap_fields_ok x f) aps"
    and "card (ap_id ` set (map with_key aps)) \<le> 100"
  shows "\<exists>l. wifi_reply_analyse WIFI_COMMAND_SCAN_R (join_lines (scan_reply header aps)) (CList []) n = Some (0, CList l)
    \<and> best_of (set (map with_key aps)) l"
proof -
  have "list_all (\<lambda>(x, f). ap_fields_ok x f \<and> nul \<notin> set (ap_line x f)) aps"
    using assms(2) no_nul_lines[OF assms(1)] by (auto simp: scan_reply_def list_all_iff)
  then obtain k where "run_lines scan_step (map (\<lambda>(x, f). ap_line x f) aps) (zero_buf 512) ([], []) = Some (merge_aps (map with_key aps) [], k)"
    using run_scan by blast
  then have "line_loop 512 scan_step (join_lines (scan_reply header aps)) 1 (zero_buf 512) ([], []) = Some (merge_aps (map with_key aps) [], k)"
    using line_loop_lines[OF assms(1), of scan_step 1 "zero_buf 512" "([], [])"] by (simp add: scan_reply_def)
  then have "wpa_get_scan_r (join_lines (scan_reply header aps)) [] = Some (merge_aps (map with_key aps) [])"
    by (simp add: wpa_get_scan_r_def)
  then show ?thesis using merge_aps_best[of "map with_key aps" "[]"] assms(3)
    by (simp add: wifi_reply_analyse_def ack_of_commands reply_string_def)
qed

definition lab_ap :: "int \<Rightarrow> wifi_scan_res \<times> string" where
  "lab_ap sig = (\<lparr>sr_mac = ''00:11:22:33:44:55'', sr_freq = 2412, sr_sig = sig, sr_key = WIFI_KEY_NONE, sr_ssid = ''home''\<rparr>,
     ''[WPA2-PSK-CCMP][ESS]'')"

theorem scan_results_best_witness:
  "\<exists>l. wifi_reply_analyse WIFI_COMMAND_SCAN_R (join_lines (scan_reply ''bssid'' [lab_ap (-70), lab_ap (-50)])) (CList []) 4
      = Some (0, CList l)
    \<and> best_of (set (map with_key [lab_ap (-70), lab_ap (-50)])) l"
proof (rule scan_results_best)
  show "reply_text 512 (scan_reply ''bssid'' [lab_ap (-70), lab_ap (-50)])" by code_simp
  show "list_all (\<lambda>(x, f). ap_fields_ok x f) [lab_ap (-70), lab_ap (-50)]" by code_simp
  show "card (ap_id ` set (map with_key [lab_ap (-70), lab_ap (-50)])) \<le> 100"
    by (simp add: card_insert_if)
qed



text \<open>The address of the device is read back from the line of a \<open>STATUS\<close> reply that holds it.\<close>

theorem device_mac_roundtrip:
  assumes "length bs = 6" and "reply_text 256 (pre @ (''address='' @ mac_text bs) # post)"
    and "list_all (\<lambda>l. \<not> is_prefix ''address='' l) (pre @ post)"
  shows "wifi_reply_analyse WIFI_COMMAND_GET_DEVICE_MAC (join_lines (pre @ (''address='' @ mac_text bs) # post)) (CMac m) n
    = Some (0, CMac bs)"
proof -
  have nn: "list_all (\<lambda>l. nul \<notin> set l) (pre @ (''address='' @ mac_text bs) # post)" using no_nul_lines[OF assms(2)] .
  obtain sm where "run_lines (mac_step ''address='') (pre @ (''address='' @ mac_text bs) # post) (zero_buf 256) (zero_buf 18, m) = Some (sm, bs)"
    using run_mac_line[OF assms(1) refl, of "''address=''" "zero_buf 18" pre post "zero_buf 256" m] nn assms(3)
    by (auto simp: zero_buf_def list_all_iff)
  then have "line_loop 256 (mac_step ''address='') (join_lines (pre @ (''address='' @ mac_text bs) # post)) 0 (zero_buf 256) (zero_buf 18, m) = Some (sm, bs)"
    using line_loop_lines[OF assms(2), of "mac_step ''address=''" 0 "zero_buf 256" "(zero_buf 18, m)"] by simp
  then show ?thesis by (simp add: wifi_reply_analyse_def ack_of_commands reply_string_def)
qed

theorem device_mac_roundtrip_witness:
  "wifi_reply_analyse WIFI_COMMAND_GET_DEVICE_MAC
     (join_lines ([''wpa_state=COMPLETED''] @ (''address='' @ mac_text [0, 0x1B, 0x2C, 0x3D, 0xFE, 0xFF]) # []))
     (CMac []) 6 = Some (0, CMac [0, 0x1B, 0x2C, 0x3D, 0xFE, 0xFF])"
proof (rule device_mac_roundtrip)
  show "length [0, 0x1B, 0x2C, 0x3D, 0xFE, 0xFF :: 8 word] = 6" by simp
  show "reply_text 256 ([''wpa_state=COMPLETED''] @ (''address='' @ mac_text [0, 0x1B, 0x2C, 0x3D, 0xFE, 0xFF]) # [])" by code_simp
  show "list_all (\<lambda>l. \<not> is_prefix ''address='' l) ([''wpa_state=COMPLETED''] @ [])" by code_simp
qed

text \<open>The status is decided by the first line of a \<open>STATUS\<close> reply that names the state
  \<open>COMPLETED\<close> or \<open>SCANNING\<close>; without one the station is not connected.\<close>

theorem status_reply:
  assumes "reply_text 256 ls"
  shows "wifi_reply_analyse WIFI_COMMAND_GET_STATUS (join_lines ls) (CInt v) n = Some (0, CInt (status_of_lines ls))"
  using assms run_status[of 256 ls "zero_buf 256" v]
  by (simp add: wifi_reply_analyse_def ack_of_commands reply_int_def line_loop_lines[OF assms] reply_text_def)

theorem status_reply_witness:
  "wifi_reply_analyse WIFI_COMMAND_GET_STATUS (join_lines [''ssid=home'', ''wpa_state=SCANNING'']) (CInt 0) 4 = Some (0, CInt WIFI_SCANING)"
proof -
  have r: "reply_text 256 [''ssid=home'', ''wpa_state=SCANNING'']" by code_simp
  have "status_of_lines [''ssid=home'', ''wpa_state=SCANNING''] = WIFI_SCANING" by code_simp
  then show ?thesis using status_reply[OF r] by simp
qed

text \<open>No command overruns the 128 bytes of the command buffer when its network, number or
  string is within the bounds of its type, and the list of up to 21 channels stays within
  them as well.\<close>

theorem command_fits:
  assumes "arg_fits v" and "command_text cmd v = Some (Inr t)"
    and "list_all (\<lambda>f. 0 \<le> f \<and> f < 10000) fs" and "length fs \<le> 21"
  shows "fits 128 t = Some t \<and> (\<exists>p. channel_list fs ''freq='' = Some p \<and> arg_fits (VStr (butlast p)))"
proof -
  have "length t < 128"
  proof (cases v)
    case VNull
    then show ?thesis using assms(2) fixed_text_length by (auto simp: command_text_def)
  next
    case (VStr x)
    then show ?thesis using assms(1,2) wep_text_length[of cmd x t] by (auto simp: command_text_def split: if_splits)
  next
    case (VNet net)
    then show ?thesis using assms(1,2) network_text_length by (simp add: command_text_def)
  next
    case (VInt i)
    then show ?thesis
      using assms(1,2) fixed_text_length[of cmd t] int_text_length[of i cmd t] by (auto simp: command_text_def split: option.splits)
  qed
  moreover obtain p where "channel_list fs ''freq='' = Some p" "length p \<le> 5 + 5 * length fs"
    using channel_list_fits[OF assms(3), of "''freq=''"] assms(4) by auto
  ultimately show ?thesis using assms(4) by (simp add: fits_def)
qed

definition lab_net :: wifi_network where
  "lab_net = \<lparr>wn_id = 0, wn_ssid = ''home'', wn_psk = ''secret78'', wn_key_mgmt = WIFI_KEY_WPA2PSK\<rparr>"

theorem command_fits_witness:
  "fits 128 ''SET_NETWORK 0 scan_ssid 1'' = Some ''SET_NETWORK 0 scan_ssid 1''
     \<and> (\<exists>p. channel_list [2412, 5180] ''freq='' = Some p \<and> arg_fits (VStr (butlast p)))"
proof (rule command_fits)
  show "arg_fits (VNet lab_net)" by code_simp
  show "command_text WIFI_COMMAND_SETNETWORK_SCANSSID (VNet lab_net) = Some (Inr ''SET_NETWORK 0 scan_ssid 1'')" by code_simp
qed simp_all

text \<open>When wpa_supplicant does not answer, every command is reported as carried out: a scan, saving
  the configuration and joining a network return 0 although nothing happened.\<close>

theorem failed_request_reported_ok:
  assumes E: "silent_supplicant E" and net: "net_fits net" "wn_key_mgmt net = WIFI_KEY_WPA2PSK"
    "length (wn_psk net) \<notin> {5, 13, 16, 10, 26, 32}"
  shows "\<exists>t u v. wifi_scan E s = Some (0, t) \<and> wifi_save_network E s = Some (0, u)
    \<and> wifi_join_network E net s = Some ((0, net), v)"
proof -
  have fixed: "\<exists>s'. send_int E cmd VNull r s = Some ((0, r), s')" if "fixed_text cmd = Some t" for cmd t r and s :: "'a wpa_state"
    using that fixed_text_length by (intro silent_int[OF E]) (auto simp: command_text_def)
  obtain t where t: "send_int E WIFI_COMMAND_SCAN VNull 0 s = Some ((0, 0), t)"
    using fixed[of WIFI_COMMAND_SCAN _ 0 s] by (auto simp: fixed_text_def)
  obtain u where u: "send_int E WIFI_COMMAND_SAVECONFIG VNull 0 s = Some ((0, 0), u)"
    using fixed[of WIFI_COMMAND_SAVECONFIG _ 0 s] by (auto simp: fixed_text_def)
  obtain a where a: "send_int E WIFI_COMMAND_BLACKLIST_CLEAR VNull 0 s = Some ((0, 0), a)"
    using fixed[of WIFI_COMMAND_BLACKLIST_CLEAR _ 0 s] by (auto simp: fixed_text_def)
  obtain b where b: "send_int E WIFI_COMMAND_ADDNETWORK VNull (wn_id net) a = Some ((0, wn_id net), b)"
    using fixed[of WIFI_COMMAND_ADDNETWORK _ "wn_id net" a] by (auto simp: fixed_text_def)
  have i: "int32 (wn_id net)" using net(1) by (simp add: net_fits_def)
  have "\<exists>t. command_text cmd (VNet net) = Some (Inr t) \<and> length t < 128"
    if "cmd \<in> {WIFI_COMMAND_SETNETWORK_SSID, WIFI_COMMAND_SETNETWORK_PSK, WIFI_COMMAND_SETNETWORK_SCANSSID}" for cmd
  proof -
    have "\<exists>t. network_text cmd net = Some (Inr t)" using that by (elim insertE) (simp_all add: network_text_def)
    then show ?thesis using network_text_length[OF net(1)] by (auto simp: command_text_def)
  qed
  moreover have "\<exists>t. command_text cmd (VInt (wn_id net)) = Some (Inr t) \<and> length t < 128"
    if "cmd \<in> {WIFI_COMMAND_SELECTNETWORK, WIFI_COMMAND_ENABLENETWORK}" for cmd
  proof -
    have "fixed_text cmd = None \<and> (\<exists>t. int_text cmd (wn_id net) = Some (Inr t))"
      using that by (elim insertE) (simp_all add: int_text_def fixed_text_def)
    then show ?thesis using int_text_length[OF i] by (auto simp: command_text_def)
  qed
  ultimately have "list_all (\<lambda>(cmd, v). \<exists>t. command_text cmd v = Some (Inr t) \<and> length t < 128) (join_commands net)"
    using net(2) by (simp add: join_commands_def key_commands_def)
  then obtain c where c: "send_all E (join_commands net) b = Some (True, c)" using silent_all[OF E] by blast
  have "wifi_blacklist_clear E s = Some (0, a)" using a by (simp add: wifi_blacklist_clear_def send_ok_def int_of_ok_def)
  then have "wifi_join_network E net s = Some ((0, net), dhcp_reset E c)"
    using b c net(3) by (simp add: wifi_join_network_def wep_probe_def)
  then show ?thesis using t u by (simp add: wifi_scan_def send_ok_def int_of_ok_def wifi_save_network_def)
qed

definition dead_env :: "string list ctrl_env" where
  "dead_env = \<lparr>cx_open = (\<lambda>_ w. (True, w)), cx_request = (\<lambda>_ w. ((-2, []), w)), cx_close = (\<lambda>w. ((), w)),
     cx_attach = (\<lambda>w. (0, w)), cx_socketpair = (\<lambda>w. (0, w)), cx_poll = (\<lambda>w. ((0, False), w)),
     cx_recv = (\<lambda>w. ((-1, []), w)), cx_system = (\<lambda>c w. (0, w @ [c])), cx_popen = (\<lambda>_ w. (None, w)),
     cx_socket = (\<lambda>w. (3, w)), cx_ifaddr = (\<lambda>_ w. (None, w)),
     cx_property_set = (\<lambda>_ _ w. ((), w)), cx_property_get = (\<lambda>_ w. (None, w))\<rparr>"

definition lab_client :: "string list wpa_state" where
  "lab_client = \<lparr>cworld = [], monitor_conn = False\<rparr>"

theorem failed_request_reported_ok_witness:
  "\<exists>v. wifi_join_network dead_env lab_net lab_client = Some ((0, lab_net), v)"
proof -
  have "silent_supplicant dead_env" by (simp add: silent_supplicant_def dead_env_def)
  moreover have "net_fits lab_net" by code_simp
  ultimately show ?thesis
    using failed_request_reported_ok[of dead_env lab_net lab_client] by (auto simp: lab_net_def)
qed

lemma disable_all_iff:
  "wifi_disable_all_network E s = Some (r, t) \<longleftrightarrow>
     (\<exists>n u v. refused E n s = Some u \<and> wifi_abort_scan E u = Some (0, v)
        \<and> wifi_disable_network E WPA_ALL_NETWORK v = Some (r, t))"
proof -
  have z: "q = 0" if "wifi_abort_scan E u = Some (q, v)" "\<not> q < 0" for u q v
    using that by (auto simp: wifi_abort_scan_def int_of_ok_def split: if_splits)
  have "abort_until E s = Some v \<longleftrightarrow> (\<exists>n u. refused E n s = Some u \<and> wifi_abort_scan E u = Some (0, v))" for v
  proof
    assume "abort_until E s = Some v"
    from abort_until_sound[OF this] show "\<exists>n u. refused E n s = Some u \<and> wifi_abort_scan E u = Some (0, v)"
      using z by fastforce
  next
    assume "\<exists>n u. refused E n s = Some u \<and> wifi_abort_scan E u = Some (0, v)"
    then show "abort_until E s = Some v" by (elim exE conjE) (rule abort_until_complete, assumption+, simp)
  qed
  then show ?thesis by (auto simp: wifi_disable_all_network_def bind_eq_Some_conv)
qed

text \<open>Disabling all networks returns exactly when wpa_supplicant accepts, after some number of
  refusals, to abort a scan; until then it keeps asking.\<close>

theorem disable_all_returns_iff:
  "wifi_disable_all_network E s = Some (r, t) \<longleftrightarrow>
     (\<exists>n u v. refused E n s = Some u \<and> wifi_abort_scan E u = Some (0, v)
        \<and> wifi_disable_network E WPA_ALL_NETWORK v = Some (r, t))"
  by (rule disable_all_iff)

text \<open>A wpa_supplicant that is not running, or has no scan to abort, keeps the caller for ever.\<close>

lemma refused_forever:
  assumes "\<And>w. \<not> fst (cx_open E WIFI_WPA_CTRL_PATH w)"
  shows "wifi_disable_all_network E s = None"
proof -
  have "wifi_abort_scan E u \<noteq> Some (0, v)" for u v
    using assms by (auto simp: wifi_abort_scan_def send_ok_def send_int_def wifi_send_command_def command_text_def
        fixed_text_def fits_def cext_eq int_of_ok_def)
  then show ?thesis using disable_all_iff[of E s] by (cases "wifi_disable_all_network E s") auto
qed

text \<open>An environment that acknowledges every command and records it; \<open>ADD_NETWORK\<close> gives the number \<open>i\<close>.\<close>

definition recorder :: "int \<Rightarrow> string list ctrl_env" where
  "recorder i = dead_env\<lparr>cx_request := (\<lambda>c w. ((0, if c = ''ADD_NETWORK'' then show_int i else ''OK''), w @ [c]))\<rparr>"

lemma recorder_ok:
  assumes "command_text cmd v = Some (Inr t)" "length t < 128" "t \<noteq> ''ADD_NETWORK''"
    and "map_of wifi_command_pack_sum cmd = Some WIFI_COMMAND_ACK_OK"
  shows "send_ok (recorder i) cmd v s = Some (True, s\<lparr>cworld := cworld s @ [t]\<rparr>)"
proof -
  have "cstr ''OK'' = ''OK''" by code_simp
  then show ?thesis
    using assms by (simp add: send_ok_def send_int_def wifi_send_command_def fits_def cext_eq recorder_def dead_env_def
        wifi_reply_analyse_def reply_ok_def)
qed

fun record_all :: "(wifi_command \<times> cval) list \<Rightarrow> string list" where
  "record_all [] = []"
| "record_all ((cmd, v) # cs) = (case command_text cmd v of Some (Inr t) \<Rightarrow> t # record_all cs | _ \<Rightarrow> record_all cs)"

lemma recorder_all:
  assumes "list_all (\<lambda>(cmd, v). \<exists>t. command_text cmd v = Some (Inr t) \<and> length t < 128 \<and> t \<noteq> ''ADD_NETWORK''
    \<and> map_of wifi_command_pack_sum cmd = Some WIFI_COMMAND_ACK_OK) cs"
  shows "send_all (recorder i) cs s = Some (True, s\<lparr>cworld := cworld s @ record_all cs\<rparr>)"
  using assms
proof (induction cs arbitrary: s)
  case (Cons c cs)
  obtain cmd v t where c: "c = (cmd, v)" "command_text cmd v = Some (Inr t)" "length t < 128" "t \<noteq> ''ADD_NETWORK''"
    "map_of wifi_command_pack_sum cmd = Some WIFI_COMMAND_ACK_OK" using Cons.prems by (cases c) auto
  then show ?case using Cons recorder_ok[OF c(2-5), of i s] by simp
qed simp

lemma show_int_no_nul: "nul \<notin> set (show_int i)"
proof -
  have "nul \<notin> set (show_nat n)" for n
    using show_nat_digit_vals[of n] by (auto simp: nul_def digit_val_def)
  then show ?thesis by (simp add: show_int_def nul_def)
qed

lemma recorder_add:
  assumes "int32 i"
  shows "send_int (recorder i) WIFI_COMMAND_ADDNETWORK VNull v s = Some ((0, i), s\<lparr>cworld := cworld s @ [''ADD_NETWORK'']\<rparr>)"
proof -
  have "scan_int (show_int i) = Some (i, [])" using scan_int_show[of i "[]"] assms by (simp add: int32_def)
  moreover have "length (show_int i) \<le> 11" by (rule show_int_length[OF assms])
  moreover have "dropWhile is_space (show_int i) \<noteq> []"
    using hd_show_nat_plain[of "nat i"] by (cases "i < 0") (auto simp: show_int_def is_space_def)
  moreover have "map_of wifi_command_pack_sum WIFI_COMMAND_ADDNETWORK = Some WIFI_COMMAND_ACK_INT"
    by (simp add: wifi_command_pack_sum_def)
  ultimately show ?thesis
    using cstr_id[OF show_int_no_nul, of i]
    by (simp add: send_int_def wifi_send_command_def command_text_def fixed_text_def fits_def cext_eq recorder_def
        dead_env_def wifi_reply_analyse_def reply_int_def del: dropWhile_eq_Nil_conv)
qed

lemma ack_ok_commands:
  "map_of wifi_command_pack_sum cmd = Some WIFI_COMMAND_ACK_OK" if "cmd \<in> {WIFI_COMMAND_SETNETWORK_SSID,
     WIFI_COMMAND_SETNETWORK_PSK, WIFI_COMMAND_SETNETWORK_SCANSSID, WIFI_COMMAND_SELECTNETWORK,
     WIFI_COMMAND_ENABLENETWORK, WIFI_COMMAND_BLACKLIST_CLEAR}"
  using that by (elim insertE) (simp_all add: wifi_command_pack_sum_def)

definition wpa_join_texts :: "int \<Rightarrow> wifi_network \<Rightarrow> string list" where
  "wpa_join_texts i net =
     [set_network i ('' ssid '' @ quoted (wn_ssid net)),
      set_network i ('' psk '' @ (if length (wn_psk net) < 64 then quoted (wn_psk net) else wn_psk net)),
      set_network i '' scan_ssid 1'', ''SELECT_NETWORK '' @ show_int i, ''ENABLE_NETWORK  '' @ show_int i]"

lemma wpa_join_all:
  assumes "net_fits net" "wn_key_mgmt net \<in> {WIFI_KEY_WPA2PSK, WIFI_KEY_WPAPSK}" "int32 i" "0 \<le> i"
  shows "send_all (recorder i) (join_commands (net\<lparr>wn_id := i\<rparr>)) s
    = Some (True, s\<lparr>cworld := cworld s @ wpa_join_texts i net\<rparr>)"
proof -
  have len: "length (show_int i) \<le> 11" by (rule show_int_length[OF assms(3)])
  have all: "WPA_ALL_NETWORK \<noteq> i" using assms(4) by (simp add: WPA_ALL_NETWORK_def)
  let ?n = "net\<lparr>wn_id := i\<rparr>"
  have cs: "join_commands ?n = [(WIFI_COMMAND_SETNETWORK_SSID, VNet ?n), (WIFI_COMMAND_SETNETWORK_PSK, VNet ?n),
      (WIFI_COMMAND_SETNETWORK_SCANSSID, VNet ?n), (WIFI_COMMAND_SELECTNETWORK, VInt i), (WIFI_COMMAND_ENABLENETWORK, VInt i)]"
    using assms(2) by (auto simp: join_commands_def key_commands_def)
  note defs = command_text_def network_text_def int_text_def fixed_text_def
  have texts: "command_text WIFI_COMMAND_SETNETWORK_SSID (VNet ?n) = Some (Inr (wpa_join_texts i net ! 0))"
    "command_text WIFI_COMMAND_SETNETWORK_PSK (VNet ?n) = Some (Inr (wpa_join_texts i net ! 1))"
    "command_text WIFI_COMMAND_SETNETWORK_SCANSSID (VNet ?n) = Some (Inr (wpa_join_texts i net ! 2))"
    "command_text WIFI_COMMAND_SELECTNETWORK (VInt i) = Some (Inr (wpa_join_texts i net ! 3))"
    "command_text WIFI_COMMAND_ENABLENETWORK (VInt i) = Some (Inr (wpa_join_texts i net ! 4))"
    using all by (simp_all add: defs wpa_join_texts_def numeral_eq_Suc)
  have short: "list_all (\<lambda>t. length t < 128 \<and> t \<noteq> ''ADD_NETWORK'') (wpa_join_texts i net)"
    using assms(1) len by (simp add: wpa_join_texts_def set_network_def quoted_def net_fits_def)
  have "length (wpa_join_texts i net) = 5" by (simp add: wpa_join_texts_def)
  then have sh: "length (wpa_join_texts i net ! n) < 128 \<and> wpa_join_texts i net ! n \<noteq> ''ADD_NETWORK''" if "n < 5" for n
    using short that unfolding list_all_length by metis
  have rec: "record_all (join_commands ?n) = wpa_join_texts i net"
    by (simp add: cs texts) (simp add: wpa_join_texts_def numeral_eq_Suc)
  have "list_all (\<lambda>(cmd, v). \<exists>t. command_text cmd v = Some (Inr t) \<and> length t < 128 \<and> t \<noteq> ''ADD_NETWORK''
    \<and> map_of wifi_command_pack_sum cmd = Some WIFI_COMMAND_ACK_OK) (join_commands ?n)"
    by (simp add: cs texts ack_ok_commands sh)
  from recorder_all[OF this, of i s] show ?thesis by (simp add: rec)
qed



section \<open>GBK text\<close>

text \<open>The grammar of GBK: ASCII bytes, and pairs of a lead byte and a trail byte.\<close>

inductive gbk :: "8 word list \<Rightarrow> bool" where
  gbk_nil: "gbk []"
| gbk_ascii: "c < 0x80 \<Longrightarrow> gbk cs \<Longrightarrow> gbk (c # cs)"
| gbk_pair: "0x81 \<le> c \<Longrightarrow> c \<le> 0xFE \<Longrightarrow> 0x40 \<le> d \<Longrightarrow> d \<le> 0xFE \<Longrightarrow> gbk cs \<Longrightarrow> gbk (c # d # cs)"

inductive_simps gbk_simps: "gbk []" "gbk (c # cs)"

lemma gbk_loop_result: "gbk_loop cs n = 0 \<or> gbk_loop cs n = 1"
  by (induction cs n rule: gbk_loop.induct) auto

lemma gbk_loop_iff:
  "(gbk_loop cs 0 = 1 \<longleftrightarrow> gbk cs) \<and> (gbk_loop cs 1 = 1 \<longleftrightarrow> (\<exists>d ds. cs = d # ds \<and> 0x40 \<le> d \<and> d \<le> 0xFE \<and> gbk ds))"
proof (induction cs)
  case Nil
  then show ?case by (simp add: gbk_simps)
next
  case (Cons c cs)
  have n: "\<not> c < 0x80 \<longleftrightarrow> 0x80 \<le> c" "\<not> c < 0x40 \<longleftrightarrow> 0x40 \<le> c" "\<not> 0xFE < c \<longleftrightarrow> c \<le> 0xFE" by auto
  have o: "\<not> (c < 0x80 \<and> 0x81 \<le> c)" by (auto simp: word_less_nat_alt word_le_nat_alt)
  show ?case using Cons n o by (auto simp: gbk_simps)
qed


end
