(* ===== verification/Hostapd.thy ===== *)
theory Hostapd
  imports WpaCommand
begin

text \<open>
  The access point half of the Wi-Fi library, \<open>framework/libs/wifi/hostapd_command.c\<close>, with
  \<open>AP6XXX_USED\<close> 0 as it is set there.  The shell, the file system and the socket calls are
  parameters; the mutex around the mode is not modelled, every access is one assignment or
  read.
\<close>

section \<open>State\<close>

datatype wifi_mode = WIFI_STATION_MODE | WIFI_SOFTAP_MODE | WIFI_MIX_MODE | WIFI_NONE_MODE

record hostapd_network =
  hn_ssid :: string
  hn_psk :: string
  hn_ip :: string

text \<open>\<open>hx_write\<close> and \<open>hx_open\<close> return a negative value for a failure; \<open>hx_set_addr\<close> and \<open>hx_set_flags\<close>
  are the two \<open>ioctl\<close> calls on \<open>wlan0\<close>.\<close>

record 'w ap_env =
  hx_system :: "string \<Rightarrow> 'w \<Rightarrow> int \<times> 'w"
  hx_unlink :: "string \<Rightarrow> 'w \<Rightarrow> int \<times> 'w"
  hx_open :: "string \<Rightarrow> 'w \<Rightarrow> int \<times> 'w"
  hx_write :: "string \<Rightarrow> 'w \<Rightarrow> int \<times> 'w"
  hx_socket :: "'w \<Rightarrow> int \<times> 'w"
  hx_set_addr :: "string \<Rightarrow> 'w \<Rightarrow> int \<times> 'w"
  hx_set_up :: "bool \<Rightarrow> 'w \<Rightarrow> int \<times> 'w"

record 'w ap_state =
  apworld :: 'w
  global_mode :: wifi_mode

definition apext :: "('w \<Rightarrow> 'a \<times> 'w) \<Rightarrow> 'w ap_state \<Rightarrow> 'a \<times> 'w ap_state" where
  "apext f s = (let (r, w) = f (apworld s) in (r, s\<lparr>apworld := w\<rparr>))"

lemma apext_eq: "apext f s = (fst (f (apworld s)), s\<lparr>apworld := snd (f (apworld s))\<rparr>)"
  by (simp add: apext_def split: prod.split)

definition get_wifi_current_mode :: "'w ap_state \<Rightarrow> wifi_mode" where
  "get_wifi_current_mode s = global_mode s"

definition set_wifi_mode :: "wifi_mode \<Rightarrow> 'w ap_state \<Rightarrow> 'w ap_state" where
  "set_wifi_mode mode s = s\<lparr>global_mode := mode\<rparr>"

definition wifi_mode_init :: "wifi_mode \<Rightarrow> 'w ap_state \<Rightarrow> int \<times> 'w ap_state" where
  "wifi_mode_init mode s = (0, set_wifi_mode mode s)"

section \<open>Configuration of the access point\<close>

definition nl :: string where "nl = [CHR 0x0A]"

definition hostapd_conf :: "string \<Rightarrow> string \<Rightarrow> string" where
  "hostapd_conf ssid psk =
     ''interface=wlan0'' @ nl @ ''driver=nl80211'' @ nl @ ''ctrl_interface=/var/run/hostapd'' @ nl
     @ ''ssid='' @ ssid @ nl @ ''channel='' @ show_int 6 @ nl @ ''ieee80211n=1'' @ nl @ ''ieee80211ac=1'' @ nl
     @ ''hw_mode=g'' @ nl @ ''ignore_broadcast_ssid=0'' @ nl
     @ (if psk \<noteq> [] then
          ''wpa=3'' @ nl @ ''wpa_passphrase='' @ psk @ nl @ ''wpa_key_mgmt=WPA-PSK'' @ nl
          @ ''wpa_pairwise=TKIP CCMP'' @ nl @ ''rsn_pairwise=CCMP'' @ nl
        else
          ''#wpa=3'' @ nl @ ''#wpa_passphrase='' @ nl @ ''#wpa_key_mgmt=WPA-PSK'' @ nl
          @ ''#wpa_pairwise=TKIP CCMP'' @ nl @ ''#rsn_pairwise=CCMP'' @ nl)"

definition softap_prepare_configure :: "'w ap_env \<Rightarrow> string \<Rightarrow> string \<Rightarrow> 'w ap_state \<Rightarrow> (int \<times> 'w ap_state) option" where
  "softap_prepare_configure E ssid psk s = do {
     let (_, s) = apext (hx_unlink E ''/data/system/hostapd.conf'') s;
     let (_, s) = apext (hx_system E ''mkdir -p /data/system'') s;
     let (fd, s) = apext (hx_open E ''/data/system/hostapd.conf'') s;
     if fd < 0 then Some (-1, s)
     else do {
       buf \<leftarrow> fits 1024 (hostapd_conf ssid psk);
       let (ret, s) = apext (hx_write E buf) s;
       Some (if ret < 0 then ret else 0, s)
     }
   }"

text \<open>\<open>ipaddr\<close> is never NULL in the calls of this file.\<close>

definition set_current_ip :: "'w ap_env \<Rightarrow> string \<Rightarrow> 'w ap_state \<Rightarrow> int \<times> 'w ap_state" where
  "set_current_ip E ipaddr s =
     (let (sd, s) = apext (hx_socket E) s in
      if sd < 0 then (-1, s)
      else let (r, s) = apext (hx_set_addr E ipaddr) s in
        if r < 0 then (-1, s)
        else let (r, s) = apext (hx_set_up E True) s in if r < 0 then (-1, s) else (0, s))"

definition set_wifi_adapter_state :: "'w ap_env \<Rightarrow> bool \<Rightarrow> 'w ap_state \<Rightarrow> int \<times> 'w ap_state" where
  "set_wifi_adapter_state E state s =
     (let (sd, s) = apext (hx_socket E) s in
      if sd < 0 then (-1, s) else (0, snd (apext (hx_set_up E state) s)))"

text \<open>The part of \<open>ip\<close> up to and including its last dot, \<open>strrchr\<close>.\<close>

fun upto_last :: "char \<Rightarrow> string \<Rightarrow> string option" where
  "upto_last x [] = None"
| "upto_last x (c # cs) =
     (case upto_last x cs of Some p \<Rightarrow> Some (c # p) | None \<Rightarrow> if c = x then Some [c] else None)"

definition softap_set_ip :: "'w ap_env \<Rightarrow> string \<Rightarrow> 'w ap_state \<Rightarrow> (int \<times> 'w ap_state) option" where
  "softap_set_ip E ip s = do {
     let (ret, s) = set_current_ip E ip s;
     if ret < 0 then Some (-1, s)
     else case upto_last (CHR ''.'') ip of
       None \<Rightarrow> Some (-2, s)
     | Some p \<Rightarrow> do {
         cur \<leftarrow> fits 36 p;
         let (_, s) = apext (hx_system E ''mkdir -p /var/lib/misc'') s;
         cmd \<leftarrow> fits 256 (''dnsmasq -iwlan0  --dhcp-option=3,'' @ ip @ '' --dhcp-range='' @ cur @ ''50,'' @ cur @ ''200,12h -p100 -D'');
         let (ret, s) = apext (hx_system E cmd) s;
         Some (ret, s)
       }
   }"

section \<open>Switching\<close>

definition hostapd_enable :: "'w ap_env \<Rightarrow> hostapd_network option \<Rightarrow> 'w ap_state \<Rightarrow> (int \<times> 'w ap_state) option" where
  "hostapd_enable E net s =
     (if get_wifi_current_mode s = WIFI_SOFTAP_MODE then Some (1, s)
      else case net of
        None \<Rightarrow> Some (-1, s)
      | Some net \<Rightarrow> do {
          let (_, s) = apext (hx_system E ''killall wpa_supplicant'') s;
          let (_, s) = apext (hx_system E ''/etc/init.d/dhcpcd stop'') s;
          (ret, s) \<leftarrow> softap_prepare_configure E (hn_ssid net) (hn_psk net) s;
          if ret < 0 then Some (ret, s)
          else do {
            let (ret, s) = set_wifi_adapter_state E False s;
            if ret < 0 then Some (ret, s)
            else do {
              let (ret, s) = apext (hx_system E ''hostapd /data/system/hostapd.conf &'') s;
              if ret \<noteq> 0 then Some (-2, s)
              else do {
                (ret, s) \<leftarrow> softap_set_ip E (hn_ip net) s;
                if ret < 0 then Some (ret, s) else Some (0, set_wifi_mode WIFI_SOFTAP_MODE s)
              }
            }
          }
        })"

definition hostapd_disable :: "'w ap_env \<Rightarrow> 'w ap_state \<Rightarrow> int \<times> 'w ap_state" where
  "hostapd_disable E s =
     (if get_wifi_current_mode s \<noteq> WIFI_SOFTAP_MODE then (-1, s)
      else let (_, s) = apext (hx_system E ''killall dnsmasq'') s;
               (_, s) = apext (hx_system E ''killall hostapd'') s
        in (0, set_wifi_mode WIFI_NONE_MODE s))"

definition supplicant_enable :: "'w ap_env \<Rightarrow> 'w ap_state \<Rightarrow> int \<times> 'w ap_state" where
  "supplicant_enable E s =
     (if get_wifi_current_mode s = WIFI_STATION_MODE then (1, s)
      else let (_, s) = apext (hx_system E ''killall dnsmasq'') s;
               (_, s) = apext (hx_system E ''killall hostapd'') s;
               (ret, s) = set_wifi_adapter_state E False s in
        if ret < 0 then (ret, s)
        else let (ret, s) = set_current_ip E ''0.0.0.0'' s in
          if ret < 0 then (ret, s)
          else let (ret, s) = apext (hx_system E ''wpa_supplicant -D nl80211 -c /data/system/wpa_supplicant.conf -iwlan0 -B -d -d -d '') s in
            if ret < 0 then (-2, s)
            else let (ret, s) = apext (hx_system E ''/etc/init.d/dhcpcd restart'') s in
              if ret < 0 then (-3, s) else (0, set_wifi_mode WIFI_STATION_MODE s))"

section \<open>Properties\<close>

text \<open>The buffers are large enough for every network that fits its struct.\<close>

definition ap_fits :: "hostapd_network \<Rightarrow> bool" where
  "ap_fits net \<longleftrightarrow> length (hn_ssid net) < 36 \<and> length (hn_psk net) < 68 \<and> length (hn_ip net) < 32"

lemma conf_fits: "length ssid < 36 \<Longrightarrow> length psk < 68 \<Longrightarrow> fits 1024 (hostapd_conf ssid psk) = Some (hostapd_conf ssid psk)"
  by (simp add: fits_def hostapd_conf_def nl_def show_int_def show_nat.simps)

lemma upto_last_length: "upto_last x cs = Some p \<Longrightarrow> length p \<le> length cs"
  by (induction cs arbitrary: p) (auto split: option.splits if_splits)

lemma prepare_total:
  assumes "length ssid < 36" "length psk < 68"
  shows "\<exists>r t. softap_prepare_configure E ssid psk s = Some (r, t) \<and> global_mode t = global_mode s"
  by (simp add: softap_prepare_configure_def conf_fits[OF assms] apext_eq)

lemma set_ip_total:
  assumes "length ip < 32"
  shows "\<exists>r t. softap_set_ip E ip s = Some (r, t) \<and> global_mode t = global_mode s"
proof (cases "upto_last (CHR ''.'') ip")
  case None
  then show ?thesis by (simp add: softap_set_ip_def set_current_ip_def apext_eq Let_def)
next
  case (Some p)
  then have "length p < 32" using upto_last_length[OF Some] assms by simp
  with assms Some show ?thesis by (simp add: softap_set_ip_def set_current_ip_def apext_eq Let_def fits_def)
qed

lemma adapter_mode: "global_mode (snd (set_wifi_adapter_state E b s)) = global_mode s"
  by (simp add: set_wifi_adapter_state_def apext_eq Let_def)

text \<open>Starting the access point never crashes for a network that fits its struct, and it is the
  current mode afterwards exactly when the call does not report an error; a start that fails
  leaves the mode as it was, so from station mode \<open>supplicant_enable\<close> then returns 1 without
  starting wpa_supplicant, which the failed start has killed.\<close>

theorem hostapd_mode_follows_result:
  assumes net: "ap_fits net"
  shows "\<exists>r t. hostapd_enable E (Some net) s = Some (r, t) \<and> (global_mode t = WIFI_SOFTAP_MODE \<longleftrightarrow> 0 \<le> r)
    \<and> (r < 0 \<and> global_mode s = WIFI_STATION_MODE \<longrightarrow> supplicant_enable E t = (1, t))"
proof (cases "global_mode s = WIFI_SOFTAP_MODE")
  case True
  then show ?thesis by (simp add: hostapd_enable_def get_wifi_current_mode_def)
next
  case False
  define s1 where "s1 = snd (apext (hx_system E ''/etc/init.d/dhcpcd stop'') (snd (apext (hx_system E ''killall wpa_supplicant'') s)))"
  have m1: "global_mode s1 = global_mode s" by (simp add: s1_def apext_eq)
  obtain r2 s2 where p: "softap_prepare_configure E (hn_ssid net) (hn_psk net) s1 = Some (r2, s2)" and m2: "global_mode s2 = global_mode s1"
    using prepare_total[of "hn_ssid net" "hn_psk net" E s1] net by (auto simp: ap_fits_def)
  obtain r3 s3 where a: "set_wifi_adapter_state E False s2 = (r3, s3)" by fastforce
  have m3: "global_mode s3 = global_mode s2" using adapter_mode[of E False s2] a by simp
  obtain r4 s4 where h: "apext (hx_system E ''hostapd /data/system/hostapd.conf &'') s3 = (r4, s4)" by fastforce
  have m4: "global_mode s4 = global_mode s3" using h by (auto simp: apext_eq)
  obtain r5 s5 where q: "softap_set_ip E (hn_ip net) s4 = Some (r5, s5)" and m5: "global_mode s5 = global_mode s4"
    using set_ip_total[of "hn_ip net" E s4] net by (auto simp: ap_fits_def)
  have "hostapd_enable E (Some net) s = Some (if r2 < 0 then (r2, s2) else if r3 < 0 then (r3, s3) else if r4 \<noteq> 0 then (-2, s4)
      else if r5 < 0 then (r5, s5) else (0, set_wifi_mode WIFI_SOFTAP_MODE s5))"
    using False p a h q by (simp add: hostapd_enable_def get_wifi_current_mode_def s1_def split_def Let_def)
  then show ?thesis using False m1 m2 m3 m4 m5
    by (simp add: supplicant_enable_def get_wifi_current_mode_def set_wifi_mode_def)
qed

definition lab_ap_env :: "unit ap_env" where
  "lab_ap_env = \<lparr>hx_system = (\<lambda>_ w. (0, w)), hx_unlink = (\<lambda>_ w. (0, w)), hx_open = (\<lambda>_ w. (-1, w)),
     hx_write = (\<lambda>x w. (int (length x), w)), hx_socket = (\<lambda>w. (3, w)), hx_set_addr = (\<lambda>_ w. (0, w)),
     hx_set_up = (\<lambda>_ w. (0, w))\<rparr>"

definition lab_ap_net :: hostapd_network where
  "lab_ap_net = \<lparr>hn_ssid = ''Rokid'', hn_psk = [], hn_ip = ''192.168.2.1''\<rparr>"

theorem hostapd_mode_follows_result_witness:
  "\<exists>r t. hostapd_enable lab_ap_env (Some lab_ap_net) \<lparr>apworld = (), global_mode = WIFI_STATION_MODE\<rparr> = Some (r, t)
     \<and> (global_mode t = WIFI_SOFTAP_MODE \<longleftrightarrow> 0 \<le> r)"
proof -
  have "ap_fits lab_ap_net" by code_simp
  then show ?thesis
    using hostapd_mode_follows_result[of lab_ap_net lab_ap_env "\<lparr>apworld = (), global_mode = WIFI_STATION_MODE\<rparr>"] by blast
qed

end
