(* ===== verification/Battery.thy ===== *)
theory Battery
  imports JsonModel "HOL-Library.Signed_Division"
begin

text \<open>
  The battery service (\<open>framework/services/battery\<close>): it reads the power supplies below
  \<open>/sys/class/power_supply\<close>, posts \<open>battery.info\<close> when something changed, drives the charger LED
  and reboots into charging mode when the battery runs out.  Files, \<open>system()\<close> and the clock are
  parameters.  \<open>None\<close> is undefined behaviour: an array or buffer overrun, signed overflow,
  a NULL pointer.
\<close>

section \<open>Data\<close>

datatype power_supply_type =
  ANDROID_POWER_SUPPLY_TYPE_UNKNOWN | ANDROID_POWER_SUPPLY_TYPE_AC | ANDROID_POWER_SUPPLY_TYPE_USB
| ANDROID_POWER_SUPPLY_TYPE_WIRELESS | ANDROID_POWER_SUPPLY_TYPE_BATTERY

definition BATTERY_STATUS_UNKNOWN :: int where "BATTERY_STATUS_UNKNOWN = 1"
definition BATTERY_HEALTH_UNKNOWN :: int where "BATTERY_HEALTH_UNKNOWN = 1"
definition INT_MIN :: int where "INT_MIN = - (2 ^ 31)"

record healthd_config =
  batteryStatusPath :: string
  batteryHealthPath :: string
  batteryPresentPath :: string
  batteryCapacityPath :: string
  batteryVoltagePath :: string
  batteryTemperaturePath :: string
  batteryTechnologyPath :: string
  batteryCurrentNowPath :: string
  batteryChargeCounterPath :: string
  batteryChargingCurrentPath :: string

text \<open>\<open>struct BatteryProperties\<close>; the fields that are only copied (maximal current and voltage, cycle
  count, full charge) keep the value 0 they start with.\<close>

record BatteryProperties =
  chargerAcOnline :: bool
  chargerUsbOnline :: bool
  chargerWirelessOnline :: bool
  batteryStatus :: int
  batteryHealth :: int
  batteryPresent :: bool
  batteryLevel :: int
  batteryVoltage :: int
  batteryTemperature :: int
  batteryCurrent :: int
  batteryChargeCounter :: int
  chargerAcOnlineLast :: bool
  chargerUsbOnlineLast :: bool
  chargerWirelessOnlineLast :: bool
  batteryStatusLast :: int
  batteryHealthLast :: int
  batteryPresentLast :: bool
  batteryLevelLast :: int
  batteryVoltageLast :: int
  batteryTemperatureLast :: int
  batteryCurrentLast :: int
  batteryChargeCounterLast :: int
  batteryChargingCurrent :: int
  batteryTimetoFull :: int
  batteryTimetoEmpty :: int
  batterySleepTimetoEmpty :: int

text \<open>\<open>bx_read\<close> gives the content of a file, \<open>None\<close> when it cannot be opened or read; \<open>bx_dir\<close> the
  entries of a directory.\<close>

record 'w bat_env =
  bx_read :: "string \<Rightarrow> 'w \<Rightarrow> string option \<times> 'w"
  bx_access :: "string \<Rightarrow> 'w \<Rightarrow> bool \<times> 'w"
  bx_dir :: "string \<Rightarrow> 'w \<Rightarrow> string list option \<times> 'w"
  bx_write :: "string \<Rightarrow> string \<Rightarrow> 'w \<Rightarrow> bool \<times> 'w"
  bx_system :: "string \<Rightarrow> 'w \<Rightarrow> int \<times> 'w"

record 'w bat_state =
  bworld :: 'w
  mChargerNames :: "string list"
  mChargerNum :: nat
  mNeedSendMsg :: bool
  mLedPresent :: bool
  mHealthdConfig :: healthd_config
  props :: BatteryProperties
  mBatCapacityDecrease :: bool
  low_count :: int
  posts :: "json list"

definition bext :: "('w \<Rightarrow> 'a \<times> 'w) \<Rightarrow> 'w bat_state \<Rightarrow> 'a \<times> 'w bat_state" where
  "bext f s = (let (r, w) = f (bworld s) in (r, s\<lparr>bworld := w\<rparr>))"

lemma bext_eq: "bext f s = (fst (f (bworld s)), s\<lparr>bworld := snd (f (bworld s))\<rparr>)"
  by (simp add: bext_def split: prod.split)

text \<open>Arithmetic on \<open>int\<close>: an intermediate result outside 32 bits is undefined.\<close>

definition c_int :: "int \<Rightarrow> int option" where
  "c_int i = (if - (2 ^ 31) \<le> i \<and> i < 2 ^ 31 then Some i else None)"

section \<open>Tables\<close>

definition chargeTime :: "(int \<times> int) list" where
  "chargeTime = [(86, 61), (87, 59), (88, 57), (89, 55), (90, 52), (91, 49), (92, 46), (93, 42), (94, 38),
     (95, 33), (96, 28), (97, 22), (98, 15), (99, 8), (100, 0)]"

definition mBatteryGetCvTimeByLevel :: "int \<Rightarrow> int" where
  "mBatteryGetCvTimeByLevel level = (case map_of chargeTime level of None \<Rightarrow> 0 | Some t \<Rightarrow> t)"

definition mapSysfsString :: "string \<Rightarrow> (string \<times> 'a) list \<Rightarrow> 'a option" where
  "mapSysfsString str m = map_of m str"

definition getBatteryStatus :: "string \<Rightarrow> int" where
  "getBatteryStatus status =
     (case mapSysfsString status [(''Unknown'', 1), (''Charging'', 2), (''Discharging'', 3), (''Not charging'', 4), (''Full'', 5)] of
        None \<Rightarrow> BATTERY_STATUS_UNKNOWN | Some v \<Rightarrow> v)"

definition getBatteryHealth :: "string \<Rightarrow> int" where
  "getBatteryHealth status =
     (case mapSysfsString status [(''Unknown'', 1), (''Good'', 2), (''Overheat'', 3), (''Dead'', 4), (''Over voltage'', 5),
        (''Unspecified failure'', 6), (''Cold'', 7)] of
        None \<Rightarrow> BATTERY_HEALTH_UNKNOWN | Some v \<Rightarrow> v)"

section \<open>Reading files\<close>

text \<open>The text up to the last line end; without one, the buffer is emptied.\<close>

definition upto_last_newline :: "string \<Rightarrow> string" where
  "upto_last_newline bytes =
     (if CHR 0x0A \<in> set bytes then rev (tl (dropWhile (\<lambda>c. c \<noteq> CHR 0x0A) (rev bytes))) else [])"

text \<open>The result of \<open>readFromFile\<close> and the string in its buffer.\<close>

definition readFromFile :: "'w bat_env \<Rightarrow> string \<Rightarrow> nat \<Rightarrow> 'w bat_state \<Rightarrow> (int \<times> string) \<times> 'w bat_state" where
  "readFromFile E path n s =
     (let (r, s) = bext (bx_read E path) s in
      case r of
        None \<Rightarrow> ((-1, []), s)
      | Some bytes \<Rightarrow> let b = take n bytes in ((int (length b), cstr (upto_last_newline b)), s))"

text \<open>A type that is not in the table gives the enumeration value -1, which is large and not
  negative; every \<open>switch\<close> over it treats it like \<open>UNKNOWN\<close>.\<close>

definition supplyTypeMap :: "(string \<times> power_supply_type) list" where
  "supplyTypeMap = [(''Unknown'', ANDROID_POWER_SUPPLY_TYPE_UNKNOWN), (''Battery'', ANDROID_POWER_SUPPLY_TYPE_BATTERY),
     (''UPS'', ANDROID_POWER_SUPPLY_TYPE_AC), (''Mains'', ANDROID_POWER_SUPPLY_TYPE_AC), (''USB'', ANDROID_POWER_SUPPLY_TYPE_USB),
     (''USB_DCP'', ANDROID_POWER_SUPPLY_TYPE_AC), (''USB_CDP'', ANDROID_POWER_SUPPLY_TYPE_AC),
     (''USB_ACA'', ANDROID_POWER_SUPPLY_TYPE_AC), (''Wireless'', ANDROID_POWER_SUPPLY_TYPE_WIRELESS)]"

definition readPowerSupplyType :: "'w bat_env \<Rightarrow> string \<Rightarrow> 'w bat_state \<Rightarrow> power_supply_type \<times> 'w bat_state" where
  "readPowerSupplyType E path s =
     (let ((len, buf), s) = readFromFile E path 128 s in
      (if len \<le> 0 then ANDROID_POWER_SUPPLY_TYPE_UNKNOWN
       else case mapSysfsString buf supplyTypeMap of None \<Rightarrow> ANDROID_POWER_SUPPLY_TYPE_UNKNOWN | Some t \<Rightarrow> t, s))"

text \<open>\<open>buf[0] != '0'\<close>: an empty buffer starts with NUL.\<close>

definition first_not_zero :: "string \<Rightarrow> bool" where
  "first_not_zero buf \<longleftrightarrow> buf = [] \<or> hd buf \<noteq> CHR ''0''"

definition getBooleanField :: "'w bat_env \<Rightarrow> string \<Rightarrow> 'w bat_state \<Rightarrow> bool \<times> 'w bat_state" where
  "getBooleanField E path s = (let ((len, buf), s) = readFromFile E path 16 s in (len > 0 \<and> first_not_zero buf, s))"

definition getIntField :: "'w bat_env \<Rightarrow> string \<Rightarrow> 'w bat_state \<Rightarrow> int \<times> 'w bat_state" where
  "getIntField E path s = (let ((len, buf), s) = readFromFile E path 128 s in
     (if len > 0 then signed_take_bit 31 (strtol buf 0) else 0, s))"

definition supply_path :: "string \<Rightarrow> string \<Rightarrow> string" where
  "supply_path name file = take 127 (''/sys/class/power_supply/'' @ name @ ''/'' @ file)"

text \<open>Statements one after the other.\<close>

fun in_order :: "('s \<Rightarrow> 's) list \<Rightarrow> 's \<Rightarrow> 's" where
  "in_order [] s = s"
| "in_order (f # fs) s = in_order fs (f s)"

section \<open>Polling the supplies\<close>

text \<open>A field that is read when its path is known.\<close>

definition poll_int :: "'w bat_env \<Rightarrow> string \<Rightarrow> (int \<Rightarrow> BatteryProperties \<Rightarrow> BatteryProperties) \<Rightarrow> 'w bat_state \<Rightarrow> 'w bat_state" where
  "poll_int E path upd s =
     (if path \<noteq> [] then let (v, s) = getIntField E path s in s\<lparr>props := upd v (props s)\<rparr> else s)"

definition poll_string :: "'w bat_env \<Rightarrow> string \<Rightarrow> (string \<Rightarrow> BatteryProperties \<Rightarrow> BatteryProperties) \<Rightarrow> 'w bat_state \<Rightarrow> 'w bat_state" where
  "poll_string E path upd s =
     (if path \<noteq> [] then let ((len, buf), s) = readFromFile E path 128 s in
        if len > 0 then s\<lparr>props := upd buf (props s)\<rparr> else s
      else s)"

text \<open>One round of the loop over the chargers.\<close>

definition poll_charger :: "'w bat_env \<Rightarrow> string \<Rightarrow> 'w bat_state \<Rightarrow> 'w bat_state" where
  "poll_charger E name s =
     (let ((len, buf), s) = readFromFile E (supply_path name ''online'') 128 s in
      if len > 0 \<and> first_not_zero buf then
        let (t, s) = readPowerSupplyType E (supply_path name ''type'') s in
        case t of
          ANDROID_POWER_SUPPLY_TYPE_AC \<Rightarrow> s\<lparr>props := (props s)\<lparr>chargerAcOnline := True\<rparr>\<rparr>
        | ANDROID_POWER_SUPPLY_TYPE_USB \<Rightarrow> s\<lparr>props := (props s)\<lparr>chargerUsbOnline := True\<rparr>\<rparr>
        | ANDROID_POWER_SUPPLY_TYPE_WIRELESS \<Rightarrow> s\<lparr>props := (props s)\<lparr>chargerWirelessOnline := True\<rparr>\<rparr>
        | _ \<Rightarrow> s
      else s)"

definition charger_online :: "BatteryProperties \<Rightarrow> bool" where
  "charger_online bp \<longleftrightarrow> chargerAcOnline bp \<or> chargerUsbOnline bp \<or> chargerWirelessOnline bp"

definition reset_props :: "BatteryProperties \<Rightarrow> BatteryProperties" where
  "reset_props bp = bp\<lparr>chargerAcOnline := False, chargerUsbOnline := False, chargerWirelessOnline := False,
     batteryStatus := BATTERY_STATUS_UNKNOWN, batteryHealth := BATTERY_HEALTH_UNKNOWN,
     batteryCurrent := INT_MIN, batteryChargeCounter := INT_MIN\<rparr>"

definition poll_present :: "'w bat_env \<Rightarrow> string \<Rightarrow> 'w bat_state \<Rightarrow> 'w bat_state" where
  "poll_present E path s =
     (if path \<noteq> [] then let (v, s) = getBooleanField E path s in s\<lparr>props := (props s)\<lparr>batteryPresent := v\<rparr>\<rparr>
      else s\<lparr>props := (props s)\<lparr>batteryPresent := True\<rparr>\<rparr>)"

definition mBatteryPropertiesUpdate :: "'w bat_env \<Rightarrow> 'w bat_state \<Rightarrow> bool \<times> 'w bat_state" where
  "mBatteryPropertiesUpdate E s =
     (let hc = mHealthdConfig s;
          s = in_order [
            (\<lambda>s. s\<lparr>props := reset_props (props s)\<rparr>),
            poll_present E (batteryPresentPath hc),
            poll_int E (batteryCapacityPath hc) (\<lambda>v p. p\<lparr>batteryLevel := v\<rparr>),
            poll_int E (batteryVoltagePath hc) (\<lambda>v p. p\<lparr>batteryVoltage := v sdiv 1000\<rparr>),
            poll_int E (batteryCurrentNowPath hc) (\<lambda>v p. p\<lparr>batteryCurrent := v\<rparr>),
            poll_int E (batteryChargingCurrentPath hc) (\<lambda>v p. p\<lparr>batteryChargingCurrent := v sdiv 1000\<rparr>),
            poll_int E (batteryChargeCounterPath hc) (\<lambda>v p. p\<lparr>batteryChargeCounter := v\<rparr>),
            poll_int E (batteryTemperaturePath hc) (\<lambda>v p. p\<lparr>batteryTemperature := v\<rparr>),
            poll_string E (batteryStatusPath hc) (\<lambda>b p. p\<lparr>batteryStatus := getBatteryStatus b\<rparr>),
            poll_string E (batteryHealthPath hc) (\<lambda>b p. p\<lparr>batteryHealth := getBatteryHealth b\<rparr>),
            fold (poll_charger E) (take (mChargerNum s) (mChargerNames s))] s
      in (charger_online (props s), s))"

section \<open>Derived values\<close>

definition time_until_empty :: "BatteryProperties \<Rightarrow> BatteryProperties option" where
  "time_until_empty bp =
     (if batteryLevel bp < 5 then Some (bp\<lparr>batteryTimetoEmpty := -1, batterySleepTimetoEmpty := -1\<rparr>)
      else do {
        e \<leftarrow> c_int (3800 * (batteryLevel bp - 5));
        e \<leftarrow> c_int (e * 60);
        Some (bp\<lparr>batteryTimetoEmpty := e sdiv (450 * 100), batterySleepTimetoEmpty := e sdiv (18 * 100)\<rparr>)
      })"

definition time_until_full :: "BatteryProperties \<Rightarrow> BatteryProperties option" where
  "time_until_full bp =
     (if \<not> charger_online bp then Some (bp\<lparr>batteryTimetoFull := -1\<rparr>)
      else if batteryLevel bp \<le> 85 \<and> batteryChargingCurrent bp > 0 then do {
        d \<leftarrow> c_int (85 - batteryLevel bp);
        d \<leftarrow> c_int (d * 3800);
        d \<leftarrow> c_int (d * 60);
        c \<leftarrow> c_int (batteryChargingCurrent bp * 100);
        t \<leftarrow> c_int (d sdiv c + 61);
        Some (bp\<lparr>batteryTimetoFull := t\<rparr>)
      }
      else if batteryLevel bp > 85 \<and> batteryLevel bp \<le> 100 \<and> batteryChargingCurrent bp > 0
      then Some (bp\<lparr>batteryTimetoFull := mBatteryGetCvTimeByLevel (batteryLevel bp)\<rparr>)
      else Some (bp\<lparr>batteryTimetoFull := -1\<rparr>))"

definition mBatteryUseTimeReport :: "BatteryProperties \<Rightarrow> BatteryProperties option" where
  "mBatteryUseTimeReport bp = Option.bind (time_until_empty bp) time_until_full"

definition led_value :: "BatteryProperties \<Rightarrow> string" where
  "led_value bp =
     (if batteryLevel bp < 20 then ''1''
      else if charger_online bp then if batteryLevel bp = 100 then ''3'' else ''2''
      else ''0'')"

text \<open>The LED file is opened with \<open>bx_access\<close> and written with two bytes, the digit and NUL.\<close>

definition mBatteryWriteChargerLeds :: "'w bat_env \<Rightarrow> BatteryProperties \<Rightarrow> 'w bat_state \<Rightarrow> int \<times> 'w bat_state" where
  "mBatteryWriteChargerLeds E bp s =
     (if \<not> mLedPresent s then (0, s)
      else let (ok, s) = bext (bx_access E ''/sys/devices/platform/led-stage/charger_led_ctrl'') s in
        if \<not> ok then (-1, s\<lparr>mLedPresent := False\<rparr>)
        else (0, snd (bext (bx_write E ''/sys/devices/platform/led-stage/charger_led_ctrl'' (led_value bp @ [nul])) s)))"

definition mBatteryLowPowerCheck :: "'w bat_env \<Rightarrow> BatteryProperties \<Rightarrow> 'w bat_state \<Rightarrow> 'w bat_state" where
  "mBatteryLowPowerCheck E bp s =
     (if charger_online bp then
        if batteryLevel bp < 6 \<and> batteryLevel bp > 0 then
          if mBatCapacityDecrease s then snd (bext (bx_system E ''rokid_reboot charging'') s) else s
        else if batteryLevel bp = 0 then
          if batteryChargingCurrent bp < 30 then
            let s = s\<lparr>low_count := low_count s + 1\<rparr> in
            if low_count s > 15 then snd (bext (bx_system E ''rokid_reboot charging'') s) else s
          else s\<lparr>low_count := 0\<rparr>
        else s
      else s)"

text \<open>Whether one of the reported fields differs from what was reported last.\<close>

definition reported_change :: "BatteryProperties \<Rightarrow> bool" where
  "reported_change bp \<longleftrightarrow> chargerAcOnlineLast bp \<noteq> chargerAcOnline bp \<or> chargerUsbOnlineLast bp \<noteq> chargerUsbOnline bp
     \<or> chargerWirelessOnlineLast bp \<noteq> chargerWirelessOnline bp \<or> batteryStatusLast bp \<noteq> batteryStatus bp
     \<or> batteryHealthLast bp \<noteq> batteryHealth bp \<or> batteryPresentLast bp \<noteq> batteryPresent bp
     \<or> batteryLevelLast bp \<noteq> batteryLevel bp \<or> batteryTemperatureLast bp \<noteq> batteryTemperature bp"

definition copy_last :: "BatteryProperties \<Rightarrow> BatteryProperties" where
  "copy_last bp = bp\<lparr>chargerAcOnlineLast := chargerAcOnline bp, chargerUsbOnlineLast := chargerUsbOnline bp,
     chargerWirelessOnlineLast := chargerWirelessOnline bp, batteryStatusLast := batteryStatus bp,
     batteryHealthLast := batteryHealth bp, batteryPresentLast := batteryPresent bp,
     batteryLevelLast := batteryLevel bp, batteryVoltageLast := batteryVoltage bp,
     batteryTemperatureLast := batteryTemperature bp, batteryCurrentLast := batteryCurrent bp,
     batteryChargeCounterLast := batteryChargeCounter bp\<rparr>"

definition mLastBatteryPropertiesUpdate :: "'w bat_state \<Rightarrow> bool \<times> 'w bat_state" where
  "mLastBatteryPropertiesUpdate s =
     (let bp = props s;
          need = (mNeedSendMsg s \<or> reported_change bp);
          dec = (if batteryLevelLast bp \<noteq> batteryLevel bp then batteryLevelLast bp > batteryLevel bp
                 else mBatCapacityDecrease s)
      in (need, s\<lparr>mNeedSendMsg := need, mBatCapacityDecrease := dec, props := copy_last bp\<rparr>))"

section \<open>Finding the supplies\<close>

text \<open>A path of the configuration is filled in once, with the first file that can be read.\<close>

definition probe ::
  "'w bat_env \<Rightarrow> (healthd_config \<Rightarrow> string) \<Rightarrow> (string \<Rightarrow> healthd_config \<Rightarrow> healthd_config) \<Rightarrow> string \<Rightarrow> string \<Rightarrow> 'w bat_state \<Rightarrow> 'w bat_state" where
  "probe E get upd name file s =
     (if get (mHealthdConfig s) \<noteq> [] then s
      else let path = supply_path name file; (ok, s) = bext (bx_access E path) s in
        if ok then s\<lparr>mHealthdConfig := upd path (mHealthdConfig s)\<rparr> else s)"

text \<open>Two candidate files for one path; when the first is found the second probe does nothing.\<close>

definition found_charger :: "'w bat_env \<Rightarrow> string \<Rightarrow> 'w bat_state \<Rightarrow> 'w bat_state option" where
  "found_charger E name s =
     (let s = probe E batteryChargingCurrentPath (\<lambda>x c. c\<lparr>batteryChargingCurrentPath := x\<rparr>) name ''constant_charge_current'' s;
          s = probe E batteryTemperaturePath (\<lambda>x c. c\<lparr>batteryTemperaturePath := x\<rparr>) name ''temp'' s;
          (ok, s) = bext (bx_access E (supply_path name ''online'')) s
      in if mChargerNum s \<ge> 6 \<or> (ok \<and> length name \<ge> 64) then None
         else Some (s\<lparr>mChargerNames := (if ok then (mChargerNames s)[mChargerNum s := name] else mChargerNames s),
                      mChargerNum := mChargerNum s + 1\<rparr>))"

definition found_battery :: "'w bat_env \<Rightarrow> string \<Rightarrow> 'w bat_state \<Rightarrow> 'w bat_state" where
  "found_battery E name = in_order [
     probe E batteryStatusPath (\<lambda>x c. c\<lparr>batteryStatusPath := x\<rparr>) name ''status'',
     probe E batteryHealthPath (\<lambda>x c. c\<lparr>batteryHealthPath := x\<rparr>) name ''health'',
     probe E batteryPresentPath (\<lambda>x c. c\<lparr>batteryPresentPath := x\<rparr>) name ''present'',
     probe E batteryCapacityPath (\<lambda>x c. c\<lparr>batteryCapacityPath := x\<rparr>) name ''capacity'',
     probe E batteryVoltagePath (\<lambda>x c. c\<lparr>batteryVoltagePath := x\<rparr>) name ''voltage_now'',
     probe E batteryVoltagePath (\<lambda>x c. c\<lparr>batteryVoltagePath := x\<rparr>) name ''batt_vol'',
     probe E batteryCurrentNowPath (\<lambda>x c. c\<lparr>batteryCurrentNowPath := x\<rparr>) name ''current_now'',
     probe E batteryChargeCounterPath (\<lambda>x c. c\<lparr>batteryChargeCounterPath := x\<rparr>) name ''charge_counter'',
     probe E batteryTemperaturePath (\<lambda>x c. c\<lparr>batteryTemperaturePath := x\<rparr>) name ''temp'',
     probe E batteryTemperaturePath (\<lambda>x c. c\<lparr>batteryTemperaturePath := x\<rparr>) name ''batt_temp'',
     probe E batteryTechnologyPath (\<lambda>x c. c\<lparr>batteryTechnologyPath := x\<rparr>) name ''technology'']"

definition found_supply :: "'w bat_env \<Rightarrow> string \<Rightarrow> 'w bat_state \<Rightarrow> 'w bat_state option" where
  "found_supply E name s =
     (if name = ''.'' \<or> name = ''..'' then Some s
      else let (t, s) = readPowerSupplyType E (supply_path name ''type'') s in
        case t of
          ANDROID_POWER_SUPPLY_TYPE_BATTERY \<Rightarrow> Some (found_battery E name s)
        | ANDROID_POWER_SUPPLY_TYPE_UNKNOWN \<Rightarrow> Some s
        | _ \<Rightarrow> found_charger E name s)"

fun found_all :: "'w bat_env \<Rightarrow> string list \<Rightarrow> 'w bat_state \<Rightarrow> 'w bat_state option" where
  "found_all E [] s = Some s"
| "found_all E (n # ns) s = do { s \<leftarrow> found_supply E n s; found_all E ns s }"

definition mHealthdConfigUpdate :: "'w bat_env \<Rightarrow> 'w bat_state \<Rightarrow> 'w bat_state option" where
  "mHealthdConfigUpdate E s =
     (let (d, s) = bext (bx_dir E ''/sys/class/power_supply'') s in
      case d of None \<Rightarrow> Some s | Some names \<Rightarrow> found_all E names s)"

section \<open>Messages (flora_bat.c)\<close>

definition battery_info :: "bool \<Rightarrow> BatteryProperties \<Rightarrow> json" where
  "battery_info charging_on bp =
     JObj [(''batChargingOnline'', JBool charging_on), (''batSupported'', JBool True), (''batPresent'', JBool True),
       (''batLevel'', JInt (batteryLevel bp)), (''batVoltage'', JInt (batteryVoltage bp)),
       (''batChargingCurrent'', JInt (batteryChargingCurrent bp)), (''batTemp'', JInt (batteryTemperature bp sdiv 10)),
       (''batTimetoEmpty'', JInt (batteryTimetoEmpty bp)), (''batSleepTimetoEmpty'', JInt (batterySleepTimetoEmpty bp)),
       (''batTimetoFull'', JInt (batteryTimetoFull bp)), (''proto'', JStr ''ROKID_BATTERY'')]"

definition post :: "json \<Rightarrow> 'w bat_state \<Rightarrow> 'w bat_state" where
  "post j s = s\<lparr>posts := posts s @ [j], mNeedSendMsg := False\<rparr>"

definition bat_service_msg_send :: "'w bat_env \<Rightarrow> 'w bat_state \<Rightarrow> 'w bat_state option" where
  "bat_service_msg_send E s =
     (if mChargerNum s \<noteq> 0 then do {
        let (charging_on, s) = mBatteryPropertiesUpdate E s;
        let (_, s) = mLastBatteryPropertiesUpdate s;
        bp \<leftarrow> mBatteryUseTimeReport (props s);
        let s = s\<lparr>props := bp\<rparr>;
        let (_, s) = mBatteryWriteChargerLeds E bp s;
        let s = mBatteryLowPowerCheck E bp s;
        Some (if \<not> mNeedSendMsg s then s else post (battery_info charging_on bp) s)
      }
      else Some (if \<not> mNeedSendMsg s then s
                 else post (JObj [(''batSupported'', JBool False), (''proto'', JStr ''ROKID_BATTERY'')]) s))"

text \<open>\<open>bat_service_loop_run\<close>: rounds of the endless loop.\<close>

fun bat_rounds :: "'w bat_env \<Rightarrow> nat \<Rightarrow> 'w bat_state \<Rightarrow> 'w bat_state option" where
  "bat_rounds E 0 s = Some s"
| "bat_rounds E (Suc n) s = do { s \<leftarrow> bat_service_msg_send E s; bat_rounds E n s }"

section \<open>Power-off charging (charger.c)\<close>

definition mBatterySetChgMode :: "'w bat_env \<Rightarrow> bool \<Rightarrow> 'w bat_state \<Rightarrow> int \<times> 'w bat_state" where
  "mBatterySetChgMode E enable s =
     (let (ok, s) = bext (bx_write E ''/data/property/persist.sys.charger.mode'' (if enable then ''1'' else ''0'')) s
      in (if ok then 0 else -1, s))"

text \<open>1 is \<open>BOOT_MODE_CHARGING\<close>, 0 is \<open>BOOT_MODE_NORMAL\<close>.\<close>

definition mBatteryGetChgMode :: "'w bat_env \<Rightarrow> 'w bat_state \<Rightarrow> int \<times> 'w bat_state" where
  "mBatteryGetChgMode E s =
     (let (r, s) = bext (bx_read E ''/data/property/persist.sys.charger.mode'') s in
      (case r of None \<Rightarrow> -1 | Some bytes \<Rightarrow> if bytes \<noteq> [] \<and> hd bytes = CHR ''1'' then 1 else 0, s))"

definition mBootModeUpdate :: "'w bat_env \<Rightarrow> 'w bat_state \<Rightarrow> int \<times> 'w bat_state" where
  "mBootModeUpdate E s = (let (m, s) = mBatteryGetChgMode E s in (if m = 1 then 1 else 0, s))"

record key_state =
  key_down :: bool
  key_now :: int
  key_duration :: int

text \<open>One event of the power key, read at time \<open>t\<close>; other events change nothing.\<close>

definition power_key :: "int \<Rightarrow> bool \<Rightarrow> key_state \<Rightarrow> key_state" where
  "power_key t pressed k =
     (if pressed then k\<lparr>key_now := (if key_down k then key_now k else t), key_down := True\<rparr>
      else k\<lparr>key_down := False\<rparr>)"

text \<open>One round of the loop: the power key events of this round, then the checks at time \<open>t\<close>.
  Without any input device the loop indexes the descriptors with -1.\<close>

definition charging_round ::
  "'w bat_env \<Rightarrow> nat \<Rightarrow> (int \<times> bool) list \<Rightarrow> int \<Rightarrow> key_state \<Rightarrow> 'w bat_state \<Rightarrow> (key_state \<times> 'w bat_state) option" where
  "charging_round E fd_cnt events t k s =
     (if fd_cnt = 0 then None
      else
        let k = fold (\<lambda>(t, pressed) k. power_key t pressed k) events k;
            k = (if key_down k then k\<lparr>key_duration := t - key_now k\<rparr> else k);
            s = (if key_duration k > 2700
                 then snd (bext (bx_system E ''reboot -f'') (snd (mBatterySetChgMode E False s))) else s);
            s = (if \<not> charger_online (props s)
                 then snd (bext (bx_system E ''poweroff -f'') (snd (mBatterySetChgMode E False s))) else s)
        in Some (k, s))"

section \<open>Start-up\<close>

definition zero_props :: BatteryProperties where
  "zero_props = \<lparr>chargerAcOnline = False, chargerUsbOnline = False, chargerWirelessOnline = False, batteryStatus = 0,
     batteryHealth = 0, batteryPresent = False, batteryLevel = 0, batteryVoltage = 0, batteryTemperature = 0,
     batteryCurrent = 0, batteryChargeCounter = 0, chargerAcOnlineLast = False, chargerUsbOnlineLast = False,
     chargerWirelessOnlineLast = False, batteryStatusLast = 0, batteryHealthLast = 0, batteryPresentLast = False,
     batteryLevelLast = 0, batteryVoltageLast = 0, batteryTemperatureLast = 0, batteryCurrentLast = 0,
     batteryChargeCounterLast = 0, batteryChargingCurrent = 0, batteryTimetoFull = 0, batteryTimetoEmpty = 0,
     batterySleepTimetoEmpty = 0\<rparr>"

definition mHealthdConfigInit :: healthd_config where
  "mHealthdConfigInit = \<lparr>batteryStatusPath = [], batteryHealthPath = [], batteryPresentPath = [], batteryCapacityPath = [],
     batteryVoltagePath = [], batteryTemperaturePath = [], batteryTechnologyPath = [], batteryCurrentNowPath = [],
     batteryChargeCounterPath = [], batteryChargingCurrentPath = []\<rparr>"

definition bat_boot :: "'w \<Rightarrow> 'w bat_state" where
  "bat_boot w = \<lparr>bworld = w, mChargerNames = replicate 6 [], mChargerNum = 0, mNeedSendMsg = True, mLedPresent = True,
     mHealthdConfig = mHealthdConfigInit, props = zero_props, mBatCapacityDecrease = False, low_count = 0, posts = []\<rparr>"

text \<open>\<open>main\<close> up to the start of the threads: the boot mode says whether the charging loop runs.\<close>

definition bat_main :: "'w bat_env \<Rightarrow> 'w bat_state \<Rightarrow> (int \<times> 'w bat_state) option" where
  "bat_main E s = do { s \<leftarrow> mHealthdConfigUpdate E (s\<lparr>mHealthdConfig := mHealthdConfigInit\<rparr>); Some (mBootModeUpdate E s) }"

end
