(* ===== verification/BatteryProps.thy ===== *)
theory BatteryProps
  imports Battery PowerManager
begin

text \<open>
  Properties of the battery service: its estimates stay in range, a steady battery is
  reported once, the table of chargers, and the way of the charger state to the power
  manager.
\<close>

section \<open>Estimates\<close>

lemma sdiv_nonneg: "0 \<le> a \<Longrightarrow> 0 < b \<Longrightarrow> a sdiv b = a div (b :: int)"
  by (cases "a = 0") (simp_all add: signed_divide_int_def)

lemma cv_time_range: "0 \<le> mBatteryGetCvTimeByLevel l \<and> mBatteryGetCvTimeByLevel l \<le> 61"
  by (auto simp: mBatteryGetCvTimeByLevel_def chargeTime_def split: option.splits if_splits)

definition estimates_ok :: "BatteryProperties \<Rightarrow> bool" where
  "estimates_ok bp \<longleftrightarrow> batteryTimetoEmpty bp \<in> {-1..481} \<and> batterySleepTimetoEmpty bp \<in> {-1..12033}
     \<and> batteryTimetoFull bp \<in> {-1..193861}"

lemma c_int_in: "- (2 ^ 31) \<le> i \<Longrightarrow> i < 2 ^ 31 \<Longrightarrow> c_int i = Some i"
  by (simp add: c_int_def)

lemma time_to_full:
  fixes l c :: int
  assumes "0 \<le> l" "l \<le> 85" "0 < c" "c \<le> 2147483"
  shows "(85 - l) * 228000 sdiv (c * 100) \<in> {0..193800}"
proof -
  have n: "0 \<le> (85 - l) * 228000" using assms by simp
  have "(85 - l) * 228000 div (c * 100) \<le> (85 - l) * 228000 div 100"
    using assms n by (intro zdiv_mono2) auto
  also have "\<dots> \<le> 193800" using assms by simp
  finally show ?thesis using n assms by (simp add: sdiv_nonneg pos_imp_zdiv_nonneg_iff)
qed

section \<open>A steady environment\<close>

text \<open>Files that do not change: reading and probing depend on the path only and change nothing.\<close>

definition steady :: "(string \<Rightarrow> string option) \<Rightarrow> (string \<Rightarrow> bool) \<Rightarrow> 'w bat_env \<Rightarrow> bool" where
  "steady C A E \<longleftrightarrow> (\<forall>p w. bx_read E p w = (C p, w)) \<and> (\<forall>p w. bx_access E p w = (A p, w))"

definition file_text :: "(string \<Rightarrow> string option) \<Rightarrow> nat \<Rightarrow> string \<Rightarrow> int \<times> string" where
  "file_text C n p = (case C p of None \<Rightarrow> (-1, []) | Some b \<Rightarrow> (int (length (take n b)), cstr (upto_last_newline (take n b))))"

lemma steady_read: "steady C A E \<Longrightarrow> readFromFile E p n s = (file_text C n p, s)"
  by (auto simp: steady_def readFromFile_def bext_eq file_text_def Let_def split: option.split)

definition file_type :: "(string \<Rightarrow> string option) \<Rightarrow> string \<Rightarrow> power_supply_type" where
  "file_type C p =
     (if fst (file_text C 128 p) \<le> 0 then ANDROID_POWER_SUPPLY_TYPE_UNKNOWN
      else case mapSysfsString (snd (file_text C 128 p)) supplyTypeMap of None \<Rightarrow> ANDROID_POWER_SUPPLY_TYPE_UNKNOWN | Some t \<Rightarrow> t)"

lemma steady_type: "steady C A E \<Longrightarrow> readPowerSupplyType E p s = (file_type C p, s)"
  by (simp add: readPowerSupplyType_def steady_read file_type_def split_def Let_def)

definition file_int :: "(string \<Rightarrow> string option) \<Rightarrow> string \<Rightarrow> int" where
  "file_int C p = (if fst (file_text C 128 p) > 0 then signed_take_bit 31 (strtol (snd (file_text C 128 p)) 0) else 0)"

lemma steady_int: "steady C A E \<Longrightarrow> getIntField E p s = (file_int C p, s)"
  by (simp add: getIntField_def steady_read file_int_def split_def Let_def)

definition file_bool :: "(string \<Rightarrow> string option) \<Rightarrow> string \<Rightarrow> bool" where
  "file_bool C p \<longleftrightarrow> fst (file_text C 16 p) > 0 \<and> first_not_zero (snd (file_text C 16 p))"

lemma steady_bool: "steady C A E \<Longrightarrow> getBooleanField E p s = (file_bool C p, s)"
  by (simp add: getBooleanField_def steady_read file_bool_def split_def Let_def)

text \<open>The poll as a function on the properties alone.\<close>

definition online_type :: "(string \<Rightarrow> string option) \<Rightarrow> string \<Rightarrow> power_supply_type" where
  "online_type C name =
     (if fst (file_text C 128 (supply_path name ''online'')) > 0 \<and> first_not_zero (snd (file_text C 128 (supply_path name ''online'')))
      then file_type C (supply_path name ''type'') else ANDROID_POWER_SUPPLY_TYPE_UNKNOWN)"

definition set_online :: "power_supply_type \<Rightarrow> BatteryProperties \<Rightarrow> BatteryProperties" where
  "set_online t p = p\<lparr>chargerAcOnline := chargerAcOnline p \<or> ANDROID_POWER_SUPPLY_TYPE_AC = t,
     chargerUsbOnline := chargerUsbOnline p \<or> ANDROID_POWER_SUPPLY_TYPE_USB = t,
     chargerWirelessOnline := chargerWirelessOnline p \<or> ANDROID_POWER_SUPPLY_TYPE_WIRELESS = t\<rparr>"

lemma steady_charger: "steady C A E \<Longrightarrow> poll_charger E name s = s\<lparr>props := set_online (online_type C name) (props s)\<rparr>"
  by (auto simp: poll_charger_def steady_read steady_type online_type_def set_online_def split_def Let_def
      split: power_supply_type.split)

lemma steady_chargers:
  assumes "steady C A E"
  shows "fold (poll_charger E) ns s = s\<lparr>props := (props s)\<lparr>
     chargerAcOnline := chargerAcOnline (props s) \<or> ANDROID_POWER_SUPPLY_TYPE_AC \<in> online_type C ` set ns,
     chargerUsbOnline := chargerUsbOnline (props s) \<or> ANDROID_POWER_SUPPLY_TYPE_USB \<in> online_type C ` set ns,
     chargerWirelessOnline := chargerWirelessOnline (props s) \<or> ANDROID_POWER_SUPPLY_TYPE_WIRELESS \<in> online_type C ` set ns\<rparr>\<rparr>"
  by (induction ns arbitrary: s) (auto simp: steady_charger[OF assms] set_online_def)

lemma steady_fields:
  assumes "steady C A E"
  shows
    "poll_int E path (\<lambda>v p. p\<lparr>batteryLevel := v\<rparr>) s = s\<lparr>props := (props s)\<lparr>batteryLevel := (if path = [] then batteryLevel (props s) else file_int C path)\<rparr>\<rparr>"
    "poll_int E path (\<lambda>v p. p\<lparr>batteryVoltage := v sdiv 1000\<rparr>) s = s\<lparr>props := (props s)\<lparr>batteryVoltage := (if path = [] then batteryVoltage (props s) else file_int C path sdiv 1000)\<rparr>\<rparr>"
    "poll_int E path (\<lambda>v p. p\<lparr>batteryCurrent := v\<rparr>) s = s\<lparr>props := (props s)\<lparr>batteryCurrent := (if path = [] then batteryCurrent (props s) else file_int C path)\<rparr>\<rparr>"
    "poll_int E path (\<lambda>v p. p\<lparr>batteryChargingCurrent := v sdiv 1000\<rparr>) s = s\<lparr>props := (props s)\<lparr>batteryChargingCurrent := (if path = [] then batteryChargingCurrent (props s) else file_int C path sdiv 1000)\<rparr>\<rparr>"
    "poll_int E path (\<lambda>v p. p\<lparr>batteryChargeCounter := v\<rparr>) s = s\<lparr>props := (props s)\<lparr>batteryChargeCounter := (if path = [] then batteryChargeCounter (props s) else file_int C path)\<rparr>\<rparr>"
    "poll_int E path (\<lambda>v p. p\<lparr>batteryTemperature := v\<rparr>) s = s\<lparr>props := (props s)\<lparr>batteryTemperature := (if path = [] then batteryTemperature (props s) else file_int C path)\<rparr>\<rparr>"
    "poll_string E path (\<lambda>b p. p\<lparr>batteryStatus := getBatteryStatus b\<rparr>) s = s\<lparr>props := (props s)\<lparr>batteryStatus := (if path = [] \<or> fst (file_text C 128 path) \<le> 0 then batteryStatus (props s) else getBatteryStatus (snd (file_text C 128 path)))\<rparr>\<rparr>"
    "poll_string E path (\<lambda>b p. p\<lparr>batteryHealth := getBatteryHealth b\<rparr>) s = s\<lparr>props := (props s)\<lparr>batteryHealth := (if path = [] \<or> fst (file_text C 128 path) \<le> 0 then batteryHealth (props s) else getBatteryHealth (snd (file_text C 128 path)))\<rparr>\<rparr>"
  using assms by (simp_all add: poll_int_def steady_int poll_string_def steady_read split_def Let_def)

text \<open>What the service reports of its readings.\<close>

definition readings :: "BatteryProperties \<Rightarrow> (bool \<times> bool \<times> bool) \<times> int \<times> int \<times> bool \<times> int \<times> int" where
  "readings p = ((chargerAcOnline p, chargerUsbOnline p, chargerWirelessOnline p), batteryStatus p, batteryHealth p,
     batteryPresent p, batteryLevel p, batteryTemperature p)"

definition poll_props :: "(string \<Rightarrow> string option) \<Rightarrow> healthd_config \<Rightarrow> string list \<Rightarrow> BatteryProperties \<Rightarrow> BatteryProperties" where
  "poll_props C hc ns p = p\<lparr>
     batteryPresent := (batteryPresentPath hc = [] \<or> file_bool C (batteryPresentPath hc)),
     batteryLevel := (if batteryCapacityPath hc = [] then batteryLevel p else file_int C (batteryCapacityPath hc)),
     batteryVoltage := (if batteryVoltagePath hc = [] then batteryVoltage p else file_int C (batteryVoltagePath hc) sdiv 1000),
     batteryCurrent := (if batteryCurrentNowPath hc = [] then INT_MIN else file_int C (batteryCurrentNowPath hc)),
     batteryChargingCurrent := (if batteryChargingCurrentPath hc = [] then batteryChargingCurrent p
        else file_int C (batteryChargingCurrentPath hc) sdiv 1000),
     batteryChargeCounter := (if batteryChargeCounterPath hc = [] then INT_MIN else file_int C (batteryChargeCounterPath hc)),
     batteryTemperature := (if batteryTemperaturePath hc = [] then batteryTemperature p else file_int C (batteryTemperaturePath hc)),
     batteryStatus := (if batteryStatusPath hc = [] \<or> fst (file_text C 128 (batteryStatusPath hc)) \<le> 0
        then BATTERY_STATUS_UNKNOWN else getBatteryStatus (snd (file_text C 128 (batteryStatusPath hc)))),
     batteryHealth := (if batteryHealthPath hc = [] \<or> fst (file_text C 128 (batteryHealthPath hc)) \<le> 0
        then BATTERY_HEALTH_UNKNOWN else getBatteryHealth (snd (file_text C 128 (batteryHealthPath hc)))),
     chargerAcOnline := ANDROID_POWER_SUPPLY_TYPE_AC \<in> online_type C ` set ns,
     chargerUsbOnline := ANDROID_POWER_SUPPLY_TYPE_USB \<in> online_type C ` set ns,
     chargerWirelessOnline := ANDROID_POWER_SUPPLY_TYPE_WIRELESS \<in> online_type C ` set ns\<rparr>"

lemma steady_update:
  assumes "steady C A E"
  shows "mBatteryPropertiesUpdate E s = (charger_online (poll_props C (mHealthdConfig s) (take (mChargerNum s) (mChargerNames s)) (props s)),
     s\<lparr>props := poll_props C (mHealthdConfig s) (take (mChargerNum s) (mChargerNames s)) (props s)\<rparr>)"
proof -
  have b: "poll_present E path t = t\<lparr>props := (props t)\<lparr>batteryPresent := (path = [] \<or> file_bool C path)\<rparr>\<rparr>" for path t
    using assms by (simp add: poll_present_def steady_bool)
  show ?thesis
    by (simp add: mBatteryPropertiesUpdate_def b steady_fields[OF assms] steady_chargers[OF assms] reset_props_def poll_props_def
        Let_def cong: if_cong split del: if_split)
qed

section \<open>One round\<close>

abbreviation polled :: "(string \<Rightarrow> string option) \<Rightarrow> 'w bat_state \<Rightarrow> BatteryProperties" where
  "polled C s \<equiv> poll_props C (mHealthdConfig s) (take (mChargerNum s) (mChargerNames s)) (props s)"

text \<open>The level is a percentage and the charging current one that the division by 1000 can give.\<close>

definition plausible :: "BatteryProperties \<Rightarrow> bool" where
  "plausible p \<longleftrightarrow> 0 \<le> batteryLevel p \<and> batteryLevel p \<le> 100 \<and> batteryChargingCurrent p \<le> 2147483"

lemma until_empty_frame: "time_until_empty bp = Some x \<Longrightarrow> \<exists>b c. x = bp\<lparr>batteryTimetoEmpty := b, batterySleepTimetoEmpty := c\<rparr>"
  by (auto simp: time_until_empty_def split: if_splits Option.bind_splits)

lemma until_full_frame: "time_until_full bp = Some x \<Longrightarrow> \<exists>a. x = bp\<lparr>batteryTimetoFull := a\<rparr>"
  by (auto simp: time_until_full_def split: if_splits Option.bind_splits)

lemma use_time_frame:
  assumes "mBatteryUseTimeReport bp = Some bp'"
  shows "\<exists>a b c. bp' = bp\<lparr>batteryTimetoEmpty := b, batterySleepTimetoEmpty := c, batteryTimetoFull := a\<rparr>"
  using assms by (auto simp: mBatteryUseTimeReport_def bind_eq_Some_conv dest!: until_empty_frame until_full_frame)

lemma until_empty_total:
  assumes "plausible bp"
  shows "\<exists>x. time_until_empty bp = Some x \<and> batteryTimetoEmpty x \<in> {-1..481} \<and> batterySleepTimetoEmpty x \<in> {-1..12033}"
proof (cases "batteryLevel bp < 5")
  case False
  define e where "e = 3800 * (batteryLevel bp - 5)"
  have e: "0 \<le> e" "e \<le> 361000" using False assms by (auto simp: plausible_def e_def)
  have q: "0 \<le> e * 60 sdiv k \<and> e * 60 sdiv k \<le> 21660000 div k" if "0 < k" for k
    using that e by (simp add: sdiv_nonneg pos_imp_zdiv_nonneg_iff zdiv_mono1)
  have "c_int e = Some e" "c_int (e * 60) = Some (e * 60)" using e by (simp_all add: c_int_def)
  then show ?thesis using False q[of 45000] q[of 1800] by (simp add: time_until_empty_def e_def)
qed (simp add: time_until_empty_def)

lemma until_full_total:
  assumes "plausible bp"
  shows "\<exists>x. time_until_full bp = Some x \<and> batteryTimetoFull x \<in> {-1..193861}"
proof (cases "batteryLevel bp \<le> 85 \<and> batteryChargingCurrent bp > 0")
  case True
  with assms have l: "0 \<le> 85 - batteryLevel bp" "85 - batteryLevel bp \<le> 85" and c: "batteryChargingCurrent bp \<le> 2147483"
    by (auto simp: plausible_def)
  have f: "(85 - batteryLevel bp) * 228000 sdiv (batteryChargingCurrent bp * 100) \<in> {0..193800}"
    using time_to_full[of "batteryLevel bp" "batteryChargingCurrent bp"] True assms by (auto simp: plausible_def)
  have "c_int (85 - batteryLevel bp) = Some (85 - batteryLevel bp)" "c_int ((85 - batteryLevel bp) * 3800) = Some ((85 - batteryLevel bp) * 3800)"
    "c_int ((85 - batteryLevel bp) * 3800 * 60) = Some ((85 - batteryLevel bp) * 228000)"
    "c_int (batteryChargingCurrent bp * 100) = Some (batteryChargingCurrent bp * 100)"
    using l c True by (simp_all add: c_int_def)
  then show ?thesis using True f by (simp add: time_until_full_def c_int_in)
next
  case False
  then show ?thesis using cv_time_range[of "batteryLevel bp"] by (auto simp: time_until_full_def)
qed

lemma use_time_total:
  assumes "plausible bp"
  shows "\<exists>bp'. mBatteryUseTimeReport bp = Some bp' \<and> estimates_ok bp'"
proof -
  obtain x where x: "time_until_empty bp = Some x" "batteryTimetoEmpty x \<in> {-1..481}" "batterySleepTimetoEmpty x \<in> {-1..12033}"
    using until_empty_total[OF assms] by blast
  obtain b c where xb: "x = bp\<lparr>batteryTimetoEmpty := b, batterySleepTimetoEmpty := c\<rparr>" using until_empty_frame[OF x(1)] by blast
  have "plausible x" using assms by (simp add: xb plausible_def)
  then obtain y where y: "time_until_full x = Some y" "batteryTimetoFull y \<in> {-1..193861}" using until_full_total by blast
  obtain a where "y = x\<lparr>batteryTimetoFull := a\<rparr>" using until_full_frame[OF y(1)] by blast
  then show ?thesis using x y by (simp add: mBatteryUseTimeReport_def estimates_ok_def)
qed

definition settled :: "(string \<Rightarrow> string option) \<Rightarrow> 'w bat_state \<Rightarrow> bool" where
  "settled C s \<longleftrightarrow> \<not> mNeedSendMsg s \<and> \<not> reported_change (polled C s)"

text \<open>What later rounds depend on: the configuration and the readings.\<close>

definition same_setup :: "'w bat_state \<Rightarrow> 'w bat_state \<Rightarrow> bool" where
  "same_setup s t \<longleftrightarrow> mHealthdConfig t = mHealthdConfig s \<and> mChargerNames t = mChargerNames s \<and> mChargerNum t = mChargerNum s"

lemma leds_frame: "mBatteryWriteChargerLeds E bp s = (r, t) \<Longrightarrow> \<exists>w l. t = s\<lparr>bworld := w, mLedPresent := l\<rparr>"
proof -
  assume "mBatteryWriteChargerLeds E bp s = (r, t)"
  then have "t = s\<lparr>bworld := bworld t, mLedPresent := mLedPresent t\<rparr>"
    by (auto simp: mBatteryWriteChargerLeds_def bext_eq Let_def split: if_splits)
  then show ?thesis by blast
qed

lemma low_power_frame: "\<exists>w c. mBatteryLowPowerCheck E bp s = s\<lparr>bworld := w, low_count := c\<rparr>"
proof -
  have "mBatteryLowPowerCheck E bp s = s\<lparr>bworld := bworld (mBatteryLowPowerCheck E bp s), low_count := low_count (mBatteryLowPowerCheck E bp s)\<rparr>"
    by (simp add: mBatteryLowPowerCheck_def bext_eq Let_def)
  then show ?thesis by blast
qed

lemma send_round:
  assumes st: "steady C A E" and n: "mChargerNum s \<noteq> 0" and pl: "plausible (polled C s)"
  shows "\<exists>t bp. bat_service_msg_send E s = Some t \<and> same_setup s t \<and> props t = bp \<and> \<not> mNeedSendMsg t
    \<and> mBatteryUseTimeReport (copy_last (polled C s)) = Some bp
    \<and> posts t = posts s @ (if settled C s then [] else [battery_info (charger_online (polled C s)) bp])"
proof -
  let ?P = "polled C s"
  obtain bp where bp: "mBatteryUseTimeReport (copy_last ?P) = Some bp"
    using use_time_total[of "copy_last ?P"] pl by (auto simp: plausible_def copy_last_def)
  define need where "need = (mNeedSendMsg s \<or> reported_change ?P)"
  define dec where "dec = (if batteryLevelLast ?P \<noteq> batteryLevel ?P then batteryLevelLast ?P > batteryLevel ?P else mBatCapacityDecrease s)"
  define s1 where "s1 = s\<lparr>mNeedSendMsg := need, mBatCapacityDecrease := dec, props := bp\<rparr>"
  obtain r w l where led: "mBatteryWriteChargerLeds E bp s1 = (r, s1\<lparr>bworld := w, mLedPresent := l\<rparr>)"
    using leds_frame[of E bp s1] by (cases "mBatteryWriteChargerLeds E bp s1") auto
  obtain w' c where low: "mBatteryLowPowerCheck E bp (s1\<lparr>bworld := w, mLedPresent := l\<rparr>) = (s1\<lparr>bworld := w, mLedPresent := l\<rparr>)\<lparr>bworld := w', low_count := c\<rparr>"
    using low_power_frame[of E bp "s1\<lparr>bworld := w, mLedPresent := l\<rparr>"] by blast
  let ?t = "(s1\<lparr>bworld := w, mLedPresent := l\<rparr>)\<lparr>bworld := w', low_count := c\<rparr>"
  have last: "mLastBatteryPropertiesUpdate (s\<lparr>props := ?P\<rparr>) = (need, s\<lparr>mNeedSendMsg := need, mBatCapacityDecrease := dec, props := copy_last ?P\<rparr>)"
    by (simp add: mLastBatteryPropertiesUpdate_def Let_def need_def dec_def)
  have "bat_service_msg_send E s = Some (if \<not> need then ?t else post (battery_info (charger_online ?P) bp) ?t)"
    using n led low unfolding bat_service_msg_send_def steady_update[OF st] prod.case Let_def last
    by (cases need) (simp_all add: bp s1_def)
  moreover have "settled C s \<longleftrightarrow> \<not> need" by (auto simp: settled_def need_def)
  ultimately show ?thesis using bp by (auto simp: same_setup_def s1_def post_def)
qed

lemma settles:
  assumes "same_setup s t" and "mBatteryUseTimeReport (copy_last (polled C s)) = Some (props t)" and "\<not> mNeedSendMsg t"
  shows "settled C t \<and> (plausible (polled C s) \<longrightarrow> plausible (polled C t))"
proof -
  obtain a b c where p: "props t = (copy_last (polled C s))\<lparr>batteryTimetoEmpty := b, batterySleepTimetoEmpty := c, batteryTimetoFull := a\<rparr>"
    using use_time_frame[OF assms(2)] by blast
  show ?thesis
    using assms(1,3) unfolding settled_def same_setup_def
    by (simp add: p poll_props_def copy_last_def reported_change_def plausible_def)
qed

lemma settled_rounds:
  assumes st: "steady C A E" and "mChargerNum s \<noteq> 0" and "plausible (polled C s)" and "settled C s"
  shows "\<exists>t. bat_rounds E n s = Some t \<and> posts t = posts s"
  using assms(2-)
proof (induction n arbitrary: s)
  case (Suc n)
  obtain t where t: "bat_service_msg_send E s = Some t" "same_setup s t" "\<not> mNeedSendMsg t"
    "mBatteryUseTimeReport (copy_last (polled C s)) = Some (props t)" "posts t = posts s"
    using send_round[OF st Suc.prems(1,2)] Suc.prems(3) by auto
  have "settled C t" "plausible (polled C t)" using settles[OF t(2,4,3)] Suc.prems(2) by auto
  moreover have "mChargerNum t \<noteq> 0" using t(2) Suc.prems(1) by (simp add: same_setup_def)
  ultimately obtain u where "bat_rounds E n t = Some u" "posts u = posts t" using Suc.IH[of t] by blast
  then show ?case using t(1,5) by simp
qed simp

section \<open>The table of chargers\<close>

definition is_charger :: "(string \<Rightarrow> string option) \<Rightarrow> string \<Rightarrow> bool" where
  "is_charger C name \<longleftrightarrow> name \<noteq> ''.'' \<and> name \<noteq> ''..'' \<and>
     file_type C (supply_path name ''type'') \<in> {ANDROID_POWER_SUPPLY_TYPE_AC, ANDROID_POWER_SUPPLY_TYPE_USB, ANDROID_POWER_SUPPLY_TYPE_WIRELESS}"

lemma probe_num [simp]: "mChargerNum (probe E g u name file s) = mChargerNum s"
  by (simp add: probe_def bext_eq Let_def)

lemma found_battery_num [simp]: "mChargerNum (found_battery E name s) = mChargerNum s"
  by (simp add: found_battery_def)

lemma found_charger_iff:
  assumes "length name < 64"
  shows "(case found_charger E name s of None \<Rightarrow> mChargerNum s \<ge> 6 | Some t \<Rightarrow> mChargerNum s < 6 \<and> mChargerNum t = Suc (mChargerNum s))"
  using assms by (simp add: found_charger_def bext_eq Let_def)

lemma found_supply_iff:
  assumes "steady C A E" and "length name < 64"
  shows "case found_supply E name s of None \<Rightarrow> is_charger C name \<and> mChargerNum s \<ge> 6
     | Some t \<Rightarrow> mChargerNum t = mChargerNum s + (if is_charger C name then 1 else 0) \<and> (is_charger C name \<longrightarrow> mChargerNum s < 6)"
proof -
  let ?t = "file_type C (supply_path name ''type'')"
  have r: "readPowerSupplyType E (supply_path name ''type'') s = (?t, s)" by (rule steady_type[OF assms(1)])
  show ?thesis
    using r found_charger_iff[OF assms(2), of s E]
    by (cases ?t) (auto simp: found_supply_def is_charger_def split: option.splits)
qed

lemma found_all_iff:
  assumes "steady C A E" and "list_all (\<lambda>n. length n < 64) names"
  shows "(found_all E names s \<noteq> None \<longleftrightarrow> mChargerNum s + length (filter (is_charger C) names) \<le> 6 \<or> filter (is_charger C) names = [])
    \<and> (\<forall>t. found_all E names s = Some t \<longrightarrow> mChargerNum t = mChargerNum s + length (filter (is_charger C) names))"
  using assms(2)
proof (induction names arbitrary: s)
  case (Cons n names)
  show ?case
  proof (cases "found_supply E n s")
    case None
    then show ?thesis using found_supply_iff[OF assms(1), of n s] Cons.prems by simp
  next
    case (Some t)
    then show ?thesis using found_supply_iff[OF assms(1), of n s] Cons.prems Cons.IH[of t] by (auto split: if_splits)
  qed
qed simp

section \<open>Properties of the battery service\<close>

definition lab_files :: "string \<Rightarrow> string option" where
  "lab_files p =
     (if p = ''/sys/class/power_supply/usb/type'' then Some (''USB'' @ [CHR 0x0A])
      else if p = ''/sys/class/power_supply/usb/online'' then Some (''1'' @ [CHR 0x0A])
      else None)"

definition lab_bat :: "unit bat_env" where
  "lab_bat = \<lparr>bx_read = (\<lambda>p w. (lab_files p, w)), bx_access = (\<lambda>_ w. (True, w)),
     bx_dir = (\<lambda>_ w. (Some [''.'', ''usb''], w)), bx_write = (\<lambda>_ _ w. (True, w)), bx_system = (\<lambda>_ w. (0, w))\<rparr>"

lemma lab_steady: "steady lab_files (\<lambda>_. True) lab_bat"
  by (simp add: steady_def lab_bat_def)

definition lab_bat_state :: "unit bat_state" where
  "lab_bat_state = (bat_boot ())\<lparr>mChargerNames := [''usb'', [], [], [], [], []], mChargerNum := 1\<rparr>"

text \<open>For a level between 0 and 100 and any charging current the poll can read, the estimates do
  not overflow and stay in the range of what can be reported.\<close>

theorem estimates_in_range:
  assumes "plausible bp"
  shows "\<exists>bp'. mBatteryUseTimeReport bp = Some bp' \<and> estimates_ok bp'"
  by (rule use_time_total[OF assms])

theorem estimates_in_range_witness:
  "\<exists>bp'. mBatteryUseTimeReport (zero_props\<lparr>batteryLevel := 50, batteryChargingCurrent := 900, chargerUsbOnline := True\<rparr>) = Some bp'
     \<and> estimates_ok bp'"
  by (rule estimates_in_range) (simp add: plausible_def zero_props_def)

text \<open>C32. A battery whose readings do not change is reported exactly once after start-up, however
  many rounds the service runs.\<close>

theorem steady_battery_reported_once:
  assumes "steady C A E" and "mChargerNum s \<noteq> 0" and "plausible (polled C s)" and "mNeedSendMsg s"
  shows "\<exists>t bp. bat_rounds E (Suc n) s = Some t \<and> posts t = posts s @ [battery_info (charger_online (polled C s)) bp]"
proof -
  have "\<not> settled C s" using assms(4) by (simp add: settled_def)
  then obtain t where t: "bat_service_msg_send E s = Some t" "same_setup s t" "\<not> mNeedSendMsg t"
    "mBatteryUseTimeReport (copy_last (polled C s)) = Some (props t)"
    "posts t = posts s @ [battery_info (charger_online (polled C s)) (props t)]"
    using send_round[OF assms(1,2,3)] by auto
  have "settled C t" "plausible (polled C t)" using settles[OF t(2,4,3)] assms(3) by auto
  moreover have "mChargerNum t \<noteq> 0" using t(2) assms(2) by (simp add: same_setup_def)
  ultimately obtain u where "bat_rounds E n t = Some u" "posts u = posts t" using settled_rounds[OF assms(1)] by blast
  then show ?thesis using t(1,5) by auto
qed

theorem steady_battery_reported_once_witness:
  "\<exists>t bp. bat_rounds lab_bat (Suc 9) lab_bat_state = Some t \<and> posts t = posts lab_bat_state @ [battery_info (charger_online (polled lab_files lab_bat_state)) bp]"
proof (rule steady_battery_reported_once[OF lab_steady])
  show "mChargerNum lab_bat_state \<noteq> 0" "mNeedSendMsg lab_bat_state" by (simp_all add: lab_bat_state_def bat_boot_def)
  show "plausible (polled lab_files lab_bat_state)"
    by (simp add: plausible_def poll_props_def lab_bat_state_def bat_boot_def mHealthdConfigInit_def zero_props_def)
qed

text \<open>Looking for power supplies overruns the table of six chargers exactly when there are more
  chargers than that.\<close>

theorem charger_table_overrun_iff:
  assumes "steady C A E" and "list_all (\<lambda>n. length n < 64) names" and "mChargerNum s = 0"
    and "\<And>w. bx_dir E ''/sys/class/power_supply'' w = (Some names, w)"
  shows "mHealthdConfigUpdate E s = None \<longleftrightarrow> length (filter (is_charger C) names) > 6"
proof -
  have "mHealthdConfigUpdate E s = found_all E names s" using assms(4) by (simp add: mHealthdConfigUpdate_def bext_eq)
  then show ?thesis using found_all_iff[OF assms(1,2), of s] assms(3) by (cases "filter (is_charger C) names = []") auto
qed

theorem charger_table_overrun_iff_witness:
  "mHealthdConfigUpdate lab_bat (bat_boot ()) = None \<longleftrightarrow> length (filter (is_charger lab_files) [''.'', ''usb'']) > 6"
  by (rule charger_table_overrun_iff[OF lab_steady]) (simp_all add: bat_boot_def lab_bat_def)

section \<open>The charger state reaches the power manager\<close>

lemma wakelock_keeps_charger:
  "chg_flag (snd (power_wakelock_request E l i s)) = chg_flag s"
  "chg_flag (snd (power_wakelock_release E i s)) = chg_flag s"
proof -
  have o: "chg_flag (snd (open_from E ps k u)) = chg_flag u" for ps k u
    by (induction ps arbitrary: k u) (simp_all add: kext_eq Let_def)
  have i: "chg_flag (initialize_fds E u) = chg_flag u" for u
    using o[of POWER_PATHS 0 u] by (simp add: initialize_fds_def open_file_descriptors_def split_def Let_def)
  show "chg_flag (snd (power_wakelock_request E l i s)) = chg_flag s"
    by (simp add: power_wakelock_request_def acquire_wake_lock_def kext_eq Let_def i)
  show "chg_flag (snd (power_wakelock_release E i s)) = chg_flag s"
    by (simp add: power_wakelock_release_def release_wake_lock_def kext_eq Let_def i)
qed

text \<open>C31. The message the battery service posts, handled by the power manager, leaves the charger flag
  set exactly when a charger is online, provided json-c prints the boolean as \<open>true\<close> or \<open>false\<close>.\<close>

theorem charger_state_reaches_power_manager:
  assumes B: "steady C A B" and "mChargerNum b \<noteq> 0" and "plausible (polled C b)" and "mNeedSendMsg b"
    and text_of: "pk_text E (JBool True) = ''true''" "pk_text E (JBool False) = ''false''"
  shows "\<exists>b' j t. bat_service_msg_send B b = Some b' \<and> posts b' = posts b @ [j]
    \<and> pm_battery_command_handle E j s = Some (0, t) \<and> (chg_flag t = 1 \<longleftrightarrow> charger_online (polled C b))"
proof -
  have "\<not> settled C b" using assms(4) by (simp add: settled_def)
  then obtain b' bp where b': "bat_service_msg_send B b = Some b'" "posts b' = posts b @ [battery_info (charger_online (polled C b)) bp]"
    using send_round[OF assms(1-3)] by auto
  have "cstr ''true'' = ''true''" "cstr ''false'' = ''false''" by code_simp+
  then have "\<exists>t. pm_battery_command_handle E (battery_info on bp) s = Some (0, t) \<and> (chg_flag t = 1 \<longleftrightarrow> on)" for on
    using text_of by (cases on) (simp_all add: pm_battery_command_handle_def battery_info_def json_object_get_string_def wakelock_keeps_charger)
  then show ?thesis using b' by blast
qed

definition lab_pm :: "unit pm_env" where
  "lab_pm = \<lparr>pk_open = (\<lambda>_ w. (3, w)), pk_write = (\<lambda>_ txt w. (int (length txt), w)), pk_parse = (\<lambda>_. JNull),
     pk_text = (\<lambda>j. if j = JBool True then ''true'' else ''false'')\<rparr>"

theorem charger_state_reaches_power_manager_witness:
  "\<exists>b' j t. bat_service_msg_send lab_bat lab_bat_state = Some b' \<and> posts b' = posts lab_bat_state @ [j]
    \<and> pm_battery_command_handle lab_pm j (pm_boot ()) = Some (0, t)
    \<and> (chg_flag t = 1 \<longleftrightarrow> charger_online (polled lab_files lab_bat_state))"
proof (rule charger_state_reaches_power_manager[OF lab_steady])
  show "mChargerNum lab_bat_state \<noteq> 0" "mNeedSendMsg lab_bat_state" by (simp_all add: lab_bat_state_def bat_boot_def)
  show "plausible (polled lab_files lab_bat_state)"
    by (simp add: plausible_def poll_props_def lab_bat_state_def bat_boot_def mHealthdConfigInit_def zero_props_def)
qed (simp_all add: lab_pm_def)

end
