(* ===== verification/GpioConfig.thy ===== *)
theory GpioConfig
  imports YodaPrelude CString
begin

text \<open>
  The initial switch states of the two input event libraries.  \<open>parse_gpio\<close> of
  \<open>input-event.c\<close> and \<open>parse_switch_config\<close> of \<open>input-event-hot.c\<close> are the same loop over
  \<open>/etc/gpio.config\<close>, except that the second stops at the size of its tables; the limit is a
  parameter of the loop.  Lines have the form \<open>code:path\<close>; the file at \<open>path\<close> starts with the
  character 0 or 1.  The files are a parameter.  Writing past a table, reading before the start
  of the line buffer and reading it before it was written are the outcome \<open>None\<close>.
\<close>

section \<open>Streams\<close>

fun take_line :: "nat \<Rightarrow> string \<Rightarrow> string \<times> string" where
  "take_line 0 cs = ([], cs)"
| "take_line (Suc k) [] = ([], [])"
| "take_line (Suc k) (c # cs) =
     (if c = CHR 0x0A then ([c], cs) else let (l, r) = take_line k cs in (c # l, r))"

text \<open>\<open>fgets\<close> into a buffer of \<open>n\<close> bytes: the line or NULL, the rest of the stream, and the
  end-of-file indicator, which is set when the end was hit while reading.\<close>

definition fgets :: "nat \<Rightarrow> string \<Rightarrow> string option \<times> string \<times> bool" where
  "fgets n cs =
     (if cs = [] then (None, [], True)
      else let (l, r) = take_line (n - 1) cs
        in (Some l, r, length l < n - 1 \<and> last l \<noteq> CHR 0x0A))"

lemma take_line_append: "take_line k cs = (l, r) \<Longrightarrow> cs = l @ r"
  by (induction k cs arbitrary: l r rule: take_line.induct) (auto split: if_splits prod.splits)

lemma take_line_nonempty: "take_line (Suc k) (c # cs) = (l, r) \<Longrightarrow> l \<noteq> []"
  by (auto split: if_splits prod.splits)

lemma fgets_shorter: "1 < n \<Longrightarrow> cs \<noteq> [] \<Longrightarrow> fgets n cs = (l, r, e) \<Longrightarrow> length r < length cs"
proof (induction cs)
  case (Cons c cs)
  obtain k where "n - 1 = Suc k" using Cons.prems(1) by (cases "n - 1") auto
  then obtain l' where t: "take_line (Suc k) (c # cs) = (l', r)"
    using Cons.prems by (auto simp: fgets_def simp del: take_line.simps split: prod.splits)
  then show ?case
    using take_line_append[OF t] take_line_nonempty[OF t] by (cases l') auto
qed simp

lemma take_line_newline:
  "CHR 0x0A \<notin> set l \<Longrightarrow> length l < k \<Longrightarrow> take_line k (l @ CHR 0x0A # r) = (l @ [CHR 0x0A], r)"
proof (induction l arbitrary: k)
  case Nil
  then show ?case by (cases k) simp_all
next
  case (Cons c l)
  then show ?case by (cases k) auto
qed

lemma fgets_line:
  "CHR 0x0A \<notin> set l \<Longrightarrow> length l + 1 < n \<Longrightarrow>
     fgets n (l @ CHR 0x0A # r) = (Some (l @ [CHR 0x0A]), r, False)"
  by (simp add: fgets_def take_line_newline)

section \<open>The configuration loop\<close>

record 'w gpio_env =
  gp_file :: "string option"
  gp_open :: "string \<Rightarrow> 'w \<Rightarrow> int \<times> 'w"
  gp_read :: "int \<Rightarrow> 'w \<Rightarrow> char option \<times> 'w"

record 'w sw_tables =
  sw_world :: 'w
  sw_line :: "string option"
  sw_keycode :: "int list"
  sw_keyvalue :: "int list"
  sw_keynumber :: nat

definition store :: "nat \<Rightarrow> 'a \<Rightarrow> 'a list \<Rightarrow> 'a list option" where
  "store j v xs = (if j < length xs then Some (xs[j := v]) else None)"

text \<open>The value that was read is stored; a line with another value leaves the code in the
  table and does not count.\<close>

definition sw_store :: "char \<Rightarrow> string \<Rightarrow> 'w sw_tables \<Rightarrow> 'w sw_tables option" where
  "sw_store keyvalue line s = do {
     codes \<leftarrow> store (sw_keynumber s) (atoi line) (sw_keycode s);
     let s = s\<lparr>sw_keycode := codes\<rparr>;
     if keyvalue = CHR ''0'' \<or> keyvalue = CHR ''1'' then do {
       vals \<leftarrow> store (sw_keynumber s) (if keyvalue = CHR ''0'' then 0 else 1) (sw_keyvalue s);
       Some (s\<lparr>sw_keyvalue := vals, sw_keynumber := sw_keynumber s + 1\<rparr>)
     } else Some s
   }"

text \<open>The file of a line that has a colon: \<open>gpio\<close> is the text behind it.  The result says
  whether the loop is left.\<close>

definition sw_open :: "'w gpio_env \<Rightarrow> nat option \<Rightarrow> string \<Rightarrow> string \<Rightarrow> 'w sw_tables \<Rightarrow> (bool \<times> 'w sw_tables) option" where
  "sw_open E lim line gpio s =
     (let path = dropWhile (\<lambda>c. c \<noteq> CHR ''/'') gpio in
      if path = [] then Some (False, s)
      else let (fd, w) = gp_open E path (sw_world s); s = s\<lparr>sw_world := w\<rparr>
        in if fd < 0 then Some (False, s)
           else if (case lim of None \<Rightarrow> False | Some n \<Rightarrow> n \<le> sw_keynumber s) then Some (True, s)
           else case gp_read E fd (sw_world s) of
               (None, w) \<Rightarrow> Some (False, s\<lparr>sw_world := w\<rparr>)
             | (Some v, w) \<Rightarrow> do { s \<leftarrow> sw_store v line (s\<lparr>sw_world := w\<rparr>); Some (False, s) })"

text \<open>One round, after \<open>fgets\<close>: \<open>line[strlen(line)-1]\<close> is before the buffer when the line is
  empty, and a failed \<open>fgets\<close> leaves the line of the round before.\<close>

definition sw_round :: "'w gpio_env \<Rightarrow> nat option \<Rightarrow> string option \<Rightarrow> 'w sw_tables \<Rightarrow> (bool \<times> 'w sw_tables) option" where
  "sw_round E lim got s = do {
     line \<leftarrow> (case got of Some l \<Rightarrow> Some (cstr l) | None \<Rightarrow> sw_line s);
     if line = [] then None
     else let line = (if last line = CHR 0x0A then butlast line else line) in
       if line = [] \<or> hd line = CHR 0x0A \<or> hd line = CHR 0x0D then Some (False, s\<lparr>sw_line := Some line\<rparr>)
       else case strchr line (CHR '':'') of
           None \<Rightarrow> Some (False, s\<lparr>sw_line := Some line\<rparr>)
         | Some g \<Rightarrow> let line = takeWhile (\<lambda>c. c \<noteq> CHR '':'') line
             in sw_open E lim line (tl g) (s\<lparr>sw_line := Some line\<rparr>)
   }"

function sw_loop :: "'w gpio_env \<Rightarrow> nat option \<Rightarrow> bool \<Rightarrow> string \<Rightarrow> 'w sw_tables \<Rightarrow> 'w sw_tables option" where
  "sw_loop E lim eof cs s =
     (if eof then Some s
      else let f = fgets 1024 cs in do {
        (stop, s) \<leftarrow> sw_round E lim (fst f) s;
        if stop then Some s else sw_loop E lim (snd (snd f)) (fst (snd f)) s
      })"
  by pat_completeness auto
termination
proof (relation "measure (\<lambda>(E, lim, eof, cs, s). length cs + (if eof then 0 else 1))", goal_cases)
  case (2 E lim eof cs s)
  obtain l r e where f: "fgets 1024 cs = (l, r, e)" by (cases "fgets 1024 cs") auto
  show ?case
  proof (cases "cs = []")
    case True
    then show ?thesis using 2 f by (auto simp: fgets_def)
  next
    case False
    then show ?thesis using 2 f fgets_shorter[OF _ False f] by simp
  qed
qed simp

declare sw_loop.simps [simp del]

definition sw_parse :: "'w gpio_env \<Rightarrow> nat option \<Rightarrow> 'w sw_tables \<Rightarrow> 'w sw_tables option" where
  "sw_parse E lim s =
     (case gp_file E of
        None \<Rightarrow> Some (s\<lparr>sw_keynumber := 0\<rparr>)
      | Some cs \<Rightarrow> sw_loop E lim False cs (s\<lparr>sw_line := None, sw_keynumber := 0\<rparr>))"

definition MAX_SW_KEY :: nat where "MAX_SW_KEY = 8"

definition parse_switch_config :: "'w gpio_env \<Rightarrow> 'w sw_tables \<Rightarrow> 'w sw_tables option" where
  "parse_switch_config E = sw_parse E (Some MAX_SW_KEY)"

definition parse_gpio :: "'w gpio_env \<Rightarrow> 'w sw_tables \<Rightarrow> 'w sw_tables option" where
  "parse_gpio E = sw_parse E None"

section \<open>Reading a configuration\<close>

text \<open>The text of a configuration in the documented form, and files that can be read.\<close>

type_synonym gpio_entry = "nat \<times> string"

definition gpio_line :: "gpio_entry \<Rightarrow> string" where
  "gpio_line e = show_nat (fst e) @ CHR '':'' # snd e"

fun gpio_text :: "gpio_entry list \<Rightarrow> string" where
  "gpio_text [] = []"
| "gpio_text (e # es) = gpio_line e @ CHR 0x0A # gpio_text es"

definition gpio_entry_ok :: "gpio_entry \<Rightarrow> bool" where
  "gpio_entry_ok e \<longleftrightarrow> fst e < 2 ^ 31 \<and> snd e \<noteq> [] \<and> hd (snd e) = CHR ''/'' \<and>
     CHR 0x0A \<notin> set (snd e) \<and> nul \<notin> set (snd e) \<and> length (gpio_line e) < 1023"

definition gpio_readable :: "'w gpio_env \<Rightarrow> (string \<Rightarrow> bool) \<Rightarrow> bool" where
  "gpio_readable E on \<longleftrightarrow> (\<forall>p w. 0 \<le> fst (gp_open E p w) \<and>
     fst (gp_read E (fst (gp_open E p w)) (snd (gp_open E p w))) = Some (if on p then CHR ''1'' else CHR ''0''))"

lemma show_nat_plain:
  assumes "c \<in> set (show_nat n)"
  shows "c \<noteq> CHR '':'' \<and> c \<noteq> CHR 0x0A \<and> c \<noteq> CHR 0x0D \<and> c \<noteq> nul"
proof -
  obtain d where d: "d < 10" and "c = digit_char d" using assms show_nat_digits by blast
  then have "(of_char c :: nat) = 48 + d" using of_char_digit by simp
  then show ?thesis using d by (auto simp: nul_def)
qed

lemma atoi_show_nat: "n < 2 ^ 31 \<Longrightarrow> atoi (show_nat n) = int n"
  using atoi_show_int[of "int n"] by (simp add: show_int_def)

lemma colon_not_in_code: "CHR '':'' \<notin> set (show_nat n)"
  using show_nat_plain by blast

lemma gpio_line_chars:
  assumes "gpio_entry_ok e"
  shows "CHR 0x0A \<notin> set (gpio_line e)" "nul \<notin> set (gpio_line e)" "gpio_line e \<noteq> []"
    "hd (gpio_line e) \<noteq> CHR 0x0A" "hd (gpio_line e) \<noteq> CHR 0x0D"
proof -
  have "hd (show_nat (fst e)) \<in> set (show_nat (fst e))" by simp
  from show_nat_plain[OF this] show "hd (gpio_line e) \<noteq> CHR 0x0A" "hd (gpio_line e) \<noteq> CHR 0x0D"
    by (simp_all add: gpio_line_def)
  show "CHR 0x0A \<notin> set (gpio_line e)" "nul \<notin> set (gpio_line e)" "gpio_line e \<noteq> []"
    using assms show_nat_plain by (auto simp: gpio_line_def gpio_entry_ok_def nul_def)
qed

lemma sw_round_entry:
  assumes e: "gpio_entry_ok e" and E: "gpio_readable E on"
  shows "\<exists>w. sw_round E lim (Some (gpio_line e @ [CHR 0x0A])) s =
    (if (case lim of None \<Rightarrow> False | Some n \<Rightarrow> n \<le> sw_keynumber s)
     then Some (True, s\<lparr>sw_line := Some (show_nat (fst e)), sw_world := w\<rparr>)
     else map_option (Pair False) (sw_store (if on (snd e) then CHR ''1'' else CHR ''0'') (show_nat (fst e))
       (s\<lparr>sw_line := Some (show_nat (fst e)), sw_world := w\<rparr>)))"
proof -
  note L = gpio_line_chars[OF e]
  have c: "cstr (gpio_line e @ [CHR 0x0A]) = gpio_line e @ [CHR 0x0A]"
    using L by (intro cstr_id) (simp add: nul_def)
  have p: "dropWhile (\<lambda>c. c \<noteq> CHR ''/'') (snd e) = snd e" "snd e \<noteq> []"
    using e by (auto simp: gpio_entry_ok_def dropWhile_eq_self_iff)
  have k: "strchr (gpio_line e) CHR '':'' = Some (CHR '':'' # snd e)"
    "takeWhile (\<lambda>c. c \<noteq> CHR '':'') (gpio_line e) = show_nat (fst e)"
    using colon_not_in_code[of "fst e"]
    by (auto simp: gpio_line_def strchr_append takeWhile_append takeWhile_id split: if_splits)
  obtain fd w v w' where o: "gp_open E (snd e) (sw_world s) = (fd, w)" "gp_read E fd w = (v, w')"
    by (metis surj_pair)
  have "0 \<le> fd" "v = Some (if on (snd e) then CHR ''1'' else CHR ''0'')"
    using E[unfolded gpio_readable_def, rule_format, of "snd e" "sw_world s"] o by simp_all
  note o = o this
  have r: "sw_round E lim (Some (gpio_line e @ [CHR 0x0A])) s =
    sw_open E lim (show_nat (fst e)) (snd e) (s\<lparr>sw_line := Some (show_nat (fst e))\<rparr>)"
    using L c k by (simp add: sw_round_def Let_def)
  show ?thesis
  proof (cases "case lim of None \<Rightarrow> False | Some n \<Rightarrow> n \<le> sw_keynumber s")
    case True
    with p o show ?thesis
      by (intro exI[of _ w]) (auto simp: r sw_open_def Let_def split: option.splits)
  next
    case False
    with p o show ?thesis
      by (intro exI[of _ w']) (auto simp: r sw_open_def Let_def map_option_case split: option.splits Option.bind_splits)
  qed
qed
lemma sw_store_value:
  assumes "length (sw_keyvalue s) = length (sw_keycode s)" and "c < 2 ^ 31"
  shows "sw_store (if b then CHR ''1'' else CHR ''0'') (show_nat c) s =
    (if sw_keynumber s < length (sw_keycode s)
     then Some (s\<lparr>sw_keycode := (sw_keycode s)[sw_keynumber s := int c],
       sw_keyvalue := (sw_keyvalue s)[sw_keynumber s := if b then 1 else 0], sw_keynumber := sw_keynumber s + 1\<rparr>)
     else None)"
  using assms atoi_show_nat[of c] by (simp add: sw_store_def store_def)

text \<open>The round after the last line, which finds the code of the last entry in the buffer.\<close>

lemma sw_loop_end:
  assumes "sw_line s = Some (show_nat c)"
  shows "sw_loop E lim False [] s = Some s"
proof -
  have h: "hd (show_nat c) \<noteq> CHR 0x0A" "hd (show_nat c) \<noteq> CHR 0x0D"
    using show_nat_plain[of "hd (show_nat c)" c] by simp_all
  have "last (show_nat c) \<noteq> CHR 0x0A" using show_nat_plain[of "last (show_nat c)" c] by simp
  moreover have "strchr (show_nat c) CHR '':'' = None" using colon_not_in_code strchr_None by blast
  ultimately have "sw_round E lim None s = Some (False, s)"
    using assms h by (simp add: sw_round_def Let_def)
  moreover have "sw_loop E lim True [] t = Some t" for t by (simp add: sw_loop.simps)
  ultimately show ?thesis by (subst sw_loop.simps) (simp add: fgets_def)
qed

lemma sw_loop_line:
  assumes "gpio_entry_ok e"
  shows "sw_loop E lim False (gpio_text (e # es)) s = do {
     (stop, s) \<leftarrow> sw_round E lim (Some (gpio_line e @ [CHR 0x0A])) s;
     if stop then Some s else sw_loop E lim False (gpio_text es) s }"
proof -
  have "fgets 1024 (gpio_line e @ CHR 0x0A # gpio_text es) =
    (Some (gpio_line e @ [CHR 0x0A]), gpio_text es, False)"
    using assms gpio_line_chars[OF assms] by (intro fgets_line) (simp_all add: gpio_entry_ok_def)
  then show ?thesis by (subst sw_loop.simps) (simp add: Let_def cong: if_cong)
qed

lemma take_Suc_update: "j < length xs \<Longrightarrow> take (Suc j) (xs[j := v]) = take j xs @ [v]"
  by (simp add: take_Suc_conv_app_nth)

definition sw_written :: "(string \<Rightarrow> bool) \<Rightarrow> gpio_entry list \<Rightarrow> 'w sw_tables \<Rightarrow> 'w sw_tables \<Rightarrow> bool" where
  "sw_written on es s t \<longleftrightarrow> sw_keynumber t = sw_keynumber s + length es \<and>
     length (sw_keycode t) = length (sw_keycode s) \<and> length (sw_keyvalue t) = length (sw_keyvalue s) \<and>
     take (sw_keynumber t) (sw_keycode t) = take (sw_keynumber s) (sw_keycode s) @ map (\<lambda>e. int (fst e)) es \<and>
     take (sw_keynumber t) (sw_keyvalue t) =
       take (sw_keynumber s) (sw_keyvalue s) @ map (\<lambda>e. if on (snd e) then 1 else 0) es"

lemma sw_loop_entries:
  assumes "gpio_readable E on" and "\<forall>e \<in> set es. gpio_entry_ok e"
    and "length (sw_keyvalue s) = length (sw_keycode s)" and "sw_keynumber s \<le> length (sw_keycode s)"
    and "es = [] \<Longrightarrow> \<exists>c. sw_line s = Some (show_nat c)"
  shows "case sw_loop E None False (gpio_text es) s of
      None \<Rightarrow> length (sw_keycode s) < sw_keynumber s + length es
    | Some t \<Rightarrow> sw_keynumber s + length es \<le> length (sw_keycode s) \<and> sw_written on es s t"
  using assms
proof (induction es arbitrary: s)
  case Nil
  then show ?case using sw_loop_end by (fastforce simp: sw_written_def)
next
  case (Cons e es)
  have e: "gpio_entry_ok e" "fst e < 2 ^ 31" using Cons.prems(2) by (simp_all add: gpio_entry_ok_def)
  obtain w where r: "sw_round E None (Some (gpio_line e @ [CHR 0x0A])) s =
      map_option (Pair False) (sw_store (if on (snd e) then CHR ''1'' else CHR ''0'') (show_nat (fst e))
       (s\<lparr>sw_line := Some (show_nat (fst e)), sw_world := w\<rparr>))"
    using sw_round_entry[OF e(1) Cons.prems(1), of None s] by auto
  show ?case
  proof (cases "sw_keynumber s < length (sw_keycode s)")
    case True
    define t where "t = s\<lparr>sw_line := Some (show_nat (fst e)), sw_world := w,
      sw_keycode := (sw_keycode s)[sw_keynumber s := int (fst e)],
      sw_keyvalue := (sw_keyvalue s)[sw_keynumber s := if on (snd e) then 1 else 0],
      sw_keynumber := sw_keynumber s + 1\<rparr>"
    have l: "sw_loop E None False (gpio_text (e # es)) s = sw_loop E None False (gpio_text es) t"
      using True Cons.prems(3) e
      by (simp add: sw_loop_line r sw_store_value t_def del: gpio_text.simps)
    have "case sw_loop E None False (gpio_text es) t of
        None \<Rightarrow> length (sw_keycode t) < sw_keynumber t + length es
      | Some u \<Rightarrow> sw_keynumber t + length es \<le> length (sw_keycode t) \<and> sw_written on es t u"
      using Cons.prems True by (intro Cons.IH) (auto simp: t_def)
    moreover have "sw_written on es t u \<Longrightarrow> sw_written on (e # es) s u" for u
      using True Cons.prems(3) by (auto simp: sw_written_def t_def take_Suc_update)
    moreover have "length (sw_keycode t) = length (sw_keycode s)" "sw_keynumber t = sw_keynumber s + 1"
      by (simp_all add: t_def)
    ultimately show ?thesis unfolding l by (simp split: option.splits)
  next
    case False
    then have "sw_loop E None False (gpio_text (e # es)) s = None"
      using Cons.prems(3) e by (simp add: sw_loop_line r sw_store_value del: gpio_text.simps)
    then show ?thesis using False by simp
  qed
qed

text \<open>Whatever the file holds, the tables keep their size and the count stays within them.\<close>

definition sw_fits :: "'w sw_tables \<Rightarrow> bool" where
  "sw_fits s \<longleftrightarrow> length (sw_keyvalue s) = length (sw_keycode s) \<and> sw_keynumber s \<le> length (sw_keycode s)"

definition sw_same_size :: "'w sw_tables \<Rightarrow> 'w sw_tables \<Rightarrow> bool" where
  "sw_same_size s t \<longleftrightarrow> sw_fits t \<and> length (sw_keycode t) = length (sw_keycode s)"

lemma sw_store_fits: "sw_fits s \<Longrightarrow> returns (sw_store v line s) (sw_same_size s)"
  by (auto simp: sw_store_def store_def sw_fits_def sw_same_size_def wp Let_def)

lemma sw_fits_frame [simp]:
  "sw_fits (s\<lparr>sw_world := w\<rparr>) = sw_fits s" "sw_fits (s\<lparr>sw_line := l\<rparr>) = sw_fits s"
  "sw_same_size (s\<lparr>sw_world := w\<rparr>) = sw_same_size s" "sw_same_size (s\<lparr>sw_line := l\<rparr>) = sw_same_size s"
  "sw_same_size s (t\<lparr>sw_world := w\<rparr>) = sw_same_size s t" "sw_same_size s (t\<lparr>sw_line := l\<rparr>) = sw_same_size s t"
  by (simp_all add: sw_fits_def sw_same_size_def fun_eq_iff)

lemma sw_same_size_refl: "sw_fits s \<Longrightarrow> sw_same_size s s"
  by (simp add: sw_same_size_def)

lemma sw_open_fits: "sw_fits s \<Longrightarrow> returns (sw_open E lim line gpio s) (\<lambda>(b, t). sw_same_size s t)"
proof -
  assume f: "sw_fits s"
  have "returns (Option.bind (sw_store v line (s\<lparr>sw_world := w\<rparr>)) (\<lambda>s. Some (False, s))) (\<lambda>(b, t). sw_same_size s t)"
    for v w using sw_store_fits[of "s\<lparr>sw_world := w\<rparr>" v line] f by (simp add: wp)
  then show ?thesis
    using f by (auto simp: sw_open_def Let_def sw_same_size_refl split: prod.splits option.splits)
qed

lemma sw_round_fits: "sw_fits s \<Longrightarrow> returns (sw_round E lim got s) (\<lambda>(b, t). sw_same_size s t)"
proof -
  assume f: "sw_fits s"
  have "returns (sw_open E lim line gpio (s\<lparr>sw_line := l\<rparr>)) (\<lambda>(b, t). sw_same_size s t)" for line gpio l
    using sw_open_fits[of "s\<lparr>sw_line := l\<rparr>" E lim line gpio] f by simp
  then show ?thesis using f
    by (cases "case got of Some l \<Rightarrow> Some (cstr l) | None \<Rightarrow> sw_line s")
      (simp_all add: sw_round_def Let_def sw_same_size_refl split: option.split)
qed

lemma sw_loop_fits: "sw_fits s \<Longrightarrow> returns (sw_loop E lim eof cs s) (sw_same_size s)"
proof (induction E lim eof cs s rule: sw_loop.induct)
  case (1 E lim eof cs s)
  show ?case
  proof (cases eof)
    case True
    then show ?thesis using 1 by (simp add: sw_loop.simps sw_same_size_refl)
  next
    case False
    show ?thesis
      apply (subst sw_loop.simps)
      apply (simp add: False Let_def)
      apply (rule returns_bindI[OF sw_round_fits[OF 1(2)]])
      using 1(1)[OF False refl] by (auto simp: sw_same_size_def returns_iff split: if_splits)
  qed
qed

lemma sw_parse_fits: "sw_fits s \<Longrightarrow> returns (sw_parse E lim s) (sw_same_size s)"
proof -
  assume f: "sw_fits s"
  then have "sw_fits (s\<lparr>sw_line := None, sw_keynumber := 0\<rparr>)" by (simp add: sw_fits_def)
  from sw_loop_fits[OF this, of E lim False "the (gp_file E)"] f show ?thesis
    by (auto simp: sw_parse_def sw_same_size_def sw_fits_def returns_iff split: option.splits)
qed

text \<open>C40. A configuration in the documented form is read back completely when it fits the tables of
  \<open>input-event.c\<close>; a longer one is written past their end.\<close>

theorem gpio_config_read:
  assumes "gp_file E = Some (gpio_text es)" and "es \<noteq> []" and "\<forall>e \<in> set es. gpio_entry_ok e"
    and "gpio_readable E on" and "length (sw_keyvalue s) = length (sw_keycode s)"
  shows "case parse_gpio E s of
      None \<Rightarrow> length (sw_keycode s) < length es
    | Some t \<Rightarrow> length es \<le> length (sw_keycode s) \<and> sw_keynumber t = length es \<and>
        take (length es) (sw_keycode t) = map (\<lambda>e. int (fst e)) es \<and>
        take (length es) (sw_keyvalue t) = map (\<lambda>e. if on (snd e) then 1 else 0) es"
  using sw_loop_entries[OF assms(4,3), of "s\<lparr>sw_line := None, sw_keynumber := 0\<rparr>"] assms(1,2,5)
  by (auto simp: parse_gpio_def sw_parse_def sw_written_def split: option.splits)

definition gpio_lab :: "unit gpio_env" where
  "gpio_lab = \<lparr>gp_file = Some (gpio_text [(5, ''/sys/a''), (17, ''/sys/b'')]), gp_open = \<lambda>p w. (if p = ''/sys/a'' then 3 else 4, w),
     gp_read = \<lambda>fd w. (Some (if fd = 3 then CHR ''1'' else CHR ''0''), w)\<rparr>"

lemma gpio_lab_entries: "\<forall>e \<in> set [(5, ''/sys/a''), (17, ''/sys/b'')]. gpio_entry_ok e"
  by (simp add: gpio_entry_ok_def gpio_line_def nul_def show_nat.simps)

lemma gpio_lab_readable: "gpio_readable gpio_lab (\<lambda>p. p = ''/sys/a'')"
  by (auto simp: gpio_readable_def gpio_lab_def)

theorem gpio_config_read_witness:
  "case parse_gpio gpio_lab \<lparr>sw_world = (), sw_line = None, sw_keycode = replicate 32 (-1), sw_keyvalue = replicate 32 0, sw_keynumber = 0\<rparr> of
      None \<Rightarrow> False
    | Some t \<Rightarrow> sw_keynumber t = 2 \<and> take 2 (sw_keycode t) = [5, 17] \<and> take 2 (sw_keyvalue t) = [1, 0]"
  using gpio_config_read[OF _ _ gpio_lab_entries gpio_lab_readable,
    of "\<lparr>sw_world = (), sw_line = None, sw_keycode = replicate 32 (-1), sw_keyvalue = replicate 32 0, sw_keynumber = 0\<rparr>"]
  by (simp add: gpio_lab_def numeral_2_eq_2 split: option.splits)

end
