(* ===== verification/InputHot.thy ===== *)
theory InputHot
  imports GpioConfig
begin

text \<open>
  The hot-plug input library (\<open>framework/libs/inputevent/src/input-event-hot.c\<close>): the list of
  opened devices under \<open>/dev/input\<close>, the inotify and epoll bookkeeping, the recognition of
  single, double and long clicks, and \<open>read_input_events\<close>.

  The devices are a doubly linked list on an explicit heap; address 0 is NULL and address
  \<open>DEV_HEAD\<close> is the list head inside the handle.  The kernel (files, epoll, inotify, the clock)
  is a parameter on an abstract world.  Times are \<open>unsigned long\<close> with 64 bits.  A NULL or freed
  pointer and an index past a table or past the caller's buffer are the outcome \<open>None\<close>.
\<close>

section \<open>Data\<close>

record input_device =
  dev_fd :: int
  dev_name :: string
  dev_pre :: nat
  dev_next :: nat

record click_gesture =
  cg_use :: bool
  cg_key_code :: int
  cg_key_value :: int
  cg_downtime :: "64 word"

record gesture =
  new_action :: bool
  action :: int
  g_type :: int
  g_key_code :: int
  slide_value :: int
  long_press_time :: "64 word"

record keyevent =
  k_type :: int
  k_code :: int
  k_value :: int
  k_time :: "64 word"

record input_ev =
  iev_sec :: int
  iev_usec :: int
  iev_type :: int
  iev_code :: int
  iev_value :: int

record epoll_ev =
  ep_events :: "32 word"
  ep_fd :: int

record inotify_ev =
  in_mask :: "32 word"
  in_name :: string

text \<open>Results of \<open>read\<close> on a device: whole events (none for the size 0), a size that is not a
  multiple of the size of an event, or an error; results of \<open>epoll_wait\<close> (no event for a
  time-out).  A read on the inotify descriptor that fails or is too short gives no event.\<close>

datatype read_res = Rd_events "input_ev list" | Rd_partial | Rd_err int

datatype poll_res = Ep_events "epoll_ev list" | Ep_err int

record 'w hot_env =
  h_gpio :: "'w gpio_env"
  h_open :: "string \<Rightarrow> 'w \<Rightarrow> int \<times> 'w"
  h_close :: "int \<Rightarrow> 'w \<Rightarrow> 'w"
  h_read :: "int \<Rightarrow> nat \<Rightarrow> 'w \<Rightarrow> read_res \<times> 'w"
  h_epoll_create :: "'w \<Rightarrow> int \<times> 'w"
  h_epoll_add :: "int \<Rightarrow> int \<Rightarrow> 32 word \<Rightarrow> 'w \<Rightarrow> int \<times> 'w"
  h_epoll_del :: "int \<Rightarrow> int \<Rightarrow> 'w \<Rightarrow> int \<times> 'w"
  h_epoll_wait :: "int \<Rightarrow> int \<Rightarrow> 'w \<Rightarrow> poll_res \<times> 'w"
  h_inotify_init :: "'w \<Rightarrow> int \<times> 'w"
  h_inotify_add :: "int \<Rightarrow> string \<Rightarrow> 'w \<Rightarrow> int \<times> 'w"
  h_inotify_rm :: "int \<Rightarrow> int \<Rightarrow> 'w \<Rightarrow> 'w"
  h_inotify_read :: "int \<Rightarrow> 'w \<Rightarrow> inotify_ev list \<times> 'w"
  h_readdir :: "string \<Rightarrow> 'w \<Rightarrow> string list option \<times> 'w"
  h_uname :: "'w \<Rightarrow> string option \<times> 'w"
  h_time :: "'w \<Rightarrow> (int \<times> int) \<times> 'w"

record 'w input_handle =
  h_world :: 'w
  have_slide_key :: bool
  slide_timeout :: int
  double_click_timeout :: int
  mUsingEpollWakeup :: bool
  mEpollFd :: int
  mINotifyFd :: int
  wd :: int
  h_sw_keycode :: "int list"
  h_sw_keyvalue :: "int list"
  h_sw_keynumber :: nat
  gesture_key :: click_gesture
  mPendingEventItems :: "epoll_ev list"
  mPendingEventCount :: nat
  mPendingEventIndex :: nat
  mPendingINotify :: bool
  dev_mem :: "nat \<Rightarrow> input_device option"
  dev_brk :: nat

definition io :: "('w \<Rightarrow> 'a \<times> 'w) \<Rightarrow> 'w input_handle \<Rightarrow> 'a \<times> 'w input_handle" where
  "io f s = (let (r, w) = f (h_world s) in (r, s\<lparr>h_world := w\<rparr>))"

definition EV_KEY :: int where "EV_KEY = 1"
definition EV_SW :: int where "EV_SW = 5"
definition ENODEV :: int where "ENODEV = 19"
definition EPOLLIN :: "32 word" where "EPOLLIN = 0x001"
definition EPOLLHUP :: "32 word" where "EPOLLHUP = 0x010"
definition EPOLLWAKEUP :: "32 word" where "EPOLLWAKEUP = 0x20000000"
definition IN_CREATE :: "32 word" where "IN_CREATE = 0x100"
definition ACTION_SINGLE_CLICK :: int where "ACTION_SINGLE_CLICK = 1"
definition ACTION_DOUBLE_CLICK :: int where "ACTION_DOUBLE_CLICK = 2"
definition ACTION_LONG_CLICK :: int where "ACTION_LONG_CLICK = 3"
definition DEVICE_PATH :: string where "DEVICE_PATH = ''/dev/input''"
definition DEV_HEAD :: nat where "DEV_HEAD = 1"

section \<open>The device list\<close>

type_synonym dev_heap = "nat \<Rightarrow> input_device option"

partial_function (option) dev_tail :: "dev_heap \<Rightarrow> nat \<Rightarrow> nat option" where
  "dev_tail m pos = do { d \<leftarrow> m pos; if dev_next d = 0 then Some pos else dev_tail m (dev_next d) }"

declare dev_tail.simps [code]

definition add_to_dev_list :: "nat \<Rightarrow> nat \<Rightarrow> dev_heap \<Rightarrow> dev_heap option" where
  "add_to_dev_list list device m = do {
     pos \<leftarrow> dev_tail m list;
     p \<leftarrow> m pos;
     let m = m(pos \<mapsto> p\<lparr>dev_next := device\<rparr>);
     d \<leftarrow> m device;
     Some (m(device \<mapsto> d\<lparr>dev_pre := pos, dev_next := 0\<rparr>))
   }"

definition del_from_dev_list :: "nat \<Rightarrow> dev_heap \<Rightarrow> dev_heap option" where
  "del_from_dev_list device m = do {
     d \<leftarrow> m device;
     m \<leftarrow> (if dev_pre d = 0 then Some m
        else do { p \<leftarrow> m (dev_pre d); Some (m(dev_pre d \<mapsto> p\<lparr>dev_next := dev_next d\<rparr>)) });
     m \<leftarrow> (if dev_next d = 0 then Some m
        else do { n \<leftarrow> m (dev_next d); Some (m(dev_next d \<mapsto> n\<lparr>dev_pre := dev_pre d\<rparr>)) });
     Some (m(device := None))
   }"

text \<open>The two searches: the first node from \<open>pos\<close> on that satisfies the test, or NULL.\<close>

partial_function (option) dev_search :: "(input_device \<Rightarrow> bool) \<Rightarrow> dev_heap \<Rightarrow> nat \<Rightarrow> nat option" where
  "dev_search test m pos =
     (if pos = 0 then Some 0
      else do { d \<leftarrow> m pos; if test d then Some pos else dev_search test m (dev_next d) })"

declare dev_search.simps [code]

definition getDeviceByPathLocked :: "dev_heap \<Rightarrow> string \<Rightarrow> nat option" where
  "getDeviceByPathLocked m devicePath =
     do { h \<leftarrow> m DEV_HEAD; dev_search (\<lambda>d. dev_name d = devicePath) m (dev_next h) }"

definition getDeviceByFd :: "dev_heap \<Rightarrow> int \<Rightarrow> nat option" where
  "getDeviceByFd m fd = do { h \<leftarrow> m DEV_HEAD; dev_search (\<lambda>d. dev_fd d = fd) m (dev_next h) }"

section \<open>Opening and closing devices\<close>

definition openDeviceLocked :: "'w hot_env \<Rightarrow> string \<Rightarrow> 'w input_handle \<Rightarrow> (int \<times> 'w input_handle) option" where
  "openDeviceLocked E devicePath s =
     (let (fd, s) = io (h_open E devicePath) s in
      if fd < 0 then Some (-1, s)
      else let device = dev_brk s;
             m = (dev_mem s)(device \<mapsto> \<lparr>dev_fd = fd, dev_name = devicePath, dev_pre = 0, dev_next = 0\<rparr>)
        in do {
          m \<leftarrow> add_to_dev_list DEV_HEAD device m;
          let events = (if mUsingEpollWakeup s then EPOLLIN OR EPOLLWAKEUP else EPOLLIN);
          let (r, s) = io (h_epoll_add E (mEpollFd s) fd events) (s\<lparr>dev_mem := m, dev_brk := device + 1\<rparr>);
          Some (if r \<noteq> 0 then -1 else 0, s)
        })"

definition closeDeviceLocked :: "'w hot_env \<Rightarrow> nat \<Rightarrow> 'w input_handle \<Rightarrow> 'w input_handle option" where
  "closeDeviceLocked E device s =
     (if device = 0 then Some s
      else do {
        d \<leftarrow> dev_mem s device;
        let (r, s) = io (h_epoll_del E (mEpollFd s) (dev_fd d)) s;
        let s = (if 0 \<le> dev_fd d then s\<lparr>h_world := h_close E (dev_fd d) (h_world s)\<rparr> else s);
        m \<leftarrow> del_from_dev_list device (dev_mem s);
        Some (s\<lparr>dev_mem := m\<rparr>)
      })"

partial_function (option) close_devices :: "'w hot_env \<Rightarrow> nat \<Rightarrow> 'w input_handle \<Rightarrow> 'w input_handle option" where
  "close_devices E pos s =
     (if pos = 0 then Some s
      else do {
        d \<leftarrow> dev_mem s pos;
        s \<leftarrow> closeDeviceLocked E pos s;
        close_devices E (dev_next d) s
      })"

declare close_devices.simps [code]

definition closeAllDeviceLocked :: "'w hot_env \<Rightarrow> 'w input_handle \<Rightarrow> 'w input_handle option" where
  "closeAllDeviceLocked E s = do { h \<leftarrow> dev_mem s DEV_HEAD; close_devices E (dev_next h) s }"

definition closeDeviceLockedbyPath :: "'w hot_env \<Rightarrow> string \<Rightarrow> 'w input_handle \<Rightarrow> (int \<times> 'w input_handle) option" where
  "closeDeviceLockedbyPath E devicePath s = do {
     device \<leftarrow> getDeviceByPathLocked (dev_mem s) devicePath;
     if device \<noteq> 0 then do { s \<leftarrow> closeDeviceLocked E device s; Some (0, s) } else Some (-1, s)
   }"

fun scan_entries :: "'w hot_env \<Rightarrow> string \<Rightarrow> string list \<Rightarrow> 'w input_handle \<Rightarrow> 'w input_handle option" where
  "scan_entries E dirname [] s = Some s"
| "scan_entries E dirname (n # ns) s =
     (if n = ''.'' \<or> n = ''..'' then scan_entries E dirname ns s
      else do {
        (r, s) \<leftarrow> openDeviceLocked E (dirname @ CHR ''/'' # n) s;
        scan_entries E dirname ns s
      })"

definition scanDirLocked :: "'w hot_env \<Rightarrow> string \<Rightarrow> 'w input_handle \<Rightarrow> (int \<times> 'w input_handle) option" where
  "scanDirLocked E dirname s =
     (case io (h_readdir E dirname) s of
        (None, s) \<Rightarrow> Some (-1, s)
      | (Some ns, s) \<Rightarrow> do { s \<leftarrow> scan_entries E dirname ns s; Some (0, s) })"

fun notify_events :: "'w hot_env \<Rightarrow> inotify_ev list \<Rightarrow> 'w input_handle \<Rightarrow> 'w input_handle option" where
  "notify_events E [] s = Some s"
| "notify_events E (e # es) s =
     (if in_name e = [] then notify_events E es s
      else let devname = DEVICE_PATH @ CHR ''/'' # in_name e in do {
        (r, s) \<leftarrow> (if has_flag (in_mask e) IN_CREATE then openDeviceLocked E devname s
                  else closeDeviceLockedbyPath E devname s);
        notify_events E es s
      })"

definition readNotifyLocked :: "'w hot_env \<Rightarrow> 'w input_handle \<Rightarrow> (int \<times> 'w input_handle) option" where
  "readNotifyLocked E s =
     (let (es, s) = io (h_inotify_read E (mINotifyFd s)) s in
      if es = [] then Some (-1, s) else do { s \<leftarrow> notify_events E es s; Some (0, s) })"

section \<open>Set-up and release\<close>

text \<open>\<open>sscanf (release, "%d.%d", ...)\<close>: nothing, the first number, or both.\<close>

definition scan_release :: "string \<Rightarrow> (int \<times> int option) option" where
  "scan_release s =
     (case scan_int s of
        None \<Rightarrow> None
      | Some (major, r) \<Rightarrow>
          Some (major, if r \<noteq> [] \<and> hd r = CHR ''.'' then map_option fst (scan_int (tl r)) else None))"

text \<open>The minor number stays uninitialised when only the major one was read.\<close>

definition getLinuxRelease :: "'w hot_env \<Rightarrow> 'w input_handle \<Rightarrow> (int \<times> int option) \<times> 'w input_handle" where
  "getLinuxRelease E s =
     (let (u, s) = io (h_uname E) s
      in (case Option.bind u scan_release of None \<Rightarrow> (0, Some 0) | Some v \<Rightarrow> v, s))"

definition epoll_wakeup :: "int \<times> int option \<Rightarrow> bool option" where
  "epoll_wakeup v =
     (if fst v > 3 then Some True else if fst v = 3 then map_option (\<lambda>minor. minor \<ge> 5) (snd v) else Some False)"

definition input_event_open :: "'w hot_env \<Rightarrow> 'w input_handle \<Rightarrow> (int \<times> 'w input_handle) option" where
  "input_event_open E s =
     (let (fd, s) = io (h_epoll_create E) s; s = s\<lparr>mEpollFd := fd\<rparr> in
      if fd < 0 then Some (-1, s)
      else let (fd, s) = io (h_inotify_init E) s; s = s\<lparr>mINotifyFd := fd\<rparr> in
      if fd < 0 then Some (-1, s)
      else let (w, s) = io (h_inotify_add E fd DEVICE_PATH) s; s = s\<lparr>wd := w\<rparr> in
      if w < 0 then Some (-1, s)
      else let (r, s) = io (h_epoll_add E (mEpollFd s) fd EPOLLIN) s;
               (v, s) = getLinuxRelease E s
        in do {
          b \<leftarrow> epoll_wakeup v;
          scanDirLocked E DEVICE_PATH (s\<lparr>mUsingEpollWakeup := b\<rparr>)
        })"

definition input_event_destroy :: "'w hot_env \<Rightarrow> 'w input_handle \<Rightarrow> 'w option" where
  "input_event_destroy E s = do {
     s \<leftarrow> closeAllDeviceLocked E s;
     let s = (if 0 \<le> mINotifyFd s then
         let (r, s) = io (h_epoll_del E (mEpollFd s) (mINotifyFd s)) s
         in s\<lparr>h_world := h_close E (mINotifyFd s) (h_inotify_rm E (mINotifyFd s) (wd s) (h_world s)), mINotifyFd := -1\<rparr>
       else s);
     let s = (if 0 \<le> mEpollFd s then s\<lparr>h_world := h_close E (mEpollFd s) (h_world s), mEpollFd := -1\<rparr> else s);
     Some (h_world s)
   }"

definition new_handle :: "bool \<Rightarrow> int \<Rightarrow> int \<Rightarrow> 'w \<Rightarrow> 'w input_handle" where
  "new_handle slide dct st w =
     \<lparr>h_world = w, have_slide_key = slide, slide_timeout = st, double_click_timeout = dct,
      mUsingEpollWakeup = False, mEpollFd = -1, mINotifyFd = -1, wd = -1,
      h_sw_keycode = replicate MAX_SW_KEY 0, h_sw_keyvalue = replicate MAX_SW_KEY 0, h_sw_keynumber = 0,
      gesture_key = \<lparr>cg_use = False, cg_key_code = 0, cg_key_value = 0, cg_downtime = 0\<rparr>,
      mPendingEventItems = [], mPendingEventCount = 0, mPendingEventIndex = 0, mPendingINotify = False,
      dev_mem = [DEV_HEAD \<mapsto> \<lparr>dev_fd = 0, dev_name = [], dev_pre = 0, dev_next = 0\<rparr>], dev_brk = 2\<rparr>"

definition load_switches :: "'w hot_env \<Rightarrow> 'w input_handle \<Rightarrow> 'w input_handle option" where
  "load_switches E s = do {
     t \<leftarrow> parse_switch_config (h_gpio E) \<lparr>sw_world = h_world s, sw_line = None, sw_keycode = h_sw_keycode s,
            sw_keyvalue = h_sw_keyvalue s, sw_keynumber = 0\<rparr>;
     Some (s\<lparr>h_world := sw_world t, h_sw_keycode := sw_keycode t, h_sw_keyvalue := sw_keyvalue t,
             h_sw_keynumber := sw_keynumber t\<rparr>)
   }"

text \<open>The created handle, or NULL with the world left behind.\<close>

definition input_event_create :: "'w hot_env \<Rightarrow> bool \<Rightarrow> bool \<Rightarrow> int \<Rightarrow> int \<Rightarrow> 'w \<Rightarrow> ('w + 'w input_handle) option" where
  "input_event_create E alloc_ok slide dct st w =
     (if \<not> alloc_ok then Some (Inl w)
      else do {
        (ret, s) \<leftarrow> input_event_open E (new_handle slide dct st w);
        if ret \<noteq> 0 then map_option Inl (input_event_destroy E s)
        else map_option Inr (load_switches E s)
      })"

section \<open>Clicks\<close>

definition report :: "int \<Rightarrow> int \<Rightarrow> gesture \<Rightarrow> gesture" where
  "report act code g = g\<lparr>new_action := True, action := act, g_type := EV_KEY, g_key_code := code\<rparr>"

definition later_than :: "int \<Rightarrow> 64 word \<Rightarrow> 64 word \<Rightarrow> bool" where
  "later_than timeout t0 t \<longleftrightarrow> word_of_int timeout < t - t0"

definition click_press :: "int \<Rightarrow> keyevent \<Rightarrow> click_gesture \<Rightarrow> gesture \<Rightarrow> click_gesture \<times> gesture" where
  "click_press timeout e c g =
     (if \<not> cg_use c then
        (c\<lparr>cg_use := True, cg_downtime := k_time e, cg_key_code := k_code e, cg_key_value := k_value e\<rparr>, g)
      else if k_code e = cg_key_code c then
        if later_than timeout (cg_downtime c) (k_time e)
        then (c\<lparr>cg_downtime := k_time e, cg_key_value := k_value e\<rparr>, report ACTION_SINGLE_CLICK (k_code e) g)
        else (c\<lparr>cg_use := False\<rparr>, report ACTION_DOUBLE_CLICK (k_code e) g)
      else
        (c\<lparr>cg_key_code := k_code e, cg_downtime := k_time e, cg_key_value := k_value e\<rparr>,
         if cg_key_value c = 2
         then (report ACTION_LONG_CLICK (cg_key_code c) g)\<lparr>long_press_time := k_time e - cg_downtime c\<rparr>
         else report ACTION_SINGLE_CLICK (cg_key_code c) g))"

definition click_release :: "int \<Rightarrow> keyevent \<Rightarrow> click_gesture \<Rightarrow> gesture \<Rightarrow> click_gesture \<times> gesture" where
  "click_release timeout e c g =
     (if cg_use c \<and> k_code e = cg_key_code c then
        if cg_key_value c = 2 then
          (c\<lparr>cg_use := False, cg_key_value := k_value e\<rparr>,
           (report ACTION_LONG_CLICK (cg_key_code c) g)\<lparr>long_press_time := k_time e - cg_downtime c\<rparr>)
        else if later_than timeout (cg_downtime c) (k_time e) then
          (c\<lparr>cg_use := False, cg_key_value := k_value e\<rparr>, report ACTION_SINGLE_CLICK (cg_key_code c) g)
        else (c\<lparr>cg_key_value := k_value e\<rparr>, g)
      else (c, g))"

definition click_repeat :: "keyevent \<Rightarrow> click_gesture \<Rightarrow> gesture \<Rightarrow> click_gesture \<times> gesture" where
  "click_repeat e c g =
     (if cg_use c \<and> cg_key_code c = k_code e then
        (c\<lparr>cg_key_value := k_value e\<rparr>,
         (report ACTION_LONG_CLICK (cg_key_code c) g)\<lparr>long_press_time := k_time e - cg_downtime c\<rparr>)
      else
        (c\<lparr>cg_use := True, cg_key_value := k_value e, cg_key_code := k_code e, cg_downtime := k_time e\<rparr>,
         if cg_use c \<and> cg_key_value c = 0 then report ACTION_SINGLE_CLICK (cg_key_code c) g else g))"

text \<open>The returned flag of the C function is \<open>new_action\<close> of the gesture; no caller uses it.\<close>

definition click_event :: "int \<Rightarrow> keyevent option \<Rightarrow> click_gesture \<Rightarrow> gesture \<Rightarrow> click_gesture \<times> gesture" where
  "click_event timeout event c g =
     (case event of
        None \<Rightarrow> if cg_use c \<and> cg_key_value c = 0
                then (c\<lparr>cg_use := False\<rparr>, report ACTION_SINGLE_CLICK (cg_key_code c) g) else (c, g)
      | Some e \<Rightarrow>
          if k_value e = 1 then click_press timeout e c g
          else if k_value e = 0 then click_release timeout e c g
          else if k_value e = 2 then click_repeat e c g
          else (c, g))"

section \<open>Reading events\<close>

text \<open>The variables of \<open>read_input_events\<close>: the handle, the gesture of the caller and the part of
  the caller's buffer that is filled.  \<open>capacity\<close> is what is left of the buffer size \<open>n\<close>.\<close>

record 'w reading =
  hnd :: "'w input_handle"
  gest :: gesture
  evs :: "keyevent list"

definition ms :: "int \<Rightarrow> int \<Rightarrow> 64 word" where
  "ms sec usec = word_of_int (sec * 1000 + usec div 1000)"

definition put_event :: "nat \<Rightarrow> keyevent \<Rightarrow> 'w reading \<Rightarrow> 'w reading option" where
  "put_event n e st = (if length (evs st) < n then Some (st\<lparr>evs := evs st @ [e]\<rparr>) else None)"

definition key_event :: "keyevent \<Rightarrow> 'w reading \<Rightarrow> 'w reading" where
  "key_event e st =
     (let s = hnd st; (c, g) = click_event (double_click_timeout s) (Some e) (gesture_key s) (gest st)
      in st\<lparr>hnd := s\<lparr>gesture_key := c\<rparr>, gest := g\<rparr>)"

fun collect :: "nat \<Rightarrow> input_ev list \<Rightarrow> 'w reading \<Rightarrow> 'w reading option" where
  "collect n [] st = Some st"
| "collect n (iev # ievs) st =
     (if iev_type iev = EV_SW \<or> iev_type iev = EV_KEY then
        let e = \<lparr>k_type = iev_type iev, k_code = iev_code iev, k_value = iev_value iev,
                 k_time = ms (iev_sec iev) (iev_usec iev)\<rparr> in do {
          st \<leftarrow> put_event n e st;
          collect n ievs (if iev_type iev = EV_KEY then key_event e st else st)
        }
      else collect n ievs st)"

definition close_dev :: "'w hot_env \<Rightarrow> nat \<Rightarrow> 'w reading \<Rightarrow> 'w reading option" where
  "close_dev E device st = do { s \<leftarrow> closeDeviceLocked E device (hnd st); Some (st\<lparr>hnd := s\<rparr>) }"

text \<open>The inner loop over the pending epoll events that are left; \<open>ch\<close> is \<open>deviceChanged\<close>.\<close>

fun pending_loop :: "'w hot_env \<Rightarrow> nat \<Rightarrow> epoll_ev list \<Rightarrow> bool \<Rightarrow> 'w reading \<Rightarrow> (bool \<times> 'w reading) option" where
  "pending_loop E n [] ch st = Some (ch, st)"
| "pending_loop E n (it # its) ch st =
     (let s = hnd st; s = s\<lparr>mPendingEventIndex := mPendingEventIndex s + 1\<rparr>; st = st\<lparr>hnd := s\<rparr> in
      if ep_fd it = mINotifyFd s then
        pending_loop E n its ch
          (if has_flag (ep_events it) EPOLLIN then st\<lparr>hnd := s\<lparr>mPendingINotify := True\<rparr>\<rparr> else st)
      else do {
        device \<leftarrow> getDeviceByFd (dev_mem s) (ep_fd it);
        if device = 0 then pending_loop E n its ch st
        else if has_flag (ep_events it) EPOLLIN then do {
          d \<leftarrow> dev_mem s device;
          let (r, s) = io (h_read E (dev_fd d) (n - length (evs st))) s;
          let st = st\<lparr>hnd := s\<rparr>;
          if r = Rd_events [] \<or> r = Rd_err ENODEV then do {
            st \<leftarrow> close_dev E device st;
            pending_loop E n its True st
          } else case r of
              Rd_err e \<Rightarrow> pending_loop E n its ch st
            | Rd_partial \<Rightarrow> pending_loop E n its ch st
            | Rd_events ievs \<Rightarrow> do {
                st \<leftarrow> collect n ievs st;
                if length (evs st) = n
                then Some (ch, st\<lparr>hnd := (hnd st)\<lparr>mPendingEventIndex := mPendingEventIndex (hnd st) - 1\<rparr>\<rparr>)
                else pending_loop E n its ch st
              }
        } else if has_flag (ep_events it) EPOLLHUP then do {
          st \<leftarrow> close_dev E device st;
          pending_loop E n its True st
        } else pending_loop E n its ch st
      })"

text \<open>One round of the outer loop; the flag says that the loop is left.\<close>

definition pending :: "'w input_handle \<Rightarrow> epoll_ev list" where
  "pending s = drop (mPendingEventIndex s) (take (mPendingEventCount s) (mPendingEventItems s))"

definition notify_round :: "'w hot_env \<Rightarrow> bool \<Rightarrow> 'w reading \<Rightarrow> (bool \<times> 'w reading) option" where
  "notify_round E ch st =
     (let s = hnd st in
      if mPendingINotify s \<and> mPendingEventCount s \<le> mPendingEventIndex s
      then do { (r, s) \<leftarrow> readNotifyLocked E (s\<lparr>mPendingINotify := False\<rparr>); Some (True, st\<lparr>hnd := s\<rparr>) }
      else Some (ch, st))"

definition wait_round :: "'w hot_env \<Rightarrow> 'w reading \<Rightarrow> bool \<times> 'w reading" where
  "wait_round E st =
     (let s = hnd st;
          (r, s) = io (h_epoll_wait E (mEpollFd s) (double_click_timeout s)) (s\<lparr>mPendingEventIndex := 0\<rparr>)
      in case r of
           Ep_events [] \<Rightarrow>
             let s = s\<lparr>mPendingEventCount := 0\<rparr>;
                 (c, g) = click_event (double_click_timeout s) None (gesture_key s) (gest st)
             in (True, st\<lparr>hnd := s\<lparr>gesture_key := c\<rparr>, gest := g\<rparr>)
         | Ep_events its \<Rightarrow>
             (False, st\<lparr>hnd := s\<lparr>mPendingEventItems := its, mPendingEventCount := length its\<rparr>\<rparr>)
         | Ep_err e \<Rightarrow> (False, st\<lparr>hnd := s\<lparr>mPendingEventCount := 0\<rparr>\<rparr>))"

definition read_round :: "'w hot_env \<Rightarrow> nat \<Rightarrow> 'w reading \<Rightarrow> (bool \<times> 'w reading) option" where
  "read_round E n st = do {
     (ch, st) \<leftarrow> pending_loop E n (pending (hnd st)) False st;
     (ch, st) \<leftarrow> notify_round E ch st;
     if ch then Some (False, st)
     else if evs st \<noteq> [] then Some (True, st)
     else Some (wait_round E st)
   }"

text \<open>At most \<open>k\<close> rounds; the flag says that the loop was left.\<close>

fun read_rounds :: "'w hot_env \<Rightarrow> nat \<Rightarrow> nat \<Rightarrow> 'w reading \<Rightarrow> (bool \<times> 'w reading) option" where
  "read_rounds E n 0 st = Some (False, st)"
| "read_rounds E n (Suc k) st = do {
     (fin, st) \<leftarrow> read_round E n st;
     if fin then Some (True, st) else read_rounds E n k st
   }"

fun report_switches :: "nat \<Rightarrow> 64 word \<Rightarrow> 'w reading \<Rightarrow> 'w reading option" where
  "report_switches 0 t st = Some st"
| "report_switches (Suc cap) t st =
     (let s = hnd st; j = h_sw_keynumber s - 1 in
      if h_sw_keynumber s = 0 then Some st
      else if j < length (h_sw_keycode s) \<and> j < length (h_sw_keyvalue s) then
        report_switches cap t (st\<lparr>hnd := s\<lparr>h_sw_keynumber := j\<rparr>,
          evs := evs st @ [\<lparr>k_type = EV_SW, k_code = h_sw_keycode s ! j, k_value = h_sw_keyvalue s ! j, k_time = t\<rparr>]\<rparr>)
      else None)"

text \<open>\<open>read_input_events\<close> with at most \<open>k\<close> rounds of its loop; the number it returns is the
  number of events in the buffer.  A NULL handle is the caller's \<open>None\<close>.\<close>

definition read_input_events ::
  "'w hot_env \<Rightarrow> nat \<Rightarrow> 'w input_handle option \<Rightarrow> nat \<Rightarrow> gesture \<Rightarrow> (bool \<times> keyevent list \<times> gesture \<times> 'w input_handle option) option" where
  "read_input_events E k handle n g =
     (let g = g\<lparr>new_action := False\<rparr> in
      case handle of
        None \<Rightarrow> Some (True, [], g, None)
      | Some s \<Rightarrow>
          if 0 < h_sw_keynumber s then
            let ((sec, usec), s) = io (h_time E) s in do {
              st \<leftarrow> report_switches n (ms sec usec) \<lparr>hnd = s, gest = g, evs = []\<rparr>;
              Some (True, evs st, gest st, Some (hnd st))
            }
          else do {
            (fin, st) \<leftarrow> read_rounds E n k \<lparr>hnd = s, gest = g, evs = []\<rparr>;
            Some (fin, evs st, gest st, Some (hnd st))
          })"

end
