(* ===== verification/Taps.thy ===== *)
theory Taps
  imports YodaPrelude
begin

text \<open>
  The contract of click recognition, shared by the two input event libraries: a reference pairing
  of taps, and the interface a recogniser promises.  Two consecutive taps that join are a double
  click; every other tap is a single click.
\<close>

fun pairing :: "('e \<Rightarrow> 'e \<Rightarrow> bool) \<Rightarrow> 'e list \<Rightarrow> ('e \<times> bool) list" where
  "pairing J [] = []"
| "pairing J [e] = [(e, False)]"
| "pairing J (e # f # es) = (if J e f then (e, True) # pairing J es else (e, False) # pairing J (f # es))"

fun run_taps :: "('e \<Rightarrow> 's \<Rightarrow> 's \<times> 'g list) \<Rightarrow> 'e list \<Rightarrow> 's \<Rightarrow> 's \<times> 'g list" where
  "run_taps tap [] s = (s, [])"
| "run_taps tap (e # es) s =
     (let (s, xs) = tap e s; (s, ys) = run_taps tap es s in (s, xs @ ys))"

locale tap_recogniser =
  fixes joins :: "'e \<Rightarrow> 'e \<Rightarrow> bool"
    and valid :: "'e \<Rightarrow> bool"
    and idle :: "'s \<Rightarrow> bool"
    and armed :: "'e \<Rightarrow> 's \<Rightarrow> bool"
    and tap :: "'e \<Rightarrow> 's \<Rightarrow> 's \<times> 'g list"
    and silence :: "'s \<Rightarrow> 's \<times> 'g list"
    and named :: "'e \<times> bool \<Rightarrow> 'g"
  assumes tap_idle: "valid e \<Longrightarrow> idle s \<Longrightarrow> armed e (fst (tap e s)) \<and> snd (tap e s) = []"
    and tap_joins: "valid f \<Longrightarrow> armed e s \<Longrightarrow> joins e f \<Longrightarrow>
      idle (fst (tap f s)) \<and> snd (tap f s) = [named (e, True)]"
    and tap_apart: "valid f \<Longrightarrow> armed e s \<Longrightarrow> \<not> joins e f \<Longrightarrow>
      armed f (fst (tap f s)) \<and> snd (tap f s) = [named (e, False)]"
    and silence_idle: "idle s \<Longrightarrow> idle (fst (silence s)) \<and> snd (silence s) = []"
    and silence_armed: "armed e s \<Longrightarrow> idle (fst (silence s)) \<and> snd (silence s) = [named (e, False)]"
begin

lemma run_armed:
  "armed e s \<Longrightarrow> list_all valid es \<Longrightarrow>
     snd (run_taps tap es s) @ snd (silence (fst (run_taps tap es s))) = map named (pairing joins (e # es))"
  and run_idle:
  "idle s \<Longrightarrow> list_all valid es \<Longrightarrow>
     snd (run_taps tap es s) @ snd (silence (fst (run_taps tap es s))) = map named (pairing joins es)"
proof (induction es arbitrary: e s)
  case Nil
  {
    case 1
    then show ?case using silence_armed by simp
  next
    case 2
    then show ?case using silence_idle by simp
  }
next
  case (Cons f es)
  {
    case 1
    then show ?case
      using Cons.IH(1)[of f "fst (tap f s)"] Cons.IH(2)[of "fst (tap f s)"] tap_joins[of f e s] tap_apart[of f e s]
      by (cases "joins e f") (simp_all add: split_beta)
  next
    case 2
    then show ?case
      using Cons.IH(1)[of f "fst (tap f s)"] tap_idle[of f s] by (simp add: split_beta)
  }
qed

lemma run_pairing:
  "idle s \<Longrightarrow> list_all valid es \<Longrightarrow>
     (let (s, xs) = run_taps tap es s in xs @ snd (silence s)) = map named (pairing joins es)"
  using run_idle by (simp add: split_beta)

end

end
