(* ===== verification/InputHotProps.thy ===== *)
theory InputHotProps
  imports InputHot Taps
begin

text \<open>
  Proofs about the hot-plug input library: the device list implements a list of descriptors and
  names, reading events is safe and bounded, and clicks are recognised as a reference pairing of
  taps says.
\<close>

section \<open>The device list\<close>

text \<open>\<open>dseg m q p as r z\<close>: from \<open>p\<close> the nodes \<open>as\<close> lead to \<open>z\<close>; the first points back to \<open>q\<close> and
  the last is \<open>r\<close>.\<close>

fun dseg :: "dev_heap \<Rightarrow> nat \<Rightarrow> nat \<Rightarrow> nat list \<Rightarrow> nat \<Rightarrow> nat \<Rightarrow> bool" where
  "dseg m q p [] r z = (p = z \<and> r = q)"
| "dseg m q p (a # as) r z =
     (p = a \<and> a \<noteq> 0 \<and> (\<exists>d. m a = Some d \<and> dev_pre d = q \<and> dseg m a (dev_next d) as r z))"

lemma dseg_append: "dseg m q p (xs @ ys) r z \<longleftrightarrow> (\<exists>r' z'. dseg m q p xs r' z' \<and> dseg m r' z' ys r z)"
  by (induction xs arbitrary: q p) auto

lemma dseg_cong: "(\<And>x. x \<in> set xs \<Longrightarrow> m' x = m x) \<Longrightarrow> dseg m' q p xs r z = dseg m q p xs r z"
  by (induction xs arbitrary: q p) auto

lemma dseg_upd [simp]: "a \<notin> set xs \<Longrightarrow> dseg (m(a := v)) q p xs r z = dseg m q p xs r z"
  by (rule dseg_cong) auto

lemma dseg_last: "dseg m q p xs r z \<Longrightarrow> r = (if xs = [] then q else last xs)"
  by (induction xs arbitrary: q p) auto

lemma dseg_mem: "dseg m q p xs r z \<Longrightarrow> x \<in> set xs \<Longrightarrow> x \<noteq> 0 \<and> m x \<noteq> None"
  by (induction xs arbitrary: q p) auto

lemma dseg_set_next:
  assumes "dseg m q p (xs @ [a]) a z" and "a \<notin> set xs" and "m a = Some d"
  shows "dseg (m(a \<mapsto> d\<lparr>dev_next := z'\<rparr>)) q p (xs @ [a]) a z'"
  using assms by (auto simp: dseg_append)

lemma dseg_set_pre:
  assumes "dseg m q p (b # ys) r z" and "b \<notin> set ys" and "m b = Some d"
  shows "dseg (m(b \<mapsto> d\<lparr>dev_pre := q'\<rparr>)) q' p (b # ys) r z"
  using assms by auto

lemma dev_tail_seg: "dseg m q p xs r 0 \<Longrightarrow> xs \<noteq> [] \<Longrightarrow> dev_tail m p = Some (last xs)"
proof (induction xs arbitrary: q p)
  case (Cons a as)
  then obtain d where d: "p = a" "m a = Some d" "dseg m a (dev_next d) as r 0" by auto
  show ?case
  proof (cases as)
    case Nil
    then show ?thesis using d by (subst dev_tail.simps) simp
  next
    case (Cons b bs)
    then have "dev_next d \<noteq> 0" "dev_tail m (dev_next d) = Some (last as)" using d(3) Cons.IH by auto
    then show ?thesis using d Cons by (subst dev_tail.simps) simp
  qed
qed simp

lemma dev_search_seg:
  "dseg m q p xs r 0 \<Longrightarrow>
     dev_search test m p = Some (case find (\<lambda>a. test (the (m a))) xs of None \<Rightarrow> 0 | Some a \<Rightarrow> a)"
proof (induction xs arbitrary: q p)
  case Nil
  then show ?case by (subst dev_search.simps) simp
next
  case (Cons a as)
  then obtain d where d: "p = a" "a \<noteq> 0" "m a = Some d" "dseg m a (dev_next d) as r 0" by auto
  then show ?case using Cons.IH[OF d(4)] by (subst dev_search.simps) simp
qed

definition dlist :: "'w input_handle \<Rightarrow> nat list \<Rightarrow> bool" where
  "dlist s as \<longleftrightarrow> distinct (DEV_HEAD # as) \<and> (\<exists>q r. dseg (dev_mem s) q DEV_HEAD (DEV_HEAD # as) r 0) \<and>
     (\<forall>a. dev_mem s a \<noteq> None \<longrightarrow> a < dev_brk s)"

definition dev_info :: "dev_heap \<Rightarrow> nat \<Rightarrow> int \<times> string" where
  "dev_info m a = (dev_fd (the (m a)), dev_name (the (m a)))"

text \<open>The abstraction: descriptors and paths in the order in which they were opened.\<close>

definition dev_abs :: "'w input_handle \<Rightarrow> (int \<times> string) list \<Rightarrow> bool" where
  "dev_abs s ds \<longleftrightarrow> (\<exists>as. dlist s as \<and> ds = map (dev_info (dev_mem s)) as)"

lemma add_to_dev_list_seg:
  assumes seg: "dseg m q h (xs @ [a]) r 0" and d: "distinct (xs @ [a, b])" and b: "m b = Some e" "b \<noteq> 0"
  shows "\<exists>m'. add_to_dev_list h b m = Some m' \<and> dseg m' q h (xs @ [a, b]) b 0 \<and>
    (\<forall>x. dev_info m' x = dev_info m x \<and> (m' x = None \<longleftrightarrow> m x = None))"
proof -
  have r: "r = a" using dseg_last[OF seg] by simp
  obtain d where da: "m a = Some d" using seg by (auto simp: dseg_append)
  have t: "dev_tail m h = Some a" using dev_tail_seg[OF seg] by simp
  define m1 where "m1 = m(a \<mapsto> d\<lparr>dev_next := b\<rparr>)"
  have s1: "dseg m1 q h (xs @ [a]) a b"
    unfolding m1_def using seg r d da by (intro dseg_set_next) auto
  have ab: "a \<noteq> b" "b \<notin> set (xs @ [a])" using d by auto
  have m: "add_to_dev_list h b m = Some (m1(b \<mapsto> e\<lparr>dev_pre := a, dev_next := 0\<rparr>))"
    using t da b ab by (simp add: add_to_dev_list_def m1_def)
  have "dseg (m1(b \<mapsto> e\<lparr>dev_pre := a, dev_next := 0\<rparr>)) q h ((xs @ [a]) @ [b]) b 0"
    unfolding dseg_append[of _ _ _ "xs @ [a]"] using s1 ab b by (intro exI[of _ a] exI[of _ b]) simp
  then show ?thesis using m da b ab by (auto simp: m1_def dev_info_def)
qed

lemma del_from_dev_list_seg:
  assumes seg: "dseg m q h (xs @ [a, b] @ ys) r 0" and d: "distinct (xs @ [a, b] @ ys)"
  shows "\<exists>m' r'. del_from_dev_list b m = Some m' \<and> dseg m' q h (xs @ [a] @ ys) r' 0 \<and> m' b = None \<and>
    (\<forall>x. x \<noteq> b \<longrightarrow> dev_info m' x = dev_info m x \<and> (m' x = None \<longleftrightarrow> m x = None))"
proof -
  obtain z where sa: "dseg m q h (xs @ [a]) a b" and sb: "dseg m a b [b] b z" and sy: "dseg m b z ys r 0"
    using seg by (auto simp: dseg_append)
  obtain da db where ma: "m a = Some da" and mb: "m b = Some db" "dev_pre db = a" "dev_next db = z" "b \<noteq> 0" "a \<noteq> 0"
    using sa sb by (auto simp: dseg_append)
  define m1 where "m1 = m(a \<mapsto> da\<lparr>dev_next := z\<rparr>)"
  have s1: "dseg m1 q h (xs @ [a]) a z"
    unfolding m1_def using sa d ma by (intro dseg_set_next) auto
  show ?thesis
  proof (cases ys)
    case Nil
    then have "z = 0" using sy by simp
    then have "del_from_dev_list b m = Some (m1(b := None))" using mb ma by (simp add: del_from_dev_list_def m1_def)
    moreover have "dseg (m1(b := None)) q h (xs @ [a] @ ys) a 0" using s1 d Nil \<open>z = 0\<close> by (subst dseg_upd) auto
    ultimately show ?thesis using ma by (auto simp: m1_def dev_info_def)
  next
    case (Cons c cs)
    then obtain dc where c: "z = c" "c \<noteq> 0" "m c = Some dc" using sy by auto
    have ne: "c \<noteq> a" "c \<noteq> b" "a \<noteq> b" "c \<notin> set cs" "a \<notin> set ys" "c \<notin> set xs" "b \<notin> set xs" "b \<notin> set ys" using d Cons by auto
    define m2 where "m2 = m1(c \<mapsto> dc\<lparr>dev_pre := a\<rparr>)"
    have c1: "m1 c = Some dc" using c ne by (simp add: m1_def)
    have "dseg m1 b z ys r 0" using sy ne by (simp add: m1_def)
    then have y2: "dseg m2 a z ys r 0" unfolding m2_def Cons using c1 ne by (intro dseg_set_pre) auto
    have "dseg m2 q h (xs @ [a]) a z" using s1 ne by (simp add: m2_def)
    then have "dseg m2 q h (xs @ [a] @ ys) r 0" using y2 dseg_append[of m2 q h "xs @ [a]" ys] by auto
    then have "dseg (m2(b := None)) q h (xs @ [a] @ ys) r 0" using ne by (subst dseg_upd) auto
    moreover have "del_from_dev_list b m = Some (m2(b := None))"
      using mb ma c c1 ne by (simp add: del_from_dev_list_def m1_def m2_def)
    ultimately show ?thesis using ma c1 c ne by (auto simp: m1_def m2_def dev_info_def)
  qed
qed

section \<open>Opening and closing refine list operations\<close>

fun drop_first :: "('a \<Rightarrow> bool) \<Rightarrow> 'a list \<Rightarrow> 'a list" where
  "drop_first P [] = []"
| "drop_first P (x # xs) = (if P x then xs else x # drop_first P xs)"

lemma drop_first_append: "\<forall>y \<in> set ys. \<not> P y \<Longrightarrow> P a \<Longrightarrow> drop_first P (ys @ a # zs) = ys @ zs"
  by (induction ys) auto

lemma drop_first_none: "\<forall>y \<in> set ys. \<not> P y \<Longrightarrow> drop_first P ys = ys"
  by (induction ys) auto

text \<open>The parts of the handle that opening and closing devices leave alone.\<close>

definition dev_frame :: "'w input_handle \<Rightarrow> 'w input_handle \<Rightarrow> bool" where
  "dev_frame s t \<longleftrightarrow> t = s\<lparr>h_world := h_world t, dev_mem := dev_mem t, dev_brk := dev_brk t\<rparr>"

lemma dev_frame_refl [simp]: "dev_frame s s"
  by (simp add: dev_frame_def)

lemma dev_frame_trans: "dev_frame s t \<Longrightarrow> dev_frame t u \<Longrightarrow> dev_frame s u"
  by (cases s; cases t; cases u) (simp add: dev_frame_def)

lemma dlist_head: "dlist s as \<Longrightarrow> \<exists>h. dev_mem s DEV_HEAD = Some h \<and> (\<exists>r. dseg (dev_mem s) DEV_HEAD (dev_next h) as r 0)"
  by (auto simp: dlist_def)

lemma dlist_brk: "dlist s as \<Longrightarrow> dev_mem s (dev_brk s) = None \<and> 1 < dev_brk s"
  using dlist_head[of s as] unfolding dlist_def DEV_HEAD_def by (metis less_irrefl option.distinct(1))

lemma dlist_frame: "dlist s as \<Longrightarrow> dev_mem t = dev_mem s \<Longrightarrow> dev_brk t = dev_brk s \<Longrightarrow> dlist t as"
  by (simp add: dlist_def)

lemma dlist_world [simp]: "dlist (s\<lparr>h_world := w, dev_mem := m\<rparr>) as = dlist (s\<lparr>dev_mem := m\<rparr>) as"
  by (simp add: dlist_def)

lemma dev_abs_frame: "dev_abs s ds \<Longrightarrow> dev_mem t = dev_mem s \<Longrightarrow> dev_brk t = dev_brk s \<Longrightarrow> dev_abs t ds"
  unfolding dev_abs_def using dlist_frame by metis

lemma dseg_info: "dlist s as \<Longrightarrow> x \<in> set as \<Longrightarrow> dev_mem s x \<noteq> None \<and> x \<noteq> 0"
  using dlist_head dseg_mem by metis

lemma openDeviceLocked_abs:
  assumes "dev_abs s ds"
  shows "succeeds (openDeviceLocked E path s) (\<lambda>(r, t). dev_frame s t \<and>
    dev_abs t (let fd = fst (h_open E path (h_world s)) in if fd < 0 then ds else ds @ [(fd, path)]))"
proof -
  obtain as where as: "dlist s as" "ds = map (dev_info (dev_mem s)) as" using assms by (auto simp: dev_abs_def)
  obtain fd w where o: "h_open E path (h_world s) = (fd, w)" by (cases "h_open E path (h_world s)")
  show ?thesis
  proof (cases "fd < 0")
    case True
    then show ?thesis using o assms by (auto simp: openDeviceLocked_def io_def dev_frame_def intro: dev_abs_frame)
  next
    case False
    define b where "b = dev_brk s"
    define n where "n = \<lparr>dev_fd = fd, dev_name = path, dev_pre = 0, dev_next = 0\<rparr>"
    define m where "m = (dev_mem s)(b \<mapsto> n)"
    have b: "dev_mem s b = None" "b \<noteq> 0" "b \<notin> set (DEV_HEAD # as)"
      using dlist_brk[OF as(1)] dlist_head[OF as(1)] dseg_info[OF as(1), of b] by (auto simp: b_def DEV_HEAD_def)
    obtain xs a where xa: "DEV_HEAD # as = xs @ [a]" by (metis append_butlast_last_id list.discI)
    obtain q r where seg: "dseg (dev_mem s) q DEV_HEAD (xs @ [a]) r 0" using as(1) xa by (auto simp: dlist_def)
    have seg': "dseg m q DEV_HEAD (xs @ [a]) r 0" using seg b xa unfolding m_def by (subst dseg_upd) auto
    have "distinct ((xs @ [a]) @ [b])" using as(1) b xa by (simp only: dlist_def distinct_append) simp
    then have dist: "distinct (xs @ [a, b])" by simp
    obtain m' where m': "add_to_dev_list DEV_HEAD b m = Some m'" "dseg m' q DEV_HEAD (xs @ [a, b]) b 0"
      "\<forall>x. dev_info m' x = dev_info m x \<and> (m' x = None \<longleftrightarrow> m x = None)"
      using add_to_dev_list_seg[OF seg' dist] b by (auto simp: m_def)
    have "(xs @ [a]) @ [b] = DEV_HEAD # (as @ [b])" by (simp only: xa[symmetric]) simp
    then have lst: "xs @ [a, b] = DEV_HEAD # (as @ [b])" by simp
    have "\<forall>x. m' x \<noteq> None \<longrightarrow> x < b + 1"
      using m'(3) as(1) by (auto simp: dlist_def m_def b_def less_Suc_eq)
    then have "dlist (s\<lparr>dev_mem := m', dev_brk := b + 1\<rparr>) (as @ [b])"
      using m'(2)[unfolded lst] dist[unfolded lst] unfolding dlist_def by auto
    moreover have "map (dev_info m') (as @ [b]) = ds @ [(fd, path)]"
      using m'(3) b by (auto simp: as(2) m_def n_def dev_info_def)
    ultimately have "dev_abs (s\<lparr>dev_mem := m', dev_brk := b + 1\<rparr>) (ds @ [(fd, path)])"
      unfolding dev_abs_def by (intro exI[of _ "as @ [b]"]) simp
    then show ?thesis
      using o False m'(1) by (auto simp: openDeviceLocked_def io_def Let_def m_def n_def b_def dev_frame_def split: prod.splits intro: dev_abs_frame)
  qed
qed

lemma closeDeviceLocked_dlist:
  assumes "dlist s (ys @ a # zs)"
  shows "succeeds (closeDeviceLocked E a s) (\<lambda>t. dev_frame s t \<and> dlist t (ys @ zs) \<and>
    (\<forall>x \<in> set (ys @ zs). dev_info (dev_mem t) x = dev_info (dev_mem s) x))"
proof -
  obtain q r where seg: "dseg (dev_mem s) q DEV_HEAD (DEV_HEAD # ys @ a # zs) r 0" and
    dist: "distinct (DEV_HEAD # ys @ a # zs)" and brk: "\<forall>x. dev_mem s x \<noteq> None \<longrightarrow> x < dev_brk s"
    using assms by (auto simp: dlist_def)
  obtain xs p where xp: "DEV_HEAD # ys = xs @ [p]" by (metis append_butlast_last_id list.discI)
  have l: "DEV_HEAD # ys @ a # zs = xs @ [p, a] @ zs"
    using arg_cong[OF xp, of "\<lambda>l. l @ a # zs"] by simp
  have l': "DEV_HEAD # ys @ zs = xs @ [p] @ zs"
    using arg_cong[OF xp, of "\<lambda>l. l @ zs"] by simp
  obtain m' r' where m': "del_from_dev_list a (dev_mem s) = Some m'" "dseg m' q DEV_HEAD (DEV_HEAD # ys @ zs) r' 0"
    "m' a = None" "\<forall>x. x \<noteq> a \<longrightarrow> dev_info m' x = dev_info (dev_mem s) x \<and> (m' x = None \<longleftrightarrow> dev_mem s x = None)"
    using del_from_dev_list_seg[of "dev_mem s" q DEV_HEAD xs p a zs r] seg dist unfolding l l' by blast
  have a: "a \<noteq> 0" "dev_mem s a \<noteq> None" using dseg_info[OF assms, of a] by auto
  have na: "\<forall>x \<in> set (ys @ zs). x \<noteq> a" using dist by auto
  have "dev_brk s = dev_brk (s\<lparr>dev_mem := m'\<rparr>)" by simp
  have "\<forall>x. m' x \<noteq> None \<longrightarrow> x < dev_brk s" using m'(3,4) brk by metis
  then have "dlist (s\<lparr>dev_mem := m'\<rparr>) (ys @ zs)" using m'(2) dist by (auto simp: dlist_def)
  then show ?thesis
    using a m' na by (auto simp: closeDeviceLocked_def io_def Let_def dev_frame_def split: prod.splits intro: dlist_frame)
qed

lemma find_first:
  assumes "find P xs = Some a"
  shows "\<exists>ys zs. xs = ys @ a # zs \<and> P a \<and> (\<forall>y \<in> set ys. \<not> P y)"
  using assms
proof (induction xs)
  case (Cons x xs)
  show ?case
  proof (cases "P x")
    case True
    then show ?thesis using Cons.prems by (intro exI[of _ "[]"] exI[of _ xs]) simp
  next
    case False
    with Cons obtain ys zs where "xs = ys @ a # zs \<and> P a \<and> (\<forall>y \<in> set ys. \<not> P y)" by auto
    then show ?thesis using False by (intro exI[of _ "x # ys"] exI[of _ zs]) simp
  qed
qed simp

text \<open>Searching the list and closing what was found, for a test on descriptor and name.\<close>

lemma search_and_close:
  assumes "dev_abs s ds"
  shows "\<exists>h a. dev_mem s DEV_HEAD = Some h \<and> dev_search (\<lambda>d. P (dev_fd d, dev_name d)) (dev_mem s) (dev_next h) = Some a \<and>
    (a = 0 \<longleftrightarrow> (\<forall>d \<in> set ds. \<not> P d)) \<and>
    (a \<noteq> 0 \<longrightarrow> dev_mem s a \<noteq> None \<and> P (dev_info (dev_mem s) a) \<and>
       succeeds (closeDeviceLocked E a s) (\<lambda>t. dev_frame s t \<and> dev_abs t (drop_first P ds)))"
proof -
  obtain as where as: "dlist s as" "ds = map (dev_info (dev_mem s)) as" using assms by (auto simp: dev_abs_def)
  obtain h r where h: "dev_mem s DEV_HEAD = Some h" "dseg (dev_mem s) DEV_HEAD (dev_next h) as r 0"
    using dlist_head[OF as(1)] by blast
  let ?Q = "\<lambda>a. P (dev_info (dev_mem s) a)"
  have sr: "dev_search (\<lambda>d. P (dev_fd d, dev_name d)) (dev_mem s) (dev_next h) =
    Some (case find ?Q as of None \<Rightarrow> 0 | Some a \<Rightarrow> a)"
    using dev_search_seg[OF h(2), of "\<lambda>d. P (dev_fd d, dev_name d)"] by (simp add: dev_info_def)
  show ?thesis
  proof (cases "find ?Q as")
    case None
    then have "\<forall>a \<in> set as. \<not> ?Q a" by (auto simp: find_None_iff)
    then show ?thesis using h sr[unfolded None] as(2) by simp
  next
    case (Some a)
    obtain ys zs where f: "as = ys @ a # zs" "?Q a" "\<forall>y \<in> set ys. \<not> ?Q y" using find_first[OF Some] by blast
    let ?f = "dev_info (dev_mem s)"
    have ds: "ds = map ?f ys @ ?f a # map ?f zs" unfolding as(2) f(1) by simp
    have df: "drop_first P ds = map ?f ys @ map ?f zs"
      unfolding ds using f(2,3) by (intro drop_first_append) simp_all
    have cl: "succeeds (closeDeviceLocked E a s) (\<lambda>t. dev_frame s t \<and> dev_abs t (drop_first P ds))"
    proof (rule succeeds_mono[OF closeDeviceLocked_dlist[OF as(1)[unfolded f(1)], of E]], goal_cases)
      case (1 t)
      then have "map (dev_info (dev_mem t)) (ys @ zs) = drop_first P ds" unfolding df by simp
      then show ?case using 1 unfolding dev_abs_def by metis
    qed
    have "a \<noteq> 0" "dev_mem s a \<noteq> None" using dseg_info[OF as(1), of a] f(1) by simp_all
    moreover have "\<exists>d \<in> set ds. P d" using f(2) by (simp add: ds)
    ultimately show ?thesis using h(1) sr[unfolded Some] f(2) cl by auto
  qed
qed

lemma closeDeviceLockedbyPath_abs:
  assumes "dev_abs s ds"
  shows "succeeds (closeDeviceLockedbyPath E path s) (\<lambda>(r, t). dev_frame s t \<and>
    dev_abs t (drop_first (\<lambda>d. snd d = path) ds) \<and> (r = 0 \<longleftrightarrow> path \<in> snd ` set ds))"
proof -
  obtain h a where a: "dev_mem s DEV_HEAD = Some h"
    "dev_search (\<lambda>d. dev_name d = path) (dev_mem s) (dev_next h) = Some a"
    "a = 0 \<longleftrightarrow> (\<forall>d \<in> set ds. snd d \<noteq> path)"
    "a \<noteq> 0 \<longrightarrow> succeeds (closeDeviceLocked E a s) (\<lambda>t. dev_frame s t \<and> dev_abs t (drop_first (\<lambda>d. snd d = path) ds))"
    using search_and_close[OF assms, of "\<lambda>d. snd d = path" E] by auto
  show ?thesis
  proof (cases "a = 0")
    case True
    then have "drop_first (\<lambda>d. snd d = path) ds = ds" using a(3) by (intro drop_first_none) auto
    then show ?thesis using True a assms by (auto simp: closeDeviceLockedbyPath_def getDeviceByPathLocked_def)
  next
    case False
    then have "path \<in> snd ` set ds" using a(3) by auto
    then show ?thesis using False a by (auto simp: closeDeviceLockedbyPath_def getDeviceByPathLocked_def succeeds_iff)
  qed
qed

text \<open>What holds of the device list in every state: it represents some list of devices.\<close>

definition dev_ok :: "'w input_handle \<Rightarrow> bool" where
  "dev_ok s \<longleftrightarrow> (\<exists>ds. dev_abs s ds)"

definition dev_step :: "'w input_handle \<Rightarrow> 'w input_handle \<Rightarrow> bool" where
  "dev_step s t \<longleftrightarrow> dev_frame s t \<and> dev_ok t"

lemma dev_stepD: "dev_step s t \<Longrightarrow> dev_ok t"
  by (simp add: dev_step_def)

lemma dev_step_trans: "dev_step s t \<Longrightarrow> dev_step t u \<Longrightarrow> dev_step s u"
  using dev_frame_trans by (auto simp: dev_step_def)

lemma dev_step_refl: "dev_ok s \<Longrightarrow> dev_step s s"
  by (simp add: dev_step_def)

lemma dev_ok_world [simp]: "dev_ok (s\<lparr>h_world := w\<rparr>) = dev_ok s"
  by (simp add: dev_ok_def dev_abs_def dlist_def)

lemma dev_step_world: "dev_ok s \<Longrightarrow> dev_step s (s\<lparr>h_world := w\<rparr>)"
  by (simp add: dev_step_def dev_frame_def)

lemma dev_step_seq:
  assumes "succeeds m (\<lambda>(r, t). dev_step s t)" and "\<And>t. dev_ok t \<Longrightarrow> succeeds (f t) (dev_step t)"
  shows "succeeds (Option.bind m (\<lambda>(r, t). f t)) (dev_step s)"
  by (rule succeeds_bindI[OF assms(1)])
    (auto intro!: succeeds_mono[OF assms(2)] intro: dev_step_trans dev_stepD)

lemma open_ok: "dev_ok s \<Longrightarrow> succeeds (openDeviceLocked E path s) (\<lambda>(r, t). dev_step s t)"
  by (auto simp: dev_ok_def dev_step_def intro: succeeds_mono[OF openDeviceLocked_abs])

lemma close_path_ok: "dev_ok s \<Longrightarrow> succeeds (closeDeviceLockedbyPath E path s) (\<lambda>(r, t). dev_step s t)"
  by (auto simp: dev_ok_def dev_step_def intro: succeeds_mono[OF closeDeviceLockedbyPath_abs])

lemma scan_entries_ok: "dev_ok s \<Longrightarrow> succeeds (scan_entries E dir ns s) (dev_step s)"
proof (induction ns arbitrary: s)
  case (Cons n ns)
  then show ?case
    using dev_step_seq[OF open_ok[OF Cons.prems], of "scan_entries E dir ns"] by simp
qed (simp add: dev_step_refl)

lemma notify_events_ok: "dev_ok s \<Longrightarrow> succeeds (notify_events E es s) (dev_step s)"
proof (induction es arbitrary: s)
  case (Cons e es)
  then show ?case
    using dev_step_seq[OF open_ok[OF Cons.prems], of "notify_events E es"]
      dev_step_seq[OF close_path_ok[OF Cons.prems], of "notify_events E es"] by (simp add: Let_def)
qed (simp add: dev_step_refl)

lemma readNotifyLocked_ok: "dev_ok s \<Longrightarrow> succeeds (readNotifyLocked E s) (\<lambda>(r, t). dev_step s t)"
proof -
  assume s: "dev_ok s"
  obtain es w where r: "h_inotify_read E (mINotifyFd s) (h_world s) = (es, w)"
    by (cases "h_inotify_read E (mINotifyFd s) (h_world s)")
  have "succeeds (notify_events E es (s\<lparr>h_world := w\<rparr>)) (dev_step s)"
    using notify_events_ok[of "s\<lparr>h_world := w\<rparr>" E es] dev_step_world[OF s, of w] s
    by (auto elim!: succeeds_mono intro: dev_step_trans)
  then show ?thesis
    using dev_step_world[OF s, of w] by (auto simp: readNotifyLocked_def io_def r wp)
qed

section \<open>Reading events\<close>

text \<open>The kernel returns at most as many events as were asked for.\<close>

definition read_bounded :: "'w hot_env \<Rightarrow> bool" where
  "read_bounded E \<longleftrightarrow> (\<forall>fd c w ievs. fst (h_read E fd c w) = Rd_events ievs \<longrightarrow> length ievs \<le> c)"

text \<open>The state between two accesses: the device list is well formed, the switch tables hold the
  entries that are still to be reported, and the buffer is not overrun.\<close>

definition hot_ok :: "'w input_handle \<Rightarrow> bool" where
  "hot_ok s \<longleftrightarrow> dev_ok s \<and> length (h_sw_keyvalue s) = length (h_sw_keycode s) \<and>
     h_sw_keynumber s \<le> length (h_sw_keycode s)"

definition read_ok :: "nat \<Rightarrow> 'w reading \<Rightarrow> bool" where
  "read_ok n st \<longleftrightarrow> hot_ok (hnd st) \<and> length (evs st) \<le> n"

lemma hot_ok_step: "dev_step s t \<Longrightarrow> hot_ok s \<Longrightarrow> hot_ok t"
  by (cases s; cases t) (simp add: dev_step_def dev_frame_def hot_ok_def)

lemma hot_ok_upd [simp]:
  "hot_ok (s\<lparr>h_world := w\<rparr>) = hot_ok s" "hot_ok (s\<lparr>gesture_key := c\<rparr>) = hot_ok s"
  "hot_ok (s\<lparr>mPendingEventIndex := i\<rparr>) = hot_ok s" "hot_ok (s\<lparr>mPendingINotify := b\<rparr>) = hot_ok s"
  "hot_ok (s\<lparr>mPendingEventItems := its\<rparr>) = hot_ok s" "hot_ok (s\<lparr>mPendingEventCount := j\<rparr>) = hot_ok s"
  by (simp_all add: hot_ok_def dev_ok_def dev_abs_def dlist_def)

lemma read_ok_hnd [simp]: "read_ok n (st\<lparr>hnd := s\<rparr>) \<longleftrightarrow> hot_ok s \<and> length (evs st) \<le> n"
  by (simp add: read_ok_def)

lemma key_event_ok [simp]: "read_ok n (key_event e st) = read_ok n st" "evs (key_event e st) = evs st"
  by (simp_all add: key_event_def Let_def read_ok_def split: prod.splits)

lemma collect_ok:
  "read_ok n st \<Longrightarrow> length (evs st) + length ievs \<le> n \<Longrightarrow> succeeds (collect n ievs st) (read_ok n)"
proof (induction ievs arbitrary: st)
  case (Cons i ievs)
  have p: "read_ok n (st\<lparr>evs := evs st @ [e]\<rparr>)" for e using Cons.prems by (simp add: read_ok_def)
  show ?case
    using Cons.prems Cons.IH[of "st\<lparr>evs := evs st @ [e]\<rparr>" for e] Cons.IH[of "key_event e (st\<lparr>evs := evs st @ [e]\<rparr>)" for e]
      Cons.IH[of st] p
    by (auto simp: put_event_def Let_def)
qed simp

lemma getDeviceByFd_ok:
  assumes "dev_ok s"
  shows "\<exists>a. getDeviceByFd (dev_mem s) fd = Some a \<and>
    (a \<noteq> 0 \<longrightarrow> dev_mem s a \<noteq> None \<and> succeeds (closeDeviceLocked E a s) (dev_step s))"
proof -
  obtain ds where "dev_abs s ds" using assms by (auto simp: dev_ok_def)
  from search_and_close[OF this, of "\<lambda>d. fst d = fd" E] show ?thesis
    by (auto simp: getDeviceByFd_def dev_step_def dev_ok_def succeeds_iff)
qed

lemma closeDeviceLocked_world:
  "dev_ok s \<Longrightarrow> getDeviceByFd (dev_mem s) fd = Some a \<Longrightarrow> a \<noteq> 0 \<Longrightarrow>
     succeeds (closeDeviceLocked E a (s\<lparr>h_world := w\<rparr>)) (dev_step (s\<lparr>h_world := w\<rparr>))"
  using getDeviceByFd_ok[of "s\<lparr>h_world := w\<rparr>" fd E] by simp

lemma close_dev_ok:
  assumes "read_ok n st" and "getDeviceByFd (dev_mem (hnd st)) fd = Some a" and "a \<noteq> 0"
  shows "succeeds (close_dev E a st) (read_ok n)"
proof -
  have ok: "hot_ok (hnd st)" "dev_ok (hnd st)" "length (evs st) \<le> n" using assms(1) by (simp_all add: read_ok_def hot_ok_def)
  then have "succeeds (closeDeviceLocked E a (hnd st)) (dev_step (hnd st))"
    using getDeviceByFd_ok[of "hnd st" fd E] assms(2,3) by simp
  then show ?thesis using ok hot_ok_step by (auto simp: close_dev_def succeeds_iff)
qed

lemma pending_loop_ok:
  assumes E: "read_bounded E"
  shows "read_ok n st \<Longrightarrow> succeeds (pending_loop E n its ch st) (\<lambda>(ch, st). read_ok n st)"
proof (induction its arbitrary: ch st)
  case (Cons it its)
  let ?s = "(hnd st)\<lparr>mPendingEventIndex := mPendingEventIndex (hnd st) + 1\<rparr>"
  let ?st = "st\<lparr>hnd := ?s\<rparr>"
  have ok: "read_ok n ?st" "hot_ok ?s" "dev_ok ?s" "length (evs st) \<le> n"
    using Cons.prems hot_ok_upd(3) unfolding read_ok_def by (auto simp: hot_ok_def)
  obtain a where a: "getDeviceByFd (dev_mem ?s) (ep_fd it) = Some a" "a \<noteq> 0 \<Longrightarrow> dev_mem ?s a \<noteq> None"
    using getDeviceByFd_ok[OF ok(3), of "ep_fd it"] by auto
  have next_round: "read_ok n st' \<Longrightarrow> succeeds (pending_loop E n its ch' st') (\<lambda>(ch, st). read_ok n st)" for st' ch'
    by (rule Cons.IH)
  have closing: "read_ok n st' \<Longrightarrow> dev_mem (hnd st') = dev_mem ?s \<Longrightarrow> a \<noteq> 0 \<Longrightarrow>
      succeeds (Option.bind (close_dev E a st') (pending_loop E n its True)) (\<lambda>(ch, st). read_ok n st)" for st'
    using close_dev_ok[of n st' "ep_fd it" a E] a(1) next_round by (auto intro: succeeds_bindI)
  show ?case
  proof (cases "ep_fd it = mINotifyFd ?s \<or> a = 0 \<or> \<not> has_flag (ep_events it) EPOLLIN")
    case True
    then show ?thesis using ok a closing[OF ok(1)] next_round by (auto simp: Let_def)
  next
    case False
    then obtain d where d: "dev_mem ?s a = Some d" using a(2) by auto
    obtain r w where r: "h_read E (dev_fd d) (n - length (evs st)) (h_world ?s) = (r, w)"
      by (cases "h_read E (dev_fd d) (n - length (evs st)) (h_world ?s)")
    have rd: "r = Rd_events ievs \<Longrightarrow> length (evs st) + length ievs \<le> n" for ievs
      using E r ok(4) unfolding read_bounded_def by (metis fst_conv le_add_diff_inverse nat_add_left_cancel_le)
    let ?t = "st\<lparr>hnd := ?s\<lparr>h_world := w\<rparr>\<rparr>"
    have t: "read_ok n ?t" using ok by simp
    have full: "read_ok n u \<Longrightarrow> succeeds (if length (evs u) = n
          then Some (ch, u\<lparr>hnd := (hnd u)\<lparr>mPendingEventIndex := mPendingEventIndex (hnd u) - 1\<rparr>\<rparr>)
          else pending_loop E n its ch u) (\<lambda>(ch, st). read_ok n st)" for u
      using next_round[of u ch] by (simp add: read_ok_def)
    have coll: "r = Rd_events ievs \<Longrightarrow> succeeds (Option.bind (collect n ievs ?t) (\<lambda>u. if length (evs u) = n
          then Some (ch, u\<lparr>hnd := (hnd u)\<lparr>mPendingEventIndex := mPendingEventIndex (hnd u) - 1\<rparr>\<rparr>)
          else pending_loop E n its ch u)) (\<lambda>(ch, st). read_ok n st)" for ievs
      using full rd by (intro succeeds_bindI[OF collect_ok[OF t]]) auto
    show ?thesis
      using False a(1) d r coll closing[OF t] next_round[OF t, of ch]
      by (auto simp: Let_def io_def split: read_res.split)
  qed
qed simp

lemma notify_round_ok: "read_ok n st \<Longrightarrow> succeeds (notify_round E ch st) (\<lambda>(ch, st). read_ok n st)"
proof -
  assume st: "read_ok n st"
  let ?s = "(hnd st)\<lparr>mPendingINotify := False\<rparr>"
  have s: "hot_ok ?s" "dev_ok ?s" "length (evs st) \<le> n" using st hot_ok_upd(4) by (auto simp: read_ok_def hot_ok_def)
  have "succeeds (readNotifyLocked E ?s) (\<lambda>(r, t). hot_ok t)"
    using readNotifyLocked_ok[OF s(2), of E] hot_ok_step[OF _ s(1)] by (auto simp: succeeds_iff)
  then show ?thesis using st s by (auto simp: notify_round_def Let_def succeeds_iff)
qed

lemma wait_round_ok: "read_ok n st \<Longrightarrow> read_ok n (snd (wait_round E st))"
  by (auto simp: wait_round_def io_def Let_def read_ok_def split: prod.split poll_res.split list.split)

lemma read_round_ok:
  assumes "read_bounded E" and "read_ok n st"
  shows "succeeds (read_round E n st) (\<lambda>(fin, st). read_ok n st)"
proof -
  have tail: "read_ok n st' \<Longrightarrow> succeeds (Option.bind (notify_round E ch st') (\<lambda>(ch, st). if ch then Some (False, st)
      else if evs st \<noteq> [] then Some (True, st) else Some (wait_round E st))) (\<lambda>(fin, st). read_ok n st)" for ch st'
    using wait_round_ok by (intro succeeds_bindI[OF notify_round_ok]) (auto simp: split_beta)
  show ?thesis
    unfolding read_round_def using tail by (intro succeeds_bindI[OF pending_loop_ok[OF assms]]) auto
qed

lemma read_rounds_ok:
  "read_bounded E \<Longrightarrow> read_ok n st \<Longrightarrow> succeeds (read_rounds E n k st) (\<lambda>(fin, st). read_ok n st)"
proof (induction k arbitrary: st)
  case (Suc k)
  then show ?case by (auto intro!: succeeds_bindI[OF read_round_ok[OF Suc.prems]])
qed simp

lemma report_switches_ok:
  "read_ok n st \<Longrightarrow> cap + length (evs st) \<le> n \<Longrightarrow> succeeds (report_switches cap t st) (read_ok n)"
proof (induction cap arbitrary: st)
  case (Suc cap)
  let ?s = "hnd st"
  define u where "u = st\<lparr>hnd := ?s\<lparr>h_sw_keynumber := h_sw_keynumber ?s - 1\<rparr>,
    evs := evs st @ [\<lparr>k_type = EV_SW, k_code = h_sw_keycode ?s ! (h_sw_keynumber ?s - 1),
      k_value = h_sw_keyvalue ?s ! (h_sw_keynumber ?s - 1), k_time = t\<rparr>]\<rparr>"
  have "read_ok n u" "cap + length (evs u) \<le> n"
    using Suc.prems by (auto simp: u_def read_ok_def hot_ok_def dev_ok_def dev_abs_def dlist_def)
  from Suc.IH[OF this] Suc.prems show ?case
    by (auto simp: u_def Let_def read_ok_def hot_ok_def)
qed simp

lemma read_input_events_ok:
  assumes "read_bounded E" and "hot_ok s"
  shows "succeeds (read_input_events E k (Some s) n g) (\<lambda>(fin, es, g', h). length es \<le> n \<and> (\<exists>t. h = Some t \<and> hot_ok t))"
proof -
  have st: "read_ok n \<lparr>hnd = s', gest = g\<lparr>new_action := False\<rparr>, evs = []\<rparr>" if "hot_ok s'" for s' :: "'a input_handle"
    using that by (simp add: read_ok_def)
  show ?thesis
  proof (cases "0 < h_sw_keynumber s")
    case True
    obtain sec usec w where t: "h_time E (h_world s) = ((sec, usec), w)" by (metis surj_pair)
    have "read_ok n \<lparr>hnd = s\<lparr>h_world := w\<rparr>, gest = g\<lparr>new_action := False\<rparr>, evs = []\<rparr>" using st assms(2) by simp
    from report_switches_ok[OF this, of n "ms sec usec"] True t show ?thesis
      by (auto simp: read_input_events_def io_def succeeds_bind read_ok_def elim!: succeeds_mono)
  next
    case False
    with read_rounds_ok[OF assms(1) st[OF assms(2)], of k] show ?thesis
      by (auto simp: read_input_events_def succeeds_bind read_ok_def elim!: succeeds_mono)
  qed
qed

section \<open>The life of a handle\<close>

lemma new_handle_ok: "hot_ok (new_handle slide dct st w)"
proof -
  have "dlist (new_handle slide dct st w) []" by (auto simp: dlist_def new_handle_def DEV_HEAD_def split: if_splits)
  then show ?thesis by (auto simp: hot_ok_def dev_ok_def dev_abs_def new_handle_def MAX_SW_KEY_def)
qed

lemma scanDirLocked_ok: "dev_ok s \<Longrightarrow> succeeds (scanDirLocked E dir s) (\<lambda>(r, t). dev_step s t)"
proof -
  assume s: "dev_ok s"
  obtain r w where r: "h_readdir E dir (h_world s) = (r, w)" by (cases "h_readdir E dir (h_world s)")
  have "succeeds (scan_entries E dir ns (s\<lparr>h_world := w\<rparr>)) (dev_step s)" for ns
    using scan_entries_ok[of "s\<lparr>h_world := w\<rparr>" E dir ns] dev_step_world[OF s, of w] s
    by (auto elim!: succeeds_mono intro: dev_step_trans)
  then show ?thesis using dev_step_world[OF s, of w]
    by (auto simp: scanDirLocked_def io_def r succeeds_bind split: option.split)
qed

text \<open>Opening the library keeps the well-formedness; it needs a release string with two numbers
  when the first one is 3.\<close>

definition release_ok :: "'w hot_env \<Rightarrow> bool" where
  "release_ok E \<longleftrightarrow> (\<forall>w u v. fst (h_uname E w) = Some u \<longrightarrow> scan_release u = Some (3, v) \<longrightarrow> v \<noteq> None)"

lemma getLinuxRelease_ok:
  "release_ok E \<Longrightarrow> \<exists>v b w. getLinuxRelease E s = (v, s\<lparr>h_world := w\<rparr>) \<and> epoll_wakeup v = Some b"
proof -
  assume E: "release_ok E"
  obtain u w where u: "h_uname E (h_world s) = (u, w)" by (cases "h_uname E (h_world s)")
  define v where "v = (case Option.bind u scan_release of None \<Rightarrow> (0, Some 0) | Some v \<Rightarrow> v)"
  have "snd v \<noteq> None \<or> fst v \<noteq> 3"
    using E[unfolded release_ok_def, rule_format, of "h_world s" "the u" "snd v"] u
    by (cases u; cases "scan_release (the u)") (auto simp: v_def)
  then have "\<exists>b. epoll_wakeup v = Some b" by (auto simp: epoll_wakeup_def)
  moreover have "getLinuxRelease E s = (v, s\<lparr>h_world := w\<rparr>)" by (simp add: getLinuxRelease_def io_def u v_def)
  ultimately show ?thesis by blast
qed

lemma hot_ok_fds [simp]:
  "hot_ok (s\<lparr>mEpollFd := a\<rparr>) = hot_ok s" "hot_ok (s\<lparr>mINotifyFd := a\<rparr>) = hot_ok s"
  "hot_ok (s\<lparr>wd := a\<rparr>) = hot_ok s" "hot_ok (s\<lparr>mUsingEpollWakeup := u\<rparr>) = hot_ok s"
  by (simp_all add: hot_ok_def dev_ok_def dev_abs_def dlist_def)

lemma scan_hot_ok: "hot_ok s \<Longrightarrow> succeeds (scanDirLocked E dir s) (\<lambda>(r, t). hot_ok t)"
proof -
  assume s: "hot_ok s"
  then have "dev_ok s" by (simp add: hot_ok_def)
  from succeeds_mono[OF scanDirLocked_ok[OF this]] show ?thesis using hot_ok_step[OF _ s] by auto
qed

lemma input_event_open_ok:
  assumes E: "release_ok E" and s: "hot_ok s"
  shows "succeeds (input_event_open E s) (\<lambda>(r, t). hot_ok t)"
proof -
  have "succeeds (case getLinuxRelease E t of (v, s) \<Rightarrow> Option.bind (epoll_wakeup v)
      (\<lambda>b. scanDirLocked E DEVICE_PATH (s\<lparr>mUsingEpollWakeup := b\<rparr>))) (\<lambda>(r, t). hot_ok t)" if "hot_ok t" for t
  proof -
    obtain v b w where "getLinuxRelease E t = (v, t\<lparr>h_world := w\<rparr>)" "epoll_wakeup v = Some b"
      using getLinuxRelease_ok[OF E] by blast
    then show ?thesis using scan_hot_ok[of "t\<lparr>h_world := w, mUsingEpollWakeup := b\<rparr>" E DEVICE_PATH] that by simp
  qed
  note tail = this
  obtain fd1 w1 fd2 w2 d w3 r w4 where "h_epoll_create E (h_world s) = (fd1, w1)" "h_inotify_init E w1 = (fd2, w2)"
    "h_inotify_add E fd2 DEVICE_PATH w2 = (d, w3)" "h_epoll_add E fd1 fd2 EPOLLIN w3 = (r, w4)"
    by (metis surj_pair)
  then show ?thesis
    using s tail[of "s\<lparr>mEpollFd := fd1, mINotifyFd := fd2, wd := d, h_world := w4\<rparr>"]
    by (simp add: input_event_open_def io_def Let_def)
qed

text \<open>Closing everything ends: the list is taken apart node by node.\<close>

lemma close_devices_ok:
  "dlist s as \<Longrightarrow> dev_mem s DEV_HEAD = Some h \<Longrightarrow> succeeds (close_devices E (dev_next h) s) (\<lambda>t. dev_abs t [])"
proof (induction as arbitrary: s h)
  case Nil
  then show ?case by (subst close_devices.simps) (auto simp: dlist_def dev_abs_def)
next
  case (Cons a as)
  obtain d where d: "dev_next h = a" "a \<noteq> 0" "dev_mem s a = Some d"
    using dlist_head[OF Cons.prems(1)] Cons.prems(2) by auto
  obtain t where t: "closeDeviceLocked E a s = Some t" "dlist t as"
    using closeDeviceLocked_dlist[of s "[]" a as E] Cons.prems(1) by (auto simp: succeeds_iff)
  obtain h' where h': "dev_mem t DEV_HEAD = Some h'" using dlist_head[OF t(2)] by auto
  obtain q r where "dseg (dev_mem s) q DEV_HEAD (DEV_HEAD # a # as) r 0" using Cons.prems(1) by (auto simp: dlist_def)
  then have "dev_next d = (case as of [] \<Rightarrow> 0 | b # _ \<Rightarrow> b)" using d by (auto split: list.split)
  moreover have "dev_next h' = (case as of [] \<Rightarrow> 0 | b # _ \<Rightarrow> b)"
    using dlist_head[OF t(2)] h' by (auto split: list.split)
  ultimately show ?case
    using Cons.IH[OF t(2) h'] d t(1) by (subst close_devices.simps) simp
qed

lemma input_event_destroy_ok: "dev_ok s \<Longrightarrow> \<exists>w. input_event_destroy E s = Some w"
proof -
  assume "dev_ok s"
  then obtain as where as: "dlist s as" by (auto simp: dev_ok_def dev_abs_def)
  obtain h where h: "dev_mem s DEV_HEAD = Some h" using dlist_head[OF as] by auto
  show ?thesis using close_devices_ok[OF as h, of E] h
    by (auto simp: input_event_destroy_def closeAllDeviceLocked_def succeeds_iff Let_def)
qed

text \<open>The switch configuration can be read: it does not hit the undefined cases of the loop.\<close>

definition switches_readable :: "'w hot_env \<Rightarrow> bool" where
  "switches_readable E \<longleftrightarrow> (\<forall>t. sw_fits t \<longrightarrow> parse_switch_config (h_gpio E) t \<noteq> None)"

lemma load_switches_ok:
  assumes "switches_readable E" and "hot_ok s"
  shows "succeeds (load_switches E s) hot_ok"
proof -
  let ?t = "\<lparr>sw_world = h_world s, sw_line = None, sw_keycode = h_sw_keycode s, sw_keyvalue = h_sw_keyvalue s, sw_keynumber = 0\<rparr>"
  have f: "sw_fits ?t" using assms(2) by (simp add: sw_fits_def hot_ok_def)
  then obtain t where t: "parse_switch_config (h_gpio E) ?t = Some t"
    using assms(1) unfolding switches_readable_def by blast
  then have "sw_fits t" using sw_parse_fits[OF f] by (auto simp: returns_iff parse_switch_config_def sw_same_size_def)
  then show ?thesis
    using t assms(2) by (auto simp: load_switches_def hot_ok_def sw_fits_def dev_ok_def dev_abs_def dlist_def)
qed

lemma input_event_create_ok:
  assumes "release_ok E" and "switches_readable E"
  shows "succeeds (input_event_create E alloc_ok slide dct st w) (case_sum (\<lambda>w. True) hot_ok)"
proof -
  have d: "hot_ok s \<Longrightarrow> succeeds (map_option Inl (input_event_destroy E s)) (case_sum (\<lambda>w. True) hot_ok)" for s
    using input_event_destroy_ok[of s E] by (auto simp: hot_ok_def)
  have l: "hot_ok s \<Longrightarrow> succeeds (map_option Inr (load_switches E s)) (case_sum (\<lambda>w. True) hot_ok)" for s
    using load_switches_ok[OF assms(2), of s] by (auto simp: succeeds_iff)
  show ?thesis
    using d l by (auto simp: input_event_create_def intro!: succeeds_bindI[OF input_event_open_ok[OF assms(1) new_handle_ok]])
qed

text \<open>The states of a handle: created, then read from any number of times.\<close>

inductive hot_run :: "'w hot_env \<Rightarrow> 'w input_handle \<Rightarrow> bool" for E where
  created: "input_event_create E alloc_ok slide dct st w = Some (Inr s) \<Longrightarrow> hot_run E s"
| read: "hot_run E s \<Longrightarrow> read_input_events E k (Some s) n g = Some (fin, es, g', Some t) \<Longrightarrow> hot_run E t"

lemma hot_run_ok:
  assumes "release_ok E" and "switches_readable E" and "read_bounded E" and "hot_run E s"
  shows "hot_ok s"
  using assms(4)
proof induction
  case (created alloc_ok slide dct st w s)
  then show ?case using input_event_create_ok[OF assms(1,2), of alloc_ok slide dct st w] by simp
next
  case (read s k n g fin es g' t)
  then show ?case using read_input_events_ok[OF assms(3), of s k n g] by (auto simp: succeeds_iff)
qed


text \<open>A laboratory kernel: two devices that always have a key event, no other files.\<close>

definition lab_iev :: input_ev where
  "lab_iev = \<lparr>iev_sec = 1, iev_usec = 0, iev_type = EV_KEY, iev_code = 113, iev_value = 1\<rparr>"

definition hot_lab :: "unit hot_env" where
  "hot_lab = \<lparr>h_gpio = \<lparr>gp_file = None, gp_open = \<lambda>p w. (-1, w), gp_read = \<lambda>fd w. (None, w)\<rparr>,
     h_open = \<lambda>p w. (if p = ''/dev/input/a'' then 5 else 6, w), h_close = \<lambda>fd w. w,
     h_read = \<lambda>fd c w. (Rd_events (replicate c lab_iev), w), h_epoll_create = \<lambda>w. (3, w),
     h_epoll_add = \<lambda>e fd ev w. (0, w), h_epoll_del = \<lambda>e fd w. (0, w), h_epoll_wait = \<lambda>e t w. (Ep_events [], w),
     h_inotify_init = \<lambda>w. (4, w), h_inotify_add = \<lambda>fd p w. (1, w), h_inotify_rm = \<lambda>fd d w. w,
     h_inotify_read = \<lambda>fd w. ([], w), h_readdir = \<lambda>p w. (Some [''.'', ''..''], w), h_uname = \<lambda>w. (Some ''4.9'', w),
     h_time = \<lambda>w. ((1, 0), w)\<rparr>"

definition lab_handle :: "unit input_handle" where
  "lab_handle = (new_handle False 400 300 ())\<lparr>mEpollFd := 3, mINotifyFd := 4, wd := 1, mUsingEpollWakeup := True\<rparr>"

lemma lab_release: "scan_release ''4.9'' = Some (4, Some 9)"
  by code_simp

lemma lab_created: "input_event_create hot_lab True False 400 300 () = Some (Inr lab_handle)"
  by (simp add: input_event_create_def input_event_open_def io_def hot_lab_def getLinuxRelease_def lab_release
      epoll_wakeup_def scanDirLocked_def load_switches_def parse_switch_config_def sw_parse_def lab_handle_def new_handle_def)

lemma lab_laws: "release_ok hot_lab" "switches_readable hot_lab" "read_bounded hot_lab"
  by (auto simp: release_ok_def switches_readable_def read_bounded_def hot_lab_def lab_release
      parse_switch_config_def sw_parse_def)

definition blank :: gesture where
  "blank = \<lparr>new_action = False, action = 0, g_type = 0, g_key_code = 0, slide_value = 0, long_press_time = 0\<rparr>"


section \<open>Clicks\<close>

text \<open>A tap of a key: pressed at one time and released at another.  What \<open>click_event\<close> reports for
  one event when the caller has cleared \<open>new_action\<close>.\<close>

type_synonym key_tap = "int \<times> 64 word \<times> 64 word"

definition clicks :: "int \<Rightarrow> keyevent option \<Rightarrow> click_gesture \<Rightarrow> click_gesture \<times> (int \<times> int) list" where
  "clicks timeout ev c =
     (let (c, g) = click_event timeout ev c blank
      in (c, if new_action g then [(action g, g_key_code g)] else []))"

definition key_at :: "int \<Rightarrow> int \<Rightarrow> 64 word \<Rightarrow> keyevent" where
  "key_at code v t = \<lparr>k_type = EV_KEY, k_code = code, k_value = v, k_time = t\<rparr>"

definition tap_key :: "int \<Rightarrow> key_tap \<Rightarrow> click_gesture \<Rightarrow> click_gesture \<times> (int \<times> int) list" where
  "tap_key timeout e c =
     (case e of (code, t, u) \<Rightarrow>
        let (c, xs) = clicks timeout (Some (key_at code 1 t)) c;
            (c, ys) = clicks timeout (Some (key_at code 0 u)) c
        in (c, xs @ ys))"

definition same_key_soon :: "int \<Rightarrow> key_tap \<Rightarrow> key_tap \<Rightarrow> bool" where
  "same_key_soon timeout e f \<longleftrightarrow> fst e = fst f \<and> fst (snd f) - fst (snd e) \<le> word_of_int timeout"

definition short_tap :: "int \<Rightarrow> key_tap \<Rightarrow> bool" where
  "short_tap timeout e \<longleftrightarrow> snd (snd e) - fst (snd e) \<le> word_of_int timeout"

definition click_name :: "key_tap \<times> bool \<Rightarrow> int \<times> int" where
  "click_name r = (if snd r then ACTION_DOUBLE_CLICK else ACTION_SINGLE_CLICK, fst (fst r))"

lemmas click_defs = clicks_def tap_key_def click_event_def click_press_def click_release_def report_def
  blank_def key_at_def later_than_def same_key_soon_def short_tap_def click_name_def
  ACTION_SINGLE_CLICK_def ACTION_DOUBLE_CLICK_def

interpretation hot_taps: tap_recogniser "same_key_soon timeout" "short_tap timeout" "\<lambda>c. \<not> cg_use c"
  "\<lambda>e c. cg_use c \<and> cg_key_value c = 0 \<and> cg_key_code c = fst e \<and> cg_downtime c = fst (snd e)"
  "tap_key timeout" "clicks timeout None" click_name for timeout :: int
proof (unfold_locales, goal_cases)
  case (1 e s)
  then show ?case by (cases e) (auto simp: click_defs not_less)
next
  case (2 f e s)
  then show ?case by (cases e; cases f) (auto simp: click_defs not_less)
next
  case (3 f e s)
  then show ?case by (cases e; cases f) (auto simp: click_defs not_less not_le)
next
  case (4 s)
  then show ?case by (auto simp: click_defs)
next
  case (5 e s)
  then show ?case by (cases e) (auto simp: click_defs)
qed

text \<open>C36. Taps that are released in time are reported as the reference pairing says: two taps of a key
  within the time limit are a double click, every other tap a single click.\<close>

theorem taps_equiv:
  assumes "\<not> cg_use c" and "list_all (short_tap timeout) es"
  shows "(let (c, xs) = run_taps (tap_key timeout) es c; (c, ys) = clicks timeout None c in xs @ ys) =
    map click_name (pairing (same_key_soon timeout) es)"
  using hot_taps.run_pairing[of c timeout es] assms by (simp add: split_beta list_all_iff)

theorem taps_equiv_witness:
  "(let c = \<lparr>cg_use = False, cg_key_code = 0, cg_key_value = 0, cg_downtime = 0\<rparr>;
        es = [(113, 1000, 1100), (113, 1300, 1350), (114, 2000, 2090), (113, 2200, 2300)] in
    (let (c, xs) = run_taps (tap_key 400) es c; (c, ys) = clicks 400 None c in xs @ ys) = [(2, 113), (1, 114), (1, 113)])"
  using taps_equiv[of "\<lparr>cg_use = False, cg_key_code = 0, cg_key_value = 0, cg_downtime = 0\<rparr>" 400
    "[(113, 1000, 1100), (113, 1300, 1350), (114, 2000, 2090), (113, 2200, 2300)]"]
  by (simp add: short_tap_def same_key_soon_def click_name_def ACTION_SINGLE_CLICK_def ACTION_DOUBLE_CLICK_def)

section \<open>Hot plugging\<close>

text \<open>The reference: a created node is appended, a deleted one removed.  \<open>fdof\<close> is the descriptor
  that opening a path gives.\<close>

fun hotplug :: "(string \<Rightarrow> int) \<Rightarrow> inotify_ev list \<Rightarrow> (int \<times> string) list \<Rightarrow> (int \<times> string) list" where
  "hotplug fdof [] ds = ds"
| "hotplug fdof (e # es) ds =
     (let p = DEVICE_PATH @ CHR ''/'' # in_name e in
      hotplug fdof es
        (if in_name e = [] then ds
         else if has_flag (in_mask e) IN_CREATE then (if fdof p < 0 then ds else ds @ [(fdof p, p)])
         else drop_first (\<lambda>d. snd d = p) ds))"


definition notify :: "32 word \<Rightarrow> string \<Rightarrow> inotify_ev" where
  "notify m n = \<lparr>in_mask = m, in_name = n\<rparr>"

lemma lab_flags: "has_flag IN_CREATE IN_CREATE" "\<not> has_flag 0x200 IN_CREATE"
  by (simp_all add: has_flag_def IN_CREATE_def)

lemma lab_handle_abs: "dev_abs lab_handle []"
  by (auto simp: dev_abs_def dlist_def lab_handle_def new_handle_def DEV_HEAD_def split: if_splits)


section \<open>A full buffer\<close>

lemma find_by_fd:
  assumes "dev_abs s ds" and "fd \<in> fst ` set ds"
  shows "\<exists>a. getDeviceByFd (dev_mem s) fd = Some a \<and> a \<noteq> 0 \<and> (\<exists>d. dev_mem s a = Some d \<and> dev_fd d = fd) \<and>
    succeeds (closeDeviceLocked E a s) (\<lambda>t. dev_frame s t \<and> dev_abs t (drop_first (\<lambda>d. fst d = fd) ds))"
  using search_and_close[OF assms(1), of "\<lambda>d. fst d = fd" E] assms(2)
  by (auto simp: getDeviceByFd_def dev_info_def)

lemma dev_abs_upd [simp]:
  "dev_abs (s\<lparr>h_world := w\<rparr>) ds = dev_abs s ds" "dev_abs (s\<lparr>gesture_key := c\<rparr>) ds = dev_abs s ds"
  "dev_abs (s\<lparr>mPendingEventIndex := i\<rparr>) ds = dev_abs s ds"
  by (simp_all add: dev_abs_def dlist_def)

definition keys_only :: "input_ev list \<Rightarrow> bool" where
  "keys_only ievs \<longleftrightarrow> (\<forall>i \<in> set ievs. iev_type i = EV_KEY)"

lemma collect_keys:
  assumes "keys_only ievs" and "length (evs st) + length ievs \<le> n"
  shows "\<exists>st' c. collect n ievs st = Some st' \<and> length (evs st') = length (evs st) + length ievs \<and>
    hnd st' = (hnd st)\<lparr>gesture_key := c\<rparr>"
  using assms
proof (induction ievs arbitrary: st)
  case Nil
  then show ?case by (auto intro!: exI[of _ "gesture_key (hnd st)"])
next
  case (Cons i ievs)
  let ?e = "\<lparr>k_type = iev_type i, k_code = iev_code i, k_value = iev_value i, k_time = ms (iev_sec i) (iev_usec i)\<rparr>"
  let ?u = "key_event ?e (st\<lparr>evs := evs st @ [?e]\<rparr>)"
  have "\<exists>c. hnd ?u = (hnd st)\<lparr>gesture_key := c\<rparr>" by (auto simp: key_event_def Let_def split: prod.split)
  moreover have "keys_only ievs" "length (evs ?u) + length ievs \<le> n" using Cons.prems by (auto simp: keys_only_def)
  from Cons.IH[OF this] have "\<exists>st' c. collect n ievs ?u = Some st' \<and> length (evs st') = length (evs ?u) + length ievs \<and>
    hnd st' = (hnd ?u)\<lparr>gesture_key := c\<rparr>" .
  ultimately show ?case using Cons.prems by (auto simp: Let_def put_event_def keys_only_def EV_KEY_def EV_SW_def)
qed

definition poll_frame :: "'w input_handle \<Rightarrow> 'w input_handle \<Rightarrow> bool" where
  "poll_frame s t \<longleftrightarrow> mINotifyFd t = mINotifyFd s \<and> mPendingEventItems t = mPendingEventItems s \<and>
     mPendingEventCount t = mPendingEventCount s \<and> mPendingINotify t = mPendingINotify s"

lemma dev_frame_poll: "dev_frame s t \<Longrightarrow> poll_frame s t \<and> mPendingEventIndex t = mPendingEventIndex s"
  by (cases s; cases t) (simp add: dev_frame_def poll_frame_def)

text \<open>A device that hangs up, or whose read gives nothing, is closed.\<close>

lemma pending_closes:
  assumes ds: "dev_abs (hnd st) ds" "ep_fd it \<in> fst ` set ds" and nn: "ep_fd it \<noteq> mINotifyFd (hnd st)"
    and ev: "\<not> has_flag (ep_events it) EPOLLIN \<and> has_flag (ep_events it) EPOLLHUP \<or>
      has_flag (ep_events it) EPOLLIN \<and> (\<forall>w. fst (h_read E (ep_fd it) (n - length (evs st)) w) = Rd_events [])"
  shows "\<exists>st'. pending_loop E n (it # its) ch st = pending_loop E n its True st' \<and> evs st' = evs st \<and>
    dev_abs (hnd st') (drop_first (\<lambda>d. fst d = ep_fd it) ds) \<and> poll_frame (hnd st) (hnd st') \<and>
    mPendingEventIndex (hnd st') = mPendingEventIndex (hnd st) + 1"
proof -
  let ?s = "(hnd st)\<lparr>mPendingEventIndex := mPendingEventIndex (hnd st) + 1\<rparr>"
  let ?w = "if has_flag (ep_events it) EPOLLIN then snd (h_read E (ep_fd it) (n - length (evs st)) (h_world (hnd st)))
    else h_world (hnd st)"
  have "dev_abs (?s\<lparr>h_world := ?w\<rparr>) ds" using ds(1) by (simp only: dev_abs_upd)
  from find_by_fd[OF this ds(2), of E] obtain a d t where
    a: "getDeviceByFd (dev_mem (hnd st)) (ep_fd it) = Some a" "a \<noteq> 0" "dev_mem (hnd st) a = Some d" "dev_fd d = ep_fd it"
    and t: "closeDeviceLocked E a (?s\<lparr>h_world := ?w\<rparr>) = Some t" "dev_frame (?s\<lparr>h_world := ?w\<rparr>) t"
      "dev_abs t (drop_first (\<lambda>d. fst d = ep_fd it) ds)"
    by (auto simp: succeeds_iff)
  have "pending_loop E n (it # its) ch st = pending_loop E n its True (st\<lparr>hnd := t\<rparr>)"
  proof (cases "has_flag (ep_events it) EPOLLIN")
    case True
    then obtain w where "h_read E (ep_fd it) (n - length (evs st)) (h_world (hnd st)) = (Rd_events [], w)"
      using ev by (metis prod.collapse)
    then show ?thesis using True a nn t(1) by (simp add: Let_def io_def close_dev_def)
  next
    case False
    then show ?thesis using ev a nn t(1) by (simp add: Let_def close_dev_def)
  qed
  moreover have "poll_frame (hnd st) t \<and> mPendingEventIndex t = mPendingEventIndex (hnd st) + 1"
    using dev_frame_poll[OF t(2)] by (simp add: poll_frame_def)
  ultimately show ?thesis using t(3) by (intro exI[of _ "st\<lparr>hnd := t\<rparr>"]) simp
qed

text \<open>A read that fills the buffer leaves the loop with the event still pending.\<close>

lemma pending_fills:
  assumes ds: "dev_abs (hnd st) ds" "ep_fd it \<in> fst ` set ds" and nn: "ep_fd it \<noteq> mINotifyFd (hnd st)"
    and ev: "has_flag (ep_events it) EPOLLIN" and rd: "\<And>w. fst (h_read E (ep_fd it) (n - length (evs st)) w) = Rd_events ievs"
    and ie: "ievs \<noteq> []" "keys_only ievs" "length (evs st) + length ievs = n"
  shows "\<exists>st'. pending_loop E n (it # its) ch st = Some (ch, st') \<and> length (evs st') = n \<and>
    dev_abs (hnd st') ds \<and> poll_frame (hnd st) (hnd st') \<and> mPendingEventIndex (hnd st') = mPendingEventIndex (hnd st)"
proof -
  obtain a d where a: "getDeviceByFd (dev_mem (hnd st)) (ep_fd it) = Some a" "a \<noteq> 0" "dev_mem (hnd st) a = Some d" "dev_fd d = ep_fd it"
    using find_by_fd[OF ds] by blast
  obtain w where w: "h_read E (ep_fd it) (n - length (evs st)) (h_world (hnd st)) = (Rd_events ievs, w)"
    using rd[of "h_world (hnd st)"] by (metis prod.collapse)
  let ?st = "st\<lparr>hnd := (hnd st)\<lparr>mPendingEventIndex := mPendingEventIndex (hnd st) + 1, h_world := w\<rparr>\<rparr>"
  obtain u c where u: "collect n ievs ?st = Some u" "length (evs u) = n" "hnd u = (hnd ?st)\<lparr>gesture_key := c\<rparr>"
    using collect_keys[OF ie(2), of ?st n] ie(3) by auto
  have "pending_loop E n (it # its) ch st =
    Some (ch, u\<lparr>hnd := (hnd u)\<lparr>mPendingEventIndex := mPendingEventIndex (hnd u) - 1\<rparr>\<rparr>)"
    using ev a nn w u(1,2) ie(1) by (simp add: Let_def io_def)
  then show ?thesis using u(2,3) ds(1) by (simp add: poll_frame_def)
qed

text \<open>The two rounds: the changed list of devices makes the loop read the full device again, now
  for no event at all, and the empty read is taken for a removed device.\<close>

theorem full_buffer_closes_device:
  assumes s: "dev_abs s [(fd1, p1), (fd2, p2)]" "pending s = [hup, inp]" "\<not> mPendingINotify s"
      "mPendingEventIndex s = 0" "mPendingEventCount s = 2"
    and e: "ep_fd hup = fd1" "ep_fd inp = fd2" "fd1 \<noteq> fd2" "mINotifyFd s \<noteq> fd1" "mINotifyFd s \<noteq> fd2"
      "\<not> has_flag (ep_events hup) EPOLLIN" "has_flag (ep_events hup) EPOLLHUP" "has_flag (ep_events inp) EPOLLIN"
    and rd: "\<And>w. fst (h_read E fd2 n w) = Rd_events ievs" "\<And>w. fst (h_read E fd2 0 w) = Rd_events []"
    and ie: "keys_only ievs" "length ievs = n" "0 < n"
  shows "succeeds (read_rounds E n 2 \<lparr>hnd = s, gest = g, evs = []\<rparr>)
    (\<lambda>(fin, st). \<not> fin \<and> length (evs st) = n \<and> dev_abs (hnd st) [])"
proof -
  let ?st = "\<lparr>hnd = s, gest = g, evs = []\<rparr>"
  obtain st1 where st1: "pending_loop E n [hup, inp] False ?st = pending_loop E n [inp] True st1" "evs st1 = []"
    "dev_abs (hnd st1) [(fd2, p2)]" "poll_frame s (hnd st1)" "mPendingEventIndex (hnd st1) = 1"
    using pending_closes[of ?st "[(fd1, p1), (fd2, p2)]" hup E n "[inp]" False] s e by auto
  obtain st2 where st2: "pending_loop E n [inp] True st1 = Some (True, st2)" "length (evs st2) = n"
    "dev_abs (hnd st2) [(fd2, p2)]" "poll_frame s (hnd st2)" "mPendingEventIndex (hnd st2) = 1"
    using pending_fills[of st1 "[(fd2, p2)]" inp E n ievs "[]" True] st1 s e rd(1) ie
    by (auto simp: poll_frame_def)
  have fr: "\<not> mPendingINotify (hnd st2)" "mINotifyFd (hnd st2) = mINotifyFd s" "pending (hnd st2) = [inp]"
  proof -
    have "take 2 (mPendingEventItems s) = [hup, inp]" using s(2,4,5) by (simp add: pending_def)
    then show "pending (hnd st2) = [inp]" using st2(4,5) s(5) by (simp add: pending_def poll_frame_def)
  qed (use st2(4) s(3) in \<open>simp_all add: poll_frame_def\<close>)
  have r1: "read_round E n ?st = Some (False, st2)"
    using s(2) st1(1) st2(1) fr(1) by (simp add: read_round_def notify_round_def Let_def)
  obtain st3 where st3: "pending_loop E n [inp] False st2 = Some (True, st3)" "evs st3 = evs st2"
    "dev_abs (hnd st3) []" "poll_frame (hnd st2) (hnd st3)"
    using pending_closes[of st2 "[(fd2, p2)]" inp E n "[]" False] st2 e rd(2) fr by auto
  have "read_round E n st2 = Some (False, st3)"
    using st3 fr by (simp add: read_round_def notify_round_def Let_def poll_frame_def)
  then show ?thesis using r1 st3 st2(2) by (simp add: numeral_2_eq_2)
qed

definition lab_two :: "unit input_handle" where
  "lab_two = lab_handle\<lparr>
     dev_mem := [1 \<mapsto> \<lparr>dev_fd = 0, dev_name = [], dev_pre = 0, dev_next = 2\<rparr>,
       2 \<mapsto> \<lparr>dev_fd = 5, dev_name = ''a'', dev_pre = 1, dev_next = 3\<rparr>,
       3 \<mapsto> \<lparr>dev_fd = 6, dev_name = ''b'', dev_pre = 2, dev_next = 0\<rparr>], dev_brk := 4,
     mPendingEventItems := [\<lparr>ep_events = EPOLLHUP, ep_fd = 5\<rparr>, \<lparr>ep_events = EPOLLIN, ep_fd = 6\<rparr>], mPendingEventCount := 2\<rparr>"

lemma lab_two_abs: "dev_abs lab_two [(5, ''a''), (6, ''b'')]"
  unfolding dev_abs_def
  by (intro exI[of _ "[2, 3]"]) (auto simp: dlist_def lab_two_def dev_info_def DEV_HEAD_def split: if_splits)

lemma lab_epoll: "\<not> has_flag EPOLLHUP EPOLLIN" "has_flag EPOLLHUP EPOLLHUP" "has_flag EPOLLIN EPOLLIN"
  by (simp_all add: has_flag_def EPOLLHUP_def EPOLLIN_def)

theorem full_buffer_closes_device_witness:
  "succeeds (read_rounds hot_lab 4 2 \<lparr>hnd = lab_two, gest = blank, evs = []\<rparr>)
    (\<lambda>(fin, st). \<not> fin \<and> length (evs st) = 4 \<and> dev_abs (hnd st) [])"
  by (rule full_buffer_closes_device[OF lab_two_abs, where ievs = "replicate 4 lab_iev"
        and hup = "\<lparr>ep_events = EPOLLHUP, ep_fd = 5\<rparr>" and inp = "\<lparr>ep_events = EPOLLIN, ep_fd = 6\<rparr>"])
    (simp_all add: lab_two_def lab_handle_def new_handle_def pending_def lab_epoll hot_lab_def keys_only_def lab_iev_def)

end
