(* ===== verification/CSort.thy ===== *)
theory CSort
  imports YodaPrelude "HOL-Library.Multiset"
begin

text \<open>
  \<open>qsort\<close> and \<open>bsearch\<close> of the C library for a comparison function with an \<open>int\<close> result.
  The sort inserts elements one after the other; it is stable, as the merge sort of glibc.  The
  binary search halves the interval of indices as glibc does.  The locale \<open>c_order\<close> is what a
  comparison function has to promise on the elements of a table, and its lemmas are what a
  table owes to the two functions.
\<close>

fun insort_by :: "('a \<Rightarrow> 'a \<Rightarrow> int) \<Rightarrow> 'a \<Rightarrow> 'a list \<Rightarrow> 'a list" where
  "insort_by cmp x [] = [x]"
| "insort_by cmp x (y # ys) = (if cmp x y \<le> 0 then x # y # ys else y # insort_by cmp x ys)"

definition qsort :: "('a \<Rightarrow> 'a \<Rightarrow> int) \<Rightarrow> 'a list \<Rightarrow> 'a list" where
  "qsort cmp xs = foldr (insort_by cmp) xs []"

text \<open>The search in \<open>xs[l..<u]\<close> for an element that compares as equal to the key.\<close>

function bsearch_from :: "('k \<Rightarrow> 'a \<Rightarrow> int) \<Rightarrow> 'k \<Rightarrow> 'a list \<Rightarrow> nat \<Rightarrow> nat \<Rightarrow> 'a option" where
  "bsearch_from cmp k xs l u =
     (if l < u then
        let i = (l + u) div 2; c = cmp k (xs ! i) in
        if c < 0 then bsearch_from cmp k xs l i
        else if c > 0 then bsearch_from cmp k xs (i + 1) u
        else Some (xs ! i)
      else None)"
  by pat_completeness auto
termination by (relation "measure (\<lambda>(cmp, k, xs, l, u). u - l)") auto

declare bsearch_from.simps [simp del]

definition bsearch :: "('k \<Rightarrow> 'a \<Rightarrow> int) \<Rightarrow> 'k \<Rightarrow> 'a list \<Rightarrow> 'a option" where
  "bsearch cmp k xs = bsearch_from cmp k xs 0 (length xs)"

lemma mset_insort_by [simp]: "mset (insort_by cmp x xs) = add_mset x (mset xs)"
  by (induction xs) auto

lemma mset_qsort [simp]: "mset (qsort cmp xs) = mset xs"
  by (induction xs) (auto simp: qsort_def)

lemma set_qsort [simp]: "set (qsort cmp xs) = set xs"
  by (metis mset_qsort set_mset_mset)

lemma bsearch_from_sound:
  "bsearch_from cmp k xs l u = Some x \<Longrightarrow> u \<le> length xs \<Longrightarrow> x \<in> set xs \<and> cmp k x = 0"
proof (induction cmp k xs l u rule: bsearch_from.induct)
  case (1 cmp k xs l u)
  let ?i = "(l + u) div 2"
  show ?case
  proof (cases "l < u")
    case True
    then have i: "?i < u" "xs ! ?i \<in> set xs" using "1.prems"(2) by (auto intro!: nth_mem)
    consider "cmp k (xs ! ?i) < 0" | "cmp k (xs ! ?i) > 0" | "cmp k (xs ! ?i) = 0" by linarith
    then show ?thesis
      using "1.prems" "1.IH"(1)[OF True refl refl] "1.IH"(2)[OF True refl refl] i True
      by cases (simp_all add: bsearch_from.simps[of cmp k xs l u] Let_def)
  qed (use "1.prems" in \<open>simp add: bsearch_from.simps\<close>)
qed

lemma bsearch_sound: "bsearch cmp k xs = Some x \<Longrightarrow> x \<in> set xs \<and> cmp k x = 0"
  using bsearch_from_sound[of cmp k xs 0 "length xs" x] unfolding bsearch_def by simp

section \<open>What a comparison function promises\<close>

locale c_order =
  fixes cmp :: "'a \<Rightarrow> 'a \<Rightarrow> int" and dom_ok :: "'a \<Rightarrow> bool"
  assumes cmp_swap: "dom_ok x \<Longrightarrow> dom_ok y \<Longrightarrow> cmp x y < 0 \<longleftrightarrow> 0 < cmp y x"
    and cmp_trans: "dom_ok x \<Longrightarrow> dom_ok y \<Longrightarrow> dom_ok z \<Longrightarrow> cmp x y \<le> 0 \<Longrightarrow> cmp y z \<le> 0 \<Longrightarrow> cmp x z \<le> 0"
begin

lemma insort_sorted:
  "sorted_wrt (\<lambda>x y. cmp x y \<le> 0) xs \<Longrightarrow> list_all dom_ok (x # xs) \<Longrightarrow>
     sorted_wrt (\<lambda>x y. cmp x y \<le> 0) (insort_by cmp x xs)"
proof (induction xs)
  case (Cons y ys)
  have set_ins: "set (insort_by cmp x ys) = insert x (set ys)"
    by (metis mset_insort_by set_mset_add_mset_insert set_mset_mset)
  show ?case
  proof (cases "cmp x y \<le> 0")
    case True
    have "cmp x z \<le> 0" if "z \<in> set ys" for z
      using cmp_trans[of x y z] True Cons.prems that by (auto simp: list_all_iff)
    then show ?thesis using Cons.prems True by simp
  next
    case False
    then have "cmp y x \<le> 0" using cmp_swap[of y x] Cons.prems by force
    then show ?thesis using Cons False by (auto simp: set_ins)
  qed
qed simp

lemma qsort_sorted: "list_all dom_ok xs \<Longrightarrow> sorted_wrt (\<lambda>x y. cmp x y \<le> 0) (qsort cmp xs)"
proof (induction xs)
  case (Cons x xs)
  have "list_all dom_ok (qsort cmp xs)" using Cons.prems by (simp add: list_all_iff)
  then show ?case using Cons insort_sorted[of "qsort cmp xs" x] by (simp add: qsort_def)
qed (simp add: qsort_def)

lemma bsearch_from_complete:
  assumes "list_all dom_ok (k # xs)" and "sorted_wrt (\<lambda>x y. cmp x y \<le> 0) xs"
  shows "u \<le> length xs \<Longrightarrow> l \<le> j \<Longrightarrow> j < u \<Longrightarrow> cmp k (xs ! j) = 0 \<Longrightarrow> bsearch_from cmp k xs l u \<noteq> None"
proof (induction "u - l" arbitrary: l u rule: less_induct)
  case less
  let ?i = "(l + u) div 2"
  have i: "l \<le> ?i" "?i < u" "l < u" "?i < length xs" using less.prems by auto
  have dk: "dom_ok k" and d: "\<And>x. x \<in> set xs \<Longrightarrow> dom_ok x" using assms(1) by (auto simp: list_all_iff)
  have dj: "dom_ok (xs ! j)" and di: "dom_ok (xs ! ?i)" using d less.prems i by (auto intro: nth_mem)
  have ord: "a < b \<Longrightarrow> b < length xs \<Longrightarrow> cmp (xs ! a) (xs ! b) \<le> 0" for a b
    using sorted_wrt_nth_less[OF assms(2), of a b] by simp
  have kj: "cmp k (xs ! j) \<le> 0" "cmp (xs ! j) k \<le> 0"
    using less.prems(4) cmp_swap[OF dk dj] cmp_swap[OF dj dk] by force+
  consider (lt) "cmp k (xs ! ?i) < 0" | (gt) "cmp k (xs ! ?i) > 0" | (eq) "cmp k (xs ! ?i) = 0" by linarith
  then show ?case
  proof cases
    case lt
    have "j < ?i"
    proof (rule ccontr)
      assume "\<not> j < ?i"
      then have "?i = j \<or> ?i < j" by linarith
      then have "cmp (xs ! ?i) (xs ! j) \<le> 0"
        using ord[of ?i j] less.prems lt by auto
      then have "cmp (xs ! ?i) k \<le> 0" using cmp_trans[OF di dj dk] kj by blast
      then show False using cmp_swap[OF dk di] lt by linarith
    qed
    then show ?thesis
      using less.hyps[of ?i l] less.prems i lt by (subst bsearch_from.simps) (simp add: Let_def)
  next
    case gt
    have "?i < j"
    proof (rule ccontr)
      assume "\<not> ?i < j"
      then have "?i = j \<or> j < ?i" by linarith
      then have "cmp (xs ! j) (xs ! ?i) \<le> 0" using ord[of j ?i] i less.prems gt by auto
      then have "cmp k (xs ! ?i) \<le> 0" using cmp_trans[OF dk dj di] kj by blast
      then show False using gt by linarith
    qed
    then show ?thesis
      using less.hyps[of u "?i + 1"] less.prems i gt by (subst bsearch_from.simps) (simp add: Let_def)
  next
    case eq
    then show ?thesis using i by (subst bsearch_from.simps) (simp add: Let_def)
  qed
qed

text \<open>A search in a sorted table finds an element exactly when there is one.\<close>

lemma bsearch_iff:
  assumes "list_all dom_ok (k # xs)"
  shows "bsearch cmp k (qsort cmp xs) \<noteq> None \<longleftrightarrow> (\<exists>x \<in> set xs. cmp k x = 0)"
proof
  show "\<exists>x \<in> set xs. cmp k x = 0" if "bsearch cmp k (qsort cmp xs) \<noteq> None"
    using that bsearch_sound[of cmp k "qsort cmp xs"] by auto
next
  assume "\<exists>x \<in> set xs. cmp k x = 0"
  then obtain j where j: "j < length (qsort cmp xs)" "cmp k (qsort cmp xs ! j) = 0"
    by (metis in_set_conv_nth set_qsort)
  have "list_all dom_ok (k # qsort cmp xs)" using assms by (simp add: list_all_iff)
  then show "bsearch cmp k (qsort cmp xs) \<noteq> None"
    using bsearch_from_complete[of k "qsort cmp xs" "length (qsort cmp xs)" 0 j] qsort_sorted[of xs] assms j
    by (simp add: bsearch_def)
qed

end

end
