(* ===== verification/InputConfig.thy ===== *)
theory InputConfig
  imports CSort GpioConfig
begin

text \<open>
  The configuration and the event tables of the input event daemon
  (\<open>framework/libs/inputevent/src/input-event.c\<close>): reading \<open>/etc/input-event.conf\<close>, the tables
  of key, idle and switch events, and the functions that find the command of an event.

  A NULL string is \<open>None\<close>.  The table of key names (\<open>input-event-table.h\<close>) is a parameter.  The
  arrays of modifiers are sorted with \<open>strcmp\<close> on the addresses of their elements, that is by
  the bytes of pointers; the order this gives is the parameter \<open>psort\<close>.
\<close>

section \<open>Strings\<close>

fun strcmp :: "string \<Rightarrow> string \<Rightarrow> int" where
  "strcmp [] [] = 0"
| "strcmp [] (y # ys) = - of_char y"
| "strcmp (x # xs) [] = of_char x"
| "strcmp (x # xs) (y # ys) = (if x = y then strcmp xs ys else of_char x - of_char y)"

definition tolower :: "char \<Rightarrow> char" where
  "tolower c = (let n = of_char c :: nat in if 65 \<le> n \<and> n \<le> 90 then char_of (n + 32) else c)"

definition strcaseeq :: "string \<Rightarrow> string \<Rightarrow> bool" where
  "strcaseeq a b \<longleftrightarrow> map tolower a = map tolower b"

definition config_trim_string :: "string \<Rightarrow> string" where
  "config_trim_string s = rev (dropWhile is_space (rev (dropWhile is_space s)))"

text \<open>\<open>strsep\<close> at the first separator: the text before it, and the text behind it or NULL.\<close>

definition strsep :: "char \<Rightarrow> string \<Rightarrow> string \<times> string option" where
  "strsep d s = (takeWhile (\<lambda>c. c \<noteq> d) s, map_option tl (strchr s d))"

section \<open>Tables\<close>

record key_event_t =
  ke_code :: string
  modifiers :: "string list"
  ke_exec :: string

record idle_event_t =
  ie_timeout :: "64 word"
  ie_exec :: string

record switch_event_t =
  se_code :: string
  se_value :: int
  se_exec :: string

record event_tables =
  key_events :: "key_event_t list"
  idle_events :: "idle_event_t list"
  switch_events :: "switch_event_t list"
  min_timeout :: "64 word"
  listen :: "string list"

definition MAX_MODIFIERS :: nat where "MAX_MODIFIERS = 4"
definition MAX_LISTENER :: nat where "MAX_LISTENER = 32"
definition MAX_EVENTS :: nat where "MAX_EVENTS = 64"
definition IDLE_RESET :: "64 word" where "IDLE_RESET = 0"
definition KEY_MAX :: nat where "KEY_MAX = 0x2ff"
definition SW_MAX :: nat where "SW_MAX = 0x0f"

section \<open>Comparison\<close>

fun modifiers_compare :: "string list \<Rightarrow> string list \<Rightarrow> int" where
  "modifiers_compare (a # as) (b # bs) = (if strcmp a b \<noteq> 0 then strcmp a b else modifiers_compare as bs)"
| "modifiers_compare _ _ = 0"

definition key_event_compare :: "key_event_t \<Rightarrow> key_event_t \<Rightarrow> int" where
  "key_event_compare a b =
     (let r = strcmp (ke_code a) (ke_code b) in
      if r \<noteq> 0 then r
      else if length (modifiers a) \<noteq> length (modifiers b) then int (length (modifiers a)) - int (length (modifiers b))
      else modifiers_compare (modifiers a) (modifiers b))"

text \<open>The difference of two \<open>unsigned long\<close> is returned as an \<open>int\<close>.\<close>

definition idle_event_compare :: "idle_event_t \<Rightarrow> idle_event_t \<Rightarrow> int" where
  "idle_event_compare a b = signed_take_bit 31 (uint (ie_timeout a - ie_timeout b))"

definition switch_event_compare :: "switch_event_t \<Rightarrow> switch_event_t \<Rightarrow> int" where
  "switch_event_compare a b =
     (let r = strcmp (se_code a) (se_code b) in
      if r \<noteq> 0 then r else signed_take_bit 31 (se_value a - se_value b))"

section \<open>Finding the command of an event\<close>

definition key_event_name :: "(nat \<Rightarrow> string option) \<Rightarrow> nat \<Rightarrow> string" where
  "key_event_name KEY_NAME code =
     (case if code < KEY_MAX then KEY_NAME code else None of Some n \<Rightarrow> n | None \<Rightarrow> ''UNKNOWN'')"

definition key_event_modifier_name :: "string \<Rightarrow> string" where
  "key_event_modifier_name code =
     (if code = ''LEFTCTRL'' \<or> code = ''RIGHTCTRL'' then ''CTRL''
      else if code = ''LEFTALT'' \<or> code = ''RIGHTALT'' then ''ALT''
      else if code = ''LEFTSHIFT'' \<or> code = ''RIGHTSHIFT'' then ''SHIFT''
      else if code = ''LEFTMETA'' \<or> code = ''RIGHTMETA'' then ''META''
      else code)"

text \<open>The static variable \<open>current_key_event\<close>.\<close>

record current_key =
  cur_code :: "string option"
  cur_modifiers :: "string list"

definition find_key :: "event_tables \<Rightarrow> string \<Rightarrow> string list \<Rightarrow> key_event_t option" where
  "find_key T code mods = bsearch key_event_compare \<lparr>ke_code = code, modifiers = mods, ke_exec = []\<rparr> (key_events T)"

definition key_pressed :: "event_tables \<Rightarrow> string \<Rightarrow> current_key \<Rightarrow> key_event_t option \<times> current_key" where
  "key_pressed T name cur =
     (if cur_code cur = Some name then (None, cur)
      else case cur_code cur of
          Some prev \<Rightarrow>
            if length (cur_modifiers cur) < MAX_MODIFIERS then
              if prev \<in> set (cur_modifiers cur) then (None, cur)
              else (None, \<lparr>cur_code = Some name, cur_modifiers = cur_modifiers cur @ [key_event_modifier_name prev]\<rparr>)
            else (None, cur\<lparr>cur_code := Some name\<rparr>)
        | None \<Rightarrow>
            (if cur_modifiers cur = [] then find_key T name [] else None, cur\<lparr>cur_code := Some name\<rparr>))"

definition key_released :: "(string list \<Rightarrow> string list) \<Rightarrow> event_tables \<Rightarrow> string \<Rightarrow> current_key \<Rightarrow> key_event_t option \<times> current_key" where
  "key_released psort T name cur =
     (let (fired, mods) = (case cur_code cur of
             Some code \<Rightarrow> if cur_modifiers cur \<noteq> []
               then (find_key T code (psort (cur_modifiers cur)), psort (cur_modifiers cur)) else (None, [])
           | None \<Rightarrow> (None, cur_modifiers cur))
      in (fired, \<lparr>cur_code = (if cur_code cur = Some name then None else cur_code cur),
                  cur_modifiers = filter (\<lambda>m. m \<noteq> key_event_modifier_name name) mods\<rparr>))"

definition key_event_parse ::
  "(nat \<Rightarrow> string option) \<Rightarrow> (string list \<Rightarrow> string list) \<Rightarrow> event_tables \<Rightarrow> nat \<Rightarrow> bool \<Rightarrow> current_key \<Rightarrow> key_event_t option \<times> current_key" where
  "key_event_parse KEY_NAME psort T code pressed cur =
     (if pressed then key_pressed T (key_event_name KEY_NAME code) cur
      else key_released psort T (key_event_name KEY_NAME code) cur)"

text \<open>The command that is executed, if any.\<close>

definition idle_event_parse :: "event_tables \<Rightarrow> 64 word \<Rightarrow> string option" where
  "idle_event_parse T idle =
     map_option ie_exec (bsearch idle_event_compare \<lparr>ie_timeout = idle, ie_exec = []\<rparr> (idle_events T))"

definition switch_event_name :: "(nat \<Rightarrow> string option) \<Rightarrow> nat \<Rightarrow> string" where
  "switch_event_name SW_NAME code =
     (case if code < SW_MAX then SW_NAME code else None of Some n \<Rightarrow> n | None \<Rightarrow> ''UNKNOWN'')"

definition switch_event_parse :: "(nat \<Rightarrow> string option) \<Rightarrow> event_tables \<Rightarrow> nat \<Rightarrow> int \<Rightarrow> switch_event_t option" where
  "switch_event_parse SW_NAME T code v =
     bsearch switch_event_compare \<lparr>se_code = switch_event_name SW_NAME code, se_value = v, se_exec = []\<rparr> (switch_events T)"

definition input_parse_event ::
  "(nat \<Rightarrow> string option) \<Rightarrow> (nat \<Rightarrow> string option) \<Rightarrow> (string list \<Rightarrow> string list) \<Rightarrow> event_tables \<Rightarrow>
   int \<Rightarrow> nat \<Rightarrow> int \<Rightarrow> current_key \<Rightarrow> string option \<times> current_key" where
  "input_parse_event KEY_NAME SW_NAME psort T ty code v cur =
     (if ty = 1 then
        let (fired, cur) = key_event_parse KEY_NAME psort T code (v \<noteq> 0) cur in (map_option ke_exec fired, cur)
      else if ty = 5 then (map_option se_exec (switch_event_parse SW_NAME T code v), cur)
      else (None, cur))"

section \<open>Reading the configuration\<close>

text \<open>The recursion of \<open>config_min_timeout\<close> returns \<open>unsigned int\<close>.\<close>

function config_min_timeout :: "64 word \<Rightarrow> 64 word \<Rightarrow> 32 word" where
  "config_min_timeout a b = (if b = 0 then ucast a else config_min_timeout b (a mod b))"
  by pat_completeness auto
termination
  by (relation "measure (\<lambda>(a, b). unat b)") (auto simp: unat_mod unat_gt_0)

declare config_min_timeout.simps [simp del]

definition config_key_event :: "(string list \<Rightarrow> string list) \<Rightarrow> string \<Rightarrow> string \<Rightarrow> event_tables \<Rightarrow> string option \<times> event_tables" where
  "config_key_event psort shortcut exe T =
     (if MAX_EVENTS \<le> length (key_events T) then (Some ''Key event limit exceeded!'', T)
      else
        let parts = split_at (CHR ''+'') [] shortcut;
            has_plus = CHR ''+'' \<in> set shortcut;
            code = (if has_plus then config_trim_string (last parts) else shortcut);
            before = concat (map (\<lambda>p. p @ [CHR ''+'']) (butlast parts));
            mods = (if has_plus
              then map config_trim_string (take MAX_MODIFIERS (strtok_all (CHR ''+'') before)) else [])
        in (None, T\<lparr>key_events := key_events T @ [\<lparr>ke_code = code, modifiers = psort mods, ke_exec = exe\<rparr>]\<rparr>))"

text \<open>\<open>strtoul\<close> at a digit or at the end of the text: the number and the rest.\<close>

definition strtoul :: "string \<Rightarrow> 64 word \<times> string" where
  "strtoul s = (of_nat (min (2 ^ 64 - 1) (digits_value 10 0 (takeWhile is_digit s))), dropWhile is_digit s)"

definition unit_factor :: "string \<Rightarrow> 64 word" where
  "unit_factor u = (if u \<noteq> [] \<and> hd u = CHR ''h'' then 3600 else if u \<noteq> [] \<and> hd u = CHR ''m'' then 60 else 1)"

function sum_timeout :: "string \<Rightarrow> 64 word \<Rightarrow> 64 word" where
  "sum_timeout t acc =
     (if t = [] then acc
      else let (count, u) = strtoul (dropWhile (\<lambda>c. \<not> is_digit c) t) in sum_timeout u (acc + count * unit_factor u))"
  by pat_completeness auto
termination
proof (relation "measure (\<lambda>(t, acc). length t)", goal_cases)
  case (2 t acc x count u)
  let ?d = "dropWhile (\<lambda>c. \<not> is_digit c) t"
  have "length (dropWhile is_digit ?d) < length t"
  proof (cases ?d)
    case Nil
    then show ?thesis unfolding Nil using 2(1) by simp
  next
    case (Cons c cs)
    then have "is_digit c" by (metis hd_dropWhile list.distinct(1) list.sel(1))
    moreover have "length (dropWhile is_digit cs) \<le> length cs" by (rule length_dropWhile_le)
    moreover have "length ?d \<le> length t" by (rule length_dropWhile_le)
    ultimately show ?thesis using Cons by simp
  qed
  then show ?case using 2 by (auto simp: strtoul_def)
qed simp

declare sum_timeout.simps [simp del]

definition config_idle_event :: "string \<Rightarrow> string \<Rightarrow> event_tables \<Rightarrow> string option \<times> event_tables" where
  "config_idle_event timeout exe T =
     (if MAX_EVENTS \<le> length (idle_events T) then (Some ''Idle event limit exceeded!'', T)
      else if strcaseeq timeout ''RESET'' then
        (None, T\<lparr>idle_events := idle_events T @ [\<lparr>ie_timeout = IDLE_RESET, ie_exec = exe\<rparr>]\<rparr>)
      else let n = sum_timeout timeout 0 in
        (None, T\<lparr>idle_events := idle_events T @ [\<lparr>ie_timeout = n, ie_exec = exe\<rparr>],
                 min_timeout := ucast (config_min_timeout n (min_timeout T))\<rparr>))"

definition config_switch_event :: "string \<Rightarrow> string \<Rightarrow> event_tables \<Rightarrow> string option \<times> event_tables" where
  "config_switch_event switchcode exe T =
     (if MAX_EVENTS \<le> length (switch_events T) then (Some ''Switch event limit exceeded!'', T)
      else case strsep (CHR '':'') switchcode of
          (code, None) \<Rightarrow> (Some ''Invalid switch identifier'', T)
        | (code, Some v) \<Rightarrow>
            (None, T\<lparr>switch_events := switch_events T @
               [\<lparr>se_code = config_trim_string code, se_value = atoi (config_trim_string v), se_exec = exe\<rparr>]\<rparr>))"

text \<open>The variables of \<open>config_parse_file\<close>.  \<open>sec_base\<close> says that the pointer \<open>section\<close> is the one
  \<open>strdup\<close> returned and not one behind leading spaces, which \<open>free\<close> must not be given.  \<open>error\<close> is
  never reset.\<close>

record config_state =
  c_tables :: event_tables
  c_section :: "string option"
  sec_base :: bool
  c_error :: "string option"
  line_num :: nat
  printed :: "(string \<times> nat) list"

definition free_section :: "config_state \<Rightarrow> unit option" where
  "free_section c = (if c_section c \<noteq> None \<and> \<not> sec_base c then None else Some ())"

definition print_error :: "config_state \<Rightarrow> config_state" where
  "print_error c = (case c_error c of None \<Rightarrow> c | Some e \<Rightarrow> c\<lparr>printed := printed c @ [(e, line_num c)]\<rparr>)"

definition global_option :: "string \<Rightarrow> string \<Rightarrow> config_state \<Rightarrow> config_state" where
  "global_option key v c =
     (if key = ''listen'' then
        if length (listen (c_tables c)) < MAX_LISTENER
        then c\<lparr>c_tables := (c_tables c)\<lparr>listen := listen (c_tables c) @ [v]\<rparr>\<rparr>
        else c\<lparr>c_error := Some ''Listener limit exceeded!''\<rparr>
      else c\<lparr>c_error := Some ''Unkown option!''\<rparr>)"

definition config_option :: "(string list \<Rightarrow> string list) \<Rightarrow> string \<Rightarrow> string \<Rightarrow> config_state \<Rightarrow> config_state" where
  "config_option psort key v c =
     (case c_section c of
        None \<Rightarrow> c\<lparr>c_error := Some ''Missing section!''\<rparr>
      | Some sec \<Rightarrow>
          if key = [] \<or> v = [] then c\<lparr>c_error := Some ''Invlaid syntax!''\<rparr>
          else if strcaseeq sec ''Global'' then global_option key v c
          else if strcaseeq sec ''Keys'' then
            let (e, T) = config_key_event psort key v (c_tables c) in c\<lparr>c_error := e, c_tables := T\<rparr>
          else if strcaseeq sec ''Idle'' then
            let (e, T) = config_idle_event key v (c_tables c) in c\<lparr>c_error := e, c_tables := T\<rparr>
          else if strcaseeq sec ''Switches'' then
            let (e, T) = config_switch_event key v (c_tables c) in c\<lparr>c_error := e, c_tables := T\<rparr>
          else c\<lparr>c_error := Some ''Unknown section!'', c_section := None\<rparr>)"

definition config_line :: "(string list \<Rightarrow> string list) \<Rightarrow> string \<Rightarrow> config_state \<Rightarrow> config_state option" where
  "config_line psort buffer c =
     (let line = config_trim_string (cstr buffer); c = c\<lparr>line_num := line_num c + 1\<rparr> in
      if line = [] \<or> hd line = CHR ''#'' then Some c
      else let line = takeWhile (\<lambda>x. x \<noteq> CHR ''#'') line in
        if hd line = CHR ''['' \<and> last line = CHR '']'' then do {
          free_section c;
          let name = tl (butlast line);
          Some (c\<lparr>c_section := Some (config_trim_string name), sec_base := (name = [] \<or> \<not> is_space (hd name))\<rparr>)
        } else case strsep (CHR ''='') line of
            (key, None) \<Rightarrow> Some (print_error (c\<lparr>c_error := Some ''Invalid syntax!''\<rparr>))
          | (key, Some v) \<Rightarrow>
              Some (print_error (config_option psort (config_trim_string key) (config_trim_string v) c)))"

function config_lines :: "(string list \<Rightarrow> string list) \<Rightarrow> string \<Rightarrow> config_state \<Rightarrow> config_state option" where
  "config_lines psort cs c =
     (if cs = [] then Some c
      else do {
        c \<leftarrow> config_line psort (the (fst (fgets 512 cs))) c;
        config_lines psort (fst (snd (fgets 512 cs))) c
      })"
  by pat_completeness auto
termination
proof (relation "measure (\<lambda>(psort, cs, c). length cs)", goal_cases)
  case (2 psort cs c)
  obtain l r e where "fgets 512 cs = (l, r, e)" by (cases "fgets 512 cs")
  then show ?case using fgets_shorter[of 512 cs l r e] 2 by simp
qed simp

declare config_lines.simps [simp del]

text \<open>\<open>Inl\<close> is the exit of the process when the file cannot be opened.\<close>

definition config_parse_file ::
  "(string list \<Rightarrow> string list) \<Rightarrow> string option \<Rightarrow> event_tables \<Rightarrow> (unit + event_tables \<times> (string \<times> nat) list) option" where
  "config_parse_file psort file T =
     (case file of
        None \<Rightarrow> Some (Inl ())
      | Some cs \<Rightarrow> do {
          c \<leftarrow> config_lines psort cs \<lparr>c_tables = T, c_section = None, sec_base = True, c_error = None, line_num = 0, printed = []\<rparr>;
          free_section c;
          let T = c_tables c;
          Some (Inr (T\<lparr>key_events := qsort key_event_compare (key_events T),
                       idle_events := qsort idle_event_compare (idle_events T),
                       switch_events := qsort switch_event_compare (switch_events T)\<rparr>, printed c))
        })"

end
