(* ===== verification/InputEvent.thy ===== *)
theory InputEvent
  imports InputConfig Taps
begin

text \<open>
  The input event library (\<open>framework/libs/inputevent/src/input-event.c\<close>): start-up, the wait for
  an event, and the recognition of clicks, long presses and slides.  All static variables are in
  one record.  Files, the clock, \<open>select\<close>, processes and the switch configuration are a
  parameter on an abstract world.  Times are \<open>unsigned long\<close> with 64 bits; \<open>code\<close> of an event is a
  16-bit unsigned number.  An index outside \<open>KEY_ARRAYS\<close> or a result buffer that is overrun is the
  outcome \<open>None\<close>.
\<close>

section \<open>Data\<close>

text \<open>Left out of the structures: \<open>click_count\<close>, which nothing sets, and \<open>key_timeval\<close>, which repeats
  the time of the event.\<close>

record kgesture =
  kg_key_code :: int
  kg_action :: int
  kg_slide_value :: int
  kg_new_action :: bool
  kg_long_press_time :: "64 word"

record kevent =
  ke_action :: int
  ke_key_code :: int
  ke_key_time :: "64 word"
  ke_value :: int
  ke_new_action :: bool

record raw_event =
  re_time :: "int \<times> int"
  re_type :: int
  re_code :: "16 word"
  re_value :: int

text \<open>Results of a read: an event, no data, or an error.\<close>

datatype raw_read = Raw raw_event | Raw_none | Raw_err

record 'w in_env =
  n_gpio :: "'w gpio_env"
  n_access :: "string \<Rightarrow> 'w \<Rightarrow> bool \<times> 'w"
  n_open :: "string \<Rightarrow> 'w \<Rightarrow> int \<times> 'w"
  n_close :: "int \<Rightarrow> 'w \<Rightarrow> 'w"
  n_read :: "int \<Rightarrow> 'w \<Rightarrow> raw_read \<times> 'w"
  n_select :: "int \<Rightarrow> int list \<Rightarrow> int \<Rightarrow> 'w \<Rightarrow> (int \<times> int list) \<times> 'w"
  n_time :: "'w \<Rightarrow> (int \<times> int) \<times> 'w"
  n_popen :: "string \<Rightarrow> 'w \<Rightarrow> string option \<times> 'w"
  n_exec :: "string \<Rightarrow> 'w \<Rightarrow> 'w"

record 'w in_state =
  n_world :: 'w
  conf :: event_tables
  conf_listen :: "string option list"
  listen_fd :: "int list"
  fd_len :: nat
  initial_fdset :: "int list"
  raw_event :: raw_event
  idle_time :: "64 word"
  n_sw_keycode :: "int list"
  n_sw_keyvalue :: "int list"
  n_sw_keynumber :: nat
  isCharging :: bool
  tm_start :: "64 word"
  HAS_SLIDE_EVENT :: bool
  MAX_DOUBLE_CLICK_DELAY_TIME :: int
  MAX_SLIDE_DELAY_TIME :: int
  TIME_OUT :: int
  click_key_code :: int
  click_key_count :: int
  click_time :: "64 word"
  cache_press_time :: "64 word"
  long_press_state :: bool
  long_press_code :: int
  slide_key_code :: int
  slide_time :: "64 word"

definition nio :: "('w \<Rightarrow> 'a \<times> 'w) \<Rightarrow> 'w in_state \<Rightarrow> 'a \<times> 'w in_state" where
  "nio f s = (let (r, w) = f (n_world s) in (r, s\<lparr>n_world := w\<rparr>))"

definition NONE_KEY_CODE :: int where "NONE_KEY_CODE = -1024"
definition KEY_COUNTS :: nat where "KEY_COUNTS = 8"
definition KEY_ARRAYS :: "int list" where "KEY_ARRAYS = [2, 3, 4, 5, 6, 7, 8, 9]"
definition MINUS_KEY_VALUE :: int where "MINUS_KEY_VALUE = -2"
definition ORDINARY_EVENT :: int where "ORDINARY_EVENT = 0"
definition SINGLE_CLICK :: int where "SINGLE_CLICK = 1"
definition DOUBLE_CLICK :: int where "DOUBLE_CLICK = 2"
definition LONG_CLICK :: int where "LONG_CLICK = 3"
definition SLIDE :: int where "SLIDE = 4"
definition KEY_POWER :: int where "KEY_POWER = 116"

definition kms :: "int \<times> int \<Rightarrow> 64 word" where
  "kms t = word_of_int (fst t * 1000 + snd t div 1000)"

section \<open>Gestures\<close>

definition click_late :: "64 word \<Rightarrow> 'w in_state \<Rightarrow> bool" where
  "click_late t s \<longleftrightarrow> word_of_int (MAX_DOUBLE_CLICK_DELAY_TIME s) < t - click_time s"

definition clicked :: "int \<Rightarrow> int \<Rightarrow> kgesture \<Rightarrow> kgesture" where
  "clicked act code g = g\<lparr>kg_action := act, kg_new_action := True, kg_key_code := code\<rparr>"

definition click_event :: "int \<Rightarrow> int \<Rightarrow> 64 word \<Rightarrow> kgesture \<times> 'w in_state \<Rightarrow> bool \<times> kgesture \<times> 'w in_state" where
  "click_event key_code v event_time gs =
     (case gs of (g, s) \<Rightarrow>
        if v \<noteq> 1 then (False, g, s)
        else if click_time s = 0 then
          if key_code = NONE_KEY_CODE then (False, g, s)
          else (False, g, s\<lparr>click_key_code := key_code, click_key_count := 1, click_time := event_time,
                            cache_press_time := event_time\<rparr>)
        else if click_key_code s = key_code then
          if click_late event_time s
          then (True, clicked SINGLE_CLICK (click_key_code s) g,
                s\<lparr>click_key_code := key_code, click_key_count := 1, click_time := event_time\<rparr>)
          else (True, clicked DOUBLE_CLICK key_code g,
                s\<lparr>click_key_code := -1, click_key_count := 0, click_time := 0\<rparr>)
        else if key_code = NONE_KEY_CODE \<and> click_late event_time s
          then (True, clicked SINGLE_CLICK (click_key_code s) g,
                s\<lparr>click_key_code := -1, click_key_count := 0, click_time := 0\<rparr>)
        else (False, g, s))"

text \<open>The neighbours of the key that was touched last, on the ring of \<open>KEY_ARRAYS\<close>.\<close>

definition key_array :: "int \<Rightarrow> int option" where
  "key_array i = (if 0 \<le> i \<and> nat i < length KEY_ARRAYS then Some (KEY_ARRAYS ! nat i) else None)"

definition slide_neighbours :: "int \<Rightarrow> (int \<times> int) option" where
  "slide_neighbours code =
     (let i = code + MINUS_KEY_VALUE;
          prev = (if i - 1 = -1 then int KEY_COUNTS - 1 else i - 1);
          succ = (if i + 1 = int KEY_COUNTS then 0 else i + 1)
      in do { p \<leftarrow> key_array prev; n \<leftarrow> key_array succ; Some (p, n) })"

definition slid :: "int \<Rightarrow> kgesture \<Rightarrow> kgesture" where
  "slid dir g = g\<lparr>kg_action := SLIDE, kg_slide_value := dir, kg_new_action := True\<rparr>"

definition slide_event :: "int \<Rightarrow> int \<Rightarrow> 64 word \<Rightarrow> kgesture \<times> 'w in_state \<Rightarrow> (bool \<times> kgesture \<times> 'w in_state) option" where
  "slide_event key_code v event_time gs =
     (case gs of (g, s) \<Rightarrow>
        let none = g\<lparr>kg_new_action := False\<rparr>;
            touched = s\<lparr>slide_key_code := key_code, slide_time := event_time\<rparr>;
            late = word_of_int (MAX_SLIDE_DELAY_TIME s) < event_time - slide_time s in
        if v \<noteq> 1 then Some (False, g, s)
        else if slide_time s = 0 then
          if key_code = NONE_KEY_CODE then Some (False, none, s) else Some (False, g, touched)
        else if key_code = NONE_KEY_CODE then
          if late then Some (False, none, s\<lparr>slide_key_code := -1, slide_time := 0\<rparr>) else Some (False, none, s)
        else if late then Some (False, none, touched)
        else do {
          (prev_key_code, next_key_code) \<leftarrow> slide_neighbours (slide_key_code s);
          if key_code = prev_key_code then Some (True, slid (-1) g, touched)
          else if key_code = next_key_code then Some (True, slid 1 g, touched)
          else Some (False, none, touched)
        })"

section \<open>Processes\<close>

definition string_left_space_trim :: "string \<Rightarrow> string" where
  "string_left_space_trim = dropWhile (\<lambda>c. c = CHR '' '')"

text \<open>The lines of the output, each cut at 127 characters, are appended to the result; the buffer
  of \<open>sz\<close> bytes is not checked by the code.\<close>

function output_lines :: "nat \<Rightarrow> string \<Rightarrow> string \<Rightarrow> string option" where
  "output_lines sz cs result =
     (if cs = [] then Some result
      else let line = cstr (the (fst (fgets 128 cs)));
               result = (if length line > 1 then result @ string_left_space_trim line else result)
        in if length result < sz then output_lines sz (fst (snd (fgets 128 cs))) result else None)"
  by pat_completeness auto
termination
proof (relation "measure (\<lambda>(sz, cs, result). length cs)", goal_cases)
  case (2 sz cs result)
  obtain l r e where "fgets 128 cs = (l, r, e)" by (cases "fgets 128 cs")
  then show ?case using fgets_shorter[of 128 cs l r e] 2 by simp
qed simp

declare output_lines.simps [simp del]

definition SIZE_4K :: nat where "SIZE_4K = 4096"

definition execute_local_command :: "'w in_env \<Rightarrow> string \<Rightarrow> string \<Rightarrow> 'w in_state \<Rightarrow> (int \<times> string \<times> 'w in_state) option" where
  "execute_local_command E cmd result s =
     (case nio (n_popen E cmd) s of
        (None, s) \<Rightarrow> Some (-1, result, s)
      | (Some out, s) \<Rightarrow> do { r \<leftarrow> output_lines SIZE_4K out result; Some (0, r, s) })"

definition IS_CHARGING :: string where
  "IS_CHARGING = ''ls -l /etc/systemd/system/ | grep default | grep sysinit''"

definition ChargeModeDetect :: "'w in_env \<Rightarrow> 'w in_state \<Rightarrow> (int \<times> 'w in_state) option" where
  "ChargeModeDetect E s = do {
     (ret, res, s) \<leftarrow> execute_local_command E IS_CHARGING [] s;
     Some (ret, s\<lparr>isCharging := (ret = 0 \<and> length res > 2)\<rparr>)
   }"

definition input_powerkey_check :: "'w in_env \<Rightarrow> 'w in_state \<Rightarrow> 'w in_state option" where
  "input_powerkey_check E s =
     (let ev = raw_event s; tmp = kms (re_time ev) in
      if re_type ev = 1 \<and> uint (re_code ev) = KEY_POWER then
        if re_value ev = 1 then Some (s\<lparr>tm_start := tmp\<rparr>)
        else if re_value ev = 2 then
          if 1999 < tmp - tm_start s then do {
            (r, res, s) \<leftarrow> execute_local_command E ''systemctl set-default multi-user'' [] s;
            (r, res, s) \<leftarrow> execute_local_command E ''systemctl isolate multi-user'' res s;
            Some s
          } else Some s
        else if re_value ev = 0 then Some (s\<lparr>tm_start := 0\<rparr>)
        else Some s
      else Some s)"

section \<open>Waiting for an event\<close>

text \<open>The two structures the caller passes, and the library's state.\<close>

record 'w listening =
  du :: kevent
  ge :: kgesture
  ls :: "'w in_state"

text \<open>\<open>select\<close> is repeated while it fails.\<close>

partial_function (option) select_loop ::
  "'w in_env \<Rightarrow> int \<Rightarrow> int list \<Rightarrow> int \<Rightarrow> 'w \<Rightarrow> ((int \<times> int list) \<times> 'w) option" where
  "select_loop E nfds fds tv w =
     (let (r, w) = n_select E nfds fds tv w in if fst r < 0 then select_loop E nfds fds tv w else Some (r, w))"

declare select_loop.simps [code]

definition idle_exec :: "'w in_env \<Rightarrow> 64 word \<Rightarrow> 'w in_state \<Rightarrow> 'w in_state" where
  "idle_exec E idle s =
     (case idle_event_parse (conf s) idle of None \<Rightarrow> s | Some c \<Rightarrow> s\<lparr>n_world := n_exec E c (n_world s)\<rparr>)"

definition ordinary :: "int \<Rightarrow> int \<Rightarrow> 64 word \<Rightarrow> kevent \<Rightarrow> kevent" where
  "ordinary code v t d =
     d\<lparr>ke_new_action := True, ke_action := ORDINARY_EVENT, ke_key_code := code, ke_value := v, ke_key_time := t\<rparr>"

definition long_click :: "int \<Rightarrow> 64 word \<Rightarrow> kgesture \<Rightarrow> kgesture" where
  "long_click code t g =
     g\<lparr>kg_new_action := True, kg_action := LONG_CLICK, kg_key_code := code, kg_long_press_time := t\<rparr>"

text \<open>A key event: the code 0 is replaced by \<open>NONE_KEY_CODE\<close>, stored in 16 bits.  The result says
  whether the listener returns.\<close>

definition key_gesture :: "'w listening \<Rightarrow> (bool \<times> 'w listening) option" where
  "key_gesture L =
     (let s = ls L; ev = raw_event s; t = kms (re_time ev);
          d = (if re_code ev \<noteq> 0 then ordinary (uint (re_code ev)) (re_value ev) t (du L) else du L);
          ev = (if re_code ev = 0 then ev\<lparr>re_code := word_of_int NONE_KEY_CODE\<rparr> else ev);
          code = uint (re_code ev); s = s\<lparr>raw_event := ev\<rparr>; L = L\<lparr>du := d, ls := s\<rparr> in
      if re_value ev = 2 then
        let s = s\<lparr>click_key_code := -1, click_time := 0, click_key_count := 0\<rparr> in
        if 2000 < t - cache_press_time s \<and> code = long_press_code s
        then Some (True, L\<lparr>ge := long_click code (t - cache_press_time s) (ge L), ls := s\<lparr>long_press_code := code\<rparr>\<rparr>)
        else Some (True, L\<lparr>ge := (ge L)\<lparr>kg_new_action := False\<rparr>,
               ls := s\<lparr>long_press_state := True, long_press_code := code\<rparr>\<rparr>)
      else if long_press_state s \<and> code = long_press_code s then
        Some (True, L\<lparr>ge := long_click code (t - cache_press_time s) (ge L),
          ls := s\<lparr>click_key_code := -1, click_time := 0, slide_key_code := -1, slide_time := 0,
                  long_press_state := False, long_press_code := -1\<rparr>\<rparr>)
      else do {
        (sl, g, s) \<leftarrow> (if HAS_SLIDE_EVENT s then slide_event code (re_value ev) t (ge L, s) else Some (False, ge L, s));
        if sl then Some (True, L\<lparr>ge := g, ls := s\<lparr>click_key_code := -1, click_time := 0, click_key_count := 0\<rparr>\<rparr>)
        else let (cl, g, s) = click_event code (re_value ev) t (g, s) in Some (cl, L\<lparr>ge := g, ls := s\<rparr>)
      })"

text \<open>What is done with the descriptor \<open>i\<close> that is ready; \<open>t0\<close> is the time before the wait.\<close>

definition drop_listener :: "'w in_env \<Rightarrow> nat \<Rightarrow> 'w in_state \<Rightarrow> 'w in_state" where
  "drop_listener E i s =
     (let fd = listen_fd s ! i; s = s\<lparr>conf_listen := (conf_listen s)[i := None]\<rparr> in
      if fd \<noteq> -1 then s\<lparr>n_world := n_close E fd (n_world s), listen_fd := (listen_fd s)[i := -1]\<rparr> else s)"

definition ready_fd :: "'w in_env \<Rightarrow> nat \<Rightarrow> 64 word \<Rightarrow> 'w listening \<Rightarrow> (bool \<times> 64 word \<times> 'w listening) option" where
  "ready_fd E i t0 L =
     (let (r, s) = nio (n_read E (listen_fd (ls L) ! i)) (ls L) in
      case r of
        Raw_err \<Rightarrow> do {
          path \<leftarrow> conf_listen s ! i;
          let (there, s) = nio (n_access E path) s;
          Some (False, t0, L\<lparr>ls := (if there then s else drop_listener E i s)\<rparr>)
        }
      | _ \<Rightarrow> do {
          let s = (case r of Raw ev \<Rightarrow> s\<lparr>raw_event := ev\<rparr> | _ \<Rightarrow> s);
          s \<leftarrow> (if isCharging s then input_powerkey_check E s else Some s);
          let ev = raw_event s;
          let L = L\<lparr>ls := s\<rparr>;
          if re_type ev = 5 then Some (True, t0, L\<lparr>du := ordinary (uint (re_code ev)) (re_value ev) t0 (du L)\<rparr>)
          else if re_type ev \<noteq> 1 then Some (False, t0, L)
          else do { (stop, L) \<leftarrow> key_gesture L; Some (stop, kms (re_time ev), L) }
        })"

text \<open>The loop over the listeners.  \<open>t0\<close> is \<open>tms_start\<close>, which is overwritten by the time of a key
  event.  \<open>FD_ISSET\<close> of a descriptor that was closed and set to -1 is outside the set.\<close>

fun listen_loop :: "'w in_env \<Rightarrow> int list \<Rightarrow> nat list \<Rightarrow> 64 word \<Rightarrow> 'w listening \<Rightarrow> 'w listening option" where
  "listen_loop E ready [] t0 L = Some L"
| "listen_loop E ready (i # is) t0 L =
     (if listen_fd (ls L) ! i < 0 then None
      else if listen_fd (ls L) ! i \<in> set ready then do {
        (stop, t0, L) \<leftarrow> ready_fd E i t0 L;
        if stop then Some L else listen_loop E ready is t0 L
      } else listen_loop E ready is t0 L)"

definition daemon_start_listener :: "'w in_env \<Rightarrow> 'w listening \<Rightarrow> 'w listening option" where
  "daemon_start_listener E L =
     (let d = (du L)\<lparr>ke_new_action := False\<rparr>; g = (ge L)\<lparr>kg_new_action := False\<rparr>;
          (t, s) = nio (n_time E) (ls L); t0 = kms t in
      if 0 < n_sw_keynumber s then
        let j = n_sw_keynumber s - 1 in
        if j < length (n_sw_keycode s) \<and> j < length (n_sw_keyvalue s)
        then Some \<lparr>du = ordinary (n_sw_keycode s ! j) (n_sw_keyvalue s ! j) t0 d, ge = g, ls = s\<lparr>n_sw_keynumber := j\<rparr>\<rparr>
        else None
      else if fd_len s = 0 then None
      else do {
        ((r, ready), w) \<leftarrow> select_loop E (listen_fd s ! (fd_len s - 1) + 1) (initial_fdset s) (TIME_OUT s) (n_world s);
        let (t', s) = nio (n_time E) (s\<lparr>n_world := w\<rparr>);
        let t1 = kms t';
        if r = 0 then
          let s = idle_exec E (idle_time s + min_timeout (conf s)) (s\<lparr>idle_time := idle_time s + min_timeout (conf s)\<rparr>);
              (cl, g, s) = click_event NONE_KEY_CODE 1 t1 (g, s)
          in Some (if cl then \<lparr>du = d, ge = g, ls = s\<rparr>
                   else \<lparr>du = d\<lparr>ke_new_action := False\<rparr>, ge = g\<lparr>kg_new_action := False\<rparr>, ls = s\<rparr>)
        else
          let s = (if 750 < t1 - t0 \<or> idle_time s > 0 then (idle_exec E IDLE_RESET s)\<lparr>idle_time := 0\<rparr> else s)
          in listen_loop E ready [0..<fd_len s] t0 \<lparr>du = d, ge = g, ls = s\<rparr>
      })"

section \<open>Start-up\<close>

fun open_all :: "'w in_env \<Rightarrow> nat list \<Rightarrow> 'w in_state \<Rightarrow> string list \<Rightarrow> string list \<times> 'w in_state" where
  "open_all E [] s acc = (acc, s)"
| "open_all E (i # is) s acc =
     (let filename = ''/dev/input/event'' @ show_nat i; (there, s) = nio (n_access E filename) s
      in open_all E is s (if there then acc @ [filename] else acc))"

definition input_open_all_listener :: "'w in_env \<Rightarrow> 'w in_state \<Rightarrow> 'w in_state" where
  "input_open_all_listener E s =
     (let (ps, s) = open_all E [0..<MAX_LISTENER] s []
      in s\<lparr>conf_listen := map Some ps @ drop (length ps) (conf_listen s)\<rparr>)"

definition daemon_init :: "'w in_state \<Rightarrow> 'w in_state" where
  "daemon_init s = s\<lparr>conf := (conf s)\<lparr>min_timeout := 3600\<rparr>, conf_listen := replicate MAX_LISTENER None,
     listen_fd := replicate MAX_LISTENER 0\<rparr>"

text \<open>The loop that opens the listeners: the number of descriptors, or the failure of one.\<close>

fun open_listeners :: "'w in_env \<Rightarrow> string option list \<Rightarrow> nat \<Rightarrow> 'w in_state \<Rightarrow> nat option \<times> 'w in_state" where
  "open_listeners E (Some path # ps) i s =
     (let (fd, s) = nio (n_open E path) s; s = s\<lparr>listen_fd := (listen_fd s)[i := fd]\<rparr> in
      if fd < 0 then (None, s)
      else open_listeners E ps (i + 1) (s\<lparr>initial_fdset := fd # initial_fdset s\<rparr>))"
| "open_listeners E _ i s = (Some i, s)"

definition load_gpio :: "'w in_env \<Rightarrow> 'w in_state \<Rightarrow> 'w in_state option" where
  "load_gpio E s = do {
     t \<leftarrow> parse_gpio (n_gpio E) \<lparr>sw_world = n_world s, sw_line = None, sw_keycode = n_sw_keycode s,
            sw_keyvalue = n_sw_keyvalue s, sw_keynumber = 0\<rparr>;
     Some (s\<lparr>n_world := sw_world t, n_sw_keycode := sw_keycode t, n_sw_keyvalue := sw_keyvalue t,
             n_sw_keynumber := sw_keynumber t\<rparr>)
   }"

text \<open>\<open>daemon_init\<close> has switched the monitoring mode on, so the listeners are all devices and the
  configuration file is not read.\<close>

definition init_input_key :: "'w in_env \<Rightarrow> bool \<Rightarrow> int \<Rightarrow> int \<Rightarrow> int \<Rightarrow> 'w in_state \<Rightarrow> (bool \<times> 'w in_state) option" where
  "init_input_key E has_slide_event select_timeout double_click_timeout slide_timeout s =
     (let s = daemon_init (s\<lparr>HAS_SLIDE_EVENT := has_slide_event, MAX_DOUBLE_CLICK_DELAY_TIME := double_click_timeout,
                MAX_SLIDE_DELAY_TIME := slide_timeout, TIME_OUT := select_timeout\<rparr>) in do {
        (ret, s) \<leftarrow> ChargeModeDetect E s;
        if ret \<noteq> 0 then Some (False, s)
        else let s = input_open_all_listener E s;
               s = s\<lparr>initial_fdset := [], n_sw_keycode := replicate MAX_LISTENER (-1)\<rparr> in
          (case open_listeners E (conf_listen s) 0 s of
             (None, s) \<Rightarrow> Some (False, s)
           | (Some n, s) \<Rightarrow> do {
               s \<leftarrow> load_gpio E s;
               Some (0 < n, s\<lparr>fd_len := n\<rparr>)
             })
      })"

end
