(* ===== verification/InputTables.thy ===== *)
theory InputTables
  imports InputConfig
begin

text \<open>
  Proofs about the event tables: the comparison functions are orders on C strings, so a command
  is found exactly when one is configured; the minimal time-out is a greatest common divisor.
\<close>

section \<open>Comparison functions are orders\<close>

lemma c_order_lex:
  assumes f: "c_order f D" and g: "c_order g D"
  shows "c_order (\<lambda>x y. if f x y \<noteq> 0 then f x y else g x y) D"
proof (unfold_locales, goal_cases)
  case (1 x y)
  then show ?case
    using c_order.cmp_swap[OF f, of x y] c_order.cmp_swap[OF f, of y x] c_order.cmp_swap[OF g, of x y] by force
next
  case (2 x y z)
  have sw: "f u v < 0 \<longleftrightarrow> 0 < f v u" if "D u" "D v" for u v using c_order.cmp_swap[OF f that] .
  have tr: "f u w \<le> 0" if "D u" "D v" "D w" "f u v \<le> 0" "f v w \<le> 0" for u v w
    using c_order.cmp_trans[OF f that(1-3)] that(4,5) .
  have xy: "f x y \<le> 0" and yz: "f y z \<le> 0" using 2(4,5) by (auto split: if_splits)
  have xz: "f x z \<le> 0" using tr[OF 2(1-3) xy yz] .
  show ?case
  proof (cases "f x z = 0")
    case False
    then show ?thesis using xz by simp
  next
    case True
    then have zx: "f z x \<le> 0" using sw[OF 2(1,3)] by linarith
    have "f y x \<le> 0" using tr[OF 2(2,3,1) yz zx] .
    then have "f x y = 0" using sw[OF 2(1,2)] xy by linarith
    moreover have "f z y \<le> 0" using tr[OF 2(3,1,2) zx xy] .
    then have "f y z = 0" using sw[OF 2(2,3)] yz by linarith
    ultimately show ?thesis using 2 True c_order.cmp_trans[OF g 2(1-3)] by simp
  qed
qed

lemma c_order_key: "c_order f D \<Longrightarrow> c_order (\<lambda>x y. f (k x) (k y)) (\<lambda>x. D (k x))"
  unfolding c_order_def by blast

definition c_string :: "string \<Rightarrow> bool" where
  "c_string s \<longleftrightarrow> nul \<notin> set s"

lemma char_pos: "c \<noteq> nul \<Longrightarrow> 0 < (of_char c :: int)"
proof -
  assume "c \<noteq> nul"
  moreover have "(of_char nul :: nat) = 0" by (simp add: nul_def)
  ultimately have "(of_char c :: nat) \<noteq> 0" by (metis of_char_eq_iff)
  then have "0 < int (of_char c)" by simp
  then show ?thesis by (simp only: of_nat_of_char)
qed

lemma char_pos': "nul \<noteq> c \<Longrightarrow> 0 < (of_char c :: int)"
  by (rule char_pos) (rule not_sym)

lemma strcmp_0: "c_string a \<Longrightarrow> c_string b \<Longrightarrow> strcmp a b = 0 \<longleftrightarrow> a = b"
  by (induction a b rule: strcmp.induct) (auto simp: c_string_def dest: char_pos')

lemma strcmp_swap: "c_string a \<Longrightarrow> c_string b \<Longrightarrow> strcmp a b = - strcmp b a"
  by (induction a b rule: strcmp.induct) (auto simp: c_string_def)

lemma strcmp_trans:
  "c_string a \<Longrightarrow> c_string b \<Longrightarrow> c_string c \<Longrightarrow> strcmp a b \<le> 0 \<Longrightarrow> strcmp b c \<le> 0 \<Longrightarrow> strcmp a c \<le> 0"
proof (induction a b arbitrary: c rule: strcmp.induct)
  case (2 y ys)
  then show ?case using char_pos'[of "hd c"] by (cases c) (auto simp: c_string_def)
next
  case (3 x xs)
  then show ?case using char_pos'[of x] by (simp add: c_string_def)
next
  case (4 x xs y ys)
  show ?case
  proof (cases c)
    case Nil
    then show ?thesis using 4 char_pos'[of y] by (simp add: c_string_def)
  next
    case (Cons z zs)
    have c: "c_string xs" "c_string ys" "c_string zs" using 4 Cons by (auto simp: c_string_def)
    show ?thesis using 4 Cons c by (auto split: if_splits)
  qed
qed simp

lemma strcmp_order: "c_order strcmp c_string"
proof (unfold_locales, goal_cases)
  case (1 x y)
  then show ?case using strcmp_swap[of x y] by simp
next
  case (2 x y z)
  then show ?case by (rule strcmp_trans)
qed

definition mods_compare :: "string list \<Rightarrow> string list \<Rightarrow> int" where
  "mods_compare a b = (if int (length a) - int (length b) \<noteq> 0 then int (length a) - int (length b) else modifiers_compare a b)"

lemma modifiers_swap:
  "list_all c_string a \<Longrightarrow> list_all c_string b \<Longrightarrow> modifiers_compare a b = - modifiers_compare b a"
proof (induction a b rule: modifiers_compare.induct)
  case (1 a as b bs)
  then show ?case using strcmp_swap[of a b] by simp
qed simp_all

lemma modifiers_0:
  "list_all c_string a \<Longrightarrow> list_all c_string b \<Longrightarrow> length a = length b \<Longrightarrow> modifiers_compare a b = 0 \<longleftrightarrow> a = b"
  by (induction a b rule: modifiers_compare.induct) (auto simp: strcmp_0)

lemma modifiers_trans:
  "length a = length b \<Longrightarrow> length b = length c \<Longrightarrow> list_all c_string (a @ b @ c) \<Longrightarrow>
     modifiers_compare a b \<le> 0 \<Longrightarrow> modifiers_compare b c \<le> 0 \<Longrightarrow> modifiers_compare a c \<le> 0"
proof (induction a b c rule: list_induct3)
  case (Cons x xs y ys z zs)
  have cs: "c_string x" "c_string y" "c_string z" using Cons.prems by auto
  have ih: "modifiers_compare xs ys \<le> 0 \<Longrightarrow> modifiers_compare ys zs \<le> 0 \<Longrightarrow> modifiers_compare xs zs \<le> 0"
    using Cons by simp
  have "strcmp x y \<le> 0" "strcmp y z \<le> 0" using Cons.prems by (auto split: if_splits)
  then have "strcmp x z \<le> 0" using strcmp_trans[OF cs] by simp
  moreover have "x = y \<and> y = z" if "strcmp x z = 0"
  proof -
    have "x = z" using that strcmp_0[OF cs(1,3)] by simp
    then have "strcmp x y = 0" using \<open>strcmp x y \<le> 0\<close> \<open>strcmp y z \<le> 0\<close> strcmp_swap[OF cs(2,1)] by simp
    then show ?thesis using strcmp_0[OF cs(1,2)] \<open>x = z\<close> by simp
  qed
  ultimately show ?case using ih Cons.prems(2,3) strcmp_0[OF cs(1) cs(1)] by (cases "strcmp x z = 0") auto
qed simp

lemma mods_order: "c_order mods_compare (list_all c_string)"
proof (unfold_locales, goal_cases)
  case (1 x y)
  then show ?case using modifiers_swap[of x y] by (auto simp: mods_compare_def)
next
  case (2 x y z)
  then show ?case using modifiers_trans[of x y z] by (auto simp: mods_compare_def split: if_splits)
qed

definition key_ok :: "key_event_t \<Rightarrow> bool" where
  "key_ok e \<longleftrightarrow> c_string (ke_code e) \<and> list_all c_string (modifiers e)"

lemma key_event_compare_lex: "key_event_compare a b =
    (if strcmp (ke_code a) (ke_code b) \<noteq> 0 then strcmp (ke_code a) (ke_code b) else mods_compare (modifiers a) (modifiers b))"
  by (simp add: key_event_compare_def mods_compare_def Let_def)

interpretation key_table: c_order key_event_compare key_ok
proof -
  have "c_order (\<lambda>a b. strcmp (ke_code a) (ke_code b)) key_ok"
    using c_order_key[OF strcmp_order, of ke_code] unfolding c_order_def key_ok_def by blast
  moreover have "c_order (\<lambda>a b. mods_compare (modifiers a) (modifiers b)) key_ok"
    using c_order_key[OF mods_order, of modifiers] unfolding c_order_def key_ok_def by blast
  ultimately have "c_order (\<lambda>a b. if strcmp (ke_code a) (ke_code b) \<noteq> 0 then strcmp (ke_code a) (ke_code b)
      else mods_compare (modifiers a) (modifiers b)) key_ok"
    by (rule c_order_lex)
  then show "c_order key_event_compare key_ok" by (simp add: key_event_compare_lex[abs_def])
qed

lemma key_event_compare_0:
  "key_ok a \<Longrightarrow> key_ok b \<Longrightarrow> key_event_compare a b = 0 \<longleftrightarrow> ke_code a = ke_code b \<and> modifiers a = modifiers b"
  using modifiers_0[of "modifiers a" "modifiers b"]
  by (auto simp: key_event_compare_lex mods_compare_def key_ok_def strcmp_0)

definition switch_ok :: "switch_event_t \<Rightarrow> bool" where
  "switch_ok e \<longleftrightarrow> c_string (se_code e) \<and> \<bar>se_value e\<bar> < 2 ^ 30"

definition value_compare :: "int \<Rightarrow> int \<Rightarrow> int" where
  "value_compare a b = signed_take_bit 31 (a - b)"

lemma value_order: "c_order value_compare (\<lambda>v. \<bar>v\<bar> < 2 ^ 30)"
proof -
  have e: "\<bar>x\<bar> < 2 ^ 30 \<Longrightarrow> \<bar>y\<bar> < 2 ^ 30 \<Longrightarrow> value_compare x y = x - y" for x y
    unfolding value_compare_def by (rule signed_take_bit_int_eq_self) auto
  show ?thesis by unfold_locales (auto simp: e)
qed

interpretation switch_table: c_order switch_event_compare switch_ok
proof -
  have "c_order (\<lambda>a b. strcmp (se_code a) (se_code b)) switch_ok"
    using c_order_key[OF strcmp_order, of se_code] unfolding c_order_def switch_ok_def by blast
  moreover have "c_order (\<lambda>a b. value_compare (se_value a) (se_value b)) switch_ok"
    using c_order_key[OF value_order, of se_value] unfolding c_order_def switch_ok_def by blast
  ultimately have "c_order (\<lambda>a b. if strcmp (se_code a) (se_code b) \<noteq> 0 then strcmp (se_code a) (se_code b)
      else value_compare (se_value a) (se_value b)) switch_ok"
    by (rule c_order_lex)
  then show "c_order switch_event_compare switch_ok" unfolding switch_event_compare_def[abs_def] value_compare_def Let_def .
qed

section \<open>Commands are found\<close>

text \<open>The tables as \<open>config_parse_file\<close> leaves them.\<close>

definition sorted_tables :: "event_tables \<Rightarrow> event_tables" where
  "sorted_tables T = T\<lparr>key_events := qsort key_event_compare (key_events T),
     idle_events := qsort idle_event_compare (idle_events T),
     switch_events := qsort switch_event_compare (switch_events T)\<rparr>"

lemma find_key_iff:
  assumes "list_all key_ok (key_events T)" and "c_string code" and "list_all c_string mods"
  shows "find_key (sorted_tables T) code mods \<noteq> None \<longleftrightarrow>
      (\<exists>e \<in> set (key_events T). ke_code e = code \<and> modifiers e = mods)"
    and "find_key (sorted_tables T) code mods = Some e \<Longrightarrow>
      e \<in> set (key_events T) \<and> ke_code e = code \<and> modifiers e = mods"
proof -
  let ?k = "\<lparr>ke_code = code, modifiers = mods, ke_exec = []\<rparr>"
  have k: "key_ok ?k" using assms by (simp add: key_ok_def)
  have z: "key_event_compare ?k e = 0 \<longleftrightarrow> ke_code e = code \<and> modifiers e = mods" if "e \<in> set (key_events T)" for e
    using key_event_compare_0[OF k, of e] assms(1) that by (auto simp: list_all_iff)
  show "find_key (sorted_tables T) code mods \<noteq> None \<longleftrightarrow>
      (\<exists>e \<in> set (key_events T). ke_code e = code \<and> modifiers e = mods)"
    using key_table.bsearch_iff[of ?k "key_events T"] k assms(1) z by (simp add: find_key_def sorted_tables_def)
  show "e \<in> set (key_events T) \<and> ke_code e = code \<and> modifiers e = mods"
    if "find_key (sorted_tables T) code mods = Some e"
    using bsearch_sound[of key_event_compare ?k "qsort key_event_compare (key_events T)" e] that z
    by (auto simp: find_key_def sorted_tables_def)
qed

definition no_key :: current_key where
  "no_key = \<lparr>cur_code = None, cur_modifiers = []\<rparr>"

text \<open>A chord: one key is held, a second one pressed and released.\<close>

definition chord :: "(nat \<Rightarrow> string option) \<Rightarrow> (string list \<Rightarrow> string list) \<Rightarrow> event_tables \<Rightarrow> nat \<Rightarrow> nat \<Rightarrow> key_event_t option" where
  "chord KEY_NAME psort T k1 k2 =
     (let cur = snd (key_event_parse KEY_NAME psort T k1 True no_key);
          cur = snd (key_event_parse KEY_NAME psort T k2 True cur)
      in fst (key_event_parse KEY_NAME psort T k2 False cur))"

text \<open>Holding one key and pressing a second one, then releasing it, fires a command exactly when
  one is configured for the second key with the first as its only modifier.\<close>

theorem chord_fires_iff:
  assumes T: "list_all key_ok (key_events T)" and names: "\<And>k. c_string (key_event_name KEY_NAME k)"
    and diff: "key_event_name KEY_NAME k1 \<noteq> key_event_name KEY_NAME k2"
    and one: "\<And>m. psort [m] = [m]"
  shows "chord KEY_NAME psort (sorted_tables T) k1 k2 \<noteq> None \<longleftrightarrow>
    (\<exists>e \<in> set (key_events T). ke_code e = key_event_name KEY_NAME k2 \<and>
       modifiers e = [key_event_modifier_name (key_event_name KEY_NAME k1)])"
proof -
  have m: "c_string (key_event_modifier_name n)" if "c_string n" for n
    using that by (simp add: key_event_modifier_name_def c_string_def nul_def)
  have "chord KEY_NAME psort (sorted_tables T) k1 k2 =
    find_key (sorted_tables T) (key_event_name KEY_NAME k2) [key_event_modifier_name (key_event_name KEY_NAME k1)]"
    using diff one by (simp add: chord_def key_event_parse_def key_pressed_def key_released_def no_key_def MAX_MODIFIERS_def)
  then show ?thesis using find_key_iff(1)[OF T names[of k2], of "[key_event_modifier_name (key_event_name KEY_NAME k1)]"]
    m[OF names[of k1]] by simp
qed

section \<open>The time-out\<close>

text \<open>The interval of the idle timer is the greatest common divisor of all configured times, cut to
  32 bits.\<close>

theorem config_min_timeout_gcd: "unat (config_min_timeout a b) = gcd (unat a) (unat b) mod 2 ^ 32"
proof (induction a b rule: config_min_timeout.induct)
  case (1 a b)
  show ?case
  proof (cases "b = 0")
    case True
    then show ?thesis by (simp add: config_min_timeout.simps unsigned_ucast_eq take_bit_eq_mod)
  next
    case False
    then have "unat (config_min_timeout b (a mod b)) = gcd (unat b) (unat a mod unat b) mod 2 ^ 32"
      using 1 by (simp add: unat_mod)
    then show ?thesis using False by (subst config_min_timeout.simps) (simp add: gcd.commute[of "unat a"] gcd_red_nat[symmetric])
  qed
qed

end
