(* ===== verification/InputProps.thy ===== *)
theory InputProps
  imports InputEvent InputTables
begin

text \<open>
  Proofs about the input event library: clicks follow the same reference pairing as in the
  hot-plug library, slides follow the ring of keys and read outside it exactly for other keys,
  and a device that is unplugged blocks the listener.
\<close>

section \<open>Clicks\<close>

definition no_gesture :: kgesture where
  "no_gesture = \<lparr>kg_key_code = 0, kg_action = 0, kg_slide_value = 0, kg_new_action = False, kg_long_press_time = 0\<rparr>"

definition reported :: "bool \<times> kgesture \<times> 'w in_state \<Rightarrow> 'w in_state \<times> (int \<times> int) list" where
  "reported r = (snd (snd r), if fst r then [(kg_action (fst (snd r)), kg_key_code (fst (snd r)))] else [])"

text \<open>A tap of the key \<open>K\<close>: pressed at \<open>t\<close> and released later.  The time-out is the first call
  without an event after the time limit.\<close>

definition press_key :: "int \<Rightarrow> 64 word \<Rightarrow> 'w in_state \<Rightarrow> 'w in_state \<times> (int \<times> int) list" where
  "press_key K t s =
     (let (s, xs) = reported (click_event K 1 t (no_gesture, s));
          (s, ys) = reported (click_event K 0 t (no_gesture, s))
      in (s, xs @ ys))"

definition no_event :: "'w in_state \<Rightarrow> 'w in_state \<times> (int \<times> int) list" where
  "no_event s = reported (click_event NONE_KEY_CODE 1
     (click_time s + word_of_int (MAX_DOUBLE_CLICK_DELAY_TIME s) + 1) (no_gesture, s))"

definition soon :: "int \<Rightarrow> 64 word \<Rightarrow> 64 word \<Rightarrow> bool" where
  "soon T t u \<longleftrightarrow> u - t \<le> word_of_int T"

definition click_of :: "int \<Rightarrow> 64 word \<times> bool \<Rightarrow> int \<times> int" where
  "click_of K r = (if snd r then DOUBLE_CLICK else SINGLE_CLICK, K)"

definition limit_ok :: "int \<Rightarrow> int \<Rightarrow> bool" where
  "limit_ok T K \<longleftrightarrow> 0 \<le> T \<and> T < 2 ^ 31 \<and> K \<noteq> NONE_KEY_CODE"

lemma limit_late: "0 \<le> T \<Longrightarrow> T < 2 ^ 31 \<Longrightarrow> (word_of_int T :: 64 word) < word_of_int T + 1"
proof -
  assume T: "0 \<le> T" "T < 2 ^ 31"
  have u: "uint (word_of_int k :: 64 word) = k" if "0 \<le> k" "k < 2 ^ 64" for k
    using that by (simp add: uint_word_of_int_eq take_bit_int_eq_self)
  have "(word_of_int T + 1 :: 64 word) = word_of_int (T + 1)" by simp
  then show ?thesis using u[of T] u[of "T + 1"] T by (simp only: word_less_def) simp
qed

lemmas key_click_defs = press_key_def no_event_def reported_def click_event_def clicked_def no_gesture_def
  click_late_def soon_def click_of_def limit_ok_def

interpretation key_taps: tap_recogniser "soon T" "\<lambda>t. t \<noteq> 0 \<and> limit_ok T K"
  "\<lambda>s. click_time s = 0 \<and> MAX_DOUBLE_CLICK_DELAY_TIME s = T"
  "\<lambda>t s. click_time s = t \<and> t \<noteq> 0 \<and> click_key_code s = K \<and> MAX_DOUBLE_CLICK_DELAY_TIME s = T \<and> limit_ok T K"
  "press_key K" no_event "click_of K" for T K :: int
proof (unfold_locales, goal_cases)
  case (1 e s)
  then show ?case by (auto simp: key_click_defs)
next
  case (2 f e s)
  then show ?case by (auto simp: key_click_defs not_less)
next
  case (3 f e s)
  then show ?case by (auto simp: key_click_defs not_le)
next
  case (4 s)
  then show ?case by (auto simp: key_click_defs)
next
  case (5 e s)
  then have "(word_of_int T :: 64 word) < word_of_int T + 1" using limit_late by (simp add: limit_ok_def)
  then show ?case using 5 by (auto simp: key_click_defs add.assoc)
qed

text \<open>Taps of one key are reported as the reference pairing says.\<close>

theorem key_taps_equiv:
  assumes "click_time s = 0" and "limit_ok (MAX_DOUBLE_CLICK_DELAY_TIME s) K" and "0 \<notin> set ts"
  shows "(let (s, xs) = run_taps (press_key K) ts s in xs @ snd (no_event s)) =
    map (click_of K) (pairing (soon (MAX_DOUBLE_CLICK_DELAY_TIME s)) ts)"
  using key_taps.run_pairing[of s "MAX_DOUBLE_CLICK_DELAY_TIME s" K ts] assms
  by (auto simp: list_all_iff)

section \<open>Slides\<close>

lemma neighbours_cases:
  "slide_neighbours c = (if 2 \<le> c \<and> c \<le> 9
     then Some (if c = 2 then 9 else c - 1, if c = 9 then 2 else c + 1) else None)"
proof (cases "2 \<le> c \<and> c \<le> 9")
  case True
  then have "c \<in> {2, 3, 4, 5, 6, 7, 8, 9}" by auto
  then show ?thesis
    by (elim insertE) (simp_all add: slide_neighbours_def key_array_def KEY_ARRAYS_def KEY_COUNTS_def MINUS_KEY_VALUE_def)
next
  case False
  then show ?thesis
    by (auto simp: slide_neighbours_def key_array_def KEY_ARRAYS_def KEY_COUNTS_def MINUS_KEY_VALUE_def Let_def
        split: Option.bind_split)
qed

text \<open>A touch of a key while an earlier one is remembered and in time.\<close>

definition second_touch :: "int \<Rightarrow> 64 word \<Rightarrow> 'w in_state \<Rightarrow> bool" where
  "second_touch code t s \<longleftrightarrow> slide_time s \<noteq> 0 \<and> code \<noteq> NONE_KEY_CODE \<and>
     t - slide_time s \<le> word_of_int (MAX_SLIDE_DELAY_TIME s)"

lemma ring_next:
  "c \<in> {2..9} \<Longrightarrow> code \<in> {2..9} \<Longrightarrow> (code - c) mod 8 = 1 \<longleftrightarrow> code = (if c = 9 then 2 else c + 1)" for c code :: int
  by auto presburger+

lemma ring_prev:
  "c \<in> {2..9} \<Longrightarrow> code \<in> {2..9} \<Longrightarrow> (code - c) mod 8 = 7 \<longleftrightarrow> code = (if c = 2 then 9 else c - 1)" for c code :: int
  by auto presburger+

text \<open>C38. A second touch in time: outside the ring of the keys 2 to 9 the table is read out of bounds;
  on the ring the direction is that of the neighbour, and any other key is no slide.\<close>

theorem slide_direction:
  assumes "second_touch code t s"
  shows "case slide_event code 1 t (g, s) of
      None \<Rightarrow> slide_key_code s \<notin> {2..9}
    | Some (sl, g', s') \<Rightarrow> slide_key_code s \<in> {2..9} \<and> slide_key_code s' = code \<and> slide_time s' = t \<and>
        sl = kg_new_action g' \<and>
        (sl \<longleftrightarrow> code \<in> {2..9} \<and> (code - slide_key_code s) mod 8 \<in> {1, 7}) \<and>
        (sl \<longrightarrow> kg_action g' = SLIDE \<and> kg_slide_value g' = (if (code - slide_key_code s) mod 8 = 1 then 1 else -1))"
proof (cases "slide_key_code s \<in> {2..9}")
  case True
  let ?c = "slide_key_code s" and ?p = "if slide_key_code s = 2 then 9 else slide_key_code s - 1"
    and ?n = "if slide_key_code s = 9 then 2 else slide_key_code s + 1"
  let ?u = "s\<lparr>slide_key_code := code, slide_time := t\<rparr>"
  have r: "slide_event code 1 t (g, s) = (if code = ?p then Some (True, slid (-1) g, ?u)
      else if code = ?n then Some (True, slid 1 g, ?u) else Some (False, g\<lparr>kg_new_action := False\<rparr>, ?u))"
    using assms True leD[of "t - slide_time s" "word_of_int (MAX_SLIDE_DELAY_TIME s)"]
    by (simp add: slide_event_def second_touch_def neighbours_cases Let_def)
  have rng: "?p \<in> {2..9}" "?n \<in> {2..9}" "?p \<noteq> ?n" using True by auto
  consider "code = ?p" | "code = ?n" | "code \<noteq> ?p" "code \<noteq> ?n" by blast
  then show ?thesis
  proof cases
    case 1
    then have "(code - ?c) mod 8 = 7" using ring_prev[OF True, of code] rng by metis
    then show ?thesis using 1 rng True unfolding r by (simp add: slid_def)
  next
    case 2
    then have "(code - ?c) mod 8 = 1" using ring_next[OF True, of code] rng by metis
    then show ?thesis using 2 rng True unfolding r by (simp add: slid_def)
  next
    case 3
    then have "\<not> (code \<in> {2..9} \<and> (code - ?c) mod 8 \<in> {1, 7})"
      using ring_prev[OF True, of code] ring_next[OF True, of code] by auto
    then show ?thesis using 3 True unfolding r by simp
  qed
next
  case False
  then have "slide_event code 1 t (g, s) = None"
    using assms leD[of "t - slide_time s" "word_of_int (MAX_SLIDE_DELAY_TIME s)"]
    by (auto simp: slide_event_def second_touch_def neighbours_cases Let_def)
  then show ?thesis using False by simp
qed

section \<open>Unplugged devices\<close>

lemma select_loop_fails:
  assumes "\<And>w. fst (fst (n_select E nfds fds tv w)) < 0"
  shows "select_loop E nfds fds tv w = None"
proof (rule ccontr)
  assume "select_loop E nfds fds tv w \<noteq> None"
  then obtain r where r: "select_loop E nfds fds tv w = Some r" by auto
  have "E = E \<longrightarrow> nfds = nfds \<longrightarrow> fds = fds \<longrightarrow> tv = tv \<longrightarrow> False"
  proof (rule select_loop.raw_induct[of "\<lambda>E' n' f' t' w' r'. E' = E \<longrightarrow> n' = nfds \<longrightarrow> f' = fds \<longrightarrow> t' = tv \<longrightarrow> False", OF _ r], goal_cases)
    case (1 loop E' n' f' t' w' r')
    show ?case
    proof (intro impI)
      assume e: "E' = E" "n' = nfds" "f' = fds" "t' = tv"
      obtain q w1 where q: "n_select E nfds fds tv w' = (q, w1)" by (cases "n_select E nfds fds tv w'")
      then have "fst q < 0" using assms[of w'] by simp
      then show False using 1(1)[of E' n' f' t' w1 r'] 1(2) q e by auto
    qed
  qed
  then show False by simp
qed

text \<open>The descriptor of a device that was removed stays in the set that is passed to \<open>select\<close>; when
  \<open>select\<close> refuses sets with a closed descriptor, the next call of the listener does not return.\<close>

theorem unplugged_device_blocks:
  assumes "listen_fd s ! i = fd" and "fd \<in> set (initial_fdset s)" and "n_sw_keynumber s = 0"
    and refuses: "\<And>nfds fds tv w. fd \<in> set fds \<Longrightarrow> fst (fst (n_select E nfds fds tv w)) < 0"
  shows "daemon_start_listener E \<lparr>du = d, ge = g, ls = drop_listener E i s\<rparr> = None"
proof -
  let ?s = "drop_listener E i s"
  have f: "initial_fdset ?s = initial_fdset s" "n_sw_keynumber ?s = n_sw_keynumber s"
    by (simp_all add: drop_listener_def Let_def)
  have "select_loop E nfds (initial_fdset ?s) tv w = None" for nfds tv w
    using select_loop_fails[of E nfds "initial_fdset s" tv w] refuses assms(2) f by simp
  moreover obtain t w where "n_time E (n_world ?s) = (t, w)" by (cases "n_time E (n_world ?s)")
  ultimately show ?thesis
    using f assms(3) by (simp add: daemon_start_listener_def nio_def Let_def)
qed

section \<open>Instances\<close>

text \<open>A laboratory environment: \<open>select\<close> refuses sets with the descriptor 5.\<close>

definition in_lab :: "unit in_env" where
  "in_lab = \<lparr>n_gpio = \<lparr>gp_file = None, gp_open = \<lambda>p w. (-1, w), gp_read = \<lambda>fd w. (None, w)\<rparr>,
     n_access = \<lambda>p w. (False, w), n_open = \<lambda>p w. (5, w), n_close = \<lambda>fd w. w, n_read = \<lambda>fd w. (Raw_err, w),
     n_select = \<lambda>n fds tv w. ((if 5 \<in> set fds then -1 else 0, []), w), n_time = \<lambda>w. ((1, 0), w),
     n_popen = \<lambda>c w. (None, w), n_exec = \<lambda>c w. w\<rparr>"

definition lab_tables :: event_tables where
  "lab_tables = \<lparr>key_events = [\<lparr>ke_code = ''C'', modifiers = [''CTRL''], ke_exec = ''copy''\<rparr>,
       \<lparr>ke_code = ''B'', modifiers = [], ke_exec = ''beep''\<rparr>],
     idle_events = [], switch_events = [], min_timeout = 3600, listen = []\<rparr>"

definition lab_keys :: "unit in_state" where
  "lab_keys = \<lparr>n_world = (), conf = lab_tables, conf_listen = [Some ''/dev/input/event0''], listen_fd = [5], fd_len = 1,
     initial_fdset = [5], raw_event = \<lparr>re_time = (0, 0), re_type = 0, re_code = 0, re_value = 0\<rparr>, idle_time = 0,
     n_sw_keycode = [], n_sw_keyvalue = [], n_sw_keynumber = 0, isCharging = False, tm_start = 0,
     HAS_SLIDE_EVENT = True, MAX_DOUBLE_CLICK_DELAY_TIME = 400, MAX_SLIDE_DELAY_TIME = 300, TIME_OUT = 300,
     click_key_code = -1, click_key_count = 0, click_time = 0, cache_press_time = 0, long_press_state = False,
     long_press_code = -1, slide_key_code = 9, slide_time = 1000\<rparr>"

theorem key_taps_equiv_witness:
  "(let (s, xs) = run_taps (press_key 113) [1000, 1300, 2000, 3000] lab_keys in xs @ snd (no_event s)) =
    [(2, 113), (1, 113), (1, 113)]"
  using key_taps_equiv[of lab_keys 113 "[1000, 1300, 2000, 3000]"]
  by (simp add: lab_keys_def limit_ok_def NONE_KEY_CODE_def soon_def click_of_def DOUBLE_CLICK_def SINGLE_CLICK_def)

theorem slide_direction_witness:
  "second_touch 2 1200 lab_keys \<and> (case slide_event 2 1 1200 (no_gesture, lab_keys) of
      None \<Rightarrow> False | Some (sl, g, s) \<Rightarrow> sl = kg_new_action g \<and> slide_key_code s = 2)"
proof -
  have h: "second_touch 2 1200 lab_keys" by (simp add: second_touch_def lab_keys_def NONE_KEY_CODE_def)
  have k: "slide_key_code lab_keys = 9" by (simp add: lab_keys_def)
  show ?thesis
    using slide_direction[OF h, of no_gesture] h k by (auto split: option.splits prod.splits)
qed

theorem unplugged_device_blocks_witness:
  "daemon_start_listener in_lab \<lparr>du = \<lparr>ke_action = 0, ke_key_code = 0, ke_key_time = 0, ke_value = 0, ke_new_action = False\<rparr>,
     ge = no_gesture, ls = drop_listener in_lab 0 lab_keys\<rparr> = None"
  by (rule unplugged_device_blocks[where fd = 5]) (simp_all add: lab_keys_def in_lab_def)

definition lab_names :: "nat \<Rightarrow> string option" where
  "lab_names k = (if k = 29 then Some ''LEFTCTRL'' else if k = 46 then Some ''C'' else None)"

theorem chord_fires_iff_witness:
  "chord lab_names id (sorted_tables lab_tables) 29 46 \<noteq> None"
proof -
  have n: "c_string (key_event_name lab_names k)" for k
    by (auto simp: key_event_name_def lab_names_def c_string_def nul_def KEY_MAX_def)
  have t: "list_all key_ok (key_events lab_tables)"
    by (simp add: lab_tables_def key_ok_def c_string_def nul_def)
  show ?thesis
    using chord_fires_iff[OF t n, of 29 46 id]
    by (simp add: lab_tables_def key_event_name_def lab_names_def KEY_MAX_def key_event_modifier_name_def)
qed

end
