(* ===== verification/BtConfig.thy ===== *)
theory BtConfig
  imports JsonModel MacText
begin

text \<open>
  The list of known devices of the bluetooth service (\<open>framework/services/bluetooth/src/config.c\<close>):
  an array of \<open>autoconnect_num\<close> devices with the most recent one first, saved as JSON text.
  File access and the JSON text functions are parameters.  An access outside the array, a
  name that leaves no room for its terminator and the use of a NULL string are the outcome \<open>None\<close>.
\<close>

section \<open>Data\<close>

record autoconnect_device =
  dev_name :: string
  dev_addr :: "8 word list"

record autoconnect_config =
  autoconnect_index :: int
  autoconnect_mode :: int
  autoconnect_num :: int
  autoconnect_flag :: int
  autoconnect_linknum :: int
  autoconnect_filename :: string
  cfg_dev :: "autoconnect_device list"

definition ROKIDOS_BT_AUTOCONNECT_BY_SCANRESULTS :: int where "ROKIDOS_BT_AUTOCONNECT_BY_SCANRESULTS = 0"
definition ROKIDOS_BT_AUTOCONNECT_BY_HISTORY :: int where "ROKIDOS_BT_AUTOCONNECT_BY_HISTORY = 1"
definition ROKIDOS_BT_AUTOCONNECT_MODE :: int where
  "ROKIDOS_BT_AUTOCONNECT_MODE = ROKIDOS_BT_AUTOCONNECT_BY_HISTORY"
definition ROKIDOS_BT_AUTOCONNECT_DEVICES_MAX_NUM :: int where "ROKIDOS_BT_AUTOCONNECT_DEVICES_MAX_NUM = 3"
definition DEV_NAME_LEN :: nat where "DEV_NAME_LEN = 249"

definition zero_addr :: "8 word list" where "zero_addr = replicate 6 0"
definition zero_dev :: autoconnect_device where "zero_dev = \<lparr>dev_name = [], dev_addr = zero_addr\<rparr>"

text \<open>Loading opens the file and reads at most 1023 bytes, \<open>None\<close> if it cannot be opened; saving
  replaces the file and fails only if it cannot be created.\<close>

record 'w store_ops =
  so_load :: "string \<Rightarrow> 'w \<Rightarrow> string option \<times> 'w"
  so_save :: "string \<Rightarrow> string \<Rightarrow> 'w \<Rightarrow> bool \<times> 'w"
  so_text :: "json \<Rightarrow> string"
  so_parse :: "string \<Rightarrow> json"

section \<open>Addresses\<close>

text \<open>The loop over the six bytes: \<open>i\<close> is the index of the byte at \<open>begin\<close>.\<close>

function strtoba_from :: "nat \<Rightarrow> string \<Rightarrow> 8 word list \<Rightarrow> int \<times> 8 word list" where
  "strtoba_from i begin addr =
     (if i < 6 then
        let (v, end_ptr) = strtoul_hex begin; addr = addr[i := of_nat v] in
        if end_ptr = [] then (if i \<noteq> 5 then -1 else 0, addr)
        else if hd end_ptr \<noteq> CHR '':'' then (-1, addr)
        else strtoba_from (Suc i) (tl end_ptr) addr
      else (-1, addr))"
  by auto
termination
  by (relation "measure (\<lambda>(i, b, a). 6 - i)") auto

declare strtoba_from.simps [simp del]

text \<open>The length is taken before the test for NULL.\<close>

definition bd_strtoba :: "8 word list \<Rightarrow> string option \<Rightarrow> (int \<times> 8 word list) option" where
  "bd_strtoba addr address =
     (case address of
        None \<Rightarrow> None
      | Some a \<Rightarrow> Some (if length a \<noteq> 17 then (-1, addr) else strtoba_from 0 a addr))"

section \<open>The list of devices\<close>

text \<open>The search loop: the devices from index \<open>i\<close> on, of which \<open>n\<close> are to be looked at.\<close>

fun get_index_from :: "autoconnect_device list \<Rightarrow> 8 word list \<Rightarrow> int \<Rightarrow> nat \<Rightarrow> int option" where
  "get_index_from ds a i 0 = Some (-1)"
| "get_index_from [] a i (Suc n) = None"
| "get_index_from (d # ds) a i (Suc n) = (if dev_addr d = a then Some i else get_index_from ds a (i + 1) n)"

definition bt_autoconnect_get_index :: "autoconnect_config \<Rightarrow> 8 word list \<Rightarrow> int option" where
  "bt_autoconnect_get_index c a = get_index_from (cfg_dev c) a 0 (nat (autoconnect_num c))"

text \<open>\<open>shift_down i\<close>: for \<open>i\<close> down to 1, entry \<open>i\<close> becomes entry \<open>i - 1\<close>.\<close>

fun shift_down :: "nat \<Rightarrow> 'a list \<Rightarrow> 'a list" where
  "shift_down 0 ds = ds"
| "shift_down (Suc i) ds = shift_down i (ds[Suc i := ds ! i])"

text \<open>The search has passed over all \<open>autoconnect_num\<close> entries or stopped at \<open>index\<close>, so the entries
  the loops move exist.\<close>

definition bt_autoconnect_update ::
  "autoconnect_config \<Rightarrow> autoconnect_device \<Rightarrow> (int \<times> autoconnect_config) option" where
  "bt_autoconnect_update c d = do {
     index \<leftarrow> bt_autoconnect_get_index c (dev_addr d);
     Some (if index < 0 then
        if autoconnect_num c < 1 then (-1, c)
        else let c = c\<lparr>cfg_dev := (shift_down (nat (autoconnect_num c - 1)) (cfg_dev c))[0 := d]\<rparr> in
          (0, if autoconnect_linknum c < autoconnect_num c
              then c\<lparr>autoconnect_linknum := autoconnect_linknum c + 1\<rparr> else c)
      else (0, c\<lparr>cfg_dev := (shift_down (nat index) (cfg_dev c))[0 := d]\<rparr>))
   }"

text \<open>\<open>shift_up i n\<close>: for \<open>n\<close> indexes from \<open>i\<close> on, entry \<open>i\<close> becomes entry \<open>i + 1\<close>.\<close>

fun shift_up :: "nat \<Rightarrow> nat \<Rightarrow> 'a list \<Rightarrow> 'a list" where
  "shift_up i 0 ds = ds"
| "shift_up i (Suc n) ds = shift_up (Suc i) n (ds[i := ds ! Suc i])"

definition bt_autoconnect_remove ::
  "autoconnect_config \<Rightarrow> 8 word list \<Rightarrow> (int \<times> autoconnect_config) option" where
  "bt_autoconnect_remove c a = do {
     index \<leftarrow> bt_autoconnect_get_index c a;
     if index \<ge> 0 then
       if nat (autoconnect_num c) \<le> length (cfg_dev c) then
         let last = nat (autoconnect_num c - 1);
             c = c\<lparr>cfg_dev := (shift_up (nat index) (last - nat index) (cfg_dev c))[last := zero_dev]\<rparr>
         in Some (0, if autoconnect_linknum c > 0
                     then c\<lparr>autoconnect_linknum := autoconnect_linknum c - 1\<rparr> else c)
       else None
     else Some (-1, c)
   }"

section \<open>Saving and loading\<close>

definition device_item :: "autoconnect_device \<Rightarrow> json" where
  "device_item d = JObj [(''addr'', JStr (mac_text (dev_addr d))), (''name'', JStr (dev_name d))]"

text \<open>\<open>item\<close> has \<open>ROKIDOS_BT_AUTOCONNECT_DEVICES_MAX_NUM\<close> elements.\<close>

definition config_json :: "autoconnect_config \<Rightarrow> json option" where
  "config_json c =
     (if autoconnect_num c > ROKIDOS_BT_AUTOCONNECT_DEVICES_MAX_NUM \<or> nat (autoconnect_num c) > length (cfg_dev c)
      then None
      else Some (JObj [(''autoconnect_num'', JInt (autoconnect_num c)),
                       (''autoconnect_mode'', JInt (autoconnect_mode c)),
                       (''devices'', JArr (map device_item (take (nat (autoconnect_num c)) (cfg_dev c))))]))"

definition bt_autoconnect_sync :: "'w store_ops \<Rightarrow> autoconnect_config \<Rightarrow> 'w \<Rightarrow> (int \<times> 'w) option" where
  "bt_autoconnect_sync E c w = do {
     root \<leftarrow> config_json c;
     let (ok, w) = so_save E (autoconnect_filename c) (so_text E root) w;
     Some (if ok then 0 else -2, w)
   }"

definition bt_config_newinit :: "autoconnect_config \<Rightarrow> int \<times> autoconnect_config" where
  "bt_config_newinit c =
     (0, c\<lparr>autoconnect_mode := ROKIDOS_BT_AUTOCONNECT_MODE, autoconnect_linknum := 0,
           cfg_dev := replicate (nat (autoconnect_num c)) zero_dev\<rparr>)"

text \<open>\<open>strncpy\<close> of \<open>strlen\<close> bytes into a zeroed name.\<close>

definition copy_name :: "string option \<Rightarrow> string option" where
  "copy_name nm = (case nm of None \<Rightarrow> None | Some n \<Rightarrow> if length n < DEV_NAME_LEN then Some n else None)"

text \<open>One round of the loop of \<open>bt_config_parse\<close>, for element \<open>j\<close> with index \<open>i\<close>.\<close>

definition parse_device ::
  "(json \<Rightarrow> string) \<Rightarrow> nat \<Rightarrow> json \<Rightarrow> autoconnect_config \<Rightarrow> autoconnect_config option" where
  "parse_device txt i j c =
     (if j = JNull then Some c
      else case json_object_object_get_ex j ''addr'' of
        None \<Rightarrow> Some c
      | Some a \<Rightarrow>
          if i \<ge> length (cfg_dev c) then None
          else do {
            (r, addr) \<leftarrow> bd_strtoba (dev_addr (cfg_dev c ! i)) (json_object_get_string txt a);
            if r \<noteq> 0 then Some (c\<lparr>cfg_dev := (cfg_dev c)[i := (cfg_dev c ! i)\<lparr>dev_addr := zero_addr\<rparr>]\<rparr>)
            else do {
              let c = c\<lparr>cfg_dev := (cfg_dev c)[i := (cfg_dev c ! i)\<lparr>dev_addr := addr\<rparr>]\<rparr>;
              let c = (if addr \<noteq> zero_addr then c\<lparr>autoconnect_linknum := autoconnect_linknum c + 1\<rparr> else c);
              case json_object_object_get_ex j ''name'' of
                None \<Rightarrow> Some c
              | Some nm \<Rightarrow> do {
                  n \<leftarrow> copy_name (json_object_get_string txt nm);
                  Some (c\<lparr>cfg_dev := (cfg_dev c)[i := (cfg_dev c ! i)\<lparr>dev_name := n\<rparr>]\<rparr>)
                }
            }
          })"

fun parse_devices ::
  "(json \<Rightarrow> string) \<Rightarrow> nat \<Rightarrow> json list \<Rightarrow> autoconnect_config \<Rightarrow> autoconnect_config option" where
  "parse_devices txt i [] c = Some c"
| "parse_devices txt i (j # js) c = Option.bind (parse_device txt i j c) (parse_devices txt (Suc i) js)"

text \<open>\<open>json_object_array_length\<close> needs an array.\<close>

definition bt_config_parse ::
  "(json \<Rightarrow> string) \<Rightarrow> json \<Rightarrow> autoconnect_config \<Rightarrow> (int \<times> autoconnect_config) option" where
  "bt_config_parse txt root c =
     (let c = c\<lparr>autoconnect_mode := ROKIDOS_BT_AUTOCONNECT_MODE\<rparr>;
          c = (if autoconnect_num c \<ge> ROKIDOS_BT_AUTOCONNECT_DEVICES_MAX_NUM
               then c\<lparr>autoconnect_num := ROKIDOS_BT_AUTOCONNECT_DEVICES_MAX_NUM\<rparr> else c);
          c = c\<lparr>cfg_dev := replicate (nat (autoconnect_num c)) zero_dev\<rparr>
      in case json_object_object_get_ex root ''devices'' of
           None \<Rightarrow> Some (0, c)
         | Some (JArr js) \<Rightarrow> do { c \<leftarrow> parse_devices txt 0 js c; Some (0, c) }
         | Some _ \<Rightarrow> None)"

text \<open>The buffer has 1024 bytes and ends with a NUL.\<close>

definition bt_autoconnect_config_init ::
  "'w store_ops \<Rightarrow> autoconnect_config \<Rightarrow> 'w \<Rightarrow> ((int \<times> autoconnect_config) \<times> 'w) option" where
  "bt_autoconnect_config_init E c w =
     (let (buf, w) = so_load E (autoconnect_filename c) w in
      case buf of
        None \<Rightarrow> Some (bt_config_newinit c, w)
      | Some b \<Rightarrow>
          if b = [] then Some (bt_config_newinit c, w)
          else let bt_config = so_parse E (cstr b) in
            if bt_config = JNull then Some (bt_config_newinit c, w)
            else do { r \<leftarrow> bt_config_parse (so_text E) bt_config c; Some (r, w) })"

definition bt_autconnect_config_uninit :: "autoconnect_config \<Rightarrow> autoconnect_config" where
  "bt_autconnect_config_uninit c = c\<lparr>cfg_dev := []\<rparr>"

end
