(* ===== verification/BtState.thy ===== *)
theory BtState
  imports BtConfig
begin

text \<open>
  State, environment and messages of the bluetooth service
  (\<open>framework/services/bluetooth\<close>), and the controller functions every profile uses
  (\<open>bt_open\<close>, \<open>bt_close\<close>).  The functions of the bluetooth HAL (\<open>struct rk_bluetooth\<close>), the clock,
  the property store, the microphone socket and the store of the device lists are parameters,
  functions on a world \<open>'w\<close>.  A NULL dereference or an access outside an array is \<open>None\<close>.
\<close>

section \<open>Data of the HAL\<close>

record bt_device =
  bd_addr :: "8 word list"
  bd_name :: string

definition zero_device :: bt_device where "zero_device = \<lparr>bd_addr = zero_addr, bd_name = []\<rparr>"

definition BT_A2DP_SOURCE :: int where "BT_A2DP_SOURCE = 0"
definition BT_A2DP_SINK :: int where "BT_A2DP_SINK = 1"
definition BT_ALL :: int where "BT_ALL = 7"
definition BT_DISC_NB_DEVICES :: nat where "BT_DISC_NB_DEVICES = 30"
definition BT_AVRC_PLAY :: int where "BT_AVRC_PLAY = 0x44"
definition BT_AVRC_STOP :: int where "BT_AVRC_STOP = 0x45"
definition BT_AVRC_PAUSE :: int where "BT_AVRC_PAUSE = 0x46"
definition BT_AVRC_FORWARD :: int where "BT_AVRC_FORWARD = 0x4B"
definition BT_AVRC_BACKWARD :: int where "BT_AVRC_BACKWARD = 0x4C"
definition BT_AVRC_PLAYSTATE_STOPPED :: int where "BT_AVRC_PLAYSTATE_STOPPED = 0"

text \<open>The functions of one profile that all profiles have.  A list of devices is returned with
  its count; the argument is the size of the array the caller passes.\<close>

record 'w profile_ops =
  p_set_listener :: "'w \<Rightarrow> int \<times> 'w"
  p_enable :: "'w \<Rightarrow> int \<times> 'w"
  p_disable :: "'w \<Rightarrow> int \<times> 'w"
  p_connect :: "8 word list \<Rightarrow> 'w \<Rightarrow> int \<times> 'w"
  p_disconnect :: "8 word list \<Rightarrow> 'w \<Rightarrow> int \<times> 'w"
  p_connected :: "nat \<Rightarrow> 'w \<Rightarrow> (int \<times> bt_device list) \<times> 'w"

text \<open>The two discovery functions may be missing: the code tests the pointers in some places.\<close>

record 'w bt_ops =
  b_open :: "'w \<Rightarrow> int \<times> 'w"
  b_close :: "'w \<Rightarrow> int \<times> 'w"
  b_set_bt_name :: "string option \<Rightarrow> 'w \<Rightarrow> int \<times> 'w"
  b_start_discovery :: "(int \<Rightarrow> 'w \<Rightarrow> int \<times> 'w) option"
  b_cancel_discovery :: "('w \<Rightarrow> int \<times> 'w) option"
  b_remove_dev :: "8 word list \<Rightarrow> 'w \<Rightarrow> int \<times> 'w"
  b_set_visibility :: "bool \<Rightarrow> bool \<Rightarrow> 'w \<Rightarrow> int \<times> 'w"
  b_disc_devices :: "nat \<Rightarrow> 'w \<Rightarrow> (int \<times> bt_device list) \<times> 'w"
  b_bonded_devices :: "nat \<Rightarrow> 'w \<Rightarrow> (int \<times> bt_device list) \<times> 'w"
  b_module_addr :: "'w \<Rightarrow> (int \<times> 8 word list) \<times> 'w"
  b_config_clear :: "'w \<Rightarrow> int \<times> 'w"
  b_ble :: "'w profile_ops"
  b_ble_send :: "int \<Rightarrow> 8 word list \<Rightarrow> 'w \<Rightarrow> int \<times> 'w"
  b_ble_visibility :: "bool \<Rightarrow> bool \<Rightarrow> 'w \<Rightarrow> int \<times> 'w"
  b_blec :: "'w profile_ops"
  b_blec_register :: "string option \<Rightarrow> string option \<Rightarrow> 'w \<Rightarrow> int \<times> 'w"
  b_blec_read :: "string option \<Rightarrow> string option \<Rightarrow> 'w \<Rightarrow> int \<times> 'w"
  b_blec_write :: "8 word list \<Rightarrow> 8 word list \<Rightarrow> 8 word list \<Rightarrow> 'w \<Rightarrow> int \<times> 'w"
  b_sink :: "'w profile_ops"
  b_avrc :: "int \<Rightarrow> 'w \<Rightarrow> int \<times> 'w"
  b_get_playstatus :: "'w \<Rightarrow> int \<times> 'w"
  b_set_mute :: "bool \<Rightarrow> 'w \<Rightarrow> int \<times> 'w"
  b_set_abs_vol :: "8 word \<Rightarrow> 'w \<Rightarrow> int \<times> 'w"
  b_get_playing :: "'w \<Rightarrow> int \<times> 'w"
  b_get_element_attrs :: "'w \<Rightarrow> int \<times> 'w"
  b_source :: "'w profile_ops"
  b_hfp :: "'w profile_ops"
  b_hfp_uart :: bool
  b_answercall :: "'w \<Rightarrow> int \<times> 'w"
  b_hangup :: "'w \<Rightarrow> int \<times> 'w"
  b_dial_num :: "string option \<Rightarrow> 'w \<Rightarrow> int \<times> 'w"
  b_hh :: "'w profile_ops"
  b_store :: "'w store_ops"
  b_now :: "'w \<Rightarrow> int \<times> 'w"
  b_property_set :: "string \<Rightarrow> string \<Rightarrow> 'w \<Rightarrow> int \<times> 'w"
  b_mic_connect :: "'w \<Rightarrow> int \<times> 'w"
  b_mic_recv :: "nat \<Rightarrow> 'w \<Rightarrow> int \<times> 'w"
  b_hw_get_module :: "'w \<Rightarrow> int \<times> 'w"
  b_device_open :: "'w \<Rightarrow> int \<times> 'w"
  b_creat :: "'w \<Rightarrow> int \<times> 'w"
  b_destroy :: "'w \<Rightarrow> int \<times> 'w"
  b_device_close :: "'w \<Rightarrow> int \<times> 'w"
  b_timer_add :: "'w \<Rightarrow> int \<times> 'w"
  b_system :: "string \<Rightarrow> 'w \<Rightarrow> int \<times> 'w"

section \<open>State of the service\<close>

text \<open>The five kinds of open state, in the order of their numbers; the code compares them.\<close>

datatype open_state = S_INVALID | S_OPEN | S_OPENED | S_OPENFAILED | S_CLOSE | S_CLOSING | S_CLOSED

datatype ble_open = BLE_INIVATE | BLE_STATE_OPEN | BLE_STATE_OPENING | BLE_STATE_OPENFAILED | BLE_STATE_OPENED
  | BLE_STATE_CONNECTED | BLE_STATE_HANDSHAKED | BLE_STATE_DISCONNECTED | BLE_STATE_CLOSE | BLE_STATE_CLOSING
  | BLE_STATE_CLOSED

datatype blec_open = BLE_CLI_OPEN_INVALID | BLE_CLI_STATE_OPENING | BLE_CLI_STATE_OPENFAILED | BLE_CLI_STATE_OPENED
  | BLE_CLI_STATE_CLOSE | BLE_CLI_STATE_CLOSING | BLE_CLI_STATE_CLOSED

datatype hh_open = HH_STATE_INVALID | HH_STATE_OPEN | HH_STATE_OPENING | HH_STATE_OPENFAILED | HH_STATE_OPENED
  | HH_STATE_CLOSE | HH_STATE_CLOSING | HH_STATE_CLOSED

datatype link = L_INVALID | L_CONNECTING | L_CONNECTED | L_CONNECTEFAILED | L_CONNECTEOVER | L_DISCONNECTING
  | L_DISCONNECTED

datatype play = PLAY_INVALID | PLAY_PLAYED | PLAY_STOPED

datatype broadcast = BC_NONE | BC_OPENED | BC_CLOSED

datatype subsequent = SUB_NONE | SUB_PLAY | SUB_PAUSE | SUB_STOP

fun open_rank :: "open_state \<Rightarrow> nat" where
  "open_rank S_INVALID = 0" | "open_rank S_OPEN = 1" | "open_rank S_OPENED = 2" | "open_rank S_OPENFAILED = 3"
| "open_rank S_CLOSE = 4" | "open_rank S_CLOSING = 5" | "open_rank S_CLOSED = 6"

fun ble_rank :: "ble_open \<Rightarrow> nat" where
  "ble_rank BLE_INIVATE = 0" | "ble_rank BLE_STATE_OPEN = 1" | "ble_rank BLE_STATE_OPENING = 2"
| "ble_rank BLE_STATE_OPENFAILED = 3" | "ble_rank BLE_STATE_OPENED = 4" | "ble_rank BLE_STATE_CONNECTED = 5"
| "ble_rank BLE_STATE_HANDSHAKED = 6" | "ble_rank BLE_STATE_DISCONNECTED = 7" | "ble_rank BLE_STATE_CLOSE = 8"
| "ble_rank BLE_STATE_CLOSING = 9" | "ble_rank BLE_STATE_CLOSED = 10"

fun blec_rank :: "blec_open \<Rightarrow> nat" where
  "blec_rank BLE_CLI_OPEN_INVALID = 0" | "blec_rank BLE_CLI_STATE_OPENING = 1"
| "blec_rank BLE_CLI_STATE_OPENFAILED = 2" | "blec_rank BLE_CLI_STATE_OPENED = 3"
| "blec_rank BLE_CLI_STATE_CLOSE = 4" | "blec_rank BLE_CLI_STATE_CLOSING = 5" | "blec_rank BLE_CLI_STATE_CLOSED = 6"

fun hh_rank :: "hh_open \<Rightarrow> nat" where
  "hh_rank HH_STATE_INVALID = 0" | "hh_rank HH_STATE_OPEN = 1" | "hh_rank HH_STATE_OPENING = 2"
| "hh_rank HH_STATE_OPENFAILED = 3" | "hh_rank HH_STATE_OPENED = 4" | "hh_rank HH_STATE_CLOSE = 5"
| "hh_rank HH_STATE_CLOSING = 6" | "hh_rank HH_STATE_CLOSED = 7"

instantiation open_state :: linorder
begin
definition less_eq_open_state :: "open_state \<Rightarrow> open_state \<Rightarrow> bool" where
  "a \<le> b \<longleftrightarrow> open_rank a \<le> open_rank b"
definition less_open_state :: "open_state \<Rightarrow> open_state \<Rightarrow> bool" where
  "a < b \<longleftrightarrow> open_rank a < open_rank b"
instance
proof
  fix a b :: open_state
  show "a \<le> b \<Longrightarrow> b \<le> a \<Longrightarrow> a = b" by (cases a; cases b) (auto simp: less_eq_open_state_def)
qed (auto simp: less_eq_open_state_def less_open_state_def)
end

instantiation ble_open :: linorder
begin
definition less_eq_ble_open :: "ble_open \<Rightarrow> ble_open \<Rightarrow> bool" where
  "a \<le> b \<longleftrightarrow> ble_rank a \<le> ble_rank b"
definition less_ble_open :: "ble_open \<Rightarrow> ble_open \<Rightarrow> bool" where
  "a < b \<longleftrightarrow> ble_rank a < ble_rank b"
instance
proof
  fix a b :: ble_open
  show "a \<le> b \<Longrightarrow> b \<le> a \<Longrightarrow> a = b" by (cases a; cases b) (auto simp: less_eq_ble_open_def)
qed (auto simp: less_eq_ble_open_def less_ble_open_def)
end

instantiation blec_open :: linorder
begin
definition less_eq_blec_open :: "blec_open \<Rightarrow> blec_open \<Rightarrow> bool" where
  "a \<le> b \<longleftrightarrow> blec_rank a \<le> blec_rank b"
definition less_blec_open :: "blec_open \<Rightarrow> blec_open \<Rightarrow> bool" where
  "a < b \<longleftrightarrow> blec_rank a < blec_rank b"
instance
proof
  fix a b :: blec_open
  show "a \<le> b \<Longrightarrow> b \<le> a \<Longrightarrow> a = b" by (cases a; cases b) (auto simp: less_eq_blec_open_def)
qed (auto simp: less_eq_blec_open_def less_blec_open_def)
end

instantiation hh_open :: linorder
begin
definition less_eq_hh_open :: "hh_open \<Rightarrow> hh_open \<Rightarrow> bool" where
  "a \<le> b \<longleftrightarrow> hh_rank a \<le> hh_rank b"
definition less_hh_open :: "hh_open \<Rightarrow> hh_open \<Rightarrow> bool" where
  "a < b \<longleftrightarrow> hh_rank a < hh_rank b"
instance
proof
  fix a b :: hh_open
  show "a \<le> b \<Longrightarrow> b \<le> a \<Longrightarrow> a = b" by (cases a; cases b) (auto simp: less_eq_hh_open_def)
qed (auto simp: less_eq_hh_open_def less_hh_open_def)
end

named_theorems rank_simps \<open>comparisons of open states by their numbers\<close>
declare less_eq_open_state_def [rank_simps] less_open_state_def [rank_simps] less_eq_ble_open_def [rank_simps]
  less_ble_open_def [rank_simps] less_eq_blec_open_def [rank_simps] less_blec_open_def [rank_simps]
  less_eq_hh_open_def [rank_simps] less_hh_open_def [rank_simps]

datatype bt_function = BLUETOOTH_FUNCTION_COMMON | BLUETOOTH_FUNCTION_BLE | BLUETOOTH_FUNCTION_BLE_CLIENT
  | BLUETOOTH_FUNCTION_A2DPSINK | BLUETOOTH_FUNCTION_A2DPSOURCE | BLUETOOTH_FUNCTION_HFP | BLUETOOTH_FUNCTION_HH
  | BLUETOOTH_FUNCTION_BLE_CLI_NOTIFY | BLUETOOTH_FUNCTION_BLE_CLI_READ

record a2dpsink_state =
  discoverable :: bool
  snk_open :: open_state
  snk_link :: link
  snk_play :: play
  snk_broadcast :: broadcast
  rc_open :: bool

record a2dpsource_state =
  src_open :: open_state
  src_link :: link
  src_broadcast :: broadcast

record hfp_state =
  hfp_open :: open_state
  hfp_link :: link
  service :: int
  call :: int
  callsetup :: int
  callheld :: int
  audio :: int

text \<open>\<open>bt_present\<close> is the pointer \<open>bt\<close> of the handle.  Timers are the flags of being armed; a one-shot timer is disarmed when it fires.  \<open>bt_mic\<close> is
  the socket of \<open>turen.c\<close> (\<open>socketfd >= 0\<close>).  \<open>bt_events\<close> are the posted messages, \<open>bt_replies\<close> the
  answers written to the caller of a method.\<close>

record 'w bt_state =
  bt_world :: 'w
  bt_present :: bool
  bt_status :: "32 word"
  bt_opened :: bool
  bt_scanning :: bool
  ble_state :: ble_open
  ble_msgid :: int
  ble_sendbuf :: "8 word list"
  ble_index :: int
  cmcc_index :: int
  cmcc_pkgs :: int
  blec_state :: blec_open
  blec_link :: link
  blec_dev :: autoconnect_device
  sink :: a2dpsink_state
  sink_config :: autoconnect_config
  get_play_status :: int
  sink_subsequent :: subsequent
  last_stop_time :: int
  play_index :: int
  e_auto_connect :: bool
  e_play_command :: bool
  e_connect_over :: bool
  e_play_state :: bool
  source :: a2dpsource_state
  source_config :: autoconnect_config
  es_auto_connect :: bool
  es_connect_over :: bool
  hfp :: hfp_state
  hfp_dev :: autoconnect_device
  hh_state :: hh_open
  hh_link :: link
  hh_dev :: autoconnect_device
  bt_mic :: bool
  bt_events :: "(string \<times> json) list"
  bt_binaries :: "(string \<times> 8 word list) list"
  bt_replies :: "json list"

definition zero_sink :: a2dpsink_state where
  "zero_sink = \<lparr>discoverable = False, snk_open = S_INVALID, snk_link = L_INVALID, snk_play = PLAY_INVALID,
     snk_broadcast = BC_NONE, rc_open = False\<rparr>"

definition zero_source :: a2dpsource_state where
  "zero_source = \<lparr>src_open = S_INVALID, src_link = L_INVALID, src_broadcast = BC_NONE\<rparr>"

definition zero_hfp :: hfp_state where
  "zero_hfp = \<lparr>hfp_open = S_INVALID, hfp_link = L_INVALID, service = 0, call = 0, callsetup = 0, callheld = 0, audio = 0\<rparr>"

text \<open>The bits of \<open>bt_status\<close>.\<close>

definition BLE_STATUS_MASK :: "32 word" where "BLE_STATUS_MASK = 1"
definition BLE_CLIENT_STATUS_MASK :: "32 word" where "BLE_CLIENT_STATUS_MASK = 2"
definition A2DP_SOURCE_STATUS_MASK :: "32 word" where "A2DP_SOURCE_STATUS_MASK = 4"
definition A2DP_SINK_STATUS_MASK :: "32 word" where "A2DP_SINK_STATUS_MASK = 8"
definition HFP_STATUS_MASK :: "32 word" where "HFP_STATUS_MASK = 16"
definition HID_HOST_STATUS_MASK :: "32 word" where "HID_HOST_STATUS_MASK = 32"

lemmas status_masks = BLE_STATUS_MASK_def BLE_CLIENT_STATUS_MASK_def A2DP_SOURCE_STATUS_MASK_def
  A2DP_SINK_STATUS_MASK_def HFP_STATUS_MASK_def HID_HOST_STATUS_MASK_def

section \<open>Calls and messages\<close>

definition bx :: "('w \<Rightarrow> 'a \<times> 'w) \<Rightarrow> 'w bt_state \<Rightarrow> 'a \<times> 'w bt_state" where
  "bx f s = (let (r, w) = f (bt_world s) in (r, s\<lparr>bt_world := w\<rparr>))"

text \<open>A call whose result is not used.\<close>

definition bcall :: "('w \<Rightarrow> 'a \<times> 'w) \<Rightarrow> 'w bt_state \<Rightarrow> 'w bt_state" where
  "bcall f s = snd (bx f s)"

lemma bx_eq: "bx f s = (fst (f (bt_world s)), s\<lparr>bt_world := snd (f (bt_world s))\<rparr>)"
  by (simp add: bx_def split: prod.split)

lemma bcall_eq: "bcall f s = s\<lparr>bt_world := snd (f (bt_world s))\<rparr>"
  by (simp add: bcall_def bx_eq)

text \<open>The topics of \<open>bt_flora_send_msg\<close> and \<open>bt_flora_send_binary_msg\<close>.\<close>

fun event_topic :: "bt_function \<Rightarrow> string option" where
  "event_topic BLUETOOTH_FUNCTION_COMMON = Some ''bluetooth.common.event''"
| "event_topic BLUETOOTH_FUNCTION_BLE = Some ''bluetooth.ble.event''"
| "event_topic BLUETOOTH_FUNCTION_BLE_CLIENT = Some ''bluetooth.ble.client.event''"
| "event_topic BLUETOOTH_FUNCTION_A2DPSINK = Some ''bluetooth.a2dpsink.event''"
| "event_topic BLUETOOTH_FUNCTION_A2DPSOURCE = Some ''bluetooth.a2dpsource.event''"
| "event_topic BLUETOOTH_FUNCTION_HFP = Some ''bluetooth.hfp.event''"
| "event_topic BLUETOOTH_FUNCTION_HH = Some ''bluetooth.hh.event''"
| "event_topic _ = None"

fun binary_topic :: "bt_function \<Rightarrow> string option" where
  "binary_topic BLUETOOTH_FUNCTION_BLE_CLI_NOTIFY = Some ''bluetooth.ble.client.notify''"
| "binary_topic BLUETOOTH_FUNCTION_BLE_CLI_READ = Some ''bluetooth.ble.client.read''"
| "binary_topic _ = None"

definition report_bluetooth_information :: "bt_function \<Rightarrow> json \<Rightarrow> 'w bt_state \<Rightarrow> 'w bt_state" where
  "report_bluetooth_information f j s =
     (case event_topic f of None \<Rightarrow> s | Some t \<Rightarrow> s\<lparr>bt_events := bt_events s @ [(t, j)]\<rparr>)"

definition report_bluetooth_binary_information :: "bt_function \<Rightarrow> 8 word list \<Rightarrow> 'w bt_state \<Rightarrow> 'w bt_state" where
  "report_bluetooth_binary_information f b s =
     (case binary_topic f of None \<Rightarrow> s | Some t \<Rightarrow> s\<lparr>bt_binaries := bt_binaries s @ [(t, b)]\<rparr>)"

definition method_report_reply :: "json \<Rightarrow> 'w bt_state \<Rightarrow> 'w bt_state" where
  "method_report_reply j s = s\<lparr>bt_replies := bt_replies s @ [j]\<rparr>"

text \<open>The end of every status function: an answer to the caller if there is one, else an event.\<close>

definition answer :: "bt_function \<Rightarrow> bool \<Rightarrow> json \<Rightarrow> 'w bt_state \<Rightarrow> 'w bt_state" where
  "answer f reply j s = (if reply then method_report_reply j s else report_bluetooth_information f j s)"

section \<open>The controller (common.c)\<close>

definition bt_open :: "'w bt_ops \<Rightarrow> 'w bt_state \<Rightarrow> int \<times> 'w bt_state" where
  "bt_open E s =
     (if bt_opened s then (0, s)
      else let (ret, s) = bx (b_open E) s in if ret \<noteq> 0 then (ret, s) else (0, s\<lparr>bt_opened := True\<rparr>))"

definition bt_close :: "'w bt_ops \<Rightarrow> 'w bt_state \<Rightarrow> 'w bt_state" where
  "bt_close E s = (if bt_opened s \<and> bt_status s = 0 then (bcall (b_close E) s)\<lparr>bt_opened := False\<rparr> else s)"

definition bt_discovery :: "'w bt_ops \<Rightarrow> int \<Rightarrow> 'w bt_state \<Rightarrow> int \<times> 'w bt_state" where
  "bt_discovery E ty s =
     (if ty < BT_A2DP_SOURCE \<or> ty > BT_ALL then (-1, s)
      else if \<not> bt_opened s then (-1, s)
      else case b_start_discovery E of
        None \<Rightarrow> (-1, s)
      | Some start \<Rightarrow>
          if bt_scanning s then (0, s)
          else let (ret, s) = bx (start ty) s in (ret, if ret \<noteq> 0 then s else s\<lparr>bt_scanning := True\<rparr>))"

definition bt_cancel_discovery :: "'w bt_ops \<Rightarrow> 'w bt_state \<Rightarrow> int \<times> 'w bt_state" where
  "bt_cancel_discovery E s =
     (if \<not> bt_opened s then (0, s)
      else case b_cancel_discovery E of
        None \<Rightarrow> (-1, s)
      | Some cancel \<Rightarrow>
          if \<not> bt_scanning s then (0, s)
          else let (ret, s) = bx cancel s in (ret, s\<lparr>bt_scanning := False\<rparr>))"

text \<open>\<open>bt->cancel_discovery(bt)\<close> without a test of the pointer.\<close>

definition cancel_discovery :: "'w bt_ops \<Rightarrow> 'w bt_state \<Rightarrow> 'w bt_state option" where
  "cancel_discovery E s = map_option (\<lambda>f. bcall f s) (b_cancel_discovery E)"

text \<open>The array of \<open>n\<close> devices that was passed to the HAL, and its first \<open>count\<close> elements.  \<open>zeroed\<close> says
  whether the array was cleared before the call.\<close>

definition device_array :: "nat \<Rightarrow> bool \<Rightarrow> bt_device list \<Rightarrow> bt_device list" where
  "device_array n zeroed ds = take n (if zeroed then ds @ replicate n zero_device else ds)"

definition first_devices :: "int \<Rightarrow> bt_device list \<Rightarrow> bt_device list option" where
  "first_devices count arr = (if nat count \<le> length arr then Some (take (nat count) arr) else None)"

definition device_json :: "bt_device \<Rightarrow> json" where
  "device_json d = JObj [(''address'', JStr (mac_text (bd_addr d))), (''name'', JStr (bd_name d))]"

section \<open>Requests\<close>

definition jstr :: "'w bt_ops \<Rightarrow> json \<Rightarrow> string option" where
  "jstr E j = json_object_get_string (so_text (b_store E)) j"

text \<open>The frame of the request handlers: the result is -1 for text that is no JSON; a request
  without a command is ignored; the command is compared with \<open>strcmp\<close>.\<close>

definition with_command ::
  "'w bt_ops \<Rightarrow> json \<Rightarrow> (string \<Rightarrow> 'w bt_state \<Rightarrow> 'w bt_state option) \<Rightarrow> 'w bt_state \<Rightarrow> (int \<times> 'w bt_state) option" where
  "with_command E obj f s =
     (if obj = JNull then Some (-1, s)
      else case json_object_object_get_ex obj ''command'' of
        None \<Rightarrow> Some (0, s)
      | Some j \<Rightarrow> (case jstr E j of None \<Rightarrow> None | Some c \<Rightarrow> map_option (Pair 0) (f c s)))"

text \<open>The name of an ON request: the string of the field (NULL for a JSON null) or a default.\<close>

definition request_name :: "'w bt_ops \<Rightarrow> json \<Rightarrow> string option \<Rightarrow> string option" where
  "request_name E obj def =
     (case json_object_object_get_ex obj ''name'' of None \<Rightarrow> def | Some j \<Rightarrow> jstr E j)"

definition default_name :: string where "default_name = ''ROKID-BT-9999zz''"

end
