(* ===== verification/BtBle.thy ===== *)
theory BtBle
  imports BtState
begin

text \<open>
  The BLE server profile (\<open>src/bt/ble.c\<close>): packets of 20 bytes to the peer, and the two
  protocols that reassemble a message from the packets of the peer.  \<open>ble_sendbuf\<close> is the static
  buffer of 512 bytes both protocols write; a copy that does not fit its target, or has a
  negative length, is \<open>None\<close>.
\<close>

definition BLE_DATA_LEN :: nat where "BLE_DATA_LEN = 20"
definition ROKID_BLE_DATA_LEN :: nat where "ROKID_BLE_DATA_LEN = 17"
definition BLE_DATA_CHARACTER_CMCC :: int where "BLE_DATA_CHARACTER_CMCC = 0x2a06"
definition BLE_DATA_CHARACTER :: int where "BLE_DATA_CHARACTER = 0x2a07"
definition SENDBUF_LEN :: nat where "SENDBUF_LEN = 512"

definition bytes_text :: "8 word list \<Rightarrow> string" where
  "bytes_text bs = map (\<lambda>b. char_of (unat b)) bs"

definition text_bytes :: "string \<Rightarrow> 8 word list" where
  "text_bytes t = map (\<lambda>c. of_nat (of_char c)) t"

section \<open>State messages\<close>

text \<open>There is no name for \<open>BLE_INIVATE\<close>: the pointer stays NULL.\<close>

fun ble_state_name :: "ble_open \<Rightarrow> string option" where
  "ble_state_name BLE_STATE_OPEN = Some ''open''"
| "ble_state_name BLE_STATE_OPENING = Some ''opening''"
| "ble_state_name BLE_STATE_OPENED = Some ''opened''"
| "ble_state_name BLE_STATE_OPENFAILED = Some ''openfailed''"
| "ble_state_name BLE_STATE_CONNECTED = Some ''connected''"
| "ble_state_name BLE_STATE_HANDSHAKED = Some ''handshaked''"
| "ble_state_name BLE_STATE_DISCONNECTED = Some ''disconnected''"
| "ble_state_name BLE_STATE_CLOSE = Some ''close''"
| "ble_state_name BLE_STATE_CLOSING = Some ''closing''"
| "ble_state_name BLE_STATE_CLOSED = Some ''closed''"
| "ble_state_name BLE_INIVATE = None"

definition broadcast_ble_state :: "bool \<Rightarrow> 'w bt_state \<Rightarrow> 'w bt_state option" where
  "broadcast_ble_state reply s = do {
     st \<leftarrow> ble_state_name (ble_state s);
     Some (answer BLUETOOTH_FUNCTION_BLE reply (JObj [(''state'', JStr st)]) s)
   }"

section \<open>Sending\<close>

text \<open>The loop of \<open>ble_send_raw_data\<close> on the bytes that are left.\<close>

function raw_send_loop :: "'w bt_ops \<Rightarrow> 8 word list \<Rightarrow> 'w bt_state \<Rightarrow> 'w bt_state" where
  "raw_send_loop E buf s =
     (if buf = [] then s
      else raw_send_loop E (drop BLE_DATA_LEN buf) (bcall (b_ble_send E BLE_DATA_CHARACTER (take BLE_DATA_LEN buf)) s))"
  by auto
termination
  by (relation "measure (\<lambda>(E, buf, s). length buf)") (auto simp: BLE_DATA_LEN_def)

declare raw_send_loop.simps [simp del]

definition ble_send_raw_data :: "'w bt_ops \<Rightarrow> 8 word list \<Rightarrow> 'w bt_state \<Rightarrow> 'w bt_state option" where
  "ble_send_raw_data E buf s =
     (if ble_state s > BLE_STATE_OPENED \<and> ble_state s < BLE_STATE_DISCONNECTED
      then Some (raw_send_loop E buf s) else broadcast_ble_state False s)"

text \<open>\<open>struct rokid_ble_format\<close>: the number of the message, the 16-bit field \<open>last_index\<close> in little
  endian order and the data.\<close>

definition rokid_packet :: "int \<Rightarrow> bool \<Rightarrow> 8 word list \<Rightarrow> 8 word list" where
  "rokid_packet mid final chunk = of_int mid # (if final then 0x80 else 0) # 0 # chunk"

function rokid_packets :: "int \<Rightarrow> 8 word list \<Rightarrow> 8 word list list" where
  "rokid_packets mid buf =
     (if buf = [] then []
      else if length buf > ROKID_BLE_DATA_LEN
      then rokid_packet mid False (take ROKID_BLE_DATA_LEN buf) # rokid_packets mid (drop ROKID_BLE_DATA_LEN buf)
      else [rokid_packet mid True buf])"
  by auto
termination
  by (relation "measure (\<lambda>(m, buf). length buf)") (auto simp: ROKID_BLE_DATA_LEN_def)

declare rokid_packets.simps [simp del]

definition rokid_send_ble_data :: "'w bt_ops \<Rightarrow> 8 word list \<Rightarrow> 'w bt_state \<Rightarrow> 'w bt_state" where
  "rokid_send_ble_data E buf s =
     fold (\<lambda>p. bcall (b_ble_send E BLE_DATA_CHARACTER p)) (rokid_packets (ble_msgid s) buf) s"

section \<open>Receiving\<close>

text \<open>\<open>memcpy(sendbuf + index, src, n)\<close>.\<close>

definition copy_sendbuf :: "int \<Rightarrow> 8 word list \<Rightarrow> int \<Rightarrow> 8 word list \<Rightarrow> 8 word list option" where
  "copy_sendbuf index src n dst =
     (if index < 0 \<or> n < 0 \<or> nat index + nat n > length dst \<or> nat n > length src then None
      else Some (take (nat index) dst @ take (nat n) src @ drop (nat index + nat n) dst))"

definition report_recv_data :: "'w bt_ops \<Rightarrow> 'w bt_state \<Rightarrow> 'w bt_state option" where
  "report_recv_data E s =
     (if 0 \<notin> set (ble_sendbuf s) then None
      else let data = so_parse (b_store E) (cstr (bytes_text (ble_sendbuf s)));
               s = report_bluetooth_information BLUETOOTH_FUNCTION_BLE (JObj [(''data'', data)]) s
           in Some (s\<lparr>ble_sendbuf := replicate SENDBUF_LEN 0\<rparr>))"

text \<open>\<open>buf\<close> are the \<open>len\<close> bytes of the packet; the target of the first copy has 20 bytes.\<close>

definition rokid_recv_ble_data :: "'w bt_ops \<Rightarrow> 8 word list \<Rightarrow> 'w bt_state \<Rightarrow> 'w bt_state option" where
  "rokid_recv_ble_data E buf s =
     (if length buf > BLE_DATA_LEN then None
      else let data = buf @ replicate (BLE_DATA_LEN - length buf) 0; n = int (length buf) - 3 in
        do {
          let s = (if ble_msgid s \<noteq> uint (data ! 0)
                   then s\<lparr>ble_sendbuf := replicate SENDBUF_LEN 0, ble_index := 0, ble_msgid := uint (data ! 0)\<rparr> else s);
          if \<not> bit (data ! 1) 7 then do {
            let s = (if ble_index s + n > 255 then s\<lparr>ble_index := 0\<rparr> else s);
            b \<leftarrow> copy_sendbuf (ble_index s) (drop 3 data) n (ble_sendbuf s);
            Some (s\<lparr>ble_sendbuf := b, ble_index := ble_index s + n\<rparr>)
          } else do {
            b \<leftarrow> copy_sendbuf (ble_index s) (drop 3 data) n (ble_sendbuf s);
            report_recv_data E (s\<lparr>ble_sendbuf := b, ble_index := 0\<rparr>)
          }
        })"

text \<open>\<open>buf\<close> is the buffer of 255 bytes of the caller, \<open>n\<close> the length of the packet.\<close>

definition rokid_recv_ble_data_cmcc :: "'w bt_ops \<Rightarrow> 8 word list \<Rightarrow> nat \<Rightarrow> 'w bt_state \<Rightarrow> 'w bt_state option" where
  "rokid_recv_ble_data_cmcc E buf n s =
     (if take 5 buf = text_bytes ''size:''
      then Some (s\<lparr>ble_sendbuf := replicate SENDBUF_LEN 0, cmcc_index := 0,
                   cmcc_pkgs := atoi (cstr (bytes_text (drop 5 buf)))\<rparr>)
      else if cmcc_pkgs s > 0 then do {
        b \<leftarrow> copy_sendbuf (cmcc_index s) buf (int n) (ble_sendbuf s);
        let s = s\<lparr>ble_sendbuf := b, cmcc_pkgs := cmcc_pkgs s - 1, cmcc_index := cmcc_index s + int n\<rparr>;
        if cmcc_pkgs s = 0 then do { s \<leftarrow> report_recv_data E s; Some (s\<lparr>cmcc_index := 0\<rparr>) } else Some s
      }
      else Some (s\<lparr>cmcc_index := 0, cmcc_pkgs := 0\<rparr>))"

section \<open>Events of the HAL\<close>

record ser_write =
  sw_uuid :: int
  sw_offset :: nat
  sw_len :: nat
  sw_value :: "8 word list"

datatype ble_event = BT_BLE_SE_WRITE_EVT "ser_write option" | BT_BLE_SE_OPEN_EVT | BT_BLE_SE_CLOSE_EVT | BT_BLE_OTHER_EVT

definition handshake :: "8 word list" where "handshake = text_bytes ''RK'' @ [2, 0, 0, 0, 0, 0]"

text \<open>The branch of a write: the local buffer of 255 bytes and what is done with it.\<close>

definition ble_write_evt :: "'w bt_ops \<Rightarrow> ser_write \<Rightarrow> 'w bt_state \<Rightarrow> 'w bt_state option" where
  "ble_write_evt E m s =
     (let n = min (sw_len m) 255 in
      if sw_offset m + n > length (sw_value m) then None
      else let buf = (take n (drop (sw_offset m) (sw_value m)) @ replicate (255 - n) 0)[254 := 0] in
        if sw_uuid m \<noteq> BLE_DATA_CHARACTER \<and> sw_uuid m \<noteq> BLE_DATA_CHARACTER_CMCC then Some s
        else if sw_len m > 0 then
          if take 8 buf = handshake
          then broadcast_ble_state False (bcall (b_ble_send E (sw_uuid m) handshake) (s\<lparr>ble_state := BLE_STATE_HANDSHAKED\<rparr>))
          else if sw_uuid m = BLE_DATA_CHARACTER then rokid_recv_ble_data E (take n buf) s
          else rokid_recv_ble_data_cmcc E buf n s
        else Some s)"

fun ble_listener :: "'w bt_ops \<Rightarrow> ble_event \<Rightarrow> 'w bt_state \<Rightarrow> 'w bt_state option" where
  "ble_listener E (BT_BLE_SE_WRITE_EVT msg) s =
     (if ble_state s < BLE_STATE_CLOSE then case msg of None \<Rightarrow> Some s | Some m \<Rightarrow> ble_write_evt E m s else Some s)"
| "ble_listener E BT_BLE_SE_OPEN_EVT s = broadcast_ble_state False (s\<lparr>ble_state := BLE_STATE_CONNECTED\<rparr>)"
| "ble_listener E BT_BLE_SE_CLOSE_EVT s = broadcast_ble_state False (s\<lparr>ble_state := BLE_STATE_DISCONNECTED\<rparr>)"
| "ble_listener E BT_BLE_OTHER_EVT s = Some s"

section \<open>Switching the profile\<close>

definition bt_ble_on :: "'w bt_ops \<Rightarrow> string option \<Rightarrow> 'w bt_state \<Rightarrow> 'w bt_state option" where
  "bt_ble_on E name s =
     (if ble_state s \<in> {BLE_STATE_OPENED, BLE_STATE_CONNECTED, BLE_STATE_HANDSHAKED} then broadcast_ble_state False s
      else do {
        let (ret, s) = bt_open E s;
        if ret \<noteq> 0 then broadcast_ble_state False (s\<lparr>ble_state := BLE_STATE_OPENFAILED\<rparr>)
        else do {
          let s = bcall (p_disable (b_ble E)) s;
          let s = bcall (p_set_listener (b_ble E)) s;
          let s = bcall (b_set_bt_name E name) s;
          let (ret, s) = bx (p_enable (b_ble E)) s;
          if ret \<noteq> 0 then broadcast_ble_state False (s\<lparr>ble_state := BLE_STATE_OPENFAILED\<rparr>)
          else do {
            let s = s\<lparr>bt_status := set_flag (bt_status s) BLE_STATUS_MASK\<rparr>;
            let s = bcall (b_ble_visibility E True True) s;
            broadcast_ble_state False (s\<lparr>ble_state := BLE_STATE_OPENED\<rparr>)
          }
        }
      })"

definition bt_ble_off :: "'w bt_ops \<Rightarrow> 'w bt_state \<Rightarrow> 'w bt_state option" where
  "bt_ble_off E s =
     (if ble_state s \<ge> BLE_STATE_CLOSE then broadcast_ble_state False s
      else do {
        let s = bcall (p_disable (b_ble E)) (s\<lparr>ble_state := BLE_STATE_CLOSE\<rparr>);
        let s = bt_close E (s\<lparr>bt_status := clear_flag (bt_status s) BLE_STATUS_MASK\<rparr>);
        broadcast_ble_state False (s\<lparr>ble_state := BLE_STATE_CLOSED\<rparr>)
      })"

end
