(* ===== verification/BtProfiles.thy ===== *)
theory BtProfiles
  imports BtBle
begin

text \<open>
  The profiles without a list of known devices: BLE client (\<open>src/bt/ble_client.c\<close>), HID host
  (\<open>src/bt/hh.c\<close>), hands-free (\<open>src/bt/hfp.c\<close>) and the microphone socket of the last one
  (\<open>src/mic/turen.c\<close>).
\<close>

section \<open>BLE client\<close>

fun blec_state_name :: "blec_open \<Rightarrow> string" where
  "blec_state_name BLE_CLI_STATE_OPENING = ''opening''"
| "blec_state_name BLE_CLI_STATE_OPENED = ''opened''"
| "blec_state_name BLE_CLI_STATE_OPENFAILED = ''openfailed''"
| "blec_state_name BLE_CLI_STATE_CLOSE = ''close''"
| "blec_state_name BLE_CLI_STATE_CLOSING = ''closing''"
| "blec_state_name BLE_CLI_STATE_CLOSED = ''closed''"
| "blec_state_name BLE_CLI_OPEN_INVALID = ''invalid''"

fun blec_link_name :: "link \<Rightarrow> string" where
  "blec_link_name L_CONNECTING = ''connecting''"
| "blec_link_name L_CONNECTED = ''connected''"
| "blec_link_name L_CONNECTEFAILED = ''connectfailed''"
| "blec_link_name L_DISCONNECTED = ''disconnected''"
| "blec_link_name _ = ''invalid''"

definition named_device :: "bool \<Rightarrow> autoconnect_device \<Rightarrow> (string \<times> json) list" where
  "named_device shown d =
     (if shown then [(''name'', JStr (dev_name d)), (''address'', JStr (mac_text (dev_addr d)))] else [])"

definition broadcast_ble_client_state :: "bool \<Rightarrow> 'w bt_state \<Rightarrow> 'w bt_state" where
  "broadcast_ble_client_state reply s = answer BLUETOOTH_FUNCTION_BLE_CLIENT reply
     (JObj ([(''action'', JStr ''stateupdate''), (''state'', JStr (blec_state_name (blec_state s))),
             (''connect_state'', JStr (blec_link_name (blec_link s)))]
       @ named_device (blec_link s \<in> {L_CONNECTED, L_CONNECTEFAILED}) (blec_dev s))) s"

definition MAX_LEN_UUID_STR :: nat where "MAX_LEN_UUID_STR = 37"
definition CLIENT_HEADER_LEN :: nat where "CLIENT_HEADER_LEN = 133"

record cli_value =
  cv_bda :: "8 word list"
  cv_service :: "8 word list"
  cv_char :: "8 word list"
  cv_len :: nat
  cv_value :: "8 word list"

text \<open>\<open>struct rokid_ble_client_header\<close> (length, address, service, characteristic, description)
  followed by the data.\<close>

definition rokid_ble_client_receive_data :: "bt_function \<Rightarrow> cli_value \<Rightarrow> 'w bt_state \<Rightarrow> 'w bt_state option" where
  "rokid_ble_client_receive_data ty m s =
     (if cv_len m > length (cv_value m) then None
      else Some (report_bluetooth_binary_information ty
        ([133, 0, 0, 0] @ text_bytes (mac_text_upper (cv_bda m)) @ [0] @ cv_service m @ cv_char m
          @ replicate MAX_LEN_UUID_STR 0 @ take (cv_len m) (cv_value m)) s))"

record open_msg =
  om_status :: int
  om_name :: string
  om_addr :: "8 word list"

datatype blec_event = BT_BLE_CL_OPEN_EVT "open_msg option" | BT_BLE_CL_CLOSE_EVT bool
  | BT_BLE_CL_NOTIF_EVT "cli_value option" | BT_BLE_CL_READ_EVT "cli_value option" | BT_BLE_CL_OTHER_EVT

text \<open>\<open>snprintf\<close> into the name of 249 bytes.\<close>

definition store_device :: "open_msg \<Rightarrow> autoconnect_device" where
  "store_device m = \<lparr>dev_name = take 248 (om_name m), dev_addr = om_addr m\<rparr>"

fun ble_client_listener :: "blec_event \<Rightarrow> 'w bt_state \<Rightarrow> 'w bt_state option" where
  "ble_client_listener (BT_BLE_CL_OPEN_EVT None) s = Some s"
| "ble_client_listener (BT_BLE_CL_OPEN_EVT (Some m)) s =
     Some (broadcast_ble_client_state False
       (s\<lparr>blec_link := if om_status m \<noteq> 0 then L_CONNECTEFAILED else L_CONNECTED, blec_dev := store_device m\<rparr>))"
| "ble_client_listener (BT_BLE_CL_CLOSE_EVT msg) s =
     Some (if msg then broadcast_ble_client_state False (s\<lparr>blec_link := L_DISCONNECTED\<rparr>) else s)"
| "ble_client_listener (BT_BLE_CL_NOTIF_EVT msg) s =
     (case msg of None \<Rightarrow> Some s | Some m \<Rightarrow> rokid_ble_client_receive_data BLUETOOTH_FUNCTION_BLE_CLI_NOTIFY m s)"
| "ble_client_listener (BT_BLE_CL_READ_EVT msg) s =
     (case msg of None \<Rightarrow> Some s | Some m \<Rightarrow> rokid_ble_client_receive_data BLUETOOTH_FUNCTION_BLE_CLI_READ m s)"
| "ble_client_listener BT_BLE_CL_OTHER_EVT s = Some s"

definition bt_ble_client_on :: "'w bt_ops \<Rightarrow> string option \<Rightarrow> 'w bt_state \<Rightarrow> 'w bt_state" where
  "bt_ble_client_on E name s =
     (if blec_state s = BLE_CLI_STATE_OPENED then broadcast_ble_client_state False s
      else let (ret, s) = bt_open E s in
        if ret \<noteq> 0 then broadcast_ble_client_state False (s\<lparr>blec_state := BLE_CLI_STATE_OPENFAILED\<rparr>)
        else let s = bcall (p_set_listener (b_blec E)) s;
                 s = bcall (b_set_bt_name E name) s;
                 (ret, s) = bx (p_enable (b_blec E)) s in
          if ret \<noteq> 0 then broadcast_ble_client_state False (s\<lparr>blec_state := BLE_CLI_STATE_OPENFAILED\<rparr>)
          else broadcast_ble_client_state False (s\<lparr>bt_status := set_flag (bt_status s) BLE_CLIENT_STATUS_MASK,
                 blec_state := BLE_CLI_STATE_OPENED, blec_link := L_INVALID\<rparr>))"

definition bt_ble_client_off :: "'w bt_ops \<Rightarrow> 'w bt_state \<Rightarrow> 'w bt_state" where
  "bt_ble_client_off E s =
     (if blec_state s \<ge> BLE_CLI_STATE_CLOSE then broadcast_ble_client_state False s
      else let s = bcall (p_disable (b_blec E)) (s\<lparr>blec_state := BLE_CLI_STATE_CLOSE\<rparr>);
               s = bt_close E (s\<lparr>bt_status := clear_flag (bt_status s) BLE_CLIENT_STATUS_MASK\<rparr>)
           in broadcast_ble_client_state False (s\<lparr>blec_state := BLE_CLI_STATE_CLOSED\<rparr>))"

definition connected_num :: "'w profile_ops \<Rightarrow> nat \<Rightarrow> 'w bt_state \<Rightarrow> int \<times> 'w bt_state" where
  "connected_num P n s = (let (r, s) = bx (p_connected P n) s in (fst r, s))"

definition get_ble_client_connected_device_num :: "'w bt_ops \<Rightarrow> 'w bt_state \<Rightarrow> int \<times> 'w bt_state" where
  "get_ble_client_connected_device_num E s = connected_num (b_blec E) 20 s"

definition bt_ble_client_connect :: "'w bt_ops \<Rightarrow> string option \<Rightarrow> 'w bt_state \<Rightarrow> 'w bt_state option" where
  "bt_ble_client_connect E address s =
     (let (busy, s) = (if blec_state s \<noteq> BLE_CLI_STATE_OPENED \<or> blec_link s = L_CONNECTING then (True, s)
                       else let (n, s) = get_ble_client_connected_device_num E s in (n \<noteq> 0, s)) in
      if busy then Some (broadcast_ble_client_state False s)
      else do {
        (ret, a) \<leftarrow> bd_strtoba zero_addr address;
        if ret \<noteq> 0 then Some s
        else do {
          let (ret, s) = bx (p_connect (b_blec E) a) s;
          Some (if ret \<noteq> 0 then broadcast_ble_client_state False (s\<lparr>blec_link := L_CONNECTEFAILED\<rparr>)
                else s\<lparr>blec_link := L_CONNECTING\<rparr>)
        }
      })"

text \<open>Disconnecting every device of a list.\<close>

definition disconnect_all :: "'w profile_ops \<Rightarrow> bt_device list \<Rightarrow> 'w bt_state \<Rightarrow> 'w bt_state" where
  "disconnect_all P ds s = fold (\<lambda>d. bcall (p_disconnect P (bd_addr d))) ds s"

text \<open>The outer option of \<open>address\<close> is the pointer of the request: absent means all devices.\<close>

definition bt_ble_client_disconnect :: "'w bt_ops \<Rightarrow> string option \<Rightarrow> 'w bt_state \<Rightarrow> 'w bt_state option" where
  "bt_ble_client_disconnect E address s =
     (let ((num, ds), s) = bx (p_connected (b_blec E) 20) s in
      if num \<noteq> 0 then
        case address of
          Some a \<Rightarrow> do {
            (ret, b) \<leftarrow> bd_strtoba zero_addr (Some a);
            Some (if ret \<noteq> 0 then s else bcall (p_disconnect (b_blec E) b) s)
          }
        | None \<Rightarrow> do { ds \<leftarrow> first_devices num (device_array 20 True ds); Some (disconnect_all (b_blec E) ds s) }
      else Some (broadcast_ble_client_state False s))"

function blec_write_loop ::
  "'w bt_ops \<Rightarrow> 8 word list \<Rightarrow> 8 word list \<Rightarrow> 8 word list \<Rightarrow> 'w bt_state \<Rightarrow> 'w bt_state" where
  "blec_write_loop E sv ch buf s =
     (if buf = [] then s
      else blec_write_loop E sv ch (drop BLE_DATA_LEN buf) (bcall (b_blec_write E sv ch (take BLE_DATA_LEN buf)) s))"
  by auto
termination
  by (relation "measure (\<lambda>(E, sv, ch, buf, s). length buf)") (auto simp: BLE_DATA_LEN_def)

declare blec_write_loop.simps [simp del]

text \<open>The length field is unsigned: a header longer than the message gives a negative length, or one
  beyond the end of the buffer.  \<open>n\<close> is the length as an \<open>int\<close>.\<close>

definition handle_ble_client_write :: "'w bt_ops \<Rightarrow> 8 word list \<Rightarrow> 'w bt_state \<Rightarrow> 'w bt_state option" where
  "handle_ble_client_write E buff s =
     (if length buff < 4 then None
      else let hl = (\<Sum>i<4. unat (buff ! i) * 256 ^ i);
               n = sint (of_int (int (length buff) - int hl) :: 32 word);
               (num, s) = get_ble_client_connected_device_num E s in
        if num = 0 \<or> n \<le> 0 then Some s
        else if hl > length buff \<or> length buff < 96 then None
        else Some (blec_write_loop E (take 37 (drop 22 buff)) (take 37 (drop 59 buff)) (drop hl buff) s))"

definition ble_client_register_notify ::
  "'w bt_ops \<Rightarrow> string option \<Rightarrow> string option \<Rightarrow> 'w bt_state \<Rightarrow> 'w bt_state" where
  "ble_client_register_notify E sv ch s =
     (let (num, s) = get_ble_client_connected_device_num E s in
      if num \<noteq> 0 then bcall (b_blec_register E sv ch) s else broadcast_ble_client_state False s)"

definition ble_client_read ::
  "'w bt_ops \<Rightarrow> string option \<Rightarrow> string option \<Rightarrow> 'w bt_state \<Rightarrow> 'w bt_state" where
  "ble_client_read E sv ch s =
     (let (num, s) = get_ble_client_connected_device_num E s in
      if num \<noteq> 0 then bcall (b_blec_read E sv ch) s else broadcast_ble_client_state False s)"

text \<open>The two requests with a service and a characteristic.\<close>

definition with_uuids ::
  "'w bt_ops \<Rightarrow> json \<Rightarrow> (string option \<Rightarrow> string option \<Rightarrow> 'w bt_state \<Rightarrow> 'w bt_state) \<Rightarrow> 'w bt_state \<Rightarrow> 'w bt_state" where
  "with_uuids E obj f s =
     (case json_object_object_get_ex obj ''service'' of
        None \<Rightarrow> s
      | Some sv \<Rightarrow> (case json_object_object_get_ex obj ''character'' of
            None \<Rightarrow> s
          | Some ch \<Rightarrow> f (jstr E sv) (jstr E ch) s))"

text \<open>An address field that is a JSON null gives a NULL pointer.\<close>

definition ble_client_command ::
  "'w bt_ops \<Rightarrow> json \<Rightarrow> bool \<Rightarrow> string \<Rightarrow> 'w bt_state \<Rightarrow> 'w bt_state option" where
  "ble_client_command E obj reply command s =
     (if command = ''ON'' then Some (bt_ble_client_on E (request_name E obj (Some default_name)) s)
      else if command = ''OFF'' then Some (bt_ble_client_off E s)
      else if command = ''GETSTATE'' then Some (broadcast_ble_client_state reply s)
      else if command = ''REGISTER_NOTIFY'' then Some (with_uuids E obj (ble_client_register_notify E) s)
      else if command = ''READ'' then Some (with_uuids E obj (ble_client_read E) s)
      else if command = ''CONNECT'' then
        (case json_object_object_get_ex obj ''address'' of
           None \<Rightarrow> Some s | Some a \<Rightarrow> bt_ble_client_connect E (jstr E a) s)
      else if command = ''DISCONNECT'' then
        (case json_object_object_get_ex obj ''address'' of
           None \<Rightarrow> bt_ble_client_disconnect E None s | Some a \<Rightarrow> bt_ble_client_disconnect E (jstr E a) s)
      else Some s)"

definition handle_ble_client_handle ::
  "'w bt_ops \<Rightarrow> json \<Rightarrow> bool \<Rightarrow> 'w bt_state \<Rightarrow> (int \<times> 'w bt_state) option" where
  "handle_ble_client_handle E obj reply s = with_command E obj (ble_client_command E obj reply) s"

section \<open>HID host\<close>

fun hh_state_name :: "hh_open \<Rightarrow> string" where
  "hh_state_name HH_STATE_OPEN = ''open''"
| "hh_state_name HH_STATE_OPENING = ''opening''"
| "hh_state_name HH_STATE_OPENED = ''opened''"
| "hh_state_name HH_STATE_OPENFAILED = ''openfailed''"
| "hh_state_name HH_STATE_CLOSE = ''close''"
| "hh_state_name HH_STATE_CLOSING = ''closing''"
| "hh_state_name HH_STATE_CLOSED = ''closed''"
| "hh_state_name HH_STATE_INVALID = ''invalid''"

text \<open>The spelling of the first name is that of the source.\<close>

fun hh_link_name :: "link \<Rightarrow> string" where
  "hh_link_name L_CONNECTING = ''conncting''"
| "hh_link_name L_CONNECTED = ''connected''"
| "hh_link_name L_CONNECTEFAILED = ''connectfailed''"
| "hh_link_name L_DISCONNECTED = ''disconnected''"
| "hh_link_name _ = ''invalid''"

definition broadcast_hh_state :: "bool \<Rightarrow> 'w bt_state \<Rightarrow> 'w bt_state" where
  "broadcast_hh_state reply s = answer BLUETOOTH_FUNCTION_HH reply
     (JObj ([(''action'', JStr ''stateupdate''), (''state'', JStr (hh_state_name (hh_state s))),
             (''connect_state'', JStr (hh_link_name (hh_link s)))]
       @ named_device (hh_link s \<in> {L_CONNECTED, L_DISCONNECTED}) (hh_dev s))) s"

datatype hh_event = BT_HH_REPORT_EVT | BT_HH_OPEN_EVT "open_msg option" | BT_HH_CLOSE_EVT | BT_HH_OTHER_EVT

text \<open>The message of an open event is used without a test.\<close>

fun hh_listener :: "hh_event \<Rightarrow> 'w bt_state \<Rightarrow> 'w bt_state option" where
  "hh_listener (BT_HH_OPEN_EVT None) s = None"
| "hh_listener (BT_HH_OPEN_EVT (Some m)) s =
     Some (broadcast_hh_state False
       (s\<lparr>hh_link := if om_status m \<noteq> 0 then L_CONNECTEFAILED else L_CONNECTED, hh_dev := store_device m\<rparr>))"
| "hh_listener BT_HH_CLOSE_EVT s = Some (broadcast_hh_state False (s\<lparr>hh_link := L_DISCONNECTED\<rparr>))"
| "hh_listener BT_HH_REPORT_EVT s = Some s"
| "hh_listener BT_HH_OTHER_EVT s = Some s"

definition bt_hh_on :: "'w bt_ops \<Rightarrow> string option \<Rightarrow> 'w bt_state \<Rightarrow> 'w bt_state" where
  "bt_hh_on E name s =
     (if hh_state s = HH_STATE_OPENED then broadcast_hh_state False s
      else let (ret, s) = bt_open E s in
        if ret \<noteq> 0 then broadcast_hh_state False (s\<lparr>hh_state := HH_STATE_OPENFAILED\<rparr>)
        else let s = bcall (p_set_listener (b_hh E)) s;
                 s = bcall (b_set_bt_name E name) s;
                 (ret, s) = bx (p_enable (b_hh E)) s in
          if ret \<noteq> 0 then broadcast_hh_state False (s\<lparr>hh_state := HH_STATE_OPENFAILED\<rparr>)
          else broadcast_hh_state False (s\<lparr>bt_status := set_flag (bt_status s) HID_HOST_STATUS_MASK,
                 hh_state := HH_STATE_OPENED, hh_link := L_INVALID\<rparr>))"

definition bt_hh_off :: "'w bt_ops \<Rightarrow> 'w bt_state \<Rightarrow> 'w bt_state" where
  "bt_hh_off E s =
     (if hh_state s \<ge> HH_STATE_CLOSE then broadcast_hh_state False s
      else let s = bcall (p_disable (b_hh E)) (s\<lparr>hh_state := HH_STATE_CLOSE\<rparr>);
               s = bt_close E (s\<lparr>bt_status := clear_flag (bt_status s) HID_HOST_STATUS_MASK\<rparr>)
           in broadcast_hh_state False (s\<lparr>hh_state := HH_STATE_CLOSED\<rparr>))"

definition get_hh_connected_devices_num :: "'w bt_ops \<Rightarrow> 'w bt_state \<Rightarrow> int \<times> 'w bt_state" where
  "get_hh_connected_devices_num E s = connected_num (b_hh E) 20 s"

definition bt_hh_connect :: "'w bt_ops \<Rightarrow> string option \<Rightarrow> 'w bt_state \<Rightarrow> 'w bt_state option" where
  "bt_hh_connect E address s =
     (let (busy, s) = (if hh_state s \<noteq> HH_STATE_OPENED then (True, s)
                       else let (n, s) = get_hh_connected_devices_num E s in (n \<noteq> 0, s)) in
      if busy then Some (broadcast_hh_state False s)
      else do {
        (ret, a) \<leftarrow> bd_strtoba zero_addr address;
        if ret \<noteq> 0 then Some s
        else do {
          let (ret, s) = bx (p_connect (b_hh E) a) s;
          Some (if ret \<noteq> 0 then broadcast_hh_state False s else s)
        }
      })"

definition bt_hh_disconnect :: "'w bt_ops \<Rightarrow> string option \<Rightarrow> 'w bt_state \<Rightarrow> 'w bt_state option" where
  "bt_hh_disconnect E address s =
     (let ((num, ds), s) = bx (p_connected (b_hh E) 20) s in
      if num \<noteq> 0 then
        case address of
          Some a \<Rightarrow> do {
            (ret, b) \<leftarrow> bd_strtoba zero_addr (Some a);
            if ret \<noteq> 0 then Some s
            else do {
              let (ret, s) = bx (p_disconnect (b_hh E) b) s;
              Some (if ret \<noteq> 0 then broadcast_hh_state False s else s)
            }
          }
        | None \<Rightarrow> do { ds \<leftarrow> first_devices num (device_array 20 True ds); Some (disconnect_all (b_hh E) ds s) }
      else Some (broadcast_hh_state False s))"

definition hh_command :: "'w bt_ops \<Rightarrow> json \<Rightarrow> bool \<Rightarrow> string \<Rightarrow> 'w bt_state \<Rightarrow> 'w bt_state option" where
  "hh_command E obj reply command s =
     (if command = ''ON'' then Some (bt_hh_on E (request_name E obj (Some default_name)) s)
      else if command = ''OFF'' then Some (bt_hh_off E s)
      else if command = ''GETSTATE'' then Some (broadcast_hh_state reply s)
      else if command = ''CONNECT'' then
        (case json_object_object_get_ex obj ''address'' of
           None \<Rightarrow> Some s | Some a \<Rightarrow> bt_hh_connect E (jstr E a) s)
      else if command = ''DISCONNECT'' then
        (case json_object_object_get_ex obj ''address'' of
           None \<Rightarrow> bt_hh_disconnect E None s | Some a \<Rightarrow> bt_hh_disconnect E (jstr E a) s)
      else Some s)"

definition handle_hh_handle :: "'w bt_ops \<Rightarrow> json \<Rightarrow> bool \<Rightarrow> 'w bt_state \<Rightarrow> (int \<times> 'w bt_state) option" where
  "handle_hh_handle E obj reply s = with_command E obj (hh_command E obj reply) s"

section \<open>The microphone socket (turen.c)\<close>

definition turen_close :: "'w bt_state \<Rightarrow> 'w bt_state" where
  "turen_close s = s\<lparr>bt_mic := False\<rparr>"

text \<open>\<open>b_mic_connect\<close>: creating, connecting and greeting the socket, 0 if all steps succeed.\<close>

definition turen_open :: "'w bt_ops \<Rightarrow> 'w bt_state \<Rightarrow> 'w bt_state" where
  "turen_open E s =
     (if bt_mic s then s else let (ret, s) = bx (b_mic_connect E) s in s\<lparr>bt_mic := (ret = 0)\<rparr>)"

function turen_recv_from :: "'w bt_ops \<Rightarrow> int \<Rightarrow> int \<Rightarrow> 'w bt_state \<Rightarrow> int \<times> 'w bt_state" where
  "turen_recv_from E sz count s =
     (if count < sz then
        let (r, s) = bx (b_mic_recv E (nat (sz - count))) s in
        if r = 0 then (0, s) else if r < 0 then (-1, s) else turen_recv_from E sz (count + r) s
      else (count, s))"
  by auto
termination
  by (relation "measure (\<lambda>(E, sz, count, s). nat (sz - count))") auto

declare turen_recv_from.simps [simp del]

definition turen_recv_data :: "'w bt_ops \<Rightarrow> int \<Rightarrow> 'w bt_state \<Rightarrow> int \<times> 'w bt_state" where
  "turen_recv_data E sz s = (if \<not> bt_mic s then (0, s) else turen_recv_from E sz 0 s)"

section \<open>Hands-free\<close>

text \<open>Names of the open states of hands-free and the two audio profiles.\<close>

fun open_name :: "open_state \<Rightarrow> string" where
  "open_name S_OPEN = ''open''"
| "open_name S_OPENED = ''opened''"
| "open_name S_OPENFAILED = ''open failed''"
| "open_name S_CLOSE = ''close''"
| "open_name S_CLOSING = ''closing''"
| "open_name S_CLOSED = ''closed''"
| "open_name S_INVALID = ''invalid''"

fun hfp_link_name :: "link \<Rightarrow> string" where
  "hfp_link_name L_CONNECTING = ''connecting''"
| "hfp_link_name L_CONNECTED = ''connected''"
| "hfp_link_name L_CONNECTEFAILED = ''connect failed''"
| "hfp_link_name L_DISCONNECTING = ''disconnecting''"
| "hfp_link_name L_DISCONNECTED = ''disconnected''"
| "hfp_link_name _ = ''invalid''"

text \<open>The name of a number of an enumeration.\<close>

definition enum_name :: "string list \<Rightarrow> int \<Rightarrow> string" where
  "enum_name names i = (if 0 \<le> i \<and> nat i < length names then names ! nat i else ''invalid'')"

definition broadcast_hfp_state :: "bool \<Rightarrow> 'w bt_state \<Rightarrow> 'w bt_state" where
  "broadcast_hfp_state reply s = (let h = hfp s in answer BLUETOOTH_FUNCTION_HFP reply
     (JObj ([(''hfpstate'', JStr (open_name (hfp_open h))), (''connect_state'', JStr (hfp_link_name (hfp_link h)))]
       @ (if hfp_link h = L_CONNECTED then [(''connect_name'', JStr (dev_name (hfp_dev s)))] else [])
       @ [(''service'', JStr (enum_name [''inactive'', ''active''] (service h))),
          (''call'', JStr (enum_name [''inactive'', ''active''] (call h))),
          (''setup'', JStr (enum_name [''none'', ''incoming'', ''outgoing'', ''alerting''] (callsetup h))),
          (''held'', JStr (enum_name [''none'', ''hold_active'', ''hold''] (callheld h))),
          (''audio'', JStr (enum_name [''off'', ''on''] (audio h))), (''action'', JStr ''stateupdate'')])) s)"

definition HFP_CALL_ACTIVE :: int where "HFP_CALL_ACTIVE = 1"
definition HFP_AUDIO_ON :: int where "HFP_AUDIO_ON = 1"
definition HFP_AUDIO_OFF :: int where "HFP_AUDIO_OFF = 0"

definition broadcast_hfp_ring :: "'w bt_state \<Rightarrow> 'w bt_state" where
  "broadcast_hfp_ring s = report_bluetooth_information BLUETOOTH_FUNCTION_HFP
     (JObj [(''action'', JStr ''ring''), (''audio'', JStr (if audio (hfp s) = HFP_AUDIO_ON then ''on'' else ''off''))]) s"

record cind_msg =
  ci_service :: int
  ci_call :: int
  ci_setup :: int
  ci_held :: int

datatype hfp_event = BT_HS_CONN_EVT "open_msg option" | BT_HS_CLOSE_EVT | BT_HS_AUDIO_OPEN_EVT | BT_HS_AUDIO_CLOSE_EVT
  | BT_HS_FEED_MIC_EVT "int option" | BT_HS_CIND_EVT "cind_msg option" | BT_HS_CIEV_EVT "int option" | BT_HS_RING_EVT
  | BT_HS_OTHER_EVT

text \<open>The indicators 1 to 11 of \<open>BT_HS_CIEV_EVT\<close>; the case 10 continues with the case 11.\<close>

definition ciev_update :: "int \<Rightarrow> hfp_state \<Rightarrow> hfp_state option" where
  "ciev_update i h =
     (if i = 1 then Some (h\<lparr>service := 0\<rparr>)
      else if i = 2 then Some (h\<lparr>service := 1\<rparr>)
      else if i = 3 then Some (h\<lparr>call := 0\<rparr>)
      else if i = 4 then Some (h\<lparr>call := 1\<rparr>)
      else if i = 5 then Some (h\<lparr>callsetup := 0\<rparr>)
      else if i = 6 then Some (h\<lparr>callsetup := 1\<rparr>)
      else if i = 7 then Some (h\<lparr>callsetup := 2\<rparr>)
      else if i = 8 then Some (h\<lparr>callsetup := 3\<rparr>)
      else if i = 9 then Some (h\<lparr>callheld := 0\<rparr>)
      else if i = 10 then Some ((h\<lparr>callheld := 1\<rparr>)\<lparr>callheld := 2\<rparr>)
      else if i = 11 then Some (h\<lparr>callheld := 2\<rparr>)
      else None)"

definition in_call :: "'w bt_state \<Rightarrow> bool" where
  "in_call s \<longleftrightarrow> call (hfp s) = HFP_CALL_ACTIVE \<and> audio (hfp s) = HFP_AUDIO_ON"

definition mic_if_call :: "'w bt_ops \<Rightarrow> 'w bt_state \<Rightarrow> 'w bt_state" where
  "mic_if_call E s = (if in_call s then turen_open E s else s)"

fun hfp_listener :: "'w bt_ops \<Rightarrow> hfp_event \<Rightarrow> 'w bt_state \<Rightarrow> 'w bt_state" where
  "hfp_listener E (BT_HS_CONN_EVT msg) s =
     (case msg of None \<Rightarrow> s
      | Some m \<Rightarrow> broadcast_hfp_state False
          (if om_status m = 0 then s\<lparr>hfp_dev := store_device m, hfp := (hfp s)\<lparr>hfp_link := L_CONNECTED\<rparr>\<rparr>
           else s\<lparr>hfp := (hfp s)\<lparr>hfp_link := L_CONNECTEFAILED\<rparr>\<rparr>))"
| "hfp_listener E BT_HS_CLOSE_EVT s =
     broadcast_hfp_state False ((turen_close s)\<lparr>hfp := (hfp s)\<lparr>hfp_link := L_DISCONNECTED\<rparr>\<rparr>)"
| "hfp_listener E BT_HS_AUDIO_OPEN_EVT s =
     (let s = (if call (hfp s) = HFP_CALL_ACTIVE then turen_open E s else s)
      in broadcast_hfp_state False (s\<lparr>hfp := (hfp s)\<lparr>audio := HFP_AUDIO_ON\<rparr>\<rparr>))"
| "hfp_listener E BT_HS_AUDIO_CLOSE_EVT s =
     broadcast_hfp_state False (turen_close (s\<lparr>hfp := (hfp s)\<lparr>audio := HFP_AUDIO_OFF\<rparr>\<rparr>))"
| "hfp_listener E (BT_HS_FEED_MIC_EVT msg) s =
     (case msg of None \<Rightarrow> s
      | Some need \<Rightarrow> let (got, s) = turen_recv_data E need s in
          if got = 0 \<and> in_call s then turen_open E (turen_close s) else s)"
| "hfp_listener E (BT_HS_CIND_EVT msg) s =
     (case msg of None \<Rightarrow> s
      | Some m \<Rightarrow> broadcast_hfp_state False (mic_if_call E (s\<lparr>hfp := (hfp s)\<lparr>service := ci_service m, call := ci_call m,
          callsetup := ci_setup m, callheld := ci_held m\<rparr>\<rparr>)))"
| "hfp_listener E (BT_HS_CIEV_EVT msg) s =
     (case msg of None \<Rightarrow> s
      | Some i \<Rightarrow> (case ciev_update i (hfp s) of
           None \<Rightarrow> s
         | Some h \<Rightarrow> broadcast_hfp_state False (mic_if_call E (s\<lparr>hfp := h\<rparr>))))"
| "hfp_listener E BT_HS_RING_EVT s = broadcast_hfp_ring s"
| "hfp_listener E BT_HS_OTHER_EVT s = s"

definition bt_hfp_enable :: "'w bt_ops \<Rightarrow> string option \<Rightarrow> 'w bt_state \<Rightarrow> int \<times> 'w bt_state" where
  "bt_hfp_enable E name s =
     (let (ret, s) = bx (p_set_listener (b_hfp E)) s in
      if ret \<noteq> 0 then (-2, s)
      else let s = (if name \<noteq> None then bcall (b_set_bt_name E name) s else s);
               (ret, s) = bx (p_enable (b_hfp E)) s
           in if ret \<noteq> 0 then (-2, s) else (0, s))"

definition bt_hfp_connect :: "'w bt_ops \<Rightarrow> 8 word list \<Rightarrow> 'w bt_state \<Rightarrow> 'w bt_state" where
  "bt_hfp_connect E a s =
     (let s = s\<lparr>hfp := (hfp s)\<lparr>hfp_link := L_CONNECTEFAILED\<rparr>\<rparr>;
          s = (if hfp_open (hfp s) = S_OPENED
               then let (ret, s) = bx (p_connect (b_hfp E) a) s in
                 if ret \<noteq> 0 then s else s\<lparr>hfp := (hfp s)\<lparr>hfp_link := L_CONNECTING\<rparr>\<rparr>
               else s)
      in broadcast_hfp_state False s)"

text \<open>\<open>BLE_STATE_OPENFAILED\<close> in the second branch has the number of \<open>HFP_STATE_OPENFAILED\<close>.\<close>

definition bt_hfp_on :: "'w bt_ops \<Rightarrow> string option \<Rightarrow> 'w bt_state \<Rightarrow> 'w bt_state option" where
  "bt_hfp_on E name s =
     (if hfp_open (hfp s) = S_OPENED then Some (broadcast_hfp_state False s)
      else if b_hfp_uart E then Some (broadcast_hfp_state False (s\<lparr>hfp := (hfp s)\<lparr>hfp_open := S_OPENFAILED\<rparr>\<rparr>))
      else let (ret, s) = bt_open E s in
        if ret \<noteq> 0 then Some (broadcast_hfp_state False (s\<lparr>hfp := (hfp s)\<lparr>hfp_open := S_OPENFAILED\<rparr>\<rparr>))
        else let (ret, s) = bt_hfp_enable E name s;
                 s = (if ret = 0 then s\<lparr>hfp := (hfp s)\<lparr>hfp_open := S_OPENED\<rparr>,
                                        bt_status := set_flag (bt_status s) HFP_STATUS_MASK\<rparr>
                      else s\<lparr>hfp := (hfp s)\<lparr>hfp_open := S_OPENFAILED\<rparr>\<rparr>) in
          if ret = 0 \<and> snk_open (sink s) = S_OPENED \<and> snk_link (sink s) = L_CONNECTED
          then (if cfg_dev (sink_config s) = [] then None
                else Some (bt_hfp_connect E (dev_addr (cfg_dev (sink_config s) ! 0)) s))
          else Some (broadcast_hfp_state False s))"

definition bt_hfp_off :: "'w bt_ops \<Rightarrow> 'w bt_state \<Rightarrow> 'w bt_state" where
  "bt_hfp_off E s =
     (if hfp_open (hfp s) = S_CLOSED then broadcast_hfp_state False s
      else let s = bcall (p_disable (b_hfp E)) s;
               s = bt_close E (s\<lparr>bt_status := clear_flag (bt_status s) HFP_STATUS_MASK\<rparr>);
               s = turen_close (s\<lparr>hfp := zero_hfp\<lparr>hfp_open := S_CLOSED\<rparr>\<rparr>)
           in broadcast_hfp_state False s)"

definition bt_hfp_disconnect_device :: "'w bt_ops \<Rightarrow> 'w bt_state \<Rightarrow> 'w bt_state" where
  "bt_hfp_disconnect_device E s =
     (if hfp_link (hfp s) = L_CONNECTED
      then let (ret, s) = bx (p_disconnect (b_hfp E) (dev_addr (hfp_dev s))) s in
        if ret \<noteq> 0 then s else s\<lparr>hfp := (hfp s)\<lparr>hfp_link := L_DISCONNECTING\<rparr>\<rparr>
      else s)"

text \<open>\<open>bt_hfp_answer_call\<close>, \<open>bt_hfp_hangup_call\<close> and \<open>bt_hfp_dialing_call\<close> call the HAL while connected.\<close>

definition hfp_call :: "('w \<Rightarrow> int \<times> 'w) \<Rightarrow> 'w bt_state \<Rightarrow> 'w bt_state" where
  "hfp_call f s = (if hfp_link (hfp s) = L_CONNECTED then bcall f s else s)"

definition hfp_command :: "'w bt_ops \<Rightarrow> json \<Rightarrow> bool \<Rightarrow> string \<Rightarrow> 'w bt_state \<Rightarrow> 'w bt_state option" where
  "hfp_command E obj reply command s =
     (if command = ''ON'' then bt_hfp_on E (request_name E obj None) s
      else if command = ''OFF'' then Some (bt_hfp_off E s)
      else if command = ''GETSTATE'' then Some (broadcast_hfp_state reply s)
      else if command = ''ANSWERCALL'' then Some (hfp_call (b_answercall E) s)
      else if command = ''HANGUP'' then Some (hfp_call (b_hangup E) s)
      else if command = ''DISCONNECT'' then Some (bt_hfp_disconnect_device E s)
      else if command = ''DISCONNECT_PEER'' then Some (bt_hfp_disconnect_device E s)
      else if command = ''DIALING'' then
        Some (case json_object_object_get_ex obj ''NUMBER'' of None \<Rightarrow> s | Some n \<Rightarrow> hfp_call (b_dial_num E (jstr E n)) s)
      else Some s)"

definition handle_hfp_handle :: "'w bt_ops \<Rightarrow> json \<Rightarrow> bool \<Rightarrow> 'w bt_state \<Rightarrow> (int \<times> 'w bt_state) option" where
  "handle_hfp_handle E obj reply s = with_command E obj (hfp_command E obj reply) s"

end
