(* ===== verification/BtAudio.thy ===== *)
theory BtAudio
  imports BtProfiles
begin

text \<open>
  The two audio profiles with their lists of known devices: A2DP sink
  (\<open>src/bt/a2dpsink.c\<close>) and A2DP source (\<open>src/bt/a2dpsource.c\<close>), and the function that closes
  several profiles (\<open>bt_close_mask_profile\<close> of \<open>src/bt/common.c\<close>).  The model is the build with
  \<open>BT_SERVICE_HAVE_HFP\<close>.
\<close>

definition AUTOCONNECT_BY_HISTORY_INIT :: int where "AUTOCONNECT_BY_HISTORY_INIT = 99"
definition AUTOCONNECT_BY_HISTORY_WORK :: int where "AUTOCONNECT_BY_HISTORY_WORK = 100"
definition AUTOCONNECT_BY_HISTORY_OVER :: int where "AUTOCONNECT_BY_HISTORY_OVER = 101"
definition BLUETOOTH_A2DPSINK_CHECK_PLAY_INDEX :: int where "BLUETOOTH_A2DPSINK_CHECK_PLAY_INDEX = 5"

section \<open>State messages\<close>

fun a2dp_link_name :: "link \<Rightarrow> string" where
  "a2dp_link_name L_CONNECTED = ''connected''"
| "a2dp_link_name L_CONNECTEFAILED = ''connect failed''"
| "a2dp_link_name L_DISCONNECTED = ''disconnected''"
| "a2dp_link_name _ = ''invalid''"

fun play_name :: "play \<Rightarrow> string" where
  "play_name PLAY_PLAYED = ''played''"
| "play_name PLAY_STOPED = ''stopped''"
| "play_name PLAY_INVALID = ''invalid''"

fun broadcast_field :: "broadcast \<Rightarrow> (string \<times> json) list" where
  "broadcast_field BC_OPENED = [(''broadcast_state'', JStr ''opened'')]"
| "broadcast_field BC_CLOSED = [(''broadcast_state'', JStr ''closed'')]"
| "broadcast_field BC_NONE = []"

text \<open>Name and address of the first known device.\<close>

definition first_device :: "bool \<Rightarrow> autoconnect_config \<Rightarrow> (string \<times> json) list option" where
  "first_device shown c =
     (if \<not> shown then Some []
      else case cfg_dev c of [] \<Rightarrow> None
      | d # _ \<Rightarrow> Some [(''connect_name'', JStr (dev_name d)), (''connect_address'', JStr (mac_text (dev_addr d)))])"

definition broadcast_a2dpsink_state :: "bool \<Rightarrow> 'w bt_state \<Rightarrow> 'w bt_state option" where
  "broadcast_a2dpsink_state reply s = do {
     let k = sink s;
     dev \<leftarrow> first_device (snk_link k = L_CONNECTED) (sink_config s);
     Some (answer BLUETOOTH_FUNCTION_A2DPSINK reply
       (JObj ([(''linknum'', JInt (autoconnect_linknum (sink_config s))), (''a2dpstate'', JStr (open_name (snk_open k))),
               (''connect_state'', JStr (a2dp_link_name (snk_link k)))] @ dev
          @ [(''play_state'', JStr (play_name (snk_play k)))] @ broadcast_field (snk_broadcast k)
          @ [(''action'', JStr ''stateupdate'')])) s)
   }"

fun source_link_name :: "link \<Rightarrow> string" where
  "source_link_name L_CONNECTED = ''connected''"
| "source_link_name L_CONNECTEFAILED = ''connect failed''"
| "source_link_name L_DISCONNECTED = ''disconnected''"
| "source_link_name L_CONNECTEOVER = ''connect over''"
| "source_link_name _ = ''invalid''"

definition broadcast_a2dpsource_state :: "bool \<Rightarrow> 'w bt_state \<Rightarrow> 'w bt_state option" where
  "broadcast_a2dpsource_state reply s = do {
     let k = source s;
     dev \<leftarrow> first_device (src_link k \<in> {L_CONNECTED, L_CONNECTEOVER}) (source_config s);
     Some (answer BLUETOOTH_FUNCTION_A2DPSOURCE reply
       (JObj ([(''linknum'', JInt (autoconnect_linknum (source_config s))), (''a2dpstate'', JStr (open_name (src_open k))),
               (''connect_state'', JStr (source_link_name (src_link k)))] @ dev
          @ broadcast_field (src_broadcast k) @ [(''action'', JStr ''stateupdate'')])) s)
   }"

definition bool_broadcast :: "bool \<Rightarrow> broadcast" where
  "bool_broadcast b = (if b then BC_OPENED else BC_CLOSED)"

section \<open>Switching off\<close>

definition bt_a2dpsink_off :: "'w bt_ops \<Rightarrow> 'w bt_state \<Rightarrow> 'w bt_state option" where
  "bt_a2dpsink_off E s =
     (if snk_open (sink s) = S_CLOSED then broadcast_a2dpsink_state False s
      else do {
        s \<leftarrow> (if autoconnect_mode (sink_config s) = ROKIDOS_BT_AUTOCONNECT_BY_SCANRESULTS
              then cancel_discovery E s else Some s);
        let s = bcall (p_disable (b_sink E)) s;
        let s = bt_close E (s\<lparr>bt_status := clear_flag (bt_status s) A2DP_SINK_STATUS_MASK\<rparr>);
        let s = s\<lparr>e_play_state := False, e_connect_over := False, e_auto_connect := False, e_play_command := False,
                  get_play_status := BT_AVRC_PLAYSTATE_STOPPED,
                  sink := zero_sink\<lparr>snk_broadcast := BC_CLOSED, snk_open := S_CLOSED\<rparr>\<rparr>;
        s \<leftarrow> broadcast_a2dpsink_state False s;
        Some (bcall (b_property_set E ''audio.bluetooth.playing'' ''false'') s)
      })"

definition bt_a2dpsource_off :: "'w bt_ops \<Rightarrow> 'w bt_state \<Rightarrow> 'w bt_state option" where
  "bt_a2dpsource_off E s =
     (if src_open (source s) = S_CLOSED then broadcast_a2dpsource_state False s
      else do {
        s \<leftarrow> cancel_discovery E s;
        let s = bcall (p_disable (b_source E)) s;
        let s = bt_close E (s\<lparr>bt_status := clear_flag (bt_status s) A2DP_SOURCE_STATUS_MASK\<rparr>);
        broadcast_a2dpsource_state False (s\<lparr>es_connect_over := False, es_auto_connect := False,
          source := zero_source\<lparr>src_broadcast := BC_CLOSED, src_open := S_CLOSED\<rparr>\<rparr>)
      })"

text \<open>The status is read once, before the first profile is closed.\<close>

definition bt_close_mask_profile :: "'w bt_ops \<Rightarrow> 32 word \<Rightarrow> 'w bt_state \<Rightarrow> 'w bt_state option" where
  "bt_close_mask_profile E m s = do {
     let st = bt_status s AND m;
     s \<leftarrow> Some (if has_flag st HID_HOST_STATUS_MASK then bt_hh_off E s else s);
     s \<leftarrow> Some (if has_flag st HFP_STATUS_MASK then bt_hfp_off E s else s);
     s \<leftarrow> (if has_flag st A2DP_SINK_STATUS_MASK then bt_a2dpsink_off E s else Some s);
     s \<leftarrow> (if has_flag st A2DP_SOURCE_STATUS_MASK then bt_a2dpsource_off E s else Some s);
     s \<leftarrow> Some (if has_flag st BLE_CLIENT_STATUS_MASK then bt_ble_client_off E s else s);
     if has_flag st BLE_STATUS_MASK then bt_ble_off E s else Some s
   }"

text \<open>The field \<open>unique\<close> of an ON request.\<close>

definition close_others :: "'w bt_ops \<Rightarrow> json \<Rightarrow> 32 word \<Rightarrow> 'w bt_state \<Rightarrow> 'w bt_state option" where
  "close_others E obj keep s =
     (case json_object_object_get_ex obj ''unique'' of
        None \<Rightarrow> Some s
      | Some u \<Rightarrow> if json_object_get_boolean u then bt_close_mask_profile E (NOT keep) s else Some s)"

section \<open>BLE requests\<close>

definition bt_ble_on_prepare :: "'w bt_ops \<Rightarrow> json \<Rightarrow> 'w bt_state \<Rightarrow> 'w bt_state option" where
  "bt_ble_on_prepare E obj s = close_others E obj BLE_STATUS_MASK s"

definition ble_command :: "'w bt_ops \<Rightarrow> json \<Rightarrow> bool \<Rightarrow> string \<Rightarrow> 'w bt_state \<Rightarrow> 'w bt_state option" where
  "ble_command E obj reply command s =
     (if command = ''ON'' then do {
        s \<leftarrow> bt_ble_on_prepare E obj s;
        bt_ble_on E (request_name E obj (Some default_name)) s
      }
      else if command = ''OFF'' then bt_ble_off E s
      else if command = ''GETSTATE'' then broadcast_ble_state reply s
      else Some s)"

definition handle_ble_handle :: "'w bt_ops \<Rightarrow> json \<Rightarrow> bool \<Rightarrow> 'w bt_state \<Rightarrow> (int \<times> 'w bt_state) option" where
  "handle_ble_handle E obj reply s =
     (if obj = JNull \<or> json_object_object_get_ex obj ''command'' \<noteq> None
      then with_command E obj (ble_command E obj reply) s
      else case json_object_object_get_ex obj ''data'' of
        Some d \<Rightarrow> (case jstr E d of None \<Rightarrow> None
          | Some t \<Rightarrow> Some (0, rokid_send_ble_data E (text_bytes t) s))
      | None \<Rightarrow> (case json_object_object_get_ex obj ''rawdata'' of
            None \<Rightarrow> Some (0, s)
          | Some d \<Rightarrow> (case jstr E d of None \<Rightarrow> None
              | Some t \<Rightarrow> map_option (Pair 0) (ble_send_raw_data E (text_bytes t) s))))"

section \<open>A2DP source\<close>

definition get_a2dpsource_connected_device_num :: "'w bt_ops \<Rightarrow> 'w bt_state \<Rightarrow> int \<times> 'w bt_state" where
  "get_a2dpsource_connected_device_num E s = connected_num (b_source E) 1 s"

text \<open>The device of a successful connection: the name the peer sent, else the known one.\<close>

definition connected_device :: "autoconnect_config \<Rightarrow> open_msg \<Rightarrow> autoconnect_device option" where
  "connected_device c m = do {
     index \<leftarrow> bt_autoconnect_get_index c (om_addr m);
     known \<leftarrow> (if index \<ge> 0 then copy_name (Some (dev_name (cfg_dev c ! nat index))) else Some []);
     name \<leftarrow> (if om_name m \<noteq> [] then copy_name (Some (om_name m)) else Some known);
     Some \<lparr>dev_name = name, dev_addr = om_addr m\<rparr>
   }"

datatype source_event = BT_A2DP_OPEN_EVT "open_msg option" | BT_A2DP_CLOSE_EVT | BT_A2DP_OTHER_EVT

definition set_source :: "(a2dpsource_state \<Rightarrow> a2dpsource_state) \<Rightarrow> 'w bt_state \<Rightarrow> 'w bt_state" where
  "set_source f s = s\<lparr>source := f (source s)\<rparr>"

definition set_source_config :: "(autoconnect_config \<Rightarrow> autoconnect_config) \<Rightarrow> 'w bt_state \<Rightarrow> 'w bt_state" where
  "set_source_config f s = s\<lparr>source_config := f (source_config s)\<rparr>"

text \<open>\<open>bt_autoconnect_update\<close> and \<open>bt_autoconnect_sync\<close>; their results are not used.\<close>

definition remember_source :: "'w bt_ops \<Rightarrow> autoconnect_device \<Rightarrow> 'w bt_state \<Rightarrow> 'w bt_state option" where
  "remember_source E d s = do {
     (_, c) \<leftarrow> bt_autoconnect_update (source_config s) d;
     (_, w) \<leftarrow> bt_autoconnect_sync (b_store E) c (bt_world s);
     Some (s\<lparr>source_config := c, bt_world := w\<rparr>)
   }"

definition source_opened :: "'w bt_ops \<Rightarrow> open_msg \<Rightarrow> 'w bt_state \<Rightarrow> 'w bt_state option" where
  "source_opened E m s = do {
     d \<leftarrow> connected_device (source_config s) m;
     s \<leftarrow> remember_source E d (s\<lparr>es_connect_over := False\<rparr>);
     let s = bcall (b_set_visibility E False False) s;
     if src_open (source s) \<noteq> S_CLOSED
     then broadcast_a2dpsource_state False
            (set_source (\<lambda>k. k\<lparr>src_link := L_CONNECTED, src_broadcast := BC_CLOSED\<rparr>) s)
     else Some s
   }"

text \<open>A failed connection: while known devices are tried, the next one is scheduled and a known
  address is not reported.\<close>

definition source_open_failed :: "open_msg \<Rightarrow> 'w bt_state \<Rightarrow> 'w bt_state option" where
  "source_open_failed m s = do {
     let work = (autoconnect_flag (source_config s) = AUTOCONNECT_BY_HISTORY_WORK);
     let s = (if work then s\<lparr>es_auto_connect := True\<rparr> else s);
     index \<leftarrow> (if work then bt_autoconnect_get_index (source_config s) (om_addr m) else Some (-1));
     if index \<ge> 0 then Some s
     else if autoconnect_flag (source_config s) = AUTOCONNECT_BY_HISTORY_OVER \<and> src_open (source s) \<noteq> S_CLOSED
     then broadcast_a2dpsource_state False
            (set_source (\<lambda>k. k\<lparr>src_link := L_CONNECTEFAILED, src_broadcast := BC_OPENED\<rparr>) s)
     else Some s
   }"

fun a2dp_source_listener :: "'w bt_ops \<Rightarrow> source_event \<Rightarrow> 'w bt_state \<Rightarrow> 'w bt_state option" where
  "a2dp_source_listener E (BT_A2DP_OPEN_EVT msg) s =
     (case msg of None \<Rightarrow> Some s
      | Some m \<Rightarrow> if om_status m = 0 then source_opened E m s else source_open_failed m s)"
| "a2dp_source_listener E BT_A2DP_CLOSE_EVT s = do {
     let s = bcall (b_set_visibility E True True) (set_source (\<lambda>k. k\<lparr>src_link := L_DISCONNECTED\<rparr>) s);
     s \<leftarrow> (if src_open (source s) < S_CLOSED
           then broadcast_a2dpsource_state False (set_source (\<lambda>k. k\<lparr>src_broadcast := BC_OPENED\<rparr>) s)
           else Some s);
     Some (if src_open (source s) < S_CLOSE \<and> src_open (source s) \<ge> S_OPENED then s\<lparr>es_connect_over := True\<rparr> else s)
   }"
| "a2dp_source_listener E BT_A2DP_OTHER_EVT s = Some s"

definition bt_a2dpsource_enable :: "'w bt_ops \<Rightarrow> string option \<Rightarrow> 'w bt_state \<Rightarrow> int \<times> 'w bt_state" where
  "bt_a2dpsource_enable E name s =
     (let s = bcall (p_disable (b_source E)) s;
          (ret, s) = bx (p_set_listener (b_source E)) s in
      if ret \<noteq> 0 then (-2, s)
      else let s = bcall (b_set_bt_name E name) s;
               (ret, s) = bx (p_enable (b_source E)) s in
        if ret \<noteq> 0 then (-2, s)
        else let (ret, s) = bx (b_set_visibility E True True) s in
          if ret \<noteq> 0 then (-3, s) else (0, set_source (\<lambda>k. k\<lparr>src_broadcast := BC_OPENED\<rparr>) s))"

definition a2dpsource_bluetooth_autoconnect :: "'w bt_ops \<Rightarrow> 'w bt_state \<Rightarrow> 'w bt_state" where
  "a2dpsource_bluetooth_autoconnect E s =
     (let (n, s) = get_a2dpsource_connected_device_num E s in
      if n \<noteq> 0 then set_source_config (\<lambda>c. c\<lparr>autoconnect_index := 0\<rparr>) s
      else (set_source_config (\<lambda>c. c\<lparr>autoconnect_flag := AUTOCONNECT_BY_HISTORY_WORK, autoconnect_index := 0\<rparr>) s)
             \<lparr>es_auto_connect := True\<rparr>)"

definition auto_connect_a2dpsource_by_history_index :: "'w bt_ops \<Rightarrow> 'w bt_state \<Rightarrow> 'w bt_state option" where
  "auto_connect_a2dpsource_by_history_index E s =
     (let (n, s) = get_a2dpsource_connected_device_num E s in
      if n \<noteq> 0 then
        Some ((set_source_config (\<lambda>c. c\<lparr>autoconnect_index := 0, autoconnect_flag := AUTOCONNECT_BY_HISTORY_OVER\<rparr>) s)
          \<lparr>es_auto_connect := False\<rparr>)
      else if autoconnect_flag (source_config s) \<noteq> AUTOCONNECT_BY_HISTORY_WORK
      then Some (set_source_config (\<lambda>c. c\<lparr>autoconnect_index := 0\<rparr>) s)
      else let c = source_config s; i = autoconnect_index c in
        if i \<ge> 0 \<and> i < autoconnect_num c then
          if nat i \<ge> length (cfg_dev c) then None
          else let a = dev_addr (cfg_dev c ! nat i) in
            if a \<noteq> zero_addr then
              let (ret, s) = bx (p_connect (b_source E) a) s in
              Some (set_source_config (\<lambda>c. c\<lparr>autoconnect_index := i + 1\<rparr>)
                (if ret \<noteq> 0 then s\<lparr>es_auto_connect := True\<rparr> else set_source (\<lambda>k. k\<lparr>src_link := L_CONNECTING\<rparr>) s))
            else Some (set_source_config (\<lambda>c. c\<lparr>autoconnect_index := i + 1\<rparr>) s)
        else if i \<ge> 0 then do {
          let s = set_source_config (\<lambda>c. c\<lparr>autoconnect_index := 0, autoconnect_flag := AUTOCONNECT_BY_HISTORY_OVER\<rparr>) s;
          s \<leftarrow> (if src_link (source s) \<noteq> L_CONNECTED \<and> autoconnect_linknum (source_config s) > 0
                then broadcast_a2dpsource_state False (set_source (\<lambda>k. k\<lparr>src_link := L_CONNECTEOVER\<rparr>) s)
                else Some s);
          Some (s\<lparr>es_auto_connect := False\<rparr>)
        }
        else Some (set_source_config (\<lambda>c. c\<lparr>autoconnect_index := i + 1\<rparr>) s))"

definition a2dpsource_autoconnect_over :: "'w bt_ops \<Rightarrow> 'w bt_state \<Rightarrow> 'w bt_state option" where
  "a2dpsource_autoconnect_over E s =
     (let (n, s) = get_a2dpsource_connected_device_num E s in if n \<noteq> 0 then Some s else bt_a2dpsource_off E s)"

definition bt_a2dpsource_timer_init :: "'w bt_ops \<Rightarrow> 'w bt_state \<Rightarrow> int \<times> 'w bt_state" where
  "bt_a2dpsource_timer_init E s =
     (let (t1, s) = bx (b_timer_add E) s; (t2, s) = bx (b_timer_add E) s
      in (if t1 \<le> 0 \<or> t2 \<le> 0 then -1 else 0, s))"

definition bt_a2dpsource_timer_uninit :: "'w bt_state \<Rightarrow> 'w bt_state" where
  "bt_a2dpsource_timer_uninit s = s\<lparr>es_auto_connect := False, es_connect_over := False\<rparr>"

definition bt_a2dpsource_on :: "'w bt_ops \<Rightarrow> string option \<Rightarrow> 'w bt_state \<Rightarrow> 'w bt_state option" where
  "bt_a2dpsource_on E name s =
     (if src_open (source s) = S_OPENED then do {
        s \<leftarrow> broadcast_a2dpsource_state False s;
        Some (a2dpsource_bluetooth_autoconnect E s)
      }
      else do {
        let (ret, s) = bt_open E s;
        if ret \<noteq> 0 then broadcast_a2dpsource_state False (set_source (\<lambda>k. k\<lparr>src_open := S_OPENFAILED\<rparr>) s)
        else do {
          let (ret, s) = bt_a2dpsource_enable E name (s\<lparr>source := zero_source\<rparr>);
          if ret = 0 then do {
            let s = (set_source (\<lambda>k. k\<lparr>src_open := S_OPENED\<rparr>) s)
                      \<lparr>bt_status := set_flag (bt_status s) A2DP_SOURCE_STATUS_MASK\<rparr>;
            s \<leftarrow> broadcast_a2dpsource_state False s;
            let s = set_source_config (\<lambda>c. c\<lparr>autoconnect_flag := AUTOCONNECT_BY_HISTORY_INIT\<rparr>) s;
            let s = a2dpsource_bluetooth_autoconnect E s;
            Some (s\<lparr>es_connect_over := True\<rparr>)
          }
          else broadcast_a2dpsource_state False (set_source (\<lambda>k. k\<lparr>src_open := S_OPENFAILED\<rparr>) s)
        }
      })"

definition bt_a2dpsource_on_prepare :: "'w bt_ops \<Rightarrow> json \<Rightarrow> 'w bt_state \<Rightarrow> 'w bt_state option" where
  "bt_a2dpsource_on_prepare E obj s = close_others E obj A2DP_SOURCE_STATUS_MASK s"

text \<open>The array has one element and was cleared.\<close>

definition bt_a2dpsource_disconnect_device :: "'w bt_ops \<Rightarrow> 'w bt_state \<Rightarrow> 'w bt_state option" where
  "bt_a2dpsource_disconnect_device E s =
     (let ((count, ds), s) = bx (p_connected (b_source E) 1) s in
      if count \<noteq> 0 then Some (bcall (p_disconnect (b_source E) (bd_addr (device_array 1 True ds ! 0))) s)
      else broadcast_a2dpsource_state False (set_source (\<lambda>k. k\<lparr>src_link := L_DISCONNECTED\<rparr>) s))"

text \<open>The devices of a scan, as the field \<open>deviceList\<close> (absent if there is none).\<close>

definition device_list :: "int \<Rightarrow> bt_device list \<Rightarrow> (string \<times> json) list option" where
  "device_list count arr =
     (if count > 0 then map_option (\<lambda>ds. [(''deviceList'', JArr (map device_json ds))]) (first_devices count arr)
      else Some [])"

definition a2dpsource_upload_scan_results :: "'w bt_ops \<Rightarrow> bool \<Rightarrow> 'w bt_state \<Rightarrow> 'w bt_state option" where
  "a2dpsource_upload_scan_results E is_completed s =
     (if \<not> bt_scanning s \<or> src_open (source s) \<noteq> S_OPENED then Some s
      else do {
        let ((num, ds), s) = bx (b_disc_devices E BT_DISC_NB_DEVICES) s;
        devs \<leftarrow> device_list num (device_array BT_DISC_NB_DEVICES True ds);
        let ((n, cs), s) = bx (p_connected (b_source E) 1) s;
        let cur = (let d = device_array 1 True cs ! 0 in
          if n \<noteq> 0 then [(''currentDevice'', JObj [(''name'', JStr (bd_name d)), (''address'', JStr (mac_text (bd_addr d)))])]
          else []);
        Some (report_bluetooth_information BLUETOOTH_FUNCTION_A2DPSOURCE
          (JObj [(''action'', JStr ''discovery''),
                 (''results'', JObj ([(''is_completed'', JBool is_completed)] @ devs @ cur))]) s)
      })"

definition bt_a2dpsource_discovery :: "'w bt_ops \<Rightarrow> 'w bt_state \<Rightarrow> 'w bt_state option" where
  "bt_a2dpsource_discovery E s =
     (if src_open (source s) \<noteq> S_OPENED then broadcast_a2dpsource_state False s
      else let (ret, s) = bt_discovery E BT_A2DP_SINK s in
        if ret \<noteq> 0 then broadcast_a2dpsource_state False s else Some s)"

definition bt_a2dpsource_connect :: "'w bt_ops \<Rightarrow> string option \<Rightarrow> 'w bt_state \<Rightarrow> 'w bt_state option" where
  "bt_a2dpsource_connect E addr s =
     (let (busy, s) = (if src_open (source s) \<noteq> S_OPENED then (True, s)
                       else let (n, s) = get_a2dpsource_connected_device_num E s in (n \<noteq> 0, s)) in
      if busy then broadcast_a2dpsource_state False s
      else do {
        (ret, a) \<leftarrow> bd_strtoba zero_addr addr;
        if ret \<noteq> 0 then Some s
        else do {
          let (ret, s) = bx (p_connect (b_source E) a) s;
          if ret \<noteq> 0 then broadcast_a2dpsource_state False (set_source (\<lambda>k. k\<lparr>src_link := L_CONNECTEFAILED\<rparr>) s)
          else Some s
        }
      })"

text \<open>The name has 127 bytes at most; without a name it is made from the address of the controller.
  A field that is a JSON null prints as \<open>(null)\<close>.\<close>

definition source_name :: "'w bt_ops \<Rightarrow> json \<Rightarrow> 'w bt_state \<Rightarrow> string \<times> 'w bt_state" where
  "source_name E obj s =
     (case json_object_object_get_ex obj ''name'' of
        Some j \<Rightarrow> (take 127 (case jstr E j of None \<Rightarrow> ''(null)'' | Some n \<Rightarrow> n), s)
      | None \<Rightarrow> let ((_, a), s) = bx (b_module_addr E) s in (take 127 (''rokidsource_'' @ mac_text a), s))"

definition a2dpsource_command :: "'w bt_ops \<Rightarrow> json \<Rightarrow> bool \<Rightarrow> string \<Rightarrow> 'w bt_state \<Rightarrow> 'w bt_state option" where
  "a2dpsource_command E obj reply command s =
     (if command = ''ON'' then do {
        let s = (if src_open (source s) = S_OPENED \<and> src_link (source s) \<noteq> L_CONNECTED
                 then (set_source (\<lambda>k. k\<lparr>src_link := L_INVALID\<rparr>) s)\<lparr>es_connect_over := True\<rparr> else s);
        let (name, s) = source_name E obj s;
        s \<leftarrow> bt_a2dpsource_on_prepare E obj s;
        bt_a2dpsource_on E (Some name) s
      }
      else if command = ''OFF'' then bt_a2dpsource_off E s
      else if command = ''GETSTATE'' then broadcast_a2dpsource_state reply s
      else if command = ''DISCOVERY'' then bt_a2dpsource_discovery E s
      else if command = ''DISCONNECT'' then bt_a2dpsource_disconnect_device E s
      else if command = ''DISCONNECT_PEER'' then bt_a2dpsource_disconnect_device E s
      else if command = ''CONNECT'' then
        (case json_object_object_get_ex obj ''address'' of
           None \<Rightarrow> Some s | Some a \<Rightarrow> bt_a2dpsource_connect E (jstr E a) s)
      else Some s)"

definition handle_a2dpsource_handle ::
  "'w bt_ops \<Rightarrow> json \<Rightarrow> bool \<Rightarrow> 'w bt_state \<Rightarrow> (int \<times> 'w bt_state) option" where
  "handle_a2dpsource_handle E obj reply s = with_command E obj (a2dpsource_command E obj reply) s"

end
