(* ===== verification/BtSink.thy ===== *)
theory BtSink
  imports BtAudio
begin

text \<open>
  The A2DP sink profile (\<open>src/bt/a2dpsink.c\<close>): connecting known devices, playback commands,
  the events of the HAL and the requests.  \<open>bt_a2dpsink_off\<close> and the state message are in
  \<open>BtAudio\<close>.
\<close>

definition set_sink :: "(a2dpsink_state \<Rightarrow> a2dpsink_state) \<Rightarrow> 'w bt_state \<Rightarrow> 'w bt_state" where
  "set_sink f s = s\<lparr>sink := f (sink s)\<rparr>"

definition set_sink_config :: "(autoconnect_config \<Rightarrow> autoconnect_config) \<Rightarrow> 'w bt_state \<Rightarrow> 'w bt_state" where
  "set_sink_config f s = s\<lparr>sink_config := f (sink_config s)\<rparr>"

definition get_a2dpsink_connected_device_num :: "'w bt_ops \<Rightarrow> 'w bt_state \<Rightarrow> int \<times> 'w bt_state" where
  "get_a2dpsink_connected_device_num E s = connected_num (b_sink E) 1 s"

section \<open>Connecting known devices\<close>

definition auto_connect_by_history_index :: "'w bt_ops \<Rightarrow> 'w bt_state \<Rightarrow> 'w bt_state option" where
  "auto_connect_by_history_index E s =
     (let (n, s) = get_a2dpsink_connected_device_num E s in
      if n \<noteq> 0 then
        Some ((set_sink_config (\<lambda>c. c\<lparr>autoconnect_index := 0, autoconnect_flag := AUTOCONNECT_BY_HISTORY_OVER\<rparr>) s)
          \<lparr>e_auto_connect := False\<rparr>)
      else if autoconnect_flag (sink_config s) \<noteq> AUTOCONNECT_BY_HISTORY_WORK
      then Some (set_sink_config (\<lambda>c. c\<lparr>autoconnect_index := 0\<rparr>) s)
      else let c = sink_config s; i = autoconnect_index c in
        if i \<ge> 0 \<and> i < autoconnect_num c then
          if nat i \<ge> length (cfg_dev c) then None
          else let a = dev_addr (cfg_dev c ! nat i) in
            if a \<noteq> zero_addr then
              let (ret, s) = bx (p_connect (b_sink E) a) s in
              Some (set_sink_config (\<lambda>c. c\<lparr>autoconnect_index := i + 1\<rparr>)
                (if ret \<noteq> 0 then s\<lparr>e_auto_connect := True\<rparr> else set_sink (\<lambda>k. k\<lparr>snk_link := L_CONNECTING\<rparr>) s))
            else Some (set_sink_config (\<lambda>c. c\<lparr>autoconnect_index := i + 1\<rparr>) s)
        else if i \<ge> 0 then
          Some ((set_sink_config (\<lambda>c. c\<lparr>autoconnect_index := 0, autoconnect_flag := AUTOCONNECT_BY_HISTORY_OVER\<rparr>) s)
            \<lparr>e_auto_connect := False\<rparr>)
        else Some (set_sink_config (\<lambda>c. c\<lparr>autoconnect_index := i + 1\<rparr>) s))"

text \<open>Trying addresses until one connection is started.\<close>

fun connect_first :: "'w bt_ops \<Rightarrow> 8 word list list \<Rightarrow> 'w bt_state \<Rightarrow> 'w bt_state" where
  "connect_first E [] s = s"
| "connect_first E (a # as) s =
     (let (ret, s) = bx (p_connect (b_sink E) a) s in
      if ret = 0 then set_sink (\<lambda>k. k\<lparr>snk_link := L_CONNECTING\<rparr>) s else connect_first E as s)"

text \<open>The nested loops over the found and the bonded devices try a found address once for each
  bonded device that has it.\<close>

definition auto_connect_by_scan_results :: "'w bt_ops \<Rightarrow> 'w bt_state \<Rightarrow> 'w bt_state option" where
  "auto_connect_by_scan_results E s =
     (if snk_open (sink s) \<noteq> S_OPENED then Some s
      else do {
        let (n, s) = get_a2dpsink_connected_device_num E s;
        if n \<noteq> 0 then Some s
        else if autoconnect_mode (sink_config s) \<noteq> ROKIDOS_BT_AUTOCONNECT_BY_SCANRESULTS then Some s
        else do {
          let ((sn, sd), s) = bx (b_disc_devices E 20) s;
          let ((hn, hd), s) = bx (b_bonded_devices E 20) s;
          scan \<leftarrow> first_devices sn (device_array 20 True sd);
          hist \<leftarrow> first_devices hn (device_array 20 True hd);
          Some (connect_first E
            (concat (map (\<lambda>d. map bd_addr (filter (\<lambda>h. bd_addr h = bd_addr d) hist)) scan)) s)
        }
      })"

definition bluetooth_autoconnect :: "'w bt_ops \<Rightarrow> 'w bt_state \<Rightarrow> 'w bt_state" where
  "bluetooth_autoconnect E s =
     (let (n, s) = get_a2dpsink_connected_device_num E s in
      if n \<noteq> 0 then set_sink_config (\<lambda>c. c\<lparr>autoconnect_index := 0\<rparr>) s
      else if autoconnect_mode (sink_config s) = ROKIDOS_BT_AUTOCONNECT_BY_SCANRESULTS
      then snd (bt_discovery E BT_A2DP_SOURCE s)
      else if autoconnect_mode (sink_config s) = ROKIDOS_BT_AUTOCONNECT_BY_HISTORY
      then (set_sink_config (\<lambda>c. c\<lparr>autoconnect_flag := AUTOCONNECT_BY_HISTORY_WORK, autoconnect_index := 0\<rparr>) s)
             \<lparr>e_auto_connect := True\<rparr>
      else s)"

definition a2dpsink_autoconnect_over :: "'w bt_ops \<Rightarrow> 'w bt_state \<Rightarrow> 'w bt_state option" where
  "a2dpsink_autoconnect_over E s =
     (let (n, s) = get_a2dpsink_connected_device_num E s in
      if n \<noteq> 0 then Some s
      else bt_close_mask_profile E (A2DP_SINK_STATUS_MASK OR HFP_STATUS_MASK) s)"

section \<open>Playback\<close>

text \<open>\<open>restart\<close>: the call of a request, with a NULL context; the timer passes a context.\<close>

definition bt_a2dp_sink_play :: "'w bt_ops \<Rightarrow> bool \<Rightarrow> 'w bt_state \<Rightarrow> 'w bt_state" where
  "bt_a2dp_sink_play E restart s =
     (let s = (if restart then s\<lparr>play_index := 0\<rparr> else s);
          (n, s) = get_a2dpsink_connected_device_num E s in
      if n = 0 then s
      else let s = bcall (b_get_playstatus E) s;
               (is_playing, s) = bx (b_get_playing E) s;
               (now, s) = bx (b_now E) s in
        if now - last_stop_time s < 2000 \<and> is_playing \<noteq> 0 then s\<lparr>e_play_command := True\<rparr>
        else if is_playing \<noteq> 0 \<and> get_play_status s = 1 then s\<lparr>e_play_command := False\<rparr>
        else if play_index s < BLUETOOTH_A2DPSINK_CHECK_PLAY_INDEX
        then (bcall (b_avrc E BT_AVRC_PLAY) s)\<lparr>play_index := play_index s + 1, e_play_command := True\<rparr>
        else s\<lparr>e_play_command := False\<rparr>)"

text \<open>\<open>bt_a2dp_sink_stop\<close> and \<open>bt_a2dp_sink_pause\<close> differ in the key.\<close>

definition playback_key :: "'w bt_ops \<Rightarrow> int \<Rightarrow> 'w bt_state \<Rightarrow> 'w bt_state" where
  "playback_key E key s =
     (let (n, s) = get_a2dpsink_connected_device_num E (s\<lparr>e_play_command := False\<rparr>) in
      if n = 0 then s
      else let (is_playing, s) = bx (b_get_playing E) s in
        if is_playing = 0 then s else bcall (b_avrc E key) s)"

definition bt_a2dp_sink_stop :: "'w bt_ops \<Rightarrow> 'w bt_state \<Rightarrow> 'w bt_state" where
  "bt_a2dp_sink_stop E = playback_key E BT_AVRC_STOP"

definition bt_a2dp_sink_pause :: "'w bt_ops \<Rightarrow> 'w bt_state \<Rightarrow> 'w bt_state" where
  "bt_a2dp_sink_pause E = playback_key E BT_AVRC_PAUSE"

definition handle_a2dpsink_connect_subsequent :: "'w bt_ops \<Rightarrow> 'w bt_state \<Rightarrow> 'w bt_state" where
  "handle_a2dpsink_connect_subsequent E s =
     (let (n, s) = get_a2dpsink_connected_device_num E s in
      if n = 0 then s
      else let s = (case sink_subsequent s of
              SUB_PLAY \<Rightarrow> bt_a2dp_sink_play E True (s\<lparr>e_play_command := False\<rparr>)
            | SUB_PAUSE \<Rightarrow> bt_a2dp_sink_pause E s
            | SUB_STOP \<Rightarrow> bt_a2dp_sink_stop E s
            | SUB_NONE \<Rightarrow> s)
           in s\<lparr>sink_subsequent := SUB_NONE\<rparr>)"

definition bt_a2dpsink_playstate_check :: "'w bt_ops \<Rightarrow> 'w bt_state \<Rightarrow> 'w bt_state option" where
  "bt_a2dpsink_playstate_check E s = do {
     let last_playing = (if snk_play (sink s) = PLAY_PLAYED then 1 else 0);
     let (now_playing, s) = bx (b_get_playing E) s;
     if last_playing \<noteq> now_playing then do {
       s \<leftarrow> broadcast_a2dpsink_state False
              (set_sink (\<lambda>k. k\<lparr>snk_play := if now_playing \<noteq> 0 then PLAY_PLAYED else PLAY_STOPED\<rparr>) s);
       Some (bcall (b_property_set E ''audio.bluetooth.playing'' (if now_playing \<noteq> 0 then ''true'' else ''false'')) s)
     }
     else Some s
   }"

definition bt_a2dpsink_set_mute :: "'w bt_ops \<Rightarrow> 'w bt_state \<Rightarrow> 'w bt_state" where
  "bt_a2dpsink_set_mute E s =
     (if snk_open (sink s) = S_OPENED
      then let (n, s) = get_a2dpsink_connected_device_num E s in if n \<noteq> 0 then bcall (b_set_mute E True) s else s
      else s)"

definition bt_a2dpsink_set_unmute :: "'w bt_ops \<Rightarrow> 'w bt_state \<Rightarrow> 'w bt_state" where
  "bt_a2dpsink_set_unmute E s = (if snk_open (sink s) = S_OPENED then bcall (b_set_mute E False) s else s)"

text \<open>The volume of AVRCP is 0 to 127, that of the system 0 to 100.\<close>

definition abs_volume :: "int \<Rightarrow> int" where
  "abs_volume volume = ((if volume < 0 then 0 else if volume > 100 then 100 else volume) * 127 + 99) div 100"

definition system_volume :: "int \<Rightarrow> int" where
  "system_volume volume = (if volume < 0 then 0 else if volume > 0x7f then 100 else (volume * 100) div 127)"

definition bt_a2dpsink_set_abs_volume :: "'w bt_ops \<Rightarrow> int \<Rightarrow> 'w bt_state \<Rightarrow> 'w bt_state" where
  "bt_a2dpsink_set_abs_volume E volume s =
     (let (n, s) = get_a2dpsink_connected_device_num E s in
      if n = 0 then s else bcall (b_set_abs_vol E (of_int (abs_volume volume))) s)"

definition broadcast_a2dpsink_volume :: "int \<Rightarrow> 'w bt_state \<Rightarrow> 'w bt_state" where
  "broadcast_a2dpsink_volume volume s = report_bluetooth_information BLUETOOTH_FUNCTION_A2DPSINK
     (JObj [(''action'', JStr ''volumechange''), (''value'', JInt (system_volume volume))]) s"

definition broadcast_a2dpsink_init_volume :: "'w bt_state \<Rightarrow> 'w bt_state" where
  "broadcast_a2dpsink_init_volume s = report_bluetooth_information BLUETOOTH_FUNCTION_A2DPSINK
     (JObj [(''action'', JStr ''volumechange'')]) s"

definition bt_a2dpsink_get_element_attrs :: "'w bt_ops \<Rightarrow> 'w bt_state \<Rightarrow> 'w bt_state" where
  "bt_a2dpsink_get_element_attrs E s =
     (let (n, s) = get_a2dpsink_connected_device_num E s in if n = 0 then s else bcall (b_get_element_attrs E) s)"

definition attr_keys :: "(int \<times> string) list" where
  "attr_keys = [(1, ''title''), (2, ''artist''), (3, ''album''), (4, ''track_num''), (5, ''track_nums''), (6, ''genre''), (7, ''time'')]"

text \<open>The message holds 7 entries; \<open>num\<close> says how many are used.\<close>

definition broadcast_a2dpsink_element_attrs :: "nat \<Rightarrow> (int \<times> string) list \<Rightarrow> 'w bt_state \<Rightarrow> 'w bt_state option" where
  "broadcast_a2dpsink_element_attrs num entries s =
     (if num > length entries then None
      else Some (report_bluetooth_information BLUETOOTH_FUNCTION_A2DPSINK
        (fold (\<lambda>(i, d) root. case map_of attr_keys i of None \<Rightarrow> root | Some k \<Rightarrow> json_object_object_add k (JStr d) root)
          (take num entries) (JObj [(''action'', JStr ''element_attrs'')])) s))"

section \<open>Switching on\<close>

definition bt_a2dpsink_enable :: "'w bt_ops \<Rightarrow> string option \<Rightarrow> bool \<Rightarrow> 'w bt_state \<Rightarrow> int \<times> 'w bt_state" where
  "bt_a2dpsink_enable E name disc s =
     (let s = bcall (p_disable (b_sink E)) s;
          (ret, s) = bx (p_set_listener (b_sink E)) s in
      if ret \<noteq> 0 then (-2, s)
      else let s = (if name \<noteq> None then bcall (b_set_bt_name E name) s else s);
               (ret, s) = bx (p_enable (b_sink E)) s in
        if ret \<noteq> 0 then (-2, s)
        else let (ret, s) = bx (b_set_visibility E disc True) s in
          if ret \<noteq> 0 then (-3, s) else (0, set_sink (\<lambda>k. k\<lparr>snk_broadcast := bool_broadcast disc\<rparr>) s))"

definition bt_a2dpsink_on :: "'w bt_ops \<Rightarrow> string option \<Rightarrow> bool \<Rightarrow> bool \<Rightarrow> 'w bt_state \<Rightarrow> 'w bt_state option" where
  "bt_a2dpsink_on E name auto_conn disc s =
     (if snk_open (sink s) = S_OPENED then
        if snk_link (sink s) = L_CONNECTED
        then do { s \<leftarrow> broadcast_a2dpsink_state False s; Some (handle_a2dpsink_connect_subsequent E s) }
        else do {
          let s = set_sink (\<lambda>k. k\<lparr>discoverable := disc, snk_broadcast := bool_broadcast disc\<rparr>)
                    (bcall (b_set_visibility E disc True) s);
          s \<leftarrow> broadcast_a2dpsink_state False s;
          Some (if auto_conn then bluetooth_autoconnect E s else s)
        }
      else do {
        let (ret, s) = bt_open E s;
        if ret \<noteq> 0 then broadcast_a2dpsink_state False (set_sink (\<lambda>k. k\<lparr>snk_open := S_OPENFAILED\<rparr>) s)
        else do {
          let (ret, s) = bt_a2dpsink_enable E name disc (s\<lparr>sink := zero_sink\<lparr>discoverable := disc\<rparr>\<rparr>);
          if ret = 0 then do {
            let s = (set_sink (\<lambda>k. k\<lparr>snk_open := S_OPENED\<rparr>) s)
                      \<lparr>bt_status := set_flag (bt_status s) A2DP_SINK_STATUS_MASK\<rparr>;
            s \<leftarrow> broadcast_a2dpsink_state False s;
            let s = set_sink_config (\<lambda>c. c\<lparr>autoconnect_flag := AUTOCONNECT_BY_HISTORY_INIT\<rparr>) s;
            let s = (if auto_conn then bluetooth_autoconnect E s else s);
            Some (s\<lparr>e_connect_over := True\<rparr>)
          }
          else broadcast_a2dpsink_state False (set_sink (\<lambda>k. k\<lparr>snk_open := S_OPENFAILED\<rparr>) s)
        }
      })"

text \<open>The array has one element and was cleared.\<close>

definition bt_a2dpsink_disconnect_device :: "'w bt_ops \<Rightarrow> 'w bt_state \<Rightarrow> 'w bt_state option" where
  "bt_a2dpsink_disconnect_device E s =
     (let ((count, ds), s) = bx (p_connected (b_sink E) 1) s in
      if count \<noteq> 0 then Some (bcall (p_disconnect (b_sink E) (bd_addr (device_array 1 True ds ! 0))) s)
      else broadcast_a2dpsink_state False (set_sink (\<lambda>k. k\<lparr>snk_link := L_DISCONNECTED\<rparr>) s))"

section \<open>Events of the HAL\<close>

datatype sink_event = BT_AVK_OPEN_EVT "open_msg option" | BT_AVK_STR_OPEN_EVT "open_msg option" | BT_AVK_CLOSE_EVT
  | BT_AVK_START_EVT "int option" | BT_AVK_STOP_EVT | BT_AVK_RC_OPEN_EVT | BT_AVK_RC_CLOSE_EVT
  | BT_AVK_GET_PLAY_STATUS_EVT "int option" | BT_AVK_SET_ABS_VOL_CMD_EVT "int option"
  | BT_AVK_GET_ELEM_ATTR_EVT "(nat \<times> (int \<times> string) list) option"
  | BT_AVK_REGISTER_NOTIFICATION_EVT "(int \<times> int) option" | BT_AVK_OTHER_EVT

definition remember_sink :: "'w bt_ops \<Rightarrow> autoconnect_device \<Rightarrow> 'w bt_state \<Rightarrow> 'w bt_state option" where
  "remember_sink E d s = do {
     (_, c) \<leftarrow> bt_autoconnect_update (sink_config s) d;
     (_, w) \<leftarrow> bt_autoconnect_sync (b_store E) c (bt_world s);
     Some (s\<lparr>sink_config := c, bt_world := w\<rparr>)
   }"

text \<open>\<open>BT_AVK_OPEN_EVT\<close> with an error: while known devices are tried, the next one is scheduled and a
  known address is not reported.\<close>

definition sink_open_failed :: "open_msg \<Rightarrow> 'w bt_state \<Rightarrow> 'w bt_state option" where
  "sink_open_failed m s = do {
     let work = (autoconnect_flag (sink_config s) = AUTOCONNECT_BY_HISTORY_WORK);
     let s = (if work then s\<lparr>e_auto_connect := True\<rparr> else s);
     index \<leftarrow> (if work then bt_autoconnect_get_index (sink_config s) (om_addr m) else Some (-1));
     if index \<ge> 0 then Some (set_sink (\<lambda>k. k\<lparr>snk_link := L_INVALID\<rparr>) s)
     else broadcast_a2dpsink_state False (set_sink (\<lambda>k. k\<lparr>snk_link := L_CONNECTEFAILED\<rparr>) s)
   }"

definition sink_stream_opened :: "'w bt_ops \<Rightarrow> open_msg \<Rightarrow> 'w bt_state \<Rightarrow> 'w bt_state option" where
  "sink_stream_opened E m s = do {
     let s = (if hfp_open (hfp s) = S_OPENED \<and> hfp_link (hfp s) \<noteq> L_CONNECTED then bt_hfp_connect E (om_addr m) s else s);
     d \<leftarrow> connected_device (sink_config s) m;
     s \<leftarrow> (if autoconnect_mode (sink_config s) = ROKIDOS_BT_AUTOCONNECT_BY_SCANRESULTS
           then cancel_discovery E s else Some s);
     s \<leftarrow> remember_sink E d (s\<lparr>e_connect_over := False\<rparr>);
     let s = bcall (b_set_visibility E False False) s;
     s \<leftarrow> (if snk_open (sink s) \<noteq> S_CLOSED
           then broadcast_a2dpsink_state False
                  (set_sink (\<lambda>k. k\<lparr>snk_link := L_CONNECTED, snk_play := PLAY_INVALID, snk_broadcast := BC_CLOSED\<rparr>) s)
           else Some s);
     Some (if rc_open (sink s) then handle_a2dpsink_connect_subsequent E s else s)
   }"

definition sink_closed :: "'w bt_ops \<Rightarrow> 'w bt_state \<Rightarrow> 'w bt_state option" where
  "sink_closed E s = do {
     let s = (set_sink (\<lambda>k. k\<lparr>snk_play := PLAY_INVALID, rc_open := False\<rparr>) s)
               \<lparr>e_play_command := False, e_play_state := False, get_play_status := BT_AVRC_PLAYSTATE_STOPPED\<rparr>;
     let s = bt_a2dpsink_set_unmute E s;
     s \<leftarrow> (if snk_open (sink s) < S_CLOSED \<and> snk_link (sink s) = L_CONNECTED then do {
              let s = (if discoverable (sink s) then bcall (b_set_visibility E True True) s else s);
              broadcast_a2dpsink_state False
                (set_sink (\<lambda>k. k\<lparr>snk_link := L_DISCONNECTED, snk_broadcast := bool_broadcast (discoverable k)\<rparr>) s)
            } else Some s);
     Some (if snk_open (sink s) < S_CLOSE \<and> snk_open (sink s) \<ge> S_OPENED then s\<lparr>e_connect_over := True\<rparr> else s)
   }"

text \<open>The messages of the open, stream open and start events are used without a test.\<close>

fun a2dp_sink_listener :: "'w bt_ops \<Rightarrow> sink_event \<Rightarrow> 'w bt_state \<Rightarrow> 'w bt_state option" where
  "a2dp_sink_listener E (BT_AVK_OPEN_EVT msg) s =
     (case msg of None \<Rightarrow> None | Some m \<Rightarrow> if om_status m = 0 then Some s else sink_open_failed m s)"
| "a2dp_sink_listener E (BT_AVK_STR_OPEN_EVT msg) s =
     (case msg of None \<Rightarrow> None | Some m \<Rightarrow> if om_status m = 0 then sink_stream_opened E m s else Some s)"
| "a2dp_sink_listener E BT_AVK_CLOSE_EVT s = sink_closed E s"
| "a2dp_sink_listener E (BT_AVK_START_EVT msg) s =
     (case msg of None \<Rightarrow> None
      | Some st \<Rightarrow> Some (if st = 0 then (broadcast_a2dpsink_init_volume s)\<lparr>e_play_state := True\<rparr> else s))"
| "a2dp_sink_listener E BT_AVK_STOP_EVT s = do {
     s \<leftarrow> bt_a2dpsink_playstate_check E (s\<lparr>e_play_state := False\<rparr>);
     Some (s\<lparr>get_play_status := BT_AVRC_PLAYSTATE_STOPPED\<rparr>)
   }"
| "a2dp_sink_listener E BT_AVK_RC_OPEN_EVT s =
     (let s = set_sink (\<lambda>k. k\<lparr>rc_open := True\<rparr>) s
      in Some (if snk_link (sink s) = L_CONNECTED then handle_a2dpsink_connect_subsequent E s else s))"
| "a2dp_sink_listener E BT_AVK_RC_CLOSE_EVT s = Some (set_sink (\<lambda>k. k\<lparr>rc_open := False\<rparr>) s)"
| "a2dp_sink_listener E (BT_AVK_GET_PLAY_STATUS_EVT msg) s =
     Some (case msg of None \<Rightarrow> s | Some st \<Rightarrow> s\<lparr>get_play_status := st\<rparr>)"
| "a2dp_sink_listener E (BT_AVK_SET_ABS_VOL_CMD_EVT msg) s =
     Some (case msg of None \<Rightarrow> s | Some v \<Rightarrow> broadcast_a2dpsink_volume v s)"
| "a2dp_sink_listener E (BT_AVK_GET_ELEM_ATTR_EVT msg) s =
     (case msg of None \<Rightarrow> Some s | Some (n, es) \<Rightarrow> broadcast_a2dpsink_element_attrs n es s)"
| "a2dp_sink_listener E (BT_AVK_REGISTER_NOTIFICATION_EVT msg) s =
     (case msg of None \<Rightarrow> Some s
      | Some (ev, st) \<Rightarrow> if ev = 1
          then bt_a2dpsink_playstate_check E (s\<lparr>get_play_status := st, e_play_state := False\<rparr>) else Some s)"
| "a2dp_sink_listener E BT_AVK_OTHER_EVT s = Some s"

section \<open>Requests\<close>

text \<open>\<open>strncmp\<close> with the length of the field: every prefix of a word is that word.\<close>

definition subsequent_of :: "string \<Rightarrow> subsequent" where
  "subsequent_of t = (if is_prefix t ''PLAY'' then SUB_PLAY else if is_prefix t ''STOP'' then SUB_STOP
     else if is_prefix t ''PAUSE'' then SUB_PAUSE else SUB_NONE)"

definition bt_a2dpsink_on_prepare :: "'w bt_ops \<Rightarrow> json \<Rightarrow> 'w bt_state \<Rightarrow> 'w bt_state option" where
  "bt_a2dpsink_on_prepare E obj s = do {
     sub \<leftarrow> (case json_object_object_get_ex obj ''subsequent'' of
               None \<Rightarrow> Some SUB_NONE | Some j \<Rightarrow> map_option subsequent_of (jstr E j));
     close_others E obj (A2DP_SINK_STATUS_MASK OR HFP_STATUS_MASK) (s\<lparr>sink_subsequent := sub\<rparr>)
   }"

text \<open>The field \<open>sec_pro\<close> asks for the hands-free profile too.\<close>

definition wants_hfp :: "'w bt_ops \<Rightarrow> json \<Rightarrow> bool option" where
  "wants_hfp E obj =
     (case json_object_object_get_ex obj ''sec_pro'' of
        None \<Rightarrow> Some False | Some j \<Rightarrow> map_option (\<lambda>t. t = ''HFP'') (jstr E j))"

definition bool_field :: "json \<Rightarrow> string \<Rightarrow> bool \<Rightarrow> bool" where
  "bool_field obj k def = (case json_object_object_get_ex obj k of None \<Rightarrow> def | Some j \<Rightarrow> json_object_get_boolean j)"

definition bt_a2dpsink_connect :: "'w bt_ops \<Rightarrow> string option \<Rightarrow> 'w bt_state \<Rightarrow> 'w bt_state option" where
  "bt_a2dpsink_connect E addr s =
     (let s = (set_sink_config (\<lambda>c. c\<lparr>autoconnect_index := 0, autoconnect_flag := AUTOCONNECT_BY_HISTORY_OVER\<rparr>) s)
                \<lparr>e_auto_connect := False\<rparr>;
          (busy, s) = (if snk_open (sink s) \<noteq> S_OPENED then (True, s)
                       else let (n, s) = get_a2dpsink_connected_device_num E s in (n \<noteq> 0, s)) in
      if busy then broadcast_a2dpsink_state False s
      else if snk_link (sink s) = L_CONNECTING then Some s
      else do {
        (ret, a) \<leftarrow> bd_strtoba zero_addr addr;
        if ret \<noteq> 0 then Some s
        else do {
          let (ret, s) = bx (p_connect (b_sink E) a) s;
          if ret \<noteq> 0 then broadcast_a2dpsink_state False (set_sink (\<lambda>k. k\<lparr>snk_link := L_CONNECTEFAILED\<rparr>) s)
          else Some (set_sink (\<lambda>k. k\<lparr>snk_link := L_CONNECTING\<rparr>) s)
        }
      })"

definition sink_on_command :: "'w bt_ops \<Rightarrow> json \<Rightarrow> 'w bt_state \<Rightarrow> 'w bt_state option" where
  "sink_on_command E obj s = do {
     hands \<leftarrow> wants_hfp E obj;
     let s = (if snk_open (sink s) = S_OPENED \<and> snk_link (sink s) \<noteq> L_CONNECTED
              then (set_sink (\<lambda>k. k\<lparr>snk_link := L_INVALID\<rparr>) s)\<lparr>e_connect_over := True\<rparr> else s);
     s \<leftarrow> bt_a2dpsink_on_prepare E obj s;
     s \<leftarrow> bt_a2dpsink_on E (request_name E obj (Some default_name)) (bool_field obj ''auto_connect'' True)
            (bool_field obj ''discoverable'' True) s;
     if hands then bt_hfp_on E None s else Some s
   }"

definition sink_off_command :: "'w bt_ops \<Rightarrow> json \<Rightarrow> 'w bt_state \<Rightarrow> 'w bt_state option" where
  "sink_off_command E obj s = do {
     hands \<leftarrow> wants_hfp E obj;
     bt_a2dpsink_off E (if hands then bt_hfp_off E s else s)
   }"

definition stamp_stop :: "'w bt_ops \<Rightarrow> 'w bt_state \<Rightarrow> 'w bt_state" where
  "stamp_stop E s = (let (now, s) = bx (b_now E) s in s\<lparr>last_stop_time := now\<rparr>)"

definition a2dpsink_command :: "'w bt_ops \<Rightarrow> json \<Rightarrow> bool \<Rightarrow> string \<Rightarrow> 'w bt_state \<Rightarrow> 'w bt_state option" where
  "a2dpsink_command E obj reply command s =
     (if command = ''ON'' then sink_on_command E obj s
      else if command = ''OFF'' then sink_off_command E obj s
      else if command = ''GETSTATE'' then broadcast_a2dpsink_state reply s
      else if command = ''PLAY'' then Some (bt_a2dp_sink_play E True (s\<lparr>e_play_command := False\<rparr>))
      else if command = ''STOP'' then Some (bt_a2dp_sink_stop E (stamp_stop E s))
      else if command = ''PAUSE'' then Some (bt_a2dp_sink_pause E (stamp_stop E s))
      else if command = ''PLAY_UNMUTE''
      then Some (bt_a2dpsink_set_unmute E (bt_a2dp_sink_play E True (s\<lparr>e_play_command := False\<rparr>)))
      else if command = ''PAUSE_MUTE'' then Some (bt_a2dpsink_set_mute E (bt_a2dp_sink_pause E (stamp_stop E s)))
      else if command = ''NEXT'' then Some (bcall (b_avrc E BT_AVRC_FORWARD) s)
      else if command = ''PREV'' then Some (bcall (b_avrc E BT_AVRC_BACKWARD) s)
      else if command = ''SEND_KEY'' then
        Some (case json_object_object_get_ex obj ''key'' of
                None \<Rightarrow> s
              | Some j \<Rightarrow> let key = json_object_get_int j in
                  if key < 0xff \<and> key \<ge> 0 then bcall (b_avrc E key) s else s)
      else if command = ''DISCONNECT'' then
        bt_a2dpsink_disconnect_device E
          (if hfp_link (hfp s) = L_CONNECTED \<and> hfp_open (hfp s) = S_OPENED then bt_hfp_disconnect_device E s else s)
      else if command = ''DISCONNECT_PEER'' then bt_a2dpsink_disconnect_device E s
      else if command = ''MUTE'' then Some (bt_a2dpsink_set_mute E s)
      else if command = ''UNMUTE'' then Some (bt_a2dpsink_set_unmute E s)
      else if command = ''VOLUME'' then
        Some (case json_object_object_get_ex obj ''value'' of
                None \<Rightarrow> s | Some j \<Rightarrow> bt_a2dpsink_set_abs_volume E (json_object_get_int j) s)
      else if command = ''GETSONG_ATTRS'' then Some (bt_a2dpsink_get_element_attrs E s)
      else if command = ''CONNECT'' then
        (case json_object_object_get_ex obj ''address'' of
           None \<Rightarrow> Some s | Some a \<Rightarrow> bt_a2dpsink_connect E (jstr E a) s)
      else Some s)"

definition handle_a2dpsink_handle ::
  "'w bt_ops \<Rightarrow> json \<Rightarrow> bool \<Rightarrow> 'w bt_state \<Rightarrow> (int \<times> 'w bt_state) option" where
  "handle_a2dpsink_handle E obj reply s = with_command E obj (a2dpsink_command E obj reply) s"

definition bt_a2dpsink_timer_init :: "'w bt_ops \<Rightarrow> 'w bt_state \<Rightarrow> int \<times> 'w bt_state" where
  "bt_a2dpsink_timer_init E s =
     (let (t1, s) = bx (b_timer_add E) s; (t2, s) = bx (b_timer_add E) s;
          (t3, s) = bx (b_timer_add E) s; (t4, s) = bx (b_timer_add E) s
      in (if t1 \<le> 0 \<or> t2 \<le> 0 \<or> t3 \<le> 0 \<or> t4 \<le> 0 then -1 else 0, s))"

definition bt_a2dpsink_timer_uninit :: "'w bt_state \<Rightarrow> 'w bt_state" where
  "bt_a2dpsink_timer_uninit s =
     s\<lparr>e_auto_connect := False, e_play_command := False, e_connect_over := False, e_play_state := False\<rparr>"

end
