(* ===== verification/BtService.thy ===== *)
theory BtService
  imports BtSink
begin

text \<open>
  The bluetooth service as a whole: the requests that belong to no profile
  (\<open>src/bt/common.c\<close>), start-up and shutdown (\<open>src/main.c\<close>), the message callbacks
  (\<open>src/ipc/flora.c\<close>), and one step of the running service for every way it can be called: a
  posted message, a method call, an event of the HAL or a timer.  A step is a whole
  handler; the handlers of different threads do not overlap in the model.
\<close>

section \<open>Requests for the controller\<close>

definition bt_get_mac_addr :: "'w bt_ops \<Rightarrow> bool \<Rightarrow> 'w bt_state \<Rightarrow> 'w bt_state" where
  "bt_get_mac_addr E reply s =
     (let ((_, a), s) = bx (b_module_addr E) s
      in answer BLUETOOTH_FUNCTION_COMMON reply (JObj [(''module_address'', JStr (mac_text_upper a))]) s)"

definition bt_set_discoveryable :: "'w bt_ops \<Rightarrow> bool \<Rightarrow> bool \<Rightarrow> 'w bt_state \<Rightarrow> 'w bt_state" where
  "bt_set_discoveryable E disc reply s =
     answer BLUETOOTH_FUNCTION_COMMON reply
       (JObj [(''broadcast_state'', JStr (if disc then ''opened'' else ''closed''))]) (bcall (b_set_visibility E disc True) s)"

text \<open>The array of the devices is not cleared before the call.\<close>

definition bt_get_paired_list :: "'w bt_ops \<Rightarrow> bool \<Rightarrow> 'w bt_state \<Rightarrow> 'w bt_state option" where
  "bt_get_paired_list E reply s = do {
     let ((n, ds), s) = bx (b_bonded_devices E BT_DISC_NB_DEVICES) s;
     devs \<leftarrow> device_list n (device_array BT_DISC_NB_DEVICES False ds);
     Some (answer BLUETOOTH_FUNCTION_COMMON reply
       (JObj ([(''action'', JStr ''pairedList'')] @ (if n > 0 then [(''results'', JObj devs)] else []))) s)
   }"

definition broadcast_remove_dev :: "string option \<Rightarrow> int \<Rightarrow> 'w bt_state \<Rightarrow> 'w bt_state option" where
  "broadcast_remove_dev addr st s =
     (case addr of
        None \<Rightarrow> None
      | Some a \<Rightarrow> Some (report_bluetooth_information BLUETOOTH_FUNCTION_COMMON
          (JObj ([(''action'', JStr ''remove_dev''), (''address'', JStr a)]
             @ (if st = 99 then [(''empty'', JBool True)] else [])
             @ [(''status'', JInt (if st = 99 then 0 else st))])) s))"

definition clear_config :: "autoconnect_config \<Rightarrow> autoconnect_config option" where
  "clear_config c =
     (if nat (autoconnect_num c) > length (cfg_dev c) then None
      else Some (c\<lparr>cfg_dev := replicate (nat (autoconnect_num c)) zero_dev @ drop (nat (autoconnect_num c)) (cfg_dev c),
                   autoconnect_linknum := 0\<rparr>))"

definition sync_sink :: "'w bt_ops \<Rightarrow> 'w bt_state \<Rightarrow> 'w bt_state option" where
  "sync_sink E s = do { (_, w) \<leftarrow> bt_autoconnect_sync (b_store E) (sink_config s) (bt_world s); Some (s\<lparr>bt_world := w\<rparr>) }"

definition sync_source :: "'w bt_ops \<Rightarrow> 'w bt_state \<Rightarrow> 'w bt_state option" where
  "sync_source E s = do { (_, w) \<leftarrow> bt_autoconnect_sync (b_store E) (source_config s) (bt_world s); Some (s\<lparr>bt_world := w\<rparr>) }"

text \<open>The branch for all devices.\<close>

definition remove_all_devs :: "'w bt_ops \<Rightarrow> 'w bt_state \<Rightarrow> 'w bt_state option" where
  "remove_all_devs E s = do {
     let (ret, s) = bx (b_config_clear E) s;
     s \<leftarrow> (if ret \<noteq> 0 then broadcast_remove_dev (Some ''*'') ret s else Some s);
     c \<leftarrow> clear_config (sink_config s);
     s \<leftarrow> sync_sink E (s\<lparr>sink_config := c\<rparr>);
     c \<leftarrow> clear_config (source_config s);
     sync_source E (s\<lparr>source_config := c\<rparr>)
   }"

text \<open>The branch for one device with a valid address.\<close>

definition remove_one_dev :: "'w bt_ops \<Rightarrow> string \<Rightarrow> 8 word list \<Rightarrow> 'w bt_state \<Rightarrow> 'w bt_state option" where
  "remove_one_dev E address a s = do {
     let (ret, s) = bx (b_remove_dev E a) s;
     s \<leftarrow> (if ret \<noteq> 0 then broadcast_remove_dev (Some address) ret s else Some s);
     (ret, c) \<leftarrow> bt_autoconnect_remove (sink_config s) a;
     s \<leftarrow> (if ret = 0 then sync_sink E (s\<lparr>sink_config := c\<rparr>) else Some (s\<lparr>sink_config := c\<rparr>));
     (ret, c) \<leftarrow> bt_autoconnect_remove (source_config s) a;
     (if ret = 0 then sync_source E (s\<lparr>source_config := c\<rparr>) else Some (s\<lparr>source_config := c\<rparr>))
   }"

definition bt_remove_dev :: "'w bt_ops \<Rightarrow> string option \<Rightarrow> 'w bt_state \<Rightarrow> 'w bt_state option" where
  "bt_remove_dev E address s =
     (let s = snd (bt_open E s) in
      case address of
        None \<Rightarrow> None
      | Some t \<Rightarrow> do {
          s \<leftarrow> (if t = ''*'' then remove_all_devs E s
                else do {
                  (ret, a) \<leftarrow> bd_strtoba zero_addr (Some t);
                  if ret \<noteq> 0 then broadcast_remove_dev (Some t) ret s else remove_one_dev E t a s
                });
          Some (bt_close E s)
        })"

definition bt_upload_scan_results :: "'w bt_ops \<Rightarrow> bool \<Rightarrow> 'w bt_state \<Rightarrow> 'w bt_state option" where
  "bt_upload_scan_results E is_completed s =
     (if \<not> bt_scanning s then Some s
      else do {
        let ((n, ds), s) = bx (b_disc_devices E BT_DISC_NB_DEVICES) s;
        devs \<leftarrow> device_list n (device_array BT_DISC_NB_DEVICES True ds);
        Some (report_bluetooth_information BLUETOOTH_FUNCTION_COMMON
          (JObj [(''action'', JStr ''discovery''),
                 (''results'', JObj ([(''is_completed'', JBool is_completed)] @ devs))]) s)
      })"

definition common_command :: "'w bt_ops \<Rightarrow> json \<Rightarrow> bool \<Rightarrow> string \<Rightarrow> 'w bt_state \<Rightarrow> 'w bt_state option" where
  "common_command E obj reply command s =
     (if command = ''MODULE_ADDRESS'' then Some (bt_get_mac_addr E reply s)
      else if command = ''VISIBILITY'' then
        Some (case json_object_object_get_ex obj ''discoverable'' of
                None \<Rightarrow> s | Some d \<Rightarrow> bt_set_discoveryable E (json_object_get_boolean d) reply s)
      else if command = ''PAIREDLIST'' then bt_get_paired_list E reply s
      else if command = ''REMOVE_DEV'' then
        (case json_object_object_get_ex obj ''address'' of None \<Rightarrow> Some s | Some a \<Rightarrow> bt_remove_dev E (jstr E a) s)
      else if command = ''DISCOVERY'' then
        Some (snd (bt_discovery E
          (case json_object_object_get_ex obj ''type'' of None \<Rightarrow> BT_ALL | Some t \<Rightarrow> json_object_get_int t) s))
      else if command = ''CANCEL_DISCOVERY'' then Some (snd (bt_cancel_discovery E s))
      else Some s)"

definition handle_common_handle :: "'w bt_ops \<Rightarrow> json \<Rightarrow> bool \<Rightarrow> 'w bt_state \<Rightarrow> (int \<times> 'w bt_state) option" where
  "handle_common_handle E obj reply s = with_command E obj (common_command E obj reply) s"

section \<open>Start-up and shutdown (main.c)\<close>

definition RESTART_BSA_SERVER :: string where "RESTART_BSA_SERVER = ''/etc/init.d/bsa restart''"

definition discovery_callback :: "'w bt_ops \<Rightarrow> bool \<Rightarrow> 'w bt_state \<Rightarrow> 'w bt_state option" where
  "discovery_callback E is_completed s = do {
     s \<leftarrow> a2dpsource_upload_scan_results E is_completed s;
     s \<leftarrow> bt_upload_scan_results E is_completed s;
     if is_completed then do {
       s \<leftarrow> auto_connect_by_scan_results E s;
       Some (s\<lparr>bt_scanning := False\<rparr>)
     } else Some s
   }"

text \<open>\<open>Inr\<close>: the process exits with this code.\<close>

datatype manage_event = BT_EVENT_MGR_CONNECT | BT_EVENT_MGR_DISCONNECT
  | BT_EVENT_MGR_REMOVE_DEVICE "(string option \<times> int) option" | BT_EVENT_MGR_OTHER

fun manage_listener :: "manage_event \<Rightarrow> 'w bt_state \<Rightarrow> ('w bt_state + int) option" where
  "manage_listener BT_EVENT_MGR_DISCONNECT s = Some (Inr (-2))"
| "manage_listener (BT_EVENT_MGR_REMOVE_DEVICE (Some (a, st))) s = map_option Inl (broadcast_remove_dev a st s)"
| "manage_listener _ s = Some (Inl s)"

text \<open>The loop that opens the controller: there is no limit on the number of attempts.\<close>

partial_function (option) create_loop :: "'w bt_ops \<Rightarrow> nat \<Rightarrow> 'w bt_state \<Rightarrow> (int \<times> 'w bt_state) option" where
  "create_loop E tries s = do {
     let s = (if tries > 2 then bcall (b_system E RESTART_BSA_SERVER) s else s);
     let (ret, s) = bt_open E s;
     if ret \<noteq> 0 then create_loop E (Suc tries) s else Some (0, bt_close E s)
   }"

definition bluetooth_device_create :: "'w bt_ops \<Rightarrow> 'w bt_state \<Rightarrow> (int \<times> 'w bt_state) option" where
  "bluetooth_device_create E s =
     (if bt_present s then Some (-1, s)
      else let (ret, s) = bx (b_creat E) s in
        if ret \<noteq> 0 then Some (-2, s) else create_loop E 0 (s\<lparr>bt_present := True\<rparr>))"

definition bluetooth_device_destory :: "'w bt_ops \<Rightarrow> 'w bt_state \<Rightarrow> 'w bt_state" where
  "bluetooth_device_destory E s = (if bt_present s then (bcall (b_destroy E) s)\<lparr>bt_present := False\<rparr> else s)"

definition bluetooth_device_init :: "'w bt_ops \<Rightarrow> 'w bt_state \<Rightarrow> (int \<times> 'w bt_state) option" where
  "bluetooth_device_init E s =
     (let (ret, s) = bx (b_hw_get_module E) s in
      if ret \<noteq> 0 then Some (-1, s)
      else let (ret, s) = bx (b_device_open E) s in
        if ret \<noteq> 0 then Some (-1, s)
        else do {
          (ret, s) \<leftarrow> bluetooth_device_create E s;
          Some (if ret \<noteq> 0 then (ret, bcall (b_device_close E) (bluetooth_device_destory E s)) else (0, s))
        })"

definition ROKIDOS_BT_A2DPSINK_AUTOCONNECT_NUM :: int where "ROKIDOS_BT_A2DPSINK_AUTOCONNECT_NUM = 2"
definition ROKIDOS_BT_A2DPSOURCE_AUTOCONNECT_NUM :: int where "ROKIDOS_BT_A2DPSOURCE_AUTOCONNECT_NUM = 1"
definition ROKIDOS_BT_A2DPSINK_AUTOCONNECT_FILE :: string where
  "ROKIDOS_BT_A2DPSINK_AUTOCONNECT_FILE = ''/data/bluetooth/bt_a2dpsink.json''"
definition ROKIDOS_BT_A2DPSOURCE_AUTOCONNECT_FILE :: string where
  "ROKIDOS_BT_A2DPSOURCE_AUTOCONNECT_FILE = ''/data/bluetooth/bt_a2dpsource.json''"

definition bt_handle_init :: "'w bt_ops \<Rightarrow> 'w bt_state \<Rightarrow> (int \<times> 'w bt_state) option" where
  "bt_handle_init E s = do {
     ((ret, c), w) \<leftarrow> bt_autoconnect_config_init (b_store E)
        ((sink_config s)\<lparr>autoconnect_filename := ROKIDOS_BT_A2DPSINK_AUTOCONNECT_FILE,
                         autoconnect_num := ROKIDOS_BT_A2DPSINK_AUTOCONNECT_NUM\<rparr>) (bt_world s);
     let s = s\<lparr>sink_config := c, bt_world := w\<rparr>;
     if ret < 0 then Some (-1, s)
     else do {
       ((ret, c), w) \<leftarrow> bt_autoconnect_config_init (b_store E)
          ((source_config s)\<lparr>autoconnect_filename := ROKIDOS_BT_A2DPSOURCE_AUTOCONNECT_FILE,
                             autoconnect_num := ROKIDOS_BT_A2DPSOURCE_AUTOCONNECT_NUM\<rparr>) (bt_world s);
       let s = s\<lparr>source_config := c, bt_world := w\<rparr>;
       if ret < 0 then Some (-1, s)
       else do {
         let (ret, s) = bt_a2dpsink_timer_init E s;
         if ret < 0 then Some (-2, s)
         else do {
           let (ret, s) = bt_a2dpsource_timer_init E s;
           Some (if ret < 0 then -2 else 0, s)
         }
       }
     }
   }"

definition bt_handle_uninit :: "'w bt_state \<Rightarrow> 'w bt_state" where
  "bt_handle_uninit s =
     (let s = bt_a2dpsink_timer_uninit (bt_a2dpsource_timer_uninit s)
      in s\<lparr>source_config := bt_autconnect_config_uninit (source_config s),
           sink_config := bt_autconnect_config_uninit (sink_config s)\<rparr>)"

definition zero_config :: autoconnect_config where
  "zero_config = \<lparr>autoconnect_index = 0, autoconnect_mode = 0, autoconnect_num = 0, autoconnect_flag = 0,
     autoconnect_linknum = 0, autoconnect_filename = [], cfg_dev = []\<rparr>"

text \<open>The handle of \<open>calloc\<close> and the static variables.\<close>

definition bt_handle_create :: "'w \<Rightarrow> 'w bt_state" where
  "bt_handle_create w =
     \<lparr>bt_world = w, bt_present = False, bt_status = 0, bt_opened = False, bt_scanning = False,
      ble_state = BLE_INIVATE, ble_msgid = 0, ble_sendbuf = replicate SENDBUF_LEN 0, ble_index = 0,
      cmcc_index = 0, cmcc_pkgs = 0,
      blec_state = BLE_CLI_OPEN_INVALID, blec_link = L_INVALID, blec_dev = zero_dev,
      sink = zero_sink, sink_config = zero_config, get_play_status = 0, sink_subsequent = SUB_NONE,
      last_stop_time = 0, play_index = 0, e_auto_connect = False, e_play_command = False, e_connect_over = False,
      e_play_state = False,
      source = zero_source, source_config = zero_config, es_auto_connect = False, es_connect_over = False,
      hfp = zero_hfp, hfp_dev = zero_dev, hh_state = HH_STATE_INVALID, hh_link = L_INVALID, hh_dev = zero_dev,
      bt_mic = False, bt_events = [], bt_binaries = [], bt_replies = []\<rparr>"

definition bt_close_all :: "'w bt_ops \<Rightarrow> 'w bt_state \<Rightarrow> 'w bt_state option" where
  "bt_close_all E s = bt_close_mask_profile E (- 1) s"

definition bt_handle_destory :: "'w bt_ops \<Rightarrow> 'w bt_state \<Rightarrow> 'w bt_state option" where
  "bt_handle_destory E s = do {
     s \<leftarrow> bt_close_all E s;
     Some (bluetooth_device_destory E (bt_handle_uninit s))
   }"

text \<open>The two sleep messages of the power manager.\<close>

definition sleep_field :: "'w bt_ops \<Rightarrow> json \<Rightarrow> string option option" where
  "sleep_field E obj = (case json_object_object_get_ex obj ''sleep'' of None \<Rightarrow> Some None | Some j \<Rightarrow> map_option Some (jstr E j))"

definition handle_module_sleep :: "'w bt_ops \<Rightarrow> json \<Rightarrow> 'w bt_state \<Rightarrow> (int \<times> 'w bt_state) option" where
  "handle_module_sleep E obj s =
     (if obj = JNull then Some (-1, s)
      else do {
        t \<leftarrow> sleep_field E obj;
        s \<leftarrow> (if t = Some ''ON'' then bt_close_all E s else Some s);
        Some (0, s)
      })"

definition handle_power_sleep :: "'w bt_ops \<Rightarrow> json \<Rightarrow> 'w bt_state \<Rightarrow> (int \<times> 'w bt_state) option" where
  "handle_power_sleep E obj s =
     (if obj = JNull then Some (-1, s)
      else do {
        t \<leftarrow> sleep_field E obj;
        Some (0, if t = Some ''OFF'' then bcall (b_system E RESTART_BSA_SERVER) s else s)
      })"

text \<open>\<open>main\<close> up to the start of the message thread.\<close>

definition bt_main_start :: "'w bt_ops \<Rightarrow> 'w \<Rightarrow> (int \<times> 'w bt_state) option" where
  "bt_main_start E w = do {
     (ret, s) \<leftarrow> bluetooth_device_init E (bt_handle_create w);
     if ret < 0 then Some (-2, s)
     else do {
       (ret, s) \<leftarrow> bt_handle_init E s;
       Some (if ret < 0 then -3 else 0, s)
     }
   }"

section \<open>Messages (flora.c)\<close>

text \<open>The handler of a topic, for the topics both callbacks know.\<close>

definition topic_handler ::
  "'w bt_ops \<Rightarrow> string \<Rightarrow> (json \<Rightarrow> bool \<Rightarrow> 'w bt_state \<Rightarrow> (int \<times> 'w bt_state) option) option" where
  "topic_handler E name =
     (if name = ''bluetooth.common.command'' then Some (handle_common_handle E)
      else if name = ''bluetooth.ble.command'' then Some (handle_ble_handle E)
      else if name = ''bluetooth.ble.client.command'' then Some (handle_ble_client_handle E)
      else if name = ''bluetooth.a2dpsink.command'' then Some (handle_a2dpsink_handle E)
      else if name = ''bluetooth.a2dpsource.command'' then Some (handle_a2dpsource_handle E)
      else if name = ''bluetooth.hfp.command'' then Some (handle_hfp_handle E)
      else if name = ''bluetooth.hh.command'' then Some (handle_hh_handle E)
      else None)"

text \<open>The text is parsed by json-c.\<close>

definition bt_service_command_callback :: "'w bt_ops \<Rightarrow> string \<Rightarrow> string \<Rightarrow> 'w bt_state \<Rightarrow> 'w bt_state option" where
  "bt_service_command_callback E name buf s =
     (case topic_handler E name of
        Some h \<Rightarrow> map_option snd (h (so_parse (b_store E) buf) False s)
      | None \<Rightarrow>
          if name = ''rokid.turen.voice_coming'' then Some (bt_a2dpsink_set_mute E s)
          else if name = ''module.sleep'' then map_option snd (handle_module_sleep E (so_parse (b_store E) buf) s)
          else if name = ''power.sleep'' then map_option snd (handle_power_sleep E (so_parse (b_store E) buf) s)
          else Some s)"

definition bt_service_command_method_callback :: "'w bt_ops \<Rightarrow> string \<Rightarrow> string \<Rightarrow> 'w bt_state \<Rightarrow> 'w bt_state option" where
  "bt_service_command_method_callback E name buf s =
     (case topic_handler E name of
        Some h \<Rightarrow> map_option snd (h (so_parse (b_store E) buf) True s)
      | None \<Rightarrow> Some s)"

definition bt_service_binary_callback :: "'w bt_ops \<Rightarrow> string \<Rightarrow> 8 word list \<Rightarrow> 'w bt_state \<Rightarrow> 'w bt_state option" where
  "bt_service_binary_callback E name buf s =
     (if name = ''bluetooth.ble.client.write'' then handle_ble_client_write E buf s else Some s)"

section \<open>One step of the service\<close>

datatype bt_input = Posted string string | Called string string | Binary string "8 word list"
  | Ble ble_event | BleClient blec_event | HidHost hh_event | Hfp hfp_event | Sink sink_event | Source source_event
  | Discovered bool | Removed "(string option \<times> int) option"
  | T_auto_connect | T_play_command | T_connect_over | T_play_state | TS_auto_connect | TS_connect_over

text \<open>A timer fires only while it is armed; all but the timer of the playback state are one-shot.\<close>

fun armed :: "bt_input \<Rightarrow> 'w bt_state \<Rightarrow> bool" where
  "armed T_auto_connect s = e_auto_connect s"
| "armed T_play_command s = e_play_command s"
| "armed T_connect_over s = e_connect_over s"
| "armed T_play_state s = e_play_state s"
| "armed TS_auto_connect s = es_auto_connect s"
| "armed TS_connect_over s = es_connect_over s"
| "armed _ s = True"

fun bt_step :: "'w bt_ops \<Rightarrow> bt_input \<Rightarrow> 'w bt_state \<Rightarrow> 'w bt_state option" where
  "bt_step E (Posted n b) s = bt_service_command_callback E n b s"
| "bt_step E (Called n b) s = bt_service_command_method_callback E n b s"
| "bt_step E (Binary n b) s = bt_service_binary_callback E n b s"
| "bt_step E (Ble e) s = ble_listener E e s"
| "bt_step E (BleClient e) s = ble_client_listener e s"
| "bt_step E (HidHost e) s = hh_listener e s"
| "bt_step E (Hfp e) s = Some (hfp_listener E e s)"
| "bt_step E (Sink e) s = a2dp_sink_listener E e s"
| "bt_step E (Source e) s = a2dp_source_listener E e s"
| "bt_step E (Discovered c) s = discovery_callback E c s"
| "bt_step E (Removed m) s = (case m of None \<Rightarrow> Some s | Some (a, st) \<Rightarrow> broadcast_remove_dev a st s)"
| "bt_step E T_auto_connect s = auto_connect_by_history_index E (s\<lparr>e_auto_connect := False\<rparr>)"
| "bt_step E T_play_command s = Some (bt_a2dp_sink_play E False (s\<lparr>e_play_command := False\<rparr>))"
| "bt_step E T_connect_over s = a2dpsink_autoconnect_over E (s\<lparr>e_connect_over := False\<rparr>)"
| "bt_step E T_play_state s = bt_a2dpsink_playstate_check E s"
| "bt_step E TS_auto_connect s = auto_connect_a2dpsource_by_history_index E (s\<lparr>es_auto_connect := False\<rparr>)"
| "bt_step E TS_connect_over s = a2dpsource_autoconnect_over E (s\<lparr>es_connect_over := False\<rparr>)"

end
