(* ===== verification/BtHistory.thy ===== *)
theory BtHistory
  imports BtConfig
begin

text \<open>
  The device array of the bluetooth service implements a list of the most recently connected
  devices.  \<open>history\<close> is the list the array denotes, \<open>config_ok\<close> the invariant of the array; the
  interface \<open>recent_list\<close> states what an insertion promises, and its client lemma is the
  reference description \<open>recency\<close> of a whole sequence of insertions.
\<close>

section \<open>Most recent first\<close>

definition move_front :: "('d \<Rightarrow> 'k) \<Rightarrow> 'd \<Rightarrow> 'd list \<Rightarrow> 'd list" where
  "move_front key d h = d # filter (\<lambda>x. key x \<noteq> key d) h"

text \<open>The devices of a sequence of connections, the last one first, each once.\<close>

definition recency :: "('d \<Rightarrow> 'k) \<Rightarrow> 'd list \<Rightarrow> 'd list" where
  "recency key ds = fold (move_front key) ds []"

fun insert_all :: "('s \<Rightarrow> 'd \<Rightarrow> 's option) \<Rightarrow> 'd list \<Rightarrow> 's \<Rightarrow> 's option" where
  "insert_all ins [] s = Some s"
| "insert_all ins (d # ds) s = Option.bind (ins s d) (insert_all ins ds)"

lemma filter_other: "k \<notin> key ` set h \<Longrightarrow> filter (\<lambda>x. key x \<noteq> k) h = h"
  by (induction h) auto

lemma distinct_move_front: "distinct (map key h) \<Longrightarrow> distinct (map key (move_front key d h))"
  by (auto simp: move_front_def distinct_map inj_on_def)

lemma take_filter_take:
  assumes "distinct (map key h)"
  shows "take m (filter (\<lambda>x. key x \<noteq> k) (take (Suc m) h)) = take m (filter (\<lambda>x. key x \<noteq> k) h)"
  using assms
proof (induction h arbitrary: m)
  case (Cons x h)
  show ?case
  proof (cases m)
    case (Suc m')
    show ?thesis
    proof (cases "key x = k")
      case True
      then have "filter (\<lambda>x. key x \<noteq> k) h = h" "filter (\<lambda>x. key x \<noteq> k) (take m h) = take m h"
        using Cons.prems filter_other[of k key h] filter_other[of k key "take m h"] set_take_subset[of m h]
        by auto
      then show ?thesis using True Suc by simp
    next
      case False
      then show ?thesis using Cons.IH[of m'] Cons.prems Suc by simp
    qed
  qed simp
qed simp

lemma take_move_front:
  assumes "distinct (map key h)" and "0 < n"
  shows "take n (move_front key d (take n h)) = take n (move_front key d h)"
  using assms take_filter_take[of key h "n - 1"] by (cases n) (auto simp: move_front_def)

locale recent_list =
  fixes ins :: "'s \<Rightarrow> 'd \<Rightarrow> 's option"
    and abs :: "'s \<Rightarrow> 'd list"
    and inv :: "'s \<Rightarrow> bool"
    and cap :: "'s \<Rightarrow> nat"
    and key :: "'d \<Rightarrow> 'k"
    and good :: "'d \<Rightarrow> bool"
  assumes ins_law: "\<lbrakk> inv s; good d \<rbrakk> \<Longrightarrow>
    succeeds (ins s d) (\<lambda>s'. inv s' \<and> cap s' = cap s \<and> abs s' = take (cap s) (move_front key d (abs s)))"
    and cap_pos: "inv s \<Longrightarrow> 0 < cap s"
begin

lemma insert_all_from:
  assumes "inv s" and "list_all good ds" and "abs s = take (cap s) h" and "distinct (map key h)"
  shows "succeeds (insert_all ins ds s)
    (\<lambda>s'. inv s' \<and> cap s' = cap s \<and> abs s' = take (cap s) (fold (move_front key) ds h))"
  using assms
proof (induction ds arbitrary: s h)
  case (Cons d ds)
  obtain s1 where s1: "ins s d = Some s1" "inv s1" "cap s1 = cap s"
      "abs s1 = take (cap s) (move_front key d (abs s))"
    using ins_law[of s d] Cons.prems(1,2) by (auto simp: succeeds_iff)
  have "abs s1 = take (cap s1) (move_front key d h)"
    using s1 Cons.prems(3,4) cap_pos[of s] Cons.prems(1) by (simp add: take_move_front)
  then show ?case
    using Cons.IH[of s1 "move_front key d h"] s1 Cons.prems(2,4) by (simp add: distinct_move_front)
qed simp

lemma insert_all_recent:
  assumes "inv s" and "list_all good ds" and "abs s = []"
  shows "succeeds (insert_all ins ds s) (\<lambda>s'. inv s' \<and> abs s' = take (cap s) (recency key ds))"
  using insert_all_from[OF assms(1,2), of "[]"] assms(3) by (auto simp: recency_def succeeds_iff)

end

section \<open>The loops\<close>

lemma get_index_from:
  assumes "n \<le> length ds"
  shows "get_index_from ds a i n =
    Some (case List.find (\<lambda>k. dev_addr (ds ! k) = a) [0..<n] of None \<Rightarrow> -1 | Some k \<Rightarrow> i + int k)"
  using assms
proof (induction ds a i n rule: get_index_from.induct)
  case (3 d ds a i n)
  have "[0..<Suc n] = 0 # map Suc [0..<n]" by (simp add: map_Suc_upt upt_conv_Cons del: upt_Suc)
  moreover have "List.find (\<lambda>k. dev_addr ((d # ds) ! k) = a) (map Suc xs)
      = map_option Suc (List.find (\<lambda>k. dev_addr (ds ! k) = a) xs)" for xs
    by (induction xs) auto
  ultimately show ?case using 3 by (auto split: option.split simp del: upt_Suc)
qed auto

lemma shift_down_eq:
  "i < length ds \<Longrightarrow> (shift_down i ds)[0 := d] = d # take i ds @ drop (Suc i) ds"
proof (induction i arbitrary: ds)
  case 0
  then show ?case by (cases ds) auto
next
  case (Suc i)
  have "drop (Suc i) (ds[Suc i := ds ! i]) = ds ! i # drop (Suc (Suc i)) ds"
    using Suc.prems by (simp add: drop_update_swap Cons_nth_drop_Suc[symmetric])
  moreover have "take i (ds[Suc i := ds ! i]) @ [ds ! i] = take (Suc i) ds"
    using Suc.prems by (simp add: take_Suc_conv_app_nth)
  ultimately show ?case using Suc by simp
qed

lemma shift_up_eq:
  "Suc (i + n) = length ds \<Longrightarrow> (shift_up i n ds)[i + n := z] = take i ds @ drop (Suc i) ds @ [z]"
proof (induction n arbitrary: i ds)
  case 0
  then show ?case by (simp add: upd_conv_take_nth_drop)
next
  case (Suc n)
  have "take (Suc i) (ds[i := ds ! Suc i]) = take i ds @ [ds ! Suc i]"
    using Suc.prems by (simp add: take_Suc_conv_app_nth)
  moreover have "ds ! Suc i # drop (Suc (Suc i)) ds = drop (Suc i) ds"
    using Suc.prems by (simp add: Cons_nth_drop_Suc)
  ultimately show ?case using Suc.IH[of "Suc i" "ds[i := ds ! Suc i]"] Suc.prems by simp
qed

lemma filter_drop_nth:
  assumes "distinct (map f xs)" and "j < length xs"
  shows "filter (\<lambda>x. f x \<noteq> f (xs ! j)) xs = take j xs @ drop (Suc j) xs"
proof -
  have split: "xs = take j xs @ xs ! j # drop (Suc j) xs" using assms(2) by (rule id_take_nth_drop)
  have d: "distinct (map f (take j xs @ xs ! j # drop (Suc j) xs))" using assms(1) split by simp
  have "filter (\<lambda>x. f x \<noteq> f (xs ! j)) (take j xs @ xs ! j # drop (Suc j) xs) = take j xs @ drop (Suc j) xs"
    using d by (simp add: filter_other)
  then show ?thesis using split by simp
qed

section \<open>The array as a list\<close>

definition history :: "autoconnect_config \<Rightarrow> autoconnect_device list" where
  "history c = take (nat (autoconnect_linknum c)) (cfg_dev c)"

definition config_ok :: "autoconnect_config \<Rightarrow> bool" where
  "config_ok c \<longleftrightarrow>
     autoconnect_num c = int (length (cfg_dev c)) \<and> 1 \<le> length (cfg_dev c) \<and> length (cfg_dev c) \<le> 3 \<and>
     0 \<le> autoconnect_linknum c \<and> autoconnect_linknum c \<le> autoconnect_num c \<and>
     list_all (\<lambda>d. length (dev_addr d) = 6) (cfg_dev c) \<and>
     distinct (map dev_addr (history c)) \<and>
     list_all (\<lambda>d. dev_addr d \<noteq> zero_addr) (history c) \<and>
     list_all (\<lambda>d. dev_addr d = zero_addr) (drop (nat (autoconnect_linknum c)) (cfg_dev c))"

definition known_addr :: "8 word list \<Rightarrow> bool" where
  "known_addr a \<longleftrightarrow> length a = 6 \<and> a \<noteq> zero_addr"

text \<open>What the search finds, for an address that is not the zero address.\<close>

lemma get_index_cases:
  assumes "config_ok c" and "a \<noteq> zero_addr"
  obtains (absent) "bt_autoconnect_get_index c a = Some (-1)" "a \<notin> dev_addr ` set (cfg_dev c)"
  | (present) j where "bt_autoconnect_get_index c a = Some (int j)" "j < nat (autoconnect_linknum c)"
      "dev_addr (cfg_dev c ! j) = a"
proof -
  let ?ds = "cfg_dev c"
  have n: "nat (autoconnect_num c) = length ?ds" using assms(1) by (simp add: config_ok_def)
  note idx = get_index_from[OF order.refl, of ?ds a 0]
  show thesis
  proof (cases "List.find (\<lambda>k. dev_addr (?ds ! k) = a) [0..<length ?ds]")
    case None
    then have "\<forall>k < length ?ds. dev_addr (?ds ! k) \<noteq> a" by (simp add: find_None_iff)
    then have "a \<notin> dev_addr ` set ?ds" by (auto simp: in_set_conv_nth)
    then show thesis using absent None idx n by (simp add: bt_autoconnect_get_index_def)
  next
    case (Some j)
    then have j: "j < length ?ds" "dev_addr (?ds ! j) = a" by (auto simp: find_Some_iff)
    have "j < nat (autoconnect_linknum c)"
    proof (rule ccontr)
      assume "\<not> ?thesis"
      then have "?ds ! j \<in> set (drop (nat (autoconnect_linknum c)) ?ds)"
        using j(1) by (auto simp: in_set_conv_nth intro!: exI[of _ "j - nat (autoconnect_linknum c)"])
      then show False using assms j(2) by (auto simp: config_ok_def list_all_iff)
    qed
    then show thesis using present Some idx n j by (simp add: bt_autoconnect_get_index_def)
  qed
qed

text \<open>The invariant in terms of the two parts of the array.\<close>

definition parts_ok :: "autoconnect_config \<Rightarrow> autoconnect_device list \<Rightarrow> autoconnect_device list \<Rightarrow> bool" where
  "parts_ok c h z \<longleftrightarrow> cfg_dev c = h @ z \<and> autoconnect_linknum c = int (length h) \<and>
     autoconnect_num c = int (length h + length z) \<and> 1 \<le> length h + length z \<and> length h + length z \<le> 3 \<and>
     list_all (\<lambda>d. known_addr (dev_addr d)) h \<and> distinct (map dev_addr h) \<and>
     list_all (\<lambda>d. dev_addr d = zero_addr) z"

lemma parts_config_ok: "parts_ok c h z \<Longrightarrow> config_ok c \<and> history c = h"
  by (auto simp: parts_ok_def config_ok_def history_def known_addr_def list_all_iff zero_addr_def)

lemma config_ok_parts:
  assumes "config_ok c"
  obtains z where "parts_ok c (history c) z"
proof -
  let ?k = "nat (autoconnect_linknum c)"
  have "parts_ok c (take ?k (cfg_dev c)) (drop ?k (cfg_dev c))"
    using assms by (auto simp: parts_ok_def config_ok_def history_def known_addr_def list_all_iff dest: in_set_takeD)
  then show thesis using that by (simp add: history_def)
qed

text \<open>\<open>bt_autoconnect_update\<close> moves a device to the front and drops the oldest one.\<close>

lemma update_absent:
  assumes p: "parts_ok c h z" and g: "bt_autoconnect_get_index c (dev_addr d) = Some (-1)"
    and a: "dev_addr d \<notin> dev_addr ` set h" "known_addr (dev_addr d)"
  shows "succeeds (bt_autoconnect_update c d) (\<lambda>(r, c'). r = 0 \<and> autoconnect_num c' = autoconnect_num c \<and>
    (\<exists>z'. parts_ok c' (take (length (cfg_dev c)) (d # h)) z'))"
proof -
  have n: "nat (autoconnect_num c - 1) = length h + length z - 1" "\<not> autoconnect_num c < 1"
    using p by (auto simp: parts_ok_def)
  have sh: "(shift_down (length h + length z - 1) (cfg_dev c))[0 := d] = d # take (length h + length z - 1) (h @ z)"
    using shift_down_eq[of "length h + length z - 1" "h @ z" d] p by (auto simp: parts_ok_def)
  show ?thesis
  proof (cases z rule: rev_cases)
    case Nil
    have "distinct (map dev_addr (take (length h - 1) h))" "set (take (length h - 1) h) \<subseteq> set h"
      using p by (auto simp: parts_ok_def take_map[symmetric] dest: in_set_takeD)
    then show ?thesis using p g a sh n Nil
      by (auto simp: bt_autoconnect_update_def parts_ok_def list_all_iff take_Cons' intro!: exI[of _ "[]"])
  next
    case (snoc zs x)
    then show ?thesis using p g a sh n
      by (auto simp: bt_autoconnect_update_def parts_ok_def take_Cons' intro!: exI[of _ zs])
  qed
qed

lemma update_present:
  assumes p: "parts_ok c h z" and g: "bt_autoconnect_get_index c (dev_addr d) = Some (int j)"
    and j: "j < length h" "dev_addr (h ! j) = dev_addr d"
  shows "succeeds (bt_autoconnect_update c d) (\<lambda>(r, c'). r = 0 \<and> autoconnect_num c' = autoconnect_num c \<and>
    parts_ok c' (move_front dev_addr d h) z)"
proof -
  have dist: "distinct (map dev_addr h)" using p by (simp add: parts_ok_def)
  have mf: "move_front dev_addr d h = d # take j h @ drop (Suc j) h"
    using filter_drop_nth[OF dist j(1)] j(2) by (simp add: move_front_def)
  have sh: "(shift_down j (cfg_dev c))[0 := d] = move_front dev_addr d h @ z"
    using shift_down_eq[of j "h @ z" d] p j by (simp add: parts_ok_def mf)
  have "known_addr (dev_addr (h ! j))" using p nth_mem[OF j(1)] by (simp add: parts_ok_def list_all_iff)
  then have "known_addr (dev_addr d)" using j(2) by simp
  then have "list_all (\<lambda>d. known_addr (dev_addr d)) (move_front dev_addr d h)"
    using p by (auto simp: parts_ok_def list_all_iff move_front_def)
  moreover have "length (move_front dev_addr d h) = length h" using j(1) by (simp add: mf)
  ultimately show ?thesis
    using p g sh distinct_move_front[OF dist, of d] by (auto simp: bt_autoconnect_update_def parts_ok_def)
qed

lemma update_refines:
  assumes ok: "config_ok c" and d: "known_addr (dev_addr d)"
  shows "succeeds (bt_autoconnect_update c d) (\<lambda>(r, c'). r = 0 \<and> config_ok c' \<and>
    autoconnect_num c' = autoconnect_num c \<and>
    history c' = take (nat (autoconnect_num c)) (move_front dev_addr d (history c)))"
proof -
  obtain z where p: "parts_ok c (history c) z" using ok by (rule config_ok_parts)
  have n: "nat (autoconnect_num c) = length (cfg_dev c)" using p by (simp add: parts_ok_def)
  have a: "dev_addr d \<noteq> zero_addr" using d by (simp add: known_addr_def)
  show ?thesis
    using ok a
  proof (cases rule: get_index_cases)
    case absent
    then have "dev_addr d \<notin> dev_addr ` set (history c)" using p by (auto simp: parts_ok_def)
    then show ?thesis
      using update_absent[OF p absent(1) _ d] parts_config_ok
      by (auto simp: n move_front_def filter_other elim!: succeeds_mono)
  next
    case (present j)
    then have j: "j < length (history c)" "dev_addr (history c ! j) = dev_addr d"
      using p by (auto simp: parts_ok_def nth_append)
    have "length (move_front dev_addr d (history c)) \<le> length (cfg_dev c)"
      using p j filter_drop_nth[of dev_addr "history c" j] by (simp add: move_front_def parts_ok_def)
    then show ?thesis
      using update_present[OF p present(1) j] parts_config_ok by (auto simp: n elim!: succeeds_mono)
  qed
qed

text \<open>\<open>bt_autoconnect_remove\<close> deletes a device and says whether there was one.\<close>

lemma remove_refines:
  assumes ok: "config_ok c" and a: "a \<noteq> zero_addr"
  shows "succeeds (bt_autoconnect_remove c a) (\<lambda>(r, c'). config_ok c' \<and>
    r = (if a \<in> dev_addr ` set (history c) then 0 else -1) \<and>
    autoconnect_num c' = autoconnect_num c \<and> history c' = filter (\<lambda>x. dev_addr x \<noteq> a) (history c))"
proof -
  obtain z where p: "parts_ok c (history c) z" using ok by (rule config_ok_parts)
  show ?thesis
    using ok a
  proof (cases rule: get_index_cases)
    case absent
    then have "a \<notin> dev_addr ` set (history c)" using p by (auto simp: parts_ok_def)
    then show ?thesis using absent(1) ok by (auto simp: bt_autoconnect_remove_def filter_other)
  next
    case (present j)
    let ?h = "history c"
    have j: "j < length ?h" "dev_addr (?h ! j) = a" using present p by (auto simp: parts_ok_def nth_append)
    have dist: "distinct (map dev_addr ?h)" using p by (simp add: parts_ok_def)
    have f: "filter (\<lambda>x. dev_addr x \<noteq> a) ?h = take j ?h @ drop (Suc j) ?h"
      using filter_drop_nth[OF dist j(1)] j(2) by simp
    let ?last = "length ?h + length z - 1"
    have n: "nat (autoconnect_num c - 1) = ?last" "nat (autoconnect_num c) \<le> length (cfg_dev c)"
      using p by (auto simp: parts_ok_def)
    have sh: "(shift_up j (?last - j) (cfg_dev c))[?last := zero_dev] = (take j ?h @ drop (Suc j) ?h) @ z @ [zero_dev]"
      using shift_up_eq[of j "?last - j" "?h @ z" zero_dev] p j by (simp add: parts_ok_def)
    have "distinct (map dev_addr (filter (\<lambda>x. dev_addr x \<noteq> a) ?h))" using dist by (rule distinct_map_filter)
    then have "parts_ok (c\<lparr>cfg_dev := (take j ?h @ drop (Suc j) ?h) @ z @ [zero_dev],
        autoconnect_linknum := autoconnect_linknum c - 1\<rparr>) (filter (\<lambda>x. dev_addr x \<noteq> a) ?h) (z @ [zero_dev])"
      using p j by (auto simp: parts_ok_def f zero_dev_def list_all_iff dest: in_set_takeD in_set_dropD)
    moreover have "a \<in> dev_addr ` set ?h" using j by auto
    moreover have "autoconnect_linknum c > 0" using p j by (auto simp: parts_ok_def)
    ultimately show ?thesis
      using present(1) n sh parts_config_ok by (auto simp: bt_autoconnect_remove_def Let_def)
  qed
qed

definition update_device :: "autoconnect_config \<Rightarrow> autoconnect_device \<Rightarrow> autoconnect_config option" where
  "update_device c d = map_option snd (bt_autoconnect_update c d)"

interpretation devices: recent_list update_device history config_ok "\<lambda>c. nat (autoconnect_num c)" dev_addr
  "\<lambda>d. known_addr (dev_addr d)"
proof
  fix c :: autoconnect_config and d :: autoconnect_device
  assume "config_ok c" "known_addr (dev_addr d)"
  then show "succeeds (update_device c d) (\<lambda>c'. config_ok c' \<and> nat (autoconnect_num c') = nat (autoconnect_num c) \<and>
      history c' = take (nat (autoconnect_num c)) (move_front dev_addr d (history c)))"
    using update_refines[of c d] by (auto simp: update_device_def succeeds_iff)
qed (auto simp: config_ok_def)

lemma newinit_ok:
  assumes "1 \<le> autoconnect_num c" and "autoconnect_num c \<le> 3"
  shows "config_ok (snd (bt_config_newinit c))" "history (snd (bt_config_newinit c)) = []"
  using assms by (auto simp: bt_config_newinit_def config_ok_def history_def zero_dev_def zero_addr_def list_all_iff)

section \<open>Addresses and files\<close>

lemma strtoul_hex_byte_simps [simp]:
  "strtoul_hex (hex_byte b) = (unat b, [])"
  "strtoul_hex (hex_byte b @ CHR '':'' # r) = (unat b, CHR '':'' # r)"
proof -
  have "\<not> is_hex (CHR '':'')" by (simp add: is_hex_def digit_val_def)
  then show "strtoul_hex (hex_byte b @ CHR '':'' # r) = (unat b, CHR '':'' # r)"
    by (intro strtoul_hex_byte) simp
  show "strtoul_hex (hex_byte b) = (unat b, [])" using strtoul_hex_byte[of "[]" b] by simp
qed

lemma strtoba_mac_text:
  assumes "length bs = 6" and "length addr = 6"
  shows "bd_strtoba addr (Some (mac_text bs)) = Some (0, bs)"
proof -
  obtain b0 b1 b2 b3 b4 b5 where b: "bs = [b0, b1, b2, b3, b4, b5]"
    using assms(1) by (auto simp: length_Suc_conv eval_nat_numeral)
  obtain a0 a1 a2 a3 a4 a5 where a: "addr = [a0, a1, a2, a3, a4, a5]"
    using assms(2) by (auto simp: length_Suc_conv eval_nat_numeral)
  have len: "length (mac_text bs) = 17" using mac_text_length[of bs] assms(1) by fastforce
  show ?thesis
    using len by (simp add: bd_strtoba_def a b strtoba_from.simps del: strtoul_hex_byte_simps(1)) (simp)
qed

text \<open>A device as it is saved and read back.\<close>

definition savable :: "autoconnect_device \<Rightarrow> bool" where
  "savable d \<longleftrightarrow> length (dev_addr d) = 6 \<and> nul \<notin> set (dev_name d) \<and> length (dev_name d) < DEV_NAME_LEN"

definition count_known :: "autoconnect_device list \<Rightarrow> int" where
  "count_known ds = int (length (filter (\<lambda>d. dev_addr d \<noteq> zero_addr) ds))"

lemma dev_zero [simp]: "dev_addr zero_dev = zero_addr" "dev_name zero_dev = []"
  by (simp_all add: zero_dev_def)

lemma parse_device_item:
  assumes "savable d" and "i < length (cfg_dev c)" and "cfg_dev c ! i = zero_dev"
  shows "parse_device txt i (device_item d) c = Some (c\<lparr>cfg_dev := (cfg_dev c)[i := d],
    autoconnect_linknum := autoconnect_linknum c + count_known [d]\<rparr>)"
proof -
  have "bd_strtoba zero_addr (Some (mac_text (dev_addr d))) = Some (0, dev_addr d)"
    using assms(1) by (intro strtoba_mac_text) (auto simp: savable_def zero_addr_def)
  then show ?thesis
    using assms cstr_id[OF mac_text_no_nul, of "dev_addr d"] cstr_id[of "dev_name d"]
    by (cases d; cases c)
      (simp add: parse_device_def device_item_def json_object_get_string_def copy_name_def savable_def
        count_known_def Let_def zero_dev_def)
qed

lemma parse_devices_items:
  assumes "list_all savable ds" and "cfg_dev c = pre @ replicate (length ds) zero_dev"
  shows "parse_devices txt (length pre) (map device_item ds) c =
    Some (c\<lparr>cfg_dev := pre @ ds, autoconnect_linknum := autoconnect_linknum c + count_known ds\<rparr>)"
  using assms
proof (induction ds arbitrary: c pre)
  case (Cons d ds)
  have "parse_device txt (length pre) (device_item d) c = Some (c\<lparr>cfg_dev := (pre @ [d]) @ replicate (length ds) zero_dev,
      autoconnect_linknum := autoconnect_linknum c + count_known [d]\<rparr>)"
    using Cons.prems parse_device_item[of d "length pre" c "txt"] by (simp add: nth_append list_update_append)
  then show ?case
    using Cons.IH[where pre = "pre @ [d]" and c = "c\<lparr>cfg_dev := (pre @ [d]) @ replicate (length ds) zero_dev,
        autoconnect_linknum := autoconnect_linknum c + count_known [d]\<rparr>"] Cons.prems
    by (simp add: count_known_def)
qed (simp add: count_known_def)

text \<open>Laws of the parameters: what was saved can be loaded, and json-c reads what it prints.\<close>

definition store_ok :: "'w store_ops \<Rightarrow> bool" where
  "store_ok E \<longleftrightarrow> (\<forall>f t w. fst (so_save E f t w) \<longrightarrow> fst (so_load E f (snd (so_save E f t w))) = Some (take 1023 t))"

definition text_ok :: "'w store_ops \<Rightarrow> json \<Rightarrow> bool" where
  "text_ok E j \<longleftrightarrow> so_text E j \<noteq> [] \<and> nul \<notin> set (so_text E j) \<and> so_parse E (so_text E j) = j"

lemma count_known_ok: "config_ok c \<Longrightarrow> count_known (cfg_dev c) = autoconnect_linknum c"
proof -
  assume "config_ok c"
  then obtain z where p: "parts_ok c (history c) z" by (rule config_ok_parts)
  then have "filter (\<lambda>d. dev_addr d \<noteq> zero_addr) (history c) = history c" "filter (\<lambda>d. dev_addr d \<noteq> zero_addr) z = []"
    by (auto simp: parts_ok_def known_addr_def list_all_iff filter_id_conv filter_empty_conv)
  then show ?thesis using p by (simp add: parts_ok_def count_known_def)
qed

end
