(* ===== verification/BtInvariant.thy ===== *)
theory BtInvariant
  imports BtService BtHistory
begin

text \<open>
  The invariant \<open>bt_ok\<close> of the bluetooth service, and closing several profiles at once.  The
  invariant says: the controller is open while a profile is enabled, a closed profile has no
  bit in the status, both device lists are well formed, the reassembly buffer is terminated,
  and the microphone is connected only while the audio link of a call is up.  The interface
  \<open>bt_profile_off\<close> is what \<open>bt_close_mask_profile\<close> needs of the six functions it calls; each of them is
  an instance.
\<close>

section \<open>Invariant\<close>

text \<open>No bits beside those of the six profiles.\<close>

definition profile_bits :: "32 word \<Rightarrow> bool" where
  "profile_bits st \<longleftrightarrow> st AND NOT 63 = 0"

definition status_ok ::
  "32 word \<Rightarrow> bool \<Rightarrow> ble_open \<Rightarrow> blec_open \<Rightarrow> open_state \<Rightarrow> open_state \<Rightarrow> open_state \<Rightarrow> hh_open \<Rightarrow> bool" where
  "status_ok st op b bc snk src hf hh \<longleftrightarrow> (st \<noteq> 0 \<longrightarrow> op) \<and> profile_bits st \<and>
     (b \<ge> BLE_STATE_CLOSE \<longrightarrow> \<not> has_flag st BLE_STATUS_MASK) \<and>
     (bc \<ge> BLE_CLI_STATE_CLOSE \<longrightarrow> \<not> has_flag st BLE_CLIENT_STATUS_MASK) \<and>
     (snk = S_CLOSED \<longrightarrow> \<not> has_flag st A2DP_SINK_STATUS_MASK) \<and>
     (src = S_CLOSED \<longrightarrow> \<not> has_flag st A2DP_SOURCE_STATUS_MASK) \<and>
     (hf = S_CLOSED \<longrightarrow> \<not> has_flag st HFP_STATUS_MASK) \<and>
     (hh \<ge> HH_STATE_CLOSE \<longrightarrow> \<not> has_flag st HID_HOST_STATUS_MASK)"

definition cfg_ok :: "autoconnect_config \<Rightarrow> bool" where
  "cfg_ok c \<longleftrightarrow> config_ok c \<and> autoconnect_mode c = ROKIDOS_BT_AUTOCONNECT_BY_HISTORY \<and>
     list_all (\<lambda>d. length (dev_name d) < DEV_NAME_LEN) (cfg_dev c)"

definition buf_ok :: "8 word list \<Rightarrow> int \<Rightarrow> int \<Rightarrow> bool" where
  "buf_ok b i k \<longleftrightarrow> length b = SENDBUF_LEN \<and> b ! 511 = 0 \<and> 0 \<le> i \<and> i \<le> 255 \<and> 0 \<le> k"

text \<open>Posted messages and replies are JSON objects, and messages have one of the topics of the service.\<close>

definition is_object :: "json \<Rightarrow> bool" where
  "is_object j \<longleftrightarrow> (case j of JObj kvs \<Rightarrow> True | _ \<Rightarrow> False)"

definition event_topics :: "string list" where
  "event_topics = [''bluetooth.common.event'', ''bluetooth.ble.event'', ''bluetooth.ble.client.event'',
     ''bluetooth.a2dpsink.event'', ''bluetooth.a2dpsource.event'', ''bluetooth.hfp.event'', ''bluetooth.hh.event'']"

definition messages_ok :: "(string \<times> json) list \<Rightarrow> json list \<Rightarrow> bool" where
  "messages_ok evs reps \<longleftrightarrow> list_all (\<lambda>(t, j). t \<in> set event_topics \<and> is_object j) evs \<and> list_all is_object reps"

definition bt_ok :: "'w bt_state \<Rightarrow> bool" where
  "bt_ok s \<longleftrightarrow>
     status_ok (bt_status s) (bt_opened s) (ble_state s) (blec_state s) (snk_open (sink s)) (src_open (source s))
       (hfp_open (hfp s)) (hh_state s) \<and>
     cfg_ok (sink_config s) \<and> cfg_ok (source_config s) \<and>
     buf_ok (ble_sendbuf s) (ble_index s) (cmcc_index s) \<and>
     (bt_mic s \<longrightarrow> audio (hfp s) = HFP_AUDIO_ON) \<and> messages_ok (bt_events s) (bt_replies s)"

text \<open>What the service relies on in the HAL: discovery can be cancelled, and a list of devices fits
  the array it was asked for.\<close>

definition list_law :: "(nat \<Rightarrow> 'w \<Rightarrow> (int \<times> bt_device list) \<times> 'w) \<Rightarrow> bool" where
  "list_law f \<longleftrightarrow> (\<forall>n w. fst (fst (f n w)) \<le> int n \<and> fst (fst (f n w)) \<le> int (length (snd (fst (f n w)))))"

definition hal_ok :: "'w bt_ops \<Rightarrow> bool" where
  "hal_ok E \<longleftrightarrow> b_cancel_discovery E \<noteq> None \<and> list_law (b_disc_devices E) \<and> list_law (b_bonded_devices E) \<and>
     list_law (p_connected (b_blec E)) \<and> list_law (p_connected (b_hh E))"

section \<open>Bits of the status\<close>

lemma and_single: "(x :: 32 word) AND 2 ^ n = (if bit x n then 2 ^ n else 0)"
  by (rule bit_eqI) (auto simp: bit_simps bit_exp_iff)

lemma clear_if_set:
  assumes "k = (2 :: 32 word) ^ n"
  shows "(if has_flag st k then clear_flag x k else x) = x AND NOT (st AND k)"
  using assms by (auto simp: has_flag_def clear_flag_def and_single)

lemma mask_powers:
  "BLE_STATUS_MASK = 2 ^ 0" "BLE_CLIENT_STATUS_MASK = 2 ^ 1" "A2DP_SOURCE_STATUS_MASK = 2 ^ 2"
  "A2DP_SINK_STATUS_MASK = 2 ^ 3" "HFP_STATUS_MASK = 2 ^ 4" "HID_HOST_STATUS_MASK = 2 ^ 5"
  by (simp_all add: status_masks)

lemma mask_disjoint [flag_simps]:
  "BLE_STATUS_MASK AND BLE_CLIENT_STATUS_MASK = 0" "BLE_STATUS_MASK AND A2DP_SOURCE_STATUS_MASK = 0" "BLE_STATUS_MASK AND A2DP_SINK_STATUS_MASK = 0" "BLE_STATUS_MASK AND HFP_STATUS_MASK = 0" "BLE_STATUS_MASK AND HID_HOST_STATUS_MASK = 0"
  "BLE_CLIENT_STATUS_MASK AND BLE_STATUS_MASK = 0" "BLE_CLIENT_STATUS_MASK AND A2DP_SOURCE_STATUS_MASK = 0" "BLE_CLIENT_STATUS_MASK AND A2DP_SINK_STATUS_MASK = 0" "BLE_CLIENT_STATUS_MASK AND HFP_STATUS_MASK = 0" "BLE_CLIENT_STATUS_MASK AND HID_HOST_STATUS_MASK = 0"
  "A2DP_SOURCE_STATUS_MASK AND BLE_STATUS_MASK = 0" "A2DP_SOURCE_STATUS_MASK AND BLE_CLIENT_STATUS_MASK = 0" "A2DP_SOURCE_STATUS_MASK AND A2DP_SINK_STATUS_MASK = 0" "A2DP_SOURCE_STATUS_MASK AND HFP_STATUS_MASK = 0" "A2DP_SOURCE_STATUS_MASK AND HID_HOST_STATUS_MASK = 0"
  "A2DP_SINK_STATUS_MASK AND BLE_STATUS_MASK = 0" "A2DP_SINK_STATUS_MASK AND BLE_CLIENT_STATUS_MASK = 0" "A2DP_SINK_STATUS_MASK AND A2DP_SOURCE_STATUS_MASK = 0" "A2DP_SINK_STATUS_MASK AND HFP_STATUS_MASK = 0" "A2DP_SINK_STATUS_MASK AND HID_HOST_STATUS_MASK = 0"
  "HFP_STATUS_MASK AND BLE_STATUS_MASK = 0" "HFP_STATUS_MASK AND BLE_CLIENT_STATUS_MASK = 0" "HFP_STATUS_MASK AND A2DP_SOURCE_STATUS_MASK = 0" "HFP_STATUS_MASK AND A2DP_SINK_STATUS_MASK = 0" "HFP_STATUS_MASK AND HID_HOST_STATUS_MASK = 0"
  "HID_HOST_STATUS_MASK AND BLE_STATUS_MASK = 0" "HID_HOST_STATUS_MASK AND BLE_CLIENT_STATUS_MASK = 0" "HID_HOST_STATUS_MASK AND A2DP_SOURCE_STATUS_MASK = 0" "HID_HOST_STATUS_MASK AND A2DP_SINK_STATUS_MASK = 0" "HID_HOST_STATUS_MASK AND HFP_STATUS_MASK = 0"
  by (simp_all add: status_masks)

lemma mask_nonzero [flag_simps]:
  "BLE_STATUS_MASK \<noteq> 0" "BLE_CLIENT_STATUS_MASK \<noteq> 0" "A2DP_SOURCE_STATUS_MASK \<noteq> 0" "A2DP_SINK_STATUS_MASK \<noteq> 0" "HFP_STATUS_MASK \<noteq> 0" "HID_HOST_STATUS_MASK \<noteq> 0"
  by (simp_all add: status_masks)

lemma profile_bits_mask [flag_simps]:
  "profile_bits BLE_STATUS_MASK" "profile_bits BLE_CLIENT_STATUS_MASK" "profile_bits A2DP_SOURCE_STATUS_MASK"
  "profile_bits A2DP_SINK_STATUS_MASK" "profile_bits HFP_STATUS_MASK" "profile_bits HID_HOST_STATUS_MASK" "profile_bits 0"
  by (simp_all add: status_masks profile_bits_def)

lemma profile_bits_set [flag_simps]: "profile_bits st \<Longrightarrow> profile_bits k \<Longrightarrow> profile_bits (set_flag st k)"
  unfolding profile_bits_def set_flag_def word_ao_dist by simp

lemma profile_bits_clear [flag_simps]: "profile_bits st \<Longrightarrow> profile_bits (clear_flag st k)"
proof -
  assume "profile_bits st"
  then have "(st AND NOT 63) AND NOT k = 0" unfolding profile_bits_def by simp
  then show ?thesis unfolding profile_bits_def clear_flag_def by (simp only: ac_simps)
qed

lemma clear_nonzero [flag_simps]: "clear_flag st k \<noteq> 0 \<Longrightarrow> st \<noteq> 0"
  by (auto simp: clear_flag_def)

lemma clear_flag_0 [flag_simps]: "clear_flag 0 k = 0"
  by (simp add: clear_flag_def)

lemma clear_flag_unset: "k = 2 ^ n \<Longrightarrow> \<not> has_flag st k \<Longrightarrow> clear_flag st k = st"
  by (rule bit_eqI) (auto simp: has_flag_def clear_flag_def and_single bit_simps bit_exp_iff split: if_splits)

section \<open>How the status may change\<close>

text \<open>For each profile: its bit is cleared and its state is then free; its bit is set with a state
  that is not closed; its state becomes one that is not closed.\<close>

lemma status_clear:
  assumes "status_ok st op b bc snk src hf hh"
  shows
    "status_ok (clear_flag st BLE_STATUS_MASK) (op \<and> clear_flag st BLE_STATUS_MASK \<noteq> 0) b' bc snk src hf hh"
    "status_ok (clear_flag st BLE_CLIENT_STATUS_MASK) (op \<and> clear_flag st BLE_CLIENT_STATUS_MASK \<noteq> 0) b bc' snk src hf hh"
    "status_ok (clear_flag st A2DP_SINK_STATUS_MASK) (op \<and> clear_flag st A2DP_SINK_STATUS_MASK \<noteq> 0) b bc snk' src hf hh"
    "status_ok (clear_flag st A2DP_SOURCE_STATUS_MASK) (op \<and> clear_flag st A2DP_SOURCE_STATUS_MASK \<noteq> 0) b bc snk src' hf hh"
    "status_ok (clear_flag st HFP_STATUS_MASK) (op \<and> clear_flag st HFP_STATUS_MASK \<noteq> 0) b bc snk src hf' hh"
    "status_ok (clear_flag st HID_HOST_STATUS_MASK) (op \<and> clear_flag st HID_HOST_STATUS_MASK \<noteq> 0) b bc snk src hf hh'"
  using assms clear_nonzero by (simp_all add: status_ok_def flag_simps)

lemma status_set:
  assumes "status_ok st op b bc snk src hf hh"
  shows
    "b' < BLE_STATE_CLOSE \<Longrightarrow> status_ok (set_flag st BLE_STATUS_MASK) True b' bc snk src hf hh"
    "bc' < BLE_CLI_STATE_CLOSE \<Longrightarrow> status_ok (set_flag st BLE_CLIENT_STATUS_MASK) True b bc' snk src hf hh"
    "snk' \<noteq> S_CLOSED \<Longrightarrow> status_ok (set_flag st A2DP_SINK_STATUS_MASK) True b bc snk' src hf hh"
    "src' \<noteq> S_CLOSED \<Longrightarrow> status_ok (set_flag st A2DP_SOURCE_STATUS_MASK) True b bc snk src' hf hh"
    "hf' \<noteq> S_CLOSED \<Longrightarrow> status_ok (set_flag st HFP_STATUS_MASK) True b bc snk src hf' hh"
    "hh' < HH_STATE_CLOSE \<Longrightarrow> status_ok (set_flag st HID_HOST_STATUS_MASK) True b bc snk src hf hh'"
  using assms by (simp_all add: status_ok_def flag_simps not_le)

lemma status_move:
  assumes "status_ok st op b bc snk src hf hh"
  shows
    "b' < BLE_STATE_CLOSE \<Longrightarrow> status_ok st op b' bc snk src hf hh"
    "bc' < BLE_CLI_STATE_CLOSE \<Longrightarrow> status_ok st op b bc' snk src hf hh"
    "snk' \<noteq> S_CLOSED \<Longrightarrow> status_ok st op b bc snk' src hf hh"
    "src' \<noteq> S_CLOSED \<Longrightarrow> status_ok st op b bc snk src' hf hh"
    "hf' \<noteq> S_CLOSED \<Longrightarrow> status_ok st op b bc snk src hf' hh"
    "hh' < HH_STATE_CLOSE \<Longrightarrow> status_ok st op b bc snk src hf hh'"
  using assms by (simp_all add: status_ok_def not_le)

lemma status_opened: "status_ok st op b bc snk src hf hh \<Longrightarrow> status_ok st True b bc snk src hf hh"
  by (simp add: status_ok_def)

lemma status_closed: "status_ok st op b bc snk src hf hh \<Longrightarrow> status_ok st (op \<and> st \<noteq> 0) b bc snk src hf hh"
  by (simp add: status_ok_def)

section \<open>Messages leave the state alone\<close>

lemma report_sel [simp]:
  "bt_world (report_bluetooth_information f j s) = bt_world s"
  "bt_present (report_bluetooth_information f j s) = bt_present s"
  "bt_status (report_bluetooth_information f j s) = bt_status s"
  "bt_opened (report_bluetooth_information f j s) = bt_opened s"
  "bt_scanning (report_bluetooth_information f j s) = bt_scanning s"
  "ble_state (report_bluetooth_information f j s) = ble_state s"
  "ble_msgid (report_bluetooth_information f j s) = ble_msgid s"
  "ble_sendbuf (report_bluetooth_information f j s) = ble_sendbuf s"
  "ble_index (report_bluetooth_information f j s) = ble_index s"
  "cmcc_index (report_bluetooth_information f j s) = cmcc_index s"
  "cmcc_pkgs (report_bluetooth_information f j s) = cmcc_pkgs s"
  "blec_state (report_bluetooth_information f j s) = blec_state s"
  "blec_link (report_bluetooth_information f j s) = blec_link s"
  "blec_dev (report_bluetooth_information f j s) = blec_dev s"
  "sink (report_bluetooth_information f j s) = sink s"
  "sink_config (report_bluetooth_information f j s) = sink_config s"
  "get_play_status (report_bluetooth_information f j s) = get_play_status s"
  "sink_subsequent (report_bluetooth_information f j s) = sink_subsequent s"
  "last_stop_time (report_bluetooth_information f j s) = last_stop_time s"
  "play_index (report_bluetooth_information f j s) = play_index s"
  "e_auto_connect (report_bluetooth_information f j s) = e_auto_connect s"
  "e_play_command (report_bluetooth_information f j s) = e_play_command s"
  "e_connect_over (report_bluetooth_information f j s) = e_connect_over s"
  "e_play_state (report_bluetooth_information f j s) = e_play_state s"
  "source (report_bluetooth_information f j s) = source s"
  "source_config (report_bluetooth_information f j s) = source_config s"
  "es_auto_connect (report_bluetooth_information f j s) = es_auto_connect s"
  "es_connect_over (report_bluetooth_information f j s) = es_connect_over s"
  "hfp (report_bluetooth_information f j s) = hfp s"
  "hfp_dev (report_bluetooth_information f j s) = hfp_dev s"
  "hh_state (report_bluetooth_information f j s) = hh_state s"
  "hh_link (report_bluetooth_information f j s) = hh_link s"
  "hh_dev (report_bluetooth_information f j s) = hh_dev s"
  "bt_mic (report_bluetooth_information f j s) = bt_mic s"
  "bt_binaries (report_bluetooth_information f j s) = bt_binaries s"
  "bt_replies (report_bluetooth_information f j s) = bt_replies s"
  by (cases "event_topic f"; simp add: report_bluetooth_information_def)+

lemma answer_sel [simp]:
  "bt_world (answer f r j s) = bt_world s"
  "bt_present (answer f r j s) = bt_present s"
  "bt_status (answer f r j s) = bt_status s"
  "bt_opened (answer f r j s) = bt_opened s"
  "bt_scanning (answer f r j s) = bt_scanning s"
  "ble_state (answer f r j s) = ble_state s"
  "ble_msgid (answer f r j s) = ble_msgid s"
  "ble_sendbuf (answer f r j s) = ble_sendbuf s"
  "ble_index (answer f r j s) = ble_index s"
  "cmcc_index (answer f r j s) = cmcc_index s"
  "cmcc_pkgs (answer f r j s) = cmcc_pkgs s"
  "blec_state (answer f r j s) = blec_state s"
  "blec_link (answer f r j s) = blec_link s"
  "blec_dev (answer f r j s) = blec_dev s"
  "sink (answer f r j s) = sink s"
  "sink_config (answer f r j s) = sink_config s"
  "get_play_status (answer f r j s) = get_play_status s"
  "sink_subsequent (answer f r j s) = sink_subsequent s"
  "last_stop_time (answer f r j s) = last_stop_time s"
  "play_index (answer f r j s) = play_index s"
  "e_auto_connect (answer f r j s) = e_auto_connect s"
  "e_play_command (answer f r j s) = e_play_command s"
  "e_connect_over (answer f r j s) = e_connect_over s"
  "e_play_state (answer f r j s) = e_play_state s"
  "source (answer f r j s) = source s"
  "source_config (answer f r j s) = source_config s"
  "es_auto_connect (answer f r j s) = es_auto_connect s"
  "es_connect_over (answer f r j s) = es_connect_over s"
  "hfp (answer f r j s) = hfp s"
  "hfp_dev (answer f r j s) = hfp_dev s"
  "hh_state (answer f r j s) = hh_state s"
  "hh_link (answer f r j s) = hh_link s"
  "hh_dev (answer f r j s) = hh_dev s"
  "bt_mic (answer f r j s) = bt_mic s"
  "bt_binaries (answer f r j s) = bt_binaries s"
  by (simp_all add: answer_def method_report_reply_def)

lemma is_object_simps [simp]: "is_object (JObj kvs)" "is_object (json_object_object_add k v j) = is_object j"
  by (simp_all add: is_object_def) (cases j; simp)

lemma topic_known: "event_topic f = Some t \<Longrightarrow> t \<in> set event_topics"
  by (cases f) (auto simp: event_topics_def)

lemma messages_ok_report [simp]:
  assumes "is_object j"
  shows "messages_ok (bt_events (report_bluetooth_information f j s)) reps = messages_ok (bt_events s) reps"
    "messages_ok (bt_events (answer f r j s)) (bt_replies (answer f r j s)) = messages_ok (bt_events s) (bt_replies s)"
  using assms topic_known[of f]
  by (auto simp: messages_ok_def answer_def method_report_reply_def report_bluetooth_information_def split: option.splits)

lemma bt_ok_answer [simp]:
  assumes "is_object j"
  shows "bt_ok (answer f r j s) = bt_ok s" "bt_ok (report_bluetooth_information f j s) = bt_ok s"
  using assms by (simp_all add: bt_ok_def)

lemma bt_ok_call [simp]: "bt_ok (s\<lparr>bt_world := w\<rparr>) = bt_ok s"
  by (simp add: bt_ok_def)

lemmas bt_calls = bx_eq bcall_eq connected_num_def set_sink_def set_source_def set_sink_config_def
  set_source_config_def Let_def

definition sink_json :: "'w bt_state \<Rightarrow> json" where
  "sink_json s = (let k = sink s in
     JObj ([(''linknum'', JInt (autoconnect_linknum (sink_config s))), (''a2dpstate'', JStr (open_name (snk_open k))),
            (''connect_state'', JStr (a2dp_link_name (snk_link k)))]
       @ the (first_device (snk_link k = L_CONNECTED) (sink_config s))
       @ [(''play_state'', JStr (play_name (snk_play k)))] @ broadcast_field (snk_broadcast k)
       @ [(''action'', JStr ''stateupdate'')]))"

definition source_json :: "'w bt_state \<Rightarrow> json" where
  "source_json s = (let k = source s in
     JObj ([(''linknum'', JInt (autoconnect_linknum (source_config s))), (''a2dpstate'', JStr (open_name (src_open k))),
            (''connect_state'', JStr (source_link_name (src_link k)))]
       @ the (first_device (src_link k \<in> {L_CONNECTED, L_CONNECTEOVER}) (source_config s))
       @ broadcast_field (src_broadcast k) @ [(''action'', JStr ''stateupdate'')]))"

lemma is_object_state [simp]: "is_object (sink_json s)" "is_object (source_json s)"
  by (simp_all add: sink_json_def source_json_def Let_def)

lemma first_device_ok: "cfg_ok c \<Longrightarrow> \<exists>fs. first_device b c = Some fs"
  by (cases "cfg_dev c") (auto simp: first_device_def cfg_ok_def config_ok_def)

lemma sink_broadcast_eq [simp]:
  assumes "cfg_ok (sink_config s)"
  shows "broadcast_a2dpsink_state r s = Some (answer BLUETOOTH_FUNCTION_A2DPSINK r (sink_json s) s)"
  using first_device_ok[OF assms, of "snk_link (sink s) = L_CONNECTED"]
  by (auto simp: broadcast_a2dpsink_state_def sink_json_def Let_def)

lemma source_broadcast_eq [simp]:
  assumes "cfg_ok (source_config s)"
  shows "broadcast_a2dpsource_state r s = Some (answer BLUETOOTH_FUNCTION_A2DPSOURCE r (source_json s) s)"
  using first_device_ok[OF assms, of "src_link (source s) \<in> {L_CONNECTED, L_CONNECTEOVER}"]
  by (auto simp: broadcast_a2dpsource_state_def source_json_def Let_def)

lemma ble_broadcast_eq [simp]:
  assumes "ble_state s \<noteq> BLE_INIVATE"
  shows "broadcast_ble_state r s =
    Some (answer BLUETOOTH_FUNCTION_BLE r (JObj [(''state'', JStr (the (ble_state_name (ble_state s))))]) s)"
  using assms by (cases "ble_state s") (auto simp: broadcast_ble_state_def)


section \<open>Closing profiles\<close>

text \<open>What \<open>bt_close_mask_profile\<close> needs of the function that closes one profile: from a good state it
  returns in a good state, the bit of the profile is cleared and no other one, and the
  controller is closed with the last profile that was enabled.\<close>

definition off_post :: "32 word \<Rightarrow> 'w bt_state \<Rightarrow> 'w bt_state \<Rightarrow> bool" where
  "off_post msk s s' \<longleftrightarrow> bt_ok s' \<and> bt_status s' = clear_flag (bt_status s) msk \<and>
     (has_flag (bt_status s) msk \<longrightarrow> bt_status s' = 0 \<longrightarrow> \<not> bt_opened s')"

text \<open>The state while \<open>bt_close_mask_profile\<close> runs: \<open>st\<close> is the status it read at the start, \<open>K\<close> the bits of
  the profiles it has looked at.\<close>

definition closed_upto :: "32 word \<Rightarrow> 32 word \<Rightarrow> 32 word \<Rightarrow> 'w bt_state \<Rightarrow> bool" where
  "closed_upto st m K s \<longleftrightarrow> bt_ok s \<and> bt_status s = st AND NOT (m AND K) \<and>
     (st AND m AND K \<noteq> 0 \<longrightarrow> bt_status s = 0 \<longrightarrow> \<not> bt_opened s)"

lemma mask_step:
  assumes "k = (2 :: 32 word) ^ n" and "K AND k = 0"
  shows "has_flag (st AND m) k \<Longrightarrow> has_flag (st AND NOT (m AND K)) k"
    "has_flag (st AND m) k \<Longrightarrow> clear_flag (st AND NOT (m AND K)) k = st AND NOT (m AND (K OR k))"
    "\<not> has_flag (st AND m) k \<Longrightarrow> st AND NOT (m AND (K OR k)) = st AND NOT (m AND K)"
    "\<not> has_flag (st AND m) k \<Longrightarrow> st AND m AND (K OR k) = st AND m AND K"
proof -
  have K: "bit k i \<Longrightarrow> \<not> bit K i" for i using assms(2) by (metis bit_and_iff bit_0_eq bot_apply bot_bool_def)
  have flag: "has_flag x k \<longleftrightarrow> bit x n \<and> n < 32" for x
    by (auto simp: has_flag_def assms(1) and_single exp_eq_zero_iff dest: bit_imp_le_length)
  have kbit: "bit k i \<longleftrightarrow> i = n \<and> n < 32" for i by (auto simp: assms(1) bit_exp_iff)
  show "has_flag (st AND m) k \<Longrightarrow> has_flag (st AND NOT (m AND K)) k"
    using K[of n] by (auto simp: flag kbit bit_simps)
  show "has_flag (st AND m) k \<Longrightarrow> clear_flag (st AND NOT (m AND K)) k = st AND NOT (m AND (K OR k))"
    by (intro bit_eqI) (auto simp: flag clear_flag_def bit_simps kbit)
  show "\<not> has_flag (st AND m) k \<Longrightarrow> st AND NOT (m AND (K OR k)) = st AND NOT (m AND K)"
    by (intro bit_eqI) (auto simp: flag bit_simps kbit)
  show "\<not> has_flag (st AND m) k \<Longrightarrow> st AND m AND (K OR k) = st AND m AND K"
    by (intro bit_eqI) (auto simp: flag bit_simps kbit)
qed

locale bt_profile_off =
  fixes off :: "'w bt_ops \<Rightarrow> 'w bt_state \<Rightarrow> 'w bt_state option" and msk :: "32 word"
  assumes off_law: "\<lbrakk> bt_ok s; hal_ok E \<rbrakk> \<Longrightarrow> succeeds (off E s) (off_post msk s)"
    and one_bit: "\<exists>n. msk = 2 ^ n"
begin

lemma off_keeps: "bt_ok s \<Longrightarrow> hal_ok E \<Longrightarrow> succeeds (off E s) bt_ok"
  using off_law[of s E] by (auto simp: off_post_def elim: succeeds_mono)

lemma off_step:
  assumes "closed_upto st m K s" and "hal_ok E" and "K AND msk = 0"
  shows "succeeds (if has_flag (st AND m) msk then off E s else Some s) (closed_upto st m (K OR msk))"
proof -
  obtain n where n: "msk = 2 ^ n" using one_bit by blast
  note step = mask_step[OF n assms(3), of st m]
  show ?thesis
  proof (cases "has_flag (st AND m) msk")
    case True
    then show ?thesis
      using off_law[of s E] assms(1,2) step(1,2)
      by (auto simp: closed_upto_def off_post_def elim!: succeeds_mono)
  next
    case False
    then show ?thesis using assms(1) step(3,4) by (simp add: closed_upto_def)
  qed
qed

end

lemma bt_close_sel [simp]: "bt_status (bt_close E s) = bt_status s"
  "bt_opened (bt_close E s) = (bt_opened s \<and> bt_status s \<noteq> 0)"
  "ble_state (bt_close E s) = ble_state s" "blec_state (bt_close E s) = blec_state s"
  "sink (bt_close E s) = sink s" "source (bt_close E s) = source s" "hfp (bt_close E s) = hfp s"
  "hh_state (bt_close E s) = hh_state s" "sink_config (bt_close E s) = sink_config s"
  "source_config (bt_close E s) = source_config s" "ble_sendbuf (bt_close E s) = ble_sendbuf s"
  "ble_index (bt_close E s) = ble_index s" "cmcc_index (bt_close E s) = cmcc_index s" "bt_mic (bt_close E s) = bt_mic s"
  "bt_events (bt_close E s) = bt_events s" "bt_replies (bt_close E s) = bt_replies s"
  by (auto simp: bt_close_def bcall_eq)

lemma bt_ok_close [simp]: "bt_ok s \<Longrightarrow> bt_ok (bt_close E s)"
  by (auto simp: bt_ok_def status_ok_def)


lemmas status_rules = status_clear status_set status_move status_opened status_closed

text \<open>A closed profile has no bit, and closing it again only reports.\<close>

lemma closed_bits:
  assumes "bt_ok s"
  shows "ble_state s \<ge> BLE_STATE_CLOSE \<Longrightarrow> \<not> has_flag (bt_status s) BLE_STATUS_MASK"
    "blec_state s \<ge> BLE_CLI_STATE_CLOSE \<Longrightarrow> \<not> has_flag (bt_status s) BLE_CLIENT_STATUS_MASK"
    "snk_open (sink s) = S_CLOSED \<Longrightarrow> \<not> has_flag (bt_status s) A2DP_SINK_STATUS_MASK"
    "src_open (source s) = S_CLOSED \<Longrightarrow> \<not> has_flag (bt_status s) A2DP_SOURCE_STATUS_MASK"
    "hfp_open (hfp s) = S_CLOSED \<Longrightarrow> \<not> has_flag (bt_status s) HFP_STATUS_MASK"
    "hh_state s \<ge> HH_STATE_CLOSE \<Longrightarrow> \<not> has_flag (bt_status s) HID_HOST_STATUS_MASK"
  using assms by (simp_all add: bt_ok_def status_ok_def)

lemma off_post_closed:
  assumes "bt_ok s" and "is_object j"
  shows "\<not> has_flag (bt_status s) BLE_STATUS_MASK \<Longrightarrow> off_post BLE_STATUS_MASK s (answer f r j s)"
    "\<not> has_flag (bt_status s) BLE_CLIENT_STATUS_MASK \<Longrightarrow> off_post BLE_CLIENT_STATUS_MASK s (answer f r j s)"
    "\<not> has_flag (bt_status s) A2DP_SINK_STATUS_MASK \<Longrightarrow> off_post A2DP_SINK_STATUS_MASK s (answer f r j s)"
    "\<not> has_flag (bt_status s) A2DP_SOURCE_STATUS_MASK \<Longrightarrow> off_post A2DP_SOURCE_STATUS_MASK s (answer f r j s)"
    "\<not> has_flag (bt_status s) HFP_STATUS_MASK \<Longrightarrow> off_post HFP_STATUS_MASK s (answer f r j s)"
    "\<not> has_flag (bt_status s) HID_HOST_STATUS_MASK \<Longrightarrow> off_post HID_HOST_STATUS_MASK s (answer f r j s)"
  using assms by (simp_all add: off_post_def clear_flag_unset[OF mask_powers(1)] clear_flag_unset[OF mask_powers(2)]
    clear_flag_unset[OF mask_powers(3)] clear_flag_unset[OF mask_powers(4)] clear_flag_unset[OF mask_powers(5)]
    clear_flag_unset[OF mask_powers(6)])

lemma off_post_open:
  assumes "bt_ok s'" and "bt_status s' = clear_flag (bt_status s) msk" and "bt_opened s' \<longrightarrow> bt_status s' \<noteq> 0"
  shows "off_post msk s s'"
  using assms by (auto simp: off_post_def)

lemma bt_ok_cfg: "bt_ok s \<Longrightarrow> cfg_ok (sink_config s)" "bt_ok s \<Longrightarrow> cfg_ok (source_config s)"
  by (simp_all add: bt_ok_def)

lemma ble_closed [simp]: "BLE_STATE_CLOSE \<le> b \<Longrightarrow> b \<noteq> BLE_INIVATE"
  by (auto simp: rank_simps)

lemmas zero_simps = zero_sink_def zero_source_def zero_hfp_def turen_close_def cancel_discovery_def

interpretation hh_off: bt_profile_off "\<lambda>E s. Some (bt_hh_off E s)" HID_HOST_STATUS_MASK
proof
  fix s :: "'w bt_state" and E :: "'w bt_ops"
  assume ok: "bt_ok s" and hal: "hal_ok E"
  show "succeeds (Some (bt_hh_off E s)) (off_post HID_HOST_STATUS_MASK s)"
  proof (cases "hh_state s \<ge> HH_STATE_CLOSE")
    case True
    then show ?thesis using off_post_closed(6)[OF ok _ closed_bits(6)[OF ok True]] ok
      by (simp add: bt_hh_off_def broadcast_hh_state_def)
  next
    case False
    then show ?thesis using ok hal
      by (auto simp: bt_hh_off_def broadcast_hh_state_def bt_calls bt_ok_def hal_ok_def zero_simps intro!: off_post_open status_clear)
  qed
qed (use mask_powers(6) in blast)

interpretation hfp_off: bt_profile_off "\<lambda>E s. Some (bt_hfp_off E s)" HFP_STATUS_MASK
proof
  fix s :: "'w bt_state" and E :: "'w bt_ops"
  assume ok: "bt_ok s" and hal: "hal_ok E"
  show "succeeds (Some (bt_hfp_off E s)) (off_post HFP_STATUS_MASK s)"
  proof (cases "hfp_open (hfp s) = S_CLOSED")
    case True
    then show ?thesis using off_post_closed(5)[OF ok _ closed_bits(5)[OF ok True]] ok
      by (simp add: bt_hfp_off_def broadcast_hfp_state_def Let_def)
  next
    case False
    then show ?thesis using ok hal
      by (auto simp: bt_hfp_off_def broadcast_hfp_state_def bt_calls bt_ok_def hal_ok_def zero_simps intro!: off_post_open status_clear)
  qed
qed (use mask_powers(5) in blast)

interpretation sink_off: bt_profile_off bt_a2dpsink_off A2DP_SINK_STATUS_MASK
proof
  fix s :: "'w bt_state" and E :: "'w bt_ops"
  assume ok: "bt_ok s" and hal: "hal_ok E"
  show "succeeds (bt_a2dpsink_off E s) (off_post A2DP_SINK_STATUS_MASK s)"
  proof (cases "snk_open (sink s) = S_CLOSED")
    case True
    then show ?thesis using off_post_closed(3)[OF ok _ closed_bits(3)[OF ok True]] ok
      by (simp add: bt_a2dpsink_off_def bt_ok_cfg)
  next
    case False
    then show ?thesis using ok hal
      by (auto simp: bt_a2dpsink_off_def bt_calls bt_ok_def hal_ok_def zero_simps intro!: off_post_open status_clear)
  qed
qed (use mask_powers(4) in blast)

interpretation source_off: bt_profile_off bt_a2dpsource_off A2DP_SOURCE_STATUS_MASK
proof
  fix s :: "'w bt_state" and E :: "'w bt_ops"
  assume ok: "bt_ok s" and hal: "hal_ok E"
  show "succeeds (bt_a2dpsource_off E s) (off_post A2DP_SOURCE_STATUS_MASK s)"
  proof (cases "src_open (source s) = S_CLOSED")
    case True
    then show ?thesis using off_post_closed(4)[OF ok _ closed_bits(4)[OF ok True]] ok
      by (simp add: bt_a2dpsource_off_def bt_ok_cfg)
  next
    case False
    then show ?thesis using ok hal
      by (auto simp: bt_a2dpsource_off_def bt_calls bt_ok_def hal_ok_def zero_simps intro!: off_post_open status_clear)
  qed
qed (use mask_powers(3) in blast)

interpretation blec_off: bt_profile_off "\<lambda>E s. Some (bt_ble_client_off E s)" BLE_CLIENT_STATUS_MASK
proof
  fix s :: "'w bt_state" and E :: "'w bt_ops"
  assume ok: "bt_ok s" and hal: "hal_ok E"
  show "succeeds (Some (bt_ble_client_off E s)) (off_post BLE_CLIENT_STATUS_MASK s)"
  proof (cases "blec_state s \<ge> BLE_CLI_STATE_CLOSE")
    case True
    then show ?thesis using off_post_closed(2)[OF ok _ closed_bits(2)[OF ok True]] ok
      by (simp add: bt_ble_client_off_def broadcast_ble_client_state_def)
  next
    case False
    then show ?thesis using ok hal
      by (auto simp: bt_ble_client_off_def broadcast_ble_client_state_def bt_calls bt_ok_def hal_ok_def zero_simps intro!: off_post_open status_clear)
  qed
qed (use mask_powers(2) in blast)

interpretation ble_off: bt_profile_off bt_ble_off BLE_STATUS_MASK
proof
  fix s :: "'w bt_state" and E :: "'w bt_ops"
  assume ok: "bt_ok s" and hal: "hal_ok E"
  show "succeeds (bt_ble_off E s) (off_post BLE_STATUS_MASK s)"
  proof (cases "ble_state s \<ge> BLE_STATE_CLOSE")
    case True
    then show ?thesis using off_post_closed(1)[OF ok _ closed_bits(1)[OF ok True]] ok
      by (simp add: bt_ble_off_def)
  next
    case False
    then show ?thesis using ok hal
      by (auto simp: bt_ble_off_def bt_calls bt_ok_def hal_ok_def zero_simps intro!: off_post_open status_clear)
  qed
qed (use mask_powers(1) in blast)

lemma close_mask_closes:
  assumes "bt_ok s" and "hal_ok E"
  shows "succeeds (bt_close_mask_profile E m s) (closed_upto (bt_status s) m 63)"
proof -
  have 63: "(((((0 OR HID_HOST_STATUS_MASK) OR HFP_STATUS_MASK) OR A2DP_SINK_STATUS_MASK) OR A2DP_SOURCE_STATUS_MASK)
      OR BLE_CLIENT_STATUS_MASK) OR BLE_STATUS_MASK = 63"
    by (simp add: status_masks)
  have "closed_upto (bt_status s) m 0 s" using assms by (simp add: closed_upto_def)
  then show ?thesis
    unfolding bt_close_mask_profile_def Let_def if_distrib[of Some] 63[symmetric]
    by (intro succeeds_bindI[OF hh_off.off_step] succeeds_bindI[OF hfp_off.off_step] succeeds_bindI[OF sink_off.off_step]
      succeeds_bindI[OF source_off.off_step] succeeds_bindI[OF blec_off.off_step] ble_off.off_step assms)
      (simp add: status_masks)+
qed

lemma profile_bits_and: "profile_bits st \<Longrightarrow> st AND 63 = st"
proof -
  assume "profile_bits st"
  then have "st = (st AND 63) OR (st AND NOT 63)" unfolding profile_bits_def by (metis word_ao_dist2 bit.disj_cancel_right and.right_neutral)
  then show ?thesis using \<open>profile_bits st\<close> unfolding profile_bits_def by simp
qed

lemma close_mask_ok:
  assumes "bt_ok s" and "hal_ok E"
  shows "succeeds (bt_close_mask_profile E m s) (\<lambda>s'. bt_ok s' \<and> bt_status s' = bt_status s AND NOT m \<and>
    (bt_status s AND m \<noteq> 0 \<longrightarrow> bt_status s' = 0 \<longrightarrow> \<not> bt_opened s'))"
proof -
  have p: "bt_status s AND 63 = bt_status s"
    using assms(1) by (intro profile_bits_and) (simp add: bt_ok_def status_ok_def)
  then have "bt_status s AND NOT (m AND 63) = bt_status s AND NOT m"
    by (intro bit_eqI) (metis bit_and_iff bit_not_iff)
  moreover have "bt_status s AND m AND 63 = bt_status s AND m" by (metis p and.assoc and.commute)
  ultimately show ?thesis
    using close_mask_closes[OF assms, of m] by (auto simp: closed_upto_def elim: succeeds_mono)
qed

section \<open>Every operation keeps the invariant\<close>

text \<open>Updates of single fields.\<close>

lemma bt_ok_other [simp]:
  "bt_ok (s\<lparr>bt_present := x0\<rparr>) = bt_ok s"
  "bt_ok (s\<lparr>bt_scanning := x1\<rparr>) = bt_ok s"
  "bt_ok (s\<lparr>ble_msgid := x2\<rparr>) = bt_ok s"
  "bt_ok (s\<lparr>cmcc_pkgs := x3\<rparr>) = bt_ok s"
  "bt_ok (s\<lparr>blec_link := x4\<rparr>) = bt_ok s"
  "bt_ok (s\<lparr>blec_dev := x5\<rparr>) = bt_ok s"
  "bt_ok (s\<lparr>get_play_status := x6\<rparr>) = bt_ok s"
  "bt_ok (s\<lparr>sink_subsequent := x7\<rparr>) = bt_ok s"
  "bt_ok (s\<lparr>last_stop_time := x8\<rparr>) = bt_ok s"
  "bt_ok (s\<lparr>play_index := x9\<rparr>) = bt_ok s"
  "bt_ok (s\<lparr>e_auto_connect := x10\<rparr>) = bt_ok s"
  "bt_ok (s\<lparr>e_play_command := x11\<rparr>) = bt_ok s"
  "bt_ok (s\<lparr>e_connect_over := x12\<rparr>) = bt_ok s"
  "bt_ok (s\<lparr>e_play_state := x13\<rparr>) = bt_ok s"
  "bt_ok (s\<lparr>es_auto_connect := x14\<rparr>) = bt_ok s"
  "bt_ok (s\<lparr>es_connect_over := x15\<rparr>) = bt_ok s"
  "bt_ok (s\<lparr>hfp_dev := x16\<rparr>) = bt_ok s"
  "bt_ok (s\<lparr>hh_link := x17\<rparr>) = bt_ok s"
  "bt_ok (s\<lparr>hh_dev := x18\<rparr>) = bt_ok s"
  "bt_ok (s\<lparr>bt_binaries := x20\<rparr>) = bt_ok s"
  by (simp_all add: bt_ok_def)

lemma bt_ok_field [simp]:
  assumes "bt_ok s"
  shows "bt_ok (s\<lparr>bt_opened := True\<rparr>)"
    "b < BLE_STATE_CLOSE \<Longrightarrow> bt_ok (s\<lparr>ble_state := b\<rparr>)"
    "bc < BLE_CLI_STATE_CLOSE \<Longrightarrow> bt_ok (s\<lparr>blec_state := bc\<rparr>)"
    "h < HH_STATE_CLOSE \<Longrightarrow> bt_ok (s\<lparr>hh_state := h\<rparr>)"
    "snk_open k = S_CLOSED \<longrightarrow> snk_open (sink s) = S_CLOSED \<Longrightarrow> bt_ok (s\<lparr>sink := k\<rparr>)"
    "src_open l = S_CLOSED \<longrightarrow> src_open (source s) = S_CLOSED \<Longrightarrow> bt_ok (s\<lparr>source := l\<rparr>)"
    "hfp_open f = S_CLOSED \<longrightarrow> hfp_open (hfp s) = S_CLOSED \<Longrightarrow> bt_mic s \<longrightarrow> audio f = HFP_AUDIO_ON \<Longrightarrow> bt_ok (s\<lparr>hfp := f\<rparr>)"
    "cfg_ok c \<Longrightarrow> bt_ok (s\<lparr>sink_config := c\<rparr>)"
    "cfg_ok c \<Longrightarrow> bt_ok (s\<lparr>source_config := c\<rparr>)"
    "buf_ok u (ble_index s) (cmcc_index s) \<Longrightarrow> bt_ok (s\<lparr>ble_sendbuf := u\<rparr>)"
    "0 \<le> i \<Longrightarrow> i \<le> 255 \<Longrightarrow> bt_ok (s\<lparr>ble_index := i\<rparr>)"
    "0 \<le> i \<Longrightarrow> bt_ok (s\<lparr>cmcc_index := i\<rparr>)"
    "mic \<longrightarrow> audio (hfp s) = HFP_AUDIO_ON \<Longrightarrow> bt_ok (s\<lparr>bt_mic := mic\<rparr>)"
  using assms by (simp_all add: bt_ok_def status_ok_def buf_ok_def not_le)

text \<open>Enabling a profile sets its bit; the updates are in the order of the code.\<close>

lemma bt_ok_enable [simp]:
  assumes "bt_ok s" and "bt_opened s" and "st = bt_status s"
  shows "bt_ok (s\<lparr>bt_status := set_flag st HID_HOST_STATUS_MASK, hh_state := HH_STATE_OPENED\<rparr>)"
    "bt_ok (s\<lparr>bt_status := set_flag st BLE_CLIENT_STATUS_MASK, blec_state := BLE_CLI_STATE_OPENED\<rparr>)"
    "bt_ok (s\<lparr>bt_status := set_flag st BLE_STATUS_MASK, bt_world := w, ble_state := BLE_STATE_OPENED\<rparr>)"
    "hfp_open f \<noteq> S_CLOSED \<Longrightarrow> audio f = audio (hfp s) \<Longrightarrow> bt_ok (s\<lparr>hfp := f, bt_status := set_flag st HFP_STATUS_MASK\<rparr>)"
    "snk_open k \<noteq> S_CLOSED \<Longrightarrow> bt_ok (s\<lparr>sink := k, bt_status := set_flag st A2DP_SINK_STATUS_MASK\<rparr>)"
    "src_open l \<noteq> S_CLOSED \<Longrightarrow> bt_ok (s\<lparr>source := l, bt_status := set_flag st A2DP_SOURCE_STATUS_MASK\<rparr>)"
  using assms by (simp_all add: bt_ok_def status_ok_def flag_simps rank_simps)

lemma bt_open_opened [simp]: "fst (bt_open E s) = 0 \<Longrightarrow> bt_opened (snd (bt_open E s))"
  by (auto simp: bt_open_def bx_eq split: if_splits)

lemma bt_open_sel [simp]: "bt_status (snd (bt_open E s)) = bt_status s"
  "ble_state (snd (bt_open E s)) = ble_state s" "blec_state (snd (bt_open E s)) = blec_state s"
  "sink (snd (bt_open E s)) = sink s" "source (snd (bt_open E s)) = source s" "hfp (snd (bt_open E s)) = hfp s"
  "hh_state (snd (bt_open E s)) = hh_state s" "sink_config (snd (bt_open E s)) = sink_config s"
  "source_config (snd (bt_open E s)) = source_config s" "ble_sendbuf (snd (bt_open E s)) = ble_sendbuf s"
  "ble_index (snd (bt_open E s)) = ble_index s" "cmcc_index (snd (bt_open E s)) = cmcc_index s"
  "bt_mic (snd (bt_open E s)) = bt_mic s"
  "bt_events (snd (bt_open E s)) = bt_events s" "bt_replies (snd (bt_open E s)) = bt_replies s"
  by (simp_all add: bt_open_def bx_eq)

lemma bt_ok_open [simp]: "bt_ok s \<Longrightarrow> bt_ok (snd (bt_open E s))"
  by (simp add: bt_open_def bx_eq)

lemma bt_on_ok:
  assumes "bt_ok s"
  shows "bt_ok (bt_hh_on E nm s)" "bt_ok (bt_ble_client_on E nm s)" "succeeds (bt_ble_on E nm s) bt_ok"
  using assms by (simp_all add: bt_hh_on_def broadcast_hh_state_def bt_ble_client_on_def broadcast_ble_client_state_def
    bt_ble_on_def bt_calls split_beta rank_simps)

end
