(* ===== verification/BtSafety.thy ===== *)
theory BtSafety
  imports BtInvariant
begin

text \<open>
  Every operation of the bluetooth service keeps the invariant \<open>bt_ok\<close> and does not crash, for the
  inputs described by \<open>input_ok\<close>; so every state the service reaches satisfies the invariant.
\<close>

section \<open>The lists of devices\<close>

lemma get_index_ok:
  assumes "config_ok c"
  obtains j where "bt_autoconnect_get_index c a = Some j" "j < int (length (cfg_dev c))"
proof -
  have n: "nat (autoconnect_num c) = length (cfg_dev c)" using assms by (simp add: config_ok_def)
  show thesis
  proof (cases "List.find (\<lambda>k. dev_addr (cfg_dev c ! k) = a) [0..<length (cfg_dev c)]")
    case None
    then show thesis using that[of "-1"] by (simp add: bt_autoconnect_get_index_def n get_index_from)
  next
    case (Some k)
    then have "k < length (cfg_dev c)" by (auto simp: find_Some_iff)
    then show thesis using that[of "int k"] Some by (simp add: bt_autoconnect_get_index_def n get_index_from)
  qed
qed

lemma update_cfg_ok:
  assumes ok: "cfg_ok c" and a: "known_addr (dev_addr d)" and nm: "length (dev_name d) < DEV_NAME_LEN"
  shows "succeeds (bt_autoconnect_update c d) (\<lambda>(r, c'). cfg_ok c')"
proof -
  have c: "config_ok c" using ok by (simp add: cfg_ok_def)
  obtain j where j: "bt_autoconnect_get_index c (dev_addr d) = Some j" "j < int (length (cfg_dev c))"
    using get_index_ok[OF c] .
  have names: "i < length (cfg_dev c) \<Longrightarrow>
      list_all (\<lambda>d. length (dev_name d) < DEV_NAME_LEN) ((shift_down i (cfg_dev c))[0 := d])" for i
    using ok nm by (auto simp: shift_down_eq cfg_ok_def list_all_iff dest: in_set_takeD in_set_dropD)
  have "autoconnect_num c = int (length (cfg_dev c))" "1 \<le> length (cfg_dev c)" using c by (auto simp: config_ok_def)
  then show ?thesis
    using update_refines[OF c a] j names[of "nat (autoconnect_num c - 1)"] names[of "nat j"] ok
    by (auto simp: bt_autoconnect_update_def cfg_ok_def Let_def split: if_splits)
qed

lemma remove_cfg_ok:
  assumes ok: "cfg_ok c" and a: "a \<noteq> zero_addr"
  shows "succeeds (bt_autoconnect_remove c a) (\<lambda>(r, c'). cfg_ok c')"
proof -
  have c: "config_ok c" using ok by (simp add: cfg_ok_def)
  obtain j where j: "bt_autoconnect_get_index c a = Some j" "j < int (length (cfg_dev c))" using get_index_ok[OF c] .
  have n: "autoconnect_num c = int (length (cfg_dev c))" "1 \<le> length (cfg_dev c)" using c by (auto simp: config_ok_def)
  have "(shift_up i (length (cfg_dev c) - 1 - i) (cfg_dev c))[length (cfg_dev c) - 1 := zero_dev]
      = take i (cfg_dev c) @ drop (Suc i) (cfg_dev c) @ [zero_dev]" if "i < length (cfg_dev c)" for i
    using shift_up_eq[of i "length (cfg_dev c) - 1 - i" "cfg_dev c" zero_dev] that n by simp
  then have names: "list_all (\<lambda>d. length (dev_name d) < DEV_NAME_LEN)
      ((shift_up i (length (cfg_dev c) - 1 - i) (cfg_dev c))[length (cfg_dev c) - 1 := zero_dev])"
    if "i < length (cfg_dev c)" for i
    using ok that by (auto simp: cfg_ok_def list_all_iff DEV_NAME_LEN_def dest: in_set_takeD in_set_dropD)
  have l: "nat (int (length (cfg_dev c)) - 1) = length (cfg_dev c) - 1" using n by simp
  show ?thesis
    using remove_refines[OF c a] j names[of "nat j"] ok n
    by (auto simp: bt_autoconnect_remove_def cfg_ok_def Let_def l split: if_splits)
qed

lemma sync_ok: "cfg_ok c \<Longrightarrow> succeeds (bt_autoconnect_sync E c w) (\<lambda>_. True)"
  by (auto simp: bt_autoconnect_sync_def config_json_def cfg_ok_def config_ok_def
      ROKIDOS_BT_AUTOCONNECT_DEVICES_MAX_NUM_def split_beta)

text \<open>What a message of a connection must hold: a real address and a name that fits.\<close>

definition open_ok :: "open_msg \<Rightarrow> bool" where
  "open_ok m \<longleftrightarrow> known_addr (om_addr m) \<and> length (om_name m) < DEV_NAME_LEN"

lemma connected_device_ok:
  assumes ok: "cfg_ok c" and m: "open_ok m"
  shows "succeeds (connected_device c m) (\<lambda>d. known_addr (dev_addr d) \<and> length (dev_name d) < DEV_NAME_LEN)"
proof -
  obtain j where j: "bt_autoconnect_get_index c (om_addr m) = Some j" "j < int (length (cfg_dev c))"
    using get_index_ok[of c] ok by (auto simp: cfg_ok_def)
  have "0 \<le> j \<Longrightarrow> length (dev_name (cfg_dev c ! nat j)) < DEV_NAME_LEN"
    using ok j(2) by (auto simp: cfg_ok_def list_all_length)
  then show ?thesis
    using j m by (auto simp: connected_device_def copy_name_def open_ok_def DEV_NAME_LEN_def)
qed

lemma remember_ok:
  assumes "bt_ok s" and "known_addr (dev_addr d)" and "length (dev_name d) < DEV_NAME_LEN"
  shows "succeeds (remember_sink E d s) (\<lambda>s'. bt_ok s' \<and> sink s' = sink s)"
    "succeeds (remember_source E d s) (\<lambda>s'. bt_ok s' \<and> source s' = source s)"
proof -
  note cfg = bt_ok_cfg[OF assms(1)]
  obtain r c where c: "bt_autoconnect_update (sink_config s) d = Some (r, c)" "cfg_ok c"
    using update_cfg_ok[OF cfg(1) assms(2,3)] by (auto simp: succeeds_iff)
  then show "succeeds (remember_sink E d s) (\<lambda>s'. bt_ok s' \<and> sink s' = sink s)"
    using assms(1) sync_ok[OF c(2), of "b_store E" "bt_world s"] by (auto simp: remember_sink_def succeeds_iff)
  obtain r c where c: "bt_autoconnect_update (source_config s) d = Some (r, c)" "cfg_ok c"
    using update_cfg_ok[OF cfg(2) assms(2,3)] by (auto simp: succeeds_iff)
  then show "succeeds (remember_source E d s) (\<lambda>s'. bt_ok s' \<and> source s' = source s)"
    using assms(1) sync_ok[OF c(2), of "b_store E" "bt_world s"] by (auto simp: remember_source_def succeeds_iff)
qed

section \<open>Profiles without a list\<close>

lemma broadcast_sel [simp]:
  "bt_ok (broadcast_hh_state r s) = bt_ok s" "bt_ok (broadcast_ble_client_state r s) = bt_ok s"
  "bt_ok (broadcast_hfp_state r s) = bt_ok s" "bt_ok (broadcast_hfp_ring s) = bt_ok s"
  by (simp_all add: broadcast_hh_state_def broadcast_ble_client_state_def broadcast_hfp_state_def
      broadcast_hfp_ring_def Let_def)

lemma disconnect_all_ok [simp]: "bt_ok (disconnect_all P ds s) = bt_ok s"
  unfolding disconnect_all_def by (induction ds arbitrary: s) (simp_all add: bcall_eq)

lemma first_devices_ok:
  assumes "list_law f" and "f n w = ((k, ds), w')"
  shows "\<exists>xs. first_devices k (device_array n z ds) = Some xs"
proof -
  have "k \<le> int n" "k \<le> int (length ds)" using assms by (auto simp: list_law_def dest!: spec[of _ n] spec[of _ w])
  then show ?thesis by (auto simp: first_devices_def device_array_def)
qed

lemma bd_strtoba_ok: "a \<noteq> None \<Longrightarrow> \<exists>r b. bd_strtoba z a = Some (r, b)"
  by (cases a) (auto simp: bd_strtoba_def)

lemma client_ops_ok:
  assumes "bt_ok s" and "hal_ok E"
  shows "a \<noteq> None \<Longrightarrow> succeeds (bt_ble_client_connect E a s) bt_ok"
    "succeeds (bt_ble_client_disconnect E a s) bt_ok"
    "a \<noteq> None \<Longrightarrow> succeeds (bt_hh_connect E a s) bt_ok"
    "succeeds (bt_hh_disconnect E a s) bt_ok"
    "bt_ok (ble_client_register_notify E sv ch s)" "bt_ok (ble_client_read E sv ch s)"
proof -
  show "succeeds (bt_ble_client_connect E a s) bt_ok" if "a \<noteq> None"
    using bd_strtoba_ok[OF that, of zero_addr] assms(1)
    by (auto simp: bt_ble_client_connect_def get_ble_client_connected_device_num_def bt_calls split_beta)
  show "succeeds (bt_hh_connect E a s) bt_ok" if "a \<noteq> None"
    using bd_strtoba_ok[OF that, of zero_addr] assms(1)
    by (auto simp: bt_hh_connect_def get_hh_connected_devices_num_def bt_calls split_beta)
  obtain k ds w where c: "p_connected (b_blec E) 20 (bt_world s) = ((k, ds), w)" by (metis surj_pair)
  obtain xs where "first_devices k (device_array 20 True ds) = Some xs"
    using first_devices_ok[of "p_connected (b_blec E)", OF _ c] assms(2) by (auto simp: hal_ok_def)
  then show "succeeds (bt_ble_client_disconnect E a s) bt_ok"
    using bd_strtoba_ok[of a zero_addr] assms(1) c
    by (auto simp: bt_ble_client_disconnect_def bt_calls split: option.split)
  obtain k ds w where c: "p_connected (b_hh E) 20 (bt_world s) = ((k, ds), w)" by (metis surj_pair)
  obtain xs where "first_devices k (device_array 20 True ds) = Some xs"
    using first_devices_ok[of "p_connected (b_hh E)", OF _ c] assms(2) by (auto simp: hal_ok_def)
  then show "succeeds (bt_hh_disconnect E a s) bt_ok"
    using bd_strtoba_ok[of a zero_addr] assms(1) c
    by (auto simp: bt_hh_disconnect_def bt_calls split_beta split: option.split)
  show "bt_ok (ble_client_register_notify E sv ch s)" "bt_ok (ble_client_read E sv ch s)"
    using assms(1) by (simp_all add: ble_client_register_notify_def ble_client_read_def
      get_ble_client_connected_device_num_def bt_calls split_beta)
qed

lemma client_events_ok:
  assumes "bt_ok s"
  shows "hh_ev \<noteq> BT_HH_OPEN_EVT None \<Longrightarrow> succeeds (hh_listener hh_ev s) bt_ok"
    "(\<forall>m. cl_ev \<in> {BT_BLE_CL_NOTIF_EVT (Some m), BT_BLE_CL_READ_EVT (Some m)} \<longrightarrow> cv_len m \<le> length (cv_value m)) \<Longrightarrow>
     succeeds (ble_client_listener cl_ev s) bt_ok"
proof -
  show "succeeds (hh_listener hh_ev s) bt_ok" if "hh_ev \<noteq> BT_HH_OPEN_EVT None"
    using assms that by (cases "(hh_ev, s)" rule: hh_listener.cases) auto
  show "succeeds (ble_client_listener cl_ev s) bt_ok"
    if "\<forall>m. cl_ev \<in> {BT_BLE_CL_NOTIF_EVT (Some m), BT_BLE_CL_READ_EVT (Some m)} \<longrightarrow> cv_len m \<le> length (cv_value m)"
    using assms that
    by (cases "(cl_ev, s)" rule: ble_client_listener.cases)
      (auto simp: rokid_ble_client_receive_data_def report_bluetooth_binary_information_def split: option.splits)
qed

section \<open>Hands-free\<close>

lemma turen_recv_only_world: "\<exists>w. snd (turen_recv_from E sz n s) = s\<lparr>bt_world := w\<rparr>"
proof (induction E sz n s rule: turen_recv_from.induct)
  case (1 E sz n s)
  have same: "\<exists>w. s = s\<lparr>bt_world := w\<rparr>" by (rule exI[of _ "bt_world s"]) simp
  show ?case
    using 1 same by (subst turen_recv_from.simps) (fastforce simp: bx_eq Let_def)
qed

lemma turen_data_only_world: "\<exists>w. snd (turen_recv_data E sz s) = s\<lparr>bt_world := w\<rparr>"
proof (cases "bt_mic s")
  case False
  then show ?thesis by (intro exI[of _ "bt_world s"]) (simp add: turen_recv_data_def)
qed (simp add: turen_recv_data_def turen_recv_only_world)

lemma bt_ok_mic: "bt_ok s \<Longrightarrow> bt_mic s \<longrightarrow> audio (hfp s) = HFP_AUDIO_ON"
  by (simp add: bt_ok_def)

lemma hfp_calls_ok [simp]:
  assumes "bt_ok s"
  shows "bt_ok (turen_close s)" "in_call s \<Longrightarrow> bt_ok (turen_open E s)" "bt_ok (mic_if_call E s)"
    "bt_ok (hfp_call f s)" "bt_ok (bt_hfp_disconnect_device E s)" "bt_ok (bt_hfp_connect E a s)"
    "bt_ok (snd (bt_hfp_enable E nm s))"
  using assms bt_ok_mic[OF assms] by (simp_all add: turen_close_def turen_open_def mic_if_call_def in_call_def hfp_call_def
      bt_hfp_disconnect_device_def bt_hfp_connect_def bt_hfp_enable_def bt_calls split_beta)

lemma hfp_enable_sel [simp]: "bt_opened (snd (bt_hfp_enable E nm s)) = bt_opened s"
  "hfp (snd (bt_hfp_enable E nm s)) = hfp s" "bt_status (snd (bt_hfp_enable E nm s)) = bt_status s"
  "sink_config (snd (bt_hfp_enable E nm s)) = sink_config s" "bt_mic (snd (bt_hfp_enable E nm s)) = bt_mic s"
  by (simp_all add: bt_hfp_enable_def bt_calls split_beta)

lemma hfp_on_ok: "bt_ok s \<Longrightarrow> succeeds (bt_hfp_on E nm s) bt_ok"
  using bt_ok_mic[of s] bt_ok_cfg(1)[of s]
  by (auto simp: bt_hfp_on_def Let_def split_beta cfg_ok_def config_ok_def)

lemma hfp_listener_ok:
  assumes "bt_ok s"
  shows "bt_ok (hfp_listener E e s)"
proof (cases e)
  case BT_HS_AUDIO_OPEN_EVT
  have "bt_ok (t\<lparr>hfp := (hfp t)\<lparr>audio := HFP_AUDIO_ON\<rparr>\<rparr>)" if "t = s \<or> t = turen_open E s" for t
    using that assms by (auto simp: turen_open_def bt_calls bt_ok_def split_beta)
  then show ?thesis using BT_HS_AUDIO_OPEN_EVT by (simp add: Let_def)
next
  case (BT_HS_FEED_MIC_EVT msg)
  obtain w where "snd (turen_recv_data E (the msg) s) = s\<lparr>bt_world := w\<rparr>"
    by (rule exE[OF turen_data_only_world])
  then show ?thesis using BT_HS_FEED_MIC_EVT assms by (auto simp: split_beta in_call_def turen_close_def split: option.split)
next
  case BT_HS_AUDIO_CLOSE_EVT
  then show ?thesis using assms by (simp add: turen_close_def bt_ok_def broadcast_hfp_state_def Let_def)
qed (use assms bt_ok_mic[OF assms] in \<open>auto simp: turen_close_def ciev_update_def split: option.splits if_splits\<close>)

section \<open>The audio profiles\<close>

lemma cfg_ok_field [simp]: "cfg_ok (c\<lparr>autoconnect_index := i\<rparr>) = cfg_ok c" "cfg_ok (c\<lparr>autoconnect_flag := f\<rparr>) = cfg_ok c"
  by (simp_all add: cfg_ok_def config_ok_def history_def)

lemma bt_ok_set [simp]:
  assumes "bt_ok s"
  shows "cfg_ok (f (sink_config s)) \<Longrightarrow> bt_ok (set_sink_config f s)"
    "cfg_ok (f (source_config s)) \<Longrightarrow> bt_ok (set_source_config f s)"
    "snk_open (g (sink s)) = S_CLOSED \<longrightarrow> snk_open (sink s) = S_CLOSED \<Longrightarrow> bt_ok (set_sink g s)"
    "src_open (h (source s)) = S_CLOSED \<longrightarrow> src_open (source s) = S_CLOSED \<Longrightarrow> bt_ok (set_source h s)"
  using assms by (simp_all add: set_sink_config_def set_source_config_def set_sink_def set_source_def)

lemma set_sel [simp]: "sink (set_sink g s) = g (sink s)" "sink_config (set_sink g s) = sink_config s"
  "source (set_source h s) = h (source s)" "source_config (set_source h s) = source_config s"
  "sink (set_sink_config f s) = sink s" "sink_config (set_sink_config f s) = f (sink_config s)"
  "source (set_source_config f s) = source s" "source_config (set_source_config f s) = f (source_config s)"
  "bt_opened (set_sink g s) = bt_opened s" "bt_opened (set_source h s) = bt_opened s"
  "bt_status (set_sink g s) = bt_status s" "bt_status (set_source h s) = bt_status s"
  by (simp_all add: set_sink_config_def set_source_config_def set_sink_def set_source_def)

lemma cfg_ok_num: "cfg_ok c \<Longrightarrow> autoconnect_num c = int (length (cfg_dev c))"
  by (simp add: cfg_ok_def config_ok_def)

lemmas device_nums = get_a2dpsink_connected_device_num_def get_a2dpsource_connected_device_num_def connected_num_def
  bx_eq bcall_eq Let_def

lemma history_index_ok:
  assumes "bt_ok s"
  shows "succeeds (auto_connect_by_history_index E s) bt_ok"
    "succeeds (auto_connect_a2dpsource_by_history_index E s) bt_ok"
proof -
  note cfg = bt_ok_cfg[OF assms]
  show "succeeds (auto_connect_by_history_index E s) bt_ok"
    unfolding auto_connect_by_history_index_def device_nums split_beta
    using assms cfg cfg_ok_num[OF cfg(1)] by simp linarith
  show "succeeds (auto_connect_a2dpsource_by_history_index E s) bt_ok"
    unfolding auto_connect_a2dpsource_by_history_index_def device_nums split_beta
    using assms cfg cfg_ok_num[OF cfg(2)] by simp linarith
qed

lemma bt_discovery_sel [simp]: "bt_ok (snd (bt_discovery E ty s)) = bt_ok s"
  "source_config (snd (bt_discovery E ty s)) = source_config s" "source (snd (bt_discovery E ty s)) = source s"
  "bt_ok (snd (bt_cancel_discovery E s)) = bt_ok s"
  by (auto simp: bt_discovery_def bt_cancel_discovery_def bx_eq split: option.splits)

lemma device_list_ok:
  assumes "list_law f" and "f n w = ((k, ds), w')"
  shows "\<exists>js. device_list k (device_array n z ds) = Some js"
  using first_devices_ok[OF assms, of z] by (auto simp: device_list_def)

lemma source_enable_sel [simp]:
  "source_config (snd (bt_a2dpsource_enable E nm s)) = source_config s"
  "bt_opened (snd (bt_a2dpsource_enable E nm s)) = bt_opened s"
  "bt_status (snd (bt_a2dpsource_enable E nm s)) = bt_status s"
  "src_open (source (snd (bt_a2dpsource_enable E nm s))) = src_open (source s)"
  "bt_ok s \<Longrightarrow> bt_ok (snd (bt_a2dpsource_enable E nm s))"
  by (simp_all add: bt_a2dpsource_enable_def bx_eq bcall_eq Let_def split_beta)

lemma source_autoconnect_sel [simp]:
  "bt_ok s \<Longrightarrow> bt_ok (a2dpsource_bluetooth_autoconnect E s)"
  by (simp add: a2dpsource_bluetooth_autoconnect_def device_nums split_beta bt_ok_cfg)

lemma source_on_ok:
  assumes "bt_ok s"
  shows "succeeds (bt_a2dpsource_on E nm s) bt_ok"
  using assms bt_ok_cfg[OF assms]
  by (simp add: bt_a2dpsource_on_def split_beta Let_def zero_source_def set_source_def)

lemma source_ops_ok:
  assumes "bt_ok s" and "hal_ok E"
  shows "succeeds (a2dpsource_autoconnect_over E s) bt_ok"
    "succeeds (bt_a2dpsource_disconnect_device E s) bt_ok"
    "succeeds (bt_a2dpsource_discovery E s) bt_ok"
    "a \<noteq> None \<Longrightarrow> succeeds (bt_a2dpsource_connect E a s) bt_ok"
proof -
  note cfg = bt_ok_cfg[OF assms(1)]
  show "succeeds (a2dpsource_autoconnect_over E s) bt_ok"
    using assms by (simp add: a2dpsource_autoconnect_over_def device_nums split_beta source_off.off_keeps)
  show "succeeds (bt_a2dpsource_disconnect_device E s) bt_ok"
    using assms(1) cfg by (simp add: bt_a2dpsource_disconnect_device_def bx_eq bcall_eq split_beta)
  show "succeeds (bt_a2dpsource_discovery E s) bt_ok"
    using assms(1) cfg by (simp add: bt_a2dpsource_discovery_def split_beta Let_def)
  show "succeeds (bt_a2dpsource_connect E a s) bt_ok" if "a \<noteq> None"
    using bd_strtoba_ok[OF that, of zero_addr] assms(1) cfg
    by (auto simp: bt_a2dpsource_connect_def device_nums split_beta)
qed

lemma source_scan_ok:
  assumes "bt_ok s" and "hal_ok E"
  shows "succeeds (a2dpsource_upload_scan_results E b s) bt_ok"
proof -
  obtain k ds w where c: "b_disc_devices E BT_DISC_NB_DEVICES (bt_world s) = ((k, ds), w)" by (metis surj_pair)
  obtain js where "device_list k (device_array BT_DISC_NB_DEVICES True ds) = Some js"
    using device_list_ok[of "b_disc_devices E", OF _ c] assms(2) by (auto simp: hal_ok_def)
  then show ?thesis using assms(1) c by (simp add: a2dpsource_upload_scan_results_def bx_eq split_beta Let_def)
qed

lemma source_opened_ok:
  assumes "bt_ok s" and "open_ok m"
  shows "succeeds (source_opened E m s) bt_ok"
proof -
  obtain d where d: "connected_device (source_config s) m = Some d" "known_addr (dev_addr d)"
      "length (dev_name d) < DEV_NAME_LEN"
    using connected_device_ok[OF bt_ok_cfg(2)[OF assms(1)] assms(2)] by (auto simp: succeeds_iff)
  obtain s1 where "remember_source E d (s\<lparr>es_connect_over := False\<rparr>) = Some s1" "bt_ok s1"
    using remember_ok(2)[of "s\<lparr>es_connect_over := False\<rparr>" d E] d assms(1) by (auto simp: succeeds_iff)
  then show ?thesis using d(1) bt_ok_cfg[of s1] by (simp add: source_opened_def bcall_eq Let_def)
qed

lemma source_failed_ok: "bt_ok s \<Longrightarrow> succeeds (source_open_failed m s) bt_ok"
proof -
  assume ok: "bt_ok s"
  then obtain j where "bt_autoconnect_get_index (source_config s) (om_addr m) = Some j"
    using bt_ok_cfg(2)[of s] get_index_ok[of "source_config s" "om_addr m"] unfolding cfg_ok_def by metis
  then show ?thesis using ok bt_ok_cfg[OF ok] by (simp add: source_open_failed_def Let_def)
qed

definition source_event_ok :: "source_event \<Rightarrow> bool" where
  "source_event_ok e \<longleftrightarrow> (case e of BT_A2DP_OPEN_EVT (Some m) \<Rightarrow> open_ok m | _ \<Rightarrow> True)"

lemma source_listener_ok: "bt_ok s \<Longrightarrow> source_event_ok e \<Longrightarrow> succeeds (a2dp_source_listener E e s) bt_ok"
  using bt_ok_cfg[of s]
  by (cases e) (auto simp: source_event_ok_def source_opened_ok source_failed_ok bcall_eq Let_def split: option.splits)

lemma sink_calls_ok [simp]:
  "bt_ok (bt_a2dp_sink_play E b s) = bt_ok s" "bt_ok (playback_key E key s) = bt_ok s"
  "bt_ok (bt_a2dpsink_set_mute E s) = bt_ok s" "bt_ok (bt_a2dpsink_set_unmute E s) = bt_ok s"
  "bt_ok (bt_a2dpsink_set_abs_volume E v s) = bt_ok s" "bt_ok (bt_a2dpsink_get_element_attrs E s) = bt_ok s"
  "bt_ok (broadcast_a2dpsink_volume v s) = bt_ok s" "bt_ok (broadcast_a2dpsink_init_volume s) = bt_ok s"
  "bt_ok (stamp_stop E s) = bt_ok s"
  by (simp_all add: bt_a2dp_sink_play_def playback_key_def bt_a2dpsink_set_mute_def bt_a2dpsink_set_unmute_def
      bt_a2dpsink_set_abs_volume_def bt_a2dpsink_get_element_attrs_def broadcast_a2dpsink_volume_def
      broadcast_a2dpsink_init_volume_def stamp_stop_def device_nums split_beta)

lemma sink_subsequent_ok [simp]: "bt_ok (handle_a2dpsink_connect_subsequent E s) = bt_ok s"
  by (simp add: handle_a2dpsink_connect_subsequent_def bt_a2dp_sink_stop_def bt_a2dp_sink_pause_def device_nums
      split_beta split: subsequent.split)

lemma sink_enable_sel [simp]:
  "sink_config (snd (bt_a2dpsink_enable E nm d s)) = sink_config s"
  "bt_opened (snd (bt_a2dpsink_enable E nm d s)) = bt_opened s"
  "bt_status (snd (bt_a2dpsink_enable E nm d s)) = bt_status s"
  "snk_open (sink (snd (bt_a2dpsink_enable E nm d s))) = snk_open (sink s)"
  "bt_ok s \<Longrightarrow> bt_ok (snd (bt_a2dpsink_enable E nm d s))"
  by (simp_all add: bt_a2dpsink_enable_def bx_eq bcall_eq Let_def split_beta)

lemma sink_autoconnect_ok [simp]: "bt_ok s \<Longrightarrow> bt_ok (bluetooth_autoconnect E s)"
  by (simp add: bluetooth_autoconnect_def device_nums split_beta bt_ok_cfg)

lemma sink_on_ok:
  assumes "bt_ok s"
  shows "succeeds (bt_a2dpsink_on E nm b d s) bt_ok"
  using assms bt_ok_cfg[OF assms]
  by (simp add: bt_a2dpsink_on_def split_beta Let_def bcall_eq zero_sink_def set_sink_def)

lemma close_keeps: "bt_ok s \<Longrightarrow> hal_ok E \<Longrightarrow> succeeds (bt_close_mask_profile E m s) bt_ok"
  using close_mask_ok[of s E m] by (auto elim: succeeds_mono)

lemma close_others_ok: "bt_ok s \<Longrightarrow> hal_ok E \<Longrightarrow> succeeds (close_others E obj k s) bt_ok"
  by (simp add: close_others_def close_keeps split: option.split)

lemma playstate_check_ok: "bt_ok s \<Longrightarrow> succeeds (bt_a2dpsink_playstate_check E s) bt_ok"
  using bt_ok_cfg[of s] by (simp add: bt_a2dpsink_playstate_check_def bx_eq bcall_eq Let_def)

lemma sink_ops_ok:
  assumes "bt_ok s" and "hal_ok E"
  shows "succeeds (a2dpsink_autoconnect_over E s) bt_ok"
    "succeeds (bt_a2dpsink_disconnect_device E s) bt_ok"
    "a \<noteq> None \<Longrightarrow> succeeds (bt_a2dpsink_connect E a s) bt_ok"
proof -
  note cfg = bt_ok_cfg[OF assms(1)]
  show "succeeds (a2dpsink_autoconnect_over E s) bt_ok"
    using assms by (simp add: a2dpsink_autoconnect_over_def device_nums split_beta close_keeps)
  show "succeeds (bt_a2dpsink_disconnect_device E s) bt_ok"
    using assms(1) cfg by (simp add: bt_a2dpsink_disconnect_device_def bx_eq bcall_eq split_beta)
  show "succeeds (bt_a2dpsink_connect E a s) bt_ok" if "a \<noteq> None"
    using bd_strtoba_ok[OF that, of zero_addr] assms(1) cfg
    by (auto simp: bt_a2dpsink_connect_def device_nums split_beta)
qed

lemma connect_first_ok [simp]: "bt_ok s \<Longrightarrow> bt_ok (connect_first E as s)"
  by (induction as arbitrary: s) (simp_all add: bx_eq Let_def)

lemma sink_scan_ok:
  assumes "bt_ok s" and "hal_ok E"
  shows "succeeds (auto_connect_by_scan_results E s) bt_ok"
  using assms bt_ok_cfg(1)[OF assms(1)]
  by (simp add: auto_connect_by_scan_results_def device_nums split_beta cfg_ok_def
      ROKIDOS_BT_AUTOCONNECT_BY_HISTORY_def ROKIDOS_BT_AUTOCONNECT_BY_SCANRESULTS_def)

lemma sink_stream_opened_ok:
  assumes "bt_ok s" and "hal_ok E" and "open_ok m"
  shows "succeeds (sink_stream_opened E m s) bt_ok"
proof -
  let ?s = "if hfp_open (hfp s) = S_OPENED \<and> hfp_link (hfp s) \<noteq> L_CONNECTED then bt_hfp_connect E (om_addr m) s else s"
  have ok: "bt_ok ?s" using assms(1) by simp
  obtain d where d: "connected_device (sink_config ?s) m = Some d" "known_addr (dev_addr d)"
      "length (dev_name d) < DEV_NAME_LEN"
    using connected_device_ok[OF bt_ok_cfg(1)[OF ok] assms(3)] by (auto simp: succeeds_iff)
  obtain s1 where s1: "remember_sink E d (?s\<lparr>e_connect_over := False\<rparr>) = Some s1" "bt_ok s1"
    using remember_ok(1)[of "?s\<lparr>e_connect_over := False\<rparr>" d E] d ok by (auto simp: succeeds_iff)
  have "autoconnect_mode (sink_config ?s) \<noteq> ROKIDOS_BT_AUTOCONNECT_BY_SCANRESULTS"
    using bt_ok_cfg(1)[OF ok]
    by (simp add: cfg_ok_def ROKIDOS_BT_AUTOCONNECT_BY_HISTORY_def ROKIDOS_BT_AUTOCONNECT_BY_SCANRESULTS_def)
  then show ?thesis
    using d(1) s1 bt_ok_cfg[OF s1(2)] unfolding sink_stream_opened_def Let_def by (simp add: bcall_eq)
qed

lemma sink_failed_ok: "bt_ok s \<Longrightarrow> succeeds (sink_open_failed m s) bt_ok"
proof -
  assume ok: "bt_ok s"
  then obtain j where "bt_autoconnect_get_index (sink_config s) (om_addr m) = Some j"
    using bt_ok_cfg(1)[of s] get_index_ok[of "sink_config s" "om_addr m"] unfolding cfg_ok_def by metis
  then show ?thesis using ok bt_ok_cfg[OF ok] by (simp add: sink_open_failed_def Let_def)
qed

lemma set_unmute_sel [simp]: "sink (bt_a2dpsink_set_unmute E s) = sink s" "sink_config (bt_a2dpsink_set_unmute E s) = sink_config s"
  by (simp_all add: bt_a2dpsink_set_unmute_def bcall_eq)

lemma sink_closed_ok: "bt_ok s \<Longrightarrow> succeeds (sink_closed E s) bt_ok"
  using bt_ok_cfg[of s] by (simp add: sink_closed_def Let_def bcall_eq)

definition sink_event_ok :: "sink_event \<Rightarrow> bool" where
  "sink_event_ok e \<longleftrightarrow> (case e of
      BT_AVK_OPEN_EVT m \<Rightarrow> m \<noteq> None
    | BT_AVK_STR_OPEN_EVT m \<Rightarrow> (case m of None \<Rightarrow> False | Some x \<Rightarrow> open_ok x)
    | BT_AVK_START_EVT m \<Rightarrow> m \<noteq> None
    | BT_AVK_GET_ELEM_ATTR_EVT m \<Rightarrow> (case m of None \<Rightarrow> True | Some (n, es) \<Rightarrow> n \<le> length es)
    | _ \<Rightarrow> True)"

lemma attrs_object [simp]: "is_object (fold (\<lambda>(i, d) root. case map_of attr_keys i of None \<Rightarrow> root
    | Some k \<Rightarrow> json_object_object_add k (JStr d) root) es j) = is_object j"
  by (induction es arbitrary: j) (simp_all split: prod.split option.split)

lemma sink_listener_ok:
  assumes "bt_ok s" and "hal_ok E" and "sink_event_ok e"
  shows "succeeds (a2dp_sink_listener E e s) bt_ok"
proof (cases e)
  case BT_AVK_STOP_EVT
  then show ?thesis using assms playstate_check_ok[of "s\<lparr>e_play_state := False\<rparr>" E]
    by (auto simp: succeeds_iff)
qed (use assms in \<open>auto simp: sink_event_ok_def sink_failed_ok sink_stream_opened_ok sink_closed_ok playstate_check_ok
    broadcast_a2dpsink_element_attrs_def Let_def split: option.splits\<close>)

section \<open>BLE packets\<close>

lemma copy_sendbuf_ok:
  assumes "length b = SENDBUF_LEN" and "b ! 511 = 0" and "0 \<le> i" and "i + int n \<le> 511" and "n \<le> length src"
  obtains b' where "copy_sendbuf i src (int n) b = Some b'" "length b' = SENDBUF_LEN" "b' ! 511 = 0"
proof -
  let ?b = "take (nat i) b @ take n src @ drop (nat i + n) b"
  have le: "nat i + n \<le> 511" using assms(3,4) by linarith
  have "copy_sendbuf i src (int n) b = Some ?b" using assms le by (simp add: copy_sendbuf_def SENDBUF_LEN_def)
  moreover have "length ?b = SENDBUF_LEN" using assms le by (simp add: SENDBUF_LEN_def)
  moreover have "?b ! 511 = 0" using assms le by (auto simp: SENDBUF_LEN_def nth_append)
  ultimately show thesis using that by blast
qed

lemma report_recv_ok: "bt_ok s \<Longrightarrow> succeeds (report_recv_data E s) bt_ok"
proof -
  assume ok: "bt_ok s"
  then have "(0 :: 8 word) \<in> set (ble_sendbuf s)"
    using nth_mem[of 511 "ble_sendbuf s"] by (simp add: bt_ok_def buf_ok_def SENDBUF_LEN_def)
  then show ?thesis using ok by (simp add: report_recv_data_def Let_def) (simp add: bt_ok_def buf_ok_def SENDBUF_LEN_def)
qed

lemma rokid_recv_ok:
  assumes ok: "bt_ok s" and len: "3 \<le> length buf" "length buf \<le> BLE_DATA_LEN"
  shows "succeeds (rokid_recv_ble_data E buf s) bt_ok"
proof -
  let ?data = "buf @ replicate (BLE_DATA_LEN - length buf) 0"
  let ?n = "length buf - 3"
  have n: "int (length buf) - 3 = int ?n" "?n \<le> 17" "?n \<le> length (drop 3 ?data)" "length buf < 21"
    using len by (auto simp: BLE_DATA_LEN_def)
  define s1 where "s1 = (if ble_msgid s \<noteq> uint (?data ! 0)
    then s\<lparr>ble_sendbuf := replicate SENDBUF_LEN 0, ble_index := 0, ble_msgid := uint (?data ! 0)\<rparr> else s)"
  define s2 where "s2 = (if ble_index s1 + int ?n > 255 then s1\<lparr>ble_index := 0\<rparr> else s1)"
  have ok1: "bt_ok s1" using ok by (simp add: s1_def bt_ok_def buf_ok_def SENDBUF_LEN_def)
  then have ok2: "bt_ok s2" by (simp add: s2_def)
  have b1: "length (ble_sendbuf s1) = SENDBUF_LEN" "ble_sendbuf s1 ! 511 = 0" "0 \<le> ble_index s1" "ble_index s1 \<le> 255"
    using ok1 by (simp_all add: bt_ok_def buf_ok_def)
  have b2: "length (ble_sendbuf s2) = SENDBUF_LEN" "ble_sendbuf s2 ! 511 = 0" "0 \<le> ble_index s2" "ble_index s2 + int ?n \<le> 255"
    using b1 n(2) by (auto simp: s2_def)
  obtain c1 where c1: "copy_sendbuf (ble_index s1) (drop 3 ?data) (int ?n) (ble_sendbuf s1) = Some c1"
      "length c1 = SENDBUF_LEN" "c1 ! 511 = 0"
    using copy_sendbuf_ok[OF b1(1,2,3) _ n(3)] b1(4) n(2) by auto
  obtain c2 where c2: "copy_sendbuf (ble_index s2) (drop 3 ?data) (int ?n) (ble_sendbuf s2) = Some c2"
      "length c2 = SENDBUF_LEN" "c2 ! 511 = 0"
    using copy_sendbuf_ok[OF b2(1,2,3) _ n(3)] b2(4) by auto
  have t2: "bt_ok (s2\<lparr>ble_sendbuf := c2, ble_index := ble_index s2 + int ?n\<rparr>)"
    using ok2 c2 b2(3,4) by (simp add: bt_ok_def buf_ok_def)
  have t1: "bt_ok (s1\<lparr>ble_sendbuf := c1, ble_index := 0\<rparr>)" using ok1 c1 by (simp add: bt_ok_def buf_ok_def)
  show ?thesis
    unfolding rokid_recv_ble_data_def Let_def n(1) s1_def[symmetric] s2_def[symmetric]
    using len(2) c1(1) c2(1) t1 t2 report_recv_ok[OF t1, of E] by simp
qed

lemma cmcc_recv_ok:
  assumes ok: "bt_ok s" and len: "cmcc_index s + int n \<le> 511" "n \<le> length buf"
  shows "succeeds (rokid_recv_ble_data_cmcc E buf n s) bt_ok"
proof -
  have b: "length (ble_sendbuf s) = SENDBUF_LEN" "ble_sendbuf s ! 511 = 0" "0 \<le> cmcc_index s"
    using ok by (simp_all add: bt_ok_def buf_ok_def)
  obtain c where c: "copy_sendbuf (cmcc_index s) buf (int n) (ble_sendbuf s) = Some c"
      "length c = SENDBUF_LEN" "c ! 511 = 0"
    using copy_sendbuf_ok[OF b len] .
  let ?s = "s\<lparr>ble_sendbuf := c, cmcc_pkgs := cmcc_pkgs s - 1, cmcc_index := cmcc_index s + int n\<rparr>"
  have t: "bt_ok ?s" using ok c b(3) by (simp add: bt_ok_def buf_ok_def)
  have z: "bt_ok (s\<lparr>ble_sendbuf := replicate SENDBUF_LEN 0\<rparr>)" using ok by (simp add: bt_ok_def buf_ok_def SENDBUF_LEN_def)
  show ?thesis
    using c(1) t z ok report_recv_ok[OF t, of E]
    by (auto simp: rokid_recv_ble_data_cmcc_def Let_def succeeds_iff)
qed

definition ser_ok :: "'w bt_state \<Rightarrow> ser_write \<Rightarrow> bool" where
  "ser_ok s m \<longleftrightarrow> sw_offset m + min (sw_len m) 255 \<le> length (sw_value m) \<and>
     (sw_uuid m = BLE_DATA_CHARACTER \<and> sw_len m > 0 \<longrightarrow> 3 \<le> sw_len m \<and> sw_len m \<le> BLE_DATA_LEN) \<and>
     (sw_uuid m = BLE_DATA_CHARACTER_CMCC \<longrightarrow> cmcc_index s + int (min (sw_len m) 255) \<le> 511)"

definition ble_event_ok :: "'w bt_state \<Rightarrow> ble_event \<Rightarrow> bool" where
  "ble_event_ok s e \<longleftrightarrow> (case e of BT_BLE_SE_WRITE_EVT (Some m) \<Rightarrow> ser_ok s m | _ \<Rightarrow> True)"

lemma ble_write_ok:
  assumes "bt_ok s" and "ser_ok s m"
  shows "succeeds (ble_write_evt E m s) bt_ok"
  using assms unfolding ble_write_evt_def Let_def ser_ok_def
  by (auto simp: BLE_DATA_LEN_def bcall_eq rank_simps intro!: rokid_recv_ok cmcc_recv_ok)

lemma ble_listener_ok: "bt_ok s \<Longrightarrow> ble_event_ok s e \<Longrightarrow> succeeds (ble_listener E e s) bt_ok"
  by (cases e) (auto simp: ble_event_ok_def ble_write_ok rank_simps split: option.splits)

section \<open>Requests\<close>

text \<open>No field of the request is a JSON null: the code passes the NULL strings of such fields on.\<close>

fun no_null :: "json \<Rightarrow> bool" where
  "no_null (JObj kvs) = list_all (\<lambda>(k, v). v \<noteq> JNull) kvs"
| "no_null _ = True"

lemma field_string:
  assumes "no_null obj" and "json_object_object_get_ex obj k = Some j"
  shows "\<exists>t. jstr E j = Some t"
proof -
  have "j \<noteq> JNull"
    using assms by (cases obj) (auto simp: list_all_iff dest: map_of_SomeD)
  then show ?thesis by (cases j) (auto simp: jstr_def json_object_get_string_def)
qed

lemma with_command_ok:
  assumes "no_null obj" and "bt_ok s"
    and "\<And>j c. json_object_object_get_ex obj ''command'' = Some j \<Longrightarrow> jstr E j = Some c \<Longrightarrow> succeeds (f c s) bt_ok"
  shows "succeeds (with_command E obj f s) (\<lambda>r. bt_ok (snd r))"
proof (cases "json_object_object_get_ex obj ''command''")
  case (Some j)
  then obtain c where "jstr E j = Some c" using field_string[OF assms(1)] by blast
  then show ?thesis using Some assms(2,3) by (auto simp: with_command_def succeeds_iff)
qed (use assms(2) in \<open>simp add: with_command_def\<close>)

lemma client_commands_ok:
  assumes "bt_ok s" and "hal_ok E" and "no_null obj"
  shows "succeeds (ble_client_command E obj r c s) bt_ok" "succeeds (hh_command E obj r c s) bt_ok"
    "succeeds (hfp_command E obj r c s) bt_ok"
proof -
  have str: "jstr E a \<noteq> None" if "json_object_object_get_ex obj ''address'' = Some a" for a
    using field_string[OF assms(3) that, of E] by auto
  note offs = hh_off.off_keeps[OF assms(1,2)] hfp_off.off_keeps[OF assms(1,2)] blec_off.off_keeps[OF assms(1,2)]
  show "succeeds (ble_client_command E obj r c s) bt_ok"
    unfolding ble_client_command_def
    using assms(1) client_ops_ok[OF assms(1,2)] offs(3) str
    by (auto simp: bt_on_ok with_uuids_def split: option.split)
  show "succeeds (hh_command E obj r c s) bt_ok"
    unfolding hh_command_def
    using assms(1) client_ops_ok[OF assms(1,2)] offs(1) str by (auto simp: bt_on_ok split: option.split)
  show "succeeds (hfp_command E obj r c s) bt_ok"
    unfolding hfp_command_def using assms(1) offs(2) by (auto simp: hfp_on_ok split: option.split)
qed

lemma source_command_ok:
  assumes "bt_ok s" and "hal_ok E" and "no_null obj"
  shows "succeeds (a2dpsource_command E obj r c s) bt_ok"
proof -
  define s1 where "s1 = (if src_open (source s) = S_OPENED \<and> src_link (source s) \<noteq> L_CONNECTED
    then (set_source (\<lambda>k. k\<lparr>src_link := L_INVALID\<rparr>) s)\<lparr>es_connect_over := True\<rparr> else s)"
  have "bt_ok s1" using assms(1) by (simp add: s1_def)
  then have "bt_ok (snd (source_name E obj s1))" by (simp add: source_name_def bx_eq split_beta Let_def split: option.split)
  then obtain s2 where s2: "close_others E obj A2DP_SOURCE_STATUS_MASK (snd (source_name E obj s1)) = Some s2" "bt_ok s2"
    using close_others_ok[OF _ assms(2)] unfolding succeeds_iff by blast
  have str: "jstr E a \<noteq> None" if "json_object_object_get_ex obj ''address'' = Some a" for a
    using field_string[OF assms(3) that, of E] by auto
  show ?thesis
    unfolding a2dpsource_command_def Let_def s1_def[symmetric] bt_a2dpsource_on_prepare_def split_beta
    using s2 source_on_ok[OF s2(2)] source_ops_ok[OF assms(1,2)] source_off.off_keeps[OF assms(1,2)] bt_ok_cfg[OF assms(1)]
      assms(1) str
    by (auto split: option.split)
qed

lemma wants_hfp_ok: "no_null obj \<Longrightarrow> \<exists>b. wants_hfp E obj = Some b"
  using field_string[of obj "''sec_pro''" _ E] by (cases "json_object_object_get_ex obj ''sec_pro''") (auto simp: wants_hfp_def)

lemma sink_prepare_ok:
  assumes "bt_ok s" and "hal_ok E" and "no_null obj"
  shows "succeeds (bt_a2dpsink_on_prepare E obj s) bt_ok"
  using field_string[OF assms(3), of "''subsequent''" _ E] assms(1,2)
  by (cases "json_object_object_get_ex obj ''subsequent''") (auto simp: bt_a2dpsink_on_prepare_def close_others_ok)

lemma sink_switch_ok:
  assumes "bt_ok s" and "hal_ok E" and "no_null obj"
  shows "succeeds (sink_on_command E obj s) bt_ok" "succeeds (sink_off_command E obj s) bt_ok"
proof -
  obtain b where b: "wants_hfp E obj = Some b" using wants_hfp_ok[OF assms(3)] by blast
  define s1 where "s1 = (if snk_open (sink s) = S_OPENED \<and> snk_link (sink s) \<noteq> L_CONNECTED
    then (set_sink (\<lambda>k. k\<lparr>snk_link := L_INVALID\<rparr>) s)\<lparr>e_connect_over := True\<rparr> else s)"
  have "bt_ok s1" using assms(1) by (simp add: s1_def)
  then obtain s2 where s2: "bt_a2dpsink_on_prepare E obj s1 = Some s2" "bt_ok s2"
    using sink_prepare_ok[OF _ assms(2,3)] by (auto simp: succeeds_iff)
  obtain s3 where "bt_a2dpsink_on E (request_name E obj (Some default_name)) (bool_field obj ''auto_connect'' True)
      (bool_field obj ''discoverable'' True) s2 = Some s3" "bt_ok s3"
    using sink_on_ok[OF s2(2)] unfolding succeeds_iff by blast
  then show "succeeds (sink_on_command E obj s) bt_ok"
    using b s2 unfolding sink_on_command_def Let_def s1_def[symmetric] by (simp add: hfp_on_ok)
  have "bt_ok (if b then bt_hfp_off E s else s)" using hfp_off.off_keeps[OF assms(1,2)] assms(1) by simp
  then show "succeeds (sink_off_command E obj s) bt_ok"
    using b sink_off.off_keeps[OF _ assms(2)] by (simp add: sink_off_command_def)
qed

lemma sink_command_ok:
  assumes "bt_ok s" and "hal_ok E" and "no_null obj"
  shows "succeeds (a2dpsink_command E obj r c s) bt_ok"
proof -
  have str: "jstr E a \<noteq> None" if "json_object_object_get_ex obj ''address'' = Some a" for a
    using field_string[OF assms(3) that, of E] by auto
  have d: "succeeds (bt_a2dpsink_disconnect_device E t) bt_ok" if "bt_ok t" for t using sink_ops_ok(2)[OF that assms(2)] .
  show ?thesis
    unfolding a2dpsink_command_def Let_def bt_a2dp_sink_stop_def bt_a2dp_sink_pause_def
    using sink_switch_ok[OF assms] sink_ops_ok[OF assms(1,2)] d assms(1) bt_ok_cfg[OF assms(1)] str
    by (auto simp: bcall_eq split: option.split)
qed

text \<open>The two requests with a condition on the state: the state of BLE has a name only after the
  profile was used, and the zero address marks the free entries of the lists.\<close>

definition ble_request_ok :: "'w bt_ops \<Rightarrow> json \<Rightarrow> 'w bt_state \<Rightarrow> bool" where
  "ble_request_ok E obj s \<longleftrightarrow> ble_state s = BLE_INIVATE \<longrightarrow>
     (case json_object_object_get_ex obj ''command'' of
        Some j \<Rightarrow> jstr E j \<noteq> Some ''GETSTATE''
      | None \<Rightarrow> json_object_object_get_ex obj ''rawdata'' = None)"

definition remove_ok :: "'w bt_ops \<Rightarrow> json \<Rightarrow> bool" where
  "remove_ok E obj \<longleftrightarrow> (case json_object_object_get_ex obj ''address'' of
      None \<Rightarrow> True | Some a \<Rightarrow> bd_strtoba zero_addr (jstr E a) \<noteq> Some (0, zero_addr))"

lemma raw_send_ok [simp]: "bt_ok (raw_send_loop E buf s) = bt_ok s"
proof (induction E buf s rule: raw_send_loop.induct)
  case (1 E buf s)
  then show ?case by (subst raw_send_loop.simps) (simp add: bcall_eq)
qed

lemma fold_call_ok [simp]: "bt_ok (fold (\<lambda>x. bcall (f x)) xs s) = bt_ok s"
  by (induction xs arbitrary: s) (simp_all add: bcall_eq)

lemma ble_handle_ok:
  assumes ok: "bt_ok s" "hal_ok E" "no_null obj" and b: "ble_request_ok E obj s"
  shows "succeeds (handle_ble_handle E obj r s) (\<lambda>r. bt_ok (snd r))"
proof (cases "obj = JNull \<or> json_object_object_get_ex obj ''command'' \<noteq> None")
  case True
  have "succeeds (ble_command E obj r c s) bt_ok"
    if c: "json_object_object_get_ex obj ''command'' = Some j" "jstr E j = Some c" for j c
  proof -
    have g: "c = ''GETSTATE'' \<Longrightarrow> ble_state s \<noteq> BLE_INIVATE" using b c by (auto simp: ble_request_ok_def)
    obtain s1 where "close_others E obj BLE_STATUS_MASK s = Some s1" "bt_ok s1"
      using close_others_ok[OF ok(1,2)] unfolding succeeds_iff by blast
    then show ?thesis
      using ok ble_off.off_keeps[OF ok(1,2)] g by (simp add: ble_command_def bt_ble_on_prepare_def bt_on_ok)
  qed
  then show ?thesis using True with_command_ok[OF ok(3,1)] by (simp add: handle_ble_handle_def)
next
  case False
  then have raw: "json_object_object_get_ex obj ''rawdata'' \<noteq> None \<Longrightarrow> ble_state s \<noteq> BLE_INIVATE"
    using b by (auto simp: ble_request_ok_def)
  have str: "\<exists>t. jstr E d = Some t" if "json_object_object_get_ex obj k = Some d" for d k
    using field_string[OF ok(3) that] .
  show ?thesis
    using False raw str ok(1)
    by (auto simp: handle_ble_handle_def rokid_send_ble_data_def ble_send_raw_data_def split: option.split dest!: str)
qed

lemma sync_keeps:
  assumes "bt_ok s"
  shows "succeeds (sync_sink E s) bt_ok" "succeeds (sync_source E s) bt_ok"
  using sync_ok[OF bt_ok_cfg(1)[OF assms], of "b_store E" "bt_world s"]
    sync_ok[OF bt_ok_cfg(2)[OF assms], of "b_store E" "bt_world s"] assms
  by (auto simp: sync_sink_def sync_source_def succeeds_iff)

lemma clear_config_ok: "cfg_ok c \<Longrightarrow> succeeds (clear_config c) cfg_ok"
  by (auto simp: clear_config_def cfg_ok_def config_ok_def history_def list_all_iff zero_dev_def zero_addr_def
      DEV_NAME_LEN_def)

lemma broadcast_remove_ok: "bt_ok s \<Longrightarrow> succeeds (broadcast_remove_dev (Some a) st s) bt_ok"
  by (simp add: broadcast_remove_dev_def)

lemma remove_all_ok: "bt_ok s \<Longrightarrow> succeeds (remove_all_devs E s) bt_ok"
  unfolding remove_all_devs_def Let_def bx_eq split_beta
  by (rule succeeds_bindI[where P = bt_ok], simp add: broadcast_remove_ok,
      rule succeeds_bindI[OF clear_config_ok], erule bt_ok_cfg, rule succeeds_bindI[OF sync_keeps(1)], simp,
      rule succeeds_bindI[OF clear_config_ok], erule bt_ok_cfg, rule sync_keeps(2), simp)

lemma remove_one_ok:
  assumes "bt_ok s" and a: "a \<noteq> zero_addr"
  shows "succeeds (remove_one_dev E t a s) bt_ok"
proof -
  have r: "succeeds (if ret = 0 then sync_sink E (u\<lparr>sink_config := c\<rparr>) else Some (u\<lparr>sink_config := c\<rparr>)) bt_ok"
      "succeeds (if ret = 0 then sync_source E (u\<lparr>source_config := c\<rparr>) else Some (u\<lparr>source_config := c\<rparr>)) bt_ok"
    if "bt_ok u" "cfg_ok c" for ret :: int and c and u :: "'a bt_state"
    using that sync_keeps[of "u\<lparr>sink_config := c\<rparr>" E] sync_keeps[of "u\<lparr>source_config := c\<rparr>" E] by auto
  show ?thesis
    using assms(1) unfolding remove_one_dev_def Let_def bx_eq split_beta
    by (intro succeeds_bindI[where P = bt_ok] succeeds_bindI[OF remove_cfg_ok[OF _ a]] r)
      (auto simp: broadcast_remove_ok bt_ok_cfg split_beta)
qed

lemma remove_dev_ok:
  assumes "bt_ok s" and "a \<noteq> None" and "bd_strtoba zero_addr a \<noteq> Some (0, zero_addr)"
  shows "succeeds (bt_remove_dev E a s) bt_ok"
proof -
  obtain t where t: "a = Some t" using assms(2) by blast
  obtain r b where b: "bd_strtoba zero_addr (Some t) = Some (r, b)" using bd_strtoba_ok[of "Some t" zero_addr] by auto
  have ok: "bt_ok (snd (bt_open E s))" using assms(1) by simp
  have "succeeds (if t = ''*'' then remove_all_devs E (snd (bt_open E s))
      else if r \<noteq> 0 then broadcast_remove_dev (Some t) r (snd (bt_open E s))
      else remove_one_dev E t b (snd (bt_open E s))) bt_ok"
    using remove_all_ok[OF ok] broadcast_remove_ok[OF ok] remove_one_ok[OF ok, of b] assms(3) b t by auto
  then show ?thesis using b unfolding bt_remove_dev_def t Let_def by (auto simp: succeeds_iff)
qed

lemma paired_list_ok:
  assumes "bt_ok s" and "hal_ok E"
  shows "succeeds (bt_get_paired_list E r s) bt_ok" "succeeds (bt_upload_scan_results E b s) bt_ok"
proof -
  obtain k ds w where c: "b_bonded_devices E BT_DISC_NB_DEVICES (bt_world s) = ((k, ds), w)" by (metis surj_pair)
  obtain js where "device_list k (device_array BT_DISC_NB_DEVICES False ds) = Some js"
    using device_list_ok[of "b_bonded_devices E", OF _ c] assms(2) by (auto simp: hal_ok_def)
  then show "succeeds (bt_get_paired_list E r s) bt_ok"
    using assms(1) c by (simp add: bt_get_paired_list_def bx_eq)
  obtain k ds w where c: "b_disc_devices E BT_DISC_NB_DEVICES (bt_world s) = ((k, ds), w)" by (metis surj_pair)
  obtain js where "device_list k (device_array BT_DISC_NB_DEVICES True ds) = Some js"
    using device_list_ok[of "b_disc_devices E", OF _ c] assms(2) by (auto simp: hal_ok_def)
  then show "succeeds (bt_upload_scan_results E b s) bt_ok"
    using assms(1) c by (simp add: bt_upload_scan_results_def bx_eq)
qed

lemma common_command_ok:
  assumes "bt_ok s" and "hal_ok E" and "no_null obj" and "c = ''REMOVE_DEV'' \<longrightarrow> remove_ok E obj"
  shows "succeeds (common_command E obj r c s) bt_ok"
proof -
  have rm: "succeeds (bt_remove_dev E (jstr E a) s) bt_ok"
    if "json_object_object_get_ex obj ''address'' = Some a" "c = ''REMOVE_DEV''" for a
    using remove_dev_ok[OF assms(1), of "jstr E a"] field_string[OF assms(3) that(1), of E] assms(4) that
    by (auto simp: remove_ok_def)
  show ?thesis
    unfolding common_command_def
    using rm paired_list_ok(1)[OF assms(1,2)] assms(1)
    by (auto simp: bt_get_mac_addr_def bt_set_discoveryable_def bx_eq bcall_eq split_beta Let_def split: option.split)
qed

definition request_ok :: "'w bt_ops \<Rightarrow> string \<Rightarrow> json \<Rightarrow> 'w bt_state \<Rightarrow> bool" where
  "request_ok E name obj s \<longleftrightarrow> no_null obj \<and> (name = ''bluetooth.ble.command'' \<longrightarrow> ble_request_ok E obj s) \<and>
     (name = ''bluetooth.common.command'' \<longrightarrow> remove_ok E obj)"

lemma handler_ok:
  assumes "bt_ok s" and "hal_ok E" and "request_ok E name obj s" and "topic_handler E name = Some h"
  shows "succeeds (map_option snd (h obj r s)) bt_ok"
proof -
  have n: "no_null obj" using assms(3) by (simp add: request_ok_def)
  have "succeeds (h obj r s) (\<lambda>r. bt_ok (snd r))"
    using assms n unfolding topic_handler_def request_ok_def
    by (auto simp: handle_common_handle_def handle_ble_client_handle_def handle_a2dpsink_handle_def
        handle_a2dpsource_handle_def handle_hfp_handle_def handle_hh_handle_def split: if_splits
        intro!: with_command_ok common_command_ok client_commands_ok sink_command_ok source_command_ok ble_handle_ok)
  then show ?thesis by (auto simp: succeeds_iff)
qed

section \<open>Steps\<close>

text \<open>A write to the BLE client: the header lies within the message.\<close>

definition write_ok :: "8 word list \<Rightarrow> bool" where
  "write_ok b \<longleftrightarrow> 96 \<le> length b \<and> (\<Sum>i<4. unat (b ! i) * 256 ^ i) \<le> length b"

text \<open>What the service relies on in its inputs.\<close>

definition input_ok :: "'w bt_ops \<Rightarrow> bt_input \<Rightarrow> 'w bt_state \<Rightarrow> bool" where
  "input_ok E i s \<longleftrightarrow> (case i of
      Posted n b \<Rightarrow> request_ok E n (so_parse (b_store E) b) s
    | Called n b \<Rightarrow> request_ok E n (so_parse (b_store E) b) s
    | Binary n b \<Rightarrow> n = ''bluetooth.ble.client.write'' \<longrightarrow> write_ok b
    | Ble e \<Rightarrow> ble_event_ok s e
    | BleClient e \<Rightarrow> (\<forall>m. e \<in> {BT_BLE_CL_NOTIF_EVT (Some m), BT_BLE_CL_READ_EVT (Some m)} \<longrightarrow>
        cv_len m \<le> length (cv_value m))
    | HidHost e \<Rightarrow> e \<noteq> BT_HH_OPEN_EVT None
    | Sink e \<Rightarrow> sink_event_ok e
    | Source e \<Rightarrow> source_event_ok e
    | Removed m \<Rightarrow> (case m of None \<Rightarrow> True | Some (a, st) \<Rightarrow> a \<noteq> None)
    | _ \<Rightarrow> True)"

lemma blec_write_loop_ok [simp]: "bt_ok (blec_write_loop E sv ch buf s) = bt_ok s"
proof (induction E sv ch buf s rule: blec_write_loop.induct)
  case (1 E sv ch buf s)
  then show ?case by (subst blec_write_loop.simps) (simp add: bcall_eq)
qed

lemma client_write_ok: "bt_ok s \<Longrightarrow> write_ok b \<Longrightarrow> succeeds (handle_ble_client_write E b s) bt_ok"
  by (simp add: handle_ble_client_write_def write_ok_def get_ble_client_connected_device_num_def bt_calls split_beta)

lemma sleep_ok:
  assumes "bt_ok s" and "hal_ok E" and "no_null obj"
  shows "succeeds (map_option snd (handle_module_sleep E obj s)) bt_ok"
    "succeeds (map_option snd (handle_power_sleep E obj s)) bt_ok"
proof -
  obtain t where t: "sleep_field E obj = Some t"
    using field_string[OF assms(3), of "''sleep''" _ E]
    by (cases "json_object_object_get_ex obj ''sleep''") (auto simp: sleep_field_def)
  obtain s1 where s1: "bt_close_all E s = Some s1" "bt_ok s1"
    using close_keeps[OF assms(1,2)] unfolding bt_close_all_def succeeds_iff by blast
  show "succeeds (map_option snd (handle_module_sleep E obj s)) bt_ok"
    using t s1 assms(1) by (simp add: handle_module_sleep_def)
  show "succeeds (map_option snd (handle_power_sleep E obj s)) bt_ok"
    using t assms(1) by (simp add: handle_power_sleep_def bcall_eq)
qed

lemma discovery_callback_ok:
  assumes "bt_ok s" and "hal_ok E"
  shows "succeeds (discovery_callback E b s) bt_ok"
proof -
  obtain s1 where s1: "a2dpsource_upload_scan_results E b s = Some s1" "bt_ok s1"
    using source_scan_ok[OF assms] unfolding succeeds_iff by blast
  obtain s2 where s2: "bt_upload_scan_results E b s1 = Some s2" "bt_ok s2"
    using paired_list_ok(2)[OF s1(2) assms(2)] unfolding succeeds_iff by blast
  obtain s3 where "auto_connect_by_scan_results E s2 = Some s3" "bt_ok s3"
    using sink_scan_ok[OF s2(2) assms(2)] unfolding succeeds_iff by blast
  then show ?thesis using s1 s2 by (simp add: discovery_callback_def)
qed

lemma posted_ok:
  assumes "bt_ok s" and "hal_ok E" and "request_ok E n (so_parse (b_store E) b) s"
  shows "succeeds (bt_service_command_callback E n b s) bt_ok" "succeeds (bt_service_command_method_callback E n b s) bt_ok"
proof -
  have "no_null (so_parse (b_store E) b)" using assms(3) by (simp add: request_ok_def)
  note sl = sleep_ok[OF assms(1,2) this]
  show "succeeds (bt_service_command_callback E n b s) bt_ok"
    using handler_ok[OF assms] sl assms(1) unfolding bt_service_command_callback_def by (auto split: option.split)
  show "succeeds (bt_service_command_method_callback E n b s) bt_ok"
    using handler_ok[OF assms] assms(1) unfolding bt_service_command_method_callback_def by (auto split: option.split)
qed

lemma step_ok:
  assumes "bt_ok s" and "hal_ok E" and "input_ok E i s"
  shows "succeeds (bt_step E i s) bt_ok"
proof (cases i)
  case (Binary n b)
  then show ?thesis using assms client_write_ok by (auto simp: input_ok_def bt_service_binary_callback_def)
next
  case (Removed m)
  then show ?thesis using assms broadcast_remove_ok[OF assms(1)] by (auto simp: input_ok_def split: option.splits)
next
  case (BleClient e)
  then show ?thesis using assms client_events_ok(2)[OF assms(1), of e] by (simp add: input_ok_def)
qed (use assms in \<open>auto simp: input_ok_def posted_ok ble_listener_ok client_events_ok hfp_listener_ok sink_listener_ok
    source_listener_ok discovery_callback_ok history_index_ok sink_ops_ok source_ops_ok playstate_check_ok\<close>)

section \<open>Reachable states\<close>

text \<open>During start-up no profile is enabled.\<close>

definition fresh :: "'w bt_state \<Rightarrow> bool" where
  "fresh s \<longleftrightarrow> bt_status s = 0 \<and> ble_state s = BLE_INIVATE \<and> blec_state s = BLE_CLI_OPEN_INVALID \<and>
     sink s = zero_sink \<and> source s = zero_source \<and> hfp s = zero_hfp \<and> hh_state s = HH_STATE_INVALID \<and>
     ble_sendbuf s = replicate SENDBUF_LEN 0 \<and> ble_index s = 0 \<and> cmcc_index s = 0 \<and> \<not> bt_mic s \<and>
     bt_events s = [] \<and> bt_replies s = []"

lemma fresh_call [simp]: "fresh (s\<lparr>bt_world := w\<rparr>) = fresh s" "fresh (s\<lparr>bt_opened := op\<rparr>) = fresh s"
  "fresh (s\<lparr>bt_present := p\<rparr>) = fresh s" "fresh (s\<lparr>sink_config := c\<rparr>) = fresh s" "fresh (s\<lparr>source_config := c\<rparr>) = fresh s"
  by (simp_all add: fresh_def)

lemma fresh_open [simp]: "fresh (snd (bt_open E s)) = fresh s" "fresh (bt_close E s) = fresh s"
  by (simp_all add: fresh_def)

lemma create_loop_result:
  assumes "create_loop E n s = Some r" and "fresh s"
  shows "fst r = 0 \<and> fresh (snd r) \<and> \<not> bt_opened (snd r)"
proof -
  let ?P = "\<lambda>E n (s :: 'a bt_state) r. fresh s \<longrightarrow> fst r = 0 \<and> fresh (snd r) \<and> \<not> bt_opened (snd r :: 'a bt_state)"
  have "?P E n s r"
  proof (rule create_loop.raw_induct[of ?P, OF _ assms(1)], intro impI, goal_cases)
    case (1 f E n s r)
    define s1 where "s1 = snd (bt_open E (if 2 < n then bcall (b_system E RESTART_BSA_SERVER) s else s))"
    have s1: "fresh s1" using 1(3) by (simp add: s1_def bcall_eq)
    then have "\<not> bt_opened (bt_close E s1)" by (simp add: fresh_def)
    then show ?case
      using 1(1)[of E "Suc n" s1 r] 1(2) s1 by (auto simp: Let_def split_beta s1_def[symmetric] split: if_splits)
  qed
  then show ?thesis using assms(2) by simp
qed

lemma device_init_result:
  assumes "bluetooth_device_init E s = Some (r, s')" and "fresh s" and "\<not> bt_present s" and "0 \<le> r"
  shows "fresh s' \<and> \<not> bt_opened s'"
  using assms create_loop_result[of E 0 _ "(_, s')"]
  by (auto simp: bluetooth_device_init_def bluetooth_device_create_def bx_eq Let_def split_beta
      split: if_splits Option.bind_splits dest!: create_loop_result)

lemma handle_init_fresh:
  assumes "bt_handle_init E s = Some (r, s')" and "fresh s"
  shows "fresh s' \<and> bt_opened s' = bt_opened s"
  using assms
  by (auto simp: bt_handle_init_def bt_a2dpsink_timer_init_def bt_a2dpsource_timer_init_def bx_eq Let_def split_beta
      split: if_splits Option.bind_splits)

lemma main_start_fresh:
  assumes "bt_main_start E w = Some (0, s)"
  shows "fresh s" and "\<not> bt_opened s"
proof -
  have f: "fresh (bt_handle_create w)" "\<not> bt_present (bt_handle_create w)"
    by (simp_all add: fresh_def bt_handle_create_def)
  obtain r s1 where s1: "bluetooth_device_init E (bt_handle_create w) = Some (r, s1)"
    using assms by (auto simp: bt_main_start_def split: Option.bind_splits)
  have "0 \<le> r" using assms s1 by (auto simp: bt_main_start_def split: if_splits)
  then show "fresh s" and "\<not> bt_opened s"
    using device_init_result[OF s1 f] s1 assms handle_init_fresh[of E s1 _ s]
    by (auto simp: bt_main_start_def split: Option.bind_splits if_splits)
qed

text \<open>The states of a running service: it was started with well formed device lists, and every step
  is one that can happen, with an input the service can rely on.\<close>

inductive bt_reach :: "'w bt_ops \<Rightarrow> 'w bt_state \<Rightarrow> bool" for E where
  start: "\<lbrakk> bt_main_start E w = Some (0, s); cfg_ok (sink_config s); cfg_ok (source_config s) \<rbrakk> \<Longrightarrow> bt_reach E s"
| step: "\<lbrakk> bt_reach E s; armed i s; input_ok E i s; bt_step E i s = Some s' \<rbrakk> \<Longrightarrow> bt_reach E s'"

inductive_cases bt_reachE: "bt_reach E s"

lemma reach_ok:
  assumes "bt_reach E s" and "hal_ok E"
  shows "bt_ok s"
  using assms(1)
proof (induction rule: bt_reach.induct)
  case (start w s)
  then show ?case
    using main_start_fresh[OF start(1)]
    by (auto simp: bt_ok_def fresh_def status_ok_def buf_ok_def messages_ok_def zero_sink_def zero_source_def zero_hfp_def
        SENDBUF_LEN_def flag_simps rank_simps)
next
  case (step s i s')
  then show ?case using step_ok[OF _ assms(2), of s i] by (auto simp: succeeds_iff)
qed

end
