(* ===== verification/BtProps.thy ===== *)
theory BtProps
  imports BtSafety
begin

text \<open>
  The properties of the bluetooth service.  Witnesses use \<open>bt_lab\<close>, a HAL on which every call
  succeeds and no device is connected, with a store that keeps the last text of every file.
\<close>

section \<open>A concrete environment\<close>

definition lab_profile :: "'w profile_ops" where
  "lab_profile = \<lparr>p_set_listener = Pair 0, p_enable = Pair 0, p_disable = Pair 0, p_connect = (\<lambda>a. Pair 0),
     p_disconnect = (\<lambda>a. Pair 0), p_connected = (\<lambda>n. Pair (0, []))\<rparr>"

type_synonym files = "(string \<times> string) list"

definition lab_store :: "(json \<Rightarrow> string) \<Rightarrow> (string \<Rightarrow> json) \<Rightarrow> files store_ops" where
  "lab_store print parse = \<lparr>so_load = (\<lambda>f w. (map_option (take 1023) (map_of w f), w)),
     so_save = (\<lambda>f t w. (True, (f, t) # w)), so_text = print, so_parse = parse\<rparr>"

definition bt_lab :: "(json \<Rightarrow> string) \<Rightarrow> (string \<Rightarrow> json) \<Rightarrow> files bt_ops" where
  "bt_lab print parse =
     \<lparr>b_open = Pair 0, b_close = Pair 0, b_set_bt_name = (\<lambda>n. Pair 0), b_start_discovery = Some (\<lambda>t. Pair 0),
      b_cancel_discovery = Some (Pair 0), b_remove_dev = (\<lambda>a. Pair 0), b_set_visibility = (\<lambda>d c. Pair 0),
      b_disc_devices = (\<lambda>n. Pair (0, [])), b_bonded_devices = (\<lambda>n. Pair (0, [])),
      b_module_addr = Pair (0, [1, 2, 3, 4, 5, 6]), b_config_clear = Pair 0,
      b_ble = lab_profile, b_ble_send = (\<lambda>u d. Pair 0), b_ble_visibility = (\<lambda>d c. Pair 0),
      b_blec = lab_profile, b_blec_register = (\<lambda>a b. Pair 0), b_blec_read = (\<lambda>a b. Pair 0),
      b_blec_write = (\<lambda>a b c. Pair 0),
      b_sink = lab_profile, b_avrc = (\<lambda>k. Pair 0), b_get_playstatus = Pair 0, b_set_mute = (\<lambda>m. Pair 0),
      b_set_abs_vol = (\<lambda>v. Pair 0), b_get_playing = Pair 0, b_get_element_attrs = Pair 0,
      b_source = lab_profile, b_hfp = lab_profile, b_hfp_uart = False, b_answercall = Pair 0, b_hangup = Pair 0,
      b_dial_num = (\<lambda>n. Pair 0), b_hh = lab_profile, b_store = lab_store print parse, b_now = Pair 0,
      b_property_set = (\<lambda>k v. Pair 0), b_mic_connect = Pair 0, b_mic_recv = (\<lambda>n. Pair 0), b_hw_get_module = Pair 0,
      b_device_open = Pair 0, b_creat = Pair 0, b_destroy = Pair 0, b_device_close = Pair 0, b_timer_add = Pair 1,
      b_system = (\<lambda>c. Pair 0)\<rparr>"

lemma bt_lab_ok: "hal_ok (bt_lab print parse)"
  by (simp add: hal_ok_def list_law_def bt_lab_def lab_profile_def)

text \<open>The texts of the requests the witnesses use.\<close>

definition lab_parse :: "string \<Rightarrow> json" where
  "lab_parse t = (if t = ''on'' then JObj [(''command'', JStr ''ON''), (''unique'', JBool True)]
     else if t = ''sleep'' then JObj [(''sleep'', JStr ''ON'')]
     else if t = ''state'' then JObj [(''command'', JStr ''GETSTATE'')]
     else JNull)"

abbreviation lab :: "files bt_ops" where "lab \<equiv> bt_lab (\<lambda>j. []) lab_parse"

section \<open>The list of known devices\<close>

text \<open>C22. The device array remembers the most recently connected devices: after any sequence
  of connections from the empty list, it denotes the different devices of the sequence, the last
  one first, cut to the number of entries.\<close>

theorem device_list_most_recent:
  assumes "1 \<le> autoconnect_num c" and "autoconnect_num c \<le> 3" and "list_all (\<lambda>d. known_addr (dev_addr d)) ds"
  shows "succeeds (insert_all update_device ds (snd (bt_config_newinit c)))
    (\<lambda>c'. config_ok c' \<and> history c' = take (nat (autoconnect_num c)) (recency dev_addr ds))"
proof -
  have "nat (autoconnect_num (snd (bt_config_newinit c))) = nat (autoconnect_num c)" by (simp add: bt_config_newinit_def)
  then show ?thesis
    using devices.insert_all_recent[OF newinit_ok(1)[OF assms(1,2)] assms(3) newinit_ok(2)[OF assms(1,2)]] by simp
qed

definition lab_dev :: "8 word \<Rightarrow> autoconnect_device" where
  "lab_dev b = \<lparr>dev_name = ''d'', dev_addr = [b, 0, 0, 0, 0, 1]\<rparr>"

lemma lab_dev_known: "known_addr (dev_addr (lab_dev b))" "(dev_addr (lab_dev b) = dev_addr (lab_dev b')) = (b = b')"
  by (auto simp: known_addr_def zero_addr_def lab_dev_def eval_nat_numeral)

theorem device_list_most_recent_witness:
  "succeeds (insert_all update_device [lab_dev 1, lab_dev 2, lab_dev 1, lab_dev 3]
      (snd (bt_config_newinit (zero_config\<lparr>autoconnect_num := 2\<rparr>))))
    (\<lambda>c'. config_ok c' \<and> history c' = [lab_dev 3, lab_dev 1])"
  using device_list_most_recent[of "zero_config\<lparr>autoconnect_num := 2\<rparr>" "[lab_dev 1, lab_dev 2, lab_dev 1, lab_dev 3]"]
  by (simp add: lab_dev_known recency_def move_front_def)

text \<open>C23. What \<open>bt_autoconnect_sync\<close> saves, \<open>bt_autoconnect_config_init\<close> reads back: a service that is
  started again with the same file has the same list, provided the text of the list has less than
  1024 bytes.\<close>

theorem history_survives_restart:
  assumes ok: "cfg_ok c" and names: "list_all (\<lambda>d. nul \<notin> set (dev_name d)) (cfg_dev c)"
    and j: "config_json c = Some j" "text_ok E j" "length (so_text E j) \<le> 1023" and st: "store_ok E"
    and save: "bt_autoconnect_sync E c w = Some (0, w1)"
    and c0: "autoconnect_filename c0 = autoconnect_filename c" "autoconnect_num c0 = autoconnect_num c"
      "autoconnect_linknum c0 = 0"
  shows "\<exists>c1 w2. bt_autoconnect_config_init E c0 w1 = Some ((0, c1), w2) \<and>
    cfg_dev c1 = cfg_dev c \<and> history c1 = history c \<and> autoconnect_linknum c1 = autoconnect_linknum c"
proof -
  have cok: "config_ok c" and n: "autoconnect_num c = int (length (cfg_dev c))" "length (cfg_dev c) \<le> 3"
    using ok by (auto simp: cfg_ok_def config_ok_def)
  obtain b where b: "so_save E (autoconnect_filename c) (so_text E j) w = (b, w1)" "b"
    using save j(1) by (auto simp: bt_autoconnect_sync_def split_beta split: if_splits) (metis prod.collapse)
  then obtain w2 where load: "so_load E (autoconnect_filename c) w1 = (Some (so_text E j), w2)"
    using st j(3) unfolding store_ok_def by (metis fst_conv prod.collapse snd_conv take_all)
  have sv: "list_all savable (cfg_dev c)"
    using ok names by (auto simp: savable_def cfg_ok_def config_ok_def list_all_iff)
  have jv: "j = JObj [(''autoconnect_num'', JInt (autoconnect_num c)), (''autoconnect_mode'', JInt (autoconnect_mode c)),
      (''devices'', JArr (map device_item (cfg_dev c)))]"
    using j(1) n by (simp add: config_json_def split: if_splits)
  have tx: "cstr (so_text E j) = so_text E j" using j(2) by (simp add: text_ok_def cstr_id)
  have num: "int (length (cfg_dev c)) \<ge> ROKIDOS_BT_AUTOCONNECT_DEVICES_MAX_NUM \<Longrightarrow>
      int (length (cfg_dev c)) = ROKIDOS_BT_AUTOCONNECT_DEVICES_MAX_NUM"
    using n(2) by (simp add: ROKIDOS_BT_AUTOCONNECT_DEVICES_MAX_NUM_def)
  let ?c = "c0\<lparr>autoconnect_mode := ROKIDOS_BT_AUTOCONNECT_MODE, cfg_dev := replicate (length (cfg_dev c)) zero_dev\<rparr>"
  have p: "parse_devices (so_text E) 0 (map device_item (cfg_dev c)) ?c =
      Some (?c\<lparr>cfg_dev := cfg_dev c, autoconnect_linknum := autoconnect_linknum c\<rparr>)"
    using parse_devices_items[OF sv, of ?c "[]" "so_text E"] c0(3) count_known_ok[OF cok] by simp
  have q: "(if autoconnect_num c \<ge> ROKIDOS_BT_AUTOCONNECT_DEVICES_MAX_NUM
      then d\<lparr>autoconnect_num := ROKIDOS_BT_AUTOCONNECT_DEVICES_MAX_NUM\<rparr> else d) = d"
    if "autoconnect_num d = autoconnect_num c" for d
    using that num n(1) by (cases d) auto
  show ?thesis
    using load tx j(2) p c0 n(1) q[of "c0\<lparr>autoconnect_mode := ROKIDOS_BT_AUTOCONNECT_MODE\<rparr>"]
    by (simp add: bt_autoconnect_config_init_def text_ok_def bt_config_parse_def jv Let_def history_def)
qed

definition lab_config :: autoconnect_config where
  "lab_config = zero_config\<lparr>autoconnect_num := 2, autoconnect_mode := ROKIDOS_BT_AUTOCONNECT_BY_HISTORY,
     autoconnect_linknum := 1, cfg_dev := [lab_dev 1, zero_dev]\<rparr>"

lemma lab_config_sel: "autoconnect_num lab_config = 2" "autoconnect_linknum lab_config = 1"
  "cfg_dev lab_config = [lab_dev 1, zero_dev]" "autoconnect_mode lab_config = ROKIDOS_BT_AUTOCONNECT_BY_HISTORY"
  "autoconnect_filename lab_config = []"
  by (simp_all add: lab_config_def zero_config_def)

lemma lab_config_ok: "cfg_ok lab_config"
  using lab_dev_known(1)[of 1]
  by (simp add: cfg_ok_def config_ok_def history_def lab_config_sel known_addr_def)
    (simp add: lab_dev_def DEV_NAME_LEN_def zero_addr_def)

theorem history_survives_restart_witness:
  "\<exists>c1 w2. bt_autoconnect_config_init (lab_store (\<lambda>j. ''x'') (\<lambda>t. the (config_json lab_config)))
      (zero_config\<lparr>autoconnect_num := 2\<rparr>) [([], ''x'')] = Some ((0, c1), w2) \<and>
    cfg_dev c1 = cfg_dev lab_config \<and> history c1 = history lab_config \<and>
    autoconnect_linknum c1 = autoconnect_linknum lab_config"
proof (rule history_survives_restart[where w = "[]"])
  show "cfg_ok lab_config" by (rule lab_config_ok)
  show "list_all (\<lambda>d. nul \<notin> set (dev_name d)) (cfg_dev lab_config)"
    by (simp add: lab_config_sel lab_dev_def nul_def)
  show "config_json lab_config = Some (the (config_json lab_config))"
    by (simp add: config_json_def lab_config_sel ROKIDOS_BT_AUTOCONNECT_DEVICES_MAX_NUM_def)
qed (simp_all add: text_ok_def store_ok_def lab_store_def nul_def bt_autoconnect_sync_def config_json_def lab_config_sel
    ROKIDOS_BT_AUTOCONNECT_DEVICES_MAX_NUM_def zero_config_def)

section \<open>The running service\<close>

definition lab_s0 :: "files bt_state" where "lab_s0 = snd (the (bt_main_start lab []))"

lemma lab_started: "bt_main_start lab [] = Some (0, lab_s0)"
  and lab_s0_cfg: "sink_config lab_s0 = snd (bt_config_newinit (zero_config\<lparr>autoconnect_num := 2,
    autoconnect_filename := ROKIDOS_BT_A2DPSINK_AUTOCONNECT_FILE\<rparr>))"
    "source_config lab_s0 = snd (bt_config_newinit (zero_config\<lparr>autoconnect_num := 1,
    autoconnect_filename := ROKIDOS_BT_A2DPSOURCE_AUTOCONNECT_FILE\<rparr>))"
proof -
  have "\<exists>s. bt_main_start lab [] = Some (0, s) \<and> sink_config s = snd (bt_config_newinit (zero_config\<lparr>autoconnect_num := 2,
      autoconnect_filename := ROKIDOS_BT_A2DPSINK_AUTOCONNECT_FILE\<rparr>)) \<and>
    source_config s = snd (bt_config_newinit (zero_config\<lparr>autoconnect_num := 1,
      autoconnect_filename := ROKIDOS_BT_A2DPSOURCE_AUTOCONNECT_FILE\<rparr>))"
    by (simp add: bt_main_start_def bluetooth_device_init_def bluetooth_device_create_def create_loop.simps
        bt_handle_init_def bt_autoconnect_config_init_def bt_a2dpsink_timer_init_def bt_a2dpsource_timer_init_def
        bx_eq bt_lab_def lab_store_def bt_open_def bt_close_def bcall_eq bt_handle_create_def Let_def bt_config_newinit_def
        zero_config_def ROKIDOS_BT_A2DPSINK_AUTOCONNECT_NUM_def ROKIDOS_BT_A2DPSOURCE_AUTOCONNECT_NUM_def)
  then show "bt_main_start lab [] = Some (0, lab_s0)"
    "sink_config lab_s0 = snd (bt_config_newinit (zero_config\<lparr>autoconnect_num := 2,
    autoconnect_filename := ROKIDOS_BT_A2DPSINK_AUTOCONNECT_FILE\<rparr>))"
    "source_config lab_s0 = snd (bt_config_newinit (zero_config\<lparr>autoconnect_num := 1,
    autoconnect_filename := ROKIDOS_BT_A2DPSOURCE_AUTOCONNECT_FILE\<rparr>))"
    by (auto simp: lab_s0_def)
qed

lemma newinit_cfg_ok:
  assumes "1 \<le> autoconnect_num c" and "autoconnect_num c \<le> 3"
  shows "cfg_ok (snd (bt_config_newinit c))"
  using newinit_ok(1)[OF assms]
  by (simp add: cfg_ok_def) (simp add: bt_config_newinit_def list_all_iff DEV_NAME_LEN_def ROKIDOS_BT_AUTOCONNECT_MODE_def)

lemma lab_reach: "bt_reach lab lab_s0"
  by (rule bt_reach.start[OF lab_started]) (simp_all add: lab_s0_cfg newinit_cfg_ok)

definition lab_s1 :: "files bt_state" where
  "lab_s1 = the (bt_step lab (Posted ''bluetooth.ble.command'' ''on'') lab_s0)"

lemma lab_parse_simps [simp]: "so_parse (b_store lab) = lab_parse" "so_text (b_store lab) = (\<lambda>j. [])"
  by (simp_all add: bt_lab_def lab_store_def)

lemma lab_reach1: "bt_reach lab lab_s1"
proof (rule bt_reach.step[OF lab_reach, of "Posted ''bluetooth.ble.command'' ''on''"])
  show i: "input_ok lab (Posted ''bluetooth.ble.command'' ''on'') lab_s0"
    by (simp add: input_ok_def request_ok_def lab_parse_def ble_request_ok_def jstr_def json_object_get_string_def
        cstr_def nul_def)
  show "bt_step lab (Posted ''bluetooth.ble.command'' ''on'') lab_s0 = Some lab_s1"
    using step_ok[OF reach_ok[OF lab_reach bt_lab_ok] bt_lab_ok i] by (auto simp: lab_s1_def succeeds_iff)
qed simp

lemma lab_s0_fresh: "fresh lab_s0" "\<not> bt_opened lab_s0" "bt_events lab_s0 = []"
  using main_start_fresh[OF lab_started] by (simp_all add: fresh_def)

lemma lab_s1_events: "bt_events lab_s1 = [(''bluetooth.ble.event'', JObj [(''state'', JStr ''opened'')])]"
  using lab_s0_fresh
  by (simp add: lab_s1_def bt_service_command_callback_def topic_handler_def handle_ble_handle_def with_command_def lab_parse_def
      jstr_def json_object_get_string_def ble_command_def bt_ble_on_prepare_def close_others_def bt_close_mask_profile_def
      bt_ble_on_def fresh_def cstr_def nul_def bt_open_def bx_eq bcall_eq Let_def answer_def report_bluetooth_information_def
      bt_lab_def lab_profile_def lab_store_def)

lemma lab_s1_status: "bt_status lab_s1 \<noteq> 0" "\<not> bt_mic lab_s1"
  using lab_s0_fresh
  by (simp_all add: lab_s1_def bt_service_command_callback_def topic_handler_def handle_ble_handle_def with_command_def lab_parse_def
      jstr_def json_object_get_string_def ble_command_def bt_ble_on_prepare_def close_others_def bt_close_mask_profile_def
      bt_ble_on_def fresh_def cstr_def nul_def bt_open_def bx_eq bcall_eq Let_def answer_def report_bluetooth_information_def
      bt_lab_def lab_profile_def lab_store_def BLE_STATUS_MASK_def set_flag_def)

lemma lab_sleep_ok: "input_ok lab (Posted ''module.sleep'' ''sleep'') s"
  by (simp add: input_ok_def request_ok_def lab_parse_def)





section \<open>Exclusive profiles\<close>

text \<open>The status has only bits of \<open>keep\<close>.\<close>

definition within :: "32 word \<Rightarrow> 'w bt_state \<Rightarrow> bool" where
  "within keep s \<longleftrightarrow> bt_status s AND NOT keep = 0"

lemma within_set [simp]: "k AND NOT keep = 0 \<Longrightarrow> within keep (s\<lparr>bt_status := set_flag st k\<rparr>) = (st AND NOT keep = 0)"
  by (simp add: within_def set_flag_def word_ao_dist)

lemma within_upd [simp]:
  "within keep (s\<lparr>bt_world := x1\<rparr>) = within keep s" "within keep (s\<lparr>ble_state := x2\<rparr>) = within keep s"
  "within keep (s\<lparr>sink := x3\<rparr>) = within keep s" "within keep (s\<lparr>source := x4\<rparr>) = within keep s"
  "within keep (s\<lparr>hfp := x5\<rparr>) = within keep s" "within keep (s\<lparr>e_connect_over := x6\<rparr>) = within keep s"
  "within keep (s\<lparr>es_connect_over := x7\<rparr>) = within keep s" "within keep (s\<lparr>e_auto_connect := x8\<rparr>) = within keep s"
  "within keep (s\<lparr>es_auto_connect := x9\<rparr>) = within keep s" "within keep (answer f r j s) = within keep s"
  "within keep (set_sink g s) = within keep s" "within keep (set_source h s) = within keep s"
  "within keep (set_sink_config c s) = within keep s" "within keep (set_source_config d s) = within keep s"
  "within keep (s\<lparr>e_play_command := x10\<rparr>) = within keep s" "within keep (s\<lparr>play_index := x11\<rparr>) = within keep s"
  "within keep (s\<lparr>sink_subsequent := x12\<rparr>) = within keep s" "within keep (s\<lparr>bt_scanning := x13\<rparr>) = within keep s"
  "within keep (snd (bt_open E s)) = within keep s"
  by (simp_all add: within_def set_sink_def set_source_def set_sink_config_def set_source_config_def)

lemma within_calls [simp]:
  "within keep (handle_a2dpsink_connect_subsequent E s) = within keep s" "within keep (bluetooth_autoconnect E s) = within keep s"
  "within keep (a2dpsource_bluetooth_autoconnect E s) = within keep s" "within keep (bt_hfp_connect E a s) = within keep s"
  "within keep (broadcast_hfp_state r s) = within keep s"
  by (auto simp: handle_a2dpsink_connect_subsequent_def bt_a2dp_sink_stop_def bt_a2dp_sink_pause_def bt_a2dp_sink_play_def
      playback_key_def bluetooth_autoconnect_def a2dpsource_bluetooth_autoconnect_def bt_hfp_connect_def bt_discovery_def
      broadcast_hfp_state_def device_nums split_beta split: subsequent.split option.split)

lemma on_within:
  assumes "bt_ok s" and "within keep s"
  shows "BLE_STATUS_MASK AND NOT keep = 0 \<Longrightarrow> succeeds (bt_ble_on E nm s) (within keep)"
    "A2DP_SINK_STATUS_MASK AND NOT keep = 0 \<Longrightarrow> succeeds (bt_a2dpsink_on E nm b d s) (within keep)"
    "A2DP_SOURCE_STATUS_MASK AND NOT keep = 0 \<Longrightarrow> succeeds (bt_a2dpsource_on E nm s) (within keep)"
    "HFP_STATUS_MASK AND NOT keep = 0 \<Longrightarrow> succeeds (bt_hfp_on E nm s) (within keep)"
proof -
  note cfg = bt_ok_cfg[OF assms(1)] and st = assms(2)[unfolded within_def]
  show "succeeds (bt_ble_on E nm s) (within keep)" if "BLE_STATUS_MASK AND NOT keep = 0"
    using assms(2) st that by (auto simp: bt_ble_on_def bx_eq bcall_eq split_beta Let_def)
  show "succeeds (bt_a2dpsink_on E nm b d s) (within keep)" if "A2DP_SINK_STATUS_MASK AND NOT keep = 0"
    using assms(2) st cfg that by (simp add: bt_a2dpsink_on_def bt_a2dpsink_enable_def bx_eq bcall_eq split_beta Let_def)
  show "succeeds (bt_a2dpsource_on E nm s) (within keep)" if "A2DP_SOURCE_STATUS_MASK AND NOT keep = 0"
    using assms(2) st cfg that by (simp add: bt_a2dpsource_on_def bt_a2dpsource_enable_def bx_eq bcall_eq split_beta Let_def)
  show "succeeds (bt_hfp_on E nm s) (within keep)" if "HFP_STATUS_MASK AND NOT keep = 0"
    using assms(2) st cfg that
    by (auto simp: bt_hfp_on_def bt_hfp_enable_def bx_eq bcall_eq split_beta Let_def cfg_ok_def config_ok_def)
qed

lemma close_others_within:
  assumes "bt_ok s" and "hal_ok E" and "json_object_object_get_ex obj ''unique'' = Some (JBool True)"
  shows "succeeds (close_others E obj keep s) (\<lambda>s'. bt_ok s' \<and> within keep s')"
  using close_mask_ok[OF assms(1,2), of "NOT keep"] assms(3)
  by (auto simp: close_others_def within_def and.assoc elim!: succeeds_mono)

text \<open>The profiles that stay, for the three requests that know the field \<open>unique\<close>.\<close>

definition exclusive_keep :: "(string \<times> 32 word) list" where
  "exclusive_keep = [(''bluetooth.ble.command'', BLE_STATUS_MASK),
     (''bluetooth.a2dpsink.command'', A2DP_SINK_STATUS_MASK OR HFP_STATUS_MASK),
     (''bluetooth.a2dpsource.command'', A2DP_SOURCE_STATUS_MASK)]"

lemma unique_commands:
  assumes ok: "bt_ok s" "hal_ok E" "no_null obj"
    and u: "json_object_object_get_ex obj ''unique'' = Some (JBool True)"
  shows "succeeds (ble_command E obj r ''ON'' s) (within BLE_STATUS_MASK)"
    "succeeds (a2dpsource_command E obj r ''ON'' s) (within A2DP_SOURCE_STATUS_MASK)"
    "succeeds (a2dpsink_command E obj r ''ON'' s) (within (A2DP_SINK_STATUS_MASK OR HFP_STATUS_MASK))"
proof -
  have z: "x AND NOT x = 0" for x :: "32 word" by simp
  obtain s1 where s1: "close_others E obj BLE_STATUS_MASK s = Some s1" "bt_ok s1" "within BLE_STATUS_MASK s1"
    using close_others_within[OF ok(1,2) u] unfolding succeeds_iff by blast
  then show "succeeds (ble_command E obj r ''ON'' s) (within BLE_STATUS_MASK)"
    using on_within(1)[OF s1(2,3) z] by (simp add: ble_command_def bt_ble_on_prepare_def)
  define t where "t = (if src_open (source s) = S_OPENED \<and> src_link (source s) \<noteq> L_CONNECTED
    then (set_source (\<lambda>k. k\<lparr>src_link := L_INVALID\<rparr>) s)\<lparr>es_connect_over := True\<rparr> else s)"
  have "bt_ok (snd (source_name E obj t))"
    using ok(1) by (simp add: t_def source_name_def bx_eq split_beta Let_def split: option.split)
  then obtain s2 where s2: "close_others E obj A2DP_SOURCE_STATUS_MASK (snd (source_name E obj t)) = Some s2" "bt_ok s2"
      "within A2DP_SOURCE_STATUS_MASK s2"
    using close_others_within[OF _ ok(2) u] unfolding succeeds_iff by blast
  then show "succeeds (a2dpsource_command E obj r ''ON'' s) (within A2DP_SOURCE_STATUS_MASK)"
    using on_within(3)[OF s2(2,3) z] unfolding a2dpsource_command_def Let_def t_def[symmetric]
    by (simp add: bt_a2dpsource_on_prepare_def split_beta)
  define k where "k = (if snk_open (sink s) = S_OPENED \<and> snk_link (sink s) \<noteq> L_CONNECTED
    then (set_sink (\<lambda>k. k\<lparr>snk_link := L_INVALID\<rparr>) s)\<lparr>e_connect_over := True\<rparr> else s)"
  let ?keep = "A2DP_SINK_STATUS_MASK OR HFP_STATUS_MASK"
  have m: "A2DP_SINK_STATUS_MASK AND NOT ?keep = 0" "HFP_STATUS_MASK AND NOT ?keep = 0" by (simp_all add: status_masks)
  have kok: "bt_ok (k\<lparr>sink_subsequent := x\<rparr>)" for x using ok(1) by (simp add: k_def)
  obtain hands where h: "wants_hfp E obj = Some hands" using wants_hfp_ok[OF ok(3)] by blast
  obtain s3 where s3: "bt_a2dpsink_on_prepare E obj k = Some s3" "bt_ok s3" "within ?keep s3"
    using close_others_within[OF kok ok(2) u, where keep = ?keep] field_string[OF ok(3), of "''subsequent''" _ E]
    unfolding bt_a2dpsink_on_prepare_def succeeds_iff
    by (cases "json_object_object_get_ex obj ''subsequent''") fastforce+
  obtain s4 where s4: "bt_a2dpsink_on E (request_name E obj (Some default_name)) (bool_field obj ''auto_connect'' True)
      (bool_field obj ''discoverable'' True) s3 = Some s4" "bt_ok s4" "within ?keep s4"
    using on_within(2)[OF s3(2,3) m(1)] sink_on_ok[OF s3(2)] unfolding succeeds_iff by (metis option.inject)
  then show "succeeds (a2dpsink_command E obj r ''ON'' s) (within ?keep)"
    using h s3(1) on_within(4)[OF s4(2,3) m(2)]
    unfolding a2dpsink_command_def sink_on_command_def Let_def k_def[symmetric] by simp
qed

text \<open>C24. An ON request with the field \<open>unique\<close> leaves no other profile enabled: BLE and the A2DP source
  stay alone, the A2DP sink keeps the hands-free profile.\<close>

theorem unique_on_exclusive:
  assumes "bt_reach E s" and "hal_ok E" and "request_ok E n (so_parse (b_store E) b) s"
    and "(n, keep) \<in> set exclusive_keep"
    and "json_object_object_get_ex (so_parse (b_store E) b) ''command'' = Some (JStr ''ON'')"
    and "json_object_object_get_ex (so_parse (b_store E) b) ''unique'' = Some (JBool True)"
  shows "\<exists>s'. bt_step E (Posted n b) s = Some s' \<and> bt_status s' AND NOT keep = 0"
proof -
  let ?obj = "so_parse (b_store E) b"
  have n: "no_null ?obj" using assms(3) by (simp add: request_ok_def)
  note cmds = unique_commands[OF reach_ok[OF assms(1,2)] assms(2) n assms(6), of False]
  have "?obj \<noteq> JNull" using assms(5) by auto
  then have c: "with_command E ?obj f s = map_option (Pair 0) (f ''ON'' s)" for f
    using assms(5) by (simp add: with_command_def jstr_def json_object_get_string_def cstr_def nul_def)
  have pair: "succeeds (map_option snd (map_option (Pair (0 :: int)) x)) Q = succeeds x Q" for x :: "'a bt_state option" and Q
    by (cases x) simp_all
  consider "n = ''bluetooth.ble.command''" "keep = BLE_STATUS_MASK"
    | "n = ''bluetooth.a2dpsink.command''" "keep = A2DP_SINK_STATUS_MASK OR HFP_STATUS_MASK"
    | "n = ''bluetooth.a2dpsource.command''" "keep = A2DP_SOURCE_STATUS_MASK"
    using assms(4) unfolding exclusive_keep_def by auto
  then have "succeeds (bt_step E (Posted n b) s) (within keep)"
    by cases (use cmds assms(5) in \<open>simp_all add: bt_service_command_callback_def topic_handler_def handle_ble_handle_def
      handle_a2dpsink_handle_def handle_a2dpsource_handle_def c pair\<close>)
  then show ?thesis by (auto simp: succeeds_iff within_def)
qed

theorem unique_on_exclusive_witness:
  "\<exists>s'. bt_step lab (Posted ''bluetooth.a2dpsource.command'' ''on'') lab_s1 = Some s' \<and>
    bt_status s' AND NOT A2DP_SOURCE_STATUS_MASK = 0"
  by (rule unique_on_exclusive[OF lab_reach1 bt_lab_ok])
    (simp_all add: request_ok_def lab_parse_def exclusive_keep_def)



end
