(* ===== verification/BtBleProps.thy ===== *)
theory BtBleProps
  imports BtProps
begin

text \<open>
  The BLE packets of the bluetooth service (a message that is cut into packets is reassembled),
  the packets that overrun its buffers, and the loop that opens the controller.
\<close>

section \<open>Reassembly\<close>

definition buf_holds :: "8 word list \<Rightarrow> int \<Rightarrow> 'w bt_state \<Rightarrow> bool" where
  "buf_holds pre mid s \<longleftrightarrow> ble_msgid s = mid \<and> ble_index s = int (length pre) \<and>
     ble_sendbuf s = pre @ replicate (SENDBUF_LEN - length pre) 0"

lemma packet_parts:
  fixes fin :: bool
  assumes "0 \<le> mid" and "mid \<le> 255" and "length chunk \<le> ROKID_BLE_DATA_LEN"
  defines "p \<equiv> rokid_packet mid fin chunk"
  defines "d \<equiv> p @ replicate (BLE_DATA_LEN - length p) 0"
  shows "length p \<le> BLE_DATA_LEN" "int (length p) - 3 = int (length chunk)" "uint (d ! 0) = mid"
    "bit (d ! 1) 7 = fin" "take (length chunk) (drop 3 d) = chunk" "length chunk \<le> length (drop 3 d)"
  using assms(1-3)
  by (auto simp: p_def d_def rokid_packet_def ROKID_BLE_DATA_LEN_def BLE_DATA_LEN_def word_of_int_inverse uint_word_of_int
      eval_nat_numeral)

lemma copy_append:
  assumes "length pre + length chunk \<le> SENDBUF_LEN" and "take (length chunk) src = chunk" and "length chunk \<le> length src"
  shows "copy_sendbuf (int (length pre)) src (int (length chunk)) (pre @ replicate (SENDBUF_LEN - length pre) 0)
    = Some ((pre @ chunk) @ replicate (SENDBUF_LEN - length (pre @ chunk)) 0)"
  using assms by (simp add: copy_sendbuf_def SENDBUF_LEN_def)

lemma recv_fragment:
  assumes h: "buf_holds pre mid s" and m: "0 \<le> mid" "mid \<le> 255" and c: "length chunk \<le> ROKID_BLE_DATA_LEN"
    and l: "length pre + length chunk \<le> 255"
  shows "\<exists>s'. rokid_recv_ble_data E (rokid_packet mid False chunk) s = Some s' \<and> buf_holds (pre @ chunk) mid s' \<and>
    bt_events s' = bt_events s"
proof -
  note p = packet_parts[OF m c, of False]
  have fits: "length pre + length chunk \<le> SENDBUF_LEN" using l by (simp add: SENDBUF_LEN_def)
  show ?thesis
    using h l p(1-4) copy_append[OF fits p(5,6)]
    by (simp add: rokid_recv_ble_data_def buf_holds_def Let_def)
qed

lemma byte_char_nul: "char_of (unat (b :: 8 word)) = nul \<longleftrightarrow> b = 0"
proof -
  have "unat b < 256" using unsigned_less[of b, where ?'a = nat] by simp
  then show ?thesis by (simp add: char_of_eq_iff nul_def take_bit_eq_mod unsigned_eq_0_iff)
qed

lemma cstr_bytes:
  assumes "0 \<notin> set data"
  shows "cstr (bytes_text (data @ replicate (Suc n) 0)) = bytes_text data"
proof -
  have "\<forall>c \<in> set (bytes_text data). c \<noteq> nul" using assms by (auto simp: bytes_text_def byte_char_nul)
  moreover have "bytes_text (data @ replicate (Suc n) 0) = bytes_text data @ nul # bytes_text (replicate n 0)"
    using byte_char_nul[of 0] by (simp add: bytes_text_def)
  ultimately show ?thesis by (simp add: cstr_def takeWhile_append2)
qed

lemma recv_final:
  assumes h: "buf_holds pre mid s" and m: "0 \<le> mid" "mid \<le> 255" and c: "length chunk \<le> ROKID_BLE_DATA_LEN"
    and l: "length pre + length chunk \<le> 511" and z: "0 \<notin> set (pre @ chunk)"
  shows "\<exists>s'. rokid_recv_ble_data E (rokid_packet mid True chunk) s = Some s' \<and> buf_holds [] mid s' \<and>
    bt_events s' = bt_events s @
      [(''bluetooth.ble.event'', JObj [(''data'', so_parse (b_store E) (bytes_text (pre @ chunk)))])]"
proof -
  note p = packet_parts[OF m c, of True]
  have fits: "length pre + length chunk \<le> SENDBUF_LEN" using l by (simp add: SENDBUF_LEN_def)
  obtain n where n: "SENDBUF_LEN - length (pre @ chunk) = Suc n"
    using l by (auto simp: SENDBUF_LEN_def intro: that[of "511 - length (pre @ chunk)"])
  show ?thesis
    using h p(1-4) copy_append[OF fits p(5,6)] cstr_bytes[OF z, of n] unfolding n
    by (simp add: rokid_recv_ble_data_def buf_holds_def report_recv_data_def report_bluetooth_information_def Let_def)
qed

text \<open>The packets of a message, received one after the other.  Fragments before the last one are 17
  bytes long, so that 15 of them fill the index up to 255.\<close>

lemma recv_packets:
  assumes "buf_holds pre mid s" and "0 \<le> mid" "mid \<le> 255" and "data \<noteq> []"
    and "length pre + length data \<le> 272" and "length pre mod 17 = 0" and "0 \<notin> set (pre @ data)"
  shows "\<exists>s'. insert_all (\<lambda>s p. rokid_recv_ble_data E p s) (rokid_packets mid data) s = Some s' \<and> buf_holds [] mid s' \<and>
    bt_events s' = bt_events s @
      [(''bluetooth.ble.event'', JObj [(''data'', so_parse (b_store E) (bytes_text (pre @ data)))])]"
  using assms
proof (induction mid data arbitrary: pre s rule: rokid_packets.induct)
  case (1 mid data)
  show ?case
  proof (cases "length data > ROKID_BLE_DATA_LEN")
    case True
    let ?c = "take ROKID_BLE_DATA_LEN data" and ?r = "drop ROKID_BLE_DATA_LEN data"
    have len: "length ?c = 17" "length data > 17" using True by (auto simp: ROKID_BLE_DATA_LEN_def)
    have "(length pre + 17) mod 17 = 0" "length pre + 17 < 272" using 1(6,7) len by auto
    then have "length pre + 17 \<le> 255" by presburger
    then obtain s1 where s1: "rokid_recv_ble_data E (rokid_packet mid False ?c) s = Some s1"
        "buf_holds (pre @ ?c) mid s1" "bt_events s1 = bt_events s"
      using recv_fragment[OF 1(2,3,4), of ?c E] len by (auto simp: ROKID_BLE_DATA_LEN_def)
    have "length (pre @ ?c) mod 17 = 0" "length (pre @ ?c) + length ?r \<le> 272" "?r \<noteq> []"
        "0 \<notin> set ((pre @ ?c) @ ?r)" "(pre @ ?c) @ ?r = pre @ data"
      using 1(6-8) len True \<open>(length pre + 17) mod 17 = 0\<close> by (simp_all add: append_assoc)
    then show ?thesis
      using 1(1)[OF 1(5) True s1(2) 1(3,4)] s1 1(5) True
      by (subst rokid_packets.simps) simp
  next
    case False
    then show ?thesis
      using recv_final[OF 1(2,3,4), of data E] 1(5-8) by (subst rokid_packets.simps) (auto simp: ROKID_BLE_DATA_LEN_def)
  qed
qed

lemma recv_reset:
  assumes "0 \<le> mid" and "mid \<le> 255" and "length chunk \<le> ROKID_BLE_DATA_LEN" and "ble_msgid s \<noteq> mid"
  shows "rokid_recv_ble_data E (rokid_packet mid fin chunk) s = rokid_recv_ble_data E (rokid_packet mid fin chunk)
    (s\<lparr>ble_sendbuf := replicate SENDBUF_LEN 0, ble_index := 0, ble_msgid := mid\<rparr>)"
  using packet_parts(3)[OF assms(1-3), of fin] assms(4) by (simp add: rokid_recv_ble_data_def Let_def)

text \<open>C26. A message of up to 272 bytes without a zero byte that is sent in packets with a new message
  number is reassembled by the receiver: exactly one event is posted, with the JSON value of the
  whole text, and the receiver is ready for the next message.\<close>

theorem ble_message_reassembled:
  assumes "0 \<le> mid" and "mid \<le> 255" and "ble_msgid s \<noteq> mid" and "data \<noteq> []" and "length data \<le> 272" and "0 \<notin> set data"
  shows "\<exists>s'. insert_all (\<lambda>s p. rokid_recv_ble_data E p s) (rokid_packets mid data) s = Some s' \<and>
    bt_events s' = bt_events s @ [(''bluetooth.ble.event'', JObj [(''data'', so_parse (b_store E) (bytes_text data))])] \<and>
    ble_index s' = 0 \<and> ble_sendbuf s' = replicate SENDBUF_LEN 0"
proof -
  define s0 where "s0 = s\<lparr>ble_sendbuf := replicate SENDBUF_LEN 0, ble_index := 0, ble_msgid := mid\<rparr>"
  have h: "buf_holds [] mid s0" "bt_events s0 = bt_events s" by (simp_all add: s0_def buf_holds_def)
  obtain fin chunk ps where p: "rokid_packets mid data = rokid_packet mid fin chunk # ps" "length chunk \<le> ROKID_BLE_DATA_LEN"
    using assms(4) that rokid_packets.simps[of mid data]
    by (cases "length data > ROKID_BLE_DATA_LEN") (auto simp: ROKID_BLE_DATA_LEN_def)
  have "insert_all (\<lambda>s p. rokid_recv_ble_data E p s) (rokid_packets mid data) s
      = insert_all (\<lambda>s p. rokid_recv_ble_data E p s) (rokid_packets mid data) s0"
    using recv_reset[OF assms(1,2) p(2) assms(3), of E fin] by (simp add: p(1) s0_def)
  then show ?thesis
    using recv_packets[OF h(1) assms(1,2,4), of E] assms(5,6) h(2) by (auto simp: buf_holds_def)
qed

theorem ble_message_reassembled_witness:
  "\<exists>s'. insert_all (\<lambda>s p. rokid_recv_ble_data (bt_lab (\<lambda>j. []) JStr) p s) (rokid_packets 7 (replicate 20 65))
      (bt_handle_create []) = Some s' \<and>
    bt_events s' = [(''bluetooth.ble.event'', JObj [(''data'', JStr (bytes_text (replicate 20 65)))])] \<and>
    ble_index s' = 0 \<and> ble_sendbuf s' = replicate SENDBUF_LEN 0"
  using ble_message_reassembled[of 7 "bt_handle_create []" "replicate 20 65" "bt_lab (\<lambda>j. []) JStr"]
  by (simp add: bt_handle_create_def bt_lab_def lab_store_def)

section \<open>Packets that overrun the buffers\<close>

lemma short_no_handshake:
  assumes "n = 1 \<or> n = 2" and "length xs = n"
  shows "take 8 ((xs @ replicate (255 - n) 0)[254 := 0]) \<noteq> handshake"
proof
  assume "take 8 ((xs @ replicate (255 - n) 0)[254 := 0]) = handshake"
  then have "((xs @ replicate (255 - n) 0)[254 := 0]) ! 2 = handshake ! 2" by (metis nth_take numeral_less_iff semiring_norm(76,78))
  then show False using assms by (auto simp: nth_append handshake_def text_bytes_def)
qed

lemma recv_bad_length:
  assumes "length buf < 3 \<or> length buf > BLE_DATA_LEN"
  shows "rokid_recv_ble_data E buf s = None"
proof (cases "length buf > BLE_DATA_LEN")
  case False
  then have "int (length buf) - 3 < 0" using assms by auto
  then have "copy_sendbuf i src (int (length buf) - 3) b = None" for i src b by (simp add: copy_sendbuf_def)
  then show ?thesis using False unfolding rokid_recv_ble_data_def Let_def by simp
qed (simp add: rokid_recv_ble_data_def)

text \<open>C27. A write of the BLE peer to the data characteristic that is shorter than the packet header or
  longer than a packet, and is no handshake, makes the service copy with a negative length or past
  the end of the packet on its stack.\<close>

theorem ble_bad_length_overflows:
  assumes "ble_state s < BLE_STATE_CLOSE" and u: "sw_uuid m = BLE_DATA_CHARACTER"
    and v: "sw_offset m + min (sw_len m) 255 \<le> length (sw_value m)"
    and l: "sw_len m = 1 \<or> sw_len m = 2 \<or> sw_len m > BLE_DATA_LEN"
    and h: "take 8 (drop (sw_offset m) (sw_value m)) \<noteq> handshake"
  shows "ble_listener E (BT_BLE_SE_WRITE_EVT (Some m)) s = None"
proof -
  let ?n = "min (sw_len m) 255"
  let ?xs = "take ?n (drop (sw_offset m) (sw_value m))"
  let ?buf = "(?xs @ replicate (255 - ?n) 0)[254 := 0]"
  have len: "length ?xs = ?n" using v by simp
  have no: "take 8 ?buf \<noteq> handshake"
  proof (cases "sw_len m > BLE_DATA_LEN")
    case True
    then have "take 8 ?buf = take 8 ?xs" using len by (simp add: BLE_DATA_LEN_def take_update_cancel)
    also have "\<dots> = take 8 (drop (sw_offset m) (sw_value m))" using True by (simp add: BLE_DATA_LEN_def)
    finally show ?thesis using h by simp
  next
    case False
    then show ?thesis using l short_no_handshake[of ?n ?xs] len by auto
  qed
  have "rokid_recv_ble_data E (take ?n ?buf) s = None"
    using l len by (intro recv_bad_length) (auto simp: BLE_DATA_LEN_def)
  then show ?thesis using assms(1) u v l no by (auto simp: ble_write_evt_def Let_def BLE_DATA_LEN_def)
qed

theorem ble_bad_length_overflows_witness:
  "ble_listener lab (BT_BLE_SE_WRITE_EVT (Some \<lparr>sw_uuid = BLE_DATA_CHARACTER, sw_offset = 0, sw_len = 21,
     sw_value = replicate 21 0\<rparr>)) (bt_handle_create []) = None"
  by (rule ble_bad_length_overflows)
    (simp_all add: bt_handle_create_def rank_simps BLE_DATA_LEN_def handshake_def text_bytes_def eval_nat_numeral)

section \<open>Opening the controller at start-up\<close>

text \<open>The world in which attempt \<open>n\<close> opens the controller, and the world \<open>k\<close> attempts after attempt \<open>n\<close>.
  From the fourth attempt on the BSA server is restarted first.\<close>

definition retry_world :: "'w bt_ops \<Rightarrow> nat \<Rightarrow> 'w \<Rightarrow> 'w" where
  "retry_world E n w = (if n > 2 then snd (b_system E RESTART_BSA_SERVER w) else w)"

fun attempt_world :: "'w bt_ops \<Rightarrow> nat \<Rightarrow> 'w \<Rightarrow> nat \<Rightarrow> 'w" where
  "attempt_world E n w 0 = retry_world E n w"
| "attempt_world E n w (Suc k) = attempt_world E (Suc n) (snd (b_open E (retry_world E n w))) k"

lemma create_loop_unfold:
  assumes "\<not> bt_opened s" and w: "w = retry_world E n (bt_world s)"
  shows "create_loop E n s =
    (if fst (b_open E w) \<noteq> 0 then create_loop E (Suc n) (s\<lparr>bt_world := snd (b_open E w)\<rparr>)
     else Some (0, bt_close E (s\<lparr>bt_world := snd (b_open E w), bt_opened := True\<rparr>)))"
  using assms(1) by (subst create_loop.simps) (simp add: w retry_world_def bt_open_def bx_eq bcall_eq Let_def)

lemma create_loop_success:
  "\<not> bt_opened s \<Longrightarrow> fst (b_open E (attempt_world E n (bt_world s) k)) = 0 \<Longrightarrow> \<exists>r. create_loop E n s = Some r"
proof (induction k arbitrary: n s)
  case (Suc k)
  then show ?case
    using Suc.IH[of "s\<lparr>bt_world := snd (b_open E (retry_world E n (bt_world s)))\<rparr>" "Suc n"]
    by (simp add: create_loop_unfold[OF _ refl])
qed (simp add: create_loop_unfold[OF _ refl])

lemma create_loop_needs_success:
  assumes "create_loop E n s = Some r" and "\<not> bt_opened s"
  shows "\<exists>k. fst (b_open E (attempt_world E n (bt_world s) k)) = 0"
proof -
  let ?P = "\<lambda>E n (s :: 'a bt_state) r. \<not> bt_opened s \<longrightarrow> (\<exists>k. fst (b_open E (attempt_world E n (bt_world s) k)) = 0)"
  have "?P E n s r"
  proof (rule create_loop.raw_induct[of ?P, OF _ assms(1)], intro impI, goal_cases)
    case (1 f E n s r)
    let ?w = "retry_world E n (bt_world s)"
    show ?case
    proof (cases "fst (b_open E ?w) = 0")
      case False
      then have "f E (Suc n) (s\<lparr>bt_world := snd (b_open E ?w)\<rparr>) = Some r"
        using 1(2,3) by (auto simp: retry_world_def bt_open_def bx_eq bcall_eq Let_def split: if_splits)
      then obtain k where "fst (b_open E (attempt_world E (Suc n) (snd (b_open E ?w)) k)) = 0"
        using 1(1)[of E "Suc n" "s\<lparr>bt_world := snd (b_open E ?w)\<rparr>" r] 1(3) by auto
      then show ?thesis by (intro exI[of _ "Suc k"]) simp
    qed (auto intro: exI[of _ 0])
  qed
  then show ?thesis using assms(2) by simp
qed

text \<open>Creating the bluetooth device returns exactly when one of the attempts to open the controller
  succeeds: there is no limit on the number of attempts, and a controller that never opens blocks
  the start of the service.\<close>

theorem bt_create_returns_iff:
  assumes "\<not> bt_present s" and "\<not> bt_opened s" and "b_creat E (bt_world s) = (0, w)"
  shows "(\<exists>r. bluetooth_device_create E s = Some r) \<longleftrightarrow> (\<exists>k. fst (b_open E (attempt_world E 0 w k)) = 0)"
  using assms create_loop_success[of "s\<lparr>bt_world := w, bt_present := True\<rparr>" E 0]
    create_loop_needs_success[of E 0 "s\<lparr>bt_world := w, bt_present := True\<rparr>"]
  by (auto simp: bluetooth_device_create_def bx_eq)

lemma lab_create:
  "\<not> bt_present (bt_handle_create [])" "\<not> bt_opened (bt_handle_create [])" "bt_world (bt_handle_create []) = []"
  "b_creat lab w = (0, w)" "fst (b_open lab w) = 0"
  by (simp_all add: bt_handle_create_def bt_lab_def)

theorem bt_create_returns_iff_witness:
  "(\<exists>r. bluetooth_device_create lab (bt_handle_create []) = Some r) \<and>
   bluetooth_device_create (lab\<lparr>b_open := \<lambda>w. (-1, w)\<rparr>) (bt_handle_create []) = None"
  using bt_create_returns_iff[of "bt_handle_create []" lab "[]"]
    bt_create_returns_iff[of "bt_handle_create []" "lab\<lparr>b_open := \<lambda>w. (-1, w)\<rparr>" "[]"]
  by (simp add: lab_create) (metis option.exhaust surj_pair)

section \<open>Further defects\<close>

text \<open>The indicator of a held call next to an active one is stored as the indicator of a held call.\<close>

lemma held_falls_through: "ciev_update 10 h = ciev_update 11 h"
  by (simp add: ciev_update_def)

text \<open>A request for the state of BLE before the profile was used has no name to print.\<close>

lemma ble_getstate_crashes:
  assumes "ble_state s = BLE_INIVATE"
  shows "handle_ble_handle E (JObj [(''command'', JStr ''GETSTATE'')]) r s = None"
  using assms by (simp add: handle_ble_handle_def with_command_def jstr_def json_object_get_string_def cstr_def nul_def
      ble_command_def broadcast_ble_state_def)

text \<open>A package of the second protocol that does not fit the buffer is copied all the same.\<close>

lemma cmcc_overflows:
  assumes "cmcc_pkgs s > 0" and "cmcc_index s + int n > int (length (ble_sendbuf s))" and "take 5 buf \<noteq> text_bytes ''size:''"
  shows "rokid_recv_ble_data_cmcc E buf n s = None"
  using assms by (auto simp: rokid_recv_ble_data_cmcc_def copy_sendbuf_def)

text \<open>Removing the zero address removes a free entry and counts one device less.\<close>

lemma remove_zero_miscounts:
  "bt_autoconnect_remove lab_config zero_addr = Some (0, lab_config\<lparr>autoconnect_linknum := 0\<rparr>)"
  using lab_dev_known(1)[of 1]
  by (simp add: bt_autoconnect_remove_def bt_autoconnect_get_index_def lab_config_sel known_addr_def eval_nat_numeral Let_def)

text \<open>The search for a known device stops at a free entry: the timer is not armed again and the search
  is never declared over.\<close>

lemma autoconnect_stalls:
  assumes "fst (fst (p_connected (b_sink E) 1 (bt_world s))) = 0"
    and "autoconnect_flag (sink_config s) = AUTOCONNECT_BY_HISTORY_WORK"
    and "0 \<le> autoconnect_index (sink_config s)" "autoconnect_index (sink_config s) < autoconnect_num (sink_config s)"
    and "nat (autoconnect_index (sink_config s)) < length (cfg_dev (sink_config s))"
    and "dev_addr (cfg_dev (sink_config s) ! nat (autoconnect_index (sink_config s))) = zero_addr"
  shows "\<exists>s'. bt_step E T_auto_connect s = Some s' \<and> \<not> e_auto_connect s' \<and>
    autoconnect_flag (sink_config s') = AUTOCONNECT_BY_HISTORY_WORK"
  using assms by (simp add: auto_connect_by_history_index_def device_nums split_beta set_sink_config_def)

end
