(* ===== verification/ModemTty.thy ===== *)
theory ModemTty
  imports JsonModel
begin

text \<open>
  The HAL module of the modem (\<open>src/hardware/modules/modem/modem_tty_hw.c\<close>): it looks up the USB
  modem in \<open>/etc/modem/modems.json\<close>, reads the AT commands of that modem from its JSON file, and
  exchanges AT commands over a serial line.  The static variables of the module are the record
  \<open>modem_hal\<close>; the serial line, libusb, the files and \<open>system()\<close> are the record \<open>tty_ops\<close>.  The mutex
  around an exchange and the log messages are left out.
\<close>

section \<open>State\<close>

definition MAX_LEN :: nat where "MAX_LEN = 64"
definition MAX_TTY_LEN :: nat where "MAX_TTY_LEN = 4096"
definition MAX_USB_LIST_LEN :: int where "MAX_USB_LIST_LEN = 32"
definition MAX_REPEAT_TIMES :: nat where "MAX_REPEAT_TIMES = 6"
definition AT_CMD_RESULT_OK :: string where "AT_CMD_RESULT_OK = ''OK''"
definition MODEM_TTY_DEV :: string where "MODEM_TTY_DEV = ''/dev/ttyACM1''"
definition MODEM_INFO_DIR :: string where "MODEM_INFO_DIR = ''/etc/modem/''"
definition MODEM_MODULE_FILE :: string where "MODEM_MODULE_FILE = ''modems.json''"

record usb_st =
  us_pid :: "16 word"
  us_vid :: "16 word"

record usb_json_idx =
  uj_vid :: "16 word"
  uj_pid :: "16 word"
  uj_name :: string
  uj_file :: string

text \<open>An array of commands: the entries behind the pointer, which may be NULL.  An entry of 64 bytes
  whose text was not terminated is \<open>None\<close>.\<close>

record at_array =
  arr_total :: int
  arr_p :: "string option list option"

record at_json =
  at_name :: string
  at_state :: string
  at_strength :: string
  at_type :: string
  at_vendor :: string
  at_eth :: string
  at_on :: at_array
  at_off :: at_array

record 'w modem_hal =
  mh_world :: 'w
  tty_fd :: int
  at_cmds :: at_json
  tty_buf :: string
  modem_log_level :: int

record vendor_info =
  vi_vendor :: string
  vi_type :: string
  vi_version :: string

text \<open>The serial line (\<open>to_read\<close> gives the bytes \<open>read\<close> stores, or \<open>None\<close> for an error or the end of the
  input), libusb (the number of devices, and the descriptor of each or \<open>None\<close>), and \<open>to_stack\<close>, the value
  an uninitialised variable happens to have.\<close>

record 'w tty_ops =
  to_write :: "int \<Rightarrow> string \<Rightarrow> 'w \<Rightarrow> int \<times> 'w"
  to_select :: "int \<Rightarrow> 'w \<Rightarrow> int \<times> 'w"
  to_read :: "int \<Rightarrow> nat \<Rightarrow> 'w \<Rightarrow> string option \<times> 'w"
  to_usb :: "'w \<Rightarrow> (int \<times> usb_st option list) \<times> 'w"
  to_file :: "string \<Rightarrow> 'w \<Rightarrow> json option \<times> 'w"
  to_text :: "json \<Rightarrow> string"
  to_property :: "string \<Rightarrow> string \<Rightarrow> 'w \<Rightarrow> string \<times> 'w"
  to_open :: "string \<Rightarrow> 'w \<Rightarrow> int \<times> 'w"
  to_setattr :: "int \<Rightarrow> 'w \<Rightarrow> int \<times> 'w"
  to_close :: "int \<Rightarrow> 'w \<Rightarrow> int \<times> 'w"
  to_system :: "string \<Rightarrow> 'w \<Rightarrow> int \<times> 'w"
  to_stack :: "'w \<Rightarrow> int"

definition mext :: "('w \<Rightarrow> 'a \<times> 'w) \<Rightarrow> 'w modem_hal \<Rightarrow> 'a \<times> 'w modem_hal" where
  "mext f h = (let (r, w) = f (mh_world h) in (r, h\<lparr>mh_world := w\<rparr>))"

lemma mext_eq: "mext f h = (fst (f (mh_world h)), h\<lparr>mh_world := snd (f (mh_world h))\<rparr>)"
  by (simp add: mext_def split: prod.split)

text \<open>The property is read into 64 bytes.\<close>

definition modem_set_bug_level :: "'w tty_ops \<Rightarrow> 'w modem_hal \<Rightarrow> 'w modem_hal option" where
  "modem_set_bug_level E h =
     (let (v, h) = mext (to_property E ''persist.rokid.debug.modem'' ''0'') h in
      if length v \<ge> 64 then None
      else Some (if atoi v > 0 then h\<lparr>modem_log_level := atoi v\<rparr> else h))"

section \<open>Exchanging commands\<close>

text \<open>\<open>recv\<close> is the receive buffer.  A failed \<open>read\<close> sets the result to -1, but the next statement sets
  it to 0 again.\<close>

definition xfer_tty_cmd :: "'w tty_ops \<Rightarrow> int \<Rightarrow> string \<Rightarrow> string \<Rightarrow> 'w \<Rightarrow> (int \<times> string) \<times> 'w" where
  "xfer_tty_cmd E fd send recv w =
     (let (iret, w) = to_write E fd send w in
      if iret < 0 then ((-1, recv), w)
      else let (n, w) = to_select E fd w in
        if n \<le> 0 then ((-1, recv), w)
        else let (bs, w) = to_read E fd (length recv - 1) w in
          (case bs of
             None \<Rightarrow> ((0, recv), w)
           | Some bs \<Rightarrow> let bs = take (length recv - 1) bs in ((0, bs @ drop (length bs) recv), w)))"

text \<open>The loop both senders share: the buffer is cleared before every attempt.\<close>

fun send_loop :: "'w tty_ops \<Rightarrow> nat \<Rightarrow> int \<Rightarrow> string \<Rightarrow> string \<Rightarrow> 'w \<Rightarrow> (int \<times> string) \<times> 'w" where
  "send_loop E 0 fd cmd recv w = ((-1, recv), w)"
| "send_loop E (Suc n) fd cmd recv w =
     (let ((r, b), w) = xfer_tty_cmd E fd cmd (replicate (length recv) nul) w in
      if r = 0 \<and> contains (cstr b) AT_CMD_RESULT_OK then ((0, b), w) else send_loop E n fd cmd b w)"

definition modem_send_cmd_for_result ::
  "'w tty_ops \<Rightarrow> int \<Rightarrow> string \<Rightarrow> string \<Rightarrow> 'w \<Rightarrow> (int \<times> string) \<times> 'w" where
  "modem_send_cmd_for_result E fd cmd recv w = send_loop E MAX_REPEAT_TIMES fd cmd recv w"

definition modem_send_cmd_for_status :: "'w tty_ops \<Rightarrow> int \<Rightarrow> string \<Rightarrow> 'w modem_hal \<Rightarrow> int \<times> 'w modem_hal" where
  "modem_send_cmd_for_status E fd cmd h =
     (let ((r, b), w) = send_loop E MAX_REPEAT_TIMES fd cmd (tty_buf h) (mh_world h)
      in (r, h\<lparr>tty_buf := b, mh_world := w\<rparr>))"

text \<open>The frame of the three queries: the answer is left in \<open>tty_buf\<close>.\<close>

definition at_query :: "'w tty_ops \<Rightarrow> string \<Rightarrow> 'w modem_hal \<Rightarrow> int \<times> 'w modem_hal" where
  "at_query E cmd h =
     (let ((r, b), w) = modem_send_cmd_for_result E (tty_fd h) cmd (replicate (length (tty_buf h)) nul) (mh_world h)
      in (r, h\<lparr>tty_buf := b, mh_world := w\<rparr>))"

section \<open>Configuration files\<close>

definition ls_usb_device :: "int \<Rightarrow> usb_st option list \<Rightarrow> usb_st list" where
  "ls_usb_device list_len ds =
     (if list_len = 0 \<or> list_len > MAX_USB_LIST_LEN then []
      else case those (take (nat list_len) ds) of None \<Rightarrow> [] | Some us \<Rightarrow> us)"

definition get_usb_pid_vid_list :: "'w tty_ops \<Rightarrow> 'w \<Rightarrow> usb_st list \<times> 'w" where
  "get_usb_pid_vid_list E w = (let ((n, ds), w) = to_usb E w in (ls_usb_device n ds, w))"

text \<open>The macros: a missing key leaves the target, a JSON null is a NULL string.\<close>

definition json_store_string :: "(json \<Rightarrow> string) \<Rightarrow> string \<Rightarrow> json \<Rightarrow> string \<Rightarrow> string option" where
  "json_store_string txt dst obj key =
     (case json_object_object_get_ex obj key of
        None \<Rightarrow> Some dst
      | Some j \<Rightarrow> map_option (take (MAX_LEN - 1)) (json_object_get_string txt j))"

definition json_store_uint16 :: "(json \<Rightarrow> string) \<Rightarrow> 16 word \<Rightarrow> json \<Rightarrow> string \<Rightarrow> 16 word option" where
  "json_store_uint16 txt dst obj key =
     (case json_object_object_get_ex obj key of
        None \<Rightarrow> Some dst
      | Some j \<Rightarrow> map_option (\<lambda>s. word_of_int (strtol s 16)) (json_object_get_string txt j))"

definition usb_entry :: "(json \<Rightarrow> string) \<Rightarrow> json \<Rightarrow> usb_json_idx option" where
  "usb_entry txt obj = do {
     vid \<leftarrow> json_store_uint16 txt 0 obj ''VID'';
     pid \<leftarrow> json_store_uint16 txt 0 obj ''PID'';
     name \<leftarrow> json_store_string txt [] obj ''MODULE'';
     file \<leftarrow> json_store_string txt [] obj ''FILE'';
     Some \<lparr>uj_vid = vid, uj_pid = pid, uj_name = name, uj_file = file\<rparr>
   }"

text \<open>The result \<open>None\<close> inside is the return value -1; \<open>json_object_array_length\<close> is not defined for values
  that are no array.\<close>

definition json_parse_module_file :: "'w tty_ops \<Rightarrow> 'w \<Rightarrow> (usb_json_idx list option \<times> 'w) option" where
  "json_parse_module_file E w =
     (let (head, w) = to_file E (MODEM_INFO_DIR @ MODEM_MODULE_FILE) w in
      case head of
        None \<Rightarrow> Some (None, w)
      | Some obj \<Rightarrow> (case json_object_object_get_ex obj ''USB'' of
          None \<Rightarrow> Some (None, w)
        | Some (JArr js) \<Rightarrow>
            if js = [] then Some (None, w)
            else map_option (\<lambda>es. (Some es, w)) (those (map (usb_entry (to_text E)) js))
        | Some _ \<Rightarrow> None))"

text \<open>The inner \<open>break\<close> leaves only the inner loop: the last entry that matches a device is taken.\<close>

definition find_json_idx_by_usb :: "'w tty_ops \<Rightarrow> 'w \<Rightarrow> (usb_json_idx option \<times> 'w) option" where
  "find_json_idx_by_usb E w = do {
     let (us, w) = get_usb_pid_vid_list E w;
     (es, w) \<leftarrow> json_parse_module_file E w;
     Some (case es of
         None \<Rightarrow> None
       | Some es \<Rightarrow> foldl (\<lambda>r e. if \<exists>u \<in> set us. uj_vid e = us_vid u \<and> uj_pid e = us_pid u then Some e else r) None es, w)
   }"

text \<open>\<open>strncpy\<close> of 63 bytes into an entry of 64 bytes that was not cleared (the \<open>memset\<close> before it clears
  \<open>sizeof(int)\<close> bytes of the whole array): the entry is terminated only by the padding.\<close>

definition array_entry :: "string \<Rightarrow> string option" where
  "array_entry s = (if length s < MAX_LEN - 1 then Some s else None)"

definition json_store_string_array :: "(json \<Rightarrow> string) \<Rightarrow> at_array \<Rightarrow> string \<Rightarrow> json \<Rightarrow> (int \<times> at_array) option" where
  "json_store_string_array txt a key obj =
     (case json_object_object_get_ex obj key of
        None \<Rightarrow> Some (-1, a)
      | Some (JArr js) \<Rightarrow> do {
          ss \<leftarrow> those (map (json_object_get_string txt) js);
          Some (0, \<lparr>arr_total = int (length js), arr_p = (if js = [] then None else Some (map array_entry ss))\<rparr>)
        }
      | Some _ \<Rightarrow> None)"

definition store_at_strings :: "(json \<Rightarrow> string) \<Rightarrow> json \<Rightarrow> at_json \<Rightarrow> at_json option" where
  "store_at_strings txt obj a = do {
     x \<leftarrow> json_store_string txt (at_name a) obj ''MODULE''; let a = a\<lparr>at_name := x\<rparr>;
     x \<leftarrow> json_store_string txt (at_state a) obj ''STATE''; let a = a\<lparr>at_state := x\<rparr>;
     x \<leftarrow> json_store_string txt (at_strength a) obj ''STRENGTH''; let a = a\<lparr>at_strength := x\<rparr>;
     x \<leftarrow> json_store_string txt (at_type a) obj ''TYPE''; let a = a\<lparr>at_type := x\<rparr>;
     x \<leftarrow> json_store_string txt (at_vendor a) obj ''VENDOR''; let a = a\<lparr>at_vendor := x\<rparr>;
     x \<leftarrow> json_store_string txt (at_eth a) obj ''ETH''; Some (a\<lparr>at_eth := x\<rparr>)
   }"

text \<open>What is read of the file of the modem, once it is found.\<close>

definition parse_at_object :: "(json \<Rightarrow> string) \<Rightarrow> string \<Rightarrow> json \<Rightarrow> at_json \<Rightarrow> (int \<times> at_json) option" where
  "parse_at_object txt name obj a =
     (case json_object_object_get_ex obj ''MODULE'' of
        None \<Rightarrow> Some (-1, a)
      | Some j \<Rightarrow> do {
          m \<leftarrow> json_object_get_string txt j;
          if name \<noteq> m then Some (-1, a)
          else do {
            (r, x) \<leftarrow> json_store_string_array txt (at_on a) ''ON'' obj;
            let a = a\<lparr>at_on := x\<rparr>;
            if r \<noteq> 0 then Some (-1, a)
            else do {
              (r, x) \<leftarrow> json_store_string_array txt (at_off a) ''OFF'' obj;
              let a = a\<lparr>at_off := x\<rparr>;
              if r \<noteq> 0 then Some (-1, a)
              else do { a \<leftarrow> store_at_strings txt obj a; Some (0, a) }
            }
          }
        })"

definition json_parse_at_file :: "'w tty_ops \<Rightarrow> 'w modem_hal \<Rightarrow> (int \<times> 'w modem_hal) option" where
  "json_parse_at_file E h = do {
     (idx, w) \<leftarrow> find_json_idx_by_usb E (mh_world h);
     case idx of
       None \<Rightarrow> Some (-1, h\<lparr>mh_world := w\<rparr>)
     | Some idx \<Rightarrow> do {
         let (head, h) = mext (to_file E (take 127 (MODEM_INFO_DIR @ uj_file idx))) (h\<lparr>mh_world := w\<rparr>);
         case head of
           None \<Rightarrow> Some (-1, h)
         | Some obj \<Rightarrow> do {
             (r, a) \<leftarrow> parse_at_object (to_text E) (uj_name idx) obj (at_cmds h);
             Some (r, h\<lparr>at_cmds := a\<rparr>)
           }
       }
   }"

section \<open>Operations of the device\<close>

text \<open>Entry \<open>i\<close> of an array: when the array is NULL, the address of entry 0 is NULL and is skipped, and
  that of another entry is not.\<close>

definition at_entry :: "at_array \<Rightarrow> nat \<Rightarrow> string option option" where
  "at_entry a i =
     (case arr_p a of
        None \<Rightarrow> if i = 0 then Some None else None
      | Some es \<Rightarrow> if i < length es then map_option Some (es ! i) else None)"

fun send_entries :: "'w tty_ops \<Rightarrow> at_array \<Rightarrow> nat list \<Rightarrow> 'w modem_hal \<Rightarrow> (int \<times> 'w modem_hal) option" where
  "send_entries E a [] h = Some (0, h)"
| "send_entries E a (i # is) h = do {
     e \<leftarrow> at_entry a i;
     case e of
       None \<Rightarrow> send_entries E a is h
     | Some cmd \<Rightarrow> let (r, h) = modem_send_cmd_for_status E (tty_fd h) cmd h in
         if r \<noteq> 0 then Some (-1, h) else send_entries E a is h
   }"

definition modem_on :: "'w tty_ops \<Rightarrow> 'w modem_hal \<Rightarrow> (int \<times> 'w modem_hal) option" where
  "modem_on E h = (let a = at_on (at_cmds h) in send_entries E a [0..<nat (arr_total a)] h)"

definition modem_off :: "'w tty_ops \<Rightarrow> 'w modem_hal \<Rightarrow> (int \<times> 'w modem_hal) option" where
  "modem_off E h = (let a = at_off (at_cmds h) in send_entries E a [0..<nat (arr_total a)] h)"

definition modem_get_state :: "'w tty_ops \<Rightarrow> 'w modem_hal \<Rightarrow> int \<times> 'w modem_hal" where
  "modem_get_state E h = modem_send_cmd_for_status E (tty_fd h) (at_state (at_cmds h)) h"

definition CSQ_HEAD :: string where "CSQ_HEAD = ''+CSQ: ''"
definition SYS_INFO_HEAD :: string where "SYS_INFO_HEAD = ''$MYSYSINFO: ''"

definition get_strength_value :: "string \<Rightarrow> int" where
  "get_strength_value buf =
     (case strstr (cstr buf) CSQ_HEAD of None \<Rightarrow> 0 | Some p \<Rightarrow> atoi (drop (length CSQ_HEAD) p))"

text \<open>The result is what is stored through the pointer, \<open>None\<close> if nothing is.\<close>

definition modem_get_signal_strength :: "'w tty_ops \<Rightarrow> 'w modem_hal \<Rightarrow> (int \<times> int option) \<times> 'w modem_hal" where
  "modem_get_signal_strength E h =
     (let (r, h) = at_query E (at_strength (at_cmds h)) h in
      if r = 0 then ((0, Some (get_strength_value (tty_buf h))), h) else ((-1, None), h))"

definition valid_type :: "int \<Rightarrow> int" where
  "valid_type t = (if t = 0 \<or> t = 2 \<or> t = 3 \<or> t = 4 then t else 0)"

definition valid_vendor :: "int \<Rightarrow> int" where
  "valid_vendor v = (if v = 0 \<or> v = 1 \<or> v = 2 \<or> v = 3 \<or> v = 4 then v else 0)"

text \<open>The network type and the operator, which is read two characters behind the type: that may be past the
  terminator, and is undefined past the buffer.\<close>

definition get_type_value :: "string \<Rightarrow> (int \<times> int) option" where
  "get_type_value buf =
     (case strstr (cstr buf) SYS_INFO_HEAD of
        None \<Rightarrow> Some (0, 0)
      | Some p \<Rightarrow>
          let i = length (cstr buf) - length p + length SYS_INFO_HEAD in
          if i + 2 < length buf
          then Some (valid_type (atoi (cstr (drop i buf))), valid_vendor (atoi (cstr (drop (i + 2) buf))))
          else None)"

definition modem_get_signal_type :: "'w tty_ops \<Rightarrow> 'w modem_hal \<Rightarrow> ((int \<times> (int \<times> int) option) \<times> 'w modem_hal) option" where
  "modem_get_signal_type E h =
     (let (r, h) = at_query E (at_type (at_cmds h)) h in
      if r = 0 then map_option (\<lambda>v. ((0, Some v), h)) (get_type_value (tty_buf h)) else Some ((-1, None), h))"

text \<open>\<open>strtok\<close> takes the separators as a set.  With fewer than three lines a NULL pointer is copied from.  The
  targets have 64 bytes, so a longer line is cut and not terminated.\<close>

definition get_vendor_value :: "string \<Rightarrow> vendor_info option" where
  "get_vendor_value buf =
     (case strtok_all (CHR 0x0A) (cstr buf) of
        x # y # z # _ \<Rightarrow> Some \<lparr>vi_vendor = take MAX_LEN x, vi_type = take MAX_LEN y, vi_version = take MAX_LEN z\<rparr>
      | _ \<Rightarrow> None)"

definition modem_get_vendor :: "'w tty_ops \<Rightarrow> 'w modem_hal \<Rightarrow> ((int \<times> vendor_info option) \<times> 'w modem_hal) option" where
  "modem_get_vendor E h =
     (let (r, h) = at_query E (at_vendor (at_cmds h)) h in
      if r = 0 then map_option (\<lambda>v. ((0, Some v), h)) (get_vendor_value (tty_buf h)) else Some ((-1, None), h))"

definition modem_start_dhcpcd :: "'w tty_ops \<Rightarrow> 'w modem_hal \<Rightarrow> int \<times> 'w modem_hal" where
  "modem_start_dhcpcd E h = mext (to_system E ''/etc/init.d/dhcpcd_modem start'') h"

definition modem_stop_dhcpcd :: "'w tty_ops \<Rightarrow> 'w modem_hal \<Rightarrow> 'w modem_hal" where
  "modem_stop_dhcpcd E h = snd (mext (to_system E ''/etc/init.d/dhcpcd_modem stop'') h)"

section \<open>Opening and closing\<close>

text \<open>The result and the descriptor, which is not set on failure.\<close>

definition modem_tty_init :: "'w tty_ops \<Rightarrow> 'w modem_hal \<Rightarrow> (int \<times> int option) \<times> 'w modem_hal" where
  "modem_tty_init E h =
     (let (fd, h) = mext (to_open E MODEM_TTY_DEV) h in
      if fd < 0 then ((-1, None), h)
      else let (r, h) = mext (to_setattr E fd) h in
        if r < 0 then ((-1, None), h) else ((0, Some fd), h))"

definition modem_dev_open :: "'w tty_ops \<Rightarrow> 'w modem_hal \<Rightarrow> (int \<times> 'w modem_hal) option" where
  "modem_dev_open E h = do {
     h \<leftarrow> modem_set_bug_level E h;
     (r, h) \<leftarrow> json_parse_at_file E h;
     if r \<noteq> 0 then Some (-1, h)
     else let ((r, fd), h) = modem_tty_init E h in
       Some (if r \<noteq> 0 then -1 else 0, h\<lparr>tty_fd := (case fd of Some fd \<Rightarrow> fd | None \<Rightarrow> to_stack E (mh_world h))\<rparr>)
   }"

definition modem_dev_close :: "'w tty_ops \<Rightarrow> 'w modem_hal \<Rightarrow> int \<times> 'w modem_hal" where
  "modem_dev_close E h =
     (let a = at_cmds h;
          h = h\<lparr>at_cmds := a\<lparr>at_on := (at_on a)\<lparr>arr_p := None\<rparr>, at_off := (at_off a)\<lparr>arr_p := None\<rparr>\<rparr>\<rparr>
      in (0, snd (mext (to_close E (tty_fd h)) h)))"

end
