(* ===== verification/ModemProps.thy ===== *)
theory ModemProps
  imports ModemTty NetProps MacText
begin

text \<open>
  What the modem HAL module does: a command is repeated until it is acknowledged, at most six times; the
  commands of a modem are found by its USB identifiers and read from its file; and the module under the
  network manager: what a modem answers to the two signal queries is what the manager reports.
\<close>

section \<open>Repeating a command\<close>

definition exchange :: "'w tty_ops \<Rightarrow> int \<Rightarrow> string \<Rightarrow> 'w \<Rightarrow> (int \<times> string) \<times> 'w" where
  "exchange E fd cmd w = xfer_tty_cmd E fd cmd (replicate MAX_TTY_LEN nul) w"

definition acknowledged :: "'w tty_ops \<Rightarrow> int \<Rightarrow> string \<Rightarrow> 'w \<Rightarrow> bool" where
  "acknowledged E fd cmd w \<longleftrightarrow> fst (fst (exchange E fd cmd w)) = 0 \<and> contains (cstr (snd (fst (exchange E fd cmd w)))) AT_CMD_RESULT_OK"

text \<open>The world after \<open>k\<close> exchanges.\<close>

fun after_tries :: "'w tty_ops \<Rightarrow> int \<Rightarrow> string \<Rightarrow> nat \<Rightarrow> 'w \<Rightarrow> 'w" where
  "after_tries E fd cmd 0 w = w"
| "after_tries E fd cmd (Suc k) w = after_tries E fd cmd k (snd (exchange E fd cmd w))"

lemma xfer_length: "length (snd (fst (xfer_tty_cmd E fd cmd recv w))) = length recv"
  by (simp add: xfer_tty_cmd_def Let_def split: prod.split option.split)

lemma send_loop_step:
  assumes "length recv = MAX_TTY_LEN"
  shows "send_loop E (Suc n) fd cmd recv w =
    (if acknowledged E fd cmd w then ((0, snd (fst (exchange E fd cmd w))), snd (exchange E fd cmd w))
     else send_loop E n fd cmd (snd (fst (exchange E fd cmd w))) (snd (exchange E fd cmd w)))"
  using assms by (simp add: acknowledged_def exchange_def split: prod.split)

declare send_loop.simps(2) [simp del]

lemma send_loop_result:
  assumes "length recv = MAX_TTY_LEN"
  shows "case send_loop E n fd cmd recv w of ((r, b), w') \<Rightarrow> length b = MAX_TTY_LEN \<and>
    (if \<exists>k < n. acknowledged E fd cmd (after_tries E fd cmd k w)
     then r = 0 \<and> w' = after_tries E fd cmd (Suc (LEAST k. acknowledged E fd cmd (after_tries E fd cmd k w))) w
     else r = -1 \<and> w' = after_tries E fd cmd n w)"
  using assms
proof (induction n arbitrary: recv w)
  case (Suc n)
  let ?ack = "\<lambda>k. acknowledged E fd cmd (after_tries E fd cmd k w)"
  let ?w = "snd (exchange E fd cmd w)"
  show ?case
  proof (cases "acknowledged E fd cmd w")
    case True
    then have "(LEAST k. ?ack k) = 0" by (intro Least_eq_0) simp
    then show ?thesis using True Suc.prems by (auto simp: send_loop_step exchange_def xfer_length)
  next
    case False
    have split: "(\<exists>k < Suc n. ?ack k) = (\<exists>k < n. acknowledged E fd cmd (after_tries E fd cmd k ?w))"
      using False by (auto simp: Ex_less_Suc2)
    have least: "(LEAST k. ?ack k) = Suc (LEAST k. acknowledged E fd cmd (after_tries E fd cmd k ?w))" if "?ack j" for j
      using Least_Suc[of ?ack, OF that] False by simp
    have "length (snd (fst (exchange E fd cmd w))) = MAX_TTY_LEN" by (simp add: exchange_def xfer_length)
    from Suc.IH[OF this, of ?w] show ?thesis
      using False Suc.prems split least
      by (auto simp: send_loop_step split: if_splits)
  qed
qed simp

text \<open>C17. A command is sent until an answer contains OK, at most six times: the result is 0 exactly if one of
  the first six exchanges is acknowledged, and exactly the exchanges up to the first acknowledged one
  take place.\<close>

theorem modem_command_retried:
  assumes "length (tty_buf h) = MAX_TTY_LEN" and "modem_send_cmd_for_status E fd cmd h = (r, h')"
  shows "if \<exists>k < 6. acknowledged E fd cmd (after_tries E fd cmd k (mh_world h))
    then r = 0 \<and> mh_world h' = after_tries E fd cmd
      (Suc (LEAST k. acknowledged E fd cmd (after_tries E fd cmd k (mh_world h)))) (mh_world h)
    else r = -1 \<and> mh_world h' = after_tries E fd cmd 6 (mh_world h)"
proof -
  obtain b w where l: "send_loop E 6 fd cmd (tty_buf h) (mh_world h) = ((r, b), w)" "mh_world h' = w"
    using assms(2) by (auto simp: modem_send_cmd_for_status_def MAX_REPEAT_TIMES_def split: prod.splits)
  show ?thesis using send_loop_result[OF assms(1), of 6 E fd cmd "mh_world h"] unfolding l(1) l(2) by simp
qed

section \<open>A modem that always answers\<close>

definition pad :: "string \<Rightarrow> string" where
  "pad a = a @ replicate (MAX_TTY_LEN - length a) nul"

definition modem_says :: "'w tty_ops \<Rightarrow> int \<Rightarrow> string \<Rightarrow> string \<Rightarrow> bool" where
  "modem_says E fd cmd a \<longleftrightarrow> nul \<notin> set a \<and> length a + 2 < MAX_TTY_LEN \<and> (\<forall>w. fst (exchange E fd cmd w) = (0, pad a))"

lemma cstr_pad: "nul \<notin> set a \<Longrightarrow> length a < MAX_TTY_LEN \<Longrightarrow> cstr (pad a) = a"
  by (simp add: pad_def cstr_def takeWhile_append2)
     (metis (mono_tags, lifting) append.right_neutral takeWhile_append2 takeWhile_replicate)

lemma query_answer:
  assumes "modem_says E (tty_fd h) cmd a" and "length (tty_buf h) = MAX_TTY_LEN" and "contains a ''OK''"
  shows "\<exists>w. at_query E cmd h = (0, h\<lparr>tty_buf := pad a, mh_world := w\<rparr>)"
proof -
  have ack: "acknowledged E (tty_fd h) cmd (mh_world h)"
    using assms(1,3) by (simp add: acknowledged_def modem_says_def cstr_pad AT_CMD_RESULT_OK_def)
  have "fst (exchange E (tty_fd h) cmd (mh_world h)) = (0, pad a)" using assms(1) by (simp add: modem_says_def)
  then show ?thesis
    using ack assms(2) send_loop_step[of "replicate (length (tty_buf h)) nul" E 5 "tty_fd h" cmd "mh_world h"]
    by (simp add: at_query_def modem_send_cmd_for_result_def MAX_REPEAT_TIMES_def eval_nat_numeral) blast
qed


section \<open>The answers to the signal queries\<close>

definition crlf :: string where "crlf = [CHR 0x0D, CHR 0x0A]"

definition csq_answer :: "nat \<Rightarrow> nat \<Rightarrow> string" where
  "csq_answer n ber = crlf @ CSQ_HEAD @ show_nat n @ '','' @ show_nat ber @ crlf @ crlf @ ''OK'' @ crlf"

definition sysinfo_answer :: "nat \<Rightarrow> nat \<Rightarrow> string" where
  "sysinfo_answer t v = crlf @ SYS_INFO_HEAD @ [digit_char t, CHR '','', digit_char v] @ crlf @ crlf @ ''OK'' @ crlf"

lemma atoi_digits:
  assumes "n < 2 ^ 31" and "rest \<noteq> [] \<longrightarrow> \<not> is_digit (hd rest)"
  shows "atoi (show_nat n @ rest) = int n"
proof -
  have "digits_value 10 0 (show_nat n @ rest) = digits_value 10 n rest"
    using digits_value_append[of "show_nat n" 10 0 rest] show_nat_digit_vals digits_value_show_nat by simp
  also have "\<dots> = n" using assms(2) by (cases rest) (auto simp: is_digit_def split: option.splits)
  finally have v: "strtol_abs 10 (show_nat n @ rest) = n" by (simp add: strtol_abs_def)
  obtain c cs where c: "show_nat n = c # cs" by (cases "show_nat n") auto
  then have "strtol (show_nat n @ rest) 10 = clamp_long (int n)"
    using hd_show_nat_plain[of n] v by (simp add: strtol_def)
  then show ?thesis using assms(1) by (simp add: atoi_def clamp_long_def signed_take_bit_int_eq_self)
qed

lemma show_nat_digit: "d < 10 \<Longrightarrow> show_nat d = [digit_char d]"
  by (subst show_nat.simps) simp

lemma digit_no_nul: "d < 10 \<Longrightarrow> digit_char d \<noteq> nul"
  using of_char_digit[of d] by (auto simp: nul_def)

lemma show_nat_no_nul: "nul \<notin> set (show_nat n)"
  using show_nat_digits[of n] digit_no_nul by metis

lemma csq_no_nul: "nul \<notin> set (csq_answer n b)"
  using show_nat_no_nul by (simp add: csq_answer_def crlf_def CSQ_HEAD_def) (simp add: nul_def)

lemma sysinfo_no_nul: "t < 10 \<Longrightarrow> v < 10 \<Longrightarrow> nul \<notin> set (sysinfo_answer t v)"
  using digit_no_nul[of t] digit_no_nul[of v] unfolding nul_def
  by (simp add: sysinfo_answer_def crlf_def SYS_INFO_HEAD_def)

lemma csq_value: "n < 2 ^ 31 \<Longrightarrow> length (csq_answer n b) < MAX_TTY_LEN \<Longrightarrow> get_strength_value (pad (csq_answer n b)) = int n"
proof -
  assume n: "n < 2 ^ 31" and l: "length (csq_answer n b) < MAX_TTY_LEN"
  have c: "cstr (pad (csq_answer n b)) = csq_answer n b" using csq_no_nul l by (rule cstr_pad)
  have "strstr (csq_answer n b) CSQ_HEAD = Some (drop 2 (csq_answer n b))"
    by (simp add: csq_answer_def crlf_def CSQ_HEAD_def)
  then have "get_strength_value (pad (csq_answer n b)) =
    atoi (show_nat n @ '','' @ show_nat b @ crlf @ crlf @ ''OK'' @ crlf)"
    by (simp add: get_strength_value_def c) (simp add: csq_answer_def crlf_def CSQ_HEAD_def)
  then show ?thesis using n by (simp add: atoi_digits is_digit_def digit_val_def)
qed

lemma pad_length: "length a \<le> MAX_TTY_LEN \<Longrightarrow> length (pad a) = MAX_TTY_LEN"
  by (simp add: pad_def)

lemma head_length: "length SYS_INFO_HEAD = 12"
  by (simp add: SYS_INFO_HEAD_def)

lemma sysinfo_value:
  assumes "t < 10" and "v < 10"
  shows "get_type_value (pad (sysinfo_answer t v)) = Some (valid_type (int t), valid_vendor (int v))"
proof -
  have nn: "nul \<notin> set (sysinfo_answer t v)" using assms by (rule sysinfo_no_nul)
  have l: "length (sysinfo_answer t v) = 25" by (simp add: sysinfo_answer_def crlf_def SYS_INFO_HEAD_def)
  have c: "cstr (pad (sysinfo_answer t v)) = sysinfo_answer t v"
    by (rule cstr_pad[OF nn]) (simp add: l MAX_TTY_LEN_def)
  have s: "strstr (sysinfo_answer t v) SYS_INFO_HEAD = Some (drop 2 (sysinfo_answer t v))"
    by (simp add: sysinfo_answer_def crlf_def SYS_INFO_HEAD_def)
  have d: "cstr (drop k (pad (sysinfo_answer t v))) = drop k (sysinfo_answer t v)" if "k < 25" for k
    using nn that l by (simp add: pad_def cstr_def)
      (metis (mono_tags, lifting) append_Nil2 in_set_dropD takeWhile_append2 takeWhile_replicate)
  have "drop 14 (sysinfo_answer t v) = show_nat t @ '','' @ [digit_char v] @ crlf @ crlf @ ''OK'' @ crlf"
    "drop 16 (sysinfo_answer t v) = show_nat v @ crlf @ crlf @ ''OK'' @ crlf"
    using assms by (simp_all add: sysinfo_answer_def crlf_def SYS_INFO_HEAD_def show_nat_digit)
  then have "atoi (drop 14 (sysinfo_answer t v)) = int t" "atoi (drop 16 (sysinfo_answer t v)) = int v"
    using assms by (simp_all add: atoi_digits is_digit_def digit_val_def crlf_def)
  then show ?thesis
    using d[of 14] d[of 16] pad_length[of "sysinfo_answer t v"] unfolding get_type_value_def c s Let_def
    by (simp add: l head_length MAX_TTY_LEN_def)
qed


section \<open>The module under the network manager\<close>

text \<open>The device the manager calls.  Where an operation of the module has undefined behaviour the device
  fails; the theorems below do not reach that case.\<close>

definition modem_tty_device :: "'w tty_ops \<Rightarrow> 'w modem_hal modem_device_ops" where
  "modem_tty_device M = \<lparr>
     md_get_status = modem_get_state M,
     md_on = (\<lambda>h. case modem_on M h of Some r \<Rightarrow> r | None \<Rightarrow> (-1, h)),
     md_off = (\<lambda>h. case modem_off M h of Some r \<Rightarrow> r | None \<Rightarrow> (-1, h)),
     md_start_dhcpcd = modem_start_dhcpcd M,
     md_stop_dhcpcd = (\<lambda>h. (0, modem_stop_dhcpcd M h)),
     md_get_signal_type = (\<lambda>h. case modem_get_signal_type M h of
         Some ((r, v), h) \<Rightarrow> ((r, case v of Some (t, _) \<Rightarrow> word_of_int t | None \<Rightarrow> 0), h)
       | None \<Rightarrow> ((-1, 0), h)),
     md_get_signal_strength = (\<lambda>h. case modem_get_signal_strength M h of
         ((r, v), h) \<Rightarrow> ((r, case v of Some n \<Rightarrow> n | None \<Rightarrow> 0), h))\<rparr>"

text \<open>The last message of the manager shows the modem status it keeps.\<close>

definition status_shown :: "'w net_state \<Rightarrow> bool" where
  "status_shown s \<longleftrightarrow> uploads s \<noteq> [] \<and>
     (\<exists>st. net_status_at (mst_state (g_modem_status s)) = Some st \<and>
       last (uploads s) = JObj [(''modem'', modem_elem (g_modem_status s) st)])"

definition modem_shows :: "modem_status \<Rightarrow> 'w net_state \<Rightarrow> 'w net_state \<Rightarrow> bool" where
  "modem_shows p s t \<longleftrightarrow> status_shown t \<and> g_modem_status t = p \<and> world t = world s \<and> modem_device t = modem_device s"

lemma status_shown_world: "status_shown (s\<lparr>world := h\<rparr>) = status_shown s"
  by (simp add: status_shown_def)

lemma publish_shows: "mst_state p \<in> {0, 1} \<Longrightarrow> succeeds (modem_publish p s) (modem_shows p s)"
  by (auto simp: modem_publish_def report_modem_status_def state_rejected_def sizeof_net_status_def net_status_at_def
      net_status_def modem_set_status_def network_ipc_upload_def modem_shows_def status_shown_def)

lemma report_type_shows:
  "status_shown s \<Longrightarrow> mst_state (g_modem_status s) \<in> {0, 1} \<Longrightarrow>
   succeeds (modem_report_signal_type ty s) (modem_shows ((g_modem_status s)\<lparr>mst_type := ty\<rparr>) s)"
  using publish_shows[of "(g_modem_status s)\<lparr>mst_type := ty\<rparr>" s]
  by (auto simp: modem_report_signal_type_def modem_get_stauts_def modem_shows_def Let_def)

lemma report_state_shows:
  "status_shown s \<Longrightarrow> st \<in> {0, 1} \<Longrightarrow>
   succeeds (modem_report_connect_state st s) (modem_shows ((g_modem_status s)\<lparr>mst_state := st\<rparr>) s)"
  using publish_shows[of "(g_modem_status s)\<lparr>mst_state := st\<rparr>" s]
  by (auto simp: modem_report_connect_state_def modem_get_stauts_def modem_shows_def Let_def)

lemma restart_keeps:
  assumes "modem_device s"
  shows "succeeds (do { s \<leftarrow> modem_hal_stop_modem E s; (_, s) \<leftarrow> modem_hal_start_modem E s; Some s })
    (\<lambda>t. g_modem_status t = g_modem_status s \<and> uploads t = uploads s)"
  using assms by (simp add: modem_hal_stop_modem_def modem_hal_start_modem_def modem_call_def ext_eq Let_def)

lemma poll_end_shows:
  assumes "status_shown s" and "modem_device s"
  shows "succeeds (modem_poll_end E ty n s)
    (\<lambda>t. status_shown t \<and> g_modem_status t = (g_modem_status s)\<lparr>mst_state := get_modem_state ty n\<rparr>)"
proof -
  have "get_modem_state ty n \<in> {0, 1}" by (simp add: get_modem_state_def REPORT_CONNECT_def REPORT_UNCONNECT_def)
  then obtain u where u: "modem_report_connect_state (get_modem_state ty n) s = Some u"
    "modem_shows ((g_modem_status s)\<lparr>mst_state := get_modem_state ty n\<rparr>) s u"
    using report_state_shows[OF assms(1)] by (auto simp: succeeds_iff)
  show ?thesis
    using u assms(2) restart_keeps[of "u\<lparr>unconnect_cnts := 0\<rparr>" E]
    by (auto simp: modem_poll_end_def Let_def modem_shows_def status_shown_def elim!: succeeds_mono)
qed


lemma strength_query:
  assumes "modem_says M (tty_fd h) (at_strength (at_cmds h)) (csq_answer n b)" and "length (tty_buf h) = MAX_TTY_LEN" and "n < 2 ^ 31"
  shows "\<exists>h'. md_get_signal_strength (modem_tty_device M) h = ((0, int n), h') \<and>
    tty_fd h' = tty_fd h \<and> at_cmds h' = at_cmds h \<and> length (tty_buf h') = MAX_TTY_LEN"
proof -
  have l: "length (csq_answer n b) < MAX_TTY_LEN" using assms(1) by (simp add: modem_says_def)
  have "csq_answer n b = (crlf @ CSQ_HEAD @ show_nat n @ '','' @ show_nat b @ crlf @ crlf) @ ''OK'' @ crlf"
    by (simp add: csq_answer_def)
  then have "contains (csq_answer n b) ''OK''" unfolding contains_iff by metis
  from query_answer[OF assms(1,2) this] show ?thesis
    using csq_value[OF assms(3) l] pad_length[of "csq_answer n b"] l
    by (auto simp: modem_tty_device_def modem_get_signal_strength_def)
qed

lemma type_query:
  assumes "modem_says M (tty_fd h) (at_type (at_cmds h)) (sysinfo_answer ty v)" and "length (tty_buf h) = MAX_TTY_LEN"
    and "ty < 10" and "v < 10"
  shows "\<exists>h'. md_get_signal_type (modem_tty_device M) h = ((0, word_of_int (valid_type (int ty))), h')"
proof -
  have "sysinfo_answer ty v = (crlf @ SYS_INFO_HEAD @ [digit_char ty, CHR '','', digit_char v] @ crlf @ crlf) @ ''OK'' @ crlf"
    by (simp add: sysinfo_answer_def)
  then have "contains (sysinfo_answer ty v) ''OK''" unfolding contains_iff by metis
  from query_answer[OF assms(1,2) this] show ?thesis
    using sysinfo_value[OF assms(3,4)] by (auto simp: modem_tty_device_def modem_get_signal_type_def)
qed

definition mode_name :: "nat \<Rightarrow> string" where
  "mode_name ty = (if ty = 2 then ''2G'' else if ty = 3 then ''3G'' else if ty = 4 then ''4G'' else ''none'')"

lemma elem_of_answer:
  "net_status_at (get_modem_state (word_of_int (valid_type (int ty))) (int n)) = Some st \<Longrightarrow>
   modem_elem \<lparr>mst_state = get_modem_state (word_of_int (valid_type (int ty))) (int n),
      mst_type = word_of_int (valid_type (int ty)), mst_signal = int n\<rparr> st =
   JObj [(''state'', JStr (if ty \<in> {2, 3, 4} \<and> n \<noteq> 99 then ''CONNECTED'' else ''DISCONNECTED'')),
         (''type'', JStr (mode_name ty)), (''signal'', JStr (show_nat n))]"
  by (auto simp: modem_elem_def get_modem_state_def valid_type_def mode_name_def find_mode_string_def signal_mode_map_def
      net_status_at_def net_status_def REPORT_CONNECT_def REPORT_UNCONNECT_def show_int_def split: if_splits)

text \<open>C15. From the serial line to the bus: when the modem answers the two signal queries in the form of the
  AT commands, one poll of the network manager ends with the message that has the answered strength, the
  name of the answered network type, and CONNECTED exactly if the type is 2G, 3G or 4G and the
  strength is known.\<close>

theorem modem_signal_reported:
  assumes "modem_device s" and "mst_state (g_modem_status s) \<in> {0, 1}" and "modem_dev E = modem_tty_device M"
    and "length (tty_buf (world s)) = MAX_TTY_LEN"
    and "modem_says M (tty_fd (world s)) (at_strength (at_cmds (world s))) (csq_answer n b)"
    and "modem_says M (tty_fd (world s)) (at_type (at_cmds (world s))) (sysinfo_answer ty v)"
    and "n < 2 ^ 31" and "ty < 10" and "v < 10"
  shows "\<exists>t. modem_event_monitor E s = Some t \<and> last (uploads t) = JObj [(''modem'', JObj
    [(''state'', JStr (if ty \<in> {2, 3, 4} \<and> n \<noteq> 99 then ''CONNECTED'' else ''DISCONNECTED'')),
     (''type'', JStr (mode_name ty)), (''signal'', JStr (show_nat n))])]"
proof -
  let ?ty = "word_of_int (valid_type (int ty)) :: 32 word"
  obtain h where h: "md_get_signal_strength (modem_tty_device M) (world s) = ((0, int n), h)"
    "tty_fd h = tty_fd (world s)" "at_cmds h = at_cmds (world s)" "length (tty_buf h) = MAX_TTY_LEN"
    using strength_query[OF assms(5,4,7)] by blast
  obtain h' where h': "md_get_signal_type (modem_tty_device M) h = ((0, ?ty), h')"
    using type_query[of M h ty v] assms(6,8,9) h by auto
  obtain s1 where s1: "modem_report_signal_strength (int n) (s\<lparr>world := h\<rparr>) = Some s1"
    "modem_shows ((g_modem_status s)\<lparr>mst_signal := int n\<rparr>) (s\<lparr>world := h\<rparr>) s1"
    using publish_shows[of "(g_modem_status s)\<lparr>mst_signal := int n\<rparr>" "s\<lparr>world := h\<rparr>"] assms(2)
    by (auto simp: modem_report_signal_strength_def modem_get_stauts_def succeeds_iff)
  then have sh: "status_shown (s1\<lparr>world := h'\<rparr>)" by (simp add: modem_shows_def status_shown_world)
  obtain s2 where s2: "modem_report_signal_type ?ty (s1\<lparr>world := h'\<rparr>) = Some s2"
    "modem_shows ((g_modem_status s1)\<lparr>mst_type := ?ty\<rparr>) (s1\<lparr>world := h'\<rparr>) s2"
    using report_type_shows[OF sh] s1(2) assms(2) by (auto simp: modem_shows_def succeeds_iff)
  obtain t where t: "modem_poll_end E ?ty (int n) s2 = Some t" "status_shown t"
    "g_modem_status t = (g_modem_status s2)\<lparr>mst_state := get_modem_state ?ty (int n)\<rparr>"
    using poll_end_shows[of s2 E ?ty "int n"] s1(2) s2(2) assms(1) by (auto simp: modem_shows_def succeeds_iff)
  have "modem_event_monitor E s = Some t"
    using assms(1,3) h(1) h' s1 s2(1) t(1)
    by (simp add: modem_event_monitor_def modem_hal_get_signal_strength_def modem_hal_get_signal_type_def modem_call_def
        ext_eq modem_shows_def)
  moreover have "g_modem_status t = \<lparr>mst_state = get_modem_state ?ty (int n), mst_type = ?ty, mst_signal = int n\<rparr>"
    using t(3) s1(2) s2(2) by (simp add: modem_shows_def)
  moreover obtain st where "net_status_at (get_modem_state ?ty (int n)) = Some st"
    "last (uploads t) = JObj [(''modem'', modem_elem (g_modem_status t) st)]"
    using t(2) calculation(2) by (auto simp: status_shown_def)
  ultimately show ?thesis using elem_of_answer[of ty n st] by simp
qed


text \<open>A modem in the laboratory: the world is the last command it was sent.\<close>

definition lab_tty :: "(string \<Rightarrow> string) \<Rightarrow> (string \<Rightarrow> json option) \<Rightarrow> string tty_ops" where
  "lab_tty ans files = \<lparr>to_write = (\<lambda>fd cmd w. (int (length cmd), cmd)), to_select = (\<lambda>fd w. (1, w)),
     to_read = (\<lambda>fd n w. (Some (ans w), w)), to_usb = (\<lambda>w. ((1, [Some \<lparr>us_pid = 0x8700, us_vid = 0x2949\<rparr>]), w)),
     to_file = (\<lambda>f w. (files f, w)), to_text = (\<lambda>j. case j of JInt i \<Rightarrow> show_int i | _ \<Rightarrow> []),
     to_property = (\<lambda>k d w. (d, w)), to_open = (\<lambda>f w. (5, w)), to_setattr = (\<lambda>fd w. (0, w)), to_close = (\<lambda>fd w. (0, w)),
     to_system = (\<lambda>c w. (0, w)), to_stack = (\<lambda>w. 0)\<rparr>"

definition lab_hal :: "string modem_hal" where
  "lab_hal = \<lparr>mh_world = [], tty_fd = 5, at_cmds = \<lparr>at_name = [], at_state = ''AT'', at_strength = ''AT+CSQ'',
     at_type = ''AT$MYSYSINFO'', at_vendor = ''ATI?'', at_eth = ''eth0'', at_on = \<lparr>arr_total = 0, arr_p = None\<rparr>,
     at_off = \<lparr>arr_total = 0, arr_p = None\<rparr>\<rparr>, tty_buf = replicate MAX_TTY_LEN nul, modem_log_level = 0\<rparr>"

definition lab_modem_ans :: "string \<Rightarrow> string" where
  "lab_modem_ans cmd = (if cmd = ''AT+CSQ'' then csq_answer 23 9 else sysinfo_answer 4 1)"

lemma lab_answers:
  assumes "nul \<notin> set (ans cmd)" and "length (ans cmd) + 2 < MAX_TTY_LEN"
  shows "modem_says (lab_tty ans files) fd cmd (ans cmd)"
  using assms
  by (simp add: modem_says_def exchange_def xfer_tty_cmd_def lab_tty_def Let_def pad_def MAX_TTY_LEN_def)

theorem modem_signal_reported_witness:
  "\<exists>t. modem_event_monitor \<lparr>wifi_dev = lab_wifi, modem_dev = modem_tty_device (lab_tty lab_modem_ans (\<lambda>f. None)),
      eth_dev = lab_eth, wpa = lab_wpa 0 lab_msg, sys = lab_sys lab_request [] []\<rparr> ((net_boot lab_hal)\<lparr>modem_device := True\<rparr>) = Some t \<and>
    last (uploads t) = JObj [(''modem'', JObj [(''state'', JStr ''CONNECTED''), (''type'', JStr ''4G''), (''signal'', JStr (show_nat 23))])]"
  (is "\<exists>t. modem_event_monitor ?E ?s = Some t \<and> _ t")
proof -
  have "length (csq_answer 23 9) + 2 < MAX_TTY_LEN"
    using show_nat_length[of 23 2] show_nat_length[of 9 1] by (simp add: csq_answer_def crlf_def CSQ_HEAD_def MAX_TTY_LEN_def)
  moreover have "length (sysinfo_answer 4 1) + 2 < MAX_TTY_LEN"
    by (simp add: sysinfo_answer_def crlf_def SYS_INFO_HEAD_def MAX_TTY_LEN_def)
  ultimately have "modem_says (lab_tty lab_modem_ans (\<lambda>f. None)) 5 ''AT+CSQ'' (csq_answer 23 9)"
    "modem_says (lab_tty lab_modem_ans (\<lambda>f. None)) 5 ''AT$MYSYSINFO'' (sysinfo_answer 4 1)"
    using lab_answers[of lab_modem_ans "''AT+CSQ''" "\<lambda>f. None" 5] lab_answers[of lab_modem_ans "''AT$MYSYSINFO''" "\<lambda>f. None" 5]
      csq_no_nul sysinfo_no_nul[of 4 1]
    by (simp_all add: lab_modem_ans_def)
  then show ?thesis
    using modem_signal_reported[of ?s ?E "lab_tty lab_modem_ans (\<lambda>f. None)" 23 9 4 1]
    by (simp add: net_boot_def lab_hal_def mode_name_def)
qed

theorem modem_command_retried_witness:
  "fst (modem_send_cmd_for_status (lab_tty (\<lambda>c. ''ERROR'') (\<lambda>f. None)) 5 ''AT'' lab_hal) = -1 \<and>
   fst (modem_send_cmd_for_status (lab_tty (\<lambda>c. ''OK'') (\<lambda>f. None)) 5 ''AT'' lab_hal) = 0"
proof -
  have l: "length (tty_buf lab_hal) = MAX_TTY_LEN" by (simp add: lab_hal_def)
  have e: "fst (exchange (lab_tty (\<lambda>c. a) (\<lambda>f. None)) 5 ''AT'' w) = (0, pad a)" if "length a < 10" for a w
    using that by (simp add: exchange_def xfer_tty_cmd_def lab_tty_def Let_def pad_def MAX_TTY_LEN_def)
  have "cstr (pad ''ERROR'') = ''ERROR''" "cstr (pad ''OK'') = ''OK''"
    by (rule cstr_pad; simp add: nul_def MAX_TTY_LEN_def)+
  then have a: "\<not> acknowledged (lab_tty (\<lambda>c. ''ERROR'') (\<lambda>f. None)) 5 ''AT'' w"
    "acknowledged (lab_tty (\<lambda>c. ''OK'') (\<lambda>f. None)) 5 ''AT'' w" for w
    by (simp_all add: acknowledged_def e AT_CMD_RESULT_OK_def contains_def)
  have six: "\<exists>k::nat. k < 6" by (rule exI[of _ 0]) simp
  show ?thesis
    using modem_command_retried[OF l surjective_pairing, of "lab_tty (\<lambda>c. ''ERROR'') (\<lambda>f. None)" 5 "''AT''"]
      modem_command_retried[OF l surjective_pairing, of "lab_tty (\<lambda>c. ''OK'') (\<lambda>f. None)" 5 "''AT''"] a six
    by auto
qed


section \<open>Reading the files of the modem\<close>

definition hex4 :: "16 word \<Rightarrow> string" where
  "hex4 w = map (\<lambda>i. hex_digit (unat w div 16 ^ i mod 16)) [3, 2, 1, 0]"

lemma nat_hex4:
  fixes n :: nat
  assumes "n < 16 ^ 4"
  shows "((n div 16 ^ 3 mod 16 * 16 + n div 16 ^ 2 mod 16) * 16 + n div 16 ^ 1 mod 16) * 16 + n div 16 ^ 0 mod 16 = n"
proof -
  have d: "n div 16 ^ 2 = n div 16 div 16" "n div 16 ^ 3 = n div 16 div 16 div 16"
    by (simp_all add: div_mult2_eq[symmetric])
  have "n div 16 div 16 div 16 < 16" using assms by (simp add: div_mult2_eq[symmetric] less_mult_imp_div_less)
  then show ?thesis
    using div_mult_mod_eq[of n 16] div_mult_mod_eq[of "n div 16" 16] div_mult_mod_eq[of "n div 16 div 16" 16]
    unfolding d by simp
qed

lemma strtol_hex4: "strtol (hex4 w) 16 = uint w"
proof -
  let ?d = "\<lambda>i. unat w div 16 ^ i mod 16"
  have n: "unat w < 16 ^ 4" using unsigned_less[of w, where 'a = nat] by simp
  have d: "?d i < 16" for i by simp
  have "\<not> hex_prefix (hex4 w)" using hex_digit_plain[OF d[of 2]] by (simp add: hex_prefix_def hex4_def)
  then have "strtol_abs 16 (hex4 w) = digits_value 16 0 (hex4 w)" by (simp add: strtol_abs_def)
  also have "\<dots> = ((?d 3 * 16 + ?d 2) * 16 + ?d 1) * 16 + ?d 0" using d by (simp add: hex4_def)
  also have "\<dots> = unat w" by (rule nat_hex4[OF n])
  finally have "strtol (hex4 w) 16 = clamp_long (int (unat w))"
    using hex_digit_plain[OF d[of 3]] by (simp add: strtol_def hex4_def)
  then show ?thesis using unsigned_less[of w, where 'a = int] unsigned_greater_eq[of w, where 'a = int] by (simp add: clamp_long_def)
qed

lemma hex4_no_nul: "nul \<notin> set (hex4 w)"
proof -
  have "nul \<noteq> hex_digit (unat w div k mod 16)" "nul \<noteq> hex_digit (unat w mod 16)" for k
    using hex_digit_plain(6)[of "unat w div k mod 16"] hex_digit_plain(6)[of "unat w mod 16"] by simp_all
  then show ?thesis unfolding hex4_def by simp
qed

text \<open>The two files as they are shipped: the list of modems, and the commands of one modem.\<close>

definition usb_object :: "usb_json_idx \<Rightarrow> json" where
  "usb_object e = JObj [(''VID'', JStr (hex4 (uj_vid e))), (''PID'', JStr (hex4 (uj_pid e))),
     (''MODULE'', JStr (uj_name e)), (''FILE'', JStr (uj_file e))]"

definition at_object :: "at_json \<Rightarrow> string list \<Rightarrow> string list \<Rightarrow> json" where
  "at_object a on off = JObj [(''MODULE'', JStr (at_name a)), (''ON'', JArr (map JStr on)), (''OFF'', JArr (map JStr off)),
     (''STATE'', JStr (at_state a)), (''STRENGTH'', JStr (at_strength a)), (''TYPE'', JStr (at_type a)),
     (''VENDOR'', JStr (at_vendor a)), (''ETH'', JStr (at_eth a))]"

definition commands :: "string list \<Rightarrow> at_array" where
  "commands cs = \<lparr>arr_total = int (length cs), arr_p = (if cs = [] then None else Some (map Some cs))\<rparr>"

definition short_text :: "string \<Rightarrow> bool" where
  "short_text s \<longleftrightarrow> nul \<notin> set s \<and> length s < MAX_LEN - 1"

definition entry_ok :: "usb_json_idx \<Rightarrow> bool" where
  "entry_ok e \<longleftrightarrow> short_text (uj_name e) \<and> short_text (uj_file e)"

definition texts_ok :: "at_json \<Rightarrow> bool" where
  "texts_ok a \<longleftrightarrow> list_all short_text [at_name a, at_state a, at_strength a, at_type a, at_vendor a, at_eth a]"

lemma get_text: "nul \<notin> set s \<Longrightarrow> json_object_get_string txt (JStr s) = Some s"
  by (simp add: json_object_get_string_def cstr_id)

lemma store_text:
  "json_object_object_get_ex obj key = Some (JStr s) \<Longrightarrow> short_text s \<Longrightarrow> json_store_string txt dst obj key = Some s"
  by (simp add: json_store_string_def get_text short_text_def)

lemma usb_entry_object: "entry_ok e \<Longrightarrow> usb_entry txt (usb_object e) = Some e"
  by (simp add: usb_entry_def json_store_uint16_def usb_object_def get_text hex4_no_nul strtol_hex4 store_text entry_ok_def)

lemma those_map_Some: "list_all (\<lambda>x. f x = Some (g x)) xs \<Longrightarrow> those (map f xs) = Some (map g xs)"
  by (induction xs) auto

lemma store_commands:
  assumes "json_object_object_get_ex obj key = Some (JArr (map JStr cs))" and "list_all short_text cs"
  shows "json_store_string_array txt a key obj = Some (0, commands cs)"
proof -
  have "list_all (\<lambda>s. json_object_get_string txt (JStr s) = Some s) cs"
    using assms(2) by (auto simp: list_all_iff short_text_def get_text)
  then have "those (map (\<lambda>s. json_object_get_string txt (JStr s)) cs) = Some (map id cs)" by (intro those_map_Some) simp
  moreover have "map array_entry cs = map Some cs"
    using assms(2) by (auto simp: list_all_iff array_entry_def short_text_def)
  ultimately show ?thesis using assms(1) by (simp add: json_store_string_array_def commands_def comp_def)
qed

lemma parse_object:
  assumes "texts_ok a" and "list_all short_text on" and "list_all short_text off"
  shows "parse_at_object txt (at_name a) (at_object a on off) a0 = Some (0, a\<lparr>at_on := commands on, at_off := commands off\<rparr>)"
proof -
  have "json_store_string_array txt b ''ON'' (at_object a on off) = Some (0, commands on)"
    "json_store_string_array txt b ''OFF'' (at_object a on off) = Some (0, commands off)" for b
    using assms(2,3) by (auto intro!: store_commands simp: at_object_def)
  then show ?thesis
    using assms(1)
    by (simp add: parse_at_object_def store_at_strings_def store_text at_object_def get_text texts_ok_def short_text_def)
qed


text \<open>Environments in which the files, the USB list and the serial line are readable.\<close>

definition usb_lists :: "'w tty_ops \<Rightarrow> usb_st list \<Rightarrow> bool" where
  "usb_lists E us \<longleftrightarrow> us \<noteq> [] \<and> int (length us) \<le> MAX_USB_LIST_LEN \<and> (\<forall>w. fst (to_usb E w) = (int (length us), map Some us))"

definition file_holds :: "'w tty_ops \<Rightarrow> string \<Rightarrow> json \<Rightarrow> bool" where
  "file_holds E f j \<longleftrightarrow> (\<forall>w. fst (to_file E f w) = Some j)"

definition line_opens :: "'w tty_ops \<Rightarrow> int \<Rightarrow> bool" where
  "line_opens E fd \<longleftrightarrow> fd \<ge> 0 \<and> (\<forall>w. fst (to_open E MODEM_TTY_DEV w) = fd) \<and> (\<forall>w. fst (to_setattr E fd w) \<ge> 0) \<and>
     (\<forall>w. length (fst (to_property E ''persist.rokid.debug.modem'' ''0'' w)) < 64)"

definition plugged :: "usb_st list \<Rightarrow> usb_json_idx \<Rightarrow> bool" where
  "plugged us e \<longleftrightarrow> (\<exists>u \<in> set us. uj_vid e = us_vid u \<and> uj_pid e = us_pid u)"

lemma foldl_last_match: "\<not> (\<exists>e \<in> set post. P e) \<Longrightarrow> foldl (\<lambda>r e. if P e then Some e else r) r post = r"
  by (induction post arbitrary: r) auto

lemma find_modem:
  assumes "usb_lists E us" and "list_all entry_ok (pre @ e # post)"
    and "file_holds E (MODEM_INFO_DIR @ MODEM_MODULE_FILE) (JObj [(''USB'', JArr (map usb_object (pre @ e # post)))])"
    and "plugged us e" and "\<not> (\<exists>x \<in> set post. plugged us x)"
  shows "\<exists>w'. find_json_idx_by_usb E w = Some (Some e, w')"
proof -
  have us: "get_usb_pid_vid_list E w' = (us, snd (to_usb E w'))" for w'
    using assms(1) those_map_Some[of Some "\<lambda>u. u" us]
    by (cases "to_usb E w'") (auto simp: usb_lists_def get_usb_pid_vid_list_def ls_usb_device_def list_all_iff dest!: spec[of _ w'])
  have "those (map (usb_entry (to_text E)) (map usb_object (pre @ e # post))) = Some (pre @ e # post)"
    using those_map_Some[of "\<lambda>x. usb_entry (to_text E) (usb_object x)" "\<lambda>x. x" "pre @ e # post"] assms(2)
    by (simp add: list_all_iff usb_entry_object comp_def)
  then have es: "\<exists>w''. json_parse_module_file E w' = Some (Some (pre @ e # post), w'')" for w'
    using assms(3) by (auto simp: json_parse_module_file_def file_holds_def split: prod.split dest!: spec[of _ w'])
  obtain w'' where "json_parse_module_file E (snd (to_usb E w)) = Some (Some (pre @ e # post), w'')" using es by blast
  then show ?thesis
    using assms(4,5) foldl_last_match[of post "plugged us"]
    by (simp add: find_json_idx_by_usb_def us plugged_def)
qed



text \<open>The files of the N720 modem, cut to a few commands.\<close>

definition lab_usb_entry :: usb_json_idx where
  "lab_usb_entry = \<lparr>uj_vid = 0x2949, uj_pid = 0x8700, uj_name = ''N720V5'', uj_file = ''N720V5.json''\<rparr>"

definition lab_cmds :: at_json where
  "lab_cmds = (at_cmds lab_hal)\<lparr>at_name := ''N720V5''\<rparr>"

definition lab_files :: "string \<Rightarrow> json option" where
  "lab_files f = (if f = MODEM_INFO_DIR @ MODEM_MODULE_FILE then Some (JObj [(''USB'', JArr [usb_object lab_usb_entry])])
     else if f = MODEM_INFO_DIR @ ''N720V5.json'' then Some (at_object lab_cmds [''AT'', ''AT+CSQ''] []) else None)"


section \<open>After closing\<close>

text \<open>\<open>modem_dev_close\<close> frees the arrays but keeps their lengths: switching the modem on after that skips
  the first entry and uses an invalid address for the second.\<close>

lemma closed_modem_crashes:
  "arr_total (at_on (at_cmds h)) \<ge> 2 \<Longrightarrow> modem_on E (snd (modem_dev_close E h)) = None"
proof -
  assume n: "arr_total (at_on (at_cmds h)) \<ge> 2"
  let ?a = "(at_on (at_cmds h))\<lparr>arr_p := None\<rparr>"
  have "[0..<nat (arr_total (at_on (at_cmds h)))] = 0 # 1 # [2..<nat (arr_total (at_on (at_cmds h)))]"
    using n by (simp add: upt_conv_Cons numeral_2_eq_2)
  then show ?thesis by (simp add: modem_on_def modem_dev_close_def mext_eq Let_def at_entry_def)
qed

text \<open>An answer of fewer than three lines to the vendor query crashes the module.\<close>

lemma short_vendor_crashes: "length (strtok_all (CHR 0x0A) (cstr buf)) < 3 \<Longrightarrow> get_vendor_value buf = None"
  by (auto simp: get_vendor_value_def split: list.split)

end
