(* ===== verification/OtaFlash.thy ===== *)
theory OtaFlash
  imports CString
begin

text \<open>
  NAND flash access of the recovery library (\<open>src/framework/libs/ota/recovery/recovery.c\<close>): erasing, reading and
  writing an MTD device page by page, skipping bad blocks.  Addresses are 32-bit words, as \<open>int\<close> and
  \<open>unsigned\<close> mix in the code and all comparisons are unsigned.  Bytes are characters.  The kernel is the
  environment \<open>'w ota_ops\<close>: a descriptor is an integer, \<open>read\<close> returns the bytes it stored or \<open>None\<close>.
\<close>

unbundle bit_operations_syntax

section \<open>Lines of a file\<close>

text \<open>The lines that \<open>getline\<close> returns, each as a C string.\<close>

fun lines_from :: "string \<Rightarrow> string \<Rightarrow> string list" where
  "lines_from acc [] = (if acc = [] then [] else [rev acc])"
| "lines_from acc (c # cs) = (if c = CHR 0x0A then rev (c # acc) # lines_from [] cs else lines_from (c # acc) cs)"

definition getlines :: "string \<Rightarrow> string list" where
  "getlines s = map cstr (lines_from [] s)"

section \<open>The environment\<close>

record mtd_info =
  mt_size :: "32 word"
  mt_erasesize :: "32 word"
  mt_writesize :: "32 word"

text \<open>\<open>oo_file\<close> is \<open>fopen\<close>, reading to the end and \<open>fclose\<close>; \<open>oo_info\<close>, \<open>oo_bad\<close>, \<open>oo_unlock\<close>, \<open>oo_erase\<close>
  and \<open>oo_volup\<close> are the \<open>ioctl\<close> requests \<open>MEMGETINFO\<close>, \<open>MEMGETBADBLOCK\<close>, \<open>MEMUNLOCK\<close>, \<open>MEMERASE\<close> and
  \<open>UBI_IOCVOLUP\<close>; \<open>oo_ischr\<close> is \<open>fstat\<close> with the test for a character device; \<open>oo_dir\<close> lists a directory;
  \<open>oo_sha1\<close> is the text \<open>calc_sha1sum\<close> writes, 48 characters whose terminator falls behind the arrays of 48
  bytes that receive it.\<close>

record 'w ota_ops =
  oo_file :: "string \<Rightarrow> 'w \<Rightarrow> string option \<times> 'w"
  oo_open :: "string \<Rightarrow> 'w \<Rightarrow> int \<times> 'w"
  oo_create :: "string \<Rightarrow> 'w \<Rightarrow> int \<times> 'w"
  oo_unlink :: "string \<Rightarrow> 'w \<Rightarrow> 'w"
  oo_close :: "int \<Rightarrow> 'w \<Rightarrow> 'w"
  oo_ischr :: "int \<Rightarrow> 'w \<Rightarrow> bool option \<times> 'w"
  oo_info :: "int \<Rightarrow> 'w \<Rightarrow> mtd_info option \<times> 'w"
  oo_bad :: "int \<Rightarrow> nat \<Rightarrow> 'w \<Rightarrow> int \<times> 'w"
  oo_unlock :: "int \<Rightarrow> nat \<Rightarrow> nat \<Rightarrow> 'w \<Rightarrow> 'w"
  oo_erase :: "int \<Rightarrow> nat \<Rightarrow> nat \<Rightarrow> 'w \<Rightarrow> int \<times> 'w"
  oo_volup :: "int \<Rightarrow> nat \<Rightarrow> 'w \<Rightarrow> 'w"
  oo_seek :: "int \<Rightarrow> int \<Rightarrow> 'w \<Rightarrow> int \<times> 'w"
  oo_end :: "int \<Rightarrow> 'w \<Rightarrow> nat \<times> 'w"
  oo_read :: "int \<Rightarrow> nat \<Rightarrow> 'w \<Rightarrow> string option \<times> 'w"
  oo_write :: "int \<Rightarrow> string \<Rightarrow> 'w \<Rightarrow> int \<times> 'w"
  oo_system :: "string \<Rightarrow> 'w \<Rightarrow> int \<times> 'w"
  oo_mount :: "string \<Rightarrow> string \<Rightarrow> string \<Rightarrow> 'w \<Rightarrow> int \<times> 'w"
  oo_dir :: "string \<Rightarrow> 'w \<Rightarrow> string list option \<times> 'w"
  oo_malloc :: "nat \<Rightarrow> 'w \<Rightarrow> bool \<times> 'w"
  oo_sha1 :: "string \<Rightarrow> string"

section \<open>Erasing\<close>

text \<open>The loop of \<open>nand_erase_part\<close>: \<open>start\<close> is \<open>erase.start\<close>, \<open>part\<close> the end of the part to erase, \<open>bads\<close> the
  bytes in bad blocks so far, \<open>ret\<close> the result of the last request.  The result is \<open>ret\<close> and the final
  \<open>start\<close>, or \<open>None\<close> for the early return with -1.\<close>

partial_function (option) erase_loop ::
  "'w ota_ops \<Rightarrow> int \<Rightarrow> mtd_info \<Rightarrow> 32 word \<Rightarrow> 32 word \<Rightarrow> 32 word \<Rightarrow> int \<Rightarrow> 'w \<Rightarrow> ((int \<times> 32 word) option \<times> 'w) option" where
  "erase_loop E fd m part bads start ret w =
     (if start < part + bads \<and> start < mt_size m then
        let (r, w) = oo_bad E fd (unat start) w in
        if r > 0 then erase_loop E fd m part (bads + mt_erasesize m) (start + mt_erasesize m) r w
        else if r < 0 then Some (None, w)
        else
          let w = oo_unlock E fd (unat start) (unat (mt_erasesize m)) w;
              (q, w) = oo_erase E fd (unat start) (unat (mt_erasesize m)) w in
          if q < 0 then Some (None, w)
          else erase_loop E fd m part bads (start + mt_erasesize m) r w
      else Some (Some (ret, start), w))"

text \<open>The end of the part: the size is rounded up to blocks; 0 stands for the whole device.\<close>

definition erase_end :: "mtd_info \<Rightarrow> 32 word \<Rightarrow> 32 word \<Rightarrow> 32 word" where
  "erase_end m offset len =
     (let part = (if len mod mt_erasesize m = 0 then offset + len
                  else (len div mt_erasesize m + 1) * mt_erasesize m + offset) in
      if part \<ge> mt_size m \<or> len = 0 then mt_size m else part)"

text \<open>A device whose erase size is 0 makes the code divide by 0.\<close>

definition nand_erase_part :: "'w ota_ops \<Rightarrow> string \<Rightarrow> 32 word \<Rightarrow> 32 word \<Rightarrow> 'w \<Rightarrow> (int \<times> 'w) option" where
  "nand_erase_part E dev offset len w =
     (let (fd, w) = oo_open E dev w in
      if fd < 0 then Some (-1, w)
      else let (chr, w) = oo_ischr E fd w in
        if chr \<noteq> Some True then Some (-1, oo_close E fd w)
        else let (info, w) = oo_info E fd w in
          case info of
            None \<Rightarrow> Some (-1, oo_close E fd w)
          | Some m \<Rightarrow>
              if mt_erasesize m = 0 then None
              else if offset mod mt_erasesize m \<noteq> 0 then Some (-2, w)
              else do {
                (res, w) \<leftarrow> erase_loop E fd m (erase_end m offset len) 0 offset 0 w;
                case res of
                  None \<Rightarrow> Some (-1, oo_close E fd w)
                | Some (ret, start) \<Rightarrow> Some (if start > mt_size m then -1 else ret, oo_close E fd w)
              })"

definition nand_erase :: "'w ota_ops \<Rightarrow> string \<Rightarrow> 32 word \<Rightarrow> 'w \<Rightarrow> (int \<times> 'w) option" where
  "nand_erase E dev offset w = nand_erase_part E dev offset 0 w"

section \<open>Reading and writing\<close>

partial_function (option) next_good_eraseblock ::
  "'w ota_ops \<Rightarrow> int \<Rightarrow> mtd_info \<Rightarrow> 32 word \<Rightarrow> 'w \<Rightarrow> (32 word \<times> 'w) option" where
  "next_good_eraseblock E fd m block_offset w =
     (if block_offset \<ge> mt_size m then Some (block_offset, w)
      else let (r, w) = oo_bad E fd (unat block_offset) w in
        if r = 0 then Some (block_offset, w)
        else next_good_eraseblock E fd m (block_offset + mt_erasesize m) w)"

definition block_of :: "mtd_info \<Rightarrow> 32 word \<Rightarrow> 32 word" where
  "block_of m offset = offset AND NOT (mt_erasesize m - 1)"

text \<open>Where reading and writing start: an offset inside a block moves with its block.\<close>

definition first_offset :: "'w ota_ops \<Rightarrow> int \<Rightarrow> mtd_info \<Rightarrow> 32 word \<Rightarrow> 'w \<Rightarrow> (32 word \<times> 'w) option" where
  "first_offset E fd m offset w =
     (if offset = block_of m offset then Some (offset, w)
      else do {
        (b, w) \<leftarrow> next_good_eraseblock E fd m (block_of m offset) w;
        Some (if b \<noteq> block_of m offset then b + offset - block_of m offset else offset, w)
      })"

text \<open>At the start of a block: the next good block.\<close>

definition page_offset :: "'w ota_ops \<Rightarrow> int \<Rightarrow> mtd_info \<Rightarrow> 32 word \<Rightarrow> 'w \<Rightarrow> (32 word \<times> 'w) option" where
  "page_offset E fd m offset w =
     (if block_of m offset = offset then next_good_eraseblock E fd m offset w else Some (offset, w))"

text \<open>The loop of \<open>nand_read\<close>: \<open>n\<close> is the number of bytes that are still missing, \<open>acc\<close> what has been
  stored.  When nothing is missing any more, another page is read before the loop is left.\<close>

partial_function (option) read_loop ::
  "'w ota_ops \<Rightarrow> int \<Rightarrow> mtd_info \<Rightarrow> 32 word \<Rightarrow> nat \<Rightarrow> string \<Rightarrow> 'w \<Rightarrow> ((int \<times> string) \<times> 'w) option" where
  "read_loop E fd m offset n acc w =
     (if offset < mt_size m then do {
        (offset, w) \<leftarrow> page_offset E fd m offset w;
        if offset \<ge> mt_size m then Some ((-1, acc), w)
        else do {
          let (_, w) = oo_seek E fd (sint offset) w;
          let (r, w) = oo_read E fd (unat (mt_writesize m)) w;
          case r of
            None \<Rightarrow> Some ((-1, acc), w)
          | Some tmp \<Rightarrow>
              if length tmp \<noteq> unat (mt_writesize m) then Some ((-1, acc), w)
              else if n < unat (mt_writesize m) then Some ((0, acc @ take n tmp), w)
              else read_loop E fd m (offset + mt_writesize m) (n - unat (mt_writesize m)) (acc @ tmp) w
        }
      } else Some ((0, acc), w))"

text \<open>\<open>nand_read\<close> into a buffer: the result and the buffer, which is cleared once the device is known.\<close>

definition nand_read :: "'w ota_ops \<Rightarrow> string \<Rightarrow> 32 word \<Rightarrow> string \<Rightarrow> 'w \<Rightarrow> ((int \<times> string) \<times> 'w) option" where
  "nand_read E dev offset buf w =
     (let (fd, w) = oo_open E dev w in
      if fd < 0 then Some ((-1, buf), w)
      else let (info, w) = oo_info E fd w in
        case info of
          None \<Rightarrow> Some ((-1, buf), oo_close E fd w)
        | Some m \<Rightarrow>
            let buf = replicate (length buf) nul in
            if offset AND (mt_writesize m - 1) \<noteq> 0 then Some ((-1, buf), oo_close E fd w)
            else let (ok, w) = oo_malloc E (unat (mt_writesize m)) w in
              if \<not> ok then Some ((-1, buf), oo_close E fd w)
              else do {
                (offset, w) \<leftarrow> first_offset E fd m offset w;
                ((r, acc), w) \<leftarrow> read_loop E fd m offset (length buf) [] w;
                Some ((r, acc @ drop (length acc) buf), oo_close E fd w)
              })"

text \<open>The page that is written next: the rest of the data, filled up with 0xFF.\<close>

definition write_page :: "nat \<Rightarrow> string \<Rightarrow> string" where
  "write_page ws data = (if length data < ws then data @ replicate (ws - length data) (CHR 0xFF) else take ws data)"

partial_function (option) write_loop ::
  "'w ota_ops \<Rightarrow> int \<Rightarrow> mtd_info \<Rightarrow> 32 word \<Rightarrow> string \<Rightarrow> 'w \<Rightarrow> (int \<times> 'w) option" where
  "write_loop E fd m offset data w =
     (if offset < mt_size m then do {
        (offset, w) \<leftarrow> page_offset E fd m offset w;
        if offset \<ge> mt_size m then Some (-1, w)
        else do {
          let (_, w) = oo_seek E fd (sint offset) w;
          let (r, w) = oo_write E fd (write_page (unat (mt_writesize m)) data) w;
          if word_of_int r \<noteq> mt_writesize m then Some (-1, w)
          else if drop (unat (mt_writesize m)) data = [] then Some (0, w)
          else write_loop E fd m (offset + mt_writesize m) (drop (unat (mt_writesize m)) data) w
        }
      } else Some (0, w))"

definition nand_write :: "'w ota_ops \<Rightarrow> string \<Rightarrow> 32 word \<Rightarrow> string \<Rightarrow> 'w \<Rightarrow> (int \<times> 'w) option" where
  "nand_write E dev offset data w =
     (let (fd, w) = oo_open E dev w in
      if fd < 0 then Some (-1, w)
      else let (info, w) = oo_info E fd w in
        case info of
          None \<Rightarrow> Some (-1, oo_close E fd w)
        | Some m \<Rightarrow>
            if offset AND (mt_writesize m - 1) \<noteq> 0 then Some (-1, oo_close E fd w)
            else let (ok, w) = oo_malloc E (unat (mt_writesize m)) w in
              if \<not> ok then Some (-1, oo_close E fd w)
              else do {
                (offset, w) \<leftarrow> first_offset E fd m offset w;
                (r, w) \<leftarrow> write_loop E fd m offset data w;
                Some (r, oo_close E fd w)
              })"

end
