(* ===== verification/OtaBoot.thy ===== *)
theory OtaBoot
  imports OtaFlash
begin

text \<open>
  The recovery library (\<open>recovery.c\<close>): the partition table \<open>/etc/yodabase.recovery.fstab\<close>, the boot command that the
  services, the boot loader and the updater exchange in the \<open>misc\<close> partition, and raw flash devices.  The
  model is that of the build for YodaOS (\<open>ROKIDOS_BOARDCONFIG_STORAGE_DEVICETYPE\<close> is 1).  A text that does not fit
  the array it is copied to is the outcome \<open>None\<close>.
\<close>

section \<open>Texts\<close>

text \<open>\<open>strsep\<close> with the separators \<open>ds\<close>, empty pieces skipped as all callers do.\<close>

fun split_any :: "char list \<Rightarrow> string \<Rightarrow> string \<Rightarrow> string list" where
  "split_any ds acc [] = [rev acc]"
| "split_any ds acc (c # cs) = (if c \<in> set ds then rev acc # split_any ds [] cs else split_any ds (c # acc) cs)"

definition strsep_all :: "char list \<Rightarrow> string \<Rightarrow> string list" where
  "strsep_all ds s = filter (\<lambda>t. t \<noteq> []) (split_any ds [] s)"

definition blanks :: "char list" where
  "blanks = [CHR '' '', CHR 0x09, CHR 0x0A]"

definition fit :: "nat \<Rightarrow> string \<Rightarrow> string option" where
  "fit n s = (if length s < n then Some s else None)"

definition before :: "char \<Rightarrow> string \<Rightarrow> string" where
  "before c s = takeWhile (\<lambda>x. x \<noteq> c) s"

definition is_comment :: "string \<Rightarrow> bool" where
  "is_comment l \<longleftrightarrow> contains l ''#''"

section \<open>The partition table\<close>

definition YODABASE_FSTAB :: string where "YODABASE_FSTAB = ''/etc/yodabase.recovery.fstab''"
definition MAX_PARTITIONS_NUM :: nat where "MAX_PARTITIONS_NUM = 32"
definition DATA_PARTNAME_POS :: nat where "DATA_PARTNAME_POS = 3"
definition MISC_PARTNAME_POS :: nat where "MISC_PARTNAME_POS = 4"
definition ENV_PARTNAME_POS :: nat where "ENV_PARTNAME_POS = 5"

datatype partition_type = MTD_AB_FORMAT | MTD_FORMAT | UBI_OVERLAY_FORMAT | RAW_FORMAT

datatype partition_fs = RAW_FS | UBI_FS | SQUASH_FS | EXT2_FS | EXT3_FS | EXT4_FS
  | SQUASHFS_OVERLAY_UBIFS | UBIFS_OVERLAY_UBIFS | VOL_OVERLAY_UBIFS | UNKNOWN_FS

record mount_info =
  mount_point :: string
  mount_format :: string
  mount_path :: string
  mount_param :: string

record partition_info =
  part_name :: string
  part_mount_info :: mount_info
  part_format :: partition_fs

text \<open>The state of the library: \<open>g_partition_info\<close> with its number of entries, and the outside.\<close>

record 'w ota =
  g_partition_info :: "partition_info list"
  ow :: 'w

definition ox :: "('w \<Rightarrow> 'a \<times> 'w) \<Rightarrow> 'w ota \<Rightarrow> 'a \<times> 'w ota" where
  "ox f s = (case f (ow s) of (r, w) \<Rightarrow> (r, s\<lparr>ow := w\<rparr>))"

definition ox' :: "('w \<Rightarrow> ('a \<times> 'w) option) \<Rightarrow> 'w ota \<Rightarrow> ('a \<times> 'w ota) option" where
  "ox' f s = map_option (\<lambda>(r, w). (r, s\<lparr>ow := w\<rparr>)) (f (ow s))"

text \<open>The device of a partition: the text before the first colon of the first line that has the quoted
  name and no comment.  The name is written to an array of \<open>cap\<close> bytes; it is cleared first.\<close>

definition get_mtd_name :: "'w ota_ops \<Rightarrow> string \<Rightarrow> nat \<Rightarrow> string \<Rightarrow> 'w \<Rightarrow> ((int \<times> string) \<times> 'w) option" where
  "get_mtd_name E logic_name cap fstab w = do {
     quoted \<leftarrow> fit 64 (CHR 0x22 # logic_name @ [CHR 0x22]);
     let (f, w) = oo_file E fstab w;
     case f of
       None \<Rightarrow> Some ((-1, []), w)
     | Some txt \<Rightarrow>
         (case List.find (\<lambda>l. \<not> is_comment l \<and> contains l quoted) (getlines txt) of
            None \<Rightarrow> Some ((-1, []), w)
          | Some l \<Rightarrow>
              if CHR '':'' \<notin> set l then Some ((-2, []), w)
              else do { n \<leftarrow> fit 256 (before (CHR '':'') l); n \<leftarrow> fit cap n; Some ((0, n), w) })
   }"

definition get_mtd_num :: "string \<Rightarrow> int" where
  "get_mtd_num dev =
     (case strstr dev ''/dev/mtdblock'' of
        Some p \<Rightarrow> atoi (drop 13 p)
      | None \<Rightarrow> (case strstr dev ''/dev/mtd'' of Some p \<Rightarrow> atoi (drop 8 p) | None \<Rightarrow> -1))"

text \<open>\<open>strsep\<close> ends the text at the first underscore; the digits are read eight characters from its start.\<close>

definition get_dev_ubinum :: "string \<Rightarrow> int" where
  "get_dev_ubinum dev =
     (if contains dev ''/dev/ubi''
      then atoi (let t = before (CHR ''_'') dev in if length t \<ge> 8 then drop 8 t else drop 8 dev)
      else -1)"

fun line_type :: "string list \<Rightarrow> partition_type" where
  "line_type [] = MTD_AB_FORMAT"
| "line_type (l # ls) =
     (if is_comment l then line_type ls
      else if contains l ''ubi_format'' then UBI_OVERLAY_FORMAT
      else if contains l ''mtd_format'' then MTD_FORMAT
      else if contains l ''raw_format'' then RAW_FORMAT
      else line_type ls)"

text \<open>\<open>None\<close> stands for -1.\<close>

definition get_upgrade_partition_type :: "'w ota_ops \<Rightarrow> string \<Rightarrow> 'w \<Rightarrow> partition_type option \<times> 'w" where
  "get_upgrade_partition_type E fstab w =
     (let (f, w) = oo_file E fstab w in (map_option (\<lambda>txt. line_type (getlines txt)) f, w))"

text \<open>The loops that count devices: the number of the last one that can be opened, 32 when all can.\<close>

fun count_devices :: "'w ota_ops \<Rightarrow> (nat \<Rightarrow> string) \<Rightarrow> nat \<Rightarrow> nat \<Rightarrow> 'w \<Rightarrow> int \<times> 'w" where
  "count_devices E name i 0 w = (int i, w)"
| "count_devices E name i (Suc left) w =
     (let (fd, w) = oo_open E (name i) w in
      if fd < 0 then (int i - 1, w) else count_devices E name (Suc i) left (oo_close E fd w))"

definition get_max_ubinum :: "'w ota_ops \<Rightarrow> 'w \<Rightarrow> int \<times> 'w" where
  "get_max_ubinum E w = count_devices E (\<lambda>i. ''/dev/ubi'' @ show_nat i) 0 MAX_PARTITIONS_NUM w"

definition get_max_ubivolnum :: "'w ota_ops \<Rightarrow> int \<Rightarrow> 'w \<Rightarrow> int \<times> 'w" where
  "get_max_ubivolnum E n w = count_devices E (\<lambda>i. ''/dev/ubi'' @ show_int n @ ''_'' @ show_nat i) 0 MAX_PARTITIONS_NUM w"

text \<open>The names of the data, misc and env partitions are fields of the line with \<open>block_type\<close>.  The arrays of
  all callers have 32 bytes.\<close>

definition select_partname :: "'w ota_ops \<Rightarrow> string \<Rightarrow> nat \<Rightarrow> 'w \<Rightarrow> ((int \<times> string) \<times> 'w) option" where
  "select_partname E fstab select_num w =
     (let (f, w) = oo_file E fstab w in
      case f of
        None \<Rightarrow> Some ((-1, []), w)
      | Some txt \<Rightarrow>
          (case List.find (\<lambda>l. \<not> is_comment l \<and> contains l ''block_type'') (getlines txt) of
             None \<Rightarrow> Some ((0, []), w)
           | Some l \<Rightarrow>
               let ts = strsep_all blanks l in
               if select_num \<le> length ts then do { n \<leftarrow> fit 32 (ts ! (select_num - 1)); Some ((0, n), w) }
               else Some ((0, []), w)))"

definition get_data_partname :: "'w ota_ops \<Rightarrow> string \<Rightarrow> 'w \<Rightarrow> ((int \<times> string) \<times> 'w) option" where
  "get_data_partname E fstab w = select_partname E fstab DATA_PARTNAME_POS w"

definition get_misc_partname :: "'w ota_ops \<Rightarrow> string \<Rightarrow> 'w \<Rightarrow> ((int \<times> string) \<times> 'w) option" where
  "get_misc_partname E fstab w = select_partname E fstab MISC_PARTNAME_POS w"

definition get_env_partname :: "'w ota_ops \<Rightarrow> string \<Rightarrow> 'w \<Rightarrow> ((int \<times> string) \<times> 'w) option" where
  "get_env_partname E fstab w = select_partname E fstab ENV_PARTNAME_POS w"

text \<open>The name of a device in \<open>/proc/partitions\<close>.\<close>

definition proc_name :: "string \<Rightarrow> string option" where
  "proc_name dev =
     (let d = (if contains dev ''/dev/'' then drop 5 dev else dev) in
      if contains d ''mtd'' \<and> \<not> contains d ''mtdblock'' then fit 256 (''mtdblock'' @ drop 3 d) else fit 256 d)"

text \<open>The size in bytes, -1 when the device is not listed.  The product overflows for 2 GiB and more.\<close>

definition get_partition_size :: "'w ota_ops \<Rightarrow> string \<Rightarrow> 'w \<Rightarrow> (int \<times> 'w) option" where
  "get_partition_size E dev w = do {
     let (f, w) = oo_file E ''/proc/partitions'' w;
     case f of
       None \<Rightarrow> Some (-1, w)
     | Some txt \<Rightarrow> do {
         name \<leftarrow> proc_name dev;
         let kb = (case List.find (\<lambda>l. contains l name) (getlines txt) of
                     None \<Rightarrow> -1
                   | Some l \<Rightarrow> let ts = strsep_all [CHR '' '', CHR 0x09] l in if length ts \<ge> 3 then atoi (ts ! 2) else -1);
         if kb = -1 then Some (-1, w)
         else if - (2 ^ 31) \<le> kb * 1024 \<and> kb * 1024 < 2 ^ 31 then Some (kb * 1024, w) else None
       }
   }"

definition fs_format :: "string \<Rightarrow> partition_fs" where
  "fs_format f =
     (if f = ''raw'' \<or> f = [] then RAW_FS
      else if f = ''ubifs'' then UBI_FS
      else if f = ''squashfs'' then SQUASH_FS
      else if f = ''ext2'' then EXT2_FS
      else if f = ''ext3'' then EXT3_FS
      else if f = ''ext4'' then EXT4_FS
      else if f = ''squashfs_overlay_ubifs'' then SQUASHFS_OVERLAY_UBIFS
      else if f = ''ubifs_overlay_ubifs'' then UBIFS_OVERLAY_UBIFS
      else if f = ''volume_overlay_ubifs'' then VOL_OVERLAY_UBIFS
      else UNKNOWN_FS)"

text \<open>The text between the first two quotation marks.\<close>

definition quoted_name :: "string \<Rightarrow> string" where
  "quoted_name l =
     (case strchr l (CHR 0x22) of
        None \<Rightarrow> []
      | Some q \<Rightarrow> if CHR 0x22 \<in> set (tl q) then before (CHR 0x22) (tl q) else [])"

definition nth_token :: "string list \<Rightarrow> nat \<Rightarrow> string" where
  "nth_token ts i = (if i < length ts then ts ! i else [])"

text \<open>One line of the table.  What is missing stays empty; without a format the entry is raw.\<close>

definition partition_line :: "string \<Rightarrow> partition_info option" where
  "partition_line l = do {
     let ts = strsep_all blanks l;
     point \<leftarrow> fit 256 (if CHR '':'' \<in> set l then before (CHR '':'') l else []);
     name \<leftarrow> fit 64 (quoted_name l);
     form \<leftarrow> fit 64 (nth_token ts 2);
     path \<leftarrow> fit 64 (nth_token ts 3);
     param \<leftarrow> fit 128 (nth_token ts 4);
     Some \<lparr>part_name = name,
       part_mount_info = \<lparr>mount_point = point, mount_format = form, mount_path = path, mount_param = param\<rparr>,
       part_format = fs_format form\<rparr>
   }"

definition is_partition :: "string \<Rightarrow> bool" where
  "is_partition l \<longleftrightarrow> \<not> contains l ''block_type'' \<and> \<not> is_comment l"

text \<open>The result is \<open>None\<close> for -1, else the entries in use.\<close>

definition get_partitions_info :: "'w ota_ops \<Rightarrow> nat \<Rightarrow> string \<Rightarrow> 'w \<Rightarrow> (partition_info list option \<times> 'w) option" where
  "get_partitions_info E max_partition_num fstab w =
     (let (f, w) = oo_file E fstab w in
      case f of
        None \<Rightarrow> Some (None, w)
      | Some txt \<Rightarrow> do {
          ps \<leftarrow> those (map partition_line (take max_partition_num (filter is_partition (getlines txt))));
          Some (Some ps, w)
        })"

text \<open>The table is read once; \<open>None\<close> as the result stands for -1.\<close>

definition get_rawflash_partition_info :: "'w ota_ops \<Rightarrow> string \<Rightarrow> 'w ota \<Rightarrow> (partition_info option \<times> 'w ota) option" where
  "get_rawflash_partition_info E logic_name s = do {
     s \<leftarrow> (if g_partition_info s = [] then do {
             (ps, s) \<leftarrow> ox' (get_partitions_info E MAX_PARTITIONS_NUM YODABASE_FSTAB) s;
             Some (case ps of None \<Rightarrow> s | Some ps \<Rightarrow> s\<lparr>g_partition_info := ps\<rparr>)
           } else Some s);
     Some (List.find (\<lambda>p. part_name p = logic_name) (g_partition_info s), s)
   }"

definition rawflash_get_name :: "'w ota_ops \<Rightarrow> string \<Rightarrow> nat \<Rightarrow> 'w ota \<Rightarrow> ((int \<times> string) \<times> 'w ota) option" where
  "rawflash_get_name E logic_name cap s = do {
     (p, s) \<leftarrow> get_rawflash_partition_info E logic_name s;
     case p of
       None \<Rightarrow> Some ((-1, []), s)
     | Some p \<Rightarrow> do { n \<leftarrow> fit cap (mount_point (part_mount_info p)); Some ((0, n), s) }
   }"

section \<open>Raw flash\<close>

definition rawflash_read :: "'w ota_ops \<Rightarrow> string \<Rightarrow> int \<Rightarrow> string \<Rightarrow> 'w \<Rightarrow> (int \<times> string) \<times> 'w" where
  "rawflash_read E dev offset buf w =
     (let (fd, w) = oo_open E dev w in
      if fd < 0 then ((-1, buf), w)
      else let (_, w) = oo_seek E fd offset w; (r, w) = oo_read E fd (length buf) w in
        case r of
          None \<Rightarrow> ((-1, buf), oo_close E fd w)
        | Some bs \<Rightarrow> ((if length bs \<noteq> length buf then -1 else 0, bs @ drop (length bs) buf), oo_close E fd w))"

definition rawflash_write :: "'w ota_ops \<Rightarrow> string \<Rightarrow> int \<Rightarrow> string \<Rightarrow> 'w \<Rightarrow> int \<times> 'w" where
  "rawflash_write E dev offset data w =
     (let (fd, w) = oo_open E dev w in
      if fd < 0 then (-1, w)
      else let (_, w) = oo_seek E fd offset w; (r, w) = oo_write E fd data w in
        (if r \<noteq> int (length data) then -1 else 0, oo_close E fd w))"

text \<open>The result is that of the last call, so 0 when the partition is not formatted with ext2.\<close>

definition rawflash_format_userdata :: "'w ota_ops \<Rightarrow> 'w ota \<Rightarrow> (int \<times> 'w ota) option" where
  "rawflash_format_userdata E s = do {
     ((r, name), s) \<leftarrow> ox' (get_data_partname E YODABASE_FSTAB) s;
     if r < 0 \<or> name = [] then Some (-1, s)
     else do {
       (p, s) \<leftarrow> get_rawflash_partition_info E name s;
       case p of
         None \<Rightarrow> Some (-1, s)
       | Some p \<Rightarrow>
           if part_format p = EXT2_FS then
             let d = mount_point (part_mount_info p);
                 (_, s) = ox (oo_system E (take 255 (''umount '' @ d))) s;
                 (r, s) = ox (oo_system E (take 255 (''mkfs.ext2 -F '' @ d))) s in
             Some (r, s)
           else Some (r, s)
     }
   }"

section \<open>The boot command\<close>

definition BOOTMODE_RECOVERY :: string where "BOOTMODE_RECOVERY = ''boot_recovery''"
definition BOOTMODE_FLUSHDATA :: string where "BOOTMODE_FLUSHDATA = ''boot_flushdata''"
definition BOOTSTATE_READY :: string where "BOOTSTATE_READY = ''recovery_ready''"
definition BOOTSTATE_RUN :: string where "BOOTSTATE_RUN = ''recovery_run''"
definition BOOTSTATE_OK :: string where "BOOTSTATE_OK = ''recovery_ok''"
definition BOOTSTATE_ERROR :: string where "BOOTSTATE_ERROR = ''recovery_error''"
definition RECOVERY_PART_A :: string where "RECOVERY_PART_A = ''recovery_partition_a''"
definition RECOVERY_PART_B :: string where "RECOVERY_PART_B = ''recovery_partition_b''"
definition RECOVERYA_END :: string where "RECOVERYA_END = ''recoverya_end''"
definition RECOVERYB_START :: string where "RECOVERYB_START = ''recoveryb_start''"
definition RECOVERYB_END :: string where "RECOVERYB_END = ''recoveryb_end''"

text \<open>\<open>struct boot_cmd\<close>: the arrays with all their bytes.\<close>

record boot_cmd =
  boot_mode :: string
  recovery_path :: string
  recovery_state :: string
  recovery_partition :: string
  uboot_status :: string
  recovery_status :: string
  version :: string
  reserve :: string

definition sizeof_boot_cmd :: nat where "sizeof_boot_cmd = 608"

definition zero_cmd :: boot_cmd where
  "zero_cmd = \<lparr>boot_mode = replicate 32 nul, recovery_path = replicate 256 nul, recovery_state = replicate 32 nul,
     recovery_partition = replicate 32 nul, uboot_status = replicate 32 nul, recovery_status = replicate 32 nul,
     version = replicate 48 nul, reserve = replicate 144 nul\<rparr>"

definition cmd_bytes :: "boot_cmd \<Rightarrow> string" where
  "cmd_bytes c = boot_mode c @ recovery_path c @ recovery_state c @ recovery_partition c @ uboot_status c @
     recovery_status c @ version c @ reserve c"

definition bytes_cmd :: "string \<Rightarrow> boot_cmd" where
  "bytes_cmd b = \<lparr>boot_mode = take 32 b, recovery_path = take 256 (drop 32 b), recovery_state = take 32 (drop 288 b),
     recovery_partition = take 32 (drop 320 b), uboot_status = take 32 (drop 352 b), recovery_status = take 32 (drop 384 b),
     version = take 48 (drop 416 b), reserve = take 144 (drop 464 b)\<rparr>"

text \<open>\<open>strncpy(dst, src, strlen(src) + 1)\<close> and \<open>strncpy(dst, src, strlen(src))\<close>.\<close>

definition put_str :: "string \<Rightarrow> string \<Rightarrow> string" where
  "put_str src dst = src @ nul # drop (length src + 1) dst"

definition put_chars :: "string \<Rightarrow> string \<Rightarrow> string" where
  "put_chars src dst = src @ drop (length src) dst"

text \<open>\<open>misc_device\<close> is the array of 32 bytes for the name of the device.\<close>

definition get_recovery_cmd_status :: "'w ota_ops \<Rightarrow> boot_cmd \<Rightarrow> 'w ota \<Rightarrow> ((int \<times> boot_cmd) \<times> 'w ota) option" where
  "get_recovery_cmd_status E cmd s = do {
     let (pt, s) = ox (get_upgrade_partition_type E YODABASE_FSTAB) s;
     ((r, name), s) \<leftarrow> ox' (get_misc_partname E YODABASE_FSTAB) s;
     if r < 0 \<or> name = [] then Some ((-1, cmd), s)
     else if pt = Some RAW_FORMAT then do {
       ((r, dev), s) \<leftarrow> rawflash_get_name E name 32 s;
       if r \<noteq> 0 then Some ((-1, cmd), s)
       else let ((r, b), s) = ox (rawflash_read E dev 0 (cmd_bytes cmd)) s in
         Some ((if r \<noteq> 0 then -1 else 0, bytes_cmd b), s)
     }
     else do {
       ((r, dev), s) \<leftarrow> ox' (get_mtd_name E name 32 YODABASE_FSTAB) s;
       if r < 0 then Some ((-2, cmd), s)
       else do {
         ((_, b), s) \<leftarrow> ox' (nand_read E dev 0 (cmd_bytes cmd)) s;
         Some ((0, bytes_cmd b), s)
       }
     }
   }"

definition erase_uboot_env_part :: "'w ota_ops \<Rightarrow> 'w ota \<Rightarrow> (int \<times> 'w ota) option" where
  "erase_uboot_env_part E s = do {
     ((r, name), s) \<leftarrow> ox' (get_env_partname E YODABASE_FSTAB) s;
     if r < 0 \<or> name = [] then Some (-1, s)
     else do {
       ((r, dev), s) \<leftarrow> ox' (get_mtd_name E name 32 YODABASE_FSTAB) s;
       if r < 0 then Some (r, s)
       else if \<not> is_prefix ''/dev/'' dev then Some (0, s)
       else do { (_, s) \<leftarrow> ox' (nand_erase E dev 0) s; Some (0, s) }
     }
   }"

text \<open>The partition that is in use is A unless B is set.\<close>

definition normal_partition :: "boot_cmd \<Rightarrow> boot_cmd" where
  "normal_partition cmd = cmd\<lparr>recovery_partition :=
     put_str (if is_prefix RECOVERY_PART_B (recovery_partition cmd) then RECOVERY_PART_B else RECOVERY_PART_A) (recovery_partition cmd)\<rparr>"

definition set_recovery_cmd_status :: "'w ota_ops \<Rightarrow> boot_cmd \<Rightarrow> 'w ota \<Rightarrow> ((int \<times> boot_cmd) \<times> 'w ota) option" where
  "set_recovery_cmd_status E cmd s = do {
     let (pt, s) = ox (get_upgrade_partition_type E YODABASE_FSTAB) s;
     ((r, name), s) \<leftarrow> ox' (get_misc_partname E YODABASE_FSTAB) s;
     if r < 0 \<or> name = [] then Some ((-1, cmd), s)
     else if pt = Some RAW_FORMAT then do {
       ((r, dev), s) \<leftarrow> rawflash_get_name E name 32 s;
       if r \<noteq> 0 then Some ((-1, cmd), s)
       else let (r, s) = ox (rawflash_write E dev 0 (cmd_bytes cmd)) s in
         Some ((if r \<noteq> 0 then -1 else 0, cmd), s)
     }
     else do {
       ((r, dev), s) \<leftarrow> ox' (get_mtd_name E name 32 YODABASE_FSTAB) s;
       if r < 0 then Some ((-2, cmd), s)
       else do {
         let cmd = normal_partition cmd;
         (_, s) \<leftarrow> ox' (nand_erase_part E dev 0 (of_nat sizeof_boot_cmd)) s;
         (_, s) \<leftarrow> ox' (nand_write E dev 0 (cmd_bytes cmd)) s;
         (_, s) \<leftarrow> erase_uboot_env_part E s;
         Some ((0, cmd), s)
       }
     }
   }"

definition set_boot_flush_data :: "'w ota_ops \<Rightarrow> 'w ota \<Rightarrow> (int \<times> 'w ota) option" where
  "set_boot_flush_data E s = do {
     ((_, cmd), s) \<leftarrow> get_recovery_cmd_status E zero_cmd s;
     ((r, _), s) \<leftarrow> set_recovery_cmd_status E (cmd\<lparr>boot_mode := put_chars BOOTMODE_FLUSHDATA (boot_mode cmd),
       recovery_state := put_chars BOOTSTATE_READY (recovery_state cmd)\<rparr>) s;
     Some (r, s)
   }"

definition get_boot_flush_data :: "'w ota_ops \<Rightarrow> 'w ota \<Rightarrow> (int \<times> 'w ota) option" where
  "get_boot_flush_data E s = do {
     ((r, cmd), s) \<leftarrow> get_recovery_cmd_status E zero_cmd s;
     if is_prefix BOOTMODE_FLUSHDATA (boot_mode cmd) \<and> is_prefix BOOTSTATE_OK (recovery_state cmd) then Some (0, s)
     else Some (r, s)
   }"

end
