(* ===== verification/OtaMount.thy ===== *)
theory OtaMount
  imports OtaBoot
begin

text \<open>
  Mounting and flushing partitions (\<open>flush_data\<close>, \<open>mount_data\<close> and \<open>mount_partitions\<close> of \<open>recovery.c\<close>): which shell
  commands run for which partition format.
\<close>

section \<open>Commands\<close>

definition run :: "'w ota_ops \<Rightarrow> string \<Rightarrow> 'w ota \<Rightarrow> int \<times> 'w ota" where
  "run E c s = ox (oo_system E c) s"

definition ubiattach :: "'w ota_ops \<Rightarrow> int \<Rightarrow> 'w ota \<Rightarrow> 'w ota" where
  "ubiattach E mtd s = snd (run E (''ubiattach /dev/ubi_ctrl -m '' @ show_int mtd) s)"

text \<open>Attach an MTD device and find the number of its UBI device; when no device appears it is formatted and
  attached again.\<close>

definition attach_or_format :: "'w ota_ops \<Rightarrow> int \<Rightarrow> 'w ota \<Rightarrow> int \<times> 'w ota" where
  "attach_or_format E mtd s =
     (let (old, s) = ox (get_max_ubinum E) s;
          s = ubiattach E mtd s;
          (new, s) = ox (get_max_ubinum E) s in
      if old + 1 \<noteq> new then
        let s = snd (run E (''ubiformat /dev/mtd'' @ show_int mtd @ '' -y'') s);
            s = ubiattach E mtd s in
        ox (get_max_ubinum E) s
      else (old + 1, s))"

text \<open>The device of a volume is attached when it is the next one; \<open>False\<close> stands for the error returns.\<close>

definition attach_volume :: "'w ota_ops \<Rightarrow> string \<Rightarrow> string \<Rightarrow> 'w ota \<Rightarrow> (bool \<times> 'w ota) option" where
  "attach_volume E mtd_dev ubi_dev s = do {
     d \<leftarrow> fit 32 ubi_dev;
     let (ubi_num, s) = ox (get_max_ubinum E) s;
     let dev_ubinum = get_dev_ubinum d;
     if dev_ubinum < 0 then Some (False, s)
     else if ubi_num = dev_ubinum - 1 then
       (let mtd_num = get_mtd_num mtd_dev in
        if mtd_num < 0 then Some (False, s) else Some (True, ubiattach E mtd_num s))
     else if ubi_num < dev_ubinum - 1 then Some (False, s)
     else Some (True, s)
   }"

definition point_seps :: "char list" where "point_seps = [CHR '','', CHR '' '', CHR 0x09, CHR 0x0A]"
definition path_seps :: "char list" where "path_seps = [CHR '','', CHR 0x0A]"

definition option_text :: "string \<Rightarrow> string" where
  "option_text param = (if param = [] then [] else ''-o '' @ param @ '' '')"

text \<open>The parameters without the two that name checks.\<close>

definition plain_params :: "string \<Rightarrow> string list" where
  "plain_params param = filter (\<lambda>t. t \<noteq> ''e2fsck'' \<and> t \<noteq> ''resize2fs'') (strsep_all path_seps param)"

fun join_commas :: "string list \<Rightarrow> string" where
  "join_commas [] = []"
| "join_commas [t] = t"
| "join_commas (t # ts) = t @ '','' @ join_commas ts"

text \<open>The last branch of \<open>mount_data\<close> and \<open>mount_partitions\<close>.\<close>

definition generic_mount :: "'w ota_ops \<Rightarrow> mount_info \<Rightarrow> 'w ota \<Rightarrow> int \<times> 'w ota" where
  "generic_mount E i s =
     (let fsck = contains (mount_param i) ''e2fsck'';
          resize = contains (mount_param i) ''resize2fs'';
          s = (if fsck then snd (run E (''e2fsck -fy '' @ mount_point i) s) else s);
          s = (if resize then snd (run E (''resize2fs '' @ mount_point i) s) else s);
          param = (if fsck \<or> resize then join_commas (plain_params (mount_param i)) else mount_param i) in
      run E (''mount -t '' @ mount_format i @ '' '' @ option_text param @ mount_point i @ '' '' @ mount_path i) s)"

section \<open>Flushing the data partition\<close>

definition update_volume :: "'w ota_ops \<Rightarrow> string \<Rightarrow> 'w ota \<Rightarrow> int \<times> 'w ota" where
  "update_volume E vol s = (let (r, s) = run E (''ubiupdatevol -t '' @ vol) s in (if r \<noteq> 0 then -1 else 0, s))"

text \<open>\<open>vol\<close> is the number of the volume that holds the data.\<close>

definition flush_ubi :: "'w ota_ops \<Rightarrow> nat \<Rightarrow> mount_info \<Rightarrow> 'w ota \<Rightarrow> int \<times> 'w ota" where
  "flush_ubi E vol i s =
     (let mtd_num = get_mtd_num (mount_point i) in
      if mtd_num < 0 then (-1, s)
      else
        let s = ubiattach E mtd_num s;
            (ubi_num, s) = ox (get_max_ubinum E) s in
        if ubi_num < 0 then (-1, s)
        else let (ubivol_num, s) = ox (get_max_ubivolnum E ubi_num) s in
          if ubivol_num < int vol then (-1, s)
          else update_volume E (''/dev/ubi'' @ show_int ubi_num @ ''_'' @ show_nat vol) s)"

definition flush_volume :: "'w ota_ops \<Rightarrow> mount_info \<Rightarrow> 'w ota \<Rightarrow> (int \<times> 'w ota) option" where
  "flush_volume E i s =
     (if mount_point i = [] then Some (0, s)
      else case strsep_all point_seps (mount_point i) of
        mtd_dev # ubi_dev # _ \<Rightarrow> do {
          (ok, s) \<leftarrow> attach_volume E mtd_dev ubi_dev s;
          if ok then Some (update_volume E ubi_dev s) else Some (-1, s)
        }
      | _ \<Rightarrow> Some (-1, s))"

definition flush_ext :: "'w ota_ops \<Rightarrow> mount_info \<Rightarrow> 'w ota \<Rightarrow> int \<times> 'w ota" where
  "flush_ext E i s =
     (let (_, s) = run E (''umount '' @ mount_point i) s;
          (r, s) = run E (''mkfs.'' @ mount_format i @ '' -F '' @ mount_point i) s in
      (if r \<noteq> 0 then -1 else 0, s))"

definition flush_data :: "'w ota_ops \<Rightarrow> string \<Rightarrow> 'w ota \<Rightarrow> (int \<times> 'w ota) option" where
  "flush_data E fstab s = do {
     ((r, name), s) \<leftarrow> ox' (get_data_partname E fstab) s;
     if r \<noteq> 0 then Some (r, s)
     else do {
       (p, s) \<leftarrow> get_rawflash_partition_info E name s;
       case p of
         None \<Rightarrow> Some (-1, s)
       | Some p \<Rightarrow>
           let i = part_mount_info p in
           (case part_format p of
              SQUASHFS_OVERLAY_UBIFS \<Rightarrow> Some (flush_ubi E 1 i s)
            | UBIFS_OVERLAY_UBIFS \<Rightarrow> Some (flush_ubi E 1 i s)
            | VOL_OVERLAY_UBIFS \<Rightarrow> flush_volume E i s
            | UBI_FS \<Rightarrow> Some (flush_ubi E 0 i s)
            | EXT2_FS \<Rightarrow> Some (flush_ext E i s)
            | EXT3_FS \<Rightarrow> Some (flush_ext E i s)
            | EXT4_FS \<Rightarrow> Some (flush_ext E i s)
            | _ \<Rightarrow> Some (-1, s))
     }
   }"

section \<open>Mounting the data partition\<close>

definition mount_result :: "int \<times> 'w ota \<Rightarrow> int \<times> 'w ota" where
  "mount_result x = (if fst x \<noteq> 0 then -1 else 0, snd x)"

definition mount_overlay :: "'w ota_ops \<Rightarrow> mount_info \<Rightarrow> 'w ota \<Rightarrow> int \<times> 'w ota" where
  "mount_overlay E i s =
     (let mtd_num = get_mtd_num (mount_point i) in
      if mtd_num < 0 then (-1, s)
      else let (ubi_num, s) = attach_or_format E mtd_num s in
        if ubi_num < 0 then (-1, s)
        else let (ubivol_num, s) = ox (get_max_ubivolnum E ubi_num) s in
          if ubivol_num < 1 then (-1, s)
          else let s = snd (run E ''sync'' s) in
            case strsep_all path_seps (mount_path i) of
              _ # path # _ \<Rightarrow> mount_result (run E (''mount -t ubifs '' @ option_text (mount_param i) @
                ''ubi'' @ show_int ubi_num @ '':'' @ path @ '' /'' @ path) s)
            | _ \<Rightarrow> (-1, s))"

definition mount_ubi :: "'w ota_ops \<Rightarrow> string \<Rightarrow> mount_info \<Rightarrow> 'w ota \<Rightarrow> int \<times> 'w ota" where
  "mount_ubi E name i s =
     (let mtd_num = get_mtd_num (mount_point i) in
      if mtd_num < 0 then (-1, s)
      else let (ubi_num, s) = attach_or_format E mtd_num s in
        if ubi_num < 0 then (-1, s)
        else let (ubivol_num, s) = ox (get_max_ubivolnum E ubi_num) s;
                 s = (if ubivol_num < 0 then snd (run E (''ubimkvol /dev/ubi'' @ show_int ubi_num @ '' -N '' @ name @ '' -m'') s) else s);
                 s = snd (run E ''sync'' s) in
          mount_result (run E (''mount -t ubifs '' @ option_text (mount_param i) @
            ''ubi'' @ show_int ubi_num @ ''_0 '' @ mount_path i) s))"

definition mount_volume :: "'w ota_ops \<Rightarrow> mount_info \<Rightarrow> 'w ota \<Rightarrow> (int \<times> 'w ota) option" where
  "mount_volume E i s =
     (if mount_point i = [] then Some (0, s)
      else case strsep_all point_seps (mount_point i) of
        mtd_dev # ubi_dev # _ \<Rightarrow> do {
          (ok, s) \<leftarrow> attach_volume E mtd_dev ubi_dev s;
          if \<not> ok then Some (-1, s)
          else if mount_path i = [] then Some (0, s)
          else Some (mount_result (run E (''mount -t ubifs '' @ option_text (mount_param i) @ ubi_dev @ '' '' @ mount_path i) s))
        }
      | _ \<Rightarrow> Some (-1, s))"

definition mount_data :: "'w ota_ops \<Rightarrow> string \<Rightarrow> 'w ota \<Rightarrow> (int \<times> 'w ota) option" where
  "mount_data E fstab s = do {
     ((r, name), s) \<leftarrow> ox' (get_data_partname E fstab) s;
     if r \<noteq> 0 then Some (r, s)
     else do {
       (p, s) \<leftarrow> get_rawflash_partition_info E name s;
       case p of
         None \<Rightarrow> Some (-1, s)
       | Some p \<Rightarrow>
           let i = part_mount_info p in
           if mount_path i = [] then Some (-1, s)
           else let (r, s) = run E ''mount > /tmp/mount_info'' s in
             if r \<noteq> 0 then Some (r, s)
             else let (f, s) = ox (oo_file E ''/tmp/mount_info'') s in
               case f of
                 None \<Rightarrow> Some (-1, s)
               | Some txt \<Rightarrow>
                   if list_ex (\<lambda>l. contains l (mount_path i)) (getlines txt) then Some (0, s)
                   else (case part_format p of
                       SQUASHFS_OVERLAY_UBIFS \<Rightarrow> Some (mount_overlay E i s)
                     | UBIFS_OVERLAY_UBIFS \<Rightarrow> Some (mount_overlay E i s)
                     | UBI_FS \<Rightarrow> Some (mount_ubi E (part_name p) i s)
                     | VOL_OVERLAY_UBIFS \<Rightarrow> mount_volume E i s
                     | _ \<Rightarrow> Some (mount_result (generic_mount E i s)))
     }
   }"

section \<open>Mounting all partitions\<close>

text \<open>The two layers of an overlay; the lower one is a squashfs image or an UBI volume.\<close>

definition mount_layers :: "'w ota_ops \<Rightarrow> bool \<Rightarrow> mount_info \<Rightarrow> 'w ota \<Rightarrow> 'w ota" where
  "mount_layers E squash i s =
     (let mtd_num = get_mtd_num (mount_point i) in
      if mtd_num < 0 \<or> mount_path i = [] then s
      else case strsep_all path_seps (mount_path i) of
        lower # upper # _ \<Rightarrow>
          let (ubi_num, s) = attach_or_format E mtd_num s in
          if ubi_num < 0 then s
          else let (ubivol_num, s) = ox (get_max_ubivolnum E ubi_num) s in
            if ubivol_num < 1 then s
            else let s = snd (run E ''sync'' s);
                     s = (if squash then snd (run E (''ubiblock --create /dev/ubi'' @ show_int ubi_num @ ''_0'') s) else s);
                     (r, s) = run E ((if squash then ''mount -t squashfs -o ro /dev/ubiblock'' else ''mount -t ubifs -o rw /dev/ubi'') @
                       show_int ubi_num @ ''_0 '' @ lower) s in
              if r \<noteq> 0 then s
              else snd (run E (''mount -t ubifs '' @ option_text (mount_param i) @ ''ubi'' @ show_int ubi_num @ '':'' @ upper @
                '' '' @ lower @ ''/'' @ upper) s)
      | _ \<Rightarrow> s)"

definition mount_partition :: "'w ota_ops \<Rightarrow> partition_info \<Rightarrow> 'w ota \<Rightarrow> 'w ota option" where
  "mount_partition E p s =
     (let i = part_mount_info p in
      if part_name p = [] then Some s
      else case part_format p of
        RAW_FS \<Rightarrow> Some s
      | UBI_FS \<Rightarrow> Some (if mount_path i = [] then s else snd (mount_ubi E (part_name p) i s))
      | SQUASHFS_OVERLAY_UBIFS \<Rightarrow> Some (mount_layers E True i s)
      | UBIFS_OVERLAY_UBIFS \<Rightarrow> Some (mount_layers E False i s)
      | VOL_OVERLAY_UBIFS \<Rightarrow> map_option snd (mount_volume E i s)
      | _ \<Rightarrow> Some (if mount_point i = [] \<or> mount_format i = [] \<or> mount_path i = [] then s else snd (generic_mount E i s)))"

fun mount_table :: "'w ota_ops \<Rightarrow> partition_info list \<Rightarrow> 'w ota \<Rightarrow> 'w ota option" where
  "mount_table E [] s = Some s"
| "mount_table E (p # ps) s = do { s \<leftarrow> mount_partition E p s; mount_table E ps s }"

text \<open>A NULL table is the value \<open>None\<close>.  The code also cuts the texts of the table it has split; the table is
  not used afterwards.\<close>

definition mount_partitions :: "'w ota_ops \<Rightarrow> partition_info list option \<Rightarrow> 'w ota \<Rightarrow> (int \<times> 'w ota) option" where
  "mount_partitions E tab s =
     (case tab of
        None \<Rightarrow> Some (-1, s)
      | Some ps \<Rightarrow> if ps = [] then Some (-1, s) else map_option (\<lambda>s. (0, s)) (mount_table E ps s))"

end
