(* ===== verification/OtaPackage.thy ===== *)
theory OtaPackage
  imports OtaFlash
begin

text \<open>
  The package of an update (\<open>rokid_package.h\<close>) and the program that makes it (\<open>rokid_package.c\<close>): a head of 256
  bytes, a head of 512 bytes for each image, and the images.  The structures are packed and their integers
  are little endian, on the machine that makes the package and on the device.
\<close>

section \<open>Integers as bytes\<close>

fun int_bytes :: "nat \<Rightarrow> nat \<Rightarrow> string" where
  "int_bytes 0 v = []"
| "int_bytes (Suc n) v = char_of (v mod 256) # int_bytes n (v div 256)"

fun bytes_int :: "string \<Rightarrow> nat" where
  "bytes_int [] = 0"
| "bytes_int (c # cs) = of_char c + 256 * bytes_int cs"

lemma int_bytes_length [simp]: "length (int_bytes n v) = n"
  by (induction n arbitrary: v) auto

lemma bytes_int_bytes: "v < 256 ^ n \<Longrightarrow> bytes_int (int_bytes n v) = v"
proof (induction n arbitrary: v)
  case (Suc n)
  then have "v div 256 < 256 ^ n" by auto
  with Suc.IH show ?case by simp
qed simp

section \<open>The structures\<close>

record file_head =
  fh_sum :: "32 word"
  fh_start_position :: "64 word"
  fh_file_size :: "64 word"
  fh_reserved :: string

text \<open>The arrays have all their bytes.\<close>

record bin_head =
  bh_id :: "32 word"
  bh_start_position :: "64 word"
  bh_bin_size :: "64 word"
  bh_flash_start_position :: "64 word"
  bh_flash_part_size :: "64 word"
  bh_sub_type :: string
  bh_bin_sha1sum :: string
  bh_bin_version :: string
  bh_file_name :: string
  bh_diff_pack_dev :: string
  bh_ubi_dev :: string
  bh_raw_dev :: string
  bh_reserved :: string

definition sizeof_file_head :: nat where "sizeof_file_head = 256"
definition sizeof_bin_head :: nat where "sizeof_bin_head = 512"

definition zero_head :: file_head where
  "zero_head = \<lparr>fh_sum = 0, fh_start_position = 0, fh_file_size = 0, fh_reserved = replicate 236 nul\<rparr>"

definition zero_bin :: bin_head where
  "zero_bin = \<lparr>bh_id = 0, bh_start_position = 0, bh_bin_size = 0, bh_flash_start_position = 0, bh_flash_part_size = 0,
     bh_sub_type = replicate 32 nul, bh_bin_sha1sum = replicate 48 nul, bh_bin_version = replicate 64 nul,
     bh_file_name = replicate 128 nul, bh_diff_pack_dev = replicate 32 nul, bh_ubi_dev = replicate 32 nul,
     bh_raw_dev = replicate 32 nul, bh_reserved = replicate 108 nul\<rparr>"

definition head_bytes :: "file_head \<Rightarrow> string" where
  "head_bytes h = int_bytes 4 (unat (fh_sum h)) @ int_bytes 8 (unat (fh_start_position h)) @
     int_bytes 8 (unat (fh_file_size h)) @ fh_reserved h"

definition bytes_head :: "string \<Rightarrow> file_head" where
  "bytes_head b = \<lparr>fh_sum = of_nat (bytes_int (take 4 b)), fh_start_position = of_nat (bytes_int (take 8 (drop 4 b))),
     fh_file_size = of_nat (bytes_int (take 8 (drop 12 b))), fh_reserved = take 236 (drop 20 b)\<rparr>"

definition bin_bytes :: "bin_head \<Rightarrow> string" where
  "bin_bytes h = int_bytes 4 (unat (bh_id h)) @ int_bytes 8 (unat (bh_start_position h)) @ int_bytes 8 (unat (bh_bin_size h)) @
     int_bytes 8 (unat (bh_flash_start_position h)) @ int_bytes 8 (unat (bh_flash_part_size h)) @
     bh_sub_type h @ bh_bin_sha1sum h @ bh_bin_version h @ bh_file_name h @ bh_diff_pack_dev h @ bh_ubi_dev h @ bh_raw_dev h @
     bh_reserved h"

definition bytes_bin :: "string \<Rightarrow> bin_head" where
  "bytes_bin b = \<lparr>bh_id = of_nat (bytes_int (take 4 b)), bh_start_position = of_nat (bytes_int (take 8 (drop 4 b))),
     bh_bin_size = of_nat (bytes_int (take 8 (drop 12 b))), bh_flash_start_position = of_nat (bytes_int (take 8 (drop 20 b))),
     bh_flash_part_size = of_nat (bytes_int (take 8 (drop 28 b))), bh_sub_type = take 32 (drop 36 b),
     bh_bin_sha1sum = take 48 (drop 68 b), bh_bin_version = take 64 (drop 116 b), bh_file_name = take 128 (drop 180 b),
     bh_diff_pack_dev = take 32 (drop 308 b), bh_ubi_dev = take 32 (drop 340 b), bh_raw_dev = take 32 (drop 372 b),
     bh_reserved = take 108 (drop 404 b)\<rparr>"

section \<open>The configuration\<close>

definition judge_line_islegal :: "string \<Rightarrow> int" where
  "judge_line_islegal line =
     (if \<not> is_prefix ''file_name'' line then -2
      else if contains line ''file_name='' \<and> contains line ''sub_type='' \<and> contains line ''start_position='' \<and>
        contains line ''flash_partsize='' then 0
      else -1)"

text \<open>\<open>strncpy\<close> of all of \<open>val\<close> into an array.\<close>

definition put_array :: "string \<Rightarrow> string \<Rightarrow> string option" where
  "put_array val dst = (if length val \<le> length dst then Some (val @ drop (length val) dst) else None)"

text \<open>The two local arrays of 32 bytes that numbers are copied to.\<close>

definition put_number :: "string \<Rightarrow> string \<Rightarrow> string option" where
  "put_number val dst = (if length val < 32 then put_array val dst else None)"

text \<open>One quoted value.  The key is the first of the list that occurs in the rest of the line.\<close>

definition store_value :: "string \<Rightarrow> string \<Rightarrow> (bin_head \<times> string \<times> string) \<Rightarrow> (bin_head \<times> string \<times> string) option" where
  "store_value line val st =
     (case st of (b, sp, fp) \<Rightarrow>
        if contains line ''file_name'' then map_option (\<lambda>x. (b\<lparr>bh_file_name := x\<rparr>, sp, fp)) (put_array val (bh_file_name b))
        else if contains line ''sub_type'' then map_option (\<lambda>x. (b\<lparr>bh_sub_type := x\<rparr>, sp, fp)) (put_array val (bh_sub_type b))
        else if contains line ''start_position''
        then map_option (\<lambda>x. (b\<lparr>bh_flash_start_position := word_of_int (strtol (cstr x) 16)\<rparr>, x, fp)) (put_number val sp)
        else if contains line ''flash_partsize''
        then map_option (\<lambda>x. (b\<lparr>bh_flash_part_size := word_of_int (strtol (cstr x) 16)\<rparr>, sp, x)) (put_number val fp)
        else if contains line ''diff_pack_dev''
        then map_option (\<lambda>x. (b\<lparr>bh_diff_pack_dev := x\<rparr>, sp, fp)) (put_array val (bh_diff_pack_dev b))
        else if contains line ''ubi_dev'' then map_option (\<lambda>x. (b\<lparr>bh_ubi_dev := x\<rparr>, sp, fp)) (put_array val (bh_ubi_dev b))
        else if contains line ''raw_dev'' then map_option (\<lambda>x. (b\<lparr>bh_raw_dev := x\<rparr>, sp, fp)) (put_array val (bh_raw_dev b))
        else Some st)"

text \<open>The position of a quotation mark, and the loop over the quoted values.  A value without a closing
  mark ends it with -1.\<close>

function parse_quoted :: "string \<Rightarrow> (bin_head \<times> string \<times> string) \<Rightarrow> (int \<times> bin_head) option" where
  "parse_quoted line st =
     (case dropWhile (\<lambda>c. c \<noteq> CHR 0x22) line of
        [] \<Rightarrow> Some (0, fst st)
      | _ # pos \<Rightarrow>
          (case dropWhile (\<lambda>c. c \<noteq> CHR 0x22) pos of
             [] \<Rightarrow> Some (-1, fst st)
           | _ # rest \<Rightarrow> do {
               st \<leftarrow> store_value line (takeWhile (\<lambda>c. c \<noteq> CHR 0x22) pos) st;
               parse_quoted rest st
             }))"
  by pat_completeness auto
termination
proof (relation "measure (\<lambda>(line, st). length line)", goal_cases)
  case (2 line st c pos d rest st')
  have "length (c # pos) \<le> length line" "length (d # rest) \<le> length pos" using 2 by (metis length_dropWhile_le)+
  then show ?case by simp
qed simp

declare parse_quoted.simps [simp del]

definition parse_line_to_bin :: "string \<Rightarrow> bin_head \<Rightarrow> (int \<times> bin_head) option" where
  "parse_line_to_bin line b = parse_quoted line (b, replicate 32 nul, replicate 32 nul)"

section \<open>Making the package\<close>

definition get_file_size :: "'w ota_ops \<Rightarrow> bin_head \<Rightarrow> 'w \<Rightarrow> (int \<times> bin_head) \<times> 'w" where
  "get_file_size E b w =
     (let (fd, w) = oo_open E (cstr (bh_file_name b)) w in
      if fd < 0 then ((-1, b), w)
      else let (n, w) = oo_end E fd w in ((0, b\<lparr>bh_bin_size := of_nat n\<rparr>), oo_close E fd w))"

text \<open>The text of the sum fills the array of 48 bytes, its terminator is written to the version behind it.\<close>

definition put_sha1 :: "string \<Rightarrow> bin_head \<Rightarrow> bin_head" where
  "put_sha1 t b = b\<lparr>bh_bin_sha1sum := take 48 t, bh_bin_version := nul # tl (bh_bin_version b)\<rparr>"

definition calc_file_sha1sum :: "'w ota_ops \<Rightarrow> bin_head \<Rightarrow> 'w \<Rightarrow> (int \<times> bin_head) \<times> 'w" where
  "calc_file_sha1sum E b w =
     (let (ok, w) = oo_malloc E (unat (bh_bin_size b)) w in
      if \<not> ok then ((-1, b), w)
      else let (fd, w) = oo_open E (cstr (bh_file_name b)) w in
        if fd < 0 then ((-2, b), w)
        else let (r, w) = oo_read E fd (unat (bh_bin_size b)) w in
          case r of
            None \<Rightarrow> ((-3, b), w)
          | Some bs \<Rightarrow>
              if length bs \<noteq> unat (bh_bin_size b) then ((-3, b), w)
              else ((0, put_sha1 (oo_sha1 E bs) b), oo_close E fd w))"

text \<open>The first loop of \<open>make_upgrade_bin\<close>: the positions of the images.\<close>

fun place_bins :: "64 word \<Rightarrow> bin_head list \<Rightarrow> bin_head list \<times> 64 word" where
  "place_bins off [] = ([], off)"
| "place_bins off (b # bs) =
     (let (bs, e) = place_bins (off + bh_bin_size b) bs in (b\<lparr>bh_start_position := off\<rparr> # bs, e))"

text \<open>The second loop: the images; \<open>Inl\<close> is the early return.\<close>

fun read_bins :: "'w ota_ops \<Rightarrow> bin_head list \<Rightarrow> string \<Rightarrow> 'w \<Rightarrow> (int + string) \<times> 'w" where
  "read_bins E [] acc w = (Inr acc, w)"
| "read_bins E (b # bs) acc w =
     (let (fd, w) = oo_open E (cstr (bh_file_name b)) w in
      if fd < 0 then (Inl (-2), w)
      else let (_, w) = oo_seek E fd 0 w; (r, w) = oo_read E fd (unat (bh_bin_size b)) w in
        case r of
          None \<Rightarrow> (Inl (-3), w)
        | Some d \<Rightarrow>
            if length d \<noteq> unat (bh_bin_size b) then (Inl (-3), w)
            else read_bins E bs (acc @ d) (oo_close E fd w))"

text \<open>When the package cannot be created, the message names the file of an entry behind the last one, which is
  a NULL pointer.\<close>

definition make_upgrade_bin :: "'w ota_ops \<Rightarrow> string \<Rightarrow> file_head \<Rightarrow> bin_head list \<Rightarrow> 'w \<Rightarrow> ((int \<times> file_head \<times> bin_head list) \<times> 'w) option" where
  "make_upgrade_bin E upgrade_file f bs w =
     (let f = f\<lparr>fh_start_position := of_nat sizeof_file_head\<rparr>;
          off = of_nat sizeof_file_head + of_nat (length bs) * of_nat sizeof_bin_head;
          (ok, w) = oo_malloc E (length bs * sizeof_bin_head) w in
      if \<not> ok then Some ((-1, f, bs), w)
      else let (bs, e) = place_bins off bs;
               f = f\<lparr>fh_file_size := e - of_nat sizeof_file_head\<rparr>;
               (ok, w) = oo_malloc E (unat (fh_file_size f)) w in
        if \<not> ok then Some ((-1, f, bs), w)
        else let (d, w) = read_bins E bs [] w in
          case d of
            Inl e \<Rightarrow> Some ((e, f, bs), w)
          | Inr d \<Rightarrow>
              let w = oo_unlink E upgrade_file w; (fd, w) = oo_create E upgrade_file w in
              if fd < 0 then None
              else let (r, w) = oo_write E fd (head_bytes f) w in
                if r \<noteq> int sizeof_file_head then Some ((-5, f, bs), w)
                else let (r, w) = oo_write E fd (concat (map bin_bytes bs) @ d) w in
                  if r \<noteq> int (unat (fh_file_size f)) then Some ((-6, f, bs), w)
                  else Some ((0, f, bs), oo_close E fd w))"

text \<open>One line of the configuration.  The results of the three steps are not looked at.\<close>

definition make_bin :: "'w ota_ops \<Rightarrow> nat \<Rightarrow> string \<Rightarrow> 'w \<Rightarrow> (bin_head \<times> 'w) option" where
  "make_bin E i line w = do {
     (_, b) \<leftarrow> parse_line_to_bin line zero_bin;
     let ((_, b), w) = get_file_size E b w;
     let ((_, b), w) = calc_file_sha1sum E b w;
     Some (b\<lparr>bh_id := of_nat i\<rparr>, w)
   }"

text \<open>All lines; \<open>None\<close> as the list is a failed allocation.  There is room for 36 entries.\<close>

fun make_bins :: "'w ota_ops \<Rightarrow> bin_head list \<Rightarrow> string list \<Rightarrow> 'w \<Rightarrow> (bin_head list option \<times> 'w) option" where
  "make_bins E acc [] w = Some (Some acc, w)"
| "make_bins E acc (l # ls) w =
     (if judge_line_islegal l < 0 then make_bins E acc ls w
      else let (ok, w) = oo_malloc E sizeof_bin_head w in
        if \<not> ok then Some (None, w)
        else do {
          (b, w) \<leftarrow> make_bin E (length acc) l w;
          if \<not> length acc < 36 then None
          else let (ok, w) = oo_malloc E sizeof_bin_head w in
            if \<not> ok then Some (None, w) else make_bins E (acc @ [b]) ls w
        })"

definition ROKID_UPGRADE_CONFIGURE :: string where "ROKID_UPGRADE_CONFIGURE = ''./rokid_flash_package_bin.conf''"
definition ROKID_DEFAULT_IMG :: string where "ROKID_DEFAULT_IMG = ''./upgrade.img''"

text \<open>\<open>main\<close> of \<open>rokid_package.c\<close>; the options \<open>-c\<close> and \<open>-o\<close> are the two file names, \<open>None\<close> when they are not given.
  It returns 0 whatever happens.\<close>

definition package_main :: "'w ota_ops \<Rightarrow> string option \<Rightarrow> string option \<Rightarrow> 'w \<Rightarrow> (int \<times> 'w) option" where
  "package_main E config out w = do {
     let config = (case config of None \<Rightarrow> ROKID_UPGRADE_CONFIGURE | Some c \<Rightarrow> c);
     let out = (case out of None \<Rightarrow> ROKID_DEFAULT_IMG | Some c \<Rightarrow> c);
     let (f, w) = oo_file E config w;
     case f of
       None \<Rightarrow> Some (0, w)
     | Some txt \<Rightarrow> do {
         (bs, w) \<leftarrow> make_bins E [] (getlines txt) w;
         case bs of
           None \<Rightarrow> Some (0, w)
         | Some bs \<Rightarrow>
             let (ok, w) = oo_malloc E sizeof_file_head w in
             if \<not> ok then Some (0, w)
             else do {
               (_, w) \<leftarrow> make_upgrade_bin E out (zero_head\<lparr>fh_sum := of_nat (length bs)\<rparr>) bs w;
               Some (0, w)
             }
       }
   }"

end
