(* ===== verification/OtaUpdate.thy ===== *)
theory OtaUpdate
  imports OtaMount OtaPackage
begin

text \<open>
  The updater (\<open>unpack.c\<close> and \<open>ota_unpack.c\<close>): it reads the boot command, checks the package and writes its images
  to the partitions, reports the result in the boot command and reboots.  The model is that of the build
  without \<open>OTA_AUTH\<close>.
\<close>

section \<open>The state of the update in the boot command\<close>

datatype boot_result = BOOTSTATE_RES_OK | BOOTSTATE_RES_ERROR

datatype flashed_part = FLASHED_PART_A | FLASHED_PART_B

text \<open>The pattern of the three functions that change the command: read it, change it, write it.\<close>

definition change_cmd :: "'w ota_ops \<Rightarrow> (boot_cmd \<Rightarrow> boot_cmd) \<Rightarrow> 'w ota \<Rightarrow> (int \<times> 'w ota) option" where
  "change_cmd E f s = do {
     ((r, cmd), s) \<leftarrow> get_recovery_cmd_status E zero_cmd s;
     if r \<noteq> 0 then Some (-1, s)
     else do {
       ((r, _), s) \<leftarrow> set_recovery_cmd_status E (f cmd) s;
       Some (if r \<noteq> 0 then -1 else 0, s)
     }
   }"

definition set_upgrade_statue :: "'w ota_ops \<Rightarrow> boot_result \<Rightarrow> 'w ota \<Rightarrow> (int \<times> 'w ota) option" where
  "set_upgrade_statue E sta s = change_cmd E (\<lambda>cmd. cmd\<lparr>recovery_state :=
     put_str (if sta = BOOTSTATE_RES_OK then BOOTSTATE_OK else BOOTSTATE_ERROR) (recovery_state cmd)\<rparr>) s"

definition set_flashed_partition :: "'w ota_ops \<Rightarrow> flashed_part \<Rightarrow> 'w ota \<Rightarrow> (int \<times> 'w ota) option" where
  "set_flashed_partition E status s = change_cmd E (\<lambda>cmd. cmd\<lparr>recovery_partition :=
     put_str (if status = FLASHED_PART_A then RECOVERY_PART_A else RECOVERY_PART_B) (recovery_partition cmd)\<rparr>) s"

definition set_recovery_end :: "'w ota_ops \<Rightarrow> 'w ota \<Rightarrow> (int \<times> 'w ota) option" where
  "set_recovery_end E s = change_cmd E (\<lambda>cmd. cmd\<lparr>recovery_status :=
     put_str (if is_prefix RECOVERYB_START (recovery_status cmd) then RECOVERYB_END else RECOVERYA_END) (recovery_status cmd)\<rparr>) s"

section \<open>The heads of the package\<close>

definition MAX_BIN_SUM :: int where "MAX_BIN_SUM = 12"
definition MAX_BIN_SIZE :: nat where "MAX_BIN_SIZE = 128 * 1024 * 1024"

definition get_file_head :: "'w ota_ops \<Rightarrow> int \<Rightarrow> 'w \<Rightarrow> (int \<times> file_head) \<times> 'w" where
  "get_file_head E fd w =
     (let (r, w) = oo_seek E fd 0 w in
      if r < 0 then ((-1, zero_head), w)
      else let (d, w) = oo_read E fd sizeof_file_head w in
        case d of
          None \<Rightarrow> ((-2, zero_head), w)
        | Some b \<Rightarrow>
            if length b \<noteq> sizeof_file_head then ((-2, zero_head), w)
            else let h = bytes_head b in
              if sint (fh_sum h) > MAX_BIN_SUM \<or> unat (fh_file_size h) > MAX_BIN_SIZE then ((-3, h), w) else ((0, h), w))"

text \<open>The loop of \<open>get_bin_head\<close>.  A read error gives -1, which the comparison with an unsigned size takes for a
  complete head.\<close>

fun read_heads :: "'w ota_ops \<Rightarrow> int \<Rightarrow> nat \<Rightarrow> bin_head list \<Rightarrow> 'w \<Rightarrow> (int \<times> bin_head list) \<times> 'w" where
  "read_heads E fd 0 acc w = ((0, acc), w)"
| "read_heads E fd (Suc n) acc w =
     (let (d, w) = oo_read E fd sizeof_bin_head w in
      case d of
        None \<Rightarrow> read_heads E fd n (acc @ [zero_bin]) w
      | Some b \<Rightarrow> if length b < sizeof_bin_head then ((-3, acc), w) else read_heads E fd n (acc @ [bytes_bin b]) w)"

definition get_bin_head :: "'w ota_ops \<Rightarrow> int \<Rightarrow> file_head \<Rightarrow> 'w \<Rightarrow> (int \<times> bin_head list) \<times> 'w" where
  "get_bin_head E fd h w =
     (let (r, w) = oo_seek E fd (int sizeof_file_head) w in
      if r < 0 then ((-1, []), w) else read_heads E fd (nat (sint (fh_sum h))) [] w)"

section \<open>Differential packages\<close>

fun install_packages :: "'w ota_ops \<Rightarrow> string \<Rightarrow> string list \<Rightarrow> int \<Rightarrow> int \<Rightarrow> int \<Rightarrow> 'w ota \<Rightarrow> (int \<times> 'w ota) option" where
  "install_packages E dir [] cnt ok ret s = Some (if ret \<noteq> 0 then ret else ok - cnt, s)"
| "install_packages E dir (f # fs) cnt ok ret s =
     (if contains f ''.ipk'' then do {
        path \<leftarrow> fit 1024 (dir @ ''/'' @ f);
        let (r, s) = run E (''opkg install -d ota '' @ path) s;
        install_packages E dir fs (cnt + 1) (if r = 0 then ok + 1 else ok) r s
      } else install_packages E dir fs cnt ok ret s)"

text \<open>The result is that of the last package, or the number of failures, negated, when that is 0.\<close>

definition scan_dir_install :: "'w ota_ops \<Rightarrow> string \<Rightarrow> 'w ota \<Rightarrow> (int \<times> 'w ota) option" where
  "scan_dir_install E dir s =
     (let (ok1, s) = ox (oo_malloc E 1024) s in
      if \<not> ok1 then Some (-1, s)
      else let (ok2, s) = ox (oo_malloc E 2048) s in
        if \<not> ok2 then Some (-1, s)
        else let (fs, s) = ox (oo_dir E dir) s in
          case fs of None \<Rightarrow> Some (-1, s) | Some fs \<Rightarrow> install_packages E dir fs 0 0 (-1) s)"

text \<open>The command that mounts the partition, \<open>None\<close> for the error returns.  When the partition is not in the
  table, an uninitialised structure is used.\<close>

definition diff_mount :: "'w ota_ops \<Rightarrow> bin_head \<Rightarrow> 'w ota \<Rightarrow> (string option \<times> 'w ota) option" where
  "diff_mount E b s = do {
     (p, s) \<leftarrow> get_rawflash_partition_info E (cstr (bh_sub_type b)) s;
     p \<leftarrow> p;
     let dev = cstr (bh_diff_pack_dev b);
     let i = part_mount_info p;
     let ubi = ''mount -t ubifs -o rw '' @ dev @ '' /mnt'';
     case part_format p of
       RAW_FS \<Rightarrow> Some (None, s)
     | SQUASH_FS \<Rightarrow> Some (None, s)
     | SQUASHFS_OVERLAY_UBIFS \<Rightarrow> Some (None, s)
     | UNKNOWN_FS \<Rightarrow> Some (None, s)
     | UBIFS_OVERLAY_UBIFS \<Rightarrow> do { (ok, s) \<leftarrow> attach_volume E (mount_point i) dev s; Some (if ok then Some ubi else None, s) }
     | UBI_FS \<Rightarrow> do { (ok, s) \<leftarrow> attach_volume E (mount_point i) dev s; Some (if ok then Some ubi else None, s) }
     | VOL_OVERLAY_UBIFS \<Rightarrow>
         (case strsep_all point_seps (mount_point i) of
            mtd_dev # _ # _ \<Rightarrow> do { (ok, s) \<leftarrow> attach_volume E mtd_dev dev s; Some (if ok then Some ubi else None, s) }
          | _ \<Rightarrow> Some (None, s))
     | _ \<Rightarrow> Some (Some (''mount -t '' @ mount_format i @ '' -o rw '' @ dev @ '' /mnt''), s)
   }"

definition diff_pack_install :: "'w ota_ops \<Rightarrow> bin_head \<Rightarrow> string \<Rightarrow> 'w ota \<Rightarrow> (int \<times> 'w ota) option" where
  "diff_pack_install E b buf s = do {
     (c, s) \<leftarrow> diff_mount E b s;
     case c of
       None \<Rightarrow> Some (-1, s)
     | Some c \<Rightarrow>
         let (_, s) = run E c s; (fd, s) = ox (oo_create E ''/tmp/diff.tar.gz'') s in
         if fd < 0 then Some (-2, s)
         else let (r, s) = ox (oo_write E fd buf) s; s = s\<lparr>ow := oo_close E fd (ow s)\<rparr> in
           if r \<noteq> int (length buf) then Some (-2, s)
           else let (_, s) = run E ''cd /tmp && tar -zxvf  /tmp/diff.tar.gz'' s in scan_dir_install E ''/tmp/ota'' s
   }"

text \<open>The text behind leading spaces, up to the end of the line.\<close>

definition string_left_space_trim_oneline :: "string \<Rightarrow> string" where
  "string_left_space_trim_oneline t = takeWhile (\<lambda>c. c \<noteq> CHR 0x0A) (dropWhile (\<lambda>c. c = CHR '' '') t)"

definition DIFFRE_TYPE :: string where "DIFFRE_TYPE = ''TYPE=differ''"
definition DIFFRE_BASE_VERSION :: string where "DIFFRE_BASE_VERSION = ''BASE_VERSION=''"

definition sha1_matches :: "'w ota_ops \<Rightarrow> string \<Rightarrow> bin_head \<Rightarrow> bool" where
  "sha1_matches E buf b \<longleftrightarrow> cstr (take 48 (oo_sha1 E buf)) = cstr (bh_bin_sha1sum b)"

text \<open>The version that a differential package names as its base is that of the boot command.\<close>

definition version_matches :: "string \<Rightarrow> boot_cmd \<Rightarrow> bool" where
  "version_matches buf cmd \<longleftrightarrow>
     (let t = cstr buf in contains t DIFFRE_TYPE \<and>
      (case strstr t DIFFRE_BASE_VERSION of
         None \<Rightarrow> False
       | Some p \<Rightarrow> cstr (version cmd @ reserve cmd) = string_left_space_trim_oneline (drop (length DIFFRE_BASE_VERSION) p)))"

definition rokid_check_diff_version :: "'w ota_ops \<Rightarrow> int \<Rightarrow> bin_head \<Rightarrow> boot_cmd \<Rightarrow> 'w \<Rightarrow> int \<times> 'w" where
  "rokid_check_diff_version E fd b cmd w =
     (let (ok, w) = oo_malloc E (unat (bh_bin_size b) + 1) w in
      if \<not> ok then (-1, w)
      else let (_, w) = oo_seek E fd (sint (bh_start_position b)) w; (d, w) = oo_read E fd (unat (bh_bin_size b)) w in
        case d of
          None \<Rightarrow> (-1, w)
        | Some buf \<Rightarrow>
            (if length buf = unat (bh_bin_size b) \<and> sha1_matches E buf b \<and> version_matches buf cmd then 0 else -1, w))"

section \<open>Writing the images\<close>

definition UBOOT_A :: string where "UBOOT_A = ''uboot_a''"
definition UBOOT_B :: string where "UBOOT_B = ''uboot_b''"
definition RECOVERY_A :: string where "RECOVERY_A = ''recovery_a''"
definition RECOVERY_B :: string where "RECOVERY_B = ''recovery_b''"
definition BIN_UBOOT :: string where "BIN_UBOOT = ''uboot''"
definition BIN_RECOVERY :: string where "BIN_RECOVERY = ''recovery''"

text \<open>What the loop over the images remembers: \<open>uboot_ab_flashed\<close> and \<open>recovery_ab_flashed\<close>.\<close>

record ab_flags =
  uboot_ab_flashed :: bool
  recovery_ab_flashed :: bool

text \<open>With two sets of partitions the images of the boot loader and the recovery system go to the set that is
  not in use.  The array for the name is changed in place.\<close>

definition select_slot :: "'w ota_ops \<Rightarrow> boot_cmd \<Rightarrow> bin_head \<Rightarrow> ab_flags \<Rightarrow> 'w ota \<Rightarrow> (bin_head \<times> ab_flags \<times> 'w ota) option" where
  "select_slot E cmd b fl s = do {
     let on_b = is_prefix RECOVERY_PART_B (recovery_partition cmd);
     (b, fl, s) \<leftarrow> (if is_prefix BIN_UBOOT (bh_sub_type b) then do {
         (_, s) \<leftarrow> erase_uboot_env_part E s;
         Some (b\<lparr>bh_sub_type := put_chars (if on_b then UBOOT_A else UBOOT_B) (bh_sub_type b)\<rparr>, fl\<lparr>uboot_ab_flashed := True\<rparr>, s)
       } else Some (b, fl, s));
     if is_prefix BIN_RECOVERY (bh_sub_type b)
     then Some (b\<lparr>bh_sub_type := put_chars (if on_b then RECOVERY_A else RECOVERY_B) (bh_sub_type b)\<rparr>,
       fl\<lparr>recovery_ab_flashed := True\<rparr>, s)
     else Some (b, fl, s)
   }"

text \<open>Erase the partition and write the image; neither result is looked at, and a partition that is not in the
  table is passed over.\<close>

definition flash_mtd :: "'w ota_ops \<Rightarrow> bool \<Rightarrow> bin_head \<Rightarrow> string \<Rightarrow> 'w ota \<Rightarrow> 'w ota option" where
  "flash_mtd E diff b buf s = do {
     ((r, dev), s) \<leftarrow> ox' (get_mtd_name E (cstr (bh_sub_type b)) 256 YODABASE_FSTAB) s;
     if r < 0 then Some s
     else if diff \<and> cstr (bh_diff_pack_dev b) \<noteq> [] then map_option snd (diff_pack_install E b buf s)
     else do {
       (_, s) \<leftarrow> ox' (nand_erase E dev 0) s;
       (_, s) \<leftarrow> ox' (nand_write E dev 0 buf) s;
       Some s
     }
   }"

text \<open>The loop that writes pieces of 2048 bytes.  The last piece reads past the image when its size is not a
  multiple of that.\<close>

fun write_pieces :: "'w ota_ops \<Rightarrow> int \<Rightarrow> nat \<Rightarrow> string \<Rightarrow> 'w \<Rightarrow> 'w" where
  "write_pieces E fd 0 buf w = w"
| "write_pieces E fd (Suc n) buf w = write_pieces E fd n (drop 2048 buf) (snd (oo_write E fd (take 2048 buf) w))"

text \<open>A device that cannot be opened leaves a NULL file, which the loop uses.\<close>

definition write_raw_dev :: "'w ota_ops \<Rightarrow> string \<Rightarrow> string \<Rightarrow> 'w \<Rightarrow> 'w option" where
  "write_raw_dev E dev buf w =
     (let (fd, w) = oo_create E dev w in
      if fd < 0 \<or> length buf mod 2048 \<noteq> 0 then None
      else Some (oo_close E fd (write_pieces E fd (length buf div 2048) buf w)))"

definition flash_ubi :: "'w ota_ops \<Rightarrow> bool \<Rightarrow> bin_head \<Rightarrow> string \<Rightarrow> 'w ota \<Rightarrow> 'w ota option" where
  "flash_ubi E diff b buf s =
     (if cstr (bh_ubi_dev b) \<noteq> [] then
        if diff \<and> cstr (bh_diff_pack_dev b) \<noteq> [] then map_option snd (diff_pack_install E b buf s)
        else let (fd, s) = ox (oo_open E (cstr (bh_ubi_dev b))) s in
          if fd < 0 then Some s
          else let s = s\<lparr>ow := oo_volup E fd (length buf) (ow s)\<rparr>; (_, s) = ox (oo_write E fd buf) s in
            Some (s\<lparr>ow := oo_close E fd (ow s)\<rparr>)
      else if cstr (bh_raw_dev b) \<noteq> [] then map_option (\<lambda>w. s\<lparr>ow := w\<rparr>) (write_raw_dev E (cstr (bh_raw_dev b)) buf (ow s))
      else do {
        ((r, dev), s) \<leftarrow> ox' (get_mtd_name E (cstr (bh_sub_type b)) 256 YODABASE_FSTAB) s;
        if r < 0 then Some s
        else do {
          (_, s) \<leftarrow> ox' (nand_erase E dev 0) s;
          (_, s) \<leftarrow> ox' (nand_write E dev 0 buf) s;
          Some s
        }
      })"

text \<open>A raw partition: \<open>Inl\<close> is the early return.  The size -1 of an unknown device is converted to an unsigned
  number before it is compared.\<close>

definition flash_raw :: "'w ota_ops \<Rightarrow> bool \<Rightarrow> bin_head \<Rightarrow> string \<Rightarrow> 'w ota \<Rightarrow> ((int + unit) \<times> 'w ota) option" where
  "flash_raw E diff b buf s = do {
     ((r, dev), s) \<leftarrow> rawflash_get_name E (cstr (bh_sub_type b)) 256 s;
     if r < 0 then Some (Inr (), s)
     else do {
       (sz, s) \<leftarrow> ox' (get_partition_size E dev) s;
       if (word_of_int sz :: 64 word) < bh_bin_size b then Some (Inl (-1), s)
       else if diff \<and> cstr (bh_diff_pack_dev b) \<noteq> [] then map_option (\<lambda>x. (Inr (), snd x)) (diff_pack_install E b buf s)
       else let (r, s) = ox (rawflash_write E dev 0 buf) s in Some (if r \<noteq> 0 then Inl (-1) else Inr (), s)
     }
   }"

text \<open>One image whose sum matches.\<close>

definition flash_image ::
  "'w ota_ops \<Rightarrow> boot_cmd \<Rightarrow> partition_type option \<Rightarrow> bool \<Rightarrow> bin_head \<Rightarrow> string \<Rightarrow> ab_flags \<Rightarrow> 'w ota \<Rightarrow> ((int + ab_flags) \<times> 'w ota) option" where
  "flash_image E cmd pt diff b buf fl s =
     (case pt of
        Some MTD_AB_FORMAT \<Rightarrow> do {
          (b, fl, s) \<leftarrow> select_slot E cmd b fl s;
          s \<leftarrow> flash_mtd E diff b buf s;
          Some (Inr fl, s)
        }
      | Some MTD_FORMAT \<Rightarrow> do { s \<leftarrow> flash_mtd E diff b buf s; Some (Inr fl, s) }
      | Some UBI_OVERLAY_FORMAT \<Rightarrow> do { s \<leftarrow> flash_ubi E diff b buf s; Some (Inr fl, s) }
      | Some RAW_FORMAT \<Rightarrow> do {
          (r, s) \<leftarrow> flash_raw E diff b buf s;
          Some (case r of Inl e \<Rightarrow> Inl e | Inr _ \<Rightarrow> Inr fl, s)
        }
      | None \<Rightarrow> Some (Inr fl, s))"

text \<open>The loop over the images.  An image whose sum does not match is passed over.\<close>

fun flash_images ::
  "'w ota_ops \<Rightarrow> int \<Rightarrow> boot_cmd \<Rightarrow> partition_type option \<Rightarrow> bool \<Rightarrow> bin_head list \<Rightarrow> ab_flags \<Rightarrow> 'w ota \<Rightarrow> ((int + ab_flags) \<times> 'w ota) option" where
  "flash_images E fd cmd pt diff [] fl s = Some (Inr fl, s)"
| "flash_images E fd cmd pt diff (b # bs) fl s =
     (let (ok, s) = ox (oo_malloc E (unat (bh_bin_size b))) s in
      if \<not> ok then Some (Inl (-1), s)
      else let (_, s) = ox (oo_seek E fd (sint (bh_start_position b))) s; (d, s) = ox (oo_read E fd (unat (bh_bin_size b))) s in
        case d of
          None \<Rightarrow> Some (Inl (-2), s)
        | Some buf \<Rightarrow>
            if length buf \<noteq> unat (bh_bin_size b) then Some (Inl (-2), s)
            else if \<not> sha1_matches E buf b then flash_images E fd cmd pt diff bs fl s
            else do {
              (r, s) \<leftarrow> flash_image E cmd pt diff b buf fl s;
              case r of Inl e \<Rightarrow> Some (Inl e, s) | Inr fl \<Rightarrow> flash_images E fd cmd pt diff bs fl s
            })"

text \<open>A package without images makes the code use a NULL head.\<close>

definition parse_update_bin :: "'w ota_ops \<Rightarrow> int \<Rightarrow> bin_head list \<Rightarrow> 'w ota \<Rightarrow> (int \<times> 'w ota) option" where
  "parse_update_bin E fd bins s = do {
     ((r, cmd), s) \<leftarrow> get_recovery_cmd_status E zero_cmd s;
     if r \<noteq> 0 then Some (-1, s)
     else do {
       let (pt, s) = ox (get_upgrade_partition_type E YODABASE_FSTAB) s;
       b0 \<leftarrow> (case bins of [] \<Rightarrow> None | b # _ \<Rightarrow> Some b);
       let diff = (cstr (bh_sub_type b0) = ''version'');
       let (r, s) = (if diff then ox (rokid_check_diff_version E fd b0 cmd) s else (0, s));
       if r \<noteq> 0 then Some (-1, s)
       else do {
         (res, s) \<leftarrow> flash_images E fd cmd pt diff bins \<lparr>uboot_ab_flashed = False, recovery_ab_flashed = False\<rparr> s;
         case res of
           Inl e \<Rightarrow> Some (e, s)
         | Inr fl \<Rightarrow> do {
             ((r, cmd), s) \<leftarrow> set_recovery_cmd_status E cmd s;
             if r \<noteq> 0 then Some (-1, s)
             else if uboot_ab_flashed fl \<and> recovery_ab_flashed fl then do {
               (_, s) \<leftarrow> set_flashed_partition E (if is_prefix RECOVERY_PART_B (recovery_partition cmd) then FLASHED_PART_A else FLASHED_PART_B) s;
               Some (0, s)
             }
             else Some (0, s)
           }
       }
     }
   }"

section \<open>The program\<close>

datatype update_choice = OTA_UPDATE | DATA_FLUSHED

text \<open>The result \<open>None\<close> stands for -1.  The path is copied with its length, so it has to end inside its array.\<close>

definition judge_need_upgrade :: "'w ota_ops \<Rightarrow> 'w ota \<Rightarrow> ((update_choice \<times> string) option \<times> 'w ota) option" where
  "judge_need_upgrade E s = do {
     ((r, cmd), s) \<leftarrow> get_recovery_cmd_status E zero_cmd s;
     if r \<noteq> 0 then Some (None, s)
     else if is_prefix BOOTMODE_RECOVERY (boot_mode cmd) \<and> is_prefix BOOTSTATE_RUN (recovery_state cmd)
     then (if nul \<in> set (recovery_path cmd) then Some (Some (OTA_UPDATE, cstr (recovery_path cmd)), s) else None)
     else if is_prefix BOOTMODE_FLUSHDATA (boot_mode cmd) \<and> is_prefix BOOTSTATE_RUN (recovery_state cmd)
     then Some (Some (DATA_FLUSHED, []), s)
     else Some (None, s)
   }"

definition flush_data_part :: "'w ota_ops \<Rightarrow> 'w ota \<Rightarrow> (int \<times> 'w ota) option" where
  "flush_data_part E s = do {
     let (pt, s) = ox (get_upgrade_partition_type E YODABASE_FSTAB) s;
     if pt = Some UBI_OVERLAY_FORMAT then
       let (_, s) = run E ''ubiattach /dev/ubi_ctrl -m 5'' s; (_, s) = run E ''ubiupdatevol -t /dev/ubi0_1'' s in Some (0, s)
     else if pt = Some RAW_FORMAT then do {
       (r, s) \<leftarrow> rawflash_format_userdata E s;
       Some (if r < 0 then r else 0, s)
     }
     else do {
       ((r, name), s) \<leftarrow> ox' (get_data_partname E YODABASE_FSTAB) s;
       if r < 0 \<or> name = [] then Some (-1, s)
       else do {
         ((r, dev), s) \<leftarrow> ox' (get_mtd_name E name 32 YODABASE_FSTAB) s;
         if r < 0 then Some (r, s)
         else do { (_, s) \<leftarrow> ox' (nand_erase E dev 0) s; Some (0, s) }
       }
     }
   }"

definition ubi_data_mount :: "'w ota_ops \<Rightarrow> 'w ota \<Rightarrow> (int \<times> 'w ota) option" where
  "ubi_data_mount E s = do {
     let (_, s) = run E ''ubiattach /dev/ubi_ctrl -m 5'' s;
     let (r, s) = ox (oo_mount E ''ubi0:data'' ''/data'' ''ubifs'') s;
     if r < 0 then do { (_, s) \<leftarrow> set_upgrade_statue E BOOTSTATE_RES_ERROR s; Some (r, s) } else Some (r, s)
   }"

text \<open>The allocation of the heads, one for each image.\<close>

fun alloc_heads :: "'w ota_ops \<Rightarrow> nat \<Rightarrow> 'w ota \<Rightarrow> bool \<times> 'w ota" where
  "alloc_heads E 0 s = (True, s)"
| "alloc_heads E (Suc n) s = (let (ok, s) = ox (oo_malloc E sizeof_bin_head) s in if ok then alloc_heads E n s else (False, s))"

text \<open>The update from an open package: whether it succeeded.\<close>

definition apply_package :: "'w ota_ops \<Rightarrow> int \<Rightarrow> 'w ota \<Rightarrow> (bool \<times> 'w ota) option" where
  "apply_package E fd s =
     (let ((r, h), s) = ox (get_file_head E fd) s in
      if r < 0 then Some (False, s)
      else let (ok, s) = alloc_heads E (nat (sint (fh_sum h))) s in
        if \<not> ok then Some (False, s)
        else let ((r, bins), s) = ox (get_bin_head E fd h) s in
          if r < 0 then Some (False, s)
          else do { (r, s) \<leftarrow> parse_update_bin E fd bins s; Some (r \<ge> 0, s) })"

definition report_end :: "'w ota_ops \<Rightarrow> bool \<Rightarrow> 'w ota \<Rightarrow> 'w ota option" where
  "report_end E ok s =
     (if ok then do {
        (_, s) \<leftarrow> set_upgrade_statue E BOOTSTATE_RES_OK s;
        let (_, s) = run E ''echo 1 > /sys/ota_light/ota_end'' s;
        let (_, s) = run E ''echo 0 > /sys/devices/platform/led-stage/ota_ctl'' s;
        Some s
      } else do { (_, s) \<leftarrow> set_upgrade_statue E BOOTSTATE_RES_ERROR s; Some s })"

definition reboot :: "'w ota_ops \<Rightarrow> 'w ota \<Rightarrow> 'w ota" where
  "reboot E s = snd (run E ''busybox reboot'' s)"

text \<open>\<open>main\<close> of \<open>ota_unpack.c\<close>.  The result of flushing and of mounting is not looked at.  When the file head cannot
  be allocated, the program ends without a reboot.\<close>

definition ota_main :: "'w ota_ops \<Rightarrow> 'w ota \<Rightarrow> 'w ota option" where
  "ota_main E s = do {
     (choice, s) \<leftarrow> judge_need_upgrade E s;
     case choice of
       None \<Rightarrow> do {
         (_, s) \<leftarrow> set_upgrade_statue E BOOTSTATE_RES_ERROR s;
         (_, s) \<leftarrow> set_recovery_end E s;
         Some (reboot E s)
       }
     | Some (c, file_name) \<Rightarrow> do {
         let (_, s) = run E ''echo 1 > /sys/ota_light/ota_start'' s;
         let (_, s) = run E ''echo 1 > /sys/devices/platform/led-stage/ota_ctl'' s;
         (_, s) \<leftarrow> set_recovery_end E s;
         case c of
           DATA_FLUSHED \<Rightarrow> do {
             (_, s) \<leftarrow> flush_data E YODABASE_FSTAB s;
             s \<leftarrow> report_end E True s;
             Some (reboot E s)
           }
         | OTA_UPDATE \<Rightarrow> do {
             (_, s) \<leftarrow> mount_data E YODABASE_FSTAB s;
             let (fd, s) = ox (oo_open E file_name) s;
             if fd < 0 then do { s \<leftarrow> report_end E False s; Some (reboot E s) }
             else let (ok, s) = ox (oo_malloc E sizeof_file_head) s in
               if \<not> ok then Some s
               else do {
                 (ok, s) \<leftarrow> apply_package E fd s;
                 s \<leftarrow> report_end E ok s;
                 Some (reboot E (s\<lparr>ow := oo_close E fd (ow s)\<rparr>))
               }
           }
       }
   }"

end
