(* ===== verification/OtaFlashProps.thy ===== *)
theory OtaFlashProps
  imports OtaFlash
begin

text \<open>
  What erasing, writing and reading of a NAND device do.  \<open>nand_device\<close> names what the MTD layer promises: the
  device is a function from page numbers to pages, an erase sets the pages of a good block to 0xFF, a
  write to an erased page of a good block stores it.  The good pages in ascending order (\<open>good_pages\<close>) are
  the linear memory that the code presents.
\<close>

section \<open>The device\<close>

definition geometry :: "mtd_info \<Rightarrow> nat \<Rightarrow> nat \<Rightarrow> nat \<Rightarrow> bool" where
  "geometry m ws n B \<longleftrightarrow> (\<exists>i. n = 2 ^ i) \<and> (\<exists>j. ws = 2 ^ j) \<and> B * (n * ws) < 2 ^ 30 \<and>
     mt_writesize m = of_nat ws \<and> mt_erasesize m = of_nat (n * ws) \<and> mt_size m = of_nat (B * (n * ws)) \<and> 0 < B"

definition blank :: "nat \<Rightarrow> string" where
  "blank ws = replicate ws (CHR 0xFF)"

text \<open>\<open>page w k\<close> is the page with number \<open>k\<close>; \<open>bad b\<close> holds for the bad blocks.\<close>

definition nand_device ::
  "'w ota_ops \<Rightarrow> string \<Rightarrow> int \<Rightarrow> mtd_info \<Rightarrow> nat \<Rightarrow> nat \<Rightarrow> nat \<Rightarrow> (nat \<Rightarrow> bool) \<Rightarrow> ('w \<Rightarrow> nat \<Rightarrow> string) \<Rightarrow> bool" where
  "nand_device E dev fd m ws n B bad page \<longleftrightarrow> geometry m ws n B \<and> fd \<ge> 0 \<and>
     (\<forall>w. fst (oo_open E dev w) = fd \<and> page (snd (oo_open E dev w)) = page w) \<and>
     (\<forall>w. page (oo_close E fd w) = page w) \<and>
     (\<forall>w. fst (oo_ischr E fd w) = Some True \<and> page (snd (oo_ischr E fd w)) = page w) \<and>
     (\<forall>w. fst (oo_info E fd w) = Some m \<and> page (snd (oo_info E fd w)) = page w) \<and>
     (\<forall>w a. page (oo_unlock E fd a (n * ws) w) = page w) \<and>
     (\<forall>w. fst (oo_malloc E ws w) \<and> page (snd (oo_malloc E ws w)) = page w) \<and>
     (\<forall>w b. b < B \<longrightarrow> fst (oo_bad E fd (b * (n * ws)) w) = (if bad b then 1 else 0) \<and>
        page (snd (oo_bad E fd (b * (n * ws)) w)) = page w) \<and>
     (\<forall>w b. b < B \<longrightarrow> \<not> bad b \<longrightarrow> fst (oo_erase E fd (b * (n * ws)) (n * ws) w) \<ge> 0 \<and>
        page (snd (oo_erase E fd (b * (n * ws)) (n * ws) w)) = (\<lambda>k. if k div n = b then blank ws else page w k)) \<and>
     (\<forall>w k. k < B * n \<longrightarrow> \<not> bad (k div n) \<longrightarrow> length (page w k) = ws \<longrightarrow>
        fst (oo_read E fd ws (snd (oo_seek E fd (int (k * ws)) w))) = Some (page w k) \<and>
        page (snd (oo_read E fd ws (snd (oo_seek E fd (int (k * ws)) w)))) = page w) \<and>
     (\<forall>w k p. k < B * n \<longrightarrow> \<not> bad (k div n) \<longrightarrow> length p = ws \<longrightarrow> page w k = blank ws \<longrightarrow>
        fst (oo_write E fd p (snd (oo_seek E fd (int (k * ws)) w))) = int ws \<and>
        page (snd (oo_write E fd p (snd (oo_seek E fd (int (k * ws)) w)))) = (page w)(k := p))"

definition good_pages :: "nat \<Rightarrow> nat \<Rightarrow> (nat \<Rightarrow> bool) \<Rightarrow> nat \<Rightarrow> nat list" where
  "good_pages n B bad k = filter (\<lambda>p. \<not> bad (p div n)) [k..<B * n]"

lemma good_pages_cons: "k < B * n \<Longrightarrow> \<not> bad (k div n) \<Longrightarrow> good_pages n B bad k = k # good_pages n B bad (Suc k)"
  by (simp add: good_pages_def upt_conv_Cons)

lemma good_pages_end: "B * n \<le> k \<Longrightarrow> good_pages n B bad k = []"
  by (simp add: good_pages_def)

lemma good_pages_skip:
  assumes "b < B" and "bad b" and "0 < n"
  shows "good_pages n B bad (b * n) = good_pages n B bad (Suc b * n)"
proof -
  have le: "b * n \<le> Suc b * n" "Suc b * n \<le> B * n" using assms(1) mult_le_mono1[of "Suc b" B n] by simp_all
  have "[b * n..<B * n] = [b * n..<Suc b * n] @ [Suc b * n..<B * n]"
    using upt_add_eq_append[OF le(1), of "B * n - Suc b * n"] le(2) by simp
  moreover have "filter (\<lambda>p. \<not> bad (p div n)) [b * n..<Suc b * n] = []"
    using assms(2,3) by (auto simp: filter_empty_conv div_nat_eqI mult.commute)
      (metis div_nat_eqI mult.commute mult_Suc)
  ultimately show ?thesis by (simp add: good_pages_def)
qed

section \<open>Word arithmetic\<close>

lemma geometryD:
  assumes "geometry m ws n B"
  shows "0 < ws" "0 < n" "unat (mt_size m) = B * (n * ws)" "unat (mt_erasesize m) = n * ws" "unat (mt_writesize m) = ws"
    "ws \<le> n * ws" "n * ws \<le> B * (n * ws)"
proof -
  show p: "0 < ws" "0 < n" using assms by (auto simp: geometry_def)
  then have le: "ws \<le> n * ws" "n * ws \<le> B * (n * ws)" using assms by (auto simp: geometry_def)
  then show "ws \<le> n * ws" "n * ws \<le> B * (n * ws)" by blast+
  have "B * (n * ws) < 2 ^ 30" using assms by (simp add: geometry_def)
  moreover then have "n * ws < 2 ^ 30" "ws < 2 ^ 30" using le by linarith+
  ultimately show "unat (mt_size m) = B * (n * ws)" "unat (mt_erasesize m) = n * ws" "unat (mt_writesize m) = ws"
    using assms unfolding geometry_def by (auto simp only: unat_of_nat) (simp_all add: take_bit_nat_eq_self flip: take_bit_eq_mod)
qed

lemma unat_and_not_mask: "unat ((x :: 32 word) AND NOT (mask q)) = unat x div 2 ^ q * 2 ^ q"
proof -
  have "NOT x AND take_bit q x = 0" by (rule bit_eqI) (auto simp: bit_simps)
  then have "x - take_bit q x = x AND NOT (take_bit q x)" by (rule disjunctive_diff_eq_and_not)
  also have "\<dots> = x AND NOT (mask q)" by (rule bit_eqI) (auto simp: bit_simps)
  finally have "x AND NOT (mask q) = x - take_bit q x" by simp
  moreover have "unat (take_bit q x) = take_bit q (unat x)" by (rule unsigned_take_bit_eq)
  moreover have "take_bit q x \<le> x" by (simp add: word_le_nat_alt unsigned_take_bit_eq take_bit_nat_less_eq_self)
  ultimately show ?thesis by (simp add: unat_sub) (simp add: take_bit_eq_mod minus_mod_eq_div_mult)
qed

lemma addr_small: "(a :: nat) \<le> b \<Longrightarrow> b < 2 ^ 30 \<Longrightarrow> a < 2 ^ 31"
  by simp

lemma addr_small2: "(a :: nat) \<le> 2 * b \<Longrightarrow> b < 2 ^ 30 \<Longrightarrow> a < 2 ^ 31"
  by simp

lemma addr_sum: "(a :: nat) < 2 ^ 30 \<Longrightarrow> b \<le> c \<Longrightarrow> c < 2 ^ 30 \<Longrightarrow> a + b < 2 ^ 31"
  by simp

lemma word_eq_of_nat: "unat (x :: 32 word) = a \<Longrightarrow> x = of_nat a"
  by auto

lemma unat_small [simp]: "a < 2 ^ 31 \<Longrightarrow> unat (of_nat a :: 32 word) = a"
  by (simp add: unat_of_nat take_bit_nat_eq_self flip: take_bit_eq_mod)

lemma sint_small: "a < 2 ^ 31 \<Longrightarrow> sint (of_nat a :: 32 word) = int a"
  by (simp add: signed_of_nat signed_take_bit_int_eq_self)

lemma block_of_page:
  assumes "geometry m ws n B" and "k * ws < 2 ^ 31"
  shows "block_of m (of_nat (k * ws)) = of_nat (k div n * (n * ws))"
proof -
  obtain i j where ij: "n = 2 ^ i" "ws = 2 ^ j" using assms(1) by (auto simp: geometry_def)
  have es: "mt_erasesize m - 1 = mask (i + j)"
    using assms(1) ij by (simp add: geometry_def mask_eq_exp_minus_1 power_add)
  have "unat (block_of m (of_nat (k * ws))) = k * ws div 2 ^ (i + j) * 2 ^ (i + j)"
    using assms(2) by (simp only: block_of_def es unat_and_not_mask unat_small)
  also have "\<dots> = k div n * (n * ws)" using ij by (simp add: power_add mult.commute[of "2 ^ i" "2 ^ j"] div_mult2_eq)
  finally have "unat (block_of m (of_nat (k * ws))) = k div n * (n * ws)" .
  then show ?thesis by (rule word_eq_of_nat)
qed

section \<open>Finding a good block\<close>

lemma deviceD:
  assumes "nand_device E dev fd m ws n B bad page"
  shows "geometry m ws n B" "fd \<ge> 0"
    "fst (oo_open E dev w) = fd" "page (snd (oo_open E dev w)) = page w" "page (oo_close E fd w) = page w"
    "fst (oo_ischr E fd w) = Some True" "page (snd (oo_ischr E fd w)) = page w"
    "fst (oo_info E fd w) = Some m" "page (snd (oo_info E fd w)) = page w" "page (oo_unlock E fd a (n * ws) w) = page w"
    "fst (oo_malloc E ws w)" "page (snd (oo_malloc E ws w)) = page w"
    "b < B \<Longrightarrow> fst (oo_bad E fd (b * (n * ws)) w) = (if bad b then 1 else 0)"
    "b < B \<Longrightarrow> page (snd (oo_bad E fd (b * (n * ws)) w)) = page w"
    "b < B \<Longrightarrow> \<not> bad b \<Longrightarrow> fst (oo_erase E fd (b * (n * ws)) (n * ws) w) \<ge> 0"
    "b < B \<Longrightarrow> \<not> bad b \<Longrightarrow> page (snd (oo_erase E fd (b * (n * ws)) (n * ws) w)) =
       (\<lambda>k. if k div n = b then blank ws else page w k)"
    "k < B * n \<Longrightarrow> \<not> bad (k div n) \<Longrightarrow> length (page w k) = ws \<Longrightarrow>
       fst (oo_read E fd ws (snd (oo_seek E fd (int (k * ws)) w))) = Some (page w k)"
    "k < B * n \<Longrightarrow> \<not> bad (k div n) \<Longrightarrow> length (page w k) = ws \<Longrightarrow>
       page (snd (oo_read E fd ws (snd (oo_seek E fd (int (k * ws)) w)))) = page w"
    "k < B * n \<Longrightarrow> \<not> bad (k div n) \<Longrightarrow> length p = ws \<Longrightarrow> page w k = blank ws \<Longrightarrow>
       fst (oo_write E fd p (snd (oo_seek E fd (int (k * ws)) w))) = int ws"
    "k < B * n \<Longrightarrow> \<not> bad (k div n) \<Longrightarrow> length p = ws \<Longrightarrow> page w k = blank ws \<Longrightarrow>
       page (snd (oo_write E fd p (snd (oo_seek E fd (int (k * ws)) w)))) = (page w)(k := p)"
  using assms unfolding nand_device_def by blast+

text \<open>The search for a good block from block \<open>b\<close> on: it ends at a good block with the same good pages behind
  it, or at the end of the device.\<close>

lemma next_good:
  assumes "nand_device E dev fd m ws n B bad page" and "b \<le> B"
  shows "\<exists>c w'. next_good_eraseblock E fd m (of_nat (b * (n * ws))) w = Some (of_nat (c * (n * ws)), w') \<and> page w' = page w \<and>
    c \<le> B \<and> (c < B \<longrightarrow> \<not> bad c) \<and> good_pages n B bad (b * n) = good_pages n B bad (c * n) \<and> (b < B \<and> \<not> bad b \<longrightarrow> c = b)"
  using assms(2)
proof (induction "B - b" arbitrary: b w)
  case 0
  then have "b = B" by simp
  moreover have "unat (mt_size m) = B * (n * ws)" "B * (n * ws) < 2 ^ 31"
    using geometryD(3)[OF deviceD(1)[OF assms(1)]] deviceD(1)[OF assms(1)] by (auto simp: geometry_def)
  ultimately show ?case by (subst next_good_eraseblock.simps) (auto simp: word_le_nat_alt simp del: of_nat_mult intro!: exI[of _ B])
next
  case (Suc x)
  note g = deviceD(1)[OF assms(1)]
  have B: "B * (n * ws) < 2 ^ 30" using g by (simp add: geometry_def)
  have b: "b < B" "Suc b \<le> B" using Suc.hyps(2) Suc.prems by simp_all
  have lt: "b * (n * ws) < B * (n * ws)" using b(1) geometryD(1,2)[OF g] by simp
  have step: "of_nat (b * (n * ws)) + mt_erasesize m = of_nat (Suc b * (n * ws))"
    using g by (simp add: geometry_def)
  have u: "unat (of_nat (b * (n * ws)) :: 32 word) = b * (n * ws)" using addr_small[OF less_imp_le[OF lt] B] by (rule unat_small)
  have ge: "\<not> mt_size m \<le> of_nat (b * (n * ws))"
    using lt u geometryD(3)[OF g] by (simp add: word_le_nat_alt)
  obtain r w1 where r: "oo_bad E fd (b * (n * ws)) w = (r, w1)" by (cases "oo_bad E fd (b * (n * ws)) w")
  then have rr: "r = (if bad b then 1 else 0)" "page w1 = page w" using deviceD(13,14)[OF assms(1) b(1), of w] by simp_all
  show ?case
  proof (cases "bad b")
    case True
    have "x = B - Suc b" using Suc.hyps(2) by simp
    from Suc.hyps(1)[OF this b(2), of w1] show ?thesis
      using True rr ge r u b good_pages_skip[of b B bad n] geometryD(2)[OF g]
      by (subst next_good_eraseblock.simps) (auto simp: step simp del: of_nat_mult of_nat_Suc mult_Suc)
  next
    case False
    then show ?thesis using rr ge r u b
      by (subst next_good_eraseblock.simps) (auto simp: simp del: of_nat_mult intro!: exI[of _ b])
  qed
qed

text \<open>A page number at which the loops stand: at the start of a block, or inside a good one.\<close>

definition page_pos :: "nat \<Rightarrow> nat \<Rightarrow> (nat \<Rightarrow> bool) \<Rightarrow> nat \<Rightarrow> bool" where
  "page_pos n B bad k \<longleftrightarrow> k \<le> B * n \<and> (k mod n \<noteq> 0 \<longrightarrow> \<not> bad (k div n))"

lemma page_pos_Suc: "k < B * n \<Longrightarrow> \<not> bad (k div n) \<Longrightarrow> page_pos n B bad (Suc k)"
  by (auto simp: page_pos_def mod_Suc div_Suc)

lemma next_page:
  assumes d: "nand_device E dev fd m ws n B bad page" and "page_pos n B bad k" and "k < B * n"
  shows "\<exists>k' w'. page_offset E fd m (of_nat (k * ws)) w = Some (of_nat (k' * ws), w') \<and> page w' = page w \<and>
    k' \<le> B * n \<and> (k' < B * n \<longrightarrow> \<not> bad (k' div n)) \<and> good_pages n B bad k = good_pages n B bad k'"
proof -
  note g = deviceD(1)[OF d]
  have "k * ws \<le> B * (n * ws)" using assms(3) by (simp flip: mult.assoc)
  moreover have "B * (n * ws) < 2 ^ 30" using g by (simp add: geometry_def)
  ultimately have lt: "k * ws < 2 ^ 31" by (rule addr_small)
  have blk: "block_of m (of_nat (k * ws)) = of_nat (k div n * (n * ws))" by (rule block_of_page[OF g lt])
  have kb: "k div n < B" using assms(3) by (simp add: less_mult_imp_div_less)
  have le: "k div n * n \<le> k" by simp
  have lt': "k div n * (n * ws) < 2 ^ 31"
    using le_less_trans[OF mult_le_mono1[OF le, of ws] lt] by (simp only: mult.assoc)
  show ?thesis
  proof (cases "k mod n = 0")
    case True
    then have k: "k = k div n * n" by (metis add.right_neutral div_mult_mod_eq)
    then have kw: "k * ws = k div n * (n * ws)" by (metis mult.assoc)
    obtain c w' where c: "next_good_eraseblock E fd m (of_nat (k div n * (n * ws))) w = Some (of_nat (c * (n * ws)), w')"
      "page w' = page w" "c \<le> B" "c < B \<longrightarrow> \<not> bad c" "good_pages n B bad (k div n * n) = good_pages n B bad (c * n)"
      using next_good[OF d, of "k div n" w] kb by auto
    have "page_offset E fd m (of_nat (k * ws)) w = Some (of_nat (c * n * ws), w')"
      unfolding page_offset_def blk mult.assoc[of c] using c(1) by (simp only: kw if_True simp_thms)
    moreover have "c * n \<le> B * n" "c * n < B * n \<longrightarrow> \<not> bad (c * n div n)" using c(3,4) by auto
    ultimately show ?thesis using c(2,5) k by metis
  next
    case False
    have "\<not> k \<le> k div n * n" using False le by (metis add.right_neutral div_mult_mod_eq le_antisym mod_mult_self1_is_0 mult.commute)
    then have "k div n * n * ws < k * ws" using geometryD(1)[OF g] by simp
    then have "k div n * (n * ws) \<noteq> k * ws" by (simp add: mult.assoc)
    then have "block_of m (of_nat (k * ws)) \<noteq> of_nat (k * ws)"
      using blk unat_small[OF lt] unat_small[OF lt'] by metis
    then show ?thesis using assms(2,3) False by (auto simp: page_offset_def page_pos_def simp del: of_nat_mult)
  qed
qed

section \<open>Writing\<close>

fun store_pages :: "nat \<Rightarrow> nat list \<Rightarrow> string \<Rightarrow> (nat \<Rightarrow> string) \<Rightarrow> nat \<Rightarrow> string" where
  "store_pages ws [] data f = f"
| "store_pages ws (p # ps) data f =
     (if drop ws data = [] then f(p := write_page ws data) else store_pages ws ps (drop ws data) (f(p := write_page ws data)))"

lemma write_page_length: "length (write_page ws data) = ws"
  by (simp add: write_page_def)

lemma page_addr:
  assumes "geometry m ws n B" and "k \<le> B * n"
  shows "unat (of_nat (k * ws) :: 32 word) = k * ws" "sint (of_nat (k * ws) :: 32 word) = int (k * ws)"
    "of_nat (k * ws) < mt_size m \<longleftrightarrow> k < B * n" "mt_size m \<le> of_nat (k * ws) \<longleftrightarrow> \<not> k < B * n"
    "of_nat (k * ws) + mt_writesize m = of_nat (Suc k * ws)"
proof -
  have "k * ws \<le> B * (n * ws)" using assms(2) by (simp flip: mult.assoc)
  moreover have "B * (n * ws) < 2 ^ 30" using assms(1) by (simp add: geometry_def)
  ultimately have lt: "k * ws < 2 ^ 31" by (rule addr_small)
  then show u: "unat (of_nat (k * ws) :: 32 word) = k * ws" "sint (of_nat (k * ws) :: 32 word) = int (k * ws)"
    by (rule unat_small, rule sint_small)
  have "unat (mt_size m) = B * n * ws" using geometryD(3)[OF assms(1)] by (simp add: mult.assoc)
  then show "of_nat (k * ws) < mt_size m \<longleftrightarrow> k < B * n" "mt_size m \<le> of_nat (k * ws) \<longleftrightarrow> \<not> k < B * n"
    using u(1) geometryD(1)[OF assms(1)] by (simp_all only: word_less_nat_alt word_le_nat_alt mult_less_cancel2 mult_le_cancel2) auto
  show "of_nat (k * ws) + mt_writesize m = of_nat (Suc k * ws)" using assms(1) by (simp add: geometry_def)
qed

lemma good_pages_ge: "p \<in> set (good_pages n B bad k) \<Longrightarrow> k \<le> p"
  by (auto simp: good_pages_def)

text \<open>One round of the loop.\<close>

lemma write_round:
  assumes d: "nand_device E dev fd m ws n B bad page" and "page_pos n B bad k"
    and "good_pages n B bad k \<noteq> [] \<longrightarrow> page w (hd (good_pages n B bad k)) = blank ws"
  shows "(good_pages n B bad k = [] \<and> (\<exists>w'. page w' = page w \<and> (\<forall>data. write_loop E fd m (of_nat (k * ws)) data w = Some (if k < B * n then -1 else 0, w')))) \<or>
    (\<exists>k'. k \<le> k' \<and> k' < B * n \<and> \<not> bad (k' div n) \<and> good_pages n B bad k = k' # good_pages n B bad (Suc k') \<and>
      (\<forall>pg. length pg = ws \<longrightarrow> (\<exists>w'. page w' = (page w)(k' := pg) \<and> (\<forall>data. write_page ws data = pg \<longrightarrow>
         write_loop E fd m (of_nat (k * ws)) data w =
           (if drop ws data = [] then Some (0, w') else write_loop E fd m (of_nat (Suc k' * ws)) (drop ws data) w')))))"
proof (cases "k < B * n")
  case False
  have "k \<le> B * n" using assms(2) by (simp add: page_pos_def)
  then have "\<not> of_nat (k * ws) < mt_size m" using page_addr(3)[OF deviceD(1)[OF d]] False by blast
  then show ?thesis using False by (intro disjI1) (subst write_loop.simps, auto simp: good_pages_def)
next
  case True
  note g = deviceD(1)[OF d]
  obtain k' w1 where k: "page_offset E fd m (of_nat (k * ws)) w = Some (of_nat (k' * ws), w1)" "page w1 = page w" "k' \<le> B * n"
    "k' < B * n \<longrightarrow> \<not> bad (k' div n)" "good_pages n B bad k = good_pages n B bad k'"
    using next_page[OF d assms(2) True] by blast
  have in_range: "of_nat (k * ws) < mt_size m" using page_addr(3)[OF g, of k] True by simp
  show ?thesis
  proof (cases "k' < B * n")
    case False
    then have "good_pages n B bad k = []" using k(5) by (simp add: good_pages_def)
    moreover have "write_loop E fd m (of_nat (k * ws)) data w = Some (-1, w1)" for data
      using in_range k(1) page_addr(4)[OF g k(3)] False by (subst write_loop.simps) (simp del: of_nat_mult)
    ultimately show ?thesis using True k(2) by auto
  next
    case True
    note good = k(4)[rule_format, OF True]
    have ps: "good_pages n B bad k = k' # good_pages n B bad (Suc k')" using k(5) good_pages_cons[of k' B n bad] True good by simp
    have er: "page w1 k' = blank ws" using assms(3) ps k(2) by simp
    have "\<exists>w'. page w' = (page w)(k' := pg) \<and> (\<forall>data. write_page ws data = pg \<longrightarrow>
         write_loop E fd m (of_nat (k * ws)) data w =
           (if drop ws data = [] then Some (0, w') else write_loop E fd m (of_nat (Suc k' * ws)) (drop ws data) w'))"
      if pg: "length pg = ws" for pg
    proof (intro exI conjI allI impI)
      let ?w = "snd (oo_write E fd pg (snd (oo_seek E fd (int (k' * ws)) w1)))"
      show "page ?w = (page w)(k' := pg)" using deviceD(20)[OF d True good pg er] k(2) by simp
      fix data assume pd: "write_page ws data = pg"
      obtain x w2 where sk: "oo_seek E fd (int (k' * ws)) w1 = (x, w2)" by (cases "oo_seek E fd (int (k' * ws)) w1")
      obtain r w3 where wr: "oo_write E fd pg w2 = (r, w3)" by (cases "oo_write E fd pg w2")
      have "r = int ws" using deviceD(19)[OF d True good pg er] sk wr by simp
      then have ok: "word_of_int r = mt_writesize m" using g by (simp add: geometry_def)
      show "write_loop E fd m (of_nat (k * ws)) data w =
           (if drop ws data = [] then Some (0, ?w) else write_loop E fd m (of_nat (Suc k' * ws)) (drop ws data) ?w)"
        using page_addr(4,5)[OF g k(3)] True
        by (subst write_loop.simps) (simp only: in_range k(1) page_addr(2)[OF g k(3)] geometryD(5)[OF g] pd sk wr ok Let_def
            bind.simps prod.case if_True if_False simp_thms snd_conv)
    qed
    then show ?thesis using True good ps good_pages_ge[of k' n B bad k] by auto
  qed
qed

lemma write_loop_stores:
  assumes d: "nand_device E dev fd m ws n B bad page" and "page_pos n B bad k"
    and "\<forall>p \<in> set (good_pages n B bad k). page w p = blank ws"
  shows "\<exists>r w'. write_loop E fd m (of_nat (k * ws)) data w = Some (r, w') \<and>
    page w' = store_pages ws (good_pages n B bad k) data (page w) \<and>
    (good_pages n B bad k \<noteq> [] \<and> length data \<le> ws * length (good_pages n B bad k) \<longrightarrow> r = 0)"
  using assms(2,3)
proof (induction "B * n - k" arbitrary: k data w rule: less_induct)
  case less
  have hd: "good_pages n B bad k \<noteq> [] \<longrightarrow> page w (hd (good_pages n B bad k)) = blank ws" using less.prems(2) by (simp add: hd_in_set)
  from write_round[OF d less.prems(1) hd] show ?case
  proof (elim disjE exE conjE, goal_cases)
    case (1 w')
    then show ?case by auto
  next
    case (2 k')
    obtain w' where w': "page w' = (page w)(k' := write_page ws data)" "write_loop E fd m (of_nat (k * ws)) data w =
         (if drop ws data = [] then Some (0, w') else write_loop E fd m (of_nat (Suc k' * ws)) (drop ws data) w')"
      using 2(5) write_page_length by blast
    show ?case
    proof (cases "drop ws data = []")
      case True
      then show ?thesis using w' 2(4) by simp
    next
      case False
      have blanks: "\<forall>p \<in> set (good_pages n B bad (Suc k')). page w' p = blank ws"
        using less.prems(2) 2(4) w'(1) good_pages_ge[of _ n B bad "Suc k'"] by fastforce
      have "B * n - Suc k' < B * n - k" using 2(1,2) by simp
      from less.hyps[OF this page_pos_Suc[where bad = bad, OF 2(2,3)] blanks, of "drop ws data"] show ?thesis
        using w' 2(4) False by (auto simp: algebra_simps)
    qed
  qed
qed

text \<open>Only the pages that are written have to be erased.\<close>

lemma write_loop_part:
  assumes d: "nand_device E dev fd m ws n B bad page" and "page_pos n B bad k" and "0 < c" and "c \<le> length (good_pages n B bad k)"
    and "length data \<le> ws * c" and "\<forall>p \<in> set (take c (good_pages n B bad k)). page w p = blank ws"
  shows "\<exists>w'. write_loop E fd m (of_nat (k * ws)) data w = Some (0, w') \<and>
    page w' = store_pages ws (good_pages n B bad k) data (page w)"
  using assms(2-)
proof (induction c arbitrary: k data w)
  case (Suc c)
  have hd: "good_pages n B bad k \<noteq> [] \<longrightarrow> page w (hd (good_pages n B bad k)) = blank ws"
    using Suc.prems(5) by (cases "good_pages n B bad k") auto
  have ne: "good_pages n B bad k \<noteq> []" using Suc.prems(3) by auto
  from write_round[OF d Suc.prems(1) hd] ne obtain k' where k: "k' < B * n" "\<not> bad (k' div n)"
    "good_pages n B bad k = k' # good_pages n B bad (Suc k')"
    and step: "\<And>pg. length pg = ws \<Longrightarrow> \<exists>w'. page w' = (page w)(k' := pg) \<and> (\<forall>data. write_page ws data = pg \<longrightarrow>
         write_loop E fd m (of_nat (k * ws)) data w =
           (if drop ws data = [] then Some (0, w') else write_loop E fd m (of_nat (Suc k' * ws)) (drop ws data) w'))"
    by blast
  obtain w' where w': "page w' = (page w)(k' := write_page ws data)" "write_loop E fd m (of_nat (k * ws)) data w =
         (if drop ws data = [] then Some (0, w') else write_loop E fd m (of_nat (Suc k' * ws)) (drop ws data) w')"
    using step[OF write_page_length] by blast
  show ?case
  proof (cases "drop ws data = []")
    case True
    then show ?thesis using w' k(3) by (simp add: fun_upd_def)
  next
    case False
    have blanks: "\<forall>p \<in> set (take c (good_pages n B bad (Suc k'))). page w' p = blank ws"
      using Suc.prems(5) k(3) w'(1) good_pages_ge[of _ n B bad "Suc k'"] by (fastforce dest: in_set_takeD)
    have "0 < c" using False Suc.prems(4) by (cases c) auto
    then show ?thesis
      using Suc.IH[OF page_pos_Suc[where bad = bad, OF k(1,2)] _ _ _ blanks, of "drop ws data"] Suc.prems(3,4) False w' k(3)
      by (simp add: fun_upd_def)
  qed
qed simp

text \<open>Data that does not fit is cut without an error when the last block is good.\<close>

lemma write_loop_cuts:
  assumes d: "nand_device E dev fd m ws n B bad page" and "page_pos n B bad k" and "\<not> bad (B - 1)"
    and "\<forall>p \<in> set (good_pages n B bad k). page w p = blank ws"
    and "length xs = ws * length (good_pages n B bad k)" and "good_pages n B bad k \<noteq> []"
  shows "write_loop E fd m (of_nat (k * ws)) (xs @ ys) w = write_loop E fd m (of_nat (k * ws)) xs w"
  using assms(2,4-)
proof (induction "B * n - k" arbitrary: k xs w rule: less_induct)
  case less
  note g = deviceD(1)[OF d]
  have hd: "good_pages n B bad k \<noteq> [] \<longrightarrow> page w (hd (good_pages n B bad k)) = blank ws" using less.prems(2) by (simp add: hd_in_set)
  from write_round[OF d less.prems(1) hd] less.prems(4) obtain k' where k: "k \<le> k'" "k' < B * n" "\<not> bad (k' div n)"
    "good_pages n B bad k = k' # good_pages n B bad (Suc k')"
    and step: "\<And>pg. length pg = ws \<Longrightarrow> \<exists>w'. page w' = (page w)(k' := pg) \<and> (\<forall>data. write_page ws data = pg \<longrightarrow>
         write_loop E fd m (of_nat (k * ws)) data w =
           (if drop ws data = [] then Some (0, w') else write_loop E fd m (of_nat (Suc k' * ws)) (drop ws data) w'))"
    by blast
  have len: "length xs = ws + ws * length (good_pages n B bad (Suc k'))" using less.prems(3) k(4) by simp
  then have pg: "write_page ws (xs @ ys) = take ws xs" "write_page ws xs = take ws xs" "length (take ws xs) = ws"
    by (simp_all add: write_page_def)
  obtain w' where w': "page w' = (page w)(k' := take ws xs)" "\<And>data. write_page ws data = take ws xs \<Longrightarrow>
      write_loop E fd m (of_nat (k * ws)) data w =
        (if drop ws data = [] then Some (0, w') else write_loop E fd m (of_nat (Suc k' * ws)) (drop ws data) w')"
    using step[OF pg(3)] by blast
  show ?case
  proof (cases "good_pages n B bad (Suc k') = []")
    case True
    have "Suc k' = B * n"
    proof (rule ccontr)
      assume "Suc k' \<noteq> B * n"
      then have "Suc k' \<le> B * n - 1" "B * n - 1 < B * n" using k(2) by simp_all
      moreover have "(B * n - 1) div n = B - 1"
        using geometryD(2)[OF g] k(2) by (cases B) (auto simp: div_nat_eqI algebra_simps intro!: div_nat_eqI)
      ultimately have "B * n - 1 \<in> set (good_pages n B bad (Suc k'))" using assms(3) by (simp add: good_pages_def)
      then show False using True by simp
    qed
    then have "write_loop E fd m (of_nat (Suc k' * ws)) data v = Some (0, v)" for data v
      using page_addr(3)[OF g, of "Suc k'"] by (subst write_loop.simps) simp
    then show ?thesis using w'(2) pg len True by simp
  next
    case False
    have blanks: "\<forall>p \<in> set (good_pages n B bad (Suc k')). page w' p = blank ws"
      using less.prems(2) k(4) w'(1) good_pages_ge[of _ n B bad "Suc k'"] by fastforce
    have "B * n - Suc k' < B * n - k" using k(1,2) by simp
    from less.hyps[OF this page_pos_Suc[where bad = bad, OF k(2,3)] blanks, of "drop ws xs"] False show ?thesis
      using w'(2) pg len geometryD(1)[OF g] by (simp del: of_nat_mult of_nat_Suc mult_Suc)
  qed
qed

section \<open>Reading\<close>

lemma read_round:
  assumes d: "nand_device E dev fd m ws n B bad page" and "page_pos n B bad k"
    and "\<forall>p \<in> set (good_pages n B bad k). length (page w p) = ws"
  shows "(good_pages n B bad k = [] \<and> (\<exists>r w'. page w' = page w \<and> (\<forall>len acc. read_loop E fd m (of_nat (k * ws)) len acc w = Some ((r, acc), w')))) \<or>
    (\<exists>k' w'. k \<le> k' \<and> k' < B * n \<and> \<not> bad (k' div n) \<and> good_pages n B bad k = k' # good_pages n B bad (Suc k') \<and> page w' = page w \<and>
      (\<forall>len acc. read_loop E fd m (of_nat (k * ws)) len acc w =
        (if len < ws then Some ((0, acc @ take len (page w k')), w')
         else read_loop E fd m (of_nat (Suc k' * ws)) (len - ws) (acc @ page w k') w')))"
proof (cases "k < B * n")
  case False
  have "k \<le> B * n" using assms(2) by (simp add: page_pos_def)
  then have "\<not> of_nat (k * ws) < mt_size m" using page_addr(3)[OF deviceD(1)[OF d]] False by blast
  then show ?thesis using False by (intro disjI1) (subst read_loop.simps, auto simp: good_pages_def)
next
  case True
  note g = deviceD(1)[OF d]
  have in_range: "of_nat (k * ws) < mt_size m" using page_addr(3)[OF g, of k] True by simp
  obtain k' w1 where k: "page_offset E fd m (of_nat (k * ws)) w = Some (of_nat (k' * ws), w1)" "page w1 = page w" "k' \<le> B * n"
    "k' < B * n \<longrightarrow> \<not> bad (k' div n)" "good_pages n B bad k = good_pages n B bad k'"
    using next_page[OF d assms(2) True] by blast
  show ?thesis
  proof (cases "k' < B * n")
    case False
    then have "good_pages n B bad k = []" using k(5) by (simp add: good_pages_def)
    moreover have "read_loop E fd m (of_nat (k * ws)) len acc w = Some ((-1, acc), w1)" for len acc
      using in_range k(1) page_addr(4)[OF g k(3)] False by (subst read_loop.simps) (simp del: of_nat_mult)
    ultimately show ?thesis using k(2) by blast
  next
    case True
    note good = k(4)[rule_format, OF True]
    have ps: "good_pages n B bad k = k' # good_pages n B bad (Suc k')" using k(5) good_pages_cons[of k' B n bad] True good by simp
    obtain x w2 where sk: "oo_seek E fd (int (k' * ws)) w1 = (x, w2)" by (cases "oo_seek E fd (int (k' * ws)) w1")
    obtain r w3 where rd: "oo_read E fd ws w2 = (r, w3)" by (cases "oo_read E fd ws w2")
    have len1: "length (page w k') = ws" using assms(3) ps by simp
    then have r: "r = Some (page w k')" "page w3 = page w" using deviceD(17,18)[OF d True good, of w1] sk rd k(2) by simp_all
    have "read_loop E fd m (of_nat (k * ws)) len acc w =
        (if len < ws then Some ((0, acc @ take len (page w k')), w3)
         else read_loop E fd m (of_nat (Suc k' * ws)) (len - ws) (acc @ page w k') w3)" for len acc
      using page_addr(4,5)[OF g k(3)] True len1
      by (subst read_loop.simps) (simp only: in_range k(1) page_addr(2)[OF g k(3)] geometryD(5)[OF g] sk rd r(1) Let_def
          bind.simps prod.case option.case if_True if_False simp_thms)
    then show ?thesis using True good ps r(2) good_pages_ge[of k' n B bad k] by (intro disjI2 exI[of _ k'] exI[of _ w3]) simp
  qed
qed

lemma read_loop_reads:
  assumes d: "nand_device E dev fd m ws n B bad page" and "page_pos n B bad k"
    and "\<forall>p \<in> set (good_pages n B bad k). length (page w p) = ws"
  shows "\<exists>r w'. read_loop E fd m (of_nat (k * ws)) len acc w =
      Some ((r, acc @ take len (concat (map (page w) (good_pages n B bad k)))), w') \<and> page w' = page w \<and>
    (len < ws * length (good_pages n B bad k) \<longrightarrow> r = 0)"
  using assms(2,3)
proof (induction "B * n - k" arbitrary: k len acc w rule: less_induct)
  case less
  from read_round[OF d less.prems] show ?case
  proof (elim disjE exE conjE, goal_cases)
    case (1 r w')
    then show ?case by auto
  next
    case (2 k' w3)
    have len1: "length (page w k') = ws" using less.prems(2) 2(4) by simp
    show ?case
    proof (cases "len < ws")
      case True
      then show ?thesis using 2(4-6) len1 by simp
    next
      case False
      let ?qs = "good_pages n B bad (Suc k')"
      have lens: "\<forall>p \<in> set ?qs. length (page w3 p) = ws" using less.prems(2) 2(4,5) by simp
      have "B * n - Suc k' < B * n - k" using 2(1,2) by simp
      from less.hyps[OF this page_pos_Suc[where bad = bad, OF 2(2,3)] lens, of "len - ws" "acc @ page w k'"]
      obtain r' w' where ih: "read_loop E fd m (of_nat (Suc k' * ws)) (len - ws) (acc @ page w k') w3 =
          Some ((r', (acc @ page w k') @ take (len - ws) (concat (map (page w) ?qs))), w')" "page w' = page w"
        "len - ws < ws * length ?qs \<longrightarrow> r' = 0"
        using 2(5) by auto
      have "take len (page w k' @ concat (map (page w) ?qs)) = page w k' @ take (len - ws) (concat (map (page w) ?qs))"
        using len1 False by simp
      moreover have "len < ws * length (good_pages n B bad k) \<longrightarrow> len - ws < ws * length ?qs" using 2(4) False by auto
      ultimately show ?thesis using 2(4,6) ih False by simp
    qed
  qed
qed

section \<open>Erasing\<close>

definition good_blocks :: "nat \<Rightarrow> (nat \<Rightarrow> bool) \<Rightarrow> nat \<Rightarrow> nat list" where
  "good_blocks B bad b = filter (\<lambda>b. \<not> bad b) [b..<B]"

definition wipe :: "nat \<Rightarrow> nat \<Rightarrow> nat set \<Rightarrow> (nat \<Rightarrow> string) \<Rightarrow> nat \<Rightarrow> string" where
  "wipe ws n bs f = (\<lambda>k. if k div n \<in> bs then blank ws else f k)"

lemma block_addr:
  assumes "geometry m ws n B" and "b \<le> 2 * B"
  shows "unat (of_nat (b * (n * ws)) :: 32 word) = b * (n * ws)"
proof -
  have "b * (n * ws) \<le> 2 * (B * (n * ws))" using mult_le_mono1[OF assms(2), of "n * ws"] by (simp only: mult.assoc)
  moreover have "B * (n * ws) < 2 ^ 30" using assms(1) by (simp add: geometry_def)
  ultimately have "b * (n * ws) < 2 ^ 31" by (rule addr_small2)
  then show ?thesis by (rule unat_small)
qed

text \<open>One round: a bad block is counted, a good one is erased.\<close>

lemma erase_round:
  assumes d: "nand_device E dev fd m ws n B bad page" and "b < B" and "c \<le> B" and "x \<le> b"
  shows "\<not> b < c + x \<Longrightarrow> erase_loop E fd m (of_nat (c * (n * ws))) (of_nat (x * (n * ws))) (of_nat (b * (n * ws))) ret w =
      Some (Some (ret, of_nat (b * (n * ws))), w)"
    and "b < c + x \<Longrightarrow> \<exists>r w'. r \<ge> 0 \<and> page w' = (if bad b then page w else wipe ws n {b} (page w)) \<and>
      erase_loop E fd m (of_nat (c * (n * ws))) (of_nat (x * (n * ws))) (of_nat (b * (n * ws))) ret w =
      erase_loop E fd m (of_nat (c * (n * ws))) (of_nat ((if bad b then Suc x else x) * (n * ws))) (of_nat (Suc b * (n * ws))) r w'"
proof -
  note g = deviceD(1)[OF d]
  have ub: "unat (of_nat (b * (n * ws)) :: 32 word) = b * (n * ws)" using block_addr[OF g, of b] assms(2) by simp
  have sum: "(of_nat (c * (n * ws)) :: 32 word) + of_nat (x * (n * ws)) = of_nat ((c + x) * (n * ws))" by (simp add: algebra_simps)
  have us: "unat (of_nat ((c + x) * (n * ws)) :: 32 word) = (c + x) * (n * ws)"
    using block_addr[OF g, of "c + x"] assms(2-4) by simp
  have lt: "of_nat (b * (n * ws)) < (of_nat ((c + x) * (n * ws)) :: 32 word) \<longleftrightarrow> b < c + x" "of_nat (b * (n * ws)) < mt_size m"
    using ub us geometryD[OF g] assms(2) by (simp_all add: word_less_nat_alt del: of_nat_mult of_nat_add)
  have step: "of_nat (b * (n * ws)) + mt_erasesize m = of_nat (Suc b * (n * ws))"
    "of_nat (x * (n * ws)) + mt_erasesize m = of_nat (Suc x * (n * ws))"
    using g by (simp_all add: geometry_def)
  show "erase_loop E fd m (of_nat (c * (n * ws))) (of_nat (x * (n * ws))) (of_nat (b * (n * ws))) ret w =
      Some (Some (ret, of_nat (b * (n * ws))), w)" if "\<not> b < c + x"
    using that lt by (subst erase_loop.simps) (simp add: sum del: of_nat_mult of_nat_add)
  assume bc: "b < c + x"
  obtain r w1 where r: "oo_bad E fd (b * (n * ws)) w = (r, w1)" by (cases "oo_bad E fd (b * (n * ws)) w")
  have rr: "r = (if bad b then 1 else 0)" "page w1 = page w" using deviceD(13,14)[OF d assms(2), of w] r by simp_all
  let ?w = "oo_unlock E fd (b * (n * ws)) (n * ws) w1"
  obtain q w2 where q: "oo_erase E fd (b * (n * ws)) (n * ws) ?w = (q, w2)" by (cases "oo_erase E fd (b * (n * ws)) (n * ws) ?w")
  have qq: "\<not> q < 0" "page w2 = wipe ws n {b} (page w)" if "\<not> bad b"
    using deviceD(15,16)[OF d assms(2) that, of ?w] deviceD(10)[OF d, of "b * (n * ws)" w1] q rr(2) by (simp_all add: wipe_def fun_eq_iff)
  have "erase_loop E fd m (of_nat (c * (n * ws))) (of_nat (x * (n * ws))) (of_nat (b * (n * ws))) ret w =
      erase_loop E fd m (of_nat (c * (n * ws))) (of_nat ((if bad b then Suc x else x) * (n * ws))) (of_nat (Suc b * (n * ws))) r
        (if bad b then w1 else w2)"
    using bc lt rr qq(1)
    by (subst erase_loop.simps) (simp add: sum ub r q step geometryD(4)[OF g] Let_def del: of_nat_mult of_nat_add of_nat_Suc mult_Suc)
  moreover have "page (if bad b then w1 else w2) = (if bad b then page w else wipe ws n {b} (page w))" using rr(2) qq(2) by simp
  ultimately show "\<exists>r w'. r \<ge> 0 \<and> page w' = (if bad b then page w else wipe ws n {b} (page w)) \<and>
      erase_loop E fd m (of_nat (c * (n * ws))) (of_nat (x * (n * ws))) (of_nat (b * (n * ws))) ret w =
      erase_loop E fd m (of_nat (c * (n * ws))) (of_nat ((if bad b then Suc x else x) * (n * ws))) (of_nat (Suc b * (n * ws))) r w'"
    using rr(1) by (intro exI[of _ r] exI[of _ "if bad b then w1 else w2"]) simp
qed

lemma erase_loop_wipes:
  assumes d: "nand_device E dev fd m ws n B bad page" and "b \<le> B" and "c \<le> B" and "x \<le> b" and "ret \<ge> 0"
  shows "\<exists>r b' w'. erase_loop E fd m (of_nat (c * (n * ws))) (of_nat (x * (n * ws))) (of_nat (b * (n * ws))) ret w =
      Some (Some (r, of_nat (b' * (n * ws))), w') \<and> b' \<le> B \<and> r \<ge> 0 \<and>
    page w' = wipe ws n (set (take (c + x - b) (good_blocks B bad b))) (page w)"
  using assms(2,4,5)
proof (induction "B - b" arbitrary: b x ret w)
  case 0
  then have "b = B" by simp
  moreover have "unat (mt_size m) = B * (n * ws)" by (rule geometryD(3)[OF deviceD(1)[OF d]])
  ultimately show ?case using 0 block_addr[OF deviceD(1)[OF d], of B]
    by (subst erase_loop.simps) (auto simp: word_less_nat_alt good_blocks_def wipe_def simp del: of_nat_mult intro!: exI[of _ B])
next
  case (Suc y)
  have b: "b < B" "Suc b \<le> B" "y = B - Suc b" using Suc.hyps(2) Suc.prems by simp_all
  have gb: "good_blocks B bad b = (if bad b then good_blocks B bad (Suc b) else b # good_blocks B bad (Suc b))"
    using b(1) by (simp add: good_blocks_def upt_conv_Cons)
  show ?case
  proof (cases "b < c + x")
    case False
    then show ?thesis using erase_round(1)[OF d b(1) assms(3) Suc.prems(2) False] Suc.prems
      by (auto simp: wipe_def simp del: of_nat_mult intro!: exI[of _ b])
  next
    case True
    let ?x = "if bad b then Suc x else x"
    obtain r w1 where r: "r \<ge> 0" "page w1 = (if bad b then page w else wipe ws n {b} (page w))"
      "erase_loop E fd m (of_nat (c * (n * ws))) (of_nat (x * (n * ws))) (of_nat (b * (n * ws))) ret w =
       erase_loop E fd m (of_nat (c * (n * ws))) (of_nat (?x * (n * ws))) (of_nat (Suc b * (n * ws))) r w1"
      using erase_round(2)[OF d b(1) assms(3) Suc.prems(2) True] by blast
    have tk: "take (c + x - b) (good_blocks B bad b) = (if bad b then take (c + ?x - Suc b) (good_blocks B bad (Suc b))
        else b # take (c + ?x - Suc b) (good_blocks B bad (Suc b)))"
      using True gb by (simp add: take_Cons' Suc_diff_le)
    have "wipe ws n (set (take (c + ?x - Suc b) (good_blocks B bad (Suc b)))) (page w1) =
        wipe ws n (set (take (c + x - b) (good_blocks B bad b))) (page w)"
      unfolding tk r(2) by (auto simp: wipe_def)
    then show ?thesis
      using Suc.hyps(1)[OF b(3,2) _ r(1), of ?x w1] Suc.prems(2) r(3) by auto
  qed
qed

section \<open>The operations\<close>

text \<open>The number of blocks that an erase of \<open>len\<close> bytes is meant to cover.\<close>

definition blocks_for :: "nat \<Rightarrow> nat \<Rightarrow> nat \<Rightarrow> nat" where
  "blocks_for es B len = (if len = 0 then B else min B (len div es + (if len mod es = 0 then 0 else 1)))"

lemma erase_end_blocks:
  assumes g: "geometry m ws n B" and "len < 2 ^ 30"
  shows "erase_end m 0 (of_nat len) = of_nat (blocks_for (n * ws) B len * (n * ws))"
proof -
  let ?es = "n * ws"
  have es: "0 < ?es" "unat (mt_erasesize m) = ?es" "unat (mt_size m) = B * ?es" using geometryD[OF g] by simp_all
  have B: "B * ?es < 2 ^ 30" "mt_size m = of_nat (B * ?es)" "mt_erasesize m = of_nat ?es" "?es \<le> B * ?es"
    using g geometryD(7)[OF g] by (simp_all add: geometry_def)
  have u: "unat (of_nat len :: 32 word) = len" using assms(2) by (intro unat_small) simp
  have md: "of_nat len mod mt_erasesize m = 0 \<longleftrightarrow> len mod ?es = 0"
    by (simp only: word_unat_eq_iff unat_mod_distrib u es(2) unat_0)
  have dv: "of_nat len div mt_erasesize m = of_nat (len div ?es)"
    by (rule word_eq_of_nat) (simp only: unat_div_distrib u es(2))
  let ?c = "len div ?es + (if len mod ?es = 0 then 0 else 1)"
  have part: "(if of_nat len mod mt_erasesize m = 0 then 0 + of_nat len else (of_nat len div mt_erasesize m + 1) * mt_erasesize m + 0) =
      (of_nat (?c * ?es) :: 32 word)"
  proof (cases "len mod ?es = 0")
    case True
    then have "?c * ?es = len" by auto
    then show ?thesis by (simp only: md True if_True add_0 simp_thms)
  next
    case False
    then show ?thesis unfolding md dv by (simp only: if_False B(3) of_nat_mult of_nat_add of_nat_1 add_0_right)
  qed
  have "?c * ?es \<le> len + ?es" by (cases "len mod ?es = 0") (auto simp: add_mult_distrib intro: trans_le_add1)
  then have "?c * ?es < 2 ^ 31" using addr_sum[OF assms(2) B(4,1)] by (rule le_less_trans)
  then have "unat (of_nat (?c * ?es) :: 32 word) = ?c * ?es" by (rule unat_small)
  then have cmp: "mt_size m \<le> of_nat (?c * ?es) \<longleftrightarrow> B \<le> ?c"
    using es(1) by (simp only: word_le_nat_alt es(3) mult_le_cancel2 simp_thms)
  have z: "(of_nat len :: 32 word) = 0 \<longleftrightarrow> len = 0" by (simp only: word_unat_eq_iff u unat_0)
  show ?thesis unfolding erase_end_def part Let_def cmp z by (auto simp: B(2) blocks_for_def min_def simp del: of_nat_mult of_nat_add)
qed

lemma nand_erase_part_wipes:
  assumes d: "nand_device E dev fd m ws n B bad page" and "len < 2 ^ 30"
  shows "\<exists>r w'. nand_erase_part E dev 0 (of_nat len) w = Some (r, w') \<and> r \<ge> 0 \<and>
    page w' = wipe ws n (set (take (blocks_for (n * ws) B len) (good_blocks B bad 0))) (page w)"
proof -
  note g = deviceD(1)[OF d]
  let ?c = "blocks_for (n * ws) B len"
  obtain w1 w2 w3 where o: "oo_open E dev w = (fd, w1)" "oo_ischr E fd w1 = (Some True, w2)" "oo_info E fd w2 = (Some m, w3)"
    using deviceD(3,6,8)[OF d] by (metis prod.collapse)
  have pg: "page w3 = page w" using deviceD(4,7,9)[OF d] o by (metis snd_conv)
  have c: "?c \<le> B" by (simp add: blocks_for_def)
  obtain r b' w' where l: "erase_loop E fd m (of_nat (?c * (n * ws))) (of_nat (0 * (n * ws))) (of_nat (0 * (n * ws))) 0 w3 =
      Some (Some (r, of_nat (b' * (n * ws))), w')" "b' \<le> B" "r \<ge> 0"
      "page w' = wipe ws n (set (take (?c + 0 - 0) (good_blocks B bad 0))) (page w3)"
    using erase_loop_wipes[OF d _ c, of 0 0 0 w3] by auto
  have nz: "mt_erasesize m \<noteq> 0" using geometryD(1,2,4)[OF g] by (metis mult_is_0 neq0_conv unat_0)
  have "\<not> mt_size m < of_nat (b' * (n * ws))"
    using block_addr[OF g, of b'] l(2) geometryD(3)[OF g] by (simp add: word_less_nat_alt del: of_nat_mult)
  then have "nand_erase_part E dev 0 (of_nat len) w = Some (r, oo_close E fd w')"
    using o l(1) nz deviceD(2)[OF d] erase_end_blocks[OF g assms(2)]
    by (simp add: nand_erase_part_def del: of_nat_mult)
  then show ?thesis using l(3,4) pg deviceD(5)[OF d] by simp
qed

lemma concat_pages_length: "\<forall>p \<in> set ps. length (f p) = ws \<Longrightarrow> length (concat (map f ps)) = ws * length ps"
  by (induction ps) auto

lemma first_offset_0: "first_offset E fd m 0 w = Some (0, w)"
  by (simp add: first_offset_def block_of_def)

lemma nand_write_stores:
  assumes d: "nand_device E dev fd m ws n B bad page" and "\<forall>p \<in> set (good_pages n B bad 0). page w p = blank ws"
  shows "\<exists>r w'. nand_write E dev 0 data w = Some (r, w') \<and> page w' = store_pages ws (good_pages n B bad 0) data (page w) \<and>
    (good_pages n B bad 0 \<noteq> [] \<and> length data \<le> ws * length (good_pages n B bad 0) \<longrightarrow> r = 0)"
proof -
  note g = deviceD(1)[OF d]
  obtain w1 w2 w3 where o: "oo_open E dev w = (fd, w1)" "oo_info E fd w1 = (Some m, w2)" "oo_malloc E ws w2 = (True, w3)"
    using deviceD(3,8,11)[OF d] by (metis prod.collapse)
  have pg: "page w3 = page w" using deviceD(4,9,12)[OF d] o by (metis snd_conv)
  have pos: "page_pos n B bad 0" by (simp add: page_pos_def)
  obtain r w' where "write_loop E fd m 0 data w3 = Some (r, w')" "page w' = store_pages ws (good_pages n B bad 0) data (page w)"
    "good_pages n B bad 0 \<noteq> [] \<and> length data \<le> ws * length (good_pages n B bad 0) \<longrightarrow> r = 0"
    using write_loop_stores[OF d pos, of w3 data] assms(2) pg by auto
  then show ?thesis
    using o deviceD(2,5)[OF d] geometryD(5)[OF g] by (simp add: nand_write_def first_offset_0)
qed

lemma nand_write_part:
  assumes d: "nand_device E dev fd m ws n B bad page" and "0 < c" and "c \<le> length (good_pages n B bad 0)"
    and "length data \<le> ws * c" and "\<forall>p \<in> set (take c (good_pages n B bad 0)). page w p = blank ws"
  shows "\<exists>w'. nand_write E dev 0 data w = Some (0, w') \<and> page w' = store_pages ws (good_pages n B bad 0) data (page w)"
proof -
  note g = deviceD(1)[OF d]
  obtain w1 w2 w3 where o: "oo_open E dev w = (fd, w1)" "oo_info E fd w1 = (Some m, w2)" "oo_malloc E ws w2 = (True, w3)"
    using deviceD(3,8,11)[OF d] by (metis prod.collapse)
  have pg: "page w3 = page w" using deviceD(4,9,12)[OF d] o by (metis snd_conv)
  have pos: "page_pos n B bad 0" by (simp add: page_pos_def)
  obtain w' where "write_loop E fd m 0 data w3 = Some (0, w')" "page w' = store_pages ws (good_pages n B bad 0) data (page w)"
    using write_loop_part[OF d pos assms(2-4), of w3] assms(5) pg by auto
  then show ?thesis
    using o deviceD(2,5)[OF d] geometryD(5)[OF g] by (simp add: nand_write_def first_offset_0)
qed

lemma nand_read_reads:
  assumes d: "nand_device E dev fd m ws n B bad page" and "\<forall>p \<in> set (good_pages n B bad 0). length (page w p) = ws"
    and "length buf < ws * length (good_pages n B bad 0)"
  shows "\<exists>w'. nand_read E dev 0 buf w = Some ((0, take (length buf) (concat (map (page w) (good_pages n B bad 0)))), w') \<and> page w' = page w"
proof -
  note g = deviceD(1)[OF d]
  obtain w1 w2 w3 where o: "oo_open E dev w = (fd, w1)" "oo_info E fd w1 = (Some m, w2)" "oo_malloc E ws w2 = (True, w3)"
    using deviceD(3,8,11)[OF d] by (metis prod.collapse)
  have pg: "page w3 = page w" using deviceD(4,9,12)[OF d] o by (metis snd_conv)
  have pos: "page_pos n B bad 0" by (simp add: page_pos_def)
  let ?s = "take (length buf) (concat (map (page w) (good_pages n B bad 0)))"
  obtain w' where "read_loop E fd m 0 (length buf) [] w3 = Some ((0, ?s), w')" "page w' = page w"
    using read_loop_reads[OF d pos, of w3 "length buf" "[]"] assms(2,3) pg by auto
  moreover have "length (concat (map (page w) (good_pages n B bad 0))) = ws * length (good_pages n B bad 0)"
    using concat_pages_length assms(2) by blast
  ultimately show ?thesis
    using o deviceD(2,5)[OF d] geometryD(5)[OF g] assms(3) by (simp add: nand_read_def first_offset_0 Let_def)
qed

section \<open>Stored data is read back\<close>

lemma store_other: "q \<notin> set ps \<Longrightarrow> store_pages ws ps data f q = f q"
  by (induction ws ps data f rule: store_pages.induct) auto

lemma store_length: "length (f q) = ws \<Longrightarrow> length (store_pages ws ps data f q) = ws"
  by (induction ws ps data f rule: store_pages.induct) (auto simp: write_page_length)

lemma store_read:
  assumes "distinct ps" and "\<forall>p \<in> set ps. length (f p) = ws" and "length data \<le> ws * length ps"
  shows "take (length data) (concat (map (store_pages ws ps data f) ps)) = data"
  using assms
proof (induction ws ps data f rule: store_pages.induct)
  case (2 ws p ps data f)
  let ?g = "f(p := write_page ws data)"
  show ?case
  proof (cases "drop ws data = []")
    case True
    then show ?thesis by (auto simp: write_page_def)
  next
    case False
    then have len: "\<not> length data \<le> ws" by simp
    have p: "store_pages ws ps (drop ws data) ?g p = take ws data" using 2(2) len by (simp add: store_other write_page_def)
    have g: "\<forall>q \<in> set ps. length (?g q) = ws" using 2(3) by (simp add: write_page_length)
    have "take (length data - ws) (concat (map (store_pages ws ps (drop ws data) ?g) ps)) = drop ws data"
      using 2(1)[OF False _ g] 2(2,4) by (simp add: fun_upd_def)
    then show ?thesis using False p len by simp
  qed
qed simp

lemma good_pages_erased:
  assumes "0 < n" and "p \<in> set (good_pages n B bad 0)"
  shows "p div n \<in> set (good_blocks B bad 0)"
  using assms by (auto simp: good_pages_def good_blocks_def less_mult_imp_div_less)

lemma good_blocks_length: "length (good_blocks B bad 0) \<le> B"
  using length_filter_le[of "\<lambda>b. \<not> bad b" "[0..<B]"] by (simp add: good_blocks_def)

lemma distinct_good_pages: "distinct (good_pages n B bad k)"
  by (simp add: good_pages_def)

lemma nand_erase_blanks:
  assumes d: "nand_device E dev fd m ws n B bad page"
  shows "\<exists>r w'. nand_erase E dev 0 w = Some (r, w') \<and> r \<ge> 0 \<and> (\<forall>p \<in> set (good_pages n B bad 0). page w' p = blank ws)"
proof -
  have "take B (good_blocks B bad 0) = good_blocks B bad 0" using good_blocks_length by simp
  then show ?thesis
    using nand_erase_part_wipes[OF d, of 0 w] good_pages_erased[of n _ B bad] geometryD(2)[OF deviceD(1)[OF d]]
    by (auto simp: nand_erase_def blocks_for_def wipe_def)
qed

text \<open>The good pages are those of the good blocks.\<close>

lemma good_pages_blocks:
  assumes "0 < n" and "b \<le> B"
  shows "good_pages n B bad (b * n) = concat (map (\<lambda>b. [b * n..<Suc b * n]) (good_blocks B bad b))"
  using assms(2)
proof (induction "B - b" arbitrary: b)
  case 0
  then show ?case by (simp add: good_pages_def good_blocks_def)
next
  case (Suc x)
  then have b: "b < B" "Suc b \<le> B" "x = B - Suc b" by simp_all
  have gb: "good_blocks B bad b = (if bad b then [] else [b]) @ good_blocks B bad (Suc b)"
    using b(1) by (simp add: good_blocks_def upt_conv_Cons)
  have gp: "good_pages n B bad (b * n) = (if bad b then [] else [b * n..<Suc b * n]) @ good_pages n B bad (Suc b * n)"
  proof -
    have le: "b * n \<le> Suc b * n" "Suc b * n \<le> B * n" using mult_le_mono1[OF b(2), of n] by simp_all
    have "[b * n..<B * n] = [b * n..<Suc b * n] @ [Suc b * n..<B * n]"
      using upt_add_eq_append[OF le(1), of "B * n - Suc b * n"] le(2) by simp
    moreover have "p div n = b" if "p \<in> set [b * n..<Suc b * n]" for p
      using that by (intro div_nat_eqI) (auto simp: mult.commute)
    then have "filter (\<lambda>p. \<not> bad (p div n)) [b * n..<Suc b * n] = filter (\<lambda>p. \<not> bad b) [b * n..<Suc b * n]"
      by (intro filter_cong) auto
    ultimately show ?thesis by (simp add: good_pages_def)
  qed
  show ?case using gb gp Suc.hyps(1)[OF b(3,2)] by simp
qed



section \<open>A laboratory device\<close>

text \<open>A device of \<open>B\<close> blocks of \<open>n\<close> pages of \<open>ws\<close> bytes behind the descriptor 3, text files, and one binary
  file behind the descriptor 4.\<close>

record lab_world =
  lw_pages :: "nat \<Rightarrow> string"
  lw_pos :: int
  lw_image :: string
  lw_commands :: "string list"

definition lab_ota ::
  "mtd_info \<Rightarrow> nat \<Rightarrow> nat \<Rightarrow> (nat \<Rightarrow> bool) \<Rightarrow> (string \<Rightarrow> string option) \<Rightarrow> lab_world ota_ops" where
  "lab_ota m ws n bad files = \<lparr>
     oo_file = (\<lambda>f w. (files f, w)),
     oo_open = (\<lambda>f w. (if is_prefix ''/dev/mtd'' f then 3 else 4, w)),
     oo_create = (\<lambda>f w. (4, w\<lparr>lw_pos := 0, lw_image := []\<rparr>)),
     oo_unlink = (\<lambda>f w. w),
     oo_close = (\<lambda>fd w. w),
     oo_ischr = (\<lambda>fd w. (Some True, w)),
     oo_info = (\<lambda>fd w. (Some m, w)),
     oo_bad = (\<lambda>fd a w. (if bad (a div (n * ws)) then 1 else 0, w)),
     oo_unlock = (\<lambda>fd a l w. w),
     oo_erase = (\<lambda>fd a l w. (0, w\<lparr>lw_pages := (\<lambda>k. if k div n = a div (n * ws) then blank ws else lw_pages w k)\<rparr>)),
     oo_volup = (\<lambda>fd l w. w),
     oo_seek = (\<lambda>fd p w. (p, w\<lparr>lw_pos := p\<rparr>)),
     oo_end = (\<lambda>fd w. (length (lw_image w), w)),
     oo_read = (\<lambda>fd c w. if fd = 3 then (Some (lw_pages w (nat (lw_pos w) div ws)), w)
       else let bs = take c (drop (nat (lw_pos w)) (lw_image w)) in (Some bs, w\<lparr>lw_pos := lw_pos w + int (length bs)\<rparr>)),
     oo_write = (\<lambda>fd p w. (int (length p), if fd = 3 then w\<lparr>lw_pages := (lw_pages w)(nat (lw_pos w) div ws := p)\<rparr>
       else w\<lparr>lw_image := lw_image w @ p\<rparr>)),
     oo_system = (\<lambda>c w. (0, w\<lparr>lw_commands := lw_commands w @ [c]\<rparr>)),
     oo_mount = (\<lambda>src dir fs w. (0, w)),
     oo_dir = (\<lambda>d w. (None, w)),
     oo_malloc = (\<lambda>c w. (True, w)),
     oo_sha1 = (\<lambda>s. replicate 48 (CHR ''0''))\<rparr>"

lemma lab_device:
  assumes "geometry m ws n B" and "is_prefix ''/dev/mtd'' dev"
  shows "nand_device (lab_ota m ws n bad files) dev 3 m ws n B bad lw_pages"
proof -
  have "0 < ws" "0 < n" using geometryD(1,2)[OF assms(1)] by simp_all
  then show ?thesis using assms by (simp add: nand_device_def lab_ota_def del: of_nat_mult flip: mult.assoc)
qed

definition lab_mtd :: mtd_info where
  "lab_mtd = \<lparr>mt_size = 12, mt_erasesize = 4, mt_writesize = 2\<rparr>"

lemma lab_geometry: "geometry lab_mtd 2 2 3"
  by (auto simp: geometry_def lab_mtd_def intro!: exI[of _ 1])

lemma lab_pages: "good_pages 2 3 (\<lambda>b. b = 1) 0 = [0, 1, 4, 5]"
  by code_simp

definition lab_blank :: lab_world where
  "lab_blank = \<lparr>lw_pages = (\<lambda>k. blank 2), lw_pos = 0, lw_image = [], lw_commands = []\<rparr>"



end
