(* ===== verification/OtaBootProps.thy ===== *)
theory OtaBootProps
  imports OtaUpdate OtaFlashProps
begin

text \<open>
  The boot command in the flash: what is written is what is read, on a device with bad blocks, and each change
  of the command keeps the rest of it.
\<close>

section \<open>The command as bytes\<close>

definition cmd_ok :: "boot_cmd \<Rightarrow> bool" where
  "cmd_ok c \<longleftrightarrow> length (boot_mode c) = 32 \<and> length (recovery_path c) = 256 \<and> length (recovery_state c) = 32 \<and>
     length (recovery_partition c) = 32 \<and> length (uboot_status c) = 32 \<and> length (recovery_status c) = 32 \<and>
     length (version c) = 48 \<and> length (reserve c) = 144"

lemma cmd_roundtrip: "cmd_ok c \<Longrightarrow> bytes_cmd (cmd_bytes c) = c" "cmd_ok c \<Longrightarrow> length (cmd_bytes c) = 608"
  by (simp_all add: bytes_cmd_def cmd_bytes_def cmd_ok_def)

lemma put_str_length [simp]: "length s < length d \<Longrightarrow> length (put_str s d) = length d"
  by (simp add: put_str_def)

lemma cmd_ok_normal: "cmd_ok c \<Longrightarrow> cmd_ok (normal_partition c)"
  by (simp add: cmd_ok_def normal_partition_def RECOVERY_PART_A_def RECOVERY_PART_B_def)

lemma zero_cmd_ok: "cmd_ok zero_cmd"
  by (simp add: cmd_ok_def zero_cmd_def)

section \<open>The partition table\<close>

text \<open>A table with a line of block types that has four fields, the last of which names the misc partition, and
  a line for the device of that partition.  A fifth field would be the partition with the environment of the
  boot loader.\<close>

definition misc_table :: "string \<Rightarrow> string \<Rightarrow> bool" where
  "misc_table T dev \<longleftrightarrow> line_type (getlines T) \<noteq> RAW_FORMAT \<and> length dev < 32 \<and>
     (case List.find (\<lambda>l. \<not> is_comment l \<and> contains l ''block_type'') (getlines T) of
        None \<Rightarrow> False
      | Some l \<Rightarrow> length (strsep_all blanks l) = 4 \<and> length (strsep_all blanks l ! 3) < 32 \<and>
          (case List.find (\<lambda>k. \<not> is_comment k \<and> contains k (CHR 0x22 # (strsep_all blanks l ! 3) @ [CHR 0x22])) (getlines T) of
             None \<Rightarrow> False
           | Some k \<Rightarrow> CHR '':'' \<in> set k \<and> before (CHR '':'') k = dev))"

lemma strsep_nonempty: "t \<in> set (strsep_all ds s) \<Longrightarrow> t \<noteq> []"
  by (simp add: strsep_all_def)

text \<open>The device with the misc partition, described by a table that can be read.\<close>

definition boot_env ::
  "'w ota_ops \<Rightarrow> string \<Rightarrow> int \<Rightarrow> mtd_info \<Rightarrow> nat \<Rightarrow> nat \<Rightarrow> nat \<Rightarrow> (nat \<Rightarrow> bool) \<Rightarrow> ('w \<Rightarrow> nat \<Rightarrow> string) \<Rightarrow> string \<Rightarrow> bool" where
  "boot_env E dev fd m ws n B bad page T \<longleftrightarrow> nand_device E dev fd m ws n B bad page \<and> misc_table T dev \<and> 608 < n * ws \<and>
     (\<exists>b < B. \<not> bad b) \<and> (\<forall>w. fst (oo_file E YODABASE_FSTAB w) = Some T \<and> page (snd (oo_file E YODABASE_FSTAB w)) = page w)"

lemma boot_envD:
  assumes "boot_env E dev fd m ws n B bad page T"
  shows "nand_device E dev fd m ws n B bad page" "misc_table T dev" "608 < n * ws" "\<exists>b < B. \<not> bad b"
    "fst (oo_file E YODABASE_FSTAB w) = Some T" "page (snd (oo_file E YODABASE_FSTAB w)) = page w"
  using assms unfolding boot_env_def by blast+

lemma partition_type_step:
  assumes "boot_env E dev fd m ws n B bad page T"
  shows "\<exists>s'. ox (get_upgrade_partition_type E YODABASE_FSTAB) s = (Some (line_type (getlines T)), s') \<and> page (ow s') = page (ow s)"
  using boot_envD(5,6)[OF assms, of "ow s"]
  by (auto simp: ox_def get_upgrade_partition_type_def Let_def split: prod.split)

lemma misc_name_step:
  assumes env: "boot_env E dev fd m ws n B bad page T"
  shows "\<exists>name. name \<noteq> [] \<and> (\<forall>s. \<exists>s'. ox' (get_misc_partname E YODABASE_FSTAB) s = Some ((0, name), s') \<and> page (ow s') = page (ow s)) \<and>
    (\<forall>s. \<exists>s'. ox' (get_mtd_name E name 32 YODABASE_FSTAB) s = Some ((0, dev), s') \<and> page (ow s') = page (ow s)) \<and>
    (\<forall>s. \<exists>s'. erase_uboot_env_part E s = Some (-1, s') \<and> page (ow s') = page (ow s))"
proof -
  obtain l k where l: "List.find (\<lambda>l. \<not> is_comment l \<and> contains l ''block_type'') (getlines T) = Some l"
    "length (strsep_all blanks l) = 4" "length (strsep_all blanks l ! 3) < 32"
    and k: "List.find (\<lambda>k. \<not> is_comment k \<and> contains k (CHR 0x22 # (strsep_all blanks l ! 3) @ [CHR 0x22])) (getlines T) = Some k"
    "CHR '':'' \<in> set k" "before (CHR '':'') k = dev" "length dev < 32"
    using boot_envD(2)[OF env] by (auto simp: misc_table_def split: option.splits)
  let ?name = "strsep_all blanks l ! 3"
  have ne: "?name \<noteq> []" using l(2) strsep_nonempty[of ?name blanks l] by (simp add: nth_mem)
  have fstab: "\<exists>w'. oo_file E YODABASE_FSTAB w = (Some T, w') \<and> page w' = page w" for w
    using boot_envD(5,6)[OF env, of w] by (metis prod.collapse)
  have "\<exists>s'. ox' (get_misc_partname E YODABASE_FSTAB) s = Some ((0, ?name), s') \<and> page (ow s') = page (ow s)" for s
    using fstab[of "ow s"] l by (auto simp: ox'_def get_misc_partname_def select_partname_def MISC_PARTNAME_POS_def fit_def)
  moreover have "\<exists>s'. ox' (get_mtd_name E ?name 32 YODABASE_FSTAB) s = Some ((0, dev), s') \<and> page (ow s') = page (ow s)" for s
    using fstab[of "ow s"] k l(3) by (auto simp: ox'_def get_mtd_name_def fit_def)
  moreover have "\<exists>s'. erase_uboot_env_part E s = Some (-1, s') \<and> page (ow s') = page (ow s)" for s
    using fstab[of "ow s"] l
    by (auto simp: ox'_def erase_uboot_env_part_def get_env_partname_def select_partname_def ENV_PARTNAME_POS_def)
  ultimately show ?thesis using ne by blast
qed

section \<open>Reading and writing the command\<close>

text \<open>The command that the device holds.\<close>

definition holds_cmd :: "nat \<Rightarrow> nat \<Rightarrow> nat \<Rightarrow> (nat \<Rightarrow> bool) \<Rightarrow> (nat \<Rightarrow> string) \<Rightarrow> boot_cmd \<Rightarrow> bool" where
  "holds_cmd ws n B bad pg c \<longleftrightarrow> cmd_ok c \<and> (\<forall>p \<in> set (good_pages n B bad 0). length (pg p) = ws) \<and>
     take 608 (concat (map pg (good_pages n B bad 0))) = cmd_bytes c"

lemma enough_pages:
  assumes "0 < n" and "\<exists>b < B. \<not> bad b"
  shows "\<exists>b. \<not> bad b \<and> (\<exists>bs. good_blocks B bad 0 = b # bs) \<and> take n (good_pages n B bad 0) = [b * n..<Suc b * n] \<and>
    n \<le> length (good_pages n B bad 0)"
proof -
  obtain c where c: "c < B" "\<not> bad c" using assms(2) by blast
  then have "c \<in> set (good_blocks B bad 0)" by (simp add: good_blocks_def)
  then obtain b bs where b: "good_blocks B bad 0 = b # bs" by (cases "good_blocks B bad 0") auto
  then have "b \<in> set (good_blocks B bad 0)" by simp
  then have nb: "\<not> bad b" by (simp add: good_blocks_def)
  have "good_pages n B bad 0 = [b * n..<Suc b * n] @ concat (map (\<lambda>b. [b * n..<Suc b * n]) bs)"
    using good_pages_blocks[OF assms(1), of 0 B bad] b by simp
  moreover have "length [b * n..<Suc b * n] = n" by simp
  ultimately show ?thesis using b nb by (metis append_eq_conv_conj le_add1 length_append)
qed

lemma get_cmd:
  assumes env: "boot_env E dev fd m ws n B bad page T" and "holds_cmd ws n B bad (page (ow s)) c" and "cmd_ok c0"
  shows "\<exists>s'. get_recovery_cmd_status E c0 s = Some ((0, c), s') \<and> page (ow s') = page (ow s)"
proof -
  note d = boot_envD(1)[OF env]
  let ?ps = "good_pages n B bad 0"
  obtain name where name: "name \<noteq> []"
    "\<And>s. \<exists>s'. ox' (get_misc_partname E YODABASE_FSTAB) s = Some ((0, name), s') \<and> page (ow s') = page (ow s)"
    "\<And>s. \<exists>s'. ox' (get_mtd_name E name 32 YODABASE_FSTAB) s = Some ((0, dev), s') \<and> page (ow s') = page (ow s)"
    using misc_name_step[OF env] by blast
  obtain s1 where s1: "ox (get_upgrade_partition_type E YODABASE_FSTAB) s = (Some (line_type (getlines T)), s1)" "page (ow s1) = page (ow s)"
    using partition_type_step[OF env] by blast
  obtain s2 where s2: "ox' (get_misc_partname E YODABASE_FSTAB) s1 = Some ((0, name), s2)" "page (ow s2) = page (ow s1)" using name(2) by blast
  obtain s3 where s3: "ox' (get_mtd_name E name 32 YODABASE_FSTAB) s2 = Some ((0, dev), s3)" "page (ow s3) = page (ow s2)" using name(3) by blast
  have pg: "page (ow s3) = page (ow s)" using s1 s2 s3 by simp
  have n: "0 < n" "0 < ws" using geometryD(1,2)[OF deviceD(1)[OF d]] by simp_all
  have "n \<le> length ?ps" using enough_pages[OF n(1) boot_envD(4)[OF env]] by blast
  then have "n * ws \<le> ws * length ?ps" using n(2) by (metis mult.commute mult_le_mono2)
  then have len: "length (cmd_bytes c0) < ws * length ?ps" using boot_envD(3)[OF env] cmd_roundtrip(2)[OF assms(3)] by linarith
  obtain w' where r: "nand_read E dev 0 (cmd_bytes c0) (ow s3) = Some ((0, cmd_bytes c), w')" "page w' = page (ow s)"
    using nand_read_reads[OF d _ len, of "ow s3"] assms(2) pg cmd_roundtrip(2)[OF assms(3)] by (auto simp: holds_cmd_def)
  have "line_type (getlines T) \<noteq> RAW_FORMAT" using boot_envD(2)[OF env] by (simp add: misc_table_def)
  then have "get_recovery_cmd_status E c0 s = Some ((0, c), s3\<lparr>ow := w'\<rparr>)"
    using s1(1) s2(1) s3(1) name(1) r(1) cmd_roundtrip(1) assms(2)
    by (simp add: get_recovery_cmd_status_def ox'_def[of "nand_read E dev 0 (cmd_bytes c0)"] holds_cmd_def)
  then show ?thesis using r(2) by simp
qed

lemma set_cmd:
  assumes env: "boot_env E dev fd m ws n B bad page T" and "cmd_ok c"
    and "\<forall>p \<in> set (good_pages n B bad 0). length (page (ow s) p) = ws"
  shows "\<exists>s'. set_recovery_cmd_status E c s = Some ((0, normal_partition c), s') \<and> holds_cmd ws n B bad (page (ow s')) (normal_partition c)"
proof -
  note d = boot_envD(1)[OF env]
  let ?ps = "good_pages n B bad 0" and ?c = "normal_partition c"
  obtain name where name: "name \<noteq> []"
    "\<And>s. \<exists>s'. ox' (get_misc_partname E YODABASE_FSTAB) s = Some ((0, name), s') \<and> page (ow s') = page (ow s)"
    "\<And>s. \<exists>s'. ox' (get_mtd_name E name 32 YODABASE_FSTAB) s = Some ((0, dev), s') \<and> page (ow s') = page (ow s)"
    "\<And>s. \<exists>s'. erase_uboot_env_part E s = Some (-1, s') \<and> page (ow s') = page (ow s)"
    using misc_name_step[OF env] by blast
  obtain s1 where s1: "ox (get_upgrade_partition_type E YODABASE_FSTAB) s = (Some (line_type (getlines T)), s1)" "page (ow s1) = page (ow s)"
    using partition_type_step[OF env] by blast
  obtain s2 where s2: "ox' (get_misc_partname E YODABASE_FSTAB) s1 = Some ((0, name), s2)" "page (ow s2) = page (ow s1)" using name(2) by blast
  obtain s3 where s3: "ox' (get_mtd_name E name 32 YODABASE_FSTAB) s2 = Some ((0, dev), s3)" "page (ow s3) = page (ow s2)" using name(3) by blast
  have n: "0 < n" "0 < ws" using geometryD(1,2)[OF deviceD(1)[OF d]] by simp_all
  obtain b bs where b: "good_blocks B bad 0 = b # bs" "take n ?ps = [b * n..<Suc b * n]" "n \<le> length ?ps"
    using enough_pages[OF n(1) boot_envD(4)[OF env]] by blast
  have "B \<noteq> 0" using boot_envD(4)[OF env] by auto
  then have one: "blocks_for (n * ws) B 608 = 1" using boot_envD(3)[OF env] by (simp add: blocks_for_def)
  obtain r w1 where e: "nand_erase_part E dev 0 (of_nat 608) (ow s3) = Some (r, w1)" "page w1 = wipe ws n {b} (page (ow s))"
    using nand_erase_part_wipes[OF d, of 608 "ow s3"] one b(1) s1(2) s2(2) s3(2) by auto
  have blank: "\<forall>p \<in> set (take n ?ps). page w1 p = blank ws"
    using b(2) e(2) n(1) by (auto simp: wipe_def intro!: div_nat_eqI simp: mult.commute)
  have lens: "\<forall>p \<in> set ?ps. length (page w1 p) = ws" using assms(3) e(2) by (simp add: wipe_def blank_def)
  have bytes: "length (cmd_bytes ?c) = 608" using cmd_roundtrip(2)[OF cmd_ok_normal[OF assms(2)]] .
  then have "length (cmd_bytes ?c) \<le> ws * n" using boot_envD(3)[OF env] by (simp add: mult.commute)
  then obtain w2 where w: "nand_write E dev 0 (cmd_bytes ?c) w1 = Some (0, w2)" "page w2 = store_pages ws ?ps (cmd_bytes ?c) (page w1)"
    using nand_write_part[OF d n(1) b(3) _ blank] by blast
  obtain s4 where s4: "erase_uboot_env_part E (s3\<lparr>ow := w2\<rparr>) = Some (-1, s4)" "page (ow s4) = page w2" using name(4)[of "s3\<lparr>ow := w2\<rparr>"] by auto
  have "line_type (getlines T) \<noteq> RAW_FORMAT" using boot_envD(2)[OF env] by (simp add: misc_table_def)
  then have "set_recovery_cmd_status E c s = Some ((0, ?c), s4)"
    using s1(1) s2(1) s3(1) name(1) e(1) w(1) s4(1)
    by (simp add: set_recovery_cmd_status_def sizeof_boot_cmd_def ox'_def[of "nand_erase_part E dev 0 608"] ox'_def[of "nand_write E dev 0 (cmd_bytes ?c)"])
  moreover have "608 \<le> ws * length ?ps"
    using \<open>length (cmd_bytes ?c) \<le> ws * n\<close> bytes b(3) by (metis le_trans mult_le_mono2)
  then have "take 608 (concat (map (page w2) ?ps)) = cmd_bytes ?c"
    using store_read[OF distinct_good_pages lens, of "cmd_bytes ?c"] bytes w(2) by simp
  then have "holds_cmd ws n B bad (page w2) ?c"
    using cmd_ok_normal[OF assms(2)] lens store_length[of "page w1" _ ws ?ps "cmd_bytes ?c"] w(2) by (simp add: holds_cmd_def)
  ultimately show ?thesis using s4(2) by auto
qed

lemma holds_lengths: "holds_cmd ws n B bad pg c \<Longrightarrow> \<forall>p \<in> set (good_pages n B bad 0). length (pg p) = ws"
  by (simp add: holds_cmd_def)

lemma holds_ok: "holds_cmd ws n B bad pg c \<Longrightarrow> cmd_ok c"
  by (simp add: holds_cmd_def)

lemma change_cmd_stores:
  assumes env: "boot_env E dev fd m ws n B bad page T" and "holds_cmd ws n B bad (page (ow s)) c" and "cmd_ok (f c)"
  shows "\<exists>s'. change_cmd E f s = Some (0, s') \<and> holds_cmd ws n B bad (page (ow s')) (normal_partition (f c))"
proof -
  obtain s1 where s1: "get_recovery_cmd_status E zero_cmd s = Some ((0, c), s1)" "page (ow s1) = page (ow s)"
    using get_cmd[OF env assms(2) zero_cmd_ok] by blast
  have "\<forall>p \<in> set (good_pages n B bad 0). length (page (ow s1) p) = ws" using holds_lengths[OF assms(2)] s1(2) by simp
  from set_cmd[OF env assms(3) this] show ?thesis using s1(1) by (auto simp: change_cmd_def)
qed

definition with_state :: "boot_result \<Rightarrow> boot_cmd \<Rightarrow> boot_cmd" where
  "with_state sta c = c\<lparr>recovery_state :=
     put_str (if sta = BOOTSTATE_RES_OK then BOOTSTATE_OK else BOOTSTATE_ERROR) (recovery_state c)\<rparr>"

lemma with_state_ok: "cmd_ok c \<Longrightarrow> cmd_ok (with_state sta c)"
  by (simp add: cmd_ok_def with_state_def BOOTSTATE_OK_def BOOTSTATE_ERROR_def)

lemma set_upgrade_statue_stores:
  assumes "boot_env E dev fd m ws n B bad page T" and "holds_cmd ws n B bad (page (ow s)) c"
  shows "\<exists>s'. set_upgrade_statue E sta s = Some (0, s') \<and> holds_cmd ws n B bad (page (ow s')) (normal_partition (with_state sta c))"
  using change_cmd_stores[OF assms, of "with_state sta"] with_state_ok[OF holds_ok[OF assms(2)]]
  by (simp add: set_upgrade_statue_def with_state_def[abs_def])

text \<open>C9. The boot command survives in the flash: on a device with a good block, writing a command and reading it
  gives the command, with the name of the partition in use completed; and setting the result of an update
  changes the state in the command and nothing else.\<close>

theorem boot_cmd_roundtrip:
  assumes "boot_env E dev fd m ws n B bad page T" and "cmd_ok c" and "cmd_ok c0"
    and "\<forall>p \<in> set (good_pages n B bad 0). length (page (ow s) p) = ws"
  shows "\<exists>s1 s2 s3 s4. set_recovery_cmd_status E c s = Some ((0, normal_partition c), s1) \<and>
    get_recovery_cmd_status E c0 s1 = Some ((0, normal_partition c), s2) \<and>
    set_upgrade_statue E sta s2 = Some (0, s3) \<and>
    get_recovery_cmd_status E c0 s3 = Some ((0, (normal_partition c)\<lparr>recovery_state :=
      put_str (if sta = BOOTSTATE_RES_OK then BOOTSTATE_OK else BOOTSTATE_ERROR) (recovery_state c)\<rparr>), s4)"
proof -
  let ?c = "normal_partition c"
  obtain s1 where s1: "set_recovery_cmd_status E c s = Some ((0, ?c), s1)" "holds_cmd ws n B bad (page (ow s1)) ?c"
    using set_cmd[OF assms(1,2,4)] by blast
  obtain s2 where s2: "get_recovery_cmd_status E c0 s1 = Some ((0, ?c), s2)" "page (ow s2) = page (ow s1)"
    using get_cmd[OF assms(1) s1(2) assms(3)] by blast
  obtain s3 where s3: "set_upgrade_statue E sta s2 = Some (0, s3)" "holds_cmd ws n B bad (page (ow s3)) (normal_partition (with_state sta ?c))"
    using set_upgrade_statue_stores[OF assms(1), of s2 ?c sta] s1(2) s2(2) by auto
  have "normal_partition (with_state sta ?c) = ?c\<lparr>recovery_state :=
      put_str (if sta = BOOTSTATE_RES_OK then BOOTSTATE_OK else BOOTSTATE_ERROR) (recovery_state c)\<rparr>"
    by (simp add: normal_partition_def with_state_def put_str_def RECOVERY_PART_A_def RECOVERY_PART_B_def)
  then show ?thesis using get_cmd[OF assms(1) s3(2) assms(3)] s1(1) s2(1) s3(1) by auto
qed

definition lab_table :: string where
  "lab_table = ''block_type x data misc'' @ [CHR 0x0A] @ ''/dev/mtd2: '' @ [CHR 0x22] @ ''misc'' @ [CHR 0x22] @ [CHR 0x0A]"

definition lab_nand :: mtd_info where
  "lab_nand = \<lparr>mt_size = 4096, mt_erasesize = 1024, mt_writesize = 512\<rparr>"

lemma lab_nand_geometry: "geometry lab_nand 512 2 4"
  by (auto simp: geometry_def lab_nand_def intro: exI[of _ 1] exI[of _ 9])

lemma lab_misc_table: "misc_table lab_table ''/dev/mtd2''"
  by code_simp

definition lab_boot :: "lab_world ota_ops" where
  "lab_boot = lab_ota lab_nand 512 2 (\<lambda>b. b = 0) (\<lambda>f. Some lab_table)"

lemma lab_boot_env: "boot_env lab_boot ''/dev/mtd2'' 3 lab_nand 512 2 4 (\<lambda>b. b = 0) lw_pages lab_table"
  using lab_device[OF lab_nand_geometry, of "''/dev/mtd2''" "\<lambda>b. b = 0" "\<lambda>f. Some lab_table"] lab_misc_table
  by (auto simp: boot_env_def lab_boot_def lab_ota_def intro: exI[of _ 1])

definition lab_clean :: "lab_world ota" where
  "lab_clean = \<lparr>g_partition_info = [], ow = \<lparr>lw_pages = (\<lambda>k. blank 512), lw_pos = 0, lw_image = [], lw_commands = []\<rparr>\<rparr>"

theorem boot_cmd_roundtrip_witness:
  "\<exists>s1 s2 s3 s4. set_recovery_cmd_status lab_boot zero_cmd lab_clean = Some ((0, normal_partition zero_cmd), s1) \<and>
    get_recovery_cmd_status lab_boot zero_cmd s1 = Some ((0, normal_partition zero_cmd), s2) \<and>
    set_upgrade_statue lab_boot BOOTSTATE_RES_OK s2 = Some (0, s3) \<and>
    get_recovery_cmd_status lab_boot zero_cmd s3 = Some ((0, (normal_partition zero_cmd)\<lparr>recovery_state :=
      put_str (if BOOTSTATE_RES_OK = BOOTSTATE_RES_OK then BOOTSTATE_OK else BOOTSTATE_ERROR) (recovery_state zero_cmd)\<rparr>), s4)"
  by (rule boot_cmd_roundtrip[OF lab_boot_env zero_cmd_ok zero_cmd_ok]) (simp add: lab_clean_def blank_def)

end
