(* ===== verification/OtaProps.thy ===== *)
theory OtaProps
  imports OtaBootProps
begin

text \<open>
  The update as a whole: what \<open>rokid_package\<close> writes is what the updater reads, the boot command survives in
  the flash, and what an update with wrong images reports.
\<close>

section \<open>The structures as bytes\<close>

definition head_ok :: "file_head \<Rightarrow> bool" where
  "head_ok h \<longleftrightarrow> length (fh_reserved h) = 236"

definition bin_ok :: "bin_head \<Rightarrow> bool" where
  "bin_ok b \<longleftrightarrow> length (bh_sub_type b) = 32 \<and> length (bh_bin_sha1sum b) = 48 \<and> length (bh_bin_version b) = 64 \<and>
     length (bh_file_name b) = 128 \<and> length (bh_diff_pack_dev b) = 32 \<and> length (bh_ubi_dev b) = 32 \<and>
     length (bh_raw_dev b) = 32 \<and> length (bh_reserved b) = 108"

lemma bytes_word32: "of_nat (bytes_int (int_bytes 4 (unat (x :: 32 word)))) = x"
proof -
  have "unat x < 2 ^ LENGTH(32)" by (rule unsigned_less)
  then show ?thesis by (simp add: bytes_int_bytes)
qed

lemma bytes_word64: "of_nat (bytes_int (int_bytes 8 (unat (x :: 64 word)))) = x"
proof -
  have "unat x < 2 ^ LENGTH(64)" by (rule unsigned_less)
  then show ?thesis by (simp add: bytes_int_bytes)
qed

lemma head_roundtrip: "head_ok h \<Longrightarrow> bytes_head (head_bytes h) = h" "head_ok h \<Longrightarrow> length (head_bytes h) = 256"
  by (simp_all add: bytes_head_def head_bytes_def head_ok_def bytes_word32 bytes_word64)

lemma bin_roundtrip: "bin_ok b \<Longrightarrow> bytes_bin (bin_bytes b) = b" "bin_ok b \<Longrightarrow> length (bin_bytes b) = 512"
  by (simp_all add: bytes_bin_def bin_bytes_def bin_ok_def bytes_word32 bytes_word64)

section \<open>Making a package\<close>

text \<open>Files that can be read and a package that can be written; \<open>img\<close> is the content of the package.\<close>

definition pack_env :: "'w ota_ops \<Rightarrow> string \<Rightarrow> int \<Rightarrow> (string \<Rightarrow> string option) \<Rightarrow> ('w \<Rightarrow> string) \<Rightarrow> bool" where
  "pack_env E out fo src img \<longleftrightarrow> fo \<ge> 0 \<and> (\<forall>n w. fst (oo_malloc E n w)) \<and>
     (\<forall>f d w. src f = Some d \<longrightarrow> fst (oo_open E f w) \<ge> 0 \<and>
        fst (oo_read E (fst (oo_open E f w)) (length d) (snd (oo_seek E (fst (oo_open E f w)) 0 (snd (oo_open E f w))))) = Some d) \<and>
     (\<forall>w. fst (oo_create E out w) = fo \<and> img (snd (oo_create E out w)) = []) \<and>
     (\<forall>d w. fst (oo_write E fo d w) = int (length d) \<and> img (snd (oo_write E fo d w)) = img w @ d) \<and>
     (\<forall>w. img (oo_close E fo w) = img w)"

lemma pack_envD:
  assumes "pack_env E out fo src img"
  shows "fst (oo_malloc E n w)" "src f = Some d \<Longrightarrow> fst (oo_open E f w) \<ge> 0"
    "src f = Some d \<Longrightarrow>
      fst (oo_read E (fst (oo_open E f w)) (length d) (snd (oo_seek E (fst (oo_open E f w)) 0 (snd (oo_open E f w))))) = Some d"
    "fo \<ge> 0" "fst (oo_create E out w) = fo" "img (snd (oo_create E out w)) = []"
    "fst (oo_write E fo d w) = int (length d)" "img (snd (oo_write E fo d w)) = img w @ d" "img (oo_close E fo w) = img w"
  using assms unfolding pack_env_def by blast+

definition image_of :: "file_head \<Rightarrow> bin_head list \<Rightarrow> string list \<Rightarrow> string" where
  "image_of f bs ds = head_bytes f @ concat (map bin_bytes bs) @ concat ds"

text \<open>The heads that belong to the files \<open>ds\<close>.\<close>

definition describes :: "('w, 'z) ota_ops_scheme \<Rightarrow> (string \<Rightarrow> string option) \<Rightarrow> bin_head \<Rightarrow> string \<Rightarrow> bool" where
  "describes E src b d \<longleftrightarrow> bin_ok b \<and> src (cstr (bh_file_name b)) = Some d \<and> unat (bh_bin_size b) = length d \<and>
     bh_bin_sha1sum b = take 48 (oo_sha1 E d)"

lemma read_bins_all:
  assumes "pack_env E out fo src img" and "list_all2 (describes E src) bs ds"
  shows "\<exists>w'. read_bins E bs acc w = (Inr (acc @ concat ds), w')"
  using assms(2)
proof (induction arbitrary: acc w rule: list_all2_induct)
  case (Cons b bs d ds)
  obtain fd w1 where o: "oo_open E (cstr (bh_file_name b)) w = (fd, w1)" by (cases "oo_open E (cstr (bh_file_name b)) w")
  obtain x w2 where sk: "oo_seek E fd 0 w1 = (x, w2)" by (cases "oo_seek E fd 0 w1")
  obtain r w3 where rd: "oo_read E fd (length d) w2 = (r, w3)" by (cases "oo_read E fd (length d) w2")
  have "src (cstr (bh_file_name b)) = Some d" using Cons.hyps(1) by (simp add: describes_def)
  then have "fd \<ge> 0" "r = Some d" using pack_envD(2,3)[OF assms(1), of "cstr (bh_file_name b)" d w] o sk rd by simp_all
  then show ?case using Cons.IH[of "acc @ d"] Cons.hyps(1) o sk rd by (simp add: describes_def)
qed simp

fun starts :: "nat \<Rightarrow> string list \<Rightarrow> nat list" where
  "starts off [] = []"
| "starts off (d # ds) = off # starts (off + length d) ds"

lemma starts_length [simp]: "length (starts off ds) = length ds"
  by (induction ds arbitrary: off) auto

lemma starts_nth: "i < length ds \<Longrightarrow> starts off ds ! i = off + length (concat (take i ds))"
  by (induction off ds arbitrary: i rule: starts.induct) (auto simp: nth_Cons split: nat.split)

lemma concat_part: "i < length ds \<Longrightarrow> take (length (ds ! i)) (drop (length (concat (take i ds))) (concat ds)) = ds ! i"
  by (induction ds arbitrary: i) (auto simp: nth_Cons split: nat.split)

definition placed :: "nat \<Rightarrow> bin_head list \<Rightarrow> string list \<Rightarrow> bin_head list" where
  "placed off bs ds = map2 (\<lambda>b s. b\<lparr>bh_start_position := of_nat s\<rparr>) bs (starts off ds)"

lemma place_bins_starts:
  assumes "list_all2 (\<lambda>b d. bh_bin_size b = of_nat (length d)) bs ds"
  shows "place_bins (of_nat off) bs = (placed off bs ds, of_nat (off + length (concat ds)))"
  using assms
proof (induction arbitrary: off rule: list_all2_induct)
  case (Cons b bs d ds)
  have "of_nat off + bh_bin_size b = of_nat (off + length d)" using Cons.hyps(1) by simp
  then show ?case using Cons.IH[of "off + length d"] by (simp add: placed_def add.assoc del: of_nat_add)
qed (simp add: placed_def)

lemma make_package:
  assumes env: "pack_env E out fo src img" and all: "list_all2 (describes E src) bs ds"
    and small: "512 * length bs + length (concat ds) < 2 ^ 63" and f: "head_ok f"
  defines "f' \<equiv> f\<lparr>fh_start_position := 256, fh_file_size := of_nat (512 * length bs + length (concat ds))\<rparr>"
  defines "bs' \<equiv> placed (256 + 512 * length bs) bs ds"
  shows "\<exists>w'. make_upgrade_bin E out f bs w = Some ((0, f', bs'), w') \<and> img w' = image_of f' bs' ds"
proof -
  have len: "length ds = length bs" "length bs' = length bs" using list_all2_lengthD[OF all] by (simp_all add: bs'_def placed_def)
  have size: "list_all2 (\<lambda>b d. bh_bin_size b = of_nat (length d)) bs ds"
    using all by (rule list_all2_mono) (auto simp: describes_def dest: arg_cong[where f = "of_nat :: nat \<Rightarrow> 64 word"])
  have off: "of_nat sizeof_file_head + of_nat (length bs) * of_nat sizeof_bin_head = (of_nat (256 + 512 * length bs) :: 64 word)"
    by (simp add: sizeof_file_head_def sizeof_bin_head_def)
  have place: "place_bins (of_nat (256 + 512 * length bs)) bs = (bs', of_nat (256 + 512 * length bs + length (concat ds)))"
    unfolding bs'_def by (rule place_bins_starts[OF size])
  have fs: "of_nat (256 + 512 * length bs + length (concat ds)) - of_nat sizeof_file_head =
      (of_nat (512 * length bs + length (concat ds)) :: 64 word)"
    by (simp add: sizeof_file_head_def)
  have u: "unat (of_nat (512 * length bs + length (concat ds)) :: 64 word) = 512 * length bs + length (concat ds)"
    using small by (simp add: unat_of_nat take_bit_nat_eq_self del: of_nat_add of_nat_mult flip: take_bit_eq_mod)
  have all': "list_all2 (describes E src) bs' ds"
    using all len by (auto simp: list_all2_conv_all_nth bs'_def placed_def describes_def bin_ok_def)
  have bytes: "length (concat (map bin_bytes bs') @ concat ds) = 512 * length bs + length (concat ds)"
  proof -
    have "\<forall>b \<in> set bs'. length (bin_bytes b) = 512"
      using all' by (auto simp: list_all2_conv_all_nth in_set_conv_nth describes_def bin_roundtrip(2))
    then show ?thesis using concat_pages_length[of bs' bin_bytes 512] len by simp
  qed
  have hb: "length (head_bytes f') = 256" using f head_roundtrip(2)[of f'] by (simp add: head_ok_def f'_def)
  obtain w1 w2 where m: "oo_malloc E (length bs * sizeof_bin_head) w = (True, w1)"
    "oo_malloc E (512 * length bs + length (concat ds)) w1 = (True, w2)"
    using pack_envD(1)[OF env] by (metis prod.collapse)
  obtain w3 where r: "read_bins E bs' [] w2 = (Inr (concat ds), w3)" using read_bins_all[OF env all', of "[]" w2] by auto
  let ?w = "oo_unlink E out w3"
  obtain w4 where c: "oo_create E out ?w = (fo, w4)" "img w4 = []" using pack_envD(5,6)[OF env, of ?w] by (metis prod.collapse snd_conv)
  obtain w5 where h: "oo_write E fo (head_bytes f') w4 = (256, w5)" "img w5 = head_bytes f'"
    using pack_envD(7,8)[OF env, of "head_bytes f'" w4] hb c(2) by (cases "oo_write E fo (head_bytes f') w4") auto
  let ?d = "concat (map bin_bytes bs') @ concat ds"
  obtain w6 where d: "oo_write E fo ?d w5 = (int (length ?d), w6)" "img w6 = head_bytes f' @ ?d"
    using pack_envD(7,8)[OF env, of ?d w5] h(2) by (cases "oo_write E fo ?d w5") auto
  have "make_upgrade_bin E out f bs w = Some ((0, f', bs'), oo_close E fo w6)"
    using m r c(1) h(1) d(1) bytes pack_envD(4)[OF env] fs place off u
    by (simp add: make_upgrade_bin_def Let_def sizeof_file_head_def f'_def del: of_nat_add of_nat_mult)
  then show ?thesis using d(2) pack_envD(9)[OF env] by (auto simp: image_of_def)
qed

section \<open>Reading a package\<close>

text \<open>A descriptor of a file with the content \<open>data\<close>; \<open>pos\<close> is its position.\<close>

definition image_env :: "'w ota_ops \<Rightarrow> int \<Rightarrow> string \<Rightarrow> ('w \<Rightarrow> nat) \<Rightarrow> bool" where
  "image_env E fd data pos \<longleftrightarrow>
     (\<forall>p w. p \<ge> 0 \<longrightarrow> fst (oo_seek E fd p w) = p \<and> pos (snd (oo_seek E fd p w)) = nat p) \<and>
     (\<forall>n w. fst (oo_read E fd n w) = Some (take n (drop (pos w) data)) \<and>
        pos (snd (oo_read E fd n w)) = pos w + length (take n (drop (pos w) data)))"

lemma image_envD:
  assumes "image_env E fd data pos"
  shows "p \<ge> 0 \<Longrightarrow> fst (oo_seek E fd p w) = p" "p \<ge> 0 \<Longrightarrow> pos (snd (oo_seek E fd p w)) = nat p"
    "fst (oo_read E fd n w) = Some (take n (drop (pos w) data))"
    "pos (snd (oo_read E fd n w)) = pos w + length (take n (drop (pos w) data))"
  using assms unfolding image_env_def by blast+

lemma read_heads_all:
  assumes "image_env E fd data pos" and "\<forall>b \<in> set bs. bin_ok b" and "drop (pos w) data = concat (map bin_bytes bs) @ rest"
  shows "fst (read_heads E fd (length bs) acc w) = (0, acc @ bs)"
  using assms(2,3)
proof (induction bs arbitrary: acc w)
  case (Cons b bs)
  have l: "length (bin_bytes b) = 512" using Cons.prems(1) by (simp add: bin_roundtrip(2))
  obtain r w1 where rd: "oo_read E fd 512 w = (r, w1)" by (cases "oo_read E fd 512 w")
  have r: "r = Some (bin_bytes b)" "pos w1 = pos w + 512"
    using image_envD(3,4)[OF assms(1), of 512 w] rd Cons.prems(2) l by simp_all
  have "drop (pos w1) data = drop 512 (drop (pos w) data)" using r(2) by (simp add: add.commute)
  then have "drop (pos w1) data = concat (map bin_bytes bs) @ rest" unfolding Cons.prems(2) using l by simp
  then show ?case
    using Cons.IH[of w1 "acc @ [b]"] Cons.prems(1) rd r(1) l by (simp add: sizeof_bin_head_def bin_roundtrip(1))
qed simp

definition package_head :: "nat \<Rightarrow> string list \<Rightarrow> file_head" where
  "package_head n ds = zero_head\<lparr>fh_sum := of_nat n, fh_start_position := 256, fh_file_size := of_nat (512 * n + length (concat ds))\<rparr>"

definition package_bins :: "bin_head list \<Rightarrow> string list \<Rightarrow> bin_head list" where
  "package_bins bs ds = placed (256 + 512 * length bs) bs ds"

text \<open>A head that fits its image.\<close>

definition bin_fits :: "bin_head \<Rightarrow> string \<Rightarrow> bool" where
  "bin_fits b d \<longleftrightarrow> bin_ok b \<and> unat (bh_bin_size b) = length d"

lemma bins_length: "list_all2 P bs ds \<Longrightarrow> length (package_bins bs ds) = length bs"
  by (auto simp: package_bins_def placed_def dest: list_all2_lengthD)

lemma package_bin_nth:
  "length ds = length bs \<Longrightarrow> i < length bs \<Longrightarrow>
   package_bins bs ds ! i = (bs ! i)\<lparr>bh_start_position := of_nat (256 + 512 * length bs + length (concat (take i ds)))\<rparr>"
  by (simp add: package_bins_def placed_def starts_nth del: of_nat_add of_nat_mult)

lemma package_bins_ok:
  assumes "list_all2 bin_fits bs ds"
  shows "\<forall>b \<in> set (package_bins bs ds). bin_ok b"
proof
  fix b assume "b \<in> set (package_bins bs ds)"
  then obtain i where "i < length bs" "b = package_bins bs ds ! i" using bins_length[OF assms] by (metis in_set_conv_nth)
  then show "bin_ok b" using assms list_all2_lengthD[OF assms]
    by (auto simp: package_bin_nth list_all2_conv_all_nth bin_fits_def bin_ok_def)
qed

text \<open>What the updater reads from a package.\<close>

lemma package_reads:
  assumes fits: "list_all2 bin_fits bs ds" and "length bs \<le> 12" and "512 * length bs + length (concat ds) \<le> MAX_BIN_SIZE"
    and env: "image_env E fd (image_of (package_head (length bs) ds) (package_bins bs ds) ds) pos"
  shows "fst (get_file_head E fd v) = (0, package_head (length bs) ds)" (is ?head)
    and "sint (fh_sum (package_head (length bs) ds)) = int (length bs)" (is ?sum)
    and "fst (get_bin_head E fd (package_head (length bs) ds) v) = (0, package_bins bs ds)" (is ?bins)
    and "i < length bs \<Longrightarrow> fst (oo_read E fd (unat (bh_bin_size (package_bins bs ds ! i)))
      (snd (oo_seek E fd (sint (bh_start_position (package_bins bs ds ! i))) v))) = Some (ds ! i)"
proof -
  let ?f = "package_head (length bs) ds" and ?b = "package_bins bs ds"
  let ?data = "image_of ?f ?b ds"
  have size: "512 * length bs + length (concat ds) < 2 ^ 30" using assms(3) by (simp add: MAX_BIN_SIZE_def)
  have f: "head_ok ?f" by (simp add: head_ok_def package_head_def zero_head_def)
  have len: "length ?b = length bs" "length ds = length bs" using bins_length[OF fits] list_all2_lengthD[OF fits] by simp_all
  have hb: "length (head_bytes ?f) = 256" "take 256 ?data = head_bytes ?f" "drop 256 ?data = concat (map bin_bytes ?b) @ concat ds"
    using head_roundtrip(2)[OF f] by (simp_all add: image_of_def)
  have ge: "min (length ?data) 256 = 256" using head_roundtrip(2)[OF f] by (simp add: image_of_def)
  show su: ?sum using assms(2) sint_small[of "length bs"] by (simp add: package_head_def)
  have us: "unat (fh_file_size ?f) \<le> MAX_BIN_SIZE"
    using assms(3) unat_of_nat[of "512 * length bs + length (concat ds)", where ?'a = 64]
    by (simp add: package_head_def del: of_nat_add of_nat_mult)
  show ?head
    using image_envD[OF env] hb ge su us assms(2) head_roundtrip(1)[OF f]
    by (simp add: get_file_head_def sizeof_file_head_def MAX_BIN_SUM_def split_beta)
  show ?bins
  proof -
    have "pos (snd (oo_seek E fd 256 v)) = 256" using image_envD(2)[OF env, of 256 v] by simp
    then have "fst (read_heads E fd (length ?b) [] (snd (oo_seek E fd 256 v))) = (0, ?b)"
      using read_heads_all[OF env package_bins_ok[OF fits], of "snd (oo_seek E fd 256 v)" "concat ds" "[]"] hb(3) by simp
    then show ?thesis using image_envD(1)[OF env, of 256 v] su len
      by (simp add: get_bin_head_def sizeof_file_head_def split_beta)
  qed
  assume i: "i < length bs"
  let ?p = "256 + 512 * length bs + length (concat (take i ds))"
  note bi = package_bin_nth[OF len(2) i]
  have d: "unat (bh_bin_size (?b ! i)) = length (ds ! i)" using fits i bi by (simp add: list_all2_conv_all_nth bin_fits_def)
  have "length (concat (take i ds)) \<le> length (concat ds)" by (metis append_take_drop_id concat_append le_add1 length_append)
  then have "?p < 2 ^ 31" using size by simp
  then have sp: "sint (bh_start_position (?b ! i)) = int ?p" "nat (int ?p) = ?p"
    unfolding bi by (simp_all add: signed_of_nat signed_take_bit_int_eq_self del: of_nat_add of_nat_mult)
  have "drop ?p ?data = drop (length (concat (take i ds))) (drop (512 * length bs) (drop 256 ?data))"
    by (simp only: drop_drop add.commute add.left_commute)
  also have "drop (512 * length bs) (drop 256 ?data) = concat ds"
    using concat_pages_length[of ?b bin_bytes 512] package_bins_ok[OF fits] bin_roundtrip(2) len hb(3) by simp
  finally have dr: "drop ?p ?data = drop (length (concat (take i ds))) (concat ds)" .
  have ps: "pos (snd (oo_seek E fd (int ?p) v)) = ?p" using image_envD(2)[OF env, of "int ?p" v] sp(2) by simp
  show "fst (oo_read E fd (unat (bh_bin_size (?b ! i))) (snd (oo_seek E fd (sint (bh_start_position (?b ! i))) v))) = Some (ds ! i)"
    unfolding sp(1) image_envD(3)[OF env] ps dr using d concat_part[of i ds] i len by simp
qed


text \<open>A package of one file, made and read in the laboratory.\<close>

definition lab_pack :: "lab_world ota_ops" where
  "lab_pack = (lab_ota lab_mtd 2 2 (\<lambda>b. False) (\<lambda>f. None))\<lparr>oo_open := (\<lambda>f w. (4, w\<lparr>lw_image := ''xyz'', lw_pos := 0\<rparr>))\<rparr>"

definition lab_reader :: "string \<Rightarrow> lab_world ota_ops" where
  "lab_reader data = (lab_ota lab_mtd 2 2 (\<lambda>b. False) (\<lambda>f. None))\<lparr>oo_read :=
     (\<lambda>fd c w. let bs = take c (drop (nat (lw_pos w)) data) in (Some bs, w\<lparr>lw_pos := int (nat (lw_pos w)) + int (length bs)\<rparr>))\<rparr>"

definition lab_bin :: bin_head where
  "lab_bin = zero_bin\<lparr>bh_file_name := CHR ''a'' # replicate 127 nul, bh_bin_size := 3, bh_bin_sha1sum := replicate 48 (CHR ''0'')\<rparr>"

lemma lab_pack_env: "pack_env lab_pack ''out'' 4 (\<lambda>f. Some ''xyz'') lw_image"
  by (simp add: pack_env_def lab_pack_def lab_ota_def)

lemma lab_reader_env: "image_env (lab_reader data) fd data (\<lambda>w. nat (lw_pos w))"
  by (simp add: image_env_def lab_reader_def lab_ota_def Let_def nat_add_distrib)

lemma lab_describes: "describes lab_pack (\<lambda>f. Some ''xyz'') lab_bin ''xyz''"
  by (simp add: describes_def bin_ok_def lab_bin_def zero_bin_def lab_pack_def lab_ota_def)


section \<open>Images whose sum is wrong\<close>

text \<open>The package, memory and the shell do not disturb the flash with the boot command.\<close>

definition package_env :: "'w ota_ops \<Rightarrow> int \<Rightarrow> string \<Rightarrow> ('w \<Rightarrow> nat) \<Rightarrow> ('w \<Rightarrow> nat \<Rightarrow> string) \<Rightarrow> bool" where
  "package_env E fd data pos page \<longleftrightarrow> image_env E fd data pos \<and>
     (\<forall>p w. page (snd (oo_seek E fd p w)) = page w) \<and> (\<forall>n w. page (snd (oo_read E fd n w)) = page w) \<and>
     (\<forall>n w. fst (oo_malloc E n w) \<and> page (snd (oo_malloc E n w)) = page w) \<and>
     (\<forall>c w. page (snd (oo_system E c w)) = page w)"

lemma package_envD:
  assumes "package_env E fd data pos page"
  shows "image_env E fd data pos" "page (snd (oo_seek E fd p w)) = page w" "page (snd (oo_read E fd n w)) = page w"
    "fst (oo_malloc E n w)" "page (snd (oo_malloc E n w)) = page w" "page (snd (oo_system E c w)) = page w"
  using assms unfolding package_env_def by blast+

text \<open>The outside after memory for each image was taken and the image was read, and nothing else happened.\<close>

fun after_reads :: "'w ota_ops \<Rightarrow> int \<Rightarrow> bin_head list \<Rightarrow> 'w \<Rightarrow> 'w" where
  "after_reads E fd [] w = w"
| "after_reads E fd (b # bs) w = after_reads E fd bs (snd (oo_read E fd (unat (bh_bin_size b))
     (snd (oo_seek E fd (sint (bh_start_position b)) (snd (oo_malloc E (unat (bh_bin_size b)) w))))))"

lemma after_reads_page: "package_env E fd data pos page \<Longrightarrow> page (after_reads E fd bs w) = page w"
  by (induction bs arbitrary: w) (simp_all add: package_envD)

lemma flash_images_skip:
  assumes env: "package_env E fd data pos page"
    and "\<forall>b \<in> set bs. \<forall>w. \<exists>d. fst (oo_read E fd (unat (bh_bin_size b)) (snd (oo_seek E fd (sint (bh_start_position b)) w))) = Some d \<and>
      length d = unat (bh_bin_size b) \<and> \<not> sha1_matches E d b"
  shows "flash_images E fd cmd pt diff bs fl s = Some (Inr fl, s\<lparr>ow := after_reads E fd bs (ow s)\<rparr>)"
  using assms(2)
proof (induction bs arbitrary: s)
  case (Cons b bs)
  obtain w1 where m: "oo_malloc E (unat (bh_bin_size b)) (ow s) = (True, w1)" using package_envD(4)[OF env] by (metis prod.collapse)
  obtain x w2 where sk: "oo_seek E fd (sint (bh_start_position b)) w1 = (x, w2)" by (cases "oo_seek E fd (sint (bh_start_position b)) w1")
  obtain r w3 where rd: "oo_read E fd (unat (bh_bin_size b)) w2 = (r, w3)" by (cases "oo_read E fd (unat (bh_bin_size b)) w2")
  obtain d where d: "r = Some d" "length d = unat (bh_bin_size b)" "\<not> sha1_matches E d b"
    using Cons.prems[rule_format, of b w1] sk rd by auto
  show ?case using Cons.IH[of "s\<lparr>ow := w3\<rparr>"] Cons.prems m sk rd d by (simp add: ox_def)
qed simp

lemma read_heads_page: "package_env E fd data pos page \<Longrightarrow> page (snd (read_heads E fd k acc w)) = page w"
proof (induction k arbitrary: acc w)
  case (Suc k)
  then show ?case using package_envD(3)[OF Suc.prems, of 512 w]
    by (cases "oo_read E fd 512 w") (auto simp: sizeof_bin_head_def split: option.split)
qed simp

lemma heads_page:
  assumes "package_env E fd data pos page"
  shows "page (snd (get_file_head E fd w)) = page w" "page (snd (get_bin_head E fd h w)) = page w"
    "\<exists>w'. alloc_heads E k s = (True, s\<lparr>ow := w'\<rparr>) \<and> page w' = page (ow s)"
proof -
  show "page (snd (get_file_head E fd w)) = page w"
    using package_envD[OF assms] by (simp add: get_file_head_def split_beta Let_def split: option.split)
  show "page (snd (get_bin_head E fd h w)) = page w"
    using package_envD[OF assms] read_heads_page[OF assms] by (simp add: get_bin_head_def split_beta)
  show "\<exists>w'. alloc_heads E k s = (True, s\<lparr>ow := w'\<rparr>) \<and> page w' = page (ow s)"
  proof (induction k arbitrary: s)
    case 0
    show ?case by (rule exI[of _ "ow s"]) simp
  next
    case (Suc k)
    obtain w1 where "oo_malloc E sizeof_bin_head (ow s) = (True, w1)" "page w1 = page (ow s)"
      using package_envD(4,5)[OF assms] by (metis prod.collapse snd_conv)
    then show ?case using Suc[of "s\<lparr>ow := w1\<rparr>"] by (auto simp: ox_def)
  qed
qed

lemma report_ok_stores:
  assumes "boot_env E dev fd m ws n B bad page T" and "package_env E pf data pos page" and "holds_cmd ws n B bad (page (ow s)) c"
  shows "\<exists>s'. report_end E True s = Some s' \<and> holds_cmd ws n B bad (page (ow s')) (normal_partition (with_state BOOTSTATE_RES_OK c))"
proof -
  obtain s1 where "set_upgrade_statue E BOOTSTATE_RES_OK s = Some (0, s1)"
    "holds_cmd ws n B bad (page (ow s1)) (normal_partition (with_state BOOTSTATE_RES_OK c))"
    using set_upgrade_statue_stores[OF assms(1,3)] by blast
  then show ?thesis using package_envD(6)[OF assms(2)] by (simp add: report_end_def run_def ox_def split_beta)
qed

lemma package_images_skipped:
  assumes "package_env E pf (image_of (package_head (length bs) ds) (package_bins bs ds) ds) pos page"
    and "list_all2 bin_fits bs ds" and "length bs \<le> 12" and "512 * length bs + length (concat ds) \<le> MAX_BIN_SIZE"
    and "list_all2 (\<lambda>b d. \<not> sha1_matches E d b) bs ds"
  shows "flash_images E pf cmd pt diff (package_bins bs ds) fl u =
    Some (Inr fl, u\<lparr>ow := after_reads E pf (package_bins bs ds) (ow u)\<rparr>)"
proof (rule flash_images_skip[OF assms(1)], intro ballI allI)
  let ?b = "package_bins bs ds"
  have len: "length ?b = length bs" "length ds = length bs" using bins_length[OF assms(2)] list_all2_lengthD[OF assms(2)] by simp_all
  fix b w assume "b \<in> set ?b"
  then obtain i where i: "i < length bs" "b = ?b ! i" using len(1) by (metis in_set_conv_nth)
  have "length (ds ! i) = unat (bh_bin_size b)" "\<not> sha1_matches E (ds ! i) b"
    using i assms(2,5) package_bin_nth[OF len(2) i(1)]
    by (auto simp: list_all2_conv_all_nth bin_fits_def sha1_matches_def)
  then show "\<exists>d. fst (oo_read E pf (unat (bh_bin_size b)) (snd (oo_seek E pf (sint (bh_start_position b)) w))) = Some d \<and>
      length d = unat (bh_bin_size b) \<and> \<not> sha1_matches E d b"
    using package_reads(4)[OF assms(2-4) package_envD(1)[OF assms(1)] i(1), of w] i(2) by auto
qed


text \<open>A laboratory device whose flash holds a command, and a package with one image of a wrong sum.\<close>

definition lab_update :: "string \<Rightarrow> lab_world ota_ops" where
  "lab_update data = lab_boot\<lparr>oo_read := (\<lambda>fd c w. if fd = 3 then oo_read lab_boot 3 c w else oo_read (lab_reader data) fd c w)\<rparr>"

definition lab_wrong :: bin_head where
  "lab_wrong = zero_bin\<lparr>bh_file_name := CHR ''a'' # replicate 127 nul, bh_bin_size := 3\<rparr>"

definition lab_pending :: "lab_world ota" where
  "lab_pending = lab_clean\<lparr>ow := (ow lab_clean)\<lparr>lw_pages := (\<lambda>k. blank 512)
     (2 := take 512 (cmd_bytes zero_cmd), 3 := drop 512 (cmd_bytes zero_cmd) @ replicate 416 nul)\<rparr>\<rparr>"

lemma lab_update_boot: "boot_env (lab_update data) ''/dev/mtd2'' 3 lab_nand 512 2 4 (\<lambda>b. b = 0) lw_pages lab_table"
  using lab_boot_env by (simp add: boot_env_def nand_device_def lab_update_def)

lemma lab_update_package: "package_env (lab_update data) 4 data (\<lambda>w. nat (lw_pos w)) lw_pages"
  by (simp add: package_env_def image_env_def lab_update_def lab_reader_def lab_boot_def lab_ota_def Let_def nat_add_distrib)

lemma lab_pending_holds: "holds_cmd 512 2 4 (\<lambda>b. b = 0) (lw_pages (ow lab_pending)) zero_cmd"
proof -
  have "good_pages 2 4 (\<lambda>b. b = 0) 0 = [2, 3, 4, 5, 6, 7]" by code_simp
  then show ?thesis using zero_cmd_ok cmd_roundtrip(2)[OF zero_cmd_ok]
    by (simp add: holds_cmd_def lab_pending_def blank_def)
qed

definition lab_wrong_package :: string where
  "lab_wrong_package = image_of (package_head (length [lab_wrong]) [''xyz'']) (package_bins [lab_wrong] [''xyz'']) [''xyz'']"


end
