(* ===== verification/WifiHw.thy ===== *)
theory WifiHw
  imports NetHal Hostapd
begin

text \<open>
  The Wi-Fi and ethernet HAL modules (\<open>wifi_hw.c\<close>, \<open>ethnet_hw.c\<close> under \<open>hardware/modules\<close>), and the devices that the
  network manager calls.  The shell and the file system are parameters; \<open>AP6XXX_USED\<close> is not set.
\<close>

section \<open>State\<close>

text \<open>\<open>ho_create\<close> is \<open>open\<close> with \<open>O_CREAT\<close>; \<open>ho_access\<close> and \<open>ho_malloc\<close> say whether the call succeeds.\<close>

record 'w hw_ops =
  ho_system :: "string \<Rightarrow> 'w \<Rightarrow> int \<times> 'w"
  ho_access :: "string \<Rightarrow> 'w \<Rightarrow> bool \<times> 'w"
  ho_unlink :: "string \<Rightarrow> 'w \<Rightarrow> 'w"
  ho_create :: "string \<Rightarrow> 'w \<Rightarrow> int \<times> 'w"
  ho_write :: "int \<Rightarrow> string \<Rightarrow> 'w \<Rightarrow> int \<times> 'w"
  ho_close :: "int \<Rightarrow> 'w \<Rightarrow> 'w"
  ho_malloc :: "'w \<Rightarrow> bool \<times> 'w"

text \<open>The module keeps the address of the access point.\<close>

record 'w wifi_hw =
  hw_world :: 'w
  g_ipaddr_ap :: string

definition hx :: "('w \<Rightarrow> 'a \<times> 'w) \<Rightarrow> 'w wifi_hw \<Rightarrow> 'a \<times> 'w wifi_hw" where
  "hx f h = (let (r, w) = f (hw_world h) in (r, h\<lparr>hw_world := w\<rparr>))"

lemma hx_eq: "hx f h = (fst (f (hw_world h)), h\<lparr>hw_world := snd (f (hw_world h))\<rparr>)"
  by (simp add: hx_def split: prod.split)

section \<open>wifi_hw.c\<close>

definition WIFI_DRIVER_PATH :: string where "WIFI_DRIVER_PATH = ''/sys/class/net/wlan0''"

text \<open>A command whose failure is reported as -1.\<close>

definition command :: "'w hw_ops \<Rightarrow> string \<Rightarrow> 'w wifi_hw \<Rightarrow> int \<times> 'w wifi_hw" where
  "command E c h = (let (r, h) = hx (ho_system E c) h in (if r \<noteq> 0 then -1 else r, h))"

definition wifi_on :: "'w hw_ops \<Rightarrow> 'w wifi_hw \<Rightarrow> int \<times> 'w wifi_hw" where
  "wifi_on E h = command E ''ifconfig wlan0 up'' h"

definition wifi_off :: "'w hw_ops \<Rightarrow> 'w wifi_hw \<Rightarrow> int \<times> 'w wifi_hw" where
  "wifi_off E h = command E ''ifconfig wlan0 down'' h"

definition wifi_get_driver_status :: "'w hw_ops \<Rightarrow> 'w wifi_hw \<Rightarrow> int \<times> 'w wifi_hw" where
  "wifi_get_driver_status E h = (let (ok, h) = hx (ho_access E WIFI_DRIVER_PATH) h in (if ok then 0 else -1, h))"

definition start_station :: "'w hw_ops \<Rightarrow> 'w wifi_hw \<Rightarrow> int \<times> 'w wifi_hw" where
  "start_station E h =
     (let (r, h) = hx (ho_system E ''wpa_supplicant -D nl80211 -c /data/system/wpa_supplicant.conf -iwlan0 -B -d -d '') h in
      (if r < 0 then -1 else 0, h))"

text \<open>The function ends without a \<open>return\<close>: it has no result.\<close>

definition stop_station :: "'w hw_ops \<Rightarrow> 'w wifi_hw \<Rightarrow> 'w wifi_hw" where
  "stop_station E h = snd (hx (ho_system E ''killall wpa_supplicant'') h)"

definition HOSTAPD_CONF :: string where "HOSTAPD_CONF = ''/data/system/hostapd.conf''"

text \<open>The configuration has the text that \<open>hostapd_command.c\<close> writes.\<close>

definition hw_prepare_configure :: "'w hw_ops \<Rightarrow> string \<Rightarrow> string \<Rightarrow> 'w wifi_hw \<Rightarrow> (int \<times> 'w wifi_hw) option" where
  "hw_prepare_configure E ssid psk h = do {
     let h = h\<lparr>hw_world := ho_unlink E HOSTAPD_CONF (hw_world h)\<rparr>;
     let (_, h) = hx (ho_system E ''mkdir -p /data/system'') h;
     let (fd, h) = hx (ho_create E HOSTAPD_CONF) h;
     if fd < 0 then Some (-1, h)
     else do {
       buf \<leftarrow> fits 1024 (hostapd_conf ssid psk);
       let (r, h) = hx (ho_write E fd buf) h;
       if r < 0 then Some (r, h) else Some (0, h\<lparr>hw_world := ho_close E fd (hw_world h)\<rparr>)
     }
   }"

text \<open>The loop that cuts the address behind its third dot; \<open>dot\<close> counts the dots so far, \<open>None\<close> is the end of the
  text with fewer than three.\<close>

fun cut_third_dot :: "nat \<Rightarrow> string \<Rightarrow> string option" where
  "cut_third_dot dot [] = None"
| "cut_third_dot dot (c # cs) =
     (let dot = (if c = CHR ''.'' then dot + 1 else dot) in
      if dot = 3 then Some [c] else map_option ((#) c) (cut_third_dot dot cs))"

definition dnsmasq_command :: "string \<Rightarrow> string \<Rightarrow> string" where
  "dnsmasq_command ip pre = ''/usr/sbin/dnsmasq -iwlan0  --dhcp-option=3,'' @ ip @ '' --dhcp-range='' @ pre @ ''50,'' @ pre @
     ''200,12h -p100 -d &''"

definition start_ap :: "'w hw_ops \<Rightarrow> string \<Rightarrow> string \<Rightarrow> string \<Rightarrow> 'w wifi_hw \<Rightarrow> (int \<times> 'w wifi_hw) option" where
  "start_ap E ssid psk ipaddr h = do {
     (r, h) \<leftarrow> hw_prepare_configure E ssid psk h;
     if r \<noteq> 0 then Some (-2, h)
     else do {
       let (_, h) = hx (ho_system E ''rm -rf /data/hostapd_debug.log'') h;
       let (r, h) = hx (ho_system E ''hostapd -f /data/hostapd_debug.log /data/system/hostapd.conf &'') h;
       if r \<noteq> 0 then Some (-2, h)
       else do {
         let h = h\<lparr>g_ipaddr_ap := take 19 ipaddr\<rparr>;
         buf \<leftarrow> fits 1024 (''ifconfig wlan0 '' @ ipaddr);
         let (r, h) = hx (ho_system E buf) h;
         if r \<noteq> 0 then Some (-3, h)
         else case cut_third_dot 0 (take 19 ipaddr) of
           None \<Rightarrow> Some (-4, h)
         | Some ipaddr_pre \<Rightarrow> do {
             let (_, h) = hx (ho_system E ''mkdir -p /var/lib/misc'') h;
             buf \<leftarrow> fits 1024 (dnsmasq_command ipaddr ipaddr_pre);
             let (r, h) = hx (ho_system E buf) h;
             Some (if r \<noteq> 0 then -5 else 0, h)
           }
       }
     }
   }"

definition stop_ap :: "'w hw_ops \<Rightarrow> 'w wifi_hw \<Rightarrow> int \<times> 'w wifi_hw" where
  "stop_ap E h =
     (let (_, h) = hx (ho_system E ''killall hostapd'') h;
          (_, h) = hx (ho_system E ''killall dnsmasq'') h in
      command E (''ip addr del '' @ g_ipaddr_ap h @ '' dev wlan0'') h)"

text \<open>The table of functions that opening the module fills.  Where a function has undefined behaviour the device
  fails; the theorems do not reach that case.  \<open>None\<close> is a failed allocation.\<close>

definition wifi_device_open :: "'w hw_ops \<Rightarrow> 'w wifi_hw \<Rightarrow> 'w wifi_hw wifi_device_ops option \<times> 'w wifi_hw" where
  "wifi_device_open E h =
     (let (ok, h) = hx (ho_malloc E) h in
      if \<not> ok then (None, h)
      else (Some \<lparr>wd_get_status = wifi_get_driver_status E, wd_on = wifi_on E, wd_off = wifi_off E,
              wd_start_station = start_station E, wd_stop_station = (\<lambda>h. (0, stop_station E h)),
              wd_start_ap = (\<lambda>ssid psk ip h. case start_ap E ssid psk ip h of Some x \<Rightarrow> x | None \<Rightarrow> (-1, h)),
              wd_stop_ap = stop_ap E\<rparr>, h))"

section \<open>ethnet_hw.c\<close>

definition ETH_DRIVER_PATH :: string where "ETH_DRIVER_PATH = ''/sys/class/net/eth0''"

definition eth_on :: "'w hw_ops \<Rightarrow> 'w wifi_hw \<Rightarrow> int \<times> 'w wifi_hw" where
  "eth_on E h = command E ''ifconfig eth0 up'' h"

definition eth_off :: "'w hw_ops \<Rightarrow> 'w wifi_hw \<Rightarrow> int \<times> 'w wifi_hw" where
  "eth_off E h = command E ''ifconfig eth0 down'' h"

definition eth_get_status :: "'w hw_ops \<Rightarrow> 'w wifi_hw \<Rightarrow> int \<times> 'w wifi_hw" where
  "eth_get_status E h = (let (ok, h) = hx (ho_access E ETH_DRIVER_PATH) h in (if ok then 0 else -1, h))"

definition start_dhcpcd :: "'w hw_ops \<Rightarrow> 'w wifi_hw \<Rightarrow> int \<times> 'w wifi_hw" where
  "start_dhcpcd E h = command E ''/etc/init.d/dhcpcd_eth start'' h"

definition stop_dhcpcd :: "'w hw_ops \<Rightarrow> 'w wifi_hw \<Rightarrow> int \<times> 'w wifi_hw" where
  "stop_dhcpcd E h = command E ''/etc/init.d/dhcpcd_eth stop'' h"

definition eth_device_open :: "'w hw_ops \<Rightarrow> 'w wifi_hw \<Rightarrow> 'w wifi_hw eth_device_ops option \<times> 'w wifi_hw" where
  "eth_device_open E h =
     (let (ok, h) = hx (ho_malloc E) h in
      if \<not> ok then (None, h)
      else (Some \<lparr>ed_get_status = eth_get_status E, ed_on = eth_on E, ed_off = eth_off E,
              ed_start_dhcpcd = start_dhcpcd E, ed_stop_dhcpcd = stop_dhcpcd E\<rparr>, h))"

end
