(* ===== verification/WifiHwProps.thy ===== *)
theory WifiHwProps
  imports WifiHw NetProps
begin

text \<open>
  The Wi-Fi HAL module under the network manager: what starting and stopping the access point does to the
  system, and what an address that is not legal leaves behind.
\<close>

text \<open>A shell and a file system that accept everything.  \<open>cmds\<close> are the commands that were run, \<open>conf\<close> is the
  content of the configuration file.\<close>

definition shell_env :: "'w hw_ops \<Rightarrow> int \<Rightarrow> ('w \<Rightarrow> string list) \<Rightarrow> ('w \<Rightarrow> string) \<Rightarrow> bool" where
  "shell_env E fd cmds conf \<longleftrightarrow> fd \<ge> 0 \<and>
     (\<forall>c w. fst (ho_system E c w) = 0 \<and> cmds (snd (ho_system E c w)) = cmds w @ [c] \<and> conf (snd (ho_system E c w)) = conf w) \<and>
     (\<forall>w. cmds (ho_unlink E HOSTAPD_CONF w) = cmds w) \<and>
     (\<forall>w. fst (ho_create E HOSTAPD_CONF w) = fd \<and> cmds (snd (ho_create E HOSTAPD_CONF w)) = cmds w \<and>
        conf (snd (ho_create E HOSTAPD_CONF w)) = []) \<and>
     (\<forall>t w. fst (ho_write E fd t w) = int (length t) \<and> cmds (snd (ho_write E fd t w)) = cmds w \<and>
        conf (snd (ho_write E fd t w)) = conf w @ t) \<and>
     (\<forall>w. cmds (ho_close E fd w) = cmds w \<and> conf (ho_close E fd w) = conf w)"

lemma shell_envD:
  assumes "shell_env E fd cmds conf"
  shows "\<not> fd < 0" "fst (ho_system E c w) = 0" "cmds (snd (ho_system E c w)) = cmds w @ [c]" "conf (snd (ho_system E c w)) = conf w"
    "cmds (ho_unlink E HOSTAPD_CONF w) = cmds w" "fst (ho_create E HOSTAPD_CONF w) = fd"
    "cmds (snd (ho_create E HOSTAPD_CONF w)) = cmds w" "conf (snd (ho_create E HOSTAPD_CONF w)) = []"
    "fst (ho_write E fd t w) = int (length t)" "cmds (snd (ho_write E fd t w)) = cmds w"
    "conf (snd (ho_write E fd t w)) = conf w @ t" "cmds (ho_close E fd w) = cmds w" "conf (ho_close E fd w) = conf w"
  using assms unfolding shell_env_def by auto

text \<open>An address in the usual form, up to 19 characters.\<close>

definition dotted :: "string \<Rightarrow> string \<Rightarrow> string \<Rightarrow> string \<Rightarrow> string" where
  "dotted a b c d = a @ ''.'' @ b @ ''.'' @ c @ ''.'' @ d"

definition no_dot :: "string \<Rightarrow> bool" where
  "no_dot x \<longleftrightarrow> CHR ''.'' \<notin> set x"

lemma append_fun: "(@) [] = (\<lambda>x. x)" "(@) (c # a) = (\<lambda>x. c # a @ x)"
  by auto

lemma cut_part: "no_dot a \<Longrightarrow> n < 3 \<Longrightarrow> cut_third_dot n (a @ xs) = map_option ((@) a) (cut_third_dot n xs)"
  by (induction a) (auto simp: no_dot_def append_fun option.map_comp comp_def option.map_ident)

lemma cut_dotted:
  assumes "no_dot a" "no_dot b" "no_dot c"
  shows "cut_third_dot 0 (dotted a b c d) = Some (a @ ''.'' @ b @ ''.'' @ c @ ''.'')"
  using assms by (simp add: dotted_def cut_part)

lemma cut_fails: "cut_third_dot n xs = None \<longleftrightarrow> n + length (filter (\<lambda>c. c = CHR ''.'') xs) < 3" if "n < 3"
  using that by (induction xs arbitrary: n) (auto simp: Let_def)

lemma configure_writes:
  assumes "shell_env E fd cmds conf" and "length (hostapd_conf ssid psk) < 1024"
  shows "\<exists>w'. hw_prepare_configure E ssid psk h = Some (0, h\<lparr>hw_world := w'\<rparr>) \<and>
    conf w' = hostapd_conf ssid psk \<and> cmds w' = cmds (hw_world h) @ [''mkdir -p /data/system'']"
  using assms(2)
  by (auto simp: hw_prepare_configure_def hx_eq fits_def shell_envD[OF assms(1)] intro!: exI)

text \<open>The commands of a start up to the address, and those that serve addresses.\<close>

definition ap_commands :: "string \<Rightarrow> string list" where
  "ap_commands ip = [''mkdir -p /data/system'', ''rm -rf /data/hostapd_debug.log'',
     ''hostapd -f /data/hostapd_debug.log /data/system/hostapd.conf &'', ''ifconfig wlan0 '' @ ip]"

definition dhcp_commands :: "string \<Rightarrow> string \<Rightarrow> string list" where
  "dhcp_commands ip pre = [''mkdir -p /var/lib/misc'', dnsmasq_command ip pre]"

lemma start_ap_runs:
  assumes "shell_env E fd cmds conf" and "length (hostapd_conf ssid psk) < 1024" and "length ip \<le> 19"
  shows "\<exists>w'. start_ap E ssid psk ip h = Some (if cut_third_dot 0 ip = None then -4 else 0, \<lparr>hw_world = w', g_ipaddr_ap = ip\<rparr>) \<and>
    conf w' = hostapd_conf ssid psk \<and>
    cmds w' = cmds (hw_world h) @ ap_commands ip @ (case cut_third_dot 0 ip of None \<Rightarrow> [] | Some pre \<Rightarrow> dhcp_commands ip pre)"
proof -
  obtain w1 where w1: "hw_prepare_configure E ssid psk h = Some (0, h\<lparr>hw_world := w1\<rparr>)" "conf w1 = hostapd_conf ssid psk"
    "cmds w1 = cmds (hw_world h) @ [''mkdir -p /data/system'']"
    using configure_writes[OF assms(1,2)] by blast
  have cut: "length pre \<le> 19" if "cut_third_dot 0 ip = Some pre" for pre
  proof -
    have "cut_third_dot n xs = Some ys \<Longrightarrow> length ys \<le> length xs" for n xs ys
      by (induction xs arbitrary: n ys) (auto simp: Let_def split: if_splits)
    then show ?thesis using that assms(3) le_trans by blast
  qed
  show ?thesis
  proof (cases "cut_third_dot 0 ip")
    case None
    then show ?thesis using w1 shell_envD[OF assms(1)] assms(3)
      by (cases h) (simp add: start_ap_def hx_eq fits_def ap_commands_def)
  next
    case (Some pre)
    then show ?thesis using w1 shell_envD[OF assms(1)] assms(3) cut[OF Some]
      by (cases h) (simp add: start_ap_def hx_eq fits_def ap_commands_def dhcp_commands_def dnsmasq_command_def)
  qed
qed


text \<open>An address with fewer than three dots is refused when the access point already runs with it.\<close>

lemma bad_address_leaves_ap:
  assumes "shell_env E fd cmds conf" and "length (hostapd_conf ssid psk) < 1024" and "length ip \<le> 19"
    and "length (filter (\<lambda>c. c = CHR ''.'') ip) < 3"
  shows "\<exists>h'. start_ap E ssid psk ip h = Some (-4, h') \<and> cmds (hw_world h') = cmds (hw_world h) @ ap_commands ip"
proof -
  have "cut_third_dot 0 ip = None" using cut_fails[of 0 ip] assms(4) by simp
  then show ?thesis using start_ap_runs[OF assms(1-3), of h] by (metis append.right_neutral option.simps(4) wifi_hw.select_convs(1))
qed

text \<open>A shell that records what it is asked.\<close>

record lab_shell =
  ls_cmds :: "string list"
  ls_conf :: string

definition lab_hw :: "lab_shell hw_ops" where
  "lab_hw = \<lparr>ho_system = (\<lambda>c w. (0, w\<lparr>ls_cmds := ls_cmds w @ [c]\<rparr>)), ho_access = (\<lambda>f w. (True, w)), ho_unlink = (\<lambda>f w. w),
     ho_create = (\<lambda>f w. (3, w\<lparr>ls_conf := []\<rparr>)), ho_write = (\<lambda>fd t w. (int (length t), w\<lparr>ls_conf := ls_conf w @ t\<rparr>)),
     ho_close = (\<lambda>fd w. w), ho_malloc = (\<lambda>w. (True, w))\<rparr>"

lemma lab_shell_env: "shell_env lab_hw 3 ls_cmds ls_conf"
  by (simp add: shell_env_def lab_hw_def)

definition lab_wifi_hw :: "lab_shell wifi_hw" where
  "lab_wifi_hw = \<lparr>hw_world = \<lparr>ls_cmds = [], ls_conf = []\<rparr>, g_ipaddr_ap = []\<rparr>"

definition lab_hw_env :: "lab_shell wifi_hw net_env" where
  "lab_hw_env = \<lparr>wifi_dev = the (fst (wifi_device_open lab_hw lab_wifi_hw)), modem_dev = lab_modem 0 0 0, eth_dev = lab_eth,
     wpa = lab_wpa 0 lab_msg, sys = lab_sys lab_request [] []\<rparr>"

definition lab_hw_state :: "lab_shell wifi_hw net_state" where
  "lab_hw_state = (net_boot lab_wifi_hw)\<lparr>wifi_device := True\<rparr>"


end
