(* ===== verification/LedHw.thy ===== *)
theory LedHw
  imports YodaPrelude "HOL-Library.Word"
begin

text \<open>
  The LED HAL module for the VSP device (\<open>hardware/modules/leds/leds_hw.c\<close>), as the products build it: twelve LEDs,
  \<open>LED_REVERSE\<close> and \<open>LED_SEQUENCE\<close> set, no option for another order of the colours.  The device is a parameter.
  A byte of a local array is an option: \<open>None\<close> is a byte that was never written.
\<close>

section \<open>State\<close>

record 'w led_ops =
  lo_open :: "'w \<Rightarrow> int \<times> 'w"
  lo_mode :: "int \<Rightarrow> 'w \<Rightarrow> int \<times> 'w"
  lo_info :: "int \<Rightarrow> 'w \<Rightarrow> 'w"
  lo_frame :: "int \<Rightarrow> 8 word option list \<Rightarrow> 'w \<Rightarrow> int \<times> 'w"
  lo_close :: "int \<Rightarrow> 'w \<Rightarrow> 'w"
  lo_calloc :: "'w \<Rightarrow> bool \<times> 'w"

record 'w led_hw =
  lh_world :: 'w
  brightness :: int
  api_enabled :: "8 word"
  s_led_fd :: int

definition MAX_LED_GROUP_NUM :: nat where "MAX_LED_GROUP_NUM = 12"
definition LED_OFFSET :: nat where "LED_OFFSET = 0"
definition MAX_BRIGHTNESS :: int where "MAX_BRIGHTNESS = 255"

definition led_boot :: "'w \<Rightarrow> 'w led_hw" where
  "led_boot w = \<lparr>lh_world = w, brightness = MAX_BRIGHTNESS, api_enabled = 1, s_led_fd = 0\<rparr>"

section \<open>The device\<close>

text \<open>\<open>close_vsp\<close> on a descriptor: its result, the new value of the descriptor and the outside.\<close>

definition close_vsp :: "'w led_ops \<Rightarrow> int \<Rightarrow> 'w \<Rightarrow> (int \<times> int) \<times> 'w" where
  "close_vsp E fd w = (if fd > 0 then ((0, 0), lo_close E fd w) else ((-1, fd), w))"

definition open_vsp :: "'w led_ops \<Rightarrow> 'w led_hw \<Rightarrow> int \<times> 'w led_hw" where
  "open_vsp E s =
     (let (fd, w) = lo_open E (lh_world s);
          (fd, w) = (if fd > 0 then
              let (r, w) = lo_mode E fd w in
              if r = 0 then (fd, lo_info E fd w) else let ((_, fd), w) = close_vsp E fd w in (fd, w)
            else (fd, w)) in
      (fd, s\<lparr>lh_world := w, s_led_fd := fd\<rparr>))"

text \<open>\<open>lo_frame\<close> gives the error number of the \<open>ioctl\<close>, 0 when it succeeds.\<close>

definition write_pixls :: "'w led_ops \<Rightarrow> 8 word option list \<Rightarrow> 'w led_hw \<Rightarrow> int \<times> 'w led_hw" where
  "write_pixls E buf s =
     (if s_led_fd s \<le> 0 then (-1, s)
      else let (e, w) = lo_frame E (s_led_fd s) buf (lh_world s); s = s\<lparr>lh_world := w\<rparr> in
        if e \<noteq> 0 then (- e, s) else (0, s))"

definition led_dev_open :: "'w led_ops \<Rightarrow> 'w led_hw \<Rightarrow> int \<times> 'w led_hw" where
  "led_dev_open E s =
     (let (r, s) = open_vsp E s in
      if r \<le> 0 then (-19, s)
      else let (ok, w) = lo_calloc E (lh_world s) in
        if ok then (0, s\<lparr>lh_world := w\<rparr>)
        else let ((_, fd), w) = close_vsp E (s_led_fd s) w in (-12, s\<lparr>lh_world := w, s_led_fd := fd\<rparr>))"

definition led_dev_close :: "'w led_ops \<Rightarrow> 'w led_hw \<Rightarrow> int \<times> 'w led_hw" where
  "led_dev_close E s = (let ((_, fd), w) = close_vsp E (s_led_fd s) (lh_world s) in (0, s\<lparr>lh_world := w, s_led_fd := fd\<rparr>))"

section \<open>Operations\<close>

text \<open>The number is stored in a byte.\<close>

definition led_enable_set :: "int \<Rightarrow> 'w led_hw \<Rightarrow> int \<times> 'w led_hw" where
  "led_enable_set cmd s = (0, s\<lparr>api_enabled := word_of_int cmd\<rparr>)"

definition led_brightness_set :: "8 word \<Rightarrow> 'w led_hw \<Rightarrow> int \<times> 'w led_hw" where
  "led_brightness_set br s = (if api_enabled s = 0 then (-1, s) else (0, s\<lparr>brightness := uint br\<rparr>))"

definition led_current_set :: "8 word \<Rightarrow> 'w led_hw \<Rightarrow> int \<times> 'w led_hw" where
  "led_current_set level s = (-1, s)"

definition led_is_busy :: bool where "led_is_busy = False"

definition out_of_range :: "int \<Rightarrow> bool" where
  "out_of_range v \<longleftrightarrow> v < 0 \<or> v > 255"

text \<open>A negative index writes in front of the array.\<close>

definition led_draw_one_inner :: "'w led_ops \<Rightarrow> int \<Rightarrow> int \<Rightarrow> int \<Rightarrow> int \<Rightarrow> 'w led_hw \<Rightarrow> (int \<times> 'w led_hw) option" where
  "led_draw_one_inner E idx r g b s =
     (if idx \<ge> int MAX_LED_GROUP_NUM then Some (-1, s)
      else if idx < 0 then None
      else Some (write_pixls E (take (4 * nat idx) (replicate (MAX_LED_GROUP_NUM * 4) (Some 0)) @
             map Some [word_of_int r, word_of_int b, word_of_int g, 255] @
             drop (4 * nat idx + 4) (replicate (MAX_LED_GROUP_NUM * 4) (Some 0))) s))"

definition led_draw_one :: "'w led_ops \<Rightarrow> int \<Rightarrow> int \<Rightarrow> int \<Rightarrow> int \<Rightarrow> 'w led_hw \<Rightarrow> (int \<times> 'w led_hw) option" where
  "led_draw_one E idx r g b s =
     (if api_enabled s = 0 then Some (-1, s)
      else if led_is_busy then Some (-16, s)
      else if out_of_range b \<or> out_of_range g \<or> out_of_range r then Some (-22, s)
      else led_draw_one_inner E idx r g b s)"

text \<open>The position of an LED on the ring; the argument is below the number of LEDs.\<close>

definition led_index_relocate :: "nat \<Rightarrow> nat" where
  "led_index_relocate index =
     (let index = (MAX_LED_GROUP_NUM - index) mod MAX_LED_GROUP_NUM;
          index = (index + LED_OFFSET) mod MAX_LED_GROUP_NUM in
      if index < 12 then [1, 7, 2, 8, 3, 9, 4, 10, 5, 11, 0, 6] ! index else index)"

text \<open>The loop of \<open>led_reverse_mem\<close> from the pixel \<open>i\<close> on; a read behind \<open>src\<close> or a write behind \<open>dst\<close> is undefined.\<close>

fun reverse_from :: "nat \<Rightarrow> nat \<Rightarrow> 8 word list \<Rightarrow> 8 word option list \<Rightarrow> 8 word option list option" where
  "reverse_from i 0 src dst = Some dst"
| "reverse_from i (Suc k) src dst =
     (let d = led_index_relocate i in
      if 3 * i + 2 < length src \<and> 3 * d + 2 < length dst
      then reverse_from (Suc i) k src (dst[3 * d := Some (src ! (3 * i)), 3 * d + 1 := Some (src ! (3 * i + 1)), 3 * d + 2 := Some (src ! (3 * i + 2))])
      else None)"

definition led_reverse_mem :: "8 word option list \<Rightarrow> 8 word list \<Rightarrow> nat \<Rightarrow> 8 word option list option" where
  "led_reverse_mem dst src n = reverse_from 0 (n div 3) src dst"

text \<open>The loop of \<open>color_trans\<close> from the pixel \<open>j\<close> on.\<close>

fun trans_from :: "nat \<Rightarrow> nat \<Rightarrow> 8 word option list \<Rightarrow> 8 word option list \<Rightarrow> 8 word option list" where
  "trans_from j 0 tmp out = out"
| "trans_from j (Suc k) tmp out =
     trans_from (Suc j) k tmp (out[4 * j := tmp ! (3 * j), 4 * j + 1 := tmp ! (3 * j + 1), 4 * j + 2 := tmp ! (3 * j + 2), 4 * j + 3 := Some 255])"

definition color_trans :: "8 word option list \<Rightarrow> nat \<Rightarrow> 8 word option list \<Rightarrow> 8 word option list" where
  "color_trans tmp len out = trans_from 0 (len div 3) tmp out"

text \<open>\<open>buf\<close> is the memory the caller hands over.\<close>

definition led_draw :: "'w led_ops \<Rightarrow> 8 word list \<Rightarrow> int \<Rightarrow> 'w led_hw \<Rightarrow> (int \<times> 'w led_hw) option" where
  "led_draw E buf len s =
     (if api_enabled s = 0 then Some (-1, s)
      else if led_is_busy then Some (-16, s)
      else if len < 0 \<or> len > int (MAX_LED_GROUP_NUM * 3) \<or> len mod 3 \<noteq> 0 then Some (-22, s)
      else map_option (\<lambda>tmp. write_pixls E (color_trans tmp (nat len) (replicate (MAX_LED_GROUP_NUM * 4) None)) s)
        (led_reverse_mem (replicate (MAX_LED_GROUP_NUM * 3) None) buf (nat len)))"

section \<open>Frames\<close>

lemma relocate_eq: "map led_index_relocate [0..<12] = [1, 6, 0, 11, 5, 10, 4, 9, 3, 8, 2, 7]"
  by code_simp

lemma relocate_perm: "led_index_relocate ` {0..<12} = {0..<12}" "inj_on led_index_relocate {0..<12}"
proof -
  have "distinct (map led_index_relocate [0..<12])" unfolding relocate_eq by simp
  then show "inj_on led_index_relocate {0..<12}" by (simp add: distinct_map)
  have "led_index_relocate ` {0..<12} = set (map led_index_relocate [0..<12])" by simp
  also have "\<dots> = {0..<12}" unfolding relocate_eq by (auto, presburger)
  finally show "led_index_relocate ` {0..<12} = {0..<12}" .
qed

lemma relocate_less: "i < 12 \<Longrightarrow> led_index_relocate i < 12"
  using relocate_perm(1) by (metis atLeastLessThan_iff imageI zero_le)

text \<open>A pixel of an array.\<close>

definition pixel :: "'a list \<Rightarrow> nat \<Rightarrow> 'a list" where
  "pixel xs j = [xs ! (3 * j), xs ! (3 * j + 1), xs ! (3 * j + 2)]"

lemma reverse_places:
  assumes "i + k \<le> 12" and "3 * (i + k) \<le> length src" and "length dst = 36"
  shows "\<exists>tmp. reverse_from i k src dst = Some tmp \<and> length tmp = 36 \<and>
    (\<forall>j < 12. pixel tmp (led_index_relocate j) =
       (if i \<le> j \<and> j < i + k then map Some (pixel src j) else pixel dst (led_index_relocate j)))"
  using assms
proof (induction k arbitrary: i dst)
  case (Suc k)
  let ?d = "led_index_relocate i"
  let ?dst = "dst[3 * ?d := Some (src ! (3 * i)), 3 * ?d + 1 := Some (src ! (3 * i + 1)), 3 * ?d + 2 := Some (src ! (3 * i + 2))]"
  have d: "?d < 12" using relocate_less Suc.prems(1) by simp
  have here: "pixel ?dst ?d = map Some (pixel src i)" using d Suc.prems(3) by (simp add: pixel_def nth_list_update)
  have there: "pixel ?dst (led_index_relocate j) = pixel dst (led_index_relocate j)" if "j < 12" "j \<noteq> i" for j
  proof -
    have "led_index_relocate j \<noteq> ?d" using relocate_perm(2) that Suc.prems(1) by (auto dest!: inj_onD)
    then have "3 * led_index_relocate j + a \<noteq> 3 * ?d + b" if "a < 3" "b < 3" for a b :: nat using that by presburger
    from this[of 0 0] this[of 0 1] this[of 0 2] this[of 1 0] this[of 1 1] this[of 1 2] this[of 2 0] this[of 2 1] this[of 2 2]
    show ?thesis by (simp add: pixel_def nth_list_update)
  qed
  obtain tmp where "reverse_from (Suc i) k src ?dst = Some tmp" "length tmp = 36"
    "\<forall>j < 12. pixel tmp (led_index_relocate j) =
       (if Suc i \<le> j \<and> j < Suc i + k then map Some (pixel src j) else pixel ?dst (led_index_relocate j))"
    using Suc.IH[of "Suc i" ?dst] Suc.prems by auto
  moreover have "reverse_from i (Suc k) src dst = reverse_from (Suc i) k src ?dst" using d Suc.prems by (simp add: Let_def)
  ultimately show ?case using here there by (auto simp: Suc_le_eq)
qed auto

lemma trans_places:
  assumes "j + k \<le> 12" and "length out = 48"
  shows "length (trans_from j k tmp out) = 48 \<and> (\<forall>p < 12. take 4 (drop (4 * p) (trans_from j k tmp out)) =
    (if j \<le> p \<and> p < j + k then pixel tmp p @ [Some 255] else take 4 (drop (4 * p) out)))"
  using assms
proof (induction k arbitrary: j out)
  case (Suc k)
  let ?out = "out[4 * j := tmp ! (3 * j), 4 * j + 1 := tmp ! (3 * j + 1), 4 * j + 2 := tmp ! (3 * j + 2), 4 * j + 3 := Some 255]"
  have four: "take 4 (drop (4 * p) xs) = [xs ! (4 * p), xs ! (4 * p + 1), xs ! (4 * p + 2), xs ! (4 * p + 3)]"
    if "p < 12" "length xs = 48" for p and xs :: "8 word option list"
    using that by (intro nth_equalityI) (auto simp: less_Suc_eq numeral_eq_Suc)
  have "take 4 (drop (4 * p) ?out) = (if p = j then pixel tmp p @ [Some 255] else take 4 (drop (4 * p) out))" if "p < 12" for p
  proof (cases "p = j")
    case True
    then show ?thesis using Suc.prems that by (simp add: four pixel_def nth_list_update)
  next
    case False
    then have "4 * p + a \<noteq> 4 * j + b" if "a < 4" "b < 4" for a b :: nat using that by presburger
    from this[of 0] this[of 1] this[of 2] this[of 3] show ?thesis
      using False Suc.prems that by (simp add: four nth_list_update)
  qed
  then show ?case using Suc.IH[of "Suc j" ?out] Suc.prems by auto
qed simp

text \<open>C39. A full frame is shown completely: every LED gets the colour of its pixel, at its place on the ring, and no
  byte of the frame is left unwritten.\<close>

theorem led_full_frame:
  assumes "length buf = 36" and "api_enabled s \<noteq> 0"
  shows "\<exists>out. led_draw E buf 36 s = Some (write_pixls E out s) \<and> length out = 48 \<and>
    map (\<lambda>j. take 4 (drop (4 * led_index_relocate j) out)) [0..<12] = map (\<lambda>j. map Some (pixel buf j @ [255])) [0..<12] \<and>
    None \<notin> set out"
proof -
  obtain tmp where tmp: "reverse_from 0 12 buf (replicate 36 None) = Some tmp" "length tmp = 36"
    "\<forall>j < 12. pixel tmp (led_index_relocate j) = map Some (pixel buf j)"
    using reverse_places[of 0 12 buf "replicate 36 None"] assms(1) by auto
  let ?out = "trans_from 0 12 tmp (replicate 48 None)"
  have out: "length ?out = 48" "\<And>p. p < 12 \<Longrightarrow> take 4 (drop (4 * p) ?out) = pixel tmp p @ [Some 255]"
    using trans_places[of 0 12 "replicate 48 None" tmp] by auto
  have places: "\<forall>j < 12. take 4 (drop (4 * led_index_relocate j) ?out) = map Some (pixel buf j @ [255])"
    using out(2) tmp(3) relocate_less by simp
  have "?out ! q \<noteq> None" if "q < 48" for q
  proof -
    have "q div 4 \<in> led_index_relocate ` {0..<12}" unfolding relocate_perm(1) using that by auto
    then obtain j where j: "j < 12" "led_index_relocate j = q div 4" by auto
    have "take 4 (drop (4 * (q div 4)) ?out) ! (q mod 4) = ?out ! q" using that out(1) by simp
    moreover have "map Some (pixel buf j @ [255]) ! (q mod 4) \<noteq> None" by (subst nth_map) (simp_all add: pixel_def)
    ultimately show ?thesis using places[rule_format, OF j(1)] j(2) by metis
  qed
  then have "None \<notin> set ?out" using out(1) by (metis in_set_conv_nth)
  moreover have "map (\<lambda>j. take 4 (drop (4 * led_index_relocate j) ?out)) [0..<12] = map (\<lambda>j. map Some (pixel buf j @ [255])) [0..<12]"
    using places by (intro map_cong) simp_all
  ultimately show ?thesis using assms(2) tmp(1) out(1)
    by (intro exI[of _ ?out]) (simp add: led_draw_def led_is_busy_def MAX_LED_GROUP_NUM_def led_reverse_mem_def color_trans_def del: upt_Suc upt_rec_numeral)
qed

text \<open>A shorter frame leaves bytes unwritten, which are sent to the device.\<close>

lemma short_frame_unwritten:
  assumes "k < 12" and "3 * k \<le> length buf" and "api_enabled s \<noteq> 0"
  shows "\<exists>out. led_draw E buf (int (3 * k)) s = Some (write_pixls E out s) \<and> None \<in> set out"
proof -
  obtain tmp where tmp: "reverse_from 0 k buf (replicate 36 None) = Some tmp"
    using reverse_places[of 0 k buf "replicate 36 None"] assms(1,2) by auto
  let ?out = "trans_from 0 k tmp (replicate 48 None)"
  have "take 4 (drop (4 * k) ?out) = take 4 (drop (4 * k) (replicate 48 None))"
    using trans_places[of 0 k "replicate 48 None" tmp] assms(1) by simp
  then have "None \<in> set (take 4 (drop (4 * k) ?out))" using assms(1) by simp
  then have "None \<in> set ?out" by (meson in_set_dropD in_set_takeD)
  moreover have "int (3 * k) mod 3 = 0" by simp
  moreover have "nat (int (3 * k)) div 3 = k" by (simp only: nat_int nonzero_mult_div_cancel_left)
  ultimately show ?thesis using assms tmp
    by (intro exI[of _ ?out]) (simp add: led_draw_def led_is_busy_def MAX_LED_GROUP_NUM_def led_reverse_mem_def color_trans_def
        del: of_nat_mult)
qed

text \<open>A device that accepts every frame.\<close>

definition lab_led :: "8 word option list list led_ops" where
  "lab_led = \<lparr>lo_open = (\<lambda>w. (3, w)), lo_mode = (\<lambda>fd w. (0, w)), lo_info = (\<lambda>fd w. w), lo_frame = (\<lambda>fd f w. (0, w @ [f])),
     lo_close = (\<lambda>fd w. w), lo_calloc = (\<lambda>w. (True, w))\<rparr>"

theorem led_full_frame_witness:
  "\<exists>out. led_draw lab_led (map of_nat [0..<36]) 36 (led_boot []) = Some (write_pixls lab_led out (led_boot [])) \<and> length out = 48 \<and>
    map (\<lambda>j. take 4 (drop (4 * led_index_relocate j) out)) [0..<12] = map (\<lambda>j. map Some (pixel (map of_nat [0..<36]) j @ [255])) [0..<12] \<and>
    None \<notin> set out"
  by (rule led_full_frame) (simp_all add: led_boot_def)

end
