(* ===== verification/Spec2Isabelle.thy ===== *)
theory Spec2Isabelle
  imports OrderedList Eloop NetProps PowerLocks WpaProps Hostapd BatteryProps InputHotProps InputProps BtBleProps
    ModemProps OtaProps WifiHwProps LedHw
begin

text \<open>
  \<^bold>\<open>A verification library for the C services of YodaOS.\<close>

  YodaOS is a Linux distribution for voice devices.  Its own C code is a set of services that
  exchange JSON messages over the flora bus and drive hardware through HAL modules.  The
  library covers the event loop the services are built on, the network manager with the
  wpa_supplicant client and the access point control it uses, the power manager, the battery
  service, the two input event libraries, the bluetooth service, the modem, Wi-Fi,
  ethernet and LED HAL modules, and the OTA packer and updater.

  \<^bold>\<open>1. Parts of the program and where they are modelled.\<close>

  \<^item> libeloop (\<open>src/framework/libs/libeloop/src\<close>).  \<open>LinkedList\<close>: \<open>list.c\<close>, \<open>list.h\<close>, the intrusive
    rings on an explicit heap of \<open>next\<close> and \<open>prev\<close> pointers.  \<open>OrderedList\<close>: \<open>olist.c\<close>.
    \<open>TaskQueue\<close>: \<open>tasks_queue.c\<close>.  \<open>Syncer\<close>: \<open>syncer.c\<close>, the request pipe that carries tasks to
    the loop thread.  \<open>Scheduler\<close>: \<open>scheduler.c\<close>, timers as the \<open>itimerspec\<close> the kernel was last
    programmed with.  \<open>Eloop\<close>: \<open>fd.c\<close> and \<open>eloop.c\<close>, descriptor events and the loop.
  \<^item> The network manager (\<open>src/framework/services/networking/manager\<close>).  \<open>NetState\<close>: all global
    and static variables in one record \<open>net_state\<close>, the flora messages (\<open>ipc.c\<close>) and the
    environment of code outside the manager.  \<open>NetHal\<close>: the three HAL wrappers.  \<open>NetReport\<close>:
    \<open>network_report.c\<close>.  \<open>WifiEvent\<close>: \<open>wifi_event.c\<close> with the two threads that read wpa_supplicant
    events and scan.  \<open>LinkEvents\<close>: \<open>modem_event.c\<close>, \<open>etherent_event.c\<close>, \<open>network_monitor.c\<close>.
    \<open>NetSwitch\<close>: \<open>network_switch.c\<close> and \<open>network_mode.c\<close>.  \<open>NetCtrl\<close>: \<open>network_ctrl.c\<close>, the command
    table and every handler.  \<open>NetSched\<close>: \<open>network_sched.c\<close> and \<open>main.c\<close>.  \<open>NetSystem\<close>: the running
    manager as a step relation over its events.  \<open>NetSafety\<close> and \<open>NetProps\<close> hold proofs only.
  \<^item> The power manager (\<open>src/framework/services/power\<close>) and its HAL module
    (\<open>src/hardware/modules/power/power_hw.c\<close>).  \<open>PowerManager\<close>: the model.  \<open>PowerLocks\<close>: the proofs.
  \<^item> Wi-Fi control (\<open>src/framework/libs/wifi\<close>).  \<open>WpaCommand\<close>: \<open>wpa_command.c\<close>, the text of every command
    sent to wpa_supplicant, the analysis of every reply, and the operations built from them;
    \<open>WpaProps\<close>: the proofs.  \<open>Hostapd\<close>: \<open>hostapd_command.c\<close>.  \<open>TextLines\<close>: the line reader that
    \<open>wpa_command.c\<close> and \<open>network_ctrl.c\<close> share.
  \<^item> The battery service (\<open>src/framework/services/battery\<close>).  \<open>Battery\<close>: \<open>battery_monitor.c\<close>,
    \<open>flora_bat.c\<close>, \<open>charger.c\<close>, \<open>main.c\<close>.  \<open>BatteryProps\<close>: the proofs, and its message to the power
    manager.
  \<^item> Input events (\<open>src/framework/libs/inputevent\<close>).  \<open>InputHot\<close>: \<open>input-event-hot.c\<close>, with the proofs in
    \<open>InputHotProps\<close>.  \<open>InputConfig\<close>: the tables and the configuration parser of \<open>input-event.c\<close>, with
    the proofs in \<open>InputTables\<close>.  \<open>InputEvent\<close>: its gestures, listener and start-up, with the proofs
    in \<open>InputProps\<close>.  \<open>GpioConfig\<close>: the switch configuration both read.  \<open>Taps\<close>: the contract of
    click recognition both satisfy.  \<open>CSort\<close>: \<open>qsort\<close> and \<open>bsearch\<close> with what they need of a
    comparison function.
  \<^item> The bluetooth service (\<open>src/framework/services/bluetooth\<close>).  \<open>BtConfig\<close>: \<open>config.c\<close>, the lists of known
    devices and their files.  \<open>BtState\<close>: the handles of all profiles in one record \<open>bt_state\<close>, the messages
    (\<open>ipc.c\<close>, \<open>flora.c\<close>) and the controller (\<open>bt_open\<close>, \<open>bt_close\<close>, discovery of \<open>common.c\<close>).  \<open>BtBle\<close>: \<open>ble.c\<close>,
    the packet protocol of the BLE server.  \<open>BtProfiles\<close>: \<open>ble_client.c\<close>, \<open>hh.c\<close>, \<open>hfp.c\<close> and the microphone
    connection \<open>turen.c\<close>.  \<open>BtAudio\<close>: the off functions, \<open>bt_close_mask_profile\<close> and \<open>a2dpsource.c\<close>.  \<open>BtSink\<close>:
    \<open>a2dpsink.c\<close>.  \<open>BtService\<close>: the commands of \<open>common.c\<close>, \<open>main.c\<close>, the callbacks of \<open>flora.c\<close>, and one input
    of the running service as the function \<open>bt_step\<close>.  \<open>BtHistory\<close>, \<open>BtInvariant\<close>, \<open>BtSafety\<close>, \<open>BtProps\<close> and
    \<open>BtBleProps\<close> hold the proofs.  \<open>MacText\<close>: device addresses as text.
  \<^item> The modem HAL module (\<open>src/hardware/modules/modem/modem_tty_hw.c\<close>).  \<open>ModemTty\<close>: the model; the serial line, the
    USB list and the JSON files are its environment.  \<open>ModemProps\<close>: the proofs, and the module as the device
    that the network manager calls.
  \<^item> The Wi-Fi and ethernet HAL modules (\<open>wifi_hal/wifi_hw.c\<close> and \<open>ethnet_hal/ethnet_hw.c\<close> under \<open>src/hardware/modules\<close>).
    \<open>WifiHw\<close>: the model; \<open>WifiHwProps\<close>: the proofs, with the Wi-Fi module as the device of the network manager.
  \<^item> The LED HAL module for the VSP (\<open>src/hardware/modules/leds/leds_hw.c\<close>).  \<open>LedHw\<close>: the model and the proofs.
  \<^item> OTA (\<open>src/framework/libs/ota\<close>).  \<open>OtaFlash\<close>: erasing, reading and writing NAND partitions (\<open>recovery/recovery.c\<close>), with
    the record \<open>ota_ops\<close> of what the programs call.  \<open>OtaBoot\<close>: the partition table, raw partitions and the boot
    command of the same file.  \<open>OtaMount\<close>: its mounting and flushing.  \<open>OtaPackage\<close>: the layout of a package and
    the packer (\<open>rokid_package.c\<close>).  \<open>OtaUpdate\<close>: the updater (\<open>unpack.c\<close>, \<open>ota_unpack.c\<close>).  \<open>OtaFlashProps\<close>,
    \<open>OtaBootProps\<close> and \<open>OtaProps\<close> hold the proofs.
  \<^item> Shared: \<open>YodaPrelude\<close> (the outcome predicate \<open>succeeds\<close> with its rules, lists, options, words),
    \<open>CString\<close> (the C string functions the sources call), \<open>JsonModel\<close> (json-c values).

  Definitions have the names of the C functions.  A definition that models a part of a C
  function (a loop, a branch that is used several times) says so where it stands.

  \<^bold>\<open>2. Conventions.\<close>

  \<^item> A C function that reads and writes global state is a function on the state record and
    returns its result with the new state.  An outcome \<open>None\<close> is undefined behaviour of C that the
    code does not exclude: a NULL or freed pointer, an index past a buffer.  \<open>succeeds x Q\<close> says
    that \<open>x\<close> is \<open>Some\<close> of something that satisfies \<open>Q\<close>, so safety theorems exclude \<open>None\<close>.
  \<^item> Integers whose width matters (mode and capacity bits, timer periods, modem types) are words;
    other \<open>int\<close>s are \<^typ>\<open>int\<close>.  Flags are \<^typ>\<open>bool\<close>.  Pointers to opened devices are \<^typ>\<open>bool\<close>.
  \<^item> Code outside the component at hand (HAL device functions, wpa_supplicant, json-c, \<open>system()\<close>,
    sysfs, epoll, inotify, the clock) is a record of functions on an abstract world \<open>'w\<close>, an
    argument \<open>E\<close> of the definitions.  The network manager takes the operations of \<open>libs/wifi\<close> in
    this way; \<open>WpaCommand\<close> models them on their own.  What a theorem needs of it is a named
    hypothesis, for example \<open>recv_wf\<close> (messages of wpa_supplicant have the documented form) or
    \<open>kernel_accepts\<close> (a write to sysfs returns the number of bytes) or \<open>read_bounded\<close> (a read returns
    at most what was asked for); each has a concrete instance, the laboratory environments of the
    theories with the proofs.
  \<^item> A buffer that the C code fills is a list with the size written out at the write; a comparison
    with the size decides between the write and \<open>None\<close>.
  \<^item> Loops over pointers are \<open>partial_function (option)\<close>; the theorems show that they return.  Loops
    that wait for the outside (\<open>abort_until\<close>, \<open>select_loop\<close>) are, too, and theorems say when they do
    not return.  \<open>read_input_events\<close> waits in a loop whose rounds are counted: the safety theorem
    holds for every number of rounds, and the flag of the result says whether the loop was left.
    Interleaving is explicit: while a command waits for the Wi-Fi event thread, the environment
    hands it a finite list of slices, the steps the other threads take before the wait ends, and
    the theorems hold for every such list.
  \<^item> The bluetooth service is modelled as it is built for YodaOS (\<open>BT_SERVICE_HAVE_HFP\<close>, messages by flora).  A
    handler, a HAL event and a timer are one step each: the mutexes of the handles are not modelled,
    and the HAL does not call a listener from inside a call of the service.  \<open>hal_ok\<close> names what the HAL
    promises about the lists it fills; \<open>input_ok\<close> names the messages and events for which the C code has no
    undefined behaviour of its own, and separate theorems show what happens outside of it.
  \<^item> The OTA library is modelled as it is built for flash storage (device type 1) without \<open>OTA_AUTH\<close>.  The sum of an
    image is a function of the environment.  \<open>nand_device\<close> names what an MTD device promises (pages, erasing, bad
    blocks), \<open>boot_env\<close> adds a partition table with the misc partition, \<open>pack_env\<close>, \<open>image_env\<close> and \<open>package_env\<close> name
    what the files promise.  The loops over blocks and pages are \<open>partial_function (option)\<close>; on a device with a
    regular geometry the theorems show that they return.

  \<^bold>\<open>3. What the theorems show.\<close>

  \<^item> Data structures.  The rings implement lists (\<open>dlist\<close>); ordered insertion keeps the order and
    deletion by key removes a node exactly when there is one.  The task queue satisfies the
    interface \<open>task_fifo\<close>; one call of \<open>syncer_process_queue\<close> runs all queued and requested tasks
    once and in order.  Timers satisfy \<open>timer_service\<close>, starting one programs the requested time.
    Descriptor objects and epoll registrations agree in all reachable states.  A timer that is
    deleted while its task is queued is used after free.
  \<^item> Network manager.  The invariant \<open>net_ok\<close> (modes within the capacity, station and access point
    exclusive, timers alive, device pointers opened) holds in every state a started manager
    reaches by commands, thread slices, timers and monitor rounds; every safe request gets exactly
    one reply.  \<open>request_safe\<close> names the requests for which the C code has undefined behaviour, and
    separate theorems show that some of them crash.  Start functions report 0 exactly when the
    reason is NONE; the start latches of the HAL (locale \<open>hal_latch\<close>), the restart rule of the modem
    poll, the three-failures rule of the reachability monitor, the termination of the scheduler's
    waiting phase and two parsing round trips are characterised.
  \<^item> Power manager.  The linked list of wakelocks refines a list of distinct names; for clients that
    take and return locks in pairs the count of locks is right after every sequence of messages; two
    theorems show how other clients break it; the deep idle timer is armed only while idle.

  \<^item> Wi-Fi control.  A scan reply in the documented form gives one entry for each name and key
    type, the strongest; arbitrary replies keep the list bounded; no command overruns its buffer;
    joining sends the documented sequence; a request without an answer is reported as success;
    disabling all networks returns exactly when a scan abort is accepted; the GBK test recognises
    the GBK grammar.  The access point mode follows the result of its start.
  \<^item> Battery.  Estimates stay in range, a steady battery is reported once, the charger table is
    overrun exactly by more than six chargers, and the charger flag of the power manager follows
    the messages.
  \<^item> Input events.  The device list implements a list of descriptors and paths under hot plugging
    (\<open>dev_abs\<close>); every read in the life of a handle is safe and bounded; both libraries implement
    one reference pairing of taps (locale \<open>tap_recogniser\<close>); slides follow the ring of keys; commands
    are found exactly when configured (locale \<open>c_order\<close>); the switch configuration is read back.
    Separate theorems show that a full buffer can close a device and that an unplugged device
    blocks the listener.
  \<^item> Bluetooth.  The array of known devices denotes the most recently connected ones (\<open>history\<close>), and a
    list that was saved is read back.  In every reachable state (\<open>bt_reach\<close>) the invariant \<open>bt_ok\<close> holds and no
    input in the documented form crashes the service; the contract of switching a profile off
    (locale \<open>bt_profile_off\<close>) is proved for all six profiles and gives that a sleep message closes
    everything and that a unique request leaves one profile.  All messages are objects on the topics of
    the service.  A BLE message is reassembled from its packets; a packet of a wrong length overruns
    the buffers; creating the device returns exactly when the controller can be opened.
  \<^item> Modem.  A command is repeated until it is acknowledged, at most six times; the commands of the modem
    that is plugged in are read back from its file; and what the modem answers to the signal queries is
    what the network manager reports in one round of its poll.
  \<^item> Wi-Fi HAL module.  Started through the network manager, the access point has the requested name, key and
    address, and stopping it undoes the start.
  \<^item> LED module.  A full frame reaches the LEDs completely and in the order of the ring; a shorter one does not.
  \<^item> OTA.  What is written to an erased partition is read back over bad blocks; what does not fit is lost without
    an error.  A boot command that was stored is read back, also after a report.  The updater reads from a
    package what the packer put into it, with matching sums; a package whose images all have a wrong sum is
    reported as a successful update.

  \<^bold>\<open>4. What is not modelled.\<close>

  \<^item> The flora connection, thread creation failures inside the C library, logging, and the
    releasing of resources at exit.  Memory allocation succeeds except where the C code tests it.
  \<^item> The scheduler \<open>network_sched_net\<close> is modelled and verified, but the timer that would run it is
    commented out in \<open>main.c\<close>, so \<open>net_run\<close> does not contain it.
  \<^item> In the input libraries: the printing functions (\<open>input_list_devices\<close>, the help texts), the
    release of memory at exit (\<open>daemon_clean\<close>), and the table of key names, which is a parameter.
  \<^item> Other services and libraries: the other LED and the microphone HAL modules, the
    auto-connect tool, the reachability daemon, the bluetooth HAL and the programs in
    \<open>bluetooth/demo\<close>, the zeromq variant of the bluetooth service, the player, the vendored boot loader
    and build system.  Of the OTA library: the USB flasher (\<open>rokid_unpack.c\<close>, \<open>bootx\<close>), the hash function
    (\<open>sha1.c\<close>), the signature check behind \<open>OTA_AUTH\<close>, the disabled second variant of \<open>nand_write\<close>, and the
    storage of device type 0.
\<close>

end
